(* ===== verification/Prelude.thy ===== *)
theory Prelude
  imports Main "HOL-Library.Word" "HOL-Library.Multiset"
begin

text \<open>
  Shared vocabulary of the development: the fixed-width integer types of
  \<^verbatim>\<open>src/src/common/Define.h\<close>, a result type for code that throws or asserts, the
  \<^verbatim>\<open>for\<close>-loop over such code, and the ordered multi-map of the C++ standard library
  (\<^verbatim>\<open>std::multimap\<close> / \<^verbatim>\<open>std::multiset\<close>), on which every timer queue of the
  server is built, and its ordered map (\<^verbatim>\<open>std::map\<close>), in which the managers keep their entries.
\<close>

unbundle bit_operations_syntax

type_synonym uint8 = "8 word"
type_synonym uint16 = "16 word"
type_synonym uint32 = "32 word"
type_synonym uint64 = "64 word"

named_theorems res_simps \<open>rewriting of the result type and its loops\<close>
named_theorems mm_simps \<open>rewriting of ordered multi-maps\<close>
named_theorems om_simps \<open>look-up in ordered maps after an operation\<close>

section \<open>Results of code that may throw\<close>

text \<open>Failed assertions and what the C++ standard leaves undefined.\<close>

datatype fault = SignedOverflow | FloatCast | AssertionFailed | OutOfBounds | NullPointer

definition res_bind :: "'e + 'a \<Rightarrow> ('a \<Rightarrow> 'e + 'b) \<Rightarrow> 'e + 'b" where
  "res_bind m f = (case m of Inl e \<Rightarrow> Inl e | Inr x \<Rightarrow> f x)"

lemma res_bind_simps [simp, res_simps]:
  "res_bind (Inl e) f = Inl e"
  "res_bind (Inr x) f = f x"
  by (simp_all add: res_bind_def)

lemma res_bind_assoc [res_simps]:
  "res_bind (res_bind m f) g = res_bind m (\<lambda>x. res_bind (f x) g)"
  by (cases m) simp_all

lemma res_bind_eq_Inr:
  "res_bind m f = Inr y \<longleftrightarrow> (\<exists>x. m = Inr x \<and> f x = Inr y)"
  by (cases m) simp_all

text \<open>A \<^verbatim>\<open>for\<close> loop whose body may leave by an exception.\<close>

fun forE :: "('i \<Rightarrow> 's \<Rightarrow> 'e + 's) \<Rightarrow> 'i list \<Rightarrow> 's \<Rightarrow> 'e + 's" where
  "forE f [] s = Inr s"
| "forE f (i # is) s = res_bind (f i s) (forE f is)"

lemma forE_append [res_simps]:
  "forE f (xs @ ys) s = res_bind (forE f xs s) (forE f ys)"
proof (induction xs arbitrary: s)
  case (Cons x xs)
  then show ?case by (cases "f x s") simp_all
qed simp

lemma forE_map [res_simps]: "forE (\<lambda>i. f (g i)) xs s = forE f (map g xs) s"
proof (induction xs arbitrary: s)
  case (Cons x xs)
  then show ?case by (cases "f (g x) s") simp_all
qed simp

text \<open>An invariant of the body is one of the loop.\<close>

lemma forE_invariant:
  assumes "forE f xs s = Inr s'" "P s" "\<And>x s s'. x \<in> set xs \<Longrightarrow> P s \<Longrightarrow> f x s = Inr s' \<Longrightarrow> P s'"
  shows "P s'"
  using assms
proof (induction xs arbitrary: s)
  case (Cons x xs)
  then obtain s1 where "f x s = Inr s1" "forE f xs s1 = Inr s'" by (auto simp: res_bind_eq_Inr)
  with Cons show ?case by (metis list.set_intros)
qed simp

section \<open>Look-up by a key\<close>

lemma find_key: "distinct (map f xs) \<Longrightarrow> x \<in> set xs \<Longrightarrow> find (\<lambda>y. f y = f x) xs = Some x"
  by (induction xs) (auto simp: rev_image_eqI)

lemma find_in: "find P xs = Some x \<Longrightarrow> x \<in> set xs \<and> P x"
  by (induction xs) (auto split: if_splits)

section \<open>Addition of \<^verbatim>\<open>size_t\<close> values\<close>

definition sz_add :: "nat \<Rightarrow> nat \<Rightarrow> nat" where
  "sz_add a b = (a + b) mod 2 ^ 64"

lemma sz_add_small [simp]: "a + b < 2 ^ 64 \<Longrightarrow> sz_add a b = a + b"
  by (simp add: sz_add_def)

lemma word_less_inc:
  fixes x :: "'a::len word"
  assumes "x \<noteq> - 1"
  shows "x < x + 1"
proof -
  from assms have "1 + x \<noteq> 0" by (metis add.commute eq_neg_iff_add_eq_0)
  then show ?thesis by (simp add: word_less_nat_alt unatSuc add.commute)
qed

section \<open>Ordered multi-maps\<close>

text \<open>
  A multi-map is the list of its entries in iteration order. Insertion goes behind all
  entries with an equal key, as the standard prescribes for \<^verbatim>\<open>insert\<close> without hint.
\<close>

fun mm_insert :: "'k::linorder \<Rightarrow> 'v \<Rightarrow> ('k \<times> 'v) list \<Rightarrow> ('k \<times> 'v) list" where
  "mm_insert k v [] = [(k, v)]"
| "mm_insert k v ((k', v') # m) =
     (if k < k' then (k, v) # (k', v') # m else (k', v') # mm_insert k v m)"

abbreviation mm_insert_all :: "('k::linorder \<times> 'v) list \<Rightarrow> ('k \<times> 'v) list \<Rightarrow> ('k \<times> 'v) list" where
  "mm_insert_all xs m \<equiv> fold (\<lambda>(k, v). mm_insert k v) xs m"

abbreviation mm_sorted :: "('k::linorder \<times> 'v) list \<Rightarrow> bool" where
  "mm_sorted m \<equiv> sorted (map fst m)"

lemma mset_mm_insert [simp, mm_simps]: "mset (mm_insert k v m) = add_mset (k, v) (mset m)"
  by (induction k v m rule: mm_insert.induct) auto

lemma set_mm_insert [simp, mm_simps]: "set (mm_insert k v m) = insert (k, v) (set m)"
  by (induction k v m rule: mm_insert.induct) auto

lemma mm_sorted_insert [simp, intro]: "mm_sorted m \<Longrightarrow> mm_sorted (mm_insert k v m)"
  by (induction k v m rule: mm_insert.induct) (auto simp: order_less_le_trans less_imp_le)

lemma length_mm_insert [simp, mm_simps]: "length (mm_insert k v m) = Suc (length m)"
  by (induction k v m rule: mm_insert.induct) auto

lemma mm_insert_not_Nil [simp]: "mm_insert k v m \<noteq> []"
  by (cases m) (auto split: if_splits)

lemma mset_mm_insert_all [simp, mm_simps]: "mset (mm_insert_all xs m) = mset xs + mset m"
  by (induction xs arbitrary: m) auto

lemma set_mm_insert_all [simp, mm_simps]: "set (mm_insert_all xs m) = set xs \<union> set m"
  by (induction xs arbitrary: m) auto

lemma mm_sorted_insert_all [simp, intro]: "mm_sorted m \<Longrightarrow> mm_sorted (mm_insert_all xs m)"
  by (induction xs arbitrary: m) (auto split: prod.splits)

lemma mm_sorted_filter [simp, intro]: "mm_sorted m \<Longrightarrow> mm_sorted (filter P m)"
  by (rule sorted_filter)

text \<open>Entries with equal keys keep their order of insertion.\<close>

lemma mm_insert_stable:
  "mm_sorted m \<Longrightarrow> filter (\<lambda>(k', _). k' = k) (mm_insert k v m)
     = filter (\<lambda>(k', _). k' = k) m @ [(k, v)]"
proof (induction m)
  case (Cons a m)
  obtain k' v' where a: "a = (k', v')" by force
  show ?case
  proof (cases "k < k'")
    case True
    with Cons.prems a have "filter (\<lambda>(k', _). k' = k) m = []"
      by (fastforce simp: filter_empty_conv)
    with True a show ?thesis by auto
  qed (use Cons a in auto)
qed simp

lemma mm_insert_filter_other:
  "\<not> P (k, v) \<Longrightarrow> filter P (mm_insert k v m) = filter P m"
  by (induction k v m rule: mm_insert.induct) auto

text \<open>Multi-maps in which every value occurs once.\<close>

lemma distinct_snd_mm_insert:
  "distinct (map snd (mm_insert t a m)) \<longleftrightarrow> distinct (map snd m) \<and> a \<notin> snd ` set m"
  by (induction t a m rule: mm_insert.induct) auto

lemma distinct_snd_filter: "distinct (map snd m) \<Longrightarrow> distinct (map snd (filter P m))"
  by (induction m) auto

lemma distinct_snd_mm_insert_all:
  "distinct (map snd (mm_insert_all xs m)) \<longleftrightarrow>
     distinct (map snd xs) \<and> distinct (map snd m) \<and> snd ` set xs \<inter> snd ` set m = {}"
proof (induction xs arbitrary: m)
  case (Cons x xs)
  then show ?case by (cases x) (simp add: distinct_snd_mm_insert, blast)
qed simp

section \<open>Ordered maps\<close>

text \<open>
  A \<^verbatim>\<open>std::map\<close> is the list of its entries in key order; look-up is \<^const>\<open>map_of\<close>. Assignment through
  \<^verbatim>\<open>operator[]\<close> replaces or inserts, a write through an iterator or reference changes an entry in place.
\<close>

fun om_set :: "'k::linorder \<Rightarrow> 'v \<Rightarrow> ('k \<times> 'v) list \<Rightarrow> ('k \<times> 'v) list" where
  "om_set k v [] = [(k, v)]"
| "om_set k v ((k', v') # m) =
     (if k < k' then (k, v) # (k', v') # m else if k = k' then (k, v) # m else (k', v') # om_set k v m)"

definition om_erase :: "'k \<Rightarrow> ('k \<times> 'v) list \<Rightarrow> ('k \<times> 'v) list" where
  "om_erase k m = filter (\<lambda>(k', _). k' \<noteq> k) m"

definition om_adjust :: "'k \<Rightarrow> ('v \<Rightarrow> 'v) \<Rightarrow> ('k \<times> 'v) list \<Rightarrow> ('k \<times> 'v) list" where
  "om_adjust k f m = map (\<lambda>(k', v). (k', if k' = k then f v else v)) m"

abbreviation om_wf :: "('k::linorder \<times> 'v) list \<Rightarrow> bool" where
  "om_wf m \<equiv> sorted_wrt (<) (map fst m)"

lemma om_wf_distinct: "om_wf m \<Longrightarrow> distinct (map fst m)"
  using strict_sorted_iff by blast

lemma map_of_om_set [simp, om_simps]: "om_wf m \<Longrightarrow> map_of (om_set k v m) = (map_of m)(k \<mapsto> v)"
  by (induction k v m rule: om_set.induct) (auto simp: fun_eq_iff)

lemma fst_om_set [simp, om_simps]: "fst ` set (om_set k v m) = insert k (fst ` set m)"
  by (induction k v m rule: om_set.induct) auto

lemma om_wf_set [simp, intro]: "om_wf m \<Longrightarrow> om_wf (om_set k v m)"
proof (induction k v m rule: om_set.induct)
  case (2 k v k' v' m)
  then have "\<forall>x \<in> fst ` set m. k' < x" "om_wf m" by auto
  moreover from this have "k' \<noteq> k \<Longrightarrow> \<not> k < k' \<Longrightarrow> \<forall>x \<in> fst ` set (om_set k v m). k' < x" by auto
  ultimately show ?case using 2 by auto
qed simp

lemma om_set_not_Nil [simp]: "om_set k v m \<noteq> []"
  by (cases "(k, v, m)" rule: om_set.cases) auto

lemma map_of_om_erase [simp, om_simps]: "map_of (om_erase k m) = (map_of m)(k := None)"
  by (induction m) (auto simp: om_erase_def fun_eq_iff)

lemma fst_om_erase [simp, om_simps]: "fst ` set (om_erase k m) = fst ` set m - {k}"
  by (auto simp: om_erase_def image_iff)

lemma om_wf_erase [simp, intro]: "om_wf m \<Longrightarrow> om_wf (om_erase k m)"
  by (induction m) (auto simp: om_erase_def)

lemma map_of_om_adjust [simp, om_simps]: "map_of (om_adjust k f m) = (map_of m)(k := map_option f (map_of m k))"
  by (induction m) (auto simp: om_adjust_def fun_eq_iff)

lemma map_fst_om_adjust [simp, om_simps]: "map fst (om_adjust k f m) = map fst m"
  by (auto simp: om_adjust_def)

lemma fst_om_adjust [simp, om_simps]: "fst ` set (om_adjust k f m) = fst ` set m"
  by (metis list.set_map map_fst_om_adjust)

lemma om_adjust_Nil_iff [simp]: "om_adjust k f m = [] \<longleftrightarrow> m = []"
  by (simp add: om_adjust_def)

lemma map_of_in_fst: "map_of m k \<noteq> None \<longleftrightarrow> k \<in> fst ` set m"
  by (simp add: map_of_eq_None_iff)

section \<open>The first matching element\<close>

text \<open>A write through the iterator that a linear search returned.\<close>

fun update_first :: "('a \<Rightarrow> bool) \<Rightarrow> ('a \<Rightarrow> 'a) \<Rightarrow> 'a list \<Rightarrow> 'a list" where
  "update_first P f [] = []"
| "update_first P f (x # xs) = (if P x then f x # xs else x # update_first P f xs)"

fun erase_first :: "('a \<Rightarrow> bool) \<Rightarrow> 'a list \<Rightarrow> 'a list" where
  "erase_first P [] = []"
| "erase_first P (x # xs) = (if P x then xs else x # erase_first P xs)"

lemma length_update_first [simp]: "length (update_first P f xs) = length xs"
  by (induction xs) auto

lemma map_update_first [simp]: "(\<And>x. P x \<Longrightarrow> h (f x) = h x) \<Longrightarrow> map h (update_first P f xs) = map h xs"
  by (induction xs) auto

lemma update_first_eq_map: "distinct (map k xs) \<Longrightarrow> update_first (\<lambda>x. k x = a) f xs = map (\<lambda>x. if k x = a then f x else x) xs"
  by (induction xs) (auto intro!: map_idI [symmetric] rev_image_eqI split: if_splits)

lemma erase_first_eq_filter: "distinct (map k xs) \<Longrightarrow> erase_first (\<lambda>x. k x = a) xs = filter (\<lambda>x. k x \<noteq> a) xs"
  by (induction xs) (auto intro!: filter_True [symmetric] rev_image_eqI)

lemma set_erase_first_subset: "set (erase_first P xs) \<subseteq> set xs"
  by (induction xs) auto

section \<open>The size of a party and the two factions\<close>

text \<open>Shared by several components, from \<^verbatim>\<open>src/src/server/game/Groups/Group.h\<close> and
  \<^verbatim>\<open>src/src/server/game/Miscellaneous/SharedDefines.h\<close>.\<close>

definition MAX_GROUP_SIZE :: nat where "MAX_GROUP_SIZE = 5"

definition ALLIANCE :: uint32 where "ALLIANCE = 469"
definition HORDE :: uint32 where "HORDE = 67"

end
