(* ===== verification/Byte_Buffer.thy ===== *)
theory Byte_Buffer
  imports Prelude
begin

text \<open>
  The packet buffer of \<^verbatim>\<open>src/src/server/shared/Packets/ByteBuffer.{h,cpp}\<close>: a byte
  vector with a read cursor, a write cursor and a bit cursor. Exceptions and failed
  \<^verbatim>\<open>ASSERT\<close>s are values of \<^verbatim>\<open>bb_error\<close>; inserting behind the end of the vector
  or storing outside of it, which C++ leaves undefined, is the value \<^verbatim>\<open>UndefinedBehaviour\<close>.
  Positions are \<^verbatim>\<open>size_t\<close> values: naturals, with the wrap at $2^{64}$ written out in
  the bound checks. A cursor moved after a passed check stays within the vector's size, which
  is far below the wrap.
\<close>

unbundle bit_operations_syntax

section \<open>State\<close>

record bytebuffer =
  bb_rpos :: nat
  bb_wpos :: nat
  bb_bitpos :: nat
  bb_curbitval :: uint8
  bb_storage :: "uint8 list"

datatype bb_error =
    ByteBufferPositionException nat nat nat
  | ByteBufferException
  | AssertionFailure
  | UndefinedBehaviour

definition InitialBitPos :: nat where
  "InitialBitPos = 8"

definition ByteBuffer :: bytebuffer where
  "ByteBuffer = \<lparr>bb_rpos = 0, bb_wpos = 0, bb_bitpos = InitialBitPos, bb_curbitval = 0,
     bb_storage = []\<rparr>"

text \<open>The buffer a received message is wrapped in.\<close>

definition ByteBuffer_of_message :: "uint8 list \<Rightarrow> bytebuffer" where
  "ByteBuffer_of_message bytes = \<lparr>bb_rpos = 0, bb_wpos = 0, bb_bitpos = InitialBitPos,
     bb_curbitval = 0, bb_storage = bytes\<rparr>"

definition bb_clear :: "bytebuffer \<Rightarrow> bytebuffer" where
  "bb_clear b = b\<lparr>bb_rpos := 0, bb_wpos := 0, bb_bitpos := InitialBitPos, bb_curbitval := 0,
     bb_storage := []\<rparr>"

abbreviation bb_size :: "bytebuffer \<Rightarrow> nat" where
  "bb_size b \<equiv> length (bb_storage b)"

section \<open>Writing bytes and bits\<close>

text \<open>
  \<^verbatim>\<open>append(src, cnt)\<close> without its call of \<^verbatim>\<open>FlushBits\<close>: what it does when no bits
  are pending, which is how \<^verbatim>\<open>FlushBits\<close> and \<^verbatim>\<open>WriteBit\<close> call it.
\<close>

definition append_flushed :: "uint8 list \<Rightarrow> bytebuffer \<Rightarrow> bb_error + bytebuffer" where
  "append_flushed src b =
     (if src = [] \<or> \<not> bb_size b < 10000000 then Inl AssertionFailure
      else if bb_size b < bb_wpos b then Inl UndefinedBehaviour
      else Inr (b\<lparr>bb_storage := take (bb_wpos b) (bb_storage b) @ src @ drop (bb_wpos b) (bb_storage b),
                  bb_wpos := bb_wpos b + length src\<rparr>))"

definition FlushBits :: "bytebuffer \<Rightarrow> bb_error + bytebuffer" where
  "FlushBits b =
     (if bb_bitpos b = 8 then Inr b
      else res_bind (append_flushed [bb_curbitval b] (b\<lparr>bb_bitpos := 8\<rparr>))
             (\<lambda>b. Inr (b\<lparr>bb_curbitval := 0\<rparr>)))"

definition append_bytes :: "uint8 list \<Rightarrow> bytebuffer \<Rightarrow> bb_error + bytebuffer" where
  "append_bytes src b =
     (if src = [] \<or> \<not> bb_size b < 10000000 then Inl AssertionFailure
      else res_bind (FlushBits b) (\<lambda>b.
        if bb_size b < bb_wpos b then Inl UndefinedBehaviour
        else Inr (b\<lparr>bb_storage := take (bb_wpos b) (bb_storage b) @ src @ drop (bb_wpos b) (bb_storage b),
                    bb_wpos := bb_wpos b + length src\<rparr>)))"

text \<open>Little-endian image of a fundamental integer value.\<close>

definition le_bytes :: "'a::len word \<Rightarrow> uint8 list" where
  "le_bytes v = map (\<lambda>i. ucast (drop_bit (8 * i) v)) [0..<LENGTH('a) div 8]"

fun of_le_bytes :: "uint8 list \<Rightarrow> 'a::len word" where
  "of_le_bytes [] = 0"
| "of_le_bytes (x # xs) = ucast x OR push_bit 8 (of_le_bytes xs)"

definition append_word :: "'a::len word \<Rightarrow> bytebuffer \<Rightarrow> bb_error + bytebuffer" where
  "append_word v = append_bytes (le_bytes v)"

definition ResetBitPos :: "bytebuffer \<Rightarrow> bytebuffer" where
  "ResetBitPos b = (if 7 < bb_bitpos b then b else b\<lparr>bb_bitpos := 8, bb_curbitval := 0\<rparr>)"

definition WriteBit :: "bool \<Rightarrow> bytebuffer \<Rightarrow> bb_error + bytebuffer" where
  "WriteBit x b =
     (let p = (bb_bitpos b + (2 ^ 64 - 1)) mod 2 ^ 64;
          c = (if x then bb_curbitval b OR push_bit p 1 else bb_curbitval b)
      in if p = 0
         then res_bind (append_flushed [c] (b\<lparr>bb_bitpos := 8, bb_curbitval := c\<rparr>))
                (\<lambda>b. Inr (b\<lparr>bb_curbitval := 0\<rparr>))
         else Inr (b\<lparr>bb_bitpos := p, bb_curbitval := c\<rparr>))"

text \<open>\<^verbatim>\<open>for (int32 i = bits - 1; i >= 0; --i) WriteBit((value >> i) & 1)\<close>\<close>

definition WriteBits :: "uint64 \<Rightarrow> nat \<Rightarrow> bytebuffer \<Rightarrow> bb_error + bytebuffer" where
  "WriteBits v n = forE (\<lambda>i. WriteBit (drop_bit i v AND 1 \<noteq> 0)) (rev [0..<n])"

definition WriteByteSeq :: "uint8 \<Rightarrow> bytebuffer \<Rightarrow> bb_error + bytebuffer" where
  "WriteByteSeq x b = (if x \<noteq> 0 then append_word (x XOR 1) b else Inr b)"

definition put_bytes :: "nat \<Rightarrow> uint8 list \<Rightarrow> bytebuffer \<Rightarrow> bb_error + bytebuffer" where
  "put_bytes pos src b =
     (if \<not> sz_add pos (length src) \<le> bb_size b \<or> src = [] then Inl AssertionFailure
      else if bb_size b < pos + length src then Inl UndefinedBehaviour
      else Inr (b\<lparr>bb_storage := take pos (bb_storage b) @ src @ drop (pos + length src) (bb_storage b)\<rparr>))"

definition put_word :: "nat \<Rightarrow> 'a::len word \<Rightarrow> bytebuffer \<Rightarrow> bb_error + bytebuffer" where
  "put_word pos v = put_bytes pos (le_bytes v)"

text \<open>Setting one bit of the stored bytes, the body of the loop of \<^verbatim>\<open>PutBits\<close>.\<close>

definition put_bit_at :: "nat \<Rightarrow> bool \<Rightarrow> uint8 list \<Rightarrow> uint8 list" where
  "put_bit_at p x xs =
     xs[p div 8 := (if x then xs ! (p div 8) OR push_bit (7 - p mod 8) 1
                    else xs ! (p div 8) AND NOT (push_bit (7 - p mod 8) 1))]"

definition PutBits :: "nat \<Rightarrow> uint64 \<Rightarrow> nat \<Rightarrow> bytebuffer \<Rightarrow> bb_error + bytebuffer" where
  "PutBits pos v n b =
     (if \<not> sz_add pos n \<le> bb_size b * 8 \<or> n = 0 then Inl AssertionFailure
      else if bb_size b * 8 < pos + n then Inl UndefinedBehaviour
      else Inr (b\<lparr>bb_storage :=
             fold (\<lambda>i. put_bit_at (pos + i) (drop_bit (n - i - 1) v AND 1 \<noteq> 0)) [0..<n] (bb_storage b)\<rparr>))"

text \<open>Zero-terminated and counted strings.\<close>

definition append_cstring :: "uint8 list \<Rightarrow> bytebuffer \<Rightarrow> bb_error + bytebuffer" where
  "append_cstring s b =
     res_bind (if s \<noteq> [] then append_bytes s b else Inr b) (append_word (0 :: uint8))"

definition WriteString :: "uint8 list \<Rightarrow> bytebuffer \<Rightarrow> bb_error + bytebuffer" where
  "WriteString s b = (if s \<noteq> [] then append_bytes s b else Inr b)"

definition append_buffer :: "bytebuffer \<Rightarrow> bytebuffer \<Rightarrow> bb_error + bytebuffer" where
  "append_buffer other b = (if bb_storage other \<noteq> [] then append_bytes (bb_storage other) b else Inr b)"

definition bb_resize :: "nat \<Rightarrow> bytebuffer \<Rightarrow> bytebuffer" where
  "bb_resize n b =
     (let st = take n (bb_storage b) @ replicate (n - bb_size b) 0
      in b\<lparr>bb_storage := st, bb_rpos := 0, bb_wpos := length st\<rparr>)"

section \<open>Reading bytes and bits\<close>

definition read_at :: "nat \<Rightarrow> nat \<Rightarrow> bytebuffer \<Rightarrow> bb_error + uint8 list" where
  "read_at n pos b =
     (if sz_add pos n > bb_size b then Inl (ByteBufferPositionException pos n (bb_size b))
      else if pos + n > bb_size b then Inl UndefinedBehaviour
      else Inr (take n (drop pos (bb_storage b))))"

text \<open>\<^verbatim>\<open>T read()\<close> for an integer type \<^verbatim>\<open>T\<close> of the width of the result.\<close>

definition read_word :: "bytebuffer \<Rightarrow> bb_error + 'a::len word \<times> bytebuffer" where
  "read_word b =
     (let b = ResetBitPos b; n = LENGTH('a) div 8
      in res_bind (read_at n (bb_rpos b) b)
           (\<lambda>bs. Inr (of_le_bytes bs, b\<lparr>bb_rpos := bb_rpos b + n\<rparr>)))"

definition read_bytes :: "nat \<Rightarrow> bytebuffer \<Rightarrow> bb_error + uint8 list \<times> bytebuffer" where
  "read_bytes n b =
     (if sz_add (bb_rpos b) n > bb_size b then Inl (ByteBufferPositionException (bb_rpos b) n (bb_size b))
      else let b = ResetBitPos b
           in if bb_rpos b + n > bb_size b then Inl UndefinedBehaviour
              else Inr (take n (drop (bb_rpos b) (bb_storage b)), b\<lparr>bb_rpos := bb_rpos b + n\<rparr>))"

definition read_skip :: "nat \<Rightarrow> bytebuffer \<Rightarrow> bb_error + bytebuffer" where
  "read_skip n b =
     (if sz_add (bb_rpos b) n > bb_size b then Inl (ByteBufferPositionException (bb_rpos b) n (bb_size b))
      else Inr ((ResetBitPos b)\<lparr>bb_rpos := sz_add (bb_rpos b) n\<rparr>))"

definition ReadBit :: "bytebuffer \<Rightarrow> bb_error + bool \<times> bytebuffer" where
  "ReadBit b =
     (let b = b\<lparr>bb_bitpos := sz_add (bb_bitpos b) 1\<rparr>
      in res_bind
           (if 7 < bb_bitpos b
            then res_bind (read_word b) (\<lambda>(v, b). Inr (b\<lparr>bb_curbitval := v, bb_bitpos := 0\<rparr>))
            else Inr b)
           (\<lambda>b. Inr (drop_bit (7 - bb_bitpos b) (bb_curbitval b) AND 1 \<noteq> 0, b)))"

definition ReadBits :: "nat \<Rightarrow> bytebuffer \<Rightarrow> bb_error + uint32 \<times> bytebuffer" where
  "ReadBits n b =
     forE (\<lambda>i (v, b). res_bind (ReadBit b) (\<lambda>(x, b). Inr (if x then v OR push_bit i 1 else v, b)))
       (rev [0..<n]) (0, b)"

definition ReadByteSeq :: "uint8 \<Rightarrow> bytebuffer \<Rightarrow> bb_error + uint8 \<times> bytebuffer" where
  "ReadByteSeq x b =
     (if x \<noteq> 0 then res_bind (read_word b) (\<lambda>(v, b). Inr (x XOR v, b)) else Inr (x, b))"

function read_cstring :: "bytebuffer \<Rightarrow> bb_error + uint8 list \<times> bytebuffer" where
  "read_cstring b =
     (if bb_rpos b < bb_size b
      then (case read_word b of
              Inl e \<Rightarrow> Inl e
            | Inr (c, b') \<Rightarrow>
                if c = 0 then Inr ([], b')
                else res_bind (read_cstring b') (\<lambda>(s, b). Inr (c # s, b)))
      else Inr ([], b))"
  by pat_completeness auto
termination
proof (relation "measure (\<lambda>b. bb_size b - bb_rpos b)", goal_cases)
  case (2 b p c b')
  then show ?case
    by (auto simp: read_word_def read_at_def ResetBitPos_def Let_def res_bind_eq_Inr split: if_splits)
qed simp

definition ReadString :: "uint32 \<Rightarrow> bytebuffer \<Rightarrow> bb_error + uint8 list \<times> bytebuffer" where
  "ReadString len b =
     (if sz_add (bb_rpos b) (unat len) > bb_size b
      then Inl (ByteBufferPositionException (bb_rpos b) (unat len) (bb_size b))
      else let b = ResetBitPos b
           in if len = 0 then Inr ([], b)
              else if bb_rpos b + unat len > bb_size b then Inl UndefinedBehaviour
              else Inr (take (unat len) (drop (bb_rpos b) (bb_storage b)),
                        b\<lparr>bb_rpos := bb_rpos b + unat len\<rparr>))"

section \<open>Packed 64-bit integers\<close>

text \<open>
  The loop of \<^verbatim>\<open>PackUInt64\<close>: the mask of the non-zero bytes and those bytes, lowest
  first. The source fills an array of eight bytes and returns how many it used.
\<close>

lemma unat_drop_bit_less: "v \<noteq> 0 \<Longrightarrow> unat (drop_bit 8 (v :: uint64)) < unat v"
  using unat_gt_0 [of v] by (simp add: drop_bit_eq_div unat_div)

function PackUInt64_loop :: "nat \<Rightarrow> uint64 \<Rightarrow> uint8 \<Rightarrow> uint8 list \<Rightarrow> uint8 \<times> uint8 list" where
  "PackUInt64_loop i v msk res =
     (if v = 0 then (msk, res)
      else if v AND 0xFF \<noteq> 0
      then PackUInt64_loop (Suc i) (drop_bit 8 v) (msk OR push_bit i 1) (res @ [ucast (v AND 0xFF)])
      else PackUInt64_loop (Suc i) (drop_bit 8 v) msk res)"
  by pat_completeness auto
termination
proof (relation "measure (\<lambda>(i, v, msk, res). unat v)", goal_cases)
  case (2 i v msk res)
  then show ?case by (simp add: unat_drop_bit_less)
next
  case (3 i v msk res)
  then show ?case by (simp add: unat_drop_bit_less)
qed simp

declare PackUInt64_loop.simps [simp del]
declare read_cstring.simps [simp del]

definition PackUInt64 :: "uint64 \<Rightarrow> uint8 \<times> uint8 list" where
  "PackUInt64 v = PackUInt64_loop 0 v 0 []"

definition AppendPackedUInt64 :: "uint64 \<Rightarrow> bytebuffer \<Rightarrow> bb_error + bytebuffer" where
  "AppendPackedUInt64 v b =
     (let pos = bb_wpos b
      in res_bind (append_word (0 :: uint8) b) (\<lambda>b.
         let (msk, packed) = PackUInt64 v
         in res_bind (if packed \<noteq> [] then append_bytes packed b else Inr b)
              (put_word pos msk)))"

text \<open>\<^verbatim>\<open>ReadPackedUInt64(mask, value)\<close> adds the bytes it reads to what \<^verbatim>\<open>value\<close> holds.\<close>

definition ReadPackedUInt64_mask :: "uint8 \<Rightarrow> uint64 \<Rightarrow> bytebuffer \<Rightarrow> bb_error + uint64 \<times> bytebuffer" where
  "ReadPackedUInt64_mask msk v b =
     forE (\<lambda>i (v, b).
        if msk AND push_bit i 1 \<noteq> 0
        then res_bind (read_word b) (\<lambda>(x :: uint8, b). Inr (v OR push_bit (i * 8) (ucast x), b))
        else Inr (v, b)) [0..<8] (v, b)"

definition ReadPackedUInt64 :: "bytebuffer \<Rightarrow> bb_error + uint64 \<times> bytebuffer" where
  "ReadPackedUInt64 b = res_bind (read_word b) (\<lambda>(msk, b). ReadPackedUInt64_mask msk 0 b)"

section \<open>Packed dates\<close>

text \<open>The fields of \<^verbatim>\<open>struct tm\<close> the buffer uses.\<close>

record tm =
  tm_min :: uint32
  tm_hour :: uint32
  tm_mday :: uint32
  tm_mon :: uint32
  tm_year :: uint32
  tm_wday :: uint32

definition pack_tm :: "tm \<Rightarrow> uint32" where
  "pack_tm lt = push_bit 24 (tm_year lt - 100) OR push_bit 20 (tm_mon lt) OR
     push_bit 14 (tm_mday lt - 1) OR push_bit 11 (tm_wday lt) OR push_bit 6 (tm_hour lt) OR tm_min lt"

definition unpack_tm :: "uint32 \<Rightarrow> tm" where
  "unpack_tm d = \<lparr>tm_min = d AND 0x3F, tm_hour = drop_bit 6 d AND 0x1F,
     tm_mday = (drop_bit 14 d AND 0x3F) + 1, tm_mon = drop_bit 20 d AND 0xF,
     tm_year = (drop_bit 24 d AND 0x1F) + 100, tm_wday = 0\<rparr>"

text \<open>The C library's calendar conversions are parameters.\<close>

definition AppendPackedTime :: "(int \<Rightarrow> tm) \<Rightarrow> int \<Rightarrow> bytebuffer \<Rightarrow> bb_error + bytebuffer" where
  "AppendPackedTime localtime_r t = append_word (pack_tm (localtime_r t))"

definition ReadPackedTime :: "(tm \<Rightarrow> int) \<Rightarrow> bytebuffer \<Rightarrow> bb_error + uint32 \<times> bytebuffer" where
  "ReadPackedTime mktime b =
     res_bind (read_word b) (\<lambda>(d, b). Inr (word_of_int (mktime (unpack_tm d)), b))"


section \<open>Little-endian images\<close>

lemma length_le_bytes [simp]: "length (le_bytes (v :: 'a::len word)) = LENGTH('a) div 8"
  by (simp add: le_bytes_def)

lemma le_bytes_eq_Nil [simp]: "le_bytes (v :: 'a::len word) = [] \<longleftrightarrow> LENGTH('a) < 8"
  by (simp add: le_bytes_def div_eq_0_iff)

lemma le_bytes_uint8 [simp]: "le_bytes (v :: uint8) = [v]"
  by (simp add: le_bytes_def)

lemma of_le_bytes_single [simp]: "(of_le_bytes [v] :: uint8) = v"
  by simp

lemma bit_of_le_bytes:
  "bit (of_le_bytes xs :: 'a::len word) n \<longleftrightarrow>
     n < LENGTH('a) \<and> n div 8 < length xs \<and> bit (xs ! (n div 8)) (n mod 8)"
proof (induction xs arbitrary: n)
  case (Cons x xs)
  show ?case
  proof (cases "n < 8")
    case True
    then show ?thesis by (auto simp: bit_simps)
  next
    case False
    then have "n div 8 = Suc ((n - 8) div 8)" "n mod 8 = (n - 8) mod 8"
      by (simp_all add: le_div_geq le_mod_geq)
    moreover have "\<not> bit x n"
      using False bit_imp_le_length by fastforce
    ultimately show ?thesis
      using False by (auto simp: bit_simps Cons.IH)
  qed
qed simp

lemma of_le_bytes_le_bytes [simp]:
  assumes "8 dvd LENGTH('a::len)"
  shows "of_le_bytes (le_bytes v) = (v :: 'a word)"
proof (rule bit_word_eqI)
  fix n assume n: "n < LENGTH('a)"
  from assms obtain k where "LENGTH('a) = k * 8"
    by (metis dvdE mult.commute)
  with n have "n div 8 < LENGTH('a) div 8"
    by (simp add: less_mult_imp_div_less)
  then show "bit (of_le_bytes (le_bytes v) :: 'a word) n = bit v n"
    using n by (simp add: bit_of_le_bytes le_bytes_def bit_simps)
qed

section \<open>The bit stream a buffer stands for\<close>

text \<open>
  What a client of the bit operations relies on: writing appends one bit to the sequence of
  written bits, reading takes the first of the remaining ones and fails when there is none.
\<close>

locale bit_channel =
  fixes wr :: "bool \<Rightarrow> 'w \<Rightarrow> 'e + 'w"
    and written :: "'w \<Rightarrow> bool list"
    and room :: "nat \<Rightarrow> 'w \<Rightarrow> bool"
    and rd :: "'r \<Rightarrow> 'e + bool \<times> 'r"
    and remaining :: "'r \<Rightarrow> bool list"
    and readable :: "'r \<Rightarrow> bool"
  assumes wr_step: "room (Suc n) w \<Longrightarrow>
      \<exists>w'. wr x w = Inr w' \<and> written w' = written w @ [x] \<and> room n w'"
    and rd_step: "readable r \<Longrightarrow> remaining r = x # xs \<Longrightarrow>
      \<exists>r'. rd r = Inr (x, r') \<and> remaining r' = xs \<and> readable r'"
    and rd_end: "readable r \<Longrightarrow> remaining r = [] \<Longrightarrow> \<exists>e. rd r = Inl e"
begin

lemma write_all:
  "room (length xs + n) w \<Longrightarrow>
     \<exists>w'. forE wr xs w = Inr w' \<and> written w' = written w @ xs \<and> room n w'"
proof (induction xs arbitrary: w)
  case (Cons x xs)
  then obtain w1 where w1: "wr x w = Inr w1" "written w1 = written w @ [x]" "room (length xs + n) w1"
    using wr_step [of "length xs + n" w x] by auto
  from Cons.IH [OF w1(3)] w1 show ?case by auto
qed simp

lemma read_all:
  "readable r \<Longrightarrow> remaining r = xs @ ys \<Longrightarrow> length xs = length is \<Longrightarrow>
     \<exists>r'. forE (\<lambda>i (v, r). res_bind (rd r) (\<lambda>(x, r). Inr (f i x v, r))) is (v, r)
            = Inr (fold (\<lambda>(i, x). f i x) (zip is xs) v, r')
        \<and> remaining r' = ys \<and> readable r'"
proof (induction "is" arbitrary: xs r v)
  case (Cons i "is")
  then obtain x xs' where xs: "xs = x # xs'" by (cases xs) auto
  with Cons.prems obtain r1 where r1: "rd r = Inr (x, r1)" "remaining r1 = xs' @ ys" "readable r1"
    using rd_step [of r x "xs' @ ys"] by auto
  from Cons.IH [OF r1(3,2), of "f i x v"] Cons.prems xs r1 show ?case by auto
qed auto

lemma read_past_end:
  "readable r \<Longrightarrow> length (remaining r) < length is \<Longrightarrow>
     \<exists>e. forE (\<lambda>i (v, r). res_bind (rd r) (\<lambda>(x, r). Inr (f i x v, r))) is (v, r) = Inl e"
proof (induction "is" arbitrary: r v)
  case (Cons i "is")
  show ?case
  proof (cases "remaining r")
    case Nil
    with rd_end Cons.prems show ?thesis by fastforce
  next
    case (Cons x xs)
    with rd_step Cons.prems obtain r1 where r1: "rd r = Inr (x, r1)" "remaining r1 = xs" "readable r1"
      by blast
    from Cons.IH [OF r1(3), of "f i x v"] Cons.prems r1 Cons show ?thesis by auto
  qed
qed simp

end

definition byte_bits :: "uint8 \<Rightarrow> bool list" where
  "byte_bits w = map (\<lambda>i. bit w (7 - i)) [0..<8]"

definition bits_of_bytes :: "uint8 list \<Rightarrow> bool list" where
  "bits_of_bytes xs = concat (map byte_bits xs)"

definition written_bits :: "bytebuffer \<Rightarrow> bool list" where
  "written_bits b = bits_of_bytes (bb_storage b) @
     map (\<lambda>i. bit (bb_curbitval b) (7 - i)) [0..<8 - bb_bitpos b]"

definition writable :: "nat \<Rightarrow> bytebuffer \<Rightarrow> bool" where
  "writable n b \<longleftrightarrow> bb_wpos b = bb_size b \<and> 1 \<le> bb_bitpos b \<and> bb_bitpos b \<le> 8 \<and>
     (\<forall>k < bb_bitpos b. \<not> bit (bb_curbitval b) k) \<and>
     8 * bb_size b + (8 - bb_bitpos b) + n \<le> 80000000"

definition remaining_bits :: "bytebuffer \<Rightarrow> bool list" where
  "remaining_bits b = (if 7 < bb_bitpos b then [] else drop (Suc (bb_bitpos b)) (byte_bits (bb_curbitval b))) @
     bits_of_bytes (drop (bb_rpos b) (bb_storage b))"

definition readable_buffer :: "bytebuffer \<Rightarrow> bool" where
  "readable_buffer b \<longleftrightarrow> bb_rpos b \<le> bb_size b \<and> bb_size b < 2 ^ 63 \<and> bb_bitpos b < 2 ^ 63"

lemma bits_of_bytes_simps [simp]:
  "bits_of_bytes [] = []"
  "bits_of_bytes (x # xs) = byte_bits x @ bits_of_bytes xs"
  "bits_of_bytes (xs @ ys) = bits_of_bytes xs @ bits_of_bytes ys"
  by (simp_all add: bits_of_bytes_def)

lemma length_byte_bits [simp]: "length (byte_bits w) = 8"
  by (simp add: byte_bits_def)

lemma length_bits_of_bytes [simp]: "length (bits_of_bytes xs) = 8 * length xs"
  by (induction xs) auto

lemma byte_bits_nth [simp]: "i < 8 \<Longrightarrow> byte_bits w ! i = bit w (7 - i)"
  by (simp add: byte_bits_def)

lemma low_bit_test: "(drop_bit i (v :: 'a::len word) AND 1 \<noteq> 0) \<longleftrightarrow> bit v i"
  by (simp add: and_one_eq mod_2_eq_odd bit_iff_odd_drop_bit)


lemma dec_bitpos: "1 \<le> p \<Longrightarrow> p \<le> 8 \<Longrightarrow> (p + (2 ^ 64 - 1)) mod 2 ^ 64 = p - (1 :: nat)"
  by (subst mod_if) auto

lemma bit_set_bit:
  fixes c :: uint8
  shows "bit (if x then c OR push_bit p 1 else c) k \<longleftrightarrow> bit c k \<or> (x \<and> k = p \<and> p < 8)"
  by (auto simp: bit_simps)

lemma pending_bits_snoc:
  fixes c :: uint8
  assumes "1 \<le> p" "p \<le> 8" "\<forall>k < p. \<not> bit c k"
  shows "map (\<lambda>i. bit (if x then c OR push_bit (p - 1) 1 else c) (7 - i)) [0..<Suc (8 - p)]
     = map (\<lambda>i. bit c (7 - i)) [0..<8 - p] @ [x]"
  using assms by (auto simp: bit_set_bit)

lemma WriteBit_last:
  "bb_bitpos b = 1 \<Longrightarrow> WriteBit x b =
     (let c = (if x then bb_curbitval b OR push_bit (bb_bitpos b - 1) 1 else bb_curbitval b)
      in res_bind (append_flushed [c] (b\<lparr>bb_bitpos := 8, bb_curbitval := c\<rparr>))
           (\<lambda>b. Inr (b\<lparr>bb_curbitval := 0\<rparr>)))"
  by (simp add: WriteBit_def Let_def)

lemma WriteBit_inner:
  assumes "1 < bb_bitpos b" "bb_bitpos b \<le> 8"
  shows "WriteBit x b = Inr (b\<lparr>bb_bitpos := bb_bitpos b - 1, bb_curbitval :=
           (if x then bb_curbitval b OR push_bit (bb_bitpos b - 1) 1 else bb_curbitval b)\<rparr>)"
proof -
  have "(bb_bitpos b + (2 ^ 64 - 1)) mod 2 ^ 64 = bb_bitpos b - 1"
    using assms by (intro dec_bitpos) auto
  with assms show ?thesis by (simp only: WriteBit_def Let_def) simp
qed

lemma WriteBit_step:
  assumes "writable (Suc n) b"
  shows "\<exists>b'. WriteBit x b = Inr b' \<and> written_bits b' = written_bits b @ [x] \<and> writable n b'"
proof -
  let ?p = "bb_bitpos b" and ?c = "bb_curbitval b"
  let ?c' = "if x then ?c OR push_bit (?p - 1) 1 else ?c"
  from assms have b: "bb_wpos b = bb_size b" "1 \<le> ?p" "?p \<le> 8" "\<forall>k < ?p. \<not> bit ?c k"
    "8 * bb_size b + (8 - ?p) + Suc n \<le> 80000000"
    by (auto simp: writable_def)
  note snoc = pending_bits_snoc [OF b(2-4), of x]
  show ?thesis
  proof (cases "?p = 1")
    case True
    with b snoc have "byte_bits ?c' = map (\<lambda>i. bit ?c (7 - i)) [0..<7] @ [x]"
      unfolding byte_bits_def by simp
    with True b show ?thesis
      by (auto simp: WriteBit_last append_flushed_def written_bits_def writable_def Let_def)
  next
    case False
    with b have p: "1 < ?p" "8 - (?p - 1) = Suc (8 - ?p)" by auto
    then have "WriteBit x b = Inr (b\<lparr>bb_bitpos := ?p - 1, bb_curbitval := ?c'\<rparr>)"
      using b(3) by (intro WriteBit_inner)
    moreover have "written_bits (b\<lparr>bb_bitpos := ?p - 1, bb_curbitval := ?c'\<rparr>) = written_bits b @ [x]"
      using p snoc by (simp add: written_bits_def)
    moreover have "writable n (b\<lparr>bb_bitpos := ?p - 1, bb_curbitval := ?c'\<rparr>)"
      using b p by (auto simp: writable_def bit_set_bit)
    ultimately show ?thesis by blast
  qed
qed

lemma ReadBit_step:
  assumes "readable_buffer b" "remaining_bits b = x # xs"
  shows "\<exists>b'. ReadBit b = Inr (x, b') \<and> remaining_bits b' = xs \<and> readable_buffer b'"
proof (cases "bb_bitpos b < 7")
  case True
  then have "drop (Suc (bb_bitpos b)) (byte_bits (bb_curbitval b))
     = bit (bb_curbitval b) (7 - Suc (bb_bitpos b)) # drop (Suc (Suc (bb_bitpos b))) (byte_bits (bb_curbitval b))"
    by (simp add: Cons_nth_drop_Suc [symmetric])
  with True assms show ?thesis
    by (auto simp: ReadBit_def remaining_bits_def readable_buffer_def low_bit_test Let_def)
next
  case False
  then have rest: "bits_of_bytes (drop (bb_rpos b) (bb_storage b)) = x # xs"
    using assms(2) by (auto simp: remaining_bits_def split: if_splits)
  then have lt: "bb_rpos b < bb_size b"
    by (metis bits_of_bytes_simps(1) drop_all list.distinct(1) not_le)
  let ?w = "bb_storage b ! bb_rpos b"
  from lt have d: "drop (bb_rpos b) (bb_storage b) = ?w # drop (Suc (bb_rpos b)) (bb_storage b)"
    by (simp add: Cons_nth_drop_Suc)
  have w: "byte_bits ?w = bit ?w 7 # drop (Suc 0) (byte_bits ?w)"
    by (simp add: byte_bits_def upt_rec)
  from rest have "x = bit ?w 7"
    and "xs = drop (Suc 0) (byte_bits ?w) @ bits_of_bytes (drop (Suc (bb_rpos b)) (bb_storage b))"
    unfolding d by (subst (asm) bits_of_bytes_simps, subst (asm) w, simp)+
  with lt d assms(1) False show ?thesis
    by (auto simp: ReadBit_def read_word_def read_at_def ResetBitPos_def readable_buffer_def
        remaining_bits_def low_bit_test Let_def take_Suc_conv_app_nth)
qed

lemma ReadBit_end:
  assumes "readable_buffer b" "remaining_bits b = []"
  shows "\<exists>e. ReadBit b = Inl e"
proof -
  from assms(2) have "\<not> bb_bitpos b < 7" "drop (bb_rpos b) (bb_storage b) = []"
    by (auto simp: remaining_bits_def bits_of_bytes_def byte_bits_def split: if_splits)
  with assms show ?thesis
    by (auto simp: ReadBit_def read_word_def read_at_def ResetBitPos_def readable_buffer_def Let_def)
qed

interpretation bbits: bit_channel WriteBit written_bits writable ReadBit remaining_bits readable_buffer
  by unfold_locales (rule WriteBit_step ReadBit_step ReadBit_end; assumption)+


section \<open>Bit fields\<close>

lemma WriteBits_eq: "WriteBits v n = forE WriteBit (map (bit v) (rev [0..<n]))"
  by (rule ext) (simp add: WriteBits_def low_bit_test forE_map)

lemma WriteBits_written:
  "writable (n + m) b \<Longrightarrow>
     \<exists>b'. WriteBits v n b = Inr b' \<and> written_bits b' = written_bits b @ map (bit v) (rev [0..<n]) \<and> writable m b'"
  using bbits.write_all [of "map (bit v) (rev [0..<n])" m b] by (simp add: WriteBits_eq)

lemma fold_bits_value:
  fixes v :: uint64 and acc :: uint32
  assumes "n \<le> 32"
  shows "bit (fold (\<lambda>(i, x) v. if x then v OR push_bit i 1 else v)
                (zip (rev [0..<n]) (map (bit v) (rev [0..<n]))) acc) k
     \<longleftrightarrow> bit acc k \<or> k < n \<and> bit v k"
  using assms
proof (induction n arbitrary: acc)
  case (Suc n)
  let ?acc = "if bit v n then acc OR push_bit n 1 else acc"
  have "bit ?acc k \<longleftrightarrow> bit acc k \<or> k = n \<and> bit v k"
    using Suc.prems by (auto simp: bit_simps)
  with Suc.IH [of ?acc] Suc.prems show ?case by (simp add: less_Suc_eq) blast
qed simp

lemma ReadBits_remaining:
  assumes "readable_buffer r" "remaining_bits r = map (bit v) (rev [0..<n]) @ ys" "n \<le> 32"
  shows "\<exists>r'. ReadBits n r = Inr (take_bit n (ucast (v :: uint64)), r') \<and> remaining_bits r' = ys \<and> readable_buffer r'"
proof -
  let ?f = "\<lambda>i x v. if x then v OR push_bit i 1 else v :: uint32"
  have "fold (\<lambda>(i, x). ?f i x) (zip (rev [0..<n]) (map (bit v) (rev [0..<n]))) 0 = take_bit n (ucast v)"
    using assms(3) by (intro bit_word_eqI) (auto simp: fold_bits_value bit_simps)
  then show ?thesis
    using bbits.read_all [OF assms(1,2), of "rev [0..<n]" ?f 0] unfolding ReadBits_def by simp
qed

text \<open>Writing a sequence of bit fields, and reading one of the same shape.\<close>

definition write_fields :: "(uint64 \<times> nat) list \<Rightarrow> bytebuffer \<Rightarrow> bb_error + bytebuffer" where
  "write_fields = forE (\<lambda>(v, n). WriteBits v n)"

fun read_fields :: "nat list \<Rightarrow> bytebuffer \<Rightarrow> bb_error + uint32 list \<times> bytebuffer" where
  "read_fields [] b = Inr ([], b)"
| "read_fields (n # ns) b =
     res_bind (ReadBits n b) (\<lambda>(v, b). res_bind (read_fields ns b) (\<lambda>(vs, b). Inr (v # vs, b)))"

abbreviation field_bits :: "(uint64 \<times> nat) list \<Rightarrow> bool list" where
  "field_bits fs \<equiv> concat (map (\<lambda>(v, n). map (bit v) (rev [0..<n])) fs)"

lemma write_fields_written:
  "writable (sum_list (map snd fs) + m) b \<Longrightarrow>
     \<exists>b'. write_fields fs b = Inr b' \<and> written_bits b' = written_bits b @ field_bits fs \<and> writable m b'"
proof (induction fs arbitrary: b)
  case (Cons f fs)
  obtain v n where f: "f = (v, n)" by force
  from Cons.prems f obtain b1 where b1: "WriteBits v n b = Inr b1"
    "written_bits b1 = written_bits b @ map (bit v) (rev [0..<n])" "writable (sum_list (map snd fs) + m) b1"
    using WriteBits_written [of n "sum_list (map snd fs) + m" b v] by (auto simp: add.assoc)
  from Cons.IH [OF b1(3)] b1 f show ?case by (auto simp: write_fields_def)
qed (simp add: write_fields_def)

lemma read_fields_remaining:
  "readable_buffer r \<Longrightarrow> remaining_bits r = field_bits fs @ ys \<Longrightarrow> \<forall>(v, n) \<in> set fs. n \<le> 32 \<Longrightarrow>
     \<exists>r'. read_fields (map snd fs) r = Inr (map (\<lambda>(v, n). take_bit n (ucast v)) fs, r')
        \<and> remaining_bits r' = ys"
proof (induction fs arbitrary: r)
  case (Cons f fs)
  obtain v n where f: "f = (v, n)" by force
  with Cons.prems obtain r1 where r1: "ReadBits n r = Inr (take_bit n (ucast v), r1)"
    "remaining_bits r1 = field_bits fs @ ys" "readable_buffer r1"
    using ReadBits_remaining [of r v n "field_bits fs @ ys"] by auto
  from Cons.IH [OF r1(3,2)] Cons.prems(3) r1 f show ?case by auto
qed simp

lemma FlushBits_written:
  assumes "writable 8 b"
  shows "\<exists>b'. FlushBits b = Inr b' \<and> bb_bitpos b' = 8 \<and> bb_wpos b' = bb_size b' \<and>
     bb_size b' \<le> Suc (bb_size b) \<and> (\<exists>pad. bits_of_bytes (bb_storage b') = written_bits b @ pad)"
proof (cases "bb_bitpos b = 8")
  case True
  with assms show ?thesis by (auto simp: FlushBits_def writable_def written_bits_def)
next
  case False
  let ?p = "bb_bitpos b"
  from assms have "8 = (8 - ?p) + ?p" by (simp add: writable_def)
  then have "byte_bits (bb_curbitval b) = map (\<lambda>i. bit (bb_curbitval b) (7 - i)) [0..<(8 - ?p) + ?p]"
    by (simp add: byte_bits_def)
  also have "\<dots> = map (\<lambda>i. bit (bb_curbitval b) (7 - i)) [0..<8 - ?p] @
      map (\<lambda>i. bit (bb_curbitval b) (7 - i)) [8 - ?p..<(8 - ?p) + ?p]"
    by (simp only: upt_add_eq_append [of 0 "8 - ?p" ?p] map_append le0)
  finally show ?thesis
    using assms False by (auto simp: FlushBits_def append_flushed_def writable_def written_bits_def)
qed

lemma ByteBuffer_writable: "n \<le> 80000000 \<Longrightarrow> writable n ByteBuffer"
  and written_ByteBuffer [simp]: "written_bits ByteBuffer = []"
  by (simp_all add: ByteBuffer_def InitialBitPos_def writable_def written_bits_def)

lemma message_readable: "length xs < 2 ^ 63 \<Longrightarrow> readable_buffer (ByteBuffer_of_message xs)"
  and remaining_message [simp]: "remaining_bits (ByteBuffer_of_message xs) = bits_of_bytes xs"
  by (simp_all add: ByteBuffer_of_message_def InitialBitPos_def readable_buffer_def remaining_bits_def)

text \<open>C20: bit fields survive the wire. Any sequence of fields of at most 32 bits written to a
  fresh buffer with WriteBits and flushed with FlushBits is accepted (no assertion fails), and a
  receiver that wraps the bytes and reads fields of the same widths with ReadBits gets every value
  back, truncated to its width.\<close>

theorem bit_fields_roundtrip:
  assumes "\<forall>(v, n) \<in> set fs. n \<le> 32"
    and "sum_list (map snd fs) + 8 \<le> 80000000"
  shows "\<exists>b r. res_bind (write_fields fs ByteBuffer) FlushBits = Inr b \<and>
     read_fields (map snd fs) (ByteBuffer_of_message (bb_storage b))
       = Inr (map (\<lambda>(v, n). take_bit n (ucast v)) fs, r)"
proof -
  obtain w where w: "write_fields fs ByteBuffer = Inr w" "written_bits w = field_bits fs" "writable 8 w"
    using write_fields_written [OF ByteBuffer_writable [OF assms(2)]] by auto
  obtain b pad where b: "FlushBits w = Inr b" "bits_of_bytes (bb_storage b) = field_bits fs @ pad"
      "bb_size b \<le> Suc (bb_size w)"
    using FlushBits_written [OF w(3)] w(2) by auto
  from w(3) b(3) have "readable_buffer (ByteBuffer_of_message (bb_storage b))"
    by (intro message_readable) (simp add: writable_def)
  from read_fields_remaining [OF this, of fs pad] w b assms(1) show ?thesis by auto
qed

theorem bit_fields_roundtrip_witness:
  "\<exists>b r. res_bind (write_fields [(5, 3), (300, 9), (1, 1)] ByteBuffer) FlushBits = Inr b \<and>
     read_fields [3, 9, 1] (ByteBuffer_of_message (bb_storage b)) = Inr ([5, 300, 1], r)"
  using bit_fields_roundtrip [of "[(5, 3), (300, 9), (1, 1)]"]
  by simp


section \<open>Packed 64-bit integers: layout and round trip\<close>

definition byte_of :: "uint64 \<Rightarrow> nat \<Rightarrow> uint8" where
  "byte_of v k = ucast (drop_bit (8 * k) v)"

abbreviation packed_ks :: "uint64 \<Rightarrow> nat \<Rightarrow> nat list" where
  "packed_ks v i \<equiv> filter (\<lambda>k. byte_of v k \<noteq> 0) [i..<8]"

abbreviation packed_bytes :: "uint64 \<Rightarrow> uint8 list" where
  "packed_bytes v \<equiv> map (byte_of v) (packed_ks v 0)"

abbreviation packed_mask :: "uint64 \<Rightarrow> uint8" where
  "packed_mask v \<equiv> fold (\<lambda>k m. m OR push_bit k 1) (packed_ks v 0) 0"

lemma bit_byte_of: "bit (byte_of v k) n \<longleftrightarrow> n < 8 \<and> bit v (8 * k + n)"
  by (simp add: byte_of_def bit_simps)

lemma byte_of_drop_eq_0:
  assumes "drop_bit (8 * i) v = 0" "i \<le> k"
  shows "byte_of v k = 0"
proof (rule bit_word_eqI)
  fix n
  have "\<not> bit v (8 * i + (8 * (k - i) + n))"
    using assms(1) bit_drop_bit_eq [of "8 * i" v] by (metis bit_0_eq bot_apply bot_bool_def comp_apply)
  with assms(2) show "bit (byte_of v k) n = bit (0 :: uint8) n"
    by (simp add: bit_byte_of algebra_simps)
qed

lemma low_byte:
  "ucast (drop_bit (8 * i) v AND 0xFF) = byte_of v i"
  "drop_bit (8 * i) v AND 0xFF \<noteq> 0 \<longleftrightarrow> byte_of v i \<noteq> 0"
proof -
  have ff: "(0xFF :: uint64) = mask 8" by (simp add: mask_eq_exp_minus_1)
  show low: "ucast (drop_bit (8 * i) v AND 0xFF) = byte_of v i"
    unfolding ff by (rule bit_word_eqI) (auto simp: bit_byte_of bit_simps)
  have "drop_bit (8 * i) v AND mask 8 = 0" if "byte_of v i = 0"
  proof (rule bit_word_eqI)
    fix n
    from that have "\<not> bit (byte_of v i) n" by simp
    then show "bit (drop_bit (8 * i) v AND mask 8) n = bit (0 :: uint64) n"
      by (auto simp: bit_byte_of bit_simps)
  qed
  moreover have "byte_of v i = 0" if "drop_bit (8 * i) v AND 0xFF = 0"
    using low that by simp
  ultimately show "drop_bit (8 * i) v AND 0xFF \<noteq> 0 \<longleftrightarrow> byte_of v i \<noteq> 0" unfolding ff by blast
qed

lemma PackUInt64_loop_eq:
  "i \<le> 8 \<Longrightarrow> PackUInt64_loop i (drop_bit (8 * i) v) m res =
     (fold (\<lambda>k m. m OR push_bit k 1) (packed_ks v i) m, res @ map (byte_of v) (packed_ks v i))"
proof (induction "8 - i" arbitrary: i m res)
  case 0
  then have "i = 8" by simp
  moreover have "drop_bit 64 v = 0" by (rule bit_word_eqI) (simp add: bit_simps)
  ultimately show ?case by (simp add: PackUInt64_loop.simps)
next
  case (Suc n)
  then have i: "i < 8" "n = 8 - Suc i" by auto
  have step: "drop_bit 8 (drop_bit (8 * i) v) = drop_bit (8 * Suc i) v" by (simp add: add.commute)
  have ks: "packed_ks v i = (if byte_of v i \<noteq> 0 then i # packed_ks v (Suc i) else packed_ks v (Suc i))"
    using i by (simp add: upt_conv_Cons)
  note IH = Suc.hyps(1) [OF i(2)]
  show ?case
  proof (cases "drop_bit (8 * i) v = 0")
    case True
    then have "packed_ks v i = []" by (auto simp: filter_empty_conv byte_of_drop_eq_0)
    with True show ?thesis by (subst PackUInt64_loop.simps) simp
  next
    case False
    with i IH step low_byte [of i v] ks show ?thesis
      by (subst PackUInt64_loop.simps) (simp add: Suc_le_eq)
  qed
qed

lemma PackUInt64_eq: "PackUInt64 v = (packed_mask v, packed_bytes v)"
  using PackUInt64_loop_eq [of 0 v 0 "[]"] by (simp add: PackUInt64_def)

lemma bit_mask_fold:
  "bit (fold (\<lambda>k m. m OR push_bit k 1) ks (m :: uint8)) n \<longleftrightarrow> bit m n \<or> n < 8 \<and> n \<in> set ks"
  by (induction ks arbitrary: m) (auto simp: bit_simps)

lemma packed_mask_test: "k < 8 \<Longrightarrow> packed_mask v AND push_bit k 1 \<noteq> 0 \<longleftrightarrow> byte_of v k \<noteq> 0"
  by (simp only: bit_iff_and_push_bit_not_eq_0 [symmetric] bit_mask_fold) simp

lemma length_packed_bytes: "length (packed_bytes v) \<le> 8"
  using length_filter_le [of "\<lambda>k. byte_of v k \<noteq> 0" "[0..<8]"] by simp

text \<open>Reading one byte.\<close>

lemma read_uint8:
  assumes "bb_rpos b < bb_size b" "bb_size b < 2 ^ 63"
  shows "read_word b = Inr (bb_storage b ! bb_rpos b, (ResetBitPos b)\<lparr>bb_rpos := Suc (bb_rpos b)\<rparr>)"
  using assms by (auto simp: read_word_def read_at_def ResetBitPos_def Let_def take_Suc_conv_app_nth
      hd_drop_conv_nth take_Suc drop_eq_Nil)

lemma ResetBitPos_frame [simp]:
  "bb_storage (ResetBitPos b) = bb_storage b" "bb_rpos (ResetBitPos b) = bb_rpos b"
  "bb_wpos (ResetBitPos b) = bb_wpos b"
  by (simp_all add: ResetBitPos_def)

lemma ReadPacked_loop:
  assumes "\<And>k. k \<in> set ks \<Longrightarrow> (msk AND push_bit k 1 \<noteq> 0) = P k"
    and "drop (bb_rpos b) (bb_storage b) = map f (filter P ks) @ rest" "bb_size b < 2 ^ 63"
  shows "\<exists>b'. forE (\<lambda>i (v, b).
        if msk AND push_bit i 1 \<noteq> 0
        then res_bind (read_word b) (\<lambda>(x :: uint8, b). Inr (v OR push_bit (i * 8) (ucast x), b))
        else Inr (v, b)) ks (v, b)
     = Inr (fold (\<lambda>k v. v OR push_bit (k * 8) (ucast (f k))) (filter P ks) (v :: uint64), b')
     \<and> bb_storage b' = bb_storage b \<and> bb_rpos b' = bb_rpos b + length (filter P ks)"
  using assms
proof (induction ks arbitrary: v b)
  case (Cons k ks)
  show ?case
  proof (cases "P k")
    case True
    with Cons.prems(2) have d: "drop (bb_rpos b) (bb_storage b) = f k # map f (filter P ks) @ rest"
      by simp
    then have lt: "bb_rpos b < bb_size b" and hd: "bb_storage b ! bb_rpos b = f k"
      by (metis drop_all list.distinct(1) not_le, metis d drop_all hd_drop_conv_nth list.distinct(1) list.sel(1) not_le)
    let ?b = "(ResetBitPos b)\<lparr>bb_rpos := Suc (bb_rpos b)\<rparr>"
    have "drop (bb_rpos ?b) (bb_storage ?b) = map f (filter P ks) @ rest"
      using d by (simp add: drop_Suc tl_drop [symmetric])
    from Cons.IH [OF _ this, of "v OR push_bit (k * 8) (ucast (f k))"] Cons.prems True
    show ?thesis using read_uint8 [OF lt Cons.prems(3)] hd by (auto simp: add.commute)
  next
    case False
    with Cons show ?thesis by auto
  qed
qed simp

lemma fold_bytes_value:
  "bit (fold (\<lambda>k u. u OR push_bit (k * 8) (ucast (byte_of v k))) ks (u :: uint64)) n
     \<longleftrightarrow> bit u n \<or> (n div 8 \<in> set ks \<and> bit v n)"
proof (induction ks arbitrary: u)
  case (Cons k ks)
  have "bit (push_bit (k * 8) (ucast (byte_of v k)) :: uint64) n \<longleftrightarrow> n div 8 = k \<and> bit v n"
    by (auto simp: bit_simps bit_byte_of dest: bit_imp_le_length)
  with Cons show ?case by (auto simp: bit_or_iff)
qed simp

lemma packed_value:
  "fold (\<lambda>k u. u OR push_bit (k * 8) (ucast (byte_of v k))) (packed_ks v 0) u = u OR v"
proof (rule bit_word_eqI)
  fix n assume "n < LENGTH(64)"
  moreover have "bit v n \<Longrightarrow> byte_of v (n div 8) \<noteq> 0"
    using bit_byte_of [of v "n div 8" "n mod 8"] by auto
  ultimately show "bit (fold (\<lambda>k u. u OR push_bit (k * 8) (ucast (byte_of v k))) (packed_ks v 0) u) n
      = bit (u OR v) n"
    by (auto simp: fold_bytes_value bit_or_iff)
qed

lemma ReadPackedUInt64_mask_eq:
  assumes "drop (bb_rpos b) (bb_storage b) = packed_bytes v @ rest" "bb_size b < 2 ^ 63"
  shows "\<exists>b'. ReadPackedUInt64_mask (packed_mask v) u b = Inr (u OR v, b') \<and>
     bb_storage b' = bb_storage b \<and> bb_rpos b' = bb_rpos b + length (packed_bytes v)"
proof -
  have "(packed_mask v AND push_bit k 1 \<noteq> 0) = (byte_of v k \<noteq> 0)" if "k \<in> set [0..<8]" for k
    using that by (intro packed_mask_test) simp
  from ReadPacked_loop [OF this assms, of u] show ?thesis
    unfolding ReadPackedUInt64_mask_def packed_value by simp
qed

lemma append_bytes_clean:
  assumes "bb_bitpos b = 8" "bb_wpos b = bb_size b" "bb_size b < 10000000" "src \<noteq> []"
  shows "append_bytes src b = Inr (b\<lparr>bb_storage := bb_storage b @ src, bb_wpos := bb_size b + length src\<rparr>)"
  using assms by (simp add: append_bytes_def FlushBits_def)

lemma append_if_clean:
  assumes "bb_bitpos b = 8" "bb_wpos b = bb_size b" "bb_size b < 10000000"
  shows "(if src \<noteq> [] then append_bytes src b else Inr b)
     = Inr (b\<lparr>bb_storage := bb_storage b @ src, bb_wpos := bb_size b + length src\<rparr>)"
  using assms by (cases "src = []") (simp_all add: append_bytes_clean)

lemma AppendPackedUInt64_clean:
  assumes "bb_bitpos b = 8" "bb_wpos b = bb_size b" "bb_size b < 9999999"
  shows "AppendPackedUInt64 v b = Inr (b\<lparr>bb_storage := bb_storage b @ packed_mask v # packed_bytes v,
           bb_wpos := bb_size b + Suc (length (packed_bytes v))\<rparr>)"
proof -
  let ?b = "b\<lparr>bb_storage := bb_storage b @ [0], bb_wpos := Suc (bb_size b)\<rparr>"
  have 1: "append_word (0 :: uint8) b = Inr ?b"
    using assms by (simp add: append_word_def append_bytes_clean)
  have 2: "(if packed_bytes v \<noteq> [] then append_bytes (packed_bytes v) ?b else Inr ?b) =
      Inr (b\<lparr>bb_storage := bb_storage b @ 0 # packed_bytes v,
            bb_wpos := bb_size b + Suc (length (packed_bytes v))\<rparr>)"
    using assms by (subst append_if_clean) auto
  have 3: "length (packed_bytes v) \<le> 8" by (rule length_packed_bytes)
  show ?thesis
    using assms 3
    by (simp only: AppendPackedUInt64_def Let_def 1 res_bind_simps PackUInt64_eq case_prod_conv 2)
       (simp add: put_word_def put_bytes_def)
qed

lemma ReadPackedUInt64_layout:
  assumes "bb_storage r = pre @ packed_mask v # packed_bytes v @ rest" "bb_rpos r = length pre" "bb_size r < 2 ^ 63"
  shows "\<exists>r'. ReadPackedUInt64 r = Inr (v, r') \<and> bb_rpos r' = Suc (length pre + length (packed_bytes v))"
proof -
  let ?r = "(ResetBitPos r)\<lparr>bb_rpos := Suc (bb_rpos r)\<rparr>"
  have "read_word r = Inr (packed_mask v, ?r)"
    using read_uint8 [of r] assms by (simp add: nth_append)
  moreover obtain r' where "ReadPackedUInt64_mask (packed_mask v) 0 ?r = Inr (v, r')"
      "bb_rpos r' = Suc (length pre) + length (packed_bytes v)"
    using ReadPackedUInt64_mask_eq [of ?r v rest 0] assms by auto
  ultimately show ?thesis by (auto simp: ReadPackedUInt64_def)
qed

text \<open>Packed 64-bit integers survive the wire. Appending a value to a buffer without pending
  bits adds at most nine bytes behind the existing content, and any buffer that holds these bytes
  at its read cursor, whatever stands before and behind them, yields the value again and moves its
  cursor right behind the last of them.\<close>

theorem packed_uint64_roundtrip:
  assumes "bb_bitpos b = 8" "bb_wpos b = bb_size b" "bb_size b < 9999999"
  shows "\<exists>packed. AppendPackedUInt64 v b = Inr (b\<lparr>bb_storage := bb_storage b @ packed,
        bb_wpos := bb_size b + length packed\<rparr>) \<and> length packed \<le> 9 \<and>
     (\<forall>r pre rest. bb_storage r = pre @ packed @ rest \<and> bb_rpos r = length pre \<and> bb_size r < 2 ^ 63 \<longrightarrow>
        (\<exists>r'. ReadPackedUInt64 r = Inr (v, r') \<and> bb_rpos r' = length pre + length packed))"
proof (intro exI [of _ "packed_mask v # packed_bytes v"] conjI)
  show "AppendPackedUInt64 v b = Inr (b\<lparr>bb_storage := bb_storage b @ packed_mask v # packed_bytes v,
     bb_wpos := bb_size b + length (packed_mask v # packed_bytes v)\<rparr>)"
    using AppendPackedUInt64_clean [OF assms] by simp
  show "length (packed_mask v # packed_bytes v) \<le> 9" using length_packed_bytes [of v] by simp
qed (use ReadPackedUInt64_layout [where v = v] in auto)

theorem packed_uint64_roundtrip_witness:
  "\<exists>packed. AppendPackedUInt64 0x12003400 ByteBuffer = Inr (ByteBuffer\<lparr>bb_storage := packed,
        bb_wpos := length packed\<rparr>) \<and> length packed \<le> 9 \<and>
     (\<exists>r'. ReadPackedUInt64 (ByteBuffer_of_message packed) = Inr (0x12003400, r') \<and> bb_rpos r' = length packed)"
proof -
  obtain packed where "AppendPackedUInt64 0x12003400 ByteBuffer = Inr (ByteBuffer\<lparr>bb_storage := packed,
        bb_wpos := length packed\<rparr>)" "length packed \<le> 9"
      "\<forall>r pre rest. bb_storage r = pre @ packed @ rest \<and> bb_rpos r = length pre \<and> bb_size r < 2 ^ 63 \<longrightarrow>
        (\<exists>r'. ReadPackedUInt64 r = Inr (0x12003400, r') \<and> bb_rpos r' = length pre + length packed)"
    using packed_uint64_roundtrip [of ByteBuffer "0x12003400"] by (auto simp: ByteBuffer_def InitialBitPos_def)
  moreover from this(3) have "\<exists>r'. ReadPackedUInt64 (ByteBuffer_of_message packed) = Inr (0x12003400, r') \<and>
      bb_rpos r' = length ([] :: uint8 list) + length packed"
    using \<open>length packed \<le> 9\<close>
    by (elim allE [where x = "ByteBuffer_of_message packed"] allE [where x = "[]"] impE)
       (simp_all add: ByteBuffer_of_message_def)
  ultimately show ?thesis by auto
qed

text \<open>AppendPackedUInt64 loses pending bits. With bits written but not flushed, the position
  it remembers for the mask is the one of the flushed byte: that byte is overwritten by the mask,
  and the place of the mask keeps the zero written first.\<close>

theorem AppendPackedUInt64_pending_bits:
  assumes "bb_bitpos b \<noteq> 8" "bb_wpos b = bb_size b" "bb_size b < 9999998"
  shows "\<exists>b'. AppendPackedUInt64 v b = Inr b' \<and> bb_storage b' = bb_storage b @ packed_mask v # 0 # packed_bytes v"
proof -
  let ?b = "b\<lparr>bb_storage := bb_storage b @ [bb_curbitval b, 0], bb_wpos := Suc (Suc (bb_size b)),
     bb_bitpos := 8, bb_curbitval := 0\<rparr>"
  have 1: "append_word (0 :: uint8) b = Inr ?b"
    using assms by (simp add: append_word_def append_bytes_def FlushBits_def append_flushed_def)
  have 2: "(if packed_bytes v \<noteq> [] then append_bytes (packed_bytes v) ?b else Inr ?b) =
      Inr (?b\<lparr>bb_storage := bb_storage b @ bb_curbitval b # 0 # packed_bytes v,
            bb_wpos := bb_size b + Suc (Suc (length (packed_bytes v)))\<rparr>)"
    using assms by (subst append_if_clean) auto
  have 3: "length (packed_bytes v) \<le> 8" by (rule length_packed_bytes)
  show ?thesis
    using assms 3
    by (simp only: AppendPackedUInt64_def Let_def 1 res_bind_simps PackUInt64_eq case_prod_conv 2)
       (simp add: put_word_def put_bytes_def)
qed

theorem AppendPackedUInt64_pending_bits_witness:
  "\<exists>b'. AppendPackedUInt64 0 (ByteBuffer\<lparr>bb_bitpos := 7, bb_curbitval := 0x80\<rparr>) = Inr b' \<and>
     bb_storage b' = bb_storage (ByteBuffer\<lparr>bb_bitpos := 7, bb_curbitval := 0x80\<rparr>) @ packed_mask 0 # 0 # packed_bytes 0"
  using AppendPackedUInt64_pending_bits [of "ByteBuffer\<lparr>bb_bitpos := 7, bb_curbitval := 0x80\<rparr>" 0]
  by (simp add: ByteBuffer_def InitialBitPos_def)

section \<open>Safety of the readers\<close>

text \<open>Readers never leave the buffer. On a buffer whose read cursor is within its size, reading
  an integer, a run of bytes, a counted string or skipping bytes succeeds exactly when that many
  bytes remain, then leaves the content alone and keeps the cursor within the size; otherwise it
  throws the position exception with the cursor, the wanted length and the size. No read reaches
  undefined behaviour.\<close>

theorem reads_stay_in_bounds:
  assumes "readable_buffer b" "n < 2 ^ 62" "LENGTH('a::len) \<le> 64"
  shows "(case read_word b :: bb_error + 'a word \<times> bytebuffer of
            Inr (v, b') \<Rightarrow> bb_rpos b + LENGTH('a) div 8 \<le> bb_size b \<and> bb_rpos b' = bb_rpos b + LENGTH('a) div 8
              \<and> bb_storage b' = bb_storage b
              \<and> v = of_le_bytes (take (LENGTH('a) div 8) (drop (bb_rpos b) (bb_storage b)))
          | Inl e \<Rightarrow> bb_size b < bb_rpos b + LENGTH('a) div 8
              \<and> e = ByteBufferPositionException (bb_rpos b) (LENGTH('a) div 8) (bb_size b))
     \<and> (case read_bytes n b of
            Inr (xs, b') \<Rightarrow> bb_rpos b + n \<le> bb_size b \<and> bb_rpos b' = bb_rpos b + n
              \<and> bb_storage b' = bb_storage b \<and> xs = take n (drop (bb_rpos b) (bb_storage b))
          | Inl e \<Rightarrow> bb_size b < bb_rpos b + n \<and> e = ByteBufferPositionException (bb_rpos b) n (bb_size b))
     \<and> (case ReadString len b of
            Inr (xs, b') \<Rightarrow> bb_rpos b + unat len \<le> bb_size b \<and> bb_rpos b' = bb_rpos b + unat len
              \<and> bb_storage b' = bb_storage b \<and> xs = take (unat len) (drop (bb_rpos b) (bb_storage b))
          | Inl e \<Rightarrow> bb_size b < bb_rpos b + unat len
              \<and> e = ByteBufferPositionException (bb_rpos b) (unat len) (bb_size b))
     \<and> (case read_skip n b of
            Inr b' \<Rightarrow> bb_rpos b + n \<le> bb_size b \<and> bb_rpos b' = bb_rpos b + n \<and> bb_storage b' = bb_storage b
          | Inl e \<Rightarrow> bb_size b < bb_rpos b + n \<and> e = ByteBufferPositionException (bb_rpos b) n (bb_size b))"
    (is "?word \<and> ?bytes \<and> ?string \<and> ?skip")
proof (intro conjI)
  have b: "bb_rpos b \<le> bb_size b" "bb_size b < 2 ^ 63" using assms(1) by (auto simp: readable_buffer_def)
  have len: "unat len < 2 ^ 32" using unsigned_less [of len] by simp
  have add: "sz_add (bb_rpos b) k = bb_rpos b + k" if "k < 2 ^ 62" for k
    using b that by simp
  have "LENGTH('a) div 8 < 2 ^ 62" using assms(3) by simp
  then show ?word
    using b by (auto simp: read_word_def read_at_def Let_def add)
  show ?bytes
    using b assms(2) by (auto simp: read_bytes_def Let_def add)
  show ?string
    using b len by (auto simp: ReadString_def Let_def unat_eq_0)
  show ?skip
    using b assms(2) by (auto simp: read_skip_def Let_def)
qed

theorem reads_stay_in_bounds_witness:
  "case read_word (ByteBuffer_of_message [1, 2, 3]) :: bb_error + uint16 \<times> bytebuffer of
     Inr (v, b') \<Rightarrow> v = 0x0201 \<and> bb_rpos b' = 2 | Inl e \<Rightarrow> False"
proof -
  have "readable_buffer (ByteBuffer_of_message [1, 2, 3])" by (rule message_readable) simp
  from reads_stay_in_bounds [where 'a = 16, OF this, of 4 7, THEN conjunct1] show ?thesis
    by (simp add: ByteBuffer_of_message_def InitialBitPos_def read_word_def read_at_def ResetBitPos_def Let_def)
qed

section \<open>Strings and dates\<close>

lemma read_cstring_layout:
  "drop (bb_rpos r) (bb_storage r) = s @ 0 # rest \<Longrightarrow> 0 \<notin> set s \<Longrightarrow> bb_size r < 2 ^ 63 \<Longrightarrow>
     \<exists>r'. read_cstring r = Inr (s, r') \<and> bb_rpos r' = bb_rpos r + Suc (length s) \<and> bb_storage r' = bb_storage r"
proof (induction s arbitrary: r)
  case Nil
  then have lt: "bb_rpos r < bb_size r" by (metis append_Nil drop_all list.distinct(1) not_le)
  then have "bb_storage r ! bb_rpos r = 0" using Nil.prems by (simp add: hd_drop_conv_nth [symmetric])
  with read_uint8 [OF lt Nil.prems(3)] lt show ?case by (simp add: read_cstring.simps)
next
  case (Cons c s)
  then have lt: "bb_rpos r < bb_size r" by (metis append_Cons drop_all list.distinct(1) not_le)
  then have c: "bb_storage r ! bb_rpos r = c" using Cons.prems by (simp add: hd_drop_conv_nth [symmetric])
  let ?r = "(ResetBitPos r)\<lparr>bb_rpos := Suc (bb_rpos r)\<rparr>"
  have "drop (bb_rpos ?r) (bb_storage ?r) = s @ 0 # rest"
    using Cons.prems(1) by (simp add: drop_Suc tl_drop [symmetric])
  from Cons.IH [OF this] Cons.prems obtain r' where "read_cstring ?r = Inr (s, r')"
      "bb_rpos r' = Suc (bb_rpos r) + Suc (length s)" "bb_storage r' = bb_storage r" by auto
  with read_uint8 [OF lt Cons.prems(3)] lt c Cons.prems(2) show ?case
    by (subst read_cstring.simps) auto
qed

text \<open>zero-terminated strings survive the wire. A string without zero bytes appended to a buffer
  without pending bits is read back unchanged from the position where it was appended, and the
  cursor then stands behind its terminator.\<close>

theorem cstring_roundtrip:
  assumes "bb_bitpos b = 8" "bb_wpos b = bb_size b" "bb_size b + length s < 10000000" "0 \<notin> set s"
  shows "\<exists>b' r'. append_cstring s b = Inr b' \<and>
     read_cstring ((ByteBuffer_of_message (bb_storage b'))\<lparr>bb_rpos := bb_size b\<rparr>) = Inr (s, r') \<and>
     bb_rpos r' = bb_size b' \<and> bb_size b' = bb_size b + length s + 1"
proof -
  let ?b = "b\<lparr>bb_storage := bb_storage b @ s @ [0], bb_wpos := bb_size b + length s + 1\<rparr>"
  have 1: "append_cstring s b = Inr ?b"
    using assms by (cases "s = []") (simp_all add: append_cstring_def append_word_def append_bytes_clean)
  let ?r = "(ByteBuffer_of_message (bb_storage ?b))\<lparr>bb_rpos := bb_size b\<rparr>"
  have "drop (bb_rpos ?r) (bb_storage ?r) = s @ 0 # []" "bb_size ?r < 2 ^ 63"
    using assms(3) by (simp_all add: ByteBuffer_of_message_def)
  from read_cstring_layout [OF this(1) assms(4) this(2)] 1 show ?thesis
    by (auto simp: ByteBuffer_of_message_def)
qed

theorem cstring_roundtrip_witness:
  "\<exists>b' r'. append_cstring [72, 105] ByteBuffer = Inr b' \<and>
     read_cstring ((ByteBuffer_of_message (bb_storage b'))\<lparr>bb_rpos := bb_size ByteBuffer\<rparr>) = Inr ([72, 105], r') \<and>
     bb_rpos r' = bb_size b' \<and> bb_size b' = bb_size ByteBuffer + length [72 :: uint8, 105] + 1"
  using cstring_roundtrip [of ByteBuffer "[72, 105]"]
  by (simp add: ByteBuffer_def InitialBitPos_def)

lemma bit_small: "(x :: uint32) < 2 ^ n \<Longrightarrow> n < 32 \<Longrightarrow> bit x k \<Longrightarrow> k < n"
  by (metis bit_take_bit_iff less_mask_eq take_bit_eq_mask)

lemma date_masks:
  "(0x3F :: uint32) = mask 6" "(0x1F :: uint32) = mask 5" "(0xF :: uint32) = mask 4"
  by (simp_all add: mask_eq_exp_minus_1)

lemma pack_fields:
  fixes y mo d w h m :: uint32
  assumes "y < 2 ^ 5" "mo < 2 ^ 4" "d < 2 ^ 6" "w < 2 ^ 3" "h < 2 ^ 5" "m < 2 ^ 6"
  defines "p \<equiv> push_bit 24 y OR push_bit 20 mo OR push_bit 14 d OR push_bit 11 w OR push_bit 6 h OR m"
  shows "p AND mask 6 = m" "drop_bit 6 p AND mask 5 = h" "drop_bit 14 p AND mask 6 = d"
    "drop_bit 20 p AND mask 4 = mo" "drop_bit 24 p AND mask 5 = y"
proof -
  note small = assms(1-6) [THEN bit_small, simplified]
  show "p AND mask 6 = m"
    by (rule bit_word_eqI) (auto simp: p_def bit_simps dest: small)
  show "drop_bit 6 p AND mask 5 = h"
    by (rule bit_word_eqI) (auto simp: p_def bit_simps dest: small)
  show "drop_bit 14 p AND mask 6 = d"
    by (rule bit_word_eqI) (auto simp: p_def bit_simps dest: small)
  show "drop_bit 20 p AND mask 4 = mo"
    by (rule bit_word_eqI) (auto simp: p_def bit_simps dest: small)
  show "drop_bit 24 p AND mask 5 = y"
    by (rule bit_word_eqI) (auto simp: p_def bit_simps dest: small)
qed

text \<open>packed dates survive the wire up to the day of the week. A calendar date between 2000 and
  2031 written by AppendPackedTime is handed back to the C library by ReadPackedTime with the same
  minute, hour, day, month and year.\<close>

theorem packed_time_roundtrip:
  assumes "tm_min (localtime_r t) < 60" "tm_hour (localtime_r t) < 24"
    "1 \<le> tm_mday (localtime_r t)" "tm_mday (localtime_r t) \<le> 31" "tm_mon (localtime_r t) < 12"
    "100 \<le> tm_year (localtime_r t)" "tm_year (localtime_r t) \<le> 131" "tm_wday (localtime_r t) < 7"
  shows "\<exists>b r. AppendPackedTime localtime_r t ByteBuffer = Inr b \<and>
     ReadPackedTime mktime (ByteBuffer_of_message (bb_storage b))
       = Inr (word_of_int (mktime ((localtime_r t)\<lparr>tm_wday := 0\<rparr>)), r)"
proof -
  let ?lt = "localtime_r t"
  have bounds: "tm_year ?lt - 100 < 2 ^ 5" "tm_mon ?lt < 2 ^ 4" "tm_mday ?lt - 1 < 2 ^ 6"
      "tm_wday ?lt < 2 ^ 3" "tm_hour ?lt < 2 ^ 5" "tm_min ?lt < 2 ^ 6"
    using assms by (simp_all add: word_less_nat_alt word_le_nat_alt unat_sub)
  have unpack: "unpack_tm (pack_tm ?lt) = ?lt\<lparr>tm_wday := 0\<rparr>"
    using pack_fields [OF bounds] by (simp add: unpack_tm_def pack_tm_def date_masks)
  have "append_word (pack_tm ?lt) ByteBuffer
      = Inr (ByteBuffer\<lparr>bb_storage := le_bytes (pack_tm ?lt), bb_wpos := 4\<rparr>)"
    by (simp add: append_word_def append_bytes_clean ByteBuffer_def InitialBitPos_def)
  moreover have "read_word (ByteBuffer_of_message (le_bytes (pack_tm ?lt)))
      = Inr (pack_tm ?lt, (ByteBuffer_of_message (le_bytes (pack_tm ?lt)))\<lparr>bb_rpos := 4\<rparr>)"
    by (simp add: read_word_def read_at_def ByteBuffer_of_message_def InitialBitPos_def ResetBitPos_def Let_def)
  ultimately show ?thesis
    by (simp add: AppendPackedTime_def ReadPackedTime_def unpack ByteBuffer_def)
qed

theorem packed_time_roundtrip_witness:
  "\<exists>b r. AppendPackedTime (\<lambda>_. \<lparr>tm_min = 30, tm_hour = 21, tm_mday = 9, tm_mon = 4, tm_year = 118, tm_wday = 3\<rparr>)
        0 ByteBuffer = Inr b \<and>
     ReadPackedTime (\<lambda>lt. uint (tm_hour lt) * 60 + uint (tm_min lt)) (ByteBuffer_of_message (bb_storage b))
       = Inr (1290, r)"
  using packed_time_roundtrip [of "\<lambda>_. \<lparr>tm_min = 30, tm_hour = 21, tm_mday = 9, tm_mon = 4, tm_year = 118, tm_wday = 3\<rparr>" 0
      "\<lambda>lt. uint (tm_hour lt) * 60 + uint (tm_min lt)"]
  by simp

section \<open>Patching bits\<close>

lemma bits_of_bytes_nth:
  "p < 8 * length xs \<Longrightarrow> bits_of_bytes xs ! p = bit (xs ! (p div 8)) (7 - p mod 8)"
proof (induction xs arbitrary: p)
  case (Cons x xs)
  show ?case
  proof (cases "p < 8")
    case False
    then have "p div 8 = Suc ((p - 8) div 8)" "p mod 8 = (p - 8) mod 8"
      by (simp_all add: le_div_geq le_mod_geq)
    with Cons False show ?thesis by (simp add: nth_append)
  qed (simp add: nth_append)
qed simp

lemma bit_put:
  fixes w :: uint8
  assumes "k < 8"
  shows "bit (if x then w OR push_bit k 1 else w AND NOT (push_bit k 1)) j \<longleftrightarrow> (if j = k then x else bit w j)"
  using assms by (auto simp: bit_simps dest: bit_imp_le_length)

lemma bits_put_bit_at:
  assumes "p < 8 * length xs"
  shows "bits_of_bytes (put_bit_at p x xs) = (bits_of_bytes xs)[p := x]"
proof (rule nth_equalityI)
  fix q assume "q < length (bits_of_bytes (put_bit_at p x xs))"
  then have q: "q < 8 * length xs" by (simp add: put_bit_at_def)
  have pd: "p div 8 < length xs" using assms by (simp add: less_mult_imp_div_less)
  have l: "bits_of_bytes (put_bit_at p x xs) ! q = bit (put_bit_at p x xs ! (q div 8)) (7 - q mod 8)"
    using q by (intro bits_of_bytes_nth) (simp add: put_bit_at_def)
  have r: "(bits_of_bytes xs)[p := x] ! q = (if q = p then x else bit (xs ! (q div 8)) (7 - q mod 8))"
    using q assms by (simp add: nth_list_update bits_of_bytes_nth)
  show "bits_of_bytes (put_bit_at p x xs) ! q = (bits_of_bytes xs)[p := x] ! q"
  proof (cases "q div 8 = p div 8")
    case True
    have "7 - q mod 8 = 7 - p mod 8 \<longleftrightarrow> q mod 8 = p mod 8"
      using mod_less_divisor [of 8 q] mod_less_divisor [of 8 p] by linarith
    also have "\<dots> \<longleftrightarrow> q = p" using True by (metis mult_div_mod_eq)
    finally show ?thesis
      unfolding l r using True pd by (simp only: put_bit_at_def nth_list_update_eq) (subst bit_put, simp_all)
  next
    case False
    then show ?thesis unfolding l r by (auto simp: put_bit_at_def)
  qed
qed (simp add: put_bit_at_def)

lemma length_put_bit_at [simp]: "length (put_bit_at p x xs) = length xs"
  by (simp add: put_bit_at_def)

lemma bits_put_bits:
  "pos + n \<le> 8 * length xs \<Longrightarrow>
     bits_of_bytes (fold (\<lambda>i. put_bit_at (pos + i) (f i)) [0..<n] xs)
       = take pos (bits_of_bytes xs) @ map f [0..<n] @ drop (pos + n) (bits_of_bytes xs)
     \<and> length (fold (\<lambda>i. put_bit_at (pos + i) (f i)) [0..<n] xs) = length xs"
proof (induction n)
  case (Suc n)
  then have IH: "bits_of_bytes (fold (\<lambda>i. put_bit_at (pos + i) (f i)) [0..<n] xs)
       = take pos (bits_of_bytes xs) @ map f [0..<n] @ drop (pos + n) (bits_of_bytes xs)"
     "length (fold (\<lambda>i. put_bit_at (pos + i) (f i)) [0..<n] xs) = length xs" by auto
  have "drop (pos + n) (bits_of_bytes xs) = bits_of_bytes xs ! (pos + n) # drop (pos + Suc n) (bits_of_bytes xs)"
    using Suc.prems by (simp add: Cons_nth_drop_Suc)
  with IH Suc.prems show ?case by (simp add: bits_put_bit_at list_update_append min_def)
qed simp

text \<open>PutBits patches exactly the bits it names. When the field lies within the buffer the call
  succeeds, the bits of the buffer from the given position on become the binary digits of the value,
  most significant first, and every other bit, the size and the cursors stay as they were.\<close>

theorem PutBits_patches:
  assumes "pos + n \<le> bb_size b * 8" "0 < n" "bb_size b < 2 ^ 60"
  shows "\<exists>xs. PutBits pos v n b = Inr (b\<lparr>bb_storage := xs\<rparr>) \<and> length xs = bb_size b \<and>
     bits_of_bytes xs = take pos (bits_of_bytes (bb_storage b)) @ map (\<lambda>i. bit v (n - i - 1)) [0..<n]
       @ drop (pos + n) (bits_of_bytes (bb_storage b))"
proof -
  have "sz_add pos n = pos + n" using assms by simp
  then have "PutBits pos v n b = Inr (b\<lparr>bb_storage :=
      fold (\<lambda>i. put_bit_at (pos + i) (bit v (n - i - 1))) [0..<n] (bb_storage b)\<rparr>)"
    using assms by (simp add: PutBits_def low_bit_test)
  with bits_put_bits [of pos n "bb_storage b" "\<lambda>i. bit v (n - i - 1)"] assms(1) show ?thesis
    by (auto simp: mult.commute)
qed

theorem PutBits_patches_witness:
  "\<exists>xs. PutBits 3 0x2D 6 (ByteBuffer_of_message [0, 0xFF]) = Inr ((ByteBuffer_of_message [0, 0xFF])\<lparr>bb_storage := xs\<rparr>) \<and>
     length xs = bb_size (ByteBuffer_of_message [0, 0xFF]) \<and>
     bits_of_bytes xs = take 3 (bits_of_bytes [0, 0xFF]) @ [True, False, True, True, False, True]
       @ drop 9 (bits_of_bytes [0, 0xFF])"
  using PutBits_patches [of 3 6 "ByteBuffer_of_message [0, 0xFF]" "0x2D"]
  by (simp add: ByteBuffer_of_message_def upt_rec)

end
