(* ===== verification/Object_Guid.thy ===== *)
theory Object_Guid
  imports Byte_Buffer "HOL-Library.Char_ord"
begin

text \<open>
  Object identifiers of \<^verbatim>\<open>src/src/server/game/Entities/Object/ObjectGuid.{h,cpp}\<close>: 128 bits, a
  kind in the six highest, the other fields packed below it. The identity of the running realm
  (the global \<^verbatim>\<open>realm.Id.Realm\<close>) is an argument of the functions that pack it.
  The enumeration \<^verbatim>\<open>HighGuid\<close> is a datatype; a value read from the bits is its number,
  since the six bits can also hold numbers the enumeration does not name.
\<close>

unbundle bit_operations_syntax

section \<open>Kinds of objects\<close>

datatype TypeID = TYPEID_OBJECT | TYPEID_ITEM | TYPEID_CONTAINER | TYPEID_UNIT | TYPEID_PLAYER
  | TYPEID_GAMEOBJECT | TYPEID_DYNAMICOBJECT | TYPEID_CORPSE | TYPEID_AREATRIGGER
  | TYPEID_SCENEOBJECT | TYPEID_CONVERSATION

datatype HighGuid =
    HG_Null | HG_Uniq | HG_Player | HG_Item | HG_WorldTransaction | HG_StaticDoor
    | HG_Transport | HG_Conversation | HG_Creature | HG_Vehicle | HG_Pet | HG_GameObject
    | HG_DynamicObject | HG_AreaTrigger | HG_Corpse | HG_LootObject | HG_SceneObject
    | HG_Scenario | HG_AIGroup | HG_DynamicDoor | HG_ClientActor | HG_Vignette | HG_CallForHelp
    | HG_AIResource | HG_AILock | HG_AILockTicket | HG_ChatChannel | HG_Party | HG_Guild
    | HG_WowAccount | HG_BNetAccount | HG_GMTask | HG_MobileSession | HG_RaidGroup | HG_Spell
    | HG_Mail | HG_WebObj | HG_LFGObject | HG_LFGList | HG_UserRouter | HG_PVPQueueGroup
    | HG_UserClient | HG_PetBattle | HG_UniqUserClient | HG_BattlePet | HG_CommerceObj
    | HG_ClientSession | HG_Cast

definition high_num :: "HighGuid \<Rightarrow> nat" where
  "high_num h = (case h of
     HG_Null \<Rightarrow> 0 | HG_Uniq \<Rightarrow> 1 | HG_Player \<Rightarrow> 2
     | HG_Item \<Rightarrow> 3 | HG_WorldTransaction \<Rightarrow> 4
     | HG_StaticDoor \<Rightarrow> 5 | HG_Transport \<Rightarrow> 6
     | HG_Conversation \<Rightarrow> 7 | HG_Creature \<Rightarrow> 8
     | HG_Vehicle \<Rightarrow> 9 | HG_Pet \<Rightarrow> 10 | HG_GameObject \<Rightarrow> 11
     | HG_DynamicObject \<Rightarrow> 12 | HG_AreaTrigger \<Rightarrow> 13
     | HG_Corpse \<Rightarrow> 14 | HG_LootObject \<Rightarrow> 15
     | HG_SceneObject \<Rightarrow> 16 | HG_Scenario \<Rightarrow> 17
     | HG_AIGroup \<Rightarrow> 18 | HG_DynamicDoor \<Rightarrow> 19
     | HG_ClientActor \<Rightarrow> 20 | HG_Vignette \<Rightarrow> 21
     | HG_CallForHelp \<Rightarrow> 22 | HG_AIResource \<Rightarrow> 23
     | HG_AILock \<Rightarrow> 24 | HG_AILockTicket \<Rightarrow> 25
     | HG_ChatChannel \<Rightarrow> 26 | HG_Party \<Rightarrow> 27 | HG_Guild \<Rightarrow> 28
     | HG_WowAccount \<Rightarrow> 29 | HG_BNetAccount \<Rightarrow> 30
     | HG_GMTask \<Rightarrow> 31 | HG_MobileSession \<Rightarrow> 32
     | HG_RaidGroup \<Rightarrow> 33 | HG_Spell \<Rightarrow> 34 | HG_Mail \<Rightarrow> 35
     | HG_WebObj \<Rightarrow> 36 | HG_LFGObject \<Rightarrow> 37 | HG_LFGList \<Rightarrow> 38
     | HG_UserRouter \<Rightarrow> 39 | HG_PVPQueueGroup \<Rightarrow> 40
     | HG_UserClient \<Rightarrow> 41 | HG_PetBattle \<Rightarrow> 42
     | HG_UniqUserClient \<Rightarrow> 43 | HG_BattlePet \<Rightarrow> 44
     | HG_CommerceObj \<Rightarrow> 45 | HG_ClientSession \<Rightarrow> 46
     | HG_Cast \<Rightarrow> 47)"

definition all_high :: "HighGuid list" where
  "all_high = [
     HG_Null, HG_Uniq, HG_Player, HG_Item, HG_WorldTransaction, HG_StaticDoor, HG_Transport
     , HG_Conversation, HG_Creature, HG_Vehicle, HG_Pet, HG_GameObject, HG_DynamicObject
     , HG_AreaTrigger, HG_Corpse, HG_LootObject, HG_SceneObject, HG_Scenario, HG_AIGroup
     , HG_DynamicDoor, HG_ClientActor, HG_Vignette, HG_CallForHelp, HG_AIResource, HG_AILock
     , HG_AILockTicket, HG_ChatChannel, HG_Party, HG_Guild, HG_WowAccount, HG_BNetAccount
     , HG_GMTask, HG_MobileSession, HG_RaidGroup, HG_Spell, HG_Mail, HG_WebObj, HG_LFGObject
     , HG_LFGList, HG_UserRouter, HG_PVPQueueGroup, HG_UserClient, HG_PetBattle
     , HG_UniqUserClient, HG_BattlePet, HG_CommerceObj, HG_ClientSession, HG_Cast]"

definition guid_type_names :: "HighGuid \<Rightarrow> string" where
  "guid_type_names h = (case h of
     HG_Null \<Rightarrow> ''Null'' | HG_Uniq \<Rightarrow> ''Uniq''
     | HG_Player \<Rightarrow> ''Player'' | HG_Item \<Rightarrow> ''Item''
     | HG_WorldTransaction \<Rightarrow> ''WorldTransaction''
     | HG_StaticDoor \<Rightarrow> ''StaticDoor'' | HG_Transport \<Rightarrow> ''Transport''
     | HG_Conversation \<Rightarrow> ''Conversation'' | HG_Creature \<Rightarrow> ''Creature''
     | HG_Vehicle \<Rightarrow> ''Vehicle'' | HG_Pet \<Rightarrow> ''Pet''
     | HG_GameObject \<Rightarrow> ''GameObject''
     | HG_DynamicObject \<Rightarrow> ''DynamicObject''
     | HG_AreaTrigger \<Rightarrow> ''AreaTrigger'' | HG_Corpse \<Rightarrow> ''Corpse''
     | HG_LootObject \<Rightarrow> ''LootObject''
     | HG_SceneObject \<Rightarrow> ''SceneObject'' | HG_Scenario \<Rightarrow> ''Scenario''
     | HG_AIGroup \<Rightarrow> ''AIGroup'' | HG_DynamicDoor \<Rightarrow> ''DynamicDoor''
     | HG_ClientActor \<Rightarrow> ''ClientActor'' | HG_Vignette \<Rightarrow> ''Vignette''
     | HG_CallForHelp \<Rightarrow> ''CallForHelp''
     | HG_AIResource \<Rightarrow> ''AIResource'' | HG_AILock \<Rightarrow> ''AILock''
     | HG_AILockTicket \<Rightarrow> ''AILockTicket''
     | HG_ChatChannel \<Rightarrow> ''ChatChannel'' | HG_Party \<Rightarrow> ''Party''
     | HG_Guild \<Rightarrow> ''Guild'' | HG_WowAccount \<Rightarrow> ''WowAccount''
     | HG_BNetAccount \<Rightarrow> ''BNetAccount'' | HG_GMTask \<Rightarrow> ''GMTask''
     | HG_MobileSession \<Rightarrow> ''MobileSession''
     | HG_RaidGroup \<Rightarrow> ''RaidGroup'' | HG_Spell \<Rightarrow> ''Spell''
     | HG_Mail \<Rightarrow> ''Mail'' | HG_WebObj \<Rightarrow> ''WebObj''
     | HG_LFGObject \<Rightarrow> ''LFGObject'' | HG_LFGList \<Rightarrow> ''LFGList''
     | HG_UserRouter \<Rightarrow> ''UserRouter''
     | HG_PVPQueueGroup \<Rightarrow> ''PVPQueueGroup''
     | HG_UserClient \<Rightarrow> ''UserClient'' | HG_PetBattle \<Rightarrow> ''PetBattle''
     | HG_UniqUserClient \<Rightarrow> ''UniqUserClient''
     | HG_BattlePet \<Rightarrow> ''BattlePet'' | HG_CommerceObj \<Rightarrow> ''CommerceObj''
     | HG_ClientSession \<Rightarrow> ''ClientSession'' | HG_Cast \<Rightarrow> ''Cast'')"

text \<open>The traits that decide which constructor a kind may use.\<close>

definition guid_global :: "HighGuid \<Rightarrow> bool" where
  "guid_global h \<longleftrightarrow> h \<in> {HG_Uniq, HG_Party, HG_WowAccount, HG_BNetAccount, HG_GMTask, HG_RaidGroup, HG_Spell
     , HG_Mail, HG_UserRouter, HG_PVPQueueGroup, HG_UserClient, HG_UniqUserClient, HG_BattlePet
     , HG_CommerceObj, HG_ClientSession}"

definition guid_realm_specific :: "HighGuid \<Rightarrow> bool" where
  "guid_realm_specific h \<longleftrightarrow> h \<in> {HG_Player, HG_Item, HG_Guild, HG_Transport}"

definition guid_map_specific :: "HighGuid \<Rightarrow> bool" where
  "guid_map_specific h \<longleftrightarrow> h \<in> {HG_WorldTransaction, HG_Conversation, HG_Creature, HG_Vehicle, HG_Pet, HG_GameObject
     , HG_DynamicObject, HG_AreaTrigger, HG_Corpse, HG_LootObject, HG_SceneObject, HG_Scenario
     , HG_AIGroup, HG_DynamicDoor, HG_Vignette, HG_CallForHelp, HG_AIResource, HG_AILock
     , HG_AILockTicket, HG_Cast, HG_Transport}"

section \<open>Identifiers\<close>

datatype ObjectGuid = ObjectGuid (guid_high: uint64) (guid_low: uint64)

definition GuidEmpty :: ObjectGuid where
  "GuidEmpty = ObjectGuid 0 0"

definition Global :: "HighGuid \<Rightarrow> uint64 \<Rightarrow> ObjectGuid" where
  "Global type counter = ObjectGuid (push_bit 58 (of_nat (high_num type))) counter"

definition RealmSpecific :: "uint32 \<Rightarrow> HighGuid \<Rightarrow> uint64 \<Rightarrow> ObjectGuid" where
  "RealmSpecific realm type counter =
     ObjectGuid (push_bit 58 (of_nat (high_num type)) OR push_bit 42 (ucast realm)) counter"

definition MapSpecific :: "uint32 \<Rightarrow> HighGuid \<Rightarrow> uint8 \<Rightarrow> uint16 \<Rightarrow> uint32 \<Rightarrow> uint32 \<Rightarrow> uint64 \<Rightarrow> ObjectGuid" where
  "MapSpecific realm type subType mapId serverId entry counter =
     ObjectGuid
       (push_bit 58 (of_nat (high_num type)) OR push_bit 42 (ucast (realm AND 0x1FFF)) OR
        push_bit 29 (ucast (mapId AND 0x1FFF)) OR push_bit 6 (ucast (entry AND 0x7FFFFF)) OR
        (ucast subType AND 0x3F))
       (push_bit 40 (ucast (serverId AND 0xFFFFFF)) OR (counter AND 0xFFFFFFFFFF))"

definition TradeItem :: ObjectGuid where
  "TradeItem = Global HG_Uniq 10"

definition GetHigh :: "ObjectGuid \<Rightarrow> nat" where
  "GetHigh g = unat (drop_bit 58 (guid_high g) AND 0x3F)"

definition GetRealmId :: "ObjectGuid \<Rightarrow> uint32" where
  "GetRealmId g = ucast (drop_bit 42 (guid_high g) AND 0x1FFF)"

definition GetMapId :: "ObjectGuid \<Rightarrow> uint32" where
  "GetMapId g = ucast (drop_bit 29 (guid_high g) AND 0x1FFF)"

definition GetEntry :: "ObjectGuid \<Rightarrow> uint32" where
  "GetEntry g = ucast (drop_bit 6 (guid_high g) AND 0x7FFFFF)"

definition GetCounter :: "ObjectGuid \<Rightarrow> uint64" where
  "GetCounter g = guid_low g AND 0x000000FFFFFFFFFF"

definition GetMaxCounter :: "HighGuid \<Rightarrow> uint64" where
  "GetMaxCounter h = 0xFFFFFFFFFF"

definition IsEmpty :: "ObjectGuid \<Rightarrow> bool" where
  "IsEmpty g \<longleftrightarrow> guid_low g = 0 \<and> guid_high g = 0"

definition HasKind :: "HighGuid \<Rightarrow> ObjectGuid \<Rightarrow> bool" where
  "HasKind h g \<longleftrightarrow> GetHigh g = high_num h"

definition IsAnyTypeCreature :: "ObjectGuid \<Rightarrow> bool" where
  "IsAnyTypeCreature g \<longleftrightarrow> HasKind HG_Creature g \<or> HasKind HG_Pet g \<or> HasKind HG_Vehicle g"

definition IsPlayer :: "ObjectGuid \<Rightarrow> bool" where
  "IsPlayer g \<longleftrightarrow> \<not> IsEmpty g \<and> HasKind HG_Player g"

definition IsUnit :: "ObjectGuid \<Rightarrow> bool" where
  "IsUnit g \<longleftrightarrow> IsAnyTypeCreature g \<or> IsPlayer g"

definition IsAnyTypeGameObject :: "ObjectGuid \<Rightarrow> bool" where
  "IsAnyTypeGameObject g \<longleftrightarrow> HasKind HG_GameObject g \<or> HasKind HG_Transport g"

definition GetTypeId :: "nat \<Rightarrow> TypeID" where
  "GetTypeId high =
     (if high = high_num HG_Item then TYPEID_ITEM
      else if high = high_num HG_Creature \<or> high = high_num HG_Pet \<or> high = high_num HG_Vehicle then TYPEID_UNIT
      else if high = high_num HG_Player then TYPEID_PLAYER
      else if high = high_num HG_GameObject \<or> high = high_num HG_Transport then TYPEID_GAMEOBJECT
      else if high = high_num HG_DynamicObject then TYPEID_DYNAMICOBJECT
      else if high = high_num HG_Corpse then TYPEID_CORPSE
      else if high = high_num HG_AreaTrigger then TYPEID_AREATRIGGER
      else if high = high_num HG_SceneObject then TYPEID_SCENEOBJECT
      else if high = high_num HG_Conversation then TYPEID_CONVERSATION
      else TYPEID_OBJECT)"

text \<open>\<^verbatim>\<open>operator<\<close>: the high parts first, then the low ones.\<close>

definition guid_less :: "ObjectGuid \<Rightarrow> ObjectGuid \<Rightarrow> bool" where
  "guid_less a b \<longleftrightarrow>
     (if guid_high a < guid_high b then True
      else if guid_high a > guid_high b then False
      else guid_low a < guid_low b)"

definition GetTypeName :: "nat \<Rightarrow> string" where
  "GetTypeName high = (if high \<ge> length all_high then ''<unknown>'' else guid_type_names (all_high ! high))"

section \<open>Text, hash and raw bytes\<close>

definition hex_digit :: "nat \<Rightarrow> char" where
  "hex_digit d = ''0123456789ABCDEF'' ! d"

definition hex16 :: "uint64 \<Rightarrow> string" where
  "hex16 v = map (\<lambda>i. hex_digit (unat (drop_bit (4 * i) v AND 0xF))) (rev [0..<16])"

fun dec_string :: "nat \<Rightarrow> string" where
  "dec_string n = (if n < 10 then [hex_digit n] else dec_string (n div 10) @ [hex_digit (n mod 10)])"

declare dec_string.simps [simp del]

definition ToString :: "ObjectGuid \<Rightarrow> string" where
  "ToString g =
     ''GUID Full: 0x'' @ hex16 (guid_high g) @ hex16 (guid_low g) @
     '' Type: '' @ (if IsEmpty g then ''None'' else GetTypeName (GetHigh g)) @
     (if HasKind HG_Pet g then '' Pet number: '' else '' Entry: '') @ dec_string (unat (GetEntry g)) @
     '' Low: '' @ dec_string (unat (GetCounter g))"

text \<open>\<^verbatim>\<open>std::hash\<close> is implementation-defined and a parameter.\<close>

definition hash_combine :: "(uint64 \<Rightarrow> uint64) \<Rightarrow> uint64 \<Rightarrow> uint64 \<Rightarrow> uint64" where
  "hash_combine std_hash seed v = seed XOR (std_hash v + 0x9E3779B9 + push_bit 6 seed + drop_bit 2 seed)"

definition GetHash :: "(uint64 \<Rightarrow> uint64) \<Rightarrow> ObjectGuid \<Rightarrow> uint64" where
  "GetHash std_hash g = hash_combine std_hash (hash_combine std_hash 0 (guid_low g)) (guid_high g)"

definition GetRawValue :: "ObjectGuid \<Rightarrow> uint8 list" where
  "GetRawValue g = le_bytes (guid_low g) @ le_bytes (guid_high g)"

definition SetRawValue :: "uint8 list \<Rightarrow> bb_error + ObjectGuid" where
  "SetRawValue raw =
     (if length raw \<noteq> 16 then Inl AssertionFailure
      else Inr (ObjectGuid (of_le_bytes (drop 8 raw)) (of_le_bytes (take 8 raw))))"

section \<open>Identifiers in packets\<close>

definition write_guid :: "ObjectGuid \<Rightarrow> bytebuffer \<Rightarrow> bb_error + bytebuffer" where
  "write_guid g b =
     res_bind (FlushBits b) (\<lambda>b.
     let pos = bb_wpos b in
     res_bind (append_word (0 :: uint8) b) (\<lambda>b.
     res_bind (append_word (0 :: uint8) b) (\<lambda>b.
     let (lowMask, low) = PackUInt64 (guid_low g); (highMask, high) = PackUInt64 (guid_high g) in
     res_bind (if low \<noteq> [] then append_bytes low b else Inr b) (\<lambda>b.
     res_bind (if high \<noteq> [] then append_bytes high b else Inr b) (\<lambda>b.
     res_bind (put_word pos lowMask b) (put_word (sz_add pos 1) highMask))))))"

text \<open>\<^verbatim>\<open>operator>>\<close> reads into an existing identifier, its second argument here.\<close>

definition read_guid :: "bytebuffer \<Rightarrow> ObjectGuid \<Rightarrow> bb_error + ObjectGuid \<times> bytebuffer" where
  "read_guid b g =
     res_bind (read_word b) (\<lambda>(lowMask, b).
     res_bind (read_word b) (\<lambda>(highMask, b).
     res_bind (ReadPackedUInt64_mask lowMask (guid_low g) b) (\<lambda>(low, b).
     res_bind (ReadPackedUInt64_mask highMask (guid_high g) b) (\<lambda>(high, b).
     Inr (ObjectGuid high low, b)))))"

section \<open>Generators of counters\<close>

record guid_generator =
  nextGuid :: uint64
  world_stopped :: bool

definition ObjectGuidGenerator :: "uint64 \<Rightarrow> guid_generator" where
  "ObjectGuidGenerator start = \<lparr>nextGuid = start, world_stopped = False\<rparr>"

definition HandleCounterOverflow :: "guid_generator \<Rightarrow> guid_generator" where
  "HandleCounterOverflow s = s\<lparr>world_stopped := True\<rparr>"

definition Generate :: "HighGuid \<Rightarrow> guid_generator \<Rightarrow> uint64 \<times> guid_generator" where
  "Generate h s =
     (let s = (if nextGuid s \<ge> GetMaxCounter h - 1 then HandleCounterOverflow s else s)
      in (nextGuid s, s\<lparr>nextGuid := nextGuid s + 1\<rparr>))"

fun generate_many :: "HighGuid \<Rightarrow> nat \<Rightarrow> guid_generator \<Rightarrow> uint64 list \<times> guid_generator" where
  "generate_many h 0 s = ([], s)"
| "generate_many h (Suc n) s =
     (let (c, s) = Generate h s; (cs, s) = generate_many h n s in (c # cs, s))"


section \<open>Fields of an identifier\<close>

lemma high_num_bound: "high_num h < 48"
  by (cases h) (simp_all add: high_num_def)

lemma all_high_nth: "all_high ! high_num h = h"
  by (cases h) (simp_all add: all_high_def high_num_def)

lemma high_num_inject [simp]: "high_num a = high_num b \<longleftrightarrow> a = b"
  by (metis all_high_nth)

lemma guid_masks:
  "(0x3F :: uint64) = mask 6" "(0x1FFF :: 'a::len word) = mask 13" "(0x7FFFFF :: 'a word) = mask 23"
  "(0xFFFFFF :: 'a word) = mask 24" "(0xFFFFFFFFFF :: uint64) = mask 40"
  by (simp_all add: mask_eq_exp_minus_1)

lemma bit_high_num: "bit (high_num h) k \<Longrightarrow> k < 6"
proof -
  assume k: "bit (high_num h) k"
  have "take_bit 6 (high_num h) = high_num h"
    using high_num_bound [of h] by (intro take_bit_nat_eq_self) simp
  with k show ?thesis by (metis bit_take_bit_iff)
qed

lemma unat_high_num [simp]: "unat (of_nat (high_num h) :: uint64) = high_num h"
proof -
  have "take_bit 64 (high_num h) = high_num h"
    using high_num_bound [of h] by (intro take_bit_nat_eq_self) simp
  then show ?thesis by (simp add: unsigned_of_nat)
qed

lemmas guid_fields = GetHigh_def GetRealmId_def GetMapId_def GetEntry_def GetCounter_def

text \<open>an identifier of a map-specific object keeps its fields apart. Packing a kind, a sub-type, a
  map, an entry and a counter with MapSpecific and taking them out with the accessors gives back the
  kind itself and every other field truncated to its width: 13 bits of realm and of map, 23 bits of
  entry, 40 bits of counter.\<close>

theorem MapSpecific_fields:
  "GetHigh (MapSpecific realm type subType mapId serverId entry counter) = high_num type \<and>
   GetRealmId (MapSpecific realm type subType mapId serverId entry counter) = take_bit 13 realm \<and>
   GetMapId (MapSpecific realm type subType mapId serverId entry counter) = ucast (take_bit 13 mapId) \<and>
   GetEntry (MapSpecific realm type subType mapId serverId entry counter) = take_bit 23 entry \<and>
   GetCounter (MapSpecific realm type subType mapId serverId entry counter) = take_bit 40 counter"
    (is "?high \<and> ?realm \<and> ?map \<and> ?entry \<and> ?counter")
proof (intro conjI)
  have "drop_bit 58 (guid_high (MapSpecific realm type subType mapId serverId entry counter)) AND mask 6
      = of_nat (high_num type)"
    by (rule bit_word_eqI) (auto simp: MapSpecific_def guid_masks bit_simps dest: bit_high_num)
  then show ?high by (simp add: GetHigh_def guid_masks)
  show ?realm
    by (rule bit_word_eqI) (auto simp: guid_fields MapSpecific_def guid_masks bit_simps dest: bit_high_num)
  show ?map
    by (rule bit_word_eqI) (auto simp: guid_fields MapSpecific_def guid_masks bit_simps dest: bit_high_num)
  show ?entry
    by (rule bit_word_eqI) (auto simp: guid_fields MapSpecific_def guid_masks bit_simps dest: bit_high_num)
  show ?counter
    by (rule bit_word_eqI) (auto simp: guid_fields MapSpecific_def guid_masks bit_simps)
qed


text \<open>What RealmSpecific does to the kind. The realm number is not truncated before it is shifted
  into place, so its bits from the sixteenth on land in the six bits of the kind: the kind read back
  is the intended one joined bitwise with the upper part of the realm number, and it is the intended
  one for every counter when the realm number is below 65536.\<close>

theorem RealmSpecific_kind:
  "GetHigh (RealmSpecific realm type counter) = high_num type OR take_bit 6 (drop_bit 16 (unat realm)) \<and>
   (realm < 65536 \<longrightarrow> GetHigh (RealmSpecific realm type counter) = high_num type) \<and>
   GetRealmId (RealmSpecific realm type counter) = take_bit 13 realm \<and>
   GetCounter (RealmSpecific realm type counter) = take_bit 40 counter"
    (is "?high \<and> ?small \<and> ?realm \<and> ?counter")
proof (intro conjI impI)
  have "drop_bit 58 (guid_high (RealmSpecific realm type counter)) AND mask 6
      = of_nat (high_num type OR take_bit 6 (drop_bit 16 (unat realm)))"
    by (rule bit_word_eqI) (auto simp: RealmSpecific_def guid_masks bit_simps dest: bit_high_num)
  moreover have "high_num type OR take_bit 6 (drop_bit 16 (unat realm)) < 2 ^ 6"
  proof -
    have "take_bit 6 (high_num type) = high_num type"
      using high_num_bound [of type] by (intro take_bit_nat_eq_self) simp
    then have "take_bit 6 (high_num type OR take_bit 6 (drop_bit 16 (unat realm)))
        = high_num type OR take_bit 6 (drop_bit 16 (unat realm))"
      by (simp only: take_bit_or take_bit_take_bit min.idem)
    then show ?thesis by (simp only: take_bit_nat_eq_self_iff)
  qed
  moreover have "take_bit 64 (high_num type) = high_num type"
    using high_num_bound [of type] by (intro take_bit_nat_eq_self) simp
  ultimately show ?high by (simp add: GetHigh_def guid_masks unsigned_of_nat)
  then show "GetHigh (RealmSpecific realm type counter) = high_num type" if "realm < 65536"
    using that by (simp add: drop_bit_eq_div word_less_nat_alt)
  show ?realm
    by (rule bit_word_eqI) (auto simp: guid_fields RealmSpecific_def guid_masks bit_simps dest: bit_high_num)
  show ?counter
    by (rule bit_word_eqI) (auto simp: guid_fields RealmSpecific_def guid_masks bit_simps)
qed

theorem RealmSpecific_kind_witness:
  "GetHigh (RealmSpecific 7 HG_Player 1) = high_num HG_Player \<and>
   GetHigh (RealmSpecific 65536 HG_Player 1) = high_num HG_Item"
  using RealmSpecific_kind [of 7 HG_Player 1] RealmSpecific_kind [of 65536 HG_Player 1]
  by (simp add: high_num_def drop_bit_eq_div)

text \<open>Raw bytes.\<close>

text \<open>SetRawValue undoes GetRawValue, and fails its assertion on any other number of bytes than
  sixteen.\<close>

theorem raw_value_roundtrip:
  "SetRawValue (GetRawValue g) = Inr g \<and> (\<exists>g. SetRawValue raw = Inr g) = (length raw = 16)"
  by (cases g) (auto simp: SetRawValue_def GetRawValue_def)

section \<open>Order\<close>

instantiation ObjectGuid :: linorder
begin

definition less_ObjectGuid :: "ObjectGuid \<Rightarrow> ObjectGuid \<Rightarrow> bool" where
  "a < b \<longleftrightarrow> guid_less a b"

definition less_eq_ObjectGuid :: "ObjectGuid \<Rightarrow> ObjectGuid \<Rightarrow> bool" where
  "a \<le> b \<longleftrightarrow> guid_less a b \<or> a = b"

instance
proof
  fix a b c :: ObjectGuid
  show "a < b \<longleftrightarrow> a \<le> b \<and> \<not> b \<le> a"
    by (auto simp: less_ObjectGuid_def less_eq_ObjectGuid_def guid_less_def split: if_splits)
  show "a \<le> a" by (simp add: less_eq_ObjectGuid_def)
  show "a \<le> b \<Longrightarrow> b \<le> c \<Longrightarrow> a \<le> c"
    by (auto simp: less_eq_ObjectGuid_def guid_less_def split: if_splits)
  show "a \<le> b \<Longrightarrow> b \<le> a \<Longrightarrow> a = b"
    by (auto simp: less_eq_ObjectGuid_def guid_less_def split: if_splits)
  show "a \<le> b \<or> b \<le> a"
    by (cases a; cases b) (auto simp: less_eq_ObjectGuid_def guid_less_def)
qed

end

definition guid_value :: "ObjectGuid \<Rightarrow> nat" where
  "guid_value g = unat (guid_high g) * 2 ^ 64 + unat (guid_low g)"

lemma less_of_digits: "(h :: nat) < h' \<Longrightarrow> l < 2 ^ 64 \<Longrightarrow> h * 2 ^ 64 + l < h' * 2 ^ 64 + l'"
  by simp

text \<open>C40: identifiers are ordered like the 128-bit numbers they are, so ordered containers keyed by
  them have a total order.\<close>

theorem guid_less_value: "guid_less a b \<longleftrightarrow> guid_value a < guid_value b"
proof -
  have l: "unat (guid_low a) < 2 ^ 64" "unat (guid_low b) < 2 ^ 64"
    using unsigned_less [of "guid_low a"] unsigned_less [of "guid_low b"] by simp_all
  consider "unat (guid_high a) < unat (guid_high b)" | "unat (guid_high b) < unat (guid_high a)"
    | "unat (guid_high a) = unat (guid_high b)" by linarith
  then show ?thesis
  proof cases
    case 1
    with less_of_digits [OF 1 l(1)] show ?thesis by (simp add: guid_less_def guid_value_def word_less_nat_alt)
  next
    case 2
    with less_of_digits [OF 2 l(2), of "unat (guid_low a)"] show ?thesis
      by (simp add: guid_less_def guid_value_def word_less_nat_alt)
  next
    case 3
    then show ?thesis by (simp add: guid_less_def guid_value_def word_less_nat_alt)
  qed
qed


section \<open>Round trip through a packet\<close>

abbreviation guid_image :: "ObjectGuid \<Rightarrow> uint8 list" where
  "guid_image g \<equiv> packed_mask (guid_low g) # packed_mask (guid_high g) #
     packed_bytes (guid_low g) @ packed_bytes (guid_high g)"

lemma write_guid_clean:
  assumes "bb_bitpos b = 8" "bb_wpos b = bb_size b" "bb_size b < 9999900"
  shows "write_guid g b = Inr (b\<lparr>bb_storage := bb_storage b @ guid_image g,
            bb_wpos := bb_size b + length (guid_image g)\<rparr>)"
proof -
  let ?l = "packed_bytes (guid_low g)" and ?h = "packed_bytes (guid_high g)"
  have len: "length ?l \<le> 8" "length ?h \<le> 8" by (rule length_packed_bytes)+
  have put: "sz_add (bb_size b) 1 = bb_size b + 1" using assms(3) by simp
  show ?thesis
    using assms len
    by (simp only: write_guid_def FlushBits_def Let_def if_True res_bind_simps PackUInt64_eq case_prod_conv)
       (simp add: append_word_def append_bytes_clean append_if_clean put put_word_def put_bytes_def
          del: length_map)
qed

lemma read_guid_layout:
  assumes "bb_storage r = pre @ guid_image g @ rest" "bb_rpos r = length pre" "bb_size r < 2 ^ 63"
  shows "\<exists>r'. read_guid r g0 = Inr (ObjectGuid (guid_high g0 OR guid_high g) (guid_low g0 OR guid_low g), r')
     \<and> bb_rpos r' = length pre + length (guid_image g)"
proof -
  let ?r1 = "(ResetBitPos r)\<lparr>bb_rpos := Suc (bb_rpos r)\<rparr>"
  let ?r2 = "(ResetBitPos ?r1)\<lparr>bb_rpos := Suc (bb_rpos ?r1)\<rparr>"
  have 1: "read_word r = Inr (packed_mask (guid_low g), ?r1)"
    using read_uint8 [of r] assms by (simp add: nth_append)
  have 2: "read_word ?r1 = Inr (packed_mask (guid_high g), ?r2)"
    using read_uint8 [of ?r1] assms by (simp add: nth_append)
  obtain r3 where 3: "ReadPackedUInt64_mask (packed_mask (guid_low g)) (guid_low g0) ?r2
      = Inr (guid_low g0 OR guid_low g, r3)" "bb_storage r3 = bb_storage r"
      "bb_rpos r3 = length pre + 2 + length (packed_bytes (guid_low g))"
    using ReadPackedUInt64_mask_eq [of ?r2 "guid_low g" "packed_bytes (guid_high g) @ rest" "guid_low g0"] assms
    by auto
  obtain r4 where 4: "ReadPackedUInt64_mask (packed_mask (guid_high g)) (guid_high g0) r3
      = Inr (guid_high g0 OR guid_high g, r4)"
      "bb_rpos r4 = length pre + 2 + length (packed_bytes (guid_low g)) + length (packed_bytes (guid_high g))"
    using ReadPackedUInt64_mask_eq [of r3 "guid_high g" rest "guid_high g0"] assms 3 by auto
  then show ?thesis by (simp only: read_guid_def 1 2 3 4(1) res_bind_simps prod.case) simp
qed


text \<open>C28: identifiers survive the wire. Writing an identifier to a buffer, also one with pending bits,
  which are flushed first, succeeds and appends at most eighteen bytes; reading them back at that
  place yields the identifier joined bitwise with whatever the receiving variable held: the
  identifier itself when that variable was empty.\<close>

theorem guid_roundtrip:
  assumes "writable 1000 b"
  shows "\<exists>f b' r. FlushBits b = Inr f \<and> write_guid g b = Inr b' \<and>
     bb_size b' \<le> bb_size f + 18 \<and> take (bb_size f) (bb_storage b') = bb_storage f \<and>
     read_guid ((ByteBuffer_of_message (bb_storage b'))\<lparr>bb_rpos := bb_size f\<rparr>) g0
       = Inr (ObjectGuid (guid_high g0 OR guid_high g) (guid_low g0 OR guid_low g), r) \<and>
     bb_rpos r = bb_size b' \<and>
     (g0 = GuidEmpty \<longrightarrow> ObjectGuid (guid_high g0 OR guid_high g) (guid_low g0 OR guid_low g) = g)"
proof -
  from assms have "writable 8 b" by (auto simp: writable_def)
  then obtain f where f: "FlushBits b = Inr f" "bb_bitpos f = 8" "bb_wpos f = bb_size f" "bb_size f \<le> Suc (bb_size b)"
    using FlushBits_written by blast
  from f(4) assms have small: "bb_size f < 9999900" by (simp add: writable_def)
  let ?b = "f\<lparr>bb_storage := bb_storage f @ guid_image g, bb_wpos := bb_size f + length (guid_image g)\<rparr>"
  have w: "write_guid g b = Inr ?b"
    using write_guid_clean [OF f(2,3) small, of g] f(1,2) by (simp add: write_guid_def FlushBits_def)
  let ?r = "(ByteBuffer_of_message (bb_storage ?b))\<lparr>bb_rpos := bb_size f\<rparr>"
  have len: "length (guid_image g) \<le> 18"
    using length_packed_bytes [of "guid_low g"] length_packed_bytes [of "guid_high g"] by simp
  then have "bb_storage ?r = bb_storage f @ guid_image g @ []" "bb_rpos ?r = bb_size f" "bb_size ?r < 2 ^ 63"
    using small by (simp_all add: ByteBuffer_of_message_def)
  from read_guid_layout [OF this, of g0] obtain r where "read_guid ?r g0
       = Inr (ObjectGuid (guid_high g0 OR guid_high g) (guid_low g0 OR guid_low g), r)"
      "bb_rpos r = bb_size ?b" by auto
  with f(1) w len show ?thesis
    by (intro exI [of _ f] exI [of _ ?b] exI [of _ r]) (simp add: GuidEmpty_def)
qed

theorem guid_roundtrip_witness:
  "\<exists>f b' r. FlushBits ByteBuffer = Inr f \<and> write_guid (Global HG_Party 77) ByteBuffer = Inr b' \<and>
     bb_size b' \<le> bb_size f + 18 \<and> take (bb_size f) (bb_storage b') = bb_storage f \<and>
     read_guid ((ByteBuffer_of_message (bb_storage b'))\<lparr>bb_rpos := bb_size f\<rparr>) GuidEmpty
       = Inr (Global HG_Party 77, r) \<and> bb_rpos r = bb_size b'"
  using guid_roundtrip [OF ByteBuffer_writable, of "Global HG_Party 77" GuidEmpty] by auto

section \<open>Generated counters are fresh\<close>

lemma Generate_simps [simp]:
  "fst (Generate h s) = nextGuid s"
  "nextGuid (snd (Generate h s)) = nextGuid s + 1"
  "world_stopped (snd (Generate h s)) \<longleftrightarrow> world_stopped s \<or> nextGuid s \<ge> GetMaxCounter h - 1"
  by (auto simp: Generate_def HandleCounterOverflow_def Let_def)

lemma generate_many_eq:
  "generate_many h n s = (map (\<lambda>i. nextGuid s + of_nat i) [0..<n],
     s\<lparr>nextGuid := nextGuid s + of_nat n, world_stopped := world_stopped s \<or>
        (\<exists>i<n. nextGuid s + of_nat i \<ge> GetMaxCounter h - 1)\<rparr>)"
proof (induction n arbitrary: s)
  case (Suc n)
  obtain c t where ct: "Generate h s = (c, t)" by force
  have t: "c = nextGuid s" "nextGuid t = nextGuid s + 1"
    "world_stopped t \<longleftrightarrow> world_stopped s \<or> nextGuid s \<ge> GetMaxCounter h - 1"
    using Generate_simps [of h s] ct by auto
  have list: "map (\<lambda>i. nextGuid s + of_nat i) [0..<Suc n]
      = nextGuid s # map (\<lambda>i. nextGuid t + of_nat i) [0..<n]"
    by (simp add: t upt_conv_Cons map_Suc_upt [symmetric] add.assoc comp_def del: upt_Suc)
  have ex: "(\<exists>i<Suc n. nextGuid s + of_nat i \<ge> GetMaxCounter h - 1) \<longleftrightarrow>
      nextGuid s \<ge> GetMaxCounter h - 1 \<or> (\<exists>i<n. nextGuid t + of_nat i \<ge> GetMaxCounter h - 1)"
    by (simp add: t Ex_less_Suc2 add.assoc)
  have "generate_many h (Suc n) s = (nextGuid s # map (\<lambda>i. nextGuid t + of_nat i) [0..<n],
     t\<lparr>nextGuid := nextGuid t + of_nat n, world_stopped := world_stopped t \<or>
        (\<exists>i<n. nextGuid t + of_nat i \<ge> GetMaxCounter h - 1)\<rparr>)"
    by (simp add: ct Suc.IH t)
  also have "\<dots> = (map (\<lambda>i. nextGuid s + of_nat i) [0..<Suc n],
     s\<lparr>nextGuid := nextGuid s + of_nat (Suc n), world_stopped := world_stopped s \<or>
        (\<exists>i<Suc n. nextGuid s + of_nat i \<ge> GetMaxCounter h - 1)\<rparr>)"
    unfolding list ex by (cases s; cases t) (use t in \<open>auto simp: add.assoc\<close>)
  finally show ?case .
qed simp

text \<open>A generator hands out fresh counters. As long as the 64-bit counter does not wrap, any number
  of calls of Generate yields consecutive, pairwise different counters beginning with the start
  value; the server is told to stop exactly when one of them reached the last but one value the
  40-bit field of an identifier can hold, and until then no two generated identifiers of one kind and
  place are equal.\<close>

theorem generated_counters_fresh:
  assumes "unat start + n < 2 ^ 64"
    and "generate_many h n (ObjectGuidGenerator start) = (cs, s)"
  shows "cs = map (\<lambda>i. start + of_nat i) [0..<n] \<and> distinct cs \<and>
    (world_stopped s \<longleftrightarrow> (\<exists>c \<in> set cs. unat c \<ge> 2 ^ 40 - 2)) \<and>
    (\<not> world_stopped s \<longrightarrow> distinct (map (MapSpecific realm h sub m srv e) cs))"
proof -
  have cs: "cs = map (\<lambda>i. start + of_nat i) [0..<n]"
    and s: "world_stopped s \<longleftrightarrow> (\<exists>i<n. start + of_nat i \<ge> GetMaxCounter h - 1)"
    using assms(2) by (auto simp: generate_many_eq ObjectGuidGenerator_def)
  have u: "unat (start + of_nat i) = unat start + i" if "i < n" for i
    using that assms(1) by (simp add: unat_word_ariths unsigned_of_nat take_bit_nat_eq_self)
  have inj: "inj_on (\<lambda>i. start + of_nat i :: uint64) {..<n}"
    by (rule inj_onI) (metis u add_left_cancel lessThan_iff)
  then have d: "distinct cs" by (simp add: cs distinct_map atLeast0LessThan)
  have max: "GetMaxCounter h - 1 \<le> c \<longleftrightarrow> unat c \<ge> 2 ^ 40 - 2" for c
    by (simp add: GetMaxCounter_def word_le_nat_alt)
  have stop: "world_stopped s \<longleftrightarrow> (\<exists>c \<in> set cs. unat c \<ge> 2 ^ 40 - 2)"
    unfolding s max cs by auto
  have "distinct (map (MapSpecific realm h sub m srv e) cs)" if "\<not> world_stopped s"
  proof -
    have small: "take_bit 40 c = c" if "c \<in> set cs" for c
      using that \<open>\<not> world_stopped s\<close> stop
      by (intro word_unat_eq_iff [THEN iffD2])
         (fastforce simp: unsigned_take_bit_eq not_le intro!: take_bit_nat_eq_self)
    have "inj_on (MapSpecific realm h sub m srv e) (set cs)"
      by (rule inj_onI) (metis MapSpecific_fields small)
    with d show ?thesis by (simp add: distinct_map)
  qed
  with cs d stop show ?thesis by blast
qed

theorem generated_counters_fresh_witness:
  "distinct (map (MapSpecific 1 HG_Creature 0 571 0 100) (fst (generate_many HG_Creature 3 (ObjectGuidGenerator 1))))"
proof -
  have "generate_many HG_Creature 3 (ObjectGuidGenerator 1)
      = ([1, 2, 3], \<lparr>nextGuid = 4, world_stopped = False\<rparr>)"
    by code_simp
  with generated_counters_fresh [OF _ this, of 1 0 571 0 100] show ?thesis by auto
qed

end
