(* ===== verification/Timer_Store.thy ===== *)
theory Timer_Store
  imports Prelude
begin

text \<open>
  The contract shared by the server's timer queues (script event maps, the event processor of
  world objects, the task scheduler): entries are kept in a multi-map ordered by their time; an
  entry is added behind the entries of the same time, entries are dropped by a condition on their
  payload. The lemmas here are proved once and used through the interpretations in the theories of
  the three queues.
\<close>

locale timer_store =
  fixes store :: "'s \<Rightarrow> ('t::linorder \<times> 'e) list"
    and add :: "'t \<Rightarrow> 'e \<Rightarrow> 's \<Rightarrow> 's"
    and drop_if :: "('e \<Rightarrow> bool) \<Rightarrow> 's \<Rightarrow> 's"
  assumes store_add: "store (add t e s) = mm_insert t e (store s)"
    and store_drop: "store (drop_if P s) = filter (\<lambda>(t, e). \<not> P e) (store s)"
begin

abbreviation ordered :: "'s \<Rightarrow> bool" where
  "ordered s \<equiv> mm_sorted (store s)"

lemma ordered_add: "ordered s \<Longrightarrow> ordered (add t e s)"
  by (simp add: store_add)

lemma ordered_drop: "ordered s \<Longrightarrow> ordered (drop_if P s)"
  by (simp add: store_drop)

lemma ordered_fold_add: "ordered s \<Longrightarrow> ordered (fold (\<lambda>(t, e). add t e) xs s)"
  by (induction xs arbitrary: s) (auto split: prod.splits intro: ordered_add)

lemma head_is_earliest:
  "ordered s \<Longrightarrow> store s = (t, e) # rest \<Longrightarrow> (t', e') \<in> set rest \<Longrightarrow> t \<le> t'"
  by (force simp: store_add)

lemma drop_keeps_others: "\<not> P e \<Longrightarrow> (t, e) \<in> set (store (drop_if P s)) \<longleftrightarrow> (t, e) \<in> set (store s)"
  by (auto simp: store_drop)

lemma drop_removes: "(t, e) \<in> set (store (drop_if P s)) \<Longrightarrow> \<not> P e"
  by (auto simp: store_drop)

lemma add_then_drop: "P e \<Longrightarrow> store (drop_if P (add t e s)) = store (drop_if P s)"
  by (simp add: store_add store_drop mm_insert_filter_other)

text \<open>Entries of one time are served in the order in which they were added.\<close>

lemma fifo: "ordered s \<Longrightarrow> filter (\<lambda>(t', _). t' = t) (store (add t e s))
    = filter (\<lambda>(t', _). t' = t) (store s) @ [(t, e)]"
  by (simp add: store_add mm_insert_stable)

end

text \<open>
  Taking a sub-sequence of entries out of an ordered store and adding it again with other times,
  as the delay operations do.
\<close>

definition retime :: "('e \<Rightarrow> bool) \<Rightarrow> ('t \<Rightarrow> 't) \<Rightarrow> ('t::linorder \<times> 'e) list \<Rightarrow> ('t \<times> 'e) list" where
  "retime P f m = mm_insert_all
     (mm_insert_all (map (\<lambda>(t, e). (f t, e)) (filter (\<lambda>(t, e). P e) m)) [])
     (filter (\<lambda>(t, e). \<not> P e) m)"

lemma sorted_retime [simp]: "mm_sorted m \<Longrightarrow> mm_sorted (retime P f m)"
  by (simp add: retime_def)

lemma mset_retime: "mset (retime P f m) = image_mset (\<lambda>(t, e). (if P e then f t else t, e)) (mset m)"
proof -
  have "mset (map (\<lambda>(t, e). (f t, e)) (filter (\<lambda>(t, e). P e) m)) + mset (filter (\<lambda>(t, e). \<not> P e) m)
      = image_mset (\<lambda>(t, e). (if P e then f t else t, e)) (mset m)"
    by (induction m) (auto split: prod.splits)
  then show ?thesis by (simp add: retime_def)
qed

lemma retime_none: "\<forall>(t, e) \<in> set m. \<not> P e \<Longrightarrow> retime P f m = m"
proof -
  assume a: "\<forall>(t, e) \<in> set m. \<not> P e"
  then have "filter (\<lambda>(t, e). P e) m = []" "filter (\<lambda>(t, e). \<not> P e) m = m"
    by (auto simp: filter_empty_conv filter_id_conv)
  then show ?thesis by (simp add: retime_def)
qed

lemma set_retime: "set (retime P f m) = (\<lambda>(t, e). (if P e then f t else t, e)) ` set m"
  using arg_cong [OF mset_retime, of set_mset P f m] by simp

end
