(* ===== verification/Event_Map.thy ===== *)
theory Event_Map
  imports Timer_Store
begin

text \<open>
  The event maps of creature scripts, \<^verbatim>\<open>src/src/common/Utilities/EventMap.{h,cpp}\<close>: a stopwatch, a
  mask of active phases, and events ordered by the time at which they fall due. An event is a 64-bit
  number: its identifier in the low half, group bits from 32 on, phase bits from 48 on. The random
  number generator is a parameter of the operations that draw a delay.
\<close>

unbundle bit_operations_syntax

section \<open>State and operations\<close>

record event_map =
  em_time :: uint32
  em_phase :: uint16
  em_store :: "(uint32 \<times> uint64) list"
  em_last :: uint64

definition EventMap :: event_map where
  "EventMap = \<lparr>em_time = 0, em_phase = 0, em_store = [], em_last = 0\<rparr>"

definition em_Reset :: "event_map \<Rightarrow> event_map" where
  "em_Reset m = m\<lparr>em_store := [], em_time := 0, em_phase := 0\<rparr>"

definition em_Update :: "uint32 \<Rightarrow> event_map \<Rightarrow> event_map" where
  "em_Update t m = m\<lparr>em_time := em_time m + t\<rparr>"

definition em_GetPhaseMask :: "event_map \<Rightarrow> uint8" where
  "em_GetPhaseMask m = ucast (em_phase m)"

definition em_SetPhase :: "uint16 \<Rightarrow> event_map \<Rightarrow> event_map" where
  "em_SetPhase p m =
     (if p = 0 then m\<lparr>em_phase := 0\<rparr>
      else if p \<le> 16 then m\<lparr>em_phase := push_bit (unat p - 1) 1\<rparr>
      else m)"

definition em_AddPhase :: "uint16 \<Rightarrow> event_map \<Rightarrow> event_map" where
  "em_AddPhase p m =
     (if p \<noteq> 0 \<and> p \<le> 16 then m\<lparr>em_phase := em_phase m OR push_bit (unat p - 1) 1\<rparr> else m)"

definition em_RemovePhase :: "uint16 \<Rightarrow> event_map \<Rightarrow> event_map" where
  "em_RemovePhase p m =
     (if p \<noteq> 0 \<and> p \<le> 16 then m\<lparr>em_phase := em_phase m AND NOT (push_bit (unat p - 1) 1)\<rparr> else m)"

definition em_IsInPhase :: "uint16 \<Rightarrow> event_map \<Rightarrow> bool" where
  "em_IsInPhase p m \<longleftrightarrow> p \<le> 16 \<and> (p = 0 \<or> em_phase m AND push_bit (unat p - 1) 1 \<noteq> 0)"

text \<open>The identifier part of an event.\<close>

definition event_id :: "uint64 \<Rightarrow> uint32" where
  "event_id e = ucast (e AND 0x00000000FFFFFFFF)"

definition em_HasEvent :: "uint32 \<Rightarrow> event_map \<Rightarrow> bool" where
  "em_HasEvent i m \<longleftrightarrow> (\<exists>(t, e) \<in> set (em_store m). event_id e = i)"

definition em_insert :: "uint32 \<Rightarrow> uint64 \<Rightarrow> event_map \<Rightarrow> event_map" where
  "em_insert t e m = m\<lparr>em_store := mm_insert t e (em_store m)\<rparr>"

text \<open>
  \<^verbatim>\<open>ScheduleEvent\<close>: the group and phase bits are joined to the parameter \<^verbatim>\<open>eventId\<close>, whose
  type is \<^verbatim>\<open>uint32\<close>; each compound assignment computes in 64 bits and stores 32.
\<close>

definition em_ScheduleEvent :: "uint32 \<Rightarrow> uint32 \<Rightarrow> uint16 \<Rightarrow> uint16 \<Rightarrow> event_map \<Rightarrow> event_map" where
  "em_ScheduleEvent eventId time grp phase m =
     (let eventId1 = (if grp \<noteq> 0 \<and> grp < 16
                      then ucast ((ucast eventId :: uint64) OR push_bit (unat grp + 31) 1) else eventId);
          eventId2 = (if phase \<noteq> 0 \<and> phase < 16
                      then ucast ((ucast eventId1 :: uint64) OR push_bit (unat phase + 47) 1) else eventId1)
      in em_insert (em_time m + time) (ucast (eventId2 :: uint32)) m)"

definition em_ScheduleEvent_range ::
    "(uint32 \<Rightarrow> uint32 \<Rightarrow> uint32) \<Rightarrow> uint32 \<Rightarrow> uint32 \<Rightarrow> uint32 \<Rightarrow> uint16 \<Rightarrow> uint16 \<Rightarrow> event_map \<Rightarrow> event_map" where
  "em_ScheduleEvent_range urand eventId minTime maxTime grp phase =
     em_ScheduleEvent eventId (urand minTime maxTime) grp phase"

definition em_erase_if :: "(uint64 \<Rightarrow> bool) \<Rightarrow> event_map \<Rightarrow> event_map" where
  "em_erase_if P m = m\<lparr>em_store := filter (\<lambda>(t, e). \<not> P e) (em_store m)\<rparr>"

definition em_CancelEvent :: "uint32 \<Rightarrow> event_map \<Rightarrow> event_map" where
  "em_CancelEvent eventId m = (if em_store m = [] then m else em_erase_if (\<lambda>e. eventId = event_id e) m)"

definition em_RescheduleEvent :: "uint32 \<Rightarrow> uint32 \<Rightarrow> uint16 \<Rightarrow> uint16 \<Rightarrow> event_map \<Rightarrow> event_map" where
  "em_RescheduleEvent eventId time grp phase m =
     em_ScheduleEvent eventId time grp phase (em_CancelEvent eventId m)"

definition em_RescheduleEvent_range ::
    "(uint32 \<Rightarrow> uint32 \<Rightarrow> uint32) \<Rightarrow> uint32 \<Rightarrow> uint32 \<Rightarrow> uint32 \<Rightarrow> uint16 \<Rightarrow> uint16 \<Rightarrow> event_map \<Rightarrow> event_map" where
  "em_RescheduleEvent_range urand eventId minTime maxTime grp phase =
     em_RescheduleEvent eventId (urand minTime maxTime) grp phase"

definition in_group :: "uint16 \<Rightarrow> uint64 \<Rightarrow> bool" where
  "in_group grp e \<longleftrightarrow> e AND push_bit (unat grp + 31) 1 \<noteq> 0"

definition em_CancelEventGroup :: "uint16 \<Rightarrow> event_map \<Rightarrow> event_map" where
  "em_CancelEventGroup grp m =
     (if grp = 0 \<or> 16 < grp \<or> em_store m = [] then m else em_erase_if (in_group grp) m)"

definition em_Repeat :: "uint32 \<Rightarrow> event_map \<Rightarrow> event_map" where
  "em_Repeat time m = em_insert (em_time m + time) (em_last m) m"

definition em_Repeat_range :: "(uint32 \<Rightarrow> uint32 \<Rightarrow> uint32) \<Rightarrow> uint32 \<Rightarrow> uint32 \<Rightarrow> event_map \<Rightarrow> event_map" where
  "em_Repeat_range urand minTime maxTime = em_Repeat (urand minTime maxTime)"

definition em_ScheduleNextEvent :: "uint32 \<Rightarrow> event_map \<Rightarrow> event_map" where
  "em_ScheduleNextEvent time m = em_insert (em_time m + time) (em_last m + 1) m"

definition em_ScheduleNextEvent_range ::
    "(uint32 \<Rightarrow> uint32 \<Rightarrow> uint32) \<Rightarrow> uint32 \<Rightarrow> uint32 \<Rightarrow> event_map \<Rightarrow> event_map" where
  "em_ScheduleNextEvent_range urand minTime maxTime = em_ScheduleNextEvent (urand minTime maxTime)"

text \<open>The overload of \<^verbatim>\<open>ScheduleNextEvent\<close> for durations.\<close>

definition em_ScheduleNextEvent_ms :: "uint32 \<Rightarrow> event_map \<Rightarrow> event_map" where
  "em_ScheduleNextEvent_ms time = em_Repeat time"

text \<open>An event that is due but belongs to phases none of which is active.\<close>

definition suppressed :: "uint16 \<Rightarrow> uint64 \<Rightarrow> bool" where
  "suppressed phase e \<longleftrightarrow> phase \<noteq> 0 \<and> e AND 0xFFFF000000000000 \<noteq> 0 \<and> drop_bit 48 e AND ucast phase = 0"

fun execute_loop :: "uint32 \<Rightarrow> uint16 \<Rightarrow> (uint32 \<times> uint64) list \<Rightarrow> uint64 \<Rightarrow> uint32 \<times> (uint32 \<times> uint64) list \<times> uint64" where
  "execute_loop time phase [] lst = (0, [], lst)"
| "execute_loop time phase ((t, e) # m) lst =
     (if t > time then (0, (t, e) # m, lst)
      else if suppressed phase e then execute_loop time phase m lst
      else (event_id e, m, e))"

definition em_ExecuteEvent :: "event_map \<Rightarrow> uint32 \<times> event_map" where
  "em_ExecuteEvent m =
     (let (eventId, st, lst) = execute_loop (em_time m) (em_phase m) (em_store m) (em_last m)
      in (eventId, m\<lparr>em_store := st, em_last := lst\<rparr>))"

definition em_DelayEvent :: "uint32 \<Rightarrow> uint32 \<Rightarrow> event_map \<Rightarrow> event_map" where
  "em_DelayEvent eventId delay m =
     (if em_store m = [] then m
      else m\<lparr>em_store := retime (\<lambda>e. event_id e = eventId) (\<lambda>t. t + delay) (em_store m)\<rparr>)"

definition em_DelayEvents :: "uint32 \<Rightarrow> event_map \<Rightarrow> event_map" where
  "em_DelayEvents delay m = m\<lparr>em_time := (if delay < em_time m then em_time m - delay else 0)\<rparr>"

definition em_DelayEvents_group :: "uint32 \<Rightarrow> uint16 \<Rightarrow> event_map \<Rightarrow> event_map" where
  "em_DelayEvents_group delay grp m =
     (if grp = 0 \<or> 16 < grp \<or> em_store m = [] then m
      else m\<lparr>em_store := retime (in_group grp) (\<lambda>t. t + delay) (em_store m)\<rparr>)"

definition em_find :: "uint32 \<Rightarrow> (uint32 \<times> uint64) list \<Rightarrow> uint32 option" where
  "em_find eventId m = map_option fst (find (\<lambda>(t, e). eventId = event_id e) m)"

definition em_GetNextEventTime :: "uint32 \<Rightarrow> event_map \<Rightarrow> uint32" where
  "em_GetNextEventTime eventId m =
     (if em_store m = [] then 0
      else case em_find eventId (em_store m) of Some t \<Rightarrow> t | None \<Rightarrow> 0)"

definition em_GetNextEventTime_any :: "event_map \<Rightarrow> uint32" where
  "em_GetNextEventTime_any m = (case em_store m of [] \<Rightarrow> 0 | (t, e) # _ \<Rightarrow> t)"

definition em_GetTimeUntilEvent :: "uint32 \<Rightarrow> event_map \<Rightarrow> uint32" where
  "em_GetTimeUntilEvent eventId m =
     (case em_find eventId (em_store m) of Some t \<Rightarrow> t - em_time m | None \<Rightarrow> 0xFFFFFFFF)"

section \<open>The store is a timer store\<close>

interpretation emap: timer_store em_store em_insert em_erase_if
  by unfold_locales (simp_all add: em_insert_def em_erase_if_def)

section \<open>Reachable event maps\<close>

text \<open>
  Any sequence of the public operations, on any arguments; only ScheduleNextEvent after an event with
  the identifier 0xFFFFFFFF is left out, since its 64-bit increment carries into the first group bit.
\<close>

inductive em_step :: "event_map \<Rightarrow> event_map \<Rightarrow> bool" where
  reset: "em_step m (em_Reset m)"
| update: "em_step m (em_Update t m)"
| set_phase: "em_step m (em_SetPhase p m)"
| add_phase: "em_step m (em_AddPhase p m)"
| remove_phase: "em_step m (em_RemovePhase p m)"
| schedule: "em_step m (em_ScheduleEvent i t g p m)"
| reschedule: "em_step m (em_RescheduleEvent i t g p m)"
| repeat: "em_step m (em_Repeat t m)"
| schedule_next: "event_id (em_last m) \<noteq> 0xFFFFFFFF \<Longrightarrow> em_step m (em_ScheduleNextEvent t m)"
| execute: "em_step m (snd (em_ExecuteEvent m))"
| delay_event: "em_step m (em_DelayEvent i d m)"
| delay_all: "em_step m (em_DelayEvents d m)"
| delay_group: "em_step m (em_DelayEvents_group d g m)"
| cancel: "em_step m (em_CancelEvent i m)"
| cancel_group: "em_step m (em_CancelEventGroup g m)"

inductive em_reachable :: "event_map \<Rightarrow> bool" where
  init: "em_reachable EventMap"
| step: "em_reachable m \<Longrightarrow> em_step m m' \<Longrightarrow> em_reachable m'"

definition em_inv :: "event_map \<Rightarrow> bool" where
  "em_inv m \<longleftrightarrow> mm_sorted (em_store m) \<and> em_last m < 2 ^ 32 \<and> (\<forall>(t, e) \<in> set (em_store m). e < 2 ^ 32)"

text \<open>What is left of an event after the two assignments is its identifier.\<close>

lemma em_ScheduleEvent_eq: "em_ScheduleEvent i t g p m = em_insert (em_time m + t) (ucast i) m"
proof -
  have lost: "ucast ((ucast (x :: uint32) :: uint64) OR push_bit k 1) = x" if "32 \<le> k" for x k
    using that by (intro bit_word_eqI) (auto simp: bit_simps)
  have "32 \<le> unat g + 31" if "g \<noteq> 0"
  proof -
    from that have "0 < unat g" by (simp add: unat_gt_0)
    then show ?thesis by simp
  qed
  then have 1: "(if g \<noteq> 0 \<and> g < 16 then ucast ((ucast i :: uint64) OR push_bit (unat g + 31) 1) else i) = i"
    using lost by presburger
  have 2: "(if p \<noteq> 0 \<and> p < 16 then ucast ((ucast i :: uint64) OR push_bit (unat p + 47) 1) else i) = i"
    by (subst lost) simp_all
  show ?thesis by (simp only: em_ScheduleEvent_def Let_def 1 2)
qed

lemma ucast_small [simp]: "(ucast (i :: uint32) :: uint64) < 4294967296"
proof -
  have "take_bit 64 (unat i) < 2 ^ 32"
    using unsigned_less [of i] by (intro le_less_trans [OF take_bit_nat_less_eq_self]) simp
  then show ?thesis by (simp add: word_less_nat_alt unsigned_ucast_eq)
qed

lemma small_no_high_bit: "(e :: uint64) < 2 ^ 32 \<Longrightarrow> bit e k \<Longrightarrow> k < 32"
  by (metis bit_take_bit_iff less_mask_eq take_bit_eq_mask)

lemma small_not_in_group: "e < 2 ^ 32 \<Longrightarrow> g \<noteq> 0 \<Longrightarrow> \<not> in_group g e"
proof
  assume e: "e < 2 ^ 32" and g: "g \<noteq> 0" and "in_group g e"
  then have "bit e (unat g + 31)" by (simp add: in_group_def bit_iff_and_push_bit_not_eq_0)
  with small_no_high_bit [OF e] have "unat g + 31 < 32" by blast
  with g show False by (simp add: unat_eq_0)
qed

lemma small_not_suppressed: "e < 2 ^ 32 \<Longrightarrow> \<not> suppressed p e"
proof -
  assume e: "e < 2 ^ 32"
  have hi: "(0xFFFF000000000000 :: uint64) = push_bit 48 (mask 16)"
    by (simp add: mask_eq_exp_minus_1 push_bit_eq_mult)
  have "e AND 0xFFFF000000000000 = 0"
    unfolding hi by (rule bit_word_eqI) (simp only: bit_and_iff bit_push_bit_iff, auto dest: small_no_high_bit [OF e])
  then show ?thesis by (simp add: suppressed_def)
qed


lemma execute_loop_small:
  "\<forall>(t, e) \<in> set m. e < 2 ^ 32 \<Longrightarrow>
     execute_loop time phase m lst =
       (case m of [] \<Rightarrow> (0, [], lst) | (t, e) # r \<Rightarrow> if t > time then (0, m, lst) else (event_id e, r, e))"
  by (cases m) (auto simp: small_not_suppressed)

declare execute_loop.simps [simp del]

lemma em_inv_insert: "em_inv m \<Longrightarrow> e < 2 ^ 32 \<Longrightarrow> em_inv (em_insert t e m)"
  by (auto simp: em_inv_def em_insert_def)

lemma em_inv_erase: "em_inv m \<Longrightarrow> em_inv (em_erase_if P m)"
  by (auto simp: em_inv_def em_erase_if_def)

lemma em_inv_retime: "em_inv m \<Longrightarrow> em_inv (m\<lparr>em_store := retime P f (em_store m)\<rparr>)"
  by (auto simp: em_inv_def set_retime)

lemma next_event_small:
  assumes "(e :: uint64) < 2 ^ 32" "event_id e \<noteq> 0xFFFFFFFF"
  shows "e + 1 < 2 ^ 32"
proof -
  have "e \<noteq> 0xFFFFFFFF" using assms(2) by (auto simp: event_id_def)
  then have "unat e \<noteq> unat (0xFFFFFFFF :: uint64)" by (simp only: word_unat_eq_iff [symmetric] not_False_eq_True)
  with assms(1) have "unat e + 1 < 2 ^ 32" by (simp add: word_less_nat_alt)
  then show ?thesis by (simp add: word_less_nat_alt unat_word_ariths)
qed

lemma em_step_inv: "em_step m m' \<Longrightarrow> em_inv m \<Longrightarrow> em_inv m'"
proof (induction rule: em_step.induct)
  case (execute m)
  then show ?case
    by (cases "em_store m")
       (auto simp: em_ExecuteEvent_def execute_loop_small em_inv_def split: prod.splits)
next
  case (schedule_next m t)
  then have "em_last m + 1 < 2 ^ 32" by (intro next_event_small) (auto simp: em_inv_def)
  with schedule_next show ?case by (simp add: em_ScheduleNextEvent_def em_inv_insert)
next
  case (repeat m t)
  then have "em_last m < 2 ^ 32" by (simp add: em_inv_def)
  with repeat show ?case by (simp add: em_Repeat_def em_inv_insert)
next
  case (reschedule m i t g p)
  then show ?case
    by (simp add: em_RescheduleEvent_def em_ScheduleEvent_eq em_CancelEvent_def em_inv_insert em_inv_erase)
qed (auto simp: em_Reset_def em_Update_def em_SetPhase_def em_AddPhase_def em_RemovePhase_def em_ScheduleEvent_eq
       em_DelayEvent_def em_DelayEvents_def em_DelayEvents_group_def em_CancelEvent_def em_CancelEventGroup_def
       em_inv_insert em_inv_erase em_inv_retime, auto simp: em_inv_def)

lemma em_reachable_inv: "em_reachable m \<Longrightarrow> em_inv m"
proof (induction rule: em_reachable.induct)
  case init
  show ?case by (simp add: em_inv_def EventMap_def)
next
  case (step m m')
  then show ?case by (blast intro: em_step_inv)
qed

text \<open>The group and the phase of an event have no effect. In every event map that any sequence of
  operations can produce, scheduling an event with a group and a phase is the same as scheduling it
  with neither, cancelling or delaying a group changes nothing, and executing an event does not depend
  on the active phases: the bits that would record group and phase are cut off when the 64-bit value
  is assigned to the 32-bit parameter. (The sequences leave out one operation: ScheduleNextEvent
  directly after an event with the largest identifier, where adding one carries into bit 32.)\<close>

theorem groups_and_phases_have_no_effect:
  assumes "em_reachable m"
  shows "em_ScheduleEvent i t g p m = em_ScheduleEvent i t 0 0 m \<and>
     em_CancelEventGroup g m = m \<and> em_DelayEvents_group d g m = m \<and>
     fst (em_ExecuteEvent (em_SetPhase p m)) = fst (em_ExecuteEvent m) \<and>
     em_store (snd (em_ExecuteEvent (em_SetPhase p m))) = em_store (snd (em_ExecuteEvent m))"
proof -
  have small: "\<forall>(t, e) \<in> set (em_store m). e < 2 ^ 32"
    using em_reachable_inv [OF assms] by (simp add: em_inv_def)
  have grp: "\<forall>(t, e) \<in> set (em_store m). \<not> in_group g e" if "g \<noteq> 0"
    using small that by (auto simp: small_not_in_group)
  have cancel: "em_CancelEventGroup g m = m"
    using grp by (cases m) (auto simp: em_CancelEventGroup_def em_erase_if_def filter_id_conv)
  have delay: "em_DelayEvents_group d g m = m"
    using grp by (cases m) (auto simp: em_DelayEvents_group_def retime_none)
  have frame: "em_store (em_SetPhase p m) = em_store m" "em_time (em_SetPhase p m) = em_time m"
      "em_last (em_SetPhase p m) = em_last m" by (simp_all add: em_SetPhase_def)
  show ?thesis
    using cancel delay by (simp add: em_ScheduleEvent_eq em_ExecuteEvent_def frame execute_loop_small [OF small] split: prod.splits)
qed

theorem groups_and_phases_have_no_effect_witness:
  "em_CancelEventGroup 3 (em_ScheduleEvent 7 1000 3 2 EventMap) = em_ScheduleEvent 7 1000 3 2 EventMap \<and>
   em_store (em_ScheduleEvent 7 1000 3 2 EventMap) = [(1000, 7)]"
proof -
  have "em_reachable (em_ScheduleEvent 7 1000 3 2 EventMap)"
    by (rule em_reachable.step [OF em_reachable.init em_step.schedule])
  from groups_and_phases_have_no_effect [OF this, of 0 0 3 0] show ?thesis
    by (simp add: em_ScheduleEvent_eq em_insert_def EventMap_def)
qed

text \<open>ExecuteEvent serves the earliest due event. In a reachable event map it returns zero and changes
  nothing when no event is due; otherwise it returns the identifier of an event whose time is the least
  of all scheduled times, removes exactly that entry and remembers it as the last event.\<close>

theorem ExecuteEvent_serves_earliest:
  assumes "em_reachable m"
  shows "case em_ExecuteEvent m of (eventId, m') \<Rightarrow>
     if \<forall>(t, e) \<in> set (em_store m). em_time m < t then eventId = 0 \<and> m' = m
     else \<exists>t e. mset (em_store m) = add_mset (t, e) (mset (em_store m')) \<and> t \<le> em_time m \<and>
        (\<forall>(t', e') \<in> set (em_store m). t \<le> t') \<and> eventId = event_id e \<and> em_last m' = e \<and>
        em_time m' = em_time m \<and> em_phase m' = em_phase m"
proof -
  have inv: "em_inv m" using assms by (rule em_reachable_inv)
  then have small: "\<forall>(t, e) \<in> set (em_store m). e < 2 ^ 32" and sorted: "mm_sorted (em_store m)"
    by (simp_all add: em_inv_def)
  show ?thesis
  proof (cases "em_store m")
    case Nil
    then show ?thesis by (cases m) (simp add: em_ExecuteEvent_def execute_loop.simps)
  next
    case (Cons a r)
    obtain t e where a: "a = (t, e)" by force
    have least: "\<forall>(t', e') \<in> set r. t \<le> t'"
      using sorted Cons a by auto
    show ?thesis
    proof (cases "em_time m < t")
      case True
      with least Cons a have "\<forall>(t, e) \<in> set (em_store m). em_time m < t" by auto
      with True Cons a small show ?thesis
        by (cases m) (auto simp: em_ExecuteEvent_def execute_loop_small)
    next
      case False
      then have "\<not> (\<forall>(t, e) \<in> set (em_store m). em_time m < t)" using Cons a by auto
      with False Cons a small least show ?thesis
        by (auto simp: em_ExecuteEvent_def execute_loop_small)
    qed
  qed
qed

theorem ExecuteEvent_serves_earliest_witness:
  "fst (em_ExecuteEvent (em_Update 500 (em_ScheduleEvent 9 300 0 0 (em_ScheduleEvent 7 400 0 0 EventMap)))) = 9"
proof -
  let ?m = "em_Update 500 (em_ScheduleEvent 9 300 0 0 (em_ScheduleEvent 7 400 0 0 EventMap))"
  have "em_reachable ?m"
    by (intro em_reachable.step [OF _ em_step.update] em_reachable.step [OF _ em_step.schedule] em_reachable.init)
  from ExecuteEvent_serves_earliest [OF this] show ?thesis
    by (auto simp: em_ScheduleEvent_eq em_insert_def em_Update_def EventMap_def em_ExecuteEvent_def
        execute_loop.simps suppressed_def event_id_def)
qed

text \<open>The duration overload of ScheduleNextEvent repeats the last event instead of scheduling the
  next one, unlike the overload for milliseconds given as a number.\<close>

theorem ScheduleNextEvent_overloads_differ:
  "em_store (em_ScheduleNextEvent_ms t m) = mm_insert (em_time m + t) (em_last m) (em_store m) \<and>
   em_store (em_ScheduleNextEvent t m) = mm_insert (em_time m + t) (em_last m + 1) (em_store m) \<and>
   em_ScheduleNextEvent_ms t m \<noteq> em_ScheduleNextEvent t m"
proof -
  have "mset (mm_insert (em_time m + t) (em_last m) (em_store m))
      \<noteq> mset (mm_insert (em_time m + t) (em_last m + 1) (em_store m))"
    by simp
  then have "mm_insert (em_time m + t) (em_last m) (em_store m)
      \<noteq> mm_insert (em_time m + t) (em_last m + 1) (em_store m)" by metis
  then show ?thesis
    by (auto simp: em_ScheduleNextEvent_ms_def em_ScheduleNextEvent_def em_Repeat_def em_insert_def
        dest: arg_cong [of _ _ em_store])
qed

end
