(* ===== verification/Event_Processor.thy ===== *)
theory Event_Processor
  imports Timer_Store
begin

text \<open>
  The event processor of world objects, \<^verbatim>\<open>src/src/common/Utilities/EventProcessor.{h,cpp}\<close>. Events are
  objects on the heap, named by addresses; the queue holds their addresses ordered by execution time.
  The virtual methods \<^verbatim>\<open>Execute\<close>, \<^verbatim>\<open>Abort\<close> and \<^verbatim>\<open>IsDeletable\<close> of the event classes are parameters:
  \<^verbatim>\<open>Execute\<close> and \<^verbatim>\<open>Abort\<close> may change the whole processor (events re-add themselves, an aborted spell
  is cancelled, which may add events) and the world around it. A failed \<^verbatim>\<open>ASSERT\<close>, the use of a deleted event and of an
  iterator whose entry was erased are errors.
\<close>

section \<open>Events\<close>

datatype AbortState = STATE_RUNNING | STATE_ABORT_SCHEDULED | STATE_ABORTED

record basic_event =
  ev_abortState :: AbortState
  ev_addTime :: uint64
  ev_execTime :: uint64

definition BasicEvent :: basic_event where
  "BasicEvent = \<lparr>ev_abortState = STATE_RUNNING, ev_addTime = 0, ev_execTime = 0\<rparr>"

datatype ep_error = AssertionFailed string | UseAfterDelete nat | IteratorErased nat

definition IsRunning :: "basic_event \<Rightarrow> bool" where
  "IsRunning e \<longleftrightarrow> ev_abortState e = STATE_RUNNING"

definition IsAbortScheduled :: "basic_event \<Rightarrow> bool" where
  "IsAbortScheduled e \<longleftrightarrow> ev_abortState e = STATE_ABORT_SCHEDULED"

definition IsAborted :: "basic_event \<Rightarrow> bool" where
  "IsAborted e \<longleftrightarrow> ev_abortState e = STATE_ABORTED"

definition ScheduleAbort :: "basic_event \<Rightarrow> ep_error + basic_event" where
  "ScheduleAbort e =
     (if IsRunning e then Inr (e\<lparr>ev_abortState := STATE_ABORT_SCHEDULED\<rparr>)
      else Inl (AssertionFailed ''Tried to scheduled the abortion of an event twice!''))"

definition SetAborted :: "basic_event \<Rightarrow> ep_error + basic_event" where
  "SetAborted e =
     (if \<not> IsAborted e then Inr (e\<lparr>ev_abortState := STATE_ABORTED\<rparr>)
      else Inl (AssertionFailed ''Tried to abort an already aborted event!''))"

section \<open>The processor\<close>

record 'w event_processor =
  ep_time :: uint64
  ep_events :: "(uint64 \<times> nat) list"
  ep_heap :: "nat \<Rightarrow> basic_event option"
  ep_world :: 'w

text \<open>The virtual methods of the event at an address.\<close>

record 'w event_methods =
  mExecute :: "nat \<Rightarrow> uint64 \<Rightarrow> uint32 \<Rightarrow> 'w event_processor \<Rightarrow> bool \<times> 'w event_processor"
  mAbort :: "nat \<Rightarrow> uint64 \<Rightarrow> 'w event_processor \<Rightarrow> 'w event_processor"
  mIsDeletable :: "nat \<Rightarrow> 'w \<Rightarrow> bool"

text \<open>The bodies that \<^verbatim>\<open>BasicEvent\<close> itself gives to them.\<close>

definition basic_methods :: "'w event_methods" where
  "basic_methods = \<lparr>mExecute = (\<lambda>a e_time p_time s. (True, s)), mAbort = (\<lambda>a e_time s. s),
     mIsDeletable = (\<lambda>a w. True)\<rparr>"

definition EventProcessor :: "(nat \<Rightarrow> basic_event option) \<Rightarrow> 'w \<Rightarrow> 'w event_processor" where
  "EventProcessor h w = \<lparr>ep_time = 0, ep_events = [], ep_heap = h, ep_world = w\<rparr>"

definition CalculateTime :: "uint64 \<Rightarrow> 'w event_processor \<Rightarrow> uint64" where
  "CalculateTime t_offset s = ep_time s + t_offset"

definition ep_deref :: "nat \<Rightarrow> 'w event_processor \<Rightarrow> ep_error + basic_event" where
  "ep_deref a s = (case ep_heap s a of None \<Rightarrow> Inl (UseAfterDelete a) | Some e \<Rightarrow> Inr e)"

definition ep_put :: "nat \<Rightarrow> basic_event \<Rightarrow> 'w event_processor \<Rightarrow> 'w event_processor" where
  "ep_put a e s = s\<lparr>ep_heap := (ep_heap s)(a := Some e)\<rparr>"

definition ep_delete :: "nat \<Rightarrow> 'w event_processor \<Rightarrow> 'w event_processor" where
  "ep_delete a s = s\<lparr>ep_heap := (ep_heap s)(a := None)\<rparr>"

definition ep_insert :: "uint64 \<Rightarrow> nat \<Rightarrow> 'w event_processor \<Rightarrow> 'w event_processor" where
  "ep_insert t a s = s\<lparr>ep_events := mm_insert t a (ep_events s)\<rparr>"

definition AddEvent :: "nat \<Rightarrow> uint64 \<Rightarrow> bool \<Rightarrow> 'w event_processor \<Rightarrow> ep_error + 'w event_processor" where
  "AddEvent a e_time set_addtime s = res_bind (ep_deref a s) (\<lambda>e.
     let e1 = (if set_addtime then e\<lparr>ev_addTime := ep_time s\<rparr> else e);
         e2 = e1\<lparr>ev_execTime := e_time\<rparr>
     in Inr (ep_insert e_time a (ep_put a e2 s)))"

text \<open>One turn of the loop of \<^verbatim>\<open>Update\<close>: the first entry is taken off the queue and served.\<close>

definition ep_serve :: "'w event_methods \<Rightarrow> uint32 \<Rightarrow> nat \<Rightarrow> 'w event_processor \<Rightarrow> ep_error + 'w event_processor" where
  "ep_serve M p_time a s = res_bind (ep_deref a s) (\<lambda>e.
     if IsRunning e then
       (let (del, s1) = mExecute M a (ep_time s) p_time s
        in Inr (if del then ep_delete a s1 else s1))
     else res_bind
       (if IsAbortScheduled e
        then (let s1 = mAbort M a (ep_time s) s
              in res_bind (ep_deref a s1) (\<lambda>e1. res_bind (SetAborted e1) (\<lambda>e'. Inr (ep_put a e' s1))))
        else Inr s)
       (\<lambda>s2. if mIsDeletable M a (ep_world s2) then Inr (ep_delete a s2)
             else AddEvent a (CalculateTime 1 s2) False s2))"

partial_function (option) ep_loop ::
    "'w event_methods \<Rightarrow> uint32 \<Rightarrow> 'w event_processor \<Rightarrow> (ep_error + 'w event_processor) option" where
  [code]: "ep_loop M p_time s =
     (case ep_events s of
        [] \<Rightarrow> Some (Inr s)
      | (t, a) # rest \<Rightarrow>
          if t \<le> ep_time s then
            (case ep_serve M p_time a (s\<lparr>ep_events := rest\<rparr>) of
               Inl err \<Rightarrow> Some (Inl err)
             | Inr s' \<Rightarrow> ep_loop M p_time s')
          else Some (Inr s))"

definition ep_Update :: "'w event_methods \<Rightarrow> uint32 \<Rightarrow> 'w event_processor \<Rightarrow> (ep_error + 'w event_processor) option" where
  "ep_Update M p_time s = ep_loop M p_time (s\<lparr>ep_time := ep_time s + ucast p_time\<rparr>)"

text \<open>
  \<^verbatim>\<open>KillAllEvents\<close>. One turn of its loop aborts the event at an address, if it was not aborted yet. The loop follows an
  iterator, the position \<open>i\<close> of an entry in the queue; an abort that adds events moves the entry to another position, and one that
  erases it invalidates the iterator. With \<^verbatim>\<open>force\<close> the queue is cleared behind the pass, otherwise deleted
  events are erased at once. A pass whose aborts add events for ever does not return.
\<close>

definition kill_abort :: "'w event_methods \<Rightarrow> nat \<Rightarrow> 'w event_processor \<Rightarrow> ep_error + 'w event_processor" where
  "kill_abort M a s = res_bind (ep_deref a s) (\<lambda>e.
     if \<not> IsAborted e
     then res_bind (SetAborted e) (\<lambda>e'. Inr (mAbort M a (ep_time s) (ep_put a e' s)))
     else Inr s)"

fun entry_index :: "uint64 \<times> nat \<Rightarrow> (uint64 \<times> nat) list \<Rightarrow> nat option" where
  "entry_index x [] = None"
| "entry_index x (y # ys) = (if x = y then Some 0 else map_option Suc (entry_index x ys))"

partial_function (option) ep_kill ::
    "'w event_methods \<Rightarrow> bool \<Rightarrow> nat \<Rightarrow> 'w event_processor \<Rightarrow> (ep_error + 'w event_processor) option" where
  [code]: "ep_kill M force i s =
     (case drop i (ep_events s) of
        [] \<Rightarrow> Some (Inr s)
      | (t, a) # _ \<Rightarrow>
         (case kill_abort M a s of
            Inl err \<Rightarrow> Some (Inl err)
          | Inr s1 \<Rightarrow>
             (case entry_index (t, a) (ep_events s1) of
                None \<Rightarrow> Some (Inl (IteratorErased a))
              | Some j \<Rightarrow>
                  if \<not> force \<and> \<not> mIsDeletable M a (ep_world s1) then ep_kill M force (Suc j) s1
                  else if force then ep_kill M force (Suc j) (ep_delete a s1)
                  else ep_kill M force j ((ep_delete a s1)\<lparr>ep_events := take j (ep_events s1) @ drop (Suc j) (ep_events s1)\<rparr>))))"

definition ep_KillAllEvents :: "'w event_methods \<Rightarrow> bool \<Rightarrow> 'w event_processor \<Rightarrow> (ep_error + 'w event_processor) option" where
  "ep_KillAllEvents M force s =
     map_option (map_sum id (\<lambda>s'. if force then s'\<lparr>ep_events := []\<rparr> else s')) (ep_kill M force 0 s)"

definition ep_destroy :: "'w event_methods \<Rightarrow> 'w event_processor \<Rightarrow> (ep_error + 'w event_processor) option" where
  "ep_destroy M = ep_KillAllEvents M True"

section \<open>The queue is a timer store\<close>

definition ep_erase_if :: "(nat \<Rightarrow> bool) \<Rightarrow> 'w event_processor \<Rightarrow> 'w event_processor" where
  "ep_erase_if P s = s\<lparr>ep_events := filter (\<lambda>(t, a). \<not> P a) (ep_events s)\<rparr>"

interpretation eproc: timer_store ep_events ep_insert ep_erase_if
  by unfold_locales (simp_all add: ep_insert_def ep_erase_if_def)

section \<open>Well-formed processors and well-behaved events\<close>

abbreviation due :: "'w event_processor \<Rightarrow> (uint64 \<times> nat) list" where
  "due s \<equiv> filter (\<lambda>(t, a). t \<le> ep_time s) (ep_events s)"

text \<open>The queue is ordered and holds every event once, and no event in it has been deleted.\<close>

definition ep_wf :: "'w event_processor \<Rightarrow> bool" where
  "ep_wf s \<longleftrightarrow> mm_sorted (ep_events s) \<and> distinct (map snd (ep_events s)) \<and>
     (\<forall>(t, a) \<in> set (ep_events s). ep_heap s a \<noteq> None)"

text \<open>
  What the loop relies on in the \<^verbatim>\<open>Execute\<close> and \<^verbatim>\<open>Abort\<close> methods: they leave the clock alone, keep the
  queue well-formed, add no event that is due at once and take none that is due out of it. \<^verbatim>\<open>Execute\<close> asks for deletion
  only when the event has not been put back into the queue; \<^verbatim>\<open>Abort\<close> neither puts the event back nor deletes it nor
  marks it as aborted.
\<close>

definition well_behaved :: "'w event_methods \<Rightarrow> uint32 \<Rightarrow> bool" where
  "well_behaved M p \<longleftrightarrow> (\<forall>a s. ep_wf s \<longrightarrow> ep_heap s a \<noteq> None \<longrightarrow> a \<notin> snd ` set (ep_events s) \<longrightarrow>
     (case mExecute M a (ep_time s) p s of (del, s') \<Rightarrow>
        ep_time s' = ep_time s \<and> ep_wf s' \<and> due s' = due s \<and> (del \<longrightarrow> a \<notin> snd ` set (ep_events s'))) \<and>
     (let s' = mAbort M a (ep_time s) s in
        ep_time s' = ep_time s \<and> ep_wf s' \<and> due s' = due s \<and> a \<notin> snd ` set (ep_events s') \<and> ep_heap s' a = ep_heap s a))"

lemma ep_wf_tail: "ep_wf s \<Longrightarrow> ep_events s = (t, a) # rest \<Longrightarrow>
    ep_wf (s\<lparr>ep_events := rest\<rparr>) \<and> ep_heap s a \<noteq> None \<and> a \<notin> snd ` set rest"
  by (auto simp: ep_wf_def)

lemma ep_wf_delete: "ep_wf s \<Longrightarrow> a \<notin> snd ` set (ep_events s) \<Longrightarrow> ep_wf (ep_delete a s)"
  by (force simp: ep_wf_def ep_delete_def)

lemma ep_wf_world [simp]: "ep_wf (s\<lparr>ep_world := w\<rparr>) = ep_wf s"
  by (simp add: ep_wf_def)

lemma ep_wf_put: "ep_wf s \<Longrightarrow> ep_wf (ep_put a e s)"
  by (auto simp: ep_wf_def ep_put_def)

lemma ep_frame [simp]:
  "ep_time (ep_delete a s) = ep_time s" "ep_events (ep_delete a s) = ep_events s"
  "ep_time (ep_put a e s) = ep_time s" "ep_events (ep_put a e s) = ep_events s"
  "ep_time (ep_insert t a s) = ep_time s" "ep_events (ep_insert t a s) = mm_insert t a (ep_events s)"
  "ep_heap (ep_put a e s) = (ep_heap s)(a := Some e)" "ep_heap (ep_delete a s) = (ep_heap s)(a := None)"
  "ep_heap (ep_insert t a s) = ep_heap s" "ep_world (ep_put a e s) = ep_world s"
  "ep_world (ep_delete a s) = ep_world s"
  by (simp_all add: ep_delete_def ep_put_def ep_insert_def)

lemma AddEvent_later:
  assumes "ep_wf s" "ep_heap s a \<noteq> None" "a \<notin> snd ` set (ep_events s)" "ep_time s < t"
  shows "\<exists>s'. AddEvent a t b s = Inr s' \<and> ep_wf s' \<and> ep_time s' = ep_time s \<and> due s' = due s"
proof -
  from assms obtain e where e: "ep_heap s a = Some e" by auto
  let ?e = "(if b then e\<lparr>ev_addTime := ep_time s\<rparr> else e)\<lparr>ev_execTime := t\<rparr>"
  have "ep_wf (ep_insert t a (ep_put a ?e s))"
    using assms by (auto simp: ep_wf_def distinct_snd_mm_insert)
  moreover have "due (ep_insert t a (ep_put a ?e s)) = due s"
    using assms(4) by (simp add: mm_insert_filter_other)
  ultimately show ?thesis by (simp add: AddEvent_def ep_deref_def e Let_def)
qed

lemma serve_progress:
  assumes wf: "ep_wf s" "ep_heap s a \<noteq> None" "a \<notin> snd ` set (ep_events s)"
    and M: "well_behaved M p" and late: "ep_time s < ep_time s + 1"
  shows "\<exists>s'. ep_serve M p a s = Inr s' \<and> ep_wf s' \<and> ep_time s' = ep_time s \<and> due s' = due s"
proof -
  from wf(2) obtain e where e: "ep_heap s a = Some e" by auto
  show ?thesis
  proof (cases "IsRunning e")
    case True
    obtain del s1 where x: "mExecute M a (ep_time s) p s = (del, s1)" by force
    note wb = M [unfolded well_behaved_def, THEN spec, THEN spec, THEN mp, THEN mp, THEN mp, OF wf, THEN conjunct1, unfolded x prod.case]
    then have "ep_wf (if del then ep_delete a s1 else s1)" by (auto simp: ep_wf_delete)
    with True x e wb show ?thesis by (cases del) (auto simp: ep_serve_def ep_deref_def)
  next
    case False
    define s2 where "s2 = (if IsAbortScheduled e
        then ep_put a (e\<lparr>ev_abortState := STATE_ABORTED\<rparr>) (mAbort M a (ep_time s) s) else s)"
    note ab = M [unfolded well_behaved_def, THEN spec, THEN spec, THEN mp, THEN mp, THEN mp, OF wf, THEN conjunct2, unfolded Let_def]
    have s2: "ep_wf s2" "ep_heap s2 a \<noteq> None" "ep_time s2 = ep_time s" "due s2 = due s" "a \<notin> snd ` set (ep_events s2)"
      using wf ab by (auto simp: s2_def ep_wf_put)
    have "ep_serve M p a s = (if mIsDeletable M a (ep_world s2) then Inr (ep_delete a s2)
             else AddEvent a (CalculateTime 1 s2) False s2)"
      using False ab by (simp add: ep_serve_def ep_deref_def e s2_def SetAborted_def IsAborted_def IsAbortScheduled_def Let_def)
    moreover have "\<exists>s'. AddEvent a (CalculateTime 1 s2) False s2 = Inr s' \<and> ep_wf s' \<and> ep_time s' = ep_time s2 \<and> due s' = due s2"
      using s2 late by (intro AddEvent_later) (auto simp: CalculateTime_def)
    moreover have "ep_wf (ep_delete a s2)" using s2 by (intro ep_wf_delete) auto
    ultimately show ?thesis using s2 by auto
  qed
qed

text \<open>The loop ends because every turn takes one due entry off the queue and adds none.\<close>

lemma loop_returns:
  assumes "ep_wf s" "well_behaved M p" "ep_time s < ep_time s + 1"
  shows "\<exists>s'. ep_loop M p s = Some (Inr s') \<and> ep_wf s' \<and> ep_time s' = ep_time s \<and> due s' = []"
  using assms
proof (induction "length (due s)" arbitrary: s)
  case 0
  then show ?case
    by (cases "ep_events s") (auto simp: ep_loop.simps [of M p s])
next
  case (Suc n)
  from Suc.hyps(2) have "ep_events s \<noteq> []" by auto
  then obtain t a rest where ev: "ep_events s = (t, a) # rest" by (metis list.exhaust surj_pair)
  have t: "t \<le> ep_time s"
  proof (rule ccontr)
    assume "\<not> t \<le> ep_time s"
    then have "due s = []" using Suc.prems(1) ev
      by (auto simp: ep_wf_def filter_empty_conv)
    with Suc.hyps(2) show False by simp
  qed
  let ?s = "s\<lparr>ep_events := rest\<rparr>"
  have tail: "ep_wf ?s" "ep_heap ?s a \<noteq> None" "a \<notin> snd ` set (ep_events ?s)"
    using ep_wf_tail [OF Suc.prems(1) ev] by auto
  then obtain s' where s': "ep_serve M p a ?s = Inr s'" "ep_wf s'" "ep_time s' = ep_time s" "due s' = due ?s"
    using serve_progress [OF tail Suc.prems(2)] Suc.prems(3) by auto
  moreover have "n = length (due s')" using Suc.hyps(2) t ev s'(3,4) by simp
  ultimately show ?case
    using Suc.hyps(1) [of s'] Suc.prems t ev by (simp add: ep_loop.simps [of M p s])
qed

text \<open>C22: an update of the processor returns, without a failed assertion or a use of a deleted event, and
  afterwards no event that is due is left in the queue. This holds for every well-formed processor, unless the clock stands at its last
  value, whose events are well-behaved: what they do when they are executed or aborted leaves the clock alone, keeps the queue well-formed,
  changes nothing among the events that are due, and does not put an event back that is to be deleted.\<close>

theorem Update_serves_all_due:
  assumes "ep_wf s" "well_behaved M p" "ep_time s + ucast p \<noteq> - 1"
  shows "\<exists>s'. ep_Update M p s = Some (Inr s') \<and> ep_wf s' \<and> ep_time s' = ep_time s + ucast p \<and>
     (\<forall>(t, a) \<in> set (ep_events s'). ep_time s' < t)"
proof -
  let ?s = "s\<lparr>ep_time := ep_time s + ucast p\<rparr>"
  have "ep_wf ?s" using assms(1) by (simp add: ep_wf_def)
  moreover have "ep_time ?s < ep_time ?s + 1"
    using assms(3) by (intro word_less_inc) simp
  ultimately show ?thesis
    using loop_returns [of ?s M p] assms(2)
    by (fastforce simp: ep_Update_def filter_empty_conv)
qed

text \<open>An event that puts itself back into the queue for one second later, as the periodic events of the server do.\<close>

definition periodic_methods :: "'w event_methods" where
  "periodic_methods = basic_methods\<lparr>mExecute := (\<lambda>a e_time p_time s.
     if e_time < e_time + 1000 \<and> ep_heap s a \<noteq> None then (False, ep_insert (e_time + 1000) a s) else (True, s))\<rparr>"

lemma periodic_well_behaved: "well_behaved periodic_methods p"
proof -
  have "ep_wf (ep_insert (ep_time s + 1000) a s) \<and> due (ep_insert (ep_time s + 1000) a s) = due s"
    if "ep_wf s" "ep_heap s a \<noteq> None" "a \<notin> snd ` set (ep_events s)" "ep_time s < ep_time s + 1000"
    for a and s :: "'w event_processor"
    using that by (auto simp: ep_wf_def distinct_snd_mm_insert mm_insert_filter_other)
  then show ?thesis by (auto simp: well_behaved_def periodic_methods_def basic_methods_def)
qed

theorem Update_serves_all_due_witness:
  "\<exists>s'. ep_Update periodic_methods 60 \<lparr>ep_time = 0, ep_events = [(50, 1)], ep_heap = [1 \<mapsto> BasicEvent], ep_world = ()\<rparr>
     = Some (Inr s') \<and> ep_events s' = [(1060, 1)]"
proof -
  let ?s = "\<lparr>ep_time = 0, ep_events = [(50, 1)], ep_heap = [1 \<mapsto> BasicEvent], ep_world = ()\<rparr>"
  have "ep_wf ?s" by (simp add: ep_wf_def)
  from Update_serves_all_due [OF this periodic_well_behaved, of 60] show ?thesis
    by (simp add: ep_Update_def ep_loop.simps ep_serve_def ep_deref_def IsRunning_def BasicEvent_def
        periodic_methods_def ep_insert_def split: if_splits)
qed

section \<open>Killing all events\<close>

text \<open>The world after the events of a queue have been aborted in turn; aborted ones are skipped. The aborts are calm: they change the
  world only.\<close>

definition abort_all :: "(nat \<Rightarrow> uint64 \<Rightarrow> 'w \<Rightarrow> 'w) \<Rightarrow> 'w event_processor \<Rightarrow> (uint64 \<times> nat) list \<Rightarrow> 'w \<Rightarrow> 'w" where
  "abort_all g s evs w = fold (\<lambda>(t, a) w. g a (ep_time s) w)
     (filter (\<lambda>(t, a). \<not> IsAborted (the (ep_heap s a))) evs) w"

definition killed_heap :: "(nat \<Rightarrow> bool) \<Rightarrow> (nat \<Rightarrow> basic_event option) \<Rightarrow> (uint64 \<times> nat) list \<Rightarrow> nat \<Rightarrow> basic_event option" where
  "killed_heap keep h evs a =
     (if a \<in> snd ` set evs then if keep a then map_option (ev_abortState_update (\<lambda>_. STATE_ABORTED)) (h a) else None
      else h a)"

lemma aborted_same: "IsAborted e \<Longrightarrow> e\<lparr>ev_abortState := STATE_ABORTED\<rparr> = e"
  by (cases e) (simp add: IsAborted_def)

lemma kill_abort_calm:
  assumes "ep_heap s a = Some e" "\<And>a t s. mAbort M a t s = s\<lparr>ep_world := g a t (ep_world s)\<rparr>"
  shows "kill_abort M a s = Inr
    (s\<lparr>ep_heap := (ep_heap s)(a := Some (e\<lparr>ev_abortState := STATE_ABORTED\<rparr>)),
       ep_world := (if IsAborted e then ep_world s else g a (ep_time s) (ep_world s))\<rparr>)"
  using assms aborted_same [of e]
  by (cases s) (auto simp: kill_abort_def ep_deref_def SetAborted_def ep_put_def fun_upd_idem)

lemma entry_index_here: "x \<notin> set xs \<Longrightarrow> entry_index x (xs @ x # ys) = Some (length xs)"
  by (induction xs) auto

text \<open>One turn, with the iterator behind the entries \<open>pre\<close>.\<close>

lemma kill_turn:
  assumes "ep_events s = pre @ (t, a) # evs" "(t, a) \<notin> set pre" "ep_heap s a = Some e"
    and calm: "\<And>a t s. mAbort M a t s = s\<lparr>ep_world := g a t (ep_world s)\<rparr>" and d: "\<And>a w. mIsDeletable M a w = d a"
  shows "ep_kill M force (length pre) s = ep_kill M force (length (if force \<or> \<not> d a then pre @ [(t, a)] else pre))
    (s\<lparr>ep_events := (if force \<or> \<not> d a then pre @ [(t, a)] else pre) @ evs,
       ep_heap := (ep_heap s)(a := if \<not> force \<and> \<not> d a then Some (e\<lparr>ev_abortState := STATE_ABORTED\<rparr>) else None),
       ep_world := (if IsAborted e then ep_world s else g a (ep_time s) (ep_world s))\<rparr>)"
proof -
  show ?thesis
    unfolding ep_kill.simps [of M force "length pre" s] using assms(1)
    by (simp add: kill_abort_calm [OF assms(3) calm] entry_index_here [OF assms(2)] d ep_delete_def) (cases s; simp)
qed

lemma kill_pass:
  assumes "ep_events s = pre @ evs" "distinct (map snd (pre @ evs))" "\<forall>(t, a) \<in> set evs. ep_heap s a \<noteq> None"
    and calm: "\<And>a t s. mAbort M a t s = s\<lparr>ep_world := g a t (ep_world s)\<rparr>" and d: "\<And>a w. mIsDeletable M a w = d a"
  shows "ep_kill M force (length pre) s = Some (Inr
    (s\<lparr>ep_events := pre @ filter (\<lambda>(t, a). force \<or> \<not> d a) evs,
       ep_heap := killed_heap (\<lambda>a. \<not> force \<and> \<not> d a) (ep_heap s) evs, ep_world := abort_all g s evs (ep_world s)\<rparr>))"
  using assms(1-3)
proof (induction evs arbitrary: s pre)
  case Nil
  then show ?case by (cases s) (simp add: ep_kill.simps killed_heap_def abort_all_def fun_eq_iff)
next
  case (Cons ta evs)
  obtain t a where ta: "ta = (t, a)" by force
  with Cons.prems obtain e where e: "ep_heap s a = Some e" by auto
  define pre1 where "pre1 = (if force \<or> \<not> d a then pre @ [(t, a)] else pre)"
  define s1 where "s1 = s\<lparr>ep_events := pre1 @ evs,
       ep_heap := (ep_heap s)(a := if \<not> force \<and> \<not> d a then Some (e\<lparr>ev_abortState := STATE_ABORTED\<rparr>) else None),
       ep_world := (if IsAborted e then ep_world s else g a (ep_time s) (ep_world s))\<rparr>"
  have fresh: "(t, a) \<notin> set pre" using Cons.prems(2) ta by force
  have step: "ep_kill M force (length pre) s = ep_kill M force (length pre1) s1"
    unfolding s1_def pre1_def by (rule kill_turn [OF Cons.prems(1) [unfolded ta] fresh e calm d])
  have a: "a \<notin> snd ` set evs" using Cons.prems ta by auto
  then have ne: "b \<noteq> a" if "(u, b) \<in> set evs" for u b using that by force
  have alloc: "\<forall>(t, a) \<in> set evs. ep_heap s1 a \<noteq> None" using Cons.prems ne by (auto simp: s1_def)
  have dist: "distinct (map snd (pre1 @ evs))" using Cons.prems(2) ta by (auto simp: pre1_def)
  have IH: "ep_kill M force (length pre1) s1 = Some (Inr
    (s1\<lparr>ep_events := pre1 @ filter (\<lambda>(t, a). force \<or> \<not> d a) evs,
       ep_heap := killed_heap (\<lambda>a. \<not> force \<and> \<not> d a) (ep_heap s1) evs, ep_world := abort_all g s1 evs (ep_world s1)\<rparr>))"
    by (rule Cons.IH [OF _ dist alloc]) (simp add: s1_def)
  have heap: "killed_heap (\<lambda>a. \<not> force \<and> \<not> d a) (ep_heap s1) evs = killed_heap (\<lambda>a. \<not> force \<and> \<not> d a) (ep_heap s) (ta # evs)"
    using a e by (auto simp: killed_heap_def fun_eq_iff s1_def ta)
  have flt: "filter (\<lambda>(t, b). \<not> IsAborted (the (ep_heap s1 b))) evs = filter (\<lambda>(t, b). \<not> IsAborted (the (ep_heap s b))) evs"
    using ne by (intro filter_cong) (auto simp: s1_def)
  have world: "abort_all g s1 evs (ep_world s1) = abort_all g s (ta # evs) (ep_world s)"
    using e flt by (simp add: abort_all_def ta) (simp add: s1_def)
  have frame: "s1\<lparr>ep_events := x, ep_heap := h, ep_world := w\<rparr> = s\<lparr>ep_events := x, ep_heap := h, ep_world := w\<rparr>" for x h w
    by (simp add: s1_def)
  have kept: "pre1 @ filter (\<lambda>(t, a). force \<or> \<not> d a) evs = pre @ filter (\<lambda>(t, a). force \<or> \<not> d a) (ta # evs)"
    by (simp add: pre1_def ta)
  show ?case by (simp only: step IH heap world frame kept)
qed

text \<open>KillAllEvents on a well-formed processor whose aborts change the world only returns and succeeds. Every queued event that was not
  aborted yet is aborted, in queue order, and no other; with force every queued event is deleted and the queue
  is empty, without force exactly the events that cannot be deleted stay, in state aborted, and no other
  memory changes.\<close>

theorem KillAllEvents_effect:
  assumes "ep_wf s" "\<And>a t s. mAbort M a t s = s\<lparr>ep_world := g a t (ep_world s)\<rparr>" "\<And>a w. mIsDeletable M a w = d a"
  shows "ep_KillAllEvents M force s = Some (Inr (s\<lparr>
     ep_events := (if force then [] else filter (\<lambda>(t, a). \<not> d a) (ep_events s)),
     ep_heap := killed_heap (\<lambda>a. \<not> force \<and> \<not> d a) (ep_heap s) (ep_events s),
     ep_world := abort_all g s (ep_events s) (ep_world s)\<rparr>))"
  using assms(1) kill_pass [of s "[]" "ep_events s" M g d force, OF _ _ _ assms(2,3)]
  by (cases s) (auto simp: ep_KillAllEvents_def ep_wf_def)

theorem KillAllEvents_effect_witness:
  "ep_KillAllEvents basic_methods True
     \<lparr>ep_time = 5, ep_events = [(7, 1), (9, 2)], ep_heap = [1 \<mapsto> BasicEvent, 2 \<mapsto> BasicEvent], ep_world = ()\<rparr>
   = Some (Inr \<lparr>ep_time = 5, ep_events = [], ep_heap = Map.empty, ep_world = ()\<rparr>)"
proof -
  let ?s = "\<lparr>ep_time = 5, ep_events = [(7, 1), (9, 2)], ep_heap = [1 \<mapsto> BasicEvent, 2 \<mapsto> BasicEvent], ep_world = ()\<rparr>"
  have "ep_wf ?s" by (simp add: ep_wf_def)
  from KillAllEvents_effect [OF this, of basic_methods "\<lambda>a t w. w" "\<lambda>_. True" True] show ?thesis
    by (auto simp: basic_methods_def killed_heap_def fun_eq_iff)
qed

end
