(* ===== verification/Task_Scheduler.thy ===== *)
theory Task_Scheduler
  imports Timer_Store
begin

text \<open>
  The task scheduler, \<^verbatim>\<open>src/src/common/Utilities/TaskScheduler.{h,cpp}\<close>. Tasks are shared between the
  queue and the contexts handed to their handlers, so they live at addresses of a store; the queue
  holds addresses, each with the end time under which it was inserted. A handler is a name whose
  meaning (a transformation of the scheduler) is a parameter. Time points are integers; the 64-bit
  nanosecond counter of the steady clock does not overflow within centuries.
\<close>

section \<open>Tasks and the queue\<close>

record 'h task =
  tk_end :: int
  tk_duration :: int
  tk_group :: "uint32 option"
  tk_repeated :: uint32
  tk_task :: 'h

definition IsInGroup :: "uint32 \<Rightarrow> 'h task \<Rightarrow> bool" where
  "IsInGroup grp t \<longleftrightarrow> tk_group t = Some grp"

record ('h, 'w) scheduler =
  ts_now :: int
  ts_holder :: "(int \<times> nat) list"
  ts_heap :: "nat \<Rightarrow> 'h task"
  ts_next :: nat
  ts_consumed :: "nat \<Rightarrow> bool"
  ts_async :: "'h list"
  ts_predicate :: "'w \<Rightarrow> bool"
  ts_alive :: bool
  ts_world :: 'w

datatype ts_error = ContextConsumed | PopOfEmptyQueue

definition EmptyValidator :: "'w \<Rightarrow> bool" where
  "EmptyValidator w = True"

definition TaskScheduler :: "('w \<Rightarrow> bool) \<Rightarrow> int \<Rightarrow> (nat \<Rightarrow> 'h task) \<Rightarrow> 'w \<Rightarrow> ('h, 'w) scheduler" where
  "TaskScheduler p clock h w = \<lparr>ts_now = clock, ts_holder = [], ts_heap = h, ts_next = 0, ts_consumed = (\<lambda>_. False),
     ts_async = [], ts_predicate = p, ts_alive = True, ts_world = w\<rparr>"

definition SetValidator :: "('w \<Rightarrow> bool) \<Rightarrow> ('h, 'w) scheduler \<Rightarrow> ('h, 'w) scheduler" where
  "SetValidator p s = s\<lparr>ts_predicate := p\<rparr>"

definition ClearValidator :: "('h, 'w) scheduler \<Rightarrow> ('h, 'w) scheduler" where
  "ClearValidator s = s\<lparr>ts_predicate := EmptyValidator\<rparr>"

definition ts_insert :: "int \<Rightarrow> nat \<Rightarrow> ('h, 'w) scheduler \<Rightarrow> ('h, 'w) scheduler" where
  "ts_insert t a s = s\<lparr>ts_holder := mm_insert t a (ts_holder s)\<rparr>"

definition ts_erase_if :: "(nat \<Rightarrow> bool) \<Rightarrow> ('h, 'w) scheduler \<Rightarrow> ('h, 'w) scheduler" where
  "ts_erase_if P s = s\<lparr>ts_holder := filter (\<lambda>(t, a). \<not> P a) (ts_holder s)\<rparr>"

text \<open>\<^verbatim>\<open>Push\<close> compares by the end time the task has now.\<close>

definition Push :: "nat \<Rightarrow> ('h, 'w) scheduler \<Rightarrow> ('h, 'w) scheduler" where
  "Push a s = ts_insert (tk_end (ts_heap s a)) a s"

definition Clear :: "('h, 'w) scheduler \<Rightarrow> ('h, 'w) scheduler" where
  "Clear s = s\<lparr>ts_holder := []\<rparr>"

definition RemoveIf :: "('h task \<Rightarrow> bool) \<Rightarrow> ('h, 'w) scheduler \<Rightarrow> ('h, 'w) scheduler" where
  "RemoveIf P s = ts_erase_if (\<lambda>a. P (ts_heap s a)) s"

text \<open>
  \<^verbatim>\<open>ModifyIf\<close>: its filter changes the task it is given and says whether it did; changed tasks are
  taken out during the pass and inserted again behind it.
\<close>

fun modify_pass :: "('h task \<Rightarrow> 'h task \<times> bool) \<Rightarrow> (int \<times> nat) list \<Rightarrow> (nat \<Rightarrow> 'h task)
    \<Rightarrow> (nat \<Rightarrow> 'h task) \<times> (int \<times> nat) list \<times> nat list" where
  "modify_pass f [] h = (h, [], [])"
| "modify_pass f ((t, a) # es) h =
     (let (tk, changed) = f (h a);
          (h', kept, cache) = modify_pass f es (h(a := tk))
      in if changed then (h', kept, a # cache) else (h', (t, a) # kept, cache))"

definition ModifyIf :: "('h task \<Rightarrow> 'h task \<times> bool) \<Rightarrow> ('h, 'w) scheduler \<Rightarrow> ('h, 'w) scheduler" where
  "ModifyIf f s =
     (let (h, kept, cache) = modify_pass f (ts_holder s) (ts_heap s)
      in fold Push cache (s\<lparr>ts_heap := h, ts_holder := kept\<rparr>))"

section \<open>Operations of the scheduler\<close>

definition Async :: "'h \<Rightarrow> ('h, 'w) scheduler \<Rightarrow> ('h, 'w) scheduler" where
  "Async f s = s\<lparr>ts_async := ts_async s @ [f]\<rparr>"

definition CancelAll :: "('h, 'w) scheduler \<Rightarrow> ('h, 'w) scheduler" where
  "CancelAll s = (Clear s)\<lparr>ts_async := []\<rparr>"

definition CancelGroup :: "uint32 \<Rightarrow> ('h, 'w) scheduler \<Rightarrow> ('h, 'w) scheduler" where
  "CancelGroup grp = RemoveIf (IsInGroup grp)"

definition CancelGroupsOf :: "uint32 list \<Rightarrow> ('h, 'w) scheduler \<Rightarrow> ('h, 'w) scheduler" where
  "CancelGroupsOf grps = fold CancelGroup grps"

definition InsertTask :: "nat \<Rightarrow> ('h, 'w) scheduler \<Rightarrow> ('h, 'w) scheduler" where
  "InsertTask a s = Push a s"

text \<open>\<^verbatim>\<open>new Task(...)\<close> followed by \<^verbatim>\<open>InsertTask\<close>; the two overloads differ in the group only.\<close>

definition ScheduleAt :: "int \<Rightarrow> int \<Rightarrow> uint32 option \<Rightarrow> 'h \<Rightarrow> ('h, 'w) scheduler \<Rightarrow> ('h, 'w) scheduler" where
  "ScheduleAt end0 time grp f s =
     (let tk = \<lparr>tk_end = end0 + time, tk_duration = time, tk_group = grp, tk_repeated = 0, tk_task = f\<rparr>
      in InsertTask (ts_next s) (s\<lparr>ts_heap := (ts_heap s)(ts_next s := tk), ts_next := Suc (ts_next s)\<rparr>))"

definition ts_Schedule :: "int \<Rightarrow> uint32 option \<Rightarrow> 'h \<Rightarrow> ('h, 'w) scheduler \<Rightarrow> ('h, 'w) scheduler" where
  "ts_Schedule time grp f s = ScheduleAt (ts_now s) time grp f s"

definition Schedule_times :: "int list \<Rightarrow> uint32 option \<Rightarrow> 'h \<Rightarrow> ('h, 'w) scheduler \<Rightarrow> ('h, 'w) scheduler" where
  "Schedule_times tms grp f s = fold (\<lambda>time s'. ScheduleAt (ts_now s') time grp f s') tms s"

definition DelayAll :: "int \<Rightarrow> ('h, 'w) scheduler \<Rightarrow> ('h, 'w) scheduler" where
  "DelayAll d = ModifyIf (\<lambda>t. (t\<lparr>tk_end := tk_end t + d\<rparr>, True))"

definition DelayGroup :: "uint32 \<Rightarrow> int \<Rightarrow> ('h, 'w) scheduler \<Rightarrow> ('h, 'w) scheduler" where
  "DelayGroup grp d = ModifyIf (\<lambda>t. if IsInGroup grp t then (t\<lparr>tk_end := tk_end t + d\<rparr>, True) else (t, False))"

definition RescheduleAll :: "int \<Rightarrow> ('h, 'w) scheduler \<Rightarrow> ('h, 'w) scheduler" where
  "RescheduleAll d s = (let end0 = ts_now s + d in ModifyIf (\<lambda>t. (t\<lparr>tk_end := end0\<rparr>, True)) s)"

definition RescheduleGroup :: "uint32 \<Rightarrow> int \<Rightarrow> ('h, 'w) scheduler \<Rightarrow> ('h, 'w) scheduler" where
  "RescheduleGroup grp d s = (let end0 = ts_now s + d in
     ModifyIf (\<lambda>t. if IsInGroup grp t then (t\<lparr>tk_end := end0\<rparr>, True) else (t, False)) s)"

section \<open>Contexts\<close>

text \<open>
  A context names its task and its flag \<^verbatim>\<open>_consumed\<close>, which copies of the context share. The flag of
  the context made by a dispatch is a fresh cell.
\<close>

record task_context =
  cx_task :: nat
  cx_flag :: nat

definition ctx_Dispatch :: "(('h, 'w) scheduler \<Rightarrow> ('h, 'w) scheduler) \<Rightarrow> ('h, 'w) scheduler \<Rightarrow> ('h, 'w) scheduler" where
  "ctx_Dispatch f s = (if ts_alive s then f s else s)"

definition ctx_SetGroup :: "task_context \<Rightarrow> uint32 \<Rightarrow> ('h, 'w) scheduler \<Rightarrow> ('h, 'w) scheduler" where
  "ctx_SetGroup c grp s = s\<lparr>ts_heap := (ts_heap s)(cx_task c := (ts_heap s (cx_task c))\<lparr>tk_group := Some grp\<rparr>)\<rparr>"

definition ctx_ClearGroup :: "task_context \<Rightarrow> ('h, 'w) scheduler \<Rightarrow> ('h, 'w) scheduler" where
  "ctx_ClearGroup c s = s\<lparr>ts_heap := (ts_heap s)(cx_task c := (ts_heap s (cx_task c))\<lparr>tk_group := None\<rparr>)\<rparr>"

definition ctx_IsInGroup :: "task_context \<Rightarrow> uint32 \<Rightarrow> ('h, 'w) scheduler \<Rightarrow> bool" where
  "ctx_IsInGroup c grp s = IsInGroup grp (ts_heap s (cx_task c))"

definition GetRepeatCounter :: "task_context \<Rightarrow> ('h, 'w) scheduler \<Rightarrow> uint32" where
  "GetRepeatCounter c s = tk_repeated (ts_heap s (cx_task c))"

definition ctx_Repeat :: "task_context \<Rightarrow> int \<Rightarrow> ('h, 'w) scheduler \<Rightarrow> ts_error + ('h, 'w) scheduler" where
  "ctx_Repeat c d s =
     (if ts_consumed s (cx_flag c) then Inl ContextConsumed
      else let t = ts_heap s (cx_task c);
               t' = t\<lparr>tk_duration := d, tk_end := tk_end t + d, tk_repeated := tk_repeated t + 1\<rparr>;
               s1 = s\<lparr>ts_heap := (ts_heap s)(cx_task c := t'), ts_consumed := (ts_consumed s)(cx_flag c := True)\<rparr>
           in Inr (ctx_Dispatch (InsertTask (cx_task c)) s1))"

definition ctx_Repeat_same :: "task_context \<Rightarrow> ('h, 'w) scheduler \<Rightarrow> ts_error + ('h, 'w) scheduler" where
  "ctx_Repeat_same c s = ctx_Repeat c (tk_duration (ts_heap s (cx_task c))) s"

definition ctx_Schedule :: "task_context \<Rightarrow> int \<Rightarrow> uint32 option \<Rightarrow> 'h \<Rightarrow> ('h, 'w) scheduler \<Rightarrow> ('h, 'w) scheduler" where
  "ctx_Schedule c time grp f s = (let end0 = tk_end (ts_heap s (cx_task c)) in ctx_Dispatch (ScheduleAt end0 time grp f) s)"

definition ctx_Async :: "'h \<Rightarrow> ('h, 'w) scheduler \<Rightarrow> ('h, 'w) scheduler" where
  "ctx_Async f = ctx_Dispatch (Async f)"

definition ctx_CancelAll :: "('h, 'w) scheduler \<Rightarrow> ('h, 'w) scheduler" where
  "ctx_CancelAll = ctx_Dispatch CancelAll"

definition ctx_CancelGroup :: "uint32 \<Rightarrow> ('h, 'w) scheduler \<Rightarrow> ('h, 'w) scheduler" where
  "ctx_CancelGroup grp = ctx_Dispatch (CancelGroup grp)"

definition ctx_CancelGroupsOf :: "uint32 list \<Rightarrow> ('h, 'w) scheduler \<Rightarrow> ('h, 'w) scheduler" where
  "ctx_CancelGroupsOf grps = ctx_Dispatch (CancelGroupsOf grps)"

definition ctx_DelayAll :: "int \<Rightarrow> ('h, 'w) scheduler \<Rightarrow> ('h, 'w) scheduler" where
  "ctx_DelayAll d = ctx_Dispatch (DelayAll d)"

definition ctx_DelayGroup :: "uint32 \<Rightarrow> int \<Rightarrow> ('h, 'w) scheduler \<Rightarrow> ('h, 'w) scheduler" where
  "ctx_DelayGroup grp d = ctx_Dispatch (DelayGroup grp d)"

definition ctx_RescheduleAll :: "int \<Rightarrow> ('h, 'w) scheduler \<Rightarrow> ('h, 'w) scheduler" where
  "ctx_RescheduleAll d = ctx_Dispatch (RescheduleAll d)"

definition ctx_RescheduleGroup :: "uint32 \<Rightarrow> int \<Rightarrow> ('h, 'w) scheduler \<Rightarrow> ('h, 'w) scheduler" where
  "ctx_RescheduleGroup grp d = ctx_Dispatch (RescheduleGroup grp d)"

text \<open>
  The overloads with a range of durations apply the operations above to a duration drawn in
  milliseconds; the generator is a parameter.
\<close>

definition RandomDurationBetween :: "(uint32 \<Rightarrow> uint32 \<Rightarrow> uint32) \<Rightarrow> int \<Rightarrow> int \<Rightarrow> int" where
  "RandomDurationBetween urand min_ms max_ms = 1000000 * uint (urand (word_of_int min_ms) (word_of_int max_ms))"

section \<open>Dispatch\<close>

text \<open>The meaning of handlers: tasks are called with a context, asynchronous calls without.\<close>

record ('h, 'w) handlers =
  run_task :: "'h \<Rightarrow> task_context \<Rightarrow> ('h, 'w) scheduler \<Rightarrow> ts_error + ('h, 'w) scheduler"
  run_async :: "'h \<Rightarrow> ('h, 'w) scheduler \<Rightarrow> ts_error + ('h, 'w) scheduler"

definition predicate_ok :: "('h, 'w) scheduler \<Rightarrow> bool" where
  "predicate_ok s = ts_predicate s (ts_world s)"

text \<open>The asynchronous calls; the Boolean says whether the validator let the dispatch continue.\<close>

partial_function (option) async_loop ::
    "('h, 'w) handlers \<Rightarrow> ('h, 'w) scheduler \<Rightarrow> (ts_error + bool \<times> ('h, 'w) scheduler) option" where
  [code]: "async_loop H s =
     (case ts_async s of
        [] \<Rightarrow> Some (Inr (True, s))
      | f # _ \<Rightarrow>
          (case run_async H f s of
             Inl e \<Rightarrow> Some (Inl e)
           | Inr s1 \<Rightarrow>
               (case ts_async s1 of
                  [] \<Rightarrow> Some (Inl PopOfEmptyQueue)
                | _ # fs \<Rightarrow>
                    let s2 = s1\<lparr>ts_async := fs\<rparr>
                    in if \<not> predicate_ok s2 then Some (Inr (False, s2)) else async_loop H s2)))"

text \<open>The context for a task taken off the queue.\<close>

definition new_context :: "nat \<Rightarrow> ('h, 'w) scheduler \<Rightarrow> task_context \<times> ('h, 'w) scheduler" where
  "new_context a s = (\<lparr>cx_task = a, cx_flag = ts_next s\<rparr>,
     s\<lparr>ts_next := Suc (ts_next s), ts_consumed := (ts_consumed s)(ts_next s := False)\<rparr>)"

definition Invoke :: "('h, 'w) handlers \<Rightarrow> task_context \<Rightarrow> ('h, 'w) scheduler \<Rightarrow> ts_error + ('h, 'w) scheduler" where
  "Invoke H c s = run_task H (tk_task (ts_heap s (cx_task c))) c s"

partial_function (option) task_loop ::
    "('h, 'w) handlers \<Rightarrow> ('h, 'w) scheduler \<Rightarrow> (ts_error + bool \<times> ('h, 'w) scheduler) option" where
  [code]: "task_loop H s =
     (case ts_holder s of
        [] \<Rightarrow> Some (Inr (True, s))
      | (t, a) # rest \<Rightarrow>
          if tk_end (ts_heap s a) > ts_now s then Some (Inr (True, s))
          else (case new_context a (s\<lparr>ts_holder := rest\<rparr>) of (c, s1) \<Rightarrow>
                 (case Invoke H c s1 of
                    Inl e \<Rightarrow> Some (Inl e)
                  | Inr s2 \<Rightarrow> if \<not> predicate_ok s2 then Some (Inr (False, s2)) else task_loop H s2)))"

definition ts_Dispatch :: "('h, 'w) handlers \<Rightarrow> (('h, 'w) scheduler \<Rightarrow> ('h, 'w) scheduler)
    \<Rightarrow> ('h, 'w) scheduler \<Rightarrow> (ts_error + ('h, 'w) scheduler) option" where
  "ts_Dispatch H callback s =
     (if \<not> predicate_ok s then Some (Inr s)
      else case async_loop H s of
        None \<Rightarrow> None
      | Some (Inl e) \<Rightarrow> Some (Inl e)
      | Some (Inr (False, s1)) \<Rightarrow> Some (Inr s1)
      | Some (Inr (True, s1)) \<Rightarrow>
          (case task_loop H s1 of
             None \<Rightarrow> None
           | Some (Inl e) \<Rightarrow> Some (Inl e)
           | Some (Inr (False, s2)) \<Rightarrow> Some (Inr s2)
           | Some (Inr (True, s2)) \<Rightarrow> Some (Inr (callback s2))))"

definition ts_Update :: "('h, 'w) handlers \<Rightarrow> int \<Rightarrow> (('h, 'w) scheduler \<Rightarrow> ('h, 'w) scheduler)
    \<Rightarrow> ('h, 'w) scheduler \<Rightarrow> (ts_error + ('h, 'w) scheduler) option" where
  "ts_Update H difftime callback s = ts_Dispatch H callback (s\<lparr>ts_now := ts_now s + difftime\<rparr>)"

definition ts_Update_clock :: "('h, 'w) handlers \<Rightarrow> int \<Rightarrow> (('h, 'w) scheduler \<Rightarrow> ('h, 'w) scheduler)
    \<Rightarrow> ('h, 'w) scheduler \<Rightarrow> (ts_error + ('h, 'w) scheduler) option" where
  "ts_Update_clock H clock callback s = ts_Dispatch H callback (s\<lparr>ts_now := clock\<rparr>)"

section \<open>The queue is a timer store\<close>

interpretation tsched: timer_store ts_holder ts_insert ts_erase_if
  by unfold_locales (simp_all add: ts_insert_def ts_erase_if_def)

section \<open>The queue is ordered by the current end times\<close>

text \<open>
  The keys of the queue agree with the tasks, every queued task is allocated and queued once.
\<close>

definition ts_wf :: "('h, 'w) scheduler \<Rightarrow> bool" where
  "ts_wf s \<longleftrightarrow> mm_sorted (ts_holder s) \<and> distinct (map snd (ts_holder s)) \<and>
     (\<forall>(t, a) \<in> set (ts_holder s). t = tk_end (ts_heap s a) \<and> a < ts_next s)"

lemma ts_frame [simp]:
  "ts_holder (ts_insert t a s) = mm_insert t a (ts_holder s)" "ts_heap (ts_insert t a s) = ts_heap s"
  "ts_next (ts_insert t a s) = ts_next s" "ts_consumed (ts_insert t a s) = ts_consumed s"
  "ts_now (ts_insert t a s) = ts_now s"
  by (simp_all add: ts_insert_def)

lemma ts_wf_Push: "ts_wf s \<Longrightarrow> a \<notin> snd ` set (ts_holder s) \<Longrightarrow> a < ts_next s \<Longrightarrow> ts_wf (Push a s)"
  by (auto simp: ts_wf_def Push_def distinct_snd_mm_insert)

lemma ts_wf_erase: "ts_wf s \<Longrightarrow> ts_wf (ts_erase_if P s)"
  by (auto simp: ts_wf_def ts_erase_if_def distinct_snd_filter)

text \<open>What \<^verbatim>\<open>ModifyIf\<close> leaves in the store and in the queue.\<close>

lemma modify_pass_eq:
  "distinct (map snd es) \<Longrightarrow> modify_pass f es h =
     (\<lambda>a. if a \<in> snd ` set es then fst (f (h a)) else h a,
      filter (\<lambda>(t, a). \<not> snd (f (h a))) es, map snd (filter (\<lambda>(t, a). snd (f (h a))) es))"
proof (induction es arbitrary: h)
  case (Cons e es)
  obtain t a where e: "e = (t, a)" by force
  have a: "a \<notin> snd ` set es" using Cons.prems e by auto
  obtain tk c where f: "f (h a) = (tk, c)" by force
  have keep: "filter (\<lambda>(t, b). P (f ((h(a := tk)) b))) es = filter (\<lambda>(t, b). P (f (h b))) es" for P
    using a by (intro filter_cong) force+
  have ne: "filter (\<lambda>(t, b). \<not> snd (f ((h(a := tk)) b))) es = filter (\<lambda>(t, b). \<not> snd (f (h b))) es"
    by (rule keep)
  have po: "filter (\<lambda>(t, b). snd (f ((h(a := tk)) b))) es = filter (\<lambda>(t, b). snd (f (h b))) es"
    by (rule keep)
  have "modify_pass f es (h(a := tk)) =
     (\<lambda>b. if b \<in> snd ` set es then fst (f ((h(a := tk)) b)) else (h(a := tk)) b,
      filter (\<lambda>(t, b). \<not> snd (f (h b))) es, map snd (filter (\<lambda>(t, b). snd (f (h b))) es))"
    using Cons.prems by (subst Cons.IH) (simp_all only: list.map distinct.simps ne po)
  moreover have "(\<lambda>b. if b \<in> snd ` set es then fst (f ((h(a := tk)) b)) else (h(a := tk)) b) =
     (\<lambda>b. if b \<in> snd ` set (e # es) then fst (f (h b)) else h b)"
    using a e f by (auto simp: fun_eq_iff)
  ultimately show ?case using e f by (auto simp: Let_def)
qed (simp add: fun_eq_iff)

lemma fold_Push:
  "fold Push as s = s\<lparr>ts_holder := mm_insert_all (map (\<lambda>a. (tk_end (ts_heap s a), a)) as) (ts_holder s)\<rparr>"
  by (induction as arbitrary: s) (simp_all add: Push_def ts_insert_def)

lemma ts_wf_ModifyIf:
  assumes wf: "ts_wf s" and keep: "\<And>t. \<not> snd (f t) \<Longrightarrow> tk_end (fst (f t)) = tk_end t"
  shows "ts_wf (ModifyIf f s)"
proof -
  let ?m = "ts_holder s" and ?h = "ts_heap s"
  let ?kept = "filter (\<lambda>(t, a). \<not> snd (f (?h a))) ?m" and ?cache = "map snd (filter (\<lambda>(t, a). snd (f (?h a))) ?m)"
  have d: "distinct (map snd ?m)" using wf by (simp add: ts_wf_def)
  have disj: "snd ` set (filter (\<lambda>(t, a). snd (f (?h a))) ?m) \<inter> snd ` set ?kept = {}" by auto
  have "distinct ?cache" "distinct (map snd ?kept)" using d by (auto intro: distinct_snd_filter)
  with wf keep disj show ?thesis
    by (auto simp: ModifyIf_def modify_pass_eq [OF d] fold_Push ts_wf_def distinct_snd_mm_insert_all image_image o_def
        intro!: image_eqI)
qed

lemma ModifyIf_addresses:
  assumes "ts_wf s"
  shows "snd ` set (ts_holder (ModifyIf f s)) = snd ` set (ts_holder s)"
    and "ts_next (ModifyIf f s) = ts_next s" and "ts_consumed (ModifyIf f s) = ts_consumed s"
proof -
  have d: "distinct (map snd (ts_holder s))" using assms by (simp add: ts_wf_def)
  have "snd ` set m = snd ` (set (filter (\<lambda>(t, a). Q a) m)) \<union> snd ` set (filter (\<lambda>(t, a). \<not> Q a) m)"
    for m :: "(int \<times> nat) list" and Q by force
  from this [of "ts_holder s" "\<lambda>a. snd (f (ts_heap s a))"]
  show "snd ` set (ts_holder (ModifyIf f s)) = snd ` set (ts_holder s)"
    by (simp add: ModifyIf_def modify_pass_eq [OF d] fold_Push image_Un image_image)
qed (simp_all add: ModifyIf_def modify_pass_eq assms [unfolded ts_wf_def] fold_Push)

text \<open>
  The schedulers and the contexts that can occur: every operation of the two classes, in any order and
  with any arguments, interleaved with changes of the clock, the validator and the world, the removal
  of tasks and asynchronous calls by a dispatch, and the end of the scheduler's life.
\<close>

inductive ts_reach :: "task_context set \<Rightarrow> ('h, 'w) scheduler \<Rightarrow> bool" where
  start: "ts_reach {} (TaskScheduler p clock h w)"
| outside: "ts_reach C s \<Longrightarrow>
    ts_reach C (s\<lparr>ts_now := n, ts_async := fs, ts_predicate := p, ts_alive := b, ts_world := w\<rparr>)"
| schedule: "ts_reach C s \<Longrightarrow> ts_reach C (ScheduleAt e t g f s)"
| cancel_all: "ts_reach C s \<Longrightarrow> ts_reach C (CancelAll s)"
| cancel_group: "ts_reach C s \<Longrightarrow> ts_reach C (CancelGroup g s)"
| delay_all: "ts_reach C s \<Longrightarrow> ts_reach C (DelayAll d s)"
| delay_group: "ts_reach C s \<Longrightarrow> ts_reach C (DelayGroup g d s)"
| reschedule_all: "ts_reach C s \<Longrightarrow> ts_reach C (RescheduleAll d s)"
| reschedule_group: "ts_reach C s \<Longrightarrow> ts_reach C (RescheduleGroup g d s)"
| pop: "ts_reach C s \<Longrightarrow> ts_holder s = (t, a) # rest \<Longrightarrow> new_context a (s\<lparr>ts_holder := rest\<rparr>) = (c, s') \<Longrightarrow>
    ts_reach (insert c C) s'"
| repeat: "ts_reach C s \<Longrightarrow> c \<in> C \<Longrightarrow> ctx_Repeat c d s = Inr s' \<Longrightarrow> ts_reach C s'"
| set_group: "ts_reach C s \<Longrightarrow> c \<in> C \<Longrightarrow> ts_reach C (ctx_SetGroup c g s)"
| clear_group: "ts_reach C s \<Longrightarrow> c \<in> C \<Longrightarrow> ts_reach C (ctx_ClearGroup c s)"

text \<open>A context that has not been consumed is the only one for its task, and the task is not queued.\<close>

definition ctx_inv :: "task_context set \<Rightarrow> ('h, 'w) scheduler \<Rightarrow> bool" where
  "ctx_inv C s \<longleftrightarrow>
     (\<forall>c \<in> C. cx_task c < ts_next s \<and> cx_flag c < ts_next s \<and>
        (\<not> ts_consumed s (cx_flag c) \<longrightarrow> cx_task c \<notin> snd ` set (ts_holder s))) \<and>
     (\<forall>c \<in> C. \<forall>c' \<in> C. \<not> ts_consumed s (cx_flag c) \<longrightarrow> \<not> ts_consumed s (cx_flag c') \<longrightarrow>
        cx_task c = cx_task c' \<longrightarrow> cx_flag c = cx_flag c')"

lemma ctx_inv_shrink:
  "ctx_inv C s \<Longrightarrow> ts_next s' = ts_next s \<Longrightarrow> ts_consumed s' = ts_consumed s \<Longrightarrow>
     snd ` set (ts_holder s') \<subseteq> snd ` set (ts_holder s) \<Longrightarrow> ctx_inv C s'"
  unfolding ctx_inv_def by (metis (no_types, lifting) subsetD)

lemma modify_inv:
  assumes "ts_wf s \<and> ctx_inv C s" "\<And>t. \<not> snd (f t) \<Longrightarrow> tk_end (fst (f t)) = tk_end t"
  shows "ts_wf (ModifyIf f s) \<and> ctx_inv C (ModifyIf f s)"
proof
  show "ts_wf (ModifyIf f s)" using assms by (intro ts_wf_ModifyIf) auto
  show "ctx_inv C (ModifyIf f s)"
    using conjunct2 [OF assms(1)] ModifyIf_addresses(2,3) [OF conjunct1 [OF assms(1)], of f]
    by (rule ctx_inv_shrink) (rule equalityD1, rule ModifyIf_addresses(1) [OF conjunct1 [OF assms(1)]])
qed

lemma schedule_inv:
  assumes "ts_wf s" "ctx_inv C s"
  shows "ts_wf (ScheduleAt e t g f s) \<and> ctx_inv C (ScheduleAt e t g f s)"
proof -
  have fresh: "ts_next s \<notin> snd ` set (ts_holder s)" using assms(1) by (force simp: ts_wf_def)
  define s1 where "s1 = s\<lparr>ts_heap := (ts_heap s)(ts_next s :=
     \<lparr>tk_end = e + t, tk_duration = t, tk_group = g, tk_repeated = 0, tk_task = f\<rparr>), ts_next := Suc (ts_next s)\<rparr>"
  have eq: "ScheduleAt e t g f s = Push (ts_next s) s1" by (simp add: ScheduleAt_def InsertTask_def s1_def Let_def)
  have "\<forall>(t, a) \<in> set (ts_holder s). t = tk_end (ts_heap s1 a) \<and> a < ts_next s1"
    using assms(1) by (auto simp: ts_wf_def s1_def dest: bspec)
  then have "ts_wf s1" using assms(1) by (simp add: ts_wf_def s1_def)
  then have "ts_wf (Push (ts_next s) s1)" using fresh by (intro ts_wf_Push) (simp_all add: s1_def)
  moreover have "cx_task c \<noteq> ts_next s" if "c \<in> C" for c using assms(2) that by (auto simp: ctx_inv_def)
  then have "ctx_inv C (Push (ts_next s) s1)"
    using assms(2) by (simp add: ctx_inv_def Push_def s1_def less_Suc_eq)
  ultimately show ?thesis by (simp add: eq)
qed

lemma pop_inv:
  assumes "ts_wf s" "ctx_inv C s" "ts_holder s = (t, a) # rest" "new_context a (s\<lparr>ts_holder := rest\<rparr>) = (c, s')"
  shows "ts_wf s' \<and> ctx_inv (insert c C) s'"
proof -
  have a: "a < ts_next s" "a \<notin> snd ` set rest" using assms(1,3) by (auto simp: ts_wf_def)
  have used: "ts_consumed s (cx_flag x)" if "x \<in> C" "cx_task x = a" for x
    using assms(2,3) that by (auto simp: ctx_inv_def)
  have old: "cx_flag x \<noteq> ts_next s" if "x \<in> C" for x using assms(2) that by (auto simp: ctx_inv_def)
  have "ts_wf s'" using assms(1,3,4) by (auto simp: ts_wf_def new_context_def less_Suc_eq)
  moreover have "ctx_inv (insert c C) s'"
    unfolding ctx_inv_def
  proof (intro conjI ballI impI)
    fix x assume "x \<in> insert c C"
    then show "cx_task x < ts_next s'" "cx_flag x < ts_next s'"
      using assms(2,4) a by (auto simp: ctx_inv_def new_context_def less_Suc_eq)
    assume "\<not> ts_consumed s' (cx_flag x)"
    then show "cx_task x \<notin> snd ` set (ts_holder s')"
    proof (cases "x = c")
      case True
      then show ?thesis using assms(4) a(2) by (force simp: new_context_def)
    next
      case False
      with \<open>x \<in> insert c C\<close> have x: "x \<in> C" by simp
      with old \<open>\<not> ts_consumed s' (cx_flag x)\<close> assms(4) have "\<not> ts_consumed s (cx_flag x)"
        by (auto simp: new_context_def)
      with x assms(2,3) have "cx_task x \<notin> snd ` set rest" unfolding ctx_inv_def by simp
      with assms(4) show ?thesis by (simp add: new_context_def del: image_iff) auto
    qed
  next
    fix x y assume "x \<in> insert c C" "y \<in> insert c C"
      "\<not> ts_consumed s' (cx_flag x)" "\<not> ts_consumed s' (cx_flag y)" "cx_task x = cx_task y"
    then show "cx_flag x = cx_flag y"
      using assms(2,4) old used by (auto simp: ctx_inv_def new_context_def)
  qed
  ultimately show ?thesis ..
qed

lemma repeat_inv:
  assumes "ts_wf s" "ctx_inv C s" "c \<in> C" "ctx_Repeat c d s = Inr s'"
  shows "ts_wf s' \<and> ctx_inv C s'"
proof -
  have live: "\<not> ts_consumed s (cx_flag c)" using assms(4) by (auto simp: ctx_Repeat_def split: if_splits)
  with assms(2,3) have free: "cx_task c \<notin> snd ` set (ts_holder s)" "cx_task c < ts_next s" by (auto simp: ctx_inv_def)
  have same: "cx_flag x = cx_flag c" if "x \<in> C" "cx_task x = cx_task c" "\<not> ts_consumed s (cx_flag x)" for x
    using assms(2,3) live that by (auto simp: ctx_inv_def)
  define tk where "tk = (ts_heap s (cx_task c))\<lparr>tk_duration := d, tk_end := tk_end (ts_heap s (cx_task c)) + d,
     tk_repeated := tk_repeated (ts_heap s (cx_task c)) + 1\<rparr>"
  define s1 where "s1 = s\<lparr>ts_heap := (ts_heap s)(cx_task c := tk), ts_consumed := (ts_consumed s)(cx_flag c := True)\<rparr>"
  have s': "s' = (if ts_alive s then Push (cx_task c) s1 else s1)"
    using assms(4) live by (auto simp: ctx_Repeat_def ctx_Dispatch_def s1_def tk_def InsertTask_def Let_def split: if_splits)
  have "ts_wf s1" using assms(1) free by (force simp: ts_wf_def s1_def)
  moreover from this have "ts_wf (Push (cx_task c) s1)" using free by (intro ts_wf_Push) (simp_all add: s1_def)
  ultimately have "ts_wf s'" by (simp add: s')
  moreover have "ctx_inv C s'"
    using assms(2) same unfolding ctx_inv_def by (auto simp: s' s1_def Push_def)
  ultimately show ?thesis ..
qed

lemma reach_inv: "ts_reach C s \<Longrightarrow> ts_wf s \<and> ctx_inv C s"
proof (induction rule: ts_reach.induct)
  case (start p clock h w)
  show ?case by (simp add: ts_wf_def ctx_inv_def TaskScheduler_def)
next
  case (cancel_group C s g)
  then show ?case
    by (auto simp: CancelGroup_def RemoveIf_def intro: ts_wf_erase)
       (auto simp: ts_erase_if_def elim!: ctx_inv_shrink)
next
  case (pop C s t a rest c s')
  then show ?case by (intro pop_inv) auto
next
  case (repeat C s c d s')
  then show ?case by (intro repeat_inv) auto
next
  case (delay_group C s g d)
  show ?case unfolding DelayGroup_def by (rule modify_inv [OF delay_group.IH]) (simp split: if_splits)
next
  case (reschedule_group C s g d)
  show ?case unfolding RescheduleGroup_def Let_def by (rule modify_inv [OF reschedule_group.IH]) (simp split: if_splits)
next
  case (delay_all C s d)
  show ?case unfolding DelayAll_def by (rule modify_inv [OF delay_all.IH]) simp
next
  case (reschedule_all C s d)
  show ?case unfolding RescheduleAll_def Let_def by (rule modify_inv [OF reschedule_all.IH]) simp
next
  case (schedule C s e t g f)
  then show ?case by (intro schedule_inv) auto
qed (auto simp: ts_wf_def ctx_inv_def CancelAll_def Clear_def ctx_SetGroup_def ctx_ClearGroup_def)

text \<open>C26: in every reachable scheduler the queue is ordered by the end times its tasks have now, holds no task
  twice, and no live context shares a task with the queue. Tasks are mutable and shared, so this is what
  makes reading the first element of the multi-set as the earliest task sound after delays, reschedules
  and repeats from any context.\<close>

theorem queue_ordered_by_current_end:
  assumes "ts_reach C s"
  shows "sorted (map (\<lambda>(t, a). tk_end (ts_heap s a)) (ts_holder s)) \<and> distinct (map snd (ts_holder s)) \<and>
     (\<forall>c \<in> C. \<not> ts_consumed s (cx_flag c) \<longrightarrow> cx_task c \<notin> snd ` set (ts_holder s))"
proof -
  have inv: "ts_wf s" "ctx_inv C s" using reach_inv [OF assms] by auto
  then have "map (\<lambda>(t, a). tk_end (ts_heap s a)) (ts_holder s) = map fst (ts_holder s)"
    by (auto simp: ts_wf_def intro!: map_cong)
  then show ?thesis using inv unfolding ctx_inv_def ts_wf_def by metis
qed

definition blank_task :: "unit task" where
  "blank_task = \<lparr>tk_end = 0, tk_duration = 0, tk_group = None, tk_repeated = 0, tk_task = ()\<rparr>"

theorem queue_ordered_by_current_end_witness:
  "sorted (map (\<lambda>(t, a). tk_end (ts_heap (DelayGroup 1 500 (ScheduleAt 0 200 None () (ScheduleAt 0 100 (Some 1) ()
       (TaskScheduler EmptyValidator 0 (\<lambda>_. blank_task) ())))) a))
     (ts_holder (DelayGroup 1 500 (ScheduleAt 0 200 None () (ScheduleAt 0 100 (Some 1) ()
       (TaskScheduler EmptyValidator 0 (\<lambda>_. blank_task) ()))))))"
  by (rule conjunct1 [OF queue_ordered_by_current_end [OF ts_reach.delay_group, OF ts_reach.schedule,
      OF ts_reach.schedule, OF ts_reach.start]])

section \<open>Repeating tasks\<close>

text \<open>How often a task with end time \<^term>\<open>e\<close> that repeats itself every \<^term>\<open>d\<close> falls due until \<^term>\<open>now\<close>.\<close>

definition due_count :: "int \<Rightarrow> int \<Rightarrow> int \<Rightarrow> nat" where
  "due_count e d now = (if e \<le> now then nat ((now - e) div d) + 1 else 0)"

lemma due_count_step: "0 < d \<Longrightarrow> e \<le> now \<Longrightarrow> due_count e d now = Suc (due_count (e + d) d now)"
proof (cases "e + d \<le> now")
  case True
  assume d: "0 < d"
  have "(now - e) div d = (now - (e + d)) div d + 1"
    using d div_add_self2 [of d "now - (e + d)"] by (simp add: algebra_simps)
  moreover have "0 \<le> (now - (e + d)) div d" using True d by (simp add: pos_imp_zdiv_nonneg_iff)
  ultimately show ?thesis using True d by (simp add: due_count_def nat_add_distrib)
qed (auto simp: due_count_def div_pos_pos_trivial)

text \<open>One queued task, every handler repeats with period \<^term>\<open>d\<close>, the validator always agrees.\<close>

definition solo :: "('h, 'w) scheduler \<Rightarrow> nat \<Rightarrow> bool" where
  "solo s a \<longleftrightarrow> ts_holder s = [(tk_end (ts_heap s a), a)] \<and> ts_alive s \<and> ts_predicate s = (\<lambda>w. True)"

lemma repeat_once:
  assumes "solo s a" "run_task H = (\<lambda>f c. ctx_Repeat c d)"
  shows "\<exists>s'. Invoke H (fst (new_context a (s\<lparr>ts_holder := []\<rparr>))) (snd (new_context a (s\<lparr>ts_holder := []\<rparr>))) = Inr s' \<and>
     solo s' a \<and> tk_end (ts_heap s' a) = tk_end (ts_heap s a) + d \<and> ts_now s' = ts_now s \<and>
     tk_repeated (ts_heap s' a) = tk_repeated (ts_heap s a) + 1"
  using assms by (simp add: solo_def Invoke_def new_context_def ctx_Repeat_def ctx_Dispatch_def InsertTask_def Push_def
      ts_insert_def Let_def)

lemma repeat_loop:
  assumes "solo s a" "run_task H = (\<lambda>f c. ctx_Repeat c d)" "0 < d" "due_count (tk_end (ts_heap s a)) d (ts_now s) = n"
  shows "\<exists>s'. task_loop H s = Some (Inr (True, s')) \<and> solo s' a \<and> ts_now s' = ts_now s \<and>
     tk_end (ts_heap s' a) = tk_end (ts_heap s a) + int n * d \<and> ts_now s < tk_end (ts_heap s' a) \<and>
     tk_repeated (ts_heap s' a) = tk_repeated (ts_heap s a) + of_nat n"
  using assms(1,4)
proof (induction n arbitrary: s)
  case 0
  then have "ts_now s < tk_end (ts_heap s a)" by (simp add: due_count_def split: if_splits)
  with 0 show ?case by (simp add: task_loop.simps [of H s] solo_def)
next
  case (Suc n)
  then have le: "tk_end (ts_heap s a) \<le> ts_now s" by (simp add: due_count_def split: if_splits)
  obtain s1 where s1: "Invoke H (fst (new_context a (s\<lparr>ts_holder := []\<rparr>))) (snd (new_context a (s\<lparr>ts_holder := []\<rparr>))) = Inr s1"
    "solo s1 a" "tk_end (ts_heap s1 a) = tk_end (ts_heap s a) + d" "ts_now s1 = ts_now s"
    "tk_repeated (ts_heap s1 a) = tk_repeated (ts_heap s a) + 1"
    using repeat_once [OF Suc.prems(1) assms(2)] by auto
  have "due_count (tk_end (ts_heap s1 a)) d (ts_now s1) = n"
    using Suc.prems(2) due_count_step [OF assms(3) le] s1(3,4) by simp
  from Suc.IH [OF s1(2) this] obtain s' where s': "task_loop H s1 = Some (Inr (True, s'))" "solo s' a" "ts_now s' = ts_now s1"
    "tk_end (ts_heap s' a) = tk_end (ts_heap s1 a) + int n * d" "ts_now s1 < tk_end (ts_heap s' a)"
    "tk_repeated (ts_heap s' a) = tk_repeated (ts_heap s1 a) + of_nat n" by blast
  have "task_loop H s = task_loop H s1"
    using Suc.prems(1) le s1(1,2) by (cases "new_context a (s\<lparr>ts_holder := []\<rparr>)") (simp add: task_loop.simps [of H s] solo_def predicate_ok_def)
  with s' s1 show ?case by (auto simp: algebra_simps)
qed

text \<open>An update that comes late makes up for every missed period. A single task that repeats itself with a
  positive period is run once for each multiple of the period up to the new time, the update returns,
  and the task is left queued for the first multiple behind it, with its repeat counter advanced by the
  number of runs.\<close>

theorem late_update_catches_up:
  fixes s :: "('h, 'w) scheduler"
  assumes "solo s a" "ts_async s = []" "run_task H = (\<lambda>f c. ctx_Repeat c d)" "0 < d"
  shows "\<exists>s'. ts_Update H dt id s = Some (Inr s') \<and> solo s' a \<and> ts_now s' = ts_now s + dt \<and>
     tk_end (ts_heap s' a) = tk_end (ts_heap s a) + int (due_count (tk_end (ts_heap s a)) d (ts_now s + dt)) * d \<and>
     ts_now s' < tk_end (ts_heap s' a) \<and>
     tk_repeated (ts_heap s' a) = tk_repeated (ts_heap s a) + of_nat (due_count (tk_end (ts_heap s a)) d (ts_now s + dt))"
proof -
  let ?s = "s\<lparr>ts_now := ts_now s + dt\<rparr>"
  have "solo ?s a" using assms(1) by (simp add: solo_def)
  from repeat_loop [OF this assms(3,4) refl] obtain s' where s': "task_loop H ?s = Some (Inr (True, s'))"
    "solo s' a" "ts_now s' = ts_now s + dt"
    "tk_end (ts_heap s' a) = tk_end (ts_heap s a) + int (due_count (tk_end (ts_heap s a)) d (ts_now s + dt)) * d"
    "ts_now s + dt < tk_end (ts_heap s' a)"
    "tk_repeated (ts_heap s' a) = tk_repeated (ts_heap s a) + of_nat (due_count (tk_end (ts_heap s a)) d (ts_now s + dt))"
    by auto
  have "async_loop H ?s = Some (Inr (True, ?s))" using assms(2) by (simp add: async_loop.simps [of H ?s])
  moreover have "predicate_ok ?s" using assms(1) by (simp add: predicate_ok_def solo_def)
  ultimately show ?thesis using s' by (auto simp: ts_Update_def ts_Dispatch_def)
qed

theorem late_update_catches_up_witness:
  "\<exists>s'. ts_Update \<lparr>run_task = (\<lambda>f c. ctx_Repeat c 100), run_async = (\<lambda>f. Inr)\<rparr> 1050 id
     (ScheduleAt 0 100 None () (TaskScheduler EmptyValidator 0 (\<lambda>_. blank_task) ())) = Some (Inr s') \<and> tk_end (ts_heap s' 0) = 1100"
proof -
  let ?s = "ScheduleAt 0 100 None () (TaskScheduler EmptyValidator 0 (\<lambda>_. blank_task) ())"
  have s: "solo ?s 0" "ts_async ?s = []" "tk_end (ts_heap ?s 0) = 100" "ts_now ?s = 0"
    by (simp_all add: solo_def ScheduleAt_def TaskScheduler_def InsertTask_def Push_def ts_insert_def EmptyValidator_def fun_eq_iff)
  have "run_task \<lparr>run_task = (\<lambda>(f :: unit) c. ctx_Repeat c 100 :: (unit, unit) scheduler \<Rightarrow> _), run_async = (\<lambda>f. Inr)\<rparr>
    = (\<lambda>f c. ctx_Repeat c 100)" by simp
  from late_update_catches_up [OF s(1,2) this, of 1050] s(3,4) show ?thesis
    by (auto simp: due_count_def)
qed

text \<open>An asynchronous call that cancels everything leaves the dispatch popping an empty queue, which is
  undefined behaviour of the standard library.\<close>

theorem async_CancelAll_pops_empty:
  assumes "predicate_ok s" "ts_async s = f # fs" "run_async H f s = Inr (CancelAll s')"
  shows "ts_Dispatch H callback s = Some (Inl PopOfEmptyQueue)"
  using assms by (simp add: ts_Dispatch_def async_loop.simps [of H s] CancelAll_def)

theorem async_CancelAll_pops_empty_witness:
  "ts_Dispatch \<lparr>run_task = (\<lambda>f c. Inr), run_async = (\<lambda>f s. Inr (CancelAll s))\<rparr> id
     (Async () (TaskScheduler EmptyValidator 0 (\<lambda>_. blank_task) ()))
   = Some (Inl PopOfEmptyQueue)"
  by (rule async_CancelAll_pops_empty [of _ "()" "[]"])
     (simp_all add: predicate_ok_def Async_def TaskScheduler_def EmptyValidator_def)

end
