(* ===== verification/Text_Util.thy ===== *)
theory Text_Util
  imports Object_Guid
begin

text \<open>
  Text helpers of \<^verbatim>\<open>src/src/common/Utilities/Util.cpp\<close>: the tokenizer, time and money strings, hexadecimal
  byte strings, and the hexadecimal text of identifiers that is stored in the database. The C library
  functions they call (\<^verbatim>\<open>strtoull\<close>, \<^verbatim>\<open>isdigit\<close>, \<^verbatim>\<open>tolower\<close> in the C locale) are modelled here too.
\<close>

unbundle bit_operations_syntax

section \<open>The C library\<close>

definition c_isdigit :: "char \<Rightarrow> bool" where
  "c_isdigit c \<longleftrightarrow> 48 \<le> (of_char c :: nat) \<and> (of_char c :: nat) \<le> 57"

definition c_isspace :: "char \<Rightarrow> bool" where
  "c_isspace c \<longleftrightarrow> c = CHR '' '' \<or> (9 \<le> (of_char c :: nat) \<and> (of_char c :: nat) \<le> 13)"

definition c_tolower :: "char \<Rightarrow> char" where
  "c_tolower c = (if 65 \<le> (of_char c :: nat) \<and> (of_char c :: nat) \<le> 90 then char_of (of_char c + 32 :: nat) else c)"

definition digit_value :: "char \<Rightarrow> nat option" where
  "digit_value c = (let n = (of_char c :: nat) in
     if 48 \<le> n \<and> n \<le> 57 then Some (n - 48)
     else if 97 \<le> n \<and> n \<le> 122 then Some (n - 87)
     else if 65 \<le> n \<and> n \<le> 90 then Some (n - 55)
     else None)"

definition is_digit_of :: "nat \<Rightarrow> char \<Rightarrow> bool" where
  "is_digit_of b c \<longleftrightarrow> (case digit_value c of None \<Rightarrow> False | Some d \<Rightarrow> d < b)"

definition digits_value :: "nat \<Rightarrow> string \<Rightarrow> nat" where
  "digits_value b s = foldl (\<lambda>n c. n * b + the (digit_value c)) 0 s"

text \<open>
  \<^verbatim>\<open>strtoull\<close> for the bases 10 and 16: leading white space, a sign, the prefix \<^verbatim>\<open>0x\<close> in base 16, then
  digits; the largest value when they do not fit.
\<close>

definition strtoull :: "nat \<Rightarrow> string \<Rightarrow> uint64" where
  "strtoull b s =
     (let s1 = dropWhile c_isspace s;
          neg = (s1 \<noteq> [] \<and> hd s1 = CHR ''-'');
          s2 = (if s1 \<noteq> [] \<and> (hd s1 = CHR ''-'' \<or> hd s1 = CHR ''+'') then tl s1 else s1);
          s3 = (if b = 16 \<and> 2 < length s2 \<and> s2 ! 0 = CHR ''0'' \<and> (s2 ! 1 = CHR ''x'' \<or> s2 ! 1 = CHR ''X'')
                   \<and> is_digit_of 16 (s2 ! 2)
                then drop 2 s2 else s2);
          n = digits_value b (takeWhile (is_digit_of b) s3)
      in if 2 ^ 64 \<le> n then - 1 else if neg then - of_nat n else of_nat n)"

section \<open>The tokenizer\<close>

text \<open>
  The constructor of \<^verbatim>\<open>Tokenizer\<close>: the text is cut at every separator; a zero byte ends it. Empty
  tokens are kept on request, except at the end. The second argument is the text between
  \<^verbatim>\<open>posold\<close> and \<^verbatim>\<open>posnew\<close>.
\<close>

fun tokenize :: "char \<Rightarrow> bool \<Rightarrow> string \<Rightarrow> string \<Rightarrow> string list" where
  "tokenize sep keepEmpty cur [] = (if cur \<noteq> [] then [cur] else [])"
| "tokenize sep keepEmpty cur (c # cs) =
     (if c = sep then (if keepEmpty \<or> cur \<noteq> [] then [cur] else []) @ tokenize sep keepEmpty [] cs
      else if c = CHR 0x00 then (if cur \<noteq> [] then [cur] else [])
      else tokenize sep keepEmpty (cur @ [c]) cs)"

definition Tokenizer :: "string \<Rightarrow> char \<Rightarrow> bool \<Rightarrow> string list" where
  "Tokenizer src sep keepEmptyStrings = tokenize sep keepEmptyStrings [] src"

lemma tokenize_word:
  "sep \<notin> set w \<Longrightarrow> CHR 0x00 \<notin> set w \<Longrightarrow> tokenize sep k cur (w @ rest) = tokenize sep k (cur @ w) rest"
  by (induction w arbitrary: cur) auto

lemma Tokenizer_terminated:
  assumes "\<forall>w \<in> set ws. sep \<notin> set w \<and> CHR 0x00 \<notin> set w"
  shows "Tokenizer (concat (map (\<lambda>w. w @ [sep]) ws)) sep True = ws"
  using assms by (induction ws) (simp_all add: Tokenizer_def tokenize_word)

section \<open>White space, times and money\<close>

definition inv_chars :: string where
  "inv_chars = [CHR '' '', CHR 0x09, CHR 0x07, CHR 0x0A]"

fun strip_loop :: "bool \<Rightarrow> string \<Rightarrow> string" where
  "strip_loop space [] = []"
| "strip_loop space (c # cs) =
     (if c \<in> set inv_chars then (if space then strip_loop True cs else CHR '' '' # strip_loop True cs)
      else c # strip_loop False cs)"

fun has_infix :: "string \<Rightarrow> string \<Rightarrow> bool" where
  "has_infix p [] \<longleftrightarrow> p = []"
| "has_infix p (c # cs) \<longleftrightarrow> take (length p) (c # cs) = p \<or> has_infix p cs"

definition stripLineInvisibleChars :: "string \<Rightarrow> string" where
  "stripLineInvisibleChars str = (let s = strip_loop False str in if has_infix ''|TInterface'' s then [] else s)"

definition secsToTimeString :: "uint64 \<Rightarrow> bool \<Rightarrow> bool \<Rightarrow> string" where
  "secsToTimeString timeInSecs shortText hoursOnly =
     (let t = unat timeInSecs; secs = t mod 60; minutes = t mod 3600 div 60; hours = t mod 86400 div 3600; days = t div 86400
      in (if days \<noteq> 0 then dec_string days @ (if shortText then ''d'' else '' Day(s) '') else []) @
         (if hours \<noteq> 0 \<or> hoursOnly then dec_string hours @ (if shortText then ''h'' else '' Hour(s) '') else []) @
         (if \<not> hoursOnly
          then (if minutes \<noteq> 0 then dec_string minutes @ (if shortText then ''m'' else '' Minute(s) '') else []) @
               (if secs \<noteq> 0 \<or> (days = 0 \<and> hours = 0 \<and> minutes = 0)
                then dec_string secs @ (if shortText then ''s'' else '' Second(s).'') else [])
          else []))"

fun time_loop :: "string \<Rightarrow> uint32 \<Rightarrow> uint32 \<Rightarrow> uint32" where
  "time_loop [] buffer secs = secs"
| "time_loop (c # cs) buffer secs =
     (if c_isdigit c then time_loop cs (buffer * 10 + (of_nat (of_char c) - 48)) secs
      else if c = CHR ''d'' then time_loop cs 0 (secs + buffer * 86400)
      else if c = CHR ''h'' then time_loop cs 0 (secs + buffer * 3600)
      else if c = CHR ''m'' then time_loop cs 0 (secs + buffer * 60)
      else if c = CHR ''s'' then time_loop cs 0 (secs + buffer * 1)
      else 0)"

definition TimeStringToSecs :: "string \<Rightarrow> uint32" where
  "TimeStringToSecs timestring = time_loop timestring 0 0"

fun money_loop :: "string list \<Rightarrow> uint64 \<Rightarrow> uint64" where
  "money_loop [] money = money"
| "money_loop (t # ts) money =
     (let gCount = count_list t (CHR ''g''); sCount = count_list t (CHR ''s''); cCount = count_list t (CHR ''c'')
      in if gCount + sCount + cCount \<noteq> 1 then 0
         else let amount = strtoull 10 t
              in money_loop ts (money + (if gCount = 1 then amount * 100 * 100
                                         else if sCount = 1 then amount * 100 else amount)))"

text \<open>The result is a signed 64-bit number; the sum wraps as its unsigned representation does.\<close>

definition MoneyStringToMoney :: "string \<Rightarrow> int" where
  "MoneyStringToMoney s =
     (if \<not> (count_list s (CHR ''g'') = 1 \<or> count_list s (CHR ''s'') = 1 \<or> count_list s (CHR ''c'') = 1) then 0
      else sint (money_loop (Tokenizer s (CHR '' '') True) 0))"

definition StringToBool :: "string \<Rightarrow> bool" where
  "StringToBool str = (let s = map c_tolower str in s = ''1'' \<or> s = ''true'' \<or> s = ''yes'')"

section \<open>Hexadecimal strings\<close>

definition hex_byte :: "uint8 \<Rightarrow> string" where
  "hex_byte b = [hex_digit (unat b div 16), hex_digit (unat b mod 16)]"

definition ByteArrayToHexStr :: "uint8 list \<Rightarrow> bool \<Rightarrow> string" where
  "ByteArrayToHexStr bytes backwards = concat (map hex_byte (if backwards then rev bytes else bytes))"

fun pairs :: "string \<Rightarrow> string list" where
  "pairs (a # b # s) = [a, b] # pairs s"
| "pairs _ = []"

definition HexStrToByteArray :: "string \<Rightarrow> bool \<Rightarrow> uint8 list" where
  "HexStrToByteArray str backwards =
     (if odd (length str) then []
      else map (\<lambda>p. ucast (strtoull 16 p)) (if backwards then rev (pairs str) else pairs str))"

text \<open>\<^verbatim>\<open>operator<<\<close> of identifiers to a stream: both halves as 16 lower-case digits.\<close>

definition hex16_lower :: "uint64 \<Rightarrow> string" where
  "hex16_lower v = map (\<lambda>i. c_tolower (hex_digit (unat (drop_bit (4 * i) v AND 0xF)))) (rev [0..<16])"

definition guid_stream :: "ObjectGuid \<Rightarrow> string" where
  "guid_stream g = hex16_lower (guid_high g) @ hex16_lower (guid_low g)"

section \<open>Reading numbers back\<close>

lemma hex_digit_facts:
  assumes "d < 16"
  shows "digit_value (c_tolower (hex_digit d)) = Some d" "digit_value (hex_digit d) = Some d"
    "\<not> c_isspace (c_tolower (hex_digit d))" "\<not> c_isspace (hex_digit d)"
    "c_tolower (hex_digit d) \<notin> set ''+-xX ''" "hex_digit d \<notin> set ''+-xX ''" "c_tolower (hex_digit d) \<noteq> CHR 0x00"
proof -
  have d: "d \<in> {0, 1, 2, 3, 4, 5, 6, 7, 8, 9, 10, 11, 12, 13, 14, 15}" using assms by (simp, presburger)
  show "digit_value (c_tolower (hex_digit d)) = Some d" "digit_value (hex_digit d) = Some d"
    using d by (auto simp: hex_digit_def digit_value_def c_tolower_def)
  show "\<not> c_isspace (c_tolower (hex_digit d))" "\<not> c_isspace (hex_digit d)"
    using d by (auto simp: hex_digit_def c_isspace_def c_tolower_def char_of_eq_iff)
  show "c_tolower (hex_digit d) \<notin> set ''+-xX ''" "hex_digit d \<notin> set ''+-xX ''" "c_tolower (hex_digit d) \<noteq> CHR 0x00"
    using d by (auto simp: hex_digit_def c_tolower_def char_of_eq_iff)
qed

text \<open>A string of digits is read as the number it denotes.\<close>

lemma strtoull_digits:
  assumes "s \<noteq> []" "\<forall>c \<in> set s. is_digit_of b c \<and> \<not> c_isspace c \<and> c \<notin> set ''+-xX ''" "digits_value b s < 2 ^ 64"
  shows "strtoull b s = of_nat (digits_value b s)"
proof -
  obtain c cs where s: "s = c # cs" using assms(1) by (cases s) auto
  have sp: "dropWhile c_isspace s = s" using assms(2) s by simp
  have pre: "\<not> (b = 16 \<and> 2 < length s \<and> s ! 0 = CHR ''0'' \<and> (s ! 1 = CHR ''x'' \<or> s ! 1 = CHR ''X'') \<and> is_digit_of 16 (s ! 2))"
  proof
    assume "b = 16 \<and> 2 < length s \<and> s ! 0 = CHR ''0'' \<and> (s ! 1 = CHR ''x'' \<or> s ! 1 = CHR ''X'') \<and> is_digit_of 16 (s ! 2)"
    then have "s ! 1 \<in> set s" "s ! 1 = CHR ''x'' \<or> s ! 1 = CHR ''X''" by auto
    with assms(2) show False by auto
  qed
  have sg: "hd s \<noteq> CHR ''-''" "hd s \<noteq> CHR ''+''" using assms(2) s by auto
  have tw: "takeWhile (is_digit_of b) s = s" using assms(2) by (simp add: takeWhile_eq_all_conv)
  have n: "\<not> 2 ^ 64 \<le> digits_value b s" using assms(3) by simp
  show ?thesis
    unfolding strtoull_def Let_def sp by (simp only: sg pre tw n if_False simp_thms)
qed

lemma nibble_value: "unat (drop_bit (4 * i) v AND 0xF :: uint64) = unat v div 16 ^ i mod 16"
proof -
  have "(0xF :: uint64) = mask 4" by (simp add: mask_eq_exp_minus_1)
  then have "drop_bit (4 * i) v AND 0xF = take_bit 4 (drop_bit (4 * i) v)"
    by (simp only: take_bit_eq_mask)
  moreover have "unat (take_bit 4 (drop_bit (4 * i) v)) = take_bit 4 (drop_bit (4 * i) (unat v))"
    by (simp only: unsigned_take_bit_eq unat_drop_bit_eq)
  ultimately show ?thesis
    by (simp only: drop_bit_eq_div take_bit_eq_mod power_mult) simp
qed

lemma digits_value_hex:
  "foldl (\<lambda>m c. m * 16 + the (digit_value c)) acc
     (map (\<lambda>i. c_tolower (hex_digit (n div 16 ^ i mod 16))) (rev [0..<k])) = acc * 16 ^ k + n mod 16 ^ k"
proof (induction k arbitrary: acc)
  case (Suc k)
  have "n mod 16 ^ Suc k = 16 ^ k * (n div 16 ^ k mod 16) + n mod 16 ^ k"
    using mod_mult2_eq [of n "16 ^ k" 16] by (simp add: mult.commute)
  then show ?case using Suc by (simp add: hex_digit_facts algebra_simps)
qed simp

lemma strtoull_hex16: "strtoull 16 (hex16_lower v) = v"
proof -
  have ds: "hex16_lower v = map (\<lambda>i. c_tolower (hex_digit (unat v div 16 ^ i mod 16))) (rev [0..<16])"
    by (simp only: hex16_lower_def nibble_value)
  have lt: "unat v < 16 ^ 16" using unsigned_less [of v] by simp
  have val: "digits_value 16 (hex16_lower v) = unat v"
    unfolding digits_value_def ds using digits_value_hex [of 0 "unat v" 16] lt by simp
  have "strtoull 16 (hex16_lower v) = of_nat (digits_value 16 (hex16_lower v))"
  proof (rule strtoull_digits)
    show "hex16_lower v \<noteq> []" by (simp add: hex16_lower_def)
    show "\<forall>c \<in> set (hex16_lower v). is_digit_of 16 c \<and> \<not> c_isspace c \<and> c \<notin> set ''+-xX ''"
      unfolding ds using hex_digit_facts [of "_ mod 16"] by (auto simp: is_digit_of_def)
    show "digits_value 16 (hex16_lower v) < 2 ^ 64" unfolding val using unsigned_less [of v] by simp
  qed
  then show ?thesis by (simp add: val)
qed

lemma guid_stream_shape:
  "length (guid_stream g) = 32" "take 16 (guid_stream g) = hex16_lower (guid_high g)"
  "drop 16 (guid_stream g) = hex16_lower (guid_low g)"
  "CHR '' '' \<notin> set (guid_stream g)" "CHR 0x00 \<notin> set (guid_stream g)"
proof -
  have len: "length (hex16_lower v) = 16" for v by (simp add: hex16_lower_def)
  show "length (guid_stream g) = 32" "take 16 (guid_stream g) = hex16_lower (guid_high g)"
    "drop 16 (guid_stream g) = hex16_lower (guid_low g)" by (simp_all add: guid_stream_def len)
  have "CHR '' '' \<notin> set (hex16_lower v) \<and> CHR 0x00 \<notin> set (hex16_lower v)" for v
    unfolding hex16_lower_def nibble_value using hex_digit_facts(5,7) [of "unat v div 16 ^ _ mod 16"] by fastforce
  then show "CHR '' '' \<notin> set (guid_stream g)" "CHR 0x00 \<notin> set (guid_stream g)" by (simp_all add: guid_stream_def)
qed

lemma unat_bound: "unat (b :: uint8) < 256"
  using unsigned_less [where ?'a = nat, of b] by simp

text \<open>a byte array written as hexadecimal text is read back unchanged, in either byte order.\<close>

theorem hex_string_roundtrip: "HexStrToByteArray (ByteArrayToHexStr bs backwards) backwards = bs"
proof -
  have byte: "ucast (strtoull 16 (hex_byte b)) = b" for b :: uint8
  proof -
    have h: "unat b div 16 < 16" "unat b mod 16 < 16" using unat_bound [of b] by auto
    have "digits_value 16 (hex_byte b) = unat b"
      by (simp add: digits_value_def hex_byte_def hex_digit_facts [OF h(1)] hex_digit_facts [OF h(2)])
    moreover have "strtoull 16 (hex_byte b) = of_nat (digits_value 16 (hex_byte b))"
      using hex_digit_facts [OF h(1)] hex_digit_facts [OF h(2)] unsigned_less [of b] calculation h
      by (intro strtoull_digits) (auto simp: hex_byte_def is_digit_of_def)
    moreover have "ucast (ucast b :: uint64) = b" by (rule bit_word_eqI) (simp add: bit_simps)
    ultimately show ?thesis by simp
  qed
  have pairs: "pairs (concat (map hex_byte xs)) = map hex_byte xs" "even (length (concat (map hex_byte xs)))" for xs
    by (induction xs) (auto simp: hex_byte_def)
  show ?thesis
    using pairs [of bs] pairs [of "rev bs"]
    by (cases backwards) (simp_all add: HexStrToByteArray_def ByteArrayToHexStr_def byte o_def rev_map)
qed

lemma time_loop_number: "time_loop (dec_string n @ cs) 0 secs = time_loop cs (of_nat n) secs"
proof (induction n arbitrary: cs rule: dec_string.induct)
  case (1 n)
  have dig: "c_isdigit (hex_digit k) \<and> of_char (hex_digit k) = 48 + k" if "k < 10" for k
  proof -
    from that have "k \<in> {0, 1, 2, 3, 4, 5, 6, 7, 8, 9}" by (simp, presburger)
    then show ?thesis by (auto simp: hex_digit_def c_isdigit_def)
  qed
  show ?case
  proof (cases "n < 10")
    case True
    then show ?thesis using dig [OF True] by (simp add: dec_string.simps [of n])
  next
    case False
    have "of_nat (n div 10) * 10 + of_nat (n mod 10) = (of_nat n :: uint32)"
      by (metis div_mult_mod_eq of_nat_add of_nat_mult of_nat_numeral)
    with False 1 [OF False, of "hex_digit (n mod 10) # cs"] dig [of "n mod 10"] show ?thesis
      by (simp add: dec_string.simps [of n])
  qed
qed

text \<open>The short form of a duration is read back as the same number of seconds, up to the 32 bits of the
  result.\<close>

theorem time_string_roundtrip: "TimeStringToSecs (secsToTimeString t True False) = ucast t"
proof -
  let ?t = "unat t"
  have not_digit: "\<not> c_isdigit (CHR ''d'')" "\<not> c_isdigit (CHR ''h'')" "\<not> c_isdigit (CHR ''m'')" "\<not> c_isdigit (CHR ''s'')"
    by (simp_all add: c_isdigit_def)
  have part: "time_loop ((if n \<noteq> 0 then dec_string n @ c # [] else []) @ cs) 0 secs
      = time_loop cs 0 (secs + of_nat n * (of_nat k :: uint32))"
    if "(c, k) \<in> {(CHR ''d'', 86400), (CHR ''h'', 3600), (CHR ''m'', 60), (CHR ''s'', 1)}" for n c k cs secs
    using that not_digit by (auto simp: time_loop_number)
  have last: "time_loop (if n \<noteq> 0 \<or> b then dec_string n @ ''s'' else []) 0 secs = secs + of_nat n" for n b secs
    using not_digit time_loop_number [of n "''s''"] by auto
  have sum: "?t = ?t div 86400 * 86400 + ?t mod 86400 div 3600 * 3600 + ?t mod 3600 div 60 * 60 + ?t mod 60"
  proof -
    have "?t mod 86400 mod 3600 = ?t mod 3600" "?t mod 3600 mod 60 = ?t mod 60"
      by (simp_all add: mod_mod_cancel)
    then show ?thesis
      using div_mult_mod_eq [of ?t 86400] div_mult_mod_eq [of "?t mod 86400" 3600] div_mult_mod_eq [of "?t mod 3600" 60]
      by linarith
  qed
  have "TimeStringToSecs (secsToTimeString t True False) =
      0 + of_nat (?t div 86400) * of_nat 86400 + of_nat (?t mod 86400 div 3600) * of_nat 3600
        + of_nat (?t mod 3600 div 60) * of_nat 60 + of_nat (?t mod 60)"
    unfolding TimeStringToSecs_def secsToTimeString_def Let_def
    by (simp only: if_True if_False simp_thms append_Nil2 append_assoc part [of "CHR ''d''" 86400]
        part [of "CHR ''h''" 3600] part [of "CHR ''m''" 60] last insert_iff)
  also have "\<dots> = of_nat (?t div 86400 * 86400 + ?t mod 86400 div 3600 * 3600 + ?t mod 3600 div 60 * 60 + ?t mod 60)"
    by (simp only: of_nat_add of_nat_mult add_0)
  also have "\<dots> = of_nat ?t" by (simp only: sum [symmetric])
  also have "\<dots> = ucast t" by simp
  finally show ?thesis .
qed

end
