(* ===== verification/Chat_Channel.thy ===== *)
theory Chat_Channel
  imports Text_Util
begin

text \<open>
  Chat channels, \<^verbatim>\<open>src/src/server/game/Chat/Channels/Channel.{h,cpp}\<close>. A channel keeps its members in a map
  ordered by identifier, a set of banned players, the owner and its settings. Players, the world
  configuration, the client data stores and the database rows are the environment of an operation;
  packets, database writes and changes of a player's channel list are returned as effects, in order.
  A write through a reference to an erased member is an error.
\<close>

unbundle bit_operations_syntax

section \<open>Environment and effects\<close>

datatype chat_perm = RBAC_PERM_SILENTLY_JOIN_CHANNEL | RBAC_PERM_CHANGE_CHANNEL_NOT_MODERATOR
  | RBAC_PERM_TWO_SIDE_INTERACTION_CHANNEL | RBAC_PERM_WHO_SEE_ALL_SEC_LEVELS

text \<open>What the channel code asks of a player and its session.\<close>

record player =
  pl_guid :: ObjectGuid
  pl_name :: string
  pl_team :: uint32
  pl_security :: nat
  pl_gmVisible :: bool
  pl_inGroup :: bool
  pl_perm :: "chat_perm \<Rightarrow> bool"
  pl_ignores :: "ObjectGuid \<Rightarrow> bool"
  pl_addons :: "string \<Rightarrow> bool"

record channel_row =
  row_name :: string
  row_announce :: bool
  row_ownership :: bool
  row_password :: string
  row_bannedList :: string

record chat_env =
  FindConnectedPlayer :: "ObjectGuid \<Rightarrow> player option"
  FindConnectedPlayerByName :: "string \<Rightarrow> player option"
  IsVisibleGloballyFor :: "player \<Rightarrow> player \<Rightarrow> bool"
  CONFIG_RESTRICTED_LFG_CHANNEL :: bool
  CONFIG_ALLOW_TWO_SIDE_INTERACTION_CHANNEL :: bool
  CONFIG_GM_LEVEL_IN_WHO_LIST :: nat
  CONFIG_PRESERVE_CUSTOM_CHANNELS :: bool
  sChatChannelsStore :: "uint32 \<Rightarrow> uint32 option"
  CHAR_SEL_CHANNEL :: "string \<Rightarrow> uint32 \<Rightarrow> channel_row option"

datatype notice =
    NPlayerAlreadyMember ObjectGuid | NBanned | NWrongPassword | NNotInLFG | NJoined ObjectGuid
  | NYouJoined uint32 uint8 | NNotMember | NYouLeft uint32 bool | NLeft ObjectGuid | NNotModerator
  | NPlayerNotFound string | NNotOwner | NPlayerBanned ObjectGuid ObjectGuid | NPlayerKicked ObjectGuid ObjectGuid
  | NPlayerUnbanned ObjectGuid ObjectGuid | NPasswordChanged ObjectGuid | NChannelOwner ObjectGuid
  | NModeChange ObjectGuid uint8 uint8 | NOwnerChanged ObjectGuid | NAnnouncementsOn ObjectGuid
  | NAnnouncementsOff ObjectGuid | NMuted | NPlayerInviteBanned string | NInviteWrongFaction | NInvite ObjectGuid
  | NPlayerInvited string | NUserlistAdd ObjectGuid uint8 uint8 uint32 | NUserlistUpdate ObjectGuid uint8 uint8 uint32
  | NUserlistRemove ObjectGuid uint8 uint32 | NChat ObjectGuid uint32 string | NAddon ObjectGuid string string
  | NList uint8 "(ObjectGuid \<times> uint8) list" | NSystem string string bool

datatype effect = Send ObjectGuid notice | UpdateChannel channel_row uint32 | InsertChannel string uint32
  | UpdateUsage string uint32 | JoinedChannel ObjectGuid | LeftChannel ObjectGuid

datatype channel_error = MissingEntry uint32 | StringOutOfRange | WriteToErased ObjectGuid

section \<open>Members\<close>

record player_info =
  pi_flags :: uint8
  pi_invisible :: bool

definition PlayerInfo :: player_info where
  "PlayerInfo = \<lparr>pi_flags = 0, pi_invisible = False\<rparr>"

definition MEMBER_FLAG_OWNER :: uint8 where "MEMBER_FLAG_OWNER = 0x01"
definition MEMBER_FLAG_MODERATOR :: uint8 where "MEMBER_FLAG_MODERATOR = 0x02"
definition MEMBER_FLAG_MUTED :: uint8 where "MEMBER_FLAG_MUTED = 0x08"

definition pi_HasFlag :: "uint8 \<Rightarrow> player_info \<Rightarrow> bool" where
  "pi_HasFlag f i \<longleftrightarrow> pi_flags i AND f \<noteq> 0"

definition pi_put_flag :: "uint8 \<Rightarrow> bool \<Rightarrow> player_info \<Rightarrow> player_info" where
  "pi_put_flag f state i = i\<lparr>pi_flags := (if state then pi_flags i OR f else pi_flags i AND NOT f)\<rparr>"

abbreviation IsOwner :: "player_info \<Rightarrow> bool" where "IsOwner \<equiv> pi_HasFlag MEMBER_FLAG_OWNER"
abbreviation IsModerator :: "player_info \<Rightarrow> bool" where "IsModerator \<equiv> pi_HasFlag MEMBER_FLAG_MODERATOR"
abbreviation IsMuted :: "player_info \<Rightarrow> bool" where "IsMuted \<equiv> pi_HasFlag MEMBER_FLAG_MUTED"

section \<open>Channels\<close>

record channel =
  ch_announceEnabled :: bool
  ch_ownershipEnabled :: bool
  ch_persistent :: bool
  ch_isOwnerInvisible :: bool
  ch_flags :: uint8
  ch_id :: uint32
  ch_team :: uint32
  ch_ownerGuid :: ObjectGuid
  ch_name :: string
  ch_password :: string
  ch_players :: "(ObjectGuid \<times> player_info) list"
  ch_banned :: "ObjectGuid list"
  ch_zone :: "uint32 option"

definition Channel_builtin :: "chat_env \<Rightarrow> uint32 \<Rightarrow> uint32 \<Rightarrow> uint32 option \<Rightarrow> channel_error + channel" where
  "Channel_builtin env channelId team zone =
     (case sChatChannelsStore env channelId of
        None \<Rightarrow> Inl (MissingEntry channelId)
      | Some fl \<Rightarrow>
          let f1 = 0x10 OR (if fl AND 0x00008 \<noteq> 0 then 0x04 else 0);
              f2 = f1 OR (if fl AND 0x00020 \<noteq> 0 then 0x20 else 0);
              f3 = f2 OR (if fl AND 0x40000 \<noteq> 0 then 0x40 else 0x08)
          in Inr \<lparr>ch_announceEnabled = False, ch_ownershipEnabled = False, ch_persistent = False,
                  ch_isOwnerInvisible = False, ch_flags = f3, ch_id = channelId, ch_team = team,
                  ch_ownerGuid = GuidEmpty, ch_name = [], ch_password = [], ch_players = [], ch_banned = [], ch_zone = zone\<rparr>)"

definition insert_ban :: "ObjectGuid \<Rightarrow> ObjectGuid list \<Rightarrow> ObjectGuid list" where
  "insert_ban g bs = (if g \<in> set bs then bs else bs @ [g])"

text \<open>The list of banned players as stored: 32 digits and a space for each.\<close>

definition ban_text :: "ObjectGuid list \<Rightarrow> string" where
  "ban_text bs = concat (map (\<lambda>g. guid_stream g @ [CHR '' '']) bs)"

definition load_ban :: "string \<Rightarrow> ObjectGuid list \<Rightarrow> channel_error + ObjectGuid list" where
  "load_ban token bs =
     (if length token < 16 then Inl StringOutOfRange
      else let g = ObjectGuid (strtoull 16 (take 16 token)) (strtoull 16 (drop 16 token))
           in Inr (if IsEmpty g then bs else insert_ban g bs))"

definition load_bans :: "string \<Rightarrow> channel_error + ObjectGuid list" where
  "load_bans bannedList =
     (if bannedList = [] then Inr [] else forE load_ban (Tokenizer bannedList (CHR '' '') True) [])"

definition Channel_custom :: "chat_env \<Rightarrow> string \<Rightarrow> uint32 \<Rightarrow> channel_error + channel \<times> effect list" where
  "Channel_custom env name team =
     (let c = \<lparr>ch_announceEnabled = True, ch_ownershipEnabled = True, ch_persistent = False,
               ch_isOwnerInvisible = False, ch_flags = 0x01, ch_id = 0, ch_team = team,
               ch_ownerGuid = GuidEmpty, ch_name = name, ch_password = [], ch_players = [], ch_banned = [], ch_zone = None\<rparr>
      in if CONFIG_PRESERVE_CUSTOM_CHANNELS env
         then (case CHAR_SEL_CHANNEL env name team of
                 Some row \<Rightarrow> res_bind (load_bans (row_bannedList row)) (\<lambda>bans.
                   Inr (c\<lparr>ch_name := row_name row, ch_announceEnabled := row_announce row,
                          ch_ownershipEnabled := row_ownership row, ch_password := row_password row,
                          ch_banned := bans, ch_persistent := True\<rparr>, []))
               | None \<Rightarrow> Inr (c\<lparr>ch_persistent := True\<rparr>, [InsertChannel name team]))
         else Inr (c, []))"

definition IsConstant :: "channel \<Rightarrow> bool" where
  "IsConstant c \<longleftrightarrow> ch_id c \<noteq> 0"

definition IsOn :: "ObjectGuid \<Rightarrow> channel \<Rightarrow> bool" where
  "IsOn who c \<longleftrightarrow> map_of (ch_players c) who \<noteq> None"

definition IsBanned :: "ObjectGuid \<Rightarrow> channel \<Rightarrow> bool" where
  "IsBanned g c \<longleftrightarrow> g \<in> set (ch_banned c)"

definition GetPlayerFlags :: "ObjectGuid \<Rightarrow> channel \<Rightarrow> uint8" where
  "GetPlayerFlags g c = (case map_of (ch_players c) g of Some i \<Rightarrow> pi_flags i | None \<Rightarrow> 0)"

text \<open>\<^verbatim>\<open>_playersStore.at(guid)\<close> for a member.\<close>

definition info_at :: "ObjectGuid \<Rightarrow> channel \<Rightarrow> player_info" where
  "info_at g c = (case map_of (ch_players c) g of Some i \<Rightarrow> i | None \<Rightarrow> PlayerInfo)"

definition ch_adjust :: "ObjectGuid \<Rightarrow> (player_info \<Rightarrow> player_info) \<Rightarrow> channel \<Rightarrow> channel" where
  "ch_adjust g f c = c\<lparr>ch_players := om_adjust g f (ch_players c)\<rparr>"

definition GetLowerName :: "channel \<Rightarrow> string" where
  "GetLowerName c = map c_tolower (ch_name c)"

definition IsWorld :: "channel \<Rightarrow> bool" where
  "IsWorld c \<longleftrightarrow> GetLowerName c = ''world'' \<or> GetLowerName c = ''world_es'' \<or> GetLowerName c = ''world_fr''"

section \<open>Sending and storing\<close>

definition SendToOne :: "chat_env \<Rightarrow> notice \<Rightarrow> ObjectGuid \<Rightarrow> effect list" where
  "SendToOne env n who = (case FindConnectedPlayer env who of Some p \<Rightarrow> [Send (pl_guid p) n] | None \<Rightarrow> [])"

definition SendToAll :: "chat_env \<Rightarrow> notice \<Rightarrow> ObjectGuid \<Rightarrow> channel \<Rightarrow> effect list" where
  "SendToAll env n g c = concat (map (\<lambda>(k, i).
     case FindConnectedPlayer env k of
       Some p \<Rightarrow> if IsEmpty g \<or> \<not> pl_ignores p g then [Send (pl_guid p) n] else []
     | None \<Rightarrow> []) (ch_players c))"

definition SendToAllButOne :: "chat_env \<Rightarrow> notice \<Rightarrow> ObjectGuid \<Rightarrow> channel \<Rightarrow> effect list" where
  "SendToAllButOne env n who c = concat (map (\<lambda>(k, i).
     if k \<noteq> who then (case FindConnectedPlayer env k of Some p \<Rightarrow> [Send (pl_guid p) n] | None \<Rightarrow> []) else [])
     (ch_players c))"

definition SendToAllWithAddon :: "chat_env \<Rightarrow> notice \<Rightarrow> string \<Rightarrow> ObjectGuid \<Rightarrow> channel \<Rightarrow> effect list" where
  "SendToAllWithAddon env n prefix g c = concat (map (\<lambda>(k, i).
     case FindConnectedPlayer env k of
       Some p \<Rightarrow> if pl_addons p prefix \<and> (IsEmpty g \<or> \<not> pl_ignores p g) then [Send (pl_guid p) n] else []
     | None \<Rightarrow> []) (ch_players c))"

definition UpdateChannelInDB :: "channel \<Rightarrow> effect list" where
  "UpdateChannelInDB c =
     (if ch_persistent c
      then [UpdateChannel \<lparr>row_name = ch_name c, row_announce = ch_announceEnabled c, row_ownership = ch_ownershipEnabled c,
              row_password = ch_password c, row_bannedList = ban_text (ch_banned c)\<rparr> (ch_team c)]
      else [])"

definition UpdateChannelUseageInDB :: "channel \<Rightarrow> effect list" where
  "UpdateChannelUseageInDB c = [UpdateUsage (ch_name c) (ch_team c)]"

section \<open>Joining and leaving\<close>

definition JoinNotify :: "chat_env \<Rightarrow> ObjectGuid \<Rightarrow> channel \<Rightarrow> effect list" where
  "JoinNotify env g c =
     (if IsConstant c then SendToAllButOne env (NUserlistAdd g (ch_flags c) (GetPlayerFlags g c) (ch_id c)) g c
      else SendToAll env (NUserlistUpdate g (ch_flags c) (GetPlayerFlags g c) (ch_id c)) GuidEmpty c)"

definition LeaveNotify :: "chat_env \<Rightarrow> ObjectGuid \<Rightarrow> channel \<Rightarrow> effect list" where
  "LeaveNotify env g c =
     (let n = NUserlistRemove g (ch_flags c) (ch_id c)
      in if IsConstant c then SendToAllButOne env n g c else SendToAll env n GuidEmpty c)"

definition SetOwner :: "chat_env \<Rightarrow> ObjectGuid \<Rightarrow> bool \<Rightarrow> channel \<Rightarrow> channel \<times> effect list" where
  "SetOwner env g exclaim c =
     (let c1 = (if \<not> IsEmpty (ch_ownerGuid c)
                then ch_adjust (ch_ownerGuid c) (pi_put_flag MEMBER_FLAG_OWNER False) c else c);
          c2 = c1\<lparr>ch_ownerGuid := g\<rparr>
      in if IsEmpty g \<or> \<not> IsOn g c2 then (c2, [])
         else let oldFlag = GetPlayerFlags g c2;
                  c3 = ch_adjust g (\<lambda>i. pi_put_flag MEMBER_FLAG_OWNER True (pi_put_flag MEMBER_FLAG_MODERATOR True i)) c2
              in (c3, SendToAll env (NModeChange g oldFlag (GetPlayerFlags g c3)) GuidEmpty c3 @
                      (if exclaim then SendToAll env (NOwnerChanged g) GuidEmpty c3 else []) @
                      UpdateChannelInDB c3))"

text \<open>Whether \<^verbatim>\<open>JoinChannel\<close> turns the player away, and with which notice.\<close>

definition join_refusal :: "chat_env \<Rightarrow> player \<Rightarrow> string \<Rightarrow> channel \<Rightarrow> effect list option" where
  "join_refusal env p pass c =
     (let g = pl_guid p in
      if IsOn g c then Some (if \<not> IsConstant c then SendToOne env (NPlayerAlreadyMember g) g else [])
      else if IsBanned g c then Some (SendToOne env NBanned g)
      else if ch_password c \<noteq> [] \<and> pass \<noteq> ch_password c then Some (SendToOne env NWrongPassword g)
      else if ch_flags c AND 0x40 \<noteq> 0 \<and> CONFIG_RESTRICTED_LFG_CHANNEL env \<and> pl_security p = 0 \<and> pl_inGroup p
           then Some (SendToOne env NNotInLFG g)
      else None)"

definition JoinChannel :: "chat_env \<Rightarrow> player \<Rightarrow> string \<Rightarrow> channel \<Rightarrow> channel \<times> effect list" where
  "JoinChannel env p pass c =
     (case join_refusal env p pass c of
        Some out \<Rightarrow> (c, out)
      | None \<Rightarrow>
          let g = pl_guid p;
              e1 = [JoinedChannel g] @
                   (if ch_announceEnabled c \<and> \<not> pl_perm p RBAC_PERM_SILENTLY_JOIN_CHANNEL
                    then SendToAll env (NJoined g) GuidEmpty c else []);
              newChannel = (ch_players c = []);
              info = PlayerInfo\<lparr>pi_invisible := \<not> pl_gmVisible p\<rparr>;
              c1 = c\<lparr>ch_players := om_set g info (ch_players c)\<rparr>;
              e2 = SendToOne env (NYouJoined (ch_id c1) (ch_flags c1)) g @ JoinNotify env g c1
          in if IsConstant c1 then (c1, e1 @ e2)
             else let e3 = UpdateChannelUseageInDB c1
                  in if ch_ownershipEnabled c1 \<and> (newChannel \<or> \<not> pi_invisible info) \<and>
                        (IsEmpty (ch_ownerGuid c1) \<or> ch_isOwnerInvisible c1)
                     then let c2 = c1\<lparr>ch_isOwnerInvisible := pi_invisible info\<rparr>;
                              (c3, e4) = SetOwner env g (\<not> newChannel \<and> \<not> ch_isOwnerInvisible c2) c2
                          in (ch_adjust g (pi_put_flag MEMBER_FLAG_MODERATOR True) c3, e1 @ e2 @ e3 @ e4)
                     else (c1, e1 @ e2 @ e3))"

text \<open>The heir of a departed owner: the first visible member, or the first of all.\<close>

definition pick_owner :: "(ObjectGuid \<times> player_info) list \<Rightarrow> ObjectGuid \<times> player_info" where
  "pick_owner ps = (case find (\<lambda>(k, i). \<not> pi_invisible i) ps of Some x \<Rightarrow> x | None \<Rightarrow> hd ps)"

definition LeaveChannel :: "chat_env \<Rightarrow> player \<Rightarrow> bool \<Rightarrow> bool \<Rightarrow> channel \<Rightarrow> channel \<times> effect list" where
  "LeaveChannel env p send suspend c =
     (let g = pl_guid p in
      if \<not> IsOn g c then (c, if send then SendToOne env NNotMember g else [])
      else let e1 = [LeftChannel g] @ (if send then SendToOne env (NYouLeft (ch_id c) suspend) g else []);
               changeowner = IsOwner (info_at g c);
               c1 = c\<lparr>ch_players := om_erase g (ch_players c)\<rparr>;
               e2 = (if ch_announceEnabled c1 \<and> \<not> pl_perm p RBAC_PERM_SILENTLY_JOIN_CHANNEL
                     then SendToAll env (NLeft g) GuidEmpty c1 else []) @ LeaveNotify env g c1
           in if IsConstant c1 then (c1, e1 @ e2)
              else let e3 = UpdateChannelUseageInDB c1
                   in if changeowner \<and> ch_ownershipEnabled c1 \<and> ch_players c1 \<noteq> []
                      then let (newowner, i) = pick_owner (ch_players c1);
                               c2 = ch_adjust newowner (pi_put_flag MEMBER_FLAG_MODERATOR True) c1;
                               (c3, e4) = SetOwner env newowner True c2
                           in (if pi_invisible i then c3\<lparr>ch_isOwnerInvisible := True\<rparr> else c3, e1 @ e2 @ e3 @ e4)
                      else (c1, e1 @ e2 @ e3))"

section \<open>Moderation\<close>

text \<open>The two checks with which the moderator commands open.\<close>

definition moderator_check :: "chat_env \<Rightarrow> player \<Rightarrow> channel \<Rightarrow> effect list option" where
  "moderator_check env p c =
     (let g = pl_guid p in
      if \<not> IsOn g c then Some (SendToOne env NNotMember g)
      else if \<not> IsModerator (info_at g c) \<and> \<not> pl_perm p RBAC_PERM_CHANGE_CHANNEL_NOT_MODERATOR
           then Some (SendToOne env NNotModerator g)
      else None)"

text \<open>The identifier of a connected player, or the empty one.\<close>

definition victim_of :: "chat_env \<Rightarrow> string \<Rightarrow> ObjectGuid" where
  "victim_of env badname = (case FindConnectedPlayerByName env badname of Some b \<Rightarrow> pl_guid b | None \<Rightarrow> GuidEmpty)"

text \<open>The middle part of \<^verbatim>\<open>KickOrBan\<close>: the ban is recorded, and the members are told.\<close>

definition mark_victim :: "chat_env \<Rightarrow> player \<Rightarrow> ObjectGuid \<Rightarrow> bool \<Rightarrow> channel \<Rightarrow> channel \<times> effect list" where
  "mark_victim env p victim ban c =
     (let silent = pl_perm p RBAC_PERM_SILENTLY_JOIN_CHANNEL; good = pl_guid p
      in if ban \<and> \<not> IsBanned victim c
         then let c' = c\<lparr>ch_banned := insert_ban victim (ch_banned c)\<rparr>
              in (c', UpdateChannelInDB c' @ (if \<not> silent then SendToAll env (NPlayerBanned good victim) GuidEmpty c' else []))
         else (c, if \<not> silent then SendToAll env (NPlayerKicked good victim) GuidEmpty c else []))"

definition KickOrBan :: "chat_env \<Rightarrow> player \<Rightarrow> string \<Rightarrow> bool \<Rightarrow> channel \<Rightarrow> channel_error + channel \<times> effect list" where
  "KickOrBan env p badname ban c =
     (case moderator_check env p c of
        Some out \<Rightarrow> Inr (c, out)
      | None \<Rightarrow>
          let good = pl_guid p;
              victim = victim_of env badname
          in if IsEmpty victim \<or> \<not> IsOn victim c then Inr (c, SendToOne env (NPlayerNotFound badname) good)
             else let changeowner = (ch_ownerGuid c = victim)
                  in if \<not> pl_perm p RBAC_PERM_CHANGE_CHANNEL_NOT_MODERATOR \<and> changeowner \<and> good \<noteq> ch_ownerGuid c
                     then Inr (c, SendToOne env NNotOwner good)
                     else let (c1, e1) = mark_victim env p victim ban c;
                              c2 = c1\<lparr>ch_players := om_erase victim (ch_players c1)\<rparr>;
                              e2 = e1 @ [LeftChannel victim]
                          in if changeowner \<and> ch_ownershipEnabled c2 \<and> ch_players c2 \<noteq> []
                             then if victim = good then Inl (WriteToErased good)
                                  else let (c4, e3) = SetOwner env good True (ch_adjust good (pi_put_flag MEMBER_FLAG_MODERATOR True) c2)
                                       in Inr (c4, e2 @ e3)
                             else Inr (c2, e2))"

definition UnBan :: "chat_env \<Rightarrow> player \<Rightarrow> string \<Rightarrow> channel \<Rightarrow> channel \<times> effect list" where
  "UnBan env p badname c =
     (case moderator_check env p c of
        Some out \<Rightarrow> (c, out)
      | None \<Rightarrow>
          let good = pl_guid p;
              victim = victim_of env badname
          in if IsEmpty victim \<or> \<not> IsBanned victim c then (c, SendToOne env (NPlayerNotFound badname) good)
             else let c1 = c\<lparr>ch_banned := filter (\<lambda>g. g \<noteq> victim) (ch_banned c)\<rparr>
                  in (c1, SendToAll env (NPlayerUnbanned good victim) GuidEmpty c1 @ UpdateChannelInDB c1))"

definition Password :: "chat_env \<Rightarrow> player \<Rightarrow> string \<Rightarrow> channel \<Rightarrow> channel \<times> effect list" where
  "Password env p pass c =
     (case moderator_check env p c of
        Some out \<Rightarrow> (c, out)
      | None \<Rightarrow> let c1 = c\<lparr>ch_password := pass\<rparr>
                in (c1, SendToAll env (NPasswordChanged (pl_guid p)) GuidEmpty c1 @ UpdateChannelInDB c1))"

text \<open>\<^verbatim>\<open>SetModerator\<close> and \<^verbatim>\<open>SetMute\<close> by identifier differ in the flag only.\<close>

definition set_member_flag :: "chat_env \<Rightarrow> uint8 \<Rightarrow> ObjectGuid \<Rightarrow> bool \<Rightarrow> channel \<Rightarrow> channel \<times> effect list" where
  "set_member_flag env f g on c =
     (if \<not> IsOn g c then (c, [])
      else if pi_HasFlag f (info_at g c) \<noteq> on
           then let oldFlag = GetPlayerFlags g c; c1 = ch_adjust g (pi_put_flag f on) c
                in (c1, SendToAll env (NModeChange g oldFlag (GetPlayerFlags g c1)) GuidEmpty c1)
           else (c, []))"

definition SetModerator :: "chat_env \<Rightarrow> ObjectGuid \<Rightarrow> bool \<Rightarrow> channel \<Rightarrow> channel \<times> effect list" where
  "SetModerator env = set_member_flag env MEMBER_FLAG_MODERATOR"

definition SetMute :: "chat_env \<Rightarrow> ObjectGuid \<Rightarrow> bool \<Rightarrow> channel \<Rightarrow> channel \<times> effect list" where
  "SetMute env = set_member_flag env MEMBER_FLAG_MUTED"

text \<open>Players of different factions interact only when both are permitted to.\<close>

definition wrong_faction :: "player \<Rightarrow> player \<Rightarrow> bool" where
  "wrong_faction p q \<longleftrightarrow> pl_team p \<noteq> pl_team q \<and>
     (\<not> pl_perm p RBAC_PERM_TWO_SIDE_INTERACTION_CHANNEL \<or> \<not> pl_perm q RBAC_PERM_TWO_SIDE_INTERACTION_CHANNEL)"

definition SetMode :: "chat_env \<Rightarrow> player \<Rightarrow> string \<Rightarrow> bool \<Rightarrow> bool \<Rightarrow> channel \<Rightarrow> channel \<times> effect list" where
  "SetMode env p p2n moder on c =
     (case moderator_check env p c of
        Some out \<Rightarrow> (c, out)
      | None \<Rightarrow>
          let g = pl_guid p in
          if g = ch_ownerGuid c \<and> p2n = pl_name p \<and> moder then (c, [])
          else (case FindConnectedPlayerByName env p2n of
                  None \<Rightarrow> (c, SendToOne env (NPlayerNotFound p2n) g)
                | Some newp \<Rightarrow>
                    let victim = pl_guid newp in
                    if IsEmpty victim \<or> \<not> IsOn victim c \<or> wrong_faction p newp
                    then (c, SendToOne env (NPlayerNotFound p2n) g)
                    else if ch_ownerGuid c = victim \<and> ch_ownerGuid c \<noteq> g then (c, SendToOne env NNotOwner g)
                    else if moder then SetModerator env victim on c
                    else SetMute env victim on c))"

definition SetInvisible :: "player \<Rightarrow> bool \<Rightarrow> channel \<Rightarrow> channel" where
  "SetInvisible p on c =
     (let g = pl_guid p in
      if \<not> IsOn g c then c
      else let c1 = ch_adjust g (\<lambda>i. i\<lparr>pi_invisible := on\<rparr>) c
           in if ch_ownerGuid c1 = g then c1\<lparr>ch_isOwnerInvisible := on\<rparr> else c1)"

definition SetOwner_name :: "chat_env \<Rightarrow> player \<Rightarrow> string \<Rightarrow> channel \<Rightarrow> channel \<times> effect list" where
  "SetOwner_name env p newname c =
     (let g = pl_guid p in
      if \<not> IsOn g c then (c, SendToOne env NNotMember g)
      else if \<not> pl_perm p RBAC_PERM_CHANGE_CHANNEL_NOT_MODERATOR \<and> g \<noteq> ch_ownerGuid c then (c, SendToOne env NNotOwner g)
      else case FindConnectedPlayerByName env newname of
             None \<Rightarrow> (c, SendToOne env (NPlayerNotFound newname) g)
           | Some newp \<Rightarrow>
               let victim = pl_guid newp in
               if IsEmpty victim \<or> \<not> IsOn victim c \<or> wrong_faction p newp
               then (c, SendToOne env (NPlayerNotFound newname) g)
               else SetOwner env victim True (ch_adjust victim (pi_put_flag MEMBER_FLAG_MODERATOR True) c))"

definition Announce :: "chat_env \<Rightarrow> player \<Rightarrow> channel \<Rightarrow> channel \<times> effect list" where
  "Announce env p c =
     (case moderator_check env p c of
        Some out \<Rightarrow> (c, out)
      | None \<Rightarrow>
          let c1 = c\<lparr>ch_announceEnabled := \<not> ch_announceEnabled c\<rparr>; g = pl_guid p
          in (c1, SendToAll env (if ch_announceEnabled c1 then NAnnouncementsOn g else NAnnouncementsOff g) GuidEmpty c1 @
                  UpdateChannelInDB c1))"

section \<open>Queries, speech and invitations\<close>

definition SendWhoOwner :: "chat_env \<Rightarrow> player \<Rightarrow> channel \<Rightarrow> effect list" where
  "SendWhoOwner env p c =
     SendToOne env (if IsOn (pl_guid p) c then NChannelOwner (ch_ownerGuid c) else NNotMember) (pl_guid p)"

definition ChannelList :: "chat_env \<Rightarrow> player \<Rightarrow> channel \<Rightarrow> effect list" where
  "ChannelList env p c =
     (if \<not> IsOn (pl_guid p) c then SendToOne env NNotMember (pl_guid p)
      else [Send (pl_guid p) (NList (ch_flags c) (map (\<lambda>(k, i). (k, pi_flags i)) (filter (\<lambda>(k, i).
              case FindConnectedPlayer env k of
                None \<Rightarrow> False
              | Some m \<Rightarrow> (pl_perm p RBAC_PERM_WHO_SEE_ALL_SEC_LEVELS \<or> pl_security m \<le> CONFIG_GM_LEVEL_IN_WHO_LIST env) \<and>
                          IsVisibleGloballyFor env m p) (ch_players c))))])"

text \<open>The checks shared by \<^verbatim>\<open>Say\<close> and \<^verbatim>\<open>AddonSay\<close>.\<close>

definition speech_refusal :: "chat_env \<Rightarrow> ObjectGuid \<Rightarrow> channel \<Rightarrow> effect list option" where
  "speech_refusal env g c =
     (if \<not> IsOn g c then Some (SendToOne env NNotMember g)
      else if IsMuted (info_at g c) then Some (SendToOne env NMuted g)
      else None)"

definition Say :: "chat_env \<Rightarrow> ObjectGuid \<Rightarrow> string \<Rightarrow> uint32 \<Rightarrow> channel \<Rightarrow> effect list" where
  "Say env g what lang c =
     (if what = [] then []
      else let lang' = (if CONFIG_ALLOW_TWO_SIDE_INTERACTION_CHANNEL env then 0 else lang)
           in case speech_refusal env g c of
                Some out \<Rightarrow> out
              | None \<Rightarrow> SendToAll env (NChat g lang' what) (if \<not> IsModerator (info_at g c) then g else GuidEmpty) c)"

definition AddonSay :: "chat_env \<Rightarrow> ObjectGuid \<Rightarrow> string \<Rightarrow> string \<Rightarrow> channel \<Rightarrow> effect list" where
  "AddonSay env g prefix what c =
     (if what = [] then []
      else case speech_refusal env g c of
             Some out \<Rightarrow> out
           | None \<Rightarrow> SendToAllWithAddon env (NAddon g prefix what) prefix
                       (if \<not> IsModerator (info_at g c) then g else GuidEmpty) c)"

definition Invite :: "chat_env \<Rightarrow> player \<Rightarrow> string \<Rightarrow> channel \<Rightarrow> effect list" where
  "Invite env p newname c =
     (let g = pl_guid p in
      if \<not> IsOn g c then SendToOne env NNotMember g
      else case FindConnectedPlayerByName env newname of
             None \<Rightarrow> SendToOne env (NPlayerNotFound newname) g
           | Some newp \<Rightarrow>
               if \<not> pl_gmVisible newp then SendToOne env (NPlayerNotFound newname) g
               else if IsBanned (pl_guid newp) c then SendToOne env (NPlayerInviteBanned newname) g
               else if wrong_faction newp p then SendToOne env NInviteWrongFaction g
               else if IsOn (pl_guid newp) c then SendToOne env (NPlayerAlreadyMember (pl_guid newp)) g
               else (if \<not> pl_ignores newp g then SendToOne env (NInvite g) (pl_guid newp) else []) @
                    SendToOne env (NPlayerInvited (pl_name newp)) g)"

definition SendToAllInChannel :: "chat_env \<Rightarrow> string \<Rightarrow> string \<Rightarrow> bool \<Rightarrow> channel \<Rightarrow> effect list" where
  "SendToAllInChannel env senderName message showGMLogo c =
     SendToAll env (NSystem senderName message showGMLogo) GuidEmpty c"

end
