(* ===== verification/Chat_Ownership.thy ===== *)
theory Chat_Ownership
  imports Chat_Channel
begin

text \<open>
  What channels guarantee: a custom channel with members has exactly one owner until a kick empties it, and never two,
  banned players stay out until they are unbanned, the ban list survives the database, commands of
  players without the right to moderate change nothing, and what goes wrong when an owner kicks himself.
\<close>

unbundle bit_operations_syntax

section \<open>Member flags\<close>

lemma has_flag_bit:
  "IsOwner i \<longleftrightarrow> bit (pi_flags i) 0" "IsModerator i \<longleftrightarrow> bit (pi_flags i) 1" "IsMuted i \<longleftrightarrow> bit (pi_flags i) 3"
  using and_exp_eq_0_iff_not_bit [of "pi_flags i" 0] and_exp_eq_0_iff_not_bit [of "pi_flags i" 1]
    and_exp_eq_0_iff_not_bit [of "pi_flags i" 3]
  by (simp_all add: pi_HasFlag_def MEMBER_FLAG_OWNER_def MEMBER_FLAG_MODERATOR_def MEMBER_FLAG_MUTED_def)

lemma flag_exp: "MEMBER_FLAG_OWNER = 2 ^ 0" "MEMBER_FLAG_MODERATOR = 2 ^ 1" "MEMBER_FLAG_MUTED = 2 ^ 3"
  by (simp_all add: MEMBER_FLAG_OWNER_def MEMBER_FLAG_MODERATOR_def MEMBER_FLAG_MUTED_def)

lemma put_flag_bit: "k < 8 \<Longrightarrow> n < 8 \<Longrightarrow> bit (pi_flags (pi_put_flag (2 ^ n) b i)) k = (if k = n then b else bit (pi_flags i) k)"
  by (auto simp: pi_put_flag_def bit_or_iff bit_and_iff bit_not_iff bit_exp_iff)

lemma put_flag_simps [simp]:
  "IsOwner (pi_put_flag MEMBER_FLAG_OWNER b i) = b"
  "IsOwner (pi_put_flag MEMBER_FLAG_MODERATOR b i) = IsOwner i"
  "IsOwner (pi_put_flag MEMBER_FLAG_MUTED b i) = IsOwner i"
  "IsModerator (pi_put_flag MEMBER_FLAG_MODERATOR b i) = b"
  "IsModerator (pi_put_flag MEMBER_FLAG_OWNER b i) = IsModerator i"
  "IsModerator (pi_put_flag MEMBER_FLAG_MUTED b i) = IsModerator i"
  by (simp_all only: has_flag_bit) (simp_all only: flag_exp put_flag_bit, simp_all)

lemma new_info_flags [simp]: "\<not> IsOwner PlayerInfo"
  by (simp add: pi_HasFlag_def PlayerInfo_def)

lemma owner_of_invisible [simp]: "IsOwner (i\<lparr>pi_invisible := b\<rparr>) = IsOwner i"
  by (simp add: pi_HasFlag_def)

section \<open>The owner of a channel\<close>


definition owner_present :: "channel \<Rightarrow> bool" where
  "owner_present c \<longleftrightarrow> (\<exists>i. map_of (ch_players c) (ch_ownerGuid c) = Some i \<and> IsOwner i)"



lemma ch_adjust_simps [simp]:
  "ch_players (ch_adjust g f c) = om_adjust g f (ch_players c)" "ch_ownerGuid (ch_adjust g f c) = ch_ownerGuid c"
  "ch_ownershipEnabled (ch_adjust g f c) = ch_ownershipEnabled c" "ch_id (ch_adjust g f c) = ch_id c"
  by (simp_all add: ch_adjust_def)

lemma IsOn_fst: "IsOn g c \<longleftrightarrow> g \<in> fst ` set (ch_players c)"
  unfolding IsOn_def by (rule map_of_in_fst)




lemma SetOwner_frame:
  "ch_id (fst (SetOwner env g ex c)) = ch_id c"
  "ch_ownershipEnabled (fst (SetOwner env g ex c)) = ch_ownershipEnabled c"
  "fst ` set (ch_players (fst (SetOwner env g ex c))) = fst ` set (ch_players c)"
  "ch_ownerGuid (fst (SetOwner env g ex c)) = g"
  "ch_players (fst (SetOwner env g ex c)) = [] \<longleftrightarrow> ch_players c = []"
  by (auto simp: SetOwner_def Let_def)


section \<open>The life of a custom channel\<close>

text \<open>
  The operations on a channel, by any players in any environment. Whoever leaves a channel asks the channel manager to destroy it
  when nobody is left, so that a departure leads to channels that still have members; a kick does not ask, so that a channel may be
  emptied and live on. A run carries the channels it has passed.
\<close>

inductive ch_step :: "channel \<Rightarrow> channel \<Rightarrow> bool" where
  join: "\<not> IsEmpty (pl_guid p) \<Longrightarrow> ch_step c (fst (JoinChannel env p pass c))"
| leave: "ch_players (fst (LeaveChannel env p send suspend c)) \<noteq> [] \<Longrightarrow> ch_step c (fst (LeaveChannel env p send suspend c))"
| kick: "KickOrBan env p name ban c = Inr (c', out) \<Longrightarrow> ch_step c c'"
| unban: "ch_step c (fst (UnBan env p name c))"
| password: "ch_step c (fst (Password env p pass c))"
| mode: "ch_step c (fst (SetMode env p name m b c))"
| invisible: "ch_step c (SetInvisible p b c)"
| owner: "ch_step c (fst (SetOwner_name env p name c))"
| announce: "ch_step c (fst (Announce env p c))"

inductive ch_run :: "channel list \<Rightarrow> channel \<Rightarrow> bool" where
  create: "Channel_custom env name team = Inr (c, out) \<Longrightarrow> ch_run [] c"
| step: "ch_run past c \<Longrightarrow> ch_step c c' \<Longrightarrow> ch_run (c # past) c'"






text \<open>The state behind \<^verbatim>\<open>JoinChannel\<close>, without its messages.\<close>

lemma JoinChannel_state:
  assumes "join_refusal env p pass c = None"
  defines "c1 \<equiv> c\<lparr>ch_players := om_set (pl_guid p) (PlayerInfo\<lparr>pi_invisible := \<not> pl_gmVisible p\<rparr>) (ch_players c)\<rparr>"
  shows "fst (JoinChannel env p pass c) =
     (if \<not> IsConstant c \<and> ch_ownershipEnabled c \<and> (ch_players c = [] \<or> pl_gmVisible p) \<and>
         (IsEmpty (ch_ownerGuid c) \<or> ch_isOwnerInvisible c)
      then ch_adjust (pl_guid p) (pi_put_flag MEMBER_FLAG_MODERATOR True)
             (fst (SetOwner env (pl_guid p) (ch_players c \<noteq> [] \<and> pl_gmVisible p)
                (c1\<lparr>ch_isOwnerInvisible := \<not> pl_gmVisible p\<rparr>)))
      else c1)"
  using assms(1) by (auto simp: JoinChannel_def Let_def case_prod_beta IsConstant_def c1_def)



lemma LeaveChannel_state:
  assumes "IsOn (pl_guid p) c" "\<not> IsConstant c"
  defines "c1 \<equiv> c\<lparr>ch_players := om_erase (pl_guid p) (ch_players c)\<rparr>"
  shows "fst (LeaveChannel env p send suspend c) =
     (if IsOwner (info_at (pl_guid p) c) \<and> ch_ownershipEnabled c \<and> ch_players c1 \<noteq> []
      then let (g, i) = pick_owner (ch_players c1);
               c3 = fst (SetOwner env g True (ch_adjust g (pi_put_flag MEMBER_FLAG_MODERATOR True) c1))
           in if pi_invisible i then c3\<lparr>ch_isOwnerInvisible := True\<rparr> else c3
      else c1)"
  using assms(1,2) by (simp add: LeaveChannel_def Let_def case_prod_beta IsConstant_def c1_def)



text \<open>What a kick or ban that passes the checks does to the channel.\<close>

definition may_kick :: "chat_env \<Rightarrow> player \<Rightarrow> string \<Rightarrow> channel \<Rightarrow> bool" where
  "may_kick env p badname c \<longleftrightarrow> moderator_check env p c = None \<and> \<not> IsEmpty (victim_of env badname) \<and>
     IsOn (victim_of env badname) c \<and>
     (pl_perm p RBAC_PERM_CHANGE_CHANNEL_NOT_MODERATOR \<or> ch_ownerGuid c \<noteq> victim_of env badname \<or>
      pl_guid p = ch_ownerGuid c)"

lemma KickOrBan_refused:
  assumes "\<not> may_kick env p badname c"
  shows "\<exists>out. KickOrBan env p badname ban c = Inr (c, out)"
  using assms by (cases "moderator_check env p c") (auto simp: KickOrBan_def may_kick_def Let_def)

lemma KickOrBan_state:
  fixes ban :: bool
  assumes "may_kick env p badname c"
  defines "v \<equiv> victim_of env badname"
  defines "c1 \<equiv> c\<lparr>ch_banned := (if ban then insert_ban v (ch_banned c) else ch_banned c),
                  ch_players := om_erase v (ch_players c)\<rparr>"
  shows "map_sum id fst (KickOrBan env p badname ban c) =
     (if ch_ownerGuid c = v \<and> ch_ownershipEnabled c \<and> ch_players c1 \<noteq> []
      then if v = pl_guid p then Inl (WriteToErased v)
           else Inr (fst (SetOwner env (pl_guid p) True (ch_adjust (pl_guid p) (pi_put_flag MEMBER_FLAG_MODERATOR True) c1)))
      else Inr c1)"
proof -
  have mark: "fst (mark_victim env p v ban c) = c\<lparr>ch_banned := (if ban then insert_ban v (ch_banned c) else ch_banned c)\<rparr>"
    by (simp add: mark_victim_def Let_def insert_ban_def IsBanned_def)
  obtain out where out: "mark_victim env p v ban c = (c\<lparr>ch_banned := (if ban then insert_ban v (ch_banned c) else ch_banned c)\<rparr>, out)"
    using mark by (metis prod.collapse)
  obtain c4 e3 where c4: "SetOwner env (pl_guid p) True (ch_adjust (pl_guid p) (pi_put_flag MEMBER_FLAG_MODERATOR True) c1) = (c4, e3)"
    by force
  have c1: "c\<lparr>ch_banned := (if ban then insert_ban v (ch_banned c) else ch_banned c)\<rparr>\<lparr>ch_players := om_erase v (ch_players (c\<lparr>ch_banned := (if ban then insert_ban v (ch_banned c) else ch_banned c)\<rparr>))\<rparr> = c1"
    by (simp add: c1_def)
  have own: "ch_ownershipEnabled c1 = ch_ownershipEnabled c" by (simp add: c1_def)
  have "moderator_check env p c = None" "\<not> (IsEmpty v \<or> \<not> IsOn v c)"
    "\<not> (\<not> pl_perm p RBAC_PERM_CHANGE_CHANNEL_NOT_MODERATOR \<and> ch_ownerGuid c = v \<and> pl_guid p \<noteq> ch_ownerGuid c)"
    using assms(1) by (auto simp: may_kick_def v_def)
  then show ?thesis
    unfolding KickOrBan_def Let_def v_def [symmetric]
    by (simp only: option.case if_False out prod.case c1 own c4 map_sum.simps id_apply fst_conv split: if_split) auto
qed








text \<open>Two players and an environment for the examples.\<close>

definition demo_player :: "nat \<Rightarrow> string \<Rightarrow> player" where
  "demo_player n name = \<lparr>pl_guid = ObjectGuid 0 (of_nat n), pl_name = name, pl_team = 469, pl_security = 0, pl_gmVisible = True,
     pl_inGroup = False, pl_perm = (\<lambda>_. False), pl_ignores = (\<lambda>_. False), pl_addons = (\<lambda>_. False)\<rparr>"

definition demo_env :: chat_env where
  "demo_env = \<lparr>FindConnectedPlayer = (\<lambda>g. if g = ObjectGuid 0 1 then Some (demo_player 1 ''A'')
       else if g = ObjectGuid 0 2 then Some (demo_player 2 ''B'') else None),
     FindConnectedPlayerByName = (\<lambda>n. if n = ''A'' then Some (demo_player 1 n) else if n = ''B'' then Some (demo_player 2 n) else None),
     IsVisibleGloballyFor = (\<lambda>_ _. True), CONFIG_RESTRICTED_LFG_CHANNEL = False,
     CONFIG_ALLOW_TWO_SIDE_INTERACTION_CHANNEL = False, CONFIG_GM_LEVEL_IN_WHO_LIST = 3,
     CONFIG_PRESERVE_CUSTOM_CHANNELS = False, sChatChannelsStore = (\<lambda>_. None), CHAR_SEL_CHANNEL = (\<lambda>_ _. None)\<rparr>"

definition demo_channel :: channel where
  "demo_channel = \<lparr>ch_announceEnabled = True, ch_ownershipEnabled = True, ch_persistent = False,
     ch_isOwnerInvisible = False, ch_flags = 1, ch_id = 0, ch_team = 469, ch_ownerGuid = GuidEmpty, ch_name = ''x'',
     ch_password = [], ch_players = [], ch_banned = [], ch_zone = None\<rparr>"

lemmas demo_simps = demo_player_def demo_env_def demo_channel_def GuidEmpty_def IsEmpty_def


text \<open>Two visible players join: the first becomes the owner, the second an ordinary member.\<close>

definition demo_pair :: channel where
  "demo_pair = fst (JoinChannel demo_env (demo_player 2 ''B'') [] (fst (JoinChannel demo_env (demo_player 1 ''A'') [] demo_channel)))"

lemma demo_single_state:
  "ch_players (fst (JoinChannel demo_env (demo_player 1 ''A'') [] demo_channel)) = [(ObjectGuid 0 1, \<lparr>pi_flags = 3, pi_invisible = False\<rparr>)]"
  by (simp add: demo_simps JoinChannel_state join_refusal_def SetOwner_def IsOn_def IsBanned_def IsConstant_def
      om_adjust_def pi_put_flag_def PlayerInfo_def MEMBER_FLAG_OWNER_def MEMBER_FLAG_MODERATOR_def ch_adjust_def Let_def
      less_ObjectGuid_def guid_less_def)

lemma demo_pair_state:
  "ch_ownerGuid demo_pair = ObjectGuid 0 1" "ch_ownershipEnabled demo_pair"
  "ch_players demo_pair = [(ObjectGuid 0 1, \<lparr>pi_flags = 3, pi_invisible = False\<rparr>), (ObjectGuid 0 2, \<lparr>pi_flags = 0, pi_invisible = False\<rparr>)]"
  by (simp_all add: demo_pair_def demo_simps JoinChannel_state join_refusal_def SetOwner_def IsOn_def IsBanned_def IsConstant_def
      om_adjust_def pi_put_flag_def PlayerInfo_def MEMBER_FLAG_OWNER_def MEMBER_FLAG_MODERATOR_def ch_adjust_def Let_def
      less_ObjectGuid_def guid_less_def)


text \<open>An owner who kicks himself breaks the channel. With other members present the code writes to the
  entry it has just erased. Without, the channel is empty but still names him as its owner, so the next
  visible player who joins does not become its owner and the channel has none.\<close>

theorem owner_kicks_himself:
  assumes "may_kick env p name c" "victim_of env name = pl_guid p" "ch_ownerGuid c = pl_guid p" "ch_ownershipEnabled c"
    and "\<not> IsConstant c" "\<not> ch_isOwnerInvisible c"
  shows "if om_erase (pl_guid p) (ch_players c) \<noteq> []
     then KickOrBan env p name ban c = Inl (WriteToErased (pl_guid p))
     else \<exists>c' out. KickOrBan env p name ban c = Inr (c', out) \<and> ch_players c' = [] \<and> ch_ownerGuid c' = pl_guid p \<and>
       (\<forall>env' q pass. pl_guid q \<noteq> pl_guid p \<longrightarrow> join_refusal env' q pass c' = None \<longrightarrow>
          IsOn (pl_guid q) (fst (JoinChannel env' q pass c')) \<and> \<not> owner_present (fst (JoinChannel env' q pass c')))"
proof -
  define c1 where "c1 = c\<lparr>ch_banned := (if ban then insert_ban (pl_guid p) (ch_banned c) else ch_banned c),
                  ch_players := om_erase (pl_guid p) (ch_players c)\<rparr>"
  note state = KickOrBan_state [OF assms(1), of ban, unfolded assms(2), folded c1_def]
  have ne: "\<not> IsEmpty (pl_guid p)" using assms(1,2) by (simp add: may_kick_def)
  show ?thesis
  proof (cases "om_erase (pl_guid p) (ch_players c) = []")
    case False
    then have "map_sum id fst (KickOrBan env p name ban c) = Inl (WriteToErased (pl_guid p))"
      using state assms(3,4) by (simp add: c1_def)
    with False show ?thesis by (cases "KickOrBan env p name ban c") simp_all
  next
    case True
    then have "map_sum id fst (KickOrBan env p name ban c) = Inr c1" using state by (simp add: c1_def)
    then obtain out where "KickOrBan env p name ban c = Inr (c1, out)"
      by (cases "KickOrBan env p name ban c") auto
    moreover have c1: "ch_players c1 = []" "ch_ownerGuid c1 = pl_guid p" "\<not> ch_isOwnerInvisible c1"
      using True assms by (simp_all add: c1_def)
    moreover have "IsOn (pl_guid q) (fst (JoinChannel env' q pass c1)) \<and> \<not> owner_present (fst (JoinChannel env' q pass c1))"
      if "pl_guid q \<noteq> pl_guid p" "join_refusal env' q pass c1 = None" for env' q pass
      using that c1 ne by (simp add: JoinChannel_state IsOn_def owner_present_def)
    ultimately show ?thesis using True by auto
  qed
qed

theorem owner_kicks_himself_witness:
  "KickOrBan demo_env (demo_player 1 ''A'') ''A'' False demo_pair = Inl (WriteToErased (ObjectGuid 0 1))"
proof -
  have k: "may_kick demo_env (demo_player 1 ''A'') ''A'' demo_pair" "victim_of demo_env ''A'' = pl_guid (demo_player 1 ''A'')"
    by (simp_all add: may_kick_def moderator_check_def victim_of_def IsOn_def info_at_def demo_pair_state pi_HasFlag_def
        MEMBER_FLAG_MODERATOR_def demo_simps)
  have "\<not> IsConstant demo_pair" "\<not> ch_isOwnerInvisible demo_pair"
    by (simp_all add: demo_pair_def demo_simps JoinChannel_state join_refusal_def SetOwner_def IsOn_def IsBanned_def IsConstant_def
      om_adjust_def ch_adjust_def Let_def less_ObjectGuid_def guid_less_def)
  from owner_kicks_himself [OF k _ _ this, of False] show ?thesis
    by (simp add: demo_pair_state demo_player_def om_erase_def)
qed

text \<open>So the condition of \<open>exactly_one_owner\<close> is needed: a player founds a channel, kicks himself, and whoever joins next is on
  a channel without an owner.\<close>

lemma kick_leaves_no_owner:
  "\<exists>past c. ch_run past c \<and> ch_players c \<noteq> [] \<and> ch_ownershipEnabled c \<and> \<not> owner_present c"
proof -
  define a b where "a = demo_player 1 ''A''" and "b = demo_player 2 ''B''"
  define c where "c = fst (JoinChannel demo_env a [] demo_channel)"
  have state: "ch_players c = [(ObjectGuid 0 1, \<lparr>pi_flags = 3, pi_invisible = False\<rparr>)]" unfolding c_def a_def by (rule demo_single_state)
  have more: "ch_ownerGuid c = ObjectGuid 0 1" "ch_ownershipEnabled c" "\<not> IsConstant c" "\<not> ch_isOwnerInvisible c" "ch_banned c = []"
    "ch_password c = []" "ch_flags c = 1"
    by (simp_all add: c_def a_def demo_simps JoinChannel_state join_refusal_def SetOwner_def IsOn_def IsBanned_def IsConstant_def
      om_adjust_def ch_adjust_def Let_def less_ObjectGuid_def guid_less_def)
  have k: "may_kick demo_env a ''A'' c" "victim_of demo_env ''A'' = pl_guid a"
    by (simp_all add: may_kick_def moderator_check_def victim_of_def IsOn_def info_at_def state more pi_HasFlag_def
        MEMBER_FLAG_MODERATOR_def a_def demo_simps)
  have g: "pl_guid a = ObjectGuid 0 1" "pl_guid b = ObjectGuid 0 2" by (simp_all add: a_def b_def demo_player_def)
  have "om_erase (pl_guid a) (ch_players c) = []" by (simp add: state g om_erase_def)
  then obtain c' out where c': "KickOrBan demo_env a ''A'' False c = Inr (c', out)" "ch_players c' = []" "ch_ownerGuid c' = pl_guid a"
      "\<And>env' q pass. pl_guid q \<noteq> pl_guid a \<Longrightarrow> join_refusal env' q pass c' = None \<Longrightarrow>
         IsOn (pl_guid q) (fst (JoinChannel env' q pass c')) \<and> \<not> owner_present (fst (JoinChannel env' q pass c'))"
    using owner_kicks_himself [OF k more(1) [folded g(1)] more(2-4), of False] by auto
  have frame: "ch_ownershipEnabled c' \<and> ch_banned c' = [] \<and> ch_password c' = [] \<and> ch_flags c' = 1"
    using KickOrBan_state [OF k(1), of False] c'(1) more by (simp add: state k(2) g om_erase_def)
  then have "join_refusal demo_env b [] c' = None"
    by (simp add: join_refusal_def IsOn_def IsBanned_def c'(2) demo_env_def)
  then have on: "IsOn (pl_guid b) (fst (JoinChannel demo_env b [] c'))" "\<not> owner_present (fst (JoinChannel demo_env b [] c'))"
    and enabled: "ch_ownershipEnabled (fst (JoinChannel demo_env b [] c'))"
    using c'(4) [of b demo_env "[]"] frame by (auto simp: g JoinChannel_state SetOwner_frame)
  have "ch_run [] demo_channel" by (rule ch_run.create [of demo_env "''x''" 469]) (simp add: Channel_custom_def demo_env_def demo_channel_def)
  then have "ch_run [demo_channel] c" unfolding c_def by (rule ch_run.step [OF _ ch_step.join]) (simp add: g IsEmpty_def)
  then have "ch_run [c, demo_channel] c'" by (rule ch_run.step [OF _ ch_step.kick [OF c'(1)]])
  then have "ch_run [c', c, demo_channel] (fst (JoinChannel demo_env b [] c'))"
    by (rule ch_run.step [OF _ ch_step.join]) (simp add: g IsEmpty_def)
  moreover have "ch_players (fst (JoinChannel demo_env b [] c')) \<noteq> []" using on(1) by (auto simp: IsOn_def)
  ultimately show ?thesis using on(2) enabled by blast
qed

section \<open>Bans\<close>

lemma ch_banned_frame:
  "ch_banned (fst (SetOwner env g ex c)) = ch_banned c" "ch_banned (ch_adjust g f c) = ch_banned c"
  by (auto simp: SetOwner_def Let_def ch_adjust_def)

text \<open>How each step changes the list of bans and who is a member behind it.\<close>

lemma ch_step_bans:
  assumes "ch_step c c'"
  shows "(ch_banned c' = ch_banned c \<or> (\<exists>v. \<not> IsEmpty v \<and> ch_banned c' = insert_ban v (ch_banned c)) \<or>
          (\<exists>v. ch_banned c' = filter (\<lambda>g. g \<noteq> v) (ch_banned c))) \<and>
     (\<forall>g. IsOn g c' \<longrightarrow> IsOn g c \<or> \<not> IsBanned g c)"
  using assms
proof (induction rule: ch_step.induct)
  case (join p c env pass)
  show ?case
  proof (cases "join_refusal env p pass c")
    case None
    then have "\<not> IsBanned (pl_guid p) c" by (auto simp: join_refusal_def Let_def split: if_splits)
    with None show ?thesis by (auto simp: JoinChannel_state ch_banned_frame IsOn_fst SetOwner_frame)
  qed (simp add: JoinChannel_def)
next
  case (leave env p send suspend c)
  show ?case
  proof (cases "IsOn (pl_guid p) c")
    case True
    show ?thesis
    proof (cases "IsConstant c")
      case False
      with True show ?thesis
        by (auto simp: LeaveChannel_state ch_banned_frame IsOn_fst SetOwner_frame Let_def case_prod_beta)
    qed (use True in \<open>auto simp: LeaveChannel_def Let_def IsOn_fst IsConstant_def\<close>)
  qed (simp add: LeaveChannel_def Let_def)
next
  case (kick env p name ban c c' out)
  show ?case
  proof (cases "may_kick env p name c")
    case True
    from KickOrBan_state [OF this, of ban] kick.hyps(1) have "ch_banned c' = (if ban then insert_ban (victim_of env name) (ch_banned c) else ch_banned c)"
      "\<forall>g. IsOn g c' \<longrightarrow> IsOn g c"
      by (auto simp: ch_banned_frame IsOn_fst SetOwner_frame split: if_splits)
    with True show ?thesis by (auto simp: may_kick_def)
  next
    case False
    then show ?thesis using KickOrBan_refused [of env p name c ban] kick.hyps(1) by auto
  qed
next
  case (unban c env p name)
  then show ?case by (cases "moderator_check env p c") (auto simp: UnBan_def Let_def IsOn_def)
next
  case (password c env p pass)
  then show ?case by (cases "moderator_check env p c") (auto simp: Password_def Let_def IsOn_def)
next
  case (announce c env p)
  then show ?case by (cases "moderator_check env p c") (auto simp: Announce_def Let_def IsOn_def)
next
  case (mode c env p name m b)
  then show ?case
    by (auto simp: SetMode_def SetModerator_def SetMute_def Let_def set_member_flag_def ch_banned_frame IsOn_fst split: option.splits)
next
  case (invisible c p b)
  then show ?case by (auto simp: SetInvisible_def Let_def ch_banned_frame IsOn_fst)
next
  case (owner c env p name)
  then show ?case by (auto simp: SetOwner_name_def Let_def ch_banned_frame IsOn_fst SetOwner_frame split: option.splits)
qed

text \<open>C33: a banned player is removed and stays out. After a ban that was permitted, whatever happens in the
  channel while the ban is not lifted, the victim is not a member.\<close>

theorem banned_stay_out:
  assumes "may_kick env p name c" "KickOrBan env p name True c = Inr (c1, out)"
    and "(\<lambda>a b. ch_step a b \<and> IsBanned (victim_of env name) b)\<^sup>*\<^sup>* c1 c2"
  shows "IsBanned (victim_of env name) c2 \<and> \<not> IsOn (victim_of env name) c2"
  using assms(3)
proof (induction rule: rtranclp_induct)
  case base
  show ?case
    using KickOrBan_state [OF assms(1), of True] assms(2)
    by (auto simp: ch_banned_frame IsBanned_def insert_ban_def IsOn_fst SetOwner_frame split: if_splits)
next
  case (step a b)
  then show ?case using ch_step_bans [of a b] by blast
qed

theorem banned_stay_out_witness:
  "\<exists>c1 out. KickOrBan demo_env (demo_player 1 ''A'') ''B'' True demo_pair = Inr (c1, out) \<and> \<not> IsOn (ObjectGuid 0 2) c1"
proof -
  have k: "may_kick demo_env (demo_player 1 ''A'') ''B'' demo_pair" "victim_of demo_env ''B'' = ObjectGuid 0 2"
    by (simp_all add: may_kick_def moderator_check_def victim_of_def IsOn_def info_at_def demo_pair_state pi_HasFlag_def
        MEMBER_FLAG_MODERATOR_def demo_simps)
  have "map_sum id fst (KickOrBan demo_env (demo_player 1 ''A'') ''B'' True demo_pair) \<noteq> Inl e" for e
    using KickOrBan_state [OF k(1), of True] by (simp add: k(2) demo_pair_state)
  then obtain c1 out where "KickOrBan demo_env (demo_player 1 ''A'') ''B'' True demo_pair = Inr (c1, out)"
    by (cases "KickOrBan demo_env (demo_player 1 ''A'') ''B'' True demo_pair") auto
  moreover from banned_stay_out [OF k(1) this rtranclp.rtrancl_refl] have "\<not> IsOn (ObjectGuid 0 2) c1" by (simp add: k(2))
  ultimately show ?thesis by blast
qed

definition bans_ok :: "ObjectGuid list \<Rightarrow> bool" where
  "bans_ok bs \<longleftrightarrow> distinct bs \<and> (\<forall>g \<in> set bs. \<not> IsEmpty g)"

lemma bans_ok_insert: "bans_ok bs \<Longrightarrow> \<not> IsEmpty g \<Longrightarrow> bans_ok (insert_ban g bs)"
  by (auto simp: bans_ok_def insert_ban_def)

lemma load_ban_ok: "bans_ok bs \<Longrightarrow> load_ban t bs = Inr bs' \<Longrightarrow> bans_ok bs'"
  by (auto simp: load_ban_def Let_def bans_ok_insert split: if_splits)

lemma load_loop_ok: "bans_ok bs \<Longrightarrow> forE load_ban ts bs = Inr bs' \<Longrightarrow> bans_ok bs'"
  by (induction ts arbitrary: bs) (auto simp: res_bind_eq_Inr intro: load_ban_ok)

lemma load_ban_stream: "\<not> IsEmpty g \<Longrightarrow> g \<notin> set bs \<Longrightarrow> load_ban (guid_stream g) bs = Inr (bs @ [g])"
  by (cases g) (simp add: load_ban_def guid_stream_shape strtoull_hex16 insert_ban_def)

lemma load_loop_streams: "bans_ok (bs @ gs) \<Longrightarrow> forE load_ban (map guid_stream gs) bs = Inr (bs @ gs)"
proof (induction gs arbitrary: bs)
  case (Cons g gs)
  then have "load_ban (guid_stream g) bs = Inr (bs @ [g])" by (intro load_ban_stream) (auto simp: bans_ok_def)
  with Cons show ?case by simp
qed simp

lemma ch_run_bans: "ch_run past c \<Longrightarrow> bans_ok (ch_banned c)"
proof (induction rule: ch_run.induct)
  case (create env name team c out)
  have "bans_ok []" by (simp add: bans_ok_def)
  with create show ?case
    by (auto simp: Channel_custom_def Let_def res_bind_eq_Inr load_bans_def split: if_splits option.splits dest: load_loop_ok)
next
  case (step past c c')
  from ch_step_bans [OF step.hyps(2)] step.IH show ?case
    by (auto simp: bans_ok_insert) (auto simp: bans_ok_def)
qed

text \<open>Bans survive the database. What UpdateChannelInDB stores for a channel that any sequence of operations
  produced is accepted by the constructor when the channel is created again, which restores the same
  bans, password and announcement and ownership settings.\<close>

theorem stored_bans_roundtrip:
  assumes "ch_run past c" "UpdateChannelInDB c = [UpdateChannel row team]"
    and "CONFIG_PRESERVE_CUSTOM_CHANNELS env" "CHAR_SEL_CHANNEL env name team = Some row"
  shows "\<exists>c'. Channel_custom env name team = Inr (c', []) \<and> ch_banned c' = ch_banned c \<and> ch_password c' = ch_password c \<and>
     ch_announceEnabled c' = ch_announceEnabled c \<and> ch_ownershipEnabled c' = ch_ownershipEnabled c \<and>
     ch_name c' = ch_name c \<and> ch_team c' = ch_team c \<and> ch_players c' = [] \<and> ch_persistent c'"
proof -
  have "Tokenizer (ban_text (ch_banned c)) (CHR '' '') True = map guid_stream (ch_banned c)"
    using Tokenizer_terminated [of "map guid_stream (ch_banned c)" "CHR '' ''"] guid_stream_shape(4,5)
    by (simp add: ban_text_def o_def)
  then have "load_bans (ban_text (ch_banned c)) = Inr (ch_banned c)"
    using load_loop_streams [of "[]" "ch_banned c"] ch_run_bans [OF assms(1)]
    by (cases "ch_banned c") (simp_all add: load_bans_def ban_text_def)
  moreover have "row = \<lparr>row_name = ch_name c, row_announce = ch_announceEnabled c, row_ownership = ch_ownershipEnabled c,
      row_password = ch_password c, row_bannedList = ban_text (ch_banned c)\<rparr>" "team = ch_team c"
    using assms(2) by (auto simp: UpdateChannelInDB_def split: if_splits)
  ultimately show ?thesis using assms(3,4) by (simp add: Channel_custom_def Let_def)
qed

definition demo_row :: channel_row where
  "demo_row = \<lparr>row_name = ''x'', row_announce = True, row_ownership = True, row_password = ''p'',
     row_bannedList = ban_text [ObjectGuid 0 5]\<rparr>"

definition demo_stored :: chat_env where
  "demo_stored = demo_env\<lparr>CONFIG_PRESERVE_CUSTOM_CHANNELS := True, CHAR_SEL_CHANNEL := (\<lambda>_ _. Some demo_row)\<rparr>"

theorem stored_bans_roundtrip_witness:
  "\<exists>c'. Channel_custom demo_stored ''x'' 469 = Inr (c', []) \<and> ch_banned c' = [ObjectGuid 0 5]"
proof -
  let ?c = "demo_channel\<lparr>ch_password := ''p'', ch_banned := [ObjectGuid 0 5], ch_persistent := True\<rparr>"
  have "Tokenizer (ban_text [ObjectGuid 0 5]) (CHR '' '') True = [guid_stream (ObjectGuid 0 5)]"
    using Tokenizer_terminated [of "[guid_stream (ObjectGuid 0 5)]" "CHR '' ''"] guid_stream_shape(4,5)
    by (simp add: ban_text_def)
  then have "load_bans (ban_text [ObjectGuid 0 5]) = Inr [ObjectGuid 0 5]"
    by (simp add: load_bans_def ban_text_def load_ban_stream [of _ "[]"] IsEmpty_def)
  then have "Channel_custom demo_stored ''x'' 469 = Inr (?c, [])"
    by (simp add: Channel_custom_def demo_stored_def demo_env_def demo_row_def demo_channel_def Let_def)
  then have "ch_run [] ?c" by (rule ch_run.create)
  moreover have "UpdateChannelInDB ?c = [UpdateChannel demo_row 469]"
    by (simp add: UpdateChannelInDB_def demo_channel_def demo_row_def)
  moreover have "CONFIG_PRESERVE_CUSTOM_CHANNELS demo_stored" "CHAR_SEL_CHANNEL demo_stored ''x'' 469 = Some demo_row"
    by (simp_all add: demo_stored_def)
  ultimately obtain c' where "Channel_custom demo_stored ''x'' 469 = Inr (c', [])" "ch_banned c' = ch_banned ?c"
    using stored_bans_roundtrip [of "[]" ?c demo_row 469 demo_stored "''x''"] by blast
  then show ?thesis by auto
qed

end
