(* ===== verification/Registry.thy ===== *)
theory Registry
  imports Prelude
begin

text \<open>
  The contract of the server's keyed stores (channels by name, queued groups, reputations, contacts):
  what a look-up returns behind an insertion, a removal and a change in place. The managers rely on it
  through the interpretations in their theories; the find-or-create idiom they share is treated here.
\<close>

locale registry =
  fixes valid :: "'m \<Rightarrow> bool"
    and find :: "'k \<Rightarrow> 'm \<Rightarrow> 'v option"
    and put :: "'k \<Rightarrow> 'v \<Rightarrow> 'm \<Rightarrow> 'm"
    and del :: "'k \<Rightarrow> 'm \<Rightarrow> 'm"
  assumes valid_put: "valid m \<Longrightarrow> valid (put k v m)"
    and valid_del: "valid m \<Longrightarrow> valid (del k m)"
    and find_put: "valid m \<Longrightarrow> find k' (put k v m) = (if k' = k then Some v else find k' m)"
    and find_del: "valid m \<Longrightarrow> find k' (del k m) = (if k' = k then None else find k' m)"
begin

lemma find_put_same: "valid m \<Longrightarrow> find k (put k v m) = Some v"
  by (simp add: find_put)

lemma find_del_same: "valid m \<Longrightarrow> find k (del k m) = None"
  by (simp add: find_del)

lemma find_del_put: "valid m \<Longrightarrow> find k' (del k (put k v m)) = find k' (del k m)"
  by (simp add: find_del find_put valid_put)

text \<open>Looking a key up and inserting a fresh value if there is none: the key is bound behind it, an
  existing entry is kept, other keys are not touched, and doing it again changes nothing.\<close>

lemma find_or_create:
  fixes k :: 'k and v w :: 'v
  assumes "valid m"
  defines "m' \<equiv> (case find k m of Some _ \<Rightarrow> m | None \<Rightarrow> put k v m)"
  shows "valid m'" "find k m' = Some (case find k m of Some w \<Rightarrow> w | None \<Rightarrow> v)"
    "k' \<noteq> k \<Longrightarrow> find k' m' = find k' m" "(case find k m' of Some _ \<Rightarrow> m' | None \<Rightarrow> put k w m') = m'"
  using assms(1) by (auto simp: m'_def find_put valid_put split: option.splits)

text \<open>Removing an entry on a condition.\<close>

lemma find_del_if:
  assumes "valid m"
  shows "find k' (case find k m of Some v \<Rightarrow> if P v then del k m else m | None \<Rightarrow> m) =
     (case find k' m of Some v \<Rightarrow> if k' = k \<and> P v then None else Some v | None \<Rightarrow> None)"
  using assms by (auto simp: find_del split: option.splits)

end

text \<open>The ordered maps of the standard library satisfy the contract.\<close>

interpretation omap: registry om_wf "\<lambda>k m. map_of m k" om_set om_erase
  by unfold_locales auto

section \<open>Sets of keys\<close>

text \<open>The contract of the server's sets (permissions, members, bans), and what adding or removing all elements
  of a list does.\<close>

locale key_set =
  fixes elems :: "'s \<Rightarrow> 'a set"
    and ins :: "'a \<Rightarrow> 's \<Rightarrow> 's"
    and del :: "'a \<Rightarrow> 's \<Rightarrow> 's"
  assumes elems_ins: "elems (ins x s) = insert x (elems s)"
    and elems_del: "elems (del x s) = elems s - {x}"
begin

lemma elems_ins_all: "elems (fold ins xs s) = set xs \<union> elems s"
  by (induction xs arbitrary: s) (auto simp: elems_ins)

lemma elems_del_all: "elems (fold del xs s) = elems s - set xs"
  by (induction xs arbitrary: s) (auto simp: elems_del)

lemma elems_ins_unless: "elems (fold (\<lambda>x s. if P x then s else ins x s) xs s) = {x \<in> set xs. \<not> P x} \<union> elems s"
  by (induction xs arbitrary: s) (auto simp: elems_ins)

end

text \<open>A \<^verbatim>\<open>std::set\<close> is the ascending list of its elements.\<close>

definition set_insert :: "'a::linorder \<Rightarrow> 'a list \<Rightarrow> 'a list" where
  "set_insert x xs = (if x \<in> set xs then xs else insort x xs)"

definition set_erase :: "'a \<Rightarrow> 'a list \<Rightarrow> 'a list" where
  "set_erase x xs = filter (\<lambda>y. y \<noteq> x) xs"

interpretation oset: key_set set set_insert set_erase
  by unfold_locales (auto simp: set_insert_def set_erase_def set_insort_key)

lemmas set_set_insert [simp] = oset.elems_ins
lemmas set_set_erase [simp] = oset.elems_del

lemma sorted_set_insert: "sorted xs \<Longrightarrow> distinct xs \<Longrightarrow> sorted (set_insert x xs) \<and> distinct (set_insert x xs)"
  by (simp add: set_insert_def sorted_insort distinct_insort)

end
