(* ===== verification/Channel_Manager.thy ===== *)
theory Channel_Manager
  imports Chat_Ownership Registry
begin

text \<open>
  The channel managers, \<^verbatim>\<open>src/src/server/game/Chat/Channels/ChannelMgr.{h,cpp}\<close>: custom channels by name in
  lower case, built-in channels by identifier and zone, created when somebody joins and deleted when
  the last member has left. A pointer to a channel is the key under which the manager holds it. The
  conversion of a name to wide characters in lower case, done by a library, is the parameter
  \<^verbatim>\<open>norm\<close>; it fails on malformed input.
\<close>

unbundle bit_operations_syntax

record channel_mgr =
  cm_customChannels :: "string \<rightharpoonup> channel"
  cm_channels :: "uint32 \<times> uint32 \<rightharpoonup> channel"
  cm_team :: uint32

datatype channel_ref = CustomRef string | BuiltinRef uint32 uint32

definition ChannelMgr :: "uint32 \<Rightarrow> channel_mgr" where
  "ChannelMgr team = \<lparr>cm_customChannels = Map.empty, cm_channels = Map.empty, cm_team = team\<rparr>"

text \<open>Which of the two managers serves a team.\<close>

definition ForTeam :: "chat_env \<Rightarrow> uint32 \<Rightarrow> uint32 option" where
  "ForTeam env team =
     (if CONFIG_ALLOW_TWO_SIDE_INTERACTION_CHANNEL env then Some ALLIANCE
      else if team = ALLIANCE then Some ALLIANCE
      else if team = HORDE then Some HORDE
      else None)"

definition cm_put_custom :: "string \<Rightarrow> channel \<Rightarrow> channel_mgr \<Rightarrow> channel_mgr" where
  "cm_put_custom k c m = m\<lparr>cm_customChannels := (cm_customChannels m)(k \<mapsto> c)\<rparr>"

definition cm_del_custom :: "string \<Rightarrow> channel_mgr \<Rightarrow> channel_mgr" where
  "cm_del_custom k m = m\<lparr>cm_customChannels := (cm_customChannels m)(k := None)\<rparr>"

definition cm_put_builtin :: "uint32 \<times> uint32 \<Rightarrow> channel \<Rightarrow> channel_mgr \<Rightarrow> channel_mgr" where
  "cm_put_builtin k c m = m\<lparr>cm_channels := (cm_channels m)(k \<mapsto> c)\<rparr>"

definition cm_del_builtin :: "uint32 \<times> uint32 \<Rightarrow> channel_mgr \<Rightarrow> channel_mgr" where
  "cm_del_builtin k m = m\<lparr>cm_channels := (cm_channels m)(k := None)\<rparr>"

text \<open>The key of a built-in channel: global and city channels have no zone.\<close>

definition builtin_key :: "chat_env \<Rightarrow> uint32 \<Rightarrow> uint32 option \<Rightarrow> channel_error + uint32 \<times> uint32" where
  "builtin_key env channelId zone =
     (case sChatChannelsStore env channelId of
        None \<Rightarrow> Inl (MissingEntry channelId)
      | Some fl \<Rightarrow>
          let zoneId = (case zone of Some z \<Rightarrow> z | None \<Rightarrow> 0)
          in Inr (channelId, if fl AND (0x00004 OR 0x00010) \<noteq> 0 then 0 else zoneId))"

definition GetJoinChannel :: "chat_env \<Rightarrow> (string \<Rightarrow> string option) \<Rightarrow> uint32 \<Rightarrow> string \<Rightarrow> uint32 option
    \<Rightarrow> channel_mgr \<Rightarrow> channel_error + channel_ref option \<times> channel_mgr \<times> effect list" where
  "GetJoinChannel env norm channelId name zone m =
     (if channelId \<noteq> 0
      then res_bind (builtin_key env channelId zone) (\<lambda>key.
             case cm_channels m key of
               Some _ \<Rightarrow> Inr (Some (BuiltinRef (fst key) (snd key)), m, [])
             | None \<Rightarrow> res_bind (Channel_builtin env channelId (cm_team m) zone) (\<lambda>c.
                 Inr (Some (BuiltinRef (fst key) (snd key)), cm_put_builtin key c m, [])))
      else case norm name of
             None \<Rightarrow> Inr (None, m, [])
           | Some w \<Rightarrow>
               (case cm_customChannels m w of
                  Some _ \<Rightarrow> Inr (Some (CustomRef w), m, [])
                | None \<Rightarrow> res_bind (Channel_custom env name (cm_team m)) (\<lambda>(c, out).
                    Inr (Some (CustomRef w), cm_put_custom w c m, out))))"

definition GetChannel :: "chat_env \<Rightarrow> (string \<Rightarrow> string option) \<Rightarrow> uint32 \<Rightarrow> string \<Rightarrow> ObjectGuid \<Rightarrow> bool \<Rightarrow> uint32 option
    \<Rightarrow> channel_mgr \<Rightarrow> channel_error + channel_ref option \<times> effect list" where
  "GetChannel env norm channelId name who notify zone m =
     (let tell = (\<lambda>r. case r of
            Some x \<Rightarrow> (Some x, [])
          | None \<Rightarrow> (None, if notify then [Send who NNotMember] else []))
      in if channelId \<noteq> 0
         then res_bind (builtin_key env channelId zone) (\<lambda>key.
                Inr (tell (if cm_channels m key \<noteq> None then Some (BuiltinRef (fst key) (snd key)) else None)))
         else case norm name of
                None \<Rightarrow> Inr (None, [])
              | Some w \<Rightarrow> Inr (tell (if cm_customChannels m w \<noteq> None then Some (CustomRef w) else None)))"

definition GetNumPlayers :: "channel \<Rightarrow> uint32" where
  "GetNumPlayers c = of_nat (length (ch_players c))"

definition LeftChannel_name :: "(string \<Rightarrow> string option) \<Rightarrow> string \<Rightarrow> channel_mgr \<Rightarrow> channel_mgr" where
  "LeftChannel_name norm name m =
     (case norm name of
        None \<Rightarrow> m
      | Some w \<Rightarrow> (case cm_customChannels m w of
                     None \<Rightarrow> m
                   | Some c \<Rightarrow> if GetNumPlayers c = 0 then cm_del_custom w m else m))"

definition LeftChannel_id :: "chat_env \<Rightarrow> uint32 \<Rightarrow> uint32 option \<Rightarrow> channel_mgr \<Rightarrow> channel_error + channel_mgr" where
  "LeftChannel_id env channelId zone m =
     res_bind (builtin_key env channelId zone) (\<lambda>key.
       case cm_channels m key of
         None \<Rightarrow> Inr m
       | Some c \<Rightarrow> Inr (if GetNumPlayers c = 0 then cm_del_builtin key m else m))"

definition cm_SendToAllInChannel :: "chat_env \<Rightarrow> (string \<Rightarrow> string option) \<Rightarrow> string \<Rightarrow> string \<Rightarrow> string \<Rightarrow> bool
    \<Rightarrow> channel_mgr \<Rightarrow> bool \<times> effect list" where
  "cm_SendToAllInChannel env norm senderName channelName message showGMLogo m =
     (case norm channelName of
        None \<Rightarrow> (False, [])
      | Some w \<Rightarrow> (case cm_customChannels m w of
                     None \<Rightarrow> (False, [])
                   | Some c \<Rightarrow> (True, SendToAllInChannel env senderName message showGMLogo c)))"

section \<open>The two stores\<close>

interpretation cust: registry "\<lambda>_. True" "\<lambda>k m. cm_customChannels m k" cm_put_custom cm_del_custom
  by unfold_locales (auto simp: cm_put_custom_def cm_del_custom_def)

interpretation built: registry "\<lambda>_. True" "\<lambda>k m. cm_channels m k" cm_put_builtin cm_del_builtin
  by unfold_locales (auto simp: cm_put_builtin_def cm_del_builtin_def)

text \<open>A channel that was asked for can be found under every spelling of its name, is created once, and
  lives until it has no members: after GetJoinChannel the look-up returns the same channel, a second request
  returns it and changes nothing, and LeftChannel removes a custom channel exactly when it is empty and
  touches no other.\<close>

theorem channel_found_after_join:
  assumes "GetJoinChannel env norm channelId name zone m = Inr (Some r, m', out)" "norm name' = norm name"
  shows "GetChannel env norm channelId name' who notify zone m' = Inr (Some r, []) \<and>
     GetJoinChannel env norm channelId name' zone m' = Inr (Some r, m', []) \<and>
     (\<forall>w. cm_customChannels (LeftChannel_name norm name m') w =
        (case cm_customChannels m' w of
           Some c \<Rightarrow> if norm name = Some w \<and> GetNumPlayers c = 0 then None else Some c
         | None \<Rightarrow> None))"
proof -
  have left: "cm_customChannels (LeftChannel_name norm name m') w =
        (case cm_customChannels m' w of
           Some c \<Rightarrow> if norm name = Some w \<and> GetNumPlayers c = 0 then None else Some c | None \<Rightarrow> None)" for w
    by (auto simp: LeftChannel_name_def cust.find_del cust.find_del_same split: option.splits)
  show ?thesis
  proof (cases "channelId = 0")
    case True
    with assms obtain w where "norm name = Some w" "r = CustomRef w" "cm_customChannels m' w \<noteq> None"
      by (auto simp: GetJoinChannel_def res_bind_eq_Inr cust.find_put_same split: option.splits if_splits)
    with True assms(2) left show ?thesis by (auto simp: GetChannel_def GetJoinChannel_def)
  next
    case False
    with assms obtain key where "builtin_key env channelId zone = Inr key" "r = BuiltinRef (fst key) (snd key)"
        "cm_channels m' key \<noteq> None"
      by (auto simp: GetJoinChannel_def res_bind_eq_Inr built.find_put_same split: option.splits)
    with False left show ?thesis by (auto simp: GetChannel_def GetJoinChannel_def)
  qed
qed

theorem channel_found_after_join_witness:
  "\<exists>m' out. GetJoinChannel demo_env (\<lambda>n. Some (map c_tolower n)) 0 ''Abc'' None (ChannelMgr 469) = Inr (Some (CustomRef ''abc''), m', out) \<and>
     GetChannel demo_env (\<lambda>n. Some (map c_tolower n)) 0 ''ABC'' GuidEmpty True None m' = Inr (Some (CustomRef ''abc''), [])"
proof -
  have low: "map c_tolower ''Abc'' = ''abc''" "map c_tolower ''ABC'' = map c_tolower ''Abc''"
    by (simp_all add: c_tolower_def char_of_eq_iff)
  obtain c out where "Channel_custom demo_env ''Abc'' 469 = Inr (c, out)"
    by (auto simp: Channel_custom_def demo_env_def)
  then have "GetJoinChannel demo_env (\<lambda>n. Some (map c_tolower n)) 0 ''Abc'' None (ChannelMgr 469)
      = Inr (Some (CustomRef ''abc''), cm_put_custom ''abc'' c (ChannelMgr 469), out)"
    using low(1) by (simp only: GetJoinChannel_def) (simp add: ChannelMgr_def)
  from channel_found_after_join [OF this, of "''ABC''"] this low(2) show ?thesis by blast
qed

end
