(* ===== verification/Lfg_Roles.thy ===== *)
theory Lfg_Roles
  imports Object_Guid
begin

text \<open>
  Role assignment of the dungeon finder: \<^verbatim>\<open>LFGMgr::CheckGroupRoles\<close> in
  \<^verbatim>\<open>src/src/server/game/DungeonFinding/LFGMgr.cpp\<close>. Every member of a group offers a set of roles; the
  function searches for a choice of one role each with at most one tank, one healer and three damage
  dealers, trying to take roles away one by one. It changes the map of roles when it succeeds and leaves
  it as it was when it fails, so it is modelled as a function to the changed map or nothing.
\<close>

unbundle bit_operations_syntax

section \<open>The search\<close>

type_synonym roles_map = "(ObjectGuid \<times> uint8) list"

definition PLAYER_ROLE_LEADER :: uint8 where "PLAYER_ROLE_LEADER = 0x01"
definition PLAYER_ROLE_TANK :: uint8 where "PLAYER_ROLE_TANK = 0x02"
definition PLAYER_ROLE_HEALER :: uint8 where "PLAYER_ROLE_HEALER = 0x04"
definition PLAYER_ROLE_DAMAGE :: uint8 where "PLAYER_ROLE_DAMAGE = 0x08"

definition LFG_TANKS_NEEDED :: uint8 where "LFG_TANKS_NEEDED = 1"
definition LFG_HEALERS_NEEDED :: uint8 where "LFG_HEALERS_NEEDED = 1"
definition LFG_DPS_NEEDED :: uint8 where "LFG_DPS_NEEDED = 3"

lemmas role_defs = PLAYER_ROLE_LEADER_def PLAYER_ROLE_TANK_def PLAYER_ROLE_HEALER_def PLAYER_ROLE_DAMAGE_def
  LFG_TANKS_NEEDED_def LFG_HEALERS_NEEDED_def LFG_DPS_NEEDED_def

text \<open>The entry at an iterator with a role taken away.\<close>

definition drop_role :: "roles_map \<Rightarrow> nat \<Rightarrow> uint8 \<Rightarrow> roles_map" where
  "drop_role groles i r = groles[i := (fst (groles ! i), snd (groles ! i) - r)]"

text \<open>
  How much there is left to take away; each recursive call of the function makes it smaller.
\<close>

definition role_count :: "uint8 \<Rightarrow> nat" where
  "role_count w = of_bool (bit w 1) + of_bool (bit w 2) + of_bool (bit w 3)"

definition roles_left :: "roles_map \<Rightarrow> nat" where
  "roles_left groles = (\<Sum>(g, w) \<leftarrow> groles. role_count w)"

lemma minus_role:
  assumes "w AND 2 ^ k \<noteq> (0 :: uint8)"
  shows "w - 2 ^ k = w AND NOT (2 ^ k)"
proof (rule disjunctive_diff)
  fix n assume "bit (2 ^ k :: uint8) n"
  then have "n = k" by (simp add: bit_exp_iff)
  with assms show "bit w n" by (simp add: and_exp_eq_0_iff_not_bit)
qed

lemma roles_left_update:
  "i < length groles \<Longrightarrow> role_count (snd x) < role_count (snd (groles ! i)) \<Longrightarrow> roles_left (groles[i := x]) < roles_left groles"
proof (induction groles arbitrary: i)
  case (Cons g gs)
  then show ?case by (cases i) (auto simp: roles_left_def split: prod.splits)
qed simp

lemma role_bits:
  "w AND PLAYER_ROLE_TANK \<noteq> 0 \<longleftrightarrow> bit w 1" "w AND PLAYER_ROLE_HEALER \<noteq> 0 \<longleftrightarrow> bit w 2" "w AND PLAYER_ROLE_DAMAGE \<noteq> 0 \<longleftrightarrow> bit w 3"
  using and_exp_eq_0_iff_not_bit [of w 1] and_exp_eq_0_iff_not_bit [of w 2] and_exp_eq_0_iff_not_bit [of w 3]
  by (simp_all add: role_defs)

lemma role_exp: "PLAYER_ROLE_LEADER = 2 ^ 0" "PLAYER_ROLE_TANK = 2 ^ 1" "PLAYER_ROLE_HEALER = 2 ^ 2" "PLAYER_ROLE_DAMAGE = 2 ^ 3"
  by (simp_all add: role_defs)

lemma bit_minus_role:
  assumes "bit (w :: uint8) k"
  shows "bit (w - 2 ^ k) n \<longleftrightarrow> bit w n \<and> n \<noteq> k"
proof -
  have "w - 2 ^ k = w AND NOT (2 ^ k)" using assms by (intro minus_role) (simp add: and_exp_eq_0_iff_not_bit)
  moreover have "n < 8" if "bit w n" using bit_imp_le_length [OF that] by simp
  ultimately show ?thesis by (auto simp: bit_and_iff bit_not_iff bit_exp_iff)
qed

lemma bit_no_leader: "bit (w AND NOT PLAYER_ROLE_LEADER) n \<longleftrightarrow> bit (w :: uint8) n \<and> n \<noteq> 0"
proof -
  have "n < 8" if "bit w n" using bit_imp_le_length [OF that] by simp
  then show ?thesis by (auto simp: role_exp bit_and_iff bit_not_iff bit_exp_iff simp del: power_0)
qed

lemma drop_role_less:
  assumes "i < length groles" "bit (snd (groles ! i) AND NOT PLAYER_ROLE_LEADER) k" "k \<in> {1, 2, 3}"
  shows "roles_left (drop_role groles i (2 ^ k)) < roles_left groles"
  unfolding drop_role_def
proof (rule roles_left_update [OF assms(1)])
  have "bit (snd (groles ! i)) k" using assms(2) by (simp add: bit_no_leader)
  then show "role_count (snd (fst (groles ! i), snd (groles ! i) - 2 ^ k)) < role_count (snd (groles ! i))"
    using assms(3) by (auto simp: role_count_def bit_minus_role simp del: power_one_right)
qed

text \<open>
  The loop of \<^verbatim>\<open>CheckGroupRoles\<close> from position \<^verbatim>\<open>it\<close> on, with its three counters. The three attempts to
  take a role away come in the order of the source; a member with a single role is counted instead.
\<close>

function check_loop :: "nat \<Rightarrow> uint8 \<Rightarrow> uint8 \<Rightarrow> uint8 \<Rightarrow> roles_map \<Rightarrow> roles_map option" where
  "check_loop i damage healer tank groles =
     (if length groles \<le> i then (if unat tank + unat healer + unat damage = unat (of_nat (length groles) :: uint8) then Some groles else None)
      else let role = snd (groles ! i) AND NOT PLAYER_ROLE_LEADER in
        if role = 0 then None
        else if role AND PLAYER_ROLE_DAMAGE \<noteq> 0 \<and> role = PLAYER_ROLE_DAMAGE \<and> damage = LFG_DPS_NEEDED then None
        else let damage' = (if role = PLAYER_ROLE_DAMAGE then damage + 1 else damage);
                 try1 = (if role AND PLAYER_ROLE_DAMAGE \<noteq> 0 \<and> role \<noteq> PLAYER_ROLE_DAMAGE
                         then check_loop 0 0 0 0 (drop_role groles i PLAYER_ROLE_DAMAGE) else None)
          in if try1 \<noteq> None then try1
             else if role AND PLAYER_ROLE_HEALER \<noteq> 0 \<and> role = PLAYER_ROLE_HEALER \<and> healer = LFG_HEALERS_NEEDED then None
             else let healer' = (if role = PLAYER_ROLE_HEALER then healer + 1 else healer);
                      try2 = (if role AND PLAYER_ROLE_HEALER \<noteq> 0 \<and> role \<noteq> PLAYER_ROLE_HEALER
                              then check_loop 0 0 0 0 (drop_role groles i PLAYER_ROLE_HEALER) else None)
               in if try2 \<noteq> None then try2
                  else if role AND PLAYER_ROLE_TANK \<noteq> 0 \<and> role = PLAYER_ROLE_TANK \<and> tank = LFG_TANKS_NEEDED then None
                  else let tank' = (if role = PLAYER_ROLE_TANK then tank + 1 else tank);
                           try3 = (if role AND PLAYER_ROLE_TANK \<noteq> 0 \<and> role \<noteq> PLAYER_ROLE_TANK
                                   then check_loop 0 0 0 0 (drop_role groles i PLAYER_ROLE_TANK) else None)
                    in if try3 \<noteq> None then try3
                       else check_loop (Suc i) damage' healer' tank' groles)"
  by pat_completeness auto
termination
proof (relation "measures [\<lambda>(i, d, h, t, gs). roles_left gs, \<lambda>(i, d, h, t, gs). length gs - i]", goal_cases)
  case 1
  show ?case by simp
next
  case (2 i damage healer tank groles role damage')
  then have "roles_left (drop_role groles i (2 ^ 3)) < roles_left groles" by (intro drop_role_less) (auto simp: role_bits)
  then show ?case by (simp add: role_exp)
next
  case (3 i damage healer tank groles)
  then have "roles_left (drop_role groles i (2 ^ 2)) < roles_left groles" by (intro drop_role_less) (auto simp: role_bits)
  then show ?case by (simp add: role_exp)
next
  case (4 i damage healer tank groles)
  then have "roles_left (drop_role groles i (2 ^ 1)) < roles_left groles" by (intro drop_role_less) (auto simp: role_bits)
  then show ?case by (simp add: role_exp)
qed auto

declare check_loop.simps [simp del]

definition CheckGroupRoles :: "roles_map \<Rightarrow> roles_map option" where
  "CheckGroupRoles groles = (if groles = [] then None else check_loop 0 0 0 0 groles)"

section \<open>One turn of the loop\<close>

abbreviation role_at :: "roles_map \<Rightarrow> nat \<Rightarrow> uint8" where
  "role_at gs i \<equiv> snd (gs ! i) AND NOT PLAYER_ROLE_LEADER"

lemma loop_end:
  "length gs \<le> i \<Longrightarrow> check_loop i d h t gs =
     (if unat t + unat h + unat d = unat (of_nat (length gs) :: uint8) then Some gs else None)"
  by (simp add: check_loop.simps [of i d h t gs])

lemma loop_none: "i < length gs \<Longrightarrow> role_at gs i = 0 \<Longrightarrow> check_loop i d h t gs = None"
  by (simp add: check_loop.simps [of i d h t gs])

lemma loop_damage:
  "i < length gs \<Longrightarrow> role_at gs i = PLAYER_ROLE_DAMAGE \<Longrightarrow>
     check_loop i d h t gs = (if d = LFG_DPS_NEEDED then None else check_loop (Suc i) (d + 1) h t gs)"
  by (simp add: check_loop.simps [of i d h t gs] role_defs)

lemma loop_healer:
  "i < length gs \<Longrightarrow> role_at gs i = PLAYER_ROLE_HEALER \<Longrightarrow>
     check_loop i d h t gs = (if h = LFG_HEALERS_NEEDED then None else check_loop (Suc i) d (h + 1) t gs)"
  by (simp add: check_loop.simps [of i d h t gs] role_defs)

lemma loop_tank:
  "i < length gs \<Longrightarrow> role_at gs i = PLAYER_ROLE_TANK \<Longrightarrow>
     check_loop i d h t gs = (if t = LFG_TANKS_NEEDED then None else check_loop (Suc i) d h (t + 1) gs)"
  by (simp add: check_loop.simps [of i d h t gs] role_defs)

text \<open>An attempt to take away the role of bit \<^term>\<open>k\<close>, if the member has it.\<close>

definition attempt :: "roles_map \<Rightarrow> nat \<Rightarrow> nat \<Rightarrow> roles_map option" where
  "attempt gs i k = (if bit (role_at gs i) k then check_loop 0 0 0 0 (drop_role gs i (2 ^ k)) else None)"

lemma attempt_eq:
  "attempt gs i 3 = (if role_at gs i AND PLAYER_ROLE_DAMAGE \<noteq> 0 then check_loop 0 0 0 0 (drop_role gs i PLAYER_ROLE_DAMAGE) else None)"
  "attempt gs i 2 = (if role_at gs i AND PLAYER_ROLE_HEALER \<noteq> 0 then check_loop 0 0 0 0 (drop_role gs i PLAYER_ROLE_HEALER) else None)"
  "attempt gs i 1 = (if role_at gs i AND PLAYER_ROLE_TANK \<noteq> 0 then check_loop 0 0 0 0 (drop_role gs i PLAYER_ROLE_TANK) else None)"
  by (simp_all only: attempt_def role_bits) (simp_all only: role_exp)

definition first_some :: "'a option list \<Rightarrow> 'a option" where
  "first_some xs = (case dropWhile (\<lambda>x. x = None) xs of [] \<Rightarrow> None | x # _ \<Rightarrow> x)"

lemma loop_several:
  assumes "i < length gs" "role_at gs i \<notin> {0, PLAYER_ROLE_DAMAGE, PLAYER_ROLE_HEALER, PLAYER_ROLE_TANK}"
  shows "check_loop i d h t gs =
     first_some [attempt gs i 3, attempt gs i 2, attempt gs i 1, check_loop (Suc i) d h t gs]"
  using assms attempt_eq [of gs i]
  by (auto simp: check_loop.simps [of i d h t gs] first_some_def Let_def)

lemma first_some_member: "first_some xs = Some y \<Longrightarrow> Some y \<in> set xs"
  by (auto simp: first_some_def split: list.splits) (metis list.set_intros(1) set_dropWhileD)

lemma first_some_None: "first_some xs = None \<Longrightarrow> x \<in> set xs \<Longrightarrow> x = None"
proof -
  assume a: "first_some xs = None" "x \<in> set xs"
  have "dropWhile (\<lambda>x. x = None) xs = []"
  proof (rule ccontr)
    assume "dropWhile (\<lambda>x. x = None) xs \<noteq> []"
    then obtain y ys where y: "dropWhile (\<lambda>x. x = None) xs = y # ys" by (cases "dropWhile (\<lambda>x. x = None) xs") auto
    then have "y \<noteq> None" using hd_dropWhile [of "\<lambda>x. x = None" xs] by auto
    with a(1) y show False by (simp add: first_some_def)
  qed
  with a(2) show "x = None" by (simp add: dropWhile_eq_Nil_conv)
qed

section \<open>The counters\<close>

definition role_cnt :: "nat \<Rightarrow> roles_map \<Rightarrow> nat" where
  "role_cnt k gs = length (filter (\<lambda>(g, w). w AND NOT PLAYER_ROLE_LEADER = 2 ^ k) gs)"

lemma role_cnt_take: "i < length gs \<Longrightarrow> role_cnt k (take (Suc i) gs) = role_cnt k (take i gs) + of_bool (role_at gs i = 2 ^ k)"
  by (auto simp: role_cnt_def take_Suc_conv_app_nth split: prod.splits)

definition loop_inv :: "nat \<Rightarrow> uint8 \<Rightarrow> uint8 \<Rightarrow> uint8 \<Rightarrow> roles_map \<Rightarrow> bool" where
  "loop_inv i d h t gs \<longleftrightarrow> unat d = role_cnt 3 (take i gs) \<and> unat h = role_cnt 2 (take i gs) \<and> unat t = role_cnt 1 (take i gs) \<and>
     d \<le> LFG_DPS_NEEDED \<and> h \<le> LFG_HEALERS_NEEDED \<and> t \<le> LFG_TANKS_NEEDED"

lemma loop_inv_0: "loop_inv 0 0 0 0 gs"
  by (simp add: loop_inv_def role_cnt_def)

lemma count_up:
  assumes "x \<le> n" "x \<noteq> n" "n \<le> (3 :: uint8)"
  shows "unat (x + 1) = Suc (unat x)" "x + 1 \<le> n"
proof -
  have "unat x < unat n" "unat n \<le> 3" using assms by (auto simp: word_le_nat_alt word_less_nat_alt word_unat_eq_iff)
  then show "unat (x + 1) = Suc (unat x)" by (simp add: unat_word_ariths)
  then show "x + 1 \<le> n" using \<open>unat x < unat n\<close> by (simp add: word_le_nat_alt)
qed

lemma role_exp_inj: "PLAYER_ROLE_DAMAGE = 2 ^ 3" "PLAYER_ROLE_HEALER = 2 ^ 2" "PLAYER_ROLE_TANK = 2 ^ 1"
  "(2 ^ 3 :: uint8) \<noteq> 2 ^ 2" "(2 ^ 3 :: uint8) \<noteq> 2 ^ 1" "(2 ^ 2 :: uint8) \<noteq> 2 ^ 1" "(2 ^ 2 :: uint8) \<noteq> 2 ^ 3" "(2 ^ 1 :: uint8) \<noteq> 2 ^ 3" "(2 ^ 1 :: uint8) \<noteq> 2 ^ 2"
  by (simp_all add: role_defs)

lemma loop_inv_damage:
  "loop_inv i d h t gs \<Longrightarrow> i < length gs \<Longrightarrow> role_at gs i = PLAYER_ROLE_DAMAGE \<Longrightarrow> d \<noteq> LFG_DPS_NEEDED \<Longrightarrow> loop_inv (Suc i) (d + 1) h t gs"
  using count_up [of d LFG_DPS_NEEDED] by (simp add: loop_inv_def role_cnt_take role_exp_inj del: power_one_right) (simp add: role_defs)

lemma loop_inv_healer:
  "loop_inv i d h t gs \<Longrightarrow> i < length gs \<Longrightarrow> role_at gs i = PLAYER_ROLE_HEALER \<Longrightarrow> h \<noteq> LFG_HEALERS_NEEDED \<Longrightarrow> loop_inv (Suc i) d (h + 1) t gs"
  using count_up [of h LFG_HEALERS_NEEDED] by (simp add: loop_inv_def role_cnt_take role_exp_inj del: power_one_right) (simp add: role_defs)

lemma loop_inv_tank:
  "loop_inv i d h t gs \<Longrightarrow> i < length gs \<Longrightarrow> role_at gs i = PLAYER_ROLE_TANK \<Longrightarrow> t \<noteq> LFG_TANKS_NEEDED \<Longrightarrow> loop_inv (Suc i) d h (t + 1) gs"
  using count_up [of t LFG_TANKS_NEEDED] by (simp add: loop_inv_def role_cnt_take role_exp_inj del: power_one_right) (simp add: role_defs)

lemma loop_inv_several:
  "loop_inv i d h t gs \<Longrightarrow> i < length gs \<Longrightarrow> role_at gs i \<notin> {0, PLAYER_ROLE_DAMAGE, PLAYER_ROLE_HEALER, PLAYER_ROLE_TANK} \<Longrightarrow> loop_inv (Suc i) d h t gs"
  by (simp add: loop_inv_def role_cnt_take role_exp_inj del: power_one_right)

section \<open>Correctness of the search\<close>

text \<open>
  A choice of roles: for each member the bit of a role on offer, at most one tank (bit 1), one healer
  (bit 2) and three damage dealers (bit 3).
\<close>

definition role_choice :: "roles_map \<Rightarrow> nat list \<Rightarrow> bool" where
  "role_choice gs A \<longleftrightarrow> length A = length gs \<and> (\<forall>i < length gs. A ! i \<in> {1, 2, 3} \<and> bit (snd (gs ! i)) (A ! i)) \<and>
     count_list A 1 \<le> 1 \<and> count_list A 2 \<le> 1 \<and> count_list A 3 \<le> 3"

lemma drop_role_nth:
  "i < length gs \<Longrightarrow> j < length gs \<Longrightarrow> drop_role gs i r ! j = (if j = i then (fst (gs ! i), snd (gs ! i) - r) else gs ! j)"
  "length (drop_role gs i r) = length gs" "map fst (drop_role gs i r) = map fst gs"
proof -
  show "i < length gs \<Longrightarrow> j < length gs \<Longrightarrow> drop_role gs i r ! j = (if j = i then (fst (gs ! i), snd (gs ! i) - r) else gs ! j)"
    by (auto simp: drop_role_def)
  show "length (drop_role gs i r) = length gs" by (simp add: drop_role_def)
  show "map fst (drop_role gs i r) = map fst gs"
    by (cases "i < length gs") (auto simp: drop_role_def map_update list_update_same_conv list_update_beyond)
qed

lemma choice_drop:
  assumes "role_choice gs A" "i < length gs" "bit (snd (gs ! i)) k" "k \<noteq> A ! i"
  shows "role_choice (drop_role gs i (2 ^ k)) A"
  using assms by (auto simp: role_choice_def drop_role_nth bit_minus_role)

lemma single_role:
  assumes "bit (w :: uint8) k" "w AND NOT PLAYER_ROLE_LEADER = 2 ^ n" "k \<noteq> 0"
  shows "k = n"
proof -
  have "bit (w AND NOT PLAYER_ROLE_LEADER) k" using assms(1,3) by (simp add: bit_no_leader)
  then show ?thesis using assms(2) by (simp add: bit_exp_iff)
qed

text \<open>Members with a single role force the choice, so the counters cannot exceed what the choice uses.\<close>

lemma role_cnt_choice:
  assumes "role_choice gs A" "i \<le> length gs" "k \<in> {1, 2, 3}"
  shows "role_cnt k (take i gs) \<le> count_list (take i A) k"
  using assms(2)
proof (induction i)
  case (Suc i)
  then have i: "i < length gs" "i < length A" using assms(1) by (auto simp: role_choice_def)
  have "A ! i = k" if "role_at gs i = 2 ^ k"
    using assms(1) i(1) that by (intro single_role [of "snd (gs ! i)"]) (auto simp: role_choice_def)
  moreover have "count_list (take (Suc i) A) k = count_list (take i A) k + of_bool (A ! i = k)"
    using i by (simp add: take_Suc_conv_app_nth)
  ultimately show ?case using Suc i(1) role_cnt_take [OF i(1), of k] by auto
qed (simp add: role_cnt_def)

lemma count_take_le: "count_list (take i A) k \<le> count_list A k"
  by (metis append_take_drop_id count_list_append le_add1)

lemma counter_below:
  assumes "role_choice gs A" "i < length gs" "role_at gs i = 2 ^ k" "k \<in> {1, 2, 3}"
  shows "role_cnt k (take i gs) < count_list A k"
  using role_cnt_choice [OF assms(1), of "Suc i" k] assms count_take_le [of "Suc i" A k] role_cnt_take [of i gs k] by simp

lemma two_roles:
  assumes "role_at gs i \<notin> {0, PLAYER_ROLE_DAMAGE, PLAYER_ROLE_HEALER, PLAYER_ROLE_TANK}" "snd (gs ! i) < 16"
  shows "\<exists>k \<in> {1, 2, 3}. bit (snd (gs ! i)) k \<and> k \<noteq> a"
proof (rule ccontr)
  let ?r = "role_at gs i"
  assume "\<not> (\<exists>k \<in> {1, 2, 3}. bit (snd (gs ! i)) k \<and> k \<noteq> a)"
  then have only: "bit ?r k \<Longrightarrow> k \<in> {1, 2, 3} \<Longrightarrow> k = a" for k by (auto simp: bit_no_leader)
  have small: "k \<in> {1, 2, 3}" if "bit ?r k" for k
  proof -
    have b: "bit (snd (gs ! i)) k" "k \<noteq> 0" using that by (simp_all add: bit_no_leader)
    have "take_bit 4 (snd (gs ! i)) = snd (gs ! i)"
      using assms(2) less_mask_eq [of "snd (gs ! i)" 4] by (simp add: take_bit_eq_mask)
    then have "bit (take_bit 4 (snd (gs ! i))) k" using b(1) by simp
    then have "k < 4" by (simp add: bit_take_bit_iff)
    with b(2) show ?thesis by auto
  qed
  show False
  proof (cases "?r = 0")
    case False
    then obtain k where k: "bit ?r k" using bit_word_eqI [of ?r 0] by auto
    have "bit ?r n \<longleftrightarrow> n = k" for n using k only small by metis
    then have "?r = 2 ^ k" by (intro bit_word_eqI) (simp add: bit_exp_iff)
    with small [OF k] assms(1) show False by (auto simp: role_exp_inj simp del: power_one_right)
  qed (use assms(1) in simp)
qed

lemma role_cnt_sum:
  "role_cnt 1 gs + role_cnt 2 gs + role_cnt 3 gs =
     length (filter (\<lambda>(g, w). w AND NOT PLAYER_ROLE_LEADER \<in> {2 ^ 1, 2 ^ 2, 2 ^ 3}) gs)"
proof (induction gs)
  case (Cons x gs)
  then show ?case by (cases x) (simp add: role_cnt_def role_exp_inj del: power_one_right)
qed (simp add: role_cnt_def)

lemma role_cnt_all:
  assumes "\<forall>j < length gs. role_at gs j \<in> {2 ^ 1, 2 ^ 2, 2 ^ 3}"
  shows "role_cnt 1 gs + role_cnt 2 gs + role_cnt 3 gs = length gs"
proof -
  have "filter (\<lambda>(g, w). w AND NOT PLAYER_ROLE_LEADER \<in> {2 ^ 1, 2 ^ 2, 2 ^ 3}) gs = gs"
  proof (rule filter_True, rule ballI)
    fix x assume "x \<in> set gs"
    then obtain j where "j < length gs" "gs ! j = x" by (metis in_set_conv_nth)
    with assms show "case x of (g, w) \<Rightarrow> w AND NOT PLAYER_ROLE_LEADER \<in> {2 ^ 1, 2 ^ 2, 2 ^ 3}"
      unfolding case_prod_beta by blast
  qed
  then show ?thesis by (simp only: role_cnt_sum)
qed

lemma drop_small:
  assumes "\<forall>(g, w) \<in> set gs. w < (16 :: uint8)" "i < length gs" "bit (snd (gs ! i)) k"
  shows "\<forall>(g, w) \<in> set (drop_role gs i (2 ^ k)). w < 16"
proof -
  have w: "snd (gs ! i) < 16" using assms(1,2) by (metis case_prod_beta nth_mem)
  have "snd (gs ! i) - 2 ^ k = snd (gs ! i) AND NOT (2 ^ k)"
    using assms(3) by (intro minus_role) (simp add: and_exp_eq_0_iff_not_bit)
  also have "\<dots> \<le> snd (gs ! i)" by (rule word_and_le2)
  finally have "snd (gs ! i) - 2 ^ k < 16" using w by simp
  then show ?thesis using assms(1,2) set_update_subset_insert [of gs i] by (auto simp: drop_role_def)
qed

text \<open>If there is a choice, the loop finds one.\<close>

lemma loop_complete:
  assumes IH: "\<And>gs' A. roles_left gs' < roles_left gs \<Longrightarrow> role_choice gs' A \<Longrightarrow> \<forall>(g, w) \<in> set gs'. w < 16 \<Longrightarrow>
      length gs' < 256 \<Longrightarrow> check_loop 0 0 0 0 gs' \<noteq> None"
    and A: "role_choice gs A" and small: "\<forall>(g, w) \<in> set gs. w < 16" and len: "length gs < 256"
  shows "loop_inv i d h t gs \<Longrightarrow> \<forall>j < i. j < length gs \<longrightarrow> role_at gs j \<in> {2 ^ 1, 2 ^ 2, 2 ^ 3} \<Longrightarrow> check_loop i d h t gs \<noteq> None"
proof (induction "length gs - i" arbitrary: i d h t)
  case 0
  then have end_: "length gs \<le> i" by simp
  have "role_cnt 1 gs + role_cnt 2 gs + role_cnt 3 gs = length gs"
    using 0(3) end_ by (intro role_cnt_all) auto
  then have "unat t + unat h + unat d = length gs" using 0(2) end_ by (simp add: loop_inv_def)
  then show ?case using end_ len by (simp add: loop_end unsigned_of_nat take_bit_eq_mod)
next
  case (Suc n)
  then have i: "i < length gs" by simp
  note IHn = Suc.hyps(1) [of "Suc i"]
  have nxt: "\<forall>j < Suc i. j < length gs \<longrightarrow> role_at gs j \<in> {2 ^ 1, 2 ^ 2, 2 ^ 3}" if "role_at gs i \<in> {2 ^ 1, 2 ^ 2, 2 ^ 3}"
    using Suc.prems(2) that by (auto simp: less_Suc_eq simp del: power_one_right)
  have ai: "A ! i \<in> {1, 2, 3}" "bit (snd (gs ! i)) (A ! i)" using A i by (auto simp: role_choice_def)
  consider (none) "role_at gs i = 0" | (dps) "role_at gs i = PLAYER_ROLE_DAMAGE" | (heal) "role_at gs i = PLAYER_ROLE_HEALER"
    | (tank) "role_at gs i = PLAYER_ROLE_TANK" | (several) "role_at gs i \<notin> {0, PLAYER_ROLE_DAMAGE, PLAYER_ROLE_HEALER, PLAYER_ROLE_TANK}"
    by blast
  then show ?case
  proof cases
    case none
    then have "bit (0 :: uint8) (A ! i)" using ai by (metis bit_no_leader insertE singletonD zero_neq_numeral zero_neq_one)
    then show ?thesis by simp
  next
    case dps
    then have "unat d < 3"
      using counter_below [OF A i, of 3] A Suc.prems(1) by (simp add: role_exp_inj loop_inv_def role_choice_def)
    then have d: "d \<noteq> LFG_DPS_NEEDED" by (auto simp: role_defs)
    show ?thesis
      using IHn [OF _ loop_inv_damage [OF Suc.prems(1) i dps d]] nxt dps d i Suc.hyps(2) by (simp add: loop_damage role_exp_inj)
  next
    case heal
    then have "unat h < 1"
      using counter_below [OF A i, of 2] A Suc.prems(1) by (simp add: role_exp_inj loop_inv_def role_choice_def)
    then have h: "h \<noteq> LFG_HEALERS_NEEDED" by (auto simp: role_defs)
    show ?thesis
      using IHn [OF _ loop_inv_healer [OF Suc.prems(1) i heal h]] nxt heal h i Suc.hyps(2) by (simp add: loop_healer role_exp_inj)
  next
    case tank
    then have "unat t < 1"
      using counter_below [OF A i, of 1] A Suc.prems(1) by (simp add: role_exp_inj loop_inv_def role_choice_def)
    then have t: "t \<noteq> LFG_TANKS_NEEDED" by (auto simp: role_defs)
    show ?thesis
      using IHn [OF _ loop_inv_tank [OF Suc.prems(1) i tank t]] nxt tank t i Suc.hyps(2)
      by (simp add: loop_tank role_exp_inj del: power_one_right)
  next
    case several
    have "snd (gs ! i) < 16" using small i by (metis case_prod_beta nth_mem)
    then obtain k where k: "k \<in> {1, 2, 3}" "bit (snd (gs ! i)) k" "k \<noteq> A ! i" using two_roles [OF several] by blast
    have "role_choice (drop_role gs i (2 ^ k)) A" using choice_drop [OF A i k(2,3)] .
    moreover have "roles_left (drop_role gs i (2 ^ k)) < roles_left gs"
      using k i by (intro drop_role_less) (auto simp: bit_no_leader)
    moreover have "\<forall>(g, w) \<in> set (drop_role gs i (2 ^ k)). w < 16"
      using drop_small [OF small i k(2)] .
    ultimately have "check_loop 0 0 0 0 (drop_role gs i (2 ^ k)) \<noteq> None" using IH len by (simp add: drop_role_nth(2))
    then have "attempt gs i k \<noteq> None" using k by (auto simp: attempt_def bit_no_leader)
    moreover have "attempt gs i k \<in> set [attempt gs i 3, attempt gs i 2, attempt gs i 1, check_loop (Suc i) d h t gs]"
      using k(1) by auto
    ultimately show ?thesis using loop_several [OF i several, of d h t] first_some_None by metis
  qed
qed

text \<open>What the loop returns is a choice: single roles, taken from what was on offer, within the limits.\<close>

definition narrowed :: "roles_map \<Rightarrow> roles_map \<Rightarrow> bool" where
  "narrowed gs rs \<longleftrightarrow> map fst rs = map fst gs \<and> (\<forall>i < length gs. \<forall>k. bit (snd (rs ! i)) k \<longrightarrow> bit (snd (gs ! i)) k)"

definition assigned :: "roles_map \<Rightarrow> bool" where
  "assigned rs \<longleftrightarrow> (\<forall>(g, w) \<in> set rs. w AND NOT PLAYER_ROLE_LEADER \<in> {PLAYER_ROLE_TANK, PLAYER_ROLE_HEALER, PLAYER_ROLE_DAMAGE}) \<and>
     role_cnt 1 rs \<le> 1 \<and> role_cnt 2 rs \<le> 1 \<and> role_cnt 3 rs \<le> 3"

lemma narrowed_drop:
  assumes "narrowed (drop_role gs i (2 ^ k)) rs" "i < length gs" "bit (snd (gs ! i)) k"
  shows "narrowed gs rs"
proof -
  have "bit (snd (gs ! j)) n" if "j < length gs" "bit (snd (rs ! j)) n" for j n
  proof -
    have "bit (snd (drop_role gs i (2 ^ k) ! j)) n" using assms(1) that by (simp add: narrowed_def drop_role_nth)
    then show ?thesis using that assms(2,3) by (auto simp: drop_role_nth bit_minus_role split: if_splits)
  qed
  then show ?thesis using assms(1) by (simp add: narrowed_def drop_role_nth)
qed

lemma choice_of_assigned:
  assumes "narrowed gs rs" "assigned rs"
  shows "\<exists>A. role_choice gs A"
proof -
  define pick where "pick = (\<lambda>w :: uint8. if w AND NOT PLAYER_ROLE_LEADER = 2 ^ 1 then 1 else if w AND NOT PLAYER_ROLE_LEADER = 2 ^ 2 then 2 else 3 :: nat)"
  let ?A = "map (\<lambda>(g, w). pick w) rs"
  have len: "length rs = length gs" using assms(1) by (metis narrowed_def length_map)
  have one: "w AND NOT PLAYER_ROLE_LEADER \<in> {2 ^ 1, 2 ^ 2, 2 ^ 3}" if "(g, w) \<in> set rs" for g w
    using assms(2) that by (auto simp: assigned_def role_exp_inj simp del: power_one_right)
  have cnt: "count_list (map (\<lambda>(g, w). pick w) xs) k = role_cnt k xs" if "set xs \<subseteq> set rs" "k \<in> {1, 2, 3}" for xs k
    using that
  proof (induction xs)
    case (Cons x xs)
    obtain g w where x: "x = (g, w)" by force
    with Cons.prems one have "w AND NOT PLAYER_ROLE_LEADER \<in> {2 ^ 1, 2 ^ 2, 2 ^ 3}" by auto
    then have "(pick w = k) = (w AND NOT PLAYER_ROLE_LEADER = 2 ^ k)"
      using Cons.prems(2) by (auto simp: pick_def role_exp_inj simp del: power_one_right)
    with Cons x show ?case by (simp add: role_cnt_def)
  qed (simp add: role_cnt_def)
  have "?A ! i \<in> {1, 2, 3} \<and> bit (snd (gs ! i)) (?A ! i)" if "i < length gs" for i
  proof -
    let ?w = "snd (rs ! i)"
    have "?w AND NOT PLAYER_ROLE_LEADER \<in> {2 ^ 1, 2 ^ 2, 2 ^ 3}" using one that len by (metis nth_mem prod.collapse)
    then have "?w AND NOT PLAYER_ROLE_LEADER = 2 ^ pick ?w" "pick ?w \<in> {1, 2, 3}"
      by (auto simp: pick_def role_exp_inj simp del: power_one_right)
    then have "bit (?w AND NOT PLAYER_ROLE_LEADER) (pick ?w)" by (auto simp: bit_exp_iff)
    then have "bit ?w (pick ?w)" by (simp add: bit_no_leader)
    then show ?thesis using assms(1) that len \<open>pick ?w \<in> {1, 2, 3}\<close> by (simp add: narrowed_def case_prod_beta)
  qed
  then have "role_choice gs ?A"
    using assms(2) len cnt [of rs] by (simp add: role_choice_def assigned_def)
  then show ?thesis ..
qed

lemma loop_sound:
  assumes IH: "\<And>gs' rs. roles_left gs' < roles_left gs \<Longrightarrow> length gs' < 256 \<Longrightarrow> check_loop 0 0 0 0 gs' = Some rs \<Longrightarrow>
      narrowed gs' rs \<and> assigned rs"
    and len: "length gs < 256"
  shows "loop_inv i d h t gs \<Longrightarrow> check_loop i d h t gs = Some rs \<Longrightarrow> narrowed gs rs \<and> assigned rs"
proof (induction "length gs - i" arbitrary: i d h t)
  case 0
  then have end_: "length gs \<le> i" by simp
  have rs: "rs = gs" and "unat t + unat h + unat d = unat (of_nat (length gs) :: uint8)"
    using 0(3) end_ by (auto simp: loop_end split: if_splits)
  then have "role_cnt 1 gs + role_cnt 2 gs + role_cnt 3 gs = length gs"
    using 0(2) end_ len by (simp add: loop_inv_def unsigned_of_nat take_bit_eq_mod)
  then have "filter (\<lambda>(g, w). w AND NOT PLAYER_ROLE_LEADER \<in> {2 ^ 1, 2 ^ 2, 2 ^ 3}) gs = gs"
    unfolding role_cnt_sum by (metis (no_types, lifting) filter_True length_filter_less nat_less_le)
  then have "\<forall>(g, w) \<in> set gs. w AND NOT PLAYER_ROLE_LEADER \<in> {PLAYER_ROLE_TANK, PLAYER_ROLE_HEALER, PLAYER_ROLE_DAMAGE}"
    unfolding role_exp_inj(1-3) by (auto simp: filter_id_conv simp del: power_one_right)
  moreover have "role_cnt 3 gs \<le> 3" "role_cnt 2 gs \<le> 1" "role_cnt 1 gs \<le> 1"
    using 0(2) end_ by (auto simp: loop_inv_def word_le_nat_alt role_defs)
  ultimately show ?case unfolding rs by (simp add: narrowed_def assigned_def)
next
  case (Suc n)
  then have i: "i < length gs" by simp
  have n: "n = length gs - Suc i" using Suc.hyps(2) by simp
  note IHn = Suc.hyps(1) [OF n]
  consider (none) "role_at gs i = 0" | (dps) "role_at gs i = PLAYER_ROLE_DAMAGE" | (heal) "role_at gs i = PLAYER_ROLE_HEALER"
    | (tank) "role_at gs i = PLAYER_ROLE_TANK" | (several) "role_at gs i \<notin> {0, PLAYER_ROLE_DAMAGE, PLAYER_ROLE_HEALER, PLAYER_ROLE_TANK}"
    by blast
  then show ?case
  proof cases
    case none
    then show ?thesis using Suc.prems(2) loop_none [OF i] by simp
  next
    case dps
    then have d: "d \<noteq> LFG_DPS_NEEDED" "check_loop (Suc i) (d + 1) h t gs = Some rs"
      using Suc.prems(2) loop_damage [OF i dps, of d h t] by (auto split: if_splits)
    show ?thesis by (rule IHn [OF loop_inv_damage [OF Suc.prems(1) i dps d(1)] d(2)])
  next
    case heal
    then have d: "h \<noteq> LFG_HEALERS_NEEDED" "check_loop (Suc i) d (h + 1) t gs = Some rs"
      using Suc.prems(2) loop_healer [OF i heal, of d h t] by (auto split: if_splits)
    show ?thesis by (rule IHn [OF loop_inv_healer [OF Suc.prems(1) i heal d(1)] d(2)])
  next
    case tank
    then have d: "t \<noteq> LFG_TANKS_NEEDED" "check_loop (Suc i) d h (t + 1) gs = Some rs"
      using Suc.prems(2) loop_tank [OF i tank, of d h t] by (auto split: if_splits)
    show ?thesis by (rule IHn [OF loop_inv_tank [OF Suc.prems(1) i tank d(1)] d(2)])
  next
    case several
    have "first_some [attempt gs i 3, attempt gs i 2, attempt gs i 1, check_loop (Suc i) d h t gs] = Some rs"
      by (simp only: loop_several [OF i several, of d h t, symmetric] Suc.prems(2))
    note mem = first_some_member [OF this]
    then consider (sub) k where "k \<in> {1, 2, 3}" "attempt gs i k = Some rs" | (go) "check_loop (Suc i) d h t gs = Some rs"
      by (simp only: list.set insert_iff empty_iff) metis
    then show ?thesis
    proof cases
      case sub
      then have b: "bit (role_at gs i) k" "check_loop 0 0 0 0 (drop_role gs i (2 ^ k)) = Some rs"
        by (auto simp: attempt_def split: if_splits)
      then have "narrowed (drop_role gs i (2 ^ k)) rs \<and> assigned rs"
        using len sub(1) i drop_role_less [OF i b(1) sub(1)] by (intro IH) (simp_all add: drop_role_nth)
      then show ?thesis using narrowed_drop [OF _ i, of k rs] b(1) by (auto simp: bit_no_leader)
    next
      case go
      show ?thesis by (rule IHn [OF loop_inv_several [OF Suc.prems(1) i several] go])
    qed
  qed
qed

lemma check_sound: "check_loop 0 0 0 0 gs = Some rs \<Longrightarrow> length gs < 256 \<Longrightarrow> narrowed gs rs \<and> assigned rs"
proof (induction "roles_left gs" arbitrary: gs rs rule: less_induct)
  case less
  show ?case
  proof (rule loop_sound [OF _ less.prems(2) loop_inv_0 less.prems(1)])
    fix gs' rs'
    assume "roles_left gs' < roles_left gs" "length gs' < 256" "check_loop 0 0 0 0 gs' = Some rs'"
    then show "narrowed gs' rs' \<and> assigned rs'" by (intro less.hyps)
  qed
qed

lemma check_complete: "role_choice gs A \<Longrightarrow> \<forall>(g, w) \<in> set gs. w < 16 \<Longrightarrow> length gs < 256 \<Longrightarrow> check_loop 0 0 0 0 gs \<noteq> None"
proof (induction "roles_left gs" arbitrary: gs A rule: less_induct)
  case less
  show ?case
  proof (rule loop_complete [OF _ less.prems loop_inv_0])
    fix gs' A'
    assume "roles_left gs' < roles_left gs" "role_choice gs' A'" "\<forall>(g, w) \<in> set gs'. w < 16" "length gs' < 256"
    then show "check_loop 0 0 0 0 gs' \<noteq> None" by (rule less.hyps)
  qed simp
qed

lemma CheckGroupRoles_assigns: "CheckGroupRoles gs = Some rs \<Longrightarrow> length gs < 256 \<Longrightarrow> narrowed gs rs \<and> assigned rs"
  by (auto simp: CheckGroupRoles_def dest: check_sound split: if_splits)

text \<open>C18: CheckGroupRoles succeeds exactly when the members of the group can be given one of the roles they offer
  each, with at most one tank, one healer and three damage dealers; and then it leaves in the map, for
  the same members, such an assignment taken from the roles they offered.\<close>

theorem CheckGroupRoles_correct:
  assumes "gs \<noteq> []" "length gs < 256" "\<forall>(g, w) \<in> set gs. w < 16"
  shows "(CheckGroupRoles gs \<noteq> None \<longleftrightarrow> (\<exists>A. role_choice gs A)) \<and>
     (\<forall>rs. CheckGroupRoles gs = Some rs \<longrightarrow> narrowed gs rs \<and> assigned rs)"
  using assms check_sound check_complete choice_of_assigned by (fastforce simp: CheckGroupRoles_def)

theorem CheckGroupRoles_correct_witness:
  "\<exists>rs. CheckGroupRoles [(ObjectGuid 0 1, 10), (ObjectGuid 0 2, 3)] = Some rs \<and> assigned rs"
proof -
  let ?gs = "[(ObjectGuid 0 1, 10 :: uint8), (ObjectGuid 0 2, 3)]"
  have "role_choice ?gs [3, 1]" by (simp add: role_choice_def less_Suc_eq)
  moreover have "?gs \<noteq> []" "length ?gs < 256" "\<forall>(g, w) \<in> set ?gs. w < 16" by simp_all
  ultimately show ?thesis using CheckGroupRoles_correct [of ?gs] by blast
qed

end
