(* ===== verification/Lfg_Queue.thy ===== *)
theory Lfg_Queue
  imports Lfg_Roles Text_Util Registry "HOL-Library.List_Lexorder" "HOL-Library.Char_ord"
begin

text \<open>
  The queue of the dungeon finder, \<^verbatim>\<open>src/src/server/game/DungeonFinding/LFGQueue.{h,cpp}\<close>: queued players and
  groups with their roles and dungeons, a cache of the compatibility of combinations (its keys are the
  sorted identifiers as text), and the search for combinations that fill a group. What the queue asks
  of the dungeon finder's manager, the clock and the random numbers is an environment; proposals handed
  to the manager are collected in the state.
\<close>

unbundle bit_operations_syntax

section \<open>Data\<close>

datatype LfgCompatibility = LFG_COMPATIBILITY_PENDING | LFG_INCOMPATIBLES_WRONG_GROUP_SIZE
  | LFG_INCOMPATIBLES_TOO_MUCH_PLAYERS | LFG_INCOMPATIBLES_MULTIPLE_LFG_GROUPS | LFG_INCOMPATIBLES_HAS_IGNORES
  | LFG_INCOMPATIBLES_NO_ROLES | LFG_INCOMPATIBLES_NO_DUNGEONS | LFG_COMPATIBLES_WITH_LESS_PLAYERS
  | LFG_COMPATIBLES_BAD_STATES | LFG_COMPATIBLES_MATCH

fun compat_num :: "LfgCompatibility \<Rightarrow> nat" where
  "compat_num LFG_COMPATIBILITY_PENDING = 0"
| "compat_num LFG_INCOMPATIBLES_WRONG_GROUP_SIZE = 1"
| "compat_num LFG_INCOMPATIBLES_TOO_MUCH_PLAYERS = 2"
| "compat_num LFG_INCOMPATIBLES_MULTIPLE_LFG_GROUPS = 3"
| "compat_num LFG_INCOMPATIBLES_HAS_IGNORES = 4"
| "compat_num LFG_INCOMPATIBLES_NO_ROLES = 5"
| "compat_num LFG_INCOMPATIBLES_NO_DUNGEONS = 6"
| "compat_num LFG_COMPATIBLES_WITH_LESS_PLAYERS = 7"
| "compat_num LFG_COMPATIBLES_BAD_STATES = 8"
| "compat_num LFG_COMPATIBLES_MATCH = 9"

record compat_data =
  cd_compatibility :: LfgCompatibility
  cd_roles :: roles_map

record queue_data =
  qd_joinTime :: int
  qd_tanks :: uint8
  qd_healers :: uint8
  qd_dps :: uint8
  qd_dungeons :: "uint32 list"
  qd_roles :: roles_map
  qd_bestCompatible :: string

definition LfgQueueData :: "int \<Rightarrow> uint32 list \<Rightarrow> roles_map \<Rightarrow> queue_data" where
  "LfgQueueData joinTime dungeons roles = \<lparr>qd_joinTime = joinTime, qd_tanks = LFG_TANKS_NEEDED, qd_healers = LFG_HEALERS_NEEDED,
     qd_dps = LFG_DPS_NEEDED, qd_dungeons = dungeons, qd_roles = roles, qd_bestCompatible = []\<rparr>"

record wait_time =
  wt_time :: uint32
  wt_number :: uint32

datatype LfgAnswer = LFG_ANSWER_PENDING | LFG_ANSWER_DENY | LFG_ANSWER_AGREE

datatype LfgProposalState = LFG_PROPOSAL_INITIATING | LFG_PROPOSAL_FAILED | LFG_PROPOSAL_SUCCESS

record proposal_player =
  pp_role :: uint8
  pp_accept :: LfgAnswer
  pp_group :: ObjectGuid

record proposal =
  pr_id :: uint32
  pr_dungeonId :: uint32
  pr_state :: LfgProposalState
  pr_group :: ObjectGuid
  pr_leader :: ObjectGuid
  pr_cancelTime :: int
  pr_isNew :: bool
  pr_queues :: "ObjectGuid list"
  pr_players :: "(ObjectGuid \<times> proposal_player) list"

record lfg_queue =
  QueueDataStore :: "(ObjectGuid \<times> queue_data) list"
  CompatibleMapStore :: "(string \<times> compat_data) list"
  waitTimesAvgStore :: "(uint32 \<times> wait_time) list"
  waitTimesTankStore :: "(uint32 \<times> wait_time) list"
  waitTimesHealerStore :: "(uint32 \<times> wait_time) list"
  waitTimesDpsStore :: "(uint32 \<times> wait_time) list"
  currentQueueStore :: "ObjectGuid list"
  newToQueueStore :: "ObjectGuid list"
  proposalsMade :: "proposal list"

text \<open>The manager of the dungeon finder as the queue sees it.\<close>

record lfg_env =
  IsLfgGroup :: "ObjectGuid \<Rightarrow> bool"
  HasIgnore :: "ObjectGuid \<Rightarrow> ObjectGuid \<Rightarrow> bool"
  IsQueued :: "ObjectGuid \<Rightarrow> bool"
  OldStateIsDungeon :: "ObjectGuid \<Rightarrow> bool"
  IsTesting :: bool
  env_time :: int
  random_dungeon :: "uint32 list \<Rightarrow> uint32"
  random_bit :: "ObjectGuid \<Rightarrow> bool"

definition AllQueued :: "lfg_env \<Rightarrow> ObjectGuid list \<Rightarrow> bool" where
  "AllQueued env check \<longleftrightarrow> check \<noteq> [] \<and> list_all (IsQueued env) check"

section \<open>Keys\<close>

definition ConcatenateGuids :: "ObjectGuid list \<Rightarrow> string" where
  "ConcatenateGuids check =
     (case map guid_stream (sorted_list_of_set (set check)) of
        [] \<Rightarrow> []
      | s # ss \<Rightarrow> s @ concat (map (\<lambda>t. CHR ''|'' # t) ss))"

definition GetCompatibles :: "string \<Rightarrow> lfg_queue \<Rightarrow> LfgCompatibility" where
  "GetCompatibles key q =
     (case map_of (CompatibleMapStore q) key of Some d \<Rightarrow> cd_compatibility d | None \<Rightarrow> LFG_COMPATIBILITY_PENDING)"

definition SetCompatibles :: "string \<Rightarrow> LfgCompatibility \<Rightarrow> lfg_queue \<Rightarrow> lfg_queue" where
  "SetCompatibles key c q =
     (let d = (case map_of (CompatibleMapStore q) key of Some d \<Rightarrow> d
               | None \<Rightarrow> \<lparr>cd_compatibility = LFG_COMPATIBILITY_PENDING, cd_roles = []\<rparr>)
      in q\<lparr>CompatibleMapStore := om_set key (d\<lparr>cd_compatibility := c\<rparr>) (CompatibleMapStore q)\<rparr>)"

definition SetCompatibilityData :: "string \<Rightarrow> compat_data \<Rightarrow> lfg_queue \<Rightarrow> lfg_queue" where
  "SetCompatibilityData key d q = q\<lparr>CompatibleMapStore := om_set key d (CompatibleMapStore q)\<rparr>"

definition RemoveFromCompatibles :: "ObjectGuid \<Rightarrow> lfg_queue \<Rightarrow> lfg_queue" where
  "RemoveFromCompatibles g q =
     q\<lparr>CompatibleMapStore := filter (\<lambda>(key, d). \<not> has_infix (guid_stream g) key) (CompatibleMapStore q)\<rparr>"

section \<open>Best combinations\<close>

text \<open>What is still needed once the roles of a combination are filled; the counters are bytes.\<close>

fun needs :: "roles_map \<Rightarrow> uint8 \<times> uint8 \<times> uint8 \<Rightarrow> uint8 \<times> uint8 \<times> uint8" where
  "needs [] n = n"
| "needs ((g, role) # rs) (t, h, d) =
     needs rs (if role AND PLAYER_ROLE_TANK \<noteq> 0 then (t - 1, h, d)
               else if role AND PLAYER_ROLE_HEALER \<noteq> 0 then (t, h - 1, d)
               else (t, h, d - 1))"

definition update_best :: "string \<Rightarrow> roles_map \<Rightarrow> queue_data \<Rightarrow> queue_data" where
  "update_best key roles d =
     (let storedSize = (if qd_bestCompatible d = [] then 0 else of_nat (count_list (qd_bestCompatible d) (CHR ''|'') + 1)) :: uint8;
          sz = of_nat (count_list key (CHR ''|'') + 1) :: uint8
      in if sz \<le> storedSize then d
         else case needs roles (LFG_TANKS_NEEDED, LFG_HEALERS_NEEDED, LFG_DPS_NEEDED) of (t, h, dp) \<Rightarrow>
                d\<lparr>qd_bestCompatible := key, qd_tanks := t, qd_healers := h, qd_dps := dp\<rparr>)"

definition UpdateBestCompatibleInQueue :: "ObjectGuid \<Rightarrow> string \<Rightarrow> roles_map \<Rightarrow> lfg_queue \<Rightarrow> lfg_queue" where
  "UpdateBestCompatibleInQueue g key roles q =
     q\<lparr>QueueDataStore := om_adjust g (update_best key roles) (QueueDataStore q)\<rparr>"

definition FindBestCompatibleInQueue :: "ObjectGuid \<Rightarrow> lfg_queue \<Rightarrow> lfg_queue" where
  "FindBestCompatibleInQueue g q =
     fold (\<lambda>(key, d) q'. if cd_compatibility d = LFG_COMPATIBLES_WITH_LESS_PLAYERS \<and> has_infix (guid_stream g) key
                          then UpdateBestCompatibleInQueue g key (cd_roles d) q' else q')
       (CompatibleMapStore q) q"

section \<open>Entering and leaving the queue\<close>

definition RemoveFromNewQueue :: "ObjectGuid \<Rightarrow> lfg_queue \<Rightarrow> lfg_queue" where
  "RemoveFromNewQueue g q = q\<lparr>newToQueueStore := removeAll g (newToQueueStore q)\<rparr>"

definition RemoveFromCurrentQueue :: "ObjectGuid \<Rightarrow> lfg_queue \<Rightarrow> lfg_queue" where
  "RemoveFromCurrentQueue g q = q\<lparr>currentQueueStore := removeAll g (currentQueueStore q)\<rparr>"

definition AddToNewQueue :: "ObjectGuid \<Rightarrow> lfg_queue \<Rightarrow> lfg_queue" where
  "AddToNewQueue g q = q\<lparr>newToQueueStore := newToQueueStore q @ [g]\<rparr>"

definition AddToCurrentQueue :: "ObjectGuid \<Rightarrow> lfg_queue \<Rightarrow> lfg_queue" where
  "AddToCurrentQueue g q = q\<lparr>currentQueueStore := currentQueueStore q @ [g]\<rparr>"

definition AddToFrontCurrentQueue :: "ObjectGuid \<Rightarrow> lfg_queue \<Rightarrow> lfg_queue" where
  "AddToFrontCurrentQueue g q = q\<lparr>currentQueueStore := g # currentQueueStore q\<rparr>"

definition AddToQueue :: "ObjectGuid \<Rightarrow> bool \<Rightarrow> lfg_queue \<Rightarrow> lfg_queue" where
  "AddToQueue g reAdd q =
     (if map_of (QueueDataStore q) g = None then q
      else if reAdd then AddToFrontCurrentQueue g q else AddToNewQueue g q)"

definition AddQueueData :: "ObjectGuid \<Rightarrow> int \<Rightarrow> uint32 list \<Rightarrow> roles_map \<Rightarrow> lfg_queue \<Rightarrow> lfg_queue" where
  "AddQueueData g joinTime dungeons roles q =
     AddToQueue g False (q\<lparr>QueueDataStore := om_set g (LfgQueueData joinTime dungeons roles) (QueueDataStore q)\<rparr>)"

definition RemoveQueueData :: "ObjectGuid \<Rightarrow> lfg_queue \<Rightarrow> lfg_queue" where
  "RemoveQueueData g q = q\<lparr>QueueDataStore := om_erase g (QueueDataStore q)\<rparr>"

text \<open>Entries whose best combination contained the removed identifier look for another one.\<close>

definition refresh_best :: "ObjectGuid \<Rightarrow> ObjectGuid \<Rightarrow> lfg_queue \<Rightarrow> lfg_queue" where
  "refresh_best g k q =
     (case map_of (QueueDataStore q) k of
        None \<Rightarrow> q
      | Some d \<Rightarrow>
          if k \<noteq> g \<and> has_infix (guid_stream g) (qd_bestCompatible d)
          then FindBestCompatibleInQueue k
                 (q\<lparr>QueueDataStore := om_adjust k (\<lambda>d. d\<lparr>qd_bestCompatible := []\<rparr>) (QueueDataStore q)\<rparr>)
          else q)"

definition RemoveFromQueue :: "ObjectGuid \<Rightarrow> lfg_queue \<Rightarrow> lfg_queue" where
  "RemoveFromQueue g q =
     (let q1 = RemoveFromCompatibles g (RemoveFromCurrentQueue g (RemoveFromNewQueue g q));
          q2 = fold (refresh_best g) (map fst (QueueDataStore q1)) q1
      in RemoveQueueData g q2)"

text \<open>
  The four running averages are updated alike: unsigned 32-bit arithmetic in which the first division
  is by one. (The counter is back at zero after \<^verbatim>\<open>2^32\<close> updates, where the division is undefined.)
\<close>

definition update_wait :: "int \<Rightarrow> uint32 \<Rightarrow> (uint32 \<times> wait_time) list \<Rightarrow> (uint32 \<times> wait_time) list" where
  "update_wait waitTime dungeonId m =
     (let wt = (case map_of m dungeonId of Some w \<Rightarrow> w | None \<Rightarrow> \<lparr>wt_time = - 1, wt_number = 0\<rparr>);
          n = wt_number wt + 1
      in om_set dungeonId \<lparr>wt_time = (wt_time wt * wt_number wt + word_of_int waitTime) div n, wt_number = n\<rparr> m)"

definition UpdateWaitTimeAvg :: "int \<Rightarrow> uint32 \<Rightarrow> lfg_queue \<Rightarrow> lfg_queue" where
  "UpdateWaitTimeAvg w d q = q\<lparr>waitTimesAvgStore := update_wait w d (waitTimesAvgStore q)\<rparr>"

definition UpdateWaitTimeTank :: "int \<Rightarrow> uint32 \<Rightarrow> lfg_queue \<Rightarrow> lfg_queue" where
  "UpdateWaitTimeTank w d q = q\<lparr>waitTimesTankStore := update_wait w d (waitTimesTankStore q)\<rparr>"

definition UpdateWaitTimeHealer :: "int \<Rightarrow> uint32 \<Rightarrow> lfg_queue \<Rightarrow> lfg_queue" where
  "UpdateWaitTimeHealer w d q = q\<lparr>waitTimesHealerStore := update_wait w d (waitTimesHealerStore q)\<rparr>"

definition UpdateWaitTimeDps :: "int \<Rightarrow> uint32 \<Rightarrow> lfg_queue \<Rightarrow> lfg_queue" where
  "UpdateWaitTimeDps w d q = q\<lparr>waitTimesDpsStore := update_wait w d (waitTimesDpsStore q)\<rparr>"

definition GetJoinTime :: "ObjectGuid \<Rightarrow> lfg_queue \<Rightarrow> int" where
  "GetJoinTime g q = (case map_of (QueueDataStore q) g of Some d \<Rightarrow> qd_joinTime d | None \<Rightarrow> 0)"

section \<open>Checking a combination\<close>

text \<open>The first pass: who brings which players, how many players and how many dungeon finder groups.\<close>

record scan =
  sc_groups :: "(ObjectGuid \<times> ObjectGuid) list"
  sc_numPlayers :: uint8
  sc_numLfgGroups :: uint8
  sc_group :: ObjectGuid

fun scan_groups :: "lfg_env \<Rightarrow> lfg_queue \<Rightarrow> ObjectGuid list \<Rightarrow> scan \<Rightarrow> ObjectGuid + scan" where
  "scan_groups env q [] a = Inr a"
| "scan_groups env q (g # gs) a =
     (if \<not> (sc_numLfgGroups a < 2 \<and> unat (sc_numPlayers a) \<le> MAX_GROUP_SIZE) then Inr a
      else case map_of (QueueDataStore q) g of
             None \<Rightarrow> Inl g
           | Some d \<Rightarrow>
               let owner = (if HasKind HG_Party g then g else GuidEmpty);
                   a1 = a\<lparr>sc_groups := fold (\<lambda>(p, r). om_set p owner) (qd_roles d) (sc_groups a),
                          sc_numPlayers := sc_numPlayers a + of_nat (length (qd_roles d))\<rparr>;
                   a2 = (if IsLfgGroup env g
                         then a1\<lparr>sc_group := (if sc_numLfgGroups a1 = 0 then g else sc_group a1),
                                 sc_numLfgGroups := sc_numLfgGroups a1 + 1\<rparr>
                         else a1)
               in scan_groups env q gs a2)"

definition data_of :: "lfg_queue \<Rightarrow> ObjectGuid \<Rightarrow> queue_data" where
  "data_of q g = (case map_of (QueueDataStore q) g of Some d \<Rightarrow> d | None \<Rightarrow> LfgQueueData 0 [] [])"

text \<open>The second pass: players are joined unless one ignores another.\<close>

definition join_player :: "lfg_env \<Rightarrow> ObjectGuid \<times> uint8 \<Rightarrow> roles_map \<Rightarrow> roles_map" where
  "join_player env pr rs = (case pr of (p, r) \<Rightarrow>
     if list_ex (\<lambda>(p', r'). p' \<noteq> p \<and> HasIgnore env p p') rs then rs else om_set p r rs)"

definition join_players :: "lfg_env \<Rightarrow> lfg_queue \<Rightarrow> ObjectGuid list \<Rightarrow> roles_map" where
  "join_players env q check = fold (\<lambda>g rs. fold (join_player env) (qd_roles (data_of q g)) rs) check []"

definition common_dungeons :: "lfg_queue \<Rightarrow> ObjectGuid list \<Rightarrow> uint32 list" where
  "common_dungeons q check =
     fold (\<lambda>g ds. filter (\<lambda>x. x \<in> set (qd_dungeons (data_of q g))) ds) (tl check) (qd_dungeons (data_of q (hd check)))"

text \<open>The leader: among the players who offered to lead, else among all, each in turn by a toss.\<close>

fun choose_leader :: "lfg_env \<Rightarrow> roles_map \<Rightarrow> bool \<Rightarrow> ObjectGuid \<Rightarrow> ObjectGuid" where
  "choose_leader env [] leader l = l"
| "choose_leader env ((p, r) # rs) leader l =
     (if r AND PLAYER_ROLE_LEADER \<noteq> 0
      then choose_leader env rs True (if \<not> leader \<or> IsEmpty l \<or> random_bit env p then p else l)
      else choose_leader env rs leader (if \<not> leader \<and> (IsEmpty l \<or> random_bit env p) then p else l))"

definition make_proposal :: "lfg_env \<Rightarrow> ObjectGuid list \<Rightarrow> scan \<Rightarrow> uint32 list \<Rightarrow> roles_map \<Rightarrow> proposal" where
  "make_proposal env check a dungeons roles =
     (let isNew = (sc_numLfgGroups a \<noteq> 1 \<or> \<not> OldStateIsDungeon env (hd check))
      in \<lparr>pr_id = 0, pr_dungeonId = random_dungeon env dungeons, pr_state = LFG_PROPOSAL_INITIATING, pr_group = sc_group a, pr_leader = choose_leader env roles False GuidEmpty,
          pr_cancelTime = env_time env + 45, pr_isNew = isNew, pr_queues = check,
          pr_players = map (\<lambda>(p, r).
             let grp = (case map_of (sc_groups a) p of Some g \<Rightarrow> g | None \<Rightarrow> GuidEmpty)
             in (p, \<lparr>pp_role = r, pp_accept = (if \<not> isNew \<and> \<not> IsEmpty grp \<and> grp = sc_group a then LFG_ANSWER_AGREE else LFG_ANSWER_PENDING),
                     pp_group = grp\<rparr>)) roles\<rparr>)"

text \<open>The part of \<^verbatim>\<open>CheckCompatibility\<close> behind the checks, once roles and dungeons of the combination are known.\<close>

definition conclude :: "lfg_env \<Rightarrow> ObjectGuid list \<Rightarrow> scan \<Rightarrow> roles_map \<Rightarrow> uint32 list \<Rightarrow> lfg_queue \<Rightarrow> LfgCompatibility \<times> lfg_queue" where
  "conclude env check a roles dungeons q =
     (let key = ConcatenateGuids check in
      if \<not> IsTesting env \<and> unat (sc_numPlayers a) \<noteq> MAX_GROUP_SIZE
      then (LFG_COMPATIBLES_WITH_LESS_PLAYERS,
            SetCompatibilityData key \<lparr>cd_compatibility = LFG_COMPATIBLES_WITH_LESS_PLAYERS, cd_roles = roles\<rparr>
              (fold (\<lambda>g. UpdateBestCompatibleInQueue g key roles) check q))
      else if \<not> AllQueued env check
      then (LFG_COMPATIBLES_BAD_STATES, SetCompatibles key LFG_COMPATIBLES_BAD_STATES q)
      else let q1 = fold (\<lambda>g s. RemoveFromCurrentQueue g (RemoveFromNewQueue g s)) check q;
               q2 = q1\<lparr>proposalsMade := proposalsMade q1 @ [make_proposal env check a dungeons roles]\<rparr>
           in (LFG_COMPATIBLES_MATCH, SetCompatibles key LFG_COMPATIBLES_MATCH q2))"

definition check_body :: "lfg_env \<Rightarrow> ObjectGuid list \<Rightarrow> lfg_queue \<Rightarrow> LfgCompatibility \<times> lfg_queue" where
  "check_body env check q =
     (let key = ConcatenateGuids check; no = (\<lambda>c. (c, SetCompatibles key c q)) in
      case scan_groups env q check \<lparr>sc_groups = [], sc_numPlayers = 0, sc_numLfgGroups = 0, sc_group = GuidEmpty\<rparr> of
        Inl g \<Rightarrow> (LFG_COMPATIBILITY_PENDING, RemoveFromQueue g q)
      | Inr a \<Rightarrow>
          if \<not> IsTesting env \<and> length check = 1 \<and> unat (sc_numPlayers a) \<noteq> MAX_GROUP_SIZE
          then let rs = qd_roles (data_of q (hd check));
                   rs' = (case CheckGroupRoles rs of Some x \<Rightarrow> x | None \<Rightarrow> rs)
               in (LFG_COMPATIBLES_WITH_LESS_PLAYERS,
                   SetCompatibilityData key \<lparr>cd_compatibility = LFG_COMPATIBLES_WITH_LESS_PLAYERS, cd_roles = rs'\<rparr>
                     (UpdateBestCompatibleInQueue (hd check) key rs' q))
          else if sc_numLfgGroups a > 1 then no LFG_INCOMPATIBLES_MULTIPLE_LFG_GROUPS
          else if unat (sc_numPlayers a) > MAX_GROUP_SIZE then no LFG_INCOMPATIBLES_TOO_MUCH_PLAYERS
          else if length check > 1
          then let rs = join_players env q check in
               if sc_numPlayers a - of_nat (length rs) \<noteq> 0 then no LFG_INCOMPATIBLES_HAS_IGNORES
               else case CheckGroupRoles rs of
                      None \<Rightarrow> no LFG_INCOMPATIBLES_NO_ROLES
                    | Some rs' \<Rightarrow>
                        let ds = common_dungeons q check
                        in if ds = [] then no LFG_INCOMPATIBLES_NO_DUNGEONS
                           else conclude env check a rs' ds q
          else let d = data_of q (hd check);
                   rs' = (case CheckGroupRoles (qd_roles d) of Some x \<Rightarrow> x | None \<Rightarrow> qd_roles d)
               in conclude env check a rs' (qd_dungeons d) q)"

fun CheckCompatibility :: "lfg_env \<Rightarrow> ObjectGuid list \<Rightarrow> lfg_queue \<Rightarrow> LfgCompatibility \<times> lfg_queue" where
  "CheckCompatibility env [] q = (LFG_INCOMPATIBLES_WRONG_GROUP_SIZE, q)"
| "CheckCompatibility env (g # gs) q =
     (if length (g # gs) > MAX_GROUP_SIZE then (LFG_INCOMPATIBLES_WRONG_GROUP_SIZE, q)
      else if length (g # gs) > 2
      then (case CheckCompatibility env gs q of (child, q1) \<Rightarrow>
              if compat_num child < compat_num LFG_COMPATIBLES_WITH_LESS_PLAYERS
              then (child, SetCompatibles (ConcatenateGuids (g # gs)) child q1)
              else check_body env (g # gs) q1)
      else check_body env (g # gs) q)"

section \<open>The search\<close>

text \<open>
  \<^verbatim>\<open>FindNewGroups\<close> and its loop. The list \<^verbatim>\<open>all\<close> of candidates is passed by reference, so each call returns
  what it has left of it; a call never lengthens it (lemma \<^verbatim>\<open>rest_shorter\<close>), hence the test in the loop,
  which makes the recursion visibly terminate, always succeeds.
\<close>

function (sequential) FindNewGroups :: "lfg_env \<Rightarrow> ObjectGuid list \<Rightarrow> ObjectGuid list \<Rightarrow> lfg_queue
      \<Rightarrow> LfgCompatibility \<times> ObjectGuid list \<times> lfg_queue"
    and match_loop :: "lfg_env \<Rightarrow> ObjectGuid list \<Rightarrow> LfgCompatibility \<Rightarrow> ObjectGuid list \<Rightarrow> lfg_queue
      \<Rightarrow> LfgCompatibility \<times> ObjectGuid list \<times> lfg_queue" where
  "FindNewGroups env check all q =
     (let key = ConcatenateGuids check; cached = GetCompatibles key q;
          (c, q1) = (if cached = LFG_COMPATIBILITY_PENDING then CheckCompatibility env check q else (cached, q))
      in if c = LFG_COMPATIBLES_BAD_STATES \<and> AllQueued env check
         then (LFG_COMPATIBLES_MATCH, all, SetCompatibles key LFG_COMPATIBLES_MATCH q1)
         else if c \<noteq> LFG_COMPATIBLES_WITH_LESS_PLAYERS then (c, all, q1)
         else match_loop env check c all q1)"
| "match_loop env check c [] q = (c, [], q)"
| "match_loop env check c (a # all) q =
     (case FindNewGroups env (check @ [a]) all q of (sub, rest, q') \<Rightarrow>
        if sub = LFG_COMPATIBLES_MATCH then (LFG_COMPATIBLES_MATCH, rest, q')
        else if length rest \<le> length all then match_loop env check c rest q'
        else (c, rest, q'))"
  by pat_completeness auto
termination
  by (relation "measure (\<lambda>x. case x of Inl (env, check, all, q) \<Rightarrow> 2 * length all + 1
                                   | Inr (env, check, c, all, q) \<Rightarrow> 2 * length all)") auto

declare FindNewGroups.simps [simp del]

partial_function (option) FindGroups_loop :: "lfg_env \<Rightarrow> uint8 \<Rightarrow> lfg_queue \<Rightarrow> (uint8 \<times> lfg_queue) option" where
  [code]: "FindGroups_loop env proposals q =
     (case newToQueueStore q of
        [] \<Rightarrow> Some (proposals, q)
      | g # _ \<Rightarrow>
          (case FindNewGroups env [g] (currentQueueStore q) (RemoveFromNewQueue g q) of (c, rest, q1) \<Rightarrow>
             if c = LFG_COMPATIBLES_MATCH then FindGroups_loop env (proposals + 1) q1
             else FindGroups_loop env proposals (AddToCurrentQueue g q1)))"

definition FindGroups :: "lfg_env \<Rightarrow> lfg_queue \<Rightarrow> (uint8 \<times> lfg_queue) option" where
  "FindGroups env q = FindGroups_loop env 0 q"

section \<open>Timers\<close>

text \<open>The status a queued player is sent: dungeon, expected and average waits, time waited, roles missing.\<close>

datatype queue_status = QueueStatus ObjectGuid uint8 uint32 uint32 "uint32 \<times> uint32 \<times> uint32 \<times> uint32" uint32 "uint8 \<times> uint8 \<times> uint8"

definition wait_of :: "(uint32 \<times> wait_time) list \<Rightarrow> uint32 \<Rightarrow> uint32" where
  "wait_of m d = (case map_of m d of Some w \<Rightarrow> wt_time w | None \<Rightarrow> - 1)"

definition expected_wait :: "uint8 \<Rightarrow> uint32 \<Rightarrow> lfg_queue \<Rightarrow> uint32" where
  "expected_wait role d q =
     (if role = 0 then - 1
      else if role = PLAYER_ROLE_TANK then wait_of (waitTimesTankStore q) d
      else if role = PLAYER_ROLE_HEALER then wait_of (waitTimesHealerStore q) d
      else if role = PLAYER_ROLE_DAMAGE then wait_of (waitTimesDpsStore q) d
      else wait_of (waitTimesAvgStore q) d)"

text \<open>Reading a wait time through \<^verbatim>\<open>operator[]\<close> creates the entry.\<close>

definition touch_wait :: "uint32 \<Rightarrow> (uint32 \<times> wait_time) list \<Rightarrow> (uint32 \<times> wait_time) list" where
  "touch_wait d m = (case map_of m d of Some _ \<Rightarrow> m | None \<Rightarrow> om_set d \<lparr>wt_time = - 1, wt_number = 0\<rparr> m)"

definition update_timer :: "uint8 \<Rightarrow> int \<Rightarrow> ObjectGuid \<Rightarrow> lfg_queue \<times> queue_status list \<Rightarrow> lfg_queue \<times> queue_status list" where
  "update_timer queueId currTime g qs = (case qs of (q, out) \<Rightarrow>
     let d = data_of q g;
         dungeonId = hd (qd_dungeons d);
         q1 = q\<lparr>waitTimesTankStore := touch_wait dungeonId (waitTimesTankStore q),
                waitTimesHealerStore := touch_wait dungeonId (waitTimesHealerStore q),
                waitTimesDpsStore := touch_wait dungeonId (waitTimesDpsStore q),
                waitTimesAvgStore := touch_wait dungeonId (waitTimesAvgStore q)\<rparr>;
         role = fold (\<lambda>(p, r) x. x OR r) (qd_roles d) 0 AND NOT PLAYER_ROLE_LEADER;
         q2 = (if qd_bestCompatible d = [] then FindBestCompatibleInQueue g q1 else q1);
         d2 = data_of q2 g;
         status = (\<lambda>p. QueueStatus p queueId dungeonId (expected_wait role dungeonId q1)
            (wait_of (waitTimesAvgStore q1) dungeonId, wait_of (waitTimesTankStore q1) dungeonId,
             wait_of (waitTimesHealerStore q1) dungeonId, wait_of (waitTimesDpsStore q1) dungeonId)
            (word_of_int (currTime - qd_joinTime d)) (qd_tanks d2, qd_healers d2, qd_dps d2))
     in (q2, out @ map (\<lambda>(p, r). status p) (qd_roles d)))"

definition UpdateQueueTimers :: "uint8 \<Rightarrow> int \<Rightarrow> lfg_queue \<Rightarrow> lfg_queue \<times> queue_status list" where
  "UpdateQueueTimers queueId currTime q = fold (update_timer queueId currTime) (map fst (QueueDataStore q)) (q, [])"

end
