(* ===== verification/Lfg_Data.thy ===== *)
theory Lfg_Data
  imports Lfg_Queue
begin

text \<open>
  The data of the dungeon finder's manager, \<^verbatim>\<open>src/src/server/game/DungeonFinding/LFGMgr.{h,cpp}\<close>,
  \<^verbatim>\<open>LFGPlayerData.cpp\<close>, \<^verbatim>\<open>LFGGroupData.cpp\<close> and \<^verbatim>\<open>LFG.h\<close>: what it knows of every player and group, role
  checks, proposals, votes to remove a player, dungeons and rewards, with the accessors of these stores. The stores
  of players and groups are read and written through \<^verbatim>\<open>operator[]\<close> only and hence total functions with the
  constructors' values as default; log messages are left out, packets and other effects are recorded in their order.
\<close>

unbundle bit_operations_syntax

section \<open>Constants\<close>

datatype LfgState = LFG_STATE_NONE | LFG_STATE_ROLECHECK | LFG_STATE_QUEUED | LFG_STATE_PROPOSAL
  | LFG_STATE_DUNGEON | LFG_STATE_FINISHED_DUNGEON | LFG_STATE_RAIDBROWSER

fun state_num :: "LfgState \<Rightarrow> uint8" where
  "state_num LFG_STATE_NONE = 0"
| "state_num LFG_STATE_ROLECHECK = 1"
| "state_num LFG_STATE_QUEUED = 2"
| "state_num LFG_STATE_PROPOSAL = 3"
| "state_num LFG_STATE_DUNGEON = 5"
| "state_num LFG_STATE_FINISHED_DUNGEON = 6"
| "state_num LFG_STATE_RAIDBROWSER = 7"

datatype LfgRoleCheckState = LFG_ROLECHECK_DEFAULT | LFG_ROLECHECK_FINISHED | LFG_ROLECHECK_INITIALITING
  | LFG_ROLECHECK_MISSING_ROLE | LFG_ROLECHECK_WRONG_ROLES | LFG_ROLECHECK_ABORTED | LFG_ROLECHECK_NO_ROLE

datatype LfgUpdateType = LFG_UPDATETYPE_LEADER_UNK1 | LFG_UPDATETYPE_JOIN_QUEUE | LFG_UPDATETYPE_ROLECHECK_FAILED
  | LFG_UPDATETYPE_REMOVED_FROM_QUEUE | LFG_UPDATETYPE_PROPOSAL_FAILED | LFG_UPDATETYPE_PROPOSAL_DECLINED
  | LFG_UPDATETYPE_GROUP_FOUND | LFG_UPDATETYPE_ADDED_TO_QUEUE | LFG_UPDATETYPE_PROPOSAL_BEGIN
  | LFG_UPDATETYPE_UPDATE_STATUS | LFG_UPDATETYPE_JOIN_QUEUE_INITIAL

datatype LfgJoinResult = LFG_JOIN_OK | LFG_JOIN_NO_LFG_OBJECT | LFG_JOIN_NO_SLOTS_PLAYER | LFG_JOIN_MISMATCHED_SLOTS
  | LFG_JOIN_MEMBERS_NOT_PRESENT | LFG_JOIN_INVALID_SLOT | LFG_JOIN_DESERTER_PLAYER | LFG_JOIN_DESERTER_PARTY
  | LFG_JOIN_RANDOM_COOLDOWN_PLAYER | LFG_JOIN_RANDOM_COOLDOWN_PARTY | LFG_JOIN_TOO_MANY_MEMBERS
  | LFG_JOIN_CANT_USE_DUNGEONS | LFG_JOIN_ROLE_CHECK_FAILED | LFG_JOIN_PARTY_NOT_MEET_REQS

datatype LfgTeleportResult = LFG_TELEPORT_RESULT_NONE | LFG_TELEPORT_RESULT_DEAD | LFG_TELEPORT_RESULT_FALLING
  | LFG_TELEPORT_RESULT_ON_TRANSPORT | LFG_TELEPORT_RESULT_EXHAUSTION | LFG_TELEPORT_RESULT_NO_RETURN_LOCATION
  | LFG_TELEPORT_RESULT_IMMUNE_TO_SUMMONS

definition LFG_TYPE_NONE :: uint8 where "LFG_TYPE_NONE = 0"
definition LFG_TYPE_DUNGEON :: uint8 where "LFG_TYPE_DUNGEON = 1"
definition LFG_TYPE_RAID :: uint8 where "LFG_TYPE_RAID = 2"
definition LFG_TYPE_HEROIC :: uint8 where "LFG_TYPE_HEROIC = 5"
definition LFG_TYPE_RANDOM :: uint8 where "LFG_TYPE_RANDOM = 6"

lemmas lfg_type_defs = LFG_TYPE_NONE_def LFG_TYPE_DUNGEON_def LFG_TYPE_RAID_def LFG_TYPE_HEROIC_def LFG_TYPE_RANDOM_def

definition LFG_OPTION_ENABLE_DUNGEON_FINDER :: uint32 where "LFG_OPTION_ENABLE_DUNGEON_FINDER = 1"
definition LFG_OPTION_ENABLE_RAID_BROWSER :: uint32 where "LFG_OPTION_ENABLE_RAID_BROWSER = 2"

definition LFG_TIME_ROLECHECK :: int where "LFG_TIME_ROLECHECK = 45"
definition LFG_TIME_BOOT :: int where "LFG_TIME_BOOT = 120"
definition LFG_QUEUEUPDATE_INTERVAL :: uint32 where "LFG_QUEUEUPDATE_INTERVAL = 15000"
definition LFG_GROUP_KICK_VOTES_NEEDED :: uint8 where "LFG_GROUP_KICK_VOTES_NEEDED = 3"
definition LFG_GROUP_MAX_KICKS :: uint8 where "LFG_GROUP_MAX_KICKS = 3"
definition LFG_SPELL_DUNGEON_COOLDOWN :: uint32 where "LFG_SPELL_DUNGEON_COOLDOWN = 71328"
definition LFG_SPELL_DUNGEON_DESERTER :: uint32 where "LFG_SPELL_DUNGEON_DESERTER = 71041"
definition LFG_SPELL_LUCK_OF_THE_DRAW :: uint32 where "LFG_SPELL_LUCK_OF_THE_DRAW = 72221"

section \<open>Players and groups\<close>

record ride_ticket =
  rt_requester :: ObjectGuid
  rt_id :: uint32
  rt_lfg :: bool
  rt_time :: uint32

record player_data =
  pd_ticket :: ride_ticket
  pd_state :: LfgState
  pd_oldState :: LfgState
  pd_team :: uint8
  pd_group :: ObjectGuid
  pd_roles :: uint8
  pd_selected :: "uint32 list"

definition LfgPlayerData :: player_data where
  "LfgPlayerData = \<lparr>pd_ticket = \<lparr>rt_requester = GuidEmpty, rt_id = 0, rt_lfg = False, rt_time = 0\<rparr>,
     pd_state = LFG_STATE_NONE, pd_oldState = LFG_STATE_NONE, pd_team = 0, pd_group = GuidEmpty, pd_roles = 0, pd_selected = []\<rparr>"

definition set_player_state :: "LfgState \<Rightarrow> player_data \<Rightarrow> player_data" where
  "set_player_state s d =
     (let d1 = (if s = LFG_STATE_NONE \<or> s = LFG_STATE_FINISHED_DUNGEON then d\<lparr>pd_roles := 0, pd_selected := []\<rparr> else d);
          d2 = (if s = LFG_STATE_NONE \<or> s = LFG_STATE_FINISHED_DUNGEON \<or> s = LFG_STATE_DUNGEON then d1\<lparr>pd_oldState := s\<rparr> else d1)
      in d2\<lparr>pd_state := s\<rparr>)"

definition restore_player_state :: "player_data \<Rightarrow> player_data" where
  "restore_player_state d =
     (let d1 = (if pd_oldState d = LFG_STATE_NONE then d\<lparr>pd_selected := [], pd_roles := 0\<rparr> else d)
      in d1\<lparr>pd_state := pd_oldState d1\<rparr>)"

record group_data =
  gd_state :: LfgState
  gd_oldState :: LfgState
  gd_leader :: ObjectGuid
  gd_players :: "ObjectGuid list"
  gd_dungeon :: uint32
  gd_kicksLeft :: uint8
  gd_voteKick :: bool

definition LfgGroupData :: group_data where
  "LfgGroupData = \<lparr>gd_state = LFG_STATE_NONE, gd_oldState = LFG_STATE_NONE, gd_leader = GuidEmpty, gd_players = [],
     gd_dungeon = 0, gd_kicksLeft = LFG_GROUP_MAX_KICKS, gd_voteKick = False\<rparr>"

definition set_group_state :: "LfgState \<Rightarrow> group_data \<Rightarrow> group_data" where
  "set_group_state s d =
     (let d1 = (if s = LFG_STATE_NONE then d\<lparr>gd_dungeon := 0, gd_kicksLeft := LFG_GROUP_MAX_KICKS\<rparr> else d);
          d2 = (if s = LFG_STATE_NONE \<or> s = LFG_STATE_FINISHED_DUNGEON \<or> s = LFG_STATE_DUNGEON then d1\<lparr>gd_oldState := s\<rparr> else d1)
      in d2\<lparr>gd_state := s\<rparr>)"

definition restore_group_state :: "group_data \<Rightarrow> group_data" where
  "restore_group_state d = d\<lparr>gd_state := gd_oldState d\<rparr>"

section \<open>The manager\<close>

record role_check =
  rc_cancelTime :: int
  rc_roles :: roles_map
  rc_state :: LfgRoleCheckState
  rc_dungeons :: "uint32 list"
  rc_rDungeonId :: uint32
  rc_leader :: ObjectGuid

text \<open>What \<^verbatim>\<open>operator[]\<close> of a map makes of the structures without a constructor.\<close>

definition LfgRoleCheck :: role_check where
  "LfgRoleCheck = \<lparr>rc_cancelTime = 0, rc_roles = [], rc_state = LFG_ROLECHECK_DEFAULT, rc_dungeons = [], rc_rDungeonId = 0, rc_leader = GuidEmpty\<rparr>"

record player_boot =
  bt_cancelTime :: int
  bt_inProgress :: bool
  bt_votes :: "(ObjectGuid \<times> LfgAnswer) list"
  bt_victim :: ObjectGuid
  bt_reason :: string

definition LfgPlayerBoot :: player_boot where
  "LfgPlayerBoot = \<lparr>bt_cancelTime = 0, bt_inProgress = False, bt_votes = [], bt_victim = GuidEmpty, bt_reason = []\<rparr>"

text \<open>Coordinates and orientation, each the bits of a \<^verbatim>\<open>float\<close>; a float equals zero iff all bits but the sign are clear.\<close>

type_synonym position = "uint32 \<times> uint32 \<times> uint32 \<times> uint32"

definition no_position :: "position \<Rightarrow> bool" where
  "no_position pos = (case pos of (x, y, z, ori) \<Rightarrow> x AND 0x7FFFFFFF = 0 \<and> y AND 0x7FFFFFFF = 0 \<and> z AND 0x7FFFFFFF = 0)"

record dungeon_data =
  dg_id :: uint32
  dg_map :: uint32
  dg_type :: uint8
  dg_expansion :: uint8
  dg_group :: uint8
  dg_minlevel :: uint8
  dg_maxlevel :: uint8
  dg_difficulty :: uint8
  dg_seasonal :: bool
  dg_pos :: position
  dg_requiredItemLevel :: uint16

definition Entry :: "dungeon_data \<Rightarrow> uint32" where
  "Entry d = dg_id d + push_bit 24 (ucast (dg_type d))"

record lfg_reward =
  rw_maxLevel :: uint32
  rw_firstQuest :: uint32
  rw_otherQuest :: uint32

text \<open>Locked dungeons of a player: the reason for each dungeon entry.\<close>

type_synonym lock_map = "(uint32 \<times> uint32) list"

datatype lfg_effect =
    SendRoleChosen ObjectGuid ObjectGuid uint8
  | SendRoleCheckUpdate ObjectGuid role_check
  | SendUpdateStatus ObjectGuid LfgUpdateType LfgState "uint32 list" bool
  | SendJoinResult ObjectGuid LfgJoinResult LfgRoleCheckState "(ObjectGuid \<times> lock_map) list"
  | SendBootProposalUpdate ObjectGuid player_boot
  | SendUpdateProposal ObjectGuid proposal
  | SendQueueStatus queue_status
  | SendTeleportError ObjectGuid LfgTeleportResult
  | SendPlayerReward ObjectGuid uint32 uint32 bool uint32
  | SendOfferContinue ObjectGuid uint32
  | SaveLfgData uint32 uint32 uint8
  | CastSpell ObjectGuid uint32
  | TeleportTo ObjectGuid uint32 position
  | TeleportToEntryPoint ObjectGuid
  | SetEntryPoint ObjectGuid
  | EndFlight ObjectGuid
  | TeleportHome ObjectGuid
  | RemoveAuras ObjectGuid uint32
  | NameQuery ObjectGuid ObjectGuid
  | RewardQuest ObjectGuid uint32
  | UseLfdCriteria ObjectGuid

record lfg_mgr =
  QueuesStore :: "(uint8 \<times> lfg_queue) list"
  PlayersStore :: "ObjectGuid \<Rightarrow> player_data"
  GroupsStore :: "ObjectGuid \<Rightarrow> group_data"
  RoleChecksStore :: "(ObjectGuid \<times> role_check) list"
  ProposalsStore :: "(uint32 \<times> proposal) list"
  BootsStore :: "(ObjectGuid \<times> player_boot) list"
  LfgDungeonStore :: "(uint32 \<times> dungeon_data) list"
  CachedDungeonMapStore :: "uint8 \<Rightarrow> uint32 list"
  RewardMapStore :: "(uint32 \<times> lfg_reward) list"
  m_QueueTimer :: uint32
  m_lfgProposalId :: uint32
  m_options :: uint32
  m_isTesting :: bool
  lfg_out :: "lfg_effect list"

definition LFGMgr :: "uint32 \<Rightarrow> lfg_mgr" where
  "LFGMgr options = \<lparr>QueuesStore = [], PlayersStore = (\<lambda>_. LfgPlayerData), GroupsStore = (\<lambda>_. LfgGroupData), RoleChecksStore = [],
     ProposalsStore = [], BootsStore = [], LfgDungeonStore = [], CachedDungeonMapStore = (\<lambda>_. []), RewardMapStore = [],
     m_QueueTimer = 0, m_lfgProposalId = 1, m_options = options, m_isTesting = False, lfg_out = []\<rparr>"

definition isOptionEnabled :: "uint32 \<Rightarrow> lfg_mgr \<Rightarrow> bool" where
  "isOptionEnabled options m \<longleftrightarrow> m_options m AND options \<noteq> 0"

definition SetOptions :: "uint32 \<Rightarrow> lfg_mgr \<Rightarrow> lfg_mgr" where "SetOptions options m = m\<lparr>m_options := options\<rparr>"

definition ToggleTesting :: "lfg_mgr \<Rightarrow> lfg_mgr" where "ToggleTesting m = m\<lparr>m_isTesting := \<not> m_isTesting m\<rparr>"

definition Clean :: "lfg_mgr \<Rightarrow> lfg_mgr" where "Clean m = m\<lparr>QueuesStore := []\<rparr>"

end
