(* ===== verification/Party.thy ===== *)
theory Party
  imports Registry Object_Guid
begin

text \<open>
  Parties and raids, \<^verbatim>\<open>src/src/server/game/Groups/Group.{h,cpp}\<close>: members with their subgroups and flags, the
  counters of the subgroups, the leader, target icons, ready checks and the round-robin looter. The state is the
  group object; \<^verbatim>\<open>m_memberMgr\<close>, the references of the online members to it, is the list \<^verbatim>\<open>gr_links\<close>. Who is
  online, names, skills and distances belong to the environment; packets, statements to the database and calls of
  the script hooks are recorded in their order. Instances, difficulties, arena ratings and raid markers are left out.
\<close>

unbundle bit_operations_syntax

section \<open>Data\<close>

definition MAX_RAID_SIZE :: nat where "MAX_RAID_SIZE = 40"
definition MAX_RAID_SUBGROUPS :: nat where "MAX_RAID_SUBGROUPS = MAX_RAID_SIZE div MAX_GROUP_SIZE"
definition TARGET_ICONS_COUNT :: nat where "TARGET_ICONS_COUNT = 8"

definition MEMBER_FLAG_ASSISTANT :: uint8 where "MEMBER_FLAG_ASSISTANT = 1"
definition MEMBER_FLAG_MAINTANK :: uint8 where "MEMBER_FLAG_MAINTANK = 2"
definition MEMBER_FLAG_MAINASSIST :: uint8 where "MEMBER_FLAG_MAINASSIST = 4"

definition GROUP_FLAG_NONE :: uint32 where "GROUP_FLAG_NONE = 0"
definition GROUP_FLAG_FAKE_RAID :: uint32 where "GROUP_FLAG_FAKE_RAID = 1"
definition GROUP_FLAG_RAID :: uint32 where "GROUP_FLAG_RAID = 2"
definition GROUP_FLAG_LFG_RESTRICTED :: uint32 where "GROUP_FLAG_LFG_RESTRICTED = 4"
definition GROUP_FLAG_LFG :: uint32 where "GROUP_FLAG_LFG = 8"
definition GROUP_FLAG_EVERYONE_ASSISTANT :: uint32 where "GROUP_FLAG_EVERYONE_ASSISTANT = 64"
definition GROUP_MASK_BGRAID :: uint32 where "GROUP_MASK_BGRAID = GROUP_FLAG_FAKE_RAID OR GROUP_FLAG_RAID"

datatype RollVote = PASS | NEED | GREED | DISENCHANT | NOT_EMITED_YET | NOT_VALID

datatype LootMethod = FREE_FOR_ALL | MASTER_LOOT | GROUP_LOOT | PERSONAL_LOOT

datatype GroupCategory = GROUP_CATEGORY_HOME | GROUP_CATEGORY_INSTANCE

datatype RemoveMethod = GROUP_REMOVEMETHOD_DEFAULT | GROUP_REMOVEMETHOD_KICK | GROUP_REMOVEMETHOD_LEAVE | GROUP_REMOVEMETHOD_KICK_LFG

record member_slot =
  ms_guid :: ObjectGuid
  ms_name :: string
  ms_class :: uint8
  ms_group :: uint8
  ms_flags :: uint8
  ms_roles :: uint8
  ms_readyChecked :: bool

record loot_item =
  li_itemid :: uint32
  li_blocked :: bool
  li_looted :: bool
  li_underthreshold :: bool
  li_freeforall :: bool
  li_followLootRules :: bool

record loot =
  lo_items :: "loot_item list"
  lo_questItems :: "loot_item list"
  lo_unlootedCount :: uint32

record roll =
  ro_itemid :: uint32
  ro_loot :: ObjectGuid
  ro_playerVote :: "(ObjectGuid \<times> RollVote) list"
  ro_totalPlayersRolling :: uint8
  ro_totalNeed :: uint8
  ro_totalGreed :: uint8
  ro_totalPass :: uint8
  ro_itemSlot :: uint8
  ro_rollVoteMask :: uint8

datatype party_msg =
    PartyUpdate uint32 GroupCategory ObjectGuid "(ObjectGuid \<times> uint8 \<times> uint8 \<times> uint8) list"
  | PartyUpdateDestroyed GroupCategory
  | GroupDestroyed
  | GroupUninvite
  | GroupNewLeader string int
  | RaidTargetUpdateSingle uint8 ObjectGuid ObjectGuid uint8
  | RaidTargetUpdateAll int "(nat \<times> ObjectGuid) list"
  | ReadyCheckStarted ObjectGuid int uint32
  | ReadyCheckResponse ObjectGuid bool
  | ReadyCheckCompleted
  | StartLootRoll ObjectGuid uint8 uint8
  | LootRollBroadcast ObjectGuid int RollVote
  | LootRollWon ObjectGuid uint8 RollVote
  | LootAllPassed ObjectGuid uint8
  | LootRollsComplete ObjectGuid uint8
  | EquipError uint32

datatype party_stmt =
    CHAR_INS_GROUP uint32 uint64 LootMethod uint64 uint8 "uint8 list list" uint8 uint64
  | CHAR_UPD_GROUP_TYPE uint8 uint32
  | CHAR_INS_GROUP_MEMBER uint32 uint64 uint8 uint8 uint8
  | CHAR_DEL_GROUP_MEMBER uint64
  | CHAR_DEL_GROUP_MEMBER_ALL uint32
  | CHAR_DEL_GROUP uint32
  | CHAR_DEL_LFG_DATA uint32
  | CHAR_UPD_GROUP_LEADER uint64 uint32
  | CHAR_UPD_GROUP_MEMBER_SUBGROUP uint8 uint64
  | CHAR_UPD_GROUP_MEMBER_FLAG uint8 uint64

datatype party_effect =
    Send ObjectGuid party_msg
  | Stmt party_stmt
  | OnGroupAddMember ObjectGuid
  | OnGroupRemoveMember ObjectGuid RemoveMethod ObjectGuid
  | OnGroupChangeLeader ObjectGuid ObjectGuid
  | OnGroupDisband
  | OnGroupInviteMember ObjectGuid
  | StoreNewItem ObjectGuid uint32
  | StoreDisenchanted ObjectGuid uint32 bool
  | NotifyItemRemoved ObjectGuid uint8

record party =
  gr_memberSlots :: "member_slot list"
  gr_links :: "ObjectGuid list"
  gr_invitees :: "ObjectGuid list"
  gr_leaderGuid :: ObjectGuid
  gr_leaderName :: string
  gr_groupFlags :: uint32
  gr_groupCategory :: GroupCategory
  gr_bgGroup :: bool
  gr_bfGroup :: bool
  gr_targetIcons :: "ObjectGuid list"
  gr_lootMethod :: LootMethod
  gr_lootThreshold :: uint8
  gr_looterGuid :: ObjectGuid
  gr_masterLooterGuid :: ObjectGuid
  gr_rolls :: "roll list"
  gr_subGroupsCounts :: "uint8 list option"
  gr_guid :: ObjectGuid
  gr_maxEnchantingLevel :: uint32
  gr_dbStoreId :: uint32
  gr_readyCheckStarted :: bool
  gr_readyCheckTimer :: int
  gr_deleted :: bool
  gr_loots :: "ObjectGuid \<Rightarrow> loot option"
  gr_rand :: nat
  gr_out :: "party_effect list"

record party_env =
  connected_player :: "ObjectGuid \<Rightarrow> bool"
  in_world :: "ObjectGuid \<Rightarrow> bool"
  current_group :: "ObjectGuid \<Rightarrow> bool"
  has_invite :: "ObjectGuid \<Rightarrow> bool"
  has_home_group :: "ObjectGuid \<Rightarrow> bool"
  player_name :: "ObjectGuid \<Rightarrow> string"
  player_class :: "ObjectGuid \<Rightarrow> uint8"
  enchanting :: "ObjectGuid \<Rightarrow> uint32"
  reward_distance :: "ObjectGuid \<Rightarrow> bool"
  pass_on_loot :: "ObjectGuid \<Rightarrow> bool"
  allowed_item :: "uint32 \<Rightarrow> ObjectGuid \<Rightarrow> bool"
  can_need :: "uint32 \<Rightarrow> ObjectGuid \<Rightarrow> bool"
  can_store_new :: "ObjectGuid \<Rightarrow> uint32 \<Rightarrow> bool"
  disenchant_id :: "uint32 \<Rightarrow> ObjectGuid \<Rightarrow> (uint32 \<times> uint32) option"
  item_quality :: "uint32 \<Rightarrow> uint32 option"
  only_greed :: "uint32 \<Rightarrow> bool"
  urand100 :: "nat \<Rightarrow> uint8"
  player_alive :: "ObjectGuid \<Rightarrow> bool"
  player_map :: "ObjectGuid \<Rightarrow> uint32"
  lfg_dungeon_map :: uint32
  new_group_guid :: ObjectGuid
  new_db_store_id :: uint32

definition Group :: party where
  "Group = \<lparr>gr_memberSlots = [], gr_links = [], gr_invitees = [], gr_leaderGuid = GuidEmpty, gr_leaderName = [],
     gr_groupFlags = GROUP_FLAG_NONE, gr_groupCategory = GROUP_CATEGORY_HOME, gr_bgGroup = False, gr_bfGroup = False,
     gr_targetIcons = replicate TARGET_ICONS_COUNT GuidEmpty, gr_lootMethod = FREE_FOR_ALL, gr_lootThreshold = 2,
     gr_looterGuid = GuidEmpty, gr_masterLooterGuid = GuidEmpty, gr_rolls = [], gr_subGroupsCounts = None, gr_guid = GuidEmpty,
     gr_maxEnchantingLevel = 0, gr_dbStoreId = 0, gr_readyCheckStarted = False, gr_readyCheckTimer = 0, gr_deleted = False,
     gr_loots = (\<lambda>_. None), gr_rand = 0, gr_out = []\<rparr>"

definition emit :: "party_effect \<Rightarrow> party \<Rightarrow> party" where
  "emit e g = g\<lparr>gr_out := gr_out g @ [e]\<rparr>"

definition emit_all :: "party_effect list \<Rightarrow> party \<Rightarrow> party" where
  "emit_all es g = g\<lparr>gr_out := gr_out g @ es\<rparr>"

section \<open>Queries\<close>

definition isLFGGroup :: "party \<Rightarrow> bool" where "isLFGGroup g \<longleftrightarrow> gr_groupFlags g AND GROUP_FLAG_LFG \<noteq> 0"
definition isRaidGroup :: "party \<Rightarrow> bool" where "isRaidGroup g \<longleftrightarrow> gr_groupFlags g AND GROUP_FLAG_RAID \<noteq> 0"
definition isBGGroup :: "party \<Rightarrow> bool" where "isBGGroup g \<longleftrightarrow> gr_bgGroup g"
definition isBFGroup :: "party \<Rightarrow> bool" where "isBFGroup g \<longleftrightarrow> gr_bfGroup g"
definition GetMembersCount :: "party \<Rightarrow> nat" where "GetMembersCount g = length (gr_memberSlots g)"
definition IsCreated :: "party \<Rightarrow> bool" where "IsCreated g \<longleftrightarrow> GetMembersCount g > 0"

definition IsFull :: "party \<Rightarrow> bool" where
  "IsFull g \<longleftrightarrow> (if isRaidGroup g then MAX_RAID_SIZE \<le> length (gr_memberSlots g) else MAX_GROUP_SIZE \<le> length (gr_memberSlots g))"

definition getMemberSlot :: "ObjectGuid \<Rightarrow> party \<Rightarrow> member_slot option" where
  "getMemberSlot x g = find (\<lambda>m. ms_guid m = x) (gr_memberSlots g)"

definition IsMember :: "ObjectGuid \<Rightarrow> party \<Rightarrow> bool" where "IsMember x g \<longleftrightarrow> getMemberSlot x g \<noteq> None"
definition IsLeader :: "ObjectGuid \<Rightarrow> party \<Rightarrow> bool" where "IsLeader x g \<longleftrightarrow> gr_leaderGuid g = x"

definition IsAssistant :: "ObjectGuid \<Rightarrow> party \<Rightarrow> bool" where
  "IsAssistant x g = (case getMemberSlot x g of None \<Rightarrow> False | Some m \<Rightarrow> ms_flags m AND MEMBER_FLAG_ASSISTANT \<noteq> 0)"

definition GetMemberGUID :: "string \<Rightarrow> party \<Rightarrow> ObjectGuid" where
  "GetMemberGUID name g = (case find (\<lambda>m. ms_name m = name) (gr_memberSlots g) of None \<Rightarrow> GuidEmpty | Some m \<Rightarrow> ms_guid m)"

definition GetMemberGroup :: "ObjectGuid \<Rightarrow> party \<Rightarrow> uint8" where
  "GetMemberGroup x g = (case getMemberSlot x g of None \<Rightarrow> of_nat (MAX_RAID_SUBGROUPS + 1) | Some m \<Rightarrow> ms_group m)"

definition SameSubGroup :: "ObjectGuid \<Rightarrow> ObjectGuid \<Rightarrow> party \<Rightarrow> bool" where
  "SameSubGroup x y g = (case (getMemberSlot x g, getMemberSlot y g) of (Some m, Some n) \<Rightarrow> ms_group m = ms_group n | _ \<Rightarrow> False)"

definition HasFreeSlotSubGroup :: "uint8 \<Rightarrow> party \<Rightarrow> fault + bool" where
  "HasFreeSlotSubGroup sub g = (case gr_subGroupsCounts g of None \<Rightarrow> Inr False
     | Some c \<Rightarrow> if unat sub < length c then Inr (unat (c ! unat sub) < MAX_GROUP_SIZE) else Inl OutOfBounds)"

definition GetLooterGuid :: "party \<Rightarrow> ObjectGuid" where
  "GetLooterGuid g = (if gr_lootMethod g = FREE_FOR_ALL then GuidEmpty else gr_looterGuid g)"

definition GetLfgRoles :: "ObjectGuid \<Rightarrow> party \<Rightarrow> uint8" where
  "GetLfgRoles x g = (case getMemberSlot x g of None \<Rightarrow> 0 | Some m \<Rightarrow> ms_roles m)"

definition GetInvited :: "ObjectGuid \<Rightarrow> party \<Rightarrow> ObjectGuid option" where
  "GetInvited x g = find (\<lambda>p. p = x) (gr_invitees g)"

section \<open>Packets to the members\<close>

definition BroadcastPacket :: "party_env \<Rightarrow> party_msg \<Rightarrow> bool \<Rightarrow> party \<Rightarrow> party" where
  "BroadcastPacket env msg ignorePlayersInBGRaid g =
     emit_all (map (\<lambda>p. Send p msg) (filter (\<lambda>p. \<not> ignorePlayersInBGRaid \<or> current_group env p) (gr_links g))) g"

definition SendUpdate :: "party_env \<Rightarrow> party \<Rightarrow> party" where
  "SendUpdate env g = emit_all (map (\<lambda>m. Send (ms_guid m) (PartyUpdate (gr_groupFlags g) (gr_groupCategory g) (gr_leaderGuid g)
       (map (\<lambda>m. (ms_guid m, ms_group m, ms_flags m, ms_roles m)) (gr_memberSlots g))))
     (filter (\<lambda>m. connected_player env (ms_guid m) \<and> current_group env (ms_guid m)) (gr_memberSlots g))) g"

definition SendUpdateDestroyGroupToPlayer :: "ObjectGuid \<Rightarrow> party \<Rightarrow> party" where
  "SendUpdateDestroyGroupToPlayer p g = emit (Send p (PartyUpdateDestroyed (gr_groupCategory g))) g"

abbreviation unless_bg :: "party_stmt \<Rightarrow> party \<Rightarrow> party" where
  "unless_bg st g \<equiv> if \<not> isBGGroup g \<and> \<not> isBFGroup g then emit (Stmt st) g else g"

section \<open>Subgroups\<close>

text \<open>The counters exist in raids only; counting outside of the array is undefined.\<close>

definition count_subgroup :: "(uint8 \<Rightarrow> uint8) \<Rightarrow> uint8 \<Rightarrow> party \<Rightarrow> fault + party" where
  "count_subgroup f sub g = (case gr_subGroupsCounts g of None \<Rightarrow> Inr g
     | Some c \<Rightarrow> if unat sub < length c then Inr (g\<lparr>gr_subGroupsCounts := Some (c[unat sub := f (c ! unat sub)])\<rparr>) else Inl OutOfBounds)"

definition SubGroupCounterIncrease :: "uint8 \<Rightarrow> party \<Rightarrow> fault + party" where
  "SubGroupCounterIncrease = count_subgroup (\<lambda>n. n + 1)"

definition SubGroupCounterDecrease :: "uint8 \<Rightarrow> party \<Rightarrow> fault + party" where
  "SubGroupCounterDecrease = count_subgroup (\<lambda>n. n - 1)"

definition initRaidSubGroupsCounter :: "party \<Rightarrow> fault + party" where
  "initRaidSubGroupsCounter g =
     forE (\<lambda>m. SubGroupCounterIncrease (ms_group m)) (gr_memberSlots g) (g\<lparr>gr_subGroupsCounts := Some (replicate MAX_RAID_SUBGROUPS 0)\<rparr>)"

definition set_slot :: "ObjectGuid \<Rightarrow> (member_slot \<Rightarrow> member_slot) \<Rightarrow> party \<Rightarrow> party" where
  "set_slot x f g = g\<lparr>gr_memberSlots := update_first (\<lambda>m. ms_guid m = x) f (gr_memberSlots g)\<rparr>"

definition ChangeMembersGroup :: "party_env \<Rightarrow> ObjectGuid \<Rightarrow> uint8 \<Rightarrow> party \<Rightarrow> fault + party" where
  "ChangeMembersGroup env x sub g =
     (if \<not> isRaidGroup g then Inr g
      else case getMemberSlot x g of None \<Rightarrow> Inr g
      | Some m \<Rightarrow> if ms_group m = sub then Inr g
          else res_bind (SubGroupCounterIncrease sub (set_slot x (\<lambda>m. m\<lparr>ms_group := sub\<rparr>) g)) (\<lambda>g1.
               res_bind (SubGroupCounterDecrease (ms_group m) g1) (\<lambda>g2.
               Inr (SendUpdate env (unless_bg (CHAR_UPD_GROUP_MEMBER_SUBGROUP sub (GetCounter x)) g2)))))"

definition SwapMembersGroups :: "party_env \<Rightarrow> ObjectGuid \<Rightarrow> ObjectGuid \<Rightarrow> party \<Rightarrow> party" where
  "SwapMembersGroups env x y g =
     (if \<not> isRaidGroup g then g
      else case (getMemberSlot x g, getMemberSlot y g) of
        (Some m, Some n) \<Rightarrow>
          if ms_group m = ms_group n then g
          else let g1 = set_slot y (\<lambda>s. s\<lparr>ms_group := ms_group m\<rparr>) (set_slot x (\<lambda>s. s\<lparr>ms_group := ms_group n\<rparr>) g);
                   g2 = unless_bg (CHAR_UPD_GROUP_MEMBER_SUBGROUP (ms_group n) (GetCounter x)) g1;
                   g3 = unless_bg (CHAR_UPD_GROUP_MEMBER_SUBGROUP (ms_group m) (GetCounter y)) g2
               in SendUpdate env g3
      | _ \<Rightarrow> g)"

definition HandleChangeSubGroupOpcode :: "party_env \<Rightarrow> ObjectGuid \<Rightarrow> ObjectGuid \<Rightarrow> uint8 \<Rightarrow> party \<Rightarrow> fault + party" where
  "HandleChangeSubGroupOpcode env sender target newSubGroup g =
     (if MAX_RAID_SUBGROUPS \<le> unat newSubGroup then Inr g
      else if \<not> IsLeader sender g \<and> \<not> IsAssistant sender g then Inr g
      else res_bind (HasFreeSlotSubGroup newSubGroup g) (\<lambda>free.
           if \<not> free then Inr g else ChangeMembersGroup env target newSubGroup g))"

definition HandleSwapSubGroupsOpcode :: "party_env \<Rightarrow> ObjectGuid \<Rightarrow> ObjectGuid \<Rightarrow> ObjectGuid \<Rightarrow> party \<Rightarrow> party" where
  "HandleSwapSubGroupsOpcode env sender x y g =
     (if \<not> IsLeader sender g \<and> \<not> IsAssistant sender g then g else SwapMembersGroups env x y g)"

section \<open>Flags of members\<close>

definition ToggleGroupMemberFlag :: "uint8 \<Rightarrow> bool \<Rightarrow> member_slot \<Rightarrow> member_slot" where
  "ToggleGroupMemberFlag flag app m = m\<lparr>ms_flags := if app then ms_flags m OR flag else ms_flags m AND NOT flag\<rparr>"

definition RemoveUniqueGroupMemberFlag :: "uint8 \<Rightarrow> party \<Rightarrow> party" where
  "RemoveUniqueGroupMemberFlag flag g =
     g\<lparr>gr_memberSlots := map (\<lambda>m. if ms_flags m AND flag \<noteq> 0 then m\<lparr>ms_flags := ms_flags m AND NOT flag\<rparr> else m) (gr_memberSlots g)\<rparr>"

definition SetGroupMemberFlag :: "party_env \<Rightarrow> ObjectGuid \<Rightarrow> bool \<Rightarrow> uint8 \<Rightarrow> party \<Rightarrow> party" where
  "SetGroupMemberFlag env x app flag g =
     (if \<not> isRaidGroup g then g
      else if getMemberSlot x g = None then g
      else if flag \<noteq> MEMBER_FLAG_MAINASSIST \<and> flag \<noteq> MEMBER_FLAG_MAINTANK \<and> flag \<noteq> MEMBER_FLAG_ASSISTANT then g
      else let g1 = (if flag = MEMBER_FLAG_ASSISTANT then g else RemoveUniqueGroupMemberFlag flag g);
               g2 = set_slot x (ToggleGroupMemberFlag flag app) g1;
               newFlags = (case getMemberSlot x g2 of None \<Rightarrow> 0 | Some m \<Rightarrow> ms_flags m)
           in SendUpdate env (emit (Stmt (CHAR_UPD_GROUP_MEMBER_FLAG newFlags (GetCounter x))) g2))"

definition SetEveryoneIsAssistant :: "party_env \<Rightarrow> bool \<Rightarrow> party \<Rightarrow> party" where
  "SetEveryoneIsAssistant env app g =
     (let g1 = g\<lparr>gr_groupFlags := if app then gr_groupFlags g OR GROUP_FLAG_EVERYONE_ASSISTANT
                   else gr_groupFlags g AND NOT GROUP_FLAG_EVERYONE_ASSISTANT\<rparr>
      in SendUpdate env (g1\<lparr>gr_memberSlots := map (ToggleGroupMemberFlag MEMBER_FLAG_ASSISTANT app) (gr_memberSlots g1)\<rparr>))"

definition HandleSetAssistantLeaderOpcode :: "party_env \<Rightarrow> ObjectGuid \<Rightarrow> ObjectGuid \<Rightarrow> bool \<Rightarrow> party \<Rightarrow> party" where
  "HandleSetAssistantLeaderOpcode env sender target app g =
     (if IsLeader sender g then SetGroupMemberFlag env target app MEMBER_FLAG_ASSISTANT g else g)"

datatype GroupMemberAssignment = GROUP_ASSIGN_MAINTANK | GROUP_ASSIGN_MAINASSIST | GROUP_ASSIGN_OTHER nat

definition HandleSetPartyAssignment :: "party_env \<Rightarrow> ObjectGuid \<Rightarrow> ObjectGuid \<Rightarrow> GroupMemberAssignment \<Rightarrow> bool \<Rightarrow> party \<Rightarrow> party" where
  "HandleSetPartyAssignment env sender target assignment app g =
     (if \<not> IsLeader sender g \<and> \<not> IsAssistant sender g then g
      else SendUpdate env (case assignment of
          GROUP_ASSIGN_MAINASSIST \<Rightarrow> SetGroupMemberFlag env target app MEMBER_FLAG_MAINASSIST (RemoveUniqueGroupMemberFlag MEMBER_FLAG_MAINASSIST g)
        | GROUP_ASSIGN_MAINTANK \<Rightarrow> SetGroupMemberFlag env target app MEMBER_FLAG_MAINTANK (RemoveUniqueGroupMemberFlag MEMBER_FLAG_MAINTANK g)
        | GROUP_ASSIGN_OTHER n \<Rightarrow> g))"

definition SetLfgRoles :: "party_env \<Rightarrow> ObjectGuid \<Rightarrow> uint8 \<Rightarrow> party \<Rightarrow> party" where
  "SetLfgRoles env x roles g =
     (if getMemberSlot x g = None then g else SendUpdate env (set_slot x (\<lambda>m. m\<lparr>ms_roles := roles\<rparr>) g))"

section \<open>Target icons\<close>

definition put_icon :: "party_env \<Rightarrow> ObjectGuid \<Rightarrow> uint8 \<Rightarrow> nat \<Rightarrow> ObjectGuid \<Rightarrow> party \<Rightarrow> party" where
  "put_icon env changedBy partyIndex symbol target g =
     BroadcastPacket env (RaidTargetUpdateSingle partyIndex target changedBy (of_nat symbol)) True
       (g\<lparr>gr_targetIcons := (gr_targetIcons g)[symbol := target]\<rparr>)"

text \<open>The recursive call with the empty target clears one icon; it never recurses further.\<close>

definition SetTargetIcon :: "party_env \<Rightarrow> uint8 \<Rightarrow> ObjectGuid \<Rightarrow> ObjectGuid \<Rightarrow> uint8 \<Rightarrow> party \<Rightarrow> party" where
  "SetTargetIcon env symbol target changedBy partyIndex g =
     (if TARGET_ICONS_COUNT \<le> unat symbol then g
      else let g1 = (if IsEmpty target then g
                     else fold (\<lambda>i g. if gr_targetIcons g ! i = target then put_icon env changedBy partyIndex i GuidEmpty g else g)
                            [0..<TARGET_ICONS_COUNT] g)
           in put_icon env changedBy partyIndex (unat symbol) target g1)"

definition SendTargetIconList :: "ObjectGuid \<Rightarrow> int \<Rightarrow> party \<Rightarrow> party" where
  "SendTargetIconList p partyIndex g = emit (Send p (RaidTargetUpdateAll partyIndex (map (\<lambda>i. (i, gr_targetIcons g ! i)) [0..<TARGET_ICONS_COUNT]))) g"

section \<open>Ready checks\<close>

definition IsReadyCheckCompleted :: "party \<Rightarrow> bool" where
  "IsReadyCheckCompleted g \<longleftrightarrow> (\<forall>m \<in> set (gr_memberSlots g). ms_readyChecked m)"

definition ResetMemberReadyChecked :: "party \<Rightarrow> party" where
  "ResetMemberReadyChecked g = g\<lparr>gr_memberSlots := map (\<lambda>m. m\<lparr>ms_readyChecked := False\<rparr>) (gr_memberSlots g)\<rparr>"

definition EndReadyCheck :: "party_env \<Rightarrow> party \<Rightarrow> party" where
  "EndReadyCheck env g = (if \<not> gr_readyCheckStarted g then g
     else BroadcastPacket env ReadyCheckCompleted False
            (ResetMemberReadyChecked (g\<lparr>gr_readyCheckStarted := False, gr_readyCheckTimer := 0\<rparr>)))"

definition SetMemberReadyChecked :: "party_env \<Rightarrow> ObjectGuid \<Rightarrow> party \<Rightarrow> party" where
  "SetMemberReadyChecked env x g =
     (let g1 = set_slot x (\<lambda>m. m\<lparr>ms_readyChecked := True\<rparr>) g in if IsReadyCheckCompleted g1 then EndReadyCheck env g1 else g1)"

text \<open>The overload on slots: the answer is told to everybody first.\<close>

definition answer_ready_check :: "party_env \<Rightarrow> ObjectGuid \<Rightarrow> bool \<Rightarrow> party \<Rightarrow> party" where
  "answer_ready_check env x ready g = SetMemberReadyChecked env x (BroadcastPacket env (ReadyCheckResponse x ready) False g)"

definition SetMemberReadyCheck :: "party_env \<Rightarrow> ObjectGuid \<Rightarrow> bool \<Rightarrow> party \<Rightarrow> party" where
  "SetMemberReadyCheck env x ready g =
     (if \<not> gr_readyCheckStarted g then g else if getMemberSlot x g = None then g else answer_ready_check env x ready g)"

definition SetOfflineMembersReadyChecked :: "party_env \<Rightarrow> party \<Rightarrow> party" where
  "SetOfflineMembersReadyChecked env g =
     fold (\<lambda>x g. if connected_player env x then g else answer_ready_check env x False g) (map ms_guid (gr_memberSlots g)) g"

definition StartReadyCheck :: "party_env \<Rightarrow> ObjectGuid \<Rightarrow> int \<Rightarrow> uint32 \<Rightarrow> party \<Rightarrow> party" where
  "StartReadyCheck env starter partyIndex duration g =
     (if gr_readyCheckStarted g then g
      else if getMemberSlot starter g = None then g
      else let g1 = g\<lparr>gr_readyCheckStarted := True, gr_readyCheckTimer := sint duration\<rparr>;
               g2 = SetMemberReadyChecked env starter (SetOfflineMembersReadyChecked env g1)
           in BroadcastPacket env (ReadyCheckStarted starter partyIndex duration) False g2)"

definition UpdateReadyCheck :: "party_env \<Rightarrow> uint32 \<Rightarrow> party \<Rightarrow> party" where
  "UpdateReadyCheck env diff g =
     (if \<not> gr_readyCheckStarted g then g
      else let g1 = g\<lparr>gr_readyCheckTimer := sint (word_of_int (gr_readyCheckTimer g) - diff)\<rparr>
           in if gr_readyCheckTimer g1 \<le> 0 then EndReadyCheck env g1 else g1)"

definition HandleDoReadyCheckOpcode :: "party_env \<Rightarrow> ObjectGuid \<Rightarrow> int \<Rightarrow> party \<Rightarrow> party" where
  "HandleDoReadyCheckOpcode env sender partyIndex g =
     (if \<not> IsLeader sender g \<and> \<not> IsAssistant sender g then g else StartReadyCheck env sender partyIndex 35000 g)"

section \<open>Invitations\<close>

definition RemoveInvite :: "ObjectGuid \<Rightarrow> party \<Rightarrow> party" where
  "RemoveInvite p g = g\<lparr>gr_invitees := set_erase p (gr_invitees g)\<rparr>"

definition RemoveAllInvites :: "party \<Rightarrow> party" where
  "RemoveAllInvites g = g\<lparr>gr_invitees := []\<rparr>"

definition AddInvite :: "party_env \<Rightarrow> ObjectGuid \<Rightarrow> party \<Rightarrow> bool \<times> party" where
  "AddInvite env p g =
     (if has_invite env p \<or> has_home_group env p then (False, g)
      else let g1 = RemoveInvite p g
           in (True, emit (OnGroupInviteMember p) (g1\<lparr>gr_invitees := set_insert p (gr_invitees g1)\<rparr>)))"

definition AddLeaderInvite :: "party_env \<Rightarrow> ObjectGuid \<Rightarrow> party \<Rightarrow> bool \<times> party" where
  "AddLeaderInvite env p g = (case AddInvite env p g of (ok, g1) \<Rightarrow>
     if ok then (True, g1\<lparr>gr_leaderGuid := p, gr_leaderName := player_name env p\<rparr>) else (False, g1))"

section \<open>The looter\<close>

definition near_looter :: "party_env \<Rightarrow> member_slot \<Rightarrow> bool" where
  "near_looter env m \<longleftrightarrow> in_world env (ms_guid m) \<and> reward_distance env (ms_guid m)"

text \<open>The member behind the present looter that is near enough, else the first one up to him.\<close>

definition next_looter :: "party_env \<Rightarrow> party \<Rightarrow> member_slot option" where
  "next_looter env g =
     (let old = GetLooterGuid g;
          before = takeWhile (\<lambda>m. ms_guid m \<noteq> old) (gr_memberSlots g);
          rest = dropWhile (\<lambda>m. ms_guid m \<noteq> old) (gr_memberSlots g)
      in case find (near_looter env) (tl rest) of
           Some m \<Rightarrow> Some m
         | None \<Rightarrow> find (near_looter env) (before @ take 1 rest))"

definition UpdateLooterGuid :: "party_env \<Rightarrow> bool \<Rightarrow> party \<Rightarrow> party" where
  "UpdateLooterGuid env ifneed g =
     (if gr_lootMethod g = FREE_FOR_ALL then g
      else if ifneed \<and> (case getMemberSlot (GetLooterGuid g) g of None \<Rightarrow> False | Some m \<Rightarrow> near_looter env m) then g
      else case next_looter env g of
        Some m \<Rightarrow> if GetLooterGuid g \<noteq> ms_guid m then SendUpdate env (g\<lparr>gr_looterGuid := ms_guid m\<rparr>) else g
      | None \<Rightarrow> SendUpdate env (g\<lparr>gr_looterGuid := GuidEmpty\<rparr>))"

definition HandleSetLootMethodOpcode :: "party_env \<Rightarrow> ObjectGuid \<Rightarrow> LootMethod \<Rightarrow> ObjectGuid \<Rightarrow> uint8 \<Rightarrow> party \<Rightarrow> party" where
  "HandleSetLootMethodOpcode env sender lootMethod master threshold g =
     (if \<not> IsLeader sender g then g
      else if threshold < 2 \<or> 6 < threshold then g
      else if lootMethod = MASTER_LOOT \<and> \<not> IsMember master g then g
      else SendUpdate env (g\<lparr>gr_lootMethod := lootMethod, gr_masterLooterGuid := master, gr_lootThreshold := threshold\<rparr>))"

definition ResetMaxEnchantingLevel :: "party_env \<Rightarrow> party \<Rightarrow> party" where
  "ResetMaxEnchantingLevel env g = g\<lparr>gr_maxEnchantingLevel :=
     fold (\<lambda>m lvl. if in_world env (ms_guid m) \<and> lvl < enchanting env (ms_guid m) then enchanting env (ms_guid m) else lvl) (gr_memberSlots g) 0\<rparr>"

end
