(* ===== verification/Lfg_Manager.thy ===== *)
theory Lfg_Manager
  imports Lfg_Data Party
begin

text \<open>
  The operations of the dungeon finder's manager on its own stores,
  \<^verbatim>\<open>src/src/server/game/DungeonFinding/LFGMgr.cpp\<close>: states, dungeons and their restrictions, joining, role checks,
  leaving, the removal of proposals and the start of votes. Operations that change parties are in the next theory.
  What the manager reads of players, of the world and of the database is an environment; a failed assertion and
  undefined behaviour are faults.
\<close>

unbundle bit_operations_syntax

record access_requirement =
  ar_item :: uint32
  ar_item2 :: uint32
  ar_quest_A :: uint32
  ar_quest_H :: uint32
  ar_achievement :: uint32

record mgr_env =
  mg_time :: int
  mg_connected :: "ObjectGuid \<Rightarrow> bool"
  mg_inWorld :: "ObjectGuid \<Rightarrow> bool"
  mg_ignores :: "ObjectGuid \<Rightarrow> ObjectGuid \<Rightarrow> bool"
  mg_permission :: "ObjectGuid \<Rightarrow> bool"
  mg_battleground :: "ObjectGuid \<Rightarrow> bool"
  mg_aura :: "ObjectGuid \<Rightarrow> uint32 \<Rightarrow> bool"
  mg_random_dungeon :: "uint32 list \<Rightarrow> uint32"
  mg_random_bit :: "ObjectGuid \<Rightarrow> bool"
  mg_level :: "ObjectGuid \<Rightarrow> uint8"
  mg_expansion :: "ObjectGuid \<Rightarrow> uint8"
  mg_alliance :: "ObjectGuid \<Rightarrow> bool"
  mg_horde :: "ObjectGuid \<Rightarrow> bool"
  mg_disabled_map :: "ObjectGuid \<Rightarrow> uint32 \<Rightarrow> bool"
  mg_disabled_lfg_map :: "ObjectGuid \<Rightarrow> uint32 \<Rightarrow> bool"
  mg_bound :: "ObjectGuid \<Rightarrow> uint32 \<Rightarrow> uint8 \<Rightarrow> uint32 option option"
  mg_holiday :: "nat \<Rightarrow> bool"
  mg_item_level_below :: "ObjectGuid \<Rightarrow> uint16 \<Rightarrow> bool"
  mg_access :: "uint32 \<Rightarrow> uint8 \<Rightarrow> access_requirement option"
  mg_achieved :: "ObjectGuid \<Rightarrow> uint32 \<Rightarrow> bool"
  mg_quest_rewarded :: "ObjectGuid \<Rightarrow> uint32 \<Rightarrow> bool"
  mg_has_item :: "ObjectGuid \<Rightarrow> uint32 \<Rightarrow> bool"
  mg_two_side_groups :: bool
  mg_alive :: "ObjectGuid \<Rightarrow> bool"
  mg_falling :: "ObjectGuid \<Rightarrow> bool"
  mg_fatigued :: "ObjectGuid \<Rightarrow> bool"
  mg_vehicle :: "ObjectGuid \<Rightarrow> bool"
  mg_charming :: "ObjectGuid \<Rightarrow> bool"
  mg_map :: "ObjectGuid \<Rightarrow> uint32"
  mg_map_is_dungeon :: "ObjectGuid \<Rightarrow> bool"
  mg_position :: "ObjectGuid \<Rightarrow> position"
  mg_in_flight :: "ObjectGuid \<Rightarrow> bool"
  mg_in_combat :: "ObjectGuid \<Rightarrow> bool"
  mg_can_teleport :: "ObjectGuid \<Rightarrow> bool"
  mg_quest_exists :: "uint32 \<Rightarrow> bool"
  mg_can_reward :: "ObjectGuid \<Rightarrow> uint32 \<Rightarrow> bool"
  mg_max_level :: uint32

definition note_effect :: "lfg_effect \<Rightarrow> lfg_mgr \<Rightarrow> lfg_mgr" where
  "note_effect e m = m\<lparr>lfg_out := lfg_out m @ [e]\<rparr>"

text \<open>The manager's own \<^verbatim>\<open>SendLfg...\<close> functions reach connected players only.\<close>

definition tell :: "mgr_env \<Rightarrow> ObjectGuid \<Rightarrow> lfg_effect \<Rightarrow> lfg_mgr \<Rightarrow> lfg_mgr" where
  "tell env g e m = (if mg_connected env g then note_effect e m else m)"

section \<open>States\<close>

definition on_player :: "ObjectGuid \<Rightarrow> (player_data \<Rightarrow> player_data) \<Rightarrow> lfg_mgr \<Rightarrow> lfg_mgr" where
  "on_player g f m = m\<lparr>PlayersStore := (PlayersStore m)(g := f (PlayersStore m g))\<rparr>"

definition on_group :: "ObjectGuid \<Rightarrow> (group_data \<Rightarrow> group_data) \<Rightarrow> lfg_mgr \<Rightarrow> lfg_mgr" where
  "on_group g f m = m\<lparr>GroupsStore := (GroupsStore m)(g := f (GroupsStore m g))\<rparr>"

abbreviation IsParty :: "ObjectGuid \<Rightarrow> bool" where "IsParty g \<equiv> HasKind HG_Party g"

definition GetLfgState :: "ObjectGuid \<Rightarrow> lfg_mgr \<Rightarrow> LfgState" where
  "GetLfgState g m = (if IsParty g then gd_state (GroupsStore m g) else pd_state (PlayersStore m g))"

definition GetOldState :: "ObjectGuid \<Rightarrow> lfg_mgr \<Rightarrow> LfgState" where
  "GetOldState g m = (if IsParty g then gd_oldState (GroupsStore m g) else pd_oldState (PlayersStore m g))"

definition SetState :: "ObjectGuid \<Rightarrow> LfgState \<Rightarrow> lfg_mgr \<Rightarrow> lfg_mgr" where
  "SetState g s m = (if IsParty g then on_group g (set_group_state s) m else on_player g (set_player_state s) m)"

definition RestoreState :: "ObjectGuid \<Rightarrow> lfg_mgr \<Rightarrow> lfg_mgr" where
  "RestoreState g m = (if IsParty g then on_group g restore_group_state m else on_player g restore_player_state m)"

definition IsVoteKickActive :: "ObjectGuid \<Rightarrow> lfg_mgr \<Rightarrow> fault + bool" where
  "IsVoteKickActive g m = (if IsParty g then Inr (gd_voteKick (GroupsStore m g)) else Inl AssertionFailed)"

definition SetVoteKick :: "ObjectGuid \<Rightarrow> bool \<Rightarrow> lfg_mgr \<Rightarrow> fault + lfg_mgr" where
  "SetVoteKick g b m = (if IsParty g then Inr (on_group g (\<lambda>d. d\<lparr>gd_voteKick := b\<rparr>) m) else Inl AssertionFailed)"

definition GetDungeonEntry :: "ObjectGuid \<Rightarrow> lfg_mgr \<Rightarrow> uint32" where
  "GetDungeonEntry g m = gd_dungeon (GroupsStore m g)"

definition GetDungeon :: "ObjectGuid \<Rightarrow> lfg_mgr \<Rightarrow> uint32" where
  "GetDungeon g m = gd_dungeon (GroupsStore m g) AND 0x00FFFFFF"

definition SetDungeon :: "ObjectGuid \<Rightarrow> uint32 \<Rightarrow> lfg_mgr \<Rightarrow> lfg_mgr" where
  "SetDungeon g d = on_group g (\<lambda>x. x\<lparr>gd_dungeon := d\<rparr>)"

definition GetRoles :: "ObjectGuid \<Rightarrow> lfg_mgr \<Rightarrow> uint8" where "GetRoles g m = pd_roles (PlayersStore m g)"
definition SetRoles :: "ObjectGuid \<Rightarrow> uint8 \<Rightarrow> lfg_mgr \<Rightarrow> lfg_mgr" where "SetRoles g r = on_player g (\<lambda>d. d\<lparr>pd_roles := r\<rparr>)"

definition GetSelectedDungeons :: "ObjectGuid \<Rightarrow> lfg_mgr \<Rightarrow> uint32 list" where
  "GetSelectedDungeons g m = pd_selected (PlayersStore m g)"
definition SetSelectedDungeons :: "ObjectGuid \<Rightarrow> uint32 list \<Rightarrow> lfg_mgr \<Rightarrow> lfg_mgr" where
  "SetSelectedDungeons g ds = on_player g (\<lambda>d. d\<lparr>pd_selected := ds\<rparr>)"

definition GetKicksLeft :: "ObjectGuid \<Rightarrow> lfg_mgr \<Rightarrow> uint8" where "GetKicksLeft g m = gd_kicksLeft (GroupsStore m g)"
definition DecreaseKicksLeft :: "ObjectGuid \<Rightarrow> lfg_mgr \<Rightarrow> lfg_mgr" where
  "DecreaseKicksLeft g = on_group g (\<lambda>d. if gd_kicksLeft d \<noteq> 0 then d\<lparr>gd_kicksLeft := gd_kicksLeft d - 1\<rparr> else d)"

definition SetTicket :: "ObjectGuid \<Rightarrow> ride_ticket \<Rightarrow> lfg_mgr \<Rightarrow> lfg_mgr" where
  "SetTicket g t = on_player g (\<lambda>d. d\<lparr>pd_ticket := t\<rparr>)"

definition GetTeam :: "ObjectGuid \<Rightarrow> lfg_mgr \<Rightarrow> uint8" where "GetTeam g m = pd_team (PlayersStore m g)"
definition SetTeam :: "mgr_env \<Rightarrow> ObjectGuid \<Rightarrow> uint8 \<Rightarrow> lfg_mgr \<Rightarrow> lfg_mgr" where
  "SetTeam env g team = on_player g (\<lambda>d. d\<lparr>pd_team := (if mg_two_side_groups env then 0 else team)\<rparr>)"

definition GetGroup :: "ObjectGuid \<Rightarrow> lfg_mgr \<Rightarrow> ObjectGuid" where "GetGroup g m = pd_group (PlayersStore m g)"
definition SetGroup :: "ObjectGuid \<Rightarrow> ObjectGuid \<Rightarrow> lfg_mgr \<Rightarrow> lfg_mgr" where
  "SetGroup g gg = on_player g (\<lambda>d. d\<lparr>pd_group := gg\<rparr>)"

definition GetPlayers :: "ObjectGuid \<Rightarrow> lfg_mgr \<Rightarrow> ObjectGuid list" where "GetPlayers g m = gd_players (GroupsStore m g)"
definition GetPlayerCount :: "ObjectGuid \<Rightarrow> lfg_mgr \<Rightarrow> uint8" where "GetPlayerCount g m = of_nat (length (GetPlayers g m))"
definition GetLeader :: "ObjectGuid \<Rightarrow> lfg_mgr \<Rightarrow> ObjectGuid" where "GetLeader g m = gd_leader (GroupsStore m g)"
definition SetLeader :: "ObjectGuid \<Rightarrow> ObjectGuid \<Rightarrow> lfg_mgr \<Rightarrow> lfg_mgr" where
  "SetLeader g l = on_group g (\<lambda>d. d\<lparr>gd_leader := l\<rparr>)"
definition AddPlayerToGroup :: "ObjectGuid \<Rightarrow> ObjectGuid \<Rightarrow> lfg_mgr \<Rightarrow> lfg_mgr" where
  "AddPlayerToGroup gg g = on_group gg (\<lambda>d. d\<lparr>gd_players := set_insert g (gd_players d)\<rparr>)"
definition RemovePlayerFromGroup :: "ObjectGuid \<Rightarrow> ObjectGuid \<Rightarrow> lfg_mgr \<Rightarrow> uint8 \<times> lfg_mgr" where
  "RemovePlayerFromGroup gg g m =
     (let m1 = on_group gg (\<lambda>d. d\<lparr>gd_players := set_erase g (gd_players d)\<rparr>) m in (GetPlayerCount gg m1, m1))"

definition RemovePlayerData :: "ObjectGuid \<Rightarrow> lfg_mgr \<Rightarrow> lfg_mgr" where
  "RemovePlayerData g = on_player g (\<lambda>_. LfgPlayerData)"

definition RemoveGroupData :: "mgr_env \<Rightarrow> ObjectGuid \<Rightarrow> lfg_mgr \<Rightarrow> lfg_mgr" where
  "RemoveGroupData env gg m =
     (let state = GetLfgState gg m;
          m1 = fold (\<lambda>p m'. let m1 = SetGroup p GuidEmpty m' in
                 if state \<noteq> LFG_STATE_PROPOSAL
                 then tell env p (SendUpdateStatus p LFG_UPDATETYPE_REMOVED_FROM_QUEUE LFG_STATE_NONE [] True) (SetState p LFG_STATE_NONE m1)
                 else m1) (GetPlayers gg m) m
      in on_group gg (\<lambda>_. LfgGroupData) m1)"

definition SetupGroupMember :: "ObjectGuid \<Rightarrow> ObjectGuid \<Rightarrow> lfg_mgr \<Rightarrow> lfg_mgr" where
  "SetupGroupMember g gg m =
     (let m1 = SetSelectedDungeons g [GetDungeon gg m] m;
          m2 = SetState g (GetLfgState gg m1) m1
      in AddPlayerToGroup gg g (SetGroup g gg m2))"

definition IsLfgGroupOf :: "ObjectGuid \<Rightarrow> lfg_mgr \<Rightarrow> bool" where
  "IsLfgGroupOf g m \<longleftrightarrow> \<not> IsEmpty g \<and> IsParty g \<and> gd_oldState (GroupsStore m g) \<noteq> LFG_STATE_NONE"

section \<open>Queues\<close>

definition empty_queue :: lfg_queue where
  "empty_queue = \<lparr>QueueDataStore = [], CompatibleMapStore = [], waitTimesAvgStore = [], waitTimesTankStore = [],
     waitTimesHealerStore = [], waitTimesDpsStore = [], currentQueueStore = [], newToQueueStore = [], proposalsMade = []\<rparr>"

definition GetQueueId :: "ObjectGuid \<Rightarrow> lfg_mgr \<Rightarrow> uint8" where
  "GetQueueId g m =
     (if IsParty g
      then let p = (case GetPlayers g m of [] \<Rightarrow> GuidEmpty | p # _ \<Rightarrow> p) in if \<not> IsEmpty p then GetTeam p m else GetTeam g m
      else GetTeam g m)"

definition queue_at :: "uint8 \<Rightarrow> lfg_mgr \<Rightarrow> lfg_queue" where
  "queue_at i m = (case map_of (QueuesStore m) i of Some q \<Rightarrow> q | None \<Rightarrow> empty_queue)"

definition on_queue :: "uint8 \<Rightarrow> (lfg_queue \<Rightarrow> lfg_queue) \<Rightarrow> lfg_mgr \<Rightarrow> lfg_mgr" where
  "on_queue i f m = m\<lparr>QueuesStore := om_set i (f (queue_at i m)) (QueuesStore m)\<rparr>"

definition GetQueueJoinTime :: "ObjectGuid \<Rightarrow> lfg_mgr \<Rightarrow> int" where
  "GetQueueJoinTime g m = (case map_of (QueuesStore m) (GetQueueId g m) of Some q \<Rightarrow> GetJoinTime g q | None \<Rightarrow> 0)"

text \<open>The manager as its queues see it.\<close>

definition HasIgnores :: "mgr_env \<Rightarrow> ObjectGuid \<Rightarrow> ObjectGuid \<Rightarrow> bool" where
  "HasIgnores env g1 g2 \<longleftrightarrow> mg_connected env g1 \<and> mg_connected env g2 \<and> (mg_ignores env g1 g2 \<or> mg_ignores env g2 g1)"

definition queue_env :: "mgr_env \<Rightarrow> lfg_mgr \<Rightarrow> lfg_env" where
  "queue_env env m = \<lparr>IsLfgGroup = (\<lambda>g. IsLfgGroupOf g m), HasIgnore = HasIgnores env,
     IsQueued = (\<lambda>g. GetLfgState g m = LFG_STATE_QUEUED), OldStateIsDungeon = (\<lambda>g. GetOldState g m = LFG_STATE_DUNGEON),
     IsTesting = m_isTesting m, env_time = mg_time env, random_dungeon = mg_random_dungeon env, random_bit = mg_random_bit env\<rparr>"

end
