(* ===== verification/Lfg_Dungeons.thy ===== *)
theory Lfg_Dungeons
  imports Lfg_Manager
begin

text \<open>
  Dungeons and rewards of the dungeon finder, \<^verbatim>\<open>src/src/server/game/DungeonFinding/LFGMgr.cpp\<close>: loading them from the
  client's files and the database, the restrictions that lock a dungeon for a player, the dungeons a set of players
  can enter together, and what is stored of a group. Rows of the database and entries of the client's files are
  arguments.
\<close>

unbundle bit_operations_syntax

section \<open>Look-up\<close>

definition GetLFGDungeon :: "uint32 \<Rightarrow> lfg_mgr \<Rightarrow> dungeon_data option" where
  "GetLFGDungeon i m = map_of (LfgDungeonStore m) i"

definition GetDungeonType :: "uint32 \<Rightarrow> lfg_mgr \<Rightarrow> uint8" where
  "GetDungeonType i m = (case GetLFGDungeon i m of None \<Rightarrow> LFG_TYPE_NONE | Some d \<Rightarrow> dg_type d)"

definition GetDungeonsByRandom :: "uint32 \<Rightarrow> lfg_mgr \<Rightarrow> uint32 list" where
  "GetDungeonsByRandom i m = CachedDungeonMapStore m (case GetLFGDungeon i m of None \<Rightarrow> 0 | Some d \<Rightarrow> dg_group d)"

definition GetLFGDungeonEntry :: "uint32 \<Rightarrow> lfg_mgr \<Rightarrow> uint32" where
  "GetLFGDungeonEntry i m = (if i \<noteq> 0 then (case GetLFGDungeon i m of None \<Rightarrow> 0 | Some d \<Rightarrow> Entry d) else 0)"

definition GetDungeonMapId :: "ObjectGuid \<Rightarrow> lfg_mgr \<Rightarrow> uint32" where
  "GetDungeonMapId g m = (if GetDungeon g m = 0 then 0 else case GetLFGDungeon (GetDungeon g m) m of None \<Rightarrow> 0 | Some d \<Rightarrow> dg_map d)"

definition inLfgDungeonMap :: "ObjectGuid \<Rightarrow> uint32 \<Rightarrow> uint8 \<Rightarrow> lfg_mgr \<Rightarrow> bool" where
  "inLfgDungeonMap g map_id difficulty m =
     (let gg = (if IsParty g then g else GetGroup g m); d = GetDungeon gg m
      in d \<noteq> 0 \<and> (case GetLFGDungeon d m of None \<Rightarrow> False | Some x \<Rightarrow> dg_map x = map_id \<and> dg_difficulty x = difficulty))"

definition selectedRandomLfgDungeon :: "ObjectGuid \<Rightarrow> lfg_mgr \<Rightarrow> bool" where
  "selectedRandomLfgDungeon g m =
     (GetLfgState g m \<noteq> LFG_STATE_NONE \<and>
      (case GetSelectedDungeons g m of [] \<Rightarrow> False
       | i # _ \<Rightarrow> (case GetLFGDungeon i m of None \<Rightarrow> False | Some d \<Rightarrow> dg_type d = LFG_TYPE_RANDOM \<or> dg_seasonal d)))"

text \<open>Rewards of a dungeon are tried in the order of their levels; the last one is taken when none reaches the level.\<close>

fun pick_reward :: "lfg_reward list \<Rightarrow> uint8 \<Rightarrow> lfg_reward option" where
  "pick_reward [] level = None"
| "pick_reward (r # rs) level =
     (if ucast level \<le> rw_maxLevel r then Some r else case pick_reward rs level of None \<Rightarrow> Some r | Some x \<Rightarrow> Some x)"

definition GetRandomDungeonReward :: "uint32 \<Rightarrow> uint8 \<Rightarrow> lfg_mgr \<Rightarrow> lfg_reward option" where
  "GetRandomDungeonReward dungeon level m =
     pick_reward (map snd (filter (\<lambda>(k, r). k = dungeon AND 0x00FFFFFF) (RewardMapStore m))) level"

section \<open>Loading\<close>

record dungeon_entry =
  le_ID :: uint32
  le_MapID :: "16 word"
  le_TypeID :: uint8
  le_ExpansionLevel :: uint8
  le_GroupID :: uint8
  le_MinLevel :: uint8
  le_MaxLevel :: uint16
  le_DifficultyID :: uint8
  le_Flags :: uint32

definition LFGDungeonData :: "dungeon_entry \<Rightarrow> dungeon_data" where
  "LFGDungeonData e = \<lparr>dg_id = le_ID e, dg_map = scast (le_MapID e), dg_type = le_TypeID e, dg_expansion = le_ExpansionLevel e,
     dg_group = le_GroupID e, dg_minlevel = le_MinLevel e, dg_maxlevel = ucast (le_MaxLevel e), dg_difficulty = le_DifficultyID e,
     dg_seasonal = (le_Flags e AND 4 \<noteq> 0), dg_pos = (0, 0, 0, 0), dg_requiredItemLevel = 0\<rparr>"

definition store_entry :: "dungeon_entry \<Rightarrow> (uint32 \<times> dungeon_data) list \<Rightarrow> (uint32 \<times> dungeon_data) list" where
  "store_entry e s =
     (if le_TypeID e \<in> {LFG_TYPE_DUNGEON, LFG_TYPE_HEROIC, LFG_TYPE_RAID, LFG_TYPE_RANDOM} then om_set (le_ID e) (LFGDungeonData e) s else s)"

definition place_dungeon :: "uint32 \<times> position \<times> uint16 \<Rightarrow> (uint32 \<times> dungeon_data) list \<Rightarrow> (uint32 \<times> dungeon_data) list" where
  "place_dungeon row s = (case row of (i, pos, lvl) \<Rightarrow> om_adjust i (\<lambda>d. d\<lparr>dg_pos := pos, dg_requiredItemLevel := lvl\<rparr>) s)"

text \<open>The last loop: a dungeon without coordinates takes those of its map's entrance, or is left out of the cache.\<close>

definition enter_dungeon :: "(uint32 \<Rightarrow> (uint32 \<times> position) option) \<Rightarrow> dungeon_data \<Rightarrow> dungeon_data option" where
  "enter_dungeon triggers d =
     (if dg_type d \<noteq> LFG_TYPE_RANDOM \<and> no_position (dg_pos d)
      then map_option (\<lambda>(target, pos). d\<lparr>dg_map := target, dg_pos := pos\<rparr>) (triggers (dg_map d))
      else Some d)"

definition cache_dungeon :: "dungeon_data \<Rightarrow> (uint8 \<Rightarrow> uint32 list) \<Rightarrow> (uint8 \<Rightarrow> uint32 list)" where
  "cache_dungeon d c =
     (let c1 = (if dg_type d \<noteq> LFG_TYPE_RANDOM then c(dg_group d := set_insert (dg_id d) (c (dg_group d))) else c)
      in c1(0 := set_insert (dg_id d) (c1 0)))"

definition cache_entry :: "(uint32 \<Rightarrow> (uint32 \<times> position) option) \<Rightarrow> uint32 \<Rightarrow> lfg_mgr \<Rightarrow> lfg_mgr" where
  "cache_entry triggers i m =
     (case map_of (LfgDungeonStore m) i of None \<Rightarrow> m
      | Some d \<Rightarrow> (case enter_dungeon triggers d of None \<Rightarrow> m
          | Some d' \<Rightarrow> m\<lparr>LfgDungeonStore := om_adjust i (\<lambda>_. d') (LfgDungeonStore m),
                         CachedDungeonMapStore := cache_dungeon d' (CachedDungeonMapStore m)\<rparr>))"

definition LoadLFGDungeons :: "dungeon_entry list \<Rightarrow> (uint32 \<times> position \<times> uint16) list \<Rightarrow> (uint32 \<Rightarrow> (uint32 \<times> position) option)
    \<Rightarrow> bool \<Rightarrow> lfg_mgr \<Rightarrow> lfg_mgr" where
  "LoadLFGDungeons entries rows triggers reload m0 =
     (let m = m0\<lparr>LfgDungeonStore := fold store_entry entries []\<rparr>
      in if rows = [] then m
         else let m1 = m\<lparr>LfgDungeonStore := fold place_dungeon rows (LfgDungeonStore m)\<rparr>;
                  m2 = fold (cache_entry triggers) (map fst (LfgDungeonStore m1)) m1
              in if reload then m2\<lparr>CachedDungeonMapStore := (\<lambda>_. [])\<rparr> else m2)"

definition load_reward :: "mgr_env \<Rightarrow> uint32 \<times> uint32 \<times> uint32 \<times> uint32 \<Rightarrow> lfg_mgr \<Rightarrow> lfg_mgr" where
  "load_reward env row m = (case row of (dungeon, maxLevel, firstQuest, otherQuest) \<Rightarrow>
     if GetLFGDungeonEntry dungeon m = 0 then m
     else let lvl = (if maxLevel = 0 \<or> mg_max_level env < maxLevel then mg_max_level env else maxLevel)
          in if firstQuest = 0 \<or> \<not> mg_quest_exists env firstQuest then m
             else let q = (if otherQuest \<noteq> 0 \<and> \<not> mg_quest_exists env otherQuest then 0 else otherQuest)
                  in m\<lparr>RewardMapStore := mm_insert dungeon \<lparr>rw_maxLevel = lvl, rw_firstQuest = firstQuest, rw_otherQuest = q\<rparr> (RewardMapStore m)\<rparr>)"

definition LoadRewards :: "mgr_env \<Rightarrow> (uint32 \<times> uint32 \<times> uint32 \<times> uint32) list \<Rightarrow> lfg_mgr \<Rightarrow> lfg_mgr" where
  "LoadRewards env rows m = fold (load_reward env) rows (m\<lparr>RewardMapStore := []\<rparr>)"

text \<open>What is stored of a group: leader, dungeon and state.\<close>

definition LoadLfgFromDB :: "ObjectGuid \<Rightarrow> ObjectGuid \<Rightarrow> uint32 \<Rightarrow> uint8 \<Rightarrow> lfg_mgr \<Rightarrow> lfg_mgr" where
  "LoadLfgFromDB gg leader dungeon state m =
     (if \<not> IsParty gg then m
      else let m1 = SetLeader gg leader m
           in if dungeon = 0 \<or> state = 0 then m1
              else let m2 = SetDungeon gg dungeon m1
                   in if state = state_num LFG_STATE_DUNGEON then SetState gg LFG_STATE_DUNGEON m2
                      else if state = state_num LFG_STATE_FINISHED_DUNGEON then SetState gg LFG_STATE_FINISHED_DUNGEON m2
                      else m2)"

definition SaveLfgToDB :: "ObjectGuid \<Rightarrow> uint32 \<Rightarrow> lfg_mgr \<Rightarrow> lfg_mgr" where
  "SaveLfgToDB gg db_guid m =
     (if \<not> IsParty gg then m else note_effect (SaveLfgData db_guid (GetDungeon gg m) (state_num (GetLfgState gg m))) m)"

section \<open>Restrictions\<close>

definition LFG_LOCKSTATUS_INSUFFICIENT_EXPANSION :: uint32 where "LFG_LOCKSTATUS_INSUFFICIENT_EXPANSION = 1"
definition LFG_LOCKSTATUS_TOO_LOW_LEVEL :: uint32 where "LFG_LOCKSTATUS_TOO_LOW_LEVEL = 2"
definition LFG_LOCKSTATUS_TOO_HIGH_LEVEL :: uint32 where "LFG_LOCKSTATUS_TOO_HIGH_LEVEL = 3"
definition LFG_LOCKSTATUS_TOO_LOW_GEAR_SCORE :: uint32 where "LFG_LOCKSTATUS_TOO_LOW_GEAR_SCORE = 4"
definition LFG_LOCKSTATUS_RAID_LOCKED :: uint32 where "LFG_LOCKSTATUS_RAID_LOCKED = 6"
definition LFG_LOCKSTATUS_QUEST_NOT_COMPLETED :: uint32 where "LFG_LOCKSTATUS_QUEST_NOT_COMPLETED = 1022"
definition LFG_LOCKSTATUS_MISSING_ITEM :: uint32 where "LFG_LOCKSTATUS_MISSING_ITEM = 1025"
definition LFG_LOCKSTATUS_NOT_IN_SEASON :: uint32 where "LFG_LOCKSTATUS_NOT_IN_SEASON = 1031"
definition LFG_LOCKSTATUS_MISSING_ACHIEVEMENT :: uint32 where "LFG_LOCKSTATUS_MISSING_ACHIEVEMENT = 1034"

lemmas lock_status_defs = LFG_LOCKSTATUS_INSUFFICIENT_EXPANSION_def LFG_LOCKSTATUS_TOO_LOW_LEVEL_def
  LFG_LOCKSTATUS_TOO_HIGH_LEVEL_def LFG_LOCKSTATUS_TOO_LOW_GEAR_SCORE_def LFG_LOCKSTATUS_RAID_LOCKED_def
  LFG_LOCKSTATUS_QUEST_NOT_COMPLETED_def LFG_LOCKSTATUS_MISSING_ITEM_def LFG_LOCKSTATUS_NOT_IN_SEASON_def
  LFG_LOCKSTATUS_MISSING_ACHIEVEMENT_def

definition IsSeasonActive :: "mgr_env \<Rightarrow> uint32 \<Rightarrow> bool" where
  "IsSeasonActive env i =
     (if i = 285 then mg_holiday env 324 else if i = 286 then mg_holiday env 341
      else if i = 287 then mg_holiday env 372 else if i = 288 then mg_holiday env 423 else False)"

definition access_status :: "mgr_env \<Rightarrow> ObjectGuid \<Rightarrow> access_requirement \<Rightarrow> uint32" where
  "access_status env g ar =
     (if ar_achievement ar \<noteq> 0 \<and> \<not> mg_achieved env g (ar_achievement ar) then LFG_LOCKSTATUS_MISSING_ACHIEVEMENT
      else if mg_alliance env g \<and> ar_quest_A ar \<noteq> 0 \<and> \<not> mg_quest_rewarded env g (ar_quest_A ar) then LFG_LOCKSTATUS_QUEST_NOT_COMPLETED
      else if mg_horde env g \<and> ar_quest_H ar \<noteq> 0 \<and> \<not> mg_quest_rewarded env g (ar_quest_H ar) then LFG_LOCKSTATUS_QUEST_NOT_COMPLETED
      else if ar_item ar \<noteq> 0
      then (if \<not> mg_has_item env g (ar_item ar) \<and> (ar_item2 ar = 0 \<or> \<not> mg_has_item env g (ar_item2 ar)) then LFG_LOCKSTATUS_MISSING_ITEM else 0)
      else if ar_item2 ar \<noteq> 0 \<and> \<not> mg_has_item env g (ar_item2 ar) then LFG_LOCKSTATUS_MISSING_ITEM else 0)"

definition lock_status :: "mgr_env \<Rightarrow> ObjectGuid \<Rightarrow> dungeon_data \<Rightarrow> uint32" where
  "lock_status env g d =
     (if \<not> mg_permission env g then LFG_LOCKSTATUS_RAID_LOCKED
      else if mg_expansion env g < dg_expansion d then LFG_LOCKSTATUS_INSUFFICIENT_EXPANSION
      else if mg_disabled_map env g (dg_map d) then LFG_LOCKSTATUS_RAID_LOCKED
      else if mg_disabled_lfg_map env g (dg_map d) then LFG_LOCKSTATUS_RAID_LOCKED
      else if 1 < dg_difficulty d \<and> mg_bound env g (dg_map d) (dg_difficulty d) \<noteq> None then LFG_LOCKSTATUS_RAID_LOCKED
      else if mg_level env g < dg_minlevel d then LFG_LOCKSTATUS_TOO_LOW_LEVEL
      else if dg_maxlevel d < mg_level env g then LFG_LOCKSTATUS_TOO_HIGH_LEVEL
      else if dg_seasonal d \<and> \<not> IsSeasonActive env (dg_id d) then LFG_LOCKSTATUS_NOT_IN_SEASON
      else if mg_item_level_below env g (dg_requiredItemLevel d) then LFG_LOCKSTATUS_TOO_LOW_GEAR_SCORE
      else case mg_access env (dg_map d) (dg_difficulty d) of None \<Rightarrow> 0 | Some ar \<Rightarrow> access_status env g ar)"

definition lock_dungeon :: "mgr_env \<Rightarrow> ObjectGuid \<Rightarrow> lfg_mgr \<Rightarrow> uint32 \<Rightarrow> lock_map \<Rightarrow> lock_map" where
  "lock_dungeon env g m i locks =
     (case GetLFGDungeon i m of None \<Rightarrow> locks
      | Some d \<Rightarrow> if lock_status env g d \<noteq> 0 then om_set (Entry d) (lock_status env g d) locks else locks)"

definition GetLockedDungeons :: "mgr_env \<Rightarrow> ObjectGuid \<Rightarrow> lfg_mgr \<Rightarrow> lock_map" where
  "GetLockedDungeons env g m =
     (if \<not> mg_connected env g then [] else fold (lock_dungeon env g m) (GetDungeonsByRandom 0 m) [])"

definition GetRandomAndSeasonalDungeons :: "mgr_env \<Rightarrow> uint8 \<Rightarrow> uint8 \<Rightarrow> lfg_mgr \<Rightarrow> uint32 list" where
  "GetRandomAndSeasonalDungeons env level expansion m =
     fold (\<lambda>(i, d) ds. if (dg_type d = LFG_TYPE_RANDOM \<or> dg_seasonal d \<and> IsSeasonActive env (dg_id d)) \<and>
                            dg_expansion d \<le> expansion \<and> dg_minlevel d \<le> level \<and> level \<le> dg_maxlevel d
                         then set_insert (Entry d) ds else ds) (LfgDungeonStore m) []"

section \<open>Dungeons for several players\<close>

text \<open>
  One lock of one player takes the dungeon out, unless the group continues an instance to which the player is bound
  and no other player is bound to another one. The state of the loop: the dungeons left, the instances seen and
  the locks met.
\<close>

type_synonym dungeon_choice = "uint32 list \<times> (uint32 \<times> uint32) list \<times> (ObjectGuid \<times> lock_map) list"

definition bound_instance :: "mgr_env \<Rightarrow> bool \<Rightarrow> ObjectGuid \<Rightarrow> uint32 \<Rightarrow> uint32 \<Rightarrow> lfg_mgr \<Rightarrow> fault + uint32 option" where
  "bound_instance env isContinue g i status m =
     (if status = LFG_LOCKSTATUS_RAID_LOCKED \<and> isContinue
      then (case GetLFGDungeon i m of None \<Rightarrow> Inl AssertionFailed
            | Some d \<Rightarrow> if \<not> mg_connected env g then Inl AssertionFailed
                        else Inr (case mg_bound env g (dg_map d) (dg_difficulty d) of Some (Some inst) \<Rightarrow> Some inst | _ \<Rightarrow> None))
      else Inr None)"

definition apply_lock :: "mgr_env \<Rightarrow> bool \<Rightarrow> ObjectGuid \<Rightarrow> lfg_mgr \<Rightarrow> uint32 \<times> uint32 \<Rightarrow> dungeon_choice \<Rightarrow> fault + dungeon_choice" where
  "apply_lock env isContinue g m lock choice = (case (lock, choice) of ((entry, status), (ds, seen, locks)) \<Rightarrow>
     let i = entry AND 0x00FFFFFF in
     if ds = [] \<or> i \<notin> set ds then Inr choice
     else res_bind (bound_instance env isContinue g i status m) (\<lambda>inst.
       let keep = (case inst of None \<Rightarrow> False | Some n \<Rightarrow> map_of seen i = None \<or> map_of seen i = Some n);
           seen' = (case inst of None \<Rightarrow> seen | Some n \<Rightarrow> om_set i n seen);
           mine = (case map_of locks g of None \<Rightarrow> [] | Some l \<Rightarrow> l)
       in Inr (if keep then ds else set_erase i ds, seen', om_set g (om_set i status mine) locks)))"

definition player_locks :: "mgr_env \<Rightarrow> bool \<Rightarrow> lfg_mgr \<Rightarrow> ObjectGuid \<Rightarrow> dungeon_choice \<Rightarrow> fault + dungeon_choice" where
  "player_locks env isContinue m g choice =
     (if fst choice = [] then Inr choice else forE (apply_lock env isContinue g m) (GetLockedDungeons env g m) choice)"

definition GetCompatibleDungeons :: "mgr_env \<Rightarrow> bool \<Rightarrow> uint32 list \<Rightarrow> ObjectGuid list \<Rightarrow> lfg_mgr
    \<Rightarrow> fault + uint32 list \<times> (ObjectGuid \<times> lock_map) list" where
  "GetCompatibleDungeons env isContinue dungeons players m =
     res_bind (forE (player_locks env isContinue m) players (dungeons, [], [])) (\<lambda>(ds, seen, locks).
       Inr (ds, if ds \<noteq> [] then [] else locks))"

end
