(* ===== verification/Lfg_Requests.thy ===== *)
theory Lfg_Requests
  imports Lfg_Dungeons
begin

text \<open>
  What players ask of the dungeon finder, \<^verbatim>\<open>src/src/server/game/DungeonFinding/LFGMgr.cpp\<close>: joining, the role check
  of a group, leaving, the end of a proposal that was declined or not answered, and the start of a vote. The
  group of a player is an object of the party model; its online members come in the order of their references.
\<close>

unbundle bit_operations_syntax

section \<open>Role checks\<close>

definition all_chosen :: "roles_map \<Rightarrow> bool" where
  "all_chosen roles \<longleftrightarrow> list_all (\<lambda>(g, r). r \<noteq> 0) roles"

text \<open>The roles and the state of a role check after an answer; no player is a check that was given up.\<close>

definition answer_role :: "ObjectGuid \<Rightarrow> uint8 \<Rightarrow> role_check \<Rightarrow> role_check" where
  "answer_role g roles rc =
     (if IsEmpty g then rc\<lparr>rc_state := LFG_ROLECHECK_ABORTED\<rparr>
      else if roles < PLAYER_ROLE_TANK then rc\<lparr>rc_state := LFG_ROLECHECK_NO_ROLE\<rparr>
      else let rc1 = rc\<lparr>rc_roles := om_set g roles (rc_roles rc)\<rparr>
           in if all_chosen (rc_roles rc1)
              then rc1\<lparr>rc_state := (if CheckGroupRoles (rc_roles rc1) \<noteq> None then LFG_ROLECHECK_FINISHED else LFG_ROLECHECK_WRONG_ROLES)\<rparr>
              else rc1)"

definition shown_dungeons :: "role_check \<Rightarrow> uint32 list" where
  "shown_dungeons rc = (if rc_rDungeonId rc \<noteq> 0 then [rc_rDungeonId rc] else rc_dungeons rc)"

definition report_role :: "mgr_env \<Rightarrow> bool \<Rightarrow> ObjectGuid \<Rightarrow> uint8 \<Rightarrow> role_check \<Rightarrow> ObjectGuid \<times> uint8 \<Rightarrow> lfg_mgr \<Rightarrow> lfg_mgr" where
  "report_role env chosen g roles rc entry m = (case entry of (p, r) \<Rightarrow>
     let m1 = (if chosen then tell env p (SendRoleChosen p g roles) m else m);
         m2 = tell env p (SendRoleCheckUpdate p rc) m1
     in if rc_state rc = LFG_ROLECHECK_INITIALITING then m2
        else if rc_state rc = LFG_ROLECHECK_FINISHED
        then tell env p (SendUpdateStatus p LFG_UPDATETYPE_ADDED_TO_QUEUE LFG_STATE_NONE (shown_dungeons rc) True)
               (SetRoles p r (SetState p LFG_STATE_QUEUED m2))
        else let m3 = (if rc_leader rc = p then tell env p (SendJoinResult p LFG_JOIN_ROLE_CHECK_FAILED (rc_state rc) []) m2 else m2)
             in RestoreState p (tell env p (SendUpdateStatus p LFG_UPDATETYPE_ROLECHECK_FAILED LFG_STATE_NONE [] True) m3))"

definition UpdateRoleCheck :: "mgr_env \<Rightarrow> ObjectGuid \<Rightarrow> ObjectGuid \<Rightarrow> uint8 \<Rightarrow> lfg_mgr \<Rightarrow> lfg_mgr" where
  "UpdateRoleCheck env gg g roles m =
     (if IsEmpty gg then m
      else case map_of (RoleChecksStore m) gg of None \<Rightarrow> m
      | Some rc0 \<Rightarrow>
          let chosen = (rc_state rc0 \<noteq> LFG_ROLECHECK_DEFAULT \<and> \<not> IsEmpty g);
              rc = answer_role g roles rc0;
              m1 = m\<lparr>RoleChecksStore := om_adjust gg (\<lambda>_. rc) (RoleChecksStore m)\<rparr>;
              m2 = fold (report_role env chosen g roles rc) (rc_roles rc) m1;
              close = (\<lambda>m'. m'\<lparr>RoleChecksStore := om_erase gg (RoleChecksStore m')\<rparr>)
          in if rc_state rc = LFG_ROLECHECK_FINISHED
             then let m3 = SetState gg LFG_STATE_QUEUED m2
                  in close (on_queue (GetQueueId gg m3) (AddQueueData gg (mg_time env) (rc_dungeons rc) (rc_roles rc)) m3)
             else if rc_state rc \<noteq> LFG_ROLECHECK_INITIALITING then close (RestoreState gg m2)
             else m2)"

text \<open>Role checks that ran out of time; part of \<^verbatim>\<open>Update\<close>.\<close>

definition expire_member :: "mgr_env \<Rightarrow> role_check \<Rightarrow> ObjectGuid \<times> uint8 \<Rightarrow> lfg_mgr \<Rightarrow> lfg_mgr" where
  "expire_member env rc entry m = (case entry of (p, r) \<Rightarrow>
     let m1 = tell env p (SendRoleCheckUpdate p rc) (RestoreState p m)
     in if p = rc_leader rc then tell env p (SendJoinResult p LFG_JOIN_ROLE_CHECK_FAILED LFG_ROLECHECK_MISSING_ROLE []) m1 else m1)"

definition expire_role_check :: "mgr_env \<Rightarrow> ObjectGuid \<times> role_check \<Rightarrow> lfg_mgr \<Rightarrow> lfg_mgr" where
  "expire_role_check env entry m = (case entry of (gg, rc0) \<Rightarrow>
     if mg_time env < rc_cancelTime rc0 then m
     else let rc = rc0\<lparr>rc_state := LFG_ROLECHECK_MISSING_ROLE\<rparr>;
              m1 = RestoreState gg (fold (expire_member env rc) (rc_roles rc) m)
          in m1\<lparr>RoleChecksStore := om_erase gg (RoleChecksStore m1)\<rparr>)"

section \<open>Joining\<close>

text \<open>Members are examined until one of them may not join; a later test overrides a missing permission.\<close>

fun member_checks :: "mgr_env \<Rightarrow> ObjectGuid list \<Rightarrow> LfgJoinResult \<times> uint8 \<times> ObjectGuid list \<Rightarrow> LfgJoinResult \<times> uint8 \<times> ObjectGuid list" where
  "member_checks env [] acc = acc"
| "member_checks env (p # ps) (r, n, seen) =
     (if r \<noteq> LFG_JOIN_OK then (r, n, seen)
      else let r1 = (if \<not> mg_permission env p then LFG_JOIN_NO_LFG_OBJECT else r);
               r2 = (if mg_aura env p LFG_SPELL_DUNGEON_DESERTER then LFG_JOIN_DESERTER_PARTY
                     else if mg_aura env p LFG_SPELL_DUNGEON_COOLDOWN then LFG_JOIN_RANDOM_COOLDOWN_PARTY
                     else if mg_battleground env p then LFG_JOIN_CANT_USE_DUNGEONS
                     else if mg_aura env p 9454 then LFG_JOIN_PARTY_NOT_MEET_REQS
                     else r1)
           in member_checks env ps (r2, n + 1, set_insert p seen))"

definition may_join :: "mgr_env \<Rightarrow> ObjectGuid \<Rightarrow> party option \<Rightarrow> uint32 list \<Rightarrow> LfgJoinResult \<times> ObjectGuid list" where
  "may_join env g grp dungeons =
     (if \<not> mg_permission env g then (LFG_JOIN_NO_SLOTS_PLAYER, [])
      else if mg_battleground env g then (LFG_JOIN_CANT_USE_DUNGEONS, [])
      else if mg_aura env g LFG_SPELL_DUNGEON_DESERTER then (LFG_JOIN_DESERTER_PLAYER, [])
      else if mg_aura env g LFG_SPELL_DUNGEON_COOLDOWN then (LFG_JOIN_RANDOM_COOLDOWN_PLAYER, [])
      else if dungeons = [] then (LFG_JOIN_NO_SLOTS_PLAYER, [])
      else if mg_aura env g 9454 then (LFG_JOIN_NO_SLOTS_PLAYER, [])
      else case grp of
        None \<Rightarrow> (LFG_JOIN_OK, [g])
      | Some pt \<Rightarrow>
          if MAX_GROUP_SIZE < GetMembersCount pt then (LFG_JOIN_TOO_MANY_MEMBERS, [])
          else case member_checks env (gr_links pt) (LFG_JOIN_OK, 0, []) of (r, n, seen) \<Rightarrow>
                 (if r = LFG_JOIN_OK \<and> unat n \<noteq> GetMembersCount pt then LFG_JOIN_MEMBERS_NOT_PRESENT else r, seen))"

text \<open>
  The kinds of the dungeons asked for: the result, the random dungeon, and whether there are dungeons and raids. The case of a
  random dungeon goes on with that of an ordinary one.
\<close>

record slot_scan =
  ss_result :: LfgJoinResult
  ss_random :: uint32
  ss_isDungeon :: bool
  ss_isRaid :: bool

definition scan_slot :: "lfg_mgr \<Rightarrow> uint32 list \<Rightarrow> uint32 \<Rightarrow> slot_scan \<Rightarrow> slot_scan" where
  "scan_slot m dungeons i s =
     (if ss_result s \<noteq> LFG_JOIN_OK then s
      else let t = GetDungeonType i m;
               s1 = (if t = LFG_TYPE_RANDOM
                     then (if length dungeons > 1 then s\<lparr>ss_result := LFG_JOIN_INVALID_SLOT\<rparr> else s\<lparr>ss_random := hd dungeons\<rparr>)
                     else s)
           in if t = LFG_TYPE_RANDOM \<or> t = LFG_TYPE_HEROIC \<or> t = LFG_TYPE_DUNGEON
              then (if ss_isRaid s1 then s1\<lparr>ss_result := LFG_JOIN_MISMATCHED_SLOTS\<rparr> else s1)\<lparr>ss_isDungeon := True\<rparr>
              else if t = LFG_TYPE_RAID
              then (if ss_isDungeon s1 then s1\<lparr>ss_result := LFG_JOIN_MISMATCHED_SLOTS\<rparr> else s1)\<lparr>ss_isRaid := True\<rparr>
              else s1\<lparr>ss_result := LFG_JOIN_INVALID_SLOT\<rparr>)"

definition scan_slots :: "lfg_mgr \<Rightarrow> uint32 list \<Rightarrow> slot_scan" where
  "scan_slots m dungeons = fold (scan_slot m dungeons) dungeons
     \<lparr>ss_result = LFG_JOIN_OK, ss_random = 0, ss_isDungeon = False, ss_isRaid = False\<rparr>"

text \<open>All that decides on a request: the result, the dungeons left, the random dungeon, whether it is for raids and the locks met.\<close>

record join_check =
  jc_result :: LfgJoinResult
  jc_dungeons :: "uint32 list"
  jc_random :: uint32
  jc_isRaid :: bool
  jc_locks :: "(ObjectGuid \<times> lock_map) list"

definition check_join :: "mgr_env \<Rightarrow> ObjectGuid \<Rightarrow> party option \<Rightarrow> bool \<Rightarrow> uint32 list \<Rightarrow> lfg_mgr \<Rightarrow> fault + join_check" where
  "check_join env g grp isContinue dungeons m =
     (case may_join env g grp dungeons of (r, players) \<Rightarrow>
        let s = scan_slots m dungeons;
            res = (\<lambda>r ds locks. Inr \<lparr>jc_result = r, jc_dungeons = ds, jc_random = ss_random s, jc_isRaid = ss_isRaid s, jc_locks = locks\<rparr>)
        in if r \<noteq> LFG_JOIN_OK then Inr \<lparr>jc_result = r, jc_dungeons = dungeons, jc_random = 0, jc_isRaid = False, jc_locks = []\<rparr>
           else if ss_result s \<noteq> LFG_JOIN_OK then res (ss_result s) dungeons []
           else let wanted = (if ss_random s \<noteq> 0 then GetDungeonsByRandom (ss_random s) m else dungeons)
                in res_bind (GetCompatibleDungeons env isContinue wanted players m) (\<lambda>(ds, locks).
                   res (if ds = [] then (if grp \<noteq> None then LFG_JOIN_NO_LFG_OBJECT else LFG_JOIN_NO_SLOTS_PLAYER) else LFG_JOIN_OK) ds locks))"

definition start_member :: "bool \<Rightarrow> ride_ticket \<Rightarrow> ObjectGuid \<Rightarrow> uint32 list \<Rightarrow> ObjectGuid \<Rightarrow> lfg_mgr \<Rightarrow> lfg_mgr" where
  "start_member isContinue ticket gg ds p m =
     (let m1 = SetTicket p ticket (SetState p LFG_STATE_ROLECHECK (note_effect (SendUpdateStatus p LFG_UPDATETYPE_JOIN_QUEUE LFG_STATE_NONE ds True) m));
          m2 = (if \<not> isContinue then SetSelectedDungeons p ds m1 else m1)
      in m2\<lparr>RoleChecksStore := om_adjust gg (\<lambda>rc. rc\<lparr>rc_roles := om_set p 0 (rc_roles rc)\<rparr>) (RoleChecksStore m2)\<rparr>)"

definition start_role_check :: "mgr_env \<Rightarrow> ObjectGuid \<Rightarrow> party \<Rightarrow> uint8 \<Rightarrow> bool \<Rightarrow> ride_ticket \<Rightarrow> join_check \<Rightarrow> lfg_mgr \<Rightarrow> lfg_mgr" where
  "start_role_check env g grp roles isContinue ticket jc m =
     (let gg = gr_guid grp;
          old = (case map_of (RoleChecksStore m) gg of Some rc \<Rightarrow> rc | None \<Rightarrow> LfgRoleCheck);
          rc = old\<lparr>rc_cancelTime := mg_time env + LFG_TIME_ROLECHECK, rc_state := LFG_ROLECHECK_INITIALITING, rc_leader := g,
                   rc_dungeons := jc_dungeons jc, rc_rDungeonId := jc_random jc\<rparr>;
          ds = (if jc_random jc \<noteq> 0 then [jc_random jc] else jc_dungeons jc);
          m1 = SetState gg LFG_STATE_ROLECHECK (m\<lparr>RoleChecksStore := om_set gg rc (RoleChecksStore m)\<rparr>)
      in UpdateRoleCheck env gg g roles (fold (start_member isContinue ticket gg ds) (gr_links grp) m1))"

definition queue_player :: "mgr_env \<Rightarrow> ObjectGuid \<Rightarrow> uint8 \<Rightarrow> bool \<Rightarrow> ride_ticket \<Rightarrow> join_check \<Rightarrow> lfg_mgr \<Rightarrow> lfg_mgr" where
  "queue_player env g roles isContinue ticket jc m =
     (let m1 = on_queue (GetQueueId g m) (AddQueueData g (mg_time env) (jc_dungeons jc) [(g, roles)]) m;
          ds = (if \<not> isContinue \<and> jc_random jc \<noteq> 0 then [jc_random jc] else jc_dungeons jc);
          m2 = (if \<not> isContinue then SetSelectedDungeons g ds m1 else m1);
          m3 = SetRoles g roles (SetTicket g ticket m2);
          m4 = SetState g LFG_STATE_QUEUED (note_effect (SendUpdateStatus g LFG_UPDATETYPE_JOIN_QUEUE_INITIAL LFG_STATE_NONE ds False) m3)
      in note_effect (SendJoinResult g LFG_JOIN_OK LFG_ROLECHECK_DEFAULT (jc_locks jc))
           (note_effect (SendUpdateStatus g LFG_UPDATETYPE_ADDED_TO_QUEUE LFG_STATE_NONE ds False) m4))"

definition continues :: "party option \<Rightarrow> lfg_mgr \<Rightarrow> bool" where
  "continues grp m = (case grp of None \<Rightarrow> False | Some pt \<Rightarrow> isLFGGroup pt \<and> GetLfgState (gr_guid pt) m \<noteq> LFG_STATE_FINISHED_DUNGEON)"

definition JoinLfg :: "mgr_env \<Rightarrow> ObjectGuid \<Rightarrow> party option \<Rightarrow> uint8 \<Rightarrow> uint32 list \<Rightarrow> lfg_mgr \<Rightarrow> fault + lfg_mgr" where
  "JoinLfg env g grp roles dungeons m =
     (if dungeons = [] then Inr m
      else let gg = (case grp of None \<Rightarrow> g | Some pt \<Rightarrow> gr_guid pt);
               isContinue = continues grp m;
               ds = (if isContinue then [GetDungeon gg m] else dungeons);
               m1 = (if GetLfgState gg m = LFG_STATE_QUEUED then on_queue (GetQueueId gg m) (RemoveFromQueue gg) m else m)
           in res_bind (check_join env g grp isContinue ds m1) (\<lambda>jc.
              if jc_result jc \<noteq> LFG_JOIN_OK
              then Inr (note_effect (SendJoinResult g (jc_result jc) LFG_ROLECHECK_DEFAULT (if jc_dungeons jc \<noteq> [] then [] else jc_locks jc)) m1)
              else if jc_isRaid jc then Inr m1
              else let ticket = \<lparr>rt_requester = g, rt_id = ucast (GetQueueId gg m1), rt_lfg = True, rt_time = word_of_int (mg_time env)\<rparr>
                   in Inr (case grp of Some pt \<Rightarrow> start_role_check env g pt roles isContinue ticket jc m1
                           | None \<Rightarrow> queue_player env g roles isContinue ticket jc m1)))"

section \<open>The end of a proposal\<close>

text \<open>The answer of a player that gave none counts as a refusal when the time is over.\<close>

definition settle_answers :: "LfgUpdateType \<Rightarrow> proposal \<Rightarrow> proposal" where
  "settle_answers type p =
     (let p1 = p\<lparr>pr_state := LFG_PROPOSAL_FAILED\<rparr>
      in if type = LFG_UPDATETYPE_PROPOSAL_FAILED
         then p1\<lparr>pr_players := map (\<lambda>(g, pp). (g, if pp_accept pp = LFG_ANSWER_PENDING then pp\<lparr>pp_accept := LFG_ANSWER_DENY\<rparr> else pp)) (pr_players p1)\<rparr>
         else p1)"

text \<open>The entry of the queue a player came with: the group or the player itself.\<close>

definition queue_key :: "ObjectGuid \<times> proposal_player \<Rightarrow> ObjectGuid" where
  "queue_key entry = (case entry of (g, pp) \<Rightarrow> if \<not> IsEmpty (pp_group pp) then pp_group pp else g)"

definition refusers :: "proposal \<Rightarrow> ObjectGuid list" where
  "refusers p = fold (\<lambda>entry s. if pp_accept (snd entry) = LFG_ANSWER_DENY then set_insert (queue_key entry) s else s) (pr_players p) []"

definition release_player :: "mgr_env \<Rightarrow> LfgUpdateType \<Rightarrow> proposal \<Rightarrow> ObjectGuid list \<Rightarrow> ObjectGuid \<times> proposal_player \<Rightarrow> lfg_mgr \<Rightarrow> lfg_mgr" where
  "release_player env type p toRemove entry m = (case entry of (g, pp) \<Rightarrow>
     let gg = queue_key (g, pp); m1 = tell env g (SendUpdateProposal g p) m in
     if gg \<in> set toRemove
     then let t = (if pp_accept pp = LFG_ANSWER_DENY then type else LFG_UPDATETYPE_REMOVED_FROM_QUEUE);
              m2 = RestoreState g m1
          in if gg \<noteq> g then tell env g (SendUpdateStatus g t LFG_STATE_NONE [] True) (RestoreState (pp_group pp) m2)
             else tell env g (SendUpdateStatus g t LFG_STATE_NONE [] False) m2
     else let m2 = SetState g LFG_STATE_QUEUED m1;
              m3 = (if gg \<noteq> g then SetState gg LFG_STATE_QUEUED m2 else m2)
          in tell env g (SendUpdateStatus g LFG_UPDATETYPE_ADDED_TO_QUEUE LFG_STATE_NONE (GetSelectedDungeons g m3) (gg \<noteq> g)) m3)"

definition release_queue :: "proposal \<Rightarrow> ObjectGuid list \<Rightarrow> lfg_queue \<Rightarrow> lfg_queue" where
  "release_queue p toRemove q =
     fold (\<lambda>g. AddToQueue g True) (filter (\<lambda>g. g \<notin> set toRemove) (pr_queues p)) (fold RemoveFromQueue toRemove q)"

definition RemoveProposal :: "mgr_env \<Rightarrow> uint32 \<Rightarrow> LfgUpdateType \<Rightarrow> lfg_mgr \<Rightarrow> fault + lfg_mgr" where
  "RemoveProposal env i type m =
     (case map_of (ProposalsStore m) i of None \<Rightarrow> Inl NullPointer
      | Some p0 \<Rightarrow>
          let p = settle_answers type p0;
              toRemove = refusers p;
              m1 = fold (release_player env type p toRemove) (pr_players p) m
          in case pr_players p of [] \<Rightarrow> Inl OutOfBounds
             | (g, pp) # _ \<Rightarrow>
                 let m2 = on_queue (GetQueueId g m1) (release_queue p toRemove) m1
                 in Inr (m2\<lparr>ProposalsStore := om_erase i (ProposalsStore m2)\<rparr>))"

definition AddProposal :: "proposal \<Rightarrow> lfg_mgr \<Rightarrow> lfg_mgr" where
  "AddProposal p m =
     (let i = m_lfgProposalId m + 1
      in m\<lparr>m_lfgProposalId := i, ProposalsStore := om_set i (p\<lparr>pr_id := i\<rparr>) (ProposalsStore m)\<rparr>)"

text \<open>Proposals that ran out of time; part of \<^verbatim>\<open>Update\<close>.\<close>

definition expire_proposal :: "mgr_env \<Rightarrow> uint32 \<times> proposal \<Rightarrow> lfg_mgr \<Rightarrow> fault + lfg_mgr" where
  "expire_proposal env entry m = (case entry of (i, p) \<Rightarrow>
     if pr_cancelTime p < mg_time env then RemoveProposal env i LFG_UPDATETYPE_PROPOSAL_FAILED m else Inr m)"

section \<open>Leaving\<close>

definition leave_queue :: "mgr_env \<Rightarrow> ObjectGuid \<Rightarrow> ObjectGuid \<Rightarrow> lfg_mgr \<Rightarrow> lfg_mgr" where
  "leave_queue env g gg m =
     (if \<not> IsEmpty gg
      then let m1 = SetState gg LFG_STATE_NONE (on_queue (GetQueueId gg m) (RemoveFromQueue gg) m)
           in fold (\<lambda>p m'. tell env p (SendUpdateStatus p LFG_UPDATETYPE_REMOVED_FROM_QUEUE LFG_STATE_NONE [] True) (SetState p LFG_STATE_NONE m'))
                (GetPlayers gg m1) m1
      else SetState g LFG_STATE_NONE
             (tell env g (SendUpdateStatus g LFG_UPDATETYPE_REMOVED_FROM_QUEUE LFG_STATE_NONE [] False)
               (on_queue (GetQueueId g m) (RemoveFromQueue g) m)))"

text \<open>The first proposal with the player, or with the leader of the group, is declined on its behalf.\<close>

definition leave_proposal :: "mgr_env \<Rightarrow> ObjectGuid \<Rightarrow> ObjectGuid \<Rightarrow> lfg_mgr \<Rightarrow> fault + lfg_mgr" where
  "leave_proposal env g gg m =
     (let pg = (if gg = g then GetLeader gg m else g)
      in case find (\<lambda>(i, p). map_of (pr_players p) pg \<noteq> None) (ProposalsStore m) of
           None \<Rightarrow> Inr m
         | Some (i, p) \<Rightarrow> RemoveProposal env i LFG_UPDATETYPE_PROPOSAL_DECLINED
             (m\<lparr>ProposalsStore := om_adjust i (\<lambda>p. p\<lparr>pr_players := om_adjust pg (\<lambda>pp. pp\<lparr>pp_accept := LFG_ANSWER_DENY\<rparr>) (pr_players p)\<rparr>) (ProposalsStore m)\<rparr>))"

definition LeaveLfg :: "mgr_env \<Rightarrow> ObjectGuid \<Rightarrow> bool \<Rightarrow> lfg_mgr \<Rightarrow> fault + lfg_mgr" where
  "LeaveLfg env g disconnected m =
     (let gg = (if IsParty g then g else GetGroup g m)
      in case GetLfgState g m of
           LFG_STATE_QUEUED \<Rightarrow> Inr (leave_queue env g gg m)
         | LFG_STATE_ROLECHECK \<Rightarrow> Inr (if \<not> IsEmpty gg then UpdateRoleCheck env gg GuidEmpty 0 m else m)
         | LFG_STATE_PROPOSAL \<Rightarrow> leave_proposal env g gg m
         | LFG_STATE_NONE \<Rightarrow> Inr m
         | LFG_STATE_RAIDBROWSER \<Rightarrow> Inr m
         | LFG_STATE_DUNGEON \<Rightarrow> Inr (if g \<noteq> gg \<and> \<not> disconnected then SetState g LFG_STATE_NONE m else m)
         | LFG_STATE_FINISHED_DUNGEON \<Rightarrow> Inr (if g \<noteq> gg \<and> \<not> disconnected then SetState g LFG_STATE_NONE m else m))"

section \<open>Votes\<close>

definition InitBoot :: "mgr_env \<Rightarrow> ObjectGuid \<Rightarrow> ObjectGuid \<Rightarrow> ObjectGuid \<Rightarrow> string \<Rightarrow> lfg_mgr \<Rightarrow> fault + lfg_mgr" where
  "InitBoot env gg kicker victim reason m =
     res_bind (SetVoteKick gg True m) (\<lambda>m1.
       let old = (case map_of (BootsStore m1) gg of Some b \<Rightarrow> b | None \<Rightarrow> LfgPlayerBoot);
           votes = fold (\<lambda>p v. om_set p LFG_ANSWER_PENDING v) (GetPlayers gg m1) (bt_votes old);
           b = old\<lparr>bt_inProgress := True, bt_cancelTime := mg_time env + LFG_TIME_BOOT, bt_reason := reason, bt_victim := victim,
                   bt_votes := om_set kicker LFG_ANSWER_AGREE (om_set victim LFG_ANSWER_DENY votes)\<rparr>;
           m2 = m1\<lparr>BootsStore := om_set gg b (BootsStore m1)\<rparr>
       in Inr (fold (\<lambda>p. tell env p (SendBootProposalUpdate p b)) (GetPlayers gg m2) m2))"

definition announce_boot :: "mgr_env \<Rightarrow> player_boot \<Rightarrow> lfg_mgr \<Rightarrow> lfg_mgr" where
  "announce_boot env b m = fold (\<lambda>(p, v). if p \<noteq> bt_victim b then tell env p (SendBootProposalUpdate p b) else id) (bt_votes b) m"

text \<open>Votes that ran out of time; part of \<^verbatim>\<open>Update\<close>.\<close>

definition expire_boot :: "mgr_env \<Rightarrow> ObjectGuid \<times> player_boot \<Rightarrow> lfg_mgr \<Rightarrow> fault + lfg_mgr" where
  "expire_boot env entry m = (case entry of (gg, b) \<Rightarrow>
     if bt_cancelTime b < mg_time env
     then res_bind (SetVoteKick gg False (announce_boot env (b\<lparr>bt_inProgress := False\<rparr>) m)) (\<lambda>m1.
            Inr (m1\<lparr>BootsStore := om_erase gg (BootsStore m1)\<rparr>))
     else Inr m)"

text \<open>
  An answer. Reading the vote creates it, as a refusal, for a player that had none. The counters are bytes. The result
  says whether the vote is over, and if so whether the victim goes; \<^verbatim>\<open>UpdateBoot\<close> itself is in the next theory.
\<close>

definition count_votes :: "(ObjectGuid \<times> LfgAnswer) list \<Rightarrow> uint8 \<times> uint8" where
  "count_votes votes = fold (\<lambda>(p, v) (n, a). (if v \<noteq> LFG_ANSWER_PENDING then n + 1 else n, if v = LFG_ANSWER_AGREE then a + 1 else a)) votes (0, 0)"

definition record_answer :: "ObjectGuid \<Rightarrow> bool \<Rightarrow> player_boot \<Rightarrow> bool \<times> player_boot" where
  "record_answer g accept b =
     (case map_of (bt_votes b) g of
        None \<Rightarrow> (False, b\<lparr>bt_votes := om_set g LFG_ANSWER_DENY (bt_votes b)\<rparr>)
      | Some v \<Rightarrow> if v \<noteq> LFG_ANSWER_PENDING then (False, b)
          else (True, b\<lparr>bt_votes := om_set g (if accept then LFG_ANSWER_AGREE else LFG_ANSWER_DENY) (bt_votes b)\<rparr>))"

definition vote_open :: "player_boot \<Rightarrow> bool" where
  "vote_open b = (case count_votes (bt_votes b) of (votesNum, agreeNum) \<Rightarrow>
     agreeNum < LFG_GROUP_KICK_VOTES_NEEDED \<and> unat votesNum - unat agreeNum < unat LFG_GROUP_KICK_VOTES_NEEDED)"

definition vote_passed :: "player_boot \<Rightarrow> bool" where
  "vote_passed b \<longleftrightarrow> snd (count_votes (bt_votes b)) = LFG_GROUP_KICK_VOTES_NEEDED"

end
