(* ===== verification/Party_Rolls.thy ===== *)
theory Party_Rolls
  imports Party
begin

text \<open>
  Loot rolls of a party (\<^verbatim>\<open>Group::GroupLoot\<close>, \<^verbatim>\<open>CountRollVote\<close>, \<^verbatim>\<open>EndRoll\<close> and \<^verbatim>\<open>CountTheRoll\<close> of
  \<^verbatim>\<open>src/src/server/game/Groups/Group.cpp\<close>). The loot objects are the map \<^verbatim>\<open>gr_loots\<close>; a roll whose loot is gone is
  invalid. The dice are the stream \<^verbatim>\<open>urand100\<close>, read at the position \<^verbatim>\<open>gr_rand\<close>. An access outside of the items
  of a loot is the error \<^const>\<open>OutOfBounds\<close>; \<^verbatim>\<open>EndRoll\<close>, which may loop for ever, is a partial function.
\<close>

section \<open>Packets\<close>

definition SendToRolling :: "party_env \<Rightarrow> party_msg \<Rightarrow> roll \<Rightarrow> party \<Rightarrow> party" where
  "SendToRolling env msg r g =
     emit_all (map (\<lambda>(p, v). Send p msg) (filter (\<lambda>(p, v). connected_player env p \<and> v \<noteq> NOT_VALID) (ro_playerVote r))) g"

definition SendLootRoll :: "party_env \<Rightarrow> ObjectGuid \<Rightarrow> int \<Rightarrow> RollVote \<Rightarrow> roll \<Rightarrow> party \<Rightarrow> party" where
  "SendLootRoll env p number vote r = SendToRolling env (LootRollBroadcast p number vote) r"

definition SendLootRollWon :: "party_env \<Rightarrow> ObjectGuid \<Rightarrow> uint8 \<Rightarrow> RollVote \<Rightarrow> roll \<Rightarrow> party \<Rightarrow> party" where
  "SendLootRollWon env p number vote r = SendToRolling env (LootRollWon p number vote) r"

definition SendLootAllPassed :: "party_env \<Rightarrow> roll \<Rightarrow> party \<Rightarrow> party" where
  "SendLootAllPassed env r = SendToRolling env (LootAllPassed (ro_loot r) (ro_itemSlot r)) r"

definition SendLootRollsComplete :: "party_env \<Rightarrow> roll \<Rightarrow> party \<Rightarrow> party" where
  "SendLootRollsComplete env r = SendToRolling env (LootRollsComplete (ro_loot r) (ro_itemSlot r + 1)) r"

definition SendLootStartRollToPlayer :: "party_env \<Rightarrow> ObjectGuid \<Rightarrow> roll \<Rightarrow> party \<Rightarrow> party" where
  "SendLootStartRollToPlayer env p r g =
     (let valid1 = (if can_need env (ro_itemid r) p then ro_rollVoteMask r else ro_rollVoteMask r AND NOT 2);
          valid2 = (case disenchant_id env (ro_itemid r) p of None \<Rightarrow> valid1
            | Some (i, skill) \<Rightarrow> if skill \<le> gr_maxEnchantingLevel g then valid1 OR 8 else valid1)
      in emit (Send p (StartLootRoll (ro_loot r) (ro_itemSlot r) valid2)) g)"

section \<open>The item of a roll\<close>

definition with_item :: "roll \<Rightarrow> (loot_item \<Rightarrow> loot_item) \<Rightarrow> loot \<Rightarrow> fault + loot" where
  "with_item r f l =
     (let slot = unat (ro_itemSlot r); n = length (lo_items l) in
      if slot < n then Inr (l\<lparr>lo_items := (lo_items l)[slot := f (lo_items l ! slot)]\<rparr>)
      else if slot - n < length (lo_questItems l)
      then Inr (l\<lparr>lo_questItems := (lo_questItems l)[slot - n := f (lo_questItems l ! (slot - n))]\<rparr>)
      else Inl OutOfBounds)"

definition on_loot :: "roll \<Rightarrow> (loot \<Rightarrow> fault + loot) \<Rightarrow> party \<Rightarrow> fault + party" where
  "on_loot r f g = (case gr_loots g (ro_loot r) of None \<Rightarrow> Inl NullPointer
     | Some l \<Rightarrow> res_bind (f l) (\<lambda>l'. Inr (g\<lparr>gr_loots := (gr_loots g)(ro_loot r \<mapsto> l')\<rparr>)))"

text \<open>The item has found its owner: it is looted, and the others are told.\<close>

definition take_item :: "roll \<Rightarrow> party \<Rightarrow> fault + party" where
  "take_item r g = res_bind (on_loot r (with_item r (\<lambda>i. i\<lparr>li_looted := True\<rparr>)) g) (\<lambda>g1.
     on_loot r (\<lambda>l. Inr (l\<lparr>lo_unlootedCount := lo_unlootedCount l - 1\<rparr>)) (emit (NotifyItemRemoved (ro_loot r) (ro_itemSlot r)) g1))"

definition unblock_item :: "roll \<Rightarrow> party \<Rightarrow> fault + party" where
  "unblock_item r g = on_loot r (with_item r (\<lambda>i. i\<lparr>li_blocked := False\<rparr>)) g"

definition give_item :: "party_env \<Rightarrow> ObjectGuid \<Rightarrow> roll \<Rightarrow> party \<Rightarrow> fault + party" where
  "give_item env p r g =
     (if can_store_new env p (ro_itemid r)
      then res_bind (take_item r g) (\<lambda>g1. Inr (emit (StoreNewItem p (ro_itemid r)) g1))
      else res_bind (unblock_item r g) (\<lambda>g1. Inr (emit (Send p (EquipError (ro_itemid r))) g1)))"

section \<open>The dice\<close>

record throw =
  th_guid :: ObjectGuid
  th_result :: uint8
  th_vote :: RollVote

definition throw_die :: "party_env \<Rightarrow> (RollVote \<Rightarrow> bool) \<Rightarrow> roll \<Rightarrow> ObjectGuid \<times> RollVote \<Rightarrow> throw \<times> party \<Rightarrow> throw \<times> party" where
  "throw_die env takes_part r pv tg = (case pv of (p, v) \<Rightarrow> case tg of (t, g) \<Rightarrow>
     if \<not> takes_part v then (t, g)
     else let n = urand100 env (gr_rand g);
              g1 = SendLootRoll env p (uint n) v r (g\<lparr>gr_rand := Suc (gr_rand g)\<rparr>)
          in (if th_result t < n then \<lparr>th_guid = p, th_result = n, th_vote = v\<rparr> else t, g1))"

definition throw_dice :: "party_env \<Rightarrow> (RollVote \<Rightarrow> bool) \<Rightarrow> roll \<Rightarrow> party \<Rightarrow> throw \<times> party" where
  "throw_dice env takes_part r g =
     fold (throw_die env takes_part r) (ro_playerVote r) (\<lparr>th_guid = fst (hd (ro_playerVote r)), th_result = 0, th_vote = NOT_VALID\<rparr>, g)"

definition is_greed :: "RollVote \<Rightarrow> bool" where
  "is_greed v \<longleftrightarrow> v = GREED \<or> v = DISENCHANT"

definition erase_roll :: "nat \<Rightarrow> party \<Rightarrow> party" where
  "erase_roll i g = g\<lparr>gr_rolls := take i (gr_rolls g) @ drop (Suc i) (gr_rolls g)\<rparr>"

section \<open>Counting a roll\<close>

definition need_roll :: "party_env \<Rightarrow> roll \<Rightarrow> party \<Rightarrow> fault + party" where
  "need_roll env r g = (if ro_playerVote r = [] then Inr g
     else case throw_dice env (\<lambda>v. v = NEED) r g of (t, g1) \<Rightarrow>
       let g2 = SendLootRollWon env (th_guid t) (th_result t) NEED r g1
       in if connected_player env (th_guid t) then give_item env (th_guid t) r g2 else Inr g2)"

text \<open>A winner who asked for the disenchanted item; the flag tells whether the function goes on behind it.\<close>

definition disenchant_roll :: "party_env \<Rightarrow> ObjectGuid \<Rightarrow> roll \<Rightarrow> party \<Rightarrow> fault + bool \<times> party" where
  "disenchant_roll env p r g = res_bind (take_item r g) (\<lambda>g1.
     case disenchant_id env (ro_itemid r) p of None \<Rightarrow> Inr (False, g1)
     | Some (i, skill) \<Rightarrow> Inr (True, emit (StoreDisenchanted p i (can_store_new env p (ro_itemid r))) g1))"

definition greed_roll :: "party_env \<Rightarrow> roll \<Rightarrow> party \<Rightarrow> fault + bool \<times> party" where
  "greed_roll env r g = (if ro_playerVote r = [] then Inr (True, g)
     else case throw_dice env is_greed r g of (t, g1) \<Rightarrow>
       let g2 = SendLootRollWon env (th_guid t) (th_result t) (th_vote t) r g1
       in if \<not> connected_player env (th_guid t) then Inr (True, g2)
          else if th_vote t = GREED then res_bind (give_item env (th_guid t) r g2) (\<lambda>g3. Inr (True, g3))
          else if th_vote t = DISENCHANT then disenchant_roll env (th_guid t) r g2
          else Inr (True, g2))"

definition CountTheRoll :: "party_env \<Rightarrow> nat \<Rightarrow> party \<Rightarrow> fault + party" where
  "CountTheRoll env i g =
     (let r = gr_rolls g ! i; finish = (\<lambda>g. Inr (erase_roll i (SendLootRollsComplete env r g))) in
      if gr_loots g (ro_loot r) = None then Inr (erase_roll i g)
      else if 0 < ro_totalNeed r then res_bind (need_roll env r g) finish
      else if 0 < ro_totalGreed r then res_bind (greed_roll env r g) (\<lambda>(goes_on, g1). if goes_on then finish g1 else Inr g1)
      else res_bind (unblock_item r (SendLootAllPassed env r g)) finish)"

definition all_voted :: "roll \<Rightarrow> bool" where
  "all_voted r \<longleftrightarrow> unat (ro_totalPlayersRolling r) \<le> unat (ro_totalPass r) + unat (ro_totalNeed r) + unat (ro_totalGreed r)"

definition GetRoll :: "ObjectGuid \<Rightarrow> uint8 \<Rightarrow> party \<Rightarrow> nat option" where
  "GetRoll lootGuid lootListId g =
     find (\<lambda>i. let r = gr_rolls g ! i in gr_loots g (ro_loot r) \<noteq> None \<and> ro_loot r = lootGuid \<and> ro_itemSlot r = lootListId)
       [0..<length (gr_rolls g)]"

datatype roll_choice = ROLL_PASS | ROLL_NEED | ROLL_GREED | ROLL_DISENCHANT | ROLL_OTHER uint8

definition cast_vote :: "party_env \<Rightarrow> ObjectGuid \<Rightarrow> roll_choice \<Rightarrow> roll \<Rightarrow> party \<Rightarrow> roll \<times> party" where
  "cast_vote env p choice r g =
     (let record_vote = (\<lambda>v r. r\<lparr>ro_playerVote := om_adjust p (\<lambda>_. v) (ro_playerVote r)\<rparr>) in
      case choice of
        ROLL_PASS \<Rightarrow> (record_vote PASS (r\<lparr>ro_totalPass := ro_totalPass r + 1\<rparr>), SendLootRoll env p (- 1) PASS r g)
      | ROLL_NEED \<Rightarrow> (record_vote NEED (r\<lparr>ro_totalNeed := ro_totalNeed r + 1\<rparr>), SendLootRoll env p 0 NEED r g)
      | ROLL_GREED \<Rightarrow> (record_vote GREED (r\<lparr>ro_totalGreed := ro_totalGreed r + 1\<rparr>), SendLootRoll env p (- 7) GREED r g)
      | ROLL_DISENCHANT \<Rightarrow> (record_vote DISENCHANT (r\<lparr>ro_totalGreed := ro_totalGreed r + 1\<rparr>), SendLootRoll env p (- 8) DISENCHANT r g)
      | ROLL_OTHER n \<Rightarrow> (r, g))"

definition CountRollVote :: "party_env \<Rightarrow> ObjectGuid \<Rightarrow> ObjectGuid \<Rightarrow> uint8 \<Rightarrow> roll_choice \<Rightarrow> party \<Rightarrow> fault + party" where
  "CountRollVote env p lootGuid lootListId choice g = (case GetRoll lootGuid lootListId g of None \<Rightarrow> Inr g | Some i \<Rightarrow>
     let r = gr_rolls g ! i in
     if map_of (ro_playerVote r) p = None then Inr g
     else if (case gr_loots g (ro_loot r) of None \<Rightarrow> False | Some l \<Rightarrow> lo_items l = []) then Inr g
     else case cast_vote env p choice r g of (r1, g1) \<Rightarrow>
       let g2 = g1\<lparr>gr_rolls := (gr_rolls g1)[i := r1]\<rparr>
       in if all_voted r1 then CountTheRoll env i g2 else Inr g2)"

text \<open>The timer of a loot has run out: its rolls are counted; behind each the search starts anew.\<close>

definition roll_of_loot :: "ObjectGuid \<Rightarrow> party \<Rightarrow> nat option" where
  "roll_of_loot lootGuid g =
     find (\<lambda>i. ro_loot (gr_rolls g ! i) = lootGuid \<and> gr_loots g lootGuid \<noteq> None) [0..<length (gr_rolls g)]"

partial_function (option) EndRoll :: "party_env \<Rightarrow> ObjectGuid \<Rightarrow> party \<Rightarrow> (fault + party) option" where
  [code]: "EndRoll env lootGuid g = (case roll_of_loot lootGuid g of None \<Rightarrow> Some (Inr g)
     | Some i \<Rightarrow> (case CountTheRoll env i g of Inl e \<Rightarrow> Some (Inl e) | Inr g1 \<Rightarrow> EndRoll env lootGuid g1))"

section \<open>Starting rolls\<close>

definition Roll :: "ObjectGuid \<Rightarrow> loot_item \<Rightarrow> roll" where
  "Roll lootGuid i = \<lparr>ro_itemid = li_itemid i, ro_loot = lootGuid, ro_playerVote = [], ro_totalPlayersRolling = 0,
     ro_totalNeed = 0, ro_totalGreed = 0, ro_totalPass = 0, ro_itemSlot = 0, ro_rollVoteMask = 7\<rparr>"

definition enter_roll :: "party_env \<Rightarrow> bool \<Rightarrow> ObjectGuid \<Rightarrow> roll \<Rightarrow> roll" where
  "enter_roll env may_pass p r =
     (if allowed_item env (ro_itemid r) p \<and> reward_distance env p
      then let r1 = r\<lparr>ro_totalPlayersRolling := ro_totalPlayersRolling r + 1\<rparr>
           in if may_pass \<and> pass_on_loot env p
              then r1\<lparr>ro_playerVote := om_set p PASS (ro_playerVote r1), ro_totalPass := ro_totalPass r1 + 1\<rparr>
              else r1\<lparr>ro_playerVote := om_set p NOT_EMITED_YET (ro_playerVote r1)\<rparr>
      else r)"

text \<open>Those who pass by their settings are broadcast, the others are asked.\<close>

definition announce_roll :: "party_env \<Rightarrow> roll \<Rightarrow> party \<Rightarrow> party" where
  "announce_roll env r g =
     fold (\<lambda>(p, v) g. if \<not> connected_player env p then g
                      else if v = PASS then SendLootRoll env p (- 1) PASS r g else SendLootStartRollToPlayer env p r g)
       (ro_playerVote r) g"

definition start_roll :: "party_env \<Rightarrow> ObjectGuid \<Rightarrow> bool \<Rightarrow> uint8 \<Rightarrow> loot_item \<Rightarrow> party \<Rightarrow> fault + party" where
  "start_roll env lootGuid ordinary slot i g =
     (let r = fold (enter_roll env ordinary) (gr_links g) (Roll lootGuid i) in
      if ro_totalPlayersRolling r = 0 then Inr g
      else let r1 = r\<lparr>ro_itemSlot := slot,
                      ro_rollVoteMask := if ordinary \<and> only_greed env (li_itemid i) then ro_rollVoteMask r AND NOT 2 else ro_rollVoteMask r\<rparr>
           in res_bind (on_loot r1 (with_item r1 (\<lambda>i. i\<lparr>li_blocked := True\<rparr>)) g) (\<lambda>g1.
              let g2 = announce_roll env r1 g1 in Inr (g2\<lparr>gr_rolls := gr_rolls g2 @ [r1]\<rparr>)))"

definition roll_item :: "party_env \<Rightarrow> ObjectGuid \<Rightarrow> nat \<times> loot_item \<Rightarrow> party \<Rightarrow> fault + party" where
  "roll_item env lootGuid si g = (case si of (slot, i) \<Rightarrow>
     if li_freeforall i then Inr g
     else case item_quality env (li_itemid i) of None \<Rightarrow> Inl AssertionFailed
     | Some q \<Rightarrow> if ucast (gr_lootThreshold g) \<le> q then start_roll env lootGuid True (of_nat slot) i g
         else on_loot ((Roll lootGuid i)\<lparr>ro_itemSlot := of_nat slot\<rparr>)
                (with_item ((Roll lootGuid i)\<lparr>ro_itemSlot := of_nat slot\<rparr>) (\<lambda>i. i\<lparr>li_underthreshold := True\<rparr>)) g)"

definition roll_quest_item :: "party_env \<Rightarrow> ObjectGuid \<Rightarrow> nat \<times> loot_item \<Rightarrow> party \<Rightarrow> fault + party" where
  "roll_quest_item env lootGuid si g = (case si of (slot, i) \<Rightarrow>
     if \<not> li_followLootRules i then Inr g else start_roll env lootGuid False (of_nat slot) i g)"

definition GroupLoot :: "party_env \<Rightarrow> ObjectGuid \<Rightarrow> party \<Rightarrow> fault + party" where
  "GroupLoot env lootGuid g = (case gr_loots g lootGuid of None \<Rightarrow> Inl NullPointer
     | Some l \<Rightarrow> res_bind (forE (roll_item env lootGuid) (zip [0..<length (lo_items l)] (lo_items l)) g)
         (forE (roll_quest_item env lootGuid) (zip [length (lo_items l)..<length (lo_items l) + length (lo_questItems l)] (lo_questItems l))))"

end
