(* ===== verification/Party_Members.thy ===== *)
theory Party_Members
  imports Party_Rolls
begin

text \<open>
  Who belongs to a party: creation, joining, leaving, change of the leader, raids and disbanding
  (\<^verbatim>\<open>src/src/server/game/Groups/Group.cpp\<close>), the loading of a stored group, and the handlers of the client messages
  (\<^verbatim>\<open>src/src/server/game/Handlers/GroupHandler.cpp\<close>). A write through an iterator or counter that lies outside of its
  container is an error. Buffs, teleports home and the packets about fields of members are left out.
\<close>

section \<open>Kinds of groups\<close>

definition store_type :: "party \<Rightarrow> party" where
  "store_type g = unless_bg (CHAR_UPD_GROUP_TYPE (ucast (gr_groupFlags g)) (gr_dbStoreId g)) g"

definition ConvertToLFG :: "party_env \<Rightarrow> party \<Rightarrow> party" where
  "ConvertToLFG env g = SendUpdate env (store_type
     (g\<lparr>gr_groupFlags := gr_groupFlags g OR GROUP_FLAG_LFG OR GROUP_FLAG_LFG_RESTRICTED,
        gr_groupCategory := GROUP_CATEGORY_INSTANCE, gr_lootMethod := GROUP_LOOT\<rparr>))"

definition ConvertToRaid :: "party_env \<Rightarrow> party \<Rightarrow> fault + party" where
  "ConvertToRaid env g =
     res_bind (initRaidSubGroupsCounter (g\<lparr>gr_groupFlags := gr_groupFlags g OR GROUP_FLAG_RAID\<rparr>))
       (\<lambda>g1. Inr (SendUpdate env (store_type g1)))"

definition ConvertToGroup :: "party_env \<Rightarrow> party \<Rightarrow> party" where
  "ConvertToGroup env g = (if 5 < length (gr_memberSlots g) then g
     else SendUpdate env (store_type (g\<lparr>gr_groupFlags := GROUP_FLAG_NONE, gr_subGroupsCounts := None\<rparr>)))"

definition HandleConvertRaidOpcode :: "party_env \<Rightarrow> ObjectGuid \<Rightarrow> bool \<Rightarrow> party \<Rightarrow> fault + party" where
  "HandleConvertRaidOpcode env sender raid g =
     (if \<not> IsLeader sender g \<or> GetMembersCount g < 2 then Inr g
      else if raid then ConvertToRaid env g else Inr (ConvertToGroup env g))"

section \<open>Joining\<close>

text \<open>The first subgroup with a free place; a party that is no raid has only the first one.\<close>

definition free_subgroup :: "party \<Rightarrow> nat option" where
  "free_subgroup g = (case gr_subGroupsCounts g of None \<Rightarrow> Some 0
     | Some c \<Rightarrow> find (\<lambda>i. unat (c ! i) < MAX_GROUP_SIZE) [0..<MAX_RAID_SUBGROUPS])"

definition new_slot :: "party_env \<Rightarrow> ObjectGuid \<Rightarrow> nat \<Rightarrow> member_slot" where
  "new_slot env p sub = \<lparr>ms_guid = p, ms_name = player_name env p, ms_class = player_class env p, ms_group = of_nat sub,
     ms_flags = 0, ms_roles = 0, ms_readyChecked = False\<rparr>"

definition AddMember :: "party_env \<Rightarrow> ObjectGuid \<Rightarrow> party \<Rightarrow> fault + bool \<times> party" where
  "AddMember env p g = (case free_subgroup g of None \<Rightarrow> Inr (False, g)
     | Some sub \<Rightarrow> res_bind (SubGroupCounterIncrease (of_nat sub) (g\<lparr>gr_memberSlots := gr_memberSlots g @ [new_slot env p sub]\<rparr>)) (\<lambda>g1.
         let g2 = g1\<lparr>gr_links := p # gr_links g1\<rparr>;
             g3 = (if \<not> isRaidGroup g2 then g2\<lparr>gr_targetIcons := replicate TARGET_ICONS_COUNT GuidEmpty\<rparr> else g2);
             g4 = unless_bg (CHAR_INS_GROUP_MEMBER (gr_dbStoreId g3) (GetCounter p) 0 (of_nat sub) 0) g3;
             g5 = emit (OnGroupAddMember p) (SendUpdate env g4)
         in Inr (True, if gr_maxEnchantingLevel g5 < enchanting env p then g5\<lparr>gr_maxEnchantingLevel := enchanting env p\<rparr> else g5)))"

definition Create :: "party_env \<Rightarrow> ObjectGuid \<Rightarrow> party \<Rightarrow> fault + bool \<times> party" where
  "Create env leader g =
     (let g1 = g\<lparr>gr_guid := new_group_guid env, gr_leaderGuid := leader, gr_leaderName := player_name env leader\<rparr>;
          g2 = (if isBGGroup g1 \<or> isBFGroup g1 then g1\<lparr>gr_groupFlags := GROUP_MASK_BGRAID, gr_groupCategory := GROUP_CATEGORY_INSTANCE\<rparr> else g1)
      in res_bind (if isRaidGroup g2 then initRaidSubGroupsCounter g2 else Inr g2) (\<lambda>g3.
         let g4 = (if \<not> isLFGGroup g3 then g3\<lparr>gr_lootMethod := GROUP_LOOT\<rparr> else g3);
             g5 = g4\<lparr>gr_lootThreshold := 2, gr_looterGuid := leader, gr_masterLooterGuid := GuidEmpty\<rparr>
         in if \<not> isBGGroup g5 \<and> \<not> isBFGroup g5
            then let g6 = g5\<lparr>gr_dbStoreId := new_db_store_id env\<rparr>;
                     g7 = emit (Stmt (CHAR_INS_GROUP (gr_dbStoreId g6) (GetCounter (gr_leaderGuid g6)) (gr_lootMethod g6)
                            (GetCounter (gr_looterGuid g6)) (gr_lootThreshold g6) (map GetRawValue (gr_targetIcons g6))
                            (ucast (gr_groupFlags g6)) (GetCounter (gr_masterLooterGuid g6)))) g6
                 in res_bind (AddMember env leader g7) (\<lambda>(ok, g8). if ok then Inr (True, g8) else Inl AssertionFailed)
            else AddMember env leader g5))"

text \<open>
  The end of the handler of an invitation, behind the checks of names, factions, instances and ignore lists: the
  group of the sender takes the invitation, or a new group is made for it, which is gone again when somebody has
  another invitation.
\<close>

definition HandlePartyInviteOpcode :: "party_env \<Rightarrow> ObjectGuid \<Rightarrow> ObjectGuid \<Rightarrow> party option \<Rightarrow> party option" where
  "HandlePartyInviteOpcode env sender target group_of_sender = (case group_of_sender of
     Some g \<Rightarrow> if \<not> IsLeader sender g \<and> \<not> IsAssistant sender g then Some g
               else if IsFull g then Some g else Some (snd (AddInvite env target g))
   | None \<Rightarrow> (case AddLeaderInvite env sender Group of (False, g) \<Rightarrow> None
       | (True, g) \<Rightarrow> (case AddInvite env target g of (False, g1) \<Rightarrow> None | (True, g1) \<Rightarrow> Some g1)))"

definition HandlePartyInviteResponseOpcode :: "party_env \<Rightarrow> ObjectGuid \<Rightarrow> party \<Rightarrow> fault + party" where
  "HandlePartyInviteResponseOpcode env p g =
     (let g1 = RemoveInvite p g; leader = gr_leaderGuid g1 in
      if leader = p then Inr g1
      else if IsFull g1 then Inr g1
      else if IsCreated g1 then res_bind (AddMember env p g1) (\<lambda>(ok, g2). Inr g2)
      else if \<not> in_world env leader then Inr (RemoveAllInvites g1)
      else res_bind (Create env leader (RemoveInvite leader g1)) (\<lambda>(ok, g2).
           res_bind (AddMember env p g2) (\<lambda>(ok, g3). Inr g3)))"

section \<open>Leading\<close>

definition ChangeLeader :: "party_env \<Rightarrow> ObjectGuid \<Rightarrow> int \<Rightarrow> party \<Rightarrow> party" where
  "ChangeLeader env p partyIndex g =
     (if getMemberSlot p g = None \<or> \<not> connected_player env p then g
      else let g1 = emit (OnGroupChangeLeader p (gr_leaderGuid g)) g;
               g2 = unless_bg (CHAR_UPD_GROUP_LEADER (GetCounter p) (gr_dbStoreId g1)) g1;
               g3 = set_slot p (ToggleGroupMemberFlag MEMBER_FLAG_ASSISTANT False) (g2\<lparr>gr_leaderGuid := p, gr_leaderName := player_name env p\<rparr>)
           in BroadcastPacket env (GroupNewLeader (gr_leaderName g3) partyIndex) True g3)"

definition HandleSetPartyLeaderOpcode :: "party_env \<Rightarrow> ObjectGuid \<Rightarrow> ObjectGuid \<Rightarrow> int \<Rightarrow> party \<Rightarrow> party" where
  "HandleSetPartyLeaderOpcode env sender target partyIndex g =
     (if \<not> connected_player env target then g
      else if \<not> IsLeader sender g \<or> \<not> current_group env target then g
      else SendUpdate env (ChangeLeader env target partyIndex g))"

section \<open>Leaving\<close>

definition Disband :: "party_env \<Rightarrow> bool \<Rightarrow> party \<Rightarrow> party" where
  "Disband env hideDestroy g =
     (let g1 = emit OnGroupDisband g;
          gone = filter (connected_player env) (map ms_guid (gr_memberSlots g1));
          g2 = fold (\<lambda>p g. SendUpdateDestroyGroupToPlayer p
                 ((if hideDestroy then id else emit (Send p GroupDestroyed)) (g\<lparr>gr_links := remove1 p (gr_links g)\<rparr>))) gone g1;
          g3 = RemoveAllInvites (g2\<lparr>gr_rolls := [], gr_memberSlots := []\<rparr>);
          g4 = (if \<not> isBGGroup g3 \<and> \<not> isBFGroup g3
                then emit_all [Stmt (CHAR_DEL_GROUP (gr_dbStoreId g3)), Stmt (CHAR_DEL_GROUP_MEMBER_ALL (gr_dbStoreId g3)),
                       Stmt (CHAR_DEL_LFG_DATA (gr_dbStoreId g3))] g3
                else g3)
      in g4\<lparr>gr_deleted := True\<rparr>)"

text \<open>The vote of a leaving member is taken out of a roll.\<close>

definition withdraw_vote :: "ObjectGuid \<Rightarrow> RollVote \<Rightarrow> roll \<Rightarrow> roll" where
  "withdraw_vote p v r =
     (let r1 = (if v = GREED \<or> v = DISENCHANT then r\<lparr>ro_totalGreed := ro_totalGreed r - 1\<rparr>
                else if v = NEED then r\<lparr>ro_totalNeed := ro_totalNeed r - 1\<rparr>
                else if v = PASS then r\<lparr>ro_totalPass := ro_totalPass r - 1\<rparr> else r);
          r2 = (if v \<noteq> NOT_VALID then r1\<lparr>ro_totalPlayersRolling := ro_totalPlayersRolling r1 - 1\<rparr> else r1)
      in r2\<lparr>ro_playerVote := om_erase p (ro_playerVote r2)\<rparr>)"

lemma CountTheRoll_rolls:
  assumes "CountTheRoll env i g = Inr g'" "i < length (gr_rolls g)"
  shows "gr_rolls g' = gr_rolls g \<or> gr_rolls g' = take i (gr_rolls g) @ drop (Suc i) (gr_rolls g)"
proof -
  have out [simp]: "gr_rolls (emit e g) = gr_rolls g" "gr_rolls (SendToRolling env m r g) = gr_rolls g" for e m r g
    by (simp_all add: emit_def SendToRolling_def emit_all_def)
  have loot: "on_loot r f g = Inr g' \<Longrightarrow> gr_rolls g' = gr_rolls g" for r f g g'
    by (auto simp: on_loot_def res_bind_eq_Inr split: option.splits)
  have take: "take_item r g = Inr g' \<Longrightarrow> gr_rolls g' = gr_rolls g" for r g g'
    by (auto simp: take_item_def res_bind_eq_Inr dest!: loot)
  have give: "give_item env p r g = Inr g' \<Longrightarrow> gr_rolls g' = gr_rolls g" for p r g g'
    by (auto simp: give_item_def unblock_item_def res_bind_eq_Inr split: if_splits dest!: loot take)
  have die: "gr_rolls (snd (fold (throw_die env P r) xs tg)) = gr_rolls (snd tg)" for P r xs tg
    by (induction xs arbitrary: tg) (auto simp: throw_die_def Let_def SendLootRoll_def split: prod.splits)
  have dice: "throw_dice env P r g = (t, g1) \<Longrightarrow> gr_rolls g1 = gr_rolls g" for P r g t g1
    using die [of P r "ro_playerVote r" "(\<lparr>th_guid = fst (hd (ro_playerVote r)), th_result = 0, th_vote = NOT_VALID\<rparr>, g)"]
    by (auto simp: throw_dice_def)
  have need: "need_roll env r g = Inr g' \<Longrightarrow> gr_rolls g' = gr_rolls g" for r g g'
    by (auto simp: need_roll_def Let_def SendLootRollWon_def split: if_splits prod.splits dest!: give dice)
  have greed: "greed_roll env r g = Inr bg \<Longrightarrow> gr_rolls (snd bg) = gr_rolls g" for r g bg
    by (auto simp: greed_roll_def disenchant_roll_def Let_def SendLootRollWon_def res_bind_eq_Inr
        split: if_splits prod.splits option.splits dest!: give take dice)
  show ?thesis
    using assms(1)
    by (auto simp: CountTheRoll_def Let_def res_bind_eq_Inr erase_roll_def SendLootRollsComplete_def SendLootAllPassed_def
        unblock_item_def split: if_splits prod.splits dest!: need greed loot)
qed

text \<open>
  The loop over the rolls. Behind a counted roll the iterator is set to the beginning and then advanced, so that an
  empty list of rolls is left behind its end.
\<close>

function leave_rolls :: "party_env \<Rightarrow> ObjectGuid \<Rightarrow> nat \<Rightarrow> party \<Rightarrow> fault + party" where
  "leave_rolls env p i g =
     (if i = length (gr_rolls g) then Inr g
      else if length (gr_rolls g) < i then Inl OutOfBounds
      else let r = gr_rolls g ! i in case map_of (ro_playerVote r) p of None \<Rightarrow> leave_rolls env p (Suc i) g
      | Some v \<Rightarrow>
          let r1 = withdraw_vote p v r; g1 = g\<lparr>gr_rolls := (gr_rolls g)[i := r1]\<rparr>
          in if all_voted r1 then (case CountTheRoll env i g1 of Inl e \<Rightarrow> Inl e | Inr g2 \<Rightarrow> leave_rolls env p 1 g2)
             else leave_rolls env p (Suc i) g1)"
  by pat_completeness auto

definition rolls_with :: "ObjectGuid \<Rightarrow> roll list \<Rightarrow> nat" where
  "rolls_with p rs = length (filter (\<lambda>r. map_of (ro_playerVote r) p \<noteq> None) rs)"

lemma rolls_with_split:
  assumes "i < length rs"
  shows "rolls_with p rs = rolls_with p (take i rs) + rolls_with p [rs ! i] + rolls_with p (drop (Suc i) rs)"
proof -
  have "rolls_with p (take i rs @ rs ! i # drop (Suc i) rs) = rolls_with p (take i rs) + rolls_with p [rs ! i] + rolls_with p (drop (Suc i) rs)"
    by (simp add: rolls_with_def)
  then show ?thesis by (simp add: id_take_nth_drop [OF assms, symmetric])
qed

lemma rolls_with_append: "rolls_with p (xs @ ys) = rolls_with p xs + rolls_with p ys"
  by (simp add: rolls_with_def)

lemma rolls_with_update:
  assumes "i < length rs" "map_of (ro_playerVote (rs ! i)) p \<noteq> None" "map_of (ro_playerVote r) p = None"
  shows "rolls_with p (rs[i := r]) < rolls_with p rs"
proof -
  have "rolls_with p (rs[i := r]) = rolls_with p (take i rs) + rolls_with p (drop (Suc i) rs)"
    using assms(1,3) by (simp add: upd_conv_take_nth_drop rolls_with_def)
  moreover have "rolls_with p [rs ! i] = 1" using assms(2) by (simp add: rolls_with_def)
  ultimately show ?thesis using rolls_with_split [OF assms(1), of p] by simp
qed

lemma rolls_with_erase: "rolls_with p (take i rs @ drop (Suc i) rs) \<le> rolls_with p rs"
proof (cases "i < length rs")
  case True
  then show ?thesis using rolls_with_split [OF True, of p] by (simp add: rolls_with_append)
qed simp

lemma withdrawn: "map_of (ro_playerVote (withdraw_vote p v r)) p = None"
  by (simp add: withdraw_vote_def Let_def)

termination leave_rolls
proof (relation "measures [\<lambda>(env, p, i, g). rolls_with p (gr_rolls g), \<lambda>(env, p, i, g). length (gr_rolls g) - i]", goal_cases)
  case 1
  show ?case by simp
next
  case (2 env p i g r)
  then show ?case by auto
next
  case (3 env p i g r v r1 g1 g2)
  have less: "rolls_with p (gr_rolls g1) < rolls_with p (gr_rolls g)"
    unfolding 3(6) using rolls_with_update [of i "gr_rolls g" p r1] 3 withdrawn by simp
  have "rolls_with p (gr_rolls g2) \<le> rolls_with p (gr_rolls g1)"
    using CountTheRoll_rolls [OF 3(8)] 3 rolls_with_erase [of p i "gr_rolls g1"] by auto
  with less show ?case by simp
next
  case (4 env p i g r v r1 g1)
  then have "rolls_with p (gr_rolls g1) < rolls_with p (gr_rolls g)"
    using rolls_with_update [of i "gr_rolls g" p r1] withdrawn by simp
  then show ?case by simp
qed

declare leave_rolls.simps [simp del]

definition DelinkMember :: "ObjectGuid \<Rightarrow> party \<Rightarrow> party" where
  "DelinkMember p g = g\<lparr>gr_links := remove1 p (gr_links g)\<rparr>"

text \<open>What the leaving player gives up, and its place in the tables; the player itself only when it is online.\<close>

definition unlink_member :: "party_env \<Rightarrow> ObjectGuid \<Rightarrow> RemoveMethod \<Rightarrow> party \<Rightarrow> party" where
  "unlink_member env p method g =
     (let kicked = (method = GROUP_REMOVEMETHOD_KICK \<or> method = GROUP_REMOVEMETHOD_KICK_LFG);
          g1 = (if connected_player env p
                then let g0 = DelinkMember p g in if kicked then emit (Send p GroupUninvite) g0 else g0
                else g);
          g2 = (if \<not> isBGGroup g1 \<and> \<not> isBFGroup g1
                then DelinkMember p (emit (Stmt (CHAR_DEL_GROUP_MEMBER (GetCounter p))) g1) else g1)
      in if \<not> connected_player env p \<or> enchanting env p \<noteq> 0 then ResetMaxEnchantingLevel env g2 else g2)"

definition erase_member :: "ObjectGuid \<Rightarrow> party \<Rightarrow> fault + party" where
  "erase_member p g = (case getMemberSlot p g of None \<Rightarrow> Inr g
     | Some m \<Rightarrow> res_bind (SubGroupCounterDecrease (ms_group m) g) (\<lambda>g1.
         Inr (g1\<lparr>gr_memberSlots := erase_first (\<lambda>m. ms_guid m = p) (gr_memberSlots g1)\<rparr>)))"

definition pick_leader :: "party_env \<Rightarrow> ObjectGuid \<Rightarrow> party \<Rightarrow> party" where
  "pick_leader env p g = (if gr_leaderGuid g \<noteq> p then g
     else case find (\<lambda>m. connected_player env (ms_guid m)) (gr_memberSlots g) of None \<Rightarrow> g
          | Some m \<Rightarrow> ChangeLeader env (ms_guid m) 0 g)"

definition lone_lfg_leaves :: "party_env \<Rightarrow> party \<Rightarrow> bool" where
  "lone_lfg_leaves env g \<longleftrightarrow> isLFGGroup g \<and> GetMembersCount g = 1 \<and>
     (lfg_dungeon_map env = 0 \<or> \<not> connected_player env (gr_leaderGuid g) \<or>
      player_alive env (gr_leaderGuid g) \<and> player_map env (gr_leaderGuid g) \<noteq> lfg_dungeon_map env)"

definition finish_leave :: "party_env \<Rightarrow> ObjectGuid \<Rightarrow> party \<Rightarrow> bool \<times> party" where
  "finish_leave env p g0 =
     (let g = SendUpdate env g0 in
      if lone_lfg_leaves env g then (False, Disband env False g)
      else if length (gr_links g) < (if isLFGGroup g \<or> isBGGroup g then 1 else 2) then (True, Disband env False g)
      else (True, if connected_player env p then SendUpdateDestroyGroupToPlayer p g else g))"

definition RemoveMember :: "party_env \<Rightarrow> ObjectGuid \<Rightarrow> RemoveMethod \<Rightarrow> ObjectGuid \<Rightarrow> party \<Rightarrow> fault + bool \<times> party" where
  "RemoveMember env p method kicker g0 =
     (let g = emit (OnGroupRemoveMember p method kicker) g0 in
      if isLFGGroup g \<and> method = GROUP_REMOVEMETHOD_KICK then Inr (gr_memberSlots g \<noteq> [], g)
      else if GetMembersCount g \<le> (if isBGGroup g \<or> isLFGGroup g \<or> isBFGroup g then 1 else 2) then Inr (False, Disband env False g)
      else res_bind (leave_rolls env p 0 (unlink_member env p method g)) (\<lambda>g1.
           res_bind (erase_member p g1) (\<lambda>g2. Inr (finish_leave env p (pick_leader env p g2)))))"

section \<open>Handlers of members\<close>

text \<open>Declining an invitation; a party that consists of its leader alone is dissolved.\<close>

definition UninviteFromGroup :: "party_env \<Rightarrow> ObjectGuid \<Rightarrow> party \<Rightarrow> party" where
  "UninviteFromGroup env p g =
     (let g1 = RemoveInvite p g in
      if GetMembersCount g1 \<le> 1
      then if IsCreated g1 then Disband env True g1 else (RemoveAllInvites g1)\<lparr>gr_deleted := True\<rparr>
      else g1)"

definition HandleLeaveGroupOpcode :: "party_env \<Rightarrow> ObjectGuid \<Rightarrow> party \<Rightarrow> fault + party" where
  "HandleLeaveGroupOpcode env p g = res_bind (RemoveMember env p GROUP_REMOVEMETHOD_LEAVE GuidEmpty g) (\<lambda>(ok, g1). Inr g1)"

text \<open>For groups of the dungeon finder the permission to kick is the state of its manager, here an argument.\<close>

definition HandlePartyUninviteOpcode :: "party_env \<Rightarrow> bool \<Rightarrow> ObjectGuid \<Rightarrow> ObjectGuid \<Rightarrow> party \<Rightarrow> fault + party" where
  "HandlePartyUninviteOpcode env lfg_allows sender target g =
     (if target = sender then Inr g
      else if (if isLFGGroup g then \<not> lfg_allows else \<not> IsLeader sender g \<and> \<not> IsAssistant sender g \<or> IsLeader target g) then Inr g
      else if IsMember target g then res_bind (RemoveMember env target GROUP_REMOVEMETHOD_KICK sender g) (\<lambda>(ok, g1). Inr g1)
      else case GetInvited target g of Some q \<Rightarrow> Inr (UninviteFromGroup env q g) | None \<Rightarrow> Inr g)"

section \<open>Online and offline\<close>

text \<open>A member that logs in is linked to its group again; the reference of a player ends with the player.\<close>

definition LoadGroup :: "ObjectGuid \<Rightarrow> party \<Rightarrow> party" where
  "LoadGroup p g = g\<lparr>gr_links := p # gr_links g\<rparr>"

text \<open>
  What the tables hold of a group. The names and classes of characters come from the character cache; the guid of a
  character is built from its number and the realm.
\<close>

record group_row =
  rw_leader :: uint64
  rw_lootMethod :: LootMethod
  rw_looter :: uint64
  rw_lootThreshold :: uint8
  rw_icons :: "uint8 list list"
  rw_groupFlags :: uint8
  rw_masterLooter :: uint64
  rw_dbStoreId :: uint32

definition LoadGroupFromDB :: "party_env \<Rightarrow> uint32 \<Rightarrow> (ObjectGuid \<Rightarrow> (string \<times> uint8) option) \<Rightarrow> group_row \<Rightarrow> party \<Rightarrow> fault + party" where
  "LoadGroupFromDB env realm cache row g =
     (let leader = RealmSpecific realm HG_Player (rw_leader row);
          g1 = g\<lparr>gr_dbStoreId := rw_dbStoreId row, gr_guid := new_group_guid env, gr_leaderGuid := leader\<rparr>
      in case cache leader of None \<Rightarrow> Inr g1
      | Some (name, cls) \<Rightarrow>
          if \<not> list_all (\<lambda>raw. length raw = 16) (rw_icons row) then Inl AssertionFailed
          else let g2 = g1\<lparr>gr_leaderName := name, gr_lootMethod := rw_lootMethod row,
                          gr_looterGuid := RealmSpecific realm HG_Player (rw_looter row), gr_lootThreshold := rw_lootThreshold row,
                          gr_targetIcons := map (\<lambda>raw. projr (SetRawValue raw)) (rw_icons row), gr_groupFlags := ucast (rw_groupFlags row)\<rparr>
               in res_bind (if isRaidGroup g2 then initRaidSubGroupsCounter g2 else Inr g2) (\<lambda>g3.
                  Inr (g3\<lparr>gr_masterLooterGuid := RealmSpecific realm HG_Player (rw_masterLooter row)\<rparr>)))"

definition LoadMemberFromDB :: "uint32 \<Rightarrow> (ObjectGuid \<Rightarrow> (string \<times> uint8) option) \<Rightarrow> uint64 \<Rightarrow> uint8 \<Rightarrow> uint8 \<Rightarrow> uint8 \<Rightarrow> party \<Rightarrow> fault + party" where
  "LoadMemberFromDB realm cache low flags sub roles g =
     (let p = RealmSpecific realm HG_Player low in case cache p of
        None \<Rightarrow> Inr (emit (Stmt (CHAR_DEL_GROUP_MEMBER low)) g)
      | Some (name, cls) \<Rightarrow>
          SubGroupCounterIncrease sub (g\<lparr>gr_memberSlots := gr_memberSlots g @
            [\<lparr>ms_guid = p, ms_name = name, ms_class = cls, ms_group = sub, ms_flags = flags, ms_roles = roles, ms_readyChecked = False\<rparr>]\<rparr>))"

end
