(* ===== verification/Lfg_Groups.thy ===== *)
theory Lfg_Groups
  imports Lfg_Requests Party_Members "HOL-Library.Signed_Division"
begin

text \<open>
  The dungeon finder's manager together with the parties of the server: the hooks that parties call
  (\<^verbatim>\<open>src/src/server/game/DungeonFinding/LFGScripts.cpp\<close>), forming a group from an accepted proposal, removing a player
  by vote, teleports and rewards (\<^verbatim>\<open>LFGMgr.cpp\<close>). The world is the manager and the registered parties. An operation on
  a party records the hooks it calls; they are run on the manager behind it. The one hook that an
  operation's course depends on, that of a removal, comes first in the source and is run first.
\<close>

unbundle bit_operations_syntax

record lfg_world =
  lw_mgr :: lfg_mgr
  lw_parties :: "(ObjectGuid \<times> party) list"
  lw_out :: "party_effect list"

section \<open>Teleports and rewards\<close>

definition lfg_dungeon_of :: "party option \<Rightarrow> lfg_mgr \<Rightarrow> dungeon_data option" where
  "lfg_dungeon_of grp m = (case grp of None \<Rightarrow> None
     | Some pt \<Rightarrow> if isLFGGroup pt then GetLFGDungeon (GetDungeon (gr_guid pt) m) m else None)"

text \<open>The loop over the group runs while no map is chosen.\<close>

definition entry_point :: "mgr_env \<Rightarrow> ObjectGuid \<Rightarrow> party \<Rightarrow> bool \<Rightarrow> dungeon_data \<Rightarrow> uint32 \<times> position" where
  "entry_point env p pt fromOpcode d =
     (if \<not> fromOpcode \<and> dg_map d = 0
      then (case find (\<lambda>x. x \<noteq> p \<and> mg_map env x = dg_map d) (gr_links pt) of
              None \<Rightarrow> (dg_map d, dg_pos d) | Some x \<Rightarrow> (mg_map env x, mg_position env x))
      else (dg_map d, dg_pos d))"

definition teleport_obstacle :: "mgr_env \<Rightarrow> ObjectGuid \<Rightarrow> LfgTeleportResult" where
  "teleport_obstacle env p =
     (if \<not> mg_alive env p then LFG_TELEPORT_RESULT_DEAD
      else if mg_falling env p then LFG_TELEPORT_RESULT_FALLING
      else if mg_fatigued env p then LFG_TELEPORT_RESULT_EXHAUSTION
      else if mg_vehicle env p then LFG_TELEPORT_RESULT_ON_TRANSPORT
      else if mg_charming env p then LFG_TELEPORT_RESULT_IMMUNE_TO_SUMMONS
      else if mg_aura env p 9454 then LFG_TELEPORT_RESULT_NO_RETURN_LOCATION
      else LFG_TELEPORT_RESULT_NONE)"

definition teleport_in :: "mgr_env \<Rightarrow> ObjectGuid \<Rightarrow> party \<Rightarrow> bool \<Rightarrow> dungeon_data \<Rightarrow> lfg_mgr \<Rightarrow> LfgTeleportResult \<times> lfg_mgr" where
  "teleport_in env p pt fromOpcode d m =
     (if teleport_obstacle env p \<noteq> LFG_TELEPORT_RESULT_NONE then (teleport_obstacle env p, m)
      else if mg_map env p \<noteq> dg_map d
      then case entry_point env p pt fromOpcode d of (map_id, pos) \<Rightarrow>
             let m1 = (if \<not> mg_map_is_dungeon env p then note_effect (SetEntryPoint p) m else m);
                 m2 = (if mg_in_flight env p then note_effect (EndFlight p) m1 else m1)
             in (if mg_can_teleport env p then LFG_TELEPORT_RESULT_NONE else LFG_TELEPORT_RESULT_NO_RETURN_LOCATION,
                 note_effect (TeleportTo p map_id pos) m2)
      else (LFG_TELEPORT_RESULT_NO_RETURN_LOCATION, m))"

definition TeleportPlayer :: "mgr_env \<Rightarrow> ObjectGuid \<Rightarrow> party option \<Rightarrow> bool \<Rightarrow> bool \<Rightarrow> lfg_mgr \<Rightarrow> lfg_mgr" where
  "TeleportPlayer env p grp leave fromOpcode m =
     (case lfg_dungeon_of grp m of
        None \<Rightarrow> note_effect (SendTeleportError p LFG_TELEPORT_RESULT_NO_RETURN_LOCATION) m
      | Some d \<Rightarrow>
          if leave then (if mg_map env p = dg_map d then note_effect (TeleportToEntryPoint p) m else m)
          else case teleport_in env p (the grp) fromOpcode d m of (err, m1) \<Rightarrow>
                 if err \<noteq> LFG_TELEPORT_RESULT_NONE then note_effect (SendTeleportError p err) m1 else m1)"

text \<open>The reward of one player of a group that finished its dungeon.\<close>

definition give_reward :: "mgr_env \<Rightarrow> ObjectGuid \<Rightarrow> ObjectGuid \<Rightarrow> dungeon_data \<Rightarrow> lfg_reward \<Rightarrow> lfg_mgr \<Rightarrow> lfg_mgr" where
  "give_reward env gg p d rw m =
     (if \<not> mg_quest_exists env (rw_firstQuest rw) then m
      else let first = mg_can_reward env p (rw_firstQuest rw);
               quest = (if first then rw_firstQuest rw else rw_otherQuest rw)
           in if \<not> mg_quest_exists env quest then m
              else note_effect (SendPlayerReward p (Entry d) (GetDungeonEntry gg m) (\<not> first) quest) (note_effect (RewardQuest p quest) m))"

definition reward_player :: "mgr_env \<Rightarrow> ObjectGuid \<Rightarrow> uint32 \<Rightarrow> ObjectGuid \<Rightarrow> lfg_mgr \<Rightarrow> lfg_mgr" where
  "reward_player env gg dungeonId p m =
     (if GetLfgState p m = LFG_STATE_FINISHED_DUNGEON then m
      else let rDungeonId = (case GetSelectedDungeons p m of [] \<Rightarrow> 0 | i # _ \<Rightarrow> i);
               m1 = SetState p LFG_STATE_FINISHED_DUNGEON m
           in case GetLFGDungeon rDungeonId m1 of None \<Rightarrow> m1
              | Some d \<Rightarrow>
                  if dg_type d \<noteq> LFG_TYPE_RANDOM \<and> \<not> dg_seasonal d then m1
                  else if \<not> mg_inWorld env p then m1
                  else if mg_map env p \<noteq> (case GetLFGDungeon dungeonId m1 of None \<Rightarrow> 0 | Some x \<Rightarrow> dg_map x) then m1
                  else let m2 = (if dg_difficulty d = 2 then note_effect (UseLfdCriteria p) m1 else m1)
                       in case GetRandomDungeonReward rDungeonId (mg_level env p) m2 of None \<Rightarrow> m2
                          | Some rw \<Rightarrow> give_reward env gg p d rw m2)"

definition FinishDungeon :: "mgr_env \<Rightarrow> ObjectGuid \<Rightarrow> uint32 \<Rightarrow> lfg_mgr \<Rightarrow> lfg_mgr" where
  "FinishDungeon env gg dungeonId m =
     (if GetDungeon gg m \<noteq> dungeonId then m
      else if GetLfgState gg m = LFG_STATE_FINISHED_DUNGEON then m
      else let m1 = SetState gg LFG_STATE_FINISHED_DUNGEON m
           in fold (reward_player env gg dungeonId) (GetPlayers gg m1) m1)"

section \<open>Hooks\<close>

definition lfg_enabled :: "lfg_mgr \<Rightarrow> bool" where
  "lfg_enabled m \<longleftrightarrow> isOptionEnabled (LFG_OPTION_ENABLE_DUNGEON_FINDER OR LFG_OPTION_ENABLE_RAID_BROWSER) m"

definition OnAddMember :: "mgr_env \<Rightarrow> party \<Rightarrow> ObjectGuid \<Rightarrow> lfg_mgr \<Rightarrow> fault + lfg_mgr" where
  "OnAddMember env pt g m =
     (if \<not> lfg_enabled m then Inr m
      else let gg = gr_guid pt;
               joined = (\<lambda>m'. Inr (AddPlayerToGroup gg g (SetGroup g gg m')))
           in if gr_leaderGuid pt = g then joined (SetLeader gg g m)
              else let gstate = GetLfgState gg m; state = GetLfgState g m
                   in res_bind (if state = LFG_STATE_QUEUED then LeaveLfg env g False m else Inr m) (\<lambda>m1.
                      res_bind (if gstate = LFG_STATE_QUEUED then LeaveLfg env gg False m1 else Inr m1) joined))"

text \<open>What a player who leaves is told and given.\<close>

definition farewell :: "mgr_env \<Rightarrow> party \<Rightarrow> ObjectGuid \<Rightarrow> RemoveMethod \<Rightarrow> LfgState \<Rightarrow> uint8 \<Rightarrow> lfg_mgr \<Rightarrow> lfg_mgr" where
  "farewell env pt g method state players m =
     (if \<not> mg_inWorld env g then m
      else let m1 = (if method = GROUP_REMOVEMETHOD_LEAVE \<and> state = LFG_STATE_DUNGEON \<and> LFG_GROUP_KICK_VOTES_NEEDED \<le> players
                     then note_effect (CastSpell g LFG_SPELL_DUNGEON_DESERTER) m else m);
               m2 = note_effect (SendUpdateStatus g LFG_UPDATETYPE_LEADER_UNK1 LFG_STATE_NONE [] True) m1
           in if isLFGGroup pt \<and> mg_map_is_dungeon env g
              then TeleportPlayer env g (if g \<in> set (gr_links pt) then Some pt else None) True False m2 else m2)"

definition OnRemoveMember :: "mgr_env \<Rightarrow> party \<Rightarrow> ObjectGuid \<Rightarrow> RemoveMethod \<Rightarrow> ObjectGuid \<Rightarrow> string \<Rightarrow> lfg_mgr \<Rightarrow> fault + lfg_mgr" where
  "OnRemoveMember env pt g method kicker reason m =
     (if \<not> lfg_enabled m then Inr m
      else let gg = gr_guid pt; state = GetLfgState gg m
           in if isLFGGroup pt \<and> method = GROUP_REMOVEMETHOD_KICK then InitBoot env gg kicker g reason m
              else if state = LFG_STATE_PROPOSAL \<and> method = GROUP_REMOVEMETHOD_DEFAULT
              then Inr (snd (RemovePlayerFromGroup gg g (SetGroup g GuidEmpty m)))
              else res_bind (LeaveLfg env g False m) (\<lambda>m1.
                   case RemovePlayerFromGroup gg g (SetGroup g GuidEmpty m1) of (players, m2) \<Rightarrow>
                   let m3 = farewell env pt g method state players m2
                   in Inr (if isLFGGroup pt \<and> state \<noteq> LFG_STATE_FINISHED_DUNGEON
                           then tell env (GetLeader gg m3) (SendOfferContinue (GetLeader gg m3) (GetDungeonEntry gg m3)) m3 else m3)))"

definition OnDisband :: "mgr_env \<Rightarrow> party \<Rightarrow> lfg_mgr \<Rightarrow> lfg_mgr" where
  "OnDisband env pt m = (if \<not> lfg_enabled m then m else RemoveGroupData env (gr_guid pt) m)"

definition OnChangeLeader :: "party \<Rightarrow> ObjectGuid \<Rightarrow> lfg_mgr \<Rightarrow> lfg_mgr" where
  "OnChangeLeader pt l m = (if \<not> lfg_enabled m then m else SetLeader (gr_guid pt) l m)"

definition OnInviteMember :: "mgr_env \<Rightarrow> party \<Rightarrow> lfg_mgr \<Rightarrow> fault + lfg_mgr" where
  "OnInviteMember env pt m =
     (if \<not> lfg_enabled m then Inr m
      else if \<not> IsEmpty (gr_leaderGuid pt) \<and> IsEmpty (gr_guid pt) then LeaveLfg env (gr_leaderGuid pt) False m else Inr m)"

definition OnLogout :: "mgr_env \<Rightarrow> ObjectGuid \<Rightarrow> party option \<Rightarrow> bool \<Rightarrow> lfg_mgr \<Rightarrow> fault + lfg_mgr" where
  "OnLogout env g grp disconnected m =
     (if \<not> lfg_enabled m then Inr m
      else if grp = None then LeaveLfg env g False m
      else if disconnected then LeaveLfg env g True m else Inr m)"

definition OnLogin :: "mgr_env \<Rightarrow> ObjectGuid \<Rightarrow> party option \<Rightarrow> uint8 \<Rightarrow> lfg_mgr \<Rightarrow> lfg_mgr" where
  "OnLogin env g grp team m =
     (if \<not> lfg_enabled m then m
      else let m1 = (case grp of None \<Rightarrow> m | Some pt \<Rightarrow> if GetGroup g m \<noteq> gr_guid pt then SetupGroupMember g (gr_guid pt) m else m)
           in SetTeam env g team m1)"

text \<open>The hooks that an operation on a party called, in their order; that of a removal has been run before.\<close>

definition run_hook :: "mgr_env \<Rightarrow> party \<Rightarrow> party_effect \<Rightarrow> lfg_mgr \<Rightarrow> fault + lfg_mgr" where
  "run_hook env pt e m = (case e of
       OnGroupAddMember g \<Rightarrow> OnAddMember env pt g m
     | OnGroupChangeLeader l l' \<Rightarrow> Inr (OnChangeLeader pt l m)
     | OnGroupDisband \<Rightarrow> Inr (OnDisband env pt m)
     | OnGroupInviteMember g \<Rightarrow> OnInviteMember env pt m
     | _ \<Rightarrow> Inr m)"

section \<open>Operations on the registered parties\<close>

text \<open>The party of a player is the one that links it. Parties in battlegrounds, beside which a player keeps its own, are left out.\<close>

definition GroupOf :: "ObjectGuid \<Rightarrow> lfg_world \<Rightarrow> ObjectGuid option" where
  "GroupOf p w = map_option fst (find (\<lambda>(gg, pt). p \<in> set (gr_links pt)) (lw_parties w))"

definition party_of :: "ObjectGuid \<Rightarrow> lfg_world \<Rightarrow> party option" where
  "party_of p w = (case GroupOf p w of None \<Rightarrow> None | Some gg \<Rightarrow> map_of (lw_parties w) gg)"

text \<open>What a party sees of the world.\<close>

definition party_view :: "mgr_env \<Rightarrow> party_env \<Rightarrow> ObjectGuid \<Rightarrow> lfg_mgr \<Rightarrow> party_env" where
  "party_view env penv gg m = penv\<lparr>connected_player := mg_connected env, in_world := mg_inWorld env, player_alive := mg_alive env,
     player_map := mg_map env, lfg_dungeon_map := GetDungeonMapId gg m\<rparr>"

definition on_mgr :: "(lfg_mgr \<Rightarrow> lfg_mgr) \<Rightarrow> lfg_world \<Rightarrow> lfg_world" where
  "on_mgr f w = w\<lparr>lw_mgr := f (lw_mgr w)\<rparr>"

text \<open>Put the party of a number back behind an operation, which began with an empty record, and run its hooks.\<close>

definition commit_party :: "mgr_env \<Rightarrow> ObjectGuid \<Rightarrow> party \<Rightarrow> lfg_world \<Rightarrow> fault + lfg_world" where
  "commit_party env gg pt w =
     res_bind (forE (run_hook env pt) (gr_out pt) (lw_mgr w)) (\<lambda>m.
       Inr (w\<lparr>lw_mgr := m, lw_out := lw_out w @ gr_out pt,
              lw_parties := (if gr_deleted pt then om_erase gg (lw_parties w)
                             else om_set gg (pt\<lparr>gr_out := []\<rparr>) (lw_parties w))\<rparr>))"

definition remove_member :: "mgr_env \<Rightarrow> party_env \<Rightarrow> ObjectGuid \<Rightarrow> ObjectGuid \<Rightarrow> RemoveMethod \<Rightarrow> ObjectGuid \<Rightarrow> string \<Rightarrow> lfg_world \<Rightarrow> fault + lfg_world" where
  "remove_member env penv gg p method kicker reason w =
     (case map_of (lw_parties w) gg of None \<Rightarrow> Inl NullPointer
      | Some pt \<Rightarrow>
          res_bind (OnRemoveMember env pt p method kicker reason (lw_mgr w)) (\<lambda>m.
          res_bind (RemoveMember (party_view env penv gg m) p method kicker pt) (\<lambda>(ok, pt1).
          commit_party env gg pt1 (w\<lparr>lw_mgr := m\<rparr>))))"

definition add_member :: "mgr_env \<Rightarrow> party_env \<Rightarrow> ObjectGuid \<Rightarrow> ObjectGuid \<Rightarrow> lfg_world \<Rightarrow> fault + lfg_world" where
  "add_member env penv gg p w =
     (case map_of (lw_parties w) gg of None \<Rightarrow> Inl NullPointer
      | Some pt \<Rightarrow> res_bind (AddMember (party_view env penv gg (lw_mgr w)) p pt) (\<lambda>(ok, pt1). commit_party env gg pt1 w))"

definition create_lfg_party :: "mgr_env \<Rightarrow> party_env \<Rightarrow> ObjectGuid \<Rightarrow> lfg_world \<Rightarrow> fault + lfg_world" where
  "create_lfg_party env penv p w =
     (let view = party_view env penv (new_group_guid penv) (lw_mgr w)
      in res_bind (Create view p (ConvertToLFG view Group)) (\<lambda>(ok, pt).
         res_bind (commit_party env (new_group_guid penv) pt w) (\<lambda>w1. Inr (on_mgr (SetState (gr_guid pt) LFG_STATE_PROPOSAL) w1))))"

definition update_party :: "ObjectGuid \<Rightarrow> (party \<Rightarrow> party) \<Rightarrow> lfg_world \<Rightarrow> lfg_world" where
  "update_party gg f w = (case map_of (lw_parties w) gg of None \<Rightarrow> w
     | Some pt \<Rightarrow> w\<lparr>lw_parties := om_adjust gg (\<lambda>_. (f pt)\<lparr>gr_out := []\<rparr>) (lw_parties w), lw_out := lw_out w @ gr_out (f pt)\<rparr>)"

section \<open>Forming the group of a proposal\<close>

definition leader_first :: "proposal \<Rightarrow> ObjectGuid list" where
  "leader_first p = fold (\<lambda>(g, pp) ps. if g = pr_leader p then g # ps else ps @ [g]) (pr_players p) []"

definition to_teleport :: "proposal \<Rightarrow> lfg_mgr \<Rightarrow> ObjectGuid list" where
  "to_teleport p m = map fst (filter (\<lambda>(g, pp). pr_isNew p \<or> GetGroup g m \<noteq> pr_group p) (pr_players p))"

definition role_in :: "proposal \<Rightarrow> ObjectGuid \<Rightarrow> uint8" where
  "role_in p g = (case map_of (pr_players p) g of Some pp \<Rightarrow> pp_role pp | None \<Rightarrow> 0)"

text \<open>One player enters: out of another party, into the group, which the first one founds. The result carries the group.\<close>

definition enter_group :: "mgr_env \<Rightarrow> party_env \<Rightarrow> proposal \<Rightarrow> dungeon_data \<Rightarrow> ObjectGuid \<Rightarrow> lfg_world \<times> ObjectGuid option
    \<Rightarrow> fault + lfg_world \<times> ObjectGuid option" where
  "enter_group env penv p d g wg = (case wg of (w, grp) \<Rightarrow>
     if \<not> mg_connected env g then Inr (w, grp)
     else let mine = GroupOf g w
          in res_bind (if mine \<noteq> None \<and> mine \<noteq> grp then remove_member env penv (the mine) g GROUP_REMOVEMETHOD_DEFAULT GuidEmpty [] w else Inr w) (\<lambda>w1.
             let gg = (case grp of None \<Rightarrow> new_group_guid penv | Some gg \<Rightarrow> gg)
             in res_bind (if grp = None then create_lfg_party env penv g w1
                          else if mine \<noteq> grp then add_member env penv gg g w1 else Inr w1) (\<lambda>w2.
                let w3 = update_party gg (SetLfgRoles (party_view env penv gg (lw_mgr w2)) g (role_in p g)) w2;
                    w4 = (if dg_type d = LFG_TYPE_RANDOM then on_mgr (note_effect (CastSpell g LFG_SPELL_DUNGEON_COOLDOWN)) w3 else w3)
                in Inr (w4, Some gg))))"

definition MakeNewGroup :: "mgr_env \<Rightarrow> party_env \<Rightarrow> proposal \<Rightarrow> lfg_world \<Rightarrow> fault + lfg_world" where
  "MakeNewGroup env penv p w =
     (case GetLFGDungeon (pr_dungeonId p) (lw_mgr w) of None \<Rightarrow> Inl AssertionFailed
      | Some d \<Rightarrow>
          let old = (if \<not> IsEmpty (pr_group p) \<and> map_of (lw_parties w) (pr_group p) \<noteq> None then Some (pr_group p) else None)
          in res_bind (forE (enter_group env penv p d) (leader_first p) (w, old)) (\<lambda>(w1, grp).
             case grp of None \<Rightarrow> Inl AssertionFailed
             | Some gg \<Rightarrow> (case map_of (lw_parties w1) gg of None \<Rightarrow> Inl NullPointer
               | Some pt \<Rightarrow>
                   let w2 = on_mgr (\<lambda>m. SaveLfgToDB gg (gr_dbStoreId pt) (SetState gg LFG_STATE_DUNGEON (SetDungeon gg (Entry d) m))) w1;
                       w3 = on_mgr (fold (\<lambda>g m. if mg_inWorld env g then TeleportPlayer env g (party_of g w2) False False m else m)
                              (to_teleport p (lw_mgr w))) w2
                   in Inr (update_party gg (SendUpdate (party_view env penv gg (lw_mgr w3))) w3))))"

section \<open>Answers to a proposal\<close>

text \<open>The wait of a player is booked under the role it came with, in the queue of the player who answered last.\<close>

definition book_wait :: "uint8 \<Rightarrow> int \<Rightarrow> uint32 \<Rightarrow> lfg_queue \<Rightarrow> lfg_queue" where
  "book_wait roles wait dungeon =
     (let role = roles AND NOT PLAYER_ROLE_LEADER
      in if role = PLAYER_ROLE_DAMAGE then UpdateWaitTimeDps wait dungeon
         else if role = PLAYER_ROLE_HEALER then UpdateWaitTimeHealer wait dungeon
         else if role = PLAYER_ROLE_TANK then UpdateWaitTimeTank wait dungeon
         else UpdateWaitTimeAvg wait dungeon)"

definition wait_time_of :: "int \<Rightarrow> int \<Rightarrow> int" where
  "wait_time_of now joined = sint (word_of_int ((now - joined) sdiv 1000) :: 32 word)"

definition confirm_player :: "mgr_env \<Rightarrow> bool \<Rightarrow> uint8 \<Rightarrow> proposal \<Rightarrow> ObjectGuid \<times> proposal_player \<Rightarrow> LfgUpdateType \<times> lfg_mgr
    \<Rightarrow> fault + LfgUpdateType \<times> lfg_mgr" where
  "confirm_player env sendUpdate qid p entry acc = (case (entry, acc) of ((g, pp), (type, m)) \<Rightarrow>
     case GetSelectedDungeons g m of [] \<Rightarrow> Inl OutOfBounds
     | dungeon # _ \<Rightarrow>
         let m1 = (if sendUpdate then tell env g (SendUpdateProposal g p) m else m);
             wait = wait_time_of (mg_time env) (GetJoinTime (queue_key (g, pp)) (queue_at qid m1));
             m2 = tell env g (SendUpdateStatus g type LFG_STATE_NONE [] False) m1;
             m3 = tell env g (SendUpdateStatus g LFG_UPDATETYPE_REMOVED_FROM_QUEUE LFG_STATE_NONE [] True) m2;
             m4 = tell env g (SendUpdateStatus g LFG_UPDATETYPE_REMOVED_FROM_QUEUE LFG_STATE_NONE [] False) m3;
             m5 = on_queue qid (book_wait (GetRoles g m4) wait dungeon) m4
         in Inr (LFG_UPDATETYPE_REMOVED_FROM_QUEUE, SetState g LFG_STATE_DUNGEON m5))"

definition all_agreed :: "proposal \<Rightarrow> bool" where
  "all_agreed p \<longleftrightarrow> list_all (\<lambda>(g, pp). pp_accept pp = LFG_ANSWER_AGREE) (pr_players p)"

definition accept_proposal :: "mgr_env \<Rightarrow> party_env \<Rightarrow> uint32 \<Rightarrow> ObjectGuid \<Rightarrow> proposal \<Rightarrow> lfg_world \<Rightarrow> fault + lfg_world" where
  "accept_proposal env penv i g p0 w =
     (let p = p0\<lparr>pr_state := LFG_PROPOSAL_SUCCESS\<rparr>; qid = GetQueueId g (lw_mgr w);
          m = (lw_mgr w)\<lparr>ProposalsStore := om_adjust i (\<lambda>_. p) (ProposalsStore (lw_mgr w))\<rparr>
      in res_bind (forE (confirm_player env (pr_state p0 \<noteq> LFG_PROPOSAL_SUCCESS) qid p) (pr_players p) (LFG_UPDATETYPE_GROUP_FOUND, on_queue qid id m)) (\<lambda>(type, m1).
         let m2 = on_queue qid (fold RemoveFromQueue (pr_queues p)) m1
         in res_bind (MakeNewGroup env penv p (w\<lparr>lw_mgr := m2\<rparr>)) (\<lambda>w1.
            Inr (on_mgr (\<lambda>m. m\<lparr>ProposalsStore := om_erase i (ProposalsStore m)\<rparr>) w1))))"

definition UpdateProposal :: "mgr_env \<Rightarrow> party_env \<Rightarrow> uint32 \<Rightarrow> ObjectGuid \<Rightarrow> bool \<Rightarrow> lfg_world \<Rightarrow> fault + lfg_world" where
  "UpdateProposal env penv i g accept w =
     (case map_of (ProposalsStore (lw_mgr w)) i of None \<Rightarrow> Inr w
      | Some p0 \<Rightarrow>
          if map_of (pr_players p0) g = None then Inr w
          else let p = p0\<lparr>pr_players := om_adjust g (\<lambda>pp. pp\<lparr>pp_accept := (if accept then LFG_ANSWER_AGREE else LFG_ANSWER_DENY)\<rparr>) (pr_players p0)\<rparr>;
                   m = (lw_mgr w)\<lparr>ProposalsStore := om_adjust i (\<lambda>_. p) (ProposalsStore (lw_mgr w))\<rparr>
               in if \<not> accept then res_bind (RemoveProposal env i LFG_UPDATETYPE_PROPOSAL_DECLINED m) (\<lambda>m1. Inr (w\<lparr>lw_mgr := m1\<rparr>))
                  else if \<not> m_isTesting m \<and> \<not> all_agreed p
                  then Inr (w\<lparr>lw_mgr := fold (\<lambda>(x, pp). tell env x (SendUpdateProposal x p)) (pr_players p) m\<rparr>)
                  else accept_proposal env penv i g p (w\<lparr>lw_mgr := m\<rparr>))"

section \<open>Votes\<close>

definition UpdateBoot :: "mgr_env \<Rightarrow> party_env \<Rightarrow> ObjectGuid \<Rightarrow> bool \<Rightarrow> lfg_world \<Rightarrow> fault + lfg_world" where
  "UpdateBoot env penv g accept w =
     (let m = lw_mgr w; gg = GetGroup g m
      in if IsEmpty gg then Inr w
         else case map_of (BootsStore m) gg of None \<Rightarrow> Inr w
         | Some b0 \<Rightarrow> (case record_answer g accept b0 of (counted, b) \<Rightarrow>
             let m1 = m\<lparr>BootsStore := om_adjust gg (\<lambda>_. b) (BootsStore m)\<rparr>
             in if \<not> counted \<or> vote_open b then Inr (w\<lparr>lw_mgr := m1\<rparr>)
                else res_bind (SetVoteKick gg False (announce_boot env (b\<lparr>bt_inProgress := False\<rparr>) m1)) (\<lambda>m2.
                     let w2 = w\<lparr>lw_mgr := m2\<rparr>;
                         kick = (if map_of (lw_parties w2) gg \<noteq> None
                                 then remove_member env penv gg (bt_victim b) GROUP_REMOVEMETHOD_KICK_LFG GuidEmpty [] w2 else Inr w2)
                     in res_bind (if vote_passed b then res_bind kick (\<lambda>w3. Inr (on_mgr (DecreaseKicksLeft gg) w3)) else Inr w2) (\<lambda>w3.
                        Inr (on_mgr (\<lambda>m. m\<lparr>BootsStore := om_erase gg (BootsStore m)\<rparr>) w3)))))"

text \<open>
  Who may start a vote in a group of the dungeon finder: \<^verbatim>\<open>Player::CanUninviteFromGroup\<close> and the part of the handler that removes
  members; its part that withdraws invitations is in \<^verbatim>\<open>Party_Members\<close>.
\<close>

definition may_start_vote :: "mgr_env \<Rightarrow> party \<Rightarrow> lfg_mgr \<Rightarrow> fault + bool" where
  "may_start_vote env pt m =
     (if GetKicksLeft (gr_guid pt) m = 0 then Inr False
      else res_bind (IsVoteKickActive (gr_guid pt) m) (\<lambda>active.
           Inr (\<not> active \<and> unat LFG_GROUP_KICK_VOTES_NEEDED < GetMembersCount pt \<and> GetLfgState (gr_guid pt) m \<noteq> LFG_STATE_FINISHED_DUNGEON \<and>
                gr_rolls pt = [] \<and> \<not> list_ex (mg_in_combat env) (gr_links pt))))"

definition request_kick :: "mgr_env \<Rightarrow> party_env \<Rightarrow> ObjectGuid \<Rightarrow> ObjectGuid \<Rightarrow> string \<Rightarrow> lfg_world \<Rightarrow> fault + lfg_world" where
  "request_kick env penv sender target reason w =
     (if target = sender then Inr w
      else case GroupOf sender w of None \<Rightarrow> Inr w
      | Some gg \<Rightarrow> (case map_of (lw_parties w) gg of None \<Rightarrow> Inr w
        | Some pt \<Rightarrow> if \<not> isLFGGroup pt \<or> \<not> IsMember target pt then Inr w
            else res_bind (may_start_vote env pt (lw_mgr w)) (\<lambda>ok.
                 if ok then remove_member env penv gg target GROUP_REMOVEMETHOD_KICK sender reason w else Inr w)))"

end
