(* ===== verification/Lfg_Update.thy ===== *)
theory Lfg_Update
  imports Lfg_Groups
begin

text \<open>
  The periodic update of the dungeon finder (\<^verbatim>\<open>LFGMgr::Update\<close> in \<^verbatim>\<open>src/src/server/game/DungeonFinding/LFGMgr.cpp\<close>), the
  hook on a change of map (\<^verbatim>\<open>LFGScripts.cpp\<close>) and the handlers of the client's requests
  (\<^verbatim>\<open>src/src/server/game/Handlers/LFGHandler.cpp\<close>).
\<close>

unbundle bit_operations_syntax

section \<open>The update\<close>

text \<open>
  One queue is searched and hands its proposals over in their order. The search always ends (theorem
  \<^verbatim>\<open>FindGroups_returns\<close> of \<^verbatim>\<open>Lfg_Matching\<close>), so the last branch is not taken.
\<close>

definition search_queue :: "mgr_env \<Rightarrow> uint8 \<Rightarrow> lfg_mgr \<Rightarrow> lfg_mgr" where
  "search_queue env i m =
     (case FindGroups (queue_env env m) (queue_at i m) of
        Some (n, q) \<Rightarrow> fold AddProposal (proposalsMade q) (on_queue i (\<lambda>_. q\<lparr>proposalsMade := []\<rparr>) m)
      | None \<Rightarrow> m)"

definition announce_player :: "mgr_env \<Rightarrow> proposal \<Rightarrow> ObjectGuid \<times> proposal_player \<Rightarrow> lfg_mgr \<Rightarrow> lfg_mgr" where
  "announce_player env p entry m = (case entry of (g, pp) \<Rightarrow>
     let m1 = SetState g LFG_STATE_PROPOSAL m; gg = GetGroup g m1;
         m2 = (if \<not> IsEmpty gg then SetState gg LFG_STATE_PROPOSAL m1 else m1)
     in tell env g (SendUpdateProposal g p)
          (tell env g (SendUpdateStatus g LFG_UPDATETYPE_PROPOSAL_BEGIN LFG_STATE_NONE (GetSelectedDungeons g m2) (\<not> IsEmpty gg)) m2))"

text \<open>
  A proposal that is complete from the start is carried out on behalf of the last player; it is then erased under the
  loop's iterator.
\<close>

definition announce_proposal :: "mgr_env \<Rightarrow> party_env \<Rightarrow> uint32 \<times> proposal \<Rightarrow> lfg_world \<Rightarrow> fault + lfg_world" where
  "announce_proposal env penv entry w = (case entry of (i, p) \<Rightarrow>
     let w1 = on_mgr (fold (announce_player env p) (pr_players p)) w
     in if pr_state p = LFG_PROPOSAL_SUCCESS
        then res_bind (UpdateProposal env penv i (if pr_players p = [] then GuidEmpty else fst (last (pr_players p))) True w1) (\<lambda>w2.
             if map_of (ProposalsStore (lw_mgr w2)) i = None then Inl OutOfBounds else Inr w2)
        else Inr w1)"

text \<open>The loop over the new proposals starts at the number of the last one.\<close>

definition new_proposals :: "lfg_mgr \<Rightarrow> (uint32 \<times> proposal) list" where
  "new_proposals m = (if map_of (ProposalsStore m) (m_lfgProposalId m) = None then []
     else filter (\<lambda>(i, p). m_lfgProposalId m \<le> i) (ProposalsStore m))"

definition show_queue :: "mgr_env \<Rightarrow> uint8 \<Rightarrow> lfg_mgr \<Rightarrow> lfg_mgr" where
  "show_queue env i m =
     (case UpdateQueueTimers i (mg_time env) (queue_at i m) of (q, statuses) \<Rightarrow>
        fold (\<lambda>s. case s of QueueStatus g _ _ _ _ _ _ \<Rightarrow> tell env g (SendQueueStatus s)) statuses (on_queue i (\<lambda>_. q) m))"

definition refresh_queues :: "mgr_env \<Rightarrow> uint32 \<Rightarrow> lfg_mgr \<Rightarrow> lfg_mgr" where
  "refresh_queues env diff m =
     (if LFG_QUEUEUPDATE_INTERVAL < m_QueueTimer m
      then fold (show_queue env) (map fst (QueuesStore m)) (m\<lparr>m_QueueTimer := 0\<rparr>)
      else m\<lparr>m_QueueTimer := m_QueueTimer m + diff\<rparr>)"

definition expire_all :: "mgr_env \<Rightarrow> lfg_mgr \<Rightarrow> fault + lfg_mgr" where
  "expire_all env m =
     (let m1 = fold (expire_role_check env) (RoleChecksStore m) m
      in res_bind (forE (expire_proposal env) (ProposalsStore m1) m1) (\<lambda>m2. forE (expire_boot env) (BootsStore m2) m2))"

definition Update :: "mgr_env \<Rightarrow> party_env \<Rightarrow> uint32 \<Rightarrow> lfg_world \<Rightarrow> fault + lfg_world" where
  "Update env penv diff w =
     (if \<not> lfg_enabled (lw_mgr w) then Inr w
      else res_bind (expire_all env (lw_mgr w)) (\<lambda>m1.
           let m2 = fold (search_queue env) (map fst (QueuesStore m1)) m1;
               w2 = w\<lparr>lw_mgr := m2\<rparr>
           in res_bind (if m_lfgProposalId m1 \<noteq> m_lfgProposalId m2 then forE (announce_proposal env penv) (new_proposals m2) w2 else Inr w2) (\<lambda>w3.
              Inr (on_mgr (refresh_queues env diff) w3))))"

section \<open>A change of map\<close>

definition OnMapChanged :: "mgr_env \<Rightarrow> party_env \<Rightarrow> ObjectGuid \<Rightarrow> uint8 \<Rightarrow> lfg_world \<Rightarrow> fault + lfg_world" where
  "OnMapChanged env penv g difficulty w =
     (if inLfgDungeonMap g (mg_map env g) difficulty (lw_mgr w)
      then (case party_of g w of
              None \<Rightarrow> res_bind (LeaveLfg env g False (lw_mgr w)) (\<lambda>m.
                Inr (w\<lparr>lw_mgr := note_effect (TeleportHome g) (note_effect (RemoveAuras g LFG_SPELL_LUCK_OF_THE_DRAW) m)\<rparr>))
            | Some pt \<Rightarrow>
                let w1 = on_mgr (fold (\<lambda>x. note_effect (NameQuery g x)) (gr_links pt)) w
                in Inr (if selectedRandomLfgDungeon g (lw_mgr w1) then on_mgr (note_effect (CastSpell g LFG_SPELL_LUCK_OF_THE_DRAW)) w1 else w1))
      else let done = on_mgr (note_effect (RemoveAuras g LFG_SPELL_LUCK_OF_THE_DRAW))
           in (case party_of g w of
                 None \<Rightarrow> Inr (done w)
               | Some pt \<Rightarrow>
                   if GetMembersCount pt = 1
                   then res_bind (LeaveLfg env (gr_guid pt) False (lw_mgr w)) (\<lambda>m.
                        res_bind (commit_party env (gr_guid pt) (Disband (party_view env penv (gr_guid pt) m) False pt) (w\<lparr>lw_mgr := m\<rparr>)) (\<lambda>w1.
                        Inr (done w1)))
                   else Inr (done w)))"

section \<open>Handlers\<close>

definition HandleLfgJoinOpcode :: "mgr_env \<Rightarrow> (uint32 \<Rightarrow> bool) \<Rightarrow> ObjectGuid \<Rightarrow> uint32 list \<Rightarrow> uint32 \<Rightarrow> lfg_world \<Rightarrow> fault + lfg_world" where
  "HandleLfgJoinOpcode env known g slots roles w =
     (let grp = party_of g w;
          barred = (case grp of None \<Rightarrow> False | Some pt \<Rightarrow>
             gr_leaderGuid pt \<noteq> g \<and> (GetMembersCount pt = MAX_GROUP_SIZE \<or> \<not> isLFGGroup pt))
      in if \<not> lfg_enabled (lw_mgr w) \<or> barred then Inr w
         else if slots = [] then Inr w
         else let dungeons = fold (\<lambda>s ds. if known (s AND 0x00FFFFFF) then set_insert (s AND 0x00FFFFFF) ds else ds) slots []
              in res_bind (JoinLfg env g grp (ucast roles) dungeons (lw_mgr w)) (\<lambda>m. Inr (w\<lparr>lw_mgr := m\<rparr>)))"

definition HandleLfgLeaveOpcode :: "mgr_env \<Rightarrow> ObjectGuid \<Rightarrow> ObjectGuid \<Rightarrow> lfg_world \<Rightarrow> fault + lfg_world" where
  "HandleLfgLeaveOpcode env g requester w =
     (if (case party_of g w of None \<Rightarrow> True | Some pt \<Rightarrow> gr_leaderGuid pt = requester)
      then res_bind (LeaveLfg env requester False (lw_mgr w)) (\<lambda>m. Inr (w\<lparr>lw_mgr := m\<rparr>))
      else Inr w)"

definition HandleLfgProposalResultOpcode :: "mgr_env \<Rightarrow> party_env \<Rightarrow> ObjectGuid \<Rightarrow> uint32 \<Rightarrow> bool \<Rightarrow> lfg_world \<Rightarrow> fault + lfg_world" where
  "HandleLfgProposalResultOpcode env penv g i accepted w = UpdateProposal env penv i g accepted w"

definition HandleLfgSetRolesOpcode :: "mgr_env \<Rightarrow> ObjectGuid \<Rightarrow> uint32 \<Rightarrow> lfg_world \<Rightarrow> lfg_world" where
  "HandleLfgSetRolesOpcode env g roles w =
     (case party_of g w of None \<Rightarrow> w | Some pt \<Rightarrow> on_mgr (UpdateRoleCheck env (gr_guid pt) g (ucast roles)) w)"

definition HandleLfgSetBootVoteOpcode :: "mgr_env \<Rightarrow> party_env \<Rightarrow> ObjectGuid \<Rightarrow> bool \<Rightarrow> lfg_world \<Rightarrow> fault + lfg_world" where
  "HandleLfgSetBootVoteOpcode env penv g vote w = UpdateBoot env penv g vote w"

definition HandleLfgTeleportOpcode :: "mgr_env \<Rightarrow> ObjectGuid \<Rightarrow> bool \<Rightarrow> lfg_world \<Rightarrow> lfg_world" where
  "HandleLfgTeleportOpcode env g leave w = on_mgr (TeleportPlayer env g (party_of g w) leave True) w"

definition HandleDFGetJoinStatus :: "ObjectGuid \<Rightarrow> lfg_world \<Rightarrow> lfg_world" where
  "HandleDFGetJoinStatus g w =
     (let m = lw_mgr w; s = GetLfgState g m; ds = GetSelectedDungeons g m;
          status = (\<lambda>ds party. note_effect (SendUpdateStatus g LFG_UPDATETYPE_UPDATE_STATUS s ds party))
      in if s = LFG_STATE_NONE then w
         else if party_of g w \<noteq> None then on_mgr (\<lambda>m. status [] False (status ds True m)) w
         else on_mgr (\<lambda>m. status [] True (status ds False m)) w)"

text \<open>What the packets of the session show: whether the player has joined and is queued, and the state of a vote.\<close>

definition status_flags :: "LfgUpdateType \<Rightarrow> LfgState \<Rightarrow> bool \<times> bool" where
  "status_flags type s = (case type of
       LFG_UPDATETYPE_JOIN_QUEUE_INITIAL \<Rightarrow> (True, False)
     | LFG_UPDATETYPE_JOIN_QUEUE \<Rightarrow> (True, True)
     | LFG_UPDATETYPE_ADDED_TO_QUEUE \<Rightarrow> (True, True)
     | LFG_UPDATETYPE_PROPOSAL_BEGIN \<Rightarrow> (True, False)
     | LFG_UPDATETYPE_UPDATE_STATUS \<Rightarrow> (s \<noteq> LFG_STATE_ROLECHECK \<and> s \<noteq> LFG_STATE_NONE, s = LFG_STATE_QUEUED)
     | _ \<Rightarrow> (False, False))"

record boot_packet =
  bp_inProgress :: bool
  bp_passed :: bool
  bp_myVoteCompleted :: bool
  bp_myVote :: bool
  bp_target :: ObjectGuid
  bp_totalVotes :: uint8
  bp_bootVotes :: uint8
  bp_timeLeft :: int
  bp_reason :: string

definition SendLfgBootProposalUpdate :: "int \<Rightarrow> ObjectGuid \<Rightarrow> player_boot \<Rightarrow> fault + boot_packet" where
  "SendLfgBootProposalUpdate now g b =
     (case map_of (bt_votes b) g of None \<Rightarrow> Inl OutOfBounds
      | Some v \<Rightarrow> (case count_votes (bt_votes b) of (votesNum, agreeNum) \<Rightarrow>
          Inr \<lparr>bp_inProgress = bt_inProgress b, bp_passed = (LFG_GROUP_KICK_VOTES_NEEDED \<le> agreeNum),
               bp_myVoteCompleted = (v \<noteq> LFG_ANSWER_PENDING), bp_myVote = (v = LFG_ANSWER_AGREE), bp_target = bt_victim b,
               bp_totalVotes = votesNum, bp_bootVotes = agreeNum,
               bp_timeLeft = sint (word_of_int ((bt_cancelTime b - now) sdiv 1000) :: 32 word), bp_reason = bt_reason b\<rparr>))"

end
