(* ===== verification/Lfg_Frame.thy ===== *)
theory Lfg_Frame
  imports Lfg_Update
begin

text \<open>
  What the operations of the dungeon finder's manager leave alone. Most of them change nothing but the data of players
  and groups and the record of effects; the facts of this theory carry the proofs about role checks, proposals and votes.
\<close>

section \<open>Changes of data only\<close>

definition data_only :: "lfg_mgr \<Rightarrow> lfg_mgr \<Rightarrow> bool" where
  "data_only m m' \<longleftrightarrow> m' = m\<lparr>PlayersStore := PlayersStore m', GroupsStore := GroupsStore m', lfg_out := lfg_out m'\<rparr>"

lemma data_only_refl [simp, intro]: "data_only m m"
  by (simp add: data_only_def)

lemma data_only_trans: "data_only m m1 \<Longrightarrow> data_only m1 m2 \<Longrightarrow> data_only m m2"
  by (cases m, cases m1, cases m2) (auto simp: data_only_def)

lemma data_only_fields:
  assumes "data_only m m'"
  shows "QueuesStore m' = QueuesStore m" "RoleChecksStore m' = RoleChecksStore m" "ProposalsStore m' = ProposalsStore m"
    "BootsStore m' = BootsStore m" "LfgDungeonStore m' = LfgDungeonStore m" "CachedDungeonMapStore m' = CachedDungeonMapStore m"
    "RewardMapStore m' = RewardMapStore m" "m_QueueTimer m' = m_QueueTimer m" "m_lfgProposalId m' = m_lfgProposalId m"
    "m_options m' = m_options m" "m_isTesting m' = m_isTesting m"
  using assms by (cases m, cases m', simp add: data_only_def)+

lemma data_only_fold: "(\<And>x m. data_only m (f x m)) \<Longrightarrow> data_only m (fold f xs m)"
proof (induction xs arbitrary: m)
  case (Cons x xs)
  then show ?case using data_only_trans by (metis fold_simps(2))
qed simp

lemma data_only_on_player [simp, intro]: "data_only m (on_player g f m)"
  by (simp add: data_only_def on_player_def)

lemma data_only_on_group [simp, intro]: "data_only m (on_group g f m)"
  by (simp add: data_only_def on_group_def)

lemma data_only_note [simp, intro]: "data_only m (note_effect e m)"
  by (simp add: data_only_def note_effect_def)

lemma data_only_tell [simp, intro]: "data_only m (tell env g e m)"
  by (simp add: tell_def)

lemma data_only_SetState [simp, intro]: "data_only m (SetState g s m)"
  by (simp add: SetState_def)

lemma data_only_RestoreState [simp, intro]: "data_only m (RestoreState g m)"
  by (simp add: RestoreState_def)

lemma data_only_accessors [simp, intro]:
  "data_only m (SetDungeon g d m)" "data_only m (SetRoles g r m)" "data_only m (SetSelectedDungeons g ds m)" "data_only m (DecreaseKicksLeft g m)"
  "data_only m (SetTicket g t m)" "data_only m (SetTeam env g team m)" "data_only m (SetGroup g gg m)" "data_only m (SetLeader g l m)"
  "data_only m (AddPlayerToGroup gg g m)" "data_only m (RemovePlayerData g m)" "data_only m (snd (RemovePlayerFromGroup gg g m))"
  by (simp_all add: SetDungeon_def SetRoles_def SetSelectedDungeons_def DecreaseKicksLeft_def SetTicket_def SetTeam_def SetGroup_def
      SetLeader_def AddPlayerToGroup_def RemovePlayerData_def RemovePlayerFromGroup_def Let_def)

text \<open>Chains of such operations, innermost first.\<close>

lemma data_only_then:
  assumes "data_only m m1"
  shows "data_only m (on_player g f m1)" "data_only m (on_group g f' m1)" "data_only m (note_effect e m1)" "data_only m (tell env g e m1)"
    "data_only m (SetState g s m1)" "data_only m (RestoreState g m1)" "data_only m (SetDungeon g d m1)" "data_only m (SetRoles g r m1)"
    "data_only m (SetSelectedDungeons g ds m1)" "data_only m (DecreaseKicksLeft g m1)" "data_only m (SetTicket g t m1)"
    "data_only m (SetTeam env g team m1)" "data_only m (SetGroup g gg m1)" "data_only m (SetLeader g l m1)"
    "data_only m (AddPlayerToGroup gg g m1)" "data_only m (snd (RemovePlayerFromGroup gg g m1))"
  using data_only_trans [OF assms] by blast+

lemmas data_chain = data_only_then

lemma data_only_report [simp, intro]: "data_only m (report_role env chosen g roles rc entry m)"
  by (auto simp: report_role_def Let_def split: prod.splits intro!: data_chain)

lemma data_only_expire_member [simp, intro]: "data_only m (expire_member env rc entry m)"
  by (auto simp: expire_member_def Let_def split: prod.splits intro!: data_chain)

lemma data_only_release [simp, intro]: "data_only m (release_player env type p toRemove entry m)"
  by (auto simp: release_player_def Let_def split: prod.splits intro!: data_chain)

lemma data_only_announce_boot [simp, intro]: "data_only m (announce_boot env b m)"
  unfolding announce_boot_def by (rule data_only_fold) (auto split: prod.splits)

lemma data_only_announce [simp, intro]: "data_only m (announce_player env p entry m)"
  by (auto simp: announce_player_def Let_def split: prod.splits intro!: data_chain)

lemma data_only_RemoveGroupData [simp, intro]: "data_only m (RemoveGroupData env gg m)"
  unfolding RemoveGroupData_def Let_def
  by (rule data_only_then, rule data_only_fold) (auto intro!: data_chain)

lemma data_only_SetupGroupMember [simp, intro]: "data_only m (SetupGroupMember g gg m)"
  by (auto simp: SetupGroupMember_def Let_def intro!: data_chain)

lemma data_only_TeleportPlayer [simp, intro]: "data_only m (TeleportPlayer env p grp leave fromOpcode m)"
  by (auto simp: TeleportPlayer_def teleport_in_def Let_def split: option.splits prod.splits if_splits intro!: data_chain)

lemma data_only_reward [simp, intro]: "data_only m (reward_player env gg d p m)"
  by (auto simp: reward_player_def give_reward_def Let_def split: option.splits list.splits intro!: data_chain)

lemma data_only_FinishDungeon [simp, intro]: "data_only m (FinishDungeon env gg d m)"
  unfolding FinishDungeon_def Let_def using data_only_trans data_only_SetState data_only_fold [of "reward_player env gg d"] by simp blast

lemma data_only_farewell [simp, intro]: "data_only m (farewell env pt g method state players m)"
  unfolding farewell_def Let_def by (auto intro!: data_chain intro: data_only_trans [OF _ data_only_TeleportPlayer])

lemma data_only_SaveLfgToDB [simp, intro]: "data_only m (SaveLfgToDB gg n m)"
  by (simp add: SaveLfgToDB_def)

section \<open>A quiet world\<close>

text \<open>For examples: everybody is online, healthy and allowed to join, nothing is disabled or bound; a group and its number.\<close>

definition still_env :: "int \<Rightarrow> mgr_env" where
  "still_env now = \<lparr>mg_time = now, mg_connected = (\<lambda>_. True), mg_inWorld = (\<lambda>_. True), mg_ignores = (\<lambda>_ _. False),
     mg_permission = (\<lambda>_. True), mg_battleground = (\<lambda>_. False), mg_aura = (\<lambda>_ _. False), mg_random_dungeon = hd,
     mg_random_bit = (\<lambda>_. False), mg_level = (\<lambda>_. 100), mg_expansion = (\<lambda>_. 1), mg_alliance = (\<lambda>_. False),
     mg_horde = (\<lambda>_. False), mg_disabled_map = (\<lambda>_ _. False), mg_disabled_lfg_map = (\<lambda>_ _. False),
     mg_bound = (\<lambda>_ _ _. None), mg_holiday = (\<lambda>_. False), mg_item_level_below = (\<lambda>_ _. False),
     mg_access = (\<lambda>_ _. None), mg_achieved = (\<lambda>_ _. False), mg_quest_rewarded = (\<lambda>_ _. False),
     mg_has_item = (\<lambda>_ _. False), mg_two_side_groups = False, mg_alive = (\<lambda>_. True), mg_falling = (\<lambda>_. False),
     mg_fatigued = (\<lambda>_. False), mg_vehicle = (\<lambda>_. False), mg_charming = (\<lambda>_. False), mg_map = (\<lambda>_. 0),
     mg_map_is_dungeon = (\<lambda>_. False), mg_position = (\<lambda>_. (0, 0, 0, 0)), mg_in_flight = (\<lambda>_. False),
     mg_in_combat = (\<lambda>_. False), mg_can_teleport = (\<lambda>_. True), mg_quest_exists = (\<lambda>_. True),
     mg_can_reward = (\<lambda>_ _. False), mg_max_level = 110\<rparr>"

definition a_party :: ObjectGuid where "a_party = ObjectGuid 0x6C00000000000000 1"

lemma a_party_kind [simp]: "IsParty a_party" "\<not> IsEmpty a_party" "\<not> IsParty (ObjectGuid 0 n)" "IsEmpty (ObjectGuid 0 n) \<longleftrightarrow> n = 0" "a_party \<noteq> ObjectGuid 0 n"
  by (simp_all add: a_party_def HasKind_def GetHigh_def high_num_def IsEmpty_def)

end
