(* ===== verification/Lfg_Outcomes.thy ===== *)
theory Lfg_Outcomes
  imports Lfg_Frame
begin

text \<open>
  What role checks, declined proposals and requests to the dungeon finder come to: the states of the players concerned,
  the entries of the queue and the records of the manager behind the operation.
\<close>

unbundle bit_operations_syntax

section \<open>Reading back\<close>

lemma state_SetState [simp]: "GetLfgState x (SetState g s m) = (if x = g then s else GetLfgState x m)"
  by (simp add: GetLfgState_def SetState_def on_group_def on_player_def set_group_state_def set_player_state_def Let_def)

lemma old_SetState [simp]:
  "GetOldState x (SetState g s m) = (if x = g \<and> s \<in> {LFG_STATE_NONE, LFG_STATE_FINISHED_DUNGEON, LFG_STATE_DUNGEON} then s else GetOldState x m)"
  by (auto simp: GetOldState_def SetState_def on_group_def on_player_def set_group_state_def set_player_state_def Let_def)

lemma state_RestoreState [simp]: "GetLfgState x (RestoreState g m) = (if x = g then GetOldState x m else GetLfgState x m)"
  by (simp add: GetLfgState_def GetOldState_def RestoreState_def on_group_def on_player_def restore_group_state_def restore_player_state_def Let_def)

lemma old_RestoreState [simp]: "GetOldState x (RestoreState g m) = GetOldState x m"
  by (simp add: GetOldState_def RestoreState_def on_group_def on_player_def restore_group_state_def restore_player_state_def Let_def)

lemma read_note [simp]:
  "GetLfgState x (note_effect e m) = GetLfgState x m" "GetOldState x (note_effect e m) = GetOldState x m" "GetRoles x (note_effect e m) = GetRoles x m"
  "GetGroup x (note_effect e m) = GetGroup x m" "GetTeam x (note_effect e m) = GetTeam x m" "GetPlayers x (note_effect e m) = GetPlayers x m"
  "GetSelectedDungeons x (note_effect e m) = GetSelectedDungeons x m" "lfg_out (note_effect e m) = lfg_out m @ [e]"
  by (simp_all add: GetLfgState_def GetOldState_def GetRoles_def GetGroup_def GetTeam_def GetPlayers_def GetSelectedDungeons_def note_effect_def)

lemma read_tell [simp]:
  "GetLfgState x (tell env g e m) = GetLfgState x m" "GetOldState x (tell env g e m) = GetOldState x m" "GetRoles x (tell env g e m) = GetRoles x m"
  "GetGroup x (tell env g e m) = GetGroup x m" "GetTeam x (tell env g e m) = GetTeam x m" "GetPlayers x (tell env g e m) = GetPlayers x m"
  "GetSelectedDungeons x (tell env g e m) = GetSelectedDungeons x m"
  by (simp_all add: tell_def)

lemma read_SetRoles [simp]:
  "GetLfgState x (SetRoles g r m) = GetLfgState x m" "GetOldState x (SetRoles g r m) = GetOldState x m"
  "GetRoles x (SetRoles g r m) = (if x = g then r else GetRoles x m)"
  by (simp_all add: GetLfgState_def GetOldState_def GetRoles_def SetRoles_def on_player_def)

lemma roles_SetState: "GetRoles x (SetState g s m) = (if x = g \<and> \<not> IsParty g \<and> s \<in> {LFG_STATE_NONE, LFG_STATE_FINISHED_DUNGEON} then 0 else GetRoles x m)"
  by (auto simp: GetRoles_def SetState_def on_group_def on_player_def set_group_state_def set_player_state_def Let_def)

text \<open>The queue of an entry depends on teams and members only.\<close>

definition same_teams :: "lfg_mgr \<Rightarrow> lfg_mgr \<Rightarrow> bool" where
  "same_teams m m' \<longleftrightarrow> (\<forall>x. GetTeam x m' = GetTeam x m \<and> GetPlayers x m' = GetPlayers x m \<and> GetGroup x m' = GetGroup x m)"

lemma same_teams_refl [simp, intro]: "same_teams m m" by (simp add: same_teams_def)

lemma same_teams_queue: "same_teams m m' \<Longrightarrow> GetQueueId g m' = GetQueueId g m"
  by (simp add: same_teams_def GetQueueId_def Let_def)

lemma same_teams_then:
  assumes "same_teams m m1"
  shows "same_teams m (note_effect e m1)" "same_teams m (tell env g e m1)" "same_teams m (SetState g s m1)" "same_teams m (RestoreState g m1)"
    "same_teams m (SetRoles g r m1)" "same_teams m (SetSelectedDungeons g ds m1)" "same_teams m (SetTicket g t m1)"
proof -
  show "same_teams m (note_effect e m1)" "same_teams m (tell env g e m1)" using assms by (simp_all add: same_teams_def)
  show "same_teams m (SetState g s m1)" using assms
    by (auto simp: same_teams_def GetTeam_def GetPlayers_def GetGroup_def SetState_def on_group_def on_player_def set_group_state_def set_player_state_def Let_def)
  show "same_teams m (RestoreState g m1)" using assms
    by (auto simp: same_teams_def GetTeam_def GetPlayers_def GetGroup_def RestoreState_def on_group_def on_player_def restore_group_state_def restore_player_state_def Let_def)
  show "same_teams m (SetRoles g r m1)" "same_teams m (SetSelectedDungeons g ds m1)" "same_teams m (SetTicket g t m1)" using assms
    by (auto simp: same_teams_def GetTeam_def GetPlayers_def GetGroup_def SetRoles_def SetSelectedDungeons_def SetTicket_def on_player_def)
qed

lemma same_teams_fold: "(\<And>x m1. same_teams m m1 \<Longrightarrow> same_teams m (f x m1)) \<Longrightarrow> same_teams m m0 \<Longrightarrow> same_teams m (fold f xs m0)"
  by (induction xs arbitrary: m0) auto

lemma same_teams_report: "same_teams m m1 \<Longrightarrow> same_teams m (report_role env chosen g roles rc entry m1)"
  by (auto simp: report_role_def Let_def split: prod.splits intro!: same_teams_then)

lemma same_teams_release: "same_teams m m1 \<Longrightarrow> same_teams m (release_player env type p toRemove entry m1)"
  by (auto simp: release_player_def Let_def split: prod.splits intro!: same_teams_then)

lemma read_stores [simp]:
  "GetLfgState x (m\<lparr>RoleChecksStore := r\<rparr>) = GetLfgState x m" "GetLfgState x (m\<lparr>ProposalsStore := p\<rparr>) = GetLfgState x m"
  "GetLfgState x (m\<lparr>QueuesStore := q\<rparr>) = GetLfgState x m" "GetLfgState x (m\<lparr>BootsStore := b\<rparr>) = GetLfgState x m"
  "GetOldState x (m\<lparr>RoleChecksStore := r\<rparr>) = GetOldState x m" "GetOldState x (m\<lparr>ProposalsStore := p\<rparr>) = GetOldState x m"
  "GetOldState x (m\<lparr>QueuesStore := q\<rparr>) = GetOldState x m" "GetRoles x (m\<lparr>RoleChecksStore := r\<rparr>) = GetRoles x m"
  "GetRoles x (m\<lparr>QueuesStore := q\<rparr>) = GetRoles x m" "GetRoles x (m\<lparr>ProposalsStore := p\<rparr>) = GetRoles x m"
  "GetQueueId x (m\<lparr>RoleChecksStore := r\<rparr>) = GetQueueId x m" "GetQueueId x (m\<lparr>ProposalsStore := p\<rparr>) = GetQueueId x m"
  "GetQueueId x (m\<lparr>BootsStore := b\<rparr>) = GetQueueId x m" "GetQueueId x (m\<lparr>QueuesStore := q\<rparr>) = GetQueueId x m"
  by (simp_all add: GetLfgState_def GetOldState_def GetRoles_def GetQueueId_def GetPlayers_def GetTeam_def Let_def)

lemma read_on_queue [simp]:
  "GetLfgState x (on_queue i f m) = GetLfgState x m" "GetOldState x (on_queue i f m) = GetOldState x m" "GetRoles x (on_queue i f m) = GetRoles x m"
  "GetQueueId x (on_queue i f m) = GetQueueId x m" "RoleChecksStore (on_queue i f m) = RoleChecksStore m" "ProposalsStore (on_queue i f m) = ProposalsStore m"
  "BootsStore (on_queue i f m) = BootsStore m" "lfg_out (on_queue i f m) = lfg_out m"
  by (simp_all add: on_queue_def)

lemma queue_at_on_queue: "om_wf (QueuesStore m) \<Longrightarrow> queue_at j (on_queue i f m) = (if j = i then f (queue_at i m) else queue_at j m)"
  by (simp add: queue_at_def on_queue_def)

lemma queue_at_stores [simp]: "queue_at i (m\<lparr>RoleChecksStore := r\<rparr>) = queue_at i m" "queue_at i (m\<lparr>ProposalsStore := p\<rparr>) = queue_at i m"
  by (simp_all add: queue_at_def)

lemma queue_at_same: "QueuesStore m' = QueuesStore m \<Longrightarrow> queue_at i m' = queue_at i m"
  by (simp add: queue_at_def)

section \<open>Role checks\<close>

lemma report_finished:
  assumes "rc_state rc = LFG_ROLECHECK_FINISHED" "distinct (map fst es)" "\<forall>p \<in> fst ` set es. \<not> IsParty p"
  shows "(\<forall>x. GetLfgState x (fold (report_role env chosen g roles rc) es m) = (if x \<in> fst ` set es then LFG_STATE_QUEUED else GetLfgState x m)) \<and>
     (\<forall>(p, r) \<in> set es. GetRoles p (fold (report_role env chosen g roles rc) es m) = r) \<and>
     (\<forall>x. x \<notin> fst ` set es \<longrightarrow> GetRoles x (fold (report_role env chosen g roles rc) es m) = GetRoles x m)"
  using assms(2,3)
proof (induction es arbitrary: m)
  case (Cons e es)
  obtain p r where e: "e = (p, r)" by force
  have "GetLfgState x (report_role env chosen g roles rc (p, r) m) = (if x = p then LFG_STATE_QUEUED else GetLfgState x m)"
    "GetRoles x (report_role env chosen g roles rc (p, r) m) = (if x = p then r else GetRoles x m)" for x
    using assms(1) by (simp_all add: report_role_def Let_def roles_SetState)
  with Cons e show ?case by auto
qed simp

lemma report_failed:
  assumes "rc_state rc \<noteq> LFG_ROLECHECK_FINISHED" "rc_state rc \<noteq> LFG_ROLECHECK_INITIALITING"
  shows "(\<forall>x. GetLfgState x (fold (report_role env chosen g roles rc) es m) = (if x \<in> fst ` set es then GetOldState x m else GetLfgState x m)) \<and>
     (\<forall>x. GetOldState x (fold (report_role env chosen g roles rc) es m) = GetOldState x m)"
proof (induction es arbitrary: m)
  case (Cons e es)
  obtain p r where e: "e = (p, r)" by force
  have "GetLfgState x (report_role env chosen g roles rc (p, r) m) = (if x = p then GetOldState x m else GetLfgState x m)"
    "GetOldState x (report_role env chosen g roles rc (p, r) m) = GetOldState x m" for x
    using assms by (simp_all add: report_role_def Let_def)
  with Cons e show ?case by auto
qed simp

lemma CheckGroupRoles_iff:
  assumes "gs \<noteq> []" "length gs < 256" "\<forall>(g, w) \<in> set gs. w < 16"
  shows "CheckGroupRoles gs \<noteq> None \<longleftrightarrow> (\<exists>A. role_choice gs A)"
  using assms check_sound check_complete choice_of_assigned by (fastforce simp: CheckGroupRoles_def)

lemma party_not_empty: "IsParty g \<Longrightarrow> \<not> IsEmpty g"
  by (auto simp: HasKind_def IsEmpty_def GetHigh_def high_num_def)

lemma answer_complete:
  assumes "\<not> IsEmpty g" "PLAYER_ROLE_TANK \<le> roles" "all_chosen (om_set g roles (rc_roles rc))"
  shows "answer_role g roles rc = rc\<lparr>rc_roles := om_set g roles (rc_roles rc),
    rc_state := (if CheckGroupRoles (om_set g roles (rc_roles rc)) \<noteq> None then LFG_ROLECHECK_FINISHED else LFG_ROLECHECK_WRONG_ROLES)\<rparr>"
  using assms by (simp add: answer_role_def Let_def not_less)

text \<open>The entry of a group that was put into its queue.\<close>

definition queued_as :: "lfg_queue \<Rightarrow> ObjectGuid \<Rightarrow> int \<Rightarrow> uint32 list \<Rightarrow> roles_map \<Rightarrow> lfg_queue \<Rightarrow> bool" where
  "queued_as q g now dungeons roles q' \<longleftrightarrow>
     map_of (QueueDataStore q') g = Some (LfgQueueData now dungeons roles) \<and> newToQueueStore q' = newToQueueStore q @ [g]"

lemma AddQueueData_queued: "om_wf (QueueDataStore q) \<Longrightarrow> queued_as q g now ds rs (AddQueueData g now ds rs q)"
  by (simp add: queued_as_def AddQueueData_def AddToQueue_def AddToNewQueue_def)

lemma role_check_closes:
  assumes rc: "map_of (RoleChecksStore m) gg = Some rc" and gg: "IsParty gg" and g: "\<not> IsEmpty g" "PLAYER_ROLE_TANK \<le> roles"
    and rs: "rs = om_set g roles (rc_roles rc)" "all_chosen rs" "om_wf rs" "\<forall>p \<in> fst ` set rs. \<not> IsParty p"
    and m': "m' = UpdateRoleCheck env gg g roles m"
  shows "RoleChecksStore m' = om_erase gg (RoleChecksStore m)"
    "CheckGroupRoles rs \<noteq> None \<Longrightarrow> om_wf (QueuesStore m) \<Longrightarrow>
       (\<forall>x. GetLfgState x m' = (if x = gg \<or> x \<in> fst ` set rs then LFG_STATE_QUEUED else GetLfgState x m)) \<and>
       (\<forall>(p, r) \<in> set rs. GetRoles p m' = r) \<and>
       queue_at (GetQueueId gg m) m' = AddQueueData gg (mg_time env) (rc_dungeons rc) rs (queue_at (GetQueueId gg m) m)"
    "CheckGroupRoles rs = None \<Longrightarrow>
       (\<forall>x. GetLfgState x m' = (if x = gg \<or> x \<in> fst ` set rs then GetOldState x m else GetLfgState x m)) \<and> QueuesStore m' = QueuesStore m"
proof -
  define ch where "ch = (rc_state rc \<noteq> LFG_ROLECHECK_DEFAULT \<and> \<not> IsEmpty g)"
  define rc1 where "rc1 = answer_role g roles rc"
  define m1 where "m1 = m\<lparr>RoleChecksStore := om_adjust gg (\<lambda>_. rc1) (RoleChecksStore m)\<rparr>"
  define m2 where "m2 = fold (report_role env ch g roles rc1) rs m1"
  have rc1: "rc1 = rc\<lparr>rc_roles := rs, rc_state := (if CheckGroupRoles rs \<noteq> None then LFG_ROLECHECK_FINISHED else LFG_ROLECHECK_WRONG_ROLES)\<rparr>"
    unfolding rc1_def rs(1) using answer_complete [OF g] rs(1,2) by simp
  then have roles1: "rc_roles rc1 = rs" "rc_dungeons rc1 = rc_dungeons rc" by simp_all
  have m12: "data_only m1 m2" unfolding m2_def by (rule data_only_fold) simp
  have st: "QueuesStore m2 = QueuesStore m" "RoleChecksStore m2 = om_adjust gg (\<lambda>_. rc1) (RoleChecksStore m)"
    using data_only_fields(1,2) [OF m12] by (simp_all add: m1_def)
  have erase: "om_erase gg (om_adjust gg (\<lambda>_. rc1) s) = om_erase gg s" for s :: "(ObjectGuid \<times> role_check) list"
    by (induction s) (auto simp: om_erase_def om_adjust_def)
  have id: "GetQueueId x (SetState gg s m2) = GetQueueId x m" for x s
  proof -
    have "same_teams m1 m2" unfolding m2_def by (rule same_teams_fold) (auto intro: same_teams_report)
    then have "same_teams m1 (SetState gg s m2)" by (rule same_teams_then)
    then have "GetQueueId x (SetState gg s m2) = GetQueueId x m1" by (rule same_teams_queue)
    then show ?thesis by (simp add: m1_def)
  qed
  have base: "GetLfgState x m1 = GetLfgState x m" "GetOldState x m1 = GetOldState x m" for x by (simp_all add: m1_def)
  have unfold: "m' = (if CheckGroupRoles rs \<noteq> None
      then let m3 = SetState gg LFG_STATE_QUEUED m2; m4 = on_queue (GetQueueId gg m3) (AddQueueData gg (mg_time env) (rc_dungeons rc) rs) m3
           in m4\<lparr>RoleChecksStore := om_erase gg (RoleChecksStore m4)\<rparr>
      else (RestoreState gg m2)\<lparr>RoleChecksStore := om_erase gg (RoleChecksStore (RestoreState gg m2))\<rparr>)"
  proof -
    have "m' = (if rc_state rc1 = LFG_ROLECHECK_FINISHED
        then let m3 = SetState gg LFG_STATE_QUEUED m2; m4 = on_queue (GetQueueId gg m3) (AddQueueData gg (mg_time env) (rc_dungeons rc) rs) m3
             in m4\<lparr>RoleChecksStore := om_erase gg (RoleChecksStore m4)\<rparr>
        else if rc_state rc1 \<noteq> LFG_ROLECHECK_INITIALITING
        then (RestoreState gg m2)\<lparr>RoleChecksStore := om_erase gg (RoleChecksStore (RestoreState gg m2))\<rparr> else m2)"
      by (simp only: m' UpdateRoleCheck_def rc option.case party_not_empty [OF gg] if_False Let_def ch_def [symmetric] rc1_def [symmetric]
          m1_def [symmetric] roles1 m2_def [symmetric])
    then show ?thesis by (simp add: rc1)
  qed
  have stores: "RoleChecksStore (SetState x s m2) = RoleChecksStore m2" "RoleChecksStore (RestoreState x m2) = RoleChecksStore m2"
    "QueuesStore (SetState x s m2) = QueuesStore m2" "QueuesStore (RestoreState x m2) = QueuesStore m2" for x s
    by (simp_all add: data_only_fields [OF data_only_SetState] data_only_fields [OF data_only_RestoreState])
  show "RoleChecksStore m' = om_erase gg (RoleChecksStore m)"
    unfolding unfold by (simp add: Let_def stores st erase)
  have dist: "distinct (map fst rs)" using rs(3) by (rule om_wf_distinct)
  have ggrs: "gg \<notin> fst ` set rs" using gg rs(4) by auto
  show "(\<forall>x. GetLfgState x m' = (if x = gg \<or> x \<in> fst ` set rs then LFG_STATE_QUEUED else GetLfgState x m)) \<and>
       (\<forall>(p, r) \<in> set rs. GetRoles p m' = r) \<and>
       queue_at (GetQueueId gg m) m' = AddQueueData gg (mg_time env) (rc_dungeons rc) rs (queue_at (GetQueueId gg m) m)"
    if ok: "CheckGroupRoles rs \<noteq> None" and wf: "om_wf (QueuesStore m)"
  proof -
    have fin: "rc_state rc1 = LFG_ROLECHECK_FINISHED" using ok by (simp add: rc1)
    note rep = report_finished [OF fin dist rs(4), of env ch g roles m1, folded m2_def]
    have "\<forall>(p, r) \<in> set rs. GetRoles p m' = r"
      using rep ok unfolding unfold by (auto simp: Let_def roles_SetState)
    moreover have "\<forall>x. GetLfgState x m' = (if x = gg \<or> x \<in> fst ` set rs then LFG_STATE_QUEUED else GetLfgState x m)"
      using rep ok base ggrs unfolding unfold by (auto simp: Let_def)
    moreover have "queue_at (GetQueueId gg m) m' = AddQueueData gg (mg_time env) (rc_dungeons rc) rs (queue_at (GetQueueId gg m) m)"
      using ok wf unfolding unfold by (simp add: Let_def id queue_at_on_queue stores st queue_at_same [of "SetState gg LFG_STATE_QUEUED m2" m])
    ultimately show ?thesis by blast
  qed
  show "(\<forall>x. GetLfgState x m' = (if x = gg \<or> x \<in> fst ` set rs then GetOldState x m else GetLfgState x m)) \<and> QueuesStore m' = QueuesStore m"
    if no: "CheckGroupRoles rs = None"
  proof -
    have "rc_state rc1 = LFG_ROLECHECK_WRONG_ROLES" using no by (simp add: rc1)
    then have "rc_state rc1 \<noteq> LFG_ROLECHECK_FINISHED" "rc_state rc1 \<noteq> LFG_ROLECHECK_INITIALITING" by simp_all
    note rep = report_failed [OF this, of env ch g roles rs m1, folded m2_def]
    then show ?thesis using no base ggrs unfolding unfold by (simp add: stores st)
  qed
qed

end
