(* ===== verification/Lfg_Matching.thy ===== *)
theory Lfg_Matching
  imports Lfg_Queue
begin

text \<open>
  What the search of the dungeon finder's queue guarantees: it ends and leaves no new entry unchecked, and
  the proposals it makes are groups that can play: the right number of players, one of the roles they
  offered for each, nobody ignoring another, and a dungeon all of them asked for.
\<close>

section \<open>Frames\<close>

lemma compat_frame [simp]:
  "QueueDataStore (SetCompatibles k c q) = QueueDataStore q" "newToQueueStore (SetCompatibles k c q) = newToQueueStore q"
  "currentQueueStore (SetCompatibles k c q) = currentQueueStore q" "proposalsMade (SetCompatibles k c q) = proposalsMade q"
  "QueueDataStore (SetCompatibilityData k d q) = QueueDataStore q" "newToQueueStore (SetCompatibilityData k d q) = newToQueueStore q"
  "currentQueueStore (SetCompatibilityData k d q) = currentQueueStore q" "proposalsMade (SetCompatibilityData k d q) = proposalsMade q"
  by (simp_all add: SetCompatibles_def SetCompatibilityData_def Let_def)

lemma best_frame [simp]:
  "newToQueueStore (UpdateBestCompatibleInQueue g k r q) = newToQueueStore q"
  "currentQueueStore (UpdateBestCompatibleInQueue g k r q) = currentQueueStore q"
  "proposalsMade (UpdateBestCompatibleInQueue g k r q) = proposalsMade q"
  by (simp_all add: UpdateBestCompatibleInQueue_def)

lemma best_fold_frame [simp]:
  "newToQueueStore (fold (\<lambda>g. UpdateBestCompatibleInQueue g k r) gs q) = newToQueueStore q"
  by (induction gs arbitrary: q) simp_all

lemma find_best_frame [simp]:
  "newToQueueStore (FindBestCompatibleInQueue g q) = newToQueueStore q"
proof -
  have "newToQueueStore (fold (\<lambda>(key, d) q'. if P key d then UpdateBestCompatibleInQueue g key (cd_roles d) q' else q') xs q)
      = newToQueueStore q" for P xs
    by (induction xs arbitrary: q) auto
  then show ?thesis by (simp add: FindBestCompatibleInQueue_def)
qed

lemma refresh_frame [simp]: "newToQueueStore (refresh_best g k q) = newToQueueStore q"
  by (simp add: refresh_best_def split: option.splits)

lemma RemoveFromQueue_new: "newToQueueStore (RemoveFromQueue g q) = removeAll g (newToQueueStore q)"
proof -
  have "newToQueueStore (fold (refresh_best g) ks q) = newToQueueStore q" for ks q
    by (induction ks arbitrary: q) simp_all
  then show ?thesis
    by (simp add: RemoveFromQueue_def Let_def RemoveQueueData_def RemoveFromCompatibles_def RemoveFromCurrentQueue_def RemoveFromNewQueue_def)
qed

text \<open>Taking the members of a proposal off both lists.\<close>

lemma unqueue_all:
  fixes q :: lfg_queue and gs :: "ObjectGuid list"
  defines "q' \<equiv> fold (\<lambda>g s. RemoveFromCurrentQueue g (RemoveFromNewQueue g s)) gs q"
  shows "newToQueueStore q' = filter (\<lambda>x. x \<notin> set gs) (newToQueueStore q)"
    "currentQueueStore q' = filter (\<lambda>x. x \<notin> set gs) (currentQueueStore q)"
    "QueueDataStore q' = QueueDataStore q" "proposalsMade q' = proposalsMade q"
  unfolding q'_def
  by (induction gs arbitrary: q)
     (auto simp: RemoveFromCurrentQueue_def RemoveFromNewQueue_def removeAll_filter_not_eq conj_commute intro!: filter_cong)

section \<open>The search ends\<close>

lemma conclude_shrinks: "length (newToQueueStore (snd (conclude env check a rs ds q))) \<le> length (newToQueueStore q)"
  by (simp add: conclude_def Let_def unqueue_all)

lemma check_body_shrinks: "length (newToQueueStore (snd (check_body env check q))) \<le> length (newToQueueStore q)"
  by (auto simp: check_body_def Let_def RemoveFromQueue_new conclude_shrinks length_removeAll_less_eq split: sum.splits option.splits)

lemma CheckCompatibility_shrinks: "length (newToQueueStore (snd (CheckCompatibility env check q))) \<le> length (newToQueueStore q)"
proof (induction env check q rule: CheckCompatibility.induct)
  case (2 env g gs q)
  show ?case
  proof (cases "length (g # gs) > MAX_GROUP_SIZE \<or> \<not> length (g # gs) > 2")
    case True
    then show ?thesis using check_body_shrinks [of env "g # gs" q] by auto
  next
    case False
    then have "length (newToQueueStore (snd (CheckCompatibility env gs q))) \<le> length (newToQueueStore q)" using 2 by blast
    then show ?thesis
      using False check_body_shrinks [of env "g # gs" "snd (CheckCompatibility env gs q)"] by (auto split: prod.splits)
  qed
qed simp

lemma search_shrinks:
  "(case FindNewGroups env check all q of (c, rest, q') \<Rightarrow> length rest \<le> length all \<and> length (newToQueueStore q') \<le> length (newToQueueStore q))"
  "(case match_loop env check c all q of (c', rest, q') \<Rightarrow> length rest \<le> length all \<and> length (newToQueueStore q') \<le> length (newToQueueStore q))"
proof (induction env check all q and env check c all q rule: FindNewGroups_match_loop.induct)
  case (1 env check all q)
  obtain c q1 where c: "(if GetCompatibles (ConcatenateGuids check) q = LFG_COMPATIBILITY_PENDING then CheckCompatibility env check q
      else (GetCompatibles (ConcatenateGuids check) q, q)) = (c, q1)" by force
  then have "length (newToQueueStore q1) \<le> length (newToQueueStore q)"
    using CheckCompatibility_shrinks [of env check q] by (auto split: if_splits)
  then show ?case using 1 [OF refl refl c [symmetric] refl] c by (auto simp: FindNewGroups.simps Let_def split: prod.splits)
next
  case (3 env check c a all q)
  obtain sub rest q1 where f: "FindNewGroups env (check @ [a]) all q = (sub, rest, q1)" by (metis prod_cases3)
  then have le: "length rest \<le> length all" "length (newToQueueStore q1) \<le> length (newToQueueStore q)" using 3(1) by auto
  show ?case
  proof (cases "sub = LFG_COMPATIBLES_MATCH")
    case True
    then show ?thesis using f le by simp
  next
    case False
    then show ?thesis using f le 3(2) [OF f [symmetric] refl False le(1)] by (auto split: prod.splits)
  qed
qed simp

lemma rest_shorter: "FindNewGroups env check all q = (c, rest, q') \<Longrightarrow> length rest \<le> length all"
  using search_shrinks(1) [where env = env and check = check and all = all and q = q] by simp

text \<open>C27: FindGroups returns. Whatever the queue holds, the search for groups ends, and afterwards no entry is
  left in the list of new entries.\<close>

theorem FindGroups_returns: "\<exists>n q'. FindGroups env q = Some (n, q') \<and> newToQueueStore q' = []"
proof -
  have "\<exists>n q'. FindGroups_loop env p q = Some (n, q') \<and> newToQueueStore q' = []" for p q
  proof (induction "length (newToQueueStore q)" arbitrary: p q rule: less_induct)
    case less
    show ?case
    proof (cases "newToQueueStore q")
      case Nil
      then show ?thesis by (simp add: FindGroups_loop.simps [of env p q])
    next
      case (Cons g gs)
      obtain c rest q1 where f: "FindNewGroups env [g] (currentQueueStore q) (RemoveFromNewQueue g q) = (c, rest, q1)"
        by (metis prod_cases3)
      have "length (newToQueueStore q1) \<le> length (newToQueueStore (RemoveFromNewQueue g q))"
        using search_shrinks(1) [where env = env and check = "[g]" and all = "currentQueueStore q" and q = "RemoveFromNewQueue g q"] f by simp
      also have "\<dots> \<le> length gs" using Cons by (simp add: RemoveFromNewQueue_def)
      finally have lt: "length (newToQueueStore q1) < length (newToQueueStore q)" using Cons by simp
      then have "\<exists>n q'. FindGroups_loop env (p + 1) q1 = Some (n, q') \<and> newToQueueStore q' = []"
        and "\<exists>n q'. FindGroups_loop env p (AddToCurrentQueue g q1) = Some (n, q') \<and> newToQueueStore q' = []"
        by (auto intro: less simp: AddToCurrentQueue_def)
      then show ?thesis using f Cons by (simp add: FindGroups_loop.simps [of env p q])
    qed
  qed
  then show ?thesis by (simp add: FindGroups_def)
qed

section \<open>Proposals are playable groups\<close>

text \<open>The roles and dungeons of the queued entries, which checking a combination does not change.\<close>

definition wishes :: "lfg_queue \<Rightarrow> ObjectGuid \<Rightarrow> (roles_map \<times> uint32 list) option" where
  "wishes q g = map_option (\<lambda>d. (qd_roles d, qd_dungeons d)) (map_of (QueueDataStore q) g)"

lemma wishes_update_best [simp]: "wishes (UpdateBestCompatibleInQueue g k r q) = wishes q"
proof -
  have "qd_roles (update_best k r d) = qd_roles d" "qd_dungeons (update_best k r d) = qd_dungeons d" for d
    by (simp_all add: update_best_def Let_def split: prod.splits)
  then show ?thesis
    by (auto simp: wishes_def UpdateBestCompatibleInQueue_def fun_eq_iff map_option.compositionality o_def)
qed

lemma wishes_fold_best [simp]: "wishes (fold (\<lambda>g. UpdateBestCompatibleInQueue g k r) gs q) = wishes q"
  by (induction gs arbitrary: q) simp_all

lemma wishes_frame [simp]: "wishes (SetCompatibles k c q) = wishes q" "wishes (SetCompatibilityData k d q) = wishes q"
  by (simp_all add: wishes_def fun_eq_iff)

lemma conclude_wishes: "wishes (snd (conclude env check a rs ds q)) = wishes q"
  by (simp add: conclude_def Let_def) (simp add: wishes_def unqueue_all fun_eq_iff)

lemma check_body_wishes:
  "fst (check_body env check q) \<noteq> LFG_COMPATIBILITY_PENDING \<Longrightarrow> wishes (snd (check_body env check q)) = wishes q"
  by (auto simp: check_body_def Let_def conclude_wishes split: sum.splits option.splits)

lemma CheckCompatibility_wishes:
  "fst (CheckCompatibility env check q) \<noteq> LFG_COMPATIBILITY_PENDING \<Longrightarrow> wishes (snd (CheckCompatibility env check q)) = wishes q"
proof (induction env check q rule: CheckCompatibility.induct)
  case (2 env g gs q)
  show ?case
  proof (cases "length (g # gs) > MAX_GROUP_SIZE \<or> \<not> length (g # gs) > 2")
    case True
    then show ?thesis using 2(2) check_body_wishes [of env "g # gs" q] by (auto split: if_splits)
  next
    case False
    obtain child q1 where child: "CheckCompatibility env gs q = (child, q1)" by force
    have eq: "CheckCompatibility env (g # gs) q =
       (if compat_num child < 7 then (child, SetCompatibles (ConcatenateGuids (g # gs)) child q1) else check_body env (g # gs) q1)"
      using False child by simp
    have "child \<noteq> LFG_COMPATIBILITY_PENDING" using 2(2) eq by (cases child) auto
    then have "wishes q1 = wishes q" using 2(1) False child by simp
    then show ?thesis using 2(2) check_body_wishes [of env "g # gs" q1] unfolding eq by (auto split: if_splits)
  qed
qed simp

text \<open>The entries of a queue as the manager creates them.\<close>

definition queue_wf :: "lfg_queue \<Rightarrow> bool" where
  "queue_wf q \<longleftrightarrow> (\<forall>g rs ds. wishes q g = Some (rs, ds) \<longrightarrow> length rs \<le> MAX_GROUP_SIZE \<and> ds \<noteq> [])"

lemma data_of_wishes: "wishes q g = Some (rs, ds) \<Longrightarrow> qd_roles (data_of q g) = rs \<and> qd_dungeons (data_of q g) = ds"
  by (auto simp: wishes_def data_of_def)

lemma scan_complete:
  assumes "scan_groups env q gs a = Inr b" "\<not> 1 < sc_numLfgGroups b" "unat (sc_numPlayers b) \<le> MAX_GROUP_SIZE"
  shows "\<forall>g \<in> set gs. wishes q g \<noteq> None"
  using assms
proof (induction env q gs a rule: scan_groups.induct)
  case (2 env q g gs a)
  have "sc_numLfgGroups a < 2 \<and> unat (sc_numPlayers a) \<le> MAX_GROUP_SIZE"
  proof (rule ccontr)
    assume n: "\<not> ?thesis"
    then have "b = a" using 2(2) by simp
    with n 2(3,4) show False
      by (auto simp: word_less_nat_alt)
  qed
  moreover from this obtain d where "map_of (QueueDataStore q) g = Some d" using 2(2) by (auto split: option.splits)
  ultimately show ?case using 2 by (auto simp: wishes_def Let_def)
qed simp

lemma length_om_set: "length (om_set k v m) \<le> Suc (length m)"
  by (induction k v m rule: om_set.induct) auto

lemma join_fold_length: "length (fold (join_player env) xs rs) \<le> length rs + length xs"
proof (induction xs arbitrary: rs)
  case (Cons x xs)
  have "length (join_player env x rs) \<le> Suc (length rs)"
    by (auto simp: join_player_def length_om_set split: prod.splits)
  with Cons [of "join_player env x rs"] show ?case by simp
qed simp

lemma join_players_length:
  assumes "queue_wf q" "\<forall>g \<in> set check. wishes q g \<noteq> None" "length check \<le> MAX_GROUP_SIZE"
  shows "length (join_players env q check) < 256"
proof -
  have "length (fold (\<lambda>g rs. fold (join_player env) (qd_roles (data_of q g)) rs) gs rs) \<le> length rs + 5 * length gs"
    if "set gs \<subseteq> set check" for gs rs
    using that
  proof (induction gs arbitrary: rs)
    case (Cons g gs)
    obtain r ds where "wishes q g = Some (r, ds)" using assms(2) Cons.prems by fastforce
    then have "length (qd_roles (data_of q g)) \<le> 5"
      using assms(1) data_of_wishes by (auto simp: queue_wf_def MAX_GROUP_SIZE_def)
    with join_fold_length [of env "qd_roles (data_of q g)" rs] Cons.IH [of "fold (join_player env) (qd_roles (data_of q g)) rs"] Cons.prems
    show ?case by simp
  qed simp
  from this [of check "[]"] show ?thesis using assms(3) by (simp add: join_players_def MAX_GROUP_SIZE_def)
qed

text \<open>The first pass counts the players of all entries, and the second joins every one of them unless it comes out shorter.\<close>

abbreviation entry_size :: "lfg_queue \<Rightarrow> ObjectGuid \<Rightarrow> nat" where
  "entry_size q g \<equiv> length (qd_roles (data_of q g))"

lemma scan_counts:
  assumes "scan_groups env q gs a = Inr b" "\<not> 1 < sc_numLfgGroups b" "unat (sc_numPlayers b) \<le> MAX_GROUP_SIZE"
  shows "sc_numPlayers b = sc_numPlayers a + of_nat (\<Sum>g \<leftarrow> gs. entry_size q g)"
  using assms
proof (induction env q gs a rule: scan_groups.induct)
  case (2 env q g gs a)
  have go: "sc_numLfgGroups a < 2 \<and> unat (sc_numPlayers a) \<le> MAX_GROUP_SIZE"
  proof (rule ccontr)
    assume n: "\<not> ?thesis"
    then have "b = a" using 2(2) by simp
    with n 2(3,4) show False by (auto simp: word_less_nat_alt)
  qed
  moreover from this obtain d where d: "map_of (QueueDataStore q) g = Some d" using 2(2) by (auto split: option.splits)
  ultimately show ?case using 2 by (auto simp: data_of_def Let_def add.assoc split: if_splits)
qed simp

lemma set_om_set: "set (om_set k v m) \<subseteq> insert (k, v) (set m)"
  by (induction k v m rule: om_set.induct) auto

lemma join_player_set: "set (join_player env x rs) \<subseteq> insert x (set rs)"
  using set_om_set [of "fst x" "snd x" rs] by (cases x) (auto simp: join_player_def)

lemma join_fold_set: "set (fold (join_player env) xs rs) \<subseteq> set rs \<union> set xs"
proof (induction xs arbitrary: rs)
  case (Cons x xs)
  from Cons [of "join_player env x rs"] join_player_set [of env x rs] show ?case by auto
qed simp

lemma join_players_set: "set (join_players env q check) \<subseteq> (\<Union>g \<in> set check. set (qd_roles (data_of q g)))"
proof -
  have "set (fold (\<lambda>g rs. fold (join_player env) (qd_roles (data_of q g)) rs) gs rs) \<subseteq> set rs \<union> (\<Union>g \<in> set gs. set (qd_roles (data_of q g)))" for gs rs
  proof (induction gs arbitrary: rs)
    case (Cons g gs)
    from Cons [of "fold (join_player env) (qd_roles (data_of q g)) rs"] join_fold_set [of env "qd_roles (data_of q g)" rs] show ?case by auto
  qed simp
  from this [of check "[]"] show ?thesis by (simp add: join_players_def)
qed

lemma join_fold_all:
  "length (fold (join_player env) xs rs) = length rs + length xs \<Longrightarrow>
     fst ` set rs \<union> fst ` set xs \<subseteq> fst ` set (fold (join_player env) xs rs)"
proof (induction xs arbitrary: rs)
  case (Cons x xs)
  let ?rs = "join_player env x rs"
  have "length ?rs \<le> Suc (length rs)" by (auto simp: join_player_def length_om_set split: prod.splits)
  moreover have "length (fold (join_player env) xs ?rs) \<le> length ?rs + length xs" by (rule join_fold_length)
  ultimately have len: "length ?rs = Suc (length rs)" "length (fold (join_player env) xs ?rs) = length ?rs + length xs"
    using Cons.prems by simp_all
  then have "fst ` set ?rs = insert (fst x) (fst ` set rs)" by (cases x) (simp add: join_player_def fst_om_set split: if_splits)
  with Cons.IH [OF len(2)] show ?case by simp
qed simp

lemma join_players_all:
  assumes "length (join_players env q check) = (\<Sum>g \<leftarrow> check. entry_size q g)" "g \<in> set check"
  shows "fst ` set (qd_roles (data_of q g)) \<subseteq> fst ` set (join_players env q check)"
proof -
  let ?join = "\<lambda>g rs. fold (join_player env) (qd_roles (data_of q g)) rs"
  have "fst ` set rs \<subseteq> fst ` set (fold ?join gs rs) \<and> (\<forall>g \<in> set gs. fst ` set (qd_roles (data_of q g)) \<subseteq> fst ` set (fold ?join gs rs))"
    if "length (fold ?join gs rs) = length rs + (\<Sum>g \<leftarrow> gs. entry_size q g)" for gs rs
    using that
  proof (induction gs arbitrary: rs)
    case (Cons g gs)
    have shorter: "length (fold ?join gs rs) \<le> length rs + (\<Sum>g \<leftarrow> gs. entry_size q g)" for rs
    proof (induction gs arbitrary: rs)
      case (Cons g gs)
      from Cons [of "?join g rs"] join_fold_length [of env "qd_roles (data_of q g)" rs] show ?case by simp
    qed simp
    have "length (?join g rs) \<le> length rs + entry_size q g" by (rule join_fold_length)
    then have len: "length (?join g rs) = length rs + entry_size q g"
        "length (fold ?join gs (?join g rs)) = length (?join g rs) + (\<Sum>g \<leftarrow> gs. entry_size q g)"
      using Cons.prems shorter [of "?join g rs"] by simp_all
    note IH = Cons.IH [OF len(2)]
    from join_fold_all [OF len(1)] IH [THEN conjunct1]
    have "fst ` set rs \<union> fst ` set (qd_roles (data_of q g)) \<subseteq> fst ` set (fold ?join gs (?join g rs))" by (rule order_trans)
    with IH [THEN conjunct2] show ?case unfolding list.set fold_simps by blast
  qed simp
  from this [of check "[]"] assms show ?thesis by (simp add: join_players_def)
qed

text \<open>Nobody in a set of joined players ignores another.\<close>

definition no_ignores :: "lfg_env \<Rightarrow> ObjectGuid set \<Rightarrow> bool" where
  "no_ignores env P \<longleftrightarrow> (\<forall>p \<in> P. \<forall>p' \<in> P. p \<noteq> p' \<longrightarrow> \<not> HasIgnore env p p')"

lemma join_player_no_ignores:
  assumes "\<forall>p p'. HasIgnore env p p' = HasIgnore env p' p" "no_ignores env (fst ` set rs)"
  shows "no_ignores env (fst ` set (join_player env x rs))"
proof -
  obtain p r where x: "x = (p, r)" by force
  show ?thesis
  proof (cases "list_ex (\<lambda>(p', r'). p' \<noteq> p \<and> HasIgnore env p p') rs")
    case True
    then show ?thesis using assms(2) by (simp only: x join_player_def prod.case if_True)
  next
    case False
    then have "\<forall>p' \<in> fst ` set rs. p' \<noteq> p \<longrightarrow> \<not> HasIgnore env p p'" by (force simp: list_ex_iff)
    then have "no_ignores env (insert p (fst ` set rs))"
      using assms(2) assms(1) [THEN spec, of p, THEN spec] unfolding no_ignores_def by (intro ballI) (elim insertE; metis)
    then show ?thesis using False by (simp only: x join_player_def prod.case if_False fst_om_set)
  qed
qed

lemma join_players_no_ignores:
  assumes sym: "\<forall>p p'. HasIgnore env p p' = HasIgnore env p' p"
  shows "no_ignores env (fst ` set (join_players env q check))"
proof -
  have 1: "no_ignores env (fst ` set (fold (join_player env) xs rs))" if "no_ignores env (fst ` set rs)" for xs rs
    using that by (induction xs arbitrary: rs) (simp_all add: join_player_no_ignores [OF sym])
  have "no_ignores env (fst ` set (fold (\<lambda>g rs. fold (join_player env) (qd_roles (data_of q g)) rs) gs rs))"
    if "no_ignores env (fst ` set rs)" for gs rs
    using that by (induction gs arbitrary: rs) (simp_all add: 1)
  moreover have "no_ignores env (fst ` set [])" by (simp add: no_ignores_def)
  ultimately show ?thesis unfolding join_players_def by blast
qed

lemma common_dungeons_subset: "x \<in> set (common_dungeons q check) \<Longrightarrow> check \<noteq> [] \<Longrightarrow> g \<in> set check \<Longrightarrow> x \<in> set (qd_dungeons (data_of q g))"
proof -
  have "x \<in> set ds \<and> (\<forall>g \<in> set gs. x \<in> set (qd_dungeons (data_of q g)))"
    if "x \<in> set (fold (\<lambda>g ds. filter (\<lambda>x. x \<in> set (qd_dungeons (data_of q g))) ds) gs ds)" for gs ds
    using that
  proof (induction gs arbitrary: ds)
    case (Cons g gs)
    from Cons.IH [OF Cons.prems [unfolded fold_simps]] show ?case by simp
  qed simp
  then show "x \<in> set (common_dungeons q check) \<Longrightarrow> check \<noteq> [] \<Longrightarrow> g \<in> set check \<Longrightarrow> x \<in> set (qd_dungeons (data_of q g))"
    by (cases check) (auto simp: common_dungeons_def)
qed

text \<open>What makes a proposal sound for the checked entries: it is made for them, its dungeon is one of each entry, all their players take part,
  and nobody else, each with roles out of those offered.\<close>

definition sound_proposal :: "lfg_queue \<Rightarrow> ObjectGuid list \<Rightarrow> proposal \<Rightarrow> bool" where
  "sound_proposal q check p \<longleftrightarrow> pr_queues p = check \<and>
     (\<forall>g \<in> set check. \<exists>rs ds. wishes q g = Some (rs, ds) \<and> pr_dungeonId p \<in> set ds \<and> fst ` set rs \<subseteq> fst ` set (pr_players p)) \<and>
     (\<forall>(m, pp) \<in> set (pr_players p). \<exists>g \<in> set check. \<exists>rs ds r. wishes q g = Some (rs, ds) \<and> (m, r) \<in> set rs \<and>
        (\<forall>k. bit (pp_role pp) k \<longrightarrow> bit r k))"

abbreviation proposed_roles :: "proposal \<Rightarrow> roles_map" where
  "proposed_roles p \<equiv> map (\<lambda>(m, pp). (m, pp_role pp)) (pr_players p)"

text \<open>What is checked of it besides: the size outside of test mode; roles and ignores if several entries come together. The
  roles of an entry that comes alone are distributed if they can be.\<close>

definition playable :: "lfg_env \<Rightarrow> lfg_queue \<Rightarrow> ObjectGuid list \<Rightarrow> proposal \<Rightarrow> bool" where
  "playable env q check p \<longleftrightarrow> AllQueued env check \<and> sound_proposal q check p \<and>
     (\<not> IsTesting env \<longrightarrow> length (pr_players p) = MAX_GROUP_SIZE) \<and>
     (1 < length check \<longrightarrow> assigned (proposed_roles p) \<and> no_ignores env (fst ` set (pr_players p))) \<and>
     (\<forall>g rs ds. check = [g] \<and> wishes q g = Some (rs, ds) \<and> CheckGroupRoles rs \<noteq> None \<longrightarrow> assigned (proposed_roles p))"

lemma narrowed_offer:
  assumes "narrowed rs rs'" "(m, w) \<in> set rs'"
  shows "\<exists>r. (m, r) \<in> set rs \<and> (\<forall>k. bit w k \<longrightarrow> bit r k)"
proof -
  obtain i where i: "i < length rs'" "rs' ! i = (m, w)" using assms(2) by (auto simp: in_set_conv_nth)
  have len: "length rs' = length rs" using assms(1) by (metis narrowed_def length_map)
  have "fst (rs ! i) = m" using assms(1) i len by (metis narrowed_def nth_map fst_conv)
  moreover have "\<forall>k. bit w k \<longrightarrow> bit (snd (rs ! i)) k" using assms(1) i len by (auto simp: narrowed_def)
  ultimately show ?thesis using i len by (intro exI [of _ "snd (rs ! i)"]) (metis nth_mem prod.collapse)
qed

lemma conclude_match:
  assumes "conclude env check a rs ds q = (LFG_COMPATIBLES_MATCH, q')"
  shows "\<exists>p. proposalsMade q' = proposalsMade q @ [p] \<and> p = make_proposal env check a ds rs \<and> AllQueued env check \<and>
     (\<not> IsTesting env \<longrightarrow> unat (sc_numPlayers a) = MAX_GROUP_SIZE) \<and>
     set check \<inter> set (newToQueueStore q') = {} \<and> set check \<inter> set (currentQueueStore q') = {}"
  using assms by (auto simp: conclude_def Let_def unqueue_all split: if_splits)

lemma proposal_fields:
  "pr_queues (make_proposal env check a ds rs) = check" "pr_dungeonId (make_proposal env check a ds rs) = random_dungeon env ds"
  "map (\<lambda>(g, pp). (g, pp_role pp)) (pr_players (make_proposal env check a ds rs)) = rs"
  "length (pr_players (make_proposal env check a ds rs)) = length rs"
  "fst ` set (pr_players (make_proposal env check a ds rs)) = fst ` set rs"
  by (force simp: make_proposal_def Let_def o_def case_prod_beta image_image)+

lemma sound_proposalI:
  assumes "narrowed rs rs'" "p = make_proposal env check a ds rs'"
    and "\<And>g. g \<in> set check \<Longrightarrow> \<exists>x y. wishes q g = Some (x, y) \<and> random_dungeon env ds \<in> set y \<and> fst ` set x \<subseteq> fst ` set rs"
    and "set rs \<subseteq> (\<Union>g \<in> set check. set (qd_roles (data_of q g)))"
  shows "sound_proposal q check p"
proof -
  have fsts: "fst ` set (pr_players p) = fst ` set rs"
    using assms(1,2) by (metis narrowed_def proposal_fields(5) list.set_map)
  have "\<exists>g \<in> set check. \<exists>x y r. wishes q g = Some (x, y) \<and> (m, r) \<in> set x \<and> (\<forall>k. bit (pp_role pp) k \<longrightarrow> bit r k)"
    if "(m, pp) \<in> set (pr_players p)" for m pp
  proof -
    have "(m, pp_role pp) \<in> set (proposed_roles p)" using that by force
    then have "(m, pp_role pp) \<in> set rs'" by (simp add: assms(2) proposal_fields(3))
    then obtain r where r: "(m, r) \<in> set rs" "\<forall>k. bit (pp_role pp) k \<longrightarrow> bit r k" using narrowed_offer [OF assms(1)] by blast
    with assms(4) obtain g where g: "g \<in> set check" "(m, r) \<in> set (qd_roles (data_of q g))" by blast
    then obtain x y where w: "wishes q g = Some (x, y)" using assms(3) by blast
    with g(2) have "(m, r) \<in> set x" by (simp add: data_of_wishes)
    with w g(1) r(2) show ?thesis by blast
  qed
  moreover have "\<exists>x y. wishes q g = Some (x, y) \<and> pr_dungeonId p \<in> set y \<and> fst ` set x \<subseteq> fst ` set (pr_players p)" if "g \<in> set check" for g
    using assms(3) [OF that] unfolding fsts by (simp add: assms(2) proposal_fields(2))
  ultimately show ?thesis by (auto simp: sound_proposal_def assms(2) proposal_fields(1))
qed

text \<open>A match of several entries: all players are joined, since the numbers agree.\<close>

lemma join_complete:
  assumes a: "scan_groups env q check \<lparr>sc_groups = [], sc_numPlayers = 0, sc_numLfgGroups = 0, sc_group = GuidEmpty\<rparr> = Inr a"
      "\<not> 1 < sc_numLfgGroups a" "unat (sc_numPlayers a) \<le> MAX_GROUP_SIZE"
    and wf: "queue_wf q" and len: "length check \<le> MAX_GROUP_SIZE" and n: "sc_numPlayers a - of_nat (length (join_players env q check)) = 0"
  shows "unat (sc_numPlayers a) = length (join_players env q check)"
    "g \<in> set check \<Longrightarrow> fst ` set (qd_roles (data_of q g)) \<subseteq> fst ` set (join_players env q check)"
proof -
  note present = scan_complete [OF a]
  have small: "length (join_players env q check) < 256" using join_players_length [OF wf present len] .
  then show eq: "unat (sc_numPlayers a) = length (join_players env q check)"
    using n by (simp add: unsigned_of_nat take_bit_eq_mod)
  have "entry_size q g \<le> 5" if "g \<in> set check" for g
    using present that wf data_of_wishes [of q g] by (fastforce simp: queue_wf_def MAX_GROUP_SIZE_def)
  then have "(\<Sum>g \<leftarrow> check. entry_size q g) \<le> (\<Sum>g \<leftarrow> check. 5)" by (rule sum_list_mono)
  then have "(\<Sum>g \<leftarrow> check. entry_size q g) < 256" using len by (simp add: sum_list_triv MAX_GROUP_SIZE_def)
  then have "unat (sc_numPlayers a) = (\<Sum>g \<leftarrow> check. entry_size q g)"
    using scan_counts [OF a] by (simp add: unsigned_of_nat take_bit_eq_mod)
  with eq show "g \<in> set check \<Longrightarrow> fst ` set (qd_roles (data_of q g)) \<subseteq> fst ` set (join_players env q check)"
    by (intro join_players_all) simp_all
qed

lemma several_match:
  assumes m: "check_body env check q = (LFG_COMPATIBLES_MATCH, q')" and wf: "queue_wf q" and len: "1 < length check" "length check \<le> MAX_GROUP_SIZE"
    and sym: "\<forall>p p'. HasIgnore env p p' = HasIgnore env p' p" and rnd: "\<forall>ds. ds \<noteq> [] \<longrightarrow> random_dungeon env ds \<in> set ds"
  shows "\<exists>p. proposalsMade q' = proposalsMade q @ [p] \<and> playable env q check p \<and>
     set check \<inter> set (newToQueueStore q') = {} \<and> set check \<inter> set (currentQueueStore q') = {}"
proof -
  let ?a0 = "\<lparr>sc_groups = [], sc_numPlayers = 0, sc_numLfgGroups = 0, sc_group = GuidEmpty\<rparr>"
  from m obtain a where a: "scan_groups env q check ?a0 = Inr a" "\<not> 1 < sc_numLfgGroups a" "unat (sc_numPlayers a) \<le> MAX_GROUP_SIZE"
    by (auto simp: check_body_def Let_def split: sum.splits if_splits)
  let ?rs = "join_players env q check" and ?ds = "common_dungeons q check"
  from m a len(1) obtain rs' where r: "sc_numPlayers a - of_nat (length ?rs) = 0" "CheckGroupRoles ?rs = Some rs'" "?ds \<noteq> []"
      "conclude env check a rs' ?ds q = (LFG_COMPATIBLES_MATCH, q')"
    by (auto simp: check_body_def Let_def split: if_splits option.splits)
  note all = join_complete [OF a wf len(2) r(1)]
  have "length ?rs < 256" using all(1) a(3) by (simp add: MAX_GROUP_SIZE_def)
  then have good: "narrowed ?rs rs'" "assigned rs'" using CheckGroupRoles_assigns [OF r(2)] by blast+
  from conclude_match [OF r(4)] obtain p where p: "proposalsMade q' = proposalsMade q @ [p]" "p = make_proposal env check a ?ds rs'"
      "AllQueued env check" "\<not> IsTesting env \<longrightarrow> unat (sc_numPlayers a) = MAX_GROUP_SIZE"
      "set check \<inter> set (newToQueueStore q') = {}" "set check \<inter> set (currentQueueStore q') = {}" by blast
  have "sound_proposal q check p"
  proof (rule sound_proposalI [OF good(1) p(2) _ join_players_set])
    fix g assume g: "g \<in> set check"
    with scan_complete [OF a] obtain rs ds where w: "wishes q g = Some (rs, ds)" by fastforce
    have "random_dungeon env ?ds \<in> set (qd_dungeons (data_of q g))"
      using common_dungeons_subset [OF _ _ g] rnd r(3) len(1) by fastforce
    with w all(2) [OF g] show "\<exists>x y. wishes q g = Some (x, y) \<and> random_dungeon env ?ds \<in> set y \<and> fst ` set x \<subseteq> fst ` set ?rs"
      by (auto dest!: data_of_wishes)
  qed
  moreover have "length rs' = length ?rs" "fst ` set rs' = fst ` set ?rs" using good(1) by (metis narrowed_def length_map, metis narrowed_def list.set_map)
  ultimately have "playable env q check p"
    using p(3,4) good(2) len(1) all(1) join_players_no_ignores [OF sym, of q check] by (auto simp: playable_def p(2) proposal_fields)
  with p show ?thesis by blast
qed

lemma narrowed_refl: "narrowed rs rs"
  by (simp add: narrowed_def)

lemma single_match:
  assumes m: "check_body env [g] q = (LFG_COMPATIBLES_MATCH, q')" and wf: "queue_wf q"
    and rnd: "\<forall>ds. ds \<noteq> [] \<longrightarrow> random_dungeon env ds \<in> set ds"
  shows "\<exists>p. proposalsMade q' = proposalsMade q @ [p] \<and> playable env q [g] p \<and>
     set [g] \<inter> set (newToQueueStore q') = {} \<and> set [g] \<inter> set (currentQueueStore q') = {}"
proof -
  let ?a0 = "\<lparr>sc_groups = [], sc_numPlayers = 0, sc_numLfgGroups = 0, sc_group = GuidEmpty\<rparr>"
  from m obtain a where a: "scan_groups env q [g] ?a0 = Inr a" "\<not> 1 < sc_numLfgGroups a" "unat (sc_numPlayers a) \<le> MAX_GROUP_SIZE"
    by (auto simp: check_body_def Let_def split: sum.splits if_splits)
  from scan_complete [OF a] obtain rs ds where w: "wishes q g = Some (rs, ds)" by fastforce
  then have d: "qd_roles (data_of q g) = rs" "qd_dungeons (data_of q g) = ds" by (simp_all add: data_of_wishes)
  have wfg: "length rs \<le> 5" "ds \<noteq> []" using wf w by (auto simp: queue_wf_def MAX_GROUP_SIZE_def)
  define rs' where "rs' = (case CheckGroupRoles rs of Some x \<Rightarrow> x | None \<Rightarrow> rs)"
  from m a have c: "conclude env [g] a rs' ds q = (LFG_COMPATIBLES_MATCH, q')"
    by (auto simp: check_body_def Let_def rs'_def d simp del: scan_groups.simps split: if_splits cong: option.case_cong)
  from conclude_match [OF c] obtain p where p: "proposalsMade q' = proposalsMade q @ [p]" "p = make_proposal env [g] a ds rs'"
      "AllQueued env [g]" "\<not> IsTesting env \<longrightarrow> unat (sc_numPlayers a) = MAX_GROUP_SIZE"
      "set [g] \<inter> set (newToQueueStore q') = {}" "set [g] \<inter> set (currentQueueStore q') = {}" by blast
  have good: "narrowed rs rs'" "CheckGroupRoles rs \<noteq> None \<longrightarrow> assigned rs'"
    using CheckGroupRoles_assigns [of rs] wfg(1) by (auto simp: rs'_def narrowed_refl split: option.splits)
  have "sound_proposal q [g] p"
    by (rule sound_proposalI [OF good(1) p(2)]) (use w d wfg(2) rnd in auto)
  moreover have "length rs' = length rs" using good(1) by (metis narrowed_def length_map)
  moreover have "sc_numPlayers a = of_nat (length rs)" using scan_counts [OF a] by (simp add: d)
  ultimately have "playable env q [g] p"
    using p(3,4) good(2) w wfg(1) by (auto simp: playable_def p(2) proposal_fields unsigned_of_nat take_bit_eq_mod)
  with p show ?thesis by blast
qed

lemma check_body_match:
  assumes "check_body env check q = (LFG_COMPATIBLES_MATCH, q')" "queue_wf q" "check \<noteq> []" "length check \<le> MAX_GROUP_SIZE"
    and "\<forall>p p'. HasIgnore env p p' = HasIgnore env p' p" "\<forall>ds. ds \<noteq> [] \<longrightarrow> random_dungeon env ds \<in> set ds"
  shows "\<exists>p. proposalsMade q' = proposalsMade q @ [p] \<and> playable env q check p \<and>
     set check \<inter> set (newToQueueStore q') = {} \<and> set check \<inter> set (currentQueueStore q') = {}"
proof (cases "1 < length check")
  case False
  then obtain g where "check = [g]" using assms(3) by (cases check) auto
  with single_match [of env g q q'] assms show ?thesis by blast
qed (use several_match [of env check q q'] assms in blast)

text \<open>C6: a match is a group that can play. When CheckCompatibility reports a match it has handed over a proposal for exactly the checked
  entries, all of which are queued and are then in neither list of the queue; its dungeon is one that every entry asked for, exactly the
  players of the entries take part in it, and each of them with roles out of those offered. Outside of test mode it has
  five players. If several entries come together, every player has one role, with at most one tank, one healer and three damage
  dealers, and no player ignores another. An entry that comes alone is not checked for ignores, and is accepted if its roles cannot be
  distributed; if they can, they are.\<close>

theorem match_is_playable:
  assumes "CheckCompatibility env check q = (LFG_COMPATIBLES_MATCH, q')" "queue_wf q"
    and "\<forall>p p'. HasIgnore env p p' = HasIgnore env p' p" "\<forall>ds. ds \<noteq> [] \<longrightarrow> random_dungeon env ds \<in> set ds"
  shows "\<exists>ps p. proposalsMade q' = ps @ [p] \<and> playable env q check p \<and>
     set check \<inter> set (newToQueueStore q') = {} \<and> set check \<inter> set (currentQueueStore q') = {}"
proof -
  from assms(1) obtain g gs where check: "check = g # gs" and len: "\<not> length check > MAX_GROUP_SIZE"
    by (cases check) (auto split: if_splits)
  obtain q1 where q1: "check_body env check q1 = (LFG_COMPATIBLES_MATCH, q')" "wishes q1 = wishes q"
  proof (cases "length check > 2")
    case False
    then show ?thesis using that [of q] assms(1) check len by simp
  next
    case True
    obtain child q2 where child: "CheckCompatibility env gs q = (child, q2)" by force
    with True assms(1) check len have c: "\<not> compat_num child < 7" "check_body env check q2 = (LFG_COMPATIBLES_MATCH, q')"
      by (auto split: if_splits)
    then have "child \<noteq> LFG_COMPATIBILITY_PENDING" by auto
    then have "wishes q2 = wishes q" using CheckCompatibility_wishes [of env gs q] child by simp
    then show ?thesis using that c(2) by blast
  qed
  have wf: "queue_wf q1" using assms(2) q1(2) by (simp add: queue_wf_def)
  have ne: "check \<noteq> []" "length check \<le> MAX_GROUP_SIZE" using check len by simp_all
  have same: "playable env q1 check p = playable env q check p" for p using q1(2) by (simp add: playable_def sound_proposal_def)
  show ?thesis using check_body_match [OF q1(1) wf ne assms(3,4)] same by blast
qed

text \<open>Candidates are used up. When a new entry and a first candidate are compatible but too few, the search
  continues with the remaining candidates in combinations that contain that candidate only: behind the
  call the list of candidates is empty, so no later candidate is tried with the new entry alone, whatever
  the cache or a check would say about them.\<close>

theorem candidates_used_up:
  assumes "FindNewGroups env (check @ [a]) all q = (LFG_COMPATIBLES_WITH_LESS_PLAYERS, rest, q')"
  shows "rest = [] \<and> match_loop env check c (a # all) q = (c, [], q')"
proof -
  have loop: "match_loop env check c all q = (c', rest, q') \<Longrightarrow> c' \<noteq> LFG_COMPATIBLES_MATCH \<Longrightarrow> rest = []"
    for env check c all q c' rest q'
  proof (induction "length all" arbitrary: all q rule: less_induct)
    case less
    show ?case
    proof (cases all)
      case Nil
      then show ?thesis using less.prems by simp
    next
      case (Cons b bs)
      obtain sub r q1 where f: "FindNewGroups env (check @ [b]) bs q = (sub, r, q1)" by (metis prod_cases3)
      then have "length r \<le> length bs" by (rule rest_shorter)
      with less.prems Cons f have "sub \<noteq> LFG_COMPATIBLES_MATCH" "match_loop env check c r q1 = (c', rest, q')"
        by (auto split: if_splits)
      then show ?thesis using less.hyps [of r q1] \<open>length r \<le> length bs\<close> Cons less.prems(2) by simp
    qed
  qed
  have "rest = []"
    using assms loop by (auto simp: FindNewGroups.simps [of env "check @ [a]"] Let_def split: prod.splits if_splits)
  then show ?thesis using assms by simp
qed

section \<open>Examples\<close>

text \<open>A manager for which everybody is queued and nobody ignores anybody.\<close>

definition demo_lfg :: lfg_env where
  "demo_lfg = \<lparr>IsLfgGroup = (\<lambda>_. False), HasIgnore = (\<lambda>_ _. False), IsQueued = (\<lambda>_. True), OldStateIsDungeon = (\<lambda>_. False),
     IsTesting = False, env_time = 0, random_dungeon = hd, random_bit = (\<lambda>_. False)\<rparr>"

definition demo_queue :: "(ObjectGuid \<times> queue_data) list \<Rightarrow> (string \<times> compat_data) list \<Rightarrow> lfg_queue" where
  "demo_queue ds cs = \<lparr>QueueDataStore = ds, CompatibleMapStore = cs, waitTimesAvgStore = [], waitTimesTankStore = [],
     waitTimesHealerStore = [], waitTimesDpsStore = [], currentQueueStore = [], newToQueueStore = [], proposalsMade = []\<rparr>"

text \<open>Four players who may play two dungeons, and a fifth who waits alone for one of them.\<close>

definition demo_entries :: lfg_queue where
  "demo_entries = demo_queue
     [(ObjectGuid 0 5, LfgQueueData 0 [8, 9] [(ObjectGuid 0 5, 8)]),
      (ObjectGuid 0 9, LfgQueueData 0 [7, 8] [(ObjectGuid 0 1, 2), (ObjectGuid 0 2, 4), (ObjectGuid 0 3, 8), (ObjectGuid 0 4, 8)])] []"

theorem match_is_playable_witness:
  "\<exists>q' ps p. CheckCompatibility demo_lfg [ObjectGuid 0 9, ObjectGuid 0 5] demo_entries = (LFG_COMPATIBLES_MATCH, q') \<and>
     proposalsMade q' = ps @ [p] \<and> pr_dungeonId p = 8 \<and> length (pr_players p) = 5 \<and> assigned (proposed_roles p) \<and>
     {ObjectGuid 0 1, ObjectGuid 0 2, ObjectGuid 0 3, ObjectGuid 0 4, ObjectGuid 0 5} \<subseteq> fst ` set (pr_players p)"
proof -
  let ?check = "[ObjectGuid 0 9, ObjectGuid 0 5]"
  have join: "join_players demo_lfg demo_entries ?check = [(ObjectGuid 0 1, 2), (ObjectGuid 0 2, 4), (ObjectGuid 0 3, 8), (ObjectGuid 0 4, 8), (ObjectGuid 0 5, 8)]"
    by (simp add: join_players_def data_of_def demo_entries_def demo_queue_def LfgQueueData_def join_player_def demo_lfg_def
        less_ObjectGuid_def guid_less_def)
  have roles: "CheckGroupRoles [(ObjectGuid 0 1, 2), (ObjectGuid 0 2, 4), (ObjectGuid 0 3, 8), (ObjectGuid 0 4, 8), (ObjectGuid 0 5, 8)] \<noteq> None"
    by code_simp
  have ds: "common_dungeons demo_entries ?check = [8]"
    by (simp add: common_dungeons_def data_of_def demo_entries_def demo_queue_def LfgQueueData_def)
  obtain a where a: "scan_groups demo_lfg demo_entries ?check \<lparr>sc_groups = [], sc_numPlayers = 0, sc_numLfgGroups = 0, sc_group = GuidEmpty\<rparr> = Inr a"
      "sc_numPlayers a = 5" "sc_numLfgGroups a = 0"
    by (simp add: demo_entries_def demo_queue_def LfgQueueData_def demo_lfg_def MAX_GROUP_SIZE_def Let_def)
  have "fst (check_body demo_lfg ?check demo_entries) = LFG_COMPATIBLES_MATCH"
    using roles a by (auto simp: check_body_def Let_def join ds conclude_def AllQueued_def MAX_GROUP_SIZE_def simp del: scan_groups.simps)
      (simp_all add: demo_lfg_def)
  then have "fst (CheckCompatibility demo_lfg ?check demo_entries) = LFG_COMPATIBLES_MATCH" by (simp add: MAX_GROUP_SIZE_def)
  then obtain q' where m: "CheckCompatibility demo_lfg ?check demo_entries = (LFG_COMPATIBLES_MATCH, q')" by (metis prod.collapse)
  have w: "wishes demo_entries g = (if g = ObjectGuid 0 5 then Some ([(ObjectGuid 0 5, 8)], [8, 9])
      else if g = ObjectGuid 0 9 then Some ([(ObjectGuid 0 1, 2), (ObjectGuid 0 2, 4), (ObjectGuid 0 3, 8), (ObjectGuid 0 4, 8)], [7, 8]) else None)" for g
    by (simp add: wishes_def demo_entries_def demo_queue_def LfgQueueData_def)
  have "queue_wf demo_entries" by (auto simp: queue_wf_def w MAX_GROUP_SIZE_def split: if_splits)
  moreover have "\<forall>p p'. HasIgnore demo_lfg p p' = HasIgnore demo_lfg p' p" "\<forall>ds. ds \<noteq> [] \<longrightarrow> random_dungeon demo_lfg ds \<in> set ds"
    by (simp_all add: demo_lfg_def)
  ultimately obtain ps p where "proposalsMade q' = ps @ [p]" "playable demo_lfg demo_entries ?check p"
    using match_is_playable [OF m] by blast
  with m show ?thesis by (auto simp: playable_def sound_proposal_def w demo_lfg_def MAX_GROUP_SIZE_def)
qed

lemma length_ConcatenateGuids:
  assumes "check \<noteq> []"
  shows "Suc (length (ConcatenateGuids check)) = 33 * card (set check)"
proof -
  have len: "length (concat (map (\<lambda>t. CHR ''|'' # t) (map guid_stream gs))) = 33 * length gs" for gs
    by (induction gs) (simp_all add: guid_stream_shape)
  obtain g gs where g: "sorted_list_of_set (set check) = g # gs"
    using assms by (cases "sorted_list_of_set (set check)") auto
  then have "card (set check) = Suc (length gs)"
    by (metis length_Cons length_sorted_list_of_set)
  then show ?thesis using len [of gs] by (simp add: ConcatenateGuids_def g guid_stream_shape)
qed

theorem candidates_used_up_witness:
  "match_loop demo_lfg [ObjectGuid 0 1] LFG_COMPATIBLES_WITH_LESS_PLAYERS [ObjectGuid 0 2, ObjectGuid 0 3]
     (demo_queue [] [(ConcatenateGuids [ObjectGuid 0 1, ObjectGuid 0 2], \<lparr>cd_compatibility = LFG_COMPATIBLES_WITH_LESS_PLAYERS, cd_roles = []\<rparr>),
        (ConcatenateGuids [ObjectGuid 0 1, ObjectGuid 0 2, ObjectGuid 0 3], \<lparr>cd_compatibility = LFG_INCOMPATIBLES_NO_DUNGEONS, cd_roles = []\<rparr>)])
   = (LFG_COMPATIBLES_WITH_LESS_PLAYERS, [],
     demo_queue [] [(ConcatenateGuids [ObjectGuid 0 1, ObjectGuid 0 2], \<lparr>cd_compatibility = LFG_COMPATIBLES_WITH_LESS_PLAYERS, cd_roles = []\<rparr>),
        (ConcatenateGuids [ObjectGuid 0 1, ObjectGuid 0 2, ObjectGuid 0 3], \<lparr>cd_compatibility = LFG_INCOMPATIBLES_NO_DUNGEONS, cd_roles = []\<rparr>)])"
proof -
  let ?k2 = "ConcatenateGuids [ObjectGuid 0 1, ObjectGuid 0 2]" and ?k3 = "ConcatenateGuids [ObjectGuid 0 1, ObjectGuid 0 2, ObjectGuid 0 3]"
  let ?q = "demo_queue [] [(?k2, \<lparr>cd_compatibility = LFG_COMPATIBLES_WITH_LESS_PLAYERS, cd_roles = []\<rparr>),
        (?k3, \<lparr>cd_compatibility = LFG_INCOMPATIBLES_NO_DUNGEONS, cd_roles = []\<rparr>)]"
  have "length ?k2 \<noteq> length ?k3"
    using length_ConcatenateGuids [of "[ObjectGuid 0 1, ObjectGuid 0 2]"]
      length_ConcatenateGuids [of "[ObjectGuid 0 1, ObjectGuid 0 2, ObjectGuid 0 3]"] by simp
  then have ne: "?k3 \<noteq> ?k2" by auto
  have c: "GetCompatibles ?k2 ?q = LFG_COMPATIBLES_WITH_LESS_PLAYERS" "GetCompatibles ?k3 ?q = LFG_INCOMPATIBLES_NO_DUNGEONS"
    using ne by (simp_all add: GetCompatibles_def demo_queue_def)
  have 3: "FindNewGroups demo_lfg [ObjectGuid 0 1, ObjectGuid 0 2, ObjectGuid 0 3] [] ?q = (LFG_INCOMPATIBLES_NO_DUNGEONS, [], ?q)"
    using c(2) by (simp add: FindNewGroups.simps Let_def)
  have "FindNewGroups demo_lfg ([ObjectGuid 0 1] @ [ObjectGuid 0 2]) [ObjectGuid 0 3] ?q = (LFG_COMPATIBLES_WITH_LESS_PLAYERS, [], ?q)"
    using c(1) 3 by (simp add: FindNewGroups.simps [of demo_lfg "[ObjectGuid 0 1, ObjectGuid 0 2]"] Let_def)
  from conjunct2 [OF candidates_used_up [OF this]] show ?thesis .
qed

end
