(* ===== verification/Lfg_Release.thy ===== *)
theory Lfg_Release
  imports Lfg_Outcomes Lfg_Matching
begin

text \<open>
  The end of a proposal that is declined or not answered in time: who leaves the queue, who goes back to its front, and
  in which state the players and groups are left. Also the statements about joining, leaving and the role check.
\<close>

section \<open>The queue\<close>

lemma find_best_kept [simp]:
  "wishes (FindBestCompatibleInQueue g q) = wishes q" "currentQueueStore (FindBestCompatibleInQueue g q) = currentQueueStore q"
proof -
  have kept: "wishes (fold (\<lambda>(key, d) q'. if P key d then UpdateBestCompatibleInQueue g key (cd_roles d) q' else q') xs q) = wishes q \<and>
      currentQueueStore (fold (\<lambda>(key, d) q'. if P key d then UpdateBestCompatibleInQueue g key (cd_roles d) q' else q') xs q) = currentQueueStore q"
    for P and xs :: "(string \<times> compat_data) list"
    by (induction xs arbitrary: q) auto
  then show "wishes (FindBestCompatibleInQueue g q) = wishes q" "currentQueueStore (FindBestCompatibleInQueue g q) = currentQueueStore q"
    using kept by (simp_all add: FindBestCompatibleInQueue_def)
qed

lemma refresh_kept [simp]: "wishes (refresh_best g k q) = wishes q" "currentQueueStore (refresh_best g k q) = currentQueueStore q"
proof -
  have "wishes (q\<lparr>QueueDataStore := om_adjust k (\<lambda>d. d\<lparr>qd_bestCompatible := []\<rparr>) (QueueDataStore q)\<rparr>) = wishes q"
    by (auto simp: wishes_def fun_eq_iff map_option.compositionality o_def)
  then show "wishes (refresh_best g k q) = wishes q" "currentQueueStore (refresh_best g k q) = currentQueueStore q"
    by (simp_all add: refresh_best_def split: option.splits)
qed

lemma RemoveFromQueue_kept:
  "wishes (RemoveFromQueue g q) = (wishes q)(g := None)" "currentQueueStore (RemoveFromQueue g q) = removeAll g (currentQueueStore q)"
proof -
  have "wishes (fold (refresh_best g) ks q) = wishes q \<and> currentQueueStore (fold (refresh_best g) ks q) = currentQueueStore q" for ks q
    by (induction ks arbitrary: q) simp_all
  moreover have "wishes (RemoveFromCompatibles g (RemoveFromCurrentQueue g (RemoveFromNewQueue g q))) = wishes q"
    "currentQueueStore (RemoveFromCompatibles g (RemoveFromCurrentQueue g (RemoveFromNewQueue g q))) = removeAll g (currentQueueStore q)"
    by (simp_all add: wishes_def fun_eq_iff RemoveFromCompatibles_def RemoveFromCurrentQueue_def RemoveFromNewQueue_def)
  moreover have "wishes (RemoveQueueData g q) = (wishes q)(g := None)" "currentQueueStore (RemoveQueueData g q) = currentQueueStore q" for q
    by (simp_all add: wishes_def fun_eq_iff RemoveQueueData_def)
  ultimately show "wishes (RemoveFromQueue g q) = (wishes q)(g := None)" "currentQueueStore (RemoveFromQueue g q) = removeAll g (currentQueueStore q)"
    by (simp_all add: RemoveFromQueue_def Let_def)
qed

lemma removeAll_fold: "fold removeAll gs xs = filter (\<lambda>x. x \<notin> set gs) xs"
  by (induction gs arbitrary: xs) (auto simp: removeAll_filter_not_eq intro: filter_cong)

lemma RemoveFromQueue_all:
  "wishes (fold RemoveFromQueue gs q) = (\<lambda>g. if g \<in> set gs then None else wishes q g)"
  "currentQueueStore (fold RemoveFromQueue gs q) = filter (\<lambda>x. x \<notin> set gs) (currentQueueStore q)"
  "newToQueueStore (fold RemoveFromQueue gs q) = filter (\<lambda>x. x \<notin> set gs) (newToQueueStore q)"
proof (induction gs arbitrary: q)
  case (Cons g gs)
  { case 1 show ?case using Cons(1) by (auto simp: RemoveFromQueue_kept) }
  { case 2 show ?case using Cons(2) by (auto simp: RemoveFromQueue_kept removeAll_filter_not_eq conj_commute intro!: filter_cong) }
  { case 3 show ?case using Cons(3) by (auto simp: RemoveFromQueue_new removeAll_filter_not_eq conj_commute intro!: filter_cong) }
qed auto

lemma AddToQueue_front:
  "wishes (AddToQueue g True q) = wishes q" "newToQueueStore (AddToQueue g True q) = newToQueueStore q"
  "currentQueueStore (AddToQueue g True q) = (if wishes q g = None then currentQueueStore q else g # currentQueueStore q)"
  by (auto simp: AddToQueue_def AddToFrontCurrentQueue_def wishes_def fun_eq_iff)

lemma AddToQueue_all:
  "wishes (fold (\<lambda>g. AddToQueue g True) gs q) = wishes q" "newToQueueStore (fold (\<lambda>g. AddToQueue g True) gs q) = newToQueueStore q"
  "currentQueueStore (fold (\<lambda>g. AddToQueue g True) gs q) = rev (filter (\<lambda>g. wishes q g \<noteq> None) gs) @ currentQueueStore q"
proof (induction gs arbitrary: q)
  case (Cons g gs)
  { case 1 show ?case using Cons(1) by (simp add: AddToQueue_front) }
  { case 2 show ?case using Cons(2) by (simp add: AddToQueue_front) }
  { case 3 show ?case using Cons(3) by (simp add: AddToQueue_front) }
qed simp_all

lemma release_queue_lists:
  fixes p :: proposal and gs :: "ObjectGuid list" and q :: lfg_queue
  defines "q' \<equiv> release_queue p gs q"
  shows "wishes q' = (\<lambda>g. if g \<in> set gs then None else wishes q g)"
    "newToQueueStore q' = filter (\<lambda>g. g \<notin> set gs) (newToQueueStore q)"
    "currentQueueStore q' = rev (filter (\<lambda>g. g \<notin> set gs \<and> wishes q g \<noteq> None) (pr_queues p)) @ filter (\<lambda>g. g \<notin> set gs) (currentQueueStore q)"
proof -
  show "wishes q' = (\<lambda>g. if g \<in> set gs then None else wishes q g)"
    by (simp add: q'_def release_queue_def AddToQueue_all RemoveFromQueue_all)
  show "newToQueueStore q' = filter (\<lambda>g. g \<notin> set gs) (newToQueueStore q)"
    by (simp add: q'_def release_queue_def AddToQueue_all RemoveFromQueue_all)
  have "filter (\<lambda>g. (if g \<in> set gs then None else wishes q g) \<noteq> None) (filter (\<lambda>g. g \<notin> set gs) xs) = filter (\<lambda>g. g \<notin> set gs \<and> wishes q g \<noteq> None) xs" for xs
    by (induction xs) auto
  then show "currentQueueStore q' = rev (filter (\<lambda>g. g \<notin> set gs \<and> wishes q g \<noteq> None) (pr_queues p)) @ filter (\<lambda>g. g \<notin> set gs) (currentQueueStore q)"
    by (simp only: q'_def release_queue_def AddToQueue_all RemoveFromQueue_all)
qed

section \<open>The players\<close>

lemma set_refusers: "set (refusers p) = queue_key ` {e \<in> set (pr_players p). pp_accept (snd e) = LFG_ANSWER_DENY}"
proof -
  have "set (fold (\<lambda>e s. if pp_accept (snd e) = LFG_ANSWER_DENY then set_insert (queue_key e) s else s) es s) =
      set s \<union> queue_key ` {e \<in> set es. pp_accept (snd e) = LFG_ANSWER_DENY}" for es s
    by (induction es arbitrary: s) auto
  then show ?thesis by (simp add: refusers_def)
qed

lemma release_step:
  fixes env :: mgr_env and type :: LfgUpdateType and p :: proposal and R :: "ObjectGuid list" and m :: lfg_mgr and e :: "ObjectGuid \<times> proposal_player"
  defines "m' \<equiv> release_player env type p R e m"
  shows "GetLfgState x m' = (if x = fst e \<or> x = queue_key e then (if queue_key e \<in> set R then GetOldState x m else LFG_STATE_QUEUED) else GetLfgState x m)"
    "GetOldState x m' = GetOldState x m"
  by (cases e; auto simp: m'_def release_player_def Let_def queue_key_def)+

lemma release_states:
  assumes "\<And>e x. e \<in> set es \<Longrightarrow> x = fst e \<or> x = queue_key e \<Longrightarrow> v x = (if queue_key e \<in> set R then GetOldState x m else LFG_STATE_QUEUED)"
  shows "GetLfgState x (fold (release_player env type p R) es m) =
      (if x \<in> fst ` set es \<union> queue_key ` set es then v x else GetLfgState x m) \<and>
    GetOldState x (fold (release_player env type p R) es m) = GetOldState x m"
  using assms
proof (induction es arbitrary: m)
  case (Cons e es)
  let ?m = "release_player env type p R e m"
  have "v y = (if queue_key e' \<in> set R then GetOldState y ?m else LFG_STATE_QUEUED)" if "e' \<in> set es" "y = fst e' \<or> y = queue_key e'" for e' y
    using Cons.prems [of e' y] that by (simp add: release_step)
  from Cons.IH [OF this] have "GetLfgState x (fold (release_player env type p R) es ?m) =
      (if x \<in> fst ` set es \<union> queue_key ` set es then v x else GetLfgState x ?m) \<and>
      GetOldState x (fold (release_player env type p R) es ?m) = GetOldState x m" by (simp add: release_step)
  moreover have "GetLfgState x ?m = (if x = fst e \<or> x = queue_key e then v x else GetLfgState x m)"
    using Cons.prems [of e x] by (auto simp: release_step)
  ultimately show ?case by auto
qed simp

text \<open>Entries of a proposal as the queue makes them: players with their groups.\<close>

definition proposal_wf :: "proposal \<Rightarrow> bool" where
  "proposal_wf p \<longleftrightarrow> pr_players p \<noteq> [] \<and> distinct (map fst (pr_players p)) \<and>
     (\<forall>(g, pp) \<in> set (pr_players p). \<not> IsParty g \<and> (IsEmpty (pp_group pp) \<or> IsParty (pp_group pp)))"

lemma settle_fields [simp]: "map fst (pr_players (settle_answers type p)) = map fst (pr_players p)" "pr_queues (settle_answers type p) = pr_queues p"
  by (auto simp: settle_answers_def Let_def)

lemma settle_wf: "proposal_wf p \<Longrightarrow> proposal_wf (settle_answers type p)"
  by (auto simp: proposal_wf_def settle_answers_def Let_def split: prod.splits if_splits) (auto simp: o_def case_prod_beta)

lemma release_consistent:
  assumes "proposal_wf p"
  obtains v where "\<And>e x. e \<in> set (pr_players p) \<Longrightarrow> x = fst e \<or> x = queue_key e \<Longrightarrow>
      v x = (if queue_key e \<in> set R then GetOldState x m else LFG_STATE_QUEUED)"
proof
  let ?k = "\<lambda>x. if IsParty x then x else case map_of (pr_players p) x of Some pp \<Rightarrow> queue_key (x, pp) | None \<Rightarrow> x"
  let ?v = "\<lambda>x. if ?k x \<in> set R then GetOldState x m else LFG_STATE_QUEUED"
  fix e x assume e: "e \<in> set (pr_players p)" "x = fst e \<or> x = queue_key e"
  obtain g pp where g: "e = (g, pp)" by force
  have wf: "\<not> IsParty g" "IsEmpty (pp_group pp) \<or> IsParty (pp_group pp)" "map_of (pr_players p) g = Some pp"
    using assms e(1) g by (auto simp: proposal_wf_def)
  then have "?k x = queue_key e" using e(2) g by (auto simp: queue_key_def split: if_splits)
  then show "?v x = (if queue_key e \<in> set R then GetOldState x m else LFG_STATE_QUEUED)" by simp
qed

section \<open>Role checks and proposals\<close>

text \<open>C13: a role check decides for the whole group. When the last member chooses a role, the role check ends: if one
  role each can be picked from what the members offer, with at most one tank, one healer and three damage
  dealers, then the group and all its members are queued with the roles they offered, at the end of
  the new entries of their queue; otherwise all of them are back in the state they had before, and no queue changes.\<close>

theorem role_check_decides:
  assumes "map_of (RoleChecksStore m) gg = Some rc" "IsParty gg" "\<not> IsEmpty g" "PLAYER_ROLE_TANK \<le> roles"
    and "rs = om_set g roles (rc_roles rc)" "all_chosen rs" "om_wf rs" "\<forall>p \<in> fst ` set rs. \<not> IsParty p"
    and "length rs < 256" "\<forall>(p, r) \<in> set rs. r < 16"
    and "om_wf (QueuesStore m)" "om_wf (QueueDataStore (queue_at (GetQueueId gg m) m))"
  shows "map_of (RoleChecksStore (UpdateRoleCheck env gg g roles m)) gg = None \<and>
    (if \<exists>A. role_choice rs A
     then (\<forall>x. GetLfgState x (UpdateRoleCheck env gg g roles m) = (if x = gg \<or> x \<in> fst ` set rs then LFG_STATE_QUEUED else GetLfgState x m)) \<and>
          (\<forall>(p, r) \<in> set rs. GetRoles p (UpdateRoleCheck env gg g roles m) = r) \<and>
          queued_as (queue_at (GetQueueId gg m) m) gg (mg_time env) (rc_dungeons rc) rs
            (queue_at (GetQueueId gg m) (UpdateRoleCheck env gg g roles m))
     else (\<forall>x. GetLfgState x (UpdateRoleCheck env gg g roles m) = (if x = gg \<or> x \<in> fst ` set rs then GetOldState x m else GetLfgState x m)) \<and>
          QueuesStore (UpdateRoleCheck env gg g roles m) = QueuesStore m)"
proof -
  have ne: "rs \<noteq> []" using assms(5) by simp
  note iff = CheckGroupRoles_iff [OF ne assms(9,10)]
  note closes = role_check_closes [OF assms(1-8) refl, of env]
  have "map_of (RoleChecksStore (UpdateRoleCheck env gg g roles m)) gg = None" using closes(1) by simp
  then show ?thesis using iff closes(2,3) assms(11) AddQueueData_queued [OF assms(12)] by (cases "CheckGroupRoles rs = None") auto
qed

definition refused :: "LfgUpdateType \<Rightarrow> proposal_player \<Rightarrow> bool" where
  "refused type pp \<longleftrightarrow> pp_accept pp = LFG_ANSWER_DENY \<or> pp_accept pp = LFG_ANSWER_PENDING \<and> type = LFG_UPDATETYPE_PROPOSAL_FAILED"

lemma settled_players:
  obtains f where "pr_players (settle_answers type p) = map f (pr_players p)"
    "\<And>e. fst (f e) = fst e" "\<And>e. queue_key (f e) = queue_key e" "\<And>e. pp_accept (snd (f e)) = LFG_ANSWER_DENY \<longleftrightarrow> refused type (snd e)"
proof (cases "type = LFG_UPDATETYPE_PROPOSAL_FAILED")
  case True
  show ?thesis
    by (rule that [of "\<lambda>(g, pp). (g, if pp_accept pp = LFG_ANSWER_PENDING then pp\<lparr>pp_accept := LFG_ANSWER_DENY\<rparr> else pp)"])
       (use True in \<open>auto simp: settle_answers_def Let_def queue_key_def refused_def split: prod.splits\<close>)
next
  case False
  show ?thesis by (rule that [of id]) (use False in \<open>auto simp: settle_answers_def Let_def refused_def\<close>)
qed

lemma refusers_settled: "set (refusers (settle_answers type p)) = queue_key ` {e \<in> set (pr_players p). refused type (snd e)}"
proof -
  obtain f where f: "pr_players (settle_answers type p) = map f (pr_players p)" "\<And>e. queue_key (f e) = queue_key e"
      "\<And>e. pp_accept (snd (f e)) = LFG_ANSWER_DENY \<longleftrightarrow> refused type (snd e)" using settled_players [of type p] by metis
  have "{e \<in> f ` set (pr_players p). pp_accept (snd e) = LFG_ANSWER_DENY} = f ` {e \<in> set (pr_players p). refused type (snd e)}"
    using f(3) by blast
  then show ?thesis by (simp add: set_refusers f(1) image_image f(2))
qed

lemma settled_entry:
  assumes "e \<in> set (pr_players p)"
  obtains e' where "e' \<in> set (pr_players (settle_answers type p))" "fst e' = fst e" "queue_key e' = queue_key e"
proof -
  obtain f where f: "pr_players (settle_answers type p) = map f (pr_players p)" "\<And>e. fst (f e) = fst e" "\<And>e. queue_key (f e) = queue_key e"
    using settled_players [of type p] by metis
  have "f e \<in> set (pr_players (settle_answers type p))" using assms by (simp add: f(1))
  then show ?thesis using that f(2,3) by blast
qed

text \<open>C14: a proposal that fails takes only those out of the queue who let it fail. When a proposal is declined or
  not answered in time, the players who declined (or, in the second case, gave no answer) lose their queue entry,
  which is that of their whole group if they came with one, and they and their groups are back in the state they had before; all
  other players and groups of the proposal are queued again, and their entries stand at the front of the queue.\<close>

theorem failed_proposal_releases:
  assumes "map_of (ProposalsStore m) i = Some p" "proposal_wf p" "om_wf (QueuesStore m)"
    and "R = queue_key ` {e \<in> set (pr_players p). refused type (snd e)}" "qid = GetQueueId (fst (hd (pr_players p))) m"
  shows "\<exists>m'. RemoveProposal env i type m = Inr m' \<and> map_of (ProposalsStore m') i = None \<and>
    (\<forall>e \<in> set (pr_players p). \<forall>x \<in> {fst e, queue_key e}. GetLfgState x m' = (if queue_key e \<in> R then GetOldState x m else LFG_STATE_QUEUED)) \<and>
    wishes (queue_at qid m') = (\<lambda>g. if g \<in> R then None else wishes (queue_at qid m) g) \<and>
    currentQueueStore (queue_at qid m') = rev (filter (\<lambda>g. g \<notin> R \<and> wishes (queue_at qid m) g \<noteq> None) (pr_queues p)) @
      filter (\<lambda>g. g \<notin> R) (currentQueueStore (queue_at qid m))"
proof -
  let ?p = "settle_answers type p"
  let ?rs = "refusers ?p"
  let ?m1 = "fold (release_player env type ?p ?rs) (pr_players ?p) m"
  have R: "set ?rs = R" using refusers_settled assms(4) by simp
  obtain g pp es where es: "pr_players ?p = (g, pp) # es"
    using settle_wf [OF assms(2), of type] by (cases "pr_players ?p") (auto simp: proposal_wf_def)
  have hd: "g = fst (hd (pr_players p))"
    using arg_cong [OF settle_fields(1) [of type p], of hd] es assms(2) by (simp add: proposal_wf_def hd_map)
  have teams: "GetQueueId g ?m1 = qid"
  proof -
    have "same_teams m ?m1" by (rule same_teams_fold) (auto intro: same_teams_release)
    then show ?thesis using hd assms(5) by (simp add: same_teams_queue)
  qed
  have only: "data_only m ?m1" by (rule data_only_fold) simp
  then have qs: "queue_at qid ?m1 = queue_at qid m" "om_wf (QueuesStore ?m1)" using assms(3) by (simp_all add: data_only_fields queue_at_def)
  let ?m2 = "on_queue qid (release_queue ?p ?rs) ?m1"
  let ?m3 = "?m2\<lparr>ProposalsStore := om_erase i (ProposalsStore ?m2)\<rparr>"
  have step: "RemoveProposal env i type m = Inr ?m3"
    using assms(1) es teams by (simp add: RemoveProposal_def Let_def)
  obtain v where v: "\<And>e x. e \<in> set (pr_players ?p) \<Longrightarrow> x = fst e \<or> x = queue_key e \<Longrightarrow> v x = (if queue_key e \<in> set ?rs then GetOldState x m else LFG_STATE_QUEUED)"
    using release_consistent [OF settle_wf [OF assms(2)]] by metis
  have states: "GetLfgState x ?m3 = (if queue_key e \<in> R then GetOldState x m else LFG_STATE_QUEUED)"
    if e: "e \<in> set (pr_players p)" "x \<in> {fst e, queue_key e}" for e x
  proof -
    from e(1) obtain e' where e': "e' \<in> set (pr_players ?p)" "fst e' = fst e" "queue_key e' = queue_key e"
      using settled_entry [OF e(1), of type] by metis
    then have "x = fst e' \<or> x = queue_key e'" using e(2) by auto
    then have "GetLfgState x ?m1 = v x" "v x = (if queue_key e' \<in> set ?rs then GetOldState x m else LFG_STATE_QUEUED)"
      using release_states [of "pr_players ?p" v ?rs m x, OF v] v [OF e'(1)] e'(1) by auto
    then show ?thesis using e'(3) R by simp
  qed
  have q: "queue_at qid ?m3 = release_queue ?p ?rs (queue_at qid m)"
    using qs by (simp add: queue_at_on_queue)
  have "pr_queues ?p = pr_queues p" by simp
  then have lists: "wishes (queue_at qid ?m3) = (\<lambda>g. if g \<in> R then None else wishes (queue_at qid m) g)"
    "currentQueueStore (queue_at qid ?m3) = rev (filter (\<lambda>g. g \<notin> R \<and> wishes (queue_at qid m) g \<noteq> None) (pr_queues p)) @
      filter (\<lambda>g. g \<notin> R) (currentQueueStore (queue_at qid m))"
    unfolding q release_queue_lists R by simp_all
  have "map_of (ProposalsStore ?m3) i = None" by simp
  with step states lists show ?thesis by blast
qed

section \<open>Examples\<close>

text \<open>Two members of a group; the second one is yet to choose.\<close>

definition half_chosen :: role_check where
  "half_chosen = LfgRoleCheck\<lparr>rc_cancelTime := 45, rc_roles := [(ObjectGuid 0 1, 2), (ObjectGuid 0 2, 0)],
     rc_state := LFG_ROLECHECK_INITIALITING, rc_dungeons := [7], rc_leader := ObjectGuid 0 1\<rparr>"

theorem role_check_decides_witness:
  "map_of (RoleChecksStore (UpdateRoleCheck (still_env 0) a_party (ObjectGuid 0 2) 8 ((LFGMgr 1)\<lparr>RoleChecksStore := [(a_party, half_chosen)]\<rparr>))) a_party = None \<and>
   GetLfgState a_party (UpdateRoleCheck (still_env 0) a_party (ObjectGuid 0 2) 8 ((LFGMgr 1)\<lparr>RoleChecksStore := [(a_party, half_chosen)]\<rparr>)) = LFG_STATE_QUEUED"
proof -
  let ?m = "(LFGMgr 1)\<lparr>RoleChecksStore := [(a_party, half_chosen)]\<rparr>"
  let ?rs = "[(ObjectGuid 0 1, 2 :: uint8), (ObjectGuid 0 2, 8)]"
  have less: "ObjectGuid 0 1 < ObjectGuid 0 2" "\<not> ObjectGuid 0 2 < ObjectGuid 0 1" by (simp_all add: less_ObjectGuid_def guid_less_def)
  have rc: "map_of (RoleChecksStore ?m) a_party = Some half_chosen" by simp
  have rs: "?rs = om_set (ObjectGuid 0 2) 8 (rc_roles half_chosen)" using less by (simp add: half_chosen_def)
  have c: "all_chosen ?rs" "om_wf ?rs" "\<forall>p \<in> fst ` set ?rs. \<not> IsParty p" "length ?rs < 256" "\<forall>(p, r) \<in> set ?rs. r < 16"
    using less by (simp_all add: all_chosen_def)
  have q: "om_wf (QueuesStore ?m)" "om_wf (QueueDataStore (queue_at (GetQueueId a_party ?m) ?m))"
    by (simp_all add: LFGMgr_def queue_at_def empty_queue_def)
  have g: "\<not> IsEmpty (ObjectGuid 0 2)" "PLAYER_ROLE_TANK \<le> (8 :: uint8)" by (simp_all add: role_defs)
  have "role_choice ?rs [1, 3]" by (simp add: role_choice_def less_Suc_eq)
  then have ex: "\<exists>A. role_choice ?rs A" by blast
  note d = role_check_decides [OF rc a_party_kind(1) g rs c(1,2,3,4,5) q, of "still_env 0"]
  from conjunct1 [OF d] conjunct2 [OF d] ex show ?thesis by simp
qed

text \<open>Two players that came alone; the second one declined.\<close>

definition declined_pair :: proposal where
  "declined_pair = \<lparr>pr_id = 2, pr_dungeonId = 7, pr_state = LFG_PROPOSAL_INITIATING, pr_group = GuidEmpty, pr_leader = ObjectGuid 0 1,
     pr_cancelTime = 45, pr_isNew = True, pr_queues = [ObjectGuid 0 1, ObjectGuid 0 2],
     pr_players = [(ObjectGuid 0 1, \<lparr>pp_role = 2, pp_accept = LFG_ANSWER_PENDING, pp_group = GuidEmpty\<rparr>),
                   (ObjectGuid 0 2, \<lparr>pp_role = 8, pp_accept = LFG_ANSWER_DENY, pp_group = GuidEmpty\<rparr>)]\<rparr>"

theorem failed_proposal_releases_witness:
  "\<exists>m'. RemoveProposal (still_env 0) 2 LFG_UPDATETYPE_PROPOSAL_DECLINED
       ((LFGMgr 1)\<lparr>ProposalsStore := [(2, declined_pair)], QueuesStore := [(0, empty_queue\<lparr>QueueDataStore :=
          [(ObjectGuid 0 1, LfgQueueData 0 [7] [(ObjectGuid 0 1, 2)]), (ObjectGuid 0 2, LfgQueueData 0 [7] [(ObjectGuid 0 2, 8)])]\<rparr>)]\<rparr>) = Inr m' \<and>
     GetLfgState (ObjectGuid 0 1) m' = LFG_STATE_QUEUED \<and> GetLfgState (ObjectGuid 0 2) m' = LFG_STATE_NONE \<and>
     currentQueueStore (queue_at 0 m') = [ObjectGuid 0 1]"
proof -
  let ?q = "empty_queue\<lparr>QueueDataStore :=
          [(ObjectGuid 0 1, LfgQueueData 0 [7] [(ObjectGuid 0 1, 2)]), (ObjectGuid 0 2, LfgQueueData 0 [7] [(ObjectGuid 0 2, 8)])]\<rparr>"
  let ?m = "(LFGMgr 1)\<lparr>ProposalsStore := [(2, declined_pair)], QueuesStore := [(0, ?q)]\<rparr>"
  have p: "map_of (ProposalsStore ?m) 2 = Some declined_pair" "proposal_wf declined_pair" "om_wf (QueuesStore ?m)"
    by (simp_all add: declined_pair_def proposal_wf_def GuidEmpty_def)
  have R: "{ObjectGuid 0 2} = queue_key ` {e \<in> set (pr_players declined_pair). refused LFG_UPDATETYPE_PROPOSAL_DECLINED (snd e)}"
  proof -
    have "map queue_key (filter (\<lambda>e. refused LFG_UPDATETYPE_PROPOSAL_DECLINED (snd e)) (pr_players declined_pair)) = [ObjectGuid 0 2]"
      by (simp add: declined_pair_def refused_def queue_key_def GuidEmpty_def)
    from arg_cong [OF this, of set] show ?thesis by simp
  qed
  have qid: "0 = GetQueueId (fst (hd (pr_players declined_pair))) ?m"
    by (simp add: declined_pair_def GetQueueId_def GetTeam_def LFGMgr_def LfgPlayerData_def)
  obtain m' where m': "RemoveProposal (still_env 0) 2 LFG_UPDATETYPE_PROPOSAL_DECLINED ?m = Inr m'"
    "\<forall>e \<in> set (pr_players declined_pair). \<forall>x \<in> {fst e, queue_key e}. GetLfgState x m' = (if queue_key e \<in> {ObjectGuid 0 2} then GetOldState x ?m else LFG_STATE_QUEUED)"
    "currentQueueStore (queue_at 0 m') = rev (filter (\<lambda>g. g \<notin> {ObjectGuid 0 2} \<and> wishes (queue_at 0 ?m) g \<noteq> None) (pr_queues declined_pair)) @
      filter (\<lambda>g. g \<notin> {ObjectGuid 0 2}) (currentQueueStore (queue_at 0 ?m))"
    using failed_proposal_releases [OF p R qid, of "still_env 0"] by blast
  moreover have "currentQueueStore (queue_at 0 m') = [ObjectGuid 0 1]"
    unfolding m'(3) by (simp add: declined_pair_def wishes_def queue_at_def empty_queue_def)
  moreover have "GetLfgState (ObjectGuid 0 1) m' = LFG_STATE_QUEUED" "GetLfgState (ObjectGuid 0 2) m' = LFG_STATE_NONE"
    using m'(2) by (simp_all add: declined_pair_def queue_key_def GuidEmpty_def GetOldState_def LFGMgr_def LfgPlayerData_def)
  ultimately show ?thesis by blast
qed

end
