(* ===== verification/Party_Safety.thy ===== *)
theory Party_Safety
  imports Party_Members
begin

text \<open>
  The invariant of a party: members are distinct, the references are those of the online members, the leader is a
  member, a party has at most five members, and in a raid the counters of the subgroups are exact and no subgroup
  has more than five members.
\<close>

section \<open>What the invariant sees of a group\<close>

definition places :: "party \<Rightarrow> (ObjectGuid \<times> uint8) list" where
  "places g = map (\<lambda>m. (ms_guid m, ms_group m)) (gr_memberSlots g)"

definition party_shape :: "party \<Rightarrow> (ObjectGuid \<times> uint8) list \<times> ObjectGuid list \<times> uint8 list option \<times> ObjectGuid \<times> bool \<times> bool" where
  "party_shape g = (places g, gr_links g, gr_subGroupsCounts g, gr_leaderGuid g, isRaidGroup g, gr_deleted g)"

definition in_subgroup :: "nat \<Rightarrow> (ObjectGuid \<times> uint8) list \<Rightarrow> nat" where
  "in_subgroup i ps = length (filter (\<lambda>(p, s). unat s = i) ps)"

definition counters_ok :: "(ObjectGuid \<times> uint8) list \<Rightarrow> uint8 list option \<Rightarrow> bool \<Rightarrow> bool" where
  "counters_ok ps counts raid \<longleftrightarrow> (\<forall>(p, s) \<in> set ps. unat s < MAX_RAID_SUBGROUPS) \<and>
     (case counts of None \<Rightarrow> \<not> raid \<and> length ps \<le> MAX_GROUP_SIZE
      | Some c \<Rightarrow> raid \<and> length c = MAX_RAID_SUBGROUPS \<and>
          (\<forall>i < MAX_RAID_SUBGROUPS. unat (c ! i) = in_subgroup i ps \<and> in_subgroup i ps \<le> MAX_GROUP_SIZE))"

definition members_ok :: "ObjectGuid set \<Rightarrow> (ObjectGuid \<times> uint8) list \<Rightarrow> ObjectGuid list \<Rightarrow> bool" where
  "members_ok C ps links \<longleftrightarrow> distinct (map fst ps) \<and> distinct links \<and> set links = C \<inter> fst ` set ps"

definition shape_ok :: "ObjectGuid set \<Rightarrow> (ObjectGuid \<times> uint8) list \<times> ObjectGuid list \<times> uint8 list option \<times> ObjectGuid \<times> bool \<times> bool \<Rightarrow> bool" where
  "shape_ok C s = (case s of (ps, links, counts, leader, raid, deleted) \<Rightarrow>
     deleted \<or> members_ok C ps links \<and> counters_ok ps counts raid \<and> (ps \<noteq> [] \<longrightarrow> leader \<in> fst ` set ps))"

definition party_ok :: "ObjectGuid set \<Rightarrow> party \<Rightarrow> bool" where
  "party_ok C g \<longleftrightarrow> shape_ok C (party_shape g)"

section \<open>Operations that do not touch it\<close>

named_theorems shape_simps

lemma shape_emit [shape_simps]:
  "party_shape (emit e g) = party_shape g" "party_shape (emit_all es g) = party_shape g"
  "party_shape (BroadcastPacket env m b g) = party_shape g" "party_shape (SendUpdate env g) = party_shape g"
  "party_shape (SendUpdateDestroyGroupToPlayer p g) = party_shape g" "party_shape (SendToRolling env m r g) = party_shape g"
  "party_shape (SendTargetIconList p i g) = party_shape g" "party_shape (store_type g) = party_shape g"
  by (simp_all add: party_shape_def places_def emit_def emit_all_def BroadcastPacket_def SendUpdate_def isRaidGroup_def
      SendUpdateDestroyGroupToPlayer_def SendToRolling_def SendTargetIconList_def store_type_def)

lemma places_set_slot: "(\<And>m. ms_group (f m) = ms_group m) \<Longrightarrow> (\<And>m. ms_guid (f m) = ms_guid m) \<Longrightarrow> places (set_slot x f g) = places g"
  by (simp add: places_def set_slot_def)

lemma shape_set_slot [shape_simps]:
  "(\<And>m. ms_group (f m) = ms_group m) \<Longrightarrow> (\<And>m. ms_guid (f m) = ms_guid m) \<Longrightarrow> party_shape (set_slot x f g) = party_shape g"
  by (simp add: party_shape_def places_set_slot) (simp add: set_slot_def isRaidGroup_def)

lemma toggle_sel [simp]: "ms_group (ToggleGroupMemberFlag fl a m) = ms_group m" "ms_guid (ToggleGroupMemberFlag fl a m) = ms_guid m"
  by (simp_all add: ToggleGroupMemberFlag_def)

lemma shape_flags [shape_simps]:
  "party_shape (RemoveUniqueGroupMemberFlag fl g) = party_shape g" "party_shape (ResetMemberReadyChecked g) = party_shape g"
  by (auto simp: party_shape_def places_def RemoveUniqueGroupMemberFlag_def ResetMemberReadyChecked_def isRaidGroup_def)

lemma shape_update [shape_simps]:
  "party_shape (g\<lparr>gr_lootMethod := lm\<rparr>) = party_shape g" "party_shape (g\<lparr>gr_masterLooterGuid := ml\<rparr>) = party_shape g"
  "party_shape (g\<lparr>gr_lootThreshold := lt\<rparr>) = party_shape g" "party_shape (g\<lparr>gr_looterGuid := lg\<rparr>) = party_shape g"
  "party_shape (g\<lparr>gr_targetIcons := ti\<rparr>) = party_shape g" "party_shape (g\<lparr>gr_readyCheckStarted := rs\<rparr>) = party_shape g"
  "party_shape (g\<lparr>gr_readyCheckTimer := rt\<rparr>) = party_shape g" "party_shape (g\<lparr>gr_invitees := iv\<rparr>) = party_shape g"
  "party_shape (g\<lparr>gr_rolls := ro\<rparr>) = party_shape g" "party_shape (g\<lparr>gr_loots := lo\<rparr>) = party_shape g"
  "party_shape (g\<lparr>gr_rand := ra\<rparr>) = party_shape g" "party_shape (g\<lparr>gr_maxEnchantingLevel := me\<rparr>) = party_shape g"
  "party_shape (g\<lparr>gr_guid := gu\<rparr>) = party_shape g" "party_shape (g\<lparr>gr_dbStoreId := db\<rparr>) = party_shape g"
  "party_shape (g\<lparr>gr_leaderName := ln\<rparr>) = party_shape g" "party_shape (g\<lparr>gr_groupCategory := gc\<rparr>) = party_shape g"
  by (simp_all add: party_shape_def places_def isRaidGroup_def)

lemma shape_flag_ops [shape_simps]:
  "party_shape (SetGroupMemberFlag env x a fl g) = party_shape g" "party_shape (HandleSetAssistantLeaderOpcode env s t a g) = party_shape g"
  "party_shape (HandleSetPartyAssignment env s t k a g) = party_shape g" "party_shape (SetLfgRoles env x ro g) = party_shape g"
  by (simp_all add: SetGroupMemberFlag_def HandleSetAssistantLeaderOpcode_def HandleSetPartyAssignment_def SetLfgRoles_def
      shape_simps Let_def split: GroupMemberAssignment.split)

lemma shape_ready [shape_simps]:
  "party_shape (EndReadyCheck env g) = party_shape g" "party_shape (SetMemberReadyChecked env x g) = party_shape g"
  "party_shape (answer_ready_check env x b g) = party_shape g" "party_shape (SetMemberReadyCheck env x b g) = party_shape g"
  "party_shape (SetOfflineMembersReadyChecked env g) = party_shape g" "party_shape (StartReadyCheck env x i d g) = party_shape g"
  "party_shape (UpdateReadyCheck env df g) = party_shape g" "party_shape (HandleDoReadyCheckOpcode env x i g) = party_shape g"
proof -
  show e: "party_shape (EndReadyCheck env g) = party_shape g" for g by (simp add: EndReadyCheck_def shape_simps)
  show s: "party_shape (SetMemberReadyChecked env x g) = party_shape g" for x g
    by (simp add: SetMemberReadyChecked_def Let_def e shape_simps)
  show a: "party_shape (answer_ready_check env x b g) = party_shape g" for x b g by (simp add: answer_ready_check_def s shape_simps)
  show "party_shape (SetMemberReadyCheck env x b g) = party_shape g" by (simp add: SetMemberReadyCheck_def a)
  have "party_shape (fold (\<lambda>x g. if connected_player env x then g else answer_ready_check env x False g) xs g) = party_shape g" for xs g
    by (induction xs arbitrary: g) (simp_all add: a)
  then show o: "party_shape (SetOfflineMembersReadyChecked env g) = party_shape g" for g by (simp add: SetOfflineMembersReadyChecked_def)
  show st: "party_shape (StartReadyCheck env x i d g) = party_shape g" for d by (simp add: StartReadyCheck_def Let_def o s shape_simps)
  show "party_shape (UpdateReadyCheck env df g) = party_shape g" by (simp add: UpdateReadyCheck_def Let_def e shape_simps)
  show "party_shape (HandleDoReadyCheckOpcode env x i g) = party_shape g" by (simp add: HandleDoReadyCheckOpcode_def st)
qed

lemma shape_icons [shape_simps]: "party_shape (SetTargetIcon env s t c i g) = party_shape g"
proof -
  have "party_shape (fold (\<lambda>j g. if gr_targetIcons g ! j = t then put_icon env c i j GuidEmpty g else g) xs g) = party_shape g" for xs g
    by (induction xs arbitrary: g) (simp_all add: put_icon_def shape_simps)
  then show ?thesis by (simp add: SetTargetIcon_def Let_def put_icon_def shape_simps)
qed

lemma shape_looter [shape_simps]:
  "party_shape (UpdateLooterGuid env b g) = party_shape g" "party_shape (HandleSetLootMethodOpcode env s lm ma th g) = party_shape g"
  "party_shape (ResetMaxEnchantingLevel env g) = party_shape g" "party_shape (RemoveInvite p g) = party_shape g"
  "party_shape (RemoveAllInvites g) = party_shape g"
  by (simp_all add: UpdateLooterGuid_def HandleSetLootMethodOpcode_def ResetMaxEnchantingLevel_def RemoveInvite_def RemoveAllInvites_def
      shape_simps split: option.split)

text \<open>Rolls.\<close>

definition keeps_shape :: "party \<Rightarrow> fault + party \<Rightarrow> bool" where
  "keeps_shape g r \<longleftrightarrow> (\<forall>g'. r = Inr g' \<longrightarrow> party_shape g' = party_shape g)"

lemma keeps_shape_simps [simp]:
  "keeps_shape g (Inr g') \<longleftrightarrow> party_shape g' = party_shape g" "keeps_shape g (Inl e)"
  by (simp_all add: keeps_shape_def)

lemma keeps_shape_bind: "keeps_shape g r \<Longrightarrow> (\<And>g'. party_shape g' = party_shape g \<Longrightarrow> keeps_shape g (f g')) \<Longrightarrow> keeps_shape g (res_bind r f)"
  by (cases r) auto

lemma keeps_shape_on_loot: "keeps_shape g (on_loot r f g)"
  by (auto simp: keeps_shape_def on_loot_def res_bind_eq_Inr shape_simps split: option.splits)

lemma keeps_shape_trans: "keeps_shape g' r \<Longrightarrow> party_shape g' = party_shape g \<Longrightarrow> keeps_shape g r"
  by (simp add: keeps_shape_def)

lemma keeps_shape_items:
  "keeps_shape g (take_item r g)" "keeps_shape g (unblock_item r g)" "keeps_shape g (give_item env p r g)"
proof -
  show t: "keeps_shape g (take_item r g)"
    unfolding take_item_def by (intro keeps_shape_bind keeps_shape_on_loot) (rule keeps_shape_trans [OF keeps_shape_on_loot], simp add: shape_simps)
  show u: "keeps_shape g (unblock_item r g)" by (simp add: unblock_item_def keeps_shape_on_loot)
  show "keeps_shape g (give_item env p r g)"
    unfolding give_item_def using t u by (auto intro!: keeps_shape_bind simp: shape_simps)
qed

lemma shape_SendLoot [shape_simps]:
  "party_shape (SendLootRoll env p n v r g) = party_shape g" "party_shape (SendLootRollWon env p m v r g) = party_shape g"
  "party_shape (SendLootAllPassed env r g) = party_shape g" "party_shape (SendLootRollsComplete env r g) = party_shape g"
  "party_shape (SendLootStartRollToPlayer env p r g) = party_shape g" "party_shape (erase_roll i g) = party_shape g"
  by (simp_all add: SendLootRoll_def SendLootRollWon_def SendLootAllPassed_def SendLootRollsComplete_def SendLootStartRollToPlayer_def
      erase_roll_def Let_def shape_simps)

lemma shape_dice: "throw_dice env P r g = (t, g1) \<Longrightarrow> party_shape g1 = party_shape g"
proof -
  have "party_shape (snd (fold (throw_die env P r) xs tg)) = party_shape (snd tg)" for xs tg
    by (induction xs arbitrary: tg) (auto simp: throw_die_def Let_def shape_simps split: prod.splits)
  from this [of "ro_playerVote r" "(\<lparr>th_guid = fst (hd (ro_playerVote r)), th_result = 0, th_vote = NOT_VALID\<rparr>, g)"]
  show "throw_dice env P r g = (t, g1) \<Longrightarrow> ?thesis" by (simp add: throw_dice_def)
qed

lemma shape_need: "keeps_shape g (need_roll env r g)"
  by (auto simp: need_roll_def Let_def shape_simps split: prod.split
      intro: keeps_shape_trans [OF keeps_shape_items(3)] dest!: shape_dice)

lemma shape_greed: "greed_roll env r g = Inr (b, g') \<Longrightarrow> party_shape g' = party_shape g"
  using keeps_shape_items
  by (auto simp: greed_roll_def disenchant_roll_def Let_def shape_simps keeps_shape_def res_bind_eq_Inr
      split: if_splits prod.splits option.splits dest!: shape_dice)

lemma shape_CountTheRoll: "keeps_shape g (CountTheRoll env i g)"
  unfolding CountTheRoll_def Let_def
  by (auto intro!: keeps_shape_bind shape_need keeps_shape_trans [OF keeps_shape_items(2)] simp: shape_simps)
     (auto simp: keeps_shape_def res_bind_eq_Inr shape_simps split: if_splits dest!: shape_greed)

lemma shape_CountRollVote: "keeps_shape g (CountRollVote env p lg ll ch g)"
proof -
  have vote: "cast_vote env p ch r g = (r1, g1) \<Longrightarrow> party_shape g1 = party_shape g" for r r1 g1
    by (auto simp: cast_vote_def Let_def shape_simps split: roll_choice.splits)
  show ?thesis unfolding CountRollVote_def Let_def
    by (auto split: option.split prod.split intro!: keeps_shape_trans [OF shape_CountTheRoll] simp: shape_simps dest: vote)
qed

lemma shape_EndRoll:
  assumes "EndRoll env lg g = Some r"
  shows "keeps_shape g r"
proof (rule EndRoll.raw_induct [OF _ assms])
  fix rec env lg g r
  assume 1: "\<And>env lg g r. rec env lg g = Some r \<Longrightarrow> keeps_shape g r"
    and 2: "(case roll_of_loot lg g of None \<Rightarrow> Some (Inr g)
      | Some i \<Rightarrow> (case CountTheRoll env i g of Inl e \<Rightarrow> Some (Inl e) | Inr g1 \<Rightarrow> rec env lg g1)) = Some r"
  show "keeps_shape g r"
  proof (cases "roll_of_loot lg g")
    case (Some i)
    show ?thesis
    proof (cases "CountTheRoll env i g")
      case (Inr g1)
      then have "party_shape g1 = party_shape g" using shape_CountTheRoll [of g env i] by simp
      moreover have "rec env lg g1 = Some r" using 2 Some Inr by simp
      ultimately show ?thesis using 1 keeps_shape_trans by blast
    next
      case (Inl e)
      then have "r = Inl e" using 2 Some by simp
      then show ?thesis by simp
    qed
  qed (use 2 in auto)
qed

lemma shape_leave_rolls: "keeps_shape g (leave_rolls env p i g)"
proof (induction env p i g rule: leave_rolls.induct)
  case (1 env p i g)
  let ?r = "gr_rolls g ! i"
  show ?case
  proof (cases "i < length (gr_rolls g)")
    case i: True
    show ?thesis
    proof (cases "map_of (ro_playerVote ?r) p")
      case None
      then show ?thesis using 1(1) i by (subst leave_rolls.simps) (simp add: Let_def)
    next
      case (Some v)
      define g1 where "g1 = g\<lparr>gr_rolls := (gr_rolls g)[i := withdraw_vote p v ?r]\<rparr>"
      have s1: "party_shape g1 = party_shape g" by (simp add: g1_def shape_simps)
      show ?thesis
      proof (cases "all_voted (withdraw_vote p v ?r)")
        case True
        have "keeps_shape g1 (leave_rolls env p 1 g2)" if g2: "CountTheRoll env i g1 = Inr g2" for g2
        proof -
          have "keeps_shape g2 (leave_rolls env p 1 g2)"
            using 1(2) [OF _ _ refl Some refl refl True g2 [unfolded g1_def]] i by simp
          moreover have "party_shape g2 = party_shape g1" using shape_CountTheRoll [of g1 env i] g2 by simp
          ultimately show ?thesis by (rule keeps_shape_trans)
        qed
        then have "keeps_shape g (case CountTheRoll env i g1 of Inl e \<Rightarrow> Inl e | Inr g2 \<Rightarrow> leave_rolls env p 1 g2)"
          using s1 by (auto split: sum.split intro: keeps_shape_trans)
        then show ?thesis using i Some True by (subst leave_rolls.simps) (simp add: Let_def g1_def)
      next
        case False
        have "keeps_shape g1 (leave_rolls env p (Suc i) g1)"
          using 1(3) [OF _ _ refl Some refl refl False] i by (simp add: g1_def)
        then have "keeps_shape g (leave_rolls env p (Suc i) g1)" using s1 by (rule keeps_shape_trans)
        then show ?thesis using i Some False by (subst leave_rolls.simps) (simp add: Let_def g1_def)
      qed
    qed
  qed (subst leave_rolls.simps, simp)
qed

lemma keeps_shape_forE:
  assumes "\<And>x g. keeps_shape g (f x g)"
  shows "keeps_shape g (forE f xs g)"
proof (induction xs arbitrary: g)
  case (Cons x xs)
  show ?case unfolding forE.simps using assms by (rule keeps_shape_bind) (rule keeps_shape_trans [OF Cons])
qed simp

lemma shape_GroupLoot: "keeps_shape g (GroupLoot env lg g)"
proof -
  have ann: "party_shape (announce_roll env r g) = party_shape g" for r g
  proof -
    have "party_shape (fold (\<lambda>(p, v) g. if \<not> connected_player env p then g
        else if v = PASS then SendLootRoll env p (- 1) PASS r g else SendLootStartRollToPlayer env p r g) xs g) = party_shape g" for xs
      by (induction xs arbitrary: g) (auto simp: shape_simps)
    then show ?thesis by (simp add: announce_roll_def)
  qed
  have start: "keeps_shape g (start_roll env lg b s i g)" for b s i g
    unfolding start_roll_def Let_def by (auto intro!: keeps_shape_bind keeps_shape_on_loot simp: ann shape_simps)
  have item: "keeps_shape g (roll_item env lg si g)" for si g
    unfolding roll_item_def by (auto split: prod.split option.split intro: start keeps_shape_on_loot)
  have quest: "keeps_shape g (roll_quest_item env lg si g)" for si g
    unfolding roll_quest_item_def by (auto split: prod.split intro: start)
  show ?thesis unfolding GroupLoot_def
    by (auto split: option.split intro!: keeps_shape_bind keeps_shape_forE item intro: keeps_shape_trans [OF keeps_shape_forE [of "roll_quest_item env lg"]] quest)
qed

section \<open>Counters\<close>

lemma in_subgroup_simps [simp]:
  "in_subgroup i [] = 0" "in_subgroup i (x # ps) = (if unat (snd x) = i then Suc (in_subgroup i ps) else in_subgroup i ps)"
  "in_subgroup i (ps @ qs) = in_subgroup i ps + in_subgroup i qs"
  by (auto simp: in_subgroup_def split: prod.splits)

lemma in_subgroup_le: "in_subgroup i ps \<le> length ps"
  by (simp add: in_subgroup_def)

lemma in_subgroup_filter:
  "distinct (map fst ps) \<Longrightarrow> (p, s) \<in> set ps \<Longrightarrow>
     in_subgroup i ps = (if unat s = i then Suc (in_subgroup i (filter (\<lambda>x. fst x \<noteq> p) ps)) else in_subgroup i (filter (\<lambda>x. fst x \<noteq> p) ps))"
proof (induction ps)
  case (Cons x ps)
  show ?case
  proof (cases "fst x = p")
    case True
    then have "x = (p, s)" using Cons.prems by (auto simp: rev_image_eqI)
    moreover have "filter (\<lambda>x. fst x \<noteq> p) ps = ps" using Cons.prems(1) True by (auto intro!: filter_True rev_image_eqI)
    ultimately show ?thesis by simp
  next
    case False
    then show ?thesis using Cons by auto
  qed
qed simp

lemma unat_inc: "unat c < 200 \<Longrightarrow> unat (c + 1 :: uint8) = Suc (unat c)"
  by (simp add: unat_word_ariths)

lemma unat_dec: "unat (c :: uint8) = Suc n \<Longrightarrow> unat (c - 1) = n"
  using unat_minus_one [of c] by (cases "c = 0") auto

lemma counters_ok_add:
  assumes "counters_ok ps (Some c) raid" "unat s < MAX_RAID_SUBGROUPS" "unat (c ! unat s) < MAX_GROUP_SIZE"
  shows "counters_ok (ps @ [(p, s)]) (Some (c[unat s := c ! unat s + 1])) raid"
  using assms unat_inc [of "c ! unat s"] by (auto simp: counters_ok_def nth_list_update MAX_GROUP_SIZE_def)

lemma counters_ok_remove:
  assumes "counters_ok ps (Some c) raid" "distinct (map fst ps)" "(p, s) \<in> set ps"
  shows "counters_ok (filter (\<lambda>x. fst x \<noteq> p) ps) (Some (c[unat s := c ! unat s - 1])) raid"
proof -
  have s: "unat s < MAX_RAID_SUBGROUPS" using assms(1,3) by (auto simp: counters_ok_def)
  have "unat (c ! unat s) = Suc (in_subgroup (unat s) (filter (\<lambda>x. fst x \<noteq> p) ps))"
    using assms(1) s in_subgroup_filter [OF assms(2,3), of "unat s"] by (simp add: counters_ok_def)
  then have "unat (c ! unat s - 1) = in_subgroup (unat s) (filter (\<lambda>x. fst x \<noteq> p) ps)" by (rule unat_dec)
  then show ?thesis using assms(1) s in_subgroup_filter [OF assms(2,3)]
    by (auto simp: counters_ok_def nth_list_update split: if_splits)
qed

lemma counters_ok_remove_none:
  "counters_ok ps None raid \<Longrightarrow> counters_ok (filter P ps) None raid"
  by (auto simp: counters_ok_def intro: le_trans [OF length_filter_le])

lemma counters_le: "counters_ok ps counts raid \<Longrightarrow> in_subgroup i ps \<le> MAX_GROUP_SIZE"
proof -
  assume ok: "counters_ok ps counts raid"
  show ?thesis
  proof (cases counts)
    case None
    then show ?thesis using ok in_subgroup_le [of i ps] by (simp add: counters_ok_def)
  next
    case (Some c)
    have "in_subgroup i ps = 0" if "\<not> i < MAX_RAID_SUBGROUPS"
      using ok that by (auto simp: counters_ok_def in_subgroup_def filter_empty_conv)
    then show ?thesis using ok Some by (cases "i < MAX_RAID_SUBGROUPS") (auto simp: counters_ok_def)
  qed
qed

lemma init_counters:
  assumes "\<forall>m \<in> set ms. unat (ms_group m) < length c"
  shows "\<exists>c'. forE (\<lambda>m. SubGroupCounterIncrease (ms_group m)) ms (g\<lparr>gr_subGroupsCounts := Some c\<rparr>) = Inr (g\<lparr>gr_subGroupsCounts := Some c'\<rparr>) \<and>
    length c' = length c \<and> (\<forall>i < length c. c' ! i = c ! i + of_nat (in_subgroup i (map (\<lambda>m. (ms_guid m, ms_group m)) ms)))"
  using assms
proof (induction ms arbitrary: c)
  case Nil
  show ?case by (rule exI [of _ c]) simp
next
  case (Cons m ms)
  let ?i = "unat (ms_group m)" and ?c = "c[unat (ms_group m) := c ! unat (ms_group m) + 1]"
  have "\<forall>m \<in> set ms. unat (ms_group m) < length ?c" using Cons.prems by simp
  from Cons.IH [OF this] obtain c' where c': "forE (\<lambda>m. SubGroupCounterIncrease (ms_group m)) ms (g\<lparr>gr_subGroupsCounts := Some ?c\<rparr>) = Inr (g\<lparr>gr_subGroupsCounts := Some c'\<rparr>)"
    "length c' = length c" "\<forall>i < length c. c' ! i = ?c ! i + of_nat (in_subgroup i (map (\<lambda>m. (ms_guid m, ms_group m)) ms))" by auto
  have "SubGroupCounterIncrease (ms_group m) (g\<lparr>gr_subGroupsCounts := Some c\<rparr>) = Inr (g\<lparr>gr_subGroupsCounts := Some ?c\<rparr>)"
    using Cons.prems by (simp add: SubGroupCounterIncrease_def count_subgroup_def)
  moreover have "c' ! i = c ! i + of_nat (in_subgroup i (map (\<lambda>m. (ms_guid m, ms_group m)) (m # ms)))" if "i < length c" for i
    using c'(3) that by (simp add: nth_list_update)
  ultimately show ?case using c'(1,2) by (intro exI [of _ c']) simp
qed

lemma initRaid_run:
  assumes "counters_ok (places g) counts raid"
  shows "\<exists>c. initRaidSubGroupsCounter g = Inr (g\<lparr>gr_subGroupsCounts := Some c\<rparr>) \<and> counters_ok (places g) (Some c) True"
proof -
  have groups: "\<forall>m \<in> set (gr_memberSlots g). unat (ms_group m) < MAX_RAID_SUBGROUPS"
    using assms by (auto simp: counters_ok_def places_def)
  obtain c where c: "initRaidSubGroupsCounter g = Inr (g\<lparr>gr_subGroupsCounts := Some c\<rparr>)" "length c = MAX_RAID_SUBGROUPS"
    "\<forall>i < MAX_RAID_SUBGROUPS. c ! i = of_nat (in_subgroup i (places g))"
    using init_counters [of "gr_memberSlots g" "replicate MAX_RAID_SUBGROUPS 0" g] groups
    by (auto simp: initRaidSubGroupsCounter_def places_def)
  have "unat (c ! i) = in_subgroup i (places g)" if "i < MAX_RAID_SUBGROUPS" for i
  proof -
    have "in_subgroup i (places g) < 256" using counters_le [OF assms, of i] by (simp add: MAX_GROUP_SIZE_def)
    then show ?thesis using c(3) that by (simp add: unat_of_nat)
  qed
  then have "counters_ok (places g) (Some c) True" using c(2) counters_le [OF assms] groups by (auto simp: counters_ok_def places_def)
  with c(1) show ?thesis by blast
qed

end
