(* ===== verification/Party_Invariant.thy ===== *)
theory Party_Invariant
  imports Party_Safety
begin

text \<open>
  Joining, leaving and the change of the leader keep the invariant of a party. Subgroups, conversions and sequences of operations follow in \<^verbatim>\<open>Party_Runs\<close>.
\<close>

section \<open>Parts of the invariant\<close>

lemma party_okI:
  assumes "members_ok C (places g) (gr_links g)" "counters_ok (places g) (gr_subGroupsCounts g) (isRaidGroup g)"
    "places g \<noteq> [] \<Longrightarrow> gr_leaderGuid g \<in> fst ` set (places g)"
  shows "party_ok C g"
  using assms by (simp add: party_ok_def shape_ok_def party_shape_def)

lemma party_okD:
  assumes "party_ok C g" "\<not> gr_deleted g"
  shows "members_ok C (places g) (gr_links g)" "counters_ok (places g) (gr_subGroupsCounts g) (isRaidGroup g)"
    "places g \<noteq> [] \<Longrightarrow> gr_leaderGuid g \<in> fst ` set (places g)"
  using assms by (simp_all add: party_ok_def shape_ok_def party_shape_def)

lemma party_ok_deleted: "gr_deleted g \<Longrightarrow> party_ok C g"
  by (simp add: party_ok_def shape_ok_def party_shape_def)

lemma party_ok_shape: "party_shape g' = party_shape g \<Longrightarrow> party_ok C g' \<longleftrightarrow> party_ok C g"
  by (simp add: party_ok_def)

lemma shape_sel:
  assumes "party_shape g' = party_shape g"
  shows "places g' = places g" "gr_links g' = gr_links g" "gr_subGroupsCounts g' = gr_subGroupsCounts g"
    "gr_leaderGuid g' = gr_leaderGuid g" "isRaidGroup g' = isRaidGroup g" "gr_deleted g' = gr_deleted g"
  using assms by (simp_all add: party_shape_def)

lemma places_fst: "map fst (places g) = map ms_guid (gr_memberSlots g)"
  by (simp add: places_def comp_def)

lemma getMemberSlot_None: "getMemberSlot p g = None \<longleftrightarrow> p \<notin> fst ` set (places g)"
  by (auto simp: getMemberSlot_def find_None_iff places_def image_image)

lemma getMemberSlot_Some: "getMemberSlot p g = Some m \<Longrightarrow> (p, ms_group m) \<in> set (places g)"
  by (auto simp: getMemberSlot_def find_Some_iff places_def)

lemma places_Nil: "places g = [] \<longleftrightarrow> gr_memberSlots g = []"
  by (simp add: places_def)

lemma places_length: "length (places g) = GetMembersCount g"
  by (simp add: places_def GetMembersCount_def)

section \<open>Joining\<close>

lemma count_subgroup_run:
  assumes "counters_ok ps (gr_subGroupsCounts g) raid" "unat s < MAX_RAID_SUBGROUPS"
  shows "\<exists>counts. count_subgroup f s g = Inr (g\<lparr>gr_subGroupsCounts := counts\<rparr>) \<and>
    counts = map_option (\<lambda>c. c[unat s := f (c ! unat s)]) (gr_subGroupsCounts g)"
  using assms by (auto simp: count_subgroup_def counters_ok_def split: option.splits)

lemma AddMember_run:
  assumes ok: "party_ok C g" "\<not> gr_deleted g" and p: "p \<in> C" "\<not> IsMember p g" and full: "\<not> IsFull g"
    and lead: "places g = [] \<Longrightarrow> gr_leaderGuid g = p"
  shows "\<exists>b g'. AddMember env p g = Inr (b, g') \<and> party_ok C g' \<and> gr_deleted g' = gr_deleted g \<and> gr_leaderGuid g' = gr_leaderGuid g \<and>
    isRaidGroup g' = isRaidGroup g \<and> (if b then \<exists>s. places g' = places g @ [(p, s)] else g' = g) \<and> (\<not> isRaidGroup g \<longrightarrow> b)"
proof (cases "free_subgroup g")
  case None
  then have "isRaidGroup g" using party_okD(2) [OF ok] by (auto simp: free_subgroup_def counters_ok_def split: option.splits)
  then show ?thesis using None ok by (intro exI [of _ False] exI [of _ g]) (simp add: AddMember_def)
next
  case (Some sub)
  define g0 where "g0 = g\<lparr>gr_memberSlots := gr_memberSlots g @ [new_slot env p sub]\<rparr>"
  have cok: "counters_ok (places g) (gr_subGroupsCounts g) (isRaidGroup g)" using ok by (rule party_okD)
  have sub: "sub < MAX_RAID_SUBGROUPS" "\<And>c. gr_subGroupsCounts g = Some c \<Longrightarrow> unat (c ! sub) < MAX_GROUP_SIZE"
    using Some by (auto simp: free_subgroup_def find_Some_iff MAX_RAID_SUBGROUPS_def MAX_RAID_SIZE_def MAX_GROUP_SIZE_def split: option.splits)
  have u: "unat (of_nat sub :: uint8) = sub"
    using sub(1) by (simp add: unat_of_nat MAX_RAID_SUBGROUPS_def MAX_RAID_SIZE_def MAX_GROUP_SIZE_def)
  have g0: "places g0 = places g @ [(p, of_nat sub)]" "gr_subGroupsCounts g0 = gr_subGroupsCounts g" "isRaidGroup g0 = isRaidGroup g"
    "gr_links g0 = gr_links g" "gr_leaderGuid g0 = gr_leaderGuid g" "gr_deleted g0 = gr_deleted g"
    by (simp_all add: g0_def places_def new_slot_def isRaidGroup_def)
  obtain counts where c: "SubGroupCounterIncrease (of_nat sub) g0 = Inr (g0\<lparr>gr_subGroupsCounts := counts\<rparr>)"
    "counts = map_option (\<lambda>c. c[sub := c ! sub + 1]) (gr_subGroupsCounts g)"
    using count_subgroup_run [of "places g" g0 "isRaidGroup g" "of_nat sub" "\<lambda>n. n + 1"] cok sub(1)
    by (auto simp: SubGroupCounterIncrease_def g0 u)
  have new: "counters_ok (places g0) counts (isRaidGroup g)"
  proof (cases "gr_subGroupsCounts g")
    case None
    moreover have "length (gr_memberSlots g) = length (places g)" by (simp add: places_def)
    ultimately show ?thesis using cok full sub(1) by (auto simp: c(2) g0 counters_ok_def IsFull_def u)
  next
    case (Some cs)
    then show ?thesis using counters_ok_add [of "places g" cs "isRaidGroup g" "of_nat sub" p] cok sub by (simp add: c(2) g0 u)
  qed
  define g2 where "g2 = g0\<lparr>gr_subGroupsCounts := counts, gr_links := p # gr_links g0\<rparr>"
  have "members_ok C (places g) (gr_links g)" using ok by (rule party_okD)
  then have "members_ok C (places g0) (p # gr_links g)"
    using p getMemberSlot_None [of p g] by (auto simp: members_ok_def g0 IsMember_def image_iff)
  moreover have "gr_leaderGuid g \<in> fst ` set (places g0)" using lead party_okD(3) [OF ok] by (cases "places g = []") (auto simp: g0)
  ultimately have ok2: "party_ok C g2"
    using new by (intro party_okI) (simp_all add: g2_def places_def g0_def isRaidGroup_def)
  obtain g' where g': "AddMember env p g = Inr (True, g')" "party_shape g' = party_shape g2"
    using Some c(1) by (simp add: AddMember_def g0_def [symmetric] g2_def Let_def shape_simps)
  have "places g2 = places g0" "gr_leaderGuid g2 = gr_leaderGuid g0" "isRaidGroup g2 = isRaidGroup g0" "gr_deleted g2 = gr_deleted g0"
    by (simp_all add: g2_def places_def isRaidGroup_def)
  then show ?thesis
    by (intro exI [of _ True] exI [of _ g']) (simp add: g'(1) party_ok_shape [OF g'(2)] ok2 shape_sel [OF g'(2)] g0)
qed

lemma Create_run:
  assumes p: "p \<in> C" and empty: "gr_memberSlots g = []" "gr_links g = []" "\<not> gr_deleted g" "gr_groupFlags g AND GROUP_FLAG_RAID = 0"
    "gr_subGroupsCounts g = None"
  shows "\<exists>g' s. Create env p g = Inr (True, g') \<and> party_ok C g' \<and> \<not> gr_deleted g' \<and> gr_leaderGuid g' = p \<and> places g' = [(p, s)]"
proof -
  define g1 where "g1 = g\<lparr>gr_guid := new_group_guid env, gr_leaderGuid := p, gr_leaderName := player_name env p\<rparr>"
  define g2 where "g2 = (if isBGGroup g1 \<or> isBFGroup g1 then g1\<lparr>gr_groupFlags := GROUP_MASK_BGRAID, gr_groupCategory := GROUP_CATEGORY_INSTANCE\<rparr> else g1)"
  have g2: "places g2 = []" "gr_links g2 = []" "gr_leaderGuid g2 = p" "\<not> gr_deleted g2" "gr_subGroupsCounts g2 = None"
    using empty by (simp_all add: g2_def g1_def places_def)
  have cok: "counters_ok [] None False" by (simp add: counters_ok_def)
  obtain g3 where g3: "(if isRaidGroup g2 then initRaidSubGroupsCounter g2 else Inr g2) = Inr g3" "places g3 = []" "gr_links g3 = []"
    "gr_leaderGuid g3 = p" "\<not> gr_deleted g3" "counters_ok [] (gr_subGroupsCounts g3) (isRaidGroup g3)"
  proof (cases "isRaidGroup g2")
    case True
    obtain c where c: "initRaidSubGroupsCounter g2 = Inr (g2\<lparr>gr_subGroupsCounts := Some c\<rparr>)" "counters_ok (places g2) (Some c) True"
      using initRaid_run [of g2 None False] g2(1) cok by auto
    have "isRaidGroup (g2\<lparr>gr_subGroupsCounts := Some c\<rparr>)" "places (g2\<lparr>gr_subGroupsCounts := Some c\<rparr>) = places g2"
      using True by (simp_all add: isRaidGroup_def places_def)
    then show ?thesis using that [of "g2\<lparr>gr_subGroupsCounts := Some c\<rparr>"] c g2 True by simp
  next
    case False
    then show ?thesis using that [of g2] g2 cok by simp
  qed
  define g4 where "g4 = (if \<not> isLFGGroup g3 then g3\<lparr>gr_lootMethod := GROUP_LOOT\<rparr> else g3)"
  define g5 where "g5 = g4\<lparr>gr_lootThreshold := 2, gr_looterGuid := p, gr_masterLooterGuid := GuidEmpty\<rparr>"
  have s5: "party_shape g5 = party_shape g3" by (simp add: g5_def g4_def shape_simps)
  have free: "free_subgroup g6 \<noteq> None" if "party_shape g6 = party_shape g5" for g6
  proof -
    have s: "party_shape g6 = party_shape g3" using s5 that by simp
    have "counters_ok [] (gr_subGroupsCounts g6) (isRaidGroup g6)" using g3(6) by (simp add: shape_sel [OF s])
    then have "\<exists>i \<in> set [0..<MAX_RAID_SUBGROUPS]. unat (c ! i) < MAX_GROUP_SIZE" if "gr_subGroupsCounts g6 = Some c" for c
      using that by (auto simp: counters_ok_def MAX_GROUP_SIZE_def MAX_RAID_SUBGROUPS_def MAX_RAID_SIZE_def intro!: exI [of _ 0])
    then have "find (\<lambda>i. unat (c ! i) < MAX_GROUP_SIZE) [0..<MAX_RAID_SUBGROUPS] \<noteq> None" if "gr_subGroupsCounts g6 = Some c" for c
      using that unfolding find_None_iff by blast
    then show ?thesis by (auto simp: free_subgroup_def split: option.split)
  qed
  have yes: "AddMember env p g6 = Inr (b, g') \<Longrightarrow> b" if "party_shape g6 = party_shape g5" for g6 b g'
    using free [OF that] by (auto simp: AddMember_def res_bind_eq_Inr Let_def split: option.splits)
  have add: "\<exists>g' s. AddMember env p g6 = Inr (True, g') \<and> party_ok C g' \<and> \<not> gr_deleted g' \<and> gr_leaderGuid g' = p \<and> places g' = [(p, s)]"
    if s6: "party_shape g6 = party_shape g5" for g6
  proof -
    have s: "party_shape g6 = party_shape g3" using s5 s6 by simp
    note sel = shape_sel [OF s]
    have "party_ok C g6" by (rule party_okI) (simp_all add: sel g3 members_ok_def)
    moreover have "\<not> IsMember p g6" using getMemberSlot_None [of p g6] by (simp add: IsMember_def sel g3)
    moreover have "\<not> IsFull g6" using places_length [of g6] by (simp add: IsFull_def sel g3 GetMembersCount_def MAX_RAID_SIZE_def MAX_GROUP_SIZE_def)
    ultimately obtain b g' where a: "AddMember env p g6 = Inr (b, g')" "party_ok C g'" "gr_deleted g' = gr_deleted g6" "gr_leaderGuid g' = gr_leaderGuid g6"
      "if b then \<exists>s. places g' = places g6 @ [(p, s)] else g' = g6"
      using AddMember_run [of C g6 p env] p by (auto simp: sel g3)
    then have b using yes [OF s6] by blast
    with a show ?thesis by (auto simp: sel g3)
  qed
  define g7 where "g7 = emit (Stmt (CHAR_INS_GROUP (new_db_store_id env) (GetCounter p) (gr_lootMethod g5)
      (GetCounter p) 2 (map GetRawValue (gr_targetIcons g5)) (ucast (gr_groupFlags g5)) (GetCounter GuidEmpty))) (g5\<lparr>gr_dbStoreId := new_db_store_id env\<rparr>)"
  have s7: "party_shape g7 = party_shape g5" by (simp add: g7_def shape_simps)
  have lead5: "gr_leaderGuid g5 = p" by (simp add: shape_sel [OF s5] g3)
  have "Create env p g = (if \<not> isBGGroup g5 \<and> \<not> isBFGroup g5
      then res_bind (AddMember env p g7) (\<lambda>(ok, g8). if ok then Inr (True, g8) else Inl AssertionFailed) else AddMember env p g5)"
    unfolding Create_def Let_def g1_def [symmetric] g2_def [symmetric] g3(1) res_bind_simps g4_def [symmetric] g5_def [symmetric]
    using lead5 by (simp add: g7_def) (simp add: g5_def)
  then show ?thesis using add [OF s7] add [OF refl] by (cases "\<not> isBGGroup g5 \<and> \<not> isBFGroup g5") auto
qed

section \<open>Leaving\<close>

lemma shape_ChangeLeader:
  "party_shape (ChangeLeader env p i g) = (if getMemberSlot p g = None \<or> \<not> connected_player env p then party_shape g
     else party_shape (g\<lparr>gr_leaderGuid := p\<rparr>))"
proof -
  have "party_shape ((emit e g)\<lparr>gr_leaderGuid := p\<rparr>) = party_shape (g\<lparr>gr_leaderGuid := p\<rparr>)" for e g
    by (simp add: party_shape_def places_def isRaidGroup_def emit_def)
  then show ?thesis by (simp add: ChangeLeader_def Let_def shape_simps)
qed

lemma ok_ChangeLeader:
  assumes "party_ok C g"
  shows "party_ok C (ChangeLeader env p i g)"
proof (cases "getMemberSlot p g = None \<or> \<not> connected_player env p \<or> gr_deleted g")
  case True
  then show ?thesis using assms shape_ChangeLeader [of env p i g]
    by (auto simp: party_ok_def shape_ok_def party_shape_def places_def isRaidGroup_def split: if_splits)
next
  case False
  have "party_ok C (g\<lparr>gr_leaderGuid := p\<rparr>)"
    using party_okD [OF assms] False getMemberSlot_None [of p g] by (intro party_okI) (simp_all add: places_def isRaidGroup_def)
  then show ?thesis using False party_ok_shape shape_ChangeLeader [of env p i g] by metis
qed

lemma Disband_deleted [simp]: "gr_deleted (Disband env h g)"
  by (simp add: Disband_def Let_def)

text \<open>The state between the unlinking of a member and the choice of the leader.\<close>

lemma remove1_distinct: "distinct xs \<Longrightarrow> remove1 p xs = filter (\<lambda>x. x \<noteq> p) xs"
  by (induction xs) (auto intro!: filter_True [symmetric])

lemma shape_unlink:
  assumes "members_ok C (places g) (gr_links g)" "\<And>x. connected_player env x \<longleftrightarrow> x \<in> C"
  shows "party_shape (unlink_member env p m g) = party_shape (g\<lparr>gr_links := filter (\<lambda>x. x \<noteq> p) (gr_links g)\<rparr>)"
proof -
  have d: "distinct (gr_links g)" "p \<notin> C \<Longrightarrow> p \<notin> set (gr_links g)" using assms(1) by (auto simp: members_ok_def)
  have twice: "remove1 p (remove1 p (gr_links g)) = filter (\<lambda>x. x \<noteq> p) (gr_links g)" "remove1 p (gr_links g) = filter (\<lambda>x. x \<noteq> p) (gr_links g)"
    using d(1) by (simp_all add: remove1_distinct)
  have none: "p \<notin> C \<Longrightarrow> filter (\<lambda>x. x \<noteq> p) (gr_links g) = gr_links g" using d(2) by (auto intro: filter_True)
  have delink: "party_shape (DelinkMember p g') = party_shape (g\<lparr>gr_links := remove1 p (gr_links g')\<rparr>)"
    if "party_shape g' = party_shape (g\<lparr>gr_links := gr_links g'\<rparr>)" for g'
    using that by (simp add: DelinkMember_def party_shape_def places_def isRaidGroup_def)
  show ?thesis
  proof (cases "p \<in> C")
    case True
    then show ?thesis using assms(2) twice
      by (auto simp: unlink_member_def Let_def shape_simps DelinkMember_def) (simp_all add: party_shape_def places_def isRaidGroup_def emit_def)
  next
    case False
    then show ?thesis using assms(2) twice none
      by (auto simp: unlink_member_def Let_def shape_simps DelinkMember_def) (simp_all add: party_shape_def places_def isRaidGroup_def emit_def)
  qed
qed

lemma erase_member_run:
  assumes m: "members_ok C (places g) ls" and c: "counters_ok (places g) (gr_subGroupsCounts g) (isRaidGroup g)"
  shows "\<exists>g'. erase_member p g = Inr g' \<and> places g' = filter (\<lambda>x. fst x \<noteq> p) (places g) \<and> gr_links g' = gr_links g \<and>
    gr_leaderGuid g' = gr_leaderGuid g \<and> gr_deleted g' = gr_deleted g \<and> counters_ok (places g') (gr_subGroupsCounts g') (isRaidGroup g')"
proof (cases "getMemberSlot p g")
  case None
  then have "filter (\<lambda>x. fst x \<noteq> p) (places g) = places g" using getMemberSlot_None [of p g] by (auto intro!: filter_True rev_image_eqI)
  then show ?thesis using None c by (simp add: erase_member_def)
next
  case (Some ms)
  then have s: "(p, ms_group ms) \<in> set (places g)" by (rule getMemberSlot_Some)
  have u: "unat (ms_group ms) < MAX_RAID_SUBGROUPS" using s c by (auto simp: counters_ok_def)
  obtain counts where k: "SubGroupCounterDecrease (ms_group ms) g = Inr (g\<lparr>gr_subGroupsCounts := counts\<rparr>)"
    "counts = map_option (\<lambda>c. c[unat (ms_group ms) := c ! unat (ms_group ms) - 1]) (gr_subGroupsCounts g)"
    using count_subgroup_run [OF c u] by (auto simp: SubGroupCounterDecrease_def)
  have d: "distinct (map fst (places g))" using m by (simp add: members_ok_def)
  let ?g = "g\<lparr>gr_subGroupsCounts := counts, gr_memberSlots := erase_first (\<lambda>m. ms_guid m = p) (gr_memberSlots g)\<rparr>"
  have "erase_first (\<lambda>m. ms_guid m = p) (gr_memberSlots g) = filter (\<lambda>m. ms_guid m \<noteq> p) (gr_memberSlots g)"
    using d by (intro erase_first_eq_filter) (simp add: places_fst)
  then have pl: "places ?g = filter (\<lambda>x. fst x \<noteq> p) (places g)" by (simp add: places_def filter_map comp_def)
  have "counters_ok (filter (\<lambda>x. fst x \<noteq> p) (places g)) counts (isRaidGroup g)"
    using c counters_ok_remove [OF _ d s] counters_ok_remove_none by (cases "gr_subGroupsCounts g") (auto simp: k(2))
  then show ?thesis using Some k(1) pl by (intro exI [of _ ?g]) (simp add: erase_member_def isRaidGroup_def)
qed

lemma pick_leader_ok:
  assumes m: "members_ok C (places g) (gr_links g)" and c: "counters_ok (places g) (gr_subGroupsCounts g) (isRaidGroup g)"
    and env: "\<And>x. connected_player env x \<longleftrightarrow> x \<in> C"
    and lead: "places g \<noteq> [] \<Longrightarrow> gr_leaderGuid g \<in> fst ` set (places g) \<or> gr_leaderGuid g = p"
    and online: "gr_links g \<noteq> []"
  shows "party_ok C (pick_leader env p g)"
proof (cases "gr_leaderGuid g = p")
  case False
  then show ?thesis using m c lead by (intro party_okI) (auto simp: pick_leader_def)
next
  case True
  obtain x where "x \<in> set (gr_links g)" using online by (cases "gr_links g") auto
  then have x: "x \<in> C" "x \<in> fst ` set (places g)" using m by (auto simp: members_ok_def)
  then obtain n where n: "n \<in> set (gr_memberSlots g)" "ms_guid n = x" by (auto simp: places_def)
  then obtain ms where ms: "find (\<lambda>m. connected_player env (ms_guid m)) (gr_memberSlots g) = Some ms"
    using env x(1) by (cases "find (\<lambda>m. connected_player env (ms_guid m)) (gr_memberSlots g)") (auto simp: find_None_iff)
  then have "ms \<in> set (gr_memberSlots g)" "connected_player env (ms_guid ms)" using find_in [OF ms] by auto
  then have k: "ms_guid ms \<in> fst ` set (places g)" "connected_player env (ms_guid ms)" by (force simp: places_def)+
  then have found: "getMemberSlot (ms_guid ms) g \<noteq> None" using getMemberSlot_None [of "ms_guid ms" g] by blast
  have "pick_leader env p g = ChangeLeader env (ms_guid ms) 0 g" using True ms by (simp add: pick_leader_def)
  then have "party_shape (pick_leader env p g) = party_shape (g\<lparr>gr_leaderGuid := ms_guid ms\<rparr>)"
    by (simp add: shape_ChangeLeader found k(2) del: not_None_eq)
  moreover have "party_ok C (g\<lparr>gr_leaderGuid := ms_guid ms\<rparr>)"
    using m c k(1) by (intro party_okI) (simp_all add: places_def isRaidGroup_def)
  ultimately show ?thesis by (rule party_ok_shape [THEN iffD2])
qed

lemma finish_leave_ok:
  assumes "gr_links g \<noteq> [] \<Longrightarrow> party_ok C g"
  shows "party_ok C (snd (finish_leave env p g))" "gr_deleted (snd (finish_leave env p g)) \<or> gr_links (snd (finish_leave env p g)) \<noteq> []"
proof -
  define g1 where "g1 = SendUpdate env g"
  have s: "party_shape g1 = party_shape g" by (simp add: g1_def shape_simps)
  have ok: "party_ok C g1" if "gr_links g1 \<noteq> []" using assms that party_ok_shape [OF s] shape_sel(2) [OF s] by simp
  have "party_ok C (SendUpdateDestroyGroupToPlayer p g1)" if "gr_links g1 \<noteq> []"
    using ok [OF that] party_ok_shape [OF shape_emit(5)] by blast
  moreover have stay: "gr_links g1 \<noteq> []" if "\<not> length (gr_links g1) < (if b then 1 else 2)" for b using that by (auto split: if_splits)
  ultimately show "party_ok C (snd (finish_leave env p g))" using ok unfolding finish_leave_def Let_def g1_def [symmetric]
    by (simp add: party_ok_deleted del: One_nat_def)
  have "gr_links (SendUpdateDestroyGroupToPlayer p g1) = gr_links g1" by (simp add: SendUpdateDestroyGroupToPlayer_def emit_def)
  then show "gr_deleted (snd (finish_leave env p g)) \<or> gr_links (snd (finish_leave env p g)) \<noteq> []"
    using stay [of True] stay [of False] unfolding finish_leave_def Let_def g1_def [symmetric] by (auto simp del: One_nat_def)
qed

lemma RemoveMember_ok:
  assumes ok: "party_ok C g" "\<not> gr_deleted g" and env: "\<And>x. connected_player env x \<longleftrightarrow> x \<in> C"
    and run: "RemoveMember env p m k g = Inr (b, g')"
  shows "party_ok C g' \<and> (gr_deleted g' \<or> party_shape g' = party_shape g \<or> gr_links g' \<noteq> [])"
proof -
  define g0 where "g0 = emit (OnGroupRemoveMember p m k) g"
  have s0: "party_shape g0 = party_shape g" by (simp add: g0_def shape_simps)
  note sel0 = shape_sel [OF s0]
  have ok0: "party_ok C g0" using ok(1) by (simp add: party_ok_shape [OF s0])
  have d0: "\<not> gr_deleted g0" using ok(2) by (simp add: sel0)
  note D = party_okD [OF ok0 d0]
  have "party_ok C g' \<and> (gr_deleted g' \<or> gr_links g' \<noteq> [])" if g1: "leave_rolls env p 0 (unlink_member env p m g0) = Inr g1" and g2: "erase_member p g1 = Inr g2"
    and g3: "finish_leave env p (pick_leader env p g2) = (b, g')" for g1 g2
  proof -
    have s1: "party_shape g1 = party_shape (g0\<lparr>gr_links := filter (\<lambda>x. x \<noteq> p) (gr_links g0)\<rparr>)"
      using shape_leave_rolls [of "unlink_member env p m g0" env p 0] g1 shape_unlink [OF D(1) env] by simp
    have sel1: "places g1 = places g0" "gr_links g1 = filter (\<lambda>x. x \<noteq> p) (gr_links g0)" "gr_subGroupsCounts g1 = gr_subGroupsCounts g0"
      "gr_leaderGuid g1 = gr_leaderGuid g0" "isRaidGroup g1 = isRaidGroup g0"
      using shape_sel [OF s1] by (simp_all add: places_def isRaidGroup_def)
    have e: "places g2 = filter (\<lambda>x. fst x \<noteq> p) (places g0)" "gr_links g2 = filter (\<lambda>x. x \<noteq> p) (gr_links g0)"
      "gr_leaderGuid g2 = gr_leaderGuid g0" "counters_ok (places g2) (gr_subGroupsCounts g2) (isRaidGroup g2)"
      using erase_member_run [of C g1 "gr_links g0" p] D(1,2) g2 by (auto simp: sel1)
    have m2: "members_ok C (places g2) (gr_links g2)"
      using D(1) by (auto simp: members_ok_def e distinct_map_filter)
    have "gr_leaderGuid g2 \<in> fst ` set (places g2) \<or> gr_leaderGuid g2 = p" if "places g2 \<noteq> []"
    proof -
      have "places g0 \<noteq> []" using that unfolding e(1) by auto
      then have "gr_leaderGuid g0 \<in> fst ` set (places g0)" by (rule D(3))
      then show ?thesis unfolding e(1,3) by force
    qed
    from pick_leader_ok [OF m2 e(4) env this] have pl: "gr_links g2 \<noteq> [] \<Longrightarrow> party_ok C (pick_leader env p g2)" .
    have "gr_links (ChangeLeader env x 0 g2) = gr_links g2" for x
      by (simp add: ChangeLeader_def Let_def emit_def set_slot_def BroadcastPacket_def emit_all_def)
    then have "gr_links (pick_leader env p g2) = gr_links g2" by (simp add: pick_leader_def split: option.split)
    then show ?thesis using finish_leave_ok [of "pick_leader env p g2" C env p] pl g3 by simp
  qed
  then show ?thesis using run ok0 s0
    by (auto simp: RemoveMember_def Let_def g0_def [symmetric] res_bind_eq_Inr party_ok_deleted split: if_splits)
qed

end
