(* ===== verification/Party_Runs.thy ===== *)
theory Party_Runs
  imports Party_Invariant
begin

text \<open>
  The life of a party as a transition system: invitations, joining and leaving, subgroups, leaders, raids, ready
  checks, loot rolls, and the logins and logouts of players, in any order. Its reachable states satisfy the
  invariant of \<^verbatim>\<open>Party_Safety\<close>.
\<close>

section \<open>Kinds of groups\<close>

lemma raid_bit:
  "(f OR GROUP_FLAG_RAID) AND GROUP_FLAG_RAID \<noteq> 0" "(f OR GROUP_FLAG_LFG OR GROUP_FLAG_LFG_RESTRICTED) AND GROUP_FLAG_RAID = f AND GROUP_FLAG_RAID"
  "(f OR GROUP_FLAG_EVERYONE_ASSISTANT) AND GROUP_FLAG_RAID = f AND GROUP_FLAG_RAID"
  "(f AND NOT GROUP_FLAG_EVERYONE_ASSISTANT) AND GROUP_FLAG_RAID = f AND GROUP_FLAG_RAID"
  by (simp_all add: GROUP_FLAG_RAID_def GROUP_FLAG_LFG_def GROUP_FLAG_LFG_RESTRICTED_def GROUP_FLAG_EVERYONE_ASSISTANT_def
      bit.conj_disj_distrib2 and.assoc word_ao_absorbs)

lemma shape_ConvertToLFG: "party_shape (ConvertToLFG env g) = party_shape g"
  by (simp add: ConvertToLFG_def shape_simps) (simp add: party_shape_def places_def isRaidGroup_def raid_bit)

lemma shape_SetEveryoneIsAssistant: "party_shape (SetEveryoneIsAssistant env b g) = party_shape g"
  by (simp add: SetEveryoneIsAssistant_def Let_def shape_simps) (simp add: party_shape_def places_def isRaidGroup_def raid_bit)

lemma ok_ConvertToRaid:
  assumes ok: "party_ok C g" "\<not> gr_deleted g"
  shows "\<exists>g'. ConvertToRaid env g = Inr g' \<and> party_ok C g' \<and> places g' = places g \<and> \<not> gr_deleted g'"
proof -
  define g1 where "g1 = g\<lparr>gr_groupFlags := gr_groupFlags g OR GROUP_FLAG_RAID\<rparr>"
  have g1: "places g1 = places g" "gr_links g1 = gr_links g" "gr_leaderGuid g1 = gr_leaderGuid g" "\<not> gr_deleted g1" "isRaidGroup g1"
    using ok(2) raid_bit(1) [of "gr_groupFlags g"] by (simp_all add: g1_def places_def isRaidGroup_def del: word_ao_absorbs)
  obtain c where c: "initRaidSubGroupsCounter g1 = Inr (g1\<lparr>gr_subGroupsCounts := Some c\<rparr>)" "counters_ok (places g1) (Some c) True"
    using initRaid_run [of g1] party_okD(2) [OF ok] g1(1) by metis
  define g2 where "g2 = g1\<lparr>gr_subGroupsCounts := Some c\<rparr>"
  have g2: "places g2 = places g1" "gr_links g2 = gr_links g1" "gr_leaderGuid g2 = gr_leaderGuid g1" "gr_deleted g2 = gr_deleted g1"
    "isRaidGroup g2" "gr_subGroupsCounts g2 = Some c"
    using g1(5) by (simp_all add: g2_def places_def isRaidGroup_def)
  have "party_ok C g2" using party_okD [OF ok] c(2) by (intro party_okI) (simp_all add: g2 g1)
  moreover have s: "party_shape (SendUpdate env (store_type g2)) = party_shape g2" by (simp add: shape_simps)
  moreover have "ConvertToRaid env g = Inr (SendUpdate env (store_type g2))"
    by (simp add: ConvertToRaid_def g1_def [symmetric] c(1) g2_def)
  ultimately show ?thesis using party_ok_shape [OF s] shape_sel [OF s] g2 g1 by auto
qed

lemma ok_ConvertToGroup:
  assumes ok: "party_ok C g" "\<not> gr_deleted g"
  shows "party_ok C (ConvertToGroup env g)" "\<not> gr_deleted (ConvertToGroup env g)" "places (ConvertToGroup env g) = places g"
proof -
  define g1 where "g1 = g\<lparr>gr_groupFlags := GROUP_FLAG_NONE, gr_subGroupsCounts := None\<rparr>"
  have g1: "places g1 = places g" "gr_links g1 = gr_links g" "gr_leaderGuid g1 = gr_leaderGuid g" "\<not> gr_deleted g1" "\<not> isRaidGroup g1"
    "gr_subGroupsCounts g1 = None"
    using ok(2) by (simp_all add: g1_def places_def isRaidGroup_def GROUP_FLAG_NONE_def)
  have s: "party_shape (SendUpdate env (store_type g1)) = party_shape g1" by (simp add: shape_simps)
  have "party_ok C g1" if "length (gr_memberSlots g) \<le> 5"
  proof (rule party_okI)
    have "length (places g) \<le> MAX_GROUP_SIZE" using that by (simp add: places_def MAX_GROUP_SIZE_def)
    then show "counters_ok (places g1) (gr_subGroupsCounts g1) (isRaidGroup g1)"
      using party_okD(2) [OF ok] by (auto simp: counters_ok_def g1)
  qed (use party_okD [OF ok] in \<open>simp_all add: g1\<close>)
  then show "party_ok C (ConvertToGroup env g)" "\<not> gr_deleted (ConvertToGroup env g)" "places (ConvertToGroup env g) = places g"
    using ok party_ok_shape [OF s] shape_sel [OF s] g1 by (simp_all add: ConvertToGroup_def g1_def [symmetric])
qed

section \<open>Subgroups\<close>

definition move_place :: "ObjectGuid \<Rightarrow> uint8 \<Rightarrow> (ObjectGuid \<times> uint8) list \<Rightarrow> (ObjectGuid \<times> uint8) list" where
  "move_place p s ps = map (\<lambda>x. if fst x = p then (p, s) else x) ps"

lemma move_place_fst [simp]: "map fst (move_place p s ps) = map fst ps" "fst ` set (move_place p s ps) = fst ` set ps"
proof -
  show 1: "map fst (move_place p s ps) = map fst ps" by (auto simp: move_place_def comp_def)
  show "fst ` set (move_place p s ps) = fst ` set ps" using arg_cong [OF 1, of set] by simp
qed

lemma move_place_Nil [simp]: "move_place p s ps = [] \<longleftrightarrow> ps = []"
  by (simp add: move_place_def)

lemma move_place_none: "p \<notin> fst ` set ps \<Longrightarrow> move_place p s ps = ps"
  unfolding move_place_def by (rule map_idI) auto

lemma in_subgroup_move:
  "distinct (map fst ps) \<Longrightarrow> (p, s) \<in> set ps \<Longrightarrow>
     in_subgroup i (move_place p t ps) + (if unat s = i then 1 else 0) = in_subgroup i ps + (if unat t = i then 1 else 0)"
proof (induction ps)
  case (Cons x ps)
  show ?case
  proof (cases "fst x = p")
    case True
    then have "x = (p, s)" "p \<notin> fst ` set ps" using Cons.prems by (auto simp: rev_image_eqI)
    then show ?thesis using move_place_none [of p ps t] by (simp add: move_place_def)
  next
    case False
    then show ?thesis using Cons by (auto simp: move_place_def)
  qed
qed simp

lemma places_set_group:
  assumes "distinct (map fst (places g))"
  shows "places (set_slot p (\<lambda>m. m\<lparr>ms_group := s\<rparr>) g) = move_place p s (places g)"
proof -
  have "update_first (\<lambda>m. ms_guid m = p) (\<lambda>m. m\<lparr>ms_group := s\<rparr>) (gr_memberSlots g) =
      map (\<lambda>m. if ms_guid m = p then m\<lparr>ms_group := s\<rparr> else m) (gr_memberSlots g)"
    using assms by (intro update_first_eq_map) (simp add: places_fst)
  then show ?thesis by (auto simp: places_def set_slot_def move_place_def)
qed

lemma move_place_in: "(q, t) \<in> set ps \<Longrightarrow> q \<noteq> p \<Longrightarrow> (q, t) \<in> set (move_place p s ps)"
  by (force simp: move_place_def)

lemma move_place_groups: "\<forall>x \<in> set ps. P (snd x) \<Longrightarrow> P s \<Longrightarrow> \<forall>x \<in> set (move_place p s ps). P (snd x)"
  by (auto simp: move_place_def)

lemma counters_ok_move:
  assumes c: "counters_ok ps (Some c) raid" and d: "distinct (map fst ps)" and p: "(p, s) \<in> set ps"
    and t: "unat t < MAX_RAID_SUBGROUPS" "unat (c ! unat t) < MAX_GROUP_SIZE" "s \<noteq> t"
  shows "counters_ok (move_place p t ps) (Some (let c1 = c[unat t := c ! unat t + 1] in c1[unat s := c1 ! unat s - 1])) raid"
proof -
  have s: "unat s < MAX_RAID_SUBGROUPS" "unat s \<noteq> unat t" using c p t(3) by (auto simp: counters_ok_def word_unat_eq_iff)
  have n: "length c = MAX_RAID_SUBGROUPS" "raid" using c by (auto simp: counters_ok_def)
  have val: "unat (c ! i) = in_subgroup i ps" "in_subgroup i ps \<le> MAX_GROUP_SIZE" if "i < MAX_RAID_SUBGROUPS" for i
    using c that by (auto simp: counters_ok_def)
  have move: "in_subgroup i (move_place p t ps) + (if unat s = i then 1 else 0) = in_subgroup i ps + (if unat t = i then 1 else 0)" for i
    by (rule in_subgroup_move [OF d p])
  have inc: "unat (c ! unat t + 1) = in_subgroup (unat t) (move_place p t ps)"
    using move [of "unat t"] val(1) [OF t(1)] s(2) unat_inc [of "c ! unat t"] t(2) by (simp add: MAX_GROUP_SIZE_def)
  have "unat (c ! unat s) = Suc (in_subgroup (unat s) (move_place p t ps))"
    using move [of "unat s"] val(1) [OF s(1)] s(2) by simp
  then have dec: "unat (c ! unat s - 1) = in_subgroup (unat s) (move_place p t ps)" by (rule unat_dec)
  have le: "in_subgroup i (move_place p t ps) \<le> MAX_GROUP_SIZE" if "i < MAX_RAID_SUBGROUPS" for i
    using move [of i] val [OF that] t(2) s(2) by (auto split: if_splits)
  have "\<forall>x \<in> set (move_place p t ps). unat (snd x) < MAX_RAID_SUBGROUPS"
    using c t(1) by (intro move_place_groups) (auto simp: counters_ok_def)
  moreover have "unat ((let c1 = c[unat t := c ! unat t + 1] in c1[unat s := c1 ! unat s - 1]) ! i) = in_subgroup i (move_place p t ps)"
    if "i < MAX_RAID_SUBGROUPS" for i
    using inc dec move [of i] val(1) [OF that] s t n that by (auto simp: Let_def nth_list_update split: if_splits)
  ultimately show ?thesis using n le by (auto simp: counters_ok_def Let_def)
qed

lemma counters_ok_swap:
  assumes c: "counters_ok ps counts raid" and d: "distinct (map fst ps)" and p: "(p, s) \<in> set ps" "(q, t) \<in> set ps" "p \<noteq> q"
  shows "counters_ok (move_place q s (move_place p t ps)) counts raid"
proof -
  have same: "in_subgroup i (move_place q s (move_place p t ps)) = in_subgroup i ps" for i
    using in_subgroup_move [OF d p(1), of i t] in_subgroup_move [of "move_place p t ps" q t i s] d move_place_in [OF p(2)] p(3)
    by (auto split: if_splits)
  have "\<forall>x \<in> set ps. unat (snd x) < MAX_RAID_SUBGROUPS" using c by (auto simp: counters_ok_def)
  moreover have "unat s < MAX_RAID_SUBGROUPS" "unat t < MAX_RAID_SUBGROUPS" using c p by (auto simp: counters_ok_def)
  ultimately have "\<forall>x \<in> set (move_place q s (move_place p t ps)). unat (snd x) < MAX_RAID_SUBGROUPS"
    by (intro move_place_groups [where P = "\<lambda>s. unat s < MAX_RAID_SUBGROUPS"])
  moreover have "length (move_place q s (move_place p t ps)) = length ps" by (simp add: move_place_def)
  ultimately show ?thesis using c by (auto simp: counters_ok_def same split: option.splits)
qed

text \<open>The handlers of subgroups keep the invariant, and they never fail.\<close>

lemma ok_ChangeMembersGroup:
  assumes ok: "party_ok C g" "\<not> gr_deleted g" and sub: "unat sub < MAX_RAID_SUBGROUPS"
    and free: "\<And>c. gr_subGroupsCounts g = Some c \<Longrightarrow> unat (c ! unat sub) < MAX_GROUP_SIZE"
  shows "\<exists>g'. ChangeMembersGroup env x sub g = Inr g' \<and> party_ok C g' \<and> \<not> gr_deleted g' \<and> (places g' = [] \<longleftrightarrow> places g = []) \<and> isRaidGroup g' = isRaidGroup g"
proof (cases "isRaidGroup g \<and> (\<exists>m. getMemberSlot x g = Some m \<and> ms_group m \<noteq> sub)")
  case False
  then have "ChangeMembersGroup env x sub g = Inr g" by (auto simp: ChangeMembersGroup_def split: option.splits)
  with ok show ?thesis by blast
next
  case True
  then obtain m where m: "isRaidGroup g" "getMemberSlot x g = Some m" "ms_group m \<noteq> sub" by blast
  note D = party_okD [OF ok]
  obtain c where c: "gr_subGroupsCounts g = Some c" using D(2) m(1) by (auto simp: counters_ok_def split: option.splits)
  have d: "distinct (map fst (places g))" using D(1) by (simp add: members_ok_def)
  have x: "(x, ms_group m) \<in> set (places g)" by (rule getMemberSlot_Some [OF m(2)])
  have n: "length c = MAX_RAID_SUBGROUPS" "unat (ms_group m) < MAX_RAID_SUBGROUPS" using D(2) x by (auto simp: counters_ok_def c)
  define c1 where "c1 = c[unat sub := c ! unat sub + 1]"
  define c2 where "c2 = c1[unat (ms_group m) := c1 ! unat (ms_group m) - 1]"
  define g1 where "g1 = set_slot x (\<lambda>m. m\<lparr>ms_group := sub\<rparr>) g"
  define g2 where "g2 = g1\<lparr>gr_subGroupsCounts := Some c2\<rparr>"
  have g1: "gr_subGroupsCounts g1 = Some c" by (simp add: g1_def set_slot_def c)
  have inc: "SubGroupCounterIncrease sub g1 = Inr (g1\<lparr>gr_subGroupsCounts := Some c1\<rparr>)"
    using sub n by (simp add: SubGroupCounterIncrease_def count_subgroup_def g1 c1_def)
  have dec: "SubGroupCounterDecrease (ms_group m) (g1\<lparr>gr_subGroupsCounts := Some c1\<rparr>) = Inr g2"
    using n by (simp add: SubGroupCounterDecrease_def count_subgroup_def c1_def c2_def g2_def)
  have g2: "places g2 = move_place x sub (places g)" "gr_links g2 = gr_links g" "gr_leaderGuid g2 = gr_leaderGuid g" "\<not> gr_deleted g2"
    "isRaidGroup g2" "gr_subGroupsCounts g2 = Some c2"
    using places_set_group [OF d, of x sub] ok(2) m(1) by (simp_all add: g2_def g1_def places_def set_slot_def isRaidGroup_def)
  have "counters_ok (move_place x sub (places g)) (Some c2) True"
    using counters_ok_move [OF D(2) [unfolded c] d x sub free [OF c] m(3)] m(1) by (simp add: c2_def c1_def Let_def)
  then have "party_ok C g2" using D g2(1) by (intro party_okI) (simp_all add: g2 members_ok_def)
  moreover have s: "party_shape (SendUpdate env (unless_bg (CHAR_UPD_GROUP_MEMBER_SUBGROUP sub (GetCounter x)) g2)) = party_shape g2"
    by (simp add: shape_simps)
  moreover have "ChangeMembersGroup env x sub g = Inr (SendUpdate env (unless_bg (CHAR_UPD_GROUP_MEMBER_SUBGROUP sub (GetCounter x)) g2))"
    using m by (simp add: ChangeMembersGroup_def g1_def [symmetric] inc dec)
  ultimately show ?thesis using party_ok_shape [OF s] shape_sel [OF s] g2 m(1) by auto
qed

lemma ok_HandleChangeSubGroup:
  assumes ok: "party_ok C g" "\<not> gr_deleted g"
  shows "\<exists>g'. HandleChangeSubGroupOpcode env s x sub g = Inr g' \<and> party_ok C g' \<and> \<not> gr_deleted g' \<and> (places g' = [] \<longleftrightarrow> places g = []) \<and>
    isRaidGroup g' = isRaidGroup g"
proof (cases "MAX_RAID_SUBGROUPS \<le> unat sub \<or> (\<not> IsLeader s g \<and> \<not> IsAssistant s g)")
  case True
  with ok show ?thesis by (auto simp: HandleChangeSubGroupOpcode_def)
next
  case False
  then have sub: "unat sub < MAX_RAID_SUBGROUPS" by simp
  show ?thesis
  proof (cases "gr_subGroupsCounts g")
    case None
    with False ok show ?thesis by (auto simp: HandleChangeSubGroupOpcode_def HasFreeSlotSubGroup_def)
  next
    case (Some c)
    then have "length c = MAX_RAID_SUBGROUPS" using party_okD(2) [OF ok] by (simp add: counters_ok_def)
    then have "HasFreeSlotSubGroup sub g = Inr (unat (c ! unat sub) < MAX_GROUP_SIZE)" using Some sub by (simp add: HasFreeSlotSubGroup_def)
    then show ?thesis using ok_ChangeMembersGroup [OF ok sub, of env x] False Some ok
      by (cases "unat (c ! unat sub) < MAX_GROUP_SIZE") (auto simp: HandleChangeSubGroupOpcode_def)
  qed
qed

lemma ok_SwapMembersGroups:
  assumes ok: "party_ok C g" "\<not> gr_deleted g"
  shows "party_ok C (SwapMembersGroups env x y g) \<and> \<not> gr_deleted (SwapMembersGroups env x y g) \<and>
    (places (SwapMembersGroups env x y g) = [] \<longleftrightarrow> places g = []) \<and> isRaidGroup (SwapMembersGroups env x y g) = isRaidGroup g"
proof (cases "isRaidGroup g \<and> (\<exists>m n. getMemberSlot x g = Some m \<and> getMemberSlot y g = Some n \<and> ms_group m \<noteq> ms_group n)")
  case False
  then have "SwapMembersGroups env x y g = g" by (auto simp: SwapMembersGroups_def split: option.splits)
  with ok show ?thesis by simp
next
  case True
  then obtain m n where m: "isRaidGroup g" "getMemberSlot x g = Some m" "getMemberSlot y g = Some n" "ms_group m \<noteq> ms_group n" by blast
  then have neq: "x \<noteq> y" by auto
  note D = party_okD [OF ok]
  have d: "distinct (map fst (places g))" using D(1) by (simp add: members_ok_def)
  define g0 where "g0 = set_slot x (\<lambda>s. s\<lparr>ms_group := ms_group n\<rparr>) g"
  define g1 where "g1 = set_slot y (\<lambda>s. s\<lparr>ms_group := ms_group m\<rparr>) g0"
  have p0: "places g0 = move_place x (ms_group n) (places g)" unfolding g0_def by (rule places_set_group [OF d])
  have p1: "places g1 = move_place y (ms_group m) (places g0)" unfolding g1_def by (rule places_set_group) (simp add: p0 d)
  have g1: "gr_links g1 = gr_links g" "gr_leaderGuid g1 = gr_leaderGuid g" "\<not> gr_deleted g1" "isRaidGroup g1 = isRaidGroup g"
    "gr_subGroupsCounts g1 = gr_subGroupsCounts g"
    using ok(2) by (simp_all add: g1_def g0_def set_slot_def isRaidGroup_def)
  have "counters_ok (places g1) (gr_subGroupsCounts g1) (isRaidGroup g1)"
    using counters_ok_swap [OF D(2) d getMemberSlot_Some [OF m(2)] getMemberSlot_Some [OF m(3)] neq] by (simp add: p1 p0 g1)
  then have ok1: "party_ok C g1" using D by (intro party_okI) (simp_all add: g1 p1 p0 members_ok_def)
  define g2 where "g2 = unless_bg (CHAR_UPD_GROUP_MEMBER_SUBGROUP (ms_group n) (GetCounter x)) g1"
  define g3 where "g3 = SendUpdate env (unless_bg (CHAR_UPD_GROUP_MEMBER_SUBGROUP (ms_group m) (GetCounter y)) g2)"
  have s: "party_shape g3 = party_shape g1" by (simp add: g3_def g2_def shape_simps)
  have "SwapMembersGroups env x y g = g3"
    using m by (simp add: SwapMembersGroups_def Let_def g0_def [symmetric] g1_def [symmetric] g2_def [symmetric] g3_def)
  then show ?thesis using ok1 party_ok_shape [OF s] shape_sel [OF s] g1 by (simp add: p1 p0)
qed

section \<open>The invariant of all operations\<close>

text \<open>A group nobody has joined yet is no raid. Players in the world are online.\<close>

definition party_inv :: "ObjectGuid set \<Rightarrow> party \<Rightarrow> bool" where
  "party_inv C g \<longleftrightarrow> party_ok C g \<and> (gr_deleted g \<or> places g \<noteq> [] \<or> \<not> isRaidGroup g)"

definition online_env :: "ObjectGuid set \<Rightarrow> party_env \<Rightarrow> bool" where
  "online_env C env \<longleftrightarrow> (\<forall>x. connected_player env x \<longleftrightarrow> x \<in> C) \<and> (\<forall>x. in_world env x \<longrightarrow> x \<in> C)"

lemma inv_shape:
  assumes s: "party_shape g' = party_shape g"
  shows "party_inv C g' \<longleftrightarrow> party_inv C g"
  by (simp add: party_inv_def party_ok_shape [OF s] shape_sel [OF s])

lemma inv_keeps: "party_inv C g \<Longrightarrow> keeps_shape g r \<Longrightarrow> r = Inr g' \<Longrightarrow> party_inv C g'"
  unfolding keeps_shape_def using inv_shape by blast

lemma inv_deleted: "gr_deleted g \<Longrightarrow> party_inv C g"
  by (simp add: party_inv_def party_ok_deleted)

lemma inv_links: "party_ok C g \<Longrightarrow> gr_links g \<noteq> [] \<Longrightarrow> party_inv C g"
  using party_okD(1) [of C g] by (cases "places g") (auto simp: party_inv_def members_ok_def)

lemma inv_new: "party_inv C (Group\<lparr>gr_invitees := i, gr_leaderGuid := l, gr_leaderName := n, gr_out := e\<rparr>)"
  by (simp add: party_inv_def party_ok_def shape_ok_def party_shape_def places_def Group_def isRaidGroup_def GROUP_FLAG_NONE_def members_ok_def
      counters_ok_def)

lemma shape_AddInvite: "party_shape (snd (AddInvite env p g)) = party_shape g"
  by (simp add: AddInvite_def Let_def shape_simps)

lemma inv_HandlePartyInvite:
  assumes "HandlePartyInviteOpcode env s t go = Some g'" "\<And>g. go = Some g \<Longrightarrow> party_inv C g"
  shows "party_inv C g'"
proof (cases go)
  case (Some g)
  then have "g' = g \<or> g' = snd (AddInvite env t g)" using assms(1) by (auto simp: HandlePartyInviteOpcode_def split: if_splits)
  then show ?thesis using assms(2) [OF Some] inv_shape [OF shape_AddInvite] by blast
next
  case None
  then obtain i e where "g' = Group\<lparr>gr_invitees := i, gr_leaderGuid := s, gr_leaderName := player_name env s, gr_out := e\<rparr>"
    using assms(1) that [of "gr_out g'" "gr_invitees g'"]
    by (auto simp: HandlePartyInviteOpcode_def AddLeaderInvite_def AddInvite_def RemoveInvite_def emit_def Let_def split: if_splits prod.splits bool.splits)
  then show ?thesis by (simp add: inv_new)
qed

lemma inv_AddMember:
  assumes ok: "party_ok C g" "\<not> gr_deleted g" and p: "p \<in> C" "\<not> IsMember p g" and full: "\<not> IsFull g" and ne: "places g \<noteq> []"
  shows "\<exists>b g'. AddMember env p g = Inr (b, g') \<and> party_inv C g'"
proof -
  obtain b g' where "AddMember env p g = Inr (b, g')" "party_ok C g'" "if b then \<exists>s. places g' = places g @ [(p, s)] else g' = g"
    using AddMember_run [OF ok p full] ne by blast
  then show ?thesis using ne by (auto simp: party_inv_def split: if_splits)
qed

lemma inv_accept:
  assumes inv: "party_inv C g" "\<not> gr_deleted g" and env: "online_env C env" and p: "p \<in> C" "\<not> IsMember p g"
  shows "\<exists>g'. HandlePartyInviteResponseOpcode env p g = Inr g' \<and> party_inv C g'"
proof -
  define g1 where "g1 = RemoveInvite p g"
  have s1: "party_shape g1 = party_shape g" by (simp add: g1_def shape_simps)
  note sel = shape_sel [OF s1]
  have inv1: "party_inv C g1" "\<not> gr_deleted g1" using inv inv_shape [OF s1] sel(6) by auto
  then have ok1: "party_ok C g1" by (simp add: party_inv_def)
  have mem: "\<not> IsMember p g1" using p(2) getMemberSlot_None [of p g] getMemberSlot_None [of p g1] by (simp add: IsMember_def sel)
  consider "gr_leaderGuid g1 = p \<or> IsFull g1" | "gr_leaderGuid g1 \<noteq> p" "\<not> IsFull g1" "IsCreated g1"
    | "gr_leaderGuid g1 \<noteq> p" "\<not> IsFull g1" "\<not> IsCreated g1" "\<not> in_world env (gr_leaderGuid g1)"
    | "gr_leaderGuid g1 \<noteq> p" "\<not> IsFull g1" "\<not> IsCreated g1" "in_world env (gr_leaderGuid g1)" by blast
  then show ?thesis
  proof cases
    case 1
    then show ?thesis using inv1 by (auto simp: HandlePartyInviteResponseOpcode_def Let_def g1_def [symmetric])
  next
    case 2
    have "places g1 \<noteq> []" using 2(3) by (simp add: IsCreated_def GetMembersCount_def places_Nil)
    then show ?thesis using inv_AddMember [OF ok1 inv1(2) p(1) mem 2(2), of env] 2
      by (auto simp: HandlePartyInviteResponseOpcode_def Let_def g1_def [symmetric])
  next
    case 3
    have "party_inv C (RemoveAllInvites g1)" using inv1(1) inv_shape [OF shape_looter(5)] by blast
    then show ?thesis using 3 by (auto simp: HandlePartyInviteResponseOpcode_def Let_def g1_def [symmetric])
  next
    case 4
    define l where "l = gr_leaderGuid g1"
    define g2 where "g2 = RemoveInvite l g1"
    have s2: "party_shape g2 = party_shape g1" by (simp add: g2_def shape_simps)
    note sel2 = shape_sel [OF s2]
    have empty: "gr_memberSlots g2 = []" "places g2 = []" using 4(3) sel2(1) places_Nil [of g1] places_Nil [of g2]
      by (simp_all add: IsCreated_def GetMembersCount_def)
    have d2: "\<not> gr_deleted g2" "party_ok C g2" "\<not> isRaidGroup g2" using inv1 empty(2) ok1 party_ok_shape [OF s2] sel2 by (simp_all add: party_inv_def)
    have "gr_links g2 = []" "gr_subGroupsCounts g2 = None" using party_okD(1,2) [OF d2(2,1)] empty(2) d2(3)
      by (auto simp: members_ok_def counters_ok_def split: option.splits)
    moreover have "gr_groupFlags g2 AND GROUP_FLAG_RAID = 0" using d2(3) by (simp add: isRaidGroup_def)
    moreover have "l \<in> C" using env 4(4) by (simp add: online_env_def l_def)
    ultimately obtain g3 t where g3: "Create env l g2 = Inr (True, g3)" "party_ok C g3" "\<not> gr_deleted g3" "places g3 = [(l, t)]"
      using Create_run [of l C g2 env] empty(1) d2(1) by blast
    have "\<not> IsMember p g3" using 4(1) getMemberSlot_None [of p g3] by (simp add: IsMember_def g3(4) l_def)
    moreover have "\<not> IsFull g3" using places_length [of g3] g3(4) by (simp add: IsFull_def GetMembersCount_def MAX_RAID_SIZE_def MAX_GROUP_SIZE_def)
    ultimately obtain b g4 where "AddMember env p g3 = Inr (b, g4)" "party_inv C g4" using inv_AddMember [OF g3(2,3) p(1), of env] g3(4) by auto
    then show ?thesis using 4 g3(1) by (simp add: HandlePartyInviteResponseOpcode_def Let_def g1_def [symmetric] l_def [symmetric] g2_def [symmetric])
  qed
qed

lemma inv_UninviteFromGroup:
  assumes "party_inv C g"
  shows "party_inv C (UninviteFromGroup env p g)"
proof -
  have s: "party_shape (RemoveInvite p g) = party_shape g" by (simp add: shape_simps)
  then show ?thesis using assms by (simp add: UninviteFromGroup_def Let_def inv_deleted inv_shape [OF s])
qed

lemma inv_RemoveMember:
  assumes "party_inv C g" "\<not> gr_deleted g" "online_env C env" "RemoveMember env p m k g = Inr (b, g')"
  shows "party_inv C g'"
proof -
  have "party_ok C g' \<and> (gr_deleted g' \<or> party_shape g' = party_shape g \<or> gr_links g' \<noteq> [])"
    using assms by (intro RemoveMember_ok) (auto simp: party_inv_def online_env_def)
  then show ?thesis using inv_deleted inv_links inv_shape assms(1) by blast
qed

section \<open>Requests and runs\<close>

datatype party_request =
    Invite ObjectGuid ObjectGuid
  | Accept ObjectGuid
  | Decline ObjectGuid
  | Leave ObjectGuid
  | Uninvite bool ObjectGuid ObjectGuid
  | KickLfg ObjectGuid ObjectGuid
  | SetLeader ObjectGuid ObjectGuid int
  | Convert ObjectGuid bool
  | ToLfg
  | ChangeSubGroup ObjectGuid ObjectGuid uint8
  | SwapSubGroups ObjectGuid ObjectGuid ObjectGuid
  | SetAssistant ObjectGuid ObjectGuid bool
  | EveryoneAssistant bool
  | Assign ObjectGuid ObjectGuid GroupMemberAssignment bool
  | SetRoles ObjectGuid uint8
  | SetLootMethod ObjectGuid LootMethod ObjectGuid uint8
  | SetIcon uint8 ObjectGuid ObjectGuid uint8
  | DoReadyCheck ObjectGuid int
  | AnswerReadyCheck ObjectGuid bool
  | TickReadyCheck uint32
  | PassLooter bool
  | StartRolls ObjectGuid
  | Vote ObjectGuid ObjectGuid uint8 roll_choice

fun party_handle :: "party_env \<Rightarrow> party_request \<Rightarrow> party \<Rightarrow> fault + party" where
  "party_handle env (Invite s t) g = Inr (case HandlePartyInviteOpcode env s t (Some g) of None \<Rightarrow> g | Some g1 \<Rightarrow> g1)"
| "party_handle env (Accept p) g = HandlePartyInviteResponseOpcode env p g"
| "party_handle env (Decline p) g = Inr (UninviteFromGroup env p g)"
| "party_handle env (Leave p) g = HandleLeaveGroupOpcode env p g"
| "party_handle env (Uninvite allowed s t) g = HandlePartyUninviteOpcode env allowed s t g"
| "party_handle env (KickLfg p kicker) g = res_bind (RemoveMember env p GROUP_REMOVEMETHOD_KICK_LFG kicker g) (\<lambda>(ok, g1). Inr g1)"
| "party_handle env (SetLeader s t i) g = Inr (HandleSetPartyLeaderOpcode env s t i g)"
| "party_handle env (Convert s raid) g = HandleConvertRaidOpcode env s raid g"
| "party_handle env ToLfg g = Inr (ConvertToLFG env g)"
| "party_handle env (ChangeSubGroup s t sub) g = HandleChangeSubGroupOpcode env s t sub g"
| "party_handle env (SwapSubGroups s x y) g = Inr (HandleSwapSubGroupsOpcode env s x y g)"
| "party_handle env (SetAssistant s t b) g = Inr (HandleSetAssistantLeaderOpcode env s t b g)"
| "party_handle env (EveryoneAssistant b) g = Inr (SetEveryoneIsAssistant env b g)"
| "party_handle env (Assign s t k b) g = Inr (HandleSetPartyAssignment env s t k b g)"
| "party_handle env (SetRoles x r) g = Inr (SetLfgRoles env x r g)"
| "party_handle env (SetLootMethod s m ma th) g = Inr (HandleSetLootMethodOpcode env s m ma th g)"
| "party_handle env (SetIcon i t s k) g = Inr (SetTargetIcon env i t s k g)"
| "party_handle env (DoReadyCheck s i) g = Inr (HandleDoReadyCheckOpcode env s i g)"
| "party_handle env (AnswerReadyCheck x b) g = Inr (SetMemberReadyCheck env x b g)"
| "party_handle env (TickReadyCheck d) g = Inr (UpdateReadyCheck env d g)"
| "party_handle env (PassLooter b) g = Inr (UpdateLooterGuid env b g)"
| "party_handle env (StartRolls l) g = GroupLoot env l g"
| "party_handle env (Vote p l i c) g = CountRollVote env p l i c g"

text \<open>Only an invited player that is online and not in the party yet can accept.\<close>

definition admissible :: "ObjectGuid set \<Rightarrow> party_request \<Rightarrow> party \<Rightarrow> bool" where
  "admissible C r g = (case r of Accept p \<Rightarrow> p \<in> C \<and> \<not> IsMember p g | _ \<Rightarrow> True)"

inductive party_run :: "ObjectGuid set \<Rightarrow> party \<Rightarrow> bool" where
  Founded: "online_env C env \<Longrightarrow> HandlePartyInviteOpcode env s t None = Some g \<Longrightarrow> party_run C g"
| Handled: "party_run C g \<Longrightarrow> \<not> gr_deleted g \<Longrightarrow> online_env C env \<Longrightarrow> admissible C r g \<Longrightarrow> party_handle env r g = Inr g' \<Longrightarrow> party_run C g'"
| RollsEnded: "party_run C g \<Longrightarrow> \<not> gr_deleted g \<Longrightarrow> online_env C env \<Longrightarrow> EndRoll env l g = Some (Inr g') \<Longrightarrow> party_run C g'"
| LoggedIn: "party_run C g \<Longrightarrow> p \<notin> C \<Longrightarrow> party_run (insert p C) (if IsMember p g then LoadGroup p g else g)"
| LoggedOut: "party_run C g \<Longrightarrow> party_run (C - {p}) (DelinkMember p g)"

text \<open>Every request keeps the invariant.\<close>

lemma inv_HandleSetPartyLeader:
  assumes "party_inv C g"
  shows "party_inv C (HandleSetPartyLeaderOpcode env s t i g)"
proof -
  have "party_ok C (ChangeLeader env t i g)" using assms by (simp add: party_inv_def ok_ChangeLeader)
  moreover have "places (ChangeLeader env t i g) = places g" "isRaidGroup (ChangeLeader env t i g) = isRaidGroup g"
    "gr_deleted (ChangeLeader env t i g) = gr_deleted g"
    using places_set_slot by (simp_all add: ChangeLeader_def Let_def emit_def set_slot_def BroadcastPacket_def emit_all_def isRaidGroup_def places_def)
  ultimately have "party_inv C (ChangeLeader env t i g)" using assms by (simp add: party_inv_def)
  moreover have "party_inv C (SendUpdate env (ChangeLeader env t i g)) \<longleftrightarrow> party_inv C (ChangeLeader env t i g)"
    by (rule inv_shape [OF shape_emit(4)])
  ultimately show ?thesis using assms by (simp add: HandleSetPartyLeaderOpcode_def)
qed

lemma inv_HandleConvertRaid:
  assumes inv: "party_inv C g" "\<not> gr_deleted g" and run: "HandleConvertRaidOpcode env s raid g = Inr g'"
  shows "party_inv C g'"
proof (cases "\<not> IsLeader s g \<or> GetMembersCount g < 2")
  case True
  then have "g' = g" using run by (auto simp: HandleConvertRaidOpcode_def)
  then show ?thesis using inv by simp
next
  case False
  then have ne: "places g \<noteq> []" by (auto simp: GetMembersCount_def places_def)
  have ok: "party_ok C g" using inv by (simp add: party_inv_def)
  show ?thesis using run False ok_ConvertToRaid [OF ok inv(2), of env] ok_ConvertToGroup [OF ok inv(2), of env] ne
    by (auto simp: HandleConvertRaidOpcode_def party_inv_def split: if_splits)
qed

lemma inv_subgroups:
  assumes inv: "party_inv C g" "\<not> gr_deleted g"
  shows "HandleChangeSubGroupOpcode env s x sub g = Inr g' \<Longrightarrow> party_inv C g'" "party_inv C (HandleSwapSubGroupsOpcode env s x y g)"
proof -
  have ok: "party_ok C g" using inv by (simp add: party_inv_def)
  show "HandleChangeSubGroupOpcode env s x sub g = Inr g' \<Longrightarrow> party_inv C g'"
    using ok_HandleChangeSubGroup [OF ok inv(2), of env s x sub] inv by (auto simp: party_inv_def)
  show "party_inv C (HandleSwapSubGroupsOpcode env s x y g)"
    using ok_SwapMembersGroups [OF ok inv(2), of env x y] inv by (auto simp: HandleSwapSubGroupsOpcode_def party_inv_def)
qed

lemma inv_leave_handlers:
  assumes inv: "party_inv C g" "\<not> gr_deleted g" and env: "online_env C env"
  shows "HandleLeaveGroupOpcode env p g = Inr g' \<Longrightarrow> party_inv C g'" "HandlePartyUninviteOpcode env al s t g = Inr g' \<Longrightarrow> party_inv C g'"
  using inv_RemoveMember [OF inv env] inv_UninviteFromGroup [OF inv(1)] inv(1)
  by (auto simp: HandleLeaveGroupOpcode_def HandlePartyUninviteOpcode_def res_bind_eq_Inr split: if_splits option.splits)

lemma inv_party_handle:
  assumes inv: "party_inv C g" "\<not> gr_deleted g" and env: "online_env C env" and adm: "admissible C r g"
    and run: "party_handle env r g = Inr g'"
  shows "party_inv C g'"
proof -
  have same: "party_inv C f" if "party_shape f = party_shape g" for f using that inv_shape inv(1) by blast
  show ?thesis
  proof (cases r)
    case (Invite s t)
    then show ?thesis using run inv(1) inv_HandlePartyInvite [of env s t "Some g"] by (auto split: option.splits)
  next
    case (Accept p)
    then show ?thesis using run inv_accept [OF inv env, of p] adm by (auto simp: admissible_def)
  next
    case (KickLfg p kicker)
    then show ?thesis using run inv_RemoveMember [OF inv env] by (auto simp: res_bind_eq_Inr)
  next
    case (StartRolls l)
    then show ?thesis using run inv_keeps [OF inv(1) shape_GroupLoot] by simp
  next
    case (Vote p l i c)
    then show ?thesis using run inv_keeps [OF inv(1) shape_CountRollVote] by simp
  next
    case (Convert s raid)
    then show ?thesis using run inv_HandleConvertRaid [OF inv] by simp
  next
    case (Leave p)
    then show ?thesis using run inv_leave_handlers(1) [OF inv env] by simp
  next
    case (Uninvite al s t)
    then show ?thesis using run inv_leave_handlers(2) [OF inv env] by simp
  next
    case (ChangeSubGroup s t sub)
    then show ?thesis using run inv_subgroups(1) [OF inv] by simp
  next
    case (SwapSubGroups s x y)
    then show ?thesis using run inv_subgroups(2) [OF inv] by auto
  next
    case (Decline p)
    then show ?thesis using run inv_UninviteFromGroup [OF inv(1)] by auto
  next
    case (SetLeader s t i)
    then show ?thesis using run inv_HandleSetPartyLeader [OF inv(1)] by auto
  qed (use run in \<open>auto intro!: same simp: shape_simps shape_ConvertToLFG shape_SetEveryoneIsAssistant\<close>)
qed

text \<open>Players that come and go.\<close>

lemma inv_LoggedIn:
  assumes inv: "party_inv C g" and p: "p \<notin> C"
  shows "party_inv (insert p C) (if IsMember p g then LoadGroup p g else g)"
proof (cases "gr_deleted g")
  case True
  then show ?thesis by (auto simp: LoadGroup_def intro!: inv_deleted)
next
  case False
  have ok: "party_ok C g" using inv by (simp add: party_inv_def)
  note D = party_okD [OF ok False]
  have mem: "IsMember p g \<longleftrightarrow> p \<in> fst ` set (places g)" using getMemberSlot_None [of p g] by (auto simp: IsMember_def)
  have L: "places (LoadGroup p g) = places g" "gr_links (LoadGroup p g) = p # gr_links g" "gr_leaderGuid (LoadGroup p g) = gr_leaderGuid g"
    "gr_subGroupsCounts (LoadGroup p g) = gr_subGroupsCounts g" "isRaidGroup (LoadGroup p g) = isRaidGroup g"
    by (simp_all add: LoadGroup_def places_def isRaidGroup_def)
  have on: "members_ok (insert p C) (places g) (p # gr_links g)" if "p \<in> fst ` set (places g)"
    using D(1) p that by (auto simp: members_ok_def)
  have off: "members_ok (insert p C) (places g) (gr_links g)" if "p \<notin> fst ` set (places g)"
    using D(1) that by (auto simp: members_ok_def)
  have "party_ok (insert p C) (LoadGroup p g)" if "IsMember p g"
    by (rule party_okI) (simp_all add: L on that [unfolded mem] D(2,3))
  moreover have "party_ok (insert p C) g" if "\<not> IsMember p g"
    by (rule party_okI) (simp_all add: off that [unfolded mem] D(2,3))
  ultimately have "party_ok (insert p C) (if IsMember p g then LoadGroup p g else g)" by simp
  then show ?thesis using inv by (simp add: party_inv_def L False)
qed

lemma inv_LoggedOut:
  assumes inv: "party_inv C g"
  shows "party_inv (C - {p}) (DelinkMember p g)"
proof (cases "gr_deleted g")
  case True
  then show ?thesis by (simp add: DelinkMember_def inv_deleted)
next
  case False
  have ok: "party_ok C g" using inv by (simp add: party_inv_def)
  have L: "places (DelinkMember p g) = places g" "gr_links (DelinkMember p g) = remove1 p (gr_links g)" "gr_leaderGuid (DelinkMember p g) = gr_leaderGuid g"
    "gr_subGroupsCounts (DelinkMember p g) = gr_subGroupsCounts g" "isRaidGroup (DelinkMember p g) = isRaidGroup g"
    by (simp_all add: DelinkMember_def places_def isRaidGroup_def)
  have "party_ok (C - {p}) (DelinkMember p g)"
    using party_okD [OF ok False] by (intro party_okI) (auto simp: L members_ok_def)
  then show ?thesis using inv False by (simp add: party_inv_def L)
qed

lemma party_run_inv: "party_run C g \<Longrightarrow> party_inv C g"
proof (induction rule: party_run.induct)
  case (Founded C env s t g)
  show ?case by (rule inv_HandlePartyInvite [OF Founded.hyps(2)]) simp
next
  case (Handled C g env r g')
  show ?case by (rule inv_party_handle [OF Handled.IH Handled.hyps(2-5)])
next
  case (RollsEnded C g env l g')
  show ?case by (rule inv_keeps [OF RollsEnded.IH shape_EndRoll [OF RollsEnded.hyps(4)] refl])
next
  case (LoggedIn C g p)
  show ?case by (rule inv_LoggedIn [OF LoggedIn.IH LoggedIn.hyps(2)])
next
  case (LoggedOut C g p)
  show ?case by (rule inv_LoggedOut [OF LoggedOut.IH])
qed

lemma sum_in_subgroup: "\<forall>x \<in> set ps. unat (snd x) < n \<Longrightarrow> (\<Sum>i < n. in_subgroup i ps) = length ps"
proof (induction ps)
  case (Cons x ps)
  have "(\<Sum>i < n. in_subgroup i (x # ps)) = (\<Sum>i < n. in_subgroup i ps) + (\<Sum>i < n. if unat (snd x) = i then 1 else 0)"
    by (subst sum.distrib [symmetric]) (rule sum.cong, simp_all)
  then show ?case using Cons by simp
qed simp

lemma counters_ok_length: "counters_ok ps (Some c) raid \<Longrightarrow> length ps \<le> MAX_RAID_SIZE"
proof -
  assume c: "counters_ok ps (Some c) raid"
  then have "\<forall>x \<in> set ps. unat (snd x) < MAX_RAID_SUBGROUPS" by (auto simp: counters_ok_def)
  then have "length ps = (\<Sum>i < MAX_RAID_SUBGROUPS. in_subgroup i ps)" by (simp add: sum_in_subgroup)
  also have "\<dots> \<le> (\<Sum>i < MAX_RAID_SUBGROUPS. MAX_GROUP_SIZE)" using counters_le [OF c] by (intro sum_mono)
  also have "\<dots> = MAX_RAID_SIZE" by (simp add: MAX_RAID_SUBGROUPS_def MAX_RAID_SIZE_def MAX_GROUP_SIZE_def)
  finally show ?thesis .
qed

lemma in_subgroup_places: "in_subgroup i (places g) = length (filter (\<lambda>m. unat (ms_group m) = i) (gr_memberSlots g))"
  by (simp add: in_subgroup_def places_def filter_map comp_def)

text \<open>C2: Whatever requests a party serves and whoever logs in or out in between: no player is listed twice, exactly the
  online members are linked to it, the leader is a member, a party has at most five members, and in a raid, of at
  most forty members, the counter of every subgroup is the number of its members, at most five.\<close>

theorem party_is_consistent:
  assumes "party_run C g" and "\<not> gr_deleted g"
  shows "distinct (map ms_guid (gr_memberSlots g)) \<and>
    distinct (gr_links g) \<and> set (gr_links g) = C \<inter> ms_guid ` set (gr_memberSlots g) \<and>
    (IsCreated g \<longrightarrow> IsMember (gr_leaderGuid g) g) \<and>
    (case gr_subGroupsCounts g of None \<Rightarrow> \<not> isRaidGroup g \<and> GetMembersCount g \<le> MAX_GROUP_SIZE
     | Some c \<Rightarrow> isRaidGroup g \<and> GetMembersCount g \<le> MAX_RAID_SIZE \<and> length c = MAX_RAID_SUBGROUPS \<and>
         (\<forall>i < MAX_RAID_SUBGROUPS. unat (c ! i) = length (filter (\<lambda>m. unat (ms_group m) = i) (gr_memberSlots g)) \<and> unat (c ! i) \<le> MAX_GROUP_SIZE))"
proof -
  have ok: "party_ok C g" using party_run_inv [OF assms(1)] by (simp add: party_inv_def)
  note D = party_okD [OF ok assms(2)]
  have set: "fst ` set (places g) = ms_guid ` set (gr_memberSlots g)" by (simp add: places_def image_image)
  have "distinct (map ms_guid (gr_memberSlots g))" "distinct (gr_links g)" "set (gr_links g) = C \<inter> ms_guid ` set (gr_memberSlots g)"
    using D(1) by (simp_all add: members_ok_def set [symmetric] places_fst)
  moreover have "IsMember (gr_leaderGuid g) g" if "IsCreated g"
    using that D(3) getMemberSlot_None [of "gr_leaderGuid g" g] by (auto simp: IsCreated_def GetMembersCount_def IsMember_def places_Nil)
  moreover have "case gr_subGroupsCounts g of None \<Rightarrow> \<not> isRaidGroup g \<and> GetMembersCount g \<le> MAX_GROUP_SIZE
     | Some c \<Rightarrow> isRaidGroup g \<and> GetMembersCount g \<le> MAX_RAID_SIZE \<and> length c = MAX_RAID_SUBGROUPS \<and>
         (\<forall>i < MAX_RAID_SUBGROUPS. unat (c ! i) = length (filter (\<lambda>m. unat (ms_group m) = i) (gr_memberSlots g)) \<and> unat (c ! i) \<le> MAX_GROUP_SIZE)"
    using D(2) counters_ok_length [of "places g" _ "isRaidGroup g"] places_length [of g]
    by (auto simp: counters_ok_def in_subgroup_places split: option.splits)
  ultimately show ?thesis by blast
qed

text \<open>A world in which the given players are online, not far from each other, and free.\<close>

definition calm_env :: "ObjectGuid list \<Rightarrow> party_env" where
  "calm_env on = \<lparr>connected_player = (\<lambda>x. x \<in> set on), in_world = (\<lambda>x. x \<in> set on), current_group = (\<lambda>x. True), has_invite = (\<lambda>x. False),
     has_home_group = (\<lambda>x. False), player_name = (\<lambda>x. ''Ann''), player_class = (\<lambda>x. 1), enchanting = (\<lambda>x. 0),
     reward_distance = (\<lambda>x. x \<in> set on), pass_on_loot = (\<lambda>x. False), allowed_item = (\<lambda>i x. True), can_need = (\<lambda>i x. True),
     can_store_new = (\<lambda>x i. True), disenchant_id = (\<lambda>i x. None), item_quality = (\<lambda>i. Some 3), only_greed = (\<lambda>i. False),
     urand100 = (\<lambda>n. of_nat (n mod 100 + 1)), player_alive = (\<lambda>x. True), player_map = (\<lambda>x. 0), lfg_dungeon_map = 0,
     new_group_guid = ObjectGuid 0x7400040000000000 9, new_db_store_id = 4\<rparr>"

lemma online_calm: "online_env (set on) (calm_env on)"
  by (simp add: online_env_def calm_env_def)

definition player_no :: "nat \<Rightarrow> ObjectGuid" where
  "player_no n = ObjectGuid 0x0800040000000000 (of_nat n)"

definition two_players :: party where
  "two_players = the (HandlePartyInviteOpcode (calm_env [player_no 1, player_no 2]) (player_no 1) (player_no 2) None)"

definition party_of_two :: party where
  "party_of_two = projr (party_handle (calm_env [player_no 1, player_no 2]) (Accept (player_no 2)) two_players)"

lemma run_of_two: "party_run {player_no 1, player_no 2} party_of_two" "\<not> gr_deleted party_of_two" "GetMembersCount party_of_two = 2"
proof -
  have on: "online_env {player_no 1, player_no 2} (calm_env [player_no 1, player_no 2])"
    using online_calm [of "[player_no 1, player_no 2]"] by simp
  have "HandlePartyInviteOpcode (calm_env [player_no 1, player_no 2]) (player_no 1) (player_no 2) None = Some two_players"
  proof -
    have "\<not> Option.is_none (HandlePartyInviteOpcode (calm_env [player_no 1, player_no 2]) (player_no 1) (player_no 2) None)" by code_simp
    then show ?thesis by (auto simp: two_players_def Option.is_none_def)
  qed
  with on have start: "party_run {player_no 1, player_no 2} two_players" by (rule party_run.Founded)
  have alive: "\<not> gr_deleted two_players" by code_simp
  have "\<not> IsMember (player_no 2) two_players" by code_simp
  then have "admissible {player_no 1, player_no 2} (Accept (player_no 2)) two_players" by (simp add: admissible_def)
  moreover have "case party_handle (calm_env [player_no 1, player_no 2]) (Accept (player_no 2)) two_players of Inl e \<Rightarrow> False
      | Inr g \<Rightarrow> \<not> gr_deleted g \<and> GetMembersCount g = 2" by code_simp
  then obtain g where g: "party_handle (calm_env [player_no 1, player_no 2]) (Accept (player_no 2)) two_players = Inr g"
    "\<not> gr_deleted g" "GetMembersCount g = 2" by (auto split: sum.splits)
  moreover from g(1) have two: "party_of_two = g" by (simp only: party_of_two_def sum.sel)
  ultimately show "party_run {player_no 1, player_no 2} party_of_two" using party_run.Handled [OF start alive on] by simp
  show "\<not> gr_deleted party_of_two" "GetMembersCount party_of_two = 2" using g(2,3) by (simp_all add: two)
qed

theorem party_is_consistent_witness:
  "party_run {player_no 1, player_no 2} party_of_two \<and> GetMembersCount party_of_two = 2 \<and>
   set (gr_links party_of_two) = {player_no 1, player_no 2} \<inter> ms_guid ` set (gr_memberSlots party_of_two) \<and>
   IsMember (gr_leaderGuid party_of_two) party_of_two"
  using party_is_consistent [OF run_of_two(1,2)] run_of_two by (simp add: IsCreated_def)

end
