(* ===== verification/Lfg_Forming.thy ===== *)
theory Lfg_Forming
  imports Lfg_Release Party_Runs
begin

text \<open>
  The dungeon finder and the parties together: an accepted proposal ends in one party that holds all its online players, and a
  vote that passes ends with the victim outside the party.
\<close>

section \<open>Parties behind an operation\<close>

lemma links_if:
  "gr_links (if c then g else h) = (if c then gr_links g else gr_links h)"
  "gr_subGroupsCounts (if c then g else h) = (if c then gr_subGroupsCounts g else gr_subGroupsCounts h)"
  "gr_deleted (if c then g else h) = (if c then gr_deleted g else gr_deleted h)"
  "gr_guid (if c then g else h) = (if c then gr_guid g else gr_guid h)"
  by simp_all

lemma AddMember_links:
  assumes "AddMember env p g = Inr (b, g')" "gr_subGroupsCounts g = None"
  shows "set (gr_links g') = insert p (set (gr_links g))" "gr_subGroupsCounts g' = None" "gr_deleted g' = gr_deleted g" "gr_guid g' = gr_guid g"
proof -
  define g2 where "g2 = g\<lparr>gr_memberSlots := gr_memberSlots g @ [new_slot env p 0], gr_links := p # gr_links g\<rparr>"
  define g3 where "g3 = (if \<not> isRaidGroup g2 then g2\<lparr>gr_targetIcons := replicate TARGET_ICONS_COUNT GuidEmpty\<rparr> else g2)"
  define g4 where "g4 = unless_bg (CHAR_INS_GROUP_MEMBER (gr_dbStoreId g3) (GetCounter p) 0 0 0) g3"
  define g5 where "g5 = emit (OnGroupAddMember p) (SendUpdate env g4)"
  have g': "g' = (if gr_maxEnchantingLevel g5 < enchanting env p then g5\<lparr>gr_maxEnchantingLevel := enchanting env p\<rparr> else g5)"
    using assms by (simp add: AddMember_def free_subgroup_def SubGroupCounterIncrease_def count_subgroup_def Let_def
      g2_def g3_def g4_def g5_def cong: if_cong split del: if_split)
  show "set (gr_links g') = insert p (set (gr_links g))" "gr_subGroupsCounts g' = None" "gr_deleted g' = gr_deleted g" "gr_guid g' = gr_guid g"
    using assms(2) by (simp_all add: g' g5_def g4_def g3_def g2_def links_if emit_def emit_all_def SendUpdate_def)
qed

lemma Create_links:
  assumes "Create env p (ConvertToLFG env' Group) = Inr (b, g')"
  shows "set (gr_links g') = {p}" "gr_subGroupsCounts g' = None" "\<not> gr_deleted g'" "gr_guid g' = new_group_guid env"
proof -
  have g0: "isLFGGroup (ConvertToLFG env' Group)" "\<not> isRaidGroup (ConvertToLFG env' Group)" "\<not> isBGGroup (ConvertToLFG env' Group)"
    "\<not> isBFGroup (ConvertToLFG env' Group)" "gr_links (ConvertToLFG env' Group) = []" "gr_subGroupsCounts (ConvertToLFG env' Group) = None"
    "\<not> gr_deleted (ConvertToLFG env' Group)"
    by (simp_all add: ConvertToLFG_def Group_def isLFGGroup_def isRaidGroup_def isBGGroup_def isBFGroup_def store_type_def SendUpdate_def
        emit_all_def emit_def Let_def GROUP_FLAG_NONE_def GROUP_FLAG_LFG_def GROUP_FLAG_RAID_def GROUP_FLAG_LFG_RESTRICTED_def)
  obtain g7 where g7: "AddMember env p g7 = Inr (True, g')" "gr_links g7 = []" "gr_subGroupsCounts g7 = None" "\<not> gr_deleted g7" "gr_guid g7 = new_group_guid env"
    using assms g0 by (auto simp: Create_def Let_def res_bind_eq_Inr isLFGGroup_def isRaidGroup_def isBGGroup_def isBFGroup_def emit_def split: if_splits)
  show "set (gr_links g') = {p}" "gr_subGroupsCounts g' = None" "\<not> gr_deleted g'" "gr_guid g' = new_group_guid env"
    using AddMember_links [OF g7(1,3)] g7 by simp_all
qed

lemma SetLfgRoles_kept:
  "gr_links (SetLfgRoles env p r g) = gr_links g" "gr_subGroupsCounts (SetLfgRoles env p r g) = gr_subGroupsCounts g"
  "gr_deleted (SetLfgRoles env p r g) = gr_deleted g"
  by (simp_all add: SetLfgRoles_def Let_def set_slot_def SendUpdate_def emit_all_def split: option.split)

lemma RemoveMember_gone:
  assumes ok: "party_ok C g" "\<not> gr_deleted g" and env: "\<And>x. connected_player env x \<longleftrightarrow> x \<in> C"
    and run: "RemoveMember env p m k g = Inr (b, g')" and m: "m \<noteq> GROUP_REMOVEMETHOD_KICK"
  shows "gr_deleted g' \<or> p \<notin> fst ` set (places g')"
proof -
  define g0 where "g0 = emit (OnGroupRemoveMember p m k) g"
  have s0: "party_shape g0 = party_shape g" by (simp add: g0_def shape_simps)
  have ok0: "party_ok C g0" "\<not> gr_deleted g0" using ok by (simp_all add: party_ok_shape [OF s0] shape_sel [OF s0])
  note D = party_okD [OF ok0]
  have "gr_deleted g' \<or> p \<notin> fst ` set (places g')" if g1: "leave_rolls env p 0 (unlink_member env p m g0) = Inr g1" and g2: "erase_member p g1 = Inr g2"
    and g3: "finish_leave env p (pick_leader env p g2) = (b, g')" for g1 g2
  proof -
    have s1: "party_shape g1 = party_shape (g0\<lparr>gr_links := filter (\<lambda>x. x \<noteq> p) (gr_links g0)\<rparr>)"
      using shape_leave_rolls [of "unlink_member env p m g0" env p 0] g1 shape_unlink [OF D(1) env] by simp
    have sel1: "places g1 = places g0" "gr_subGroupsCounts g1 = gr_subGroupsCounts g0" "isRaidGroup g1 = isRaidGroup g0"
      using shape_sel [OF s1] by (simp_all add: places_def isRaidGroup_def)
    have e: "places g2 = filter (\<lambda>x. fst x \<noteq> p) (places g0)"
      using erase_member_run [of C g1 "gr_links g0" p] D(1,2) g2 by (auto simp: sel1)
    have "places (ChangeLeader env x 0 g2) = places g2" for x
      using shape_ChangeLeader [of env x 0 g2] by (auto simp: party_shape_def places_def split: if_splits)
    then have "places (pick_leader env p g2) = places g2" by (simp add: pick_leader_def split: option.split)
    moreover have "places (SendUpdate env h) = places h" "places (SendUpdateDestroyGroupToPlayer p h) = places h" for h
      by (simp_all add: places_def SendUpdate_def SendUpdateDestroyGroupToPlayer_def emit_all_def emit_def)
    ultimately have "gr_deleted g' \<or> places g' = places g2"
      using g3 by (auto simp: finish_leave_def Let_def split: if_splits)
    then show ?thesis by (auto simp: e)
  qed
  then show ?thesis using run m
    by (auto simp: RemoveMember_def Let_def g0_def [symmetric] res_bind_eq_Inr split: if_splits)
qed

section \<open>Gathering the players\<close>

lemma commit_parties:
  assumes "commit_party env gg pt w = Inr w'"
  shows "lw_parties w' = (if gr_deleted pt then om_erase gg (lw_parties w) else om_set gg (pt\<lparr>gr_out := []\<rparr>) (lw_parties w))"
  using assms by (auto simp: commit_party_def res_bind_eq_Inr)

lemma remove_member_others:
  assumes "remove_member env penv gg p method kicker reason w = Inr w'" "om_wf (lw_parties w)"
  shows "om_wf (lw_parties w')" "k \<noteq> gg \<Longrightarrow> map_of (lw_parties w') k = map_of (lw_parties w) k"
proof -
  obtain m pt1 where c: "commit_party env gg pt1 (w\<lparr>lw_mgr := m\<rparr>) = Inr w'"
    using assms(1) by (auto simp: remove_member_def res_bind_eq_Inr split: option.splits)
  from commit_parties [OF c] assms(2) show "om_wf (lw_parties w')" "k \<noteq> gg \<Longrightarrow> map_of (lw_parties w') k = map_of (lw_parties w) k" by auto
qed

text \<open>A registered party that is no raid, with what is known of its online members.\<close>

definition holds :: "lfg_world \<Rightarrow> ObjectGuid \<Rightarrow> ObjectGuid set \<Rightarrow> bool" where
  "holds w gg xs \<longleftrightarrow> om_wf (lw_parties w) \<and>
     (\<exists>pt. map_of (lw_parties w) gg = Some pt \<and> gr_subGroupsCounts pt = None \<and> \<not> gr_deleted pt \<and> xs \<subseteq> set (gr_links pt))"

lemma holds_mgr [simp]: "holds (on_mgr f w) gg xs = holds w gg xs" "holds (w\<lparr>lw_mgr := m\<rparr>) gg xs = holds w gg xs"
  by (simp_all add: holds_def on_mgr_def)

lemma holds_add:
  assumes "add_member env penv gg p w = Inr w'" "holds w gg xs"
  shows "holds w' gg (insert p xs)"
proof -
  obtain pt where pt: "map_of (lw_parties w) gg = Some pt" "gr_subGroupsCounts pt = None" "\<not> gr_deleted pt" "xs \<subseteq> set (gr_links pt)"
    using assms(2) by (auto simp: holds_def)
  then obtain b pt1 where a: "AddMember (party_view env penv gg (lw_mgr w)) p pt = Inr (b, pt1)" "commit_party env gg pt1 w = Inr w'"
    using assms(1) by (auto simp: add_member_def res_bind_eq_Inr)
  note l = AddMember_links [OF a(1) pt(2)]
  show ?thesis using commit_parties [OF a(2)] assms(2) l pt by (auto simp: holds_def)
qed

lemma holds_create:
  assumes "create_lfg_party env penv p w = Inr w'" "om_wf (lw_parties w)"
  shows "holds w' (new_group_guid penv) {p}"
proof -
  let ?v = "party_view env penv (new_group_guid penv) (lw_mgr w)"
  obtain b pt w1 where a: "Create ?v p (ConvertToLFG ?v Group) = Inr (b, pt)" "commit_party env (new_group_guid penv) pt w = Inr w1"
      "w' = on_mgr (SetState (gr_guid pt) LFG_STATE_PROPOSAL) w1"
    using assms(1) by (auto simp: create_lfg_party_def Let_def res_bind_eq_Inr)
  note l = Create_links [OF a(1)]
  have "holds w1 (new_group_guid penv) {p}" using commit_parties [OF a(2)] assms(2) l by (auto simp: holds_def)
  then show ?thesis using a(3) by auto
qed

lemma holds_update:
  assumes "holds w gg xs" "\<And>pt. gr_links (f pt) = gr_links pt" "\<And>pt. gr_subGroupsCounts (f pt) = gr_subGroupsCounts pt" "\<And>pt. gr_deleted (f pt) = gr_deleted pt"
  shows "holds (update_party gg f w) gg xs"
  using assms by (auto simp: holds_def update_party_def)

lemma holds_remove:
  assumes "remove_member env penv k p method kicker reason w = Inr w'" "holds w gg xs" "k \<noteq> gg"
  shows "holds w' gg xs"
  using remove_member_others [OF assms(1)] assms(2,3) by (auto simp: holds_def)

lemma holds_own:
  assumes "GroupOf p w = Some gg" "holds w gg xs"
  shows "holds w gg (insert p xs)"
proof -
  obtain pt where f: "find (\<lambda>(gg, pt). p \<in> set (gr_links pt)) (lw_parties w) = Some (gg, pt)"
    using assms(1) by (auto simp: GroupOf_def)
  then have "(gg, pt) \<in> set (lw_parties w)" "p \<in> set (gr_links pt)" using find_in [OF f] by auto
  moreover have "distinct (map fst (lw_parties w))" using assms(2) by (auto simp: holds_def intro: om_wf_distinct)
  ultimately have "map_of (lw_parties w) gg = Some pt" by simp
  then show ?thesis using assms(2) \<open>p \<in> set (gr_links pt)\<close> by (auto simp: holds_def)
qed

text \<open>The state of the loop: the party, once there is one, holds all online players treated so far.\<close>

definition gathered :: "mgr_env \<Rightarrow> lfg_world \<Rightarrow> ObjectGuid option \<Rightarrow> ObjectGuid set \<Rightarrow> bool" where
  "gathered env w grp xs \<longleftrightarrow> om_wf (lw_parties w) \<and>
     (case grp of None \<Rightarrow> \<forall>x \<in> xs. \<not> mg_connected env x | Some gg \<Rightarrow> holds w gg {x \<in> xs. mg_connected env x})"

lemma enter_group_eq:
  fixes penv :: party_env
  assumes "mg_connected env g"
  defines "gg \<equiv> \<lambda>grp. case grp of None \<Rightarrow> new_group_guid penv | Some gg \<Rightarrow> gg"
  shows "enter_group env penv p d g (w, grp) =
     res_bind (if GroupOf g w \<noteq> None \<and> GroupOf g w \<noteq> grp then remove_member env penv (the (GroupOf g w)) g GROUP_REMOVEMETHOD_DEFAULT GuidEmpty [] w else Inr w) (\<lambda>w1.
     res_bind (if grp = None then create_lfg_party env penv g w1 else if GroupOf g w \<noteq> grp then add_member env penv (gg grp) g w1 else Inr w1) (\<lambda>w2.
     let w3 = update_party (gg grp) (SetLfgRoles (party_view env penv (gg grp) (lw_mgr w2)) g (role_in p g)) w2
     in Inr (if dg_type d = LFG_TYPE_RANDOM then on_mgr (note_effect (CastSpell g LFG_SPELL_DUNGEON_COOLDOWN)) w3 else w3, Some (gg grp))))"
  using assms by (simp only: enter_group_def prod.case Let_def not_True_eq_False if_False)

lemma gathered_enter:
  assumes run: "enter_group env penv p d g (w, grp) = Inr (w', grp')" and inv: "gathered env w grp xs"
  shows "gathered env w' grp' (insert g xs) \<and> grp' \<in> {grp, Some (new_group_guid penv)} \<and> (grp \<noteq> None \<longrightarrow> grp' = grp)"
proof (cases "mg_connected env g")
  case False
  then have "w' = w" "grp' = grp" using run by (simp_all add: enter_group_def)
  moreover have "{x \<in> insert g xs. mg_connected env x} = {x \<in> xs. mg_connected env x}" using False by auto
  ultimately show ?thesis using inv False by (auto simp: gathered_def split: option.splits)
next
  case True
  define mine where "mine = GroupOf g w"
  define gg where "gg = (case grp of None \<Rightarrow> new_group_guid penv | Some gg \<Rightarrow> gg)"
  obtain w1 w2 where w1: "(if mine \<noteq> None \<and> mine \<noteq> grp then remove_member env penv (the mine) g GROUP_REMOVEMETHOD_DEFAULT GuidEmpty [] w else Inr w) = Inr w1"
    and w2: "(if grp = None then create_lfg_party env penv g w1 else if mine \<noteq> grp then add_member env penv gg g w1 else Inr w1) = Inr w2"
    and w': "w' = (let w3 = update_party gg (SetLfgRoles (party_view env penv gg (lw_mgr w2)) g (role_in p g)) w2
      in if dg_type d = LFG_TYPE_RANDOM then on_mgr (note_effect (CastSpell g LFG_SPELL_DUNGEON_COOLDOWN)) w3 else w3)" and grp': "grp' = Some gg"
    using run unfolding enter_group_eq [OF True] mine_def [symmetric] gg_def [symmetric] res_bind_eq_Inr Let_def by blast
  have wf1: "om_wf (lw_parties w1)" using w1 inv remove_member_others(1) by (auto simp: gathered_def split: if_splits)
  have ins: "{x \<in> insert g xs. mg_connected env x} = insert g {x \<in> xs. mg_connected env x}" using True by auto
  have h2: "holds w2 gg {x \<in> insert g xs. mg_connected env x}"
  proof (cases grp)
    case None
    then have "{x \<in> insert g xs. mg_connected env x} = {g}" using inv True by (auto simp: gathered_def)
    then show ?thesis using holds_create [of env penv g w1 w2] w2 wf1 None by (simp add: gg_def)
  next
    case (Some k)
    then have k: "gg = k" "holds w gg {x \<in> xs. mg_connected env x}" using inv by (simp_all add: gg_def gathered_def)
    show ?thesis
    proof (cases "mine = grp")
      case True
      then have "w2 = w" using w1 w2 Some by auto
      then show ?thesis unfolding ins using holds_own [of g w gg] k True Some by (simp add: mine_def)
    next
      case False
      have "holds w1 gg {x \<in> xs. mg_connected env x}"
        using w1 holds_remove [OF _ k(2)] k False Some by (cases mine) auto
      then show ?thesis unfolding ins using holds_add [of env penv gg g w1 w2] w2 False Some by simp
    qed
  qed
  have "holds (update_party gg (SetLfgRoles (party_view env penv gg (lw_mgr w2)) g (role_in p g)) w2) gg {x \<in> insert g xs. mg_connected env x}"
    using h2 by (rule holds_update) (simp_all add: SetLfgRoles_kept)
  then have "holds w' gg {x \<in> insert g xs. mg_connected env x}" using w' by (simp add: Let_def)
  then show ?thesis using grp' by (cases grp) (auto simp: gathered_def gg_def, auto simp: holds_def)
qed

lemma gathered_loop:
  assumes "forE (enter_group env penv p d) gs (w, grp) = Inr (w', grp')" "gathered env w grp xs"
  shows "gathered env w' grp' (xs \<union> set gs) \<and> grp' \<in> {grp, Some (new_group_guid penv)} \<and> (grp \<noteq> None \<longrightarrow> grp' = grp)"
  using assms
proof (induction gs arbitrary: w grp xs)
  case (Cons g gs)
  then obtain w1 grp1 where s: "enter_group env penv p d g (w, grp) = Inr (w1, grp1)" "forE (enter_group env penv p d) gs (w1, grp1) = Inr (w', grp')"
    by (auto simp: res_bind_eq_Inr)
  note i = gathered_enter [OF s(1) Cons.prems(2)]
  then have "gathered env w' grp' (insert g xs \<union> set gs) \<and> grp' \<in> {grp1, Some (new_group_guid penv)} \<and> (grp1 \<noteq> None \<longrightarrow> grp' = grp1)"
    using Cons.IH [OF s(2)] by blast
  with i show ?case by auto
qed simp

lemma set_leader_first: "set (leader_first p) = fst ` set (pr_players p)"
proof -
  have "set (fold (\<lambda>(g, pp) ps. if g = pr_leader p then g # ps else ps @ [g]) es ps) = set ps \<union> fst ` set es"
    for es :: "(ObjectGuid \<times> proposal_player) list" and ps
    by (induction es arbitrary: ps) (auto split: if_splits)
  then show ?thesis by (simp add: leader_first_def)
qed

lemma Teleport_stores [simp]:
  "PlayersStore (TeleportPlayer env g grp leave op m) = PlayersStore m" "GroupsStore (TeleportPlayer env g grp leave op m) = GroupsStore m"
  by (auto simp: TeleportPlayer_def teleport_in_def note_effect_def Let_def split: option.splits prod.splits if_splits)

lemma Teleport_fold:
  "GroupsStore (fold (\<lambda>g m. if P g then TeleportPlayer env g (f g) leave op m else m) gs m) = GroupsStore m \<and>
   PlayersStore (fold (\<lambda>g m. if P g then TeleportPlayer env g (f g) leave op m else m) gs m) = PlayersStore m"
  by (induction gs arbitrary: m) auto

lemma MakeNewGroup_forms:
  assumes wf: "om_wf (lw_parties w)" and old: "\<forall>pt. map_of (lw_parties w) (pr_group p) = Some pt \<longrightarrow> gr_subGroupsCounts pt = None \<and> \<not> gr_deleted pt"
    and run: "MakeNewGroup env penv p w = Inr w'"
  shows "\<exists>gg d. gg \<in> {pr_group p, new_group_guid penv} \<and> holds w' gg {x \<in> fst ` set (pr_players p). mg_connected env x} \<and>
    GetLfgState gg (lw_mgr w') = LFG_STATE_DUNGEON \<and> GetLFGDungeon (pr_dungeonId p) (lw_mgr w) = Some d \<and> GetDungeonEntry gg (lw_mgr w') = Entry d"
proof -
  define old_group where "old_group = (if \<not> IsEmpty (pr_group p) \<and> map_of (lw_parties w) (pr_group p) \<noteq> None then Some (pr_group p) else None)"
  obtain d where d: "GetLFGDungeon (pr_dungeonId p) (lw_mgr w) = Some d" using run by (auto simp: MakeNewGroup_def split: option.splits)
  have eq: "MakeNewGroup env penv p w = res_bind (forE (enter_group env penv p d) (leader_first p) (w, old_group)) (\<lambda>(w1, grp).
      case grp of None \<Rightarrow> Inl AssertionFailed
      | Some gg \<Rightarrow> (case map_of (lw_parties w1) gg of None \<Rightarrow> Inl NullPointer
        | Some pt \<Rightarrow>
            let w2 = on_mgr (\<lambda>m. SaveLfgToDB gg (gr_dbStoreId pt) (SetState gg LFG_STATE_DUNGEON (SetDungeon gg (Entry d) m))) w1;
                w3 = on_mgr (fold (\<lambda>g m. if mg_inWorld env g then TeleportPlayer env g (party_of g w2) False False m else m) (to_teleport p (lw_mgr w))) w2
            in Inr (update_party gg (SendUpdate (party_view env penv gg (lw_mgr w3))) w3)))"
    by (simp only: MakeNewGroup_def d option.case Let_def old_group_def)
  obtain w1 grp where w1: "forE (enter_group env penv p d) (leader_first p) (w, old_group) = Inr (w1, grp)"
    using run unfolding eq res_bind_eq_Inr by force
  then obtain gg pt where gg: "grp = Some gg" "map_of (lw_parties w1) gg = Some pt"
    using run unfolding eq by (auto split: option.splits)
  define w2 where "w2 = on_mgr (\<lambda>m. SaveLfgToDB gg (gr_dbStoreId pt) (SetState gg LFG_STATE_DUNGEON (SetDungeon gg (Entry d) m))) w1"
  define w3 where "w3 = on_mgr (fold (\<lambda>g m. if mg_inWorld env g then TeleportPlayer env g (party_of g w2) False False m else m) (to_teleport p (lw_mgr w))) w2"
  have w': "w' = update_party gg (SendUpdate (party_view env penv gg (lw_mgr w3))) w3"
  proof -
    have "MakeNewGroup env penv p w = Inr (update_party gg (SendUpdate (party_view env penv gg (lw_mgr w3))) w3)"
      unfolding eq w1 res_bind_simps prod.case gg option.case Let_def w2_def w3_def ..
    then show ?thesis using run by simp
  qed
  have "gathered env w old_group {}" using wf old by (auto simp: gathered_def holds_def old_group_def)
  from gathered_loop [OF w1 this] have "holds w1 gg {x \<in> fst ` set (pr_players p). mg_connected env x}" "gg \<in> {pr_group p, new_group_guid penv}"
    by (auto simp: gathered_def gg(1) set_leader_first old_group_def split: if_splits)
  moreover have "holds w' gg xs" if "holds w1 gg xs" for xs
    unfolding w' by (rule holds_update) (use that in \<open>simp_all add: w3_def w2_def SendUpdate_def emit_all_def\<close>)
  moreover have "lw_mgr w' = lw_mgr w3" by (simp add: w' update_party_def split: option.split)
  then have "GroupsStore (lw_mgr w') = GroupsStore (lw_mgr w2)" "PlayersStore (lw_mgr w') = PlayersStore (lw_mgr w2)"
    by (simp_all add: w3_def on_mgr_def Teleport_fold)
  then have "GetLfgState gg (lw_mgr w') = GetLfgState gg (lw_mgr w2)" "GetDungeonEntry gg (lw_mgr w') = GetDungeonEntry gg (lw_mgr w2)"
    by (simp_all add: GetLfgState_def GetDungeonEntry_def)
  moreover have "GetLfgState gg (lw_mgr w2) = LFG_STATE_DUNGEON" by (simp add: w2_def on_mgr_def SaveLfgToDB_def)
  moreover have "GetDungeonEntry gg (lw_mgr w2) = Entry d"
    by (auto simp: w2_def on_mgr_def SaveLfgToDB_def GetDungeonEntry_def SetState_def SetDungeon_def on_group_def on_player_def set_group_state_def Let_def note_effect_def)
  ultimately show ?thesis using d by auto
qed

lemma confirm_dungeons:
  "confirm_player env b q p e (t, m) = Inr (t', m') \<Longrightarrow> LfgDungeonStore m' = LfgDungeonStore m"
  by (cases e) (auto simp: confirm_player_def Let_def data_only_fields [OF data_only_SetState] data_only_fields [OF data_only_tell] on_queue_def split: list.splits)

lemma confirm_all_dungeons:
  "forE (confirm_player env b q p) es (t, m) = Inr (t', m') \<Longrightarrow> LfgDungeonStore m' = LfgDungeonStore m"
proof (induction es arbitrary: t m)
  case (Cons e es)
  then obtain t1 m1 where "confirm_player env b q p e (t, m) = Inr (t1, m1)" "forE (confirm_player env b q p) es (t1, m1) = Inr (t', m')"
    by (auto simp: res_bind_eq_Inr)
  then show ?case using Cons.IH confirm_dungeons by metis
qed simp

text \<open>C7: the last answer forms the group. When a player accepts a proposal that all its other players have accepted,
  and the operation runs through, then the proposal is gone, and one registered party, the one the proposal is
  about or a new one, holds every player of the proposal who is online; its state is that of a group in a
  dungeon, and its dungeon is the one proposed.\<close>

theorem last_answer_forms_group:
  assumes "map_of (ProposalsStore (lw_mgr w)) i = Some p" "map_of (pr_players p) g = Some pp"
    and "\<forall>(x, a) \<in> set (pr_players p). x \<noteq> g \<longrightarrow> pp_accept a = LFG_ANSWER_AGREE"
    and "om_wf (lw_parties w)" "\<forall>pt. map_of (lw_parties w) (pr_group p) = Some pt \<longrightarrow> gr_subGroupsCounts pt = None \<and> \<not> gr_deleted pt"
    and "UpdateProposal env penv i g True w = Inr w'"
  shows "map_of (ProposalsStore (lw_mgr w')) i = None \<and>
    (\<exists>gg pt d. gg \<in> {pr_group p, new_group_guid penv} \<and> map_of (lw_parties w') gg = Some pt \<and>
       (\<forall>x \<in> fst ` set (pr_players p). mg_connected env x \<longrightarrow> x \<in> set (gr_links pt)) \<and> GetLfgState gg (lw_mgr w') = LFG_STATE_DUNGEON \<and>
       GetLFGDungeon (pr_dungeonId p) (lw_mgr w) = Some d \<and> GetDungeonEntry gg (lw_mgr w') = Entry d)"
proof -
  define p1 where "p1 = p\<lparr>pr_players := om_adjust g (\<lambda>pp. pp\<lparr>pp_accept := LFG_ANSWER_AGREE\<rparr>) (pr_players p)\<rparr>"
  define m where "m = (lw_mgr w)\<lparr>ProposalsStore := om_adjust i (\<lambda>_. p1) (ProposalsStore (lw_mgr w))\<rparr>"
  define p2 where "p2 = p1\<lparr>pr_state := LFG_PROPOSAL_SUCCESS\<rparr>"
  have "all_agreed p1" using assms(3) by (auto simp: all_agreed_def p1_def om_adjust_def list_all_iff)
  then have "accept_proposal env penv i g p1 (w\<lparr>lw_mgr := m\<rparr>) = Inr w'"
    using assms(1,2,6) by (simp add: UpdateProposal_def p1_def [symmetric] m_def [symmetric] Let_def)
  then obtain t m1 w1 where a: "forE (confirm_player env (pr_state p1 \<noteq> LFG_PROPOSAL_SUCCESS) (GetQueueId g m) p2) (pr_players p2)
        (LFG_UPDATETYPE_GROUP_FOUND, on_queue (GetQueueId g m) id (m\<lparr>ProposalsStore := om_adjust i (\<lambda>_. p2) (ProposalsStore m)\<rparr>)) = Inr (t, m1)"
      "MakeNewGroup env penv p2 (w\<lparr>lw_mgr := on_queue (GetQueueId g m) (fold RemoveFromQueue (pr_queues p2)) m1\<rparr>) = Inr w1"
      "w' = on_mgr (\<lambda>m. m\<lparr>ProposalsStore := om_erase i (ProposalsStore m)\<rparr>) w1"
    by (auto simp: accept_proposal_def Let_def p2_def [symmetric] res_bind_eq_Inr)
  have fields: "pr_group p2 = pr_group p" "pr_dungeonId p2 = pr_dungeonId p" "fst ` set (pr_players p2) = fst ` set (pr_players p)"
    by (simp_all add: p2_def p1_def)
  have "LfgDungeonStore m1 = LfgDungeonStore (lw_mgr w)" using confirm_all_dungeons [OF a(1)] by (simp add: m_def on_queue_def)
  then have dg: "GetLFGDungeon k (on_queue q f m1) = GetLFGDungeon k (lw_mgr w)" for k q f by (simp add: GetLFGDungeon_def on_queue_def)
  obtain gg d where r: "gg \<in> {pr_group p, new_group_guid penv}" "holds w1 gg {x \<in> fst ` set (pr_players p). mg_connected env x}"
      "GetLfgState gg (lw_mgr w1) = LFG_STATE_DUNGEON" "GetLFGDungeon (pr_dungeonId p) (lw_mgr w) = Some d" "GetDungeonEntry gg (lw_mgr w1) = Entry d"
    using MakeNewGroup_forms [OF _ _ a(2)] assms(4,5) by (auto simp: fields dg)
  obtain pt where pt: "map_of (lw_parties w1) gg = Some pt" "{x \<in> fst ` set (pr_players p). mg_connected env x} \<subseteq> set (gr_links pt)"
    using r(2) by (auto simp: holds_def)
  have "map_of (lw_parties w') gg = Some pt" "GetLfgState gg (lw_mgr w') = LFG_STATE_DUNGEON" "GetDungeonEntry gg (lw_mgr w') = Entry d"
    "map_of (ProposalsStore (lw_mgr w')) i = None"
    using pt(1) r(3,5) by (simp_all add: a(3) on_mgr_def GetDungeonEntry_def)
  then show ?thesis using r(1,4) pt(2) by blast
qed

section \<open>Examples\<close>

definition a_dungeon :: dungeon_data where
  "a_dungeon = \<lparr>dg_id = 7, dg_map = 36, dg_type = 1, dg_expansion = 0, dg_group = 1, dg_minlevel = 10, dg_maxlevel = 110, dg_difficulty = 1,
     dg_seasonal = False, dg_pos = (0x41200000, 0, 0, 0), dg_requiredItemLevel = 0\<rparr>"

definition waiting_pair :: proposal where
  "waiting_pair = declined_pair\<lparr>pr_players := [(ObjectGuid 0 1, \<lparr>pp_role = 2, pp_accept = LFG_ANSWER_AGREE, pp_group = GuidEmpty\<rparr>),
                   (ObjectGuid 0 2, \<lparr>pp_role = 8, pp_accept = LFG_ANSWER_PENDING, pp_group = GuidEmpty\<rparr>)]\<rparr>"

definition world_of :: "lfg_mgr \<Rightarrow> lfg_world" where
  "world_of m = \<lparr>lw_mgr = m, lw_parties = [], lw_out = []\<rparr>"

definition slot_of :: "ObjectGuid \<Rightarrow> member_slot" where
  "slot_of g = \<lparr>ms_guid = g, ms_name = ''Ann'', ms_class = 1, ms_group = 0, ms_flags = 0, ms_roles = 2, ms_readyChecked = False\<rparr>"

text \<open>A player whose group lost its other members, and one who came alone.\<close>

definition lone_group :: party where
  "lone_group = Group\<lparr>gr_guid := a_party, gr_leaderGuid := ObjectGuid 0 1, gr_memberSlots := [slot_of (ObjectGuid 0 1)],
     gr_links := [ObjectGuid 0 1], gr_groupFlags := GROUP_FLAG_LFG, gr_groupCategory := GROUP_CATEGORY_INSTANCE\<rparr>"

definition pair_world :: lfg_world where
  "pair_world = (world_of ((LFGMgr 1)\<lparr>ProposalsStore := [(2, waiting_pair\<lparr>pr_group := a_party\<rparr>)], LfgDungeonStore := [(7, a_dungeon)],
     PlayersStore := (\<lambda>_. LfgPlayerData\<lparr>pd_state := LFG_STATE_PROPOSAL, pd_selected := [7]\<rparr>)\<rparr>))\<lparr>lw_parties := [(a_party, lone_group)]\<rparr>"

definition party_env_for :: party_env where
  "party_env_for = (calm_env [])\<lparr>new_group_guid := a_party\<rparr>"

theorem last_answer_forms_group_witness:
  "\<exists>w' pt. UpdateProposal (still_env 100) party_env_for 2 (ObjectGuid 0 2) True pair_world = Inr w' \<and>
     map_of (lw_parties w') a_party = Some pt \<and> {ObjectGuid 0 1, ObjectGuid 0 2} \<subseteq> set (gr_links pt)"
proof -
  let ?p = "waiting_pair\<lparr>pr_group := a_party\<rparr>"
  have "case UpdateProposal (still_env 100) party_env_for 2 (ObjectGuid 0 2) True pair_world of Inl e \<Rightarrow> False | Inr w' \<Rightarrow> True" by code_simp
  then obtain w' where w': "UpdateProposal (still_env 100) party_env_for 2 (ObjectGuid 0 2) True pair_world = Inr w'" by (auto split: sum.splits)
  have 1: "map_of (ProposalsStore (lw_mgr pair_world)) 2 = Some ?p" "om_wf (lw_parties pair_world)"
    "\<forall>pt. map_of (lw_parties pair_world) (pr_group ?p) = Some pt \<longrightarrow> gr_subGroupsCounts pt = None \<and> \<not> gr_deleted pt"
    by (simp_all add: pair_world_def world_of_def lone_group_def Group_def)
  obtain pp where 2: "map_of (pr_players ?p) (ObjectGuid 0 2) = Some pp"
    "\<forall>(x, a) \<in> set (pr_players ?p). x \<noteq> ObjectGuid 0 2 \<longrightarrow> pp_accept a = LFG_ANSWER_AGREE"
    by (simp add: waiting_pair_def)
  obtain pt where "map_of (lw_parties w') a_party = Some pt" "\<forall>x \<in> fst ` set (pr_players ?p). x \<in> set (gr_links pt)"
    using last_answer_forms_group [OF 1(1) 2 1(2,3) w'] by (auto simp: party_env_for_def still_env_def)
  then show ?thesis using w' by (auto simp: waiting_pair_def)
qed

end
