(* ===== verification/Lfg_Votes.thy ===== *)
theory Lfg_Votes
  imports Lfg_Forming
begin

text \<open>
  Votes to remove a player from a group of the dungeon finder (\<^verbatim>\<open>LFGMgr::UpdateBoot\<close> in
  \<^verbatim>\<open>src/src/server/game/DungeonFinding/LFGMgr.cpp\<close>): three votes decide, and a member who joined after the start of the vote
  cannot agree.
\<close>

section \<open>Counting\<close>

definition votes_for :: "LfgAnswer \<Rightarrow> player_boot \<Rightarrow> nat" where
  "votes_for v b = length (filter (\<lambda>(p, x). x = v) (bt_votes b))"

lemma count_votes_lengths:
  "count_votes vs = (of_nat (length (filter (\<lambda>(p, v). v \<noteq> LFG_ANSWER_PENDING) vs)), of_nat (length (filter (\<lambda>(p, v). v = LFG_ANSWER_AGREE) vs)))"
proof -
  have "fold (\<lambda>(p, v) (n, a). (if v \<noteq> LFG_ANSWER_PENDING then n + 1 else n, if v = LFG_ANSWER_AGREE then a + 1 else a)) vs (n, a) =
      (n + of_nat (length (filter (\<lambda>(p, v). v \<noteq> LFG_ANSWER_PENDING) vs)), a + of_nat (length (filter (\<lambda>(p, v). v = LFG_ANSWER_AGREE) vs)))"
    for n a :: uint8 and vs :: "(ObjectGuid \<times> LfgAnswer) list"
    by (induction vs arbitrary: n a) (auto simp: algebra_simps)
  from this [of vs 0 0] show ?thesis by (simp add: count_votes_def)
qed

lemma answered_split:
  "length (filter (\<lambda>(p, v). v \<noteq> LFG_ANSWER_PENDING) vs) =
     length (filter (\<lambda>(p, v). v = LFG_ANSWER_AGREE) vs) + length (filter (\<lambda>(p, v). v = LFG_ANSWER_DENY) vs)"
  for vs :: "(ObjectGuid \<times> LfgAnswer) list"
proof (induction vs)
  case (Cons e vs)
  then show ?case by (cases e, cases "snd e") auto
qed simp

text \<open>The tests of the code are about the numbers of votes when these fit into the byte-sized counters.\<close>

lemma vote_tests:
  assumes "length (bt_votes b) < 256"
  shows "vote_open b \<longleftrightarrow> votes_for LFG_ANSWER_AGREE b < 3 \<and> votes_for LFG_ANSWER_DENY b < 3"
    "vote_passed b \<longleftrightarrow> votes_for LFG_ANSWER_AGREE b = 3"
proof -
  have "length (filter P (bt_votes b)) < 256" for P using order_le_less_trans [OF length_filter_le assms] .
  then have u: "unat (of_nat (length (filter P (bt_votes b))) :: uint8) = length (filter P (bt_votes b))" for P
    by (simp add: unat_of_nat)
  have three: "unat (3 :: uint8) = 3" by simp
  have "vote_open b \<longleftrightarrow> votes_for LFG_ANSWER_AGREE b < 3 \<and>
      length (filter (\<lambda>(p, v). v \<noteq> LFG_ANSWER_PENDING) (bt_votes b)) - votes_for LFG_ANSWER_AGREE b < 3"
    by (simp add: vote_open_def count_votes_lengths votes_for_def LFG_GROUP_KICK_VOTES_NEEDED_def word_less_nat_alt u three)
  then show "vote_open b \<longleftrightarrow> votes_for LFG_ANSWER_AGREE b < 3 \<and> votes_for LFG_ANSWER_DENY b < 3"
    using answered_split [of "bt_votes b"] by (simp add: votes_for_def)
  show "vote_passed b \<longleftrightarrow> votes_for LFG_ANSWER_AGREE b = 3"
    by (simp add: vote_passed_def count_votes_lengths votes_for_def LFG_GROUP_KICK_VOTES_NEEDED_def word_unat_eq_iff u three)
qed

lemma answer_counted:
  fixes vs :: "(ObjectGuid \<times> LfgAnswer) list"
  assumes "om_wf vs" "map_of vs g = Some u"
  shows "length (filter (\<lambda>(p, x). x = v) (om_set g a vs)) + (if u = v then 1 else 0) = length (filter (\<lambda>(p, x). x = v) vs) + (if a = v then 1 else 0) \<and>
    length (om_set g a vs) = length vs"
  using assms
proof (induction g a vs rule: om_set.induct)
  case (2 k a k' x m)
  have "k \<in> fst ` set m" if "k \<noteq> k'" using "2.prems"(2) that by (auto dest!: map_of_SomeD simp: rev_image_eqI)
  then have "\<not> k < k'" if "k \<noteq> k'" using "2.prems"(1) that by auto
  then show ?case using 2 by (auto split: if_splits)
qed simp

lemma newcomer_counted:
  fixes vs :: "(ObjectGuid \<times> LfgAnswer) list"
  assumes "map_of vs g = None"
  shows "length (filter (\<lambda>(p, x). x = v) (om_set g a vs)) = length (filter (\<lambda>(p, x). x = v) vs) + (if a = v then 1 else 0)"
  using assms by (induction g a vs rule: om_set.induct) (auto split: if_splits)

definition with_vote :: "ObjectGuid \<Rightarrow> LfgAnswer \<Rightarrow> player_boot \<Rightarrow> player_boot" where
  "with_vote g a b = b\<lparr>bt_votes := om_set g a (bt_votes b)\<rparr>"

lemma with_vote_numbers:
  assumes "om_wf (bt_votes b)" "map_of (bt_votes b) g = Some LFG_ANSWER_PENDING" "a \<noteq> LFG_ANSWER_PENDING"
  shows "votes_for v (with_vote g a b) = (if v = LFG_ANSWER_PENDING then votes_for v b - 1 else votes_for v b + (if v = a then 1 else 0))"
    "length (bt_votes (with_vote g a b)) = length (bt_votes b)"
  using answer_counted [OF assms(1,2), of v a] assms(3) by (auto simp: votes_for_def with_vote_def split: if_splits)

section \<open>The end of a vote\<close>

lemma kick_removes:
  assumes "remove_member env penv gg p GROUP_REMOVEMETHOD_KICK_LFG kicker reason w = Inr w'" "om_wf (lw_parties w)"
    and "map_of (lw_parties w) gg = Some pt" "party_ok C pt" "\<not> gr_deleted pt" "\<And>x. mg_connected env x \<longleftrightarrow> x \<in> C"
  shows "case map_of (lw_parties w') gg of None \<Rightarrow> True | Some pt' \<Rightarrow> \<not> IsMember p pt'"
proof -
  obtain m b pt1 where r: "RemoveMember (party_view env penv gg m) p GROUP_REMOVEMETHOD_KICK_LFG kicker pt = Inr (b, pt1)"
      "commit_party env gg pt1 (w\<lparr>lw_mgr := m\<rparr>) = Inr w'"
    using assms(1,3) by (auto simp: remove_member_def res_bind_eq_Inr)
  have "gr_deleted pt1 \<or> p \<notin> fst ` set (places pt1)"
    by (rule RemoveMember_gone [OF assms(4,5) _ r(1)]) (simp_all add: party_view_def assms(6))
  moreover have "lw_parties w' = (if gr_deleted pt1 then om_erase gg (lw_parties w) else om_set gg (pt1\<lparr>gr_out := []\<rparr>) (lw_parties w))"
    using commit_parties [OF r(2)] by simp
  moreover have "\<not> IsMember p (pt1\<lparr>gr_out := []\<rparr>)" if "p \<notin> fst ` set (places pt1)"
    using that by (auto simp: IsMember_def places_def getMemberSlot_def image_image find_None_iff)
  ultimately show ?thesis using assms(2) by auto
qed

text \<open>C12: three votes decide. When a member with an open vote answers and the operation runs through: the third agreement
  closes the vote and leaves the victim outside the group, if there still is one; the third refusal closes the
  vote and leaves all groups alone; any other answer is recorded and nothing else is changed in the vote and in the groups.\<close>

theorem vote_decides:
  assumes "IsParty gg" "GetGroup g (lw_mgr w) = gg" "map_of (BootsStore (lw_mgr w)) gg = Some b"
    and "map_of (bt_votes b) g = Some LFG_ANSWER_PENDING" "om_wf (bt_votes b)" "length (bt_votes b) < 256"
    and "votes_for LFG_ANSWER_AGREE b < 3" "votes_for LFG_ANSWER_DENY b < 3"
    and "om_wf (lw_parties w)" "map_of (lw_parties w) gg = Some pt" "party_ok C pt" "\<not> gr_deleted pt" "\<forall>x. mg_connected env x \<longleftrightarrow> x \<in> C"
    and "UpdateBoot env penv g accept w = Inr w'"
  shows "if accept \<and> votes_for LFG_ANSWER_AGREE b = 2
     then map_of (BootsStore (lw_mgr w')) gg = None \<and> (case map_of (lw_parties w') gg of None \<Rightarrow> True | Some pt' \<Rightarrow> \<not> IsMember (bt_victim b) pt')
     else if \<not> accept \<and> votes_for LFG_ANSWER_DENY b = 2
     then map_of (BootsStore (lw_mgr w')) gg = None \<and> lw_parties w' = lw_parties w
     else map_of (BootsStore (lw_mgr w')) gg = Some (with_vote g (if accept then LFG_ANSWER_AGREE else LFG_ANSWER_DENY) b) \<and> lw_parties w' = lw_parties w"
proof -
  define b1 where "b1 = with_vote g (if accept then LFG_ANSWER_AGREE else LFG_ANSWER_DENY) b"
  define m1 where "m1 = (lw_mgr w)\<lparr>BootsStore := om_adjust gg (\<lambda>_. b1) (BootsStore (lw_mgr w))\<rparr>"
  have n: "votes_for LFG_ANSWER_AGREE b1 = votes_for LFG_ANSWER_AGREE b + (if accept then 1 else 0)"
    "votes_for LFG_ANSWER_DENY b1 = votes_for LFG_ANSWER_DENY b + (if accept then 0 else 1)" "length (bt_votes b1) < 256"
    using with_vote_numbers [OF assms(5,4)] assms(6) by (auto simp: b1_def)
  have rec: "record_answer g accept b = (True, b1)" by (simp add: record_answer_def assms(4) b1_def with_vote_def)
  obtain m2 where m2: "SetVoteKick gg False (announce_boot env (b1\<lparr>bt_inProgress := False\<rparr>) m1) = Inr m2" using assms(1) by (simp add: SetVoteKick_def)
  define w2 where "w2 = w\<lparr>lw_mgr := m2\<rparr>"
  have eq: "UpdateBoot env penv g accept w =
      (if vote_open b1 then Inr (w\<lparr>lw_mgr := m1\<rparr>)
       else res_bind (if vote_passed b1 then res_bind (remove_member env penv gg (bt_victim b1) GROUP_REMOVEMETHOD_KICK_LFG GuidEmpty [] w2)
            (\<lambda>w3. Inr (on_mgr (DecreaseKicksLeft gg) w3)) else Inr w2) (\<lambda>w3. Inr (on_mgr (\<lambda>m. m\<lparr>BootsStore := om_erase gg (BootsStore m)\<rparr>) w3)))"
    using party_not_empty [OF assms(1)] assms(10)
    by (simp add: UpdateBoot_def Let_def assms(2,3) rec m1_def [symmetric] m2 w2_def)
  show ?thesis
  proof (cases "vote_open b1")
    case True
    then have "w' = w\<lparr>lw_mgr := m1\<rparr>" using assms(14) unfolding eq by simp
    then have "map_of (BootsStore (lw_mgr w')) gg = Some b1" "lw_parties w' = lw_parties w" by (simp_all add: m1_def assms(3))
    moreover have "\<not> (accept \<and> votes_for LFG_ANSWER_AGREE b = 2)" "\<not> (\<not> accept \<and> votes_for LFG_ANSWER_DENY b = 2)"
      using True n by (auto simp: vote_tests split: if_splits)
    ultimately show ?thesis by (auto simp: b1_def)
  next
    case False
    then obtain w3 where w3: "(if vote_passed b1 then res_bind (remove_member env penv gg (bt_victim b1) GROUP_REMOVEMETHOD_KICK_LFG GuidEmpty [] w2)
            (\<lambda>w3. Inr (on_mgr (DecreaseKicksLeft gg) w3)) else Inr w2) = Inr w3" "w' = on_mgr (\<lambda>m. m\<lparr>BootsStore := om_erase gg (BootsStore m)\<rparr>) w3"
      using assms(14) unfolding eq by (auto simp: res_bind_eq_Inr)
    have closed: "map_of (BootsStore (lw_mgr w')) gg = None" by (simp add: w3(2) on_mgr_def)
    show ?thesis
    proof (cases accept)
      case True
      then have two: "votes_for LFG_ANSWER_AGREE b = 2" "vote_passed b1"
        using False n assms(7,8) by (auto simp: vote_tests)
      then obtain w4 where w4: "remove_member env penv gg (bt_victim b1) GROUP_REMOVEMETHOD_KICK_LFG GuidEmpty [] w2 = Inr w4" "w3 = on_mgr (DecreaseKicksLeft gg) w4"
        using w3(1) by (auto simp: res_bind_eq_Inr)
      have "case map_of (lw_parties w4) gg of None \<Rightarrow> True | Some pt' \<Rightarrow> \<not> IsMember (bt_victim b1) pt'"
        by (rule kick_removes [OF w4(1), of pt C]) (use assms(9-13) in \<open>simp_all add: w2_def\<close>)
      then show ?thesis using True two(1) closed by (simp add: w3(2) w4(2) on_mgr_def b1_def with_vote_def cong: option.case_cong)
    next
      case False
      then have "votes_for LFG_ANSWER_DENY b = 2" "\<not> vote_passed b1"
        using \<open>\<not> vote_open b1\<close> n assms(7,8) by (auto simp: vote_tests)
      then show ?thesis using False w3 closed by (auto simp: w2_def on_mgr_def)
    qed
  qed
qed

text \<open>C36: who joined after the vote began cannot agree. The answer of a member without an entry in the vote is a refusal, whatever it
  was; it adds one to the refusals without closing the vote, and every later answer of that member is ignored.\<close>

theorem newcomer_only_refuses:
  assumes "IsParty gg" "GetGroup g (lw_mgr w) = gg" "map_of (BootsStore (lw_mgr w)) gg = Some b" "om_wf (bt_votes b)" "map_of (bt_votes b) g = None"
  shows "\<exists>w'. UpdateBoot env penv g accept w = Inr w' \<and> map_of (BootsStore (lw_mgr w')) gg = Some (with_vote g LFG_ANSWER_DENY b) \<and>
    votes_for LFG_ANSWER_DENY (with_vote g LFG_ANSWER_DENY b) = votes_for LFG_ANSWER_DENY b + 1 \<and>
    votes_for LFG_ANSWER_AGREE (with_vote g LFG_ANSWER_DENY b) = votes_for LFG_ANSWER_AGREE b \<and> (\<forall>again. UpdateBoot env penv g again w' = Inr w')"
proof -
  let ?b = "with_vote g LFG_ANSWER_DENY b"
  let ?w = "w\<lparr>lw_mgr := (lw_mgr w)\<lparr>BootsStore := om_adjust gg (\<lambda>_. ?b) (BootsStore (lw_mgr w))\<rparr>\<rparr>"
  have twice: "om_adjust gg (\<lambda>_. x) (om_adjust gg (\<lambda>_. x) m) = om_adjust gg (\<lambda>_. x) m" for x :: player_boot and m
    by (auto simp: om_adjust_def)
  have 1: "UpdateBoot env penv g accept w = Inr ?w"
    using party_not_empty [OF assms(1)] by (simp add: UpdateBoot_def Let_def assms(2,3,5) record_answer_def with_vote_def)
  have "map_of (bt_votes ?b) g = Some LFG_ANSWER_DENY" by (simp add: with_vote_def assms(4))
  then have 2: "UpdateBoot env penv g again ?w = Inr ?w" for again
    using party_not_empty [OF assms(1)] assms(2)
    by (simp add: UpdateBoot_def Let_def GetGroup_def assms(3) record_answer_def twice)
  show ?thesis
    using 1 2 newcomer_counted [OF assms(5), of _ LFG_ANSWER_DENY] by (intro exI [of _ ?w]) (simp add: assms(3) votes_for_def with_vote_def)
qed

section \<open>Examples\<close>

definition group_of_four :: party where
  "group_of_four = Group\<lparr>gr_guid := a_party, gr_leaderGuid := ObjectGuid 0 1, gr_groupFlags := GROUP_FLAG_LFG, gr_groupCategory := GROUP_CATEGORY_INSTANCE,
     gr_memberSlots := map (\<lambda>n. slot_of (ObjectGuid 0 n)) [1, 2, 3, 4], gr_links := map (ObjectGuid 0) [1, 2, 3, 4]\<rparr>"

definition open_vote :: player_boot where
  "open_vote = \<lparr>bt_cancelTime = 220, bt_inProgress = True, bt_votes = [(ObjectGuid 0 1, LFG_ANSWER_AGREE), (ObjectGuid 0 2, LFG_ANSWER_AGREE),
     (ObjectGuid 0 3, LFG_ANSWER_PENDING), (ObjectGuid 0 4, LFG_ANSWER_DENY)], bt_victim = ObjectGuid 0 4, bt_reason = ''afk''\<rparr>"

definition voting_world :: lfg_world where
  "voting_world = (world_of ((LFGMgr 1)\<lparr>BootsStore := [(a_party, open_vote)],
     PlayersStore := (\<lambda>_. LfgPlayerData\<lparr>pd_state := LFG_STATE_DUNGEON, pd_group := a_party\<rparr>)\<rparr>))\<lparr>lw_parties := [(a_party, group_of_four)]\<rparr>"

theorem vote_decides_witness:
  "\<exists>w' pt. UpdateBoot (still_env 100) party_env_for (ObjectGuid 0 3) True voting_world = Inr w' \<and> BootsStore (lw_mgr w') = [] \<and>
     map_of (lw_parties w') a_party = Some pt \<and> \<not> IsMember (ObjectGuid 0 4) pt"
proof -
  have "case UpdateBoot (still_env 100) party_env_for (ObjectGuid 0 3) True voting_world of Inl e \<Rightarrow> False
      | Inr w' \<Rightarrow> BootsStore (lw_mgr w') = [] \<and> map fst (lw_parties w') = [a_party]" by code_simp
  then obtain w' where w': "UpdateBoot (still_env 100) party_env_for (ObjectGuid 0 3) True voting_world = Inr w'" "BootsStore (lw_mgr w') = []"
    "map fst (lw_parties w') = [a_party]" by (auto split: sum.splits)
  then obtain pt where pt: "map_of (lw_parties w') a_party = Some pt"
    by (metis list.set_intros(1) list.set_map map_of_eq_None_iff not_Some_eq)
  have 1: "GetGroup (ObjectGuid 0 3) (lw_mgr voting_world) = a_party" "map_of (BootsStore (lw_mgr voting_world)) a_party = Some open_vote"
    "om_wf (lw_parties voting_world)" "map_of (lw_parties voting_world) a_party = Some group_of_four"
    by (simp_all add: voting_world_def world_of_def GetGroup_def)
  have 2: "map_of (bt_votes open_vote) (ObjectGuid 0 3) = Some LFG_ANSWER_PENDING" "om_wf (bt_votes open_vote)" "length (bt_votes open_vote) < 256"
    "votes_for LFG_ANSWER_AGREE open_vote = 2" "votes_for LFG_ANSWER_DENY open_vote = 1"
    by (simp_all add: open_vote_def votes_for_def less_ObjectGuid_def guid_less_def)
  have 3: "party_ok UNIV group_of_four" "\<not> gr_deleted group_of_four"
    by (auto simp: group_of_four_def slot_of_def Group_def party_ok_def shape_ok_def party_shape_def places_def members_ok_def counters_ok_def
        isRaidGroup_def MAX_RAID_SUBGROUPS_def MAX_RAID_SIZE_def MAX_GROUP_SIZE_def GROUP_FLAG_LFG_def GROUP_FLAG_RAID_def)
  have "\<not> IsMember (bt_victim open_vote) pt"
    using vote_decides [OF a_party_kind(1) 1(1,2) 2(1,2,3) _ _ 1(3,4) 3 _ w'(1)] 2(4,5) pt by (simp add: still_env_def)
  then show ?thesis using w' pt by (simp add: open_vote_def)
qed

text \<open>A fifth player has joined; the vote lacks one agreement.\<close>

theorem newcomer_only_refuses_witness:
  "\<exists>w'. UpdateBoot (still_env 100) party_env_for (ObjectGuid 0 5) True voting_world = Inr w' \<and>
     map_of (BootsStore (lw_mgr w')) a_party = Some (with_vote (ObjectGuid 0 5) LFG_ANSWER_DENY open_vote)"
proof -
  have "GetGroup (ObjectGuid 0 5) (lw_mgr voting_world) = a_party" "map_of (BootsStore (lw_mgr voting_world)) a_party = Some open_vote"
    by (simp_all add: voting_world_def world_of_def GetGroup_def)
  moreover have "om_wf (bt_votes open_vote)" "map_of (bt_votes open_vote) (ObjectGuid 0 5) = None"
    by (simp_all add: open_vote_def less_ObjectGuid_def guid_less_def)
  ultimately show ?thesis using newcomer_only_refuses [OF a_party_kind(1), of "ObjectGuid 0 5" voting_world open_vote] by blast
qed

end
