(* ===== verification/Lfg_Joining.thy ===== *)
theory Lfg_Joining
  imports Lfg_Forming
begin

text \<open>
  Requests to join and to leave the dungeon finder (\<^verbatim>\<open>LFGMgr::JoinLfg\<close> and \<^verbatim>\<open>LeaveLfg\<close> in
  \<^verbatim>\<open>src/src/server/game/DungeonFinding/LFGMgr.cpp\<close>, \<^verbatim>\<open>HandleLfgLeaveOpcode\<close> in
  \<^verbatim>\<open>src/src/server/game/Handlers/LFGHandler.cpp\<close>): which dungeons a player is queued for, what a refused
  request leaves behind, and who can take whom out of the queue.
\<close>

unbundle bit_operations_syntax

section \<open>Dungeons open to all\<close>

definition locked_ids :: "mgr_env \<Rightarrow> ObjectGuid \<Rightarrow> lfg_mgr \<Rightarrow> uint32 set" where
  "locked_ids env g m = (\<lambda>(e, s). e AND 0x00FFFFFF) ` set (GetLockedDungeons env g m)"

lemma apply_lock_plain:
  "\<exists>seen' locks'. apply_lock env False g m (e, s) (ds, seen, locks) =
     Inr (if ds = [] \<or> e AND 0x00FFFFFF \<notin> set ds then ds else set_erase (e AND 0x00FFFFFF) ds, seen', locks')"
  by (simp add: apply_lock_def bound_instance_def Let_def)

lemma apply_locks_plain:
  "\<exists>ds' seen' locks'. forE (apply_lock env False g m) ls (ds, seen, locks) = Inr (ds', seen', locks') \<and>
     set ds' = set ds - (\<lambda>(e, s). e AND 0x00FFFFFF) ` set ls"
proof (induction ls arbitrary: ds seen locks)
  case (Cons l ls)
  obtain e s where l: "l = (e, s)" by force
  obtain seen1 locks1 where 1: "apply_lock env False g m l (ds, seen, locks) =
      Inr (if ds = [] \<or> e AND 0x00FFFFFF \<notin> set ds then ds else set_erase (e AND 0x00FFFFFF) ds, seen1, locks1)"
    using apply_lock_plain l by blast
  obtain ds' seen' locks' where 2: "forE (apply_lock env False g m) ls
      (if ds = [] \<or> e AND 0x00FFFFFF \<notin> set ds then ds else set_erase (e AND 0x00FFFFFF) ds, seen1, locks1) = Inr (ds', seen', locks')"
    "set ds' = set (if ds = [] \<or> e AND 0x00FFFFFF \<notin> set ds then ds else set_erase (e AND 0x00FFFFFF) ds) - (\<lambda>(e, s). e AND 0x00FFFFFF) ` set ls"
    using Cons.IH by blast
  show ?case using 1 2 l by (auto split: if_splits)
qed simp

lemma players_plain:
  "\<exists>ds' seen' locks'. forE (player_locks env False m) ps (ds, seen, locks) = Inr (ds', seen', locks') \<and>
     set ds' = set ds - (\<Union>g \<in> set ps. locked_ids env g m)"
proof (induction ps arbitrary: ds seen locks)
  case (Cons p ps)
  obtain ds1 seen1 locks1 where 1: "player_locks env False m p (ds, seen, locks) = Inr (ds1, seen1, locks1)" "set ds1 = set ds - locked_ids env p m"
  proof (cases "ds = []")
    case True
    then show ?thesis using that [of ds seen locks] by (simp add: player_locks_def)
  next
    case False
    then show ?thesis using that apply_locks_plain [of env p m "GetLockedDungeons env p m" ds seen locks]
      by (auto simp: player_locks_def locked_ids_def)
  qed
  obtain ds' seen' locks' where 2: "forE (player_locks env False m) ps (ds1, seen1, locks1) = Inr (ds', seen', locks')"
    "set ds' = set ds1 - (\<Union>g \<in> set ps. locked_ids env g m)" using Cons.IH by blast
  show ?case using 1 2 by auto
qed simp

lemma compatible_plain:
  "\<exists>ds locks. GetCompatibleDungeons env False wanted ps m = Inr (ds, locks) \<and> set ds = set wanted - (\<Union>g \<in> set ps. locked_ids env g m)"
  using players_plain [of env m ps wanted "[]" "[]"] by (auto simp: GetCompatibleDungeons_def)

section \<open>Joining alone\<close>

lemma read_joining [simp]:
  "GetLfgState x (SetTicket g t m) = GetLfgState x m" "GetLfgState x (SetSelectedDungeons g ds m) = GetLfgState x m"
  "GetRoles x (SetTicket g t m) = GetRoles x m" "GetRoles x (SetSelectedDungeons g ds m) = GetRoles x m"
  "GetSelectedDungeons x (SetTicket g t m) = GetSelectedDungeons x m" "GetSelectedDungeons x (Lfg_Manager.SetRoles g r m) = GetSelectedDungeons x m"
  "GetSelectedDungeons x (SetSelectedDungeons g ds m) = (if x = g then ds else GetSelectedDungeons x m)"
  by (simp_all add: GetLfgState_def GetRoles_def GetSelectedDungeons_def SetTicket_def SetSelectedDungeons_def SetRoles_def on_player_def)

lemma selected_SetState: "GetSelectedDungeons x (SetState g s m) =
    (if x = g \<and> \<not> IsParty g \<and> s \<in> {LFG_STATE_NONE, LFG_STATE_FINISHED_DUNGEON} then [] else GetSelectedDungeons x m)"
  by (auto simp: GetSelectedDungeons_def SetState_def on_group_def on_player_def set_group_state_def set_player_state_def Let_def)

text \<open>C15: what a player is queued for. For a player who is in no group and not queued yet, whose status allows to join and whose
  choice is well-formed, the request goes through; let the dungeons wanted be those chosen, or all of the group of a
  random dungeon that was chosen, without those that are locked for the player. If there is one, the player is
  queued for exactly these with the roles given, at the end of the new entries; otherwise state and queues are unchanged.\<close>

theorem joining_alone:
  assumes "\<not> IsParty g" "GetLfgState g m \<noteq> LFG_STATE_QUEUED" "dungeons \<noteq> []" "fst (may_join env g None dungeons) = LFG_JOIN_OK"
    and "ss_result (scan_slots m dungeons) = LFG_JOIN_OK" "\<not> ss_isRaid (scan_slots m dungeons)"
    and "r = ss_random (scan_slots m dungeons)" "free = set (if r \<noteq> 0 then GetDungeonsByRandom r m else dungeons) - locked_ids env g m"
    and "om_wf (QueuesStore m)" "om_wf (QueueDataStore (queue_at (GetQueueId g m) m))"
  shows "\<exists>m'. JoinLfg env g None roles dungeons m = Inr m' \<and>
    (if free = {} then GetLfgState g m' = GetLfgState g m \<and> QueuesStore m' = QueuesStore m
     else GetLfgState g m' = LFG_STATE_QUEUED \<and> GetRoles g m' = roles \<and>
       (\<exists>ds. set ds = free \<and> GetSelectedDungeons g m' = (if r \<noteq> 0 then [r] else ds) \<and>
          queued_as (queue_at (GetQueueId g m) m) g (mg_time env) ds [(g, roles)] (queue_at (GetQueueId g m) m')))"
proof -
  have alone: "may_join env g None dungeons = (LFG_JOIN_OK, [g])"
    using assms(4) by (auto simp: may_join_def split: if_splits)
  define wanted where "wanted = (if r \<noteq> 0 then GetDungeonsByRandom r m else dungeons)"
  obtain ds locks where ds: "GetCompatibleDungeons env False wanted [g] m = Inr (ds, locks)" "set ds = free"
    using compatible_plain [of env wanted "[g]" m] assms(8) by (auto simp: wanted_def)
  define jc where "jc = \<lparr>jc_result = (if ds = [] then LFG_JOIN_NO_SLOTS_PLAYER else LFG_JOIN_OK), jc_dungeons = ds, jc_random = r,
    jc_isRaid = False, jc_locks = locks\<rparr>"
  have jc: "check_join env g None False dungeons m = Inr jc"
    using assms(5,6) ds(1) by (cases "r = 0") (simp_all add: check_join_def alone assms(7) [symmetric] wanted_def jc_def Let_def)
  show ?thesis
  proof (cases "ds = []")
    case True
    then have "JoinLfg env g None roles dungeons m = Inr (note_effect (SendJoinResult g LFG_JOIN_NO_SLOTS_PLAYER LFG_ROLECHECK_DEFAULT locks) m)"
      using assms(2,3) jc by (simp add: JoinLfg_def continues_def Let_def jc_def)
    moreover have "free = {}" using True ds(2) by simp
    ultimately show ?thesis by (simp add: note_effect_def GetLfgState_def)
  next
    case False
    define q where "q = GetQueueId g m"
    obtain t where j: "JoinLfg env g None roles dungeons m = Inr (queue_player env g roles False t jc m)"
      using assms(2,3) jc False by (auto simp: JoinLfg_def continues_def Let_def jc_def)
    let ?m = "queue_player env g roles False t jc m"
    have "GetLfgState g ?m = LFG_STATE_QUEUED" "GetRoles g ?m = roles" "GetSelectedDungeons g ?m = (if r \<noteq> 0 then [r] else ds)"
      using assms(1) by (simp_all add: queue_player_def Let_def jc_def roles_SetState selected_SetState)
    moreover have "QueuesStore ?m = QueuesStore (on_queue q (AddQueueData g (mg_time env) ds [(g, roles)]) m)"
      by (simp add: queue_player_def Let_def jc_def q_def note_effect_def SetState_def SetRoles_def SetTicket_def SetSelectedDungeons_def
          on_player_def on_group_def)
    then have "queue_at q ?m = AddQueueData g (mg_time env) ds [(g, roles)] (queue_at q m)"
      using queue_at_same queue_at_on_queue [OF assms(9), of q q] by metis
    moreover have "free \<noteq> {}" using False ds(2) by auto
    ultimately show ?thesis
      using j ds(2) AddQueueData_queued [OF assms(10)] by (intro exI [of _ ?m]) (simp add: q_def, blast)
  qed
qed

section \<open>Requests that are refused\<close>

lemma GetQueueId_plain: "\<not> IsParty g \<Longrightarrow> GetQueueId g m = GetTeam g m"
  by (simp add: GetQueueId_def)

lemma queue_without:
  "wishes (RemoveFromQueue g q) g = None" "g \<notin> set (newToQueueStore (RemoveFromQueue g q)) \<union> set (currentQueueStore (RemoveFromQueue g q))"
  using RemoveFromQueue_all [of "[g]" q] by simp_all

text \<open>C37: a refused second request. When a queued player asks again and may not join any more, the entry leaves the queue but the player
  keeps the state of a queued player: no search finds the player, who is not told that the place is lost.\<close>

theorem refused_rejoin_stays_queued:
  assumes "\<not> IsParty g" "GetLfgState g m = LFG_STATE_QUEUED" "dungeons \<noteq> []" "fst (may_join env g None dungeons) \<noteq> LFG_JOIN_OK" "om_wf (QueuesStore m)"
  shows "\<exists>m' q. JoinLfg env g None roles dungeons m = Inr m' \<and> q = queue_at (GetQueueId g m) m' \<and> GetLfgState g m' = LFG_STATE_QUEUED \<and>
    wishes q g = None \<and> g \<notin> set (newToQueueStore q) \<union> set (currentQueueStore q) \<and>
    lfg_out m' = lfg_out m @ [SendJoinResult g (fst (may_join env g None dungeons)) LFG_ROLECHECK_DEFAULT []]"
proof -
  define m1 where "m1 = on_queue (GetQueueId g m) (RemoveFromQueue g) m"
  have "JoinLfg env g None roles dungeons m =
      Inr (note_effect (SendJoinResult g (fst (may_join env g None dungeons)) LFG_ROLECHECK_DEFAULT []) m1)"
    using assms(2-4) by (cases "may_join env g None dungeons") (simp add: JoinLfg_def continues_def check_join_def Let_def m1_def)
  moreover have "queue_at (GetQueueId g m) (note_effect e m1) = RemoveFromQueue g (queue_at (GetQueueId g m) m)" for e
    using queue_at_on_queue [OF assms(5)] by (simp add: m1_def note_effect_def queue_at_def)
  moreover have "GetLfgState g m1 = LFG_STATE_QUEUED" "lfg_out m1 = lfg_out m" using assms(2) by (simp_all add: m1_def)
  ultimately show ?thesis using queue_without by simp
qed

section \<open>Leaving for others\<close>

text \<open>Leaving for others. The request to leave names the player or group that leaves; it is not compared with the sender when
  the sender has no group. So any player without a group takes any queued single player out of the queue.\<close>

theorem leave_names_anyone:
  assumes "party_of g w = None" "\<not> IsParty other" "GetLfgState other (lw_mgr w) = LFG_STATE_QUEUED" "IsEmpty (GetGroup other (lw_mgr w))"
    and "om_wf (QueuesStore (lw_mgr w))"
  shows "\<exists>w' q. HandleLfgLeaveOpcode env g other w = Inr w' \<and> q = queue_at (GetQueueId other (lw_mgr w)) (lw_mgr w') \<and>
    GetLfgState other (lw_mgr w') = LFG_STATE_NONE \<and> wishes q other = None \<and> other \<notin> set (newToQueueStore q) \<union> set (currentQueueStore q)"
proof -
  define m1 where "m1 = SetState other LFG_STATE_NONE (tell env other (SendUpdateStatus other LFG_UPDATETYPE_REMOVED_FROM_QUEUE LFG_STATE_NONE [] False)
    (on_queue (GetQueueId other (lw_mgr w)) (RemoveFromQueue other) (lw_mgr w)))"
  have "HandleLfgLeaveOpcode env g other w = Inr (w\<lparr>lw_mgr := m1\<rparr>)"
    using assms(1-4) by (simp add: HandleLfgLeaveOpcode_def LeaveLfg_def leave_queue_def Let_def m1_def)
  moreover have "QueuesStore m1 = QueuesStore (on_queue (GetQueueId other (lw_mgr w)) (RemoveFromQueue other) (lw_mgr w))"
    by (simp add: m1_def data_only_fields [OF data_only_SetState] data_only_fields [OF data_only_tell])
  then have "queue_at (GetQueueId other (lw_mgr w)) m1 = RemoveFromQueue other (queue_at (GetQueueId other (lw_mgr w)) (lw_mgr w))"
    using queue_at_same queue_at_on_queue [OF assms(5)] by metis
  moreover have "GetLfgState other m1 = LFG_STATE_NONE" by (simp add: m1_def)
  ultimately show ?thesis using queue_without by simp
qed

section \<open>Examples\<close>

definition one_dungeon :: lfg_mgr where
  "one_dungeon = (LFGMgr 1)\<lparr>LfgDungeonStore := [(7, a_dungeon)], CachedDungeonMapStore := (\<lambda>_. [])(0 := [7], 1 := [7])\<rparr>"

definition queued_player :: lfg_mgr where
  "queued_player = one_dungeon\<lparr>PlayersStore := (\<lambda>_. LfgPlayerData)(ObjectGuid 0 1 := LfgPlayerData\<lparr>pd_state := LFG_STATE_QUEUED, pd_selected := [7]\<rparr>),
     QueuesStore := [(0, AddQueueData (ObjectGuid 0 1) 50 [7] [(ObjectGuid 0 1, 8)] empty_queue)]\<rparr>"

lemma no_locks: "locked_ids (still_env now) g one_dungeon = {}"
  by (simp add: locked_ids_def GetLockedDungeons_def GetDungeonsByRandom_def GetLFGDungeon_def one_dungeon_def a_dungeon_def lock_dungeon_def
      lock_status_def still_env_def LFGMgr_def)

theorem joining_alone_witness:
  "\<exists>m'. JoinLfg (still_env 100) (ObjectGuid 0 1) None 8 [7] one_dungeon = Inr m' \<and> GetLfgState (ObjectGuid 0 1) m' = LFG_STATE_QUEUED \<and>
     newToQueueStore (queue_at 0 m') = [ObjectGuid 0 1]"
proof -
  have 1: "fst (may_join (still_env 100) (ObjectGuid 0 1) None [7]) = LFG_JOIN_OK" by (simp add: may_join_def still_env_def)
  have 2: "scan_slots one_dungeon [7] = \<lparr>ss_result = LFG_JOIN_OK, ss_random = 0, ss_isDungeon = True, ss_isRaid = False\<rparr>"
    by (simp add: scan_slots_def scan_slot_def GetDungeonType_def GetLFGDungeon_def one_dungeon_def a_dungeon_def lfg_type_defs)
  have 3: "\<not> IsParty (ObjectGuid 0 1)" "GetLfgState (ObjectGuid 0 1) one_dungeon \<noteq> LFG_STATE_QUEUED" "GetQueueId (ObjectGuid 0 1) one_dungeon = 0"
    "om_wf (QueuesStore one_dungeon)" "queue_at 0 one_dungeon = empty_queue"
    by (simp_all add: one_dungeon_def LFGMgr_def GetLfgState_def LfgPlayerData_def GetQueueId_def GetTeam_def queue_at_def)
  have 4: "{7} = set (if (0 :: uint32) \<noteq> 0 then GetDungeonsByRandom 0 one_dungeon else [7]) - locked_ids (still_env 100) (ObjectGuid 0 1) one_dungeon"
    by (simp add: no_locks)
  show ?thesis
    using joining_alone [OF 3(1,2) _ 1 _ _ _ 4, where roles = 8] 2 3(3-5) by (simp add: queued_as_def empty_queue_def) blast
qed

text \<open>A queued player who deserted in the meantime asks again.\<close>

theorem refused_rejoin_stays_queued_witness:
  "\<exists>m'. JoinLfg ((still_env 100)\<lparr>mg_aura := (\<lambda>g a. a = LFG_SPELL_DUNGEON_DESERTER)\<rparr>) (ObjectGuid 0 1) None 8 [7] queued_player = Inr m' \<and>
     GetLfgState (ObjectGuid 0 1) m' = LFG_STATE_QUEUED \<and> wishes (queue_at 0 m') (ObjectGuid 0 1) = None"
proof -
  have 1: "fst (may_join ((still_env 100)\<lparr>mg_aura := (\<lambda>g a. a = LFG_SPELL_DUNGEON_DESERTER)\<rparr>) (ObjectGuid 0 1) None [7]) \<noteq> LFG_JOIN_OK"
    by (simp add: may_join_def still_env_def)
  have 2: "\<not> IsParty (ObjectGuid 0 1)" "GetLfgState (ObjectGuid 0 1) queued_player = LFG_STATE_QUEUED" "GetQueueId (ObjectGuid 0 1) queued_player = 0"
    "om_wf (QueuesStore queued_player)"
    by (simp_all add: queued_player_def GetLfgState_def GetQueueId_def GetTeam_def LfgPlayerData_def)
  show ?thesis using refused_rejoin_stays_queued [OF 2(1,2) _ 1 2(4)] 2(3) by force
qed

theorem leave_names_anyone_witness:
  "\<exists>w'. HandleLfgLeaveOpcode (still_env 100) (ObjectGuid 0 9) (ObjectGuid 0 1) (world_of queued_player) = Inr w' \<and>
     GetLfgState (ObjectGuid 0 1) (lw_mgr w') = LFG_STATE_NONE"
proof -
  have 1: "party_of (ObjectGuid 0 9) (world_of queued_player) = None" by (simp add: party_of_def GroupOf_def world_of_def)
  have 2: "\<not> IsParty (ObjectGuid 0 1)" "GetLfgState (ObjectGuid 0 1) (lw_mgr (world_of queued_player)) = LFG_STATE_QUEUED"
    "IsEmpty (GetGroup (ObjectGuid 0 1) (lw_mgr (world_of queued_player)))" "om_wf (QueuesStore (lw_mgr (world_of queued_player)))"
    by (simp_all add: world_of_def queued_player_def GetLfgState_def GetGroup_def LfgPlayerData_def GuidEmpty_def)
  show ?thesis using leave_names_anyone [OF 1 2] by blast
qed

end
