(* ===== verification/Lfg_Rewards.thy ===== *)
theory Lfg_Rewards
  imports Lfg_Outcomes
begin

text \<open>
  The end of a dungeon (\<^verbatim>\<open>LFGMgr::FinishDungeon\<close> in \<^verbatim>\<open>src/src/server/game/DungeonFinding/LFGMgr.cpp\<close>): every member of the group is
  rewarded at most once, however often and for whichever dungeon the end is reported.
\<close>

definition rewards :: "ObjectGuid \<Rightarrow> lfg_mgr \<Rightarrow> nat" where
  "rewards p m = length (filter (\<lambda>e. case e of RewardQuest x q \<Rightarrow> x = p | _ \<Rightarrow> False) (lfg_out m))"

lemma rewards_simps [simp]:
  "rewards p (SetState g s m) = rewards p m"
  "rewards p (note_effect e m) = rewards p m + (case e of RewardQuest x q \<Rightarrow> if x = p then 1 else 0 | _ \<Rightarrow> 0)"
  by (auto simp: rewards_def SetState_def on_group_def on_player_def note_effect_def split: lfg_effect.split)

lemma give_step:
  "GetLfgState y (give_reward env gg x d rw m) = GetLfgState y m" "rewards p (give_reward env gg x d rw m) \<le> rewards p m + (if x = p then 1 else 0)"
  by (simp_all add: give_reward_def Let_def)

lemma reward_step:
  "GetLfgState y (reward_player env gg d x m) = (if y = x then LFG_STATE_FINISHED_DUNGEON else GetLfgState y m)"
  "rewards p (reward_player env gg d x m) \<le> rewards p m + (if x = p \<and> GetLfgState p m \<noteq> LFG_STATE_FINISHED_DUNGEON then 1 else 0)"
proof -
  let ?ok = "\<lambda>m'. GetLfgState y m' = (if y = x then LFG_STATE_FINISHED_DUNGEON else GetLfgState y m) \<and>
    rewards p m' \<le> rewards p m + (if x = p \<and> GetLfgState p m \<noteq> LFG_STATE_FINISHED_DUNGEON then 1 else 0)"
  let ?m = "SetState x LFG_STATE_FINISHED_DUNGEON m"
  have given: "?ok (give_reward env gg x e rw m2)" if "GetLfgState x m \<noteq> LFG_STATE_FINISHED_DUNGEON" "m2 = ?m \<or> m2 = note_effect (UseLfdCriteria x) ?m" for e rw m2
    using give_step [of y env gg x e rw m2] give_step(2) [of p env gg x e rw m2] that by (auto split: if_splits)
  have "?ok (reward_player env gg d x m)"
  proof (cases "GetLfgState x m = LFG_STATE_FINISHED_DUNGEON")
    case True
    then show ?thesis by (simp add: reward_player_def)
  next
    case False
    obtain i where i: "(case GetSelectedDungeons x m of [] \<Rightarrow> 0 | i # _ \<Rightarrow> i) = i" by blast
    have "reward_player env gg d x m \<in> {?m, note_effect (UseLfdCriteria x) ?m} \<or>
        (\<exists>e rw m2. reward_player env gg d x m = give_reward env gg x e rw m2 \<and> m2 \<in> {?m, note_effect (UseLfdCriteria x) ?m})"
      using False by (auto simp: reward_player_def i Let_def split: option.splits)
    then show ?thesis using given [OF False] by auto
  qed
  then show "GetLfgState y (reward_player env gg d x m) = (if y = x then LFG_STATE_FINISHED_DUNGEON else GetLfgState y m)"
    "rewards p (reward_player env gg d x m) \<le> rewards p m + (if x = p \<and> GetLfgState p m \<noteq> LFG_STATE_FINISHED_DUNGEON then 1 else 0)" by auto
qed

lemma reward_steps:
  "(\<forall>y. GetLfgState y (fold (reward_player env gg d) ps m) = (if y \<in> set ps then LFG_STATE_FINISHED_DUNGEON else GetLfgState y m)) \<and>
   rewards p (fold (reward_player env gg d) ps m) \<le> rewards p m + (if GetLfgState p m \<noteq> LFG_STATE_FINISHED_DUNGEON then 1 else 0)"
proof (induction ps arbitrary: m)
  case (Cons x ps)
  let ?m = "reward_player env gg d x m"
  have "rewards p (fold (reward_player env gg d) ps ?m) \<le> rewards p ?m + (if GetLfgState p ?m \<noteq> LFG_STATE_FINISHED_DUNGEON then 1 else 0)"
    using Cons.IH by blast
  also have "\<dots> \<le> rewards p m + (if GetLfgState p m \<noteq> LFG_STATE_FINISHED_DUNGEON then 1 else 0)"
    using reward_step(2) [of p env gg d x m] reward_step(1) [of p env gg d x m] by (auto split: if_splits)
  finally show ?case using Cons.IH [of ?m] reward_step(1) [of _ env gg d x m] by auto
qed simp

text \<open>C35: at most one reward. When the dungeon of a group is reported as finished for the first time, the group and all its members
  are marked, each player is given at most one quest, and none who was marked before; and every later report, for
  whatever dungeon, changes nothing.\<close>

theorem finished_dungeon_rewards_once:
  assumes "GetDungeon gg m = d" "GetLfgState gg m \<noteq> LFG_STATE_FINISHED_DUNGEON" "m' = FinishDungeon env gg d m"
  shows "GetLfgState gg m' = LFG_STATE_FINISHED_DUNGEON \<and> (\<forall>p \<in> set (GetPlayers gg m). GetLfgState p m' = LFG_STATE_FINISHED_DUNGEON) \<and>
    (\<forall>p. rewards p m' \<le> rewards p m + (if GetLfgState p m = LFG_STATE_FINISHED_DUNGEON then 0 else 1)) \<and>
    (\<forall>env' d'. FinishDungeon env' gg d' m' = m')"
proof -
  define m1 where "m1 = SetState gg LFG_STATE_FINISHED_DUNGEON m"
  have same: "GetPlayers gg m1 = GetPlayers gg m"
    by (simp add: m1_def GetPlayers_def SetState_def on_group_def on_player_def set_group_state_def Let_def)
  have m': "m' = fold (reward_player env gg d) (GetPlayers gg m) m1"
    using assms(1,2) by (simp add: assms(3) FinishDungeon_def Let_def m1_def [symmetric] same)
  have s1: "GetLfgState y m1 = (if y = gg then LFG_STATE_FINISHED_DUNGEON else GetLfgState y m)" "rewards y m1 = rewards y m" for y
    by (simp_all add: m1_def)
  have st: "GetLfgState y m' = (if y \<in> set (GetPlayers gg m) then LFG_STATE_FINISHED_DUNGEON else GetLfgState y m1)" for y
    using reward_steps unfolding m' by blast
  have "rewards p m' \<le> rewards p m + (if GetLfgState p m = LFG_STATE_FINISHED_DUNGEON then 0 else 1)" for p
    using reward_steps [of env gg d "GetPlayers gg m" m1 p] unfolding m' s1 by (auto split: if_splits)
  moreover have "FinishDungeon env' gg d' m' = m'" for env' d'
    using st [of gg] by (simp add: FinishDungeon_def s1)
  ultimately show ?thesis using st s1 by simp
qed

text \<open>Two players in a dungeon.\<close>

definition inside :: lfg_mgr where
  "inside = (LFGMgr 1)\<lparr>GroupsStore := (\<lambda>_. LfgGroupData\<lparr>gd_state := LFG_STATE_DUNGEON, gd_players := [ObjectGuid 0 1, ObjectGuid 0 2], gd_dungeon := 0x01000007\<rparr>)\<rparr>"

theorem finished_dungeon_rewards_once_witness:
  "GetLfgState (ObjectGuid 0 2) (FinishDungeon (still_env 100) a_party 7 inside) = LFG_STATE_FINISHED_DUNGEON \<and>
     FinishDungeon (still_env 200) a_party 8 (FinishDungeon (still_env 100) a_party 7 inside) = FinishDungeon (still_env 100) a_party 7 inside"
proof -
  have 1: "GetDungeon a_party inside = 7" "GetLfgState a_party inside \<noteq> LFG_STATE_FINISHED_DUNGEON" "ObjectGuid 0 2 \<in> set (GetPlayers a_party inside)"
    by (simp_all add: inside_def GetDungeon_def GetLfgState_def GetPlayers_def)
  show ?thesis using finished_dungeon_rewards_once [OF 1(1,2) refl, of "still_env 100"] 1(3) by blast
qed

end
