(* ===== verification/Single_Float.thy ===== *)
theory Single_Float
  imports Complex_Main "HOL-Library.Log_Nat" Prelude
begin

text \<open>
  The single-precision arithmetic the server computes rates and spill-over shares with: a finite
  \<^verbatim>\<open>float\<close> is the rational number it denotes, infinities and NaN are kept apart as one further value,
  and every operation rounds its exact result to the nearest representable number, ties to even. The
  conversion to \<^verbatim>\<open>int32\<close> truncates; outside the range of the target the C++ standard leaves it
  undefined, which is an error value here, as are the overflow of signed addition, a failed assertion and
  an access behind the end of an array.
\<close>

named_theorems float_simps \<open>exact results of single-precision operations\<close>

type_synonym single = "rat option"

section \<open>Rounding\<close>

definition pow2 :: "int \<Rightarrow> rat" where
  "pow2 e = (if 0 \<le> e then 2 ^ nat e else 1 / 2 ^ nat (- e))"

text \<open>The exponent of the leading binary digit of a positive number.\<close>

definition ilog2 :: "rat \<Rightarrow> int" where
  "ilog2 x = (case quotient_of x of (p, q) \<Rightarrow>
     let e = bitlen p - bitlen q in if x < pow2 e then e - 1 else e)"

definition round_even :: "rat \<Rightarrow> int" where
  "round_even x = (let f = \<lfloor>x\<rfloor>; d = x - of_int f in
     if d < 1 / 2 then f else if 1 / 2 < d then f + 1 else if even f then f else f + 1)"

definition rnd :: "rat \<Rightarrow> rat" where
  "rnd x = (if x = 0 then 0 else
     let e = max (ilog2 \<bar>x\<bar> - 23) (- 149) in of_int (round_even (x / pow2 e)) * pow2 e)"

definition to_single :: "rat \<Rightarrow> single" where
  "to_single x = (if pow2 128 \<le> \<bar>rnd x\<bar> then None else Some (rnd x))"

section \<open>Operations\<close>

definition f_lift2 :: "(rat \<Rightarrow> rat \<Rightarrow> rat) \<Rightarrow> single \<Rightarrow> single \<Rightarrow> single" where
  "f_lift2 f a b = (case (a, b) of (Some x, Some y) \<Rightarrow> to_single (f x y) | _ \<Rightarrow> None)"

abbreviation f_mul :: "single \<Rightarrow> single \<Rightarrow> single" where
  "f_mul \<equiv> f_lift2 (*)"

abbreviation f_add :: "single \<Rightarrow> single \<Rightarrow> single" where
  "f_add \<equiv> f_lift2 (+)"

definition f_of_int :: "int \<Rightarrow> single" where
  "f_of_int i = to_single (of_int i)"

definition f_floor :: "single \<Rightarrow> single" where
  "f_floor a = map_option (\<lambda>x. of_int \<lfloor>x\<rfloor>) a"

definition chk32 :: "int \<Rightarrow> fault + int" where
  "chk32 i = (if - (2 ^ 31) \<le> i \<and> i < 2 ^ 31 then Inr i else Inl SignedOverflow)"

definition truncate :: "rat \<Rightarrow> int" where
  "truncate x = (if 0 \<le> x then \<lfloor>x\<rfloor> else \<lceil>x\<rceil>)"

definition int32_of_single :: "single \<Rightarrow> fault + int" where
  "int32_of_single a = (case a of None \<Rightarrow> Inl FloatCast
     | Some x \<Rightarrow> if - (2 ^ 31) \<le> truncate x \<and> truncate x < 2 ^ 31 then Inr (truncate x) else Inl FloatCast)"

section \<open>Small numbers are exact\<close>

lemma pow2_pos [simp]: "0 < pow2 e"
  by (simp add: pow2_def)

lemma pow2_nz [simp]: "pow2 e \<noteq> 0"
  using pow2_pos [of e] by linarith

lemma abs_pow2 [simp]: "\<bar>pow2 e\<bar> = pow2 e"
  using pow2_pos [of e] by linarith

lemma pow2_powi: "pow2 e = 2 powi e"
  by (simp add: pow2_def power_int_def power_one_over inverse_eq_divide)

lemma pow2_add: "pow2 (a + b) = pow2 a * pow2 b"
  by (simp add: pow2_powi power_int_add)

lemma pow2_mono: "a \<le> b \<Longrightarrow> pow2 a \<le> pow2 b"
  by (simp add: pow2_powi power_int_increasing)

lemma pow2_less_cancel: "pow2 a < pow2 b \<Longrightarrow> a < b"
  using pow2_mono [of b a] by (meson linorder_not_le)

lemma ilog2_le: "0 < x \<Longrightarrow> pow2 (ilog2 x) \<le> x"
proof -
  assume x: "0 < x"
  obtain p q where pq: "quotient_of x = (p, q)" by force
  with x have q: "q > 0" and xq: "x = of_int p / of_int q"
    by (auto simp: quotient_of_denom_pos quotient_of_div)
  with x have p: "p > 0" by (simp add: zero_less_divide_iff)
  let ?e = "bitlen p - bitlen q"
  have bp: "bitlen p \<ge> 1" "bitlen q \<ge> 1" using p q by (auto simp: bitlen_alt_def)
  have "2 ^ nat (bitlen p - 1) \<le> p" using bitlen_bounds [OF p] by simp
  then have "(of_int (2 ^ nat (bitlen p - 1)) :: rat) \<le> of_int p" by (simp only: of_int_le_iff)
  then have P: "pow2 (bitlen p - 1) \<le> of_int p" using bp by (simp add: pow2_def)
  have "q < 2 ^ nat (bitlen q)" using bitlen_bounds [OF q] by simp
  then have "(of_int q :: rat) < of_int (2 ^ nat (bitlen q))" by (simp only: of_int_less_iff)
  then have Q: "of_int q < pow2 (bitlen q)" using bp by (simp add: pow2_def)
  have "pow2 (?e - 1) * of_int q \<le> pow2 (?e - 1) * pow2 (bitlen q)" using Q by simp
  also have "\<dots> = pow2 (bitlen p - 1)" by (simp flip: pow2_add)
  finally have "pow2 (?e - 1) \<le> x" using P q by (simp add: xq field_simps)
  then show ?thesis by (simp add: ilog2_def pq Let_def)
qed

lemma round_even_int [simp]: "round_even (of_int k) = k"
  by (simp add: round_even_def Let_def)

text \<open>A multiple of a power of two with at most 24 significant digits is representable.\<close>

lemma rnd_exact:
  assumes k: "\<bar>k\<bar> < 2 ^ 24" and e: "- 149 \<le> e" and x: "x = of_int k * pow2 e"
  shows "rnd x = x"
proof (cases "k = 0")
  case False
  let ?e = "max (ilog2 \<bar>x\<bar> - 23) (- 149)"
  have ax: "\<bar>x\<bar> = of_int \<bar>k\<bar> * pow2 e" by (simp add: x abs_mult)
  have "0 < \<bar>x\<bar>" using False by (simp add: x)
  then have "pow2 (ilog2 \<bar>x\<bar>) \<le> \<bar>x\<bar>" by (rule ilog2_le)
  also have "(of_int \<bar>k\<bar> :: rat) < of_int (2 ^ 24)" using k by (simp only: of_int_less_iff)
  then have "of_int \<bar>k\<bar> < pow2 24" by (simp add: pow2_def)
  then have "\<bar>x\<bar> < pow2 24 * pow2 e" unfolding ax by simp
  finally have "ilog2 \<bar>x\<bar> < 24 + e" by (intro pow2_less_cancel) (simp add: pow2_add)
  with e have le: "?e \<le> e" by simp
  have "x / pow2 ?e = of_int k * pow2 (e - ?e)" by (simp add: x field_simps flip: pow2_add)
  also have "\<dots> = of_int (k * 2 ^ nat (e - ?e))" using le by (simp add: pow2_def)
  finally have "of_int (round_even (x / pow2 ?e)) * pow2 ?e = x" by (metis nonzero_divide_eq_eq pow2_nz round_even_int)
  then show ?thesis by (simp add: rnd_def Let_def)
qed (simp add: x rnd_def)

lemma to_single_exact:
  assumes "\<bar>k\<bar> < 2 ^ 24" "- 149 \<le> e" "e \<le> 0" and x: "x = of_int k * pow2 e"
  shows "to_single x = Some x"
proof -
  have "(of_int \<bar>k\<bar> :: rat) < of_int (2 ^ 24)" using assms(1) by (simp only: of_int_less_iff)
  then have "\<bar>x\<bar> < 2 ^ 24 * pow2 e" by (simp add: x abs_mult)
  also have "\<dots> \<le> 2 ^ 24 * pow2 0" using assms pow2_mono by simp
  also have "\<dots> < pow2 128" by (simp add: pow2_def)
  finally show ?thesis using rnd_exact [OF assms(1,2,4)] by (simp add: to_single_def)
qed

lemma to_single_int [float_simps]: "\<bar>k\<bar> < 2 ^ 24 \<Longrightarrow> to_single (of_int k) = Some (of_int k)"
  using to_single_exact [of k 0] by (simp add: pow2_def)

lemma to_single_half [float_simps]: "\<bar>k\<bar> < 2 ^ 24 \<Longrightarrow> to_single (of_int k / 2) = Some (of_int k / 2)"
  using to_single_exact [of k "- 1"] by (simp add: pow2_def)

lemma f_of_int_exact [float_simps]: "\<bar>k\<bar> < 2 ^ 24 \<Longrightarrow> f_of_int k = Some (of_int k)"
  by (simp add: f_of_int_def to_single_int)

lemma truncate_of_int [simp]: "truncate (of_int k) = k"
  by (simp add: truncate_def)

lemma int32_of_single_bounds: "int32_of_single a = Inr i \<Longrightarrow> - (2 ^ 31) \<le> i \<and> i < 2 ^ 31"
  by (auto simp: int32_of_single_def split: option.splits if_splits)

lemma int32_of_single_int [float_simps]: "- (2 ^ 31) \<le> k \<Longrightarrow> k < 2 ^ 31 \<Longrightarrow> int32_of_single (Some (of_int k)) = Inr k"
  by (simp add: int32_of_single_def)

lemma chk32_ok [simp]: "- (2 ^ 31) \<le> i \<Longrightarrow> i < 2 ^ 31 \<Longrightarrow> chk32 i = Inr i"
  by (simp add: chk32_def)

lemma chk32_eq_Inr: "chk32 i = Inr j \<longleftrightarrow> j = i \<and> - (2 ^ 31) \<le> i \<and> i < 2 ^ 31"
  by (auto simp: chk32_def)

text \<open>
  The rounding of \<^verbatim>\<open>int32(floor((float)n * rate + 0.5f))\<close> loses nothing at rate one for numbers of
  at most 22 binary digits.
\<close>

definition rate_rounded :: "single \<Rightarrow> int \<Rightarrow> fault + int" where
  "rate_rounded rate n = int32_of_single (f_floor (f_add (f_mul (f_of_int n) rate) (Some (1 / 2))))"

lemma rate_rounded_one:
  assumes "\<bar>n\<bar> < 2 ^ 22"
  shows "rate_rounded (Some 1) n = Inr n"
proof -
  have n: "f_of_int n = Some (of_int n)" and m: "f_mul (Some (of_int n)) (Some 1) = Some (of_int n)"
    using assms by (simp_all add: f_of_int_exact f_lift2_def to_single_int)
  have "to_single (of_int (2 * n + 1) / 2) = Some (of_int (2 * n + 1) / 2)"
    using assms by (intro to_single_half) simp
  moreover have "(of_int (2 * n + 1) / 2 :: rat) = of_int n + 1 / 2" by (simp add: field_simps)
  ultimately have "to_single (of_int n + 1 / 2) = Some (of_int n + 1 / 2)" by metis
  moreover have "\<lfloor>of_int n + 1 / 2 :: rat\<rfloor> = n" by linarith
  ultimately have "f_floor (f_add (Some (of_int n)) (Some (1 / 2))) = Some (of_int n)"
    by (simp add: f_lift2_def f_floor_def)
  with n m show ?thesis using assms by (simp add: rate_rounded_def int32_of_single_int)
qed

end
