(* ===== verification/Reputation.thy ===== *)
theory Reputation
  imports Prelude Single_Float
begin

text \<open>
  The reputation of a player with the factions of the world
  (\<^verbatim>\<open>src/src/server/game/Reputation/ReputationMgr.cpp\<close> and \<^verbatim>\<open>.h\<close>): standings relative to a base that
  depends on race and class, ranks, the counters of honoured, revered and exalted factions, spill-over
  to related factions, the flags a client may change, and storage in the character database. The player,
  the faction store, the tables of spill-over and the script hooks form the environment; packets and
  notifications of the player are recorded in the order in which they leave.
\<close>

section \<open>Data\<close>

type_synonym reputation_rank = nat

definition REP_HOSTILE :: reputation_rank where "REP_HOSTILE = 1"
definition REP_HONORED :: reputation_rank where "REP_HONORED = 5"
definition REP_REVERED :: reputation_rank where "REP_REVERED = 6"
definition REP_EXALTED :: reputation_rank where "REP_EXALTED = 7"
definition MAX_REPUTATION_RANK :: nat where "MAX_REPUTATION_RANK = 8"
definition MAX_SPILLOVER_FACTIONS :: nat where "MAX_SPILLOVER_FACTIONS = 5"
definition FactionCount :: nat where "FactionCount = 300"

definition FACTION_FLAG_VISIBLE :: uint8 where "FACTION_FLAG_VISIBLE = 0x01"
definition FACTION_FLAG_AT_WAR :: uint8 where "FACTION_FLAG_AT_WAR = 0x02"
definition FACTION_FLAG_HIDDEN :: uint8 where "FACTION_FLAG_HIDDEN = 0x04"
definition FACTION_FLAG_INVISIBLE_FORCED :: uint8 where "FACTION_FLAG_INVISIBLE_FORCED = 0x08"
definition FACTION_FLAG_PEACE_FORCED :: uint8 where "FACTION_FLAG_PEACE_FORCED = 0x10"
definition FACTION_FLAG_INACTIVE :: uint8 where "FACTION_FLAG_INACTIVE = 0x20"
definition FACTION_FLAG_SPECIAL :: uint8 where "FACTION_FLAG_SPECIAL = 0x80"

lemmas faction_flag_defs = FACTION_FLAG_VISIBLE_def FACTION_FLAG_AT_WAR_def FACTION_FLAG_HIDDEN_def
  FACTION_FLAG_INVISIBLE_FORCED_def FACTION_FLAG_PEACE_FORCED_def FACTION_FLAG_INACTIVE_def
  FACTION_FLAG_SPECIAL_def

record faction_entry =
  ReputationRaceMask :: "uint64 list"
  fe_ID :: uint32
  ReputationBase :: "int list"
  ParentFactionMod :: "single list"
  ReputationIndex :: int
  ReputationClassMask :: "uint16 list"
  ReputationFlags :: "uint16 list"
  ParentFactionID :: uint16
  ParentFactionCap :: "uint8 list"

record faction_template =
  ft_Faction :: uint16

record spillover_template =
  sp_faction :: "uint32 list"
  sp_faction_rate :: "single list"
  sp_faction_rank :: "uint32 list"

record faction_state =
  fs_ID :: uint32
  ReputationListID :: uint32
  Standing :: int
  Flags :: uint8
  needSend :: bool
  needSave :: bool

datatype rep_criteria = KnownFactions | GainReputation | GainExalted | GainRevered | GainHonored

datatype rep_msg =
    SetForcedReactions "(int \<times> int) list"
  | SetFactionStanding "(int \<times> int) list" bool
  | InitializeFactions "uint8 list" "int list"
  | SetFactionVisible bool uint32
  | ReputationChanged uint32
  | UpdateCriteria rep_criteria uint32

record reputation_mgr =
  factions :: "(uint32 \<times> faction_state) list"
  forcedReactions :: "(uint32 \<times> reputation_rank) list"
  visibleFactionCount :: uint8
  honoredFactionCount :: uint8
  reveredFactionCount :: uint8
  exaltedFactionCount :: uint8
  sendFactionIncreased :: bool
  rep_out :: "rep_msg list"

record rep_env =
  raceMask :: uint64
  classMask :: uint32
  playerLow :: uint64
  playerLoading :: bool
  gainRate :: single
  factionStore :: "faction_entry list"
  repSpillover :: "uint32 \<Rightarrow> spillover_template option"
  factionTeamList :: "uint32 \<Rightarrow> uint32 list option"
  onReputationChange :: "uint32 \<Rightarrow> int \<Rightarrow> bool \<Rightarrow> int"

definition CanHaveReputation :: "faction_entry \<Rightarrow> bool" where
  "CanHaveReputation fe = (0 \<le> ReputationIndex fe)"

text \<open>The conversion of the signed index to the key type of the map.\<close>

definition rep_key :: "faction_entry \<Rightarrow> uint32" where
  "rep_key fe = word_of_int (ReputationIndex fe)"

definition LookupEntry :: "rep_env \<Rightarrow> uint32 \<Rightarrow> faction_entry option" where
  "LookupEntry env i = find (\<lambda>fe. fe_ID fe = i) (factionStore env)"

definition rep_mgr_new :: reputation_mgr where
  "rep_mgr_new = \<lparr>factions = [], forcedReactions = [], visibleFactionCount = 0, honoredFactionCount = 0,
     reveredFactionCount = 0, exaltedFactionCount = 0, sendFactionIncreased = False, rep_out = []\<rparr>"

section \<open>Ranks and standings\<close>

definition PointsInRank :: "int list" where
  "PointsInRank = [36000, 3000, 3000, 3000, 6000, 12000, 21000, 1000]"

definition Reputation_Cap :: int where "Reputation_Cap = 42999"
definition Reputation_Bottom :: int where "Reputation_Bottom = - 42000"

fun rank_loop :: "int \<Rightarrow> int \<Rightarrow> nat list \<Rightarrow> reputation_rank" where
  "rank_loop standing limit [] = 0"
| "rank_loop standing limit (i # is) =
     (if limit - PointsInRank ! i \<le> standing then i else rank_loop standing (limit - PointsInRank ! i) is)"

definition ReputationToRank :: "int \<Rightarrow> reputation_rank" where
  "ReputationToRank standing = rank_loop standing (Reputation_Cap + 1) (rev [0..<MAX_REPUTATION_RANK])"

definition slot_matches :: "rep_env \<Rightarrow> faction_entry \<Rightarrow> nat \<Rightarrow> bool" where
  "slot_matches env fe i \<longleftrightarrow>
     (ReputationRaceMask fe ! i AND raceMask env \<noteq> 0 \<or>
      ReputationRaceMask fe ! i = 0 \<and> ReputationClassMask fe ! i \<noteq> 0) \<and>
     (scast (ReputationClassMask fe ! i) AND classMask env \<noteq> 0 \<or> ReputationClassMask fe ! i = 0)"

definition GetBaseReputation :: "rep_env \<Rightarrow> faction_entry option \<Rightarrow> int" where
  "GetBaseReputation env e = (case e of None \<Rightarrow> 0 | Some fe \<Rightarrow>
     (case find (slot_matches env fe) [0..<4] of None \<Rightarrow> 0 | Some i \<Rightarrow> ReputationBase fe ! i))"

definition GetDefaultStateFlags :: "rep_env \<Rightarrow> faction_entry option \<Rightarrow> uint32" where
  "GetDefaultStateFlags env e = (case e of None \<Rightarrow> 0 | Some fe \<Rightarrow>
     (case find (slot_matches env fe) [0..<4] of None \<Rightarrow> 0 | Some i \<Rightarrow> ucast (ReputationFlags fe ! i)))"

definition GetState_id :: "reputation_mgr \<Rightarrow> uint32 \<Rightarrow> faction_state option" where
  "GetState_id m i = map_of (factions m) i"

definition GetState :: "reputation_mgr \<Rightarrow> faction_entry \<Rightarrow> faction_state option" where
  "GetState m fe = (if CanHaveReputation fe then GetState_id m (rep_key fe) else None)"

definition IsAtWar :: "reputation_mgr \<Rightarrow> faction_entry option \<Rightarrow> bool" where
  "IsAtWar m e = (case e of None \<Rightarrow> False | Some fe \<Rightarrow>
     (case GetState m fe of None \<Rightarrow> False | Some st \<Rightarrow> Flags st AND FACTION_FLAG_AT_WAR \<noteq> 0))"

definition IsAtWar_id :: "rep_env \<Rightarrow> reputation_mgr \<Rightarrow> uint32 \<Rightarrow> bool" where
  "IsAtWar_id env m i = (case LookupEntry env i of None \<Rightarrow> False | Some fe \<Rightarrow> IsAtWar m (Some fe))"

definition GetReputation :: "rep_env \<Rightarrow> reputation_mgr \<Rightarrow> faction_entry option \<Rightarrow> fault + int" where
  "GetReputation env m e = (case e of None \<Rightarrow> Inr 0 | Some fe \<Rightarrow>
     (case GetState m fe of None \<Rightarrow> Inr 0 | Some st \<Rightarrow> chk32 (GetBaseReputation env (Some fe) + Standing st)))"

definition GetReputation_id :: "rep_env \<Rightarrow> reputation_mgr \<Rightarrow> uint32 \<Rightarrow> fault + int" where
  "GetReputation_id env m i = (case LookupEntry env i of None \<Rightarrow> Inr 0 | Some fe \<Rightarrow> GetReputation env m (Some fe))"

definition GetRank :: "rep_env \<Rightarrow> reputation_mgr \<Rightarrow> faction_entry option \<Rightarrow> fault + reputation_rank" where
  "GetRank env m e = res_bind (GetReputation env m e) (\<lambda>r. Inr (ReputationToRank r))"

definition GetBaseRank :: "rep_env \<Rightarrow> faction_entry option \<Rightarrow> reputation_rank" where
  "GetBaseRank env e = ReputationToRank (GetBaseReputation env e)"

definition GetReputationRank :: "rep_env \<Rightarrow> reputation_mgr \<Rightarrow> uint32 \<Rightarrow> fault + reputation_rank" where
  "GetReputationRank env m i = GetRank env m (LookupEntry env i)"

definition GetForcedRankIfAny_id :: "reputation_mgr \<Rightarrow> uint32 \<Rightarrow> reputation_rank option" where
  "GetForcedRankIfAny_id m i = map_of (forcedReactions m) i"

definition GetForcedRankIfAny :: "reputation_mgr \<Rightarrow> faction_template \<Rightarrow> reputation_rank option" where
  "GetForcedRankIfAny m ft = GetForcedRankIfAny_id m (ucast (ft_Faction ft))"

definition ApplyForceReaction :: "uint32 \<Rightarrow> reputation_rank \<Rightarrow> bool \<Rightarrow> reputation_mgr \<Rightarrow> reputation_mgr" where
  "ApplyForceReaction i rank app m =
     (if app then m\<lparr>forcedReactions := om_set i rank (forcedReactions m)\<rparr>
      else m\<lparr>forcedReactions := om_erase i (forcedReactions m)\<rparr>)"

section \<open>Messages\<close>

definition rep_send :: "rep_msg list \<Rightarrow> reputation_mgr \<Rightarrow> reputation_mgr" where
  "rep_send ms m = m\<lparr>rep_out := rep_out m @ ms\<rparr>"

definition SendForceReactions :: "reputation_mgr \<Rightarrow> reputation_mgr" where
  "SendForceReactions m = rep_send [SetForcedReactions (map (\<lambda>(f, r). (sint f, int r)) (forcedReactions m))] m"

definition clear_needSend :: "faction_state \<Rightarrow> faction_state" where
  "clear_needSend f = f\<lparr>needSend := False\<rparr>"

definition SendState :: "uint32 \<Rightarrow> reputation_mgr \<Rightarrow> reputation_mgr" where
  "SendState k m = (case map_of (factions m) k of None \<Rightarrow> m | Some faction \<Rightarrow>
     let standing_of = (\<lambda>f. (sint (ReputationListID f), Standing f));
         rest = filter (\<lambda>f. needSend f \<and> ReputationListID f \<noteq> ReputationListID faction) (map snd (factions m))
     in (rep_send [SetFactionStanding (standing_of faction # map standing_of rest) (sendFactionIncreased m)] m)
          \<lparr>factions := map (\<lambda>(k, f). (k, clear_needSend f)) (factions m), sendFactionIncreased := False\<rparr>)"

definition SendStates :: "reputation_mgr \<Rightarrow> reputation_mgr" where
  "SendStates m = fold SendState (map fst (factions m)) m"

definition put_initial :: "uint32 \<times> faction_state \<Rightarrow> uint8 list \<times> int list \<Rightarrow> fault + uint8 list \<times> int list" where
  "put_initial kf arrays = (case (kf, arrays) of ((k, f), (flags, standings)) \<Rightarrow>
     if unat k < FactionCount then Inr (flags[unat k := Flags f], standings[unat k := Standing f])
     else Inl OutOfBounds)"

definition SendInitialReputations :: "reputation_mgr \<Rightarrow> fault + reputation_mgr" where
  "SendInitialReputations m =
     res_bind (forE put_initial (factions m) (replicate FactionCount 0, replicate FactionCount 0))
       (\<lambda>(flags, standings). Inr (rep_send [InitializeFactions flags standings]
          (m\<lparr>factions := map (\<lambda>(k, f). (k, clear_needSend f)) (factions m)\<rparr>)))"

definition SendVisible :: "rep_env \<Rightarrow> faction_state \<Rightarrow> bool \<Rightarrow> reputation_mgr \<Rightarrow> reputation_mgr" where
  "SendVisible env f visible m =
     (if playerLoading env then m else rep_send [SetFactionVisible visible (ReputationListID f)] m)"

section \<open>Flags\<close>

definition mark_changed :: "uint8 \<Rightarrow> faction_state \<Rightarrow> faction_state" where
  "mark_changed flags f = f\<lparr>Flags := flags, needSend := True, needSave := True\<rparr>"

definition adjust_faction :: "uint32 \<Rightarrow> (faction_state \<Rightarrow> faction_state) \<Rightarrow> reputation_mgr \<Rightarrow> reputation_mgr" where
  "adjust_faction k g m = m\<lparr>factions := om_adjust k g (factions m)\<rparr>"

definition SetVisible_state :: "rep_env \<Rightarrow> uint32 \<Rightarrow> reputation_mgr \<Rightarrow> reputation_mgr" where
  "SetVisible_state env k m = (case map_of (factions m) k of None \<Rightarrow> m | Some faction \<Rightarrow>
     if Flags faction AND (FACTION_FLAG_INVISIBLE_FORCED OR FACTION_FLAG_HIDDEN) \<noteq> 0 \<and>
        \<not> Flags faction AND FACTION_FLAG_SPECIAL \<noteq> 0 then m
     else if Flags faction AND FACTION_FLAG_VISIBLE \<noteq> 0 then m
     else let m1 = adjust_faction k (\<lambda>f. mark_changed (Flags f OR FACTION_FLAG_VISIBLE) f) m
          in SendVisible env faction True (m1\<lparr>visibleFactionCount := visibleFactionCount m1 + 1\<rparr>))"

definition SetVisible :: "rep_env \<Rightarrow> faction_entry \<Rightarrow> reputation_mgr \<Rightarrow> reputation_mgr" where
  "SetVisible env fe m = (if \<not> CanHaveReputation fe then m else SetVisible_state env (rep_key fe) m)"

definition SetVisible_template :: "rep_env \<Rightarrow> faction_template \<Rightarrow> reputation_mgr \<Rightarrow> reputation_mgr" where
  "SetVisible_template env ft m =
     (if ft_Faction ft = 0 then m else
      case LookupEntry env (ucast (ft_Faction ft)) of None \<Rightarrow> m | Some fe \<Rightarrow>
        if \<not> (ReputationRaceMask fe ! 1 AND raceMask env \<noteq> 0 \<and> ReputationBase fe ! 1 = Reputation_Bottom)
        then SetVisible env fe m else m)"

definition war_state :: "bool \<Rightarrow> faction_state \<Rightarrow> faction_state" where
  "war_state atWar f =
     (if atWar \<and> Flags f AND FACTION_FLAG_PEACE_FORCED \<noteq> 0 then f
      else if (Flags f AND FACTION_FLAG_AT_WAR \<noteq> 0) = atWar then f
      else if atWar then mark_changed (Flags f OR FACTION_FLAG_AT_WAR) f
      else mark_changed (Flags f AND NOT FACTION_FLAG_AT_WAR) f)"

definition SetAtWar :: "uint32 \<Rightarrow> bool \<Rightarrow> reputation_mgr \<Rightarrow> reputation_mgr" where
  "SetAtWar k on m = (case map_of (factions m) k of None \<Rightarrow> m | Some f \<Rightarrow>
     if Flags f AND (FACTION_FLAG_INVISIBLE_FORCED OR FACTION_FLAG_HIDDEN) \<noteq> 0 then m
     else adjust_faction k (war_state on) m)"

definition inactive_state :: "bool \<Rightarrow> faction_state \<Rightarrow> faction_state" where
  "inactive_state inactive f =
     (if inactive \<and> (Flags f AND (FACTION_FLAG_INVISIBLE_FORCED OR FACTION_FLAG_HIDDEN) \<noteq> 0 \<or>
        \<not> Flags f AND FACTION_FLAG_VISIBLE \<noteq> 0) then f
      else if (Flags f AND FACTION_FLAG_INACTIVE \<noteq> 0) = inactive then f
      else if inactive then mark_changed (Flags f OR FACTION_FLAG_INACTIVE) f
      else mark_changed (Flags f AND NOT FACTION_FLAG_INACTIVE) f)"

definition SetInactive :: "uint32 \<Rightarrow> bool \<Rightarrow> reputation_mgr \<Rightarrow> reputation_mgr" where
  "SetInactive k on m = (case map_of (factions m) k of None \<Rightarrow> m | Some f \<Rightarrow> adjust_faction k (inactive_state on) m)"

section \<open>Changes of a standing\<close>

definition count_down :: "bool \<Rightarrow> uint8 \<Rightarrow> uint8" where
  "count_down c n = (if c then n - 1 else n)"

definition count_up :: "bool \<Rightarrow> uint8 \<Rightarrow> uint8" where
  "count_up c n = (if c then n + 1 else n)"

definition UpdateRankCounters :: "reputation_rank \<Rightarrow> reputation_rank \<Rightarrow> reputation_mgr \<Rightarrow> reputation_mgr" where
  "UpdateRankCounters old_rank new_rank m = m\<lparr>
     exaltedFactionCount := count_up (REP_EXALTED \<le> new_rank) (count_down (REP_EXALTED \<le> old_rank) (exaltedFactionCount m)),
     reveredFactionCount := count_up (REP_REVERED \<le> new_rank) (count_down (REP_REVERED \<le> old_rank) (reveredFactionCount m)),
     honoredFactionCount := count_up (REP_HONORED \<le> new_rank) (count_down (REP_HONORED \<le> old_rank) (honoredFactionCount m))\<rparr>"

definition clamp_reputation :: "int \<Rightarrow> int" where
  "clamp_reputation standing = (if Reputation_Cap < standing then Reputation_Cap
     else if standing < Reputation_Bottom then Reputation_Bottom else standing)"

definition target_standing :: "rep_env \<Rightarrow> int \<Rightarrow> faction_state \<Rightarrow> int \<Rightarrow> bool \<Rightarrow> fault + int" where
  "target_standing env BaseRep f standing incremental =
     (if incremental then
        res_bind (rate_rounded (gainRate env) standing) (\<lambda>gain.
        res_bind (chk32 (Standing f + BaseRep)) (\<lambda>current. chk32 (gain + current)))
      else Inr standing)"

definition record_standing :: "int \<Rightarrow> faction_state \<Rightarrow> faction_state" where
  "record_standing s f = f\<lparr>Standing := s, needSend := True, needSave := True\<rparr>"

definition change_notices :: "faction_entry \<Rightarrow> rep_msg list" where
  "change_notices fe = ReputationChanged (fe_ID fe) #
     map (\<lambda>c. UpdateCriteria c (fe_ID fe)) [KnownFactions, GainReputation, GainExalted, GainRevered, GainHonored]"

definition SetOneFactionReputation ::
    "rep_env \<Rightarrow> faction_entry \<Rightarrow> int \<Rightarrow> bool \<Rightarrow> reputation_mgr \<Rightarrow> fault + reputation_mgr \<times> bool" where
  "SetOneFactionReputation env fe standing incremental m =
     (let k = rep_key fe in case map_of (factions m) k of None \<Rightarrow> Inr (m, False) | Some f \<Rightarrow>
      let BaseRep = GetBaseReputation env (Some fe) in
      res_bind (target_standing env BaseRep f standing incremental) (\<lambda>raw.
      let standing = clamp_reputation raw in
      res_bind (chk32 (Standing f + BaseRep)) (\<lambda>current.
      let old_rank = ReputationToRank current; new_rank = ReputationToRank standing in
      res_bind (chk32 (standing - BaseRep)) (\<lambda>relative.
      let m1 = adjust_faction k (record_standing relative) m;
          m2 = SetVisible_state env k m1;
          m3 = (if new_rank \<le> REP_HOSTILE then adjust_faction k (war_state True) m2 else m2);
          m4 = (if old_rank < new_rank then m3\<lparr>sendFactionIncreased := True\<rparr> else m3);
          m5 = UpdateRankCounters old_rank new_rank m4
      in Inr (rep_send (change_notices fe) m5, True)))))"

section \<open>Spill-over\<close>

definition spill_one :: "rep_env \<Rightarrow> spillover_template \<Rightarrow> int \<Rightarrow> bool \<Rightarrow> nat \<Rightarrow> reputation_mgr \<Rightarrow> fault + reputation_mgr" where
  "spill_one env repTemplate standing incremental i m =
     (if sp_faction repTemplate ! i = 0 then Inr m else
      res_bind (GetReputationRank env m (sp_faction repTemplate ! i)) (\<lambda>rank.
      if rank \<le> unat (sp_faction_rank repTemplate ! i) then
        res_bind (int32_of_single (f_mul (f_of_int standing) (sp_faction_rate repTemplate ! i))) (\<lambda>spilloverRep.
        case LookupEntry env (sp_faction repTemplate ! i) of None \<Rightarrow> Inl AssertionFailed
        | Some fe \<Rightarrow> res_bind (SetOneFactionReputation env fe spilloverRep incremental m) (\<lambda>(m', _). Inr m'))
      else Inr m))"

definition spill_sister :: "rep_env \<Rightarrow> faction_entry \<Rightarrow> single \<Rightarrow> bool \<Rightarrow> uint32 \<Rightarrow>
    reputation_mgr \<times> bool \<Rightarrow> fault + reputation_mgr \<times> bool" where
  "spill_sister env fe spillOverRepOut incremental i mr = (case mr of (m, res) \<Rightarrow>
     case LookupEntry env i of None \<Rightarrow> Inr (m, res) | Some calc \<Rightarrow>
       res_bind (if fe_ID calc = fe_ID fe then Inr True
                 else res_bind (GetRank env m (Some calc)) (\<lambda>r. Inr (unat (ParentFactionCap calc ! 0) < r))) (\<lambda>skip.
       if skip then Inr (m, res) else
       res_bind (int32_of_single (f_mul spillOverRepOut (ParentFactionMod calc ! 0))) (\<lambda>spilloverRep.
       if spilloverRep \<noteq> 0 \<or> \<not> incremental then SetOneFactionReputation env calc spilloverRep incremental m
       else Inr (m, res))))"

definition spill_parent :: "rep_env \<Rightarrow> faction_entry \<Rightarrow> single \<Rightarrow> bool \<Rightarrow> reputation_mgr \<Rightarrow>
    fault + reputation_mgr \<times> uint32 list option" where
  "spill_parent env fe spillOverRepOut incremental m =
     (case LookupEntry env (ucast (ParentFactionID fe)) of None \<Rightarrow> Inr (m, None) | Some parent \<Rightarrow>
        if (case map_of (factions m) (rep_key parent) of None \<Rightarrow> False
            | Some f \<Rightarrow> Flags f AND FACTION_FLAG_SPECIAL \<noteq> 0)
        then res_bind (int32_of_single spillOverRepOut) (\<lambda>s.
             res_bind (SetOneFactionReputation env parent s incremental m) (\<lambda>(m', _). Inr (m', None)))
        else Inr (m, factionTeamList env (ucast (ParentFactionID fe))))"

definition spill_over :: "rep_env \<Rightarrow> faction_entry \<Rightarrow> int \<Rightarrow> bool \<Rightarrow> reputation_mgr \<Rightarrow> fault + reputation_mgr \<times> bool" where
  "spill_over env fe standing incremental m =
     (case repSpillover env (fe_ID fe) of
        Some repTemplate \<Rightarrow>
          res_bind (forE (spill_one env repTemplate standing incremental) [0..<MAX_SPILLOVER_FACTIONS] m) (\<lambda>m'. Inr (m', False))
      | None \<Rightarrow>
          let flist = factionTeamList env (fe_ID fe);
              up = (flist = None \<and> ParentFactionID fe \<noteq> 0 \<and> ParentFactionMod fe ! 1 \<noteq> Some 0);
              spillOverRepOut = (if up then f_mul (f_of_int standing) (ParentFactionMod fe ! 1) else f_of_int standing)
          in res_bind (if up then spill_parent env fe spillOverRepOut incremental m else Inr (m, flist)) (\<lambda>(m', flist').
             case flist' of None \<Rightarrow> Inr (m', False)
             | Some l \<Rightarrow> forE (spill_sister env fe spillOverRepOut incremental) l (m', False)))"

definition SetReputation :: "rep_env \<Rightarrow> faction_entry \<Rightarrow> int \<Rightarrow> bool \<Rightarrow> bool \<Rightarrow>
    reputation_mgr \<Rightarrow> fault + reputation_mgr \<times> bool" where
  "SetReputation env fe standing incremental noSpillover m =
     (let standing = onReputationChange env (fe_ID fe) standing incremental in
      res_bind (if noSpillover then Inr (m, False) else spill_over env fe standing incremental m) (\<lambda>(m1, res).
      if map_of (factions m1) (rep_key fe) = None then Inr (m1, res)
      else res_bind (SetOneFactionReputation env fe standing incremental m1) (\<lambda>(m2, res2).
           Inr (SendState (rep_key fe) m2, res2))))"

section \<open>Start, loading and saving\<close>

definition init_faction :: "rep_env \<Rightarrow> faction_entry \<Rightarrow> reputation_mgr \<Rightarrow> reputation_mgr" where
  "init_faction env fe m =
     (if \<not> CanHaveReputation fe then m else
      let newFaction = \<lparr>fs_ID = fe_ID fe, ReputationListID = rep_key fe, Standing = 0,
            Flags = ucast (GetDefaultStateFlags env (Some fe)), needSend = True, needSave = True\<rparr>;
          m1 = (if Flags newFaction AND FACTION_FLAG_VISIBLE \<noteq> 0
                then m\<lparr>visibleFactionCount := visibleFactionCount m + 1\<rparr> else m);
          m2 = UpdateRankCounters REP_HOSTILE (GetBaseRank env (Some fe)) m1
      in m2\<lparr>factions := om_set (ReputationListID newFaction) newFaction (factions m2)\<rparr>)"

definition Initialize :: "rep_env \<Rightarrow> reputation_mgr \<Rightarrow> reputation_mgr" where
  "Initialize env m = fold (init_faction env) (factionStore env)
     (m\<lparr>factions := [], visibleFactionCount := 0, honoredFactionCount := 0, reveredFactionCount := 0,
        exaltedFactionCount := 0, sendFactionIncreased := False\<rparr>)"

record rep_row =
  row_faction :: uint16
  row_standing :: int
  row_flags :: uint16

definition fs_default :: faction_state where
  "fs_default = \<lparr>fs_ID = 0, ReputationListID = 0, Standing = 0, Flags = 0, needSend = False, needSave = False\<rparr>"

definition settle_saved :: "uint16 \<Rightarrow> faction_state \<Rightarrow> faction_state" where
  "settle_saved dbFlags f = (if ucast (Flags f) = dbFlags then f\<lparr>needSend := False, needSave := False\<rparr> else f)"

definition has_flag :: "reputation_mgr \<Rightarrow> uint32 \<Rightarrow> uint8 \<Rightarrow> bool" where
  "has_flag m k flag = (case map_of (factions m) k of None \<Rightarrow> False | Some f \<Rightarrow> Flags f AND flag \<noteq> 0)"

definition load_flags :: "rep_env \<Rightarrow> uint32 \<Rightarrow> uint16 \<Rightarrow> reputation_mgr \<Rightarrow> reputation_mgr" where
  "load_flags env k dbFlags m =
     (let m1 = (if dbFlags AND ucast FACTION_FLAG_VISIBLE \<noteq> 0 then SetVisible_state env k m else m);
          m2 = (if dbFlags AND ucast FACTION_FLAG_INACTIVE \<noteq> 0 then adjust_faction k (inactive_state True) m1 else m1)
      in if dbFlags AND ucast FACTION_FLAG_AT_WAR \<noteq> 0 then adjust_faction k (war_state True) m2
         else if has_flag m2 k FACTION_FLAG_VISIBLE then adjust_faction k (war_state False) m2
         else m2)"

definition load_row :: "rep_env \<Rightarrow> rep_row \<Rightarrow> reputation_mgr \<Rightarrow> fault + reputation_mgr" where
  "load_row env r m = (case LookupEntry env (ucast (row_faction r)) of None \<Rightarrow> Inr m | Some fe \<Rightarrow>
     if \<not> CanHaveReputation fe then Inr m else
     let k = rep_key fe;
         m0 = (if map_of (factions m) k = None then m\<lparr>factions := om_set k fs_default (factions m)\<rparr> else m);
         m1 = adjust_faction k (\<lambda>f. f\<lparr>Standing := row_standing r\<rparr>) m0;
         BaseRep = GetBaseReputation env (Some fe)
     in res_bind (chk32 (BaseRep + row_standing r)) (\<lambda>total.
        let m2 = UpdateRankCounters (ReputationToRank BaseRep) (ReputationToRank total) m1;
            m3 = load_flags env k (row_flags r) m2
        in res_bind (GetRank env m3 (Some fe)) (\<lambda>rank.
           let m4 = (if rank \<le> REP_HOSTILE then adjust_faction k (war_state True) m3 else m3)
           in Inr (adjust_faction k (settle_saved (row_flags r)) m4))))"

definition LoadFromDB :: "rep_env \<Rightarrow> rep_row list \<Rightarrow> reputation_mgr \<Rightarrow> fault + reputation_mgr" where
  "LoadFromDB env rows m = forE (load_row env) rows (Initialize env m)"

datatype rep_stmt =
    CHAR_DEL_CHAR_REPUTATION_BY_FACTION uint64 uint16
  | CHAR_INS_CHAR_REPUTATION_BY_FACTION uint64 uint16 int uint16

definition save_stmts :: "rep_env \<Rightarrow> faction_state \<Rightarrow> rep_stmt list" where
  "save_stmts env f = (if needSave f then
     [CHAR_DEL_CHAR_REPUTATION_BY_FACTION (playerLow env) (ucast (fs_ID f)),
      CHAR_INS_CHAR_REPUTATION_BY_FACTION (playerLow env) (ucast (fs_ID f)) (Standing f) (ucast (Flags f))] else [])"

definition SaveToDB :: "rep_env \<Rightarrow> reputation_mgr \<Rightarrow> reputation_mgr \<times> rep_stmt list" where
  "SaveToDB env m =
     (m\<lparr>factions := map (\<lambda>(k, f). (k, f\<lparr>needSave := False\<rparr>)) (factions m)\<rparr>,
      concat (map (save_stmts env) (map snd (factions m))))"

end
