(* ===== verification/Reputation_Standing.thy ===== *)
theory Reputation_Standing
  imports Reputation
begin

text \<open>
  Correctness of the reputation manager: the table of ranks, the effect of a change of one standing, the
  counters of visible, honoured, revered and exalted factions along every sequence of operations, and
  the round trip through the character database.
\<close>

section \<open>Ranks\<close>

lemma rank_loop_list: "rev [0..<MAX_REPUTATION_RANK] = [7, 6, 5, 4, 3, 2, 1, 0]"
  by (simp add: MAX_REPUTATION_RANK_def upt_rec)

lemma ReputationToRank_table:
  "ReputationToRank s = (if 42000 \<le> s then 7 else if 21000 \<le> s then 6 else if 9000 \<le> s then 5
     else if 3000 \<le> s then 4 else if 0 \<le> s then 3 else if - 3000 \<le> s then 2 else if - 6000 \<le> s then 1 else 0)"
  by (simp add: ReputationToRank_def rank_loop_list PointsInRank_def Reputation_Cap_def)

section \<open>Well-formed stores and managers\<close>

definition rep_entries :: "rep_env \<Rightarrow> faction_entry list" where
  "rep_entries env = filter CanHaveReputation (factionStore env)"

definition base_of :: "rep_env \<Rightarrow> faction_entry \<Rightarrow> int" where
  "base_of env fe = GetBaseReputation env (Some fe)"

definition store_ok :: "rep_env \<Rightarrow> bool" where
  "store_ok env \<longleftrightarrow> distinct (map fe_ID (factionStore env)) \<and> distinct (map rep_key (rep_entries env)) \<and>
     (\<forall>fe \<in> set (factionStore env). fe_ID fe < 2 ^ 16 \<and> - (2 ^ 15) \<le> ReputationIndex fe \<and> ReputationIndex fe < 2 ^ 15 \<and>
        Reputation_Bottom \<le> base_of env fe \<and> base_of env fe \<le> Reputation_Cap)"

definition entry_at :: "rep_env \<Rightarrow> uint32 \<Rightarrow> faction_entry option" where
  "entry_at env k = find (\<lambda>fe. rep_key fe = k) (rep_entries env)"

definition base_at :: "rep_env \<Rightarrow> uint32 \<Rightarrow> int" where
  "base_at env k = GetBaseReputation env (entry_at env k)"

definition rank_at_least :: "rep_env \<Rightarrow> reputation_rank \<Rightarrow> uint32 \<times> faction_state \<Rightarrow> bool" where
  "rank_at_least env r kf \<longleftrightarrow> r \<le> ReputationToRank (base_at env (fst kf) + Standing (snd kf))"

definition shown :: "uint32 \<times> faction_state \<Rightarrow> bool" where
  "shown kf \<longleftrightarrow> Flags (snd kf) AND FACTION_FLAG_VISIBLE \<noteq> 0"

abbreviation tally :: "('a \<Rightarrow> bool) \<Rightarrow> 'a list \<Rightarrow> uint8" where
  "tally P xs \<equiv> of_nat (length (filter P xs))"

text \<open>Counting entries of a map in which one entry is written.\<close>

lemma tally_adjust:
  assumes "om_wf m" "map_of m k = Some f"
  shows "tally P (om_adjust k h m) = tally P m - (if P (k, f) then 1 else 0) + (if P (k, h f) then 1 else 0)"
  using assms
proof (induction m)
  case (Cons a m)
  obtain k' f' where a: "a = (k', f')" by force
  show ?case
  proof (cases "k' = k")
    case True
    with Cons.prems a have "k \<notin> fst ` set m" by auto
    then have "om_adjust k h m = m" by (force simp: om_adjust_def intro: map_idI)
    with True a Cons.prems show ?thesis by (simp add: om_adjust_def)
  next
    case False
    with Cons a show ?thesis by (simp add: om_adjust_def)
  qed
qed simp

lemma tally_map_cong:
  "(\<And>k f. (k, f) \<in> set m \<Longrightarrow> P (k, g k f) = P (k, f)) \<Longrightarrow> tally P (map (\<lambda>(k, f). (k, g k f)) m) = tally P m"
  by (induction m) auto

section \<open>Flags as bits\<close>

lemma and_flag_iff:
  fixes w :: uint8
  shows "w AND FACTION_FLAG_VISIBLE \<noteq> 0 \<longleftrightarrow> bit w 0" "w AND FACTION_FLAG_AT_WAR \<noteq> 0 \<longleftrightarrow> bit w 1"
    "w AND FACTION_FLAG_PEACE_FORCED \<noteq> 0 \<longleftrightarrow> bit w 4" "w AND FACTION_FLAG_INACTIVE \<noteq> 0 \<longleftrightarrow> bit w 5"
    "w AND FACTION_FLAG_SPECIAL \<noteq> 0 \<longleftrightarrow> bit w 7"
  using and_exp_eq_0_iff_not_bit [of w 0] and_exp_eq_0_iff_not_bit [of w 1] and_exp_eq_0_iff_not_bit [of w 4]
    and_exp_eq_0_iff_not_bit [of w 5] and_exp_eq_0_iff_not_bit [of w 7]
  by (simp_all add: faction_flag_defs)

lemma and_hidden_iff:
  fixes w :: uint8
  shows "w AND (FACTION_FLAG_INVISIBLE_FORCED OR FACTION_FLAG_HIDDEN) \<noteq> 0 \<longleftrightarrow> bit w 2 \<or> bit w 3"
proof -
  have "w AND 2 ^ 3 = 0 \<longleftrightarrow> \<not> bit w 3" "w AND 2 ^ 2 = 0 \<longleftrightarrow> \<not> bit w 2"
    by (rule and_exp_eq_0_iff_not_bit)+
  then have "w AND 8 = 0 \<longleftrightarrow> \<not> bit w 3" "w AND 4 = 0 \<longleftrightarrow> \<not> bit w 2" by simp_all
  moreover have "w AND (8 OR 4) = (w AND 8) OR (w AND 4)" by (rule bit.conj_disj_distrib)
  ultimately show ?thesis by (auto simp: faction_flag_defs or_eq_0_iff simp del: word_bitwise_1_simps)
qed

lemma bit_flag_update:
  fixes w :: uint8
  shows "bit (w OR FACTION_FLAG_VISIBLE) n \<longleftrightarrow> bit w n \<or> n = 0"
    "bit (w OR FACTION_FLAG_AT_WAR) n \<longleftrightarrow> bit w n \<or> n = 1"
    "bit (w OR FACTION_FLAG_INACTIVE) n \<longleftrightarrow> bit w n \<or> n = 5"
    "bit (w AND NOT FACTION_FLAG_AT_WAR) n \<longleftrightarrow> bit w n \<and> n \<noteq> 1"
    "bit (w AND NOT FACTION_FLAG_INACTIVE) n \<longleftrightarrow> bit w n \<and> n \<noteq> 5"
proof -
  have b: "bit FACTION_FLAG_VISIBLE n \<longleftrightarrow> n = 0" "bit FACTION_FLAG_AT_WAR n \<longleftrightarrow> n = 1" "bit FACTION_FLAG_INACTIVE n \<longleftrightarrow> n = 5"
    using bit_exp_iff [of 0 n, where ?'a = uint8] bit_exp_iff [of 1 n, where ?'a = uint8] bit_exp_iff [of 5 n, where ?'a = uint8]
    by (auto simp: faction_flag_defs possible_bit_word)
  show "bit (w OR FACTION_FLAG_VISIBLE) n \<longleftrightarrow> bit w n \<or> n = 0"
    "bit (w OR FACTION_FLAG_AT_WAR) n \<longleftrightarrow> bit w n \<or> n = 1"
    "bit (w OR FACTION_FLAG_INACTIVE) n \<longleftrightarrow> bit w n \<or> n = 5"
    "bit (w AND NOT FACTION_FLAG_AT_WAR) n \<longleftrightarrow> bit w n \<and> n \<noteq> 1"
    "bit (w AND NOT FACTION_FLAG_INACTIVE) n \<longleftrightarrow> bit w n \<and> n \<noteq> 5"
    using bit_imp_le_length [of w n] by (auto simp: bit_or_iff bit_and_iff bit_not_iff b possible_bit_word)
qed

lemmas flag_bits = and_flag_iff and_hidden_iff bit_flag_update

text \<open>
  What the operations keep of the flags: the bits that describe the faction stay as in the data, a faction is
  shown, at war or inactive only if that was its default or if the guards of the code allow it.
\<close>

definition flags_ok :: "uint8 \<Rightarrow> uint8 \<Rightarrow> bool" where
  "flags_ok d w \<longleftrightarrow> (\<forall>n. n \<notin> {0, 1, 5} \<longrightarrow> bit w n = bit d n) \<and> (bit d 0 \<longrightarrow> bit w 0) \<and>
     (bit w 0 \<longrightarrow> bit d 0 \<or> \<not> ((bit d 2 \<or> bit d 3) \<and> \<not> bit d 7)) \<and> (bit w 1 \<longrightarrow> bit d 1 \<or> \<not> bit d 4) \<and>
     (bit w 5 \<longrightarrow> bit d 5 \<or> \<not> bit d 2 \<and> \<not> bit d 3 \<and> bit w 0)"

lemma flags_ok_refl [simp]: "flags_ok d d"
  by (auto simp: flags_ok_def)

lemma flags_ok_static: "flags_ok d w \<Longrightarrow> n \<notin> {0, 1, 5} \<Longrightarrow> bit w n = bit d n"
  by (simp add: flags_ok_def)

lemma flags_ok_visible:
  "flags_ok d w \<Longrightarrow> \<not> ((bit w 2 \<or> bit w 3) \<and> \<not> bit w 7) \<Longrightarrow> flags_ok d (w OR FACTION_FLAG_VISIBLE)"
  unfolding flags_ok_def by (simp add: flag_bits) blast

lemma flags_ok_war_state: "flags_ok d (Flags f) \<Longrightarrow> flags_ok d (Flags (war_state on f))"
  unfolding flags_ok_def war_state_def mark_changed_def by (simp add: flag_bits) blast

lemma flags_ok_inactive_state: "flags_ok d (Flags f) \<Longrightarrow> flags_ok d (Flags (inactive_state on f))"
  unfolding flags_ok_def inactive_state_def mark_changed_def by (auto simp add: flag_bits)

lemma flag_state_simps [simp]:
  "Standing (war_state on f) = Standing f" "ReputationListID (war_state on f) = ReputationListID f" "fs_ID (war_state on f) = fs_ID f"
  "Standing (inactive_state on f) = Standing f" "ReputationListID (inactive_state on f) = ReputationListID f" "fs_ID (inactive_state on f) = fs_ID f"
  "bit (Flags (war_state on f)) 0 = bit (Flags f) 0" "bit (Flags (inactive_state on f)) 0 = bit (Flags f) 0"
  by (simp_all add: war_state_def inactive_state_def mark_changed_def flag_bits)

section \<open>The invariant\<close>

definition faction_ok :: "rep_env \<Rightarrow> uint32 \<Rightarrow> faction_state \<Rightarrow> bool" where
  "faction_ok env k f \<longleftrightarrow> ReputationListID f = k \<and> map_option fe_ID (entry_at env k) = Some (fs_ID f) \<and>
     Reputation_Bottom \<le> base_at env k + Standing f \<and> base_at env k + Standing f \<le> Reputation_Cap \<and>
     flags_ok (ucast (GetDefaultStateFlags env (entry_at env k))) (Flags f)"

definition shape_ok :: "rep_env \<Rightarrow> reputation_mgr \<Rightarrow> bool" where
  "shape_ok env m \<longleftrightarrow> om_wf (factions m) \<and> fst ` set (factions m) = rep_key ` set (rep_entries env) \<and>
     (\<forall>(k, f) \<in> set (factions m). faction_ok env k f) \<and> visibleFactionCount m = tally shown (factions m)"

definition ranks_ok :: "rep_env \<Rightarrow> reputation_mgr \<Rightarrow> bool" where
  "ranks_ok env m \<longleftrightarrow> honoredFactionCount m = tally (rank_at_least env REP_HONORED) (factions m) \<and>
     reveredFactionCount m = tally (rank_at_least env REP_REVERED) (factions m) \<and>
     exaltedFactionCount m = tally (rank_at_least env REP_EXALTED) (factions m)"

text \<open>A write to every entry; the writes of one entry and the resets after sending are instances.\<close>

definition rep_map :: "(uint32 \<Rightarrow> faction_state \<Rightarrow> faction_state) \<Rightarrow> reputation_mgr \<Rightarrow> reputation_mgr" where
  "rep_map g m = m\<lparr>factions := map (\<lambda>(k, f). (k, g k f)) (factions m)\<rparr>"

lemma adjust_is_map: "adjust_faction k h m = rep_map (\<lambda>k' f. if k' = k then h f else f) m"
  by (simp add: adjust_faction_def rep_map_def om_adjust_def)

lemma rep_map_sel [simp]:
  "forcedReactions (rep_map g m) = forcedReactions m" "visibleFactionCount (rep_map g m) = visibleFactionCount m"
  "honoredFactionCount (rep_map g m) = honoredFactionCount m" "reveredFactionCount (rep_map g m) = reveredFactionCount m"
  "exaltedFactionCount (rep_map g m) = exaltedFactionCount m" "sendFactionIncreased (rep_map g m) = sendFactionIncreased m"
  "factions (rep_map g m) = map (\<lambda>(k, f). (k, g k f)) (factions m)"
  by (simp_all add: rep_map_def)

lemma map_of_rep_map: "map_of (factions (rep_map g m)) k = map_option (g k) (map_of (factions m) k)"
proof -
  have "map_of (map (\<lambda>(k, f). (k, g k f)) xs) k = map_option (g k) (map_of xs k)" for xs
    by (induction xs) auto
  then show ?thesis by simp
qed

lemma map_of_adjust_faction:
  "map_of (factions (adjust_faction k h m)) k' = (if k' = k then map_option h (map_of (factions m) k) else map_of (factions m) k')"
  by (cases "map_of (factions m) k'") (auto simp: adjust_is_map map_of_rep_map simp del: rep_map_sel)

lemma rep_map_shape:
  assumes "shape_ok env m"
    and "\<And>k f. (k, f) \<in> set (factions m) \<Longrightarrow> faction_ok env k f \<Longrightarrow> faction_ok env k (g k f)"
    and "\<And>k f. (k, f) \<in> set (factions m) \<Longrightarrow> bit (Flags (g k f)) 0 = bit (Flags f) 0"
  shows "shape_ok env (rep_map g m)"
proof -
  have "map fst (factions (rep_map g m)) = map fst (factions m)" by auto
  moreover from this have "fst ` set (factions (rep_map g m)) = fst ` set (factions m)" by (metis list.set_map)
  moreover have "tally shown (factions (rep_map g m)) = tally shown (factions m)"
    unfolding rep_map_sel by (rule tally_map_cong) (simp add: shown_def flag_bits assms(3))
  moreover have "\<forall>(k, f) \<in> set (factions (rep_map g m)). faction_ok env k f"
    using assms(1,2) by (auto simp: shape_ok_def)
  ultimately show ?thesis using assms(1) unfolding shape_ok_def by (simp del: rep_map_sel(7))
qed

lemma rep_map_ranks:
  assumes "ranks_ok env m" "\<And>k f. Standing (g k f) = Standing f"
  shows "ranks_ok env (rep_map g m)"
proof -
  have "tally (rank_at_least env r) (factions (rep_map g m)) = tally (rank_at_least env r) (factions m)" for r
    unfolding rep_map_sel by (rule tally_map_cong) (simp add: rank_at_least_def assms(2))
  with assms(1) show ?thesis by (simp add: ranks_ok_def del: rep_map_sel(7))
qed

lemma LookupEntry_store: "store_ok env \<Longrightarrow> fe \<in> set (factionStore env) \<Longrightarrow> LookupEntry env (fe_ID fe) = Some fe"
  by (simp add: store_ok_def LookupEntry_def find_key)

lemma LookupEntry_in: "LookupEntry env i = Some fe \<Longrightarrow> fe \<in> set (factionStore env) \<and> fe_ID fe = i"
  unfolding LookupEntry_def by (drule find_in) simp

lemma rep_key_inj:
  assumes "store_ok env" "fe \<in> set (factionStore env)" "fe' \<in> set (factionStore env)" "rep_key fe = rep_key fe'"
  shows "ReputationIndex fe = ReputationIndex fe'"
proof -
  have "sint (rep_key x) = ReputationIndex x" if "x \<in> set (factionStore env)" for x
    using that assms(1) by (auto simp: rep_key_def store_ok_def int_word_sint)
  with assms(2-4) show ?thesis by metis
qed

lemma entry_at_key:
  assumes "store_ok env" "fe \<in> set (factionStore env)" "rep_key fe \<in> rep_key ` set (rep_entries env)"
  shows "entry_at env (rep_key fe) = Some fe" "CanHaveReputation fe"
proof -
  from assms(3) obtain fe' where fe': "fe' \<in> set (rep_entries env)" "rep_key fe = rep_key fe'" by auto
  with assms rep_key_inj [of env fe fe'] show c: "CanHaveReputation fe"
    by (auto simp: rep_entries_def CanHaveReputation_def)
  with assms have "fe \<in> set (rep_entries env)" by (simp add: rep_entries_def)
  with assms(1) show "entry_at env (rep_key fe) = Some fe" by (simp add: entry_at_def store_ok_def find_key)
qed

lemma shape_lookup: "shape_ok env m \<Longrightarrow> map_of (factions m) k = Some f \<Longrightarrow> faction_ok env k f"
  by (auto simp: shape_ok_def dest!: map_of_SomeD)

lemma shape_key: "shape_ok env m \<Longrightarrow> map_of (factions m) k = Some f \<Longrightarrow> k \<in> rep_key ` set (rep_entries env)"
  by (metis map_of_in_fst option.distinct(1) shape_ok_def)

lemma shape_cong: "factions m' = factions m \<Longrightarrow> visibleFactionCount m' = visibleFactionCount m \<Longrightarrow> shape_ok env m' = shape_ok env m"
  by (simp add: shape_ok_def)

lemma ranks_cong:
  "factions m' = factions m \<Longrightarrow> honoredFactionCount m' = honoredFactionCount m \<Longrightarrow>
   reveredFactionCount m' = reveredFactionCount m \<Longrightarrow> exaltedFactionCount m' = exaltedFactionCount m \<Longrightarrow>
   ranks_ok env m' = ranks_ok env m"
  by (simp add: ranks_ok_def)

section \<open>Operations on the flags\<close>

lemma rep_send_sel [simp]:
  "factions (rep_send ms m) = factions m" "forcedReactions (rep_send ms m) = forcedReactions m"
  "visibleFactionCount (rep_send ms m) = visibleFactionCount m" "honoredFactionCount (rep_send ms m) = honoredFactionCount m"
  "reveredFactionCount (rep_send ms m) = reveredFactionCount m" "exaltedFactionCount (rep_send ms m) = exaltedFactionCount m"
  "sendFactionIncreased (rep_send ms m) = sendFactionIncreased m"
  by (simp_all add: rep_send_def)

lemma adjust_sel [simp]:
  "forcedReactions (adjust_faction k h m) = forcedReactions m" "visibleFactionCount (adjust_faction k h m) = visibleFactionCount m"
  "honoredFactionCount (adjust_faction k h m) = honoredFactionCount m" "reveredFactionCount (adjust_faction k h m) = reveredFactionCount m"
  "exaltedFactionCount (adjust_faction k h m) = exaltedFactionCount m" "sendFactionIncreased (adjust_faction k h m) = sendFactionIncreased m"
  "map fst (factions (adjust_faction k h m)) = map fst (factions m)"
  by (simp_all add: adjust_faction_def)

lemma adjust_shape:
  assumes "shape_ok env m" "\<And>f. map_of (factions m) k = Some f \<Longrightarrow> faction_ok env k (h f)" "\<And>f. bit (Flags (h f)) 0 = bit (Flags f) 0"
  shows "shape_ok env (adjust_faction k h m)"
proof -
  have "(k, f) \<in> set (factions m) \<Longrightarrow> map_of (factions m) k = Some f" for f
    using assms(1) by (simp add: shape_ok_def om_wf_distinct)
  with assms show ?thesis unfolding adjust_is_map by (intro rep_map_shape) auto
qed

lemma adjust_ranks: "ranks_ok env m \<Longrightarrow> (\<And>f. Standing (h f) = Standing f) \<Longrightarrow> ranks_ok env (adjust_faction k h m)"
  unfolding adjust_is_map by (rule rep_map_ranks) auto

lemma war_shape: "shape_ok env m \<Longrightarrow> shape_ok env (adjust_faction k (war_state on) m)"
  by (rule adjust_shape) (auto dest!: shape_lookup simp: faction_ok_def flags_ok_war_state)

lemma inactive_shape: "shape_ok env m \<Longrightarrow> shape_ok env (adjust_faction k (inactive_state on) m)"
  by (rule adjust_shape) (auto dest!: shape_lookup simp: faction_ok_def flags_ok_inactive_state)

lemma SetVisible_state_sel [simp]:
  "forcedReactions (SetVisible_state env k m) = forcedReactions m" "honoredFactionCount (SetVisible_state env k m) = honoredFactionCount m"
  "reveredFactionCount (SetVisible_state env k m) = reveredFactionCount m" "exaltedFactionCount (SetVisible_state env k m) = exaltedFactionCount m"
  "sendFactionIncreased (SetVisible_state env k m) = sendFactionIncreased m"
  by (auto simp: SetVisible_state_def SendVisible_def Let_def split: option.splits)

text \<open>What becomes of an entry that is shown, and that it is the only one that changes.\<close>

definition visible_state :: "faction_state \<Rightarrow> faction_state" where
  "visible_state f = (if (bit (Flags f) 2 \<or> bit (Flags f) 3) \<and> \<not> bit (Flags f) 7 \<or> bit (Flags f) 0 then f
     else mark_changed (Flags f OR FACTION_FLAG_VISIBLE) f)"

lemma visible_state_sel [simp]:
  "Standing (visible_state f) = Standing f" "ReputationListID (visible_state f) = ReputationListID f" "fs_ID (visible_state f) = fs_ID f"
  by (simp_all add: visible_state_def mark_changed_def)

lemma SetVisible_state_factions:
  assumes "om_wf (factions m)"
  shows "factions (SetVisible_state env k m) = factions (adjust_faction k visible_state m)"
proof (cases "map_of (factions m) k")
  case None
  then have "k \<notin> fst ` set (factions m)" by (simp add: map_of_eq_None_iff)
  then have "om_adjust k h (factions m) = factions m" for h by (force simp: om_adjust_def intro: map_idI)
  with None show ?thesis by (simp add: SetVisible_state_def adjust_faction_def)
next
  case (Some f)
  from assms have u: "(k, f') \<in> set (factions m) \<Longrightarrow> f' = f" for f'
    using Some by (simp add: om_wf_distinct)
  then have "om_adjust k visible_state (factions m) = om_adjust k (\<lambda>_. visible_state f) (factions m)"
    by (force simp: om_adjust_def)
  moreover have "om_adjust k (\<lambda>f. mark_changed (Flags f OR FACTION_FLAG_VISIBLE) f) (factions m)
      = om_adjust k (\<lambda>_. mark_changed (Flags f OR FACTION_FLAG_VISIBLE) f) (factions m)"
    using u by (force simp: om_adjust_def)
  moreover have "om_adjust k (\<lambda>_. f) (factions m) = factions m"
    using u by (force simp: om_adjust_def intro: map_idI)
  ultimately show ?thesis
    by (auto simp: SetVisible_state_def Some adjust_faction_def SendVisible_def Let_def visible_state_def flag_bits)
qed

lemma SetVisible_state_count:
  "visibleFactionCount (SetVisible_state env k m) = visibleFactionCount m +
     (case map_of (factions m) k of None \<Rightarrow> 0 | Some f \<Rightarrow> if bit (Flags (visible_state f)) 0 \<and> \<not> bit (Flags f) 0 then 1 else 0)"
  by (auto simp: SetVisible_state_def SendVisible_def Let_def visible_state_def flag_bits mark_changed_def split: option.splits)

lemma flags_ok_visible_state: "flags_ok d (Flags f) \<Longrightarrow> flags_ok d (Flags (visible_state f))"
  by (simp add: visible_state_def mark_changed_def flags_ok_visible)

lemma SetVisible_state_shape:
  assumes "shape_ok env m"
  shows "shape_ok env (SetVisible_state env k m)"
proof (cases "map_of (factions m) k")
  case None
  with assms show ?thesis by (simp add: SetVisible_state_def)
next
  case (Some f)
  let ?m = "SetVisible_state env k m"
  from assms have wf: "om_wf (factions m)" by (simp add: shape_ok_def)
  then have fs: "factions ?m = om_adjust k visible_state (factions m)"
    by (simp add: SetVisible_state_factions adjust_faction_def)
  have mono: "bit (Flags f) 0 \<Longrightarrow> bit (Flags (visible_state f)) 0" by (simp add: visible_state_def)
  have "visibleFactionCount ?m = tally shown (factions ?m)"
    using assms mono unfolding fs tally_adjust [OF wf Some] SetVisible_state_count Some
    by (auto simp: shape_ok_def shown_def flag_bits)
  moreover have "\<forall>(k', f') \<in> set (factions ?m). faction_ok env k' f'"
    using assms unfolding fs by (auto simp: om_adjust_def shape_ok_def faction_ok_def flags_ok_visible_state)
  moreover have "map fst (factions ?m) = map fst (factions m)" unfolding fs by simp
  ultimately show ?thesis using assms unfolding shape_ok_def by (metis list.set_map)
qed

lemma SetVisible_state_tally:
  "om_wf (factions m) \<Longrightarrow> tally (rank_at_least env r) (factions (SetVisible_state env' k m)) = tally (rank_at_least env r) (factions m)"
  unfolding SetVisible_state_factions adjust_is_map rep_map_sel
  by (rule tally_map_cong) (simp add: rank_at_least_def)

lemma SetVisible_state_ranks: "om_wf (factions m) \<Longrightarrow> ranks_ok env m \<Longrightarrow> ranks_ok env (SetVisible_state env' k m)"
  by (simp add: ranks_ok_def SetVisible_state_tally)

lemma war_tally: "tally (rank_at_least env r) (factions (adjust_faction k (war_state on) m)) = tally (rank_at_least env r) (factions m)"
  unfolding adjust_is_map rep_map_sel by (rule tally_map_cong) (simp add: rank_at_least_def)

section \<open>A change of one standing\<close>

lemma record_standing_sel [simp]:
  "Standing (record_standing s f) = s" "Flags (record_standing s f) = Flags f" "needSave (record_standing s f)"
  "ReputationListID (record_standing s f) = ReputationListID f" "fs_ID (record_standing s f) = fs_ID f"
  by (simp_all add: record_standing_def)

lemma UpdateRankCounters_sel [simp]:
  "factions (UpdateRankCounters p n m) = factions m" "visibleFactionCount (UpdateRankCounters p n m) = visibleFactionCount m"
  "forcedReactions (UpdateRankCounters p n m) = forcedReactions m" "sendFactionIncreased (UpdateRankCounters p n m) = sendFactionIncreased m"
  by (simp_all add: UpdateRankCounters_def)

text \<open>The counters follow a standing that moves from one rank to another.\<close>

lemma UpdateRankCounters_ranks:
  assumes wf: "om_wf (factions m)" and f: "map_of (factions m) k = Some f" and ok: "ranks_ok env m"
    and moved: "\<And>r. tally (rank_at_least env r) (factions m') = tally (rank_at_least env r) (om_adjust k h (factions m))"
    and same: "honoredFactionCount m' = honoredFactionCount m" "reveredFactionCount m' = reveredFactionCount m"
      "exaltedFactionCount m' = exaltedFactionCount m"
    and old: "old = ReputationToRank (base_at env k + Standing f)" and new: "new = ReputationToRank (base_at env k + Standing (h f))"
  shows "ranks_ok env (UpdateRankCounters old new m')"
  using ok unfolding ranks_ok_def UpdateRankCounters_sel moved tally_adjust [OF wf f]
  by (auto simp: UpdateRankCounters_def count_up_def count_down_def same old new rank_at_least_def)

lemma clamp_reputation_bounds:
  "Reputation_Bottom \<le> clamp_reputation s" "clamp_reputation s \<le> Reputation_Cap"
  by (simp_all add: clamp_reputation_def Reputation_Bottom_def Reputation_Cap_def)

lemma base_at_bounds:
  assumes "store_ok env"
  shows "Reputation_Bottom \<le> base_at env k" "base_at env k \<le> Reputation_Cap"
proof -
  have "Reputation_Bottom \<le> base_at env k \<and> base_at env k \<le> Reputation_Cap"
  proof (cases "entry_at env k")
    case None
    then show ?thesis by (simp add: base_at_def GetBaseReputation_def Reputation_Bottom_def Reputation_Cap_def)
  next
    case (Some fe)
    then have "fe \<in> set (factionStore env)" by (auto simp: entry_at_def rep_entries_def dest: find_in)
    with assms Some show ?thesis by (simp add: base_at_def store_ok_def base_of_def)
  qed
  then show "Reputation_Bottom \<le> base_at env k" "base_at env k \<le> Reputation_Cap" by simp_all
qed

lemma SetOne_run:
  assumes st: "store_ok env" and sh: "shape_ok env m" and fe: "fe \<in> set (factionStore env)"
    and k: "k = rep_key fe" and f: "map_of (factions m) k = Some f"
    and raw: "target_standing env (base_at env k) f standing incremental = Inr raw"
  obtains m' f' where "SetOneFactionReputation env fe standing incremental m = Inr (m', True)" "shape_ok env m'"
    "ranks_ok env m \<Longrightarrow> ranks_ok env m'" "map_of (factions m') = (map_of (factions m))(k \<mapsto> f')"
    "Standing f' = clamp_reputation raw - base_at env k" "needSave f'" "fs_ID f' = fs_ID f"
proof -
  let ?b = "base_at env k" and ?s = "clamp_reputation raw - base_at env k"
  have e: "entry_at env k = Some fe" using entry_at_key [OF st fe] shape_key [OF sh f] k by simp
  have b: "GetBaseReputation env (Some fe) = ?b" by (simp add: base_at_def e)
  have fok: "faction_ok env k f" using sh f by (rule shape_lookup)
  define old where "old = ReputationToRank (Standing f + ?b)"
  define new where "new = ReputationToRank (clamp_reputation raw)"
  define m1 where "m1 = adjust_faction k (record_standing ?s) m"
  define m2 where "m2 = SetVisible_state env k m1"
  define m3 where "m3 = (if new \<le> REP_HOSTILE then adjust_faction k (war_state True) m2 else m2)"
  define m4 where "m4 = (if old < new then m3\<lparr>sendFactionIncreased := True\<rparr> else m3)"
  define m5 where "m5 = rep_send (change_notices fe) (UpdateRankCounters old new m4)"
  have run: "SetOneFactionReputation env fe standing incremental m = Inr (m5, True)"
    using fok clamp_reputation_bounds [of raw] base_at_bounds [OF st, of k]
    by (simp add: SetOneFactionReputation_def Let_def b f raw k [symmetric] faction_ok_def Reputation_Bottom_def
        Reputation_Cap_def old_def new_def m1_def m2_def m3_def m4_def m5_def)
  have s1: "shape_ok env m1" unfolding m1_def
    using sh fok clamp_reputation_bounds [of raw] f by (intro adjust_shape) (auto simp: faction_ok_def)
  then have s2: "shape_ok env m2" unfolding m2_def by (rule SetVisible_state_shape)
  then have s3: "shape_ok env m3" unfolding m3_def by (simp add: war_shape)
  have s4: "shape_ok env m4" by (rule shape_cong [THEN iffD2, OF _ _ s3]) (simp_all add: m4_def)
  have s5: "shape_ok env m5" by (rule shape_cong [THEN iffD2, OF _ _ s4]) (simp_all add: m5_def)
  have wf: "om_wf (factions m)" "om_wf (factions m1)" using sh s1 by (simp_all add: shape_ok_def)
  have f4: "factions m4 = factions m3" by (simp add: m4_def)
  have t: "tally (rank_at_least env r) (factions m4) = tally (rank_at_least env r) (om_adjust k (record_standing ?s) (factions m))" for r
    unfolding f4 m3_def m2_def using SetVisible_state_tally [OF wf(2)] war_tally
    by (simp add: m1_def adjust_faction_def)
  have r5: "ranks_ok env m5" if "ranks_ok env m"
  proof -
    have "ranks_ok env (UpdateRankCounters old new m4)"
      by (rule UpdateRankCounters_ranks [OF wf(1) f that t])
        (simp_all add: m4_def m3_def m2_def m1_def old_def new_def add.commute)
    then show ?thesis by (simp add: m5_def ranks_ok_def)
  qed
  let ?f = "(if new \<le> REP_HOSTILE then war_state True else id) (visible_state (record_standing ?s f))"
  have l2: "map_of (factions m2) = (map_of (factions m))(k \<mapsto> visible_state (record_standing ?s f))"
    unfolding m2_def SetVisible_state_factions [OF wf(2)] by (auto simp: fun_eq_iff map_of_adjust_faction m1_def f)
  have l5: "map_of (factions m5) = (map_of (factions m))(k \<mapsto> ?f)"
    by (auto simp: m5_def f4 m3_def fun_eq_iff map_of_adjust_faction l2)
  have "needSave ?f" by (simp add: war_state_def visible_state_def mark_changed_def)
  with that [OF run s5 r5 l5] show ?thesis by simp
qed

end
