(* ===== verification/Reputation_Storage.thy ===== *)
theory Reputation_Storage
  imports Reputation_Standing
begin

text \<open>
  The reputation manager together with its table in the character database: every operation keeps the
  counters right and keeps each entry either marked for saving or stored as it is, so that what is saved
  is what the next login loads.
\<close>

section \<open>The table\<close>

type_synonym rep_table = "(uint64 \<times> rep_row) list"

fun exec_stmt :: "rep_stmt \<Rightarrow> rep_table \<Rightarrow> rep_table" where
  "exec_stmt (CHAR_DEL_CHAR_REPUTATION_BY_FACTION g i) t = filter (\<lambda>(g', r). \<not> (g' = g \<and> row_faction r = i)) t"
| "exec_stmt (CHAR_INS_CHAR_REPUTATION_BY_FACTION g i s w) t =
     t @ [(g, \<lparr>row_faction = i, row_standing = s, row_flags = w\<rparr>)]"

definition commit :: "rep_stmt list \<Rightarrow> rep_table \<Rightarrow> rep_table" where
  "commit stmts t = fold exec_stmt stmts t"

definition player_rows :: "rep_env \<Rightarrow> rep_table \<Rightarrow> rep_row list" where
  "player_rows env t = map snd (filter (\<lambda>(g, r). g = playerLow env) t)"

definition row_of :: "faction_state \<Rightarrow> rep_row" where
  "row_of f = \<lparr>row_faction = ucast (fs_ID f), row_standing = Standing f, row_flags = ucast (Flags f)\<rparr>"

definition synced :: "rep_env \<Rightarrow> rep_table \<Rightarrow> reputation_mgr \<Rightarrow> bool" where
  "synced env t m \<longleftrightarrow> (\<forall>k f. map_of (factions m) k = Some f \<longrightarrow> needSave f \<or> row_of f \<in> set (player_rows env t))"

definition row_ok :: "rep_env \<Rightarrow> rep_row \<Rightarrow> bool" where
  "row_ok env r \<longleftrightarrow> (\<exists>fe \<in> set (rep_entries env). ucast (row_faction r) = fe_ID fe \<and>
     Reputation_Bottom \<le> base_of env fe + row_standing r \<and> base_of env fe + row_standing r \<le> Reputation_Cap)"

definition rows_ok :: "rep_env \<Rightarrow> rep_row list \<Rightarrow> bool" where
  "rows_ok env rows \<longleftrightarrow> distinct (map row_faction rows) \<and> (\<forall>r \<in> set rows. row_ok env r)"

section \<open>Operations of a running session\<close>

definition mgr_ok :: "rep_env \<Rightarrow> rep_table \<Rightarrow> reputation_mgr \<Rightarrow> bool" where
  "mgr_ok env t m \<longleftrightarrow> shape_ok env m \<and> ranks_ok env m \<and> synced env t m"

lemma mgr_ok_cong:
  "factions m' = factions m \<Longrightarrow> visibleFactionCount m' = visibleFactionCount m \<Longrightarrow> honoredFactionCount m' = honoredFactionCount m \<Longrightarrow>
   reveredFactionCount m' = reveredFactionCount m \<Longrightarrow> exaltedFactionCount m' = exaltedFactionCount m \<Longrightarrow>
   mgr_ok env t m' = mgr_ok env t m"
  by (simp add: mgr_ok_def shape_ok_def ranks_ok_def synced_def)

text \<open>A write leaves an entry as it is in the table or marks it.\<close>

definition saves :: "(faction_state \<Rightarrow> faction_state) \<Rightarrow> bool" where
  "saves h \<longleftrightarrow> (\<forall>f. needSave (h f) \<or> row_of (h f) = row_of f \<and> needSave (h f) = needSave f)"

lemma saves_states: "saves (war_state on)" "saves (inactive_state on)" "saves visible_state" "saves clear_needSend"
  by (auto simp: saves_def war_state_def inactive_state_def visible_state_def mark_changed_def clear_needSend_def row_of_def)

lemma adjust_synced: "synced env t m \<Longrightarrow> saves h \<Longrightarrow> synced env t (adjust_faction k h m)"
  unfolding synced_def saves_def by (auto simp: map_of_adjust_faction split: if_splits) metis

lemma rep_map_synced: "synced env t m \<Longrightarrow> saves h \<Longrightarrow> synced env t (rep_map (\<lambda>_. h) m)"
  unfolding synced_def saves_def map_of_rep_map by auto metis

lemma war_mgr_ok: "mgr_ok env t m \<Longrightarrow> mgr_ok env t (adjust_faction k (war_state on) m)"
  by (simp add: mgr_ok_def war_shape adjust_ranks adjust_synced saves_states)

lemma inactive_mgr_ok: "mgr_ok env t m \<Longrightarrow> mgr_ok env t (adjust_faction k (inactive_state on) m)"
  by (simp add: mgr_ok_def inactive_shape adjust_ranks adjust_synced saves_states)

lemma SetVisible_state_mgr_ok:
  assumes "mgr_ok env t m"
  shows "mgr_ok env t (SetVisible_state env k m)"
proof -
  from assms have wf: "om_wf (factions m)" and ok: "shape_ok env m" "ranks_ok env m" "synced env t m"
    by (simp_all add: mgr_ok_def shape_ok_def)
  have "synced env t (adjust_faction k visible_state m)" using ok(3) saves_states(3) by (rule adjust_synced)
  then have "synced env t (SetVisible_state env k m)" by (simp add: synced_def SetVisible_state_factions [OF wf])
  with ok wf show ?thesis by (simp add: mgr_ok_def SetVisible_state_shape SetVisible_state_ranks)
qed

lemma SetVisible_mgr_ok: "mgr_ok env t m \<Longrightarrow> mgr_ok env t (SetVisible env fe m)"
  by (simp add: SetVisible_def SetVisible_state_mgr_ok)

lemma SetVisible_template_mgr_ok: "mgr_ok env t m \<Longrightarrow> mgr_ok env t (SetVisible_template env ft m)"
  by (simp add: SetVisible_template_def SetVisible_mgr_ok split: option.split)

lemma SetAtWar_mgr_ok: "mgr_ok env t m \<Longrightarrow> mgr_ok env t (SetAtWar k on m)"
  by (simp add: SetAtWar_def war_mgr_ok split: option.split)

lemma SetInactive_mgr_ok: "mgr_ok env t m \<Longrightarrow> mgr_ok env t (SetInactive k on m)"
  by (simp add: SetInactive_def inactive_mgr_ok split: option.split)

lemma ApplyForceReaction_mgr_ok: "mgr_ok env t m \<Longrightarrow> mgr_ok env t (ApplyForceReaction i rank app m)"
  by (simp add: ApplyForceReaction_def mgr_ok_def shape_ok_def ranks_ok_def synced_def)

lemma clear_mgr_ok:
  assumes "mgr_ok env t m"
  shows "mgr_ok env t (rep_map (\<lambda>_. clear_needSend) m)"
proof -
  have "shape_ok env (rep_map (\<lambda>_. clear_needSend) m)"
    using assms by (intro rep_map_shape) (auto simp: mgr_ok_def faction_ok_def clear_needSend_def)
  moreover have "ranks_ok env (rep_map (\<lambda>_. clear_needSend) m)"
    using assms by (intro rep_map_ranks) (auto simp: mgr_ok_def clear_needSend_def)
  ultimately show ?thesis using assms by (simp add: mgr_ok_def rep_map_synced saves_states del: rep_map_sel)
qed

lemma SendState_mgr_ok:
  assumes "mgr_ok env t m"
  shows "mgr_ok env t (SendState k m)"
proof (cases "map_of (factions m) k")
  case (Some f)
  show ?thesis
    by (rule mgr_ok_cong [THEN iffD2, OF _ _ _ _ _ clear_mgr_ok [OF assms]])
      (simp_all add: SendState_def Some Let_def)
qed (use assms in \<open>simp add: SendState_def\<close>)

lemma SendStates_mgr_ok: "mgr_ok env t m \<Longrightarrow> mgr_ok env t (SendStates m)"
  unfolding SendStates_def by (rule fold_invariant [where Q = "\<lambda>_. True"]) (simp_all add: SendState_mgr_ok)

lemma SendForceReactions_mgr_ok: "mgr_ok env t m \<Longrightarrow> mgr_ok env t (SendForceReactions m)"
  by (simp add: SendForceReactions_def mgr_ok_def shape_ok_def ranks_ok_def synced_def)

lemma SendInitialReputations_mgr_ok:
  assumes "mgr_ok env t m" "SendInitialReputations m = Inr m'"
  shows "mgr_ok env t m'"
proof -
  from assms(2) obtain msg where m': "m' = rep_send msg (rep_map (\<lambda>_. clear_needSend) m)"
    by (auto simp: SendInitialReputations_def res_bind_eq_Inr rep_map_def)
  show ?thesis by (rule mgr_ok_cong [THEN iffD2, OF _ _ _ _ _ clear_mgr_ok [OF assms(1)]]) (simp_all add: m')
qed

section \<open>Changes of standings\<close>

lemma SetOne_mgr_ok:
  assumes st: "store_ok env" and fe: "fe \<in> set (factionStore env)" and ok: "mgr_ok env t m"
    and run: "SetOneFactionReputation env fe standing incremental m = Inr (m', b)"
  shows "mgr_ok env t m'"
proof (cases "map_of (factions m) (rep_key fe)")
  case None
  with run ok show ?thesis by (simp add: SetOneFactionReputation_def Let_def)
next
  case (Some f)
  have sh: "shape_ok env m" using ok by (simp add: mgr_ok_def)
  have e: "entry_at env (rep_key fe) = Some fe" using entry_at_key [OF st fe] shape_key [OF sh Some] by simp
  then obtain raw where raw: "target_standing env (base_at env (rep_key fe)) f standing incremental = Inr raw"
    using run Some by (auto simp: SetOneFactionReputation_def Let_def res_bind_eq_Inr base_at_def)
  from SetOne_run [OF st sh fe refl Some raw] obtain m2 f' where
    "SetOneFactionReputation env fe standing incremental m = Inr (m2, True)" "shape_ok env m2"
    "ranks_ok env m \<Longrightarrow> ranks_ok env m2" "map_of (factions m2) = (map_of (factions m))(rep_key fe \<mapsto> f')" "needSave f'"
    by metis
  with run ok show ?thesis by (auto simp: mgr_ok_def synced_def)
qed

lemma spill_one_mgr_ok:
  assumes "store_ok env" "mgr_ok env t m" "spill_one env tmpl standing incremental i m = Inr m'"
  shows "mgr_ok env t m'"
  using assms SetOne_mgr_ok LookupEntry_in
  by (fastforce simp: spill_one_def res_bind_eq_Inr split: if_splits option.splits)

lemma spill_sister_mgr_ok:
  assumes "store_ok env" "mgr_ok env t (fst mr)" "spill_sister env fe out incremental i mr = Inr mr'"
  shows "mgr_ok env t (fst mr')"
  using assms SetOne_mgr_ok LookupEntry_in
  by (cases mr') (fastforce simp: spill_sister_def res_bind_eq_Inr split: if_splits option.splits prod.splits)

lemma spill_parent_mgr_ok:
  assumes "store_ok env" "mgr_ok env t m" "spill_parent env fe out incremental m = Inr (m', l)"
  shows "mgr_ok env t m'"
  using assms SetOne_mgr_ok LookupEntry_in
  by (fastforce simp: spill_parent_def res_bind_eq_Inr split: if_splits option.splits)

lemma spill_over_mgr_ok:
  assumes st: "store_ok env" and ok: "mgr_ok env t m" and run: "spill_over env fe standing incremental m = Inr (m', b)"
  shows "mgr_ok env t m'"
proof (cases "repSpillover env (fe_ID fe)")
  case (Some tmpl)
  with run have "forE (spill_one env tmpl standing incremental) [0..<MAX_SPILLOVER_FACTIONS] m = Inr m'"
    by (auto simp: spill_over_def res_bind_eq_Inr)
  from this ok show ?thesis by (rule forE_invariant) (rule spill_one_mgr_ok [OF st])
next
  case None
  with run obtain m1 l out where 1: "spill_parent env fe out incremental m = Inr (m1, l) \<or> m1 = m"
    and 2: "(case l of None \<Rightarrow> Inr (m1, False) | Some l \<Rightarrow> forE (spill_sister env fe out incremental) l (m1, False)) = Inr (m', b)"
    by (auto simp: spill_over_def Let_def res_bind_eq_Inr simp del: One_nat_def split: if_splits)
  have "mgr_ok env t m1" using 1 ok spill_parent_mgr_ok [OF st] by metis
  then show ?thesis
    using 2 forE_invariant [of "spill_sister env fe out incremental" _ "(m1, False)" "(m', b)" "\<lambda>mr. mgr_ok env t (fst mr)"]
      spill_sister_mgr_ok [OF st] by (auto split: option.splits)
qed

lemma SetReputation_mgr_ok:
  assumes st: "store_ok env" and fe: "fe \<in> set (factionStore env)" and ok: "mgr_ok env t m"
    and run: "SetReputation env fe standing incremental noSpillover m = Inr (m', b)"
  shows "mgr_ok env t m'"
proof -
  let ?s = "onReputationChange env (fe_ID fe) standing incremental"
  obtain m1 res where 1: "(if noSpillover then Inr (m, False) else spill_over env fe ?s incremental m) = Inr (m1, res)"
    and 2: "m' = m1 \<or> (\<exists>m2 b2. SetOneFactionReputation env fe ?s incremental m1 = Inr (m2, b2) \<and> m' = SendState (rep_key fe) m2)"
    using run by (auto simp: SetReputation_def Let_def res_bind_eq_Inr split: if_splits)
  have "mgr_ok env t m1" using 1 ok spill_over_mgr_ok [OF st ok] by (auto split: if_splits)
  with 2 show ?thesis using SetOne_mgr_ok [OF st fe] SendState_mgr_ok by blast
qed

section \<open>Start\<close>

definition init_state :: "rep_env \<Rightarrow> faction_entry \<Rightarrow> faction_state" where
  "init_state env fe = \<lparr>fs_ID = fe_ID fe, ReputationListID = rep_key fe, Standing = 0,
     Flags = ucast (GetDefaultStateFlags env (Some fe)), needSend = True, needSave = True\<rparr>"

lemma tally_om_set_new:
  "k \<notin> fst ` set m \<Longrightarrow> tally P (om_set k v m) = tally P m + (if P (k, v) then 1 else 0)"
  by (induction k v m rule: om_set.induct) auto

text \<open>The state after a part of the store has been entered.\<close>

definition started :: "rep_env \<Rightarrow> faction_entry list \<Rightarrow> reputation_mgr \<Rightarrow> bool" where
  "started env es m \<longleftrightarrow> om_wf (factions m) \<and> fst ` set (factions m) = rep_key ` set es \<and>
     (\<forall>fe \<in> set es. map_of (factions m) (rep_key fe) = Some (init_state env fe)) \<and>
     visibleFactionCount m = tally shown (factions m) \<and> ranks_ok env m"

lemma init_faction_started:
  assumes ok: "started env es m" and c: "CanHaveReputation fe" and new: "rep_key fe \<notin> rep_key ` set es"
    and b: "base_at env (rep_key fe) = base_of env fe"
  shows "started env (es @ [fe]) (init_faction env fe m)"
proof -
  let ?f = "init_state env fe" and ?k = "rep_key fe"
  have fs: "factions (init_faction env fe m) = om_set ?k ?f (factions m)"
    using c by (simp add: init_faction_def Let_def init_state_def)
  have k: "?k \<notin> fst ` set (factions m)" using ok new by (simp add: started_def)
  have "visibleFactionCount (init_faction env fe m) = tally shown (factions (init_faction env fe m))"
    using ok c unfolding fs tally_om_set_new [OF k]
    by (simp add: started_def init_faction_def Let_def init_state_def shown_def)
  moreover have "ranks_ok env (init_faction env fe m)"
    using ok c unfolding ranks_ok_def fs tally_om_set_new [OF k]
    by (simp add: started_def ranks_ok_def init_faction_def Let_def UpdateRankCounters_def count_up_def count_down_def
        rank_at_least_def init_state_def b GetBaseRank_def base_of_def REP_HOSTILE_def REP_HONORED_def REP_REVERED_def REP_EXALTED_def)
  ultimately show ?thesis
    using ok new unfolding started_def fs by (auto simp: rev_image_eqI)
qed

lemma rep_entry_at: "store_ok env \<Longrightarrow> fe \<in> set (rep_entries env) \<Longrightarrow> entry_at env (rep_key fe) = Some fe"
  by (simp add: entry_at_def store_ok_def find_key)

lemma Initialize_prefix:
  assumes "store_ok env" "factionStore env = es @ rest"
  shows "started env (filter CanHaveReputation es) (fold (init_faction env) es (m\<lparr>factions := [], visibleFactionCount := 0,
     honoredFactionCount := 0, reveredFactionCount := 0, exaltedFactionCount := 0, sendFactionIncreased := False\<rparr>))"
  using assms(2)
proof (induction es arbitrary: rest rule: rev_induct)
  case Nil
  then show ?case by (simp add: started_def ranks_ok_def)
next
  case (snoc fe es)
  show ?case
  proof (cases "CanHaveReputation fe")
    case True
    have d: "distinct (map rep_key (filter CanHaveReputation es @ [fe]))"
      using assms(1) True snoc.prems by (auto simp: store_ok_def rep_entries_def)
    have "fe \<in> set (rep_entries env)" using True snoc.prems by (simp add: rep_entries_def)
    with assms(1) have "base_at env (rep_key fe) = base_of env fe"
      by (simp add: base_at_def base_of_def rep_entry_at)
    with init_faction_started [OF snoc.IH True, of "fe # rest"] True d snoc.prems show ?thesis by simp
  next
    case False
    with snoc.IH [of "fe # rest"] snoc.prems show ?thesis by (simp add: init_faction_def)
  qed
qed

lemma Initialize_started: "store_ok env \<Longrightarrow> started env (rep_entries env) (Initialize env m)"
  using Initialize_prefix [of env "factionStore env" "[]" m] by (simp add: Initialize_def rep_entries_def)

lemma started_lookup:
  assumes "store_ok env" "started env (rep_entries env) m" "map_of (factions m) k = Some f"
  obtains fe where "fe \<in> set (rep_entries env)" "entry_at env k = Some fe" "k = rep_key fe" "f = init_state env fe"
proof -
  from assms(3) have "k \<in> fst ` set (factions m)" by (metis map_of_in_fst option.distinct(1))
  with assms(2) obtain fe where "fe \<in> set (rep_entries env)" "k = rep_key fe" by (auto simp: started_def)
  with assms that show ?thesis by (auto simp: started_def rep_entry_at)
qed

lemma entries_in_store: "fe \<in> set (rep_entries env) \<Longrightarrow> fe \<in> set (factionStore env)"
  by (simp add: rep_entries_def)

lemma started_mgr_ok:
  assumes st: "store_ok env" and s: "started env (rep_entries env) m"
  shows "mgr_ok env t m"
proof -
  have ok: "faction_ok env k f" if "map_of (factions m) k = Some f" for k f
    using st s that
  proof (rule started_lookup)
    fix fe assume fe: "fe \<in> set (rep_entries env)" "entry_at env k = Some fe" "k = rep_key fe" "f = init_state env fe"
    then show ?thesis using base_at_bounds [OF st, of k] by (simp add: faction_ok_def init_state_def)
  qed
  have "\<forall>(k, f) \<in> set (factions m). faction_ok env k f"
    using s ok by (auto simp: started_def om_wf_distinct)
  moreover have "synced env t m"
    unfolding synced_def by (metis st s started_lookup init_state_def faction_state.select_convs(6))
  ultimately show ?thesis using s by (simp add: mgr_ok_def shape_ok_def started_def)
qed

section \<open>Loading\<close>

definition load_state :: "uint16 \<Rightarrow> faction_state \<Rightarrow> faction_state" where
  "load_state dbFlags f =
     (let f1 = (if bit dbFlags 0 then visible_state f else f);
          f2 = (if bit dbFlags 5 then inactive_state True f1 else f1)
      in if bit dbFlags 1 then war_state True f2 else if bit (Flags f2) 0 then war_state False f2 else f2)"

lemma and_flag16:
  fixes w :: uint16
  shows "w AND ucast FACTION_FLAG_VISIBLE \<noteq> 0 \<longleftrightarrow> bit w 0" "w AND ucast FACTION_FLAG_AT_WAR \<noteq> 0 \<longleftrightarrow> bit w 1"
    "w AND ucast FACTION_FLAG_INACTIVE \<noteq> 0 \<longleftrightarrow> bit w 5"
  using and_exp_eq_0_iff_not_bit [of w 0] and_exp_eq_0_iff_not_bit [of w 1] and_exp_eq_0_iff_not_bit [of w 5]
  by (simp_all add: faction_flag_defs)

lemma load_flags_effect:
  assumes sh: "shape_ok env m" and f: "map_of (factions m) k = Some f"
  shows "map_of (factions (load_flags env k w m)) = (map_of (factions m))(k \<mapsto> load_state w f)" (is ?lookup)
    and "shape_ok env (load_flags env k w m)" (is ?shape)
    and "\<And>r. tally (rank_at_least env r) (factions (load_flags env k w m)) = tally (rank_at_least env r) (factions m)" (is "\<And>r. ?tally r")
proof -
  define m1 where "m1 = (if bit w 0 then SetVisible_state env k m else m)"
  define m2 where "m2 = (if bit w 5 then adjust_faction k (inactive_state True) m1 else m1)"
  have wf: "om_wf (factions m)" using sh by (simp add: shape_ok_def)
  define f1 where "f1 = (if bit w 0 then visible_state f else f)"
  define f2 where "f2 = (if bit w 5 then inactive_state True f1 else f1)"
  have l1: "map_of (factions m1) = (map_of (factions m))(k \<mapsto> f1)"
    using f by (auto simp: m1_def f1_def SetVisible_state_factions [OF wf] map_of_adjust_faction fun_eq_iff)
  have l2: "map_of (factions m2) = (map_of (factions m))(k \<mapsto> f2)"
    by (auto simp: m2_def f2_def l1 map_of_adjust_faction fun_eq_iff)
  have lf: "load_flags env k w m = (if bit w 1 then adjust_faction k (war_state True) m2
      else if bit (Flags f2) 0 then adjust_faction k (war_state False) m2 else m2)"
    by (simp add: load_flags_def Let_def and_flag16 has_flag_def flag_bits l2 flip: m1_def m2_def)
  show ?lookup
    unfolding lf load_state_def Let_def f1_def [symmetric] f2_def [symmetric]
    by (auto simp: l2 map_of_adjust_faction fun_eq_iff)
  have "shape_ok env m1" using sh by (simp add: m1_def SetVisible_state_shape)
  then have "shape_ok env m2" by (simp add: m2_def inactive_shape)
  then show ?shape by (simp add: lf war_shape)
  have t1: "tally (rank_at_least env r) (factions m1) = tally (rank_at_least env r) (factions m)" for r
    by (simp add: m1_def SetVisible_state_tally wf)
  have "tally (rank_at_least env r) (factions (adjust_faction k (inactive_state True) m1)) = tally (rank_at_least env r) (factions m1)" for r
    unfolding adjust_is_map rep_map_sel by (rule tally_map_cong) (simp add: rank_at_least_def)
  with t1 show "?tally r" for r by (simp add: lf m2_def war_tally)
qed

lemma load_flags_sel [simp]:
  "honoredFactionCount (load_flags env k w m) = honoredFactionCount m" "reveredFactionCount (load_flags env k w m) = reveredFactionCount m"
  "exaltedFactionCount (load_flags env k w m) = exaltedFactionCount m"
  by (simp_all add: load_flags_def Let_def)

lemma load_state_sel [simp]: "Standing (load_state w f) = Standing f" "fs_ID (load_state w f) = fs_ID f"
  by (simp_all add: load_state_def Let_def)

definition loaded_state :: "rep_env \<Rightarrow> faction_entry \<Rightarrow> rep_row \<Rightarrow> faction_state \<Rightarrow> faction_state" where
  "loaded_state env fe r f = (let f1 = load_state (row_flags r) (f\<lparr>Standing := row_standing r\<rparr>) in
     settle_saved (row_flags r)
       (if ReputationToRank (base_of env fe + row_standing r) \<le> REP_HOSTILE then war_state True f1 else f1))"

lemma settle_saved_sel [simp]:
  "Standing (settle_saved w f) = Standing f" "Flags (settle_saved w f) = Flags f" "fs_ID (settle_saved w f) = fs_ID f"
  "ReputationListID (settle_saved w f) = ReputationListID f"
  by (simp_all add: settle_saved_def)

lemma load_row_run:
  assumes st: "store_ok env" and fe: "fe \<in> set (rep_entries env)" and i: "ucast (row_faction r) = fe_ID fe"
    and range: "Reputation_Bottom \<le> base_of env fe + row_standing r" "base_of env fe + row_standing r \<le> Reputation_Cap"
    and sh: "shape_ok env m" and rk: "ranks_ok env m" and f: "map_of (factions m) (rep_key fe) = Some f" "Standing f = 0"
  obtains m' where "load_row env r m = Inr m'" "shape_ok env m'" "ranks_ok env m'"
    "map_of (factions m') = (map_of (factions m))(rep_key fe \<mapsto> loaded_state env fe r f)"
proof -
  let ?k = "rep_key fe" and ?total = "base_of env fe + row_standing r"
  have e: "entry_at env ?k = Some fe" and c: "CanHaveReputation fe"
    using st fe by (simp_all add: rep_entry_at) (simp add: rep_entries_def)
  have b: "base_at env ?k = base_of env fe" by (simp add: base_at_def e base_of_def)
  have l: "LookupEntry env (ucast (row_faction r)) = Some fe" using st fe i by (simp add: LookupEntry_store entries_in_store)
  have chk: "chk32 ?total = Inr ?total" using range by (simp add: Reputation_Bottom_def Reputation_Cap_def)
  define h where "h = (\<lambda>f. f\<lparr>Standing := row_standing r\<rparr> :: faction_state)"
  define m1 where "m1 = adjust_faction ?k h m"
  define m2 where "m2 = UpdateRankCounters (ReputationToRank (base_of env fe)) (ReputationToRank ?total) m1"
  define m3 where "m3 = load_flags env ?k (row_flags r) m2"
  define m4 where "m4 = (if ReputationToRank ?total \<le> REP_HOSTILE then adjust_faction ?k (war_state True) m3 else m3)"
  define m5 where "m5 = adjust_faction ?k (settle_saved (row_flags r)) m4"
  have s1: "shape_ok env m1" unfolding m1_def
    using sh range f shape_lookup [OF sh f(1)] b by (intro adjust_shape) (auto simp: faction_ok_def h_def)
  have s2: "shape_ok env m2" by (rule shape_cong [THEN iffD2, OF _ _ s1]) (simp_all add: m2_def)
  have wf: "om_wf (factions m)" using sh by (simp add: shape_ok_def)
  have r2: "ranks_ok env m2" unfolding m2_def
    by (rule UpdateRankCounters_ranks [OF wf f(1) rk, where h = h])
      (simp_all add: m1_def adjust_faction_def b f(2) h_def)
  have l2: "map_of (factions m2) = (map_of (factions m))(?k \<mapsto> h f)"
    by (auto simp: m2_def m1_def map_of_adjust_faction fun_eq_iff f)
  then have f2: "map_of (factions m2) ?k = Some (h f)" by simp
  note fl = load_flags_effect [OF s2 f2, where w = "row_flags r", folded m3_def]
  have r3: "ranks_ok env m3" using r2 fl(3) by (simp add: ranks_ok_def m3_def)
  have "GetRank env m3 (Some fe) = Inr (ReputationToRank ?total)"
    using chk by (simp add: GetRank_def GetReputation_def GetState_def c GetState_id_def fl(1) h_def base_of_def)
  then have run: "load_row env r m = Inr m5"
    by (simp add: load_row_def l c Let_def f(1) chk flip: base_of_def h_def)
      (simp add: m5_def m4_def m3_def m2_def m1_def h_def)
  have s4: "shape_ok env m4" and r4: "ranks_ok env m4"
    using fl(2) r3 by (simp_all add: m4_def war_shape adjust_ranks)
  have s5: "shape_ok env m5" unfolding m5_def
    using s4 by (intro adjust_shape) (auto dest!: shape_lookup simp: faction_ok_def)
  have r5: "ranks_ok env m5" unfolding m5_def using r4 by (rule adjust_ranks) simp
  have "map_of (factions m5) = (map_of (factions m))(?k \<mapsto> loaded_state env fe r f)"
    unfolding m5_def m4_def loaded_state_def
    by (auto simp: map_of_adjust_faction fun_eq_iff fl(1) l2 Let_def h_def)
  with that run s5 r5 show ?thesis by metis
qed

lemma entry_key_inj:
  "store_ok env \<Longrightarrow> fe \<in> set (rep_entries env) \<Longrightarrow> fe' \<in> set (rep_entries env) \<Longrightarrow> rep_key fe = rep_key fe' \<Longrightarrow> fe = fe'"
  by (metis option.inject rep_entry_at)

lemma ucast_ucast16: "ucast (ucast w :: uint32) = (w :: uint16)"
  by (rule bit_word_eqI) (simp add: bit_simps)

lemma ucast_inj16: "(ucast (x :: uint16) :: uint32) = ucast y \<Longrightarrow> x = y"
  by (metis ucast_ucast16)

lemma ucast_small16:
  fixes i :: uint32
  assumes "i < 2 ^ 16"
  shows "ucast (ucast i :: uint16) = i"
proof -
  have "unat i < 2 ^ 16" using assms by (simp add: word_less_nat_alt)
  then have "unat (ucast (ucast i :: uint16) :: uint32) = unat i"
    by (simp add: unsigned_ucast_eq unsigned_take_bit_eq take_bit_nat_eq_self_iff)
  then show ?thesis by (simp add: word_unat_eq_iff)
qed

text \<open>What a list of rows makes of the entries.\<close>

definition row_for :: "rep_env \<Rightarrow> faction_entry \<Rightarrow> rep_row \<Rightarrow> bool" where
  "row_for env fe r \<longleftrightarrow> fe \<in> set (rep_entries env) \<and> ucast (row_faction r) = fe_ID fe"

definition loads :: "rep_env \<Rightarrow> rep_row list \<Rightarrow> reputation_mgr \<Rightarrow> reputation_mgr \<Rightarrow> bool" where
  "loads env rows m m' \<longleftrightarrow> shape_ok env m' \<and> ranks_ok env m' \<and>
    (\<forall>r fe. r \<in> set rows \<longrightarrow> row_for env fe r \<longrightarrow>
       map_of (factions m') (rep_key fe) = Some (loaded_state env fe r (init_state env fe))) \<and>
    (\<forall>k. (\<forall>r fe. r \<in> set rows \<longrightarrow> row_for env fe r \<longrightarrow> rep_key fe \<noteq> k) \<longrightarrow>
       map_of (factions m') k = map_of (factions m) k)"

lemma row_for_unique: "store_ok env \<Longrightarrow> row_for env fe r \<Longrightarrow> row_for env fe' r \<Longrightarrow> fe' = fe"
  unfolding row_for_def by (metis LookupEntry_store entries_in_store option.inject)

lemma row_for_other:
  assumes "store_ok env" "row_for env fe r" "row_for env fe' r'" "row_faction r' \<noteq> row_faction r"
  shows "rep_key fe' \<noteq> rep_key fe"
  using assms unfolding row_for_def by (metis entry_key_inj ucast_inj16)

lemma load_rows_run:
  assumes st: "store_ok env" and rows: "rows_ok env rows" and sh: "shape_ok env m" and rk: "ranks_ok env m"
    and fresh: "\<And>r fe. r \<in> set rows \<Longrightarrow> row_for env fe r \<Longrightarrow> map_of (factions m) (rep_key fe) = Some (init_state env fe)"
  shows "\<exists>m'. forE (load_row env) rows m = Inr m' \<and> loads env rows m m'"
  using rows sh rk fresh
proof (induction rows arbitrary: m)
  case (Cons r rows)
  from Cons.prems(1) obtain fe where fe: "fe \<in> set (rep_entries env)" "ucast (row_faction r) = fe_ID fe"
    "Reputation_Bottom \<le> base_of env fe + row_standing r" "base_of env fe + row_standing r \<le> Reputation_Cap"
    by (auto simp: rows_ok_def row_ok_def)
  then have rf: "row_for env fe r" by (simp add: row_for_def)
  then have f: "map_of (factions m) (rep_key fe) = Some (init_state env fe)" by (intro Cons.prems(4)) simp_all
  obtain m1 where m1: "load_row env r m = Inr m1" "shape_ok env m1" "ranks_ok env m1"
    "map_of (factions m1) = (map_of (factions m))(rep_key fe \<mapsto> loaded_state env fe r (init_state env fe))"
    by (rule load_row_run [OF st fe Cons.prems(2,3) f]) (auto simp: init_state_def)
  have other: "rep_key fe' \<noteq> rep_key fe" if "r' \<in> set rows" "row_for env fe' r'" for r' fe'
  proof (rule row_for_other [OF st rf that(2)])
    show "row_faction r' \<noteq> row_faction r" using that(1) Cons.prems(1) by (auto simp: rows_ok_def image_iff)
  qed
  have "rows_ok env rows" using Cons.prems(1) by (simp add: rows_ok_def)
  moreover have "map_of (factions m1) (rep_key fe') = Some (init_state env fe')" if "r' \<in> set rows" "row_for env fe' r'" for r' fe'
    using Cons.prems(4) [of r' fe'] other [OF that] that by (simp add: m1(4))
  ultimately obtain m' where m': "forE (load_row env) rows m1 = Inr m'" and l: "loads env rows m1 m'"
    using Cons.IH [OF _ m1(2,3)] by blast
  have "map_of (factions m') (rep_key fe) = map_of (factions m1) (rep_key fe)"
    using l other unfolding loads_def by blast
  then have "map_of (factions m') (rep_key fe) = Some (loaded_state env fe r (init_state env fe))" by (simp add: m1(4))
  then have "map_of (factions m') (rep_key fe') = Some (loaded_state env fe' r' (init_state env fe'))"
    if "r' \<in> set (r # rows)" "row_for env fe' r'" for r' fe'
    using that l row_for_unique [OF st rf] unfolding loads_def by (metis set_ConsD)
  moreover have "map_of (factions m') k = map_of (factions m) k"
    if "\<forall>r' fe'. r' \<in> set (r # rows) \<longrightarrow> row_for env fe' r' \<longrightarrow> rep_key fe' \<noteq> k" for k
  proof -
    have "map_of (factions m') k = map_of (factions m1) k" using that l unfolding loads_def by (metis list.set_intros(2))
    moreover have "rep_key fe \<noteq> k" using that rf by simp
    ultimately show ?thesis by (simp add: m1(4))
  qed
  ultimately have "loads env (r # rows) m m'" using l unfolding loads_def by blast
  with m' m1(1) show ?case by auto
qed (simp add: loads_def)

lemma LoadFromDB_run:
  assumes st: "store_ok env" and rows: "rows_ok env rows"
  obtains m' where "LoadFromDB env rows m = Inr m'" "loads env rows (Initialize env m) m'"
    "started env (rep_entries env) (Initialize env m)"
proof -
  have s: "started env (rep_entries env) (Initialize env m)" using st by (rule Initialize_started)
  then have "shape_ok env (Initialize env m)" "ranks_ok env (Initialize env m)"
    using started_mgr_ok [OF st s, of "[]"] by (simp_all add: mgr_ok_def)
  then obtain m' where "LoadFromDB env rows m = Inr m'" "loads env rows (Initialize env m) m'"
    unfolding LoadFromDB_def using load_rows_run [OF st rows, of "Initialize env m"] s
    by (auto simp: started_def row_for_def)
  with that s show ?thesis by blast
qed

text \<open>An entry without a row is as at the start.\<close>

lemma loads_none:
  assumes "store_ok env" "loads env rows m m'" "started env (rep_entries env) m" "fe \<in> set (rep_entries env)"
    "\<forall>r \<in> set rows. \<not> row_for env fe r"
  shows "map_of (factions m') (rep_key fe) = Some (init_state env fe)"
proof -
  have "rep_key fe' \<noteq> rep_key fe" if "r \<in> set rows" "row_for env fe' r" for r fe'
    using that assms(1,4,5) entry_key_inj [of env fe' fe] by (auto simp: row_for_def)
  with assms(2) have "map_of (factions m') (rep_key fe) = map_of (factions m) (rep_key fe)"
    unfolding loads_def by blast
  with assms show ?thesis by (simp add: started_def)
qed

lemma needSave_kept:
  "needSave f \<Longrightarrow> needSave (war_state on f)" "needSave f \<Longrightarrow> needSave (load_state w f)"
proof -
  have w: "needSave f \<Longrightarrow> needSave (war_state on f)" "needSave f \<Longrightarrow> needSave (inactive_state on f)"
    "needSave f \<Longrightarrow> needSave (visible_state f)" for f on
    by (simp_all add: war_state_def inactive_state_def visible_state_def mark_changed_def)
  show "needSave f \<Longrightarrow> needSave (war_state on f)" by (rule w)
  show "needSave f \<Longrightarrow> needSave (load_state w f)" by (simp add: load_state_def Let_def w)
qed

lemma settle_saved_cases: "needSave f \<Longrightarrow> needSave (settle_saved w f) \<or> ucast (Flags (settle_saved w f)) = w"
  by (simp add: settle_saved_def)

lemma loaded_state_saved: "needSave f \<Longrightarrow> needSave (loaded_state env fe r f) \<or> ucast (Flags (loaded_state env fe r f)) = row_flags r"
  unfolding loaded_state_def Let_def by (rule settle_saved_cases) (simp add: needSave_kept)

lemma loaded_state_sel [simp]:
  "Standing (loaded_state env fe r f) = row_standing r" "fs_ID (loaded_state env fe r f) = fs_ID f"
  by (simp_all add: loaded_state_def Let_def)

lemma LoadFromDB_mgr_ok:
  assumes st: "store_ok env" and rows: "rows_ok env rows" and t: "set rows = set (player_rows env t)"
    and run: "LoadFromDB env rows m = Inr m'"
  shows "mgr_ok env t m'"
proof -
  have l: "loads env rows (Initialize env m) m'" and s: "started env (rep_entries env) (Initialize env m)"
    using LoadFromDB_run [OF st rows, of m] run by auto
  have "needSave f \<or> row_of f \<in> set (player_rows env t)" if f: "map_of (factions m') k = Some f" for k f
  proof -
    have "shape_ok env m'" using l by (simp add: loads_def)
    with f obtain fe where fe: "fe \<in> set (rep_entries env)" "k = rep_key fe" using shape_key by blast
    show ?thesis
    proof (cases "\<exists>r \<in> set rows. row_for env fe r")
      case True
      then obtain r where r: "r \<in> set rows" "row_for env fe r" by blast
      with l fe f have ff: "f = loaded_state env fe r (init_state env fe)" by (simp add: loads_def)
      have "ucast (fe_ID fe) = row_faction r" using r(2) unfolding row_for_def by (metis ucast_ucast16)
      then have "row_of f = r" if "\<not> needSave f"
        using that loaded_state_saved [of "init_state env fe" env fe r]
        by (auto simp: ff row_of_def init_state_def)
      with r t show ?thesis by auto
    next
      case False
      with loads_none [OF st l s fe(1)] fe f have "f = init_state env fe" by auto
      then show ?thesis by (simp add: init_state_def)
    qed
  qed
  with l show ?thesis by (simp add: mgr_ok_def loads_def synced_def)
qed

section \<open>Saving\<close>

lemma commit_append: "commit (xs @ ys) t = commit ys (commit xs t)"
  by (simp add: commit_def)

lemma commit_one:
  "player_rows env (commit (save_stmts env f) t) =
     (if needSave f then filter (\<lambda>r. row_faction r \<noteq> ucast (fs_ID f)) (player_rows env t) @ [row_of f] else player_rows env t)"
proof -
  have "map snd (filter (\<lambda>(g, r). g = p) (filter (\<lambda>(g, r). \<not> (g = p \<and> row_faction r = i)) t)) =
      filter (\<lambda>r. row_faction r \<noteq> i) (map snd (filter (\<lambda>(g, r). g = p) t))" for p i and t :: rep_table
    by (induction t) auto
  then show ?thesis by (simp add: commit_def save_stmts_def player_rows_def row_of_def)
qed

text \<open>What a transaction leaves: the rows of the saved entries, and the other rows as they were.\<close>

lemma commit_all:
  assumes "distinct (map (\<lambda>f. ucast (fs_ID f) :: uint16) fs)"
  shows "set (player_rows env (commit (concat (map (save_stmts env) fs)) t)) =
      {r \<in> set (player_rows env t). \<forall>f \<in> set fs. needSave f \<longrightarrow> row_faction r \<noteq> ucast (fs_ID f)} \<union> row_of ` {f \<in> set fs. needSave f}"
    and "distinct (map row_faction (player_rows env t)) \<Longrightarrow>
      distinct (map row_faction (player_rows env (commit (concat (map (save_stmts env) fs)) t)))"
proof -
  have "set (player_rows env (commit (concat (map (save_stmts env) fs)) t)) =
      {r \<in> set (player_rows env t). \<forall>f \<in> set fs. needSave f \<longrightarrow> row_faction r \<noteq> ucast (fs_ID f)} \<union> row_of ` {f \<in> set fs. needSave f} \<and>
      (distinct (map row_faction (player_rows env t)) \<longrightarrow>
      distinct (map row_faction (player_rows env (commit (concat (map (save_stmts env) fs)) t))))"
    using assms
  proof (induction fs arbitrary: t)
    case (Cons f fs)
    have new: "\<forall>f' \<in> set fs. ucast (fs_ID f') \<noteq> (ucast (fs_ID f) :: uint16)" using Cons.prems by (auto simp: image_iff)
    let ?t = "commit (save_stmts env f) t"
    have d: "distinct (map row_faction (player_rows env ?t))" if "distinct (map row_faction (player_rows env t))"
      using that by (auto simp: commit_one distinct_map_filter row_of_def)
    have "{r \<in> set (player_rows env ?t). \<forall>f \<in> set fs. needSave f \<longrightarrow> row_faction r \<noteq> ucast (fs_ID f)} =
        {r \<in> set (player_rows env t). \<forall>f \<in> set (f # fs). needSave f \<longrightarrow> row_faction r \<noteq> ucast (fs_ID f)} \<union> (if needSave f then {row_of f} else {})"
      using new by (auto simp: commit_one row_of_def)
    with Cons.IH [of ?t] Cons.prems d show ?case by (auto simp: commit_append)
  qed (simp add: commit_def)
  then show "set (player_rows env (commit (concat (map (save_stmts env) fs)) t)) =
      {r \<in> set (player_rows env t). \<forall>f \<in> set fs. needSave f \<longrightarrow> row_faction r \<noteq> ucast (fs_ID f)} \<union> row_of ` {f \<in> set fs. needSave f}"
    "distinct (map row_faction (player_rows env t)) \<Longrightarrow>
      distinct (map row_faction (player_rows env (commit (concat (map (save_stmts env) fs)) t)))" by blast+
qed

lemma shape_entry:
  assumes "store_ok env" "shape_ok env m" "(k, f) \<in> set (factions m)"
  obtains fe where "fe \<in> set (rep_entries env)" "k = rep_key fe" "fs_ID f = fe_ID fe" "row_for env fe (row_of f)"
    "faction_ok env k f" "base_at env k = base_of env fe"
proof -
  have "k \<in> rep_key ` set (rep_entries env)" and ok: "faction_ok env k f" using assms by (force simp: shape_ok_def)+
  then obtain fe where fe: "fe \<in> set (rep_entries env)" "k = rep_key fe" by blast
  with assms(1) have e: "entry_at env k = Some fe" by (simp add: rep_entry_at)
  with ok have i: "fs_ID f = fe_ID fe" by (simp add: faction_ok_def)
  have "fe_ID fe < 2 ^ 16" using assms(1) fe by (simp add: store_ok_def entries_in_store)
  then have "row_for env fe (row_of f)" using fe i by (simp add: row_for_def row_of_def ucast_small16)
  with that fe i ok e show ?thesis by (simp add: base_at_def base_of_def)
qed

lemma saved_ids_distinct:
  assumes "store_ok env" "shape_ok env m"
  shows "distinct (map (\<lambda>f. ucast (fs_ID f) :: uint16) (map snd (factions m)))"
proof -
  have d: "distinct (map fst (factions m))" using assms(2) by (simp add: shape_ok_def om_wf_distinct)
  have "inj_on (\<lambda>kf. ucast (fs_ID (snd kf)) :: uint16) (set (factions m))"
  proof (rule inj_onI, clarify)
    fix k f k' f'
    assume kf: "(k, f) \<in> set (factions m)" "(k', f') \<in> set (factions m)"
      and "ucast (fs_ID (snd (k, f))) = (ucast (fs_ID (snd (k', f'))) :: uint16)"
    then have "row_faction (row_of f) = row_faction (row_of f')" by (simp add: row_of_def)
    moreover obtain fe where "k = rep_key fe" "row_for env fe (row_of f)" using assms kf(1) by (rule shape_entry)
    moreover obtain fe' where "k' = rep_key fe'" "row_for env fe' (row_of f')" using assms kf(2) by (rule shape_entry)
    ultimately have "k = k'" using row_for_unique [OF assms(1)] unfolding row_for_def by metis
    with kf d show "k = k' \<and> f = f'" by (auto dest: eq_key_imp_eq_value)
  qed
  with d show ?thesis by (simp add: distinct_map comp_def)
qed

lemma SaveToDB_ok:
  assumes st: "store_ok env" and ok: "mgr_ok env t m" and rows: "rows_ok env (player_rows env t)"
    and run: "SaveToDB env m = (m', stmts)"
  shows "mgr_ok env (commit stmts t) m'" "rows_ok env (player_rows env (commit stmts t))"
    "\<And>k f. (k, f) \<in> set (factions m) \<Longrightarrow> row_of f \<in> set (player_rows env (commit stmts t))"
proof -
  have sh: "shape_ok env m" and wf: "om_wf (factions m)" using ok by (simp_all add: mgr_ok_def shape_ok_def)
  let ?fs = "map snd (factions m)"
  have m': "m' = rep_map (\<lambda>_ f. f\<lparr>needSave := False\<rparr>) m" and stmts: "stmts = concat (map (save_stmts env) ?fs)"
    using run by (simp_all add: SaveToDB_def rep_map_def)
  note ids = saved_ids_distinct [OF st sh]
  note set' = commit_all(1) [OF ids, of env t, folded stmts]
  show stored: "row_of f \<in> set (player_rows env (commit stmts t))" if kf: "(k, f) \<in> set (factions m)" for k f
  proof (cases "needSave f")
    case True
    with kf show ?thesis unfolding set' by force
  next
    case False
    then have "row_of f \<in> set (player_rows env t)" using ok kf wf by (auto simp: mgr_ok_def synced_def om_wf_distinct)
    moreover have "ucast (fs_ID f') \<noteq> (ucast (fs_ID f) :: uint16)" if "f' \<in> set ?fs" "needSave f'" for f'
    proof
      assume "ucast (fs_ID f') = (ucast (fs_ID f) :: uint16)"
      moreover have "f \<in> set ?fs" using kf by force
      ultimately have "f' = f" using ids that(1) unfolding distinct_map by (meson inj_onD)
      with False that(2) show False by simp
    qed
    ultimately show ?thesis unfolding set' by (force simp: row_of_def)
  qed
  have "row_ok env (row_of f)" if "f \<in> set ?fs" for f
  proof -
    from that obtain k where "(k, f) \<in> set (factions m)" by auto
    with st sh obtain fe where "fe \<in> set (rep_entries env)" "row_for env fe (row_of f)" "faction_ok env k f" "base_at env k = base_of env fe"
      by (rule shape_entry)
    then show ?thesis by (auto simp: row_ok_def row_for_def faction_ok_def row_of_def)
  qed
  with rows commit_all(2) [OF ids, of env t, folded stmts] show "rows_ok env (player_rows env (commit stmts t))"
    unfolding rows_ok_def set' by auto
  have "shape_ok env m'" unfolding m' using sh by (rule rep_map_shape) (auto simp: faction_ok_def)
  moreover have "ranks_ok env m'" unfolding m' using ok by (intro rep_map_ranks) (auto simp: mgr_ok_def)
  moreover have "synced env (commit stmts t) m'" unfolding synced_def m' map_of_rep_map
    using stored by (force simp: row_of_def dest: map_of_SomeD)
  ultimately show "mgr_ok env (commit stmts t) m'" by (simp add: mgr_ok_def)
qed

section \<open>Sequences of operations\<close>

inductive rep_step :: "rep_env \<Rightarrow> reputation_mgr \<times> rep_table \<Rightarrow> reputation_mgr \<times> rep_table \<Rightarrow> bool" for env where
  rs_load: "mset rows = mset (player_rows env t) \<Longrightarrow> LoadFromDB env rows m = Inr m' \<Longrightarrow> rep_step env (m, t) (m', t)"
| rs_save: "SaveToDB env m = (m', stmts) \<Longrightarrow> rep_step env (m, t) (m', commit stmts t)"
| rs_others: "player_rows env t' = player_rows env t \<Longrightarrow> rep_step env (m, t) (m, t')"
| rs_set: "fe \<in> set (factionStore env) \<Longrightarrow> SetReputation env fe s inc noSpill m = Inr (m', b) \<Longrightarrow> rep_step env (m, t) (m', t)"
| rs_set_one: "fe \<in> set (factionStore env) \<Longrightarrow> SetOneFactionReputation env fe s inc m = Inr (m', b) \<Longrightarrow> rep_step env (m, t) (m', t)"
| rs_visible: "rep_step env (m, t) (SetVisible env fe m, t)"
| rs_visible_template: "rep_step env (m, t) (SetVisible_template env ft m, t)"
| rs_war: "rep_step env (m, t) (SetAtWar k on m, t)"
| rs_inactive: "rep_step env (m, t) (SetInactive k on m, t)"
| rs_force: "rep_step env (m, t) (ApplyForceReaction i rank app m, t)"
| rs_send_force: "rep_step env (m, t) (SendForceReactions m, t)"
| rs_send_state: "rep_step env (m, t) (SendState k m, t)"
| rs_send_states: "rep_step env (m, t) (SendStates m, t)"
| rs_send_initial: "SendInitialReputations m = Inr m' \<Longrightarrow> rep_step env (m, t) (m', t)"

definition sys_ok :: "rep_env \<Rightarrow> reputation_mgr \<times> rep_table \<Rightarrow> bool" where
  "sys_ok env mt \<longleftrightarrow> mgr_ok env (snd mt) (fst mt) \<and> rows_ok env (player_rows env (snd mt))"

lemma rep_step_ok: "rep_step env mt mt' \<Longrightarrow> store_ok env \<Longrightarrow> sys_ok env mt \<Longrightarrow> sys_ok env mt'"
proof (induction rule: rep_step.induct)
  case (rs_load rows t m m')
  then have "rows_ok env rows"
    using mset_eq_setD [OF rs_load(1)] mset_eq_imp_distinct_iff [of "map row_faction rows" "map row_faction (player_rows env t)"]
    by (simp add: sys_ok_def rows_ok_def)
  with rs_load mset_eq_setD [OF rs_load(1)] show ?case by (auto simp: sys_ok_def intro: LoadFromDB_mgr_ok)
next
  case (rs_save m m' stmts t)
  then show ?case using SaveToDB_ok(1,2) [of env t m m' stmts] by (simp add: sys_ok_def)
next
  case (rs_others t' t m)
  then show ?case by (simp add: sys_ok_def mgr_ok_def synced_def)
qed (auto simp: sys_ok_def intro: SetReputation_mgr_ok SetOne_mgr_ok SetVisible_mgr_ok SetVisible_template_mgr_ok SetAtWar_mgr_ok
    SetInactive_mgr_ok ApplyForceReaction_mgr_ok SendForceReactions_mgr_ok SendState_mgr_ok SendStates_mgr_ok SendInitialReputations_mgr_ok)

definition rep_start :: "rep_env \<Rightarrow> reputation_mgr \<times> rep_table \<Rightarrow> bool" where
  "rep_start env mt \<longleftrightarrow> fst mt = Initialize env rep_mgr_new \<and> player_rows env (snd mt) = []"

lemma rep_start_ok: "store_ok env \<Longrightarrow> rep_start env mt \<Longrightarrow> sys_ok env mt"
  by (simp add: rep_start_def sys_ok_def rows_ok_def started_mgr_ok Initialize_started)

lemma rep_reach_ok: "(rep_step env)\<^sup>*\<^sup>* mt mt' \<Longrightarrow> store_ok env \<Longrightarrow> rep_start env mt \<Longrightarrow> sys_ok env mt'"
  by (induction rule: rtranclp_induct) (auto intro: rep_start_ok rep_step_ok)

section \<open>Loading what was saved\<close>

lemma war_keeps_bits: "bit (Flags f) n \<Longrightarrow> bit (Flags (war_state True f)) n"
  by (simp add: war_state_def mark_changed_def flag_bits)

text \<open>No flag that the operations can have set is lost.\<close>

lemma load_state_keeps:
  assumes ok: "flags_ok d w" and f: "Flags f = d" and n: "bit w n"
  shows "bit (Flags (load_state (ucast w) f)) n"
proof -
  have u: "bit (ucast w :: uint16) 0 = bit w 0" "bit (ucast w :: uint16) 1 = bit w 1" "bit (ucast w :: uint16) 5 = bit w 5"
    by (simp_all add: bit_simps)
  define f1 where "f1 = (if bit w 0 then visible_state f else f)"
  define f2 where "f2 = (if bit w 5 then inactive_state True f1 else f1)"
  have l: "load_state (ucast w) f = (if bit w 1 then war_state True f2 else if bit (Flags f2) 0 then war_state False f2 else f2)"
    unfolding load_state_def Let_def u f1_def [symmetric] f2_def [symmetric] by (rule refl)
  have 1: "bit w 0 \<Longrightarrow> bit (Flags f1) 0" "k \<noteq> 0 \<Longrightarrow> bit (Flags f1) k = bit d k" for k
    using ok f unfolding flags_ok_def f1_def visible_state_def mark_changed_def by (auto simp: flag_bits)
  have 2: "bit w 0 \<Longrightarrow> bit (Flags f2) 0" "bit w 5 \<Longrightarrow> bit (Flags f2) 5" "k \<notin> {0, 5} \<Longrightarrow> bit (Flags f2) k = bit d k" for k
    using ok 1 unfolding flags_ok_def f2_def inactive_state_def mark_changed_def by (auto simp: flag_bits)
  have 3: "bit (Flags (war_state True f2)) 1" if "bit w 1"
    using ok 2(3) [of 1] 2(3) [of 4] that unfolding flags_ok_def war_state_def mark_changed_def by (auto simp: flag_bits)
  have 4: "bit (Flags (war_state False f2)) k = bit (Flags f2) k" if "k \<noteq> 1" for k
    using that by (simp add: war_state_def mark_changed_def flag_bits)
  have 5: "bit (Flags f2) n" if "n \<noteq> 1"
    using 2 n that ok unfolding flags_ok_def by (cases "n = 0"; cases "n = 5") auto
  show ?thesis using 3 4 5 n unfolding l by (cases "n = 1") (auto simp: war_keeps_bits)
qed

lemma loaded_keeps_flags:
  assumes "flags_ok (ucast (GetDefaultStateFlags env (Some fe))) (Flags f)"
  shows "Flags f AND Flags (loaded_state env fe (row_of f) (init_state env fe)) = Flags f"
proof -
  have "bit (Flags (load_state (ucast (Flags f)) ((init_state env fe)\<lparr>Standing := Standing f\<rparr>))) n" if "bit (Flags f) n" for n
    by (rule load_state_keeps [OF assms _ that]) (simp add: init_state_def)
  then have "bit (Flags (loaded_state env fe (row_of f) (init_state env fe))) n" if "bit (Flags f) n" for n
    using that by (simp add: loaded_state_def Let_def row_of_def war_keeps_bits)
  then show ?thesis by (intro bit_word_eqI) (auto simp: bit_and_iff)
qed

text \<open>Maps with the same keys are counted alike when their entries are.\<close>

lemma tally_same:
  assumes "om_wf a" "om_wf b" "fst ` set a = fst ` set b"
    "\<And>k f g. (k, f) \<in> set a \<Longrightarrow> map_of b k = Some g \<Longrightarrow> P (k, f) = P (k, g)"
  shows "length (filter P a) = length (filter P b)"
proof -
  have k: "map fst a = map fst b" using assms(1-3) by (intro strict_sorted_equal) auto
  then have l: "length a = length b" by (metis length_map)
  have "P (a ! i) = P (b ! i)" if "i < length a" for i
  proof -
    have e: "fst (a ! i) = fst (b ! i)" using k that l by (metis nth_map)
    have "map_of b (fst (b ! i)) = Some (snd (b ! i))"
      using assms(2) that l by (simp add: om_wf_distinct)
    with assms(4) [of "fst (a ! i)" "snd (a ! i)" "snd (b ! i)"] that e show ?thesis by (metis nth_mem prod.collapse)
  qed
  then have "{i. i < length a \<and> P (a ! i)} = {i. i < length b \<and> P (b ! i)}" using l by auto
  then show ?thesis by (simp add: length_filter_conv_card)
qed

lemma saved_then_loaded:
  assumes st: "store_ok env" and ok: "sys_ok env (m, t)" and save: "SaveToDB env m = (m1, stmts)"
    and rows: "mset rows = mset (player_rows env (commit stmts t))" and load: "LoadFromDB env rows m0 = Inr m2"
    and f: "(k, f) \<in> set (factions m)"
  obtains f2 where "map_of (factions m2) k = Some f2" "Standing f2 = Standing f" "Flags f AND Flags f2 = Flags f"
proof -
  have sh: "shape_ok env m" and mo: "mgr_ok env t m" and ro: "rows_ok env (player_rows env t)" using ok by (simp_all add: sys_ok_def mgr_ok_def)
  note sv = SaveToDB_ok [OF st mo ro save]
  have rs: "set rows = set (player_rows env (commit stmts t))" using rows by (rule mset_eq_setD)
  have "distinct (map row_faction rows)"
    using sv(2) rows mset_eq_imp_distinct_iff [of "map row_faction rows" "map row_faction (player_rows env (commit stmts t))"]
    by (simp add: rows_ok_def)
  with sv(2) rs have "rows_ok env rows" by (simp add: rows_ok_def)
  with load have l: "loads env rows (Initialize env m0) m2" using LoadFromDB_run [OF st, of rows m0] by auto
  obtain fe where fe: "fe \<in> set (rep_entries env)" "k = rep_key fe" "row_for env fe (row_of f)" "faction_ok env k f"
    using st sh f by (rule shape_entry)
  have "row_of f \<in> set rows" using sv(3) [OF f] rs by simp
  with l fe have "map_of (factions m2) k = Some (loaded_state env fe (row_of f) (init_state env fe))" by (simp add: loads_def)
  moreover have "flags_ok (ucast (GetDefaultStateFlags env (Some fe))) (Flags f)"
    using fe rep_entry_at [OF st fe(1)] by (simp add: faction_ok_def)
  ultimately show ?thesis using that loaded_keeps_flags by (simp add: row_of_def)
qed

section \<open>A sample world\<close>

definition sample_fe :: "uint32 \<Rightarrow> int \<Rightarrow> int \<Rightarrow> uint16 \<Rightarrow> faction_entry" where
  "sample_fe i idx base flags = \<lparr>ReputationRaceMask = [1, 0, 0, 0], fe_ID = i, ReputationBase = [base, 0, 0, 0],
     ParentFactionMod = [Some (1 / 4), Some (1 / 4)], ReputationIndex = idx, ReputationClassMask = [0, 0, 0, 0],
     ReputationFlags = [flags, 0, 0, 0], ParentFactionID = 469, ParentFactionCap = [5, 7]\<rparr>"

definition sample_env :: rep_env where
  "sample_env = \<lparr>raceMask = 1, classMask = 1, playerLow = 7, playerLoading = False, gainRate = Some 1,
     factionStore = [sample_fe 72 19 3100 17, sample_fe 47 20 3100 17, sample_fe 469 (- 1) 0 0],
     repSpillover = (\<lambda>_. None), factionTeamList = (\<lambda>i. if i = 469 then Some [72, 47] else None),
     onReputationChange = (\<lambda>_ s _. s)\<rparr>"

definition sample_mgr :: reputation_mgr where
  "sample_mgr = (case SetReputation sample_env (sample_fe 72 19 3100 17) 7000 True False (Initialize sample_env rep_mgr_new) of
     Inl _ \<Rightarrow> rep_mgr_new | Inr (m, _) \<Rightarrow> m)"

lemma sample_store: "store_ok sample_env"
  by code_simp

lemma sample_start: "rep_start sample_env (Initialize sample_env rep_mgr_new, [])"
  by (simp add: rep_start_def player_rows_def)

lemma sample_run: "\<exists>b. SetReputation sample_env (sample_fe 72 19 3100 17) 7000 True False (Initialize sample_env rep_mgr_new) = Inr (sample_mgr, b)"
proof -
  have "\<not> isl (SetReputation sample_env (sample_fe 72 19 3100 17) 7000 True False (Initialize sample_env rep_mgr_new))"
    by code_simp
  then show ?thesis unfolding sample_mgr_def
    by (cases "SetReputation sample_env (sample_fe 72 19 3100 17) 7000 True False (Initialize sample_env rep_mgr_new)") auto
qed

lemma sample_reach: "(rep_step sample_env)\<^sup>*\<^sup>* (Initialize sample_env rep_mgr_new, []) (sample_mgr, [])"
proof -
  obtain b where b: "SetReputation sample_env (sample_fe 72 19 3100 17) 7000 True False (Initialize sample_env rep_mgr_new) = Inr (sample_mgr, b)"
    using sample_run by blast
  have "rep_step sample_env (Initialize sample_env rep_mgr_new, []) (sample_mgr, [])"
    by (rule rs_set [OF _ b]) (simp add: sample_env_def)
  then show ?thesis by simp
qed

lemma sample_standings: "map (\<lambda>(k, f). (k, Standing f)) (factions sample_mgr) = [(19, 7000), (20, 437)]"
  by code_simp

section \<open>Properties\<close>

text \<open>The ranks divide the standings without gaps: a standing between the bottom and the cap lies in the
  stretch of points that belongs to its rank, and a higher standing never has a lower rank.\<close>

theorem ReputationToRank_stretch:
  assumes "Reputation_Bottom \<le> s" "s \<le> Reputation_Cap"
  shows "Reputation_Bottom + sum_list (take (ReputationToRank s) PointsInRank) \<le> s \<and>
    s < Reputation_Bottom + sum_list (take (Suc (ReputationToRank s)) PointsInRank) \<and>
    (\<forall>s'. s \<le> s' \<longrightarrow> ReputationToRank s \<le> ReputationToRank s') \<and> ReputationToRank s < MAX_REPUTATION_RANK"
proof -
  have "ReputationToRank s \<le> ReputationToRank s'" if "s \<le> s'" for s'
    using that by (simp add: ReputationToRank_table)
  then show ?thesis
    using assms by (simp add: ReputationToRank_table PointsInRank_def Reputation_Bottom_def Reputation_Cap_def MAX_REPUTATION_RANK_def)
qed

theorem ReputationToRank_stretch_witness: "ReputationToRank 20999 = 5 \<and> ReputationToRank 20999 \<le> ReputationToRank 21000"
  using ReputationToRank_stretch [of 20999] by (simp add: ReputationToRank_table Reputation_Bottom_def Reputation_Cap_def)

text \<open>C21: Along every sequence of operations of the manager, with logins, saves and writes of other players in
  between, the four counters are the numbers (modulo 256) of factions shown, and of factions of at least
  honoured, revered and exalted rank, and every reputation stays between the bottom and the cap.\<close>

theorem reputation_counters_exact:
  assumes "store_ok env" "rep_start env mt" "(rep_step env)\<^sup>*\<^sup>* mt (m, t)"
  shows "visibleFactionCount m = tally shown (factions m) \<and>
    honoredFactionCount m = tally (rank_at_least env REP_HONORED) (factions m) \<and>
    reveredFactionCount m = tally (rank_at_least env REP_REVERED) (factions m) \<and>
    exaltedFactionCount m = tally (rank_at_least env REP_EXALTED) (factions m) \<and>
    (\<forall>fe \<in> set (rep_entries env). \<exists>r. GetReputation env m (Some fe) = Inr r \<and> Reputation_Bottom \<le> r \<and> r \<le> Reputation_Cap)"
proof -
  have ok: "shape_ok env m" "ranks_ok env m" using rep_reach_ok [OF assms(3,1,2)] by (simp_all add: sys_ok_def mgr_ok_def)
  have "\<exists>r. GetReputation env m (Some fe) = Inr r \<and> Reputation_Bottom \<le> r \<and> r \<le> Reputation_Cap"
    if fe: "fe \<in> set (rep_entries env)" for fe
  proof -
    have "rep_key fe \<in> fst ` set (factions m)" using ok fe by (simp add: shape_ok_def)
    then obtain f where f: "map_of (factions m) (rep_key fe) = Some f" by (metis map_of_in_fst option.exhaust)
    have "faction_ok env (rep_key fe) f" using ok(1) f by (rule shape_lookup)
    moreover have "base_at env (rep_key fe) = GetBaseReputation env (Some fe)" using assms(1) fe by (simp add: base_at_def rep_entry_at)
    moreover have "CanHaveReputation fe" using fe by (simp add: rep_entries_def)
    ultimately show ?thesis using f
      by (simp add: GetReputation_def GetState_def GetState_id_def faction_ok_def Reputation_Bottom_def Reputation_Cap_def)
  qed
  with ok show ?thesis by (simp add: shape_ok_def ranks_ok_def)
qed

theorem reputation_counters_exact_witness:
  "honoredFactionCount sample_mgr = tally (rank_at_least sample_env REP_HONORED) (factions sample_mgr) \<and>
   honoredFactionCount sample_mgr = 1"
proof -
  have "honoredFactionCount sample_mgr = 1" by code_simp
  with reputation_counters_exact [OF sample_store sample_start sample_reach] show ?thesis by blast
qed

text \<open>In every reachable state, adding points to a faction that has a reputation succeeds; the new
  reputation is the old one plus the points, held between the bottom and the cap, and every other faction
  keeps its reputation (rate one, less than 2^22 points, where the single-precision rounding is exact).\<close>

theorem SetOneFactionReputation_effect:
  assumes "store_ok env" "rep_start env mt" "(rep_step env)\<^sup>*\<^sup>* mt (m, t)" "gainRate env = Some 1" "\<bar>points\<bar> < 2 ^ 22"
    "fe \<in> set (rep_entries env)" "GetReputation env m (Some fe) = Inr current"
  shows "\<exists>m'. SetOneFactionReputation env fe points True m = Inr (m', True) \<and>
    GetReputation env m' (Some fe) = Inr (max Reputation_Bottom (min Reputation_Cap (current + points))) \<and>
    (\<forall>fe' \<in> set (rep_entries env) - {fe}. GetReputation env m' (Some fe') = GetReputation env m (Some fe'))"
proof -
  let ?k = "rep_key fe"
  have sh: "shape_ok env m" using rep_reach_ok [OF assms(3,1,2)] by (simp add: sys_ok_def mgr_ok_def)
  have "?k \<in> fst ` set (factions m)" using sh assms(6) by (simp add: shape_ok_def)
  then obtain f where f: "map_of (factions m) ?k = Some f" by (metis map_of_in_fst option.exhaust)
  have c: "CanHaveReputation fe" and b: "base_at env ?k = GetBaseReputation env (Some fe)"
    using assms(1,6) by (simp_all add: rep_entries_def base_at_def rep_entry_at)
  have fok: "faction_ok env ?k f" using sh f by (rule shape_lookup)
  then have cur: "current = base_at env ?k + Standing f"
    using assms(7) f c b by (simp add: GetReputation_def GetState_def GetState_id_def chk32_eq_Inr)
  have range: "- 42000 \<le> current" "current \<le> 42999" "- (2 ^ 22) < points" "points < 2 ^ 22"
    using fok assms(5) by (simp_all add: cur faction_ok_def Reputation_Bottom_def Reputation_Cap_def)
  have raw: "target_standing env (base_at env ?k) f points True = Inr (points + current)"
    using range rate_rounded_one [OF assms(5)]
    by (simp add: target_standing_def assms(4) add.commute [of "Standing f"] flip: cur)
  obtain m' f' where m': "SetOneFactionReputation env fe points True m = Inr (m', True)"
    "map_of (factions m') = (map_of (factions m))(?k \<mapsto> f')" "Standing f' = clamp_reputation (points + current) - base_at env ?k"
    using SetOne_run [OF assms(1) sh entries_in_store [OF assms(6)] refl f raw] by metis
  have "GetReputation env m' (Some fe) = Inr (clamp_reputation (points + current))"
    using clamp_reputation_bounds [of "points + current"] c b m'(2,3)
    by (simp add: GetReputation_def GetState_def GetState_id_def Reputation_Bottom_def Reputation_Cap_def)
  moreover have "clamp_reputation (points + current) = max Reputation_Bottom (min Reputation_Cap (current + points))"
    by (simp add: clamp_reputation_def Reputation_Bottom_def Reputation_Cap_def)
  moreover have "GetReputation env m' (Some fe') = GetReputation env m (Some fe')" if "fe' \<in> set (rep_entries env) - {fe}" for fe'
    using that assms(1,6) entry_key_inj [of env fe' fe] m'(2)
    by (auto simp: GetReputation_def GetState_def GetState_id_def)
  ultimately show ?thesis using m'(1) by auto
qed

theorem SetOneFactionReputation_effect_witness:
  "\<exists>m'. SetOneFactionReputation sample_env (sample_fe 72 19 3100 17) 40000 True sample_mgr = Inr (m', True) \<and>
     GetReputation sample_env m' (Some (sample_fe 72 19 3100 17)) = Inr 42999"
proof -
  have "sample_fe 72 19 3100 17 \<in> set (rep_entries sample_env)" "gainRate sample_env = Some 1"
    by (simp_all add: rep_entries_def sample_env_def sample_fe_def CanHaveReputation_def)
  moreover have "GetReputation sample_env sample_mgr (Some (sample_fe 72 19 3100 17)) = Inr 10100" by code_simp
  ultimately show ?thesis
    using SetOneFactionReputation_effect [OF sample_store sample_start sample_reach, of 40000 "sample_fe 72 19 3100 17" 10100]
    by (auto simp: Reputation_Bottom_def Reputation_Cap_def)
qed

text \<open>C16: What a session saves is what the next login finds. In every reachable state, loading the rows that
  the transaction of SaveToDB leaves in the table, in whatever order the database returns them, succeeds and
  gives back every standing and the counters of ranks, and no flag (shown, at war, inactive) is lost.\<close>

theorem reputation_survives_login:
  assumes "store_ok env" "rep_start env mt" "(rep_step env)\<^sup>*\<^sup>* mt (m, t)" "SaveToDB env m = (m1, stmts)"
    "mset rows = mset (player_rows env (commit stmts t))"
  shows "\<exists>m2. LoadFromDB env rows rep_mgr_new = Inr m2 \<and>
    (\<forall>k f. map_of (factions m) k = Some f \<longrightarrow>
       (\<exists>f2. map_of (factions m2) k = Some f2 \<and> Standing f2 = Standing f \<and> Flags f AND Flags f2 = Flags f)) \<and>
    honoredFactionCount m2 = honoredFactionCount m \<and> reveredFactionCount m2 = reveredFactionCount m \<and>
    exaltedFactionCount m2 = exaltedFactionCount m"
proof -
  have ok: "sys_ok env (m, t)" using rep_reach_ok [OF assms(3,1,2)] .
  have step: "rep_step env (m, t) (m1, commit stmts t)" using assms(4) by (rule rs_save)
  have ok1: "sys_ok env (m1, commit stmts t)" using step assms(1) ok by (rule rep_step_ok)
  have rs: "rows_ok env rows"
    using ok1 mset_eq_setD [OF assms(5)] mset_eq_imp_distinct_iff [of "map row_faction rows" "map row_faction (player_rows env (commit stmts t))"]
      assms(5) by (simp add: sys_ok_def rows_ok_def)
  obtain m2 where m2: "LoadFromDB env rows rep_mgr_new = Inr m2" "loads env rows (Initialize env rep_mgr_new) m2"
    using LoadFromDB_run [OF assms(1) rs] by metis
  have each: "\<exists>f2. map_of (factions m2) k = Some f2 \<and> Standing f2 = Standing f \<and> Flags f AND Flags f2 = Flags f"
    if "(k, f) \<in> set (factions m)" for k f
    using saved_then_loaded [OF assms(1) ok assms(4,5) m2(1) that] by metis
  have sh: "shape_ok env m" "ranks_ok env m" "shape_ok env m2" "ranks_ok env m2"
    using ok m2(2) by (simp_all add: sys_ok_def mgr_ok_def loads_def)
  have "length (filter (rank_at_least env r) (factions m)) = length (filter (rank_at_least env r) (factions m2))" for r
  proof (rule tally_same)
    show "om_wf (factions m)" "om_wf (factions m2)" "fst ` set (factions m) = fst ` set (factions m2)"
      using sh(1,3) by (simp_all add: shape_ok_def)
    show "rank_at_least env r (k, f) = rank_at_least env r (k, g)" if "(k, f) \<in> set (factions m)" "map_of (factions m2) k = Some g" for k f g
      using each [OF that(1)] that(2) by (auto simp: rank_at_least_def)
  qed
  then have "honoredFactionCount m2 = honoredFactionCount m" "reveredFactionCount m2 = reveredFactionCount m"
    "exaltedFactionCount m2 = exaltedFactionCount m"
    using sh(2,4) by (simp_all add: ranks_ok_def)
  then show ?thesis using m2(1) each by (auto dest: map_of_SomeD)
qed

theorem reputation_survives_login_witness:
  "\<exists>m2 f2. LoadFromDB sample_env (player_rows sample_env (commit (snd (SaveToDB sample_env sample_mgr)) [])) rep_mgr_new = Inr m2 \<and>
     map_of (factions m2) 20 = Some f2 \<and> Standing f2 = 437"
proof -
  let ?s = "SaveToDB sample_env sample_mgr"
  have "map_option Standing (map_of (factions sample_mgr) 20) = Some 437" by code_simp
  then obtain f where f: "map_of (factions sample_mgr) 20 = Some f" "Standing f = 437" by blast
  have "?s = (fst ?s, snd ?s)" by simp
  from reputation_survives_login [OF sample_store sample_start sample_reach this refl] f show ?thesis by metis
qed

end
