(* ===== verification/Access_Control.thy ===== *)
theory Access_Control
  imports Registry
begin

text \<open>
  Role-based access control of accounts (\<^verbatim>\<open>src/src/server/game/Accounts/RBAC.cpp\<close> and \<^verbatim>\<open>.h\<close>, and the
  permission tables of \<^verbatim>\<open>AccountMgr.cpp\<close>): permissions are linked to further permissions, an account has
  granted and denied ones, and may do what the granted ones expand to without what the denied ones expand
  to. A \<^verbatim>\<open>std::set\<close> of permission numbers is the ascending list of its elements. Trace output is left out;
  the statements sent to the login database are returned.
\<close>

section \<open>Permissions and accounts\<close>

type_synonym permission_set = "uint32 list"

datatype RBACCommandResult = RBAC_OK | RBAC_CANT_ADD_ALREADY_ADDED | RBAC_CANT_REVOKE_NOT_IN_LIST
  | RBAC_IN_GRANTED_LIST | RBAC_IN_DENIED_LIST | RBAC_ID_DOES_NOT_EXISTS

record rbac_permission =
  perm_id :: uint32
  perm_name :: string
  perm_links :: permission_set

record account_mgr =
  am_permissions :: "(uint32 \<times> rbac_permission option) list"
  am_default :: "(uint8 \<times> permission_set) list"

record rbac_data =
  rb_id :: uint32
  rb_name :: string
  rb_realmId :: int
  rb_secLevel :: uint8
  grantedPerms :: permission_set
  deniedPerms :: permission_set
  globalPerms :: permission_set

datatype rbac_stmt =
    LOGIN_INS_RBAC_ACCOUNT_PERMISSION uint32 uint32 bool int
  | LOGIN_DEL_RBAC_ACCOUNT_PERMISSION uint32 uint32 int
  | LOGIN_DEL_ACCOUNT_ACCESS uint32
  | LOGIN_DEL_ACCOUNT_ACCESS_BY_REALM uint32 int
  | LOGIN_INS_ACCOUNT_ACCESS uint32 uint8 int

definition RBACPermission :: "uint32 \<Rightarrow> string \<Rightarrow> rbac_permission" where
  "RBACPermission i name = \<lparr>perm_id = i, perm_name = name, perm_links = []\<rparr>"

definition AddLinkedPermission :: "uint32 \<Rightarrow> rbac_permission \<Rightarrow> rbac_permission" where
  "AddLinkedPermission i p = p\<lparr>perm_links := set_insert i (perm_links p)\<rparr>"

definition RemoveLinkedPermission :: "uint32 \<Rightarrow> rbac_permission \<Rightarrow> rbac_permission" where
  "RemoveLinkedPermission i p = p\<lparr>perm_links := set_erase i (perm_links p)\<rparr>"

definition RBACData :: "uint32 \<Rightarrow> string \<Rightarrow> int \<Rightarrow> uint8 \<Rightarrow> rbac_data" where
  "RBACData i name realm sec = \<lparr>rb_id = i, rb_name = name, rb_realmId = realm, rb_secLevel = sec,
     grantedPerms = [], deniedPerms = [], globalPerms = []\<rparr>"

definition HasPermission :: "rbac_data \<Rightarrow> uint32 \<Rightarrow> bool" where
  "HasPermission d p \<longleftrightarrow> p \<in> set (globalPerms d)"

section \<open>The tables of permissions\<close>

definition GetRBACPermission :: "account_mgr \<Rightarrow> uint32 \<Rightarrow> rbac_permission option" where
  "GetRBACPermission am i = (case map_of (am_permissions am) i of Some p \<Rightarrow> p | None \<Rightarrow> None)"

text \<open>Reading the defaults of a level that has none enters an empty set.\<close>

definition GetRBACDefaultPermissions :: "uint8 \<Rightarrow> account_mgr \<Rightarrow> account_mgr \<times> permission_set" where
  "GetRBACDefaultPermissions sec am = (case map_of (am_default am) sec of
     Some ps \<Rightarrow> (am, ps) | None \<Rightarrow> (am\<lparr>am_default := om_set sec [] (am_default am)\<rparr>, []))"

definition ClearRBAC :: "account_mgr \<Rightarrow> account_mgr" where
  "ClearRBAC am = am\<lparr>am_permissions := [], am_default := []\<rparr>"

definition load_permission :: "uint32 \<times> string \<Rightarrow> account_mgr \<Rightarrow> account_mgr" where
  "load_permission r am = am\<lparr>am_permissions := om_set (fst r) (Some (RBACPermission (fst r) (snd r))) (am_permissions am)\<rparr>"

text \<open>The loop over links keeps the permission of the last row, a null pointer at first.\<close>

definition load_link :: "uint32 \<times> uint32 \<Rightarrow> account_mgr \<times> uint32 \<times> uint32 option \<Rightarrow>
    fault + account_mgr \<times> uint32 \<times> uint32 option" where
  "load_link r s = (case s of (am, permissionId, permission) \<Rightarrow>
     let newId = fst r; linkedId = snd r;
         (am1, permissionId1, permission1) =
           (if permissionId \<noteq> newId then
              (if map_of (am_permissions am) newId = None
               then am\<lparr>am_permissions := om_set newId None (am_permissions am)\<rparr> else am, newId, Some newId)
            else (am, permissionId, permission))
     in if linkedId = permissionId1 then Inr (am1, permissionId1, permission1)
        else case permission1 of None \<Rightarrow> Inl NullPointer | Some k \<Rightarrow>
          (case map_of (am_permissions am1) k of Some (Some p) \<Rightarrow>
             Inr (am1\<lparr>am_permissions := om_set k (Some (AddLinkedPermission linkedId p)) (am_permissions am1)\<rparr>,
                  permissionId1, permission1)
           | _ \<Rightarrow> Inl NullPointer))"

definition load_default :: "uint32 \<times> uint32 \<Rightarrow> account_mgr \<times> uint8 \<times> bool \<Rightarrow> account_mgr \<times> uint8 \<times> bool" where
  "load_default r s = (case s of (am, secId, have) \<Rightarrow>
     let secId1 = (if ucast secId \<noteq> fst r \<or> \<not> have then ucast (fst r) else secId);
         ps = (case map_of (am_default am) secId1 of Some ps \<Rightarrow> ps | None \<Rightarrow> [])
     in (am\<lparr>am_default := om_set secId1 (set_insert (snd r) ps) (am_default am)\<rparr>, secId1, True))"

definition LoadRBAC :: "(uint32 \<times> string) list \<Rightarrow> (uint32 \<times> uint32) list \<Rightarrow> (uint32 \<times> uint32) list \<Rightarrow>
    account_mgr \<Rightarrow> fault + account_mgr" where
  "LoadRBAC perms links defaults am =
     (let am0 = ClearRBAC am in
      if perms = [] then Inr am0 else
      let am1 = fold load_permission perms am0 in
      if links = [] then Inr am1 else
      res_bind (forE load_link links (am1, 0, None)) (\<lambda>(am2, _, _).
      if defaults = [] then Inr am2 else
      Inr (fst (fold load_default defaults (am2, 255, False)))))"

section \<open>Expansion\<close>

definition existing :: "account_mgr \<Rightarrow> uint32 set" where
  "existing am = {i. GetRBACPermission am i \<noteq> None}"

lemma finite_existing [simp]: "finite (existing am)"
  by (rule finite_subset [OF _ finite_dom_map_of [of "am_permissions am"]])
    (auto simp: existing_def GetRBACPermission_def split: option.splits)

definition add_links :: "permission_set \<Rightarrow> permission_set \<Rightarrow> permission_set \<Rightarrow> permission_set" where
  "add_links permissions links toCheck = fold (\<lambda>l acc. if l \<in> set permissions then acc else set_insert l acc) links toCheck"

lemma filter_add_links: "filter (\<lambda>x. x \<in> set permissions) (add_links permissions links toCheck) = filter (\<lambda>x. x \<in> set permissions) toCheck"
proof -
  have "filter (\<lambda>x. x \<in> A) (insort y xs) = filter (\<lambda>x. x \<in> A) xs" if "y \<notin> A" for A y and xs :: permission_set
    using that by (induction xs) auto
  then show ?thesis unfolding add_links_def
    by (induction links arbitrary: toCheck) (auto simp: set_insert_def)
qed

lemma set_add_links: "set (add_links permissions links toCheck) = set toCheck \<union> (set links - set permissions)"
  unfolding add_links_def by (subst oset.elems_ins_unless) auto

text \<open>
  The work list shrinks or an existing permission is entered. An element of the work list that was entered
  before is taken out for good.
\<close>

function (sequential) expand_loop :: "account_mgr \<Rightarrow> permission_set \<Rightarrow> permission_set \<Rightarrow> permission_set" where
  "expand_loop am [] permissions = permissions"
| "expand_loop am (permissionId # toCheck) permissions =
     (case GetRBACPermission am permissionId of
        None \<Rightarrow> expand_loop am toCheck permissions
      | Some permission \<Rightarrow>
          let permissions' = set_insert permissionId permissions
          in expand_loop am (add_links permissions' (perm_links permission) toCheck) permissions')"
  by pat_completeness auto
termination
proof (relation "measures [\<lambda>(am, toCheck, permissions). card (existing am - set permissions),
    \<lambda>(am, toCheck, permissions). length (filter (\<lambda>x. x \<in> set permissions) toCheck), \<lambda>(am, toCheck, permissions). length toCheck]", goal_cases)
  case (3 am p toCheck permissions perm permissions')
  show ?case
  proof (cases "p \<in> set permissions")
    case True
    then have "set permissions' = set permissions" using 3 by auto
    then show ?thesis using True filter_add_links [of permissions' "perm_links perm" toCheck] by simp
  next
    case False
    have "p \<in> existing am" using 3 by (simp add: existing_def)
    with False have "existing am - set permissions' \<subset> existing am - set permissions" using 3 by auto
    then have "card (existing am - set permissions') < card (existing am - set permissions)"
      by (rule psubset_card_mono [rotated]) simp
    then show ?thesis by simp
  qed
qed simp_all

definition ExpandPermissions :: "account_mgr \<Rightarrow> permission_set \<Rightarrow> permission_set" where
  "ExpandPermissions am permissions = expand_loop am permissions []"

definition RemovePermissions :: "permission_set \<Rightarrow> permission_set \<Rightarrow> permission_set" where
  "RemovePermissions permsFrom permsToRemove = fold set_erase permsToRemove permsFrom"

definition AddPermissions :: "permission_set \<Rightarrow> permission_set \<Rightarrow> permission_set" where
  "AddPermissions permsFrom permsTo = fold set_insert permsFrom permsTo"

definition CalculateNewPermissions :: "account_mgr \<Rightarrow> rbac_data \<Rightarrow> rbac_data" where
  "CalculateNewPermissions am d = d\<lparr>globalPerms :=
     RemovePermissions (ExpandPermissions am (grantedPerms d)) (ExpandPermissions am (deniedPerms d))\<rparr>"

section \<open>Commands\<close>

definition SavePermission :: "rbac_data \<Rightarrow> uint32 \<Rightarrow> bool \<Rightarrow> int \<Rightarrow> rbac_stmt list" where
  "SavePermission d p granted realmId = [LOGIN_INS_RBAC_ACCOUNT_PERMISSION (rb_id d) p granted realmId]"

definition GrantPermission :: "account_mgr \<Rightarrow> uint32 \<Rightarrow> int \<Rightarrow> rbac_data \<Rightarrow> RBACCommandResult \<times> rbac_data \<times> rbac_stmt list" where
  "GrantPermission am p realmId d =
     (if GetRBACPermission am p = None then (RBAC_ID_DOES_NOT_EXISTS, d, [])
      else if p \<in> set (deniedPerms d) then (RBAC_IN_DENIED_LIST, d, [])
      else if p \<in> set (grantedPerms d) then (RBAC_CANT_ADD_ALREADY_ADDED, d, [])
      else let d1 = d\<lparr>grantedPerms := set_insert p (grantedPerms d)\<rparr> in
        if realmId \<noteq> 0 then (RBAC_OK, CalculateNewPermissions am d1, SavePermission d1 p True realmId)
        else (RBAC_OK, d1, []))"

definition DenyPermission :: "account_mgr \<Rightarrow> uint32 \<Rightarrow> int \<Rightarrow> rbac_data \<Rightarrow> RBACCommandResult \<times> rbac_data \<times> rbac_stmt list" where
  "DenyPermission am p realmId d =
     (if GetRBACPermission am p = None then (RBAC_ID_DOES_NOT_EXISTS, d, [])
      else if p \<in> set (grantedPerms d) then (RBAC_IN_GRANTED_LIST, d, [])
      else if p \<in> set (deniedPerms d) then (RBAC_CANT_ADD_ALREADY_ADDED, d, [])
      else let d1 = d\<lparr>deniedPerms := set_insert p (deniedPerms d)\<rparr> in
        if realmId \<noteq> 0 then (RBAC_OK, CalculateNewPermissions am d1, SavePermission d1 p False realmId)
        else (RBAC_OK, d1, []))"

definition RevokePermission :: "account_mgr \<Rightarrow> uint32 \<Rightarrow> int \<Rightarrow> rbac_data \<Rightarrow> RBACCommandResult \<times> rbac_data \<times> rbac_stmt list" where
  "RevokePermission am p realmId d =
     (if p \<notin> set (grantedPerms d) \<and> p \<notin> set (deniedPerms d) then (RBAC_CANT_REVOKE_NOT_IN_LIST, d, [])
      else let d1 = d\<lparr>grantedPerms := set_erase p (grantedPerms d), deniedPerms := set_erase p (deniedPerms d)\<rparr> in
        if realmId \<noteq> 0 then (RBAC_OK, CalculateNewPermissions am d1, [LOGIN_DEL_RBAC_ACCOUNT_PERMISSION (rb_id d) p realmId])
        else (RBAC_OK, d1, []))"

definition ClearData :: "rbac_data \<Rightarrow> rbac_data" where
  "ClearData d = d\<lparr>grantedPerms := [], deniedPerms := [], globalPerms := []\<rparr>"

abbreviation grant_quietly :: "account_mgr \<Rightarrow> uint32 \<Rightarrow> rbac_data \<Rightarrow> rbac_data" where
  "grant_quietly am p d \<equiv> fst (snd (GrantPermission am p 0 d))"

definition load_account_row :: "account_mgr \<Rightarrow> uint32 \<times> bool \<Rightarrow> rbac_data \<Rightarrow> rbac_data" where
  "load_account_row am r d = (if snd r then grant_quietly am (fst r) d else fst (snd (DenyPermission am (fst r) 0 d)))"

definition LoadFromDBCallback :: "(uint32 \<times> bool) list \<Rightarrow> account_mgr \<Rightarrow> rbac_data \<Rightarrow> account_mgr \<times> rbac_data" where
  "LoadFromDBCallback rows am d =
     (let d1 = fold (load_account_row am) rows d;
          (am1, permissions) = GetRBACDefaultPermissions (rb_secLevel d1) am;
          d2 = fold (grant_quietly am1) permissions d1
      in (am1, CalculateNewPermissions am1 d2))"

section \<open>The table of account permissions\<close>

text \<open>
  Rows carry account, permission, realm and whether the permission is granted; account, permission and
  realm are the primary key. The query of a session returns the rows of its realm and of all realms (-1),
  ordered by permission and realm.
\<close>

type_synonym rbac_table = "((uint32 \<times> uint32 \<times> int) \<times> bool) list"

fun exec_rbac :: "rbac_stmt \<Rightarrow> rbac_table \<Rightarrow> rbac_table" where
  "exec_rbac (LOGIN_INS_RBAC_ACCOUNT_PERMISSION acc p granted realm) t =
     ((acc, p, realm), granted) # filter (\<lambda>(key, _). key \<noteq> (acc, p, realm)) t"
| "exec_rbac (LOGIN_DEL_RBAC_ACCOUNT_PERMISSION acc p realm) t =
     filter (\<lambda>((acc', p', realm'), _). \<not> (acc' = acc \<and> p' = p \<and> (realm' = realm \<or> realm' = - 1))) t"
| "exec_rbac _ t = t"

definition select_account_permissions :: "uint32 \<Rightarrow> int \<Rightarrow> rbac_table \<Rightarrow> (uint32 \<times> bool) list" where
  "select_account_permissions acc realm t =
     map (\<lambda>((_, p, _), granted). (p, granted))
       (sort_key (\<lambda>((_, p, _), _). p) (sort_key (\<lambda>((_, _, r), _). r)
         (filter (\<lambda>((acc', _, r), _). acc' = acc \<and> (r = realm \<or> r = - 1)) t)))"

definition rbac_LoadFromDB :: "rbac_table \<Rightarrow> account_mgr \<Rightarrow> rbac_data \<Rightarrow> account_mgr \<times> rbac_data" where
  "rbac_LoadFromDB t am d = (let d1 = ClearData d in
     LoadFromDBCallback (select_account_permissions (rb_id d1) (rb_realmId d1) t) am d1)"

definition SetSecurityLevel :: "rbac_table \<Rightarrow> uint8 \<Rightarrow> account_mgr \<Rightarrow> rbac_data \<Rightarrow> account_mgr \<times> rbac_data" where
  "SetSecurityLevel t i am d = rbac_LoadFromDB t am (d\<lparr>rb_secLevel := i\<rparr>)"

definition UpdateAccountAccess :: "rbac_table \<Rightarrow> rbac_data option \<Rightarrow> uint32 \<Rightarrow> uint8 \<Rightarrow> int \<Rightarrow> account_mgr \<Rightarrow>
    account_mgr \<times> rbac_data option \<times> rbac_stmt list" where
  "UpdateAccountAccess t rbac accountId securityLevel realmId am =
     (let (am1, rbac1) = (case rbac of
            Some d \<Rightarrow> if securityLevel \<noteq> rb_secLevel d
              then (case SetSecurityLevel t securityLevel am d of (am', d') \<Rightarrow> (am', Some d')) else (am, Some d)
          | None \<Rightarrow> (am, None));
          del = (if realmId = - 1 then LOGIN_DEL_ACCOUNT_ACCESS accountId
                 else LOGIN_DEL_ACCOUNT_ACCESS_BY_REALM accountId realmId);
          ins = (if securityLevel \<noteq> 0 then [LOGIN_INS_ACCOUNT_ACCESS accountId securityLevel realmId] else [])
      in (am1, rbac1, del # ins))"

definition am_HasPermission :: "rbac_table \<Rightarrow> (uint32 \<Rightarrow> uint8) \<Rightarrow> uint32 \<Rightarrow> uint32 \<Rightarrow> int \<Rightarrow> account_mgr \<Rightarrow> account_mgr \<times> bool" where
  "am_HasPermission t GetSecurity accountId permissionId realmId am =
     (if accountId = 0 then (am, False) else
      case rbac_LoadFromDB t am (RBACData accountId [] realmId (GetSecurity accountId)) of
        (am1, d) \<Rightarrow> (am1, HasPermission d permissionId))"

end
