(* ===== verification/Access_Rights.thy ===== *)
theory Access_Rights
  imports Access_Control
begin

text \<open>
  What an account may do: the expansion of permissions computes exactly the permissions reachable over
  links, the calculated permissions are the granted ones without the denied ones after every command, and
  a denial for all realms survives the next login.
\<close>

section \<open>Expansion computes reachability\<close>

inductive grants :: "account_mgr \<Rightarrow> uint32 set \<Rightarrow> uint32 \<Rightarrow> bool" for am S where
  direct: "p \<in> S \<Longrightarrow> p \<in> existing am \<Longrightarrow> grants am S p"
| linked: "grants am S p \<Longrightarrow> GetRBACPermission am p = Some perm \<Longrightarrow> q \<in> set (perm_links perm) \<Longrightarrow> q \<in> existing am \<Longrightarrow> grants am S q"

lemma grants_existing: "grants am S p \<Longrightarrow> p \<in> existing am"
  by (induction rule: grants.induct)

lemma grants_trans: "grants am S q \<Longrightarrow> (\<And>p. p \<in> S \<Longrightarrow> p \<in> existing am \<Longrightarrow> grants am T p) \<Longrightarrow> grants am T q"
  by (induction rule: grants.induct) (auto intro: grants.linked)

lemma grants_mono: "grants am S q \<Longrightarrow> S \<subseteq> T \<Longrightarrow> grants am T q"
  by (rule grants_trans) (auto intro: grants.direct)

text \<open>What the loop entered has its links entered or waiting.\<close>

definition links_covered :: "account_mgr \<Rightarrow> uint32 set \<Rightarrow> uint32 set \<Rightarrow> bool" where
  "links_covered am done waiting \<longleftrightarrow> (\<forall>p \<in> done. \<forall>perm. GetRBACPermission am p = Some perm \<longrightarrow>
     set (perm_links perm) \<inter> existing am \<subseteq> done \<union> waiting)"

lemma expand_loop_grants:
  "links_covered am (set permissions) (set toCheck) \<Longrightarrow>
   set (expand_loop am toCheck permissions) = set permissions \<union> {q. grants am (set toCheck) q}"
proof (induction am toCheck permissions rule: expand_loop.induct)
  case (1 am permissions)
  have "\<not> grants am {} q" for q
  proof
    assume "grants am {} q"
    then show False by (induction rule: grants.induct) simp_all
  qed
  then show ?case by simp
next
  case (2 am p toCheck permissions)
  show ?case
  proof (cases "GetRBACPermission am p")
    case None
    then have "p \<notin> existing am" by (simp add: existing_def)
    then have "grants am (set (p # toCheck)) q \<longleftrightarrow> grants am (set toCheck) q" for q
      by (auto intro: grants_mono elim!: grants_trans intro: grants.direct)
    moreover have "links_covered am (set permissions) (set toCheck)"
      using 2(3) \<open>p \<notin> existing am\<close> unfolding links_covered_def by auto
    ultimately show ?thesis using None 2(1) by simp
  next
    case (Some perm)
    define perms' where "perms' = set_insert p permissions"
    define check' where "check' = add_links perms' (perm_links perm) toCheck"
    have c: "set check' = set toCheck \<union> (set (perm_links perm) - set perms')" by (simp add: check'_def set_add_links)
    have s: "set perms' = insert p (set permissions)" by (simp add: perms'_def)
    have p: "p \<in> existing am" using Some by (simp add: existing_def)
    have cov: "links_covered am (set perms') (set check')"
      using 2(3) Some unfolding links_covered_def c s by auto
    have "set (expand_loop am check' perms') = set perms' \<union> {q. grants am (set check') q}"
      using 2(2) [OF Some, of perms'] cov by (simp add: perms'_def check'_def)
    moreover have "grants am (set (p # toCheck)) q" if "grants am (set check') q" for q
      using that
    proof (rule grants_trans)
      fix r assume r: "r \<in> set check'" "r \<in> existing am"
      then show "grants am (set (p # toCheck)) r"
        using grants.linked [OF grants.direct [of p "set (p # toCheck)" am] Some] p unfolding c by (auto intro: grants.direct)
    qed
    moreover have "q \<in> set perms' \<or> grants am (set check') q" if "grants am (set (p # toCheck)) q" for q
      using that
    proof (induction rule: grants.induct)
      case (direct r)
      then show ?case by (auto simp: s c intro: grants.direct)
    next
      case (linked r perm' q)
      from linked.IH show ?case
      proof
        assume "r \<in> set perms'"
        with cov linked.hyps have "q \<in> set perms' \<union> set check'" unfolding links_covered_def by blast
        with linked.hyps show ?thesis by (auto intro: grants.direct)
      next
        assume "grants am (set check') r"
        with linked.hyps show ?thesis by (blast intro: grants.linked)
      qed
    qed
    moreover have "grants am (set (p # toCheck)) p" using p by (intro grants.direct) simp_all
    moreover have "expand_loop am (p # toCheck) permissions = expand_loop am check' perms'"
      by (simp add: Some Let_def check'_def perms'_def)
    ultimately show ?thesis by (auto simp: s)
  qed
qed

lemma set_ExpandPermissions: "set (ExpandPermissions am ps) = {q. grants am (set ps) q}"
  by (simp add: ExpandPermissions_def expand_loop_grants links_covered_def)

lemma set_RemovePermissions: "set (RemovePermissions ps qs) = set ps - set qs"
  unfolding RemovePermissions_def by (rule oset.elems_del_all)

lemma Calculate_sel [simp]:
  "grantedPerms (CalculateNewPermissions am d) = grantedPerms d" "deniedPerms (CalculateNewPermissions am d) = deniedPerms d"
  "rb_id (CalculateNewPermissions am d) = rb_id d" "rb_realmId (CalculateNewPermissions am d) = rb_realmId d"
  "rb_secLevel (CalculateNewPermissions am d) = rb_secLevel d"
  by (simp_all add: CalculateNewPermissions_def)

definition rights_ok :: "account_mgr \<Rightarrow> rbac_data \<Rightarrow> bool" where
  "rights_ok am d \<longleftrightarrow> set (globalPerms d) = {q. grants am (set (grantedPerms d)) q} - {q. grants am (set (deniedPerms d)) q}"

lemma Calculate_rights [simp]: "rights_ok am (CalculateNewPermissions am d)"
  by (simp add: rights_ok_def CalculateNewPermissions_def set_RemovePermissions set_ExpandPermissions)

section \<open>Commands\<close>

definition disjoint_lists :: "rbac_data \<Rightarrow> bool" where
  "disjoint_lists d \<longleftrightarrow> set (grantedPerms d) \<inter> set (deniedPerms d) = {}"

lemmas command_defs = GrantPermission_def DenyPermission_def RevokePermission_def

lemma Grant_keeps:
  "GrantPermission am p r d = (res, d', st) \<Longrightarrow> disjoint_lists d \<Longrightarrow> disjoint_lists d'"
  "GrantPermission am p r d = (res, d', st) \<Longrightarrow> rights_ok am d \<Longrightarrow> r \<noteq> 0 \<Longrightarrow> rights_ok am d'"
  by (auto simp: GrantPermission_def disjoint_lists_def Let_def split: if_splits)

lemma Deny_keeps:
  "DenyPermission am p r d = (res, d', st) \<Longrightarrow> disjoint_lists d \<Longrightarrow> disjoint_lists d'"
  "DenyPermission am p r d = (res, d', st) \<Longrightarrow> rights_ok am d \<Longrightarrow> r \<noteq> 0 \<Longrightarrow> rights_ok am d'"
  by (auto simp: DenyPermission_def disjoint_lists_def Let_def split: if_splits)

lemma Revoke_keeps:
  "RevokePermission am p r d = (res, d', st) \<Longrightarrow> disjoint_lists d \<Longrightarrow> disjoint_lists d'"
  "RevokePermission am p r d = (res, d', st) \<Longrightarrow> rights_ok am d \<Longrightarrow> r \<noteq> 0 \<Longrightarrow> rights_ok am d'"
  by (auto simp: RevokePermission_def disjoint_lists_def Let_def split: if_splits)

lemma load_row_keeps: "disjoint_lists d \<Longrightarrow> disjoint_lists (load_account_row am r d)"
  unfolding load_account_row_def by (metis Grant_keeps(1) Deny_keeps(1) prod.collapse)

lemma grant_quietly_keeps: "disjoint_lists d \<Longrightarrow> disjoint_lists (grant_quietly am p d)"
  by (metis Grant_keeps(1) prod.collapse)

lemma GetRBACDefault_same: "GetRBACDefaultPermissions sec am = (am', ps) \<Longrightarrow> am_permissions am' = am_permissions am"
  by (auto simp: GetRBACDefaultPermissions_def split: option.splits)

lemma grants_same: "am_permissions am' = am_permissions am \<Longrightarrow> grants am' = grants am"
proof -
  assume "am_permissions am' = am_permissions am"
  then have g: "GetRBACPermission am' = GetRBACPermission am" and e: "existing am' = existing am"
    by (auto simp: GetRBACPermission_def existing_def fun_eq_iff)
  have "grants am' S p \<Longrightarrow> grants am S p" for S p
    by (induction rule: grants.induct) (auto simp: g e intro: grants.direct grants.linked)
  moreover have "grants am S p \<Longrightarrow> grants am' S p" for S p
    by (induction rule: grants.induct) (auto simp: g [symmetric] e [symmetric] intro: grants.direct grants.linked)
  ultimately show "grants am' = grants am" by blast
qed

lemma load_run:
  assumes "rbac_LoadFromDB t am d = (am', d')"
  obtains ps where "d' = CalculateNewPermissions am' (fold (grant_quietly am') ps
      (fold (load_account_row am) (select_account_permissions (rb_id d) (rb_realmId d) t) (ClearData d)))"
    "am_permissions am' = am_permissions am"
  using assms GetRBACDefault_same
  by (fastforce simp: rbac_LoadFromDB_def LoadFromDBCallback_def Let_def ClearData_def split: prod.splits)

lemma load_keeps:
  assumes "rbac_LoadFromDB t am d = (am', d')"
  shows "rights_ok am' d'" "disjoint_lists d'"
proof -
  define d1 where "d1 = fold (load_account_row am) (select_account_permissions (rb_id d) (rb_realmId d) t) (ClearData d)"
  obtain ps where d': "d' = CalculateNewPermissions am' (fold (grant_quietly am') ps d1)"
    using load_run [OF assms] unfolding d1_def by blast
  have "disjoint_lists d1" unfolding d1_def
    by (rule fold_invariant [where Q = "\<lambda>_. True"]) (simp_all add: load_row_keeps, simp add: disjoint_lists_def ClearData_def)
  then have "disjoint_lists (fold (grant_quietly am') ps d1)"
    by (rule fold_invariant [where Q = "\<lambda>_. True", rotated]) (simp_all add: grant_quietly_keeps)
  then show "rights_ok am' d'" "disjoint_lists d'" by (simp_all add: d' disjoint_lists_def)
qed

section \<open>Sessions\<close>

text \<open>
  The states of a session: a login, commands that are stored (a realm other than 0), a change of the
  security level, reloads, and changes of the table by others.
\<close>

inductive rbac_session :: "rbac_table \<times> account_mgr \<times> rbac_data \<Rightarrow> bool" where
  login: "rbac_LoadFromDB t am (RBACData i name realm sec) = (am', d) \<Longrightarrow> rbac_session (t, am', d)"
| grant: "rbac_session (t, am, d) \<Longrightarrow> r \<noteq> 0 \<Longrightarrow> GrantPermission am p r d = (res, d', st) \<Longrightarrow> rbac_session (fold exec_rbac st t, am, d')"
| deny: "rbac_session (t, am, d) \<Longrightarrow> r \<noteq> 0 \<Longrightarrow> DenyPermission am p r d = (res, d', st) \<Longrightarrow> rbac_session (fold exec_rbac st t, am, d')"
| revoke: "rbac_session (t, am, d) \<Longrightarrow> r \<noteq> 0 \<Longrightarrow> RevokePermission am p r d = (res, d', st) \<Longrightarrow> rbac_session (fold exec_rbac st t, am, d')"
| level: "rbac_session (t, am, d) \<Longrightarrow> SetSecurityLevel t sec am d = (am', d') \<Longrightarrow> rbac_session (t, am', d')"
| reload: "rbac_session (t, am, d) \<Longrightarrow> rbac_LoadFromDB t am d = (am', d') \<Longrightarrow> rbac_session (t, am', d')"
| others: "rbac_session (t, am, d) \<Longrightarrow> rbac_session (t', am, d)"

lemma session_ok: "rbac_session s \<Longrightarrow> case s of (t, am, d) \<Rightarrow> rights_ok am d \<and> disjoint_lists d"
proof (induction rule: rbac_session.induct)
  case (login t am i name realm sec am' d)
  then show ?case by (simp add: load_keeps)
next
  case (level t am d sec am' d')
  then show ?case by (simp add: SetSecurityLevel_def load_keeps)
next
  case (reload t am d am' d')
  then show ?case by (simp add: load_keeps)
qed (auto dest: Grant_keeps Deny_keeps Revoke_keeps)

section \<open>Reloading a denial\<close>

text \<open>The first row of a permission decides; later rows and defaults change nothing.\<close>

lemma denied_stays:
  "p \<in> set (deniedPerms d) \<Longrightarrow> p \<in> set (deniedPerms (load_account_row am r d))"
  "p \<in> set (deniedPerms d) \<Longrightarrow> p \<in> set (deniedPerms (grant_quietly am q d))"
  by (auto simp: load_account_row_def command_defs Let_def)

lemma fold_denied_stays:
  "p \<in> set (deniedPerms d) \<Longrightarrow> p \<in> set (deniedPerms (fold (load_account_row am) rows d))"
  "p \<in> set (deniedPerms d) \<Longrightarrow> p \<in> set (deniedPerms (fold (grant_quietly am) ps d))"
  by (induction rows arbitrary: d) (auto simp: denied_stays, induction ps arbitrary: d, auto simp: denied_stays)

lemma other_rows_grant_nothing:
  "p \<notin> fst ` set rows \<Longrightarrow> p \<in> set (grantedPerms (fold (load_account_row am) rows d)) \<longleftrightarrow> p \<in> set (grantedPerms d)"
proof (induction rows arbitrary: d)
  case (Cons r rows)
  then show ?case by (auto simp: load_account_row_def command_defs Let_def)
qed simp

lemma first_row_denies:
  assumes "filter (\<lambda>r. fst r = p) rows = (p, False) # rest" "GetRBACPermission am p \<noteq> None"
  shows "p \<in> set (deniedPerms (fold (load_account_row am) rows (ClearData d)))"
proof -
  obtain xs ys where rows: "rows = xs @ (p, False) # ys" and xs: "\<forall>r \<in> set xs. fst r \<noteq> p"
    using assms(1) by (auto simp: filter_eq_Cons_iff)
  let ?d = "fold (load_account_row am) xs (ClearData d)"
  have "p \<notin> set (grantedPerms ?d)" using xs other_rows_grant_nothing [of p xs am "ClearData d"] by (auto simp: ClearData_def)
  then have "p \<in> set (deniedPerms (load_account_row am (p, False) ?d))"
    using assms(2) by (auto simp: load_account_row_def command_defs Let_def)
  then show ?thesis by (simp add: rows fold_denied_stays)
qed

text \<open>The row for all realms comes first in the answer of the query.\<close>

lemma select_all_realms_first:
  assumes "((acc, p, - 1), g) \<in> set t" "\<And>g'. ((acc, p, - 1), g') \<in> set t \<Longrightarrow> g' = g" "0 \<le> realm"
  obtains rest where "filter (\<lambda>r. fst r = p) (select_account_permissions acc realm t) = (p, g) # rest"
proof -
  let ?v = "filter (\<lambda>((acc', _, r), _). acc' = acc \<and> (r = realm \<or> r = - 1)) t"
  let ?key = "\<lambda>((_ :: uint32, _ :: uint32, r :: int), _ :: bool). r"
  let ?perm = "\<lambda>((_ :: uint32, p :: uint32, _ :: int), _ :: bool). p"
  define zs where "zs = filter (\<lambda>x. ?perm x = p) (sort_key ?key ?v)"
  have "sorted (map ?key zs)" unfolding zs_def by (rule sorted_filter) simp
  have "filter (\<lambda>r. fst r = p) (select_account_permissions acc realm t) = map (\<lambda>((_, p, _), granted). (p, granted)) zs"
  proof -
    have f: "(\<lambda>r. fst r = p) \<circ> (\<lambda>((_, p, _), granted). (p, granted)) = (\<lambda>x. ?perm x = p)" by (auto simp: fun_eq_iff)
    show ?thesis unfolding select_account_permissions_def zs_def filter_map f
      using sort_key_stable [of ?perm p "sort_key ?key ?v"] by simp
  qed
  moreover have in_zs: "((acc, p, - 1), g) \<in> set zs" using assms(1) by (auto simp: zs_def)
  then obtain z zs' where z: "zs = z # zs'" by (cases zs) auto
  have "z \<in> set zs" by (simp add: z)
  then have zt: "z \<in> set t" "?perm z = p" "fst (fst z) = acc" "?key z \<ge> - 1"
    using assms(3) by (auto simp: zs_def)
  have "?key z \<le> - 1" using \<open>sorted (map ?key zs)\<close> in_zs unfolding z by auto
  with zt have "z = ((acc, p, - 1), snd z)" by (auto simp: split_beta prod_eq_iff)
  moreover from this zt have "snd z = g" using assms(2) by metis
  ultimately show ?thesis using that by (auto simp: z)
qed

lemma sel_load [simp]:
  "rb_id (ClearData d) = rb_id d" "rb_realmId (ClearData d) = rb_realmId d" "rb_secLevel (ClearData d) = rb_secLevel d"
  by (simp_all add: ClearData_def)

lemma Deny_OK:
  assumes "DenyPermission am p r d = (RBAC_OK, d', st)" "r \<noteq> 0"
  shows "GetRBACPermission am p \<noteq> None" "st = [LOGIN_INS_RBAC_ACCOUNT_PERMISSION (rb_id d) p False r]"
    "rb_id d' = rb_id d" "rb_realmId d' = rb_realmId d"
  using assms by (auto simp: DenyPermission_def SavePermission_def Let_def split: if_splits)

section \<open>A sample table with a cycle of links\<close>

definition sample_am :: account_mgr where
  "sample_am = (case LoadRBAC [(1, ''a''), (2, ''b''), (3, ''c'')] [(1, 2), (2, 1), (2, 3)] [(0, 1)] \<lparr>am_permissions = [], am_default = []\<rparr> of
     Inl _ \<Rightarrow> \<lparr>am_permissions = [], am_default = []\<rparr> | Inr am \<Rightarrow> am)"

definition sample_login :: "account_mgr \<times> rbac_data" where
  "sample_login = rbac_LoadFromDB [((7, 3, - 1), False)] sample_am (RBACData 7 [] 1 0)"

lemma sample_login_run: "rbac_LoadFromDB [((7, 3, - 1), False)] sample_am (RBACData 7 [] 1 0) = (fst sample_login, snd sample_login)"
  by (simp add: sample_login_def)

section \<open>Properties\<close>

text \<open>C29: ExpandPermissions ends for every table of permissions, cycles of links included, and computes exactly
  the existing permissions that the given ones reach over links.\<close>

theorem ExpandPermissions_reachable:
  "p \<in> set (ExpandPermissions am ps) \<longleftrightarrow> grants am (set ps) p"
  by (simp add: set_ExpandPermissions)

text \<open>C17: In every state of a session an account holds a permission exactly if the granted permissions reach it
  over links and the denied ones do not, and no permission is both granted and denied.\<close>

theorem rights_are_granted_without_denied:
  assumes "rbac_session (t, am, d)"
  shows "(HasPermission d p \<longleftrightarrow> grants am (set (grantedPerms d)) p \<and> \<not> grants am (set (deniedPerms d)) p) \<and>
    set (grantedPerms d) \<inter> set (deniedPerms d) = {}"
  using session_ok [OF assms] by (auto simp: HasPermission_def rights_ok_def disjoint_lists_def)

theorem rights_are_granted_without_denied_witness:
  "HasPermission (snd sample_login) 2 \<and> grants (fst sample_login) (set (grantedPerms (snd sample_login))) 2"
proof -
  have "rbac_session ([((7, 3, - 1), False)], fst sample_login, snd sample_login)"
    by (rule rbac_session.login [OF sample_login_run])
  moreover have "HasPermission (snd sample_login) 2" by code_simp
  ultimately show ?thesis using rights_are_granted_without_denied by blast
qed

text \<open>C34: A denial for all realms that was accepted holds beyond the session: whatever else the table contains,
  after the next load of the account, on whatever realm, neither the permission nor anything it is linked
  to is held.\<close>

theorem denial_survives_reload:
  assumes "DenyPermission am p (- 1) d = (RBAC_OK, d', st)" "0 \<le> rb_realmId d"
    "rbac_LoadFromDB (fold exec_rbac st t) am d' = (am2, d2)" "grants am {p} q"
  shows "\<not> HasPermission d2 q"
proof -
  note ok = Deny_OK [OF assms(1)]
  let ?t = "fold exec_rbac st t"
  have t: "((rb_id d, p, - 1), False) \<in> set ?t" "\<And>g. ((rb_id d, p, - 1), g) \<in> set ?t \<Longrightarrow> g = False"
    using ok(2) by auto
  obtain rest where "filter (\<lambda>r. fst r = p) (select_account_permissions (rb_id d) (rb_realmId d) ?t) = (p, False) # rest"
    by (rule select_all_realms_first [OF t assms(2)])
  then have den: "p \<in> set (deniedPerms (fold (load_account_row am) (select_account_permissions (rb_id d') (rb_realmId d') ?t) (ClearData d')))"
    using ok first_row_denies by simp
  obtain ps where d2: "d2 = CalculateNewPermissions am2 (fold (grant_quietly am2) ps
      (fold (load_account_row am) (select_account_permissions (rb_id d') (rb_realmId d') ?t) (ClearData d')))"
    and same: "am_permissions am2 = am_permissions am"
    using load_run [OF assms(3)] by blast
  have "p \<in> set (deniedPerms d2)" unfolding d2 using fold_denied_stays(2) [OF den] by simp
  then have "grants am2 (set (deniedPerms d2)) q"
    using assms(4) unfolding grants_same [OF same] by (auto elim: grants_mono)
  moreover have "rights_ok am2 d2" unfolding d2 by simp
  ultimately show ?thesis by (simp add: HasPermission_def rights_ok_def)
qed

theorem denial_survives_reload_witness:
  "\<not> HasPermission (snd (rbac_LoadFromDB (fold exec_rbac (snd (snd (DenyPermission sample_am 2 (- 1) (RBACData 7 [] 1 0)))) [])
      sample_am (fst (snd (DenyPermission sample_am 2 (- 1) (RBACData 7 [] 1 0)))))) 3"
proof (rule denial_survives_reload)
  show "DenyPermission sample_am 2 (- 1) (RBACData 7 [] 1 0) = (RBAC_OK, fst (snd (DenyPermission sample_am 2 (- 1) (RBACData 7 [] 1 0))),
      snd (snd (DenyPermission sample_am 2 (- 1) (RBACData 7 [] 1 0))))"
    by code_simp
  show "0 \<le> rb_realmId (RBACData 7 [] 1 0)" by (simp add: RBACData_def)
  have "3 \<in> set (ExpandPermissions sample_am [2])" by code_simp
  then show "grants sample_am {2} 3" by (simp add: set_ExpandPermissions)
qed (rule prod.collapse [symmetric])

end
