(* ===== verification/Trade.thy ===== *)
theory Trade
  imports Object_Guid
begin

text \<open>
  Trade between two players: the trade window of each (\<^verbatim>\<open>src/src/server/game/Entities/Player/TradeData.cpp\<close>)
  and the handlers of the client messages (\<^verbatim>\<open>src/src/server/game/Handlers/TradeHandler.cpp\<close>), with the purse
  (\<^verbatim>\<open>Player::ModifyMoney\<close>). A player is its money, the items it carries and its trade window, if one is
  open; windows are found through the players, as the pointers of the code. Following a pointer to a
  window that is not there is the error \<^const>\<open>NullPointer\<close>. What items may be traded or stored, spells,
  positions and settings belong to the environment; packets are recorded in the order in which they leave.
\<close>

section \<open>Data\<close>

definition TRADE_SLOT_COUNT :: nat where "TRADE_SLOT_COUNT = 7"
definition TRADE_SLOT_TRADED_COUNT :: nat where "TRADE_SLOT_TRADED_COUNT = 6"
definition TRADE_SLOT_NONTRADED :: nat where "TRADE_SLOT_NONTRADED = 6"
definition MAX_MONEY_AMOUNT :: uint64 where "MAX_MONEY_AMOUNT = 99999999999"

abbreviation guid_Empty :: ObjectGuid where
  "guid_Empty \<equiv> ObjectGuid 0 0"

datatype TradeStatus = TRADE_STATUS_PLAYER_BUSY | TRADE_STATUS_PROPOSED | TRADE_STATUS_INITIATED
  | TRADE_STATUS_CANCELLED | TRADE_STATUS_ACCEPTED | TRADE_STATUS_NO_TARGET | TRADE_STATUS_UNACCEPTED
  | TRADE_STATUS_COMPLETE | TRADE_STATUS_STATE_CHANGED | TRADE_STATUS_TOO_FAR_AWAY | TRADE_STATUS_WRONG_FACTION
  | TRADE_STATUS_FAILED | TRADE_STATUS_PLAYER_IGNORED | TRADE_STATUS_STUNNED | TRADE_STATUS_TARGET_STUNNED
  | TRADE_STATUS_DEAD | TRADE_STATUS_TARGET_DEAD | TRADE_STATUS_LOGGING_OUT | TRADE_STATUS_TARGET_LOGGING_OUT
  | TRADE_STATUS_NOT_ON_TAPLIST

datatype bag_result = EQUIP_ERR_OK | EQUIP_ERR_NOT_ENOUGH_MONEY | EQUIP_ERR_TOO_MUCH_GOLD
  | EQUIP_ERR_TRADE_BOUND_ITEM | EQUIP_ERR_OTHER nat

record trade_data =
  td_player :: ObjectGuid
  td_trader :: ObjectGuid
  td_accepted :: bool
  td_acceptProcess :: bool
  td_money :: uint64
  td_spell :: uint32
  td_spellCastItem :: ObjectGuid
  td_items :: "ObjectGuid list"
  td_clientStateIndex :: uint32
  td_serverStateIndex :: uint32

record tplayer =
  tp_money :: uint64
  tp_items :: "ObjectGuid list"
  tp_trade :: "trade_data option"

datatype trade_msg =
    TradeStatusMsg TradeStatus bag_result bool
  | TradeUpdated bool uint32 uint32 uint64 uint32 "(nat \<times> ObjectGuid) list"
  | CastResult uint32
  | CastPrepared uint32
  | TradeRequirement bool

record trade_world =
  tw_player :: "ObjectGuid \<Rightarrow> tplayer"
  tw_inTrade :: "ObjectGuid list"
  tw_rand :: nat
  tw_out :: "(ObjectGuid \<times> trade_msg) list"

record trade_env =
  rand32 :: "nat \<Rightarrow> uint32"
  canBeTraded :: "ObjectGuid \<Rightarrow> bool"
  isBindedNotWith :: "ObjectGuid \<Rightarrow> ObjectGuid \<Rightarrow> bool"
  isWithinTradeDist :: "ObjectGuid \<Rightarrow> ObjectGuid \<Rightarrow> bool"
  spellKnown :: "uint32 \<Rightarrow> bool"
  checkCast :: "ObjectGuid \<Rightarrow> uint32 \<Rightarrow> uint32 option"
  canStoreItem :: "ObjectGuid \<Rightarrow> ObjectGuid list \<Rightarrow> ObjectGuid \<Rightarrow> bool"
  canStoreItems :: "ObjectGuid \<Rightarrow> ObjectGuid list \<Rightarrow> ObjectGuid option list \<Rightarrow> ObjectGuid option list \<Rightarrow> bag_result"
  itemByPos :: "ObjectGuid \<Rightarrow> uint8 \<Rightarrow> uint8 \<Rightarrow> ObjectGuid option"
  moneyHook :: "ObjectGuid \<Rightarrow> int \<Rightarrow> int"
  connected :: "ObjectGuid \<Rightarrow> bool"
  isAlive :: "ObjectGuid \<Rightarrow> bool"
  isStunned :: "ObjectGuid \<Rightarrow> bool"
  isLogingOut :: "ObjectGuid \<Rightarrow> bool"
  isGone :: "ObjectGuid \<Rightarrow> bool"
  isInFlight :: "ObjectGuid \<Rightarrow> bool"
  levelTooLow :: "ObjectGuid \<Rightarrow> bool"
  ignores :: "ObjectGuid \<Rightarrow> ObjectGuid \<Rightarrow> bool"
  sameSide :: "ObjectGuid \<Rightarrow> ObjectGuid \<Rightarrow> bool"
  twoSideTrade :: "ObjectGuid \<Rightarrow> bool"

definition TradeData :: "ObjectGuid \<Rightarrow> ObjectGuid \<Rightarrow> trade_data" where
  "TradeData player trader = \<lparr>td_player = player, td_trader = trader, td_accepted = False, td_acceptProcess = False,
     td_money = 0, td_spell = 0, td_spellCastItem = guid_Empty, td_items = replicate TRADE_SLOT_COUNT guid_Empty,
     td_clientStateIndex = 1, td_serverStateIndex = 1\<rparr>"

abbreviation trade_of :: "trade_world \<Rightarrow> ObjectGuid \<Rightarrow> trade_data option" where
  "trade_of w p \<equiv> tp_trade (tw_player w p)"

definition set_player :: "ObjectGuid \<Rightarrow> (tplayer \<Rightarrow> tplayer) \<Rightarrow> trade_world \<Rightarrow> trade_world" where
  "set_player p f w = w\<lparr>tw_player := (tw_player w)(p := f (tw_player w p))\<rparr>"

definition send_to :: "ObjectGuid \<Rightarrow> trade_msg \<Rightarrow> trade_world \<Rightarrow> trade_world" where
  "send_to p m w = w\<lparr>tw_out := tw_out w @ [(p, m)]\<rparr>"

abbreviation send_status :: "ObjectGuid \<Rightarrow> TradeStatus \<Rightarrow> bag_result \<Rightarrow> trade_world \<Rightarrow> trade_world" where
  "send_status p s b \<equiv> send_to p (TradeStatusMsg s b False)"

text \<open>A write through a pointer to the window of a player.\<close>

definition with_trade :: "ObjectGuid \<Rightarrow> (trade_data \<Rightarrow> trade_data) \<Rightarrow> trade_world \<Rightarrow> fault + trade_world" where
  "with_trade p f w = (case trade_of w p of None \<Rightarrow> Inl NullPointer
     | Some td \<Rightarrow> Inr (set_player p (\<lambda>pl. pl\<lparr>tp_trade := Some (f td)\<rparr>) w))"

definition partner :: "trade_world \<Rightarrow> ObjectGuid \<Rightarrow> fault + ObjectGuid" where
  "partner w p = (case trade_of w p of None \<Rightarrow> Inl NullPointer | Some td \<Rightarrow> Inr (td_trader td))"

section \<open>The trade window\<close>

definition GetItem :: "trade_world \<Rightarrow> trade_data \<Rightarrow> nat \<Rightarrow> ObjectGuid option" where
  "GetItem w td slot = (let g = td_items td ! slot in
     if IsEmpty g then None else if g \<in> set (tp_items (tw_player w (td_player td))) then Some g else None)"

definition HasItem :: "trade_data \<Rightarrow> ObjectGuid \<Rightarrow> bool" where
  "HasItem td g \<longleftrightarrow> (\<exists>i \<in> set [0..<TRADE_SLOT_COUNT]. td_items td ! i = g)"

definition GetTradeSlotForItem :: "trade_data \<Rightarrow> ObjectGuid \<Rightarrow> nat option" where
  "GetTradeSlotForItem td g = find (\<lambda>i. td_items td ! i = g) [0..<TRADE_SLOT_COUNT]"

definition SendUpdateTrade :: "ObjectGuid \<Rightarrow> bool \<Rightarrow> trade_world \<Rightarrow> fault + trade_world" where
  "SendUpdateTrade p trader_data w =
     res_bind (partner w p) (\<lambda>q.
     case trade_of w (if trader_data then q else p) of None \<Rightarrow> Inl NullPointer | Some view \<Rightarrow>
       Inr (send_to p (TradeUpdated trader_data (td_clientStateIndex view) (td_serverStateIndex view) (td_money view) (td_spell view)
         (concat (map (\<lambda>i. case GetItem w view i of None \<Rightarrow> [] | Some g \<Rightarrow> [(i, g)]) [0..<TRADE_SLOT_COUNT]))) w))"

definition td_Update :: "ObjectGuid \<Rightarrow> bool \<Rightarrow> trade_world \<Rightarrow> fault + trade_world" where
  "td_Update p forTrader w = (if forTrader then res_bind (partner w p) (\<lambda>q. SendUpdateTrade q True w)
     else SendUpdateTrade p False w)"

definition SetAccepted :: "ObjectGuid \<Rightarrow> bool \<Rightarrow> bool \<Rightarrow> trade_world \<Rightarrow> fault + trade_world" where
  "SetAccepted p state forTrader w =
     res_bind (partner w p) (\<lambda>q.
     res_bind (with_trade p (\<lambda>td. td\<lparr>td_accepted := state\<rparr>) w) (\<lambda>w1.
     Inr (if state then w1 else send_status (if forTrader then q else p) TRADE_STATUS_UNACCEPTED EQUIP_ERR_OK w1)))"

definition UpdateServerStateIndex :: "trade_env \<Rightarrow> ObjectGuid \<Rightarrow> trade_world \<Rightarrow> fault + trade_world" where
  "UpdateServerStateIndex env p w =
     with_trade p (\<lambda>td. td\<lparr>td_serverStateIndex := rand32 env (tw_rand w)\<rparr>) (w\<lparr>tw_rand := Suc (tw_rand w)\<rparr>)"

definition UpdateClientStateIndex :: "ObjectGuid \<Rightarrow> trade_world \<Rightarrow> fault + trade_world" where
  "UpdateClientStateIndex p w = with_trade p (\<lambda>td. td\<lparr>td_clientStateIndex := td_clientStateIndex td + 1\<rparr>) w"

text \<open>What follows every change of an offer: neither side has accepted any more.\<close>

definition offer_changed :: "trade_env \<Rightarrow> ObjectGuid \<Rightarrow> trade_world \<Rightarrow> fault + trade_world" where
  "offer_changed env p w =
     res_bind (SetAccepted p False False w) (\<lambda>w1.
     res_bind (partner w1 p) (\<lambda>q.
     res_bind (SetAccepted q False False w1) (UpdateServerStateIndex env p)))"

definition SetSpell :: "trade_env \<Rightarrow> ObjectGuid \<Rightarrow> uint32 \<Rightarrow> ObjectGuid \<Rightarrow> trade_world \<Rightarrow> fault + trade_world" where
  "SetSpell env p spell_id castItem w = (case trade_of w p of None \<Rightarrow> Inl NullPointer | Some td \<Rightarrow>
     if td_spell td = spell_id \<and> td_spellCastItem td = castItem then Inr w
     else res_bind (with_trade p (\<lambda>td. td\<lparr>td_spell := spell_id, td_spellCastItem := castItem\<rparr>) w) (\<lambda>w1.
          res_bind (offer_changed env p w1) (\<lambda>w2.
          res_bind (td_Update p True w2) (td_Update p False))))"

definition SetItem :: "trade_env \<Rightarrow> ObjectGuid \<Rightarrow> nat \<Rightarrow> ObjectGuid option \<Rightarrow> bool \<Rightarrow> trade_world \<Rightarrow> fault + trade_world" where
  "SetItem env p slot item upd w = (case trade_of w p of None \<Rightarrow> Inl NullPointer | Some td \<Rightarrow>
     let itemGuid = (case item of None \<Rightarrow> guid_Empty | Some g \<Rightarrow> g) in
     if td_items td ! slot = itemGuid \<and> \<not> upd then Inr w
     else res_bind (with_trade p (\<lambda>td. td\<lparr>td_items := (td_items td)[slot := itemGuid]\<rparr>) w) (\<lambda>w1.
          res_bind (offer_changed env p w1) (\<lambda>w2.
          res_bind (td_Update p True w2) (\<lambda>w3.
          res_bind (if slot = TRADE_SLOT_NONTRADED then res_bind (partner w3 p) (\<lambda>q. SetSpell env q 0 guid_Empty w3) else Inr w3) (\<lambda>w4.
          SetSpell env p 0 guid_Empty w4)))))"

definition HasEnoughMoney :: "trade_world \<Rightarrow> ObjectGuid \<Rightarrow> uint64 \<Rightarrow> bool" where
  "HasEnoughMoney w p amount \<longleftrightarrow> amount \<le> tp_money (tw_player w p)"

definition td_SetMoney :: "trade_env \<Rightarrow> ObjectGuid \<Rightarrow> uint64 \<Rightarrow> trade_world \<Rightarrow> fault + trade_world" where
  "td_SetMoney env p money w = (case trade_of w p of None \<Rightarrow> Inl NullPointer | Some td \<Rightarrow>
     if td_money td = money then Inr w
     else if \<not> HasEnoughMoney w p money then Inr (send_status p TRADE_STATUS_FAILED EQUIP_ERR_NOT_ENOUGH_MONEY w)
     else res_bind (with_trade p (\<lambda>td. td\<lparr>td_money := money\<rparr>) w) (\<lambda>w1.
          res_bind (offer_changed env p w1) (td_Update p True)))"

section \<open>Purse and inventory\<close>

text \<open>The amount is signed; the comparison and the sum are those of unsigned 64-bit numbers.\<close>

definition ModifyMoney :: "trade_env \<Rightarrow> ObjectGuid \<Rightarrow> int \<Rightarrow> trade_world \<Rightarrow> trade_world" where
  "ModifyMoney env p amount0 w =
     (if amount0 = 0 then w else
      let amount = moneyHook env p amount0; money = tp_money (tw_player w p) in
      if amount < 0 then
        set_player p (\<lambda>pl. pl\<lparr>tp_money := if word_of_int (- amount) < money then money + word_of_int amount else 0\<rparr>) w
      else if money \<le> MAX_MONEY_AMOUNT - word_of_int amount then
        set_player p (\<lambda>pl. pl\<lparr>tp_money := money + word_of_int amount\<rparr>) w
      else w)"

definition MoveItemFromInventory :: "ObjectGuid \<Rightarrow> ObjectGuid option \<Rightarrow> trade_world \<Rightarrow> trade_world" where
  "MoveItemFromInventory p item w = (case item of None \<Rightarrow> w
     | Some g \<Rightarrow> set_player p (\<lambda>pl. pl\<lparr>tp_items := remove1 g (tp_items pl)\<rparr>) w)"

definition MoveItemToInventory :: "ObjectGuid \<Rightarrow> ObjectGuid option \<Rightarrow> trade_world \<Rightarrow> trade_world" where
  "MoveItemToInventory p item w = (case item of None \<Rightarrow> w
     | Some g \<Rightarrow> set_player p (\<lambda>pl. pl\<lparr>tp_items := g # tp_items pl\<rparr>) w)"

definition can_take :: "trade_env \<Rightarrow> trade_world \<Rightarrow> ObjectGuid \<Rightarrow> ObjectGuid option \<Rightarrow> bool" where
  "can_take env w p item = (case item of None \<Rightarrow> True | Some g \<Rightarrow> canStoreItem env p (tp_items (tw_player w p)) g)"

definition give_back :: "trade_env \<Rightarrow> ObjectGuid \<Rightarrow> ObjectGuid option \<Rightarrow> trade_world \<Rightarrow> trade_world" where
  "give_back env p item w = (if can_take env w p item then MoveItemToInventory p item w else w)"

definition move_slot :: "trade_env \<Rightarrow> ObjectGuid \<Rightarrow> ObjectGuid \<Rightarrow> ObjectGuid option \<times> ObjectGuid option \<Rightarrow> trade_world \<Rightarrow> trade_world" where
  "move_slot env player trader items w = (case items of (mine, his) \<Rightarrow>
     if can_take env w trader mine \<and> can_take env w player his
     then MoveItemToInventory player his (MoveItemToInventory trader mine w)
     else give_back env trader his (give_back env player mine w))"

definition moveItems :: "trade_env \<Rightarrow> ObjectGuid \<Rightarrow> ObjectGuid option list \<Rightarrow> ObjectGuid option list \<Rightarrow> trade_world \<Rightarrow> trade_world" where
  "moveItems env player myItems hisItems w = (case trade_of w player of None \<Rightarrow> w
     | Some td \<Rightarrow> fold (move_slot env player (td_trader td)) (zip myItems hisItems) w)"

section \<open>Acceptance\<close>

definition traded_items :: "trade_world \<Rightarrow> trade_data \<Rightarrow> ObjectGuid option list" where
  "traded_items w td = map (GetItem w td) [0..<TRADE_SLOT_TRADED_COUNT]"

definition some_items :: "ObjectGuid option list \<Rightarrow> ObjectGuid list" where
  "some_items xs = concat (map (\<lambda>x. case x of None \<Rightarrow> [] | Some g \<Rightarrow> [g]) xs)"

definition set_process :: "ObjectGuid \<Rightarrow> ObjectGuid \<Rightarrow> bool \<Rightarrow> trade_world \<Rightarrow> fault + trade_world" where
  "set_process p q state w =
     res_bind (with_trade p (\<lambda>td. td\<lparr>td_acceptProcess := state\<rparr>) w) (with_trade q (\<lambda>td. td\<lparr>td_acceptProcess := state\<rparr>))"

definition setAcceptTradeMode :: "ObjectGuid \<Rightarrow> ObjectGuid \<Rightarrow> ObjectGuid option list \<Rightarrow> ObjectGuid option list \<Rightarrow>
    trade_world \<Rightarrow> fault + trade_world" where
  "setAcceptTradeMode p q myItems hisItems w =
     res_bind (set_process p q True w) (\<lambda>w1. Inr (w1\<lparr>tw_inTrade := some_items myItems @ some_items hisItems @ tw_inTrade w1\<rparr>))"

definition clear_items :: "ObjectGuid option list \<Rightarrow> ObjectGuid option list \<Rightarrow> trade_world \<Rightarrow> trade_world" where
  "clear_items myItems hisItems w =
     w\<lparr>tw_inTrade := filter (\<lambda>g. g \<notin> set (some_items myItems) \<and> g \<notin> set (some_items hisItems)) (tw_inTrade w)\<rparr>"

text \<open>Refusals in the order of the checks: who is told what, and whose acceptance is withdrawn.\<close>

datatype refusal = Refusal ObjectGuid TradeStatus bag_result "(ObjectGuid \<times> bool) option"

definition bad_item :: "trade_env \<Rightarrow> ObjectGuid \<Rightarrow> ObjectGuid \<Rightarrow> trade_world \<Rightarrow> trade_data \<Rightarrow> trade_data \<Rightarrow> nat \<Rightarrow> refusal option" where
  "bad_item env p q w my his i =
     (case GetItem w my i of
        Some g \<Rightarrow>
          if \<not> canBeTraded env g then Some (Refusal p TRADE_STATUS_CANCELLED EQUIP_ERR_OK None)
          else if isBindedNotWith env g q then Some (Refusal p TRADE_STATUS_FAILED EQUIP_ERR_TRADE_BOUND_ITEM None)
          else (case GetItem w his i of
                  Some h \<Rightarrow> if \<not> canBeTraded env h then Some (Refusal p TRADE_STATUS_CANCELLED EQUIP_ERR_OK None) else None
                | None \<Rightarrow> None)
      | None \<Rightarrow> (case GetItem w his i of
                  Some h \<Rightarrow> if \<not> canBeTraded env h then Some (Refusal p TRADE_STATUS_CANCELLED EQUIP_ERR_OK None) else None
                | None \<Rightarrow> None))"

fun first_bad_item :: "(nat \<Rightarrow> refusal option) \<Rightarrow> nat list \<Rightarrow> refusal option" where
  "first_bad_item check [] = None"
| "first_bad_item check (i # is) = (case check i of Some r \<Rightarrow> Some r | None \<Rightarrow> first_bad_item check is)"

definition accept_refusal :: "trade_env \<Rightarrow> uint32 \<Rightarrow> ObjectGuid \<Rightarrow> ObjectGuid \<Rightarrow> trade_world \<Rightarrow> trade_data \<Rightarrow> trade_data \<Rightarrow> refusal option" where
  "accept_refusal env stateIndex p q w my his =
     (if td_serverStateIndex his \<noteq> stateIndex then Some (Refusal p TRADE_STATUS_STATE_CHANGED EQUIP_ERR_OK (Some (p, False)))
      else if \<not> isWithinTradeDist env p q then Some (Refusal p TRADE_STATUS_TOO_FAR_AWAY EQUIP_ERR_OK (Some (p, False)))
      else if \<not> HasEnoughMoney w p (td_money my) then Some (Refusal p TRADE_STATUS_FAILED EQUIP_ERR_NOT_ENOUGH_MONEY (Some (p, True)))
      else if \<not> HasEnoughMoney w q (td_money his) then Some (Refusal q TRADE_STATUS_FAILED EQUIP_ERR_NOT_ENOUGH_MONEY (Some (q, True)))
      else if MAX_MONEY_AMOUNT - td_money his < tp_money (tw_player w p) then
        Some (Refusal p TRADE_STATUS_FAILED EQUIP_ERR_TOO_MUCH_GOLD (Some (p, True)))
      else if MAX_MONEY_AMOUNT - td_money my < tp_money (tw_player w q) then
        Some (Refusal q TRADE_STATUS_FAILED EQUIP_ERR_TOO_MUCH_GOLD (Some (q, True)))
      else first_bad_item (bad_item env p q w my his) [0..<TRADE_SLOT_TRADED_COUNT])"

definition refuse :: "refusal \<Rightarrow> trade_world \<Rightarrow> fault + trade_world" where
  "refuse r w = (case r of Refusal who status bag undo \<Rightarrow>
     let w1 = send_status who status bag w in
     case undo of None \<Rightarrow> Inr w1 | Some (side, forTrader) \<Rightarrow> SetAccepted side False forTrader w1)"

text \<open>The spell a side wants to cast on the item in the last slot of the other side.\<close>

datatype spell_check = NoSpell | SpellUnusable | SpellFails uint32 | SpellReady uint32

definition check_spell :: "trade_env \<Rightarrow> trade_world \<Rightarrow> trade_data \<Rightarrow> trade_data \<Rightarrow> spell_check" where
  "check_spell env w caster other =
     (if td_spell caster = 0 then NoSpell
      else if \<not> spellKnown env (td_spell caster) \<or> GetItem w other TRADE_SLOT_NONTRADED = None \<or>
        (\<not> IsEmpty (td_spellCastItem caster) \<and> td_spellCastItem caster \<notin> set (tp_items (tw_player w (td_player caster))))
      then SpellUnusable
      else case checkCast env (td_player caster) (td_spell caster) of
        Some err \<Rightarrow> SpellFails err | None \<Rightarrow> SpellReady (td_spell caster))"

definition leave_accept_mode :: "ObjectGuid \<Rightarrow> ObjectGuid \<Rightarrow> ObjectGuid option list \<Rightarrow> ObjectGuid option list \<Rightarrow>
    trade_world \<Rightarrow> fault + trade_world" where
  "leave_accept_mode p q myItems hisItems w = res_bind (set_process p q False w) (\<lambda>w1. Inr (clear_items myItems hisItems w1))"

definition prepare_spell :: "ObjectGuid \<Rightarrow> spell_check \<Rightarrow> trade_world \<Rightarrow> trade_world" where
  "prepare_spell p c w = (case c of SpellReady s \<Rightarrow> send_to p (CastPrepared s) w | _ \<Rightarrow> w)"

definition report_no_space :: "ObjectGuid \<Rightarrow> ObjectGuid \<Rightarrow> bag_result \<Rightarrow> ObjectGuid \<Rightarrow> ObjectGuid \<Rightarrow> trade_world \<Rightarrow> fault + trade_world" where
  "report_no_space full other bag p q w =
     res_bind (set_process p q False w) (\<lambda>w1.
     let w2 = send_to full (TradeStatusMsg TRADE_STATUS_FAILED bag True)
                (send_to other (TradeStatusMsg TRADE_STATUS_FAILED bag False) w1) in
     res_bind (SetAccepted p False False w2) (SetAccepted q False False))"

definition exchange :: "trade_env \<Rightarrow> ObjectGuid \<Rightarrow> ObjectGuid \<Rightarrow> trade_data \<Rightarrow> trade_data \<Rightarrow> ObjectGuid option list \<Rightarrow>
    ObjectGuid option list \<Rightarrow> trade_world \<Rightarrow> trade_world" where
  "exchange env p q my his myItems hisItems w =
     (let w1 = fold (\<lambda>(mine, hers) w. MoveItemFromInventory q hers (MoveItemFromInventory p mine w)) (zip myItems hisItems) w;
          w2 = moveItems env p myItems hisItems w1
      in ModifyMoney env q (sint (td_money my)) (ModifyMoney env q (- sint (td_money his))
           (ModifyMoney env p (sint (td_money his)) (ModifyMoney env p (- sint (td_money my)) w2))))"

definition close_trades :: "ObjectGuid \<Rightarrow> ObjectGuid \<Rightarrow> trade_world \<Rightarrow> trade_world" where
  "close_trades p q w = set_player q (\<lambda>pl. pl\<lparr>tp_trade := None\<rparr>) (set_player p (\<lambda>pl. pl\<lparr>tp_trade := None\<rparr>) w)"

definition finish_trade :: "trade_env \<Rightarrow> ObjectGuid \<Rightarrow> ObjectGuid \<Rightarrow> trade_data \<Rightarrow> trade_data \<Rightarrow> spell_check \<Rightarrow> spell_check \<Rightarrow>
    ObjectGuid option list \<Rightarrow> ObjectGuid option list \<Rightarrow> trade_world \<Rightarrow> fault + trade_world" where
  "finish_trade env p q my his my_spell his_spell myItems hisItems w =
     (let w1 = send_status q TRADE_STATUS_ACCEPTED EQUIP_ERR_OK w;
          hisCan = canStoreItems env q (tp_items (tw_player w1 q)) myItems hisItems;
          myCan = canStoreItems env p (tp_items (tw_player w1 p)) hisItems myItems;
          w2 = clear_items myItems hisItems w1
      in if myCan \<noteq> EQUIP_ERR_OK then report_no_space p q myCan p q w2
         else if hisCan \<noteq> EQUIP_ERR_OK then report_no_space q p hisCan p q w2
         else let w3 = exchange env p q my his myItems hisItems w2;
                  w4 = prepare_spell q his_spell (prepare_spell p my_spell w3) in
              res_bind (set_process p q False w4) (\<lambda>w5.
              Inr (send_status p TRADE_STATUS_COMPLETE EQUIP_ERR_OK
                    (send_status q TRADE_STATUS_COMPLETE EQUIP_ERR_OK (close_trades p q w5)))))"

definition accept_both :: "trade_env \<Rightarrow> ObjectGuid \<Rightarrow> ObjectGuid \<Rightarrow> trade_data \<Rightarrow> trade_data \<Rightarrow> trade_world \<Rightarrow> fault + trade_world" where
  "accept_both env p q my his w =
     (let myItems = traded_items w my; hisItems = traded_items w his;
          my_spell = check_spell env w my his; his_spell = check_spell env w his my in
      res_bind (setAcceptTradeMode p q myItems hisItems w) (\<lambda>w1.
      case my_spell of
        SpellUnusable \<Rightarrow> res_bind (leave_accept_mode p q myItems hisItems w1) (SetSpell env p 0 guid_Empty)
      | SpellFails err \<Rightarrow> res_bind (leave_accept_mode p q myItems hisItems (send_to p (CastResult err) w1)) (SetSpell env p 0 guid_Empty)
      | _ \<Rightarrow>
        (case his_spell of
           SpellUnusable \<Rightarrow> res_bind (SetSpell env q 0 guid_Empty w1) (leave_accept_mode p q myItems hisItems)
         | SpellFails err \<Rightarrow> res_bind (leave_accept_mode p q myItems hisItems (send_to q (CastResult err) w1)) (SetSpell env q 0 guid_Empty)
         | _ \<Rightarrow> finish_trade env p q my his my_spell his_spell myItems hisItems w1)))"

definition HandleAcceptTradeOpcode :: "trade_env \<Rightarrow> ObjectGuid \<Rightarrow> uint32 \<Rightarrow> trade_world \<Rightarrow> fault + trade_world" where
  "HandleAcceptTradeOpcode env p stateIndex w = (case trade_of w p of None \<Rightarrow> Inr w | Some my \<Rightarrow>
     let q = td_trader my in case trade_of w q of None \<Rightarrow> Inr w | Some his \<Rightarrow>
     res_bind (SetAccepted p True False w) (\<lambda>w1.
     case accept_refusal env stateIndex p q w1 my his of Some r \<Rightarrow> refuse r w1
     | None \<Rightarrow> if td_accepted his then accept_both env p q my his w1
               else Inr (send_status q TRADE_STATUS_ACCEPTED EQUIP_ERR_OK w1)))"

section \<open>The other handlers\<close>

definition HandleUnacceptTradeOpcode :: "ObjectGuid \<Rightarrow> trade_world \<Rightarrow> fault + trade_world" where
  "HandleUnacceptTradeOpcode p w = (case trade_of w p of None \<Rightarrow> Inr w | Some _ \<Rightarrow> SetAccepted p False True w)"

definition HandleBeginTradeOpcode :: "ObjectGuid \<Rightarrow> trade_world \<Rightarrow> fault + trade_world" where
  "HandleBeginTradeOpcode p w = (case trade_of w p of None \<Rightarrow> Inr w | Some my \<Rightarrow>
     Inr (send_status p TRADE_STATUS_INITIATED EQUIP_ERR_OK (send_status (td_trader my) TRADE_STATUS_INITIATED EQUIP_ERR_OK w)))"

definition SendCancelTrade :: "trade_env \<Rightarrow> ObjectGuid \<Rightarrow> trade_world \<Rightarrow> trade_world" where
  "SendCancelTrade env p w = (if isGone env p then w else send_status p TRADE_STATUS_CANCELLED EQUIP_ERR_OK w)"

definition TradeCancel :: "trade_env \<Rightarrow> ObjectGuid \<Rightarrow> bool \<Rightarrow> trade_world \<Rightarrow> trade_world" where
  "TradeCancel env p sendback w = (case trade_of w p of None \<Rightarrow> w | Some td \<Rightarrow>
     let trader = td_trader td; w1 = (if sendback then SendCancelTrade env p w else w)
     in close_trades p trader (SendCancelTrade env trader w1))"

definition HandleCancelTradeOpcode :: "trade_env \<Rightarrow> ObjectGuid \<Rightarrow> trade_world \<Rightarrow> trade_world" where
  "HandleCancelTradeOpcode env p w = TradeCancel env p True w"

definition initiate_refusal :: "trade_env \<Rightarrow> ObjectGuid \<Rightarrow> ObjectGuid \<Rightarrow> trade_world \<Rightarrow> trade_msg option" where
  "initiate_refusal env p other w =
     (let status = (\<lambda>s. Some (TradeStatusMsg s EQUIP_ERR_OK False)) in
      if \<not> isAlive env p then status TRADE_STATUS_DEAD
      else if isStunned env p then status TRADE_STATUS_STUNNED
      else if isLogingOut env p then status TRADE_STATUS_LOGGING_OUT
      else if isInFlight env p then status TRADE_STATUS_TOO_FAR_AWAY
      else if levelTooLow env p then Some (TradeRequirement True)
      else if \<not> connected env other then status TRADE_STATUS_NO_TARGET
      else if other = p \<or> trade_of w other \<noteq> None then status TRADE_STATUS_PLAYER_BUSY
      else if \<not> isAlive env other then status TRADE_STATUS_TARGET_DEAD
      else if isInFlight env other then status TRADE_STATUS_TOO_FAR_AWAY
      else if isStunned env other then status TRADE_STATUS_TARGET_STUNNED
      else if isLogingOut env other then status TRADE_STATUS_TARGET_LOGGING_OUT
      else if ignores env other p then status TRADE_STATUS_PLAYER_IGNORED
      else if \<not> sameSide env other p \<and> \<not> twoSideTrade env p then status TRADE_STATUS_WRONG_FACTION
      else if \<not> isWithinTradeDist env other p then status TRADE_STATUS_TOO_FAR_AWAY
      else if levelTooLow env other then Some (TradeRequirement False)
      else None)"

definition HandleInitiateTradeOpcode :: "trade_env \<Rightarrow> ObjectGuid \<Rightarrow> ObjectGuid \<Rightarrow> trade_world \<Rightarrow> trade_world" where
  "HandleInitiateTradeOpcode env p other w =
     (if trade_of w p \<noteq> None then w else
      case initiate_refusal env p other w of Some m \<Rightarrow> send_to p m w
      | None \<Rightarrow> send_status other TRADE_STATUS_PROPOSED EQUIP_ERR_OK
          (set_player other (\<lambda>pl. pl\<lparr>tp_trade := Some (TradeData other p)\<rparr>)
             (set_player p (\<lambda>pl. pl\<lparr>tp_trade := Some (TradeData p other)\<rparr>) w)))"

definition HandleSetTradeGoldOpcode :: "trade_env \<Rightarrow> ObjectGuid \<Rightarrow> uint64 \<Rightarrow> trade_world \<Rightarrow> fault + trade_world" where
  "HandleSetTradeGoldOpcode env p coinage w = (case trade_of w p of None \<Rightarrow> Inr w
     | Some _ \<Rightarrow> res_bind (UpdateClientStateIndex p w) (td_SetMoney env p coinage))"

definition HandleSetTradeItemOpcode :: "trade_env \<Rightarrow> ObjectGuid \<Rightarrow> uint8 \<Rightarrow> uint8 \<Rightarrow> uint8 \<Rightarrow> trade_world \<Rightarrow> fault + trade_world" where
  "HandleSetTradeItemOpcode env p tradeSlot packSlot itemSlot w = (case trade_of w p of None \<Rightarrow> Inr w | Some my \<Rightarrow>
     let slot = unat tradeSlot; cancelled = Inr (send_status p TRADE_STATUS_CANCELLED EQUIP_ERR_OK w) in
     if TRADE_SLOT_COUNT \<le> slot then cancelled else
     case itemByPos env p packSlot itemSlot of None \<Rightarrow> cancelled | Some g \<Rightarrow>
       if slot \<noteq> TRADE_SLOT_NONTRADED \<and> \<not> canBeTraded env g then cancelled
       else if HasItem my g then cancelled
       else res_bind (UpdateClientStateIndex p w) (\<lambda>w1.
         if slot \<noteq> TRADE_SLOT_NONTRADED \<and> isBindedNotWith env g (td_trader my)
         then Inr (send_status p TRADE_STATUS_NOT_ON_TAPLIST EQUIP_ERR_OK w1)
         else SetItem env p slot (Some g) False w1))"

definition HandleClearTradeItemOpcode :: "trade_env \<Rightarrow> ObjectGuid \<Rightarrow> uint8 \<Rightarrow> trade_world \<Rightarrow> fault + trade_world" where
  "HandleClearTradeItemOpcode env p tradeSlot w = (case trade_of w p of None \<Rightarrow> Inr w | Some _ \<Rightarrow>
     res_bind (UpdateClientStateIndex p w) (\<lambda>w1.
     if TRADE_SLOT_COUNT \<le> unat tradeSlot then Inr w1 else SetItem env p (unat tradeSlot) None False w1))"

text \<open>A change of the size of a stack that lies in the window, and a spell cast on the trade slot.\<close>

definition item_SetCount :: "trade_env \<Rightarrow> ObjectGuid \<Rightarrow> ObjectGuid \<Rightarrow> trade_world \<Rightarrow> fault + trade_world" where
  "item_SetCount env p g w = (case trade_of w p of None \<Rightarrow> Inr w | Some td \<Rightarrow>
     (case GetTradeSlotForItem td g of None \<Rightarrow> Inr w | Some slot \<Rightarrow> SetItem env p slot (Some g) True w))"

definition cast_on_trade_slot :: "trade_env \<Rightarrow> ObjectGuid \<Rightarrow> uint32 \<Rightarrow> ObjectGuid \<Rightarrow> trade_world \<Rightarrow> fault + trade_world" where
  "cast_on_trade_slot env p spell castItem w = (case trade_of w p of None \<Rightarrow> Inr w | Some td \<Rightarrow>
     if td_acceptProcess td then Inr w else SetSpell env p spell castItem w)"

end
