(* ===== verification/Trade_Safety.thy ===== *)
theory Trade_Safety
  imports Trade "HOL-Library.Multiset"
begin

text \<open>
  Safety of trades: windows stay paired and no handler follows a dangling pointer, an offer cannot change
  under a side that keeps its acceptance, and a trade neither duplicates an item nor creates money.
\<close>

section \<open>Pairs of windows\<close>

definition goods :: "trade_world \<Rightarrow> ObjectGuid \<Rightarrow> uint64 \<times> ObjectGuid list" where
  "goods w x = (tp_money (tw_player w x), tp_items (tw_player w x))"

definition offer :: "trade_data \<Rightarrow> ObjectGuid list \<times> uint64 \<times> uint32 \<times> ObjectGuid" where
  "offer td = (td_items td, td_money td, td_spell td, td_spellCastItem td)"

definition window_ok :: "trade_data \<Rightarrow> bool" where
  "window_ok td \<longleftrightarrow> length (td_items td) = TRADE_SLOT_COUNT \<and> distinct (filter (\<lambda>g. \<not> IsEmpty g) (td_items td))"

definition linked :: "ObjectGuid \<Rightarrow> ObjectGuid \<Rightarrow> trade_world \<Rightarrow> bool" where
  "linked p q w \<longleftrightarrow> p \<noteq> q \<and> (\<exists>a b. trade_of w p = Some a \<and> trade_of w q = Some b \<and>
     td_player a = p \<and> td_trader a = q \<and> td_player b = q \<and> td_trader b = p)"

lemma linked_sym: "linked p q w \<longleftrightarrow> linked q p w"
  unfolding linked_def by blast

lemma linked_partner: "linked p q w \<Longrightarrow> partner w p = Inr q"
  by (auto simp: linked_def partner_def)

lemma linkedE:
  assumes "linked p q w"
  obtains a b where "trade_of w p = Some a" "trade_of w q = Some b" "td_player a = p" "td_trader a = q"
    "td_player b = q" "td_trader b = p" "p \<noteq> q"
  using assms by (auto simp: linked_def)

text \<open>
  What an operation on the windows of two players may do as long as nobody accepts: it leaves the goods and all
  other windows alone, and it changes an offer only by withdrawing both acceptances.
\<close>

definition unchanged_or_open :: "trade_data \<Rightarrow> trade_data \<Rightarrow> trade_data \<Rightarrow> trade_data \<Rightarrow> bool" where
  "unchanged_or_open a b a' b' \<longleftrightarrow> (td_accepted a' \<longrightarrow> td_accepted a) \<and> (td_accepted b' \<longrightarrow> td_accepted b) \<and>
     (offer a' = offer a \<and> offer b' = offer b \<or> \<not> td_accepted a' \<and> \<not> td_accepted b')"

definition same_ends :: "trade_data \<Rightarrow> trade_data \<Rightarrow> bool" where
  "same_ends a a' \<longleftrightarrow> td_player a' = td_player a \<and> td_trader a' = td_trader a \<and> (window_ok a \<longrightarrow> window_ok a')"

definition quiet :: "ObjectGuid \<Rightarrow> ObjectGuid \<Rightarrow> trade_world \<Rightarrow> trade_world \<Rightarrow> bool" where
  "quiet p q w w' \<longleftrightarrow> goods w' = goods w \<and> (\<forall>x. x \<noteq> p \<longrightarrow> x \<noteq> q \<longrightarrow> trade_of w' x = trade_of w x) \<and>
     (\<exists>a b a' b'. trade_of w p = Some a \<and> trade_of w q = Some b \<and> trade_of w' p = Some a' \<and> trade_of w' q = Some b' \<and>
        same_ends a a' \<and> same_ends b b' \<and> unchanged_or_open a b a' b')"

lemma quietI:
  assumes "goods w' = goods w" "\<forall>x. x \<noteq> p \<longrightarrow> x \<noteq> q \<longrightarrow> trade_of w' x = trade_of w x"
    "trade_of w p = Some a" "trade_of w q = Some b" "trade_of w' p = Some a'" "trade_of w' q = Some b'"
    "same_ends a a'" "same_ends b b'" "unchanged_or_open a b a' b'"
  shows "quiet p q w w'"
  using assms unfolding quiet_def by blast

lemma quietE:
  assumes "quiet p q w w'"
  obtains a b a' b' where "goods w' = goods w" "\<forall>x. x \<noteq> p \<longrightarrow> x \<noteq> q \<longrightarrow> trade_of w' x = trade_of w x"
    "trade_of w p = Some a" "trade_of w q = Some b" "trade_of w' p = Some a'" "trade_of w' q = Some b'"
    "same_ends a a'" "same_ends b b'" "unchanged_or_open a b a' b'"
  using assms unfolding quiet_def by blast

lemma unchanged_or_open_sym: "unchanged_or_open a b a' b' \<Longrightarrow> unchanged_or_open b a b' a'"
  by (auto simp: unchanged_or_open_def)

lemma unchanged_or_open_trans: "unchanged_or_open a b a' b' \<Longrightarrow> unchanged_or_open a' b' a'' b'' \<Longrightarrow> unchanged_or_open a b a'' b''"
  by (auto simp: unchanged_or_open_def)

lemma same_ends_trans: "same_ends a a' \<Longrightarrow> same_ends a' a'' \<Longrightarrow> same_ends a a''"
  by (simp add: same_ends_def)

lemma quiet_swap: "quiet p q w w' \<Longrightarrow> quiet q p w w'"
proof (erule quietE)
  fix a b a' b'
  assume "goods w' = goods w" "\<forall>x. x \<noteq> p \<longrightarrow> x \<noteq> q \<longrightarrow> trade_of w' x = trade_of w x" "trade_of w p = Some a" "trade_of w q = Some b"
    "trade_of w' p = Some a'" "trade_of w' q = Some b'" "same_ends a a'" "same_ends b b'" "unchanged_or_open a b a' b'"
  then show ?thesis by (intro quietI [of w' w q p b a b' a']) (simp_all add: unchanged_or_open_sym)
qed

lemma quiet_sym: "quiet p q w w' \<longleftrightarrow> quiet q p w w'"
  using quiet_swap by blast

lemma quiet_linked: "linked p q w \<Longrightarrow> quiet p q w w' \<Longrightarrow> linked p q w'"
  by (erule linkedE, erule quietE) (simp add: linked_def same_ends_def)

lemma quiet_trans:
  assumes "quiet p q w w'" "quiet p q w' w''"
  shows "quiet p q w w''"
proof -
  obtain a b a' b' where 1: "goods w' = goods w" "\<forall>x. x \<noteq> p \<longrightarrow> x \<noteq> q \<longrightarrow> trade_of w' x = trade_of w x"
    "trade_of w p = Some a" "trade_of w q = Some b" "trade_of w' p = Some a'" "trade_of w' q = Some b'"
    "same_ends a a'" "same_ends b b'" "unchanged_or_open a b a' b'" using assms(1) by (rule quietE)
  obtain c d c' d' where 2: "goods w'' = goods w'" "\<forall>x. x \<noteq> p \<longrightarrow> x \<noteq> q \<longrightarrow> trade_of w'' x = trade_of w' x"
    "trade_of w' p = Some c" "trade_of w' q = Some d" "trade_of w'' p = Some c'" "trade_of w'' q = Some d'"
    "same_ends c c'" "same_ends d d'" "unchanged_or_open c d c' d'" using assms(2) by (rule quietE)
  from 1 2 have "c = a'" "d = b'" by simp_all
  with 1 2 show ?thesis by (intro quietI [of w'' w p q a b c' d']) (auto intro: same_ends_trans unchanged_or_open_trans)
qed

lemma quiet_refl: "linked p q w \<Longrightarrow> quiet p q w w"
  by (auto simp: linked_def quiet_def same_ends_def unchanged_or_open_def)

text \<open>An operation that succeeds on linked windows and is quiet; the rule for sequences.\<close>

definition runs :: "ObjectGuid \<Rightarrow> ObjectGuid \<Rightarrow> trade_world \<Rightarrow> fault + trade_world \<Rightarrow> bool" where
  "runs p q w r \<longleftrightarrow> (\<exists>w'. r = Inr w' \<and> quiet p q w w')"

lemma runs_Inr [simp]: "runs p q w (Inr w') \<longleftrightarrow> quiet p q w w'"
  by (simp add: runs_def)

lemma runs_sym: "runs p q w r \<longleftrightarrow> runs q p w r"
  by (simp add: runs_def quiet_sym)

lemma runs_bind:
  assumes "linked p q w" "runs p q w r" "\<And>w'. linked p q w' \<Longrightarrow> quiet p q w w' \<Longrightarrow> runs p q w' (f w')"
  shows "runs p q w (res_bind r f)"
  using assms quiet_linked quiet_trans unfolding runs_def by (metis res_bind_simps(2))

lemma set_player_sel [simp]:
  "tw_player (set_player p f w) x = (if x = p then f (tw_player w p) else tw_player w x)"
  by (simp add: set_player_def)

lemma send_to_sel [simp]: "tw_player (send_to p m w) = tw_player w" "tw_inTrade (send_to p m w) = tw_inTrade w"
  by (simp_all add: send_to_def)

lemma send_to_linked [simp]: "linked p q (send_to x m w) \<longleftrightarrow> linked p q w"
  by (simp add: linked_def)

lemma send_to_quiet [simp]: "quiet p q w (send_to x m w') \<longleftrightarrow> quiet p q w w'"
  "quiet p q (send_to x m w) w' \<longleftrightarrow> quiet p q w w'"
  by (simp_all add: quiet_def goods_def fun_eq_iff)

lemma GetItem_cong: "goods w' = goods w \<Longrightarrow> GetItem w' = GetItem w"
  by (simp add: GetItem_def goods_def fun_eq_iff Let_def)

lemma with_trade_run:
  assumes "linked p q w" "trade_of w p = Some a" "trade_of w q = Some b" "same_ends a (f a)" "unchanged_or_open a b (f a) b"
  shows "runs p q w (with_trade p f w)"
  using assms by (auto simp: with_trade_def quiet_def goods_def fun_eq_iff linked_def same_ends_def)

lemma SetAccepted_False_run:
  assumes "linked p q w"
  shows "runs p q w (SetAccepted p False forTrader w)"
proof -
  obtain a b where ab: "trade_of w p = Some a" "trade_of w q = Some b" using assms by (rule linkedE)
  have "runs p q w (with_trade p (\<lambda>td. td\<lparr>td_accepted := False\<rparr>) w)"
    by (rule with_trade_run [OF assms ab]) (simp_all add: same_ends_def window_ok_def unchanged_or_open_def offer_def)
  then have "runs p q w (res_bind (with_trade p (\<lambda>td. td\<lparr>td_accepted := False\<rparr>) w) (\<lambda>w1. Inr (send_to x m w1)))" for x m
    by (rule runs_bind [OF assms]) (simp add: quiet_refl)
  then show ?thesis unfolding SetAccepted_def by (simp add: linked_partner [OF assms])
qed

lemma UpdateServerStateIndex_run:
  assumes "linked p q w"
  shows "runs p q w (UpdateServerStateIndex env p w)"
proof -
  let ?w = "w\<lparr>tw_rand := Suc (tw_rand w)\<rparr>"
  obtain a b where ab: "trade_of w p = Some a" "trade_of w q = Some b" using assms by (rule linkedE)
  have "runs p q ?w (UpdateServerStateIndex env p w)" unfolding UpdateServerStateIndex_def
    by (rule with_trade_run [where a = a and b = b])
      (use assms ab in \<open>simp_all add: linked_def same_ends_def window_ok_def unchanged_or_open_def offer_def\<close>)
  moreover have "quiet p q ?w w' \<longleftrightarrow> quiet p q w w'" for w'
  proof -
    have "goods ?w = goods w" by (simp add: goods_def fun_eq_iff)
    then show ?thesis by (simp add: quiet_def)
  qed
  ultimately show ?thesis by (simp add: runs_def)
qed

lemma UpdateClientStateIndex_run:
  assumes "linked p q w"
  shows "runs p q w (UpdateClientStateIndex p w)"
proof -
  obtain a b where ab: "trade_of w p = Some a" "trade_of w q = Some b" using assms by (rule linkedE)
  show ?thesis unfolding UpdateClientStateIndex_def
    by (rule with_trade_run [OF assms ab]) (simp_all add: same_ends_def window_ok_def unchanged_or_open_def offer_def)
qed

lemma SendUpdateTrade_run: "linked p q w \<Longrightarrow> runs p q w (SendUpdateTrade p b w)"
  unfolding SendUpdateTrade_def by (erule linkedE) (auto simp: partner_def linked_def intro!: quiet_refl)

lemma td_Update_run: "linked p q w \<Longrightarrow> runs p q w (td_Update p b w)"
  unfolding td_Update_def using SendUpdateTrade_run [of p q w False] SendUpdateTrade_run [of q p w True]
  by (simp add: linked_partner linked_sym [of q p] runs_sym [of q p])

section \<open>Changes of an offer\<close>

definition open_side :: "ObjectGuid \<Rightarrow> trade_world \<Rightarrow> bool" where
  "open_side p w \<longleftrightarrow> (\<forall>td. trade_of w p = Some td \<longrightarrow> \<not> td_accepted td)"

lemma quiet_open: "quiet p q w w' \<Longrightarrow> open_side p w \<Longrightarrow> open_side p w'" "quiet p q w w' \<Longrightarrow> open_side q w \<Longrightarrow> open_side q w'"
  by (auto elim!: quietE simp: open_side_def unchanged_or_open_def)

lemma SetAccepted_open: "SetAccepted p False forTrader w = Inr w' \<Longrightarrow> open_side p w'"
  by (auto simp: SetAccepted_def with_trade_def res_bind_eq_Inr open_side_def split: option.splits if_splits)

text \<open>Sequences that end with both acceptances withdrawn.\<close>

definition opens :: "ObjectGuid \<Rightarrow> ObjectGuid \<Rightarrow> trade_world \<Rightarrow> fault + trade_world \<Rightarrow> bool" where
  "opens p q w r \<longleftrightarrow> (\<exists>w'. r = Inr w' \<and> quiet p q w w' \<and> open_side p w' \<and> open_side q w')"

lemma opens_runs: "opens p q w r \<Longrightarrow> runs p q w r"
  by (auto simp: opens_def runs_def)

lemma opens_bind:
  assumes "linked p q w" "opens p q w r" "\<And>w'. linked p q w' \<Longrightarrow> runs p q w' (f w')"
  shows "opens p q w (res_bind r f)"
proof -
  obtain w' where w': "r = Inr w'" "quiet p q w w'" "open_side p w'" "open_side q w'" using assms(2) by (auto simp: opens_def)
  then obtain w'' where "f w' = Inr w''" "quiet p q w' w''" using assms(1,3) quiet_linked unfolding runs_def by metis
  with w' show ?thesis unfolding opens_def by (auto intro: quiet_trans quiet_open)
qed

lemma offer_changed_opens:
  assumes "linked p q w"
  shows "opens p q w (offer_changed env p w)"
proof -
  obtain w1 where w1: "SetAccepted p False False w = Inr w1" "quiet p q w w1"
    using SetAccepted_False_run [OF assms] by (auto simp: runs_def)
  have l1: "linked p q w1" using assms w1(2) by (rule quiet_linked)
  then have "linked q p w1" by (simp add: linked_sym)
  then obtain w2 where w2: "SetAccepted q False False w1 = Inr w2" "quiet p q w1 w2"
    using SetAccepted_False_run [of q p w1 False] quiet_swap by (auto simp: runs_def)
  have l2: "linked p q w2" using l1 w2(2) by (rule quiet_linked)
  obtain w3 where w3: "UpdateServerStateIndex env p w2 = Inr w3" "quiet p q w2 w3"
    using UpdateServerStateIndex_run [OF l2] by (auto simp: runs_def)
  have "offer_changed env p w = Inr w3" by (simp add: offer_changed_def w1 linked_partner [OF l1] w2 w3)
  moreover have "quiet p q w w3" using w1(2) w2(2) w3(2) quiet_trans by blast
  moreover have "open_side p w3" "open_side q w3"
    using SetAccepted_open [OF w1(1)] SetAccepted_open [OF w2(1)] w2(2) w3(2) quiet_open by blast+
  ultimately show ?thesis by (simp add: opens_def)
qed

lemma change_offer:
  assumes "linked p q w" "trade_of w p = Some a" "same_ends a (f a)" "\<And>w1. linked p q w1 \<Longrightarrow> opens p q w1 (g w1)"
  shows "runs p q w (res_bind (with_trade p f w) g)"
proof -
  obtain b where b: "trade_of w q = Some b" "p \<noteq> q" using assms(1) by (rule linkedE)
  define w1 where "w1 = set_player p (\<lambda>pl. pl\<lparr>tp_trade := Some (f a)\<rparr>) w"
  have t: "trade_of w1 x = (if x = p then Some (f a) else trade_of w x)" "goods w1 = goods w" for x
    by (auto simp: w1_def goods_def fun_eq_iff)
  have "linked p q w1" using assms(1-3) b by (auto simp: linked_def t same_ends_def)
  then obtain w2 where w2: "g w1 = Inr w2" "quiet p q w1 w2" "open_side p w2" "open_side q w2"
    using assms(4) by (auto simp: opens_def)
  from w2(2) obtain a' b' where q: "goods w2 = goods w" "\<forall>x. x \<noteq> p \<longrightarrow> x \<noteq> q \<longrightarrow> trade_of w2 x = trade_of w x"
    "trade_of w2 p = Some a'" "trade_of w2 q = Some b'" "same_ends (f a) a'" "same_ends b b'"
    using b by (auto elim!: quietE simp: t)
  have "\<not> td_accepted a'" "\<not> td_accepted b'" using w2(3,4) q(3,4) by (simp_all add: open_side_def)
  then have "quiet p q w w2"
    using q assms(2,3) b same_ends_trans by (intro quietI [of w2 w p q a b a' b']) (auto simp: unchanged_or_open_def)
  then show ?thesis using assms(2) w2(1) by (simp add: with_trade_def w1_def runs_def)
qed

lemma SetSpell_run:
  assumes "linked p q w"
  shows "runs p q w (SetSpell env p s c w)"
proof -
  obtain a where a: "trade_of w p = Some a" using assms by (rule linkedE)
  have "runs p q w (res_bind (with_trade p (\<lambda>td. td\<lparr>td_spell := s, td_spellCastItem := c\<rparr>) w) (\<lambda>w1.
          res_bind (offer_changed env p w1) (\<lambda>w2. res_bind (td_Update p True w2) (td_Update p False))))"
    using assms a by (rule change_offer)
      (auto simp: same_ends_def window_ok_def intro!: opens_bind offer_changed_opens runs_bind td_Update_run)
  then show ?thesis using assms by (simp add: SetSpell_def a quiet_refl)
qed

lemma td_SetMoney_run:
  assumes "linked p q w"
  shows "runs p q w (td_SetMoney env p money w)"
proof -
  obtain a where a: "trade_of w p = Some a" using assms by (rule linkedE)
  have "runs p q w (res_bind (with_trade p (\<lambda>td. td\<lparr>td_money := money\<rparr>) w) (\<lambda>w1.
          res_bind (offer_changed env p w1) (td_Update p True)))"
    using assms a by (rule change_offer)
      (auto simp: same_ends_def window_ok_def intro!: opens_bind offer_changed_opens td_Update_run)
  then show ?thesis using assms by (simp add: td_SetMoney_def a quiet_refl)
qed

lemma SetItem_run:
  assumes l: "linked p q w" and a: "trade_of w p = Some a"
    and ok: "window_ok a \<Longrightarrow> window_ok (a\<lparr>td_items := (td_items a)[slot := (case item of None \<Rightarrow> guid_Empty | Some g \<Rightarrow> g)]\<rparr>)"
  shows "runs p q w (SetItem env p slot item upd w)"
proof -
  let ?g = "case item of None \<Rightarrow> guid_Empty | Some g \<Rightarrow> g"
  have other: "runs p q w (SetSpell env q 0 guid_Empty w)" if "linked p q w" for w
    using SetSpell_run [of q p w env] that by (simp add: linked_sym runs_sym)
  have "runs p q w (res_bind (with_trade p (\<lambda>td. td\<lparr>td_items := (td_items td)[slot := ?g]\<rparr>) w) (\<lambda>w1.
          res_bind (offer_changed env p w1) (\<lambda>w2.
          res_bind (td_Update p True w2) (\<lambda>w3.
          res_bind (if slot = TRADE_SLOT_NONTRADED then res_bind (partner w3 p) (\<lambda>q. SetSpell env q 0 guid_Empty w3) else Inr w3) (\<lambda>w4.
          SetSpell env p 0 guid_Empty w4)))))"
    using l a
  proof (rule change_offer)
    show "same_ends a (a\<lparr>td_items := (td_items a)[slot := ?g]\<rparr>)" using ok by (simp add: same_ends_def)
    show "opens p q w1 (res_bind (offer_changed env p w1) (\<lambda>w2.
          res_bind (td_Update p True w2) (\<lambda>w3.
          res_bind (if slot = TRADE_SLOT_NONTRADED then res_bind (partner w3 p) (\<lambda>q. SetSpell env q 0 guid_Empty w3) else Inr w3) (\<lambda>w4.
          SetSpell env p 0 guid_Empty w4))))" if "linked p q w1" for w1
      using that by (auto intro!: opens_bind offer_changed_opens runs_bind td_Update_run SetSpell_run other quiet_refl
          simp: linked_partner)
  qed
  then show ?thesis using l by (simp add: SetItem_def a quiet_refl Let_def)
qed

lemma distinct_filter_update:
  assumes "distinct (filter P xs)" "\<not> P g \<or> g \<notin> set xs"
  shows "distinct (filter P (xs[i := g]))"
proof (cases "i < length xs")
  case True
  have "distinct (filter P (take i xs @ xs ! i # drop (Suc i) xs))" using assms(1) True by (simp flip: id_take_nth_drop)
  moreover have "g \<notin> set (take i xs) \<and> g \<notin> set (drop (Suc i) xs) \<or> \<not> P g"
    using assms(2) by (auto dest: in_set_takeD in_set_dropD)
  ultimately show ?thesis using True by (auto simp: upd_conv_take_nth_drop split: if_splits)
qed (use assms in \<open>simp add: list_update_beyond\<close>)

lemma window_ok_SetItem:
  assumes "window_ok a" "IsEmpty g \<or> g \<notin> set (td_items a) \<or> td_items a ! slot = g"
  shows "window_ok (a\<lparr>td_items := (td_items a)[slot := g]\<rparr>)"
proof (cases "td_items a ! slot = g")
  case True
  then have "(td_items a)[slot := g] = td_items a" by auto
  with assms(1) show ?thesis by (simp add: window_ok_def)
qed (use assms in \<open>auto simp: window_ok_def intro: distinct_filter_update\<close>)

section \<open>Handlers that change a window\<close>

lemma IsEmpty_Empty [simp]: "IsEmpty guid_Empty"
  by (simp add: IsEmpty_def)

lemma HasItem_set: "window_ok td \<Longrightarrow> HasItem td g \<longleftrightarrow> g \<in> set (td_items td)"
  by (auto simp: HasItem_def window_ok_def in_set_conv_nth)

lemma same_offer_window: "same_ends a a' \<Longrightarrow> window_ok a \<Longrightarrow> window_ok a'"
  by (simp add: same_ends_def)

lemma UpdateClientStateIndex_items:
  assumes "trade_of w p = Some a"
  shows "\<exists>w1. UpdateClientStateIndex p w = Inr w1 \<and> trade_of w1 p = Some (a\<lparr>td_clientStateIndex := td_clientStateIndex a + 1\<rparr>)"
  using assms by (simp add: UpdateClientStateIndex_def with_trade_def)

text \<open>A handler of a player either has no window to act on or runs on a linked pair.\<close>

lemma HandleSetTradeGold_run:
  assumes "linked p q w"
  shows "runs p q w (HandleSetTradeGoldOpcode env p coinage w)"
proof -
  obtain a where a: "trade_of w p = Some a" using assms by (rule linkedE)
  show ?thesis unfolding HandleSetTradeGoldOpcode_def a option.case
    by (rule runs_bind [OF assms UpdateClientStateIndex_run [OF assms]]) (rule td_SetMoney_run)
qed

lemma HandleClearTradeItem_run:
  assumes "linked p q w"
  shows "runs p q w (HandleClearTradeItemOpcode env p slot w)"
proof -
  obtain a where a: "trade_of w p = Some a" using assms by (rule linkedE)
  show ?thesis unfolding HandleClearTradeItemOpcode_def a option.case
  proof (rule runs_bind [OF assms UpdateClientStateIndex_run [OF assms]])
    fix w1 assume l: "linked p q w1"
    then obtain a1 where a1: "trade_of w1 p = Some a1" by (rule linkedE)
    show "runs p q w1 (if TRADE_SLOT_COUNT \<le> unat slot then Inr w1 else SetItem env p (unat slot) None False w1)"
      using SetItem_run [OF l a1, of "unat slot" None env False] l by (simp add: window_ok_SetItem quiet_refl)
  qed
qed

lemma HandleSetTradeItem_run:
  assumes l: "linked p q w" and ok: "\<And>a. trade_of w p = Some a \<Longrightarrow> window_ok a"
  shows "runs p q w (HandleSetTradeItemOpcode env p slot pack pos w)"
proof -
  obtain a where a: "trade_of w p = Some a" using l by (rule linkedE)
  obtain w1 where w1: "UpdateClientStateIndex p w = Inr w1" "trade_of w1 p = Some (a\<lparr>td_clientStateIndex := td_clientStateIndex a + 1\<rparr>)"
    using UpdateClientStateIndex_items [OF a] by blast
  have q1: "quiet p q w w1" using UpdateClientStateIndex_run [OF l] w1(1) by simp
  have l1: "linked p q w1" using l q1 by (rule quiet_linked)
  have "runs p q w1 (SetItem env p (unat slot) (Some g) False w1)" if "\<not> HasItem a g" for g
    using HasItem_set [OF ok [OF a]] that by (intro SetItem_run [OF l1 w1(2)] window_ok_SetItem) simp_all
  then have "runs p q w (SetItem env p (unat slot) (Some g) False w1)" if "\<not> HasItem a g" for g
    using that q1 quiet_trans unfolding runs_def by blast
  then show ?thesis
    using l q1 by (auto simp: HandleSetTradeItemOpcode_def a Let_def w1(1) quiet_refl split: option.split)
qed

lemma item_SetCount_run:
  assumes l: "linked p q w"
  shows "runs p q w (item_SetCount env p g w)"
proof -
  obtain a where a: "trade_of w p = Some a" using l by (rule linkedE)
  show ?thesis
  proof (cases "GetTradeSlotForItem a g")
    case (Some slot)
    then have "td_items a ! slot = g" by (auto simp: GetTradeSlotForItem_def dest: find_in)
    then have "runs p q w (SetItem env p slot (Some g) True w)" by (intro SetItem_run [OF l a]) (simp add: window_ok_SetItem)
    with a Some show ?thesis by (simp add: item_SetCount_def)
  qed (use l a in \<open>simp add: item_SetCount_def quiet_refl\<close>)
qed

lemma cast_on_trade_slot_run: "linked p q w \<Longrightarrow> runs p q w (cast_on_trade_slot env p s c w)"
  by (erule linkedE) (auto simp: cast_on_trade_slot_def linked_def intro!: SetSpell_run quiet_refl)

lemma HandleUnaccept_run: "linked p q w \<Longrightarrow> runs p q w (HandleUnacceptTradeOpcode p w)"
  using SetAccepted_False_run [of p q w True] by (auto simp: HandleUnacceptTradeOpcode_def linked_def)

lemma HandleBegin_run: "linked p q w \<Longrightarrow> runs p q w (HandleBeginTradeOpcode p w)"
  using quiet_refl [of p q w] by (auto simp: HandleBeginTradeOpcode_def linked_def)

section \<open>Acceptance\<close>

lemma set_process_run:
  assumes "linked p q w"
  shows "runs p q w (set_process p q state w)"
proof -
  have one: "runs p q w (with_trade p (\<lambda>td. td\<lparr>td_acceptProcess := state\<rparr>) w)" if "linked p q w" for p q w
  proof -
    obtain a b where ab: "trade_of w p = Some a" "trade_of w q = Some b" using \<open>linked p q w\<close> by (rule linkedE)
    show ?thesis by (rule with_trade_run [OF that ab]) (simp_all add: same_ends_def window_ok_def unchanged_or_open_def offer_def)
  qed
  show ?thesis unfolding set_process_def
    by (rule runs_bind [OF assms one [OF assms]]) (metis one linked_sym runs_sym)
qed

lemma inTrade_quiet [simp]: "quiet p q w (w'\<lparr>tw_inTrade := x\<rparr>) \<longleftrightarrow> quiet p q w w'"
proof -
  have "goods (w'\<lparr>tw_inTrade := x\<rparr>) = goods w'" by (simp add: goods_def fun_eq_iff)
  then show ?thesis by (simp add: quiet_def)
qed

lemma inTrade_linked [simp]: "linked p q (w\<lparr>tw_inTrade := x\<rparr>) \<longleftrightarrow> linked p q w"
  by (simp add: linked_def)

lemma clear_items_quiet [simp]: "quiet p q w (clear_items m h w') \<longleftrightarrow> quiet p q w w'" "linked p q (clear_items m h w') \<longleftrightarrow> linked p q w'"
  by (simp_all add: clear_items_def)

lemma setAcceptTradeMode_run: "linked p q w \<Longrightarrow> runs p q w (setAcceptTradeMode p q m h w)"
  unfolding setAcceptTradeMode_def by (rule runs_bind) (simp_all add: set_process_run quiet_refl)

lemma leave_accept_mode_run: "linked p q w \<Longrightarrow> runs p q w (leave_accept_mode p q m h w)"
  unfolding leave_accept_mode_def by (rule runs_bind) (simp_all add: set_process_run quiet_refl)

lemma SetAccepted_both_run:
  assumes "linked p q w" "side \<in> {p, q}"
  shows "runs p q w (SetAccepted side False forTrader w)"
  using assms SetAccepted_False_run [of p q w] SetAccepted_False_run [of q p w] by (auto simp: linked_sym runs_sym)

lemma first_bad_item_undo: "first_bad_item (bad_item env p q w my his) is = Some (Refusal who st bag undo) \<Longrightarrow> undo = None"
  by (induction "is") (auto simp: bad_item_def split: option.splits if_splits)

lemma accept_refusal_side:
  "accept_refusal env si p q w my his = Some (Refusal who st bag (Some (side, b))) \<Longrightarrow> side \<in> {p, q}"
  by (auto simp: accept_refusal_def split: if_splits dest: first_bad_item_undo)

lemma refuse_run:
  assumes "linked p q w" "accept_refusal env si p q w my his = Some r"
  shows "runs p q w (refuse r w)"
proof (cases r)
  case (Refusal who st bag undo)
  show ?thesis
  proof (cases undo)
    case None
    with assms Refusal show ?thesis by (simp add: refuse_def quiet_refl)
  next
    case (Some sb)
    obtain side b where sb: "sb = (side, b)" by force
    then have "side \<in> {p, q}" using accept_refusal_side assms(2) Refusal Some by blast
    then have "runs p q (send_status who st bag w) (SetAccepted side False b (send_status who st bag w))"
      using assms(1) by (intro SetAccepted_both_run) simp_all
    then show ?thesis by (simp add: refuse_def Refusal Some sb Let_def runs_def)
  qed
qed

lemma report_no_space_run:
  assumes "linked p q w"
  shows "runs p q w (report_no_space full other bag p q w)"
  unfolding report_no_space_def
proof (rule runs_bind [OF assms set_process_run [OF assms]])
  fix w1 assume l: "linked p q w1"
  let ?w = "send_to full (TradeStatusMsg TRADE_STATUS_FAILED bag True) (send_to other (TradeStatusMsg TRADE_STATUS_FAILED bag False) w1)"
  have "runs p q ?w (res_bind (SetAccepted p False False ?w) (SetAccepted q False False))"
    using l by (intro runs_bind SetAccepted_both_run) simp_all
  then show "runs p q w1 (let w2 = ?w in res_bind (SetAccepted p False False w2) (SetAccepted q False False))"
    by (simp add: runs_def)
qed

lemma set_player_goods_trade:
  "(\<And>pl. tp_trade (f pl) = tp_trade pl) \<Longrightarrow> trade_of (set_player x f w) y = trade_of w y"
  by simp

lemma exchange_parts_trade [simp]:
  "trade_of (MoveItemFromInventory x item w) y = trade_of w y" "trade_of (MoveItemToInventory x item w) y = trade_of w y"
  "trade_of (ModifyMoney env x n w) y = trade_of w y" "trade_of (give_back env x item w) y = trade_of w y"
  "trade_of (move_slot env x z items w) y = trade_of w y" "trade_of (prepare_spell x c w) y = trade_of w y"
  by (auto simp: MoveItemFromInventory_def MoveItemToInventory_def ModifyMoney_def give_back_def move_slot_def
      prepare_spell_def Let_def split: option.splits prod.splits spell_check.splits)

lemma exchange_trade [simp]: "trade_of (exchange env p q my his m h w) y = trade_of w y"
proof -
  have f: "trade_of (fold (\<lambda>(mine, hers) w. MoveItemFromInventory q hers (MoveItemFromInventory p mine w)) xs w) y = trade_of w y" for xs w
    by (induction xs arbitrary: w) auto
  have g: "trade_of (fold (move_slot env p z) xs w) y = trade_of w y" for xs w z
    by (induction xs arbitrary: w) auto
  show ?thesis by (simp add: exchange_def moveItems_def Let_def f g split: option.split)
qed

text \<open>Acceptance of the second side: the windows stay, quietly, or the trade is carried out and both are closed.\<close>

definition closes :: "ObjectGuid \<Rightarrow> ObjectGuid \<Rightarrow> trade_world \<Rightarrow> trade_world \<Rightarrow> trade_world \<Rightarrow> bool" where
  "closes p q w done w' \<longleftrightarrow> trade_of w' p = None \<and> trade_of w' q = None \<and>
     (\<forall>x. x \<noteq> p \<longrightarrow> x \<noteq> q \<longrightarrow> trade_of w' x = trade_of w x) \<and> goods w' = goods done"

lemma goods_simps [simp]: "goods (send_to x m w) = goods w" "goods (prepare_spell x c w) = goods w" "goods (clear_items mine h w) = goods w"
  by (auto simp: goods_def fun_eq_iff prepare_spell_def clear_items_def split: spell_check.splits)

lemma goods_close: "goods (close_trades p q w) = goods w"
  by (auto simp: goods_def fun_eq_iff close_trades_def)

lemma finish_trade_cases:
  assumes l: "linked p q w"
  shows "runs p q w (finish_trade env p q my his ms hs m h w) \<or>
    (\<exists>w'. finish_trade env p q my his ms hs m h w = Inr w' \<and>
       closes p q w (exchange env p q my his m h (clear_items m h (send_status q TRADE_STATUS_ACCEPTED EQUIP_ERR_OK w))) w')"
proof -
  let ?w2 = "clear_items m h (send_status q TRADE_STATUS_ACCEPTED EQUIP_ERR_OK w)"
  have l2: "linked p q ?w2" and q2: "quiet p q w ?w2" using l quiet_refl [OF l] by simp_all
  have no_space: "runs p q w (report_no_space f o' b p q ?w2)" for f o' b
    using report_no_space_run [OF l2, of f o' b] quiet_trans [OF q2] unfolding runs_def by blast
  let ?w4 = "prepare_spell q hs (prepare_spell p ms (exchange env p q my his m h ?w2))"
  have t4: "trade_of ?w4 x = trade_of w x" for x by (simp add: clear_items_def)
  then have l4: "linked p q ?w4" using l by (simp add: linked_def)
  obtain w5 where w5: "set_process p q False ?w4 = Inr w5" "quiet p q ?w4 w5"
    using set_process_run [OF l4, of False] unfolding runs_def by blast
  let ?w' = "send_status p TRADE_STATUS_COMPLETE EQUIP_ERR_OK (send_status q TRADE_STATUS_COMPLETE EQUIP_ERR_OK (close_trades p q w5))"
  have "closes p q w (exchange env p q my his m h ?w2) ?w'"
    using w5(2) t4 by (auto simp: closes_def quiet_def goods_close) (auto simp: close_trades_def)
  then show ?thesis using no_space w5(1) by (simp add: finish_trade_def Let_def)
qed

lemma runs_after: "quiet p q w w1 \<Longrightarrow> runs p q w1 r \<Longrightarrow> runs p q w r"
  unfolding runs_def by (metis quiet_trans)

lemma leave_then_spell_run:
  assumes "linked p q w" "side \<in> {p, q}"
  shows "runs p q w (res_bind (leave_accept_mode p q m h (send_to x msg w)) (SetSpell env side 0 guid_Empty))"
    "runs p q w (res_bind (leave_accept_mode p q m h w) (SetSpell env side 0 guid_Empty))"
    "runs p q w (res_bind (SetSpell env side 0 guid_Empty w) (leave_accept_mode p q m h))"
proof -
  have spell: "runs p q w (SetSpell env side 0 guid_Empty w)" if "linked p q w" for w
    using assms(2) SetSpell_run [of p q w env 0 guid_Empty] SetSpell_run [of q p w env 0 guid_Empty] that
    by (auto simp: linked_sym runs_sym)
  have leave: "runs p q w (res_bind (leave_accept_mode p q m h w) (SetSpell env side 0 guid_Empty))" if "linked p q w" for w
    using that spell by (intro runs_bind leave_accept_mode_run) simp_all
  from leave [of "send_to x msg w"] assms(1)
  show "runs p q w (res_bind (leave_accept_mode p q m h (send_to x msg w)) (SetSpell env side 0 guid_Empty))"
    by (simp add: runs_def)
  show "runs p q w (res_bind (leave_accept_mode p q m h w) (SetSpell env side 0 guid_Empty))" using leave assms(1) .
  show "runs p q w (res_bind (SetSpell env side 0 guid_Empty w) (leave_accept_mode p q m h))"
    using assms(1) spell leave_accept_mode_run by (intro runs_bind) simp_all
qed

text \<open>The state in which the goods change hands.\<close>

definition ready_state :: "ObjectGuid \<Rightarrow> ObjectGuid option list \<Rightarrow> ObjectGuid option list \<Rightarrow> trade_world \<Rightarrow> trade_world" where
  "ready_state q m h w = clear_items m h (send_status q TRADE_STATUS_ACCEPTED EQUIP_ERR_OK w)"

lemma accept_both_cases:
  assumes l: "linked p q w"
  shows "runs p q w (accept_both env p q my his w) \<or>
    (\<exists>w1 w'. quiet p q w w1 \<and> accept_both env p q my his w = Inr w' \<and>
       closes p q w (exchange env p q my his (traded_items w my) (traded_items w his) (ready_state q (traded_items w my) (traded_items w his) w1)) w')"
proof -
  let ?m = "traded_items w my" and ?h = "traded_items w his"
  obtain w1 where w1: "setAcceptTradeMode p q ?m ?h w = Inr w1" "quiet p q w w1"
    using setAcceptTradeMode_run [OF l] by (auto simp: runs_def)
  have l1: "linked p q w1" using l w1(2) by (rule quiet_linked)
  note earlier = runs_after [OF w1(2)]
  have ls: "runs p q w (res_bind (leave_accept_mode p q ?m ?h (send_to x msg w1)) (SetSpell env side 0 guid_Empty))"
    "runs p q w (res_bind (leave_accept_mode p q ?m ?h w1) (SetSpell env side 0 guid_Empty))"
    "runs p q w (res_bind (SetSpell env side 0 guid_Empty w1) (leave_accept_mode p q ?m ?h))" if "side \<in> {p, q}" for side x msg
    using leave_then_spell_run [OF l1 that] earlier by blast+
  have fin: "runs p q w (finish_trade env p q my his ms hs ?m ?h w1) \<or>
      (\<exists>w'. finish_trade env p q my his ms hs ?m ?h w1 = Inr w' \<and>
        closes p q w (exchange env p q my his ?m ?h (ready_state q ?m ?h w1)) w')" for ms hs
    using finish_trade_cases [OF l1, of env my his ms hs ?m ?h] earlier w1(2)
    unfolding ready_state_def closes_def by (auto simp: quiet_def)
  define G where "G r \<longleftrightarrow> runs p q w r \<or>
    (\<exists>w'. r = Inr w' \<and> closes p q w (exchange env p q my his ?m ?h (ready_state q ?m ?h w1)) w')" for r
  have G: "G (res_bind (leave_accept_mode p q ?m ?h (send_to x msg w1)) (SetSpell env side 0 guid_Empty))"
    "G (res_bind (leave_accept_mode p q ?m ?h w1) (SetSpell env side 0 guid_Empty))"
    "G (res_bind (SetSpell env side 0 guid_Empty w1) (leave_accept_mode p q ?m ?h))"
    "G (finish_trade env p q my his ms hs ?m ?h w1)" if "side \<in> {p, q}" for side x msg ms hs
    using ls [OF that] fin unfolding G_def by blast+
  have "G (accept_both env p q my his w)"
    unfolding accept_both_def Let_def w1(1) res_bind_simps by (auto split: spell_check.split intro: G)
  then show ?thesis unfolding G_def using w1(2) by blast
qed

lemma HandleAccept_cases:
  assumes l: "linked p q w" and a: "trade_of w p = Some a" and b: "trade_of w q = Some b"
  obtains w1 where "goods w1 = goods w" "\<And>x. trade_of w1 x = (if x = p then Some (a\<lparr>td_accepted := True\<rparr>) else trade_of w x)"
    "runs p q w1 (HandleAcceptTradeOpcode env p si w) \<or>
     td_accepted b \<and> accept_refusal env si p q w1 a b = None \<and>
     (\<exists>w2 w'. quiet p q w1 w2 \<and> HandleAcceptTradeOpcode env p si w = Inr w' \<and>
        closes p q w1 (exchange env p q a b (traded_items w1 a) (traded_items w1 b) (ready_state q (traded_items w1 a) (traded_items w1 b) w2)) w')"
proof -
  have q: "td_trader a = q" using l a by (auto simp: linked_def)
  define w1 where "w1 = set_player p (\<lambda>pl. pl\<lparr>tp_trade := Some (a\<lparr>td_accepted := True\<rparr>)\<rparr>) w"
  have acc: "SetAccepted p True False w = Inr w1" using linked_partner [OF l] a by (simp add: SetAccepted_def with_trade_def w1_def)
  have l1: "linked p q w1" using l a by (auto simp: linked_def w1_def)
  have r: "HandleAcceptTradeOpcode env p si w = (case accept_refusal env si p q w1 a b of Some r \<Rightarrow> refuse r w1
      | None \<Rightarrow> if td_accepted b then accept_both env p q a b w1 else Inr (send_status q TRADE_STATUS_ACCEPTED EQUIP_ERR_OK w1))"
    by (simp add: HandleAcceptTradeOpcode_def a b q acc)
  have "goods w1 = goods w" "\<And>x. trade_of w1 x = (if x = p then Some (a\<lparr>td_accepted := True\<rparr>) else trade_of w x)"
    by (auto simp: w1_def goods_def fun_eq_iff)
  moreover have "runs p q w1 (HandleAcceptTradeOpcode env p si w) \<or>
     td_accepted b \<and> accept_refusal env si p q w1 a b = None \<and>
     (\<exists>w2 w'. quiet p q w1 w2 \<and> HandleAcceptTradeOpcode env p si w = Inr w' \<and>
        closes p q w1 (exchange env p q a b (traded_items w1 a) (traded_items w1 b) (ready_state q (traded_items w1 a) (traded_items w1 b) w2)) w')"
  proof (cases "accept_refusal env si p q w1 a b")
    case None
    then show ?thesis unfolding r using accept_both_cases [OF l1, of env a b] quiet_refl [OF l1] by auto
  next
    case (Some rf)
    then show ?thesis unfolding r using refuse_run [OF l1 Some] by simp
  qed
  ultimately show ?thesis by (rule that)
qed

section \<open>All windows\<close>

definition world_ok :: "trade_world \<Rightarrow> bool" where
  "world_ok w \<longleftrightarrow> (\<forall>p td. trade_of w p = Some td \<longrightarrow> linked p (td_trader td) w \<and> window_ok td)"

lemma linked_cong:
  "trade_of w' p = trade_of w p \<Longrightarrow> trade_of w' q = trade_of w q \<Longrightarrow> linked p q w' \<longleftrightarrow> linked p q w"
  by (simp add: linked_def)

lemma linked_unique: "linked p q w \<Longrightarrow> linked x y w \<Longrightarrow> x \<noteq> p \<Longrightarrow> x \<noteq> q \<Longrightarrow> y \<noteq> p \<and> y \<noteq> q"
  by (erule linkedE, erule linkedE) (metis option.inject)

lemma world_ok_quiet:
  assumes ok: "world_ok w" and l: "linked p q w" and qu: "quiet p q w w'"
  shows "world_ok w'"
  unfolding world_ok_def
proof (intro allI impI)
  fix x td assume td: "trade_of w' x = Some td"
  have l': "linked p q w'" using l qu by (rule quiet_linked)
  show "linked x (td_trader td) w' \<and> window_ok td"
  proof (cases "x = p \<or> x = q")
    case True
    obtain a b a' b' where q: "trade_of w p = Some a" "trade_of w q = Some b" "trade_of w' p = Some a'" "trade_of w' q = Some b'"
      "same_ends a a'" "same_ends b b'" using qu by (rule quietE)
    have "td = a' \<or> td = b'" using True td q by auto
    moreover have "window_ok a" "window_ok b" using ok q(1,2) by (simp_all add: world_ok_def)
    ultimately have "window_ok td" using q(5,6) by (auto simp: same_ends_def)
    moreover have "linked x (td_trader td) w'"
    proof -
      have "td_trader a' = q" "td_trader b' = p" using l' q(3,4) by (auto simp: linked_def)
      moreover have "linked q p w'" using l' by (simp add: linked_sym)
      ultimately show ?thesis using True td l' q(3,4) by auto
    qed
    ultimately show ?thesis by simp
  next
    case False
    have others: "y \<noteq> p \<Longrightarrow> y \<noteq> q \<Longrightarrow> trade_of w' y = trade_of w y" for y using qu unfolding quiet_def by blast
    with False td have "trade_of w x = Some td" by simp
    with ok have "linked x (td_trader td) w" "window_ok td" by (simp_all add: world_ok_def)
    with False others linked_unique [OF l this(1)] linked_cong [of w' x w "td_trader td"] show ?thesis by simp
  qed
qed

text \<open>Closing the windows of a pair, and opening the windows of two players who have none.\<close>

lemma world_ok_closed:
  assumes ok: "world_ok w" and l: "linked p q w"
    and "trade_of w' p = None" "trade_of w' q = None" "\<And>x. x \<noteq> p \<Longrightarrow> x \<noteq> q \<Longrightarrow> trade_of w' x = trade_of w x"
  shows "world_ok w'"
  unfolding world_ok_def
proof (intro allI impI)
  fix x td assume td: "trade_of w' x = Some td"
  with assms(3,4) have "x \<noteq> p" "x \<noteq> q" by auto
  with td assms(5) [of x] have x: "x \<noteq> p" "x \<noteq> q" "trade_of w x = Some td" by auto
  with ok have "linked x (td_trader td) w" "window_ok td" by (simp_all add: world_ok_def)
  with x assms(5) linked_unique [OF l this(1)] linked_cong [of w' x w "td_trader td"]
  show "linked x (td_trader td) w' \<and> window_ok td" by simp
qed

lemma window_ok_new [simp]: "window_ok (TradeData p q)"
  by (simp add: window_ok_def TradeData_def)

lemma TradeData_sel [simp]: "td_player (TradeData p q) = p" "td_trader (TradeData p q) = q" "td_accepted (TradeData p q) = False"
  by (simp_all add: TradeData_def)

lemma world_ok_initiate:
  assumes "world_ok w"
  shows "world_ok (HandleInitiateTradeOpcode env p other w)"
proof -
  have "world_ok (send_to x m w)" for x m using assms by (simp add: world_ok_def)
  moreover have "world_ok w'" if n: "trade_of w p = None" "trade_of w other = None" "other \<noteq> p"
    and w': "\<And>x. trade_of w' x = (if x = other then Some (TradeData other p) else if x = p then Some (TradeData p other) else trade_of w x)" for w'
    unfolding world_ok_def
  proof (intro allI impI)
    fix x td assume td: "trade_of w' x = Some td"
    show "linked x (td_trader td) w' \<and> window_ok td"
    proof (cases "x = p \<or> x = other")
      case True
      then have "td = TradeData p other \<and> x = p \<or> td = TradeData other p \<and> x = other" using td n(3) by (auto simp: w')
      moreover have "linked p other w'" using n(3) by (auto simp: w' linked_def)
      ultimately show ?thesis using linked_sym [of p other w'] by auto
    next
      case False
      with td have "trade_of w x = Some td" by (simp add: w')
      with assms have "linked x (td_trader td) w" "window_ok td" by (simp_all add: world_ok_def)
      moreover from this(1) n have "td_trader td \<noteq> p" "td_trader td \<noteq> other" by (auto simp: linked_def)
      ultimately show ?thesis using False by (simp add: linked_def w')
    qed
  qed
  ultimately show ?thesis using assms
    by (auto simp: HandleInitiateTradeOpcode_def initiate_refusal_def Let_def split: if_splits option.split)
qed

lemma world_ok_cancel:
  assumes "world_ok w"
  shows "world_ok (TradeCancel env p sendback w)"
proof (cases "trade_of w p")
  case (Some td)
  with assms have l: "linked p (td_trader td) w" by (simp add: world_ok_def)
  show ?thesis
    by (rule world_ok_closed [OF assms l]) (auto simp: TradeCancel_def Some close_trades_def SendCancelTrade_def Let_def)
qed (use assms in \<open>simp add: TradeCancel_def\<close>)

end
