(* ===== verification/Trade_Exchange.thy ===== *)
theory Trade_Exchange
  imports Trade_Safety
begin

text \<open>
  The properties of trades. Sequences of calls of the handlers keep the windows of players paired, so that no
  handler follows a pointer to a closed window; while a side keeps its acceptance, neither offer changes; and a
  trade that is carried out moves exactly the offered money and never duplicates an item.
\<close>

section \<open>Calls\<close>

text \<open>
  One call of a handler, or of a hook that items and spells call, in any environment; between calls money and
  items may change in any way.
\<close>

inductive trade_call :: "trade_world \<Rightarrow> fault + trade_world \<Rightarrow> bool" where
  call_accept: "trade_call w (HandleAcceptTradeOpcode env p si w)"
| call_unaccept: "trade_call w (HandleUnacceptTradeOpcode p w)"
| call_begin: "trade_call w (HandleBeginTradeOpcode p w)"
| call_cancel: "trade_call w (Inr (HandleCancelTradeOpcode env p w))"
| call_leave: "trade_call w (Inr (TradeCancel env p sendback w))"
| call_initiate: "trade_call w (Inr (HandleInitiateTradeOpcode env p other w))"
| call_gold: "trade_call w (HandleSetTradeGoldOpcode env p coinage w)"
| call_set_item: "trade_call w (HandleSetTradeItemOpcode env p slot pack pos w)"
| call_clear_item: "trade_call w (HandleClearTradeItemOpcode env p slot w)"
| call_count: "trade_call w (item_SetCount env p g w)"
| call_cast: "trade_call w (cast_on_trade_slot env p spell castItem w)"
| call_other: "(\<And>x. trade_of w' x = trade_of w x) \<Longrightarrow> trade_call w (Inr w')"

inductive trade_reachable :: "trade_world \<Rightarrow> bool" where
  reach_start: "(\<And>x. trade_of w x = None) \<Longrightarrow> trade_reachable w"
| reach_call: "trade_reachable w \<Longrightarrow> trade_call w (Inr w') \<Longrightarrow> trade_reachable w'"

text \<open>What every call does to the windows: they stay paired, and a kept acceptance keeps the offers.\<close>

definition keeps_offers :: "trade_world \<Rightarrow> trade_world \<Rightarrow> bool" where
  "keeps_offers w w' \<longleftrightarrow> (\<forall>p q a b a' b'. linked p q w \<longrightarrow> trade_of w p = Some a \<longrightarrow> trade_of w q = Some b \<longrightarrow>
     trade_of w' p = Some a' \<longrightarrow> trade_of w' q = Some b' \<longrightarrow> td_accepted a \<longrightarrow> td_accepted a' \<longrightarrow>
     offer a' = offer a \<and> offer b' = offer b)"

definition safe_result :: "trade_world \<Rightarrow> fault + trade_world \<Rightarrow> bool" where
  "safe_result w r \<longleftrightarrow> (\<exists>w'. r = Inr w' \<and> world_ok w' \<and> keeps_offers w w')"

lemma linked_same_pair: "linked p q w \<Longrightarrow> linked x y w \<Longrightarrow> x = p \<or> x = q \<Longrightarrow> x = p \<and> y = q \<or> x = q \<and> y = p"
  unfolding linked_def by (metis option.inject)

lemma linked_transfer:
  assumes "linked x y w" "\<And>z c. trade_of w z = Some c \<Longrightarrow> \<exists>c'. trade_of w' z = Some c' \<and> td_player c' = td_player c \<and> td_trader c' = td_trader c"
  shows "linked x y w'"
  using assms(1)
proof (rule linkedE)
  fix a b
  assume "trade_of w x = Some a" "trade_of w y = Some b" "td_player a = x" "td_trader a = y" "td_player b = y" "td_trader b = x" "x \<noteq> y"
  with assms(2) [of x a] assms(2) [of y b] show ?thesis unfolding linked_def by metis
qed

lemma keeps_offers_quiet:
  assumes l: "linked p q w" and qu: "quiet p q w w'"
  shows "keeps_offers w w'"
  unfolding keeps_offers_def
proof (intro allI impI)
  fix x y a b a' b'
  assume xy: "linked x y w" and t: "trade_of w x = Some a" "trade_of w y = Some b" "trade_of w' x = Some a'" "trade_of w' y = Some b'"
    and acc: "td_accepted a" "td_accepted a'"
  show "offer a' = offer a \<and> offer b' = offer b"
  proof (cases "x = p \<or> x = q")
    case True
    then have "x = p \<and> y = q \<or> x = q \<and> y = p" using linked_same_pair [OF l xy] by simp
    then have "quiet x y w w'" using qu quiet_swap by blast
    then show ?thesis using t acc by (auto elim!: quietE simp: unchanged_or_open_def)
  next
    case False
    then have "y \<noteq> p" "y \<noteq> q" using linked_unique [OF l xy] by simp_all
    with False qu t show ?thesis unfolding quiet_def by auto
  qed
qed

lemma keeps_offers_closed:
  assumes "\<And>x. trade_of w' x = trade_of w x \<or> trade_of w' x = None \<or> trade_of w x = None"
  shows "keeps_offers w w'"
  unfolding keeps_offers_def using assms by (metis option.distinct(1) option.inject)

lemma safe_runs:
  assumes "world_ok w" "linked p q w" "runs p q w r"
  shows "safe_result w r"
  using assms world_ok_quiet keeps_offers_quiet unfolding safe_result_def runs_def by blast

lemma safe_same: "world_ok w \<Longrightarrow> safe_result w (Inr w)"
  by (auto simp: safe_result_def intro: keeps_offers_closed)

lemma world_linked: "world_ok w \<Longrightarrow> trade_of w p = Some a \<Longrightarrow> linked p (td_trader a) w"
  by (simp add: world_ok_def)

text \<open>A handler that returns when its player has no window, and else runs on the pair.\<close>

lemma safe_handler:
  assumes "world_ok w" "trade_of w p = None \<Longrightarrow> h = Inr w"
    "\<And>a. trade_of w p = Some a \<Longrightarrow> linked p (td_trader a) w \<Longrightarrow> runs p (td_trader a) w h"
  shows "safe_result w h"
proof (cases "trade_of w p")
  case None
  then show ?thesis using assms(1,2) safe_same by simp
next
  case (Some a)
  then show ?thesis using assms safe_runs world_linked by blast
qed

lemma safe_accept:
  assumes ok: "world_ok w"
  shows "safe_result w (HandleAcceptTradeOpcode env p si w)"
proof (cases "trade_of w p")
  case None
  then show ?thesis using safe_same [OF ok] by (simp add: HandleAcceptTradeOpcode_def)
next
  case (Some a)
  let ?q = "td_trader a"
  have l: "linked p ?q w" using ok Some by (rule world_linked)
  then obtain b where b: "trade_of w ?q = Some b" "p \<noteq> ?q" by (rule linkedE)
  obtain w1 where w1: "\<And>x. trade_of w1 x = (if x = p then Some (a\<lparr>td_accepted := True\<rparr>) else trade_of w x)"
    and r: "runs p ?q w1 (HandleAcceptTradeOpcode env p si w) \<or>
      (\<exists>done w'. HandleAcceptTradeOpcode env p si w = Inr w' \<and> closes p ?q w1 done w')"
    using HandleAccept_cases [OF l Some b(1), of env si] by metis
  have l1: "linked x y w1" if "linked x y w" for x y
    using that by (rule linked_transfer) (auto simp: w1 Some)
  have ok1: "world_ok w1"
    unfolding world_ok_def
  proof (intro allI impI)
    fix x td assume td: "trade_of w1 x = Some td"
    then obtain td0 where td0: "trade_of w x = Some td0" "td_trader td = td_trader td0" "window_ok td0 \<Longrightarrow> window_ok td"
      by (auto simp: w1 Some window_ok_def split: if_splits)
    then have "linked x (td_trader td) w" "window_ok td" using ok by (simp_all add: world_ok_def)
    then show "linked x (td_trader td) w1 \<and> window_ok td" using l1 by simp
  qed
  have same: "\<exists>c1. trade_of w1 z = Some c1 \<and> offer c1 = offer c \<and> (td_accepted c \<longrightarrow> td_accepted c1)" if "trade_of w z = Some c" for z c
    using that Some by (auto simp: w1 offer_def)
  have trans: "keeps_offers w w'" if k: "keeps_offers w1 w'" for w'
    unfolding keeps_offers_def
  proof (intro allI impI)
    fix x y c d c' d'
    assume xy: "linked x y w" and t: "trade_of w x = Some c" "trade_of w y = Some d" "trade_of w' x = Some c'" "trade_of w' y = Some d'"
      and acc: "td_accepted c" "td_accepted c'"
    obtain c1 d1 where t1: "trade_of w1 x = Some c1" "trade_of w1 y = Some d1" "offer c1 = offer c" "offer d1 = offer d" "td_accepted c1"
      using same t(1,2) acc(1) by blast
    with k l1 [OF xy] t1 t acc show "offer c' = offer c \<and> offer d' = offer d" unfolding keeps_offers_def by metis
  qed
  show ?thesis
    using r
  proof
    assume "runs p ?q w1 (HandleAcceptTradeOpcode env p si w)"
    then show ?thesis using safe_runs [OF ok1 l1 [OF l]] trans unfolding safe_result_def by blast
  next
    assume "\<exists>done w'. HandleAcceptTradeOpcode env p si w = Inr w' \<and> closes p ?q w1 done w'"
    then obtain dn w' where w': "HandleAcceptTradeOpcode env p si w = Inr w'" "closes p ?q w1 dn w'" by blast
    have "world_ok w'" using world_ok_closed [OF ok1 l1 [OF l]] w'(2) unfolding closes_def by blast
    moreover have "keeps_offers w1 w'"
      by (rule keeps_offers_closed) (use w'(2) in \<open>unfold closes_def, metis\<close>)
    ultimately show ?thesis using w'(1) trans unfolding safe_result_def by blast
  qed
qed

lemma safe_call:
  assumes ok: "world_ok w" and "trade_call w r"
  shows "safe_result w r"
  using assms(2)
proof cases
  case (call_accept env p si)
  then show ?thesis using safe_accept [OF ok] by simp
next
  case (call_unaccept p)
  show ?thesis unfolding call_unaccept
    by (rule safe_handler [OF ok, of p]) (simp_all add: HandleUnaccept_run, simp add: HandleUnacceptTradeOpcode_def)
next
  case (call_begin p)
  show ?thesis unfolding call_begin
    by (rule safe_handler [OF ok, of p]) (simp_all add: HandleBegin_run, simp add: HandleBeginTradeOpcode_def)
next
  case (call_cancel env p)
  have "keeps_offers w (TradeCancel env p True w)"
    by (rule keeps_offers_closed) (auto simp: TradeCancel_def close_trades_def SendCancelTrade_def Let_def split: option.split)
  then show ?thesis unfolding call_cancel using world_ok_cancel [OF ok] by (simp add: safe_result_def HandleCancelTradeOpcode_def)
next
  case (call_leave env p sendback)
  have "keeps_offers w (TradeCancel env p sendback w)"
    by (rule keeps_offers_closed) (auto simp: TradeCancel_def close_trades_def SendCancelTrade_def Let_def split: option.split)
  then show ?thesis unfolding call_leave using world_ok_cancel [OF ok] by (simp add: safe_result_def)
next
  case (call_initiate env p other)
  have "keeps_offers w (HandleInitiateTradeOpcode env p other w)"
    by (rule keeps_offers_closed)
      (auto simp: HandleInitiateTradeOpcode_def initiate_refusal_def Let_def split: option.split if_splits)
  then show ?thesis unfolding call_initiate using world_ok_initiate [OF ok] by (simp add: safe_result_def)
next
  case (call_gold env p coinage)
  show ?thesis unfolding call_gold
    by (rule safe_handler [OF ok, of p]) (simp_all add: HandleSetTradeGold_run, simp add: HandleSetTradeGoldOpcode_def)
next
  case (call_set_item env p slot pack pos)
  have run: "runs p q w (HandleSetTradeItemOpcode env p slot pack pos w)" if "linked p q w" for q
    using that by (rule HandleSetTradeItem_run) (use ok in \<open>simp add: world_ok_def\<close>)
  show ?thesis unfolding call_set_item
    by (rule safe_handler [OF ok, of p]) (simp add: HandleSetTradeItemOpcode_def, rule run)
next
  case (call_clear_item env p slot)
  show ?thesis unfolding call_clear_item
    by (rule safe_handler [OF ok, of p]) (simp_all add: HandleClearTradeItem_run, simp add: HandleClearTradeItemOpcode_def)
next
  case (call_count env p g)
  show ?thesis unfolding call_count
    by (rule safe_handler [OF ok, of p]) (simp_all add: item_SetCount_run, simp add: item_SetCount_def)
next
  case (call_cast env p spell castItem)
  show ?thesis unfolding call_cast
    by (rule safe_handler [OF ok, of p]) (simp_all add: cast_on_trade_slot_run, simp add: cast_on_trade_slot_def)
next
  case (call_other w')
  have "linked x y w'" if "linked x y w" for x y using that linked_cong [of w' x w y] call_other(2) by simp
  then have "world_ok w'" using ok call_other(2) by (simp add: world_ok_def)
  moreover have "keeps_offers w w'" by (rule keeps_offers_closed) (simp add: call_other(2))
  ultimately show ?thesis unfolding call_other(1) by (simp add: safe_result_def)
qed

lemma reachable_ok: "trade_reachable w \<Longrightarrow> world_ok w"
proof (induction rule: trade_reachable.induct)
  case (reach_start w)
  then show ?case by (simp add: world_ok_def)
next
  case (reach_call w w')
  then show ?case using safe_call by (auto simp: safe_result_def)
qed

section \<open>The exchange\<close>

definition purse :: "trade_world \<Rightarrow> ObjectGuid \<Rightarrow> int" where
  "purse w x = uint (tp_money (tw_player w x))"

definition bags :: "trade_world \<Rightarrow> ObjectGuid \<Rightarrow> ObjectGuid multiset" where
  "bags w x = mset (tp_items (tw_player w x))"

lemma purse_money: "purse w x = purse w' y \<Longrightarrow> tp_money (tw_player w x) = tp_money (tw_player w' y)"
  by (simp add: purse_def word_uint_eq_iff)

lemma goods_purse_bags: "goods w = goods w' \<Longrightarrow> purse w = purse w' \<and> bags w = bags w'"
  by (auto simp: goods_def purse_def bags_def fun_eq_iff)

lemma some_items_Cons [simp]: "some_items [] = []" "some_items (None # xs) = some_items xs" "some_items (Some g # xs) = g # some_items xs"
  by (simp_all add: some_items_def)

lemma moves_bags [simp]:
  "bags (MoveItemFromInventory p item w) x = (if x = p then bags w p - mset (some_items [item]) else bags w x)"
  "bags (MoveItemToInventory p item w) x = (if x = p then bags w p + mset (some_items [item]) else bags w x)"
  "bags (ModifyMoney env p n w) x = bags w x"
  "purse (MoveItemFromInventory p item w) x = purse w x" "purse (MoveItemToInventory p item w) x = purse w x"
  by (auto simp: bags_def purse_def MoveItemFromInventory_def MoveItemToInventory_def ModifyMoney_def Let_def split: option.split)

lemma take_out_bags:
  assumes "p \<noteq> q"
  shows "bags (fold (\<lambda>(mine, hers) w. MoveItemFromInventory q hers (MoveItemFromInventory p mine w)) xs w) x =
     (if x = p then bags w p - mset (some_items (map fst xs)) else if x = q then bags w q - mset (some_items (map snd xs)) else bags w x)"
  using assms
proof (induction xs arbitrary: w)
  case (Cons y ys)
  obtain m h where "y = (m, h)" by force
  with Cons show ?case by (cases m; cases h) auto
qed simp

lemma take_out_purse: "purse (fold (\<lambda>(mine, hers) w. MoveItemFromInventory q hers (MoveItemFromInventory p mine w)) xs w) x = purse w x"
  by (induction xs arbitrary: w) auto

lemma move_slot_purse: "purse (move_slot env p q items w) x = purse w x"
  by (simp add: move_slot_def give_back_def split: prod.split)

lemma move_slot_others: "x \<noteq> p \<Longrightarrow> x \<noteq> q \<Longrightarrow> bags (move_slot env p q items w) x = bags w x"
  by (simp add: move_slot_def give_back_def split: prod.split)

lemma move_slot_total:
  assumes "p \<noteq> q"
  shows "bags (move_slot env p q (m, h) w) p + bags (move_slot env p q (m, h) w) q \<subseteq>#
    bags w p + bags w q + mset (some_items [m]) + mset (some_items [h])"
  using assms by (auto simp: move_slot_def give_back_def ac_simps subset_mset.add_increasing2)

lemma move_slot_exact:
  assumes "p \<noteq> q" "\<And>y l g. canStoreItem env y l g"
  shows "bags (move_slot env p q (m, h) w) p = bags w p + mset (some_items [h])"
    "bags (move_slot env p q (m, h) w) q = bags w q + mset (some_items [m])"
  using assms by (auto simp: move_slot_def can_take_def split: option.split)

lemma some_items_split: "mset (some_items (z # zs)) = mset (some_items [z]) + mset (some_items zs)"
  by (cases z) simp_all

lemma store_purse: "purse (fold (move_slot env p q) xs w) x = purse w x"
  by (induction xs arbitrary: w) (simp_all add: move_slot_purse)

lemma store_others: "x \<noteq> p \<Longrightarrow> x \<noteq> q \<Longrightarrow> bags (fold (move_slot env p q) xs w) x = bags w x"
  by (induction xs arbitrary: w) (simp_all add: move_slot_others)

lemma store_total:
  assumes "p \<noteq> q"
  shows "bags (fold (move_slot env p q) xs w) p + bags (fold (move_slot env p q) xs w) q \<subseteq>#
    bags w p + bags w q + mset (some_items (map fst xs)) + mset (some_items (map snd xs))"
proof (induction xs arbitrary: w)
  case (Cons y ys)
  obtain m h where y: "y = (m, h)" by force
  let ?w = "move_slot env p q (m, h) w"
  have "bags (fold (move_slot env p q) ys ?w) p + bags (fold (move_slot env p q) ys ?w) q \<subseteq>#
      bags ?w p + bags ?w q + (mset (some_items (map fst ys)) + mset (some_items (map snd ys)))"
    using Cons [of ?w] by (simp add: ac_simps)
  also have "\<dots> \<subseteq># bags w p + bags w q + mset (some_items [m]) + mset (some_items [h]) +
      (mset (some_items (map fst ys)) + mset (some_items (map snd ys)))"
    using move_slot_total [OF assms, of env m h w] by (rule subset_mset.add_right_mono)
  finally show ?case 
    using some_items_split [of m "map fst ys"] some_items_split [of h "map snd ys"] by (simp add: y ac_simps)
qed simp

lemma store_exact:
  assumes "p \<noteq> q" "\<And>y l g. canStoreItem env y l g"
  shows "bags (fold (move_slot env p q) xs w) p = bags w p + mset (some_items (map snd xs)) \<and>
    bags (fold (move_slot env p q) xs w) q = bags w q + mset (some_items (map fst xs))"
proof (induction xs arbitrary: w)
  case (Cons y ys)
  obtain m h where y: "y = (m, h)" by force
  show ?case using Cons [of "move_slot env p q (m, h) w"] move_slot_exact [OF assms, of m h w]
      some_items_split [of m "map fst ys"] some_items_split [of h "map snd ys"] by (simp add: y ac_simps)
qed simp

text \<open>The purse: what is paid is there, and what is received fits.\<close>

lemma sint_purse:
  assumes "m \<le> MAX_MONEY_AMOUNT"
  shows "sint m = uint m"
proof -
  have "uint m \<le> 99999999999" using assms by (simp add: word_le_def MAX_MONEY_AMOUNT_def)
  moreover have "- (2 ^ 63) \<le> (0::int)" "(99999999999::int) < 2 ^ 63" by simp_all
  ultimately have "- (2 ^ 63) \<le> uint m" "uint m < 2 ^ 63" using uint_ge_0 [of m] by (blast intro: order_trans le_less_trans)+
  then show ?thesis by (simp add: sint_uint signed_take_bit_int_eq_self)
qed

lemma pay_purse:
  assumes "moneyHook env p = (\<lambda>n. n)" "m \<le> tp_money (tw_player w p)" "tp_money (tw_player w p) \<le> MAX_MONEY_AMOUNT"
  shows "purse (ModifyMoney env p (- sint m) w) x = (if x = p then purse w p - uint m else purse w x)"
proof -
  have s: "sint m = uint m" using assms(2,3) by (intro sint_purse) simp
  show ?thesis
  proof (cases "m = 0")
    case False
    then have "0 < uint m" by (simp add: word_neq_0_conv word_less_def)
    have le: "uint m \<le> uint (tp_money (tw_player w p))" using assms(2) by (simp add: word_le_def)
    have "uint (tp_money (tw_player w p) - m) = uint (tp_money (tw_player w p)) - uint m" using le by (simp add: uint_sub_lem)
    then show ?thesis using \<open>0 < uint m\<close> le assms(1)
      by (auto simp: ModifyMoney_def s purse_def Let_def word_less_def)
  qed (simp add: ModifyMoney_def purse_def)
qed

lemma receive_purse:
  assumes "moneyHook env p = (\<lambda>n. n)" "m \<le> MAX_MONEY_AMOUNT" "tp_money (tw_player w p) \<le> MAX_MONEY_AMOUNT - m"
  shows "purse (ModifyMoney env p (sint m) w) x = (if x = p then purse w p + uint m else purse w x)"
proof -
  let ?n = "tp_money (tw_player w p)"
  have s: "sint m = uint m" using assms(2) by (rule sint_purse)
  have "uint ?n \<le> uint MAX_MONEY_AMOUNT - uint m" using assms(2,3) by (simp add: word_le_def uint_sub_lem)
  then have "uint ?n + uint m < 2 ^ 64" by (simp add: MAX_MONEY_AMOUNT_def)
  then have "uint (?n + m) = uint ?n + uint m" by (subst uint_add_lem [symmetric]) simp
  then show ?thesis using assms by (auto simp: ModifyMoney_def s purse_def Let_def)
qed

text \<open>The items that change hands lie in the bags of their owner, each once.\<close>

lemma some_items_traded:
  "some_items (map (GetItem w td) is) =
     filter (\<lambda>g. \<not> IsEmpty g \<and> g \<in> set (tp_items (tw_player w (td_player td)))) (map ((!) (td_items td)) is)"
  by (induction "is") (auto simp: GetItem_def Let_def)

lemma mset_distinct_subset:
  assumes "distinct xs" "set xs \<subseteq> set ys"
  shows "mset xs \<subseteq># mset ys"
proof -
  have "mset xs = mset_set (set xs)" using assms(1) by (simp add: mset_set_set)
  also have "\<dots> \<subseteq># mset_set (set ys)" using assms(2) by (intro subset_imp_msubset_mset_set) simp_all
  also have "\<dots> \<subseteq># mset ys" using mset_set_set_mset_msubset [of "mset ys"] by simp
  finally show ?thesis .
qed

lemma traded_items_mset:
  assumes "window_ok td"
  shows "mset (some_items (traded_items w td)) \<subseteq># bags w (td_player td)"
proof -
  let ?in = "\<lambda>g. g \<in> set (tp_items (tw_player w (td_player td)))"
  have "map ((!) (td_items td)) [0..<TRADE_SLOT_TRADED_COUNT] = take 6 (td_items td)"
    using assms by (intro nth_equalityI) (simp_all add: window_ok_def TRADE_SLOT_TRADED_COUNT_def TRADE_SLOT_COUNT_def del: upt_conv_Cons)
  then have items: "some_items (traded_items w td) = filter (\<lambda>g. \<not> IsEmpty g \<and> ?in g) (take 6 (td_items td))"
    by (simp add: traded_items_def some_items_traded)
  have "distinct (filter (\<lambda>g. \<not> IsEmpty g) (take 6 (td_items td) @ drop 6 (td_items td)))"
    using assms by (simp add: window_ok_def)
  then have "distinct (filter ?in (filter (\<lambda>g. \<not> IsEmpty g) (take 6 (td_items td))))"
    by (metis distinct_append distinct_filter filter_append)
  then have "distinct (some_items (traded_items w td))" by (simp add: items conj_commute)
  moreover have "set (some_items (traded_items w td)) \<subseteq> set (tp_items (tw_player w (td_player td)))" by (auto simp: items)
  ultimately show ?thesis unfolding bags_def by (rule mset_distinct_subset)
qed

lemma exchange_bags:
  fixes env :: trade_env and my his_td :: trade_data
  assumes l: "linked p q w" and len: "length m = length h"
    and mine: "mset (some_items m) \<subseteq># bags w p" and his: "mset (some_items h) \<subseteq># bags w q"
  defines "w' \<equiv> exchange env p q my his_td m h w"
  shows "bags w' p + bags w' q \<subseteq># bags w p + bags w q"
    "x \<noteq> p \<Longrightarrow> x \<noteq> q \<Longrightarrow> bags w' x = bags w x"
    "(\<And>y l g. canStoreItem env y l g) \<Longrightarrow> bags w' p = bags w p - mset (some_items m) + mset (some_items h) \<and>
       bags w' q = bags w q - mset (some_items h) + mset (some_items m)"
proof -
  have pq: "p \<noteq> q" using l by (simp add: linked_def)
  let ?out = "fold (\<lambda>(mine, hers) w. MoveItemFromInventory q hers (MoveItemFromInventory p mine w)) (zip m h) w"
  have f: "trade_of (fold (\<lambda>(mine, hers) w. MoveItemFromInventory q hers (MoveItemFromInventory p mine w)) xs w) p = trade_of w p" for xs w
    by (induction xs arbitrary: w) auto
  obtain a where a: "trade_of w p = Some a" "td_trader a = q" using l by (rule linkedE)
  have w': "bags w' y = bags (fold (move_slot env p q) (zip m h) ?out) y" for y
    by (simp add: w'_def exchange_def Let_def moveItems_def f a)
  have out: "bags ?out p = bags w p - mset (some_items m)" "bags ?out q = bags w q - mset (some_items h)"
    using take_out_bags [OF pq, of "zip m h" w] pq len by simp_all
  have "bags w' p + bags w' q \<subseteq># bags ?out p + bags ?out q + mset (some_items m) + mset (some_items h)"
    using store_total [OF pq, of env "zip m h" ?out] len by (simp add: w')
  moreover have "bags ?out p + bags ?out q + mset (some_items m) + mset (some_items h) = bags w p + bags w q"
    using subset_mset.diff_add [OF mine] subset_mset.diff_add [OF his] unfolding out by (metis union_assoc union_commute)
  ultimately show "bags w' p + bags w' q \<subseteq># bags w p + bags w q" by simp
  show "bags w' x = bags w x" if "x \<noteq> p" "x \<noteq> q"
    using that by (simp add: w' store_others take_out_bags [OF pq])
  show "bags w' p = bags w p - mset (some_items m) + mset (some_items h) \<and>
       bags w' q = bags w q - mset (some_items h) + mset (some_items m)" if "\<And>y l g. canStoreItem env y l g"
    using store_exact [OF pq that, of "zip m h" ?out] len by (simp add: w' out)
qed

lemma exchange_purse:
  fixes env :: trade_env and m h :: "ObjectGuid option list"
  assumes l: "linked p q w" and hook: "moneyHook env p = (\<lambda>n. n)" "moneyHook env q = (\<lambda>n. n)"
    and max: "tp_money (tw_player w p) \<le> MAX_MONEY_AMOUNT" "tp_money (tw_player w q) \<le> MAX_MONEY_AMOUNT"
    and pay: "td_money a \<le> tp_money (tw_player w p)" "td_money b \<le> tp_money (tw_player w q)"
    and fits: "tp_money (tw_player w p) \<le> MAX_MONEY_AMOUNT - td_money b" "tp_money (tw_player w q) \<le> MAX_MONEY_AMOUNT - td_money a"
  defines "w' \<equiv> exchange env p q a b m h w"
  shows "purse w' x = (if x = p then purse w p - uint (td_money a) + uint (td_money b)
     else if x = q then purse w q - uint (td_money b) + uint (td_money a) else purse w x)"
proof -
  have pq: "p \<noteq> q" using l by (simp add: linked_def)
  let ?w2 = "moveItems env p m h (fold (\<lambda>(mine, hers) w. MoveItemFromInventory q hers (MoveItemFromInventory p mine w)) (zip m h) w)"
  have w2: "purse ?w2 x = purse w x" for x by (simp add: moveItems_def store_purse take_out_purse split: option.split)
  then have m2: "tp_money (tw_player ?w2 x) = tp_money (tw_player w x)" for x by (rule purse_money)
  let ?w3 = "ModifyMoney env p (- sint (td_money a)) ?w2"
  have w3: "purse ?w3 x = (if x = p then purse w p - uint (td_money a) else purse w x)" for x
    using pay_purse [OF hook(1), of "td_money a" ?w2 x] pay(1) max(1) by (simp add: m2 w2)
  let ?w4 = "ModifyMoney env p (sint (td_money b)) ?w3"
  have le3: "tp_money (tw_player ?w3 p) \<le> tp_money (tw_player w p)"
    unfolding word_le_def using w3 [of p] uint_ge_0 [of "td_money a"] by (simp only: purse_def if_True simp_thms)
  have b: "td_money b \<le> MAX_MONEY_AMOUNT" "td_money a \<le> MAX_MONEY_AMOUNT" using pay max order_trans by blast+
  have "tp_money (tw_player ?w3 p) \<le> MAX_MONEY_AMOUNT - td_money b" using le3 fits(1) by (rule order_trans)
  then have w4: "purse ?w4 x = (if x = p then purse w p - uint (td_money a) + uint (td_money b) else purse w x)" for x
    using receive_purse [OF hook(1) b(1), of ?w3 x] by (simp add: w3)
  have m4: "tp_money (tw_player ?w4 q) = tp_money (tw_player w q)" using w4 [of q] pq by (intro purse_money) simp
  let ?w5 = "ModifyMoney env q (- sint (td_money b)) ?w4"
  have w5: "purse ?w5 x = (if x = q then purse w q - uint (td_money b) else purse ?w4 x)" for x
    using pay_purse [OF hook(2), of "td_money b" ?w4 x] pay(2) max(2) w4 [of q] pq by (simp add: m4)
  have le5: "tp_money (tw_player ?w5 q) \<le> tp_money (tw_player w q)"
    unfolding word_le_def using w5 [of q] uint_ge_0 [of "td_money b"] by (simp only: purse_def if_True simp_thms)
  then have "tp_money (tw_player ?w5 q) \<le> MAX_MONEY_AMOUNT - td_money a" using fits(2) by (rule order_trans)
  then have "purse (ModifyMoney env q (sint (td_money a)) ?w5) x = (if x = q then purse ?w5 q + uint (td_money a) else purse ?w5 x)" for x
    by (rule receive_purse [OF hook(2) b(2)])
  then show ?thesis unfolding w'_def exchange_def Let_def using pq by (simp add: w5 w4)
qed

section \<open>Properties\<close>

text \<open>C30: No handler follows a dangling pointer: in every state that calls can lead to, every call returns, and in the state
  it leaves each open window belongs to its player, its partner is another player whose window points back,
  and no item lies in it twice.\<close>

theorem trade_windows_stay_paired:
  assumes "trade_reachable w" "trade_call w r"
  shows "\<exists>w'. r = Inr w' \<and> (\<forall>p a. trade_of w' p = Some a \<longrightarrow>
    td_player a = p \<and> td_trader a \<noteq> p \<and>
    (\<exists>b. trade_of w' (td_trader a) = Some b \<and> td_player b = td_trader a \<and> td_trader b = p) \<and>
    length (td_items a) = TRADE_SLOT_COUNT \<and> distinct (filter (\<lambda>g. \<not> IsEmpty g) (td_items a)))"
proof -
  obtain w' where w': "r = Inr w'" "world_ok w'" using safe_call [OF reachable_ok assms(2)] assms(1) by (auto simp: safe_result_def)
  then show ?thesis by (fastforce simp: world_ok_def linked_def window_ok_def)
qed

text \<open>C19: While a side keeps its acceptance, no call changes what either side offers (items, money and spell): every change
  of an offer withdraws both acceptances.\<close>

theorem offers_fixed_while_accepted:
  assumes "trade_reachable w" "trade_call w (Inr w')"
    and "trade_of w p = Some a" "trade_of w (td_trader a) = Some b" "trade_of w' p = Some a'" "trade_of w' (td_trader a) = Some b'"
    and "td_accepted a \<and> td_accepted a' \<or> td_accepted b \<and> td_accepted b'"
  shows "offer a' = offer a \<and> offer b' = offer b"
proof -
  have ok: "world_ok w" using assms(1) by (rule reachable_ok)
  have "keeps_offers w w'" using safe_call [OF ok assms(2)] by (simp add: safe_result_def)
  moreover have "linked p (td_trader a) w" using ok assms(3) by (rule world_linked)
  moreover from this have "linked (td_trader a) p w" by (simp add: linked_sym)
  ultimately show ?thesis using assms(3-7) unfolding keeps_offers_def by metis
qed

text \<open>C1: A trade that is carried out moves exactly what was offered. It is carried out only when the partner had accepted; each
  purse loses what its owner offered and gains what the partner offered; no other player is touched; no item is
  duplicated, and if every item finds its place, each side has given the items it offered for those of the other.\<close>

theorem trade_moves_the_offers:
  assumes "trade_reachable w" "trade_of w p = Some a" "trade_of w (td_trader a) = Some b"
    and "HandleAcceptTradeOpcode env p si w = Inr w'" "trade_of w' p = None"
    and hook: "moneyHook env p = (\<lambda>n. n)" "moneyHook env (td_trader a) = (\<lambda>n. n)"
    and max: "tp_money (tw_player w p) \<le> MAX_MONEY_AMOUNT" "tp_money (tw_player w (td_trader a)) \<le> MAX_MONEY_AMOUNT"
  shows "td_accepted b \<and>
    purse w' p = purse w p - uint (td_money a) + uint (td_money b) \<and>
    purse w' (td_trader a) = purse w (td_trader a) - uint (td_money b) + uint (td_money a) \<and>
    (\<forall>x. x \<noteq> p \<and> x \<noteq> td_trader a \<longrightarrow> purse w' x = purse w x \<and> bags w' x = bags w x) \<and>
    bags w' p + bags w' (td_trader a) \<subseteq># bags w p + bags w (td_trader a) \<and>
    ((\<forall>y l g. canStoreItem env y l g) \<longrightarrow>
      bags w' p = bags w p - mset (some_items (traded_items w a)) + mset (some_items (traded_items w b)) \<and>
      bags w' (td_trader a) = bags w (td_trader a) - mset (some_items (traded_items w b)) + mset (some_items (traded_items w a)))"
proof -
  let ?q = "td_trader a"
  have ok: "world_ok w" using assms(1) by (rule reachable_ok)
  have l: "linked p ?q w" using ok assms(2) by (rule world_linked)
  have win: "window_ok a" "window_ok b" "td_player a = p" "td_player b = ?q"
    using ok l assms(2,3) by (auto simp: world_ok_def linked_def)
  obtain w1 where w1: "goods w1 = goods w" "\<And>x. trade_of w1 x = (if x = p then Some (a\<lparr>td_accepted := True\<rparr>) else trade_of w x)"
    and cases: "runs p ?q w1 (HandleAcceptTradeOpcode env p si w) \<or>
     td_accepted b \<and> accept_refusal env si p ?q w1 a b = None \<and>
     (\<exists>w2 w'. quiet p ?q w1 w2 \<and> HandleAcceptTradeOpcode env p si w = Inr w' \<and>
        closes p ?q w1 (exchange env p ?q a b (traded_items w1 a) (traded_items w1 b) (ready_state ?q (traded_items w1 a) (traded_items w1 b) w2)) w')"
    using HandleAccept_cases [OF l assms(2,3), of env si] by metis
  have items: "traded_items w1 td = traded_items w td" for td using GetItem_cong [OF w1(1)] by (simp add: traded_items_def)
  have l1: "linked p ?q w1" using l by (rule linked_transfer) (auto simp: w1(2) assms(2))
  have "\<not> runs p ?q w1 (HandleAcceptTradeOpcode env p si w)" using assms(4,5) by (auto simp: quiet_def)
  with cases assms(4) obtain w2 where acc: "td_accepted b" "accept_refusal env si p ?q w1 a b = None" and w2: "quiet p ?q w1 w2"
    and cl: "closes p ?q w1 (exchange env p ?q a b (traded_items w a) (traded_items w b) (ready_state ?q (traded_items w a) (traded_items w b) w2)) w'"
    by (auto simp: items)
  define r where "r = ready_state ?q (traded_items w a) (traded_items w b) w2"
  have lr: "linked p ?q r" using quiet_linked [OF l1 w2] by (simp add: r_def ready_state_def)
  have gr: "goods r = goods w" using w2 w1(1) by (simp add: r_def ready_state_def quiet_def)
  then have br: "purse r = purse w" "bags r = bags w" and mr: "tp_money (tw_player r x) = tp_money (tw_player w x)" for x
    using goods_purse_bags [OF gr] by (auto simp: goods_def fun_eq_iff)
  have m1: "tp_money (tw_player w1 x) = tp_money (tw_player w x)" for x using w1(1) by (auto simp: goods_def fun_eq_iff)
  have w': "purse w' = purse (exchange env p ?q a b (traded_items w a) (traded_items w b) r)"
    "bags w' = bags (exchange env p ?q a b (traded_items w a) (traded_items w b) r)"
    using cl goods_purse_bags unfolding r_def closes_def by blast+
  have money: "td_money a \<le> tp_money (tw_player r p)" "td_money b \<le> tp_money (tw_player r ?q)"
    "tp_money (tw_player r p) \<le> MAX_MONEY_AMOUNT - td_money b" "tp_money (tw_player r ?q) \<le> MAX_MONEY_AMOUNT - td_money a"
    using acc(2) by (simp_all add: accept_refusal_def HasEnoughMoney_def mr m1 linorder_not_less split: if_splits)
  have purse: "purse w' x = (if x = p then purse w p - uint (td_money a) + uint (td_money b)
     else if x = ?q then purse w ?q - uint (td_money b) + uint (td_money a) else purse w x)" for x
    unfolding w'(1) using exchange_purse [OF lr hook _ _ money, where x = x and m = "traded_items w a" and h = "traded_items w b"] max
    by (simp add: mr br)
  have len: "length (traded_items w a) = length (traded_items w b)" by (simp add: traded_items_def)
  have sub: "mset (some_items (traded_items w a)) \<subseteq># bags r p" "mset (some_items (traded_items w b)) \<subseteq># bags r ?q"
    using traded_items_mset [OF win(1), of w] traded_items_mset [OF win(2), of w] by (simp_all add: br win)
  note bags = exchange_bags [OF lr len sub, where env = env and my = a and his_td = b, folded w'(2), unfolded br]
  have "p \<noteq> ?q" using l by (simp add: linked_def)
  with acc(1) purse bags show ?thesis by simp
qed

section \<open>A trade\<close>

text \<open>Two players trade a sword for thirty coins; the steps up to the acceptance of the buyer, and its completion.\<close>

definition seller :: ObjectGuid where "seller = ObjectGuid 1 0"
definition buyer :: ObjectGuid where "buyer = ObjectGuid 2 0"
definition sword :: ObjectGuid where "sword = ObjectGuid 77 0"

definition demo_env :: trade_env where
  "demo_env = \<lparr>rand32 = (\<lambda>n. of_nat n + 5), canBeTraded = (\<lambda>_. True), isBindedNotWith = (\<lambda>_ _. False), isWithinTradeDist = (\<lambda>_ _. True),
     spellKnown = (\<lambda>_. True), checkCast = (\<lambda>_ _. None), canStoreItem = (\<lambda>_ _ _. True), canStoreItems = (\<lambda>_ _ _ _. EQUIP_ERR_OK),
     itemByPos = (\<lambda>p _ _. if p = seller then Some sword else None), moneyHook = (\<lambda>_ n. n), connected = (\<lambda>_. True),
     isAlive = (\<lambda>_. True), isStunned = (\<lambda>_. False), isLogingOut = (\<lambda>_. False), isGone = (\<lambda>_. False), isInFlight = (\<lambda>_. False),
     levelTooLow = (\<lambda>_. False), ignores = (\<lambda>_ _. False), sameSide = (\<lambda>_ _. True), twoSideTrade = (\<lambda>_. False)\<rparr>"

definition demo_start :: trade_world where
  "demo_start = \<lparr>tw_player = (\<lambda>p. \<lparr>tp_money = 100, tp_items = if p = seller then [sword] else [], tp_trade = None\<rparr>),
     tw_inTrade = [], tw_rand = 0, tw_out = []\<rparr>"

definition demo_open :: trade_world where
  "demo_open = HandleInitiateTradeOpcode demo_env seller buyer demo_start"

definition demo_item :: trade_world where
  "demo_item = projr (HandleSetTradeItemOpcode demo_env seller 0 0 0 demo_open)"

definition demo_gold :: trade_world where
  "demo_gold = projr (HandleSetTradeGoldOpcode demo_env buyer 30 demo_item)"

definition demo_accepted :: trade_world where
  "demo_accepted = projr (HandleAcceptTradeOpcode demo_env buyer 5 demo_gold)"

definition demo_done :: trade_world where
  "demo_done = projr (HandleAcceptTradeOpcode demo_env seller 6 demo_accepted)"

lemma reachable_next: "trade_reachable w \<Longrightarrow> trade_call w r \<Longrightarrow> r = Inr (projr r) \<and> trade_reachable (projr r)"
  using safe_call [OF reachable_ok] reach_call by (fastforce simp: safe_result_def)

lemma demo_reachable: "trade_reachable demo_accepted"
proof -
  have "trade_reachable demo_start" by (rule reach_start) (simp add: demo_start_def)
  then have "trade_reachable demo_open" unfolding demo_open_def using call_initiate reach_call by blast
  then have "trade_reachable demo_item" unfolding demo_item_def using call_set_item reachable_next by blast
  then have "trade_reachable demo_gold" unfolding demo_gold_def using call_gold reachable_next by blast
  then show ?thesis unfolding demo_accepted_def using call_accept reachable_next by blast
qed

definition sellers_window :: trade_data where
  "sellers_window = (TradeData seller buyer)\<lparr>td_items := sword # replicate 6 guid_Empty, td_clientStateIndex := 2, td_serverStateIndex := 5\<rparr>"

definition buyers_window :: trade_data where
  "buyers_window = (TradeData buyer seller)\<lparr>td_accepted := True, td_money := 30, td_clientStateIndex := 2, td_serverStateIndex := 6\<rparr>"

lemma demo_windows:
  "trade_of demo_accepted seller = Some sellers_window" "trade_of demo_accepted buyer = Some buyers_window"
  "trade_of demo_done seller = None"
  by code_simp+

lemma demo_goods:
  "tp_money (tw_player demo_accepted seller) = 100" "tp_money (tw_player demo_accepted buyer) = 100"
  "tp_items (tw_player demo_accepted seller) = [sword]" "tp_items (tw_player demo_accepted buyer) = []"
  "some_items (traded_items demo_accepted sellers_window) = [sword]" "some_items (traded_items demo_accepted buyers_window) = []"
  by code_simp+

theorem trade_windows_stay_paired_witness:
  "\<exists>w'. HandleAcceptTradeOpcode demo_env seller 6 demo_accepted = Inr w' \<and> trade_of w' buyer = None"
proof -
  have "trade_of demo_done buyer = None" by code_simp
  with trade_windows_stay_paired [OF demo_reachable call_accept, of demo_env seller 6] show ?thesis by (auto simp: demo_done_def)
qed

theorem offers_fixed_while_accepted_witness:
  "offer (the (trade_of (projr (HandleBeginTradeOpcode seller demo_accepted)) buyer)) = offer buyers_window"
proof -
  have "HandleBeginTradeOpcode seller demo_accepted = Inr (projr (HandleBeginTradeOpcode seller demo_accepted))"
    using reachable_next [OF demo_reachable call_begin] by blast
  then have c: "trade_call demo_accepted (Inr (projr (HandleBeginTradeOpcode seller demo_accepted)))" using call_begin by metis
  have v: "trade_of (projr (HandleBeginTradeOpcode seller demo_accepted)) buyer = Some buyers_window"
    "trade_of (projr (HandleBeginTradeOpcode seller demo_accepted)) seller = Some sellers_window"
    "td_trader sellers_window = buyer" "td_accepted buyers_window" by code_simp+
  show ?thesis
    using offers_fixed_while_accepted [OF demo_reachable c demo_windows(1)] demo_windows(2) v by simp
qed

theorem trade_moves_the_offers_witness:
  "purse demo_done seller = 130 \<and> purse demo_done buyer = 70 \<and> bags demo_done seller = {#} \<and> bags demo_done buyer = {#sword#}"
proof -
  have r: "HandleAcceptTradeOpcode demo_env seller 6 demo_accepted = Inr demo_done"
    unfolding demo_done_def using reachable_next [OF demo_reachable call_accept] by blast
  have w: "td_trader sellers_window = buyer" "td_money sellers_window = 0" "td_money buyers_window = 30"
    by (simp_all add: sellers_window_def buyers_window_def TradeData_def)
  have env: "moneyHook demo_env = (\<lambda>_ n. n)" "canStoreItem demo_env = (\<lambda>_ _ _. True)" by (simp_all add: demo_env_def)
  show ?thesis
    using trade_moves_the_offers [OF demo_reachable demo_windows(1) _ r demo_windows(3)]
    by (simp add: w env demo_windows demo_goods purse_def bags_def MAX_MONEY_AMOUNT_def)
qed

end
