(* ===== verification/Party_Loot.thy ===== *)
theory Party_Loot
  imports Party_Runs
begin

text \<open>
  Loot rolls: who wins the item of a roll, when the timer of a loot ends all of its rolls, and what happens when
  votes are repeated or withdrawn.
\<close>

section \<open>The dice\<close>

text \<open>The state after dice: only the position in the stream of numbers and the packets have changed.\<close>

definition only_dice :: "nat \<Rightarrow> party \<Rightarrow> party \<Rightarrow> bool" where
  "only_dice n g g' \<longleftrightarrow> (\<exists>es. g' = g\<lparr>gr_rand := gr_rand g + n, gr_out := gr_out g @ es\<rparr>)"

lemma only_dice_refl: "only_dice 0 g g"
  unfolding only_dice_def by (rule exI [of _ "[]"]) simp

lemma only_dice_step:
  assumes "only_dice n g g'"
  shows "only_dice (Suc n) g (SendToRolling env m r (g'\<lparr>gr_rand := Suc (gr_rand g')\<rparr>))" "only_dice n g (SendToRolling env m r g')"
    "only_dice n g (emit e g')"
  using assms by (auto simp: only_dice_def SendToRolling_def emit_all_def emit_def)

lemma only_dice_sel:
  assumes "only_dice n g g'"
  shows "gr_loots g' = gr_loots g" "gr_rolls g' = gr_rolls g" "gr_rand g' = gr_rand g + n"
  using assms by (auto simp: only_dice_def)

definition is_best :: "(nat \<Rightarrow> uint8) \<Rightarrow> nat \<Rightarrow> nat \<Rightarrow> bool" where
  "is_best die n k \<longleftrightarrow> k < n \<and> (\<forall>j < n. die j \<le> die k) \<and> (\<forall>j < k. die j < die k)"

lemma is_best_snoc:
  assumes "is_best die n k"
  shows "is_best die (Suc n) (if die k < die n then n else k)"
  using assms by (auto simp: is_best_def less_Suc_eq intro: le_less_trans)

lemma is_best_0: "is_best die (Suc 0) 0"
  by (simp add: is_best_def)

lemma throw_fold:
  fixes g :: party
  assumes pos: "\<And>n. 0 < urand100 env n" and res: "fold (throw_die env P r) pvs (\<lparr>th_guid = q, th_result = 0, th_vote = NOT_VALID\<rparr>, g) = (t, g')"
  defines "xs \<equiv> filter (\<lambda>pv. P (snd pv)) pvs"
  shows "only_dice (length xs) g g' \<and> (if xs = [] then t = \<lparr>th_guid = q, th_result = 0, th_vote = NOT_VALID\<rparr>
    else \<exists>k. is_best (\<lambda>j. urand100 env (gr_rand g + j)) (length xs) k \<and>
      t = \<lparr>th_guid = fst (xs ! k), th_result = urand100 env (gr_rand g + k), th_vote = snd (xs ! k)\<rparr>)"
  unfolding xs_def using res
proof (induction pvs arbitrary: t g' rule: rev_induct)
  case Nil
  then show ?case by (simp add: only_dice_refl)
next
  case (snoc pv pvs)
  obtain t0 g0 where f: "fold (throw_die env P r) pvs (\<lparr>th_guid = q, th_result = 0, th_vote = NOT_VALID\<rparr>, g) = (t0, g0)" by fastforce
  let ?xs = "filter (\<lambda>pv. P (snd pv)) pvs" and ?die = "\<lambda>j. urand100 env (gr_rand g + j)"
  note IH = snoc.IH [OF f]
  obtain p v where pv: "pv = (p, v)" by fastforce
  have last_throw: "throw_die env P r pv (t0, g0) = (t, g')" using snoc.prems f by simp
  show ?case
  proof (cases "P v")
    case False
    then have "t = t0" "g' = g0" using last_throw by (simp_all add: throw_die_def pv)
    then show ?thesis using IH False by (simp add: pv)
  next
    case True
    have rand: "gr_rand g0 = gr_rand g + length ?xs" using IH only_dice_sel by blast
    have g': "g' = SendLootRoll env p (uint (?die (length ?xs))) v r (g0\<lparr>gr_rand := Suc (gr_rand g0)\<rparr>)"
      and t: "t = (if th_result t0 < ?die (length ?xs) then \<lparr>th_guid = p, th_result = ?die (length ?xs), th_vote = v\<rparr> else t0)"
      using last_throw True rand by (simp_all add: throw_die_def pv Let_def)
    have od: "only_dice (Suc (length ?xs)) g g'" unfolding g' SendLootRoll_def using IH by (blast intro: only_dice_step)
    show ?thesis
    proof (cases "?xs = []")
      case Empty: True
      then have "t = \<lparr>th_guid = p, th_result = ?die 0, th_vote = v\<rparr>" using t IH pos by simp
      then show ?thesis using od True Empty is_best_0 by (auto simp: pv intro!: exI [of _ 0])
    next
      case False
      then obtain k where k: "is_best ?die (length ?xs) k" "t0 = \<lparr>th_guid = fst (?xs ! k), th_result = ?die k, th_vote = snd (?xs ! k)\<rparr>"
        using IH by auto
      define k' where "k' = (if ?die k < ?die (length ?xs) then length ?xs else k)"
      have lt: "k < length ?xs" using k(1) by (simp add: is_best_def)
      have "is_best ?die (Suc (length ?xs)) k'" unfolding k'_def by (rule is_best_snoc [OF k(1)])
      moreover have "t = \<lparr>th_guid = fst ((?xs @ [pv]) ! k'), th_result = ?die k', th_vote = snd ((?xs @ [pv]) ! k')\<rparr>"
        using t k(2) lt by (auto simp: k'_def pv nth_append)
      ultimately show ?thesis using od True by (auto simp: pv)
    qed
  qed
qed

section \<open>The item\<close>

definition item_at :: "roll \<Rightarrow> loot \<Rightarrow> loot_item option" where
  "item_at r l = (let slot = unat (ro_itemSlot r); items = lo_items l @ lo_questItems l in if slot < length items then Some (items ! slot) else None)"

definition loot_item_of :: "roll \<Rightarrow> party \<Rightarrow> loot_item option" where
  "loot_item_of r g = (case gr_loots g (ro_loot r) of None \<Rightarrow> None | Some l \<Rightarrow> item_at r l)"

lemma with_item_run: "item_at r l = Some it \<Longrightarrow> \<exists>l'. with_item r f l = Inr l' \<and> item_at r l' = Some (f it)"
  by (auto simp: with_item_def item_at_def Let_def nth_append nth_list_update split: if_splits)

lemma on_item_run:
  assumes "loot_item_of r g = Some it"
  shows "\<exists>ls. on_loot r (with_item r f) g = Inr (g\<lparr>gr_loots := ls\<rparr>) \<and> loot_item_of r (g\<lparr>gr_loots := ls\<rparr>) = Some (f it)"
proof -
  obtain l where l: "gr_loots g (ro_loot r) = Some l" "item_at r l = Some it" using assms by (auto simp: loot_item_of_def split: option.splits)
  obtain l' where "with_item r f l = Inr l'" "item_at r l' = Some (f it)" using with_item_run [OF l(2)] by blast
  then show ?thesis by (intro exI [of _ "(gr_loots g)(ro_loot r \<mapsto> l')"]) (simp add: on_loot_def l loot_item_of_def)
qed

text \<open>The loot of a roll, the rolls and the dice; packets do not change them.\<close>

definition roll_view :: "roll \<Rightarrow> party \<Rightarrow> loot_item option \<times> roll list \<times> nat" where
  "roll_view r g = (loot_item_of r g, gr_rolls g, gr_rand g)"

lemma roll_view_emit [simp]:
  "roll_view r (emit e g) = roll_view r g" "roll_view r (SendToRolling env m r' g) = roll_view r g"
  by (simp_all add: roll_view_def loot_item_of_def emit_def SendToRolling_def emit_all_def)

lemma take_item_run:
  assumes it: "loot_item_of r g = Some it"
  shows "\<exists>g'. take_item r g = Inr g' \<and> roll_view r g' = (Some (it\<lparr>li_looted := True\<rparr>), gr_rolls g, gr_rand g) \<and>
    gr_out g' = gr_out g @ [NotifyItemRemoved (ro_loot r) (ro_itemSlot r)]"
proof -
  obtain ls where ls: "on_loot r (with_item r (\<lambda>i. i\<lparr>li_looted := True\<rparr>)) g = Inr (g\<lparr>gr_loots := ls\<rparr>)"
    "loot_item_of r (g\<lparr>gr_loots := ls\<rparr>) = Some (it\<lparr>li_looted := True\<rparr>)"
    using on_item_run [OF it] by blast
  obtain l where l: "ls (ro_loot r) = Some l" "item_at r l = Some (it\<lparr>li_looted := True\<rparr>)"
    using ls(2) by (auto simp: loot_item_of_def split: option.splits)
  have "item_at r (l\<lparr>lo_unlootedCount := lo_unlootedCount l - 1\<rparr>) = Some (it\<lparr>li_looted := True\<rparr>)" using l(2) by (simp add: item_at_def)
  then show ?thesis using ls(1) l(1) by (simp add: take_item_def on_loot_def roll_view_def loot_item_of_def emit_def)
qed

lemma unblock_item_run:
  assumes it: "loot_item_of r g = Some it"
  shows "\<exists>g'. unblock_item r g = Inr g' \<and> roll_view r g' = (Some (it\<lparr>li_blocked := False\<rparr>), gr_rolls g, gr_rand g) \<and> gr_out g' = gr_out g"
  using on_item_run [OF it, of "\<lambda>i. i\<lparr>li_blocked := False\<rparr>"] by (auto simp: unblock_item_def roll_view_def)

text \<open>What a winner gets: the item in the bags, or, when they are full, an error and the item free for all.\<close>

definition awarded :: "party_env \<Rightarrow> ObjectGuid \<Rightarrow> roll \<Rightarrow> loot_item \<Rightarrow> party \<Rightarrow> bool" where
  "awarded env p r it g \<longleftrightarrow> (if can_store_new env p (ro_itemid r)
     then loot_item_of r g = Some (it\<lparr>li_looted := True\<rparr>) \<and> StoreNewItem p (ro_itemid r) \<in> set (gr_out g)
     else loot_item_of r g = Some (it\<lparr>li_blocked := False\<rparr>) \<and> Send p (EquipError (ro_itemid r)) \<in> set (gr_out g))"

lemma awarded_view:
  "roll_view r g' = roll_view r g \<Longrightarrow> set (gr_out g) \<subseteq> set (gr_out g') \<Longrightarrow> awarded env p r it g \<Longrightarrow> awarded env p r it g'"
  by (auto simp: awarded_def roll_view_def)

lemma give_item_run:
  assumes it: "loot_item_of r g = Some it"
  shows "\<exists>g'. give_item env p r g = Inr g' \<and> awarded env p r it g' \<and> gr_rolls g' = gr_rolls g"
proof (cases "can_store_new env p (ro_itemid r)")
  case True
  obtain g' where g': "take_item r g = Inr g'" "roll_view r g' = (Some (it\<lparr>li_looted := True\<rparr>), gr_rolls g, gr_rand g)"
    using take_item_run [OF it] by blast
  define g2 where "g2 = emit (StoreNewItem p (ro_itemid r)) g'"
  have "roll_view r g2 = roll_view r g'" "StoreNewItem p (ro_itemid r) \<in> set (gr_out g2)" by (simp_all add: g2_def) (simp add: emit_def)
  then show ?thesis using True g' by (intro exI [of _ g2]) (simp add: give_item_def awarded_def roll_view_def g2_def [symmetric])
next
  case False
  obtain g' where g': "unblock_item r g = Inr g'" "roll_view r g' = (Some (it\<lparr>li_blocked := False\<rparr>), gr_rolls g, gr_rand g)"
    using unblock_item_run [OF it] by blast
  define g2 where "g2 = emit (Send p (EquipError (ro_itemid r))) g'"
  have "roll_view r g2 = roll_view r g'" "Send p (EquipError (ro_itemid r)) \<in> set (gr_out g2)" by (simp_all add: g2_def) (simp add: emit_def)
  then show ?thesis using False g' by (intro exI [of _ g2]) (simp add: give_item_def awarded_def roll_view_def g2_def [symmetric])
qed

definition disenchanted :: "party_env \<Rightarrow> ObjectGuid \<Rightarrow> roll \<Rightarrow> loot_item \<Rightarrow> party \<Rightarrow> bool" where
  "disenchanted env p r it g \<longleftrightarrow> loot_item_of r g = Some (it\<lparr>li_looted := True\<rparr>) \<and>
     (case disenchant_id env (ro_itemid r) p of None \<Rightarrow> False
      | Some (i, skill) \<Rightarrow> StoreDisenchanted p i (can_store_new env p (ro_itemid r)) \<in> set (gr_out g))"

text \<open>What the winner of a roll gets with its vote; a winner that is offline gets nothing, and the item stays as it is.\<close>

definition won :: "party_env \<Rightarrow> roll \<Rightarrow> loot_item \<Rightarrow> ObjectGuid \<times> RollVote \<Rightarrow> party \<Rightarrow> bool" where
  "won env r it pv g \<longleftrightarrow> (if \<not> connected_player env (fst pv) then loot_item_of r g = Some it
     else if snd pv = DISENCHANT then disenchanted env (fst pv) r it g else awarded env (fst pv) r it g)"

section \<open>The winner\<close>

definition voters :: "(RollVote \<Rightarrow> bool) \<Rightarrow> roll \<Rightarrow> (ObjectGuid \<times> RollVote) list" where
  "voters P r = filter (\<lambda>pv. P (snd pv)) (ro_playerVote r)"

lemma throw_dice_run:
  assumes "\<And>n. 0 < urand100 env n" "voters P r \<noteq> []" "throw_dice env P r g = (t, g')"
  shows "\<exists>k. only_dice (length (voters P r)) g g' \<and> is_best (\<lambda>j. urand100 env (gr_rand g + j)) (length (voters P r)) k \<and>
    t = \<lparr>th_guid = fst (voters P r ! k), th_result = urand100 env (gr_rand g + k), th_vote = snd (voters P r ! k)\<rparr>"
  using throw_fold [OF assms(1) assms(3) [unfolded throw_dice_def]] assms(2) by (auto simp: voters_def)

lemma loot_item_dice: "only_dice n g g' \<Longrightarrow> loot_item_of r g' = loot_item_of r g"
  by (simp add: loot_item_of_def only_dice_sel)

lemma voters_in: "k < length (voters P r) \<Longrightarrow> P (snd (voters P r ! k))"
  using nth_mem [of k "voters P r"] by (auto simp: voters_def)

lemma need_roll_run:
  assumes pos: "\<And>n. 0 < urand100 env n" and it: "loot_item_of r g = Some it" and ne: "voters (\<lambda>v. v = NEED) r \<noteq> []"
  shows "\<exists>k g'. need_roll env r g = Inr g' \<and> is_best (\<lambda>j. urand100 env (gr_rand g + j)) (length (voters (\<lambda>v. v = NEED) r)) k \<and>
    won env r it (voters (\<lambda>v. v = NEED) r ! k) g' \<and> gr_rolls g' = gr_rolls g"
proof -
  let ?xs = "voters (\<lambda>v. v = NEED) r"
  have votes: "ro_playerVote r \<noteq> []" using ne by (auto simp: voters_def)
  obtain t g1 where d: "throw_dice env (\<lambda>v. v = NEED) r g = (t, g1)" by fastforce
  obtain k where k: "only_dice (length ?xs) g g1" "is_best (\<lambda>j. urand100 env (gr_rand g + j)) (length ?xs) k" "th_guid t = fst (?xs ! k)"
    using throw_dice_run [OF pos ne d] by auto
  have need: "snd (?xs ! k) = NEED" using voters_in [of k "\<lambda>v. v = NEED" r] k(2) by (simp add: is_best_def)
  define g2 where "g2 = SendLootRollWon env (th_guid t) (th_result t) NEED r g1"
  have g2: "only_dice (length ?xs) g g2" unfolding g2_def SendLootRollWon_def by (rule only_dice_step(2) [OF k(1)])
  have it2: "loot_item_of r g2 = Some it" "gr_rolls g2 = gr_rolls g" using loot_item_dice [OF g2] only_dice_sel(2) [OF g2] it by simp_all
  show ?thesis
  proof (cases "connected_player env (th_guid t)")
    case True
    obtain g3 where g3: "give_item env (th_guid t) r g2 = Inr g3" "awarded env (th_guid t) r it g3" "gr_rolls g3 = gr_rolls g2"
      using give_item_run [OF it2(1)] by blast
    have "need_roll env r g = Inr g3" using votes d g3(1) True by (simp add: need_roll_def g2_def [symmetric])
    then show ?thesis using k(2,3) g3(2,3) it2(2) need True by (intro exI [of _ k] exI [of _ g3]) (simp add: won_def)
  next
    case False
    have "need_roll env r g = Inr g2" using votes d False by (simp add: need_roll_def g2_def [symmetric])
    then show ?thesis using k(2,3) it2 need False by (intro exI [of _ k] exI [of _ g2]) (simp add: won_def)
  qed
qed

lemma disenchant_roll_run:
  assumes it: "loot_item_of r g = Some it" and id: "disenchant_id env (ro_itemid r) p \<noteq> None"
  shows "\<exists>g'. disenchant_roll env p r g = Inr (True, g') \<and> disenchanted env p r it g' \<and> gr_rolls g' = gr_rolls g"
proof -
  obtain i skill where i: "disenchant_id env (ro_itemid r) p = Some (i, skill)" using id by fastforce
  obtain g1 where g1: "take_item r g = Inr g1" "roll_view r g1 = (Some (it\<lparr>li_looted := True\<rparr>), gr_rolls g, gr_rand g)"
    using take_item_run [OF it] by blast
  define g2 where "g2 = emit (StoreDisenchanted p i (can_store_new env p (ro_itemid r))) g1"
  have "roll_view r g2 = roll_view r g1" "StoreDisenchanted p i (can_store_new env p (ro_itemid r)) \<in> set (gr_out g2)"
    by (simp_all add: g2_def) (simp add: emit_def)
  then show ?thesis using g1 i by (intro exI [of _ g2]) (simp add: disenchant_roll_def disenchanted_def roll_view_def g2_def [symmetric])
qed

lemma greed_roll_run:
  assumes pos: "\<And>n. 0 < urand100 env n" and it: "loot_item_of r g = Some it" and ne: "voters is_greed r \<noteq> []"
    and id: "\<And>p. (p, DISENCHANT) \<in> set (ro_playerVote r) \<Longrightarrow> disenchant_id env (ro_itemid r) p \<noteq> None"
  shows "\<exists>k g'. greed_roll env r g = Inr (True, g') \<and> is_best (\<lambda>j. urand100 env (gr_rand g + j)) (length (voters is_greed r)) k \<and>
    won env r it (voters is_greed r ! k) g' \<and> gr_rolls g' = gr_rolls g"
proof -
  let ?xs = "voters is_greed r"
  have votes: "ro_playerVote r \<noteq> []" using ne by (auto simp: voters_def)
  obtain t g1 where d: "throw_dice env is_greed r g = (t, g1)" by fastforce
  obtain k where k: "only_dice (length ?xs) g g1" "is_best (\<lambda>j. urand100 env (gr_rand g + j)) (length ?xs) k"
    "th_guid t = fst (?xs ! k)" "th_vote t = snd (?xs ! k)"
    using throw_dice_run [OF pos ne d] by auto
  have kl: "k < length ?xs" using k(2) by (simp add: is_best_def)
  have vote: "th_vote t = GREED \<or> th_vote t = DISENCHANT" using voters_in [OF kl] by (simp add: k(4) is_greed_def)
  have "?xs ! k \<in> set (ro_playerVote r)" using nth_mem [OF kl] by (simp add: voters_def)
  then have id': "th_vote t = DISENCHANT \<Longrightarrow> disenchant_id env (ro_itemid r) (th_guid t) \<noteq> None"
    using id [of "th_guid t"] by (simp add: k(3,4)) (metis prod.collapse)
  define g2 where "g2 = SendLootRollWon env (th_guid t) (th_result t) (th_vote t) r g1"
  have g2: "only_dice (length ?xs) g g2" unfolding g2_def SendLootRollWon_def by (rule only_dice_step(2) [OF k(1)])
  have it2: "loot_item_of r g2 = Some it" "gr_rolls g2 = gr_rolls g" using loot_item_dice [OF g2] only_dice_sel(2) [OF g2] it by simp_all
  have "\<exists>g3. greed_roll env r g = Inr (True, g3) \<and> won env r it (?xs ! k) g3 \<and> gr_rolls g3 = gr_rolls g"
  proof -
    consider "\<not> connected_player env (th_guid t)" | "connected_player env (th_guid t)" "th_vote t = GREED"
      | "connected_player env (th_guid t)" "th_vote t = DISENCHANT" using vote by blast
    then show ?thesis
    proof cases
      case 1
      have "greed_roll env r g = Inr (True, g2)" using votes d 1 by (simp add: greed_roll_def g2_def [symmetric])
      then show ?thesis using it2 1 by (simp add: won_def k(3))
    next
      case 2
      obtain g3 where g3: "give_item env (th_guid t) r g2 = Inr g3" "awarded env (th_guid t) r it g3" "gr_rolls g3 = gr_rolls g2"
        using give_item_run [OF it2(1)] by blast
      have "greed_roll env r g = Inr (True, g3)" using votes d 2 g3(1) by (simp add: greed_roll_def g2_def)
      then show ?thesis using g3 it2 2 by (simp add: won_def k(3,4))
    next
      case 3
      obtain g3 where g3: "disenchant_roll env (th_guid t) r g2 = Inr (True, g3)" "disenchanted env (th_guid t) r it g3" "gr_rolls g3 = gr_rolls g2"
        using disenchant_roll_run [OF it2(1) id' [OF 3(2)]] by blast
      have "greed_roll env r g = Inr (True, g3)" using votes d 3 g3(1) by (simp add: greed_roll_def g2_def)
      then show ?thesis using g3 it2 3 by (simp add: won_def k(3,4))
    qed
  qed
  then show ?thesis using k(2) by blast
qed

section \<open>Counting\<close>

text \<open>The totals of a roll are those of its votes, and who disenchants has somebody who can.\<close>

definition fair_roll :: "party_env \<Rightarrow> roll \<Rightarrow> bool" where
  "fair_roll env r \<longleftrightarrow> (0 < ro_totalNeed r \<longleftrightarrow> voters (\<lambda>v. v = NEED) r \<noteq> []) \<and> (0 < ro_totalGreed r \<longleftrightarrow> voters is_greed r \<noteq> []) \<and>
     (\<forall>pv \<in> set (ro_playerVote r). snd pv = DISENCHANT \<longrightarrow> disenchant_id env (ro_itemid r) (fst pv) \<noteq> None)"

lemma erase_roll_view: "loot_item_of r (erase_roll i g) = loot_item_of r g" "gr_out (erase_roll i g) = gr_out g"
  by (simp_all add: erase_roll_def loot_item_of_def)

lemma won_view: "loot_item_of r g' = loot_item_of r g \<Longrightarrow> set (gr_out g) \<subseteq> set (gr_out g') \<Longrightarrow> won env r it pv g \<Longrightarrow> won env r it pv g'"
  by (auto simp: won_def awarded_def disenchanted_def split: option.splits)

lemma finish_view:
  defines "fin \<equiv> \<lambda>env r i g. erase_roll i (SendLootRollsComplete env r g)"
  shows "won env r it pv g \<Longrightarrow> won env r it pv (fin env r i g)" "loot_item_of r (fin env r i g) = loot_item_of r g"
    "gr_rolls (fin env r i g) = take i (gr_rolls g) @ drop (Suc i) (gr_rolls g)"
proof -
  have view: "roll_view r (SendLootRollsComplete env r g) = roll_view r g" by (simp add: SendLootRollsComplete_def)
  then show item: "loot_item_of r (fin env r i g) = loot_item_of r g" by (simp add: fin_def erase_roll_view roll_view_def)
  show "gr_rolls (fin env r i g) = take i (gr_rolls g) @ drop (Suc i) (gr_rolls g)"
    using view by (simp add: fin_def erase_roll_def roll_view_def)
  have "set (gr_out g) \<subseteq> set (gr_out (fin env r i g))"
    by (auto simp: fin_def erase_roll_view SendLootRollsComplete_def SendToRolling_def emit_all_def)
  with item show "won env r it pv g \<Longrightarrow> won env r it pv (fin env r i g)" by (rule won_view)
qed

text \<open>The outcome of a roll that was about the given item, with the given dice.\<close>

definition roll_outcome :: "party_env \<Rightarrow> roll \<Rightarrow> loot_item \<Rightarrow> (nat \<Rightarrow> uint8) \<Rightarrow> party \<Rightarrow> bool" where
  "roll_outcome env r it die g \<longleftrightarrow> (let needers = voters (\<lambda>v. v = NEED) r; greeders = voters is_greed r in
     if needers \<noteq> [] then \<exists>k. is_best die (length needers) k \<and> won env r it (needers ! k) g
     else if greeders \<noteq> [] then \<exists>k. is_best die (length greeders) k \<and> won env r it (greeders ! k) g
     else loot_item_of r g = Some (it\<lparr>li_blocked := False\<rparr>))"

lemma CountTheRoll_run:
  assumes pos: "\<And>n. 0 < urand100 env n" and it: "loot_item_of (gr_rolls g ! i) g = Some it" and fair: "fair_roll env (gr_rolls g ! i)"
  shows "\<exists>g'. CountTheRoll env i g = Inr g' \<and> gr_rolls g' = take i (gr_rolls g) @ drop (Suc i) (gr_rolls g) \<and>
    roll_outcome env (gr_rolls g ! i) it (\<lambda>j. urand100 env (gr_rand g + j)) g'"
proof -
  define r where "r = gr_rolls g ! i"
  note it = it [folded r_def] and fair = fair [folded r_def]
  obtain l where loot: "gr_loots g (ro_loot r) = Some l" using it by (auto simp: loot_item_of_def split: option.splits)
  have tot: "0 < ro_totalNeed r \<longleftrightarrow> voters (\<lambda>v. v = NEED) r \<noteq> []" "0 < ro_totalGreed r \<longleftrightarrow> voters is_greed r \<noteq> []"
    "\<And>p. (p, DISENCHANT) \<in> set (ro_playerVote r) \<Longrightarrow> disenchant_id env (ro_itemid r) p \<noteq> None"
    using fair by (auto simp: fair_roll_def)
  define fin where "fin = (\<lambda>g. erase_roll i (SendLootRollsComplete env r g))"
  have fin: "won env r it pv h \<Longrightarrow> won env r it pv (fin h)" "loot_item_of r (fin h) = loot_item_of r h"
    "gr_rolls (fin h) = take i (gr_rolls h) @ drop (Suc i) (gr_rolls h)" for pv h
    unfolding fin_def by (erule finish_view(1), rule finish_view(2), rule finish_view(3))
  have count: "CountTheRoll env i g = (if voters (\<lambda>v. v = NEED) r \<noteq> [] then res_bind (need_roll env r g) (\<lambda>g. Inr (fin g))
      else if voters is_greed r \<noteq> [] then res_bind (greed_roll env r g) (\<lambda>(goes_on, g1). if goes_on then Inr (fin g1) else Inr g1)
      else res_bind (unblock_item r (SendLootAllPassed env r g)) (\<lambda>g. Inr (fin g)))"
    unfolding CountTheRoll_def Let_def r_def [symmetric] loot tot(1,2) fin_def by simp
  consider "voters (\<lambda>v. v = NEED) r \<noteq> []" | "voters (\<lambda>v. v = NEED) r = []" "voters is_greed r \<noteq> []"
    | "voters (\<lambda>v. v = NEED) r = []" "voters is_greed r = []" by blast
  then have "\<exists>g'. CountTheRoll env i g = Inr g' \<and> gr_rolls g' = take i (gr_rolls g) @ drop (Suc i) (gr_rolls g) \<and>
    roll_outcome env r it (\<lambda>j. urand100 env (gr_rand g + j)) g'"
  proof cases
    case 1
    obtain k g1 where "need_roll env r g = Inr g1" "is_best (\<lambda>j. urand100 env (gr_rand g + j)) (length (voters (\<lambda>v. v = NEED) r)) k"
      "won env r it (voters (\<lambda>v. v = NEED) r ! k) g1" "gr_rolls g1 = gr_rolls g"
      using need_roll_run [OF pos it 1] by blast
    then show ?thesis using 1 fin(2,3) fin(1) [of "voters (\<lambda>v. v = NEED) r ! k" g1]
      by (intro exI [of _ "fin g1"]) (auto simp: count roll_outcome_def Let_def)
  next
    case 2
    obtain k g1 where "greed_roll env r g = Inr (True, g1)" "is_best (\<lambda>j. urand100 env (gr_rand g + j)) (length (voters is_greed r)) k"
      "won env r it (voters is_greed r ! k) g1" "gr_rolls g1 = gr_rolls g"
      using greed_roll_run [OF pos it 2(2) tot(3)] by blast
    then show ?thesis using 2 fin(2,3) fin(1) [of "voters is_greed r ! k" g1]
      by (intro exI [of _ "fin g1"]) (auto simp: count roll_outcome_def Let_def)
  next
    case 3
    have view: "roll_view r (SendLootAllPassed env r g) = roll_view r g" by (simp add: SendLootAllPassed_def)
    then obtain g1 where "unblock_item r (SendLootAllPassed env r g) = Inr g1" "loot_item_of r g1 = Some (it\<lparr>li_blocked := False\<rparr>)" "gr_rolls g1 = gr_rolls g"
      using unblock_item_run [of r "SendLootAllPassed env r g" it] it by (auto simp: roll_view_def)
    then show ?thesis using 3 fin by (intro exI [of _ "fin g1"]) (simp add: count roll_outcome_def Let_def)
  qed
  then show ?thesis by (simp add: r_def)
qed

text \<open>C24: When a roll is counted and its totals are those of its votes, it is over, and the item goes to the first of those
  with the highest number of the dice: among the players who need it if there are any, else among those who asked
  for it or for what it disenchants into. Bags that are full free the item for all, as does a roll in which
  everybody passed; a winner that is offline gets nothing and the item stays blocked.\<close>

theorem CountTheRoll_awards:
  assumes pos: "\<And>n. 0 < urand100 env n" and it: "loot_item_of (gr_rolls g ! i) g = Some it" and fair: "fair_roll env (gr_rolls g ! i)"
  defines "r \<equiv> gr_rolls g ! i" and "die \<equiv> \<lambda>j. urand100 env (gr_rand g + j)"
  shows "\<exists>g'. CountTheRoll env i g = Inr g' \<and> gr_rolls g' = take i (gr_rolls g) @ drop (Suc i) (gr_rolls g) \<and>
    (let needers = voters (\<lambda>v. v = NEED) r; greeders = voters is_greed r in
     if needers \<noteq> [] then \<exists>k. is_best die (length needers) k \<and> won env r it (needers ! k) g'
     else if greeders \<noteq> [] then \<exists>k. is_best die (length greeders) k \<and> won env r it (greeders ! k) g'
     else loot_item_of r g' = Some (it\<lparr>li_blocked := False\<rparr>))"
  using CountTheRoll_run [OF pos it fair] unfolding roll_outcome_def r_def [symmetric] die_def [symmetric] .

section \<open>The timer of a loot\<close>

text \<open>The sizes of the loots never change.\<close>

definition loot_sizes :: "party \<Rightarrow> ObjectGuid \<Rightarrow> (nat \<times> nat) option" where
  "loot_sizes g x = map_option (\<lambda>l. (length (lo_items l), length (lo_questItems l))) (gr_loots g x)"

lemma loot_item_sizes:
  "loot_item_of r g \<noteq> None \<longleftrightarrow> (case loot_sizes g (ro_loot r) of None \<Rightarrow> False | Some (m, n) \<Rightarrow> unat (ro_itemSlot r) < m + n)"
  by (auto simp: loot_item_of_def loot_sizes_def item_at_def Let_def split: option.splits)

lemma loot_sizes_out: "loot_sizes (emit e g) = loot_sizes g" "loot_sizes (SendToRolling env m r g) = loot_sizes g" "loot_sizes (erase_roll i g) = loot_sizes g"
  by (simp_all add: fun_eq_iff loot_sizes_def emit_def SendToRolling_def emit_all_def erase_roll_def)

lemma loot_sizes_on_loot:
  assumes "on_loot r f g = Inr g'" "\<And>l l'. f l = Inr l' \<Longrightarrow> length (lo_items l') = length (lo_items l) \<and> length (lo_questItems l') = length (lo_questItems l)"
  shows "loot_sizes g' = loot_sizes g"
  using assms by (auto simp: on_loot_def res_bind_eq_Inr loot_sizes_def fun_eq_iff split: option.splits)

lemma with_item_sizes: "with_item r f l = Inr l' \<Longrightarrow> length (lo_items l') = length (lo_items l) \<and> length (lo_questItems l') = length (lo_questItems l)"
  by (auto simp: with_item_def Let_def split: if_splits)

lemma loot_sizes_items:
  "take_item r g = Inr g' \<Longrightarrow> loot_sizes g' = loot_sizes g" "unblock_item r g = Inr g' \<Longrightarrow> loot_sizes g' = loot_sizes g"
  "give_item env p r g = Inr g' \<Longrightarrow> loot_sizes g' = loot_sizes g"
proof -
  show t: "take_item r g = Inr g' \<Longrightarrow> loot_sizes g' = loot_sizes g" for g g'
    by (auto simp: take_item_def res_bind_eq_Inr loot_sizes_out dest!: loot_sizes_on_loot [OF _ with_item_sizes]
        loot_sizes_on_loot [where f = "\<lambda>l. Inr (l\<lparr>lo_unlootedCount := lo_unlootedCount l - 1\<rparr>)"])
  show u: "unblock_item r g = Inr g' \<Longrightarrow> loot_sizes g' = loot_sizes g" for g g'
    by (auto simp: unblock_item_def dest!: loot_sizes_on_loot [OF _ with_item_sizes])
  show "give_item env p r g = Inr g' \<Longrightarrow> loot_sizes g' = loot_sizes g"
    by (auto simp: give_item_def res_bind_eq_Inr loot_sizes_out split: if_splits dest!: t u)
qed

lemma loot_sizes_dice:
  assumes "throw_dice env P r g = (t, g')"
  shows "loot_sizes g' = loot_sizes g"
proof -
  have "loot_sizes (snd (fold (throw_die env P r) pvs tg)) = loot_sizes (snd tg)" for pvs tg
  proof (induction pvs arbitrary: tg)
    case (Cons pv pvs)
    have "loot_sizes (snd (throw_die env P r pv tg)) = loot_sizes (snd tg)"
      by (auto simp: throw_die_def Let_def SendLootRoll_def loot_sizes_out split: prod.split) (auto simp: loot_sizes_def fun_eq_iff)
    then show ?case by (simp add: Cons)
  qed simp
  from this [of "ro_playerVote r" "(\<lparr>th_guid = fst (hd (ro_playerVote r)), th_result = 0, th_vote = NOT_VALID\<rparr>, g)"]
  show ?thesis using assms by (simp add: throw_dice_def)
qed

lemma CountTheRoll_sizes:
  assumes "CountTheRoll env i g = Inr g'"
  shows "loot_sizes g' = loot_sizes g"
proof -
  have need: "need_roll env r g = Inr g' \<Longrightarrow> loot_sizes g' = loot_sizes g" for r g'
    by (auto simp: need_roll_def Let_def SendLootRollWon_def loot_sizes_out split: if_splits prod.splits dest!: loot_sizes_items loot_sizes_dice)
  have greed: "greed_roll env r g = Inr bg \<Longrightarrow> loot_sizes (snd bg) = loot_sizes g" for r bg
    by (auto simp: greed_roll_def disenchant_roll_def Let_def SendLootRollWon_def res_bind_eq_Inr loot_sizes_out
        split: if_splits prod.splits option.splits dest!: loot_sizes_items loot_sizes_dice)
  show ?thesis using assms
    by (auto simp: CountTheRoll_def Let_def res_bind_eq_Inr SendLootRollsComplete_def SendLootAllPassed_def loot_sizes_out
        split: if_splits prod.splits dest!: need greed loot_sizes_items)
qed

definition sound_roll :: "party_env \<Rightarrow> roll \<Rightarrow> party \<Rightarrow> bool" where
  "sound_roll env r g \<longleftrightarrow> fair_roll env r \<and> loot_item_of r g \<noteq> None"

lemma roll_of_loot_Some:
  assumes "roll_of_loot lg g = Some i"
  shows "i < length (gr_rolls g)" "ro_loot (gr_rolls g ! i) = lg" "gr_loots g lg \<noteq> None" "\<And>j. j < i \<Longrightarrow> ro_loot (gr_rolls g ! j) \<noteq> lg"
  using assms by (auto simp: roll_of_loot_def find_Some_iff)

lemma filter_erase: "i < length xs \<Longrightarrow> \<not> P (xs ! i) \<Longrightarrow> filter P (take i xs @ drop (Suc i) xs) = filter P xs"
  by (subst (3) id_take_nth_drop [of i]) auto

lemma set_erase_sub: "set (take i xs @ drop (Suc i) xs) \<subseteq> set xs"
  by (auto dest: in_set_takeD in_set_dropD)

text \<open>C23: When the timer of a loot has run out and its rolls are sound, the loop over the rolls comes to an end, without an
  error: all rolls of the loot are over, and the rolls of other loots are left as they are.\<close>

theorem EndRoll_ends_the_rolls:
  assumes pos: "\<And>n. 0 < urand100 env n" and sound: "\<forall>r \<in> set (gr_rolls g). ro_loot r = lg \<longrightarrow> sound_roll env r g"
  shows "\<exists>g'. EndRoll env lg g = Some (Inr g') \<and> gr_rolls g' = filter (\<lambda>r. ro_loot r \<noteq> lg) (gr_rolls g)"
  using sound
proof (induction "length (gr_rolls g)" arbitrary: g rule: less_induct)
  case less
  show ?case
  proof (cases "roll_of_loot lg g")
    case None
    have "ro_loot r \<noteq> lg" if r: "r \<in> set (gr_rolls g)" for r
    proof
      assume "ro_loot r = lg"
      then have "gr_loots g lg \<noteq> None" using less.prems r by (auto simp: sound_roll_def loot_item_of_def split: option.splits)
      then show False using None r \<open>ro_loot r = lg\<close> by (auto simp: roll_of_loot_def find_None_iff in_set_conv_nth)
    qed
    then have "filter (\<lambda>r. ro_loot r \<noteq> lg) (gr_rolls g) = gr_rolls g" by simp
    then show ?thesis using None by (subst EndRoll.simps) simp
  next
    case (Some i)
    note i = roll_of_loot_Some [OF Some]
    have "sound_roll env (gr_rolls g ! i) g" using less.prems i by simp
    then obtain it where "loot_item_of (gr_rolls g ! i) g = Some it" "fair_roll env (gr_rolls g ! i)" by (auto simp: sound_roll_def)
    from CountTheRoll_run [OF pos this] obtain g1 where
      g1: "CountTheRoll env i g = Inr g1" "gr_rolls g1 = take i (gr_rolls g) @ drop (Suc i) (gr_rolls g)" by blast
    have sub: "set (gr_rolls g1) \<subseteq> set (gr_rolls g)" unfolding g1(2) by (rule set_erase_sub)
    have "sound_roll env r g1" if "r \<in> set (gr_rolls g1)" "ro_loot r = lg" for r
      using less.prems that sub loot_item_sizes [of r g] loot_item_sizes [of r g1] CountTheRoll_sizes [OF g1(1)] by (auto simp: sound_roll_def)
    moreover have "length (gr_rolls g1) < length (gr_rolls g)" using i(1) by (simp add: g1(2))
    ultimately obtain g' where "EndRoll env lg g1 = Some (Inr g')" "gr_rolls g' = filter (\<lambda>r. ro_loot r \<noteq> lg) (gr_rolls g1)"
      using less.hyps by blast
    then show ?thesis using Some g1 filter_erase [OF i(1), of "\<lambda>r. ro_loot r \<noteq> lg"] i(2) by (subst EndRoll.simps) simp
  qed
qed

text \<open>A winner that asked for the disenchanted item and has none who can disenchant: the item is taken, the roll stays.\<close>

definition stuck_roll :: "party_env \<Rightarrow> ObjectGuid \<Rightarrow> ObjectGuid \<Rightarrow> party \<Rightarrow> bool" where
  "stuck_roll env lg p g \<longleftrightarrow> (case roll_of_loot lg g of None \<Rightarrow> False | Some i \<Rightarrow> let r = gr_rolls g ! i in
     ro_playerVote r = [(p, DISENCHANT)] \<and> ro_totalNeed r = 0 \<and> 0 < ro_totalGreed r \<and> connected_player env p \<and>
     disenchant_id env (ro_itemid r) p = None \<and> loot_item_of r g \<noteq> None)"

lemma roll_of_loot_same:
  "gr_rolls g' = gr_rolls g \<Longrightarrow> loot_sizes g' = loot_sizes g \<Longrightarrow> roll_of_loot lg g' = roll_of_loot lg g"
proof -
  assume 1: "gr_rolls g' = gr_rolls g" and 2: "loot_sizes g' = loot_sizes g"
  have "gr_loots g' lg = None \<longleftrightarrow> gr_loots g lg = None" using fun_cong [OF 2, of lg] by (auto simp: loot_sizes_def)
  then show ?thesis by (simp only: roll_of_loot_def 1)
qed

lemma stuck_roll_step:
  assumes pos: "\<And>n. 0 < urand100 env n" and stuck: "stuck_roll env lg p g"
  shows "\<exists>i g'. roll_of_loot lg g = Some i \<and> CountTheRoll env i g = Inr g' \<and> stuck_roll env lg p g'"
proof -
  obtain i where i: "roll_of_loot lg g = Some i" using stuck by (auto simp: stuck_roll_def split: option.splits)
  define r where "r = gr_rolls g ! i"
  have r: "ro_playerVote r = [(p, DISENCHANT)]" "ro_totalNeed r = 0" "0 < ro_totalGreed r" "connected_player env p"
    "disenchant_id env (ro_itemid r) p = None" "loot_item_of r g \<noteq> None"
    using stuck by (simp_all add: stuck_roll_def i r_def Let_def del: not_None_eq)
  obtain it where it: "loot_item_of r g = Some it" using r(6) by blast
  obtain l where l: "gr_loots g (ro_loot r) = Some l" using it by (auto simp: loot_item_of_def split: option.splits)
  obtain t g1 where d: "throw_dice env is_greed r g = (t, g1)" by fastforce
  have xs: "voters is_greed r = [(p, DISENCHANT)]" by (simp add: voters_def r(1) is_greed_def)
  have g1: "only_dice 1 g g1" "th_guid t = p" "th_vote t = DISENCHANT"
    using throw_dice_run [OF pos _ d] by (auto simp: xs is_best_def)
  define g2 where "g2 = SendLootRollWon env (th_guid t) (th_result t) (th_vote t) r g1"
  have g2: "only_dice 1 g g2" unfolding g2_def SendLootRollWon_def by (rule only_dice_step(2) [OF g1(1)])
  have it2: "loot_item_of r g2 = Some it" using loot_item_dice [OF g2] it by simp
  obtain g3 where g3: "take_item r g2 = Inr g3" "roll_view r g3 = (Some (it\<lparr>li_looted := True\<rparr>), gr_rolls g2, gr_rand g2)"
    using take_item_run [OF it2] by blast
  have "disenchant_roll env p r g2 = Inr (False, g3)" using g3(1) r(5) by (simp add: disenchant_roll_def)
  then have "greed_roll env r g = Inr (False, g3)" using r(1,4) d g1(2,3) by (simp add: greed_roll_def g2_def)
  then have count: "CountTheRoll env i g = Inr g3"
    unfolding CountTheRoll_def Let_def r_def [symmetric] l using r(2,3) by simp
  have rolls: "gr_rolls g3 = gr_rolls g" "loot_item_of r g3 \<noteq> None" using g3(2) only_dice_sel(2) [OF g2] by (simp_all add: roll_view_def)
  have "roll_of_loot lg g3 = Some i" using roll_of_loot_same [OF rolls(1) CountTheRoll_sizes [OF count]] i by simp
  then have "stuck_roll env lg p g3" using r rolls by (simp add: stuck_roll_def Let_def r_def del: not_None_eq)
  with i count show ?thesis by blast
qed

text \<open>C25: If the only voter of a roll asked for the disenchanted item and the item cannot be disenchanted, the timer of the loot
  makes the server loop for ever: the roll is counted again and again and never leaves the list.\<close>

theorem EndRoll_never_returns:
  assumes pos: "\<And>n. 0 < urand100 env n" and stuck: "stuck_roll env lg p g"
  shows "EndRoll env lg g = None"
proof -
  have "\<not> stuck_roll env lg p g \<or> \<not> (\<forall>n. 0 < urand100 env n)" if "EndRoll env lg g = Some res" for res
  proof (rule EndRoll.raw_induct [OF _ that])
    fix rec env lg g res
    assume 1: "\<And>env lg g r. rec env lg g = Some r \<Longrightarrow> \<not> stuck_roll env lg p g \<or> \<not> (\<forall>n. 0 < urand100 env n)"
      and 2: "(case roll_of_loot lg g of None \<Rightarrow> Some (Inr g)
        | Some i \<Rightarrow> (case CountTheRoll env i g of Inl e \<Rightarrow> Some (Inl e) | Inr g1 \<Rightarrow> rec env lg g1)) = Some res"
    show "\<not> stuck_roll env lg p g \<or> \<not> (\<forall>n. 0 < urand100 env n)"
    proof (rule ccontr)
      assume a: "\<not> ?thesis"
      then obtain i g1 where "roll_of_loot lg g = Some i" "CountTheRoll env i g = Inr g1" "stuck_roll env lg p g1"
        using stuck_roll_step [of env lg p g] by blast
      then show False using 1 [of env lg g1 res] 2 a by simp
    qed
  qed
  then show ?thesis using stuck pos by (cases "EndRoll env lg g") auto
qed

section \<open>Votes that are repeated\<close>

lemma GetRoll_Some:
  assumes "GetRoll lg slot g = Some i"
  shows "i < length (gr_rolls g)" "ro_loot (gr_rolls g ! i) = lg" "ro_itemSlot (gr_rolls g ! i) = slot" "gr_loots g lg \<noteq> None"
    "\<And>j. j < i \<Longrightarrow> \<not> (gr_loots g (ro_loot (gr_rolls g ! j)) \<noteq> None \<and> ro_loot (gr_rolls g ! j) = lg \<and> ro_itemSlot (gr_rolls g ! j) = slot)"
  using assms by (auto simp: GetRoll_def find_Some_iff Let_def)

lemma GetRoll_update:
  assumes "GetRoll lg slot g = Some i" "gr_rolls g' = (gr_rolls g)[i := r]" "gr_loots g' = gr_loots g" "ro_loot r = lg" "ro_itemSlot r = slot"
  shows "GetRoll lg slot g' = Some i"
proof -
  note i = GetRoll_Some [OF assms(1)]
  have "\<not> (gr_loots g' (ro_loot (gr_rolls g' ! j)) \<noteq> None \<and> ro_loot (gr_rolls g' ! j) = lg \<and> ro_itemSlot (gr_rolls g' ! j) = slot)" if "j < i" for j
    using i(5) [OF that] that by (simp add: assms(2,3))
  then show ?thesis unfolding GetRoll_def find_Some_iff Let_def using i assms(2-5) by (intro exI [of _ i]) auto
qed

lemma need_vote:
  "cast_vote env p ROLL_NEED r g = (r\<lparr>ro_totalNeed := ro_totalNeed r + 1, ro_playerVote := om_adjust p (\<lambda>_. NEED) (ro_playerVote r)\<rparr>, SendLootRoll env p 0 NEED r g)"
  by (simp add: cast_vote_def Let_def)

lemma SendLootRoll_sel [simp]:
  "gr_rolls (SendLootRoll env p n v r g) = gr_rolls g" "gr_loots (SendLootRoll env p n v r g) = gr_loots g" "gr_rand (SendLootRoll env p n v r g) = gr_rand g"
  by (simp_all add: SendLootRoll_def SendToRolling_def emit_all_def)

text \<open>C31: Votes are not limited to one for a player: in a roll of two players that nobody has voted in yet, the second one votes
  NEED twice, and the roll is over with the item for that player, while the first one has not been heard.\<close>

theorem voting_twice_wins:
  assumes pos: "\<And>n. 0 < urand100 env n" and i: "GetRoll lg slot g = Some i" and r: "r = gr_rolls g ! i"
    and votes: "ro_playerVote r = [(p, NOT_EMITED_YET), (q, NOT_EMITED_YET)]" "p \<noteq> q"
    and totals: "ro_totalNeed r = 0" "ro_totalGreed r = 0" "ro_totalPass r = 0" "ro_totalPlayersRolling r = 2"
    and it: "loot_item_of r g = Some it" and l: "gr_loots g lg = Some l" "lo_items l \<noteq> []"
  shows "\<exists>g1 g2. CountRollVote env q lg slot ROLL_NEED g = Inr g1 \<and> CountRollVote env q lg slot ROLL_NEED g1 = Inr g2 \<and>
    gr_rolls g2 = take i (gr_rolls g) @ drop (Suc i) (gr_rolls g) \<and> won env r it (q, NEED) g2"
proof -
  note I = GetRoll_Some [OF i, folded r]
  define r1 where "r1 = r\<lparr>ro_totalNeed := 1, ro_playerVote := [(p, NOT_EMITED_YET), (q, NEED)]\<rparr>"
  define r2 where "r2 = r\<lparr>ro_totalNeed := 2, ro_playerVote := [(p, NOT_EMITED_YET), (q, NEED)]\<rparr>"
  define g1 where "g1 = (SendLootRoll env q 0 NEED r g)\<lparr>gr_rolls := (gr_rolls g)[i := r1]\<rparr>"
  define g2 where "g2 = (SendLootRoll env q 0 NEED r1 g1)\<lparr>gr_rolls := (gr_rolls g)[i := r2]\<rparr>"
  have adj: "om_adjust q (\<lambda>_. NEED) [(p, NOT_EMITED_YET), (q, NOT_EMITED_YET)] = [(p, NOT_EMITED_YET), (q, NEED)]"
    "om_adjust q (\<lambda>_. NEED) [(p, NOT_EMITED_YET), (q, NEED)] = [(p, NOT_EMITED_YET), (q, NEED)]"
    using votes(2) by (simp_all add: om_adjust_def)
  have v1: "CountRollVote env q lg slot ROLL_NEED g = Inr g1"
  proof -
    have "cast_vote env q ROLL_NEED r g = (r1, SendLootRoll env q 0 NEED r g)" by (simp add: need_vote votes(1) totals(1) adj(1) r1_def)
    moreover have "\<not> all_voted r1" by (simp add: all_voted_def r1_def totals)
    ultimately show ?thesis using i l votes I by (simp add: CountRollVote_def Let_def r [symmetric] g1_def)
  qed
  have i1: "GetRoll lg slot g1 = Some i" by (rule GetRoll_update [OF i, where r = r1]) (simp_all add: g1_def r1_def I(2,3))
  have v2: "CountRollVote env q lg slot ROLL_NEED g1 = CountTheRoll env i g2"
  proof -
    have at: "gr_rolls g1 ! i = r1" "gr_loots g1 = gr_loots g" using I(1) by (simp_all add: g1_def)
    have "cast_vote env q ROLL_NEED r1 g1 = (r2, SendLootRoll env q 0 NEED r1 g1)" by (simp add: need_vote r1_def r2_def adj(2))
    moreover have "all_voted r2" by (simp add: all_voted_def r2_def totals)
    moreover have "map_of (ro_playerVote r1) q = Some NEED" "ro_loot r1 = lg" using votes(2) I by (simp_all add: r1_def)
    moreover have "(SendLootRoll env q 0 NEED r1 g1)\<lparr>gr_rolls := (gr_rolls (SendLootRoll env q 0 NEED r1 g1))[i := r2]\<rparr> = g2"
      by (simp add: g2_def) (simp add: g1_def)
    ultimately show ?thesis using i1 l by (simp add: CountRollVote_def Let_def at)
  qed
  have at2: "gr_rolls g2 ! i = r2" "gr_loots g2 = gr_loots g" using I(1) by (simp_all add: g2_def) (simp add: g1_def)
  have same: "loot_item_of r2 h = loot_item_of r h" for h by (simp add: loot_item_of_def r2_def item_at_def split: option.split)
  have it2: "loot_item_of (gr_rolls g2 ! i) g2 = Some it" using it by (simp add: at2 same) (simp add: loot_item_of_def at2)
  have needers: "voters (\<lambda>v. v = NEED) r2 = [(q, NEED)]" "voters is_greed r2 = []" by (simp_all add: voters_def r2_def is_greed_def)
  have "fair_roll env (gr_rolls g2 ! i)" by (simp add: fair_roll_def at2 needers) (simp add: r2_def totals)
  from CountTheRoll_run [OF pos it2 this] obtain g3 where g3: "CountTheRoll env i g2 = Inr g3"
    "gr_rolls g3 = take i (gr_rolls g2) @ drop (Suc i) (gr_rolls g2)" "roll_outcome env r2 it (\<lambda>j. urand100 env (gr_rand g2 + j)) g3"
    by (auto simp: at2)
  have "won env r2 it (q, NEED) g3" using g3(3) by (auto simp: roll_outcome_def needers is_best_def)
  moreover have "ro_itemid r2 = ro_itemid r" by (simp add: r2_def)
  ultimately have "won env r it (q, NEED) g3" by (simp add: won_def awarded_def same split: if_splits)
  moreover have "gr_rolls g3 = take i (gr_rolls g) @ drop (Suc i) (gr_rolls g)" by (simp add: g3(2) g2_def)
  ultimately show ?thesis using v1 v2 g3(1) by auto
qed

section \<open>Leaving in the middle of a roll\<close>

lemma unlink_member_rolls:
  "gr_rolls (unlink_member env p m g) = gr_rolls g" "gr_loots (unlink_member env p m g) = gr_loots g"
  by (simp_all add: unlink_member_def Let_def DelinkMember_def emit_def ResetMaxEnchantingLevel_def)

text \<open>C32: When a member leaves whose vote was the last one a roll was waiting for, and that is the only roll of the party, the loop
  over the rolls runs past the end of the empty list: the iterator is set to its beginning and then advanced.\<close>

theorem leaving_the_last_roll_faults:
  assumes pos: "\<And>n. 0 < urand100 env n" and more: "(if isBGGroup g \<or> isLFGGroup g \<or> isBFGroup g then 1 else 2) < GetMembersCount g"
    and kick: "\<not> (isLFGGroup g \<and> m = GROUP_REMOVEMETHOD_KICK)"
    and roll: "gr_rolls g = [r]" "map_of (ro_playerVote r) p = Some v"
    and voted: "all_voted (withdraw_vote p v r)" and sound: "sound_roll env (withdraw_vote p v r) g"
  shows "RemoveMember env p m k g = Inl OutOfBounds"
proof -
  define g0 where "g0 = unlink_member env p m (emit (OnGroupRemoveMember p m k) g)"
  have g0: "gr_rolls g0 = [r]" "gr_loots g0 = gr_loots g" by (simp_all add: g0_def unlink_member_rolls roll(1)) (simp_all add: emit_def roll(1))
  define r1 where "r1 = withdraw_vote p v r"
  define g1 where "g1 = g0\<lparr>gr_rolls := [r1]\<rparr>"
  obtain it where "loot_item_of (gr_rolls g1 ! 0) g1 = Some it" "fair_roll env (gr_rolls g1 ! 0)"
    using sound by (auto simp: sound_roll_def g1_def r1_def loot_item_of_def g0(2))
  from CountTheRoll_run [OF pos this] obtain g2 where g2: "CountTheRoll env 0 g1 = Inr g2" "gr_rolls g2 = []" by (auto simp: g1_def)
  have "leave_rolls env p 1 g2 = Inl OutOfBounds" using g2(2) by (subst leave_rolls.simps) simp
  then have run: "leave_rolls env p 0 g0 = Inl OutOfBounds"
    using g0(1) roll(2) voted g2(1) by (subst leave_rolls.simps) (simp add: Let_def r1_def [symmetric] g1_def)
  have "GetMembersCount (emit e g) = GetMembersCount g" "isLFGGroup (emit e g) = isLFGGroup g" "isBGGroup (emit e g) = isBGGroup g"
    "isBFGroup (emit e g) = isBFGroup g" for e
    by (simp_all add: emit_def GetMembersCount_def isLFGGroup_def isBGGroup_def isBFGroup_def)
  then show ?thesis using more kick run unfolding RemoveMember_def Let_def g0_def [symmetric] by (simp del: One_nat_def split: if_splits)
qed

section \<open>Instances\<close>

text \<open>A chest with one sword, and a party that rolls for it.\<close>

lemma calm_dice: "0 < urand100 (calm_env on) n"
proof -
  have "n mod 100 < 100" by simp
  then have "unat (of_nat (n mod 100 + 1) :: uint8) = n mod 100 + 1" unfolding unat_of_nat by simp
  then have "(of_nat (n mod 100 + 1) :: uint8) \<noteq> 0" by (metis Suc_eq_plus1 nat.distinct(1) unat_0)
  then have "0 < (of_nat (n mod 100 + 1) :: uint8)" by (simp only: word_gt_0)
  then show ?thesis by (simp only: calm_env_def party_env.select_convs)
qed

definition chest :: ObjectGuid where "chest = ObjectGuid 1 7"

definition sword :: loot_item where
  "sword = \<lparr>li_itemid = 19019, li_blocked = True, li_looted = False, li_underthreshold = False, li_freeforall = False, li_followLootRules = False\<rparr>"

definition roll_for :: "(ObjectGuid \<times> RollVote) list \<Rightarrow> uint8 \<Rightarrow> uint8 \<Rightarrow> roll" where
  "roll_for votes need greed = (Roll chest sword)\<lparr>ro_playerVote := votes, ro_totalPlayersRolling := of_nat (length votes),
     ro_totalNeed := need, ro_totalGreed := greed\<rparr>"

definition rolling :: "member_slot list \<Rightarrow> roll \<Rightarrow> party" where
  "rolling slots r = Group\<lparr>gr_memberSlots := slots, gr_rolls := [r],
     gr_loots := (\<lambda>_. None)(chest \<mapsto> \<lparr>lo_items = [sword], lo_questItems = [], lo_unlootedCount = 1\<rparr>)\<rparr>"

lemma roll_for_sel [simp]:
  "ro_playerVote (roll_for vs n k) = vs" "ro_totalNeed (roll_for vs n k) = n" "ro_totalGreed (roll_for vs n k) = k" "ro_loot (roll_for vs n k) = chest"
  "ro_itemSlot (roll_for vs n k) = 0" "ro_totalPass (roll_for vs n k) = 0" "ro_totalPlayersRolling (roll_for vs n k) = of_nat (length vs)"
  "ro_itemid (roll_for vs n k) = 19019"
  by (simp_all add: roll_for_def Roll_def sword_def)

lemma rolling_sel [simp]:
  "gr_rolls (rolling slots r) = [r]" "gr_loots (rolling slots r) chest = Some \<lparr>lo_items = [sword], lo_questItems = [], lo_unlootedCount = 1\<rparr>"
  by (simp_all add: rolling_def)

lemma sword_in_chest: "ro_loot r = chest \<Longrightarrow> ro_itemSlot r = 0 \<Longrightarrow> loot_item_of r (rolling slots r') = Some sword"
  by (simp add: loot_item_of_def item_at_def)

lemma two_players_differ: "player_no 1 \<noteq> player_no 2"
  by code_simp

theorem CountTheRoll_awards_witness:
  "\<exists>g'. CountTheRoll (calm_env [player_no 1, player_no 2]) 0 (rolling [] (roll_for [(player_no 1, NEED), (player_no 2, GREED)] 1 1)) = Inr g' \<and> gr_rolls g' = [] \<and>
     won (calm_env [player_no 1, player_no 2]) (roll_for [(player_no 1, NEED), (player_no 2, GREED)] 1 1) sword (player_no 1, NEED) g'"
proof -
  let ?r = "roll_for [(player_no 1, NEED), (player_no 2, GREED)] 1 1"
  have 1: "loot_item_of (gr_rolls (rolling [] ?r) ! 0) (rolling [] ?r) = Some sword" by (simp add: sword_in_chest)
  have 2: "fair_roll (calm_env [player_no 1, player_no 2]) (gr_rolls (rolling [] ?r) ! 0)" by (simp add: fair_roll_def voters_def is_greed_def)
  have "voters (\<lambda>v. v = NEED) ?r = [(player_no 1, NEED)]" by (simp add: voters_def)
  then show ?thesis using CountTheRoll_awards [OF calm_dice 1 2] by (auto simp: is_best_def)
qed

theorem EndRoll_ends_the_rolls_witness:
  "\<exists>g'. EndRoll (calm_env [player_no 1, player_no 2]) chest (rolling [] (roll_for [(player_no 1, NEED), (player_no 2, NOT_EMITED_YET)] 1 0)) = Some (Inr g') \<and> gr_rolls g' = []"
proof -
  let ?r = "roll_for [(player_no 1, NEED), (player_no 2, NOT_EMITED_YET)] 1 0"
  have "\<forall>r \<in> set (gr_rolls (rolling [] ?r)). ro_loot r = chest \<longrightarrow> sound_roll (calm_env [player_no 1, player_no 2]) r (rolling [] ?r)"
    by (simp add: sound_roll_def sword_in_chest fair_roll_def voters_def is_greed_def)
  from EndRoll_ends_the_rolls [OF calm_dice this] show ?thesis by simp
qed

theorem EndRoll_never_returns_witness:
  "EndRoll (calm_env [player_no 1]) chest (rolling [] (roll_for [(player_no 1, DISENCHANT)] 0 1)) = None"
proof -
  have "roll_of_loot chest (rolling [] (roll_for [(player_no 1, DISENCHANT)] 0 1)) = Some 0" by (simp add: roll_of_loot_def)
  then have "stuck_roll (calm_env [player_no 1]) chest (player_no 1) (rolling [] (roll_for [(player_no 1, DISENCHANT)] 0 1))"
    by (simp add: stuck_roll_def sword_in_chest) (simp add: calm_env_def)
  then show ?thesis by (rule EndRoll_never_returns [OF calm_dice])
qed

theorem voting_twice_wins_witness:
  "\<exists>g1 g2. CountRollVote (calm_env []) (player_no 2) chest 0 ROLL_NEED
       (rolling [] (roll_for [(player_no 1, NOT_EMITED_YET), (player_no 2, NOT_EMITED_YET)] 0 0)) = Inr g1 \<and>
     CountRollVote (calm_env []) (player_no 2) chest 0 ROLL_NEED g1 = Inr g2 \<and> gr_rolls g2 = []"
proof -
  let ?r = "roll_for [(player_no 1, NOT_EMITED_YET), (player_no 2, NOT_EMITED_YET)] 0 0"
  have "GetRoll chest 0 (rolling [] ?r) = Some 0" by (simp add: GetRoll_def)
  from voting_twice_wins [OF calm_dice [of "[]"] this refl, of "player_no 1" "player_no 2" sword
    "\<lparr>lo_items = [sword], lo_questItems = [], lo_unlootedCount = 1\<rparr>"] two_players_differ show ?thesis
    by (auto simp: sword_in_chest)
qed

theorem leaving_the_last_roll_faults_witness:
  "RemoveMember (calm_env [player_no 1, player_no 2, player_no 3]) (player_no 2) GROUP_REMOVEMETHOD_LEAVE GuidEmpty
     (rolling (map (\<lambda>i. new_slot (calm_env []) (player_no i) 0) [1, 2, 3]) (roll_for [(player_no 1, NEED), (player_no 2, NOT_EMITED_YET)] 1 0)) =
   Inl OutOfBounds"
proof (rule leaving_the_last_roll_faults [OF calm_dice, where v = NOT_EMITED_YET])
  let ?r = "roll_for [(player_no 1, NEED), (player_no 2, NOT_EMITED_YET)] 1 0"
  have w: "withdraw_vote (player_no 2) NOT_EMITED_YET ?r = (roll_for [(player_no 1, NEED)] 1 0)"
    using two_players_differ by (simp add: withdraw_vote_def Let_def om_erase_def) (simp add: roll_for_def Roll_def)
  show "all_voted (withdraw_vote (player_no 2) NOT_EMITED_YET ?r)" unfolding w by (simp add: all_voted_def)
  show "sound_roll (calm_env [player_no 1, player_no 2, player_no 3]) (withdraw_vote (player_no 2) NOT_EMITED_YET ?r)
      (rolling (map (\<lambda>i. new_slot (calm_env []) (player_no i) 0) [1, 2, 3]) ?r)"
    unfolding w by (simp add: sound_roll_def sword_in_chest fair_roll_def voters_def is_greed_def)
  show "map_of (ro_playerVote ?r) (player_no 2) = Some NOT_EMITED_YET" using two_players_differ by simp
qed (simp_all add: rolling_def Group_def GetMembersCount_def isBGGroup_def isLFGGroup_def isBFGroup_def GROUP_FLAG_NONE_def)

end
