(* ===== verification/Bg_Data.thy ===== *)
theory Bg_Data
  imports Event_Processor Object_Guid Registry
begin

text \<open>
  The data of the queues for battlegrounds and arenas, \<^verbatim>\<open>src/src/server/game/Battlegrounds/BattlegroundQueue.{h,cpp}\<close>,
  \<^verbatim>\<open>BattlegroundMgr.{h,cpp}\<close>, with the part of \<^verbatim>\<open>Battleground.{h,cpp}\<close> and of \<^verbatim>\<open>Player.cpp\<close> they use. Queued groups and
  battlegrounds are objects on the heap, named by addresses: lists, pools and players hold addresses, and a write through one of them is
  seen through all. A heap is a total function; the allocator hands out addresses in order, and \<^verbatim>\<open>delete\<close> takes the last reference
  out of the lists. That no deleted group is followed is the invariant \<^verbatim>\<open>bq_wf\<close> of \<^verbatim>\<open>Bg_Invariant\<close>.
\<close>

unbundle bit_operations_syntax

section \<open>Constants\<close>

definition TEAM_ALLIANCE :: nat where "TEAM_ALLIANCE = 0"
definition TEAM_HORDE :: nat where "TEAM_HORDE = 1"
definition BG_TEAMS_COUNT :: nat where "BG_TEAMS_COUNT = 2"
definition MAX_BATTLEGROUND_BRACKETS :: nat where "MAX_BATTLEGROUND_BRACKETS = 12"
definition COUNT_OF_PLAYERS_TO_AVERAGE_WAIT_TIME :: nat where "COUNT_OF_PLAYERS_TO_AVERAGE_WAIT_TIME = 10"
definition PLAYER_MAX_BATTLEGROUND_QUEUES :: nat where "PLAYER_MAX_BATTLEGROUND_QUEUES = 2"

definition BG_QUEUE_PREMADE_ALLIANCE :: nat where "BG_QUEUE_PREMADE_ALLIANCE = 0"
definition BG_QUEUE_PREMADE_HORDE :: nat where "BG_QUEUE_PREMADE_HORDE = 1"
definition BG_QUEUE_NORMAL_ALLIANCE :: nat where "BG_QUEUE_NORMAL_ALLIANCE = 2"
definition BG_QUEUE_NORMAL_HORDE :: nat where "BG_QUEUE_NORMAL_HORDE = 3"
definition BG_QUEUE_GROUP_TYPES_COUNT :: nat where "BG_QUEUE_GROUP_TYPES_COUNT = 4"

definition BG_QUEUE_INVITATION_TYPE_NO_BALANCE :: uint32 where "BG_QUEUE_INVITATION_TYPE_NO_BALANCE = 0"
definition BG_QUEUE_INVITATION_TYPE_EVEN :: uint32 where "BG_QUEUE_INVITATION_TYPE_EVEN = 2"

definition STATUS_WAIT_QUEUE :: nat where "STATUS_WAIT_QUEUE = 1"
definition STATUS_WAIT_JOIN :: nat where "STATUS_WAIT_JOIN = 2"
definition STATUS_IN_PROGRESS :: nat where "STATUS_IN_PROGRESS = 3"
definition STATUS_WAIT_LEAVE :: nat where "STATUS_WAIT_LEAVE = 4"

definition INVITATION_REMIND_TIME :: nat where "INVITATION_REMIND_TIME = 20000"
definition INVITE_ACCEPT_WAIT_TIME :: nat where "INVITE_ACCEPT_WAIT_TIME = 90000"

text \<open>The kinds of battlegrounds that have code of their own, and the queues.\<close>

definition BATTLEGROUND_TYPE_NONE :: uint32 where "BATTLEGROUND_TYPE_NONE = 0"
definition BATTLEGROUND_AV :: uint32 where "BATTLEGROUND_AV = 1"
definition BATTLEGROUND_WS :: uint32 where "BATTLEGROUND_WS = 2"
definition BATTLEGROUND_AB :: uint32 where "BATTLEGROUND_AB = 3"
definition BATTLEGROUND_NA :: uint32 where "BATTLEGROUND_NA = 4"
definition BATTLEGROUND_BE :: uint32 where "BATTLEGROUND_BE = 5"
definition BATTLEGROUND_AA :: uint32 where "BATTLEGROUND_AA = 6"
definition BATTLEGROUND_EY :: uint32 where "BATTLEGROUND_EY = 7"
definition BATTLEGROUND_RL :: uint32 where "BATTLEGROUND_RL = 8"
definition BATTLEGROUND_SA :: uint32 where "BATTLEGROUND_SA = 9"
definition BATTLEGROUND_DS :: uint32 where "BATTLEGROUND_DS = 10"
definition BATTLEGROUND_RV :: uint32 where "BATTLEGROUND_RV = 11"
definition BATTLEGROUND_IC :: uint32 where "BATTLEGROUND_IC = 30"
definition BATTLEGROUND_RB :: uint32 where "BATTLEGROUND_RB = 32"
definition BATTLEGROUND_TP :: uint32 where "BATTLEGROUND_TP = 108"
definition BATTLEGROUND_BFG :: uint32 where "BATTLEGROUND_BFG = 120"
definition BATTLEGROUND_TVA :: uint32 where "BATTLEGROUND_TVA = 719"
definition BATTLEGROUND_TTP :: uint32 where "BATTLEGROUND_TTP = 757"

lemmas bg_type_defs = BATTLEGROUND_TYPE_NONE_def BATTLEGROUND_AV_def BATTLEGROUND_WS_def BATTLEGROUND_AB_def
  BATTLEGROUND_NA_def BATTLEGROUND_BE_def BATTLEGROUND_AA_def BATTLEGROUND_EY_def BATTLEGROUND_RL_def BATTLEGROUND_SA_def
  BATTLEGROUND_DS_def BATTLEGROUND_RV_def BATTLEGROUND_IC_def BATTLEGROUND_RB_def BATTLEGROUND_TP_def BATTLEGROUND_BFG_def
  BATTLEGROUND_TVA_def BATTLEGROUND_TTP_def

definition BATTLEGROUND_QUEUE_NONE :: nat where "BATTLEGROUND_QUEUE_NONE = 0"
definition BATTLEGROUND_QUEUE_AV :: nat where "BATTLEGROUND_QUEUE_AV = 1"
definition BATTLEGROUND_QUEUE_WS :: nat where "BATTLEGROUND_QUEUE_WS = 2"
definition BATTLEGROUND_QUEUE_AB :: nat where "BATTLEGROUND_QUEUE_AB = 3"
definition BATTLEGROUND_QUEUE_EY :: nat where "BATTLEGROUND_QUEUE_EY = 4"
definition BATTLEGROUND_QUEUE_SA :: nat where "BATTLEGROUND_QUEUE_SA = 5"
definition BATTLEGROUND_QUEUE_IC :: nat where "BATTLEGROUND_QUEUE_IC = 6"
definition BATTLEGROUND_QUEUE_TP :: nat where "BATTLEGROUND_QUEUE_TP = 7"
definition BATTLEGROUND_QUEUE_BFG :: nat where "BATTLEGROUND_QUEUE_BFG = 8"
definition BATTLEGROUND_QUEUE_RB :: nat where "BATTLEGROUND_QUEUE_RB = 9"
definition BATTLEGROUND_QUEUE_2v2 :: nat where "BATTLEGROUND_QUEUE_2v2 = 10"
definition BATTLEGROUND_QUEUE_3v3 :: nat where "BATTLEGROUND_QUEUE_3v3 = 11"
definition BATTLEGROUND_QUEUE_5v5 :: nat where "BATTLEGROUND_QUEUE_5v5 = 12"
definition MAX_BATTLEGROUND_QUEUE_TYPES :: nat where "MAX_BATTLEGROUND_QUEUE_TYPES = 13"

lemmas bg_queue_defs = BATTLEGROUND_QUEUE_NONE_def BATTLEGROUND_QUEUE_AV_def BATTLEGROUND_QUEUE_WS_def BATTLEGROUND_QUEUE_AB_def
  BATTLEGROUND_QUEUE_EY_def BATTLEGROUND_QUEUE_SA_def BATTLEGROUND_QUEUE_IC_def BATTLEGROUND_QUEUE_TP_def BATTLEGROUND_QUEUE_BFG_def
  BATTLEGROUND_QUEUE_RB_def BATTLEGROUND_QUEUE_2v2_def BATTLEGROUND_QUEUE_3v3_def BATTLEGROUND_QUEUE_5v5_def

text \<open>The size of an arena team is its type; its place in a player's record of ratings is its slot.\<close>

definition Arena2v2 :: uint8 where "Arena2v2 = 2"
definition Arena3v3 :: uint8 where "Arena3v3 = 3"
definition Arena5v5 :: uint8 where "Arena5v5 = 5"
definition SLOT_ARENA_2V2 :: uint8 where "SLOT_ARENA_2V2 = 0"
definition SLOT_ARENA_3V3 :: uint8 where "SLOT_ARENA_3V3 = 1"
definition SLOT_ARENA_5V5 :: uint8 where "SLOT_ARENA_5V5 = 2"

lemmas arena_defs = Arena2v2_def Arena3v3_def Arena5v5_def SLOT_ARENA_2V2_def SLOT_ARENA_3V3_def SLOT_ARENA_5V5_def

lemmas bg_index_defs = TEAM_ALLIANCE_def TEAM_HORDE_def BG_TEAMS_COUNT_def MAX_BATTLEGROUND_BRACKETS_def
  BG_QUEUE_PREMADE_ALLIANCE_def BG_QUEUE_PREMADE_HORDE_def BG_QUEUE_NORMAL_ALLIANCE_def BG_QUEUE_NORMAL_HORDE_def
  BG_QUEUE_GROUP_TYPES_COUNT_def

text \<open>What a request to join can come to.\<close>

datatype GroupJoinBattlegroundResult =
    ERR_BATTLEGROUND_NONE | ERR_GROUP_JOIN_BATTLEGROUND_DESERTERS | ERR_ARENA_TEAM_PARTY_SIZE | ERR_BATTLEGROUND_TOO_MANY_QUEUES
  | ERR_BATTLEGROUND_JOIN_TIMED_OUT | ERR_BATTLEGROUND_JOIN_FAILED | ERR_LFG_CANT_USE_BATTLEGROUND | ERR_IN_RANDOM_BG
  | ERR_IN_NON_RANDOM_BG | ERR_BATTLEGROUND_JOIN_RANGE_INDEX

section \<open>Queued players and groups\<close>

record player_queue_info =
  qp_LastOnlineTime :: uint32
  qp_GroupInfo :: nat

text \<open>The players of a group, the keys of a \<^verbatim>\<open>std::map\<close>, ascend; a group of the party system is named by a number.\<close>

record group_queue_info =
  gq_Players :: "ObjectGuid list"
  gq_Team :: uint32
  gq_BgTypeId :: uint32
  gq_IsRated :: bool
  gq_ArenaType :: uint8
  gq_JoinTime :: uint32
  gq_RemoveInviteTime :: uint32
  gq_IsInvitedToBGInstanceGUID :: uint32
  gq_ArenaGroupRating :: uint32
  gq_ArenaMatchmakerRating :: uint32
  gq_OpponentsTeamRating :: uint32
  gq_OpponentsMatchmakerRating :: uint32
  gq_Group :: "nat option"

definition gq_invited :: "group_queue_info \<Rightarrow> bool" where
  "gq_invited g \<longleftrightarrow> gq_IsInvitedToBGInstanceGUID g \<noteq> 0"

definition gq_size :: "group_queue_info \<Rightarrow> nat" where
  "gq_size g = length (gq_Players g)"

record selection_pool =
  sp_SelectedGroups :: "nat list"
  sp_PlayerCount :: uint32

text \<open>The events a queue schedules for an invited player.\<close>

datatype bg_event =
    BGQueueInviteEvent ObjectGuid uint32 uint32 uint8 uint32
  | BGQueueRemoveEvent ObjectGuid uint32 uint32 nat uint32

section \<open>A queue\<close>

text \<open>
  \<^verbatim>\<open>bq_heap\<close> and \<^verbatim>\<open>bq_next\<close> are the queued groups and their allocator, \<^verbatim>\<open>bq_actions\<close> and \<^verbatim>\<open>bq_nextEvent\<close> those of the
  events; the other fields are the members of \<^verbatim>\<open>BattlegroundQueue\<close>. Lists of groups are indexed by bracket and by kind of group, waiting
  times by team, bracket and place.
\<close>

record bg_queue =
  bq_heap :: "nat \<Rightarrow> group_queue_info"
  bq_next :: nat
  bq_players :: "ObjectGuid \<Rightarrow> player_queue_info option"
  bq_groups :: "nat \<Rightarrow> nat \<Rightarrow> nat list"
  bq_pools :: "nat \<Rightarrow> selection_pool"
  bq_waits :: "nat \<Rightarrow> nat \<Rightarrow> nat \<Rightarrow> uint32"
  bq_waitLast :: "nat \<Rightarrow> nat \<Rightarrow> uint32"
  bq_waitSum :: "nat \<Rightarrow> nat \<Rightarrow> uint32"
  bq_events :: "unit event_processor"
  bq_actions :: "nat \<Rightarrow> bg_event"
  bq_nextEvent :: nat

definition SelectionPool :: selection_pool where
  "SelectionPool = \<lparr>sp_SelectedGroups = [], sp_PlayerCount = 0\<rparr>"

definition BattlegroundQueue :: "(nat \<Rightarrow> group_queue_info) \<Rightarrow> (nat \<Rightarrow> bg_event) \<Rightarrow> bg_queue" where
  "BattlegroundQueue h acts = \<lparr>bq_heap = h, bq_next = 0, bq_players = (\<lambda>_. None), bq_groups = (\<lambda>_ _. []),
     bq_pools = (\<lambda>_. SelectionPool), bq_waits = (\<lambda>_ _ _. 0), bq_waitLast = (\<lambda>_ _. 0), bq_waitSum = (\<lambda>_ _. 0),
     bq_events = EventProcessor (\<lambda>_. None) (), bq_actions = acts, bq_nextEvent = 0\<rparr>"

definition gi_update :: "nat \<Rightarrow> (group_queue_info \<Rightarrow> group_queue_info) \<Rightarrow> bg_queue \<Rightarrow> bg_queue" where
  "gi_update a f q = q\<lparr>bq_heap := (bq_heap q)(a := f (bq_heap q a))\<rparr>"

definition groups_update :: "nat \<Rightarrow> nat \<Rightarrow> (nat list \<Rightarrow> nat list) \<Rightarrow> bg_queue \<Rightarrow> bg_queue" where
  "groups_update b j f q = q\<lparr>bq_groups := (bq_groups q)(b := (bq_groups q b)(j := f (bq_groups q b j)))\<rparr>"

definition pool_update :: "nat \<Rightarrow> selection_pool \<Rightarrow> bg_queue \<Rightarrow> bg_queue" where
  "pool_update t p q = q\<lparr>bq_pools := (bq_pools q)(t := p)\<rparr>"

lemma queue_frame [simp]:
  "bq_heap (gi_update a f q) = (bq_heap q)(a := f (bq_heap q a))" "bq_next (gi_update a f q) = bq_next q"
  "bq_players (gi_update a f q) = bq_players q" "bq_groups (gi_update a f q) = bq_groups q" "bq_pools (gi_update a f q) = bq_pools q"
  "bq_heap (groups_update b j u q) = bq_heap q" "bq_next (groups_update b j u q) = bq_next q"
  "bq_players (groups_update b j u q) = bq_players q" "bq_pools (groups_update b j u q) = bq_pools q"
  "bq_groups (groups_update b j u q) = (bq_groups q)(b := (bq_groups q b)(j := u (bq_groups q b j)))"
  "bq_heap (pool_update t p q) = bq_heap q" "bq_next (pool_update t p q) = bq_next q"
  "bq_players (pool_update t p q) = bq_players q" "bq_groups (pool_update t p q) = bq_groups q"
  "bq_pools (pool_update t p q) = (bq_pools q)(t := p)"
  by (simp_all add: gi_update_def groups_update_def pool_update_def)

section \<open>Battlegrounds\<close>

text \<open>
  What the queues read and write of a \<^verbatim>\<open>Battleground\<close>. The number of players inside, by team and in all, changes when
  players enter and leave, outside of this model.
\<close>

record battleground =
  bg_InstanceID :: uint32
  bg_TypeID :: uint32
  bg_RandomTypeID :: uint32
  bg_BracketId :: nat
  bg_Status :: nat
  bg_ArenaType :: uint8
  bg_IsArena :: bool
  bg_IsRated :: bool
  bg_IsRandom :: bool
  bg_InvitedAlliance :: uint32
  bg_InvitedHorde :: uint32
  bg_PlayersCount :: "nat \<Rightarrow> uint32"
  bg_PlayersSize :: uint32
  bg_MinPlayersPerTeam :: uint32
  bg_MaxPlayersPerTeam :: uint32
  bg_MinPlayers :: uint32
  bg_MaxPlayers :: uint32
  bg_LevelMin :: uint32
  bg_LevelMax :: uint32
  bg_MapId :: uint32
  bg_ClientInstanceID :: uint32
  bg_QueueId :: uint64
  bg_InBGFreeSlotQueue :: bool
  bg_ArenaGroupMMR :: "nat \<Rightarrow> uint32"

definition GetTeamIndexByTeamId :: "uint32 \<Rightarrow> nat" where
  "GetTeamIndexByTeamId team = (if team = ALLIANCE then TEAM_ALLIANCE else TEAM_HORDE)"

definition GetInvitedCount :: "uint32 \<Rightarrow> battleground \<Rightarrow> uint32" where
  "GetInvitedCount team bg = (if team = ALLIANCE then bg_InvitedAlliance bg else bg_InvitedHorde bg)"

definition IncreaseInvitedCount :: "uint32 \<Rightarrow> battleground \<Rightarrow> battleground" where
  "IncreaseInvitedCount team bg =
     (if team = ALLIANCE then bg\<lparr>bg_InvitedAlliance := bg_InvitedAlliance bg + 1\<rparr>
      else bg\<lparr>bg_InvitedHorde := bg_InvitedHorde bg + 1\<rparr>)"

definition DecreaseInvitedCount :: "uint32 \<Rightarrow> battleground \<Rightarrow> battleground" where
  "DecreaseInvitedCount team bg =
     (if team = ALLIANCE then bg\<lparr>bg_InvitedAlliance := bg_InvitedAlliance bg - 1\<rparr>
      else bg\<lparr>bg_InvitedHorde := bg_InvitedHorde bg - 1\<rparr>)"

definition GetPlayersCountByTeam :: "uint32 \<Rightarrow> battleground \<Rightarrow> uint32" where
  "GetPlayersCountByTeam team bg = bg_PlayersCount bg (GetTeamIndexByTeamId team)"

definition SetArenaMatchmakerRating :: "uint32 \<Rightarrow> uint32 \<Rightarrow> battleground \<Rightarrow> battleground" where
  "SetArenaMatchmakerRating team mmr bg = bg\<lparr>bg_ArenaGroupMMR := (bg_ArenaGroupMMR bg)(GetTeamIndexByTeamId team := mmr)\<rparr>"

definition HasFreeSlots :: "battleground \<Rightarrow> bool" where
  "HasFreeSlots bg \<longleftrightarrow> bg_PlayersSize bg < bg_MaxPlayers bg"

text \<open>How many players of a team may still be invited; \<^verbatim>\<open>invitation\<close> is the configured balance of the teams.\<close>

definition GetFreeSlotsForTeam :: "uint32 \<Rightarrow> uint32 \<Rightarrow> battleground \<Rightarrow> uint32" where
  "GetFreeSlotsForTeam invitation team bg =
     (if bg_Status bg = STATUS_WAIT_JOIN \<and> invitation = BG_QUEUE_INVITATION_TYPE_NO_BALANCE then
        (if GetInvitedCount team bg < bg_MaxPlayersPerTeam bg then bg_MaxPlayersPerTeam bg - GetInvitedCount team bg else 0)
      else
       (let other = (if team = ALLIANCE then HORDE else ALLIANCE);
            this = (if team = ALLIANCE then ALLIANCE else HORDE);
            thisInvited = GetInvitedCount this bg; otherInvited = GetInvitedCount other bg;
            thisPlayers = GetPlayersCountByTeam this bg; otherPlayers = GetPlayersCountByTeam other bg
        in if bg_Status bg = STATUS_IN_PROGRESS \<or> bg_Status bg = STATUS_WAIT_JOIN then
          (let diff = (if otherInvited = thisInvited then 1
                       else if otherInvited > thisInvited then otherInvited - thisInvited else 0);
               diff2 = (if thisInvited < bg_MaxPlayersPerTeam bg then bg_MaxPlayersPerTeam bg - thisInvited else 0);
               diff3 = (if otherPlayers = thisPlayers then 1
                        else if otherPlayers > thisPlayers then otherPlayers - thisPlayers
                        else if thisInvited \<le> bg_MinPlayersPerTeam bg then bg_MinPlayersPerTeam bg - thisInvited + 1 else 0)
           in min (min diff diff2) diff3)
        else 0))"

text \<open>What the manager keeps for a kind of battleground: its battlegrounds by number (the template has number 0), the numbers shown to
  clients by bracket, those with free places.\<close>

record bg_data =
  bd_Battlegrounds :: "(uint32 \<times> nat) list"
  bd_ClientIds :: "nat \<Rightarrow> uint32 list"
  bd_FreeSlot :: "nat list"

definition BattlegroundData :: bg_data where
  "BattlegroundData = \<lparr>bd_Battlegrounds = [], bd_ClientIds = (\<lambda>_. []), bd_FreeSlot = []\<rparr>"

section \<open>The queues of a player\<close>

record queue_slot =
  qs_bgQueueTypeId :: nat
  qs_invitedToInstance :: uint32
  qs_joinTime :: uint32

definition no_slot :: queue_slot where
  "no_slot = \<lparr>qs_bgQueueTypeId = BATTLEGROUND_QUEUE_NONE, qs_invitedToInstance = 0, qs_joinTime = 0\<rparr>"

definition slot_index :: "(queue_slot \<Rightarrow> bool) \<Rightarrow> queue_slot list \<Rightarrow> nat" where
  "slot_index P xs = length (takeWhile (\<lambda>s. \<not> P s) xs)"

definition GetBattlegroundQueueIndex :: "nat \<Rightarrow> queue_slot list \<Rightarrow> nat" where
  "GetBattlegroundQueueIndex t xs = slot_index (\<lambda>s. qs_bgQueueTypeId s = t) xs"

definition GetBattlegroundQueueJoinTime :: "nat \<Rightarrow> queue_slot list \<Rightarrow> uint32" where
  "GetBattlegroundQueueJoinTime t xs = (case find (\<lambda>s. qs_bgQueueTypeId s = t) xs of None \<Rightarrow> 0 | Some s \<Rightarrow> qs_joinTime s)"

definition InBattlegroundQueue :: "queue_slot list \<Rightarrow> bool" where
  "InBattlegroundQueue xs \<longleftrightarrow> list_ex (\<lambda>s. qs_bgQueueTypeId s \<noteq> BATTLEGROUND_QUEUE_NONE) xs"

definition GetBattlegroundQueueTypeId :: "nat \<Rightarrow> queue_slot list \<Rightarrow> nat" where
  "GetBattlegroundQueueTypeId i xs = (if i < length xs then qs_bgQueueTypeId (xs ! i) else BATTLEGROUND_QUEUE_NONE)"

definition IsInvitedForBattlegroundQueueType :: "nat \<Rightarrow> queue_slot list \<Rightarrow> bool" where
  "IsInvitedForBattlegroundQueueType t xs =
     (case find (\<lambda>s. qs_bgQueueTypeId s = t) xs of None \<Rightarrow> False | Some s \<Rightarrow> qs_invitedToInstance s \<noteq> 0)"

definition InBattlegroundQueueForBattlegroundQueueType :: "nat \<Rightarrow> queue_slot list \<Rightarrow> bool" where
  "InBattlegroundQueueForBattlegroundQueueType t xs \<longleftrightarrow> GetBattlegroundQueueIndex t xs < PLAYER_MAX_BATTLEGROUND_QUEUES"

definition AddBattlegroundQueueId :: "uint32 \<Rightarrow> nat \<Rightarrow> queue_slot list \<Rightarrow> nat \<times> queue_slot list" where
  "AddBattlegroundQueueId now t xs =
     (let P = (\<lambda>s. qs_bgQueueTypeId s = BATTLEGROUND_QUEUE_NONE \<or> qs_bgQueueTypeId s = t)
      in (slot_index P xs, update_first P (\<lambda>_. \<lparr>qs_bgQueueTypeId = t, qs_invitedToInstance = 0, qs_joinTime = now\<rparr>) xs))"

definition HasFreeBattlegroundQueueId :: "queue_slot list \<Rightarrow> bool" where
  "HasFreeBattlegroundQueueId xs \<longleftrightarrow> list_ex (\<lambda>s. qs_bgQueueTypeId s = BATTLEGROUND_QUEUE_NONE) xs"

definition RemoveBattlegroundQueueId :: "nat \<Rightarrow> queue_slot list \<Rightarrow> queue_slot list" where
  "RemoveBattlegroundQueueId t xs = update_first (\<lambda>s. qs_bgQueueTypeId s = t) (\<lambda>_. no_slot) xs"

definition SetInviteForBattlegroundQueueType :: "nat \<Rightarrow> uint32 \<Rightarrow> queue_slot list \<Rightarrow> queue_slot list" where
  "SetInviteForBattlegroundQueueType t inst xs =
     map (\<lambda>s. if qs_bgQueueTypeId s = t then s\<lparr>qs_invitedToInstance := inst\<rparr> else s) xs"

definition IsInvitedForBattlegroundInstance :: "uint32 \<Rightarrow> queue_slot list \<Rightarrow> bool" where
  "IsInvitedForBattlegroundInstance inst xs \<longleftrightarrow> list_ex (\<lambda>s. qs_invitedToInstance s = inst) xs"

end
