(* ===== verification/Bg_Pools.thy ===== *)
theory Bg_Pools
  imports Bg_Data
begin

text \<open>
  How a queue selects groups, \<^verbatim>\<open>src/src/server/game/Battlegrounds/BattlegroundQueue.cpp\<close>: the selection pools of the two
  teams, and the four ways to fill them (for a running battleground, for a match of premade groups, for a normal
  match, for a skirmish of one faction). Dereferencing or advancing the end of a list is a fault. Signed differences of the sizes
  are integers: the sizes of teams are far below the bounds of \<^verbatim>\<open>int32\<close>.
\<close>

section \<open>Selection pools\<close>

text \<open>Groups are read through the heap \<open>h\<close>; selecting does not change them.\<close>

definition near_size :: "group_queue_info \<Rightarrow> uint32 \<Rightarrow> bool" where
  "near_size g sz \<longleftrightarrow> \<bar>sint (of_nat (gq_size g) - sz :: uint32)\<bar> \<le> 1"

text \<open>The loop of \<^verbatim>\<open>KickGroup\<close>; \<open>i\<close> is the place of the iterator, \<open>k\<close> that of \<^verbatim>\<open>groupToKick\<close>.\<close>

fun kick_scan :: "(nat \<Rightarrow> group_queue_info) \<Rightarrow> uint32 \<Rightarrow> nat list \<Rightarrow> nat \<Rightarrow> nat list \<Rightarrow> bool \<Rightarrow> nat \<Rightarrow> nat" where
  "kick_scan h sz xs i [] found k = k"
| "kick_scan h sz xs i (g # gs) found k =
     (if near_size (h g) sz then kick_scan h sz xs (i + 1) gs True i
      else if \<not> found \<and> gq_size (h (xs ! k)) \<le> gq_size (h g) then kick_scan h sz xs (i + 1) gs found i
      else kick_scan h sz xs (i + 1) gs found k)"

definition KickGroup :: "(nat \<Rightarrow> group_queue_info) \<Rightarrow> uint32 \<Rightarrow> selection_pool \<Rightarrow> fault + bool \<times> selection_pool" where
  "KickGroup h sz p =
     (if sp_PlayerCount p = 0 then Inr (True, p)
      else let xs = sp_SelectedGroups p; k = kick_scan h sz xs 0 xs False 0 in
        case drop k xs of
          [] \<Rightarrow> Inl OutOfBounds
        | g # rest \<Rightarrow> Inr (\<not> gq_size (h g) \<le> unat (sz + 1),
            \<lparr>sp_SelectedGroups = take k xs @ rest, sp_PlayerCount = sp_PlayerCount p - of_nat (gq_size (h g))\<rparr>))"

definition pool_AddGroup :: "(nat \<Rightarrow> group_queue_info) \<Rightarrow> nat \<Rightarrow> uint32 \<Rightarrow> selection_pool \<Rightarrow> bool \<times> selection_pool" where
  "pool_AddGroup h a desiredCount p =
     (if \<not> gq_invited (h a) \<and> unat (sp_PlayerCount p) + gq_size (h a) \<le> unat desiredCount then
        (True, \<lparr>sp_SelectedGroups = sp_SelectedGroups p @ [a], sp_PlayerCount = sp_PlayerCount p + of_nat (gq_size (h a))\<rparr>)
      else (sp_PlayerCount p < desiredCount, p))"

section \<open>Filling a running battleground\<close>

text \<open>Adds groups until the pool refuses one; the result holds what the iterator has not passed.\<close>

fun pool_fill :: "(nat \<Rightarrow> group_queue_info) \<Rightarrow> uint32 \<Rightarrow> nat list \<Rightarrow> selection_pool \<Rightarrow> nat list \<times> selection_pool" where
  "pool_fill h d [] p = ([], p)"
| "pool_fill h d (a # as) p =
     (case pool_AddGroup h a d p of (ok, p') \<Rightarrow> if ok then pool_fill h d as p' else (a # as, p'))"

text \<open>The pool of a team with the groups that its iterator has not passed.\<close>

type_synonym side = "nat list \<times> selection_pool"

text \<open>One turn of the loop for the team that has too many players selected: the flag of the result is its \<^verbatim>\<open>break\<close>.\<close>

definition balance_turn :: "(nat \<Rightarrow> group_queue_info) \<Rightarrow> int \<Rightarrow> int \<Rightarrow> int \<Rightarrow> side \<Rightarrow> side
    \<Rightarrow> fault + bool \<times> side \<times> side" where
  "balance_turn h free diff diff' s s' =
     res_bind (KickGroup h (word_of_int (diff' - diff)) (snd s)) (\<lambda>(again, p).
     let s1 = (if again then pool_fill h (word_of_int (if diff' \<le> free then free - diff' else 0)) (fst s) p else (fst s, p))
     in if sp_PlayerCount (snd s1) = 0 then
          (if free \<le> diff' + 1 then Inr (True, s1, s')
           else res_bind (KickGroup h (word_of_int (diff' - diff)) (snd s')) (\<lambda>(again, p'). Inr (False, s1, (fst s', p'))))
        else Inr (False, s1, s'))"

abbreviation side_size :: "side \<Rightarrow> nat" where
  "side_size s \<equiv> 2 * length (fst s) + length (sp_SelectedGroups (snd s))"

lemma pool_fill_size: "side_size (pool_fill h d as p) \<le> side_size (as, p)"
proof (induction as arbitrary: p)
  case (Cons a as)
  obtain ok p' where p': "pool_AddGroup h a d p = (ok, p')" by force
  then have "length (sp_SelectedGroups p') \<le> length (sp_SelectedGroups p) + 1"
    by (auto simp: pool_AddGroup_def split: if_splits)
  with Cons [of p'] p' show ?case
    by (cases ok) (auto simp: pool_AddGroup_def split: if_splits)
qed simp

lemma pool_fill_same_or_less:
  "pool_fill h d as p = (as, p) \<or> side_size (pool_fill h d as p) < side_size (as, p)"
proof (cases as)
  case (Cons a bs)
  obtain ok p' where p': "pool_AddGroup h a d p = (ok, p')" by force
  show ?thesis
  proof (cases ok)
    case True
    from p' have "length (sp_SelectedGroups p') \<le> length (sp_SelectedGroups p) + 1"
      by (auto simp: pool_AddGroup_def split: if_splits)
    with pool_fill_size [of h d bs p'] p' True Cons show ?thesis by simp
  next
    case False
    with p' Cons show ?thesis by (auto simp: pool_AddGroup_def split: if_splits)
  qed
qed simp

lemma KickGroup_size:
  "KickGroup h sz p = Inr (again, p') \<Longrightarrow>
     (if sp_PlayerCount p = 0 then again \<and> p' = p
      else length (sp_SelectedGroups p) = length (sp_SelectedGroups p') + 1)"
  by (auto simp: KickGroup_def Let_def split: if_splits list.splits dest!: arg_cong [where f = length])

text \<open>Every turn of the loop passes a group or takes one out of a pool.\<close>

lemma balance_turn_size:
  assumes "balance_turn h free diff diff' s s' = Inr (False, t, t')" "sp_PlayerCount (snd s) > 0 \<or> sp_PlayerCount (snd s') > 0"
  shows "side_size t + side_size t' < side_size s + side_size s'"
proof -
  obtain again p where k: "KickGroup h (word_of_int (diff' - diff)) (snd s) = Inr (again, p)"
    using assms(1) by (auto simp: balance_turn_def res_bind_def split: sum.splits)
  define d :: uint32 where "d = word_of_int (if diff' \<le> free then free - diff' else 0)"
  define s1 where "s1 = (if again then pool_fill h d (fst s) p else (fst s, p))"
  have turn: "balance_turn h free diff diff' s s' =
      (if sp_PlayerCount (snd s1) = 0 then
         (if free \<le> diff' + 1 then Inr (True, s1, s')
          else res_bind (KickGroup h (word_of_int (diff' - diff)) (snd s')) (\<lambda>(again, p'). Inr (False, s1, (fst s', p'))))
       else Inr (False, s1, s'))"
    unfolding balance_turn_def k res_bind_simps prod.case Let_def s1_def d_def by (rule refl)
  note k1 = KickGroup_size [OF k]
  have s1: "side_size s1 \<le> 2 * length (fst s) + length (sp_SelectedGroups p)"
    using pool_fill_size by (auto simp: s1_def)
  have "side_size s1 < side_size s \<or> s1 = s" if "sp_PlayerCount (snd s) = 0"
    using that k1 pool_fill_same_or_less [of h d "fst s" p]
    by (auto simp: s1_def)
  moreover have "side_size s1 < side_size s" if "sp_PlayerCount (snd s) \<noteq> 0"
    using that k1 s1 by simp
  ultimately have less: "side_size s1 < side_size s \<or> s1 = s \<and> sp_PlayerCount (snd s) = 0" by blast
  show ?thesis
  proof (cases "sp_PlayerCount (snd s1) = 0")
    case True
    with assms(1) obtain again' p' where k': "KickGroup h (word_of_int (diff' - diff)) (snd s') = Inr (again', p')"
        and t: "t = s1" "t' = (fst s', p')"
      by (auto simp: turn res_bind_eq_Inr split: if_splits)
    from KickGroup_size [OF k'] have "side_size t' \<le> side_size s' \<and> (sp_PlayerCount (snd s') \<noteq> 0 \<longrightarrow> side_size t' < side_size s')"
      unfolding t by (auto split: if_splits)
    with less assms(2) t show ?thesis by (auto simp: word_gt_0)
  next
    case False
    with assms(1) have "t = s1" "t' = s'" by (auto simp: turn)
    with less False show ?thesis by auto
  qed
qed

abbreviation side_diff :: "int \<Rightarrow> side \<Rightarrow> int" where
  "side_diff free s \<equiv> free - sint (sp_PlayerCount (snd s))"

function balance_loop :: "(nat \<Rightarrow> group_queue_info) \<Rightarrow> int \<Rightarrow> int \<Rightarrow> side \<Rightarrow> side \<Rightarrow> fault + side \<times> side" where
  "balance_loop h aliFree hordeFree sa sh =
     (if \<bar>side_diff aliFree sa - side_diff hordeFree sh\<bar> > 1
         \<and> (sp_PlayerCount (snd sh) > 0 \<or> sp_PlayerCount (snd sa) > 0) then
        if side_diff aliFree sa < side_diff hordeFree sh then
          (case balance_turn h aliFree (side_diff aliFree sa) (side_diff hordeFree sh) sa sh of
             Inl e \<Rightarrow> Inl e
           | Inr (stop, sa', sh') \<Rightarrow> if stop then Inr (sa', sh') else balance_loop h aliFree hordeFree sa' sh')
        else
          (case balance_turn h hordeFree (side_diff hordeFree sh) (side_diff aliFree sa) sh sa of
             Inl e \<Rightarrow> Inl e
           | Inr (stop, sh', sa') \<Rightarrow> if stop then Inr (sa', sh') else balance_loop h aliFree hordeFree sa' sh')
      else Inr (sa, sh))"
  by pat_completeness auto
termination
  by (relation "measure (\<lambda>(h, a, b, sa, sh). side_size sa + side_size sh)")
    (auto dest!: balance_turn_size)

end
