(* ===== verification/Bg_Selection.thy ===== *)
theory Bg_Selection
  imports Bg_Pools
begin

text \<open>
  The four selections of \<^verbatim>\<open>src/src/server/game/Battlegrounds/BattlegroundQueue.cpp\<close>, operations on a queue: \<^verbatim>\<open>FillPlayersToBG\<close>,
  \<^verbatim>\<open>CheckPremadeMatch\<close>, \<^verbatim>\<open>CheckNormalMatch\<close> and \<^verbatim>\<open>CheckSkirmishForSameFaction\<close>. The clock and the
  configuration are arguments.
\<close>

text \<open>The free places of the two teams; for even teams, the smaller number of queued groups decides about the last place.\<close>

definition free_places :: "uint32 \<Rightarrow> battleground \<Rightarrow> nat list \<Rightarrow> nat list \<Rightarrow> int \<times> int" where
  "free_places invitation bg ali horde =
     (let hordeFree = sint (GetFreeSlotsForTeam invitation HORDE bg);
          aliFree = sint (GetFreeSlotsForTeam invitation ALLIANCE bg);
          aliCount = (of_nat (length ali) :: uint32); hordeCount = (of_nat (length horde) :: uint32)
      in if invitation = BG_QUEUE_INVITATION_TYPE_EVEN \<and> hordeFree = 1 \<and> aliFree = 1 \<and> aliCount \<noteq> hordeCount
         then (max (aliFree - max (sint (aliCount - hordeCount)) 0) 0, max (hordeFree - max (sint (hordeCount - aliCount)) 0) 0)
         else (aliFree, hordeFree))"

definition FillPlayersToBG :: "uint32 \<Rightarrow> battleground \<Rightarrow> nat \<Rightarrow> bg_queue \<Rightarrow> fault + bg_queue" where
  "FillPlayersToBG invitation bg b q =
     (let ali = bq_groups q b BG_QUEUE_NORMAL_ALLIANCE; horde = bq_groups q b BG_QUEUE_NORMAL_HORDE;
          (aliFree, hordeFree) = free_places invitation bg ali horde;
          sa = pool_fill (bq_heap q) (word_of_int aliFree) ali (bq_pools q TEAM_ALLIANCE);
          sh = pool_fill (bq_heap q) (word_of_int hordeFree) horde (bq_pools q TEAM_HORDE);
          put = (\<lambda>(sa, sh). pool_update TEAM_HORDE (snd sh) (pool_update TEAM_ALLIANCE (snd sa) q))
      in if invitation = BG_QUEUE_INVITATION_TYPE_NO_BALANCE then Inr (put (sa, sh))
         else res_bind (balance_loop (bq_heap q) aliFree hordeFree sa sh) (\<lambda>r. Inr (put r)))"

section \<open>Premade groups\<close>

text \<open>Adds groups that are not invited until the pool refuses one.\<close>

fun fill_uninvited :: "(nat \<Rightarrow> group_queue_info) \<Rightarrow> uint32 \<Rightarrow> nat list \<Rightarrow> selection_pool \<Rightarrow> selection_pool" where
  "fill_uninvited h d [] p = p"
| "fill_uninvited h d (a # as) p =
     (if gq_invited (h a) then fill_uninvited h d as p
      else case pool_AddGroup h a d p of (ok, p') \<Rightarrow> if ok then fill_uninvited h d as p' else p')"

text \<open>A premade group that waited too long, or has become too small, goes to the front of the normal queue of its team.\<close>

definition premade_expires :: "uint32 \<Rightarrow> uint32 \<Rightarrow> nat \<Rightarrow> nat \<Rightarrow> bg_queue \<Rightarrow> bg_queue" where
  "premade_expires time_before minPlayers b i q =
     (case bq_groups q b (BG_QUEUE_PREMADE_ALLIANCE + i) of
        [] \<Rightarrow> q
      | a # rest \<Rightarrow>
          (let g = bq_heap q a in
           if \<not> gq_invited g \<and> (gq_JoinTime g < time_before \<or> gq_size g < unat minPlayers)
           then groups_update b (BG_QUEUE_PREMADE_ALLIANCE + i) (\<lambda>_. rest)
                  (groups_update b (BG_QUEUE_NORMAL_ALLIANCE + i) (\<lambda>xs. a # xs) q)
           else q))"

definition CheckPremadeMatch :: "uint32 \<Rightarrow> uint32 \<Rightarrow> nat \<Rightarrow> uint32 \<Rightarrow> uint32 \<Rightarrow> bg_queue \<Rightarrow> bool \<times> bg_queue" where
  "CheckPremadeMatch now wait b minPlayers maxPlayers q =
     (let free = (\<lambda>a. \<not> gq_invited (bq_heap q a));
          expire = (\<lambda>q. fold (premade_expires (now - wait) minPlayers b) [0..<BG_TEAMS_COUNT] q)
      in case (find free (bq_groups q b BG_QUEUE_PREMADE_ALLIANCE), find free (bq_groups q b BG_QUEUE_PREMADE_HORDE)) of
           (Some ali, Some horde) \<Rightarrow>
             (let pa = snd (pool_AddGroup (bq_heap q) ali maxPlayers (bq_pools q TEAM_ALLIANCE));
                  ph = snd (pool_AddGroup (bq_heap q) horde maxPlayers (bq_pools q TEAM_HORDE));
                  d = min (sp_PlayerCount pa) (sp_PlayerCount ph);
                  pa' = fill_uninvited (bq_heap q) d (bq_groups q b BG_QUEUE_NORMAL_ALLIANCE) pa;
                  ph' = fill_uninvited (bq_heap q) d (bq_groups q b BG_QUEUE_NORMAL_HORDE) ph
              in (True, pool_update TEAM_HORDE ph' (pool_update TEAM_ALLIANCE pa' q)))
         | _ \<Rightarrow> (False, expire q))"

section \<open>Normal matches\<close>

text \<open>Adds groups that are not invited until the pool holds enough players; the list that is left begins with the last one added.\<close>

fun fill_to_min :: "(nat \<Rightarrow> group_queue_info) \<Rightarrow> uint32 \<Rightarrow> uint32 \<Rightarrow> nat list \<Rightarrow> selection_pool \<Rightarrow> side" where
  "fill_to_min h minPlayers maxPlayers [] p = ([], p)"
| "fill_to_min h minPlayers maxPlayers (a # as) p =
     (if gq_invited (h a) then fill_to_min h minPlayers maxPlayers as p
      else let p' = snd (pool_AddGroup h a maxPlayers p)
           in if minPlayers \<le> sp_PlayerCount p' then (a # as, p') else fill_to_min h minPlayers maxPlayers as p')"

definition CheckNormalMatch :: "uint32 \<Rightarrow> bool \<Rightarrow> nat \<Rightarrow> uint32 \<Rightarrow> uint32 \<Rightarrow> bg_queue \<Rightarrow> fault + bool \<times> bg_queue" where
  "CheckNormalMatch invitation testing b minPlayers maxPlayers q =
     (let h = bq_heap q;
          sa = fill_to_min h minPlayers maxPlayers (bq_groups q b BG_QUEUE_NORMAL_ALLIANCE) (bq_pools q TEAM_ALLIANCE);
          sh = fill_to_min h minPlayers maxPlayers (bq_groups q b BG_QUEUE_NORMAL_HORDE) (bq_pools q TEAM_HORDE);
          count = (\<lambda>s. sp_PlayerCount (snd s));
          put = (\<lambda>pa ph. pool_update TEAM_HORDE ph (pool_update TEAM_ALLIANCE pa q));
          verdict = (\<lambda>pa ph. (testing \<and> (sp_PlayerCount pa \<noteq> 0 \<or> sp_PlayerCount ph \<noteq> 0))
             \<or> minPlayers \<le> sp_PlayerCount pa \<and> minPlayers \<le> sp_PlayerCount ph)
      in if invitation \<noteq> BG_QUEUE_INVITATION_TYPE_NO_BALANCE \<and> minPlayers \<le> count sh \<and> minPlayers \<le> count sa then
           (let (j, oth) = (if count sh < count sa then (sh, sa) else (sa, sh)) in
            case fst j of
              [] \<Rightarrow> Inl OutOfBounds
            | _ # as \<Rightarrow>
                (let pj = fill_uninvited h (count oth) as (snd j);
                     (pa, ph) = (if count sh < count sa then (snd sa, pj) else (pj, snd sh))
                 in if \<bar>sint (sp_PlayerCount ph - sp_PlayerCount pa)\<bar> > 2 then Inr (False, put pa ph)
                    else Inr (verdict pa ph, put pa ph)))
         else Inr (verdict (snd sa) (snd sh), put (snd sa) (snd sh)))"

section \<open>Skirmishes of one faction\<close>

text \<open>A selected group takes the other team and moves to the front of its queue; the old queue is searched behind \<open>anchor\<close>.\<close>

fun erase_behind :: "nat \<Rightarrow> nat \<Rightarrow> nat list \<Rightarrow> nat list" where
  "erase_behind anchor a [] = []"
| "erase_behind anchor a (x # xs) = (if x = anchor then x # remove1 a xs else x # erase_behind anchor a xs)"

definition skirmish_move :: "nat \<Rightarrow> nat \<Rightarrow> nat \<Rightarrow> uint32 \<Rightarrow> nat \<Rightarrow> nat \<Rightarrow> bg_queue \<Rightarrow> bg_queue" where
  "skirmish_move b team otherTeam otherTeamId anchor a q =
     groups_update b (BG_QUEUE_NORMAL_ALLIANCE + team) (erase_behind anchor a)
       (groups_update b (BG_QUEUE_NORMAL_ALLIANCE + otherTeam) (\<lambda>xs. a # xs)
         (gi_update a (\<lambda>g. g\<lparr>gq_Team := otherTeamId\<rparr>) q))"

definition CheckSkirmishForSameFaction :: "nat \<Rightarrow> uint32 \<Rightarrow> bg_queue \<Rightarrow> fault + bool \<times> bg_queue" where
  "CheckSkirmishForSameFaction b minPlayers q =
     (let pa = bq_pools q TEAM_ALLIANCE; ph = bq_pools q TEAM_HORDE in
      if sp_PlayerCount pa < minPlayers \<and> sp_PlayerCount ph < minPlayers then Inr (False, q)
      else
       (let (team, other, otherId) = (if sp_PlayerCount ph = minPlayers then (TEAM_HORDE, TEAM_ALLIANCE, ALLIANCE)
                                      else (TEAM_ALLIANCE, TEAM_HORDE, HORDE));
            q1 = pool_update other SelectionPool q;
            xs = bq_groups q b (BG_QUEUE_NORMAL_ALLIANCE + team)
        in case sp_SelectedGroups (bq_pools q1 team) of
             [] \<Rightarrow> Inl OutOfBounds
           | sel \<Rightarrow>
              (case dropWhile (\<lambda>a. a \<noteq> last sel) xs of
                 [] \<Rightarrow> Inr (False, q1)
               | _ # behind \<Rightarrow>
                   (let p = fill_uninvited (bq_heap q) minPlayers behind SelectionPool;
                        q2 = pool_update other p q1
                    in if sp_PlayerCount p \<noteq> minPlayers then Inr (False, q2)
                       else Inr (True, fold (skirmish_move b team other otherId (last sel)) (sp_SelectedGroups p) q2)))))"

end
