(* ===== verification/Bg_Manager.thy ===== *)
theory Bg_Manager
  imports Bg_Selection
begin

text \<open>
  The manager of the battlegrounds, \<^verbatim>\<open>src/src/server/game/Battlegrounds/BattlegroundMgr.{h,cpp}\<close>: the world of this component
  (queues, battlegrounds, updates that are due, queues of the players), its store of battlegrounds, which queue serves
  which battleground, and the creation of battlegrounds. Players, parties, configuration, the tables of the client and the
  choice of a random battleground are an environment. Packets are recorded in their order, log messages and announcements left out.
\<close>

section \<open>The world of the queues\<close>

datatype bg_effect =
    StatusNone ObjectGuid nat uint32
  | StatusNeedConfirmation ObjectGuid uint32 nat uint32 uint32 uint8
  | StatusQueued ObjectGuid nat uint32 uint32 uint8 bool
  | StatusFailed ObjectGuid GroupJoinBattlegroundResult
  | StatusActive ObjectGuid uint32 nat uint32
  | MemberLost nat ObjectGuid uint32 uint8
  | OfflineMemberLost nat ObjectGuid uint32 uint8
  | LeaveCurrentBattleground ObjectGuid
  | EnterBattleground ObjectGuid uint32 uint32 uint32

record bg_world =
  bw_queues :: "nat \<Rightarrow> bg_queue"
  bw_bgs :: "nat \<Rightarrow> battleground"
  bw_nextBg :: nat
  bw_store :: "(uint32 \<times> bg_data) list"
  bw_sched :: "uint64 list"
  bw_updateTimer :: uint32
  bw_nextArenaUpdate :: uint32
  bw_testing :: bool
  bw_arenaTesting :: bool
  bw_slots :: "ObjectGuid \<Rightarrow> queue_slot list"
  bw_out :: "bg_effect list"

text \<open>An entry of the client's table of level ranges, and a party as the handlers see it: the players linked to it and the number of
  all its members.\<close>

record pvp_difficulty =
  dv_MapID :: uint32
  dv_RangeIndex :: nat
  dv_MinLevel :: uint32
  dv_MaxLevel :: uint32

record bg_party =
  bp_id :: nat
  bp_leader :: ObjectGuid
  bp_members :: "ObjectGuid list"
  bp_membersCount :: nat
  bp_isLFG :: bool

text \<open>
  \<^verbatim>\<open>be_instanceId\<close> is the number \<^verbatim>\<open>MapManager::GenerateInstanceId\<close> gives to the battleground at an address,
  \<^verbatim>\<open>be_templateMaps\<close> and \<^verbatim>\<open>be_mapTemplate\<close> are the loaded templates by kind and by map, \<^verbatim>\<open>be_pick\<close> is the weighted choice,
  \<^verbatim>\<open>be_maxGroupSize\<close> the client's list of battlegrounds with the largest party, \<^verbatim>\<open>be_canJoin\<close> is
  \<^verbatim>\<open>Player::CanJoinToBattleground\<close>, \<^verbatim>\<open>be_finished\<close> says which battlegrounds want to be deleted.
\<close>

record bg_env =
  be_invitationType :: uint32
  be_premadeWait :: uint32
  be_maxRatingDifference :: uint32
  be_ratingDiscardTimer :: uint32
  be_ratedUpdateTimer :: uint32
  be_connected :: "ObjectGuid \<Rightarrow> bool"
  be_team :: "ObjectGuid \<Rightarrow> uint32"
  be_level :: "ObjectGuid \<Rightarrow> uint32"
  be_inBattleground :: "ObjectGuid \<Rightarrow> bool"
  be_usingLfg :: "ObjectGuid \<Rightarrow> bool"
  be_canJoin :: "ObjectGuid \<Rightarrow> uint32 \<Rightarrow> bool"
  be_frozen :: "ObjectGuid \<Rightarrow> bool"
  be_party :: "ObjectGuid \<Rightarrow> bg_party option"
  be_rating :: "nat \<Rightarrow> uint8 \<Rightarrow> uint32"
  be_averageMMR :: "nat \<Rightarrow> uint8 \<Rightarrow> uint32"
  be_maxGroupSize :: "uint32 \<Rightarrow> int option"
  be_disabled :: "uint32 \<Rightarrow> bool"
  be_bracketById :: "uint32 \<Rightarrow> nat \<Rightarrow> pvp_difficulty option"
  be_bracketByLevel :: "uint32 \<Rightarrow> uint32 \<Rightarrow> pvp_difficulty option"
  be_templateMaps :: "uint32 \<Rightarrow> int list option"
  be_mapTemplate :: "int \<Rightarrow> (uint32 \<times> uint8) option"
  be_pick :: "uint8 list \<Rightarrow> nat"
  be_instanceId :: "nat \<Rightarrow> uint32"
  be_finished :: "nat \<Rightarrow> bool"

text \<open>A manager without battlegrounds; the tables of memory come from outside.\<close>

definition BattlegroundMgr :: "bg_env \<Rightarrow> (nat \<Rightarrow> group_queue_info) \<Rightarrow> (nat \<Rightarrow> bg_event) \<Rightarrow> (nat \<Rightarrow> battleground) \<Rightarrow> bg_world" where
  "BattlegroundMgr env h acts bgs = \<lparr>bw_queues = (\<lambda>_. BattlegroundQueue h acts), bw_bgs = bgs, bw_nextBg = 0, bw_store = [],
     bw_sched = [], bw_updateTimer = 0, bw_nextArenaUpdate = be_ratedUpdateTimer env, bw_testing = False, bw_arenaTesting = False,
     bw_slots = (\<lambda>_. replicate PLAYER_MAX_BATTLEGROUND_QUEUES no_slot), bw_out = []\<rparr>"

definition on_bgqueue :: "nat \<Rightarrow> (bg_queue \<Rightarrow> bg_queue) \<Rightarrow> bg_world \<Rightarrow> bg_world" where
  "on_bgqueue i f w = w\<lparr>bw_queues := (bw_queues w)(i := f (bw_queues w i))\<rparr>"

definition on_bg :: "nat \<Rightarrow> (battleground \<Rightarrow> battleground) \<Rightarrow> bg_world \<Rightarrow> bg_world" where
  "on_bg c f w = w\<lparr>bw_bgs := (bw_bgs w)(c := f (bw_bgs w c))\<rparr>"

definition on_slots :: "ObjectGuid \<Rightarrow> (queue_slot list \<Rightarrow> queue_slot list) \<Rightarrow> bg_world \<Rightarrow> bg_world" where
  "on_slots g f w = w\<lparr>bw_slots := (bw_slots w)(g := f (bw_slots w g))\<rparr>"

definition bg_say :: "bg_effect \<Rightarrow> bg_world \<Rightarrow> bg_world" where
  "bg_say e w = w\<lparr>bw_out := bw_out w @ [e]\<rparr>"

lemma world_frame [simp]:
  "bw_queues (on_bgqueue i f w) = (bw_queues w)(i := f (bw_queues w i))" "bw_bgs (on_bgqueue i f w) = bw_bgs w"
  "bw_store (on_bgqueue i f w) = bw_store w" "bw_slots (on_bgqueue i f w) = bw_slots w" "bw_nextBg (on_bgqueue i f w) = bw_nextBg w"
  "bw_queues (on_bg c u w) = bw_queues w" "bw_bgs (on_bg c u w) = (bw_bgs w)(c := u (bw_bgs w c))"
  "bw_store (on_bg c u w) = bw_store w" "bw_slots (on_bg c u w) = bw_slots w" "bw_nextBg (on_bg c u w) = bw_nextBg w"
  "bw_queues (on_slots g v w) = bw_queues w" "bw_bgs (on_slots g v w) = bw_bgs w" "bw_store (on_slots g v w) = bw_store w"
  "bw_slots (on_slots g v w) = (bw_slots w)(g := v (bw_slots w g))" "bw_nextBg (on_slots g v w) = bw_nextBg w"
  "bw_queues (bg_say e w) = bw_queues w" "bw_bgs (bg_say e w) = bw_bgs w" "bw_store (bg_say e w) = bw_store w"
  "bw_slots (bg_say e w) = bw_slots w" "bw_nextBg (bg_say e w) = bw_nextBg w"
  by (simp_all add: on_bgqueue_def on_bg_def on_slots_def bg_say_def)

definition BATTLEGROUND_OBJECTIVE_UPDATE_INTERVAL :: uint32 where "BATTLEGROUND_OBJECTIVE_UPDATE_INTERVAL = 1000"

section \<open>The store of battlegrounds\<close>

definition data_at :: "uint32 \<Rightarrow> bg_world \<Rightarrow> bg_data" where
  "data_at t w = (case map_of (bw_store w) t of None \<Rightarrow> BattlegroundData | Some d \<Rightarrow> d)"

text \<open>Access through \<^verbatim>\<open>operator[]\<close>, which creates a missing entry.\<close>

definition on_data :: "uint32 \<Rightarrow> (bg_data \<Rightarrow> bg_data) \<Rightarrow> bg_world \<Rightarrow> bg_world" where
  "on_data t f w = w\<lparr>bw_store := om_set t (f (data_at t w)) (bw_store w)\<rparr>"

lemma on_data_frame [simp]:
  "bw_queues (on_data t f w) = bw_queues w" "bw_bgs (on_data t f w) = bw_bgs w" "bw_slots (on_data t f w) = bw_slots w"
  "bw_nextBg (on_data t f w) = bw_nextBg w"
  by (simp_all add: on_data_def)

fun find_instance :: "uint32 \<Rightarrow> (uint32 \<times> bg_data) list \<Rightarrow> nat option" where
  "find_instance n [] = None"
| "find_instance n ((t, d) # ds) = (case map_of (bd_Battlegrounds d) n of Some c \<Rightarrow> Some c | None \<Rightarrow> find_instance n ds)"

definition GetBattleground :: "uint32 \<Rightarrow> uint32 \<Rightarrow> bg_world \<Rightarrow> nat option" where
  "GetBattleground instanceId bgTypeId w =
     (if instanceId = 0 then None
      else if bgTypeId = BATTLEGROUND_TYPE_NONE then find_instance instanceId (bw_store w)
      else case map_of (bw_store w) bgTypeId of None \<Rightarrow> None
           | Some d \<Rightarrow> find_instance instanceId [(bgTypeId, d)])"

definition GetBattlegroundTemplate :: "uint32 \<Rightarrow> bg_world \<Rightarrow> nat option" where
  "GetBattlegroundTemplate bgTypeId w =
     (case map_of (bw_store w) bgTypeId of None \<Rightarrow> None
      | Some d \<Rightarrow> (case bd_Battlegrounds d of [] \<Rightarrow> None | (n, c) # _ \<Rightarrow> Some c))"

definition AddBattleground :: "nat \<Rightarrow> bg_world \<Rightarrow> bg_world" where
  "AddBattleground c w = on_data (bg_TypeID (bw_bgs w c))
     (\<lambda>d. d\<lparr>bd_Battlegrounds := om_set (bg_InstanceID (bw_bgs w c)) c (bd_Battlegrounds d)\<rparr>) w"

definition RemoveBattleground :: "uint32 \<Rightarrow> uint32 \<Rightarrow> bg_world \<Rightarrow> bg_world" where
  "RemoveBattleground bgTypeId n w = on_data bgTypeId (\<lambda>d. d\<lparr>bd_Battlegrounds := om_erase n (bd_Battlegrounds d)\<rparr>) w"

definition AddToBGFreeSlotQueue :: "nat \<Rightarrow> bg_world \<Rightarrow> bg_world" where
  "AddToBGFreeSlotQueue c w =
     (let bg = bw_bgs w c in
      if \<not> bg_InBGFreeSlotQueue bg \<and> \<not> bg_IsArena bg
      then on_bg c (\<lambda>bg. bg\<lparr>bg_InBGFreeSlotQueue := True\<rparr>) (on_data (bg_TypeID bg) (\<lambda>d. d\<lparr>bd_FreeSlot := c # bd_FreeSlot d\<rparr>) w)
      else w)"

definition RemoveFromBGFreeSlotQueue :: "nat \<Rightarrow> bg_world \<Rightarrow> bg_world" where
  "RemoveFromBGFreeSlotQueue c w =
     (let bg = bw_bgs w c in
      if bg_InBGFreeSlotQueue bg
      then on_bg c (\<lambda>bg. bg\<lparr>bg_InBGFreeSlotQueue := False\<rparr>)
             (on_data (bg_TypeID bg)
               (\<lambda>d. d\<lparr>bd_FreeSlot := erase_first (\<lambda>c'. bg_InstanceID (bw_bgs w c') = bg_InstanceID bg) (bd_FreeSlot d)\<rparr>) w)
      else w)"

definition StartBattleground :: "nat \<Rightarrow> bg_world \<Rightarrow> bg_world" where
  "StartBattleground c w = AddBattleground c (AddToBGFreeSlotQueue c w)"

text \<open>The part of \<^verbatim>\<open>BattlegroundMgr::Update\<close> that deletes finished battlegrounds; the first of every kind is its template.\<close>

definition delete_battleground :: "uint32 \<Rightarrow> uint32 \<times> nat \<Rightarrow> bg_world \<Rightarrow> bg_world" where
  "delete_battleground t nc w = (case nc of (n, c) \<Rightarrow>
     (let bg = bw_bgs w c;
          w1 = RemoveBattleground t n w;
          w2 = on_data t (\<lambda>d. d\<lparr>bd_ClientIds := (bd_ClientIds d)(bg_BracketId bg :=
                 set_erase (bg_ClientInstanceID bg) (bd_ClientIds d (bg_BracketId bg)))\<rparr>) w1
      in RemoveFromBGFreeSlotQueue c (RemoveBattleground (bg_TypeID bg) (bg_InstanceID bg) w2)))"

definition delete_finished :: "bg_env \<Rightarrow> bg_world \<Rightarrow> fault + bg_world" where
  "delete_finished env w = forE (\<lambda>(t, d) w. case bd_Battlegrounds d of
       [] \<Rightarrow> Inl OutOfBounds
     | _ # bgs \<Rightarrow> Inr (fold (delete_battleground t) (filter (\<lambda>(n, c). be_finished env c) bgs) w)) (bw_store w) w"

section \<open>Which queue serves which battleground\<close>

definition IsArenaType :: "uint32 \<Rightarrow> bool" where
  "IsArenaType t \<longleftrightarrow> t = BATTLEGROUND_AA \<or> t = BATTLEGROUND_BE \<or> t = BATTLEGROUND_NA \<or> t = BATTLEGROUND_DS \<or> t = BATTLEGROUND_RV
     \<or> t = BATTLEGROUND_RL \<or> t = BATTLEGROUND_TTP \<or> t = BATTLEGROUND_TVA"

definition BGQueueTypeId :: "uint32 \<Rightarrow> uint8 \<Rightarrow> nat" where
  "BGQueueTypeId t arenaType =
     (if t = BATTLEGROUND_AB then BATTLEGROUND_QUEUE_AB
      else if t = BATTLEGROUND_AV then BATTLEGROUND_QUEUE_AV
      else if t = BATTLEGROUND_EY then BATTLEGROUND_QUEUE_EY
      else if t = BATTLEGROUND_IC then BATTLEGROUND_QUEUE_IC
      else if t = BATTLEGROUND_TP then BATTLEGROUND_QUEUE_TP
      else if t = BATTLEGROUND_BFG then BATTLEGROUND_QUEUE_BFG
      else if t = BATTLEGROUND_RB then BATTLEGROUND_QUEUE_RB
      else if t = BATTLEGROUND_SA then BATTLEGROUND_QUEUE_SA
      else if t = BATTLEGROUND_WS then BATTLEGROUND_QUEUE_WS
      else if t \<in> {BATTLEGROUND_AA, BATTLEGROUND_BE, BATTLEGROUND_DS, BATTLEGROUND_NA, BATTLEGROUND_RL, BATTLEGROUND_RV,
                   BATTLEGROUND_TTP, BATTLEGROUND_TVA} then
        (if arenaType = Arena2v2 then BATTLEGROUND_QUEUE_2v2
         else if arenaType = Arena3v3 then BATTLEGROUND_QUEUE_3v3
         else if arenaType = Arena5v5 then BATTLEGROUND_QUEUE_5v5
         else BATTLEGROUND_QUEUE_NONE)
      else BATTLEGROUND_QUEUE_NONE)"

definition BGTemplateId :: "nat \<Rightarrow> uint32" where
  "BGTemplateId i =
     (if i = BATTLEGROUND_QUEUE_WS then BATTLEGROUND_WS
      else if i = BATTLEGROUND_QUEUE_AB then BATTLEGROUND_AB
      else if i = BATTLEGROUND_QUEUE_AV then BATTLEGROUND_AV
      else if i = BATTLEGROUND_QUEUE_EY then BATTLEGROUND_EY
      else if i = BATTLEGROUND_QUEUE_SA then BATTLEGROUND_SA
      else if i = BATTLEGROUND_QUEUE_IC then BATTLEGROUND_IC
      else if i = BATTLEGROUND_QUEUE_TP then BATTLEGROUND_TP
      else if i = BATTLEGROUND_QUEUE_BFG then BATTLEGROUND_BFG
      else if i = BATTLEGROUND_QUEUE_RB then BATTLEGROUND_RB
      else if i \<in> {BATTLEGROUND_QUEUE_2v2, BATTLEGROUND_QUEUE_3v3, BATTLEGROUND_QUEUE_5v5} then BATTLEGROUND_AA
      else 0)"

definition BGArenaType :: "nat \<Rightarrow> uint8" where
  "BGArenaType i =
     (if i = BATTLEGROUND_QUEUE_2v2 then SLOT_ARENA_2V2
      else if i = BATTLEGROUND_QUEUE_3v3 then SLOT_ARENA_3V3
      else if i = BATTLEGROUND_QUEUE_5v5 then SLOT_ARENA_5V5
      else 0)"

definition GetSlotByType :: "uint8 \<Rightarrow> uint8" where
  "GetSlotByType t = (if t = Arena2v2 then SLOT_ARENA_2V2 else if t = Arena3v3 then SLOT_ARENA_3V3
     else if t = Arena5v5 then SLOT_ARENA_5V5 else 0xFF)"

definition GetTypeBySlot :: "uint8 \<Rightarrow> uint8" where
  "GetTypeBySlot s = (if s = 0 then Arena2v2 else if s = 1 then Arena3v3 else if s = 2 then Arena5v5 else 0)"

definition GetMaxRatingDifference :: "bg_env \<Rightarrow> uint32" where
  "GetMaxRatingDifference env = (if be_maxRatingDifference env = 0 then 5000 else be_maxRatingDifference env)"

definition ToggleBgTesting :: "bg_world \<Rightarrow> bg_world" where
  "ToggleBgTesting w = w\<lparr>bw_testing := \<not> bw_testing w\<rparr>"

definition ToggleArenaTesting :: "bg_world \<Rightarrow> bg_world" where
  "ToggleArenaTesting w = w\<lparr>bw_arenaTesting := \<not> bw_arenaTesting w\<rparr>"

section \<open>Updates that are due\<close>

definition schedule_id :: "uint32 \<Rightarrow> uint8 \<Rightarrow> nat \<Rightarrow> uint32 \<Rightarrow> nat \<Rightarrow> uint64" where
  "schedule_id rating arenaType queueId bgTypeId b =
     push_bit 32 (ucast rating) OR push_bit 24 (ucast arenaType) OR push_bit 16 (of_nat queueId)
       OR push_bit 8 (ucast bgTypeId) OR of_nat b"

definition ScheduleQueueUpdate :: "uint32 \<Rightarrow> uint8 \<Rightarrow> nat \<Rightarrow> uint32 \<Rightarrow> nat \<Rightarrow> bg_world \<Rightarrow> bg_world" where
  "ScheduleQueueUpdate rating arenaType queueId bgTypeId b w =
     (let i = schedule_id rating arenaType queueId bgTypeId b
      in if i \<in> set (bw_sched w) then w else w\<lparr>bw_sched := bw_sched w @ [i]\<rparr>)"

text \<open>What \<^verbatim>\<open>BattlegroundMgr::Update\<close> reads out of such a number.\<close>

definition schedule_fields :: "uint64 \<Rightarrow> uint32 \<times> uint8 \<times> nat \<times> uint32 \<times> nat" where
  "schedule_fields i = (ucast (drop_bit 32 i), ucast (drop_bit 24 i AND 255), unat (drop_bit 16 i AND 255),
     ucast (drop_bit 8 i AND 255), unat (i AND 255))"

section \<open>Creation of battlegrounds\<close>

text \<open>The iterator of the search for a number is never advanced: every turn looks at the lowest number in use.\<close>

function client_scan :: "uint32 \<Rightarrow> uint32 \<Rightarrow> uint32" where
  "client_scan lowest lastId = (if lastId + 1 \<noteq> lowest then lastId + 1 else client_scan lowest lowest)"
  by pat_completeness auto
termination
  by (relation "measure (\<lambda>(l, k). if k + 1 = l then 1 else 0)") auto

definition CreateClientVisibleInstanceId :: "uint32 \<Rightarrow> nat \<Rightarrow> bg_world \<Rightarrow> uint32 \<times> bg_world" where
  "CreateClientVisibleInstanceId bgTypeId b w =
     (if IsArenaType bgTypeId then (0, w)
      else let ids = bd_ClientIds (data_at bgTypeId w) b;
               lastId = (case ids of [] \<Rightarrow> 0 | i # _ \<Rightarrow> client_scan i 0) + 1
           in (lastId, on_data bgTypeId (\<lambda>d. d\<lparr>bd_ClientIds := (bd_ClientIds d)(b := set_insert lastId ids)\<rparr>) w))"

text \<open>The battlegrounds on the maps of a template, with their weights; the list of maps ends with -1.\<close>

definition random_choices :: "bg_env \<Rightarrow> int list \<Rightarrow> (uint32 \<times> uint8) list" where
  "random_choices env maps = List.map_filter (be_mapTemplate env) (takeWhile (\<lambda>m. m \<noteq> - 1) maps)"

definition GetRandomBG :: "bg_env \<Rightarrow> uint32 \<Rightarrow> fault + uint32" where
  "GetRandomBG env bgTypeId =
     (case be_templateMaps env bgTypeId of
        None \<Rightarrow> Inr BATTLEGROUND_TYPE_NONE
      | Some maps \<Rightarrow>
          (let xs = random_choices env maps in
           case drop (be_pick env (map snd xs)) xs of [] \<Rightarrow> Inl OutOfBounds | (t, _) # _ \<Rightarrow> Inr t))"

definition has_code :: "uint32 \<Rightarrow> bool" where
  "has_code t \<longleftrightarrow> t \<in> {BATTLEGROUND_AV, BATTLEGROUND_WS, BATTLEGROUND_AB, BATTLEGROUND_NA, BATTLEGROUND_BE, BATTLEGROUND_EY,
     BATTLEGROUND_RL, BATTLEGROUND_SA, BATTLEGROUND_DS, BATTLEGROUND_RV, BATTLEGROUND_IC, BATTLEGROUND_TP, BATTLEGROUND_BFG,
     BATTLEGROUND_TTP, BATTLEGROUND_TVA}"

definition Reset_bg :: "battleground \<Rightarrow> battleground" where
  "Reset_bg bg = bg\<lparr>bg_Status := STATUS_WAIT_QUEUE, bg_InvitedAlliance := 0, bg_InvitedHorde := 0,
     bg_InBGFreeSlotQueue := False, bg_PlayersSize := 0\<rparr>"

text \<open>The numbers of players for the scoreboards of an arena.\<close>

definition arena_players :: "uint8 \<Rightarrow> uint32" where
  "arena_players arenaType = (if arenaType = SLOT_ARENA_2V2 then 2 else if arenaType = SLOT_ARENA_3V3 then 3
     else if arenaType = SLOT_ARENA_5V5 then 5 else 0)"

definition CreateNewBattleground :: "bg_env \<Rightarrow> uint32 \<Rightarrow> pvp_difficulty \<Rightarrow> uint8 \<Rightarrow> bool \<Rightarrow> bg_world
    \<Rightarrow> fault + nat option \<times> bg_world" where
  "CreateNewBattleground env origType be arenaType isRated w =
     res_bind (GetRandomBG env origType) (\<lambda>bgTypeId.
     case GetBattlegroundTemplate bgTypeId w of
       None \<Rightarrow> Inr (None, w)
     | Some c0 \<Rightarrow>
        if \<not> has_code bgTypeId then Inr (None, w)
        else
          (let t = bw_bgs w c0; c = bw_nextBg w;
               (clientId, w1) = CreateClientVisibleInstanceId origType (dv_RangeIndex be) w;
               bg1 = Reset_bg (t\<lparr>bg_BracketId := dv_RangeIndex be, bg_LevelMin := dv_MinLevel be, bg_LevelMax := dv_MaxLevel be,
                       bg_InstanceID := be_instanceId env c, bg_ClientInstanceID := clientId\<rparr>);
               bg2 = bg1\<lparr>bg_Status := STATUS_WAIT_JOIN, bg_ArenaType := arenaType, bg_TypeID := origType,
                       bg_RandomTypeID := bgTypeId, bg_IsRated := isRated,
                       bg_IsRandom := (bgTypeId \<noteq> origType \<and> \<not> bg_IsArena t),
                       bg_QueueId := ucast bgTypeId OR 0x1F10000000000000\<rparr>;
               bg3 = (if bg_IsArena t then bg2\<lparr>bg_MaxPlayersPerTeam := arena_players arenaType, bg_MaxPlayers := arena_players arenaType * 2\<rparr>
                      else bg2)
           in Inr (Some c, w1\<lparr>bw_bgs := (bw_bgs w1)(c := bg3), bw_nextBg := c + 1\<rparr>)))"

text \<open>A loaded template: its kind, sizes of teams, levels, first map and whether it is an arena.\<close>

record bg_template =
  bt_Id :: uint32
  bt_MinPlayersPerTeam :: uint16
  bt_MaxPlayersPerTeam :: uint16
  bt_MinLevel :: uint8
  bt_MaxLevel :: uint8
  bt_MapId :: uint32
  bt_IsArena :: bool

text \<open>The object of a kind of battleground as its constructor leaves it.\<close>

definition Battleground :: battleground where
  "Battleground = \<lparr>bg_InstanceID = 0, bg_TypeID = BATTLEGROUND_TYPE_NONE, bg_RandomTypeID = BATTLEGROUND_TYPE_NONE, bg_BracketId = 0,
     bg_Status = 0, bg_ArenaType = 0, bg_IsArena = False, bg_IsRated = False, bg_IsRandom = False, bg_InvitedAlliance = 0,
     bg_InvitedHorde = 0, bg_PlayersCount = (\<lambda>_. 0), bg_PlayersSize = 0, bg_MinPlayersPerTeam = 0, bg_MaxPlayersPerTeam = 0,
     bg_MinPlayers = 0, bg_MaxPlayers = 0, bg_LevelMin = 0, bg_LevelMax = 0, bg_MapId = 0, bg_ClientInstanceID = 0,
     bg_QueueId = 0, bg_InBGFreeSlotQueue = False, bg_ArenaGroupMMR = (\<lambda>_. 0)\<rparr>"

definition CreateBattleground :: "bg_template \<Rightarrow> bg_world \<Rightarrow> bool \<times> bg_world" where
  "CreateBattleground bt w =
     (let fill = (\<lambda>bg. bg\<lparr>bg_MapId := bt_MapId bt, bg_InstanceID := 0, bg_IsArena := bt_IsArena bt,
            bg_MinPlayersPerTeam := ucast (bt_MinPlayersPerTeam bt), bg_MaxPlayersPerTeam := ucast (bt_MaxPlayersPerTeam bt),
            bg_MinPlayers := ucast (bt_MinPlayersPerTeam bt) * 2, bg_MaxPlayers := ucast (bt_MaxPlayersPerTeam bt) * 2,
            bg_LevelMin := ucast (bt_MinLevel bt), bg_LevelMax := ucast (bt_MaxLevel bt),
            bg_QueueId := ucast (bt_Id bt) OR 0x1F10000000000000\<rparr>)
      in case GetBattlegroundTemplate (bt_Id bt) w of
           Some c \<Rightarrow> (True, AddBattleground c (on_bg c fill w))
         | None \<Rightarrow>
             if has_code (bt_Id bt) \<or> bt_Id bt = BATTLEGROUND_AA \<or> bt_Id bt = BATTLEGROUND_RB then
               (let c = bw_nextBg w;
                    bg = Battleground\<lparr>bg_IsRandom := (bt_Id bt = BATTLEGROUND_RB), bg_TypeID := bt_Id bt\<rparr>;
                    w1 = AddBattleground c (w\<lparr>bw_bgs := (bw_bgs w)(c := bg), bw_nextBg := c + 1\<rparr>)
                in (True, AddBattleground c (on_bg c fill w1)))
             else (False, w))"

end
