(* ===== verification/Bg_Queue.thy ===== *)
theory Bg_Queue
  imports Bg_Manager
begin

text \<open>
  The operations of a queue, \<^verbatim>\<open>src/src/server/game/Battlegrounds/BattlegroundQueue.cpp\<close>: joining, the average waiting time, leaving,
  invitations and the events they schedule. The events are those of the event processor of the server
  (\<^verbatim>\<open>Event_Processor\<close>), whose world is this one; what they do is the meaning of its virtual methods.
\<close>

section \<open>Joining\<close>

definition queue_index :: "uint32 \<Rightarrow> bool \<Rightarrow> bool \<Rightarrow> nat" where
  "queue_index team isRated isPremade =
     (if \<not> isRated \<and> \<not> isPremade then BG_TEAMS_COUNT else 0) + (if team = HORDE then 1 else 0)"

definition enter_player :: "uint32 \<Rightarrow> nat \<Rightarrow> ObjectGuid \<Rightarrow> bg_queue \<Rightarrow> bg_queue" where
  "enter_player now a g q = gi_update a (\<lambda>gi. gi\<lparr>gq_Players := set_insert g (gq_Players gi)\<rparr>)
     (q\<lparr>bq_players := (bq_players q)(g \<mapsto> \<lparr>qp_LastOnlineTime = now, qp_GroupInfo = a\<rparr>)\<rparr>)"

text \<open>The group that joins is a party, or \<^verbatim>\<open>None\<close> for the leader alone; the result names its address.\<close>

definition AddGroup :: "uint32 \<Rightarrow> ObjectGuid \<Rightarrow> uint32 \<Rightarrow> bg_party option \<Rightarrow> uint32 \<Rightarrow> nat \<Rightarrow> uint8 \<Rightarrow> bool \<Rightarrow> bool \<Rightarrow> uint32 \<Rightarrow> uint32
    \<Rightarrow> bg_queue \<Rightarrow> nat \<times> bg_queue" where
  "AddGroup now leader team grp bgTypeId b arenaType isRated isPremade rating mmr q =
     (let a = bq_next q;
          gi = \<lparr>gq_Players = [], gq_Team = team, gq_BgTypeId = bgTypeId, gq_IsRated = isRated, gq_ArenaType = arenaType,
                gq_JoinTime = now, gq_RemoveInviteTime = 0, gq_IsInvitedToBGInstanceGUID = 0, gq_ArenaGroupRating = rating,
                gq_ArenaMatchmakerRating = mmr, gq_OpponentsTeamRating = 0, gq_OpponentsMatchmakerRating = 0,
                gq_Group = map_option bp_id grp\<rparr>;
          q1 = q\<lparr>bq_heap := (bq_heap q)(a := gi), bq_next := a + 1\<rparr>;
          members = (case grp of None \<Rightarrow> [leader] | Some p \<Rightarrow> bp_members p);
          q2 = fold (enter_player now a) members q1
      in (a, groups_update b (queue_index team isRated isPremade) (\<lambda>xs. xs @ [a]) q2))"

section \<open>Waiting times\<close>

definition getMSTimeDiff :: "uint32 \<Rightarrow> uint32 \<Rightarrow> uint32" where
  "getMSTimeDiff oldMSTime newMSTime =
     (if oldMSTime > newMSTime then (0xFFFFFFFF - oldMSTime) + newMSTime else newMSTime - oldMSTime)"

definition wait_team :: "group_queue_info \<Rightarrow> nat" where
  "wait_team g =
     (if gq_ArenaType g = 0 then (if gq_Team g = HORDE then TEAM_HORDE else TEAM_ALLIANCE)
      else if gq_IsRated g then TEAM_HORDE else TEAM_ALLIANCE)"

definition put2 :: "'a \<Rightarrow> 'b \<Rightarrow> 'c \<Rightarrow> ('a \<Rightarrow> 'b \<Rightarrow> 'c) \<Rightarrow> 'a \<Rightarrow> 'b \<Rightarrow> 'c" where
  "put2 t b x f = f(t := (f t)(b := x))"

definition PlayerInvitedToBGUpdateAverageWaitTime :: "uint32 \<Rightarrow> group_queue_info \<Rightarrow> nat \<Rightarrow> bg_queue \<Rightarrow> bg_queue" where
  "PlayerInvitedToBGUpdateAverageWaitTime now g b q =
     (let timeInQueue = getMSTimeDiff (gq_JoinTime g) now; t = wait_team g;
          k = unat (bq_waitLast q t b);
          s1 = bq_waitSum q t b - bq_waits q t b k
      in q\<lparr>bq_waits := put2 t b ((bq_waits q t b)(k := timeInQueue)) (bq_waits q),
           bq_waitSum := put2 t b (s1 + timeInQueue) (bq_waitSum q),
           bq_waitLast := put2 t b ((bq_waitLast q t b + 1) mod of_nat COUNT_OF_PLAYERS_TO_AVERAGE_WAIT_TIME) (bq_waitLast q)\<rparr>)"

definition GetAverageQueueWaitTime :: "group_queue_info \<Rightarrow> nat \<Rightarrow> bg_queue \<Rightarrow> uint32" where
  "GetAverageQueueWaitTime g b q =
     (let t = wait_team g in
      if bq_waits q t b (COUNT_OF_PLAYERS_TO_AVERAGE_WAIT_TIME - 1) \<noteq> 0
      then bq_waitSum q t b div of_nat COUNT_OF_PLAYERS_TO_AVERAGE_WAIT_TIME else 0)"

section \<open>Leaving\<close>

text \<open>The brackets are searched from the highest, in each the premade and the normal queue of the group's team.\<close>

definition find_group :: "nat \<Rightarrow> nat \<Rightarrow> bg_queue \<Rightarrow> (nat \<times> nat) option" where
  "find_group a j q =
     (case find (\<lambda>b. a \<in> set (bq_groups q b j) \<or> a \<in> set (bq_groups q b (j + BG_TEAMS_COUNT)))
             (rev [0..<MAX_BATTLEGROUND_BRACKETS]) of
        None \<Rightarrow> None
      | Some b \<Rightarrow> Some (b, if a \<in> set (bq_groups q b (j + BG_TEAMS_COUNT)) then j + BG_TEAMS_COUNT else j))"

text \<open>The next player of a rated group that falls apart is told, and gives up his place, before he is removed.\<close>

definition leave_notice :: "bg_env \<Rightarrow> group_queue_info \<Rightarrow> ObjectGuid \<Rightarrow> bg_world \<Rightarrow> bg_world" where
  "leave_notice env gi g w =
     (if be_connected env g then
        (let t = BGQueueTypeId (gq_BgTypeId gi) (gq_ArenaType gi);
             k = GetBattlegroundQueueIndex t (bw_slots w g);
             w1 = on_slots g (RemoveBattlegroundQueueId t) w
         in bg_say (StatusNone g k (GetBattlegroundQueueJoinTime t (bw_slots w1 g))) w1)
      else w)"

text \<open>One call of \<^verbatim>\<open>RemovePlayer\<close>; the result names the player of the call it ends with, if it does.\<close>

definition remove_one :: "bg_env \<Rightarrow> nat \<Rightarrow> bool \<Rightarrow> ObjectGuid \<Rightarrow> bg_world \<Rightarrow> fault + ObjectGuid option \<times> bg_world" where
  "remove_one env i dec g w =
     (case bq_players (bw_queues w i) g of
        None \<Rightarrow> Inr (None, w)
      | Some pi \<Rightarrow>
         (let a = qp_GroupInfo pi; q = bw_queues w i;
              j = (if gq_Team (bq_heap q a) = HORDE then BG_QUEUE_PREMADE_HORDE else BG_QUEUE_PREMADE_ALLIANCE)
          in case find_group a j q of
               None \<Rightarrow> Inr (None, w)
             | Some (b, j') \<Rightarrow>
                (let w1 = on_bgqueue i (gi_update a (\<lambda>gi. gi\<lparr>gq_Players := set_erase g (gq_Players gi)\<rparr>)) w;
                     gi = bq_heap (bw_queues w1 i) a;
                     w2 = (if dec \<and> gq_invited gi then
                             (case GetBattleground (gq_IsInvitedToBGInstanceGUID gi) (gq_BgTypeId gi) w1 of
                                None \<Rightarrow> w1 | Some c \<Rightarrow> on_bg c (DecreaseInvitedCount (gq_Team gi)) w1)
                           else w1);
                     w3 = on_bgqueue i (\<lambda>q. q\<lparr>bq_players := (bq_players q)(g := None)\<rparr>) w2
                 in res_bind
                      (if gq_invited gi \<and> gq_IsRated gi \<and> dec then
                         (case gq_Group gi of
                            None \<Rightarrow> Inl NullPointer
                          | Some p \<Rightarrow> Inr (bg_say
                              ((if be_connected env g then MemberLost else OfflineMemberLost) p g
                                 (gq_OpponentsMatchmakerRating gi) (GetSlotByType (gq_ArenaType gi))) w3))
                       else Inr w3)
                      (\<lambda>w4. case gq_Players gi of
                          [] \<Rightarrow> Inr (None, on_bgqueue i (groups_update b j' (remove1 a)) w4)
                        | g' # _ \<Rightarrow> if \<not> gq_invited gi \<and> gq_IsRated gi then Inr (Some g', leave_notice env gi g' w4)
                                     else Inr (None, w4)))))"

lemma finite_guids [simp]: "finite (A :: ObjectGuid set)"
proof -
  have "UNIV = (\<lambda>(h, l). ObjectGuid h l) ` (UNIV :: (uint64 \<times> uint64) set)"
    by (auto simp: image_iff) (metis ObjectGuid.exhaust)
  then have "finite (UNIV :: ObjectGuid set)" by (metis finite finite_imageI)
  then show ?thesis by (rule rev_finite_subset) simp
qed

lemma leave_notice_frame [simp]:
  "bw_queues (leave_notice env gi g w) = bw_queues w" "bw_bgs (leave_notice env gi g w) = bw_bgs w"
  "bw_store (leave_notice env gi g w) = bw_store w" "bw_nextBg (leave_notice env gi g w) = bw_nextBg w"
  by (simp_all add: leave_notice_def Let_def)

lemma remove_one_players:
  "remove_one env i dec g w = Inr (Some g', w') \<Longrightarrow>
     bq_players (bw_queues w i) g \<noteq> None \<and> bq_players (bw_queues w' i) = (bq_players (bw_queues w i))(g := None)"
  by (auto simp: remove_one_def Let_def res_bind_eq_Inr split: option.splits if_splits list.splits)

function RemovePlayer :: "bg_env \<Rightarrow> nat \<Rightarrow> bool \<Rightarrow> ObjectGuid \<Rightarrow> bg_world \<Rightarrow> fault + bg_world" where
  "RemovePlayer env i dec g w =
     (case remove_one env i dec g w of
        Inl e \<Rightarrow> Inl e
      | Inr (None, w') \<Rightarrow> Inr w'
      | Inr (Some g', w') \<Rightarrow> RemovePlayer env i dec g' w')"
  by pat_completeness auto
termination
  by (relation "measure (\<lambda>(env, i, dec, g, w). card (dom (bq_players (bw_queues w i))))")
    (auto dest!: remove_one_players simp del: dom_fun_upd intro!: psubset_card_mono split: if_splits)

definition IsPlayerInvited :: "ObjectGuid \<Rightarrow> uint32 \<Rightarrow> uint32 \<Rightarrow> bg_queue \<Rightarrow> bool" where
  "IsPlayerInvited g bgInstanceGuid removeTime q =
     (case bq_players q g of
        None \<Rightarrow> False
      | Some pi \<Rightarrow> gq_IsInvitedToBGInstanceGUID (bq_heap q (qp_GroupInfo pi)) = bgInstanceGuid
                 \<and> gq_RemoveInviteTime (bq_heap q (qp_GroupInfo pi)) = removeTime)"

definition GetPlayerGroupInfoData :: "ObjectGuid \<Rightarrow> bg_queue \<Rightarrow> group_queue_info option" where
  "GetPlayerGroupInfoData g q = map_option (\<lambda>pi. bq_heap q (qp_GroupInfo pi)) (bq_players q g)"

definition GetPlayersInQueue :: "nat \<Rightarrow> bg_queue \<Rightarrow> uint32" where
  "GetPlayersInQueue t q = sp_PlayerCount (bq_pools q t)"

section \<open>Invitations\<close>

text \<open>A new event object is put on the heap of the processor and added to its queue.\<close>

definition ep_fault :: "ep_error + 'a \<Rightarrow> fault + 'a" where
  "ep_fault r = (case r of Inl _ \<Rightarrow> Inl fault.AssertionFailed | Inr x \<Rightarrow> Inr x)"

definition schedule_event :: "bg_event \<Rightarrow> nat \<Rightarrow> bg_queue \<Rightarrow> fault + bg_queue" where
  "schedule_event ev t q =
     (let n = bq_nextEvent q; p = ep_put n BasicEvent (bq_events q)
      in res_bind (ep_fault (AddEvent n (CalculateTime (of_nat t) p) True p))
           (\<lambda>p'. Inr (q\<lparr>bq_events := p', bq_actions := (bq_actions q)(n := ev), bq_nextEvent := n + 1\<rparr>)))"

definition queue_bind :: "nat \<Rightarrow> (bg_queue \<Rightarrow> fault + bg_queue) \<Rightarrow> bg_world \<Rightarrow> fault + bg_world" where
  "queue_bind i f w = res_bind (f (bw_queues w i)) (\<lambda>q. Inr (on_bgqueue i (\<lambda>_. q) w))"

text \<open>The turn of the loop of \<^verbatim>\<open>InviteGroupToBG\<close> for one player.\<close>

definition invite_player :: "bg_env \<Rightarrow> uint32 \<Rightarrow> nat \<Rightarrow> nat \<Rightarrow> nat \<Rightarrow> ObjectGuid \<Rightarrow> bg_world \<Rightarrow> fault + bg_world" where
  "invite_player env now i a c g w =
     (if \<not> be_connected env g then Inr w
      else
       (let gi = bq_heap (bw_queues w i) a; bg = bw_bgs w c;
            bgTypeId = bg_TypeID bg; queueId = BGQueueTypeId bgTypeId (bg_ArenaType bg);
            inst = gq_IsInvitedToBGInstanceGUID gi; removeTime = gq_RemoveInviteTime gi;
            w1 = on_bgqueue i (PlayerInvitedToBGUpdateAverageWaitTime now gi (bg_BracketId bg)) w;
            w2 = on_bg c (IncreaseInvitedCount (gq_Team gi)) w1;
            w3 = on_slots g (SetInviteForBattlegroundQueueType queueId inst) w2
        in res_bind (queue_bind i (schedule_event (BGQueueInviteEvent g inst bgTypeId (gq_ArenaType gi) removeTime) INVITATION_REMIND_TIME) w3)
             (\<lambda>w4. res_bind (queue_bind i (schedule_event (BGQueueRemoveEvent g inst bgTypeId queueId removeTime) INVITE_ACCEPT_WAIT_TIME) w4)
             (\<lambda>w5. Inr (bg_say (StatusNeedConfirmation g (bg_InstanceID bg) (GetBattlegroundQueueIndex queueId (bw_slots w5 g))
                      (GetBattlegroundQueueJoinTime queueId (bw_slots w5 g)) (of_nat INVITE_ACCEPT_WAIT_TIME) (gq_ArenaType gi)) w5)))))"

definition InviteGroupToBG :: "bg_env \<Rightarrow> uint32 \<Rightarrow> nat \<Rightarrow> nat \<Rightarrow> nat \<Rightarrow> uint32 \<Rightarrow> bg_world \<Rightarrow> fault + bool \<times> bg_world" where
  "InviteGroupToBG env now i a c side w =
     (let w1 = (if side \<noteq> 0 then on_bgqueue i (gi_update a (\<lambda>gi. gi\<lparr>gq_Team := side\<rparr>)) w else w)
      in if \<not> gq_invited (bq_heap (bw_queues w1 i) a) then
           (let w2 = on_bgqueue i (gi_update a (\<lambda>gi. gi\<lparr>gq_IsInvitedToBGInstanceGUID := bg_InstanceID (bw_bgs w1 c),
                       gq_RemoveInviteTime := now + of_nat INVITE_ACCEPT_WAIT_TIME\<rparr>)) w1
            in res_bind (forE (invite_player env now i a c) (gq_Players (bq_heap (bw_queues w2 i) a)) w2) (\<lambda>w3. Inr (True, w3)))
         else Inr (False, w1))"

section \<open>The events\<close>

definition BGQueueInviteEvent_Execute :: "bg_env \<Rightarrow> ObjectGuid \<Rightarrow> uint32 \<Rightarrow> uint32 \<Rightarrow> uint8 \<Rightarrow> uint32 \<Rightarrow> bg_world \<Rightarrow> bg_world" where
  "BGQueueInviteEvent_Execute env g inst bgTypeId arenaType removeTime w =
     (if \<not> be_connected env g then w
      else case GetBattleground inst bgTypeId w of
        None \<Rightarrow> w
      | Some c \<Rightarrow>
          (let bg = bw_bgs w c; i = BGQueueTypeId (bg_TypeID bg) (bg_ArenaType bg);
               k = GetBattlegroundQueueIndex i (bw_slots w g)
           in if k < PLAYER_MAX_BATTLEGROUND_QUEUES \<and> IsPlayerInvited g inst removeTime (bw_queues w i)
              then bg_say (StatusNeedConfirmation g (bg_InstanceID bg) k (GetBattlegroundQueueJoinTime i (bw_slots w g))
                     (of_nat (INVITE_ACCEPT_WAIT_TIME - INVITATION_REMIND_TIME)) arenaType) w
              else w))"

definition BGQueueRemoveEvent_Execute :: "bg_env \<Rightarrow> ObjectGuid \<Rightarrow> uint32 \<Rightarrow> uint32 \<Rightarrow> nat \<Rightarrow> uint32 \<Rightarrow> bg_world \<Rightarrow> fault + bg_world" where
  "BGQueueRemoveEvent_Execute env g inst bgTypeId i removeTime w =
     (if \<not> be_connected env g then Inr w
      else
       (let bg = GetBattleground inst bgTypeId w; k = GetBattlegroundQueueIndex i (bw_slots w g)
        in if k < PLAYER_MAX_BATTLEGROUND_QUEUES \<and> IsPlayerInvited g inst removeTime (bw_queues w i) then
             res_bind (RemovePlayer env i True g (on_slots g (RemoveBattlegroundQueueId i) w)) (\<lambda>w1.
             let w2 = (case bg of None \<Rightarrow> w1 | Some c \<Rightarrow>
                   (let x = bw_bgs w1 c in
                    if \<not> bg_IsArena x \<and> bg_Status x \<noteq> STATUS_WAIT_LEAVE
                    then ScheduleQueueUpdate 0 0 i bgTypeId (bg_BracketId x) w1 else w1))
             in Inr (bg_say (StatusNone g k (GetBattlegroundQueueJoinTime i (bw_slots w2 g))) w2))
           else Inr w))"

definition bg_event_Execute :: "bg_env \<Rightarrow> bg_event \<Rightarrow> bg_world \<Rightarrow> fault + bg_world" where
  "bg_event_Execute env ev w =
     (case ev of
        BGQueueInviteEvent g inst bgTypeId arenaType removeTime \<Rightarrow>
          Inr (BGQueueInviteEvent_Execute env g inst bgTypeId arenaType removeTime w)
      | BGQueueRemoveEvent g inst bgTypeId i removeTime \<Rightarrow> BGQueueRemoveEvent_Execute env g inst bgTypeId i removeTime w)"

text \<open>
  The virtual methods of the events of a queue, for the model of the event processor. Its world is the result so far: behind a
  fault nothing more is done.
\<close>

definition bg_methods :: "bg_env \<Rightarrow> (nat \<Rightarrow> bg_event) \<Rightarrow> (fault + bg_world) event_methods" where
  "bg_methods env acts = \<lparr>mExecute = (\<lambda>n t p s. (True, s\<lparr>ep_world := res_bind (ep_world s) (bg_event_Execute env (acts n))\<rparr>)),
     mAbort = (\<lambda>n t s. s), mIsDeletable = (\<lambda>n w. True)\<rparr>"

definition with_world :: "'a event_processor \<Rightarrow> 'b \<Rightarrow> 'b event_processor" where
  "with_world p x = \<lparr>ep_time = ep_time p, ep_events = ep_events p, ep_heap = ep_heap p, ep_world = x\<rparr>"

definition UpdateEvents :: "bg_env \<Rightarrow> uint32 \<Rightarrow> nat \<Rightarrow> bg_world \<Rightarrow> (fault + bg_world) option" where
  "UpdateEvents env diff i w =
     (case ep_Update (bg_methods env (bq_actions (bw_queues w i))) diff (with_world (bq_events (bw_queues w i)) (Inr w)) of
        None \<Rightarrow> None
      | Some r \<Rightarrow> Some (res_bind (ep_fault r) (\<lambda>p. res_bind (ep_world p)
          (\<lambda>w'. Inr (on_bgqueue i (\<lambda>q. q\<lparr>bq_events := with_world p ()\<rparr>) w')))))"

end
