(* ===== verification/Bg_Update.thy ===== *)
theory Bg_Update
  imports Bg_Queue
begin

text \<open>
  The update of a queue (\<^verbatim>\<open>BattlegroundQueue::BattlegroundQueueUpdate\<close> of
  \<^verbatim>\<open>src/src/server/game/Battlegrounds/BattlegroundQueue.cpp\<close>) and the periodic update of the manager
  (\<^verbatim>\<open>BattlegroundMgr::Update\<close> of \<^verbatim>\<open>BattlegroundMgr.cpp\<close>), without the updates of the battlegrounds themselves.
\<close>

section \<open>Players for running battlegrounds\<close>

definition InitPools :: "bg_queue \<Rightarrow> bg_queue" where
  "InitPools q = pool_update TEAM_HORDE SelectionPool (pool_update TEAM_ALLIANCE SelectionPool q)"

definition invite_own_team :: "bg_env \<Rightarrow> uint32 \<Rightarrow> nat \<Rightarrow> nat \<Rightarrow> nat \<Rightarrow> bg_world \<Rightarrow> fault + bg_world" where
  "invite_own_team env now i c a w =
     res_bind (InviteGroupToBG env now i a c (gq_Team (bq_heap (bw_queues w i) a)) w) (\<lambda>(_, w'). Inr w')"

text \<open>Invites what the pools of the two teams hold.\<close>

definition invite_pools :: "bg_env \<Rightarrow> uint32 \<Rightarrow> nat \<Rightarrow> nat \<Rightarrow> bg_world \<Rightarrow> fault + bg_world" where
  "invite_pools env now i c w =
     res_bind (forE (invite_own_team env now i c) (sp_SelectedGroups (bq_pools (bw_queues w i) TEAM_ALLIANCE)) w) (\<lambda>w1.
     forE (invite_own_team env now i c) (sp_SelectedGroups (bq_pools (bw_queues w1 i) TEAM_HORDE)) w1)"

definition fill_running :: "bg_env \<Rightarrow> uint32 \<Rightarrow> nat \<Rightarrow> uint32 \<Rightarrow> nat \<Rightarrow> nat \<Rightarrow> bg_world \<Rightarrow> fault + bg_world" where
  "fill_running env now i bgTypeId b c w =
     (let bg = bw_bgs w c in
      if \<not> bg_IsRated bg \<and> bg_TypeID bg = bgTypeId \<and> bg_BracketId bg = b
         \<and> STATUS_WAIT_QUEUE < bg_Status bg \<and> bg_Status bg < STATUS_WAIT_LEAVE then
        res_bind (queue_bind i (\<lambda>q. FillPlayersToBG (be_invitationType env) bg b (InitPools q)) w) (\<lambda>w1.
        res_bind (invite_pools env now i c w1) (\<lambda>w2.
        Inr (if \<not> HasFreeSlots (bw_bgs w2 c) then RemoveFromBGFreeSlotQueue c w2 else w2)))
      else Inr w)"

section \<open>Rated matches\<close>

text \<open>The rating to look for: that of the team that joined last, or of the team that waits longest.\<close>

definition rated_target :: "uint32 \<Rightarrow> nat \<Rightarrow> bg_queue \<Rightarrow> uint32 option" where
  "rated_target arenaRating b q =
     (if arenaRating \<noteq> 0 then Some arenaRating
      else case (bq_groups q b BG_QUEUE_PREMADE_ALLIANCE, bq_groups q b BG_QUEUE_PREMADE_HORDE) of
        ([], []) \<Rightarrow> None
      | (a # _, []) \<Rightarrow> Some (gq_ArenaMatchmakerRating (bq_heap q a))
      | ([], h # _) \<Rightarrow> Some (gq_ArenaMatchmakerRating (bq_heap q h))
      | (a # _, h # _) \<Rightarrow> Some (gq_ArenaMatchmakerRating
          (bq_heap q (if gq_JoinTime (bq_heap q a) < gq_JoinTime (bq_heap q h) then a else h))))"

definition rated_match :: "bg_env \<Rightarrow> uint32 \<Rightarrow> uint32 \<Rightarrow> group_queue_info \<Rightarrow> bool" where
  "rated_match env now target g \<longleftrightarrow>
     (let d = GetMaxRatingDifference env; lo = (if target \<le> d then 0 else target - d); hi = target + d;
          discardTime = sint (now - be_ratingDiscardTimer env)
      in \<not> gq_invited g \<and> (lo \<le> gq_ArenaMatchmakerRating g \<and> gq_ArenaMatchmakerRating g \<le> hi \<or> sint (gq_JoinTime g) < discardTime))"

text \<open>
  The two teams of the match: the first that fits of either faction, or two of one faction. The second search for a faction starts at
  the iterator of the first.
\<close>

definition rated_teams :: "(nat \<Rightarrow> bool) \<Rightarrow> nat list \<Rightarrow> nat list \<Rightarrow> nat list" where
  "rated_teams ok ali horde =
     (case (dropWhile (\<lambda>a. \<not> ok a) ali, dropWhile (\<lambda>a. \<not> ok a) horde) of
        ([], []) \<Rightarrow> []
      | (a # _, h # _) \<Rightarrow> [a, h]
      | (a # as, []) \<Rightarrow> (case find ok (a # as) of None \<Rightarrow> [a] | Some a' \<Rightarrow> [a, a'])
      | ([], h # hs) \<Rightarrow> (case find ok (h # hs) of None \<Rightarrow> [h] | Some h' \<Rightarrow> [h, h']))"

definition set_opponents :: "nat \<Rightarrow> nat \<Rightarrow> bg_queue \<Rightarrow> bg_queue" where
  "set_opponents a h q =
     (let q1 = gi_update a (\<lambda>g. g\<lparr>gq_OpponentsTeamRating := gq_ArenaGroupRating (bq_heap q h)\<rparr>) q;
          q2 = gi_update h (\<lambda>g. g\<lparr>gq_OpponentsTeamRating := gq_ArenaGroupRating (bq_heap q1 a)\<rparr>) q1;
          q3 = gi_update a (\<lambda>g. g\<lparr>gq_OpponentsMatchmakerRating := gq_ArenaMatchmakerRating (bq_heap q2 h)\<rparr>) q2
      in gi_update h (\<lambda>g. g\<lparr>gq_OpponentsMatchmakerRating := gq_ArenaMatchmakerRating (bq_heap q3 a)\<rparr>) q3)"

text \<open>A team that plays for the other faction moves to the front of its queue.\<close>

definition move_team :: "nat \<Rightarrow> nat \<Rightarrow> uint32 \<Rightarrow> nat \<Rightarrow> nat \<Rightarrow> bg_queue \<Rightarrow> bg_queue" where
  "move_team b a side dest source q =
     (if gq_Team (bq_heap q a) \<noteq> side
      then groups_update b source (remove1 a) (groups_update b dest (\<lambda>xs. a # xs) q) else q)"

definition start_rated :: "bg_env \<Rightarrow> uint32 \<Rightarrow> nat \<Rightarrow> nat \<Rightarrow> nat \<Rightarrow> nat \<Rightarrow> nat \<Rightarrow> bg_world \<Rightarrow> fault + bg_world" where
  "start_rated env now i b aTeam hTeam c w =
     (let w1 = on_bgqueue i (\<lambda>q. move_team b hTeam HORDE BG_QUEUE_PREMADE_HORDE BG_QUEUE_PREMADE_ALLIANCE
                   (move_team b aTeam ALLIANCE BG_QUEUE_PREMADE_ALLIANCE BG_QUEUE_PREMADE_HORDE (set_opponents aTeam hTeam q))) w;
          mmr = (\<lambda>a. gq_ArenaMatchmakerRating (bq_heap (bw_queues w1 i) a));
          w2 = on_bg c (SetArenaMatchmakerRating HORDE (mmr hTeam)) (on_bg c (SetArenaMatchmakerRating ALLIANCE (mmr aTeam)) w1)
      in res_bind (InviteGroupToBG env now i aTeam c ALLIANCE w2) (\<lambda>(_, w3).
         res_bind (InviteGroupToBG env now i hTeam c HORDE w3) (\<lambda>(_, w4). Inr (StartBattleground c w4))))"

definition update_rated :: "bg_env \<Rightarrow> uint32 \<Rightarrow> nat \<Rightarrow> uint32 \<Rightarrow> pvp_difficulty \<Rightarrow> nat \<Rightarrow> uint8 \<Rightarrow> uint32 \<Rightarrow> bg_world \<Rightarrow> fault + bg_world" where
  "update_rated env now i bgTypeId be b arenaType arenaRating w =
     (let q = bw_queues w i in
      case rated_target arenaRating b q of
        None \<Rightarrow> Inr w
      | Some target \<Rightarrow>
         (case rated_teams (\<lambda>a. rated_match env now target (bq_heap q a))
                 (bq_groups q b BG_QUEUE_PREMADE_ALLIANCE) (bq_groups q b BG_QUEUE_PREMADE_HORDE) of
            [aTeam, hTeam] \<Rightarrow>
              res_bind (CreateNewBattleground env bgTypeId be arenaType True w) (\<lambda>(c, w1).
              case c of None \<Rightarrow> Inr w1 | Some c \<Rightarrow> start_rated env now i b aTeam hTeam c w1)
          | _ \<Rightarrow> Inr w))"

section \<open>The update of a queue\<close>

text \<open>A new battleground for the selected groups; without one the function returns at once.\<close>

definition start_selected :: "bg_env \<Rightarrow> uint32 \<Rightarrow> nat \<Rightarrow> uint32 \<Rightarrow> pvp_difficulty \<Rightarrow> uint8 \<Rightarrow> bg_world \<Rightarrow> fault + bool \<times> bg_world" where
  "start_selected env now i bgTypeId be arenaType w =
     res_bind (CreateNewBattleground env bgTypeId be arenaType False w) (\<lambda>(c, w1).
     case c of
       None \<Rightarrow> Inr (False, w1)
     | Some c \<Rightarrow> res_bind (invite_pools env now i c w1) (\<lambda>w2. Inr (True, StartBattleground c w2)))"

definition update_premade :: "bg_env \<Rightarrow> uint32 \<Rightarrow> nat \<Rightarrow> uint32 \<Rightarrow> pvp_difficulty \<Rightarrow> nat \<Rightarrow> uint32 \<Rightarrow> uint32 \<Rightarrow> bg_world
    \<Rightarrow> fault + bool \<times> bg_world" where
  "update_premade env now i bgTypeId be b minPlayers maxPlayers w =
     (let (found, q) = CheckPremadeMatch now (be_premadeWait env) b minPlayers maxPlayers (bw_queues w i);
          w1 = on_bgqueue i (\<lambda>_. q) w
      in if found then res_bind (start_selected env now i bgTypeId be 0 w1)
             (\<lambda>(go, w2). Inr (go, if go then on_bgqueue i InitPools w2 else w2))
         else Inr (True, w1))"

definition update_normal :: "bg_env \<Rightarrow> uint32 \<Rightarrow> nat \<Rightarrow> uint32 \<Rightarrow> pvp_difficulty \<Rightarrow> nat \<Rightarrow> bool \<Rightarrow> uint8 \<Rightarrow> uint32 \<Rightarrow> uint32 \<Rightarrow> bg_world
    \<Rightarrow> fault + bg_world" where
  "update_normal env now i bgTypeId be b isArena arenaType minPlayers maxPlayers w =
     res_bind (CheckNormalMatch (be_invitationType env) (bw_testing w) b minPlayers maxPlayers (bw_queues w i)) (\<lambda>(found, q).
     res_bind (if \<not> found \<and> isArena then CheckSkirmishForSameFaction b minPlayers q else Inr (found, q)) (\<lambda>(found, q).
     let w1 = on_bgqueue i (\<lambda>_. q) w
     in if found then res_bind (start_selected env now i bgTypeId be arenaType w1) (\<lambda>(_, w2). Inr w2) else Inr w1))"

definition BattlegroundQueueUpdate :: "bg_env \<Rightarrow> uint32 \<Rightarrow> nat \<Rightarrow> uint32 \<Rightarrow> nat \<Rightarrow> uint8 \<Rightarrow> bool \<Rightarrow> uint32 \<Rightarrow> bg_world \<Rightarrow> fault + bg_world" where
  "BattlegroundQueueUpdate env now i bgTypeId b arenaType isRated arenaRating w =
     (if list_all (\<lambda>j. bq_groups (bw_queues w i) b j = []) [0..<BG_QUEUE_GROUP_TYPES_COUNT] then Inr w
      else
       (let w0 = on_data bgTypeId (\<lambda>d. d) w
        in res_bind (forE (fill_running env now i bgTypeId b) (bd_FreeSlot (data_at bgTypeId w0)) w0) (\<lambda>w1.
           case GetBattlegroundTemplate bgTypeId w1 of
             None \<Rightarrow> Inr w1
           | Some t \<Rightarrow>
              (let bg = bw_bgs w1 t in
               case be_bracketById env (bg_MapId bg) b of
                 None \<Rightarrow> Inr w1
               | Some be \<Rightarrow>
                  (let maxPlayers = (if bg_IsArena bg then ucast arenaType else bg_MaxPlayersPerTeam bg);
                       minPlayers = (if bg_IsArena bg then (if bw_arenaTesting w1 then 1 else ucast arenaType)
                                     else if bw_testing w1 then 1 else bg_MinPlayersPerTeam bg);
                       w2 = on_bgqueue i InitPools w1
                   in res_bind (if \<not> bg_IsArena bg then update_premade env now i bgTypeId be b minPlayers maxPlayers w2
                                else Inr (True, w2))
                        (\<lambda>(go, w3).
                         if \<not> go then Inr w3
                         else if \<not> isRated then update_normal env now i bgTypeId be b (bg_IsArena bg) arenaType minPlayers maxPlayers w3
                         else if bg_IsArena bg then update_rated env now i bgTypeId be b arenaType arenaRating w3
                         else Inr w3))))))"

section \<open>The update of the manager\<close>

text \<open>The loop over the scheduled updates counts with eight bits.\<close>

partial_function (option) serve_scheduled :: "(uint64 \<Rightarrow> bg_world \<Rightarrow> fault + bg_world) \<Rightarrow> uint64 list \<Rightarrow> uint8 \<Rightarrow> bg_world
    \<Rightarrow> (fault + bg_world) option" where
  [code]: "serve_scheduled f scheduled i w =
     (if unat i < length scheduled then
        (case f (scheduled ! unat i) w of
           Inl e \<Rightarrow> Some (Inl e)
         | Inr w' \<Rightarrow> serve_scheduled f scheduled (i + 1) w')
      else Some (Inr w))"

definition scheduled_update :: "bg_env \<Rightarrow> uint32 \<Rightarrow> uint64 \<Rightarrow> bg_world \<Rightarrow> fault + bg_world" where
  "scheduled_update env now n w =
     (case schedule_fields n of (rating, arenaType, i, bgTypeId, b) \<Rightarrow>
        BattlegroundQueueUpdate env now i bgTypeId b arenaType (rating > 0) rating w)"

definition forced_update :: "bg_env \<Rightarrow> uint32 \<Rightarrow> nat \<times> nat \<Rightarrow> bg_world \<Rightarrow> fault + bg_world" where
  "forced_update env now ib w = (case ib of (i, b) \<Rightarrow>
     BattlegroundQueueUpdate env now i BATTLEGROUND_AA b (BGArenaType i) True 0 w)"

fun update_all_events :: "bg_env \<Rightarrow> uint32 \<Rightarrow> nat list \<Rightarrow> bg_world \<Rightarrow> (fault + bg_world) option" where
  "update_all_events env diff [] w = Some (Inr w)"
| "update_all_events env diff (i # is) w =
     (case UpdateEvents env diff i w of
        None \<Rightarrow> None
      | Some (Inl e) \<Rightarrow> Some (Inl e)
      | Some (Inr w') \<Rightarrow> update_all_events env diff is w')"

definition mgr_Update :: "bg_env \<Rightarrow> uint32 \<Rightarrow> uint32 \<Rightarrow> bg_world \<Rightarrow> (fault + bg_world) option" where
  "mgr_Update env now diff w0 =
     (let w1 = w0\<lparr>bw_updateTimer := bw_updateTimer w0 + diff\<rparr>;
          r2 = (if bw_updateTimer w1 > BATTLEGROUND_OBJECTIVE_UPDATE_INTERVAL
                then res_bind (delete_finished env w1) (\<lambda>w. Inr (w\<lparr>bw_updateTimer := 0\<rparr>)) else Inr w1)
      in case r2 of Inl e \<Rightarrow> Some (Inl e) | Inr w2 \<Rightarrow>
        (case update_all_events env diff [0..<MAX_BATTLEGROUND_QUEUE_TYPES] w2 of
           None \<Rightarrow> None
         | Some (Inl e) \<Rightarrow> Some (Inl e)
         | Some (Inr w3) \<Rightarrow>
            (case serve_scheduled (scheduled_update env now) (bw_sched w3) 0 (w3\<lparr>bw_sched := []\<rparr>) of
               None \<Rightarrow> None
             | Some (Inl e) \<Rightarrow> Some (Inl e)
             | Some (Inr w4) \<Rightarrow> Some
                (if be_maxRatingDifference env \<noteq> 0 \<and> be_ratedUpdateTimer env \<noteq> 0 then
                   (if bw_nextArenaUpdate w4 < diff then
                      res_bind (forE (forced_update env now)
                          (List.product [BATTLEGROUND_QUEUE_2v2..<BATTLEGROUND_QUEUE_5v5 + 1] [0..<MAX_BATTLEGROUND_BRACKETS]) w4)
                        (\<lambda>w5. Inr (w5\<lparr>bw_nextArenaUpdate := be_ratedUpdateTimer env\<rparr>))
                    else Inr (w4\<lparr>bw_nextArenaUpdate := bw_nextArenaUpdate w4 - diff\<rparr>))
                 else Inr w4))))"

end
