(* ===== verification/Bg_Handlers.thy ===== *)
theory Bg_Handlers
  imports Bg_Update
begin

text \<open>
  The handlers of \<^verbatim>\<open>src/src/server/game/Handlers/BattleGroundHandler.cpp\<close> that put players into a queue, answer an invitation or
  leave, with \<^verbatim>\<open>Group::CanJoinBattlegroundQueue\<close> (\<^verbatim>\<open>src/src/server/game/Groups/Group.cpp\<close>) and the part of a logout that leaves the
  queues (\<^verbatim>\<open>src/src/server/game/Server/WorldSession.cpp\<close>). What entering a battleground does to the player is recorded as an effect.
\<close>

section \<open>May a party join?\<close>

definition member_refusal :: "bg_env \<Rightarrow> bg_world \<Rightarrow> uint32 \<Rightarrow> nat \<Rightarrow> pvp_difficulty \<Rightarrow> uint32 \<Rightarrow> ObjectGuid \<Rightarrow> GroupJoinBattlegroundResult option" where
  "member_refusal env w bgTypeId i be team g =
     (if be_team env g \<noteq> team then Some ERR_BATTLEGROUND_JOIN_TIMED_OUT
      else if be_bracketByLevel env (dv_MapID be) (be_level env g) \<noteq> Some be then Some ERR_BATTLEGROUND_JOIN_RANGE_INDEX
      else if InBattlegroundQueueForBattlegroundQueueType i (bw_slots w g) then Some ERR_BATTLEGROUND_JOIN_FAILED
      else if InBattlegroundQueueForBattlegroundQueueType (BGQueueTypeId BATTLEGROUND_RB 0) (bw_slots w g) then Some ERR_IN_RANDOM_BG
      else if bgTypeId = BATTLEGROUND_RB \<and> InBattlegroundQueue (bw_slots w g) then Some ERR_IN_NON_RANDOM_BG
      else if bgTypeId \<noteq> BATTLEGROUND_AA \<and> \<not> be_canJoin env g bgTypeId then Some ERR_GROUP_JOIN_BATTLEGROUND_DESERTERS
      else if \<not> HasFreeBattlegroundQueueId (bw_slots w g) then Some ERR_BATTLEGROUND_TOO_MANY_QUEUES
      else if be_usingLfg env g then Some ERR_LFG_CANT_USE_BATTLEGROUND
      else if be_frozen env g then Some ERR_BATTLEGROUND_JOIN_FAILED
      else None)"

fun first_refusal :: "('a \<Rightarrow> 'b option) \<Rightarrow> 'a list \<Rightarrow> 'b option" where
  "first_refusal f [] = None"
| "first_refusal f (x # xs) = (case f x of None \<Rightarrow> first_refusal f xs | Some r \<Rightarrow> Some r)"

definition CanJoinBattlegroundQueue :: "bg_env \<Rightarrow> bg_world \<Rightarrow> bg_party \<Rightarrow> battleground \<Rightarrow> nat \<Rightarrow> nat
    \<Rightarrow> fault + GroupJoinBattlegroundResult" where
  "CanJoinBattlegroundQueue env w p bg i minPlayerCount =
     (if bp_isLFG p then Inr ERR_LFG_CANT_USE_BATTLEGROUND
      else case be_maxGroupSize env (bg_TypeID bg) of
        None \<Rightarrow> Inr ERR_BATTLEGROUND_JOIN_FAILED
      | Some maxSize \<Rightarrow>
          (if int (bp_membersCount p) > maxSize then Inr ERR_BATTLEGROUND_NONE
          else case bp_members p of
            [] \<Rightarrow> Inl fault.AssertionFailed
          | reference # _ \<Rightarrow>
             (case be_bracketByLevel env (bg_MapId bg) (be_level env reference) of
                None \<Rightarrow> Inr ERR_BATTLEGROUND_JOIN_FAILED
              | Some be \<Rightarrow>
                 (case first_refusal (member_refusal env w (bg_TypeID bg) i be (be_team env reference)) (bp_members p) of
                    Some r \<Rightarrow> Inr r
                  | None \<Rightarrow> Inr (if bg_IsArena bg \<and> length (bp_members p) \<noteq> minPlayerCount then ERR_ARENA_TEAM_PARTY_SIZE
                                 else ERR_BATTLEGROUND_NONE)))))"

section \<open>Joining\<close>

text \<open>What a player without a party is refused with; \<^verbatim>\<open>Some None\<close> is a refusal without an answer.\<close>

definition solo_refusal :: "bg_env \<Rightarrow> bg_world \<Rightarrow> battleground \<Rightarrow> uint32 \<Rightarrow> nat \<Rightarrow> bool \<Rightarrow> ObjectGuid \<Rightarrow> GroupJoinBattlegroundResult option option" where
  "solo_refusal env w bg bgTypeId i isArena g =
     (let random = BGQueueTypeId BATTLEGROUND_RB 0; slots = bw_slots w g in
      if be_usingLfg env g then Some (Some ERR_LFG_CANT_USE_BATTLEGROUND)
      else if \<not> be_canJoin env g (bg_TypeID bg) then Some (Some ERR_GROUP_JOIN_BATTLEGROUND_DESERTERS)
      else if \<not> isArena \<and> GetBattlegroundQueueIndex random slots < PLAYER_MAX_BATTLEGROUND_QUEUES then Some (Some ERR_IN_RANDOM_BG)
      else if \<not> isArena \<and> InBattlegroundQueue slots \<and> bgTypeId = BATTLEGROUND_RB then Some (Some ERR_IN_NON_RANDOM_BG)
      else if GetBattlegroundQueueIndex i slots < PLAYER_MAX_BATTLEGROUND_QUEUES then Some None
      else if \<not> HasFreeBattlegroundQueueId slots then Some (Some ERR_BATTLEGROUND_TOO_MANY_QUEUES)
      else if be_frozen env g then Some None
      else None)"

definition take_slot :: "uint32 \<Rightarrow> nat \<Rightarrow> uint32 \<Rightarrow> uint32 \<Rightarrow> uint8 \<Rightarrow> bool \<Rightarrow> ObjectGuid \<Rightarrow> bg_world \<Rightarrow> bg_world" where
  "take_slot now i joinTime avgTime arenaType asGroup g w =
     (let (k, slots) = AddBattlegroundQueueId now i (bw_slots w g)
      in bg_say (StatusQueued g k joinTime avgTime arenaType asGroup) (on_slots g (\<lambda>_. slots) w))"

definition join_solo :: "bg_env \<Rightarrow> uint32 \<Rightarrow> ObjectGuid \<Rightarrow> uint32 \<Rightarrow> nat \<Rightarrow> nat \<Rightarrow> uint8 \<Rightarrow> bg_world \<Rightarrow> bg_world" where
  "join_solo env now g bgTypeId i b arenaType w =
     (let (a, q) = AddGroup now g (be_team env g) None bgTypeId b arenaType False False 0 0 (bw_queues w i);
          gi = bq_heap q a
      in take_slot now i (gq_JoinTime gi) (GetAverageQueueWaitTime gi b q) (gq_ArenaType gi) False g (on_bgqueue i (\<lambda>_. q) w))"

text \<open>A party joins when \<open>err\<close> is \<^verbatim>\<open>ERR_BATTLEGROUND_NONE\<close>; otherwise all its members are told why it does not.\<close>

definition join_party :: "bg_env \<Rightarrow> uint32 \<Rightarrow> ObjectGuid \<Rightarrow> bg_party \<Rightarrow> uint32 \<Rightarrow> nat \<Rightarrow> nat \<Rightarrow> uint8 \<Rightarrow> bool \<Rightarrow> bool \<Rightarrow> uint32 \<Rightarrow> uint32
    \<Rightarrow> GroupJoinBattlegroundResult \<Rightarrow> bg_world \<Rightarrow> bg_world" where
  "join_party env now g p bgTypeId i b arenaType isRated isPremade rating mmr err w =
     (if err \<noteq> ERR_BATTLEGROUND_NONE then fold (\<lambda>m. bg_say (StatusFailed m err)) (bp_members p) w
      else
       (let (a, q) = AddGroup now g (be_team env g) (Some p) bgTypeId b arenaType isRated isPremade rating mmr (bw_queues w i);
            gi = bq_heap q a
        in fold (take_slot now i (gq_JoinTime gi) (GetAverageQueueWaitTime gi b q) (gq_ArenaType gi) True) (bp_members p)
             (on_bgqueue i (\<lambda>_. q) w)))"

definition HandleBattlemasterJoin :: "bg_env \<Rightarrow> uint32 \<Rightarrow> ObjectGuid \<Rightarrow> uint64 \<Rightarrow> bool \<Rightarrow> bg_world \<Rightarrow> fault + bg_world" where
  "HandleBattlemasterJoin env now g queueID asGroup w =
     (let bgTypeId = (ucast (queueID AND 0xFFFF) :: uint32); i = BGQueueTypeId bgTypeId 0 in
      if be_maxGroupSize env bgTypeId = None \<or> be_disabled env bgTypeId \<or> be_inBattleground env g then Inr w
      else case GetBattlegroundTemplate bgTypeId w of
        None \<Rightarrow> Inr w
      | Some c \<Rightarrow>
         (let bg = bw_bgs w c in
          case be_bracketByLevel env (bg_MapId bg) (be_level env g) of
            None \<Rightarrow> Inr w
          | Some be \<Rightarrow>
              (let done = ScheduleQueueUpdate 0 0 i bgTypeId (dv_RangeIndex be) in
               if \<not> asGroup then
                 (case solo_refusal env w bg bgTypeId i False g of
                    Some None \<Rightarrow> Inr w
                  | Some (Some r) \<Rightarrow> Inr (bg_say (StatusFailed g r) w)
                  | None \<Rightarrow> Inr (done (join_solo env now g bgTypeId i (dv_RangeIndex be) 0 w)))
               else
                 (case be_party env g of
                    None \<Rightarrow> Inr w
                  | Some p \<Rightarrow>
                      if bp_leader p \<noteq> g then Inr w
                      else res_bind (CanJoinBattlegroundQueue env w p bg i 0) (\<lambda>err.
                        let isPremade = unat (bg_MinPlayersPerTeam bg) \<le> bp_membersCount p
                        in Inr (done (join_party env now g p bgTypeId i (dv_RangeIndex be) 0 False isPremade 0 0 err w)))))))"

definition HandleBattlemasterJoinArena :: "bg_env \<Rightarrow> uint32 \<Rightarrow> ObjectGuid \<Rightarrow> uint8 \<Rightarrow> bg_world \<Rightarrow> fault + bg_world" where
  "HandleBattlemasterJoinArena env now g slot w =
     (if be_inBattleground env g then Inr w
      else
       (let arenaType = GetTypeBySlot slot in
        case GetBattlegroundTemplate BATTLEGROUND_AA w of
          None \<Rightarrow> Inr w
        | Some c \<Rightarrow>
            if be_disabled env BATTLEGROUND_AA then Inr w
            else
             (let bg = bw_bgs w c; bgTypeId = bg_TypeID bg; i = BGQueueTypeId bgTypeId arenaType in
              case be_bracketByLevel env (bg_MapId bg) (be_level env g) of
                None \<Rightarrow> Inr w
              | Some be \<Rightarrow>
                 (case be_party env g of
                    None \<Rightarrow> Inr w
                  | Some p \<Rightarrow>
                      if bp_leader p \<noteq> g then Inr w
                      else
                       (let rating = (if be_rating env (bp_id p) slot = 0 then 1 else be_rating env (bp_id p) slot);
                            mmr = be_averageMMR env (bp_id p) slot
                        in res_bind (CanJoinBattlegroundQueue env w p bg i (unat arenaType)) (\<lambda>err.
                           Inr (ScheduleQueueUpdate mmr arenaType i bgTypeId (dv_RangeIndex be)
                             (join_party env now g p bgTypeId i (dv_RangeIndex be) arenaType True False rating mmr err w))))))))"

text \<open>The party is read only after the type was chosen, so that a skirmish is always one of two against two.\<close>

definition HandleBattlemasterJoinArenaSkirmish :: "bg_env \<Rightarrow> uint32 \<Rightarrow> ObjectGuid \<Rightarrow> bg_world \<Rightarrow> fault + bg_world" where
  "HandleBattlemasterJoinArenaSkirmish env now g w =
     (case GetBattlegroundTemplate BATTLEGROUND_AA w of
        None \<Rightarrow> Inr w
      | Some c \<Rightarrow>
          if be_disabled env BATTLEGROUND_AA then Inr w
          else
           (let bg = bw_bgs w c; arenaType = Arena2v2; i = BGQueueTypeId BATTLEGROUND_AA arenaType in
            if be_inBattleground env g then Inr w
            else case be_bracketByLevel env (bg_MapId bg) (be_level env g) of
              None \<Rightarrow> Inr w
            | Some be \<Rightarrow>
               (let done = ScheduleQueueUpdate 0 arenaType i BATTLEGROUND_AA (dv_RangeIndex be) in
                case be_party env g of
                  None \<Rightarrow>
                   (case solo_refusal env w bg BATTLEGROUND_AA i True g of
                      Some None \<Rightarrow> Inr w
                    | Some (Some r) \<Rightarrow> Inr (bg_say (StatusFailed g r) w)
                    | None \<Rightarrow> Inr (done (join_solo env now g BATTLEGROUND_AA i (dv_RangeIndex be) arenaType w)))
                | Some p \<Rightarrow>
                    if bp_leader p \<noteq> g then Inr w
                    else res_bind (CanJoinBattlegroundQueue env w p bg i (unat arenaType)) (\<lambda>err.
                      let isPremade = unat (bg_MinPlayersPerTeam bg) \<le> bp_membersCount p
                      in Inr (done (join_party env now g p BATTLEGROUND_AA i (dv_RangeIndex be) arenaType False isPremade 0 0 err w))))))"

section \<open>Answers to an invitation\<close>

definition enter_battle :: "bg_env \<Rightarrow> ObjectGuid \<Rightarrow> nat \<Rightarrow> nat \<Rightarrow> nat \<Rightarrow> group_queue_info \<Rightarrow> bg_world \<Rightarrow> fault + bg_world" where
  "enter_battle env g k i c gi w =
     (if be_frozen env g \<or> \<not> IsInvitedForBattlegroundQueueType i (bw_slots w g) then Inr w
      else
       (let bg = bw_bgs w c;
            w1 = bg_say (StatusActive g (bg_InstanceID bg) k (GetBattlegroundQueueJoinTime i (bw_slots w g))) w
        in res_bind (RemovePlayer env i False g w1) (\<lambda>w2.
           let w3 = (if be_inBattleground env g then bg_say (LeaveCurrentBattleground g) w2 else w2)
           in Inr (bg_say (EnterBattleground g (bg_InstanceID bg) (bg_TypeID bg) (gq_Team gi)) w3))))"

definition leave_bgqueue :: "bg_env \<Rightarrow> ObjectGuid \<Rightarrow> nat \<Rightarrow> nat \<Rightarrow> uint32 \<Rightarrow> nat \<Rightarrow> uint32 \<Rightarrow> group_queue_info \<Rightarrow> bg_world \<Rightarrow> fault + bg_world" where
  "leave_bgqueue env g k i bgTypeId b ticketTime gi w =
     res_bind (RemovePlayer env i True g (on_slots g (RemoveBattlegroundQueueId i) (bg_say (StatusNone g k ticketTime) w))) (\<lambda>w1.
     Inr (if gq_ArenaType gi = 0 then ScheduleQueueUpdate (gq_ArenaMatchmakerRating gi) (gq_ArenaType gi) i bgTypeId b w1 else w1))"

definition HandleBattleFieldPort :: "bg_env \<Rightarrow> ObjectGuid \<Rightarrow> nat \<Rightarrow> uint32 \<Rightarrow> bool \<Rightarrow> bg_world \<Rightarrow> fault + bg_world" where
  "HandleBattleFieldPort env g ticketId ticketTime accepted w =
     (let i = GetBattlegroundQueueTypeId ticketId (bw_slots w g) in
      if \<not> InBattlegroundQueue (bw_slots w g) \<or> i = BATTLEGROUND_QUEUE_NONE then Inr w
      else case GetPlayerGroupInfoData g (bw_queues w i) of
        None \<Rightarrow> Inr w
      | Some gi \<Rightarrow>
          if \<not> gq_invited gi \<and> accepted then Inr w
          else
           (let t0 = BGTemplateId i;
                running = GetBattleground (gq_IsInvitedToBGInstanceGUID gi) (if t0 = BATTLEGROUND_AA then BATTLEGROUND_TYPE_NONE else t0) w
            in case (case running of Some c \<Rightarrow> Some c | None \<Rightarrow> if accepted then None else GetBattlegroundTemplate t0 w) of
                 None \<Rightarrow> Inr w
               | Some c \<Rightarrow>
                  (let bg = bw_bgs w c in
                   case be_bracketByLevel env (bg_MapId bg) (be_level env g) of
                     None \<Rightarrow> Inr w
                   | Some be \<Rightarrow>
                      (let check = accepted \<and> gq_ArenaType gi = 0;
                           barred = check \<and> \<not> be_canJoin env g (bg_TypeID bg);
                           accepted' = (accepted \<and> \<not> barred \<and> \<not> (check \<and> bg_LevelMax bg < be_level env g));
                           w1 = (if barred then bg_say (StatusFailed g ERR_GROUP_JOIN_BATTLEGROUND_DESERTERS) w else w)
                       in if accepted' then enter_battle env g ticketId i c gi w1
                          else leave_bgqueue env g ticketId i (bg_TypeID bg) (dv_RangeIndex be) ticketTime gi w1))))"

section \<open>Logging out\<close>

definition logout_slot :: "bg_env \<Rightarrow> ObjectGuid \<Rightarrow> nat \<Rightarrow> bg_world \<Rightarrow> fault + bg_world" where
  "logout_slot env g k w =
     (let i = GetBattlegroundQueueTypeId k (bw_slots w g)
      in if i \<noteq> BATTLEGROUND_QUEUE_NONE
         then RemovePlayer env i True g (on_slots g (RemoveBattlegroundQueueId i) w) else Inr w)"

definition LogoutPlayer_queues :: "bg_env \<Rightarrow> ObjectGuid \<Rightarrow> bg_world \<Rightarrow> fault + bg_world" where
  "LogoutPlayer_queues env g w = forE (logout_slot env g) [0..<PLAYER_MAX_BATTLEGROUND_QUEUES] w"

end
