(* ===== verification/Bg_Match.thy ===== *)
theory Bg_Match
  imports Bg_Handlers
begin

text \<open>
  What the selections of a queue guarantee: the counters of the pools are exact, filling a running battleground ends, stays within
  the free places and leaves the teams balanced, a normal match has between the smallest and the largest number of players on
  both sides, and a match of premade groups takes nobody but them.
\<close>

section \<open>Exact pools\<close>

abbreviation pool_total :: "(nat \<Rightarrow> group_queue_info) \<Rightarrow> selection_pool \<Rightarrow> nat" where
  "pool_total h p \<equiv> (\<Sum>a \<leftarrow> sp_SelectedGroups p. gq_size (h a))"

text \<open>The counter is the number of players of the selected groups, which wait in the given list and are not invited.\<close>

definition pool_ok :: "(nat \<Rightarrow> group_queue_info) \<Rightarrow> nat list \<Rightarrow> nat \<Rightarrow> selection_pool \<Rightarrow> bool" where
  "pool_ok h xs m p \<longleftrightarrow> unat (sp_PlayerCount p) = pool_total h p \<and> pool_total h p \<le> m \<and>
     set (sp_SelectedGroups p) \<subseteq> {a \<in> set xs. \<not> gq_invited (h a)}"

lemma pool_ok_empty [simp, intro]: "pool_ok h xs m SelectionPool"
  by (simp add: pool_ok_def SelectionPool_def)

lemma pool_ok_count: "pool_ok h xs m p \<Longrightarrow> unat (sp_PlayerCount p) \<le> m"
  by (simp add: pool_ok_def)

lemma pool_AddGroup_ok:
  assumes "pool_ok h xs m p" "a \<in> set xs" "unat d \<le> m"
  shows "pool_ok h xs m (snd (pool_AddGroup h a d p))"
proof (cases "\<not> gq_invited (h a) \<and> unat (sp_PlayerCount p) + gq_size (h a) \<le> unat d")
  case True
  moreover have "unat d < 2 ^ 32" by (rule order_less_le_trans [OF unsigned_less]) simp
  ultimately have "unat (sp_PlayerCount p) + gq_size (h a) < 2 ^ 32" by linarith
  then have "unat (sp_PlayerCount p + of_nat (gq_size (h a))) = unat (sp_PlayerCount p) + gq_size (h a)"
    by (simp add: unat_word_ariths unat_of_nat)
  with True assms show ?thesis by (auto simp: pool_AddGroup_def pool_ok_def)
next
  case False
  with assms(1) show ?thesis by (auto simp: pool_AddGroup_def)
qed

lemma pool_fill_ok:
  assumes "pool_ok h xs m p" "set as \<subseteq> set xs" "unat d \<le> m"
  shows "pool_ok h xs m (snd (pool_fill h d as p)) \<and> set (fst (pool_fill h d as p)) \<subseteq> set xs"
  using assms
proof (induction as arbitrary: p)
  case (Cons a as)
  obtain ok p' where p': "pool_AddGroup h a d p = (ok, p')" by force
  with pool_AddGroup_ok [of h xs m p a d] Cons.prems have "pool_ok h xs m p'" by simp
  with Cons p' show ?case by (cases ok) auto
qed simp

text \<open>Whoever is left out although not invited does not fit any more.\<close>

lemma pool_fill_mono: "pool_ok h xs m p \<Longrightarrow> set as \<subseteq> set xs \<Longrightarrow> unat d \<le> m \<Longrightarrow>
    unat (sp_PlayerCount p) \<le> unat (sp_PlayerCount (snd (pool_fill h d as p))) \<and>
    set (sp_SelectedGroups p) \<subseteq> set (sp_SelectedGroups (snd (pool_fill h d as p)))"
proof (induction as arbitrary: p)
  case (Cons a as)
  obtain ok p' where p': "pool_AddGroup h a d p = (ok, p')" by force
  have ok': "pool_ok h xs m p'" using pool_AddGroup_ok [of h xs m p a d] Cons.prems p' by simp
  have "sp_SelectedGroups p' = sp_SelectedGroups p \<or> sp_SelectedGroups p' = sp_SelectedGroups p @ [a]"
    using p' by (auto simp: pool_AddGroup_def split: if_splits)
  then have "unat (sp_PlayerCount p) \<le> unat (sp_PlayerCount p') \<and> set (sp_SelectedGroups p) \<subseteq> set (sp_SelectedGroups p')"
    using Cons.prems(1) ok' by (auto simp: pool_ok_def)
  with Cons.IH [OF ok'] Cons.prems p' show ?case by (cases ok) auto
qed simp

lemma pool_fill_maximal:
  assumes "pool_ok h xs m p" "set as \<subseteq> set xs" "unat d \<le> m" "unat (sp_PlayerCount p) \<le> unat d"
    and "a \<in> set as" "\<not> gq_invited (h a)" "a \<notin> set (sp_SelectedGroups (snd (pool_fill h d as p)))"
  shows "sp_PlayerCount (snd (pool_fill h d as p)) = d \<or>
    unat d < unat (sp_PlayerCount (snd (pool_fill h d as p))) + gq_size (h a)"
  using assms
proof (induction as arbitrary: p)
  case (Cons b as)
  obtain ok p' where p': "pool_AddGroup h b d p = (ok, p')" by force
  have ok': "pool_ok h xs m p'" using pool_AddGroup_ok [of h xs m p b d] Cons.prems p' by simp
  note mono = pool_fill_mono [OF ok', of as d]
  show ?case
  proof (cases ok)
    case False
    then have "p' = p" "\<not> sp_PlayerCount p < d" using p' by (auto simp: pool_AddGroup_def split: if_splits)
    then have "sp_PlayerCount p = d" using Cons.prems(4) by (simp add: word_less_nat_alt word_unat_eq_iff)
    with p' False \<open>p' = p\<close> show ?thesis by simp
  next
    case True
    have le: "unat (sp_PlayerCount p') \<le> unat d"
    proof (cases "\<not> gq_invited (h b) \<and> unat (sp_PlayerCount p) + gq_size (h b) \<le> unat d")
      case True
      moreover have "unat d < 2 ^ 32" by (rule order_less_le_trans [OF unsigned_less]) simp
      ultimately have "unat (sp_PlayerCount p + of_nat (gq_size (h b))) = unat (sp_PlayerCount p) + gq_size (h b)"
        by (simp add: unat_word_ariths unat_of_nat)
      with True p' show ?thesis by (auto simp: pool_AddGroup_def)
    qed (use p' Cons.prems(4) in \<open>auto simp: pool_AddGroup_def split: if_splits\<close>)
    show ?thesis
    proof (cases "a \<in> set as")
      case True
      with Cons.IH [OF ok' _ _ le] Cons.prems p' \<open>ok\<close> show ?thesis by simp
    next
      case False
      then have "a = b" using Cons.prems(5) by simp
      moreover have "b \<notin> set (sp_SelectedGroups p')" using mono Cons.prems p' \<open>ok\<close> \<open>a = b\<close> by auto
      ultimately have "unat d < unat (sp_PlayerCount p) + gq_size (h a)" "sp_PlayerCount p' = sp_PlayerCount p"
        using p' Cons.prems(6) by (auto simp: pool_AddGroup_def split: if_splits)
      with mono Cons.prems p' \<open>ok\<close> show ?thesis by auto
    qed
  qed
qed simp

lemma fill_uninvited_ok:
  assumes "pool_ok h xs m p" "set as \<subseteq> set xs" "unat d \<le> m"
  shows "pool_ok h xs m (fill_uninvited h d as p)"
  using assms
proof (induction as arbitrary: p)
  case (Cons a as)
  obtain ok p' where p': "pool_AddGroup h a d p = (ok, p')" by force
  with pool_AddGroup_ok [of h xs m p a d] Cons.prems have "pool_ok h xs m p'" by simp
  with Cons p' show ?case by (cases ok) auto
qed simp

lemma fill_to_min_ok:
  assumes "pool_ok h xs m p" "set as \<subseteq> set xs" "unat d \<le> m"
  shows "pool_ok h xs m (snd (fill_to_min h k d as p)) \<and> set (fst (fill_to_min h k d as p)) \<subseteq> set xs"
  using assms
proof (induction as arbitrary: p)
  case (Cons a as)
  then have "pool_ok h xs m (snd (pool_AddGroup h a d p))" by (intro pool_AddGroup_ok) auto
  with Cons show ?case by (simp add: Let_def)
qed simp

text \<open>A list that is used up without reaching the smallest number of players leaves the pool below it.\<close>

lemma fill_to_min_short:
  "fst (fill_to_min h k d as p) = [] \<Longrightarrow> sp_PlayerCount p < k \<Longrightarrow> sp_PlayerCount (snd (fill_to_min h k d as p)) < k"
  by (induction as arbitrary: p) (auto simp: Let_def split: if_splits)

section \<open>Kicking a group\<close>

lemma kick_scan_bound:
  "k < i \<or> gs \<noteq> [] \<and> k \<le> i \<Longrightarrow> kick_scan h sz xs i gs found k < i + length gs"
proof (induction gs arbitrary: i found k)
  case (Cons g gs)
  have "kick_scan h sz xs (i + 1) gs f j < i + 1 + length gs" if "j \<le> i" for f j
    using that by (intro Cons.IH) simp
  with Cons.prems show ?case by auto
qed simp

text \<open>A pool with players in it loses one group; no iterator past the end is followed.\<close>

lemma KickGroup_ok:
  assumes "pool_ok h xs m p"
  shows "\<exists>again p'. KickGroup h sz p = Inr (again, p') \<and> pool_ok h xs m p'"
proof (cases "sp_PlayerCount p = 0")
  case True
  with assms show ?thesis by (intro exI [of _ True] exI [of _ p]) (simp add: KickGroup_def)
next
  case False
  let ?s = "sp_SelectedGroups p"
  define k where "k = kick_scan h sz ?s 0 ?s False 0"
  from False assms have "?s \<noteq> []" by (auto simp: pool_ok_def unat_eq_0)
  then have k: "k < length ?s" using kick_scan_bound [of 0 0 ?s h sz ?s False] by (simp add: k_def)
  then obtain g rest where d: "drop k ?s = g # rest" by (metis Cons_nth_drop_Suc)
  have s: "?s = take k ?s @ g # rest" using d by (metis append_take_drop_id)
  have t: "pool_total h p = (\<Sum>a \<leftarrow> take k ?s @ rest. gq_size (h a)) + gq_size (h g)"
    by (subst s) simp
  have u: "unat (sp_PlayerCount p) = pool_total h p" "pool_total h p \<le> m" using assms by (simp_all add: pool_ok_def)
  have "pool_total h p < 2 ^ 32"
    unfolding u(1) [symmetric] by (rule order_less_le_trans [OF unsigned_less]) simp
  then have "gq_size (h g) < 2 ^ 32" using t by linarith
  then have n: "unat (of_nat (gq_size (h g)) :: uint32) = gq_size (h g)" by (simp add: unat_of_nat)
  then have "(of_nat (gq_size (h g)) :: uint32) \<le> sp_PlayerCount p"
    using u t by (simp add: word_le_nat_alt)
  then have "unat (sp_PlayerCount p - of_nat (gq_size (h g))) = (\<Sum>a \<leftarrow> take k ?s @ rest. gq_size (h a))"
    using n u t by (simp add: unat_sub)
  moreover have "set (take k ?s @ rest) \<subseteq> set ?s" using arg_cong [OF s, of set] by auto
  ultimately have "pool_ok h xs m \<lparr>sp_SelectedGroups = take k ?s @ rest, sp_PlayerCount = sp_PlayerCount p - of_nat (gq_size (h g))\<rparr>"
    using assms t by (auto simp: pool_ok_def)
  with False show ?thesis by (simp add: KickGroup_def k_def [symmetric] d)
qed

section \<open>Filling a running battleground\<close>

lemma sint_count: "uint x < 2 ^ 31 \<Longrightarrow> sint (x :: uint32) = uint x"
  unfolding sint_uint by (rule signed_take_bit_int_eq_self) (simp_all add: order_trans [OF _ uint_ge_0])

lemma unat_of_free: "0 \<le> k \<Longrightarrow> k < 2 ^ 31 \<Longrightarrow> unat (word_of_int k :: uint32) = nat k"
  by (simp add: unat_eq_nat_uint uint_word_of_int)

definition side_ok :: "(nat \<Rightarrow> group_queue_info) \<Rightarrow> nat list \<Rightarrow> int \<Rightarrow> side \<Rightarrow> bool" where
  "side_ok h xs free s \<longleftrightarrow> 0 \<le> free \<and> free < 2 ^ 31 \<and> pool_ok h xs (nat free) (snd s) \<and> set (fst s) \<subseteq> set xs"

lemma side_ok_diff: "side_ok h xs free s \<Longrightarrow> side_diff free s = free - uint (sp_PlayerCount (snd s)) \<and> 0 \<le> side_diff free s"
proof -
  assume s: "side_ok h xs free s"
  then have "uint (sp_PlayerCount (snd s)) \<le> free" by (auto simp: side_ok_def le_nat_iff dest!: pool_ok_count)
  with s show ?thesis by (simp add: side_ok_def sint_count)
qed

text \<open>A turn keeps both pools exact; it stops the loop when the pool of its team is empty and the other has no more than one place more.\<close>

lemma balance_turn_ok:
  assumes ok: "side_ok h xs free s" "side_ok h xs' free' s'" and diff: "diff' = side_diff free' s'"
  shows "\<exists>stop t t'. balance_turn h free diff diff' s s' = Inr (stop, t, t') \<and> side_ok h xs free t \<and> side_ok h xs' free' t' \<and>
    (stop \<longrightarrow> t' = s' \<and> sp_PlayerCount (snd t) = 0 \<and> free \<le> diff' + 1)"
proof -
  obtain again p where k: "KickGroup h (word_of_int (diff' - diff)) (snd s) = Inr (again, p)" and p: "pool_ok h xs (nat free) p"
    using ok(1) KickGroup_ok unfolding side_ok_def by blast
  define d :: uint32 where "d = word_of_int (if diff' \<le> free then free - diff' else 0)"
  define s1 where "s1 = (if again then pool_fill h d (fst s) p else (fst s, p))"
  have d: "unat d \<le> nat free"
    using ok(1) side_ok_diff [OF ok(2)] diff by (auto simp: d_def side_ok_def unat_of_free)
  then have s1: "side_ok h xs free s1"
    using ok(1) p pool_fill_ok [of h xs "nat free" p "fst s" d] by (auto simp: s1_def side_ok_def)
  obtain again' p' where k': "KickGroup h (word_of_int (diff' - diff)) (snd s') = Inr (again', p')" and p': "pool_ok h xs' (nat free') p'"
    using ok(2) KickGroup_ok unfolding side_ok_def by blast
  have s2: "side_ok h xs' free' (fst s', p')" using ok(2) p' by (simp add: side_ok_def)
  have turn: "balance_turn h free diff diff' s s' =
      (if sp_PlayerCount (snd s1) = 0 then
         (if free \<le> diff' + 1 then Inr (True, s1, s') else Inr (False, s1, (fst s', p')))
       else Inr (False, s1, s'))"
    unfolding balance_turn_def k k' res_bind_simps prod.case Let_def s1_def d_def by (rule refl)
  consider "sp_PlayerCount (snd s1) = 0" "free \<le> diff' + 1" | "sp_PlayerCount (snd s1) = 0" "\<not> free \<le> diff' + 1"
    | "sp_PlayerCount (snd s1) \<noteq> 0" by blast
  then show ?thesis
    by cases (use turn s1 s2 ok(2) in \<open>simp_all only: if_True if_False simp_thms\<close>, blast+)
qed

abbreviation balanced :: "int \<Rightarrow> side \<Rightarrow> int \<Rightarrow> side \<Rightarrow> bool" where
  "balanced free s free' s' \<equiv> side_diff free s + 1 < side_diff free' s' \<longrightarrow> sp_PlayerCount (snd s) = 0"

lemma balance_loop_ok:
  "side_ok h xs aliFree sa \<Longrightarrow> side_ok h ys hordeFree sh \<Longrightarrow>
     \<exists>ta th. balance_loop h aliFree hordeFree sa sh = Inr (ta, th) \<and> side_ok h xs aliFree ta \<and> side_ok h ys hordeFree th \<and>
       balanced aliFree ta hordeFree th \<and> balanced hordeFree th aliFree ta"
proof (induction h aliFree hordeFree sa sh rule: balance_loop.induct)
  case (1 h aliFree hordeFree sa sh)
  let ?da = "side_diff aliFree sa" and ?dh = "side_diff hordeFree sh"
  show ?case
  proof (cases "\<bar>?da - ?dh\<bar> > 1 \<and> (sp_PlayerCount (snd sh) > 0 \<or> sp_PlayerCount (snd sa) > 0)")
    case False
    then have "sp_PlayerCount (snd sa) = 0 \<and> sp_PlayerCount (snd sh) = 0 \<or> \<bar>?da - ?dh\<bar> \<le> 1" by (auto simp: word_gt_0)
    then have "balanced aliFree sa hordeFree sh \<and> balanced hordeFree sh aliFree sa" by auto
    moreover have "balance_loop h aliFree hordeFree sa sh = Inr (sa, sh)"
      by (subst balance_loop.simps, rule if_not_P, rule False)
    ultimately show ?thesis using 1(3,4) by blast
  next
    case True
    show ?thesis
    proof (cases "?da < ?dh")
      case less: True
      obtain stop t t' where turn: "balance_turn h aliFree ?da ?dh sa sh = Inr (stop, t, t')"
        and t: "side_ok h xs aliFree t" "side_ok h ys hordeFree t'"
        and stop: "stop \<longrightarrow> t' = sh \<and> sp_PlayerCount (snd t) = 0 \<and> aliFree \<le> ?dh + 1"
        using balance_turn_ok [OF 1(3,4) refl] by blast
      have loop: "balance_loop h aliFree hordeFree sa sh = (if stop then Inr (t, t') else balance_loop h aliFree hordeFree t t')"
        by (subst balance_loop.simps) (simp only: True less turn if_True sum.case prod.case simp_thms)
      show ?thesis
      proof (cases stop)
        case True
        with stop t side_ok_diff [OF t(1)] have "balanced aliFree t hordeFree t' \<and> balanced hordeFree t' aliFree t" by simp
        with loop True t show ?thesis by simp
      next
        case False
        with 1(1) [OF True less turn] t loop show ?thesis by simp
      qed
    next
      case more: False
      obtain stop t t' where turn: "balance_turn h hordeFree ?dh ?da sh sa = Inr (stop, t, t')"
        and t: "side_ok h ys hordeFree t" "side_ok h xs aliFree t'"
        and stop: "stop \<longrightarrow> t' = sa \<and> sp_PlayerCount (snd t) = 0 \<and> hordeFree \<le> ?da + 1"
        using balance_turn_ok [OF 1(4,3) refl] by blast
      have loop: "balance_loop h aliFree hordeFree sa sh = (if stop then Inr (t', t) else balance_loop h aliFree hordeFree t' t)"
        by (subst balance_loop.simps) (simp only: True more turn if_True if_False sum.case prod.case simp_thms)
      show ?thesis
      proof (cases stop)
        case True
        with stop t side_ok_diff [OF t(1)] have "balanced aliFree t' hordeFree t \<and> balanced hordeFree t aliFree t'" by simp
        with loop True t show ?thesis by simp
      next
        case False
        with 1(2) [OF True more turn] t loop show ?thesis by simp
      qed
    qed
  qed
qed

lemma GetFreeSlotsForTeam_bound: "GetFreeSlotsForTeam mode team bg \<le> bg_MaxPlayersPerTeam bg"
proof -
  have room: "(if x < m then m - x else 0) \<le> m" for x m :: uint32
    by (auto intro: word_sub_le)
  then have least: "min (min d (if x < m then m - x else 0)) e \<le> m" for d e x m :: uint32
    by (meson min.cobounded1 min.cobounded2 order_trans)
  show ?thesis
  proof (cases "bg_Status bg = STATUS_WAIT_JOIN \<and> mode = BG_QUEUE_INVITATION_TYPE_NO_BALANCE")
    case True
    then show ?thesis by (simp only: GetFreeSlotsForTeam_def Let_def simp_thms if_True room)
  next
    case False
    then show ?thesis
      by (cases "bg_Status bg = STATUS_IN_PROGRESS \<or> bg_Status bg = STATUS_WAIT_JOIN")
        (simp_all only: GetFreeSlotsForTeam_def Let_def if_True if_False least word_zero_le)
  qed
qed

lemma free_places_bound:
  assumes "bg_MaxPlayersPerTeam bg < 2 ^ 31" "free_places mode bg ali horde = (fa, fh)"
  shows "0 \<le> fa \<and> fa \<le> uint (GetFreeSlotsForTeam mode ALLIANCE bg) \<and> fa < 2 ^ 31 \<and>
    0 \<le> fh \<and> fh \<le> uint (GetFreeSlotsForTeam mode HORDE bg) \<and> fh < 2 ^ 31"
proof -
  have "GetFreeSlotsForTeam mode team bg < 2 ^ 31" for team
    using GetFreeSlotsForTeam_bound [of mode team bg] assms(1) by simp
  then have "uint (GetFreeSlotsForTeam mode team bg) < 2 ^ 31" for team
    by (simp add: word_less_def)
  then show ?thesis using assms(2) by (auto simp: free_places_def Let_def sint_count split: if_splits)
qed

lemma pool_ok_mono: "pool_ok h xs m p \<Longrightarrow> m \<le> n \<Longrightarrow> pool_ok h xs n p"
  by (simp add: pool_ok_def)

lemma InitPools_frame [simp]:
  "bq_heap (InitPools q) = bq_heap q" "bq_groups (InitPools q) = bq_groups q" "bq_players (InitPools q) = bq_players q"
  "bq_pools (InitPools q) TEAM_ALLIANCE = SelectionPool" "bq_pools (InitPools q) TEAM_HORDE = SelectionPool"
  "bq_next (InitPools q) = bq_next q"
  by (simp_all add: InitPools_def TEAM_ALLIANCE_def TEAM_HORDE_def)

text \<open>C9: filling a running battleground returns, whatever the sizes of the queued groups: the loop that balances the teams
  ends and follows no iterator past the end. Of each team exactly the counted players are selected, all from groups in the normal
  queue of the team that are not invited yet, and not more than the team has free places. Without balancing, which is the default of
  the configuration, the teams may end up of any sizes, but nobody who fits is left out: a waiting group that is not invited is selected, or its
  team is full, or the group is larger than what is left. With balancing a team can be left with at least two free places less than the other
  only when nobody of it is selected.\<close>

theorem filling_is_bounded_and_balanced:
  assumes "bg_MaxPlayersPerTeam bg < 2 ^ 31"
  shows "\<exists>q'. FillPlayersToBG mode bg b (InitPools q) = Inr q' \<and>
    (\<forall>(t, team) \<in> {(TEAM_ALLIANCE, ALLIANCE), (TEAM_HORDE, HORDE)}. let p = bq_pools q' t in
       unat (sp_PlayerCount p) = (\<Sum>a \<leftarrow> sp_SelectedGroups p. gq_size (bq_heap q a)) \<and>
       sp_PlayerCount p \<le> GetFreeSlotsForTeam mode team bg \<and>
       set (sp_SelectedGroups p) \<subseteq> {a \<in> set (bq_groups q b (BG_QUEUE_NORMAL_ALLIANCE + t)). \<not> gq_invited (bq_heap q a)}) \<and>
    (mode = BG_QUEUE_INVITATION_TYPE_NO_BALANCE \<longrightarrow>
      (\<forall>(t, team) \<in> {(TEAM_ALLIANCE, ALLIANCE), (TEAM_HORDE, HORDE)}. let p = bq_pools q' t; free = GetFreeSlotsForTeam mode team bg in
        \<forall>a \<in> set (bq_groups q b (BG_QUEUE_NORMAL_ALLIANCE + t)). gq_invited (bq_heap q a) \<or> a \<in> set (sp_SelectedGroups p) \<or>
          sp_PlayerCount p = free \<or> unat free < unat (sp_PlayerCount p) + gq_size (bq_heap q a))) \<and>
    (mode \<noteq> BG_QUEUE_INVITATION_TYPE_NO_BALANCE \<longrightarrow>
      (let (fa, fh) = free_places mode bg (bq_groups q b BG_QUEUE_NORMAL_ALLIANCE) (bq_groups q b BG_QUEUE_NORMAL_HORDE);
           ca = sp_PlayerCount (bq_pools q' TEAM_ALLIANCE); ch = sp_PlayerCount (bq_pools q' TEAM_HORDE)
       in (fa - uint ca + 1 < fh - uint ch \<longrightarrow> ca = 0) \<and> (fh - uint ch + 1 < fa - uint ca \<longrightarrow> ch = 0)))"
proof -
  let ?h = "bq_heap q" and ?ali = "bq_groups q b BG_QUEUE_NORMAL_ALLIANCE" and ?horde = "bq_groups q b BG_QUEUE_NORMAL_HORDE"
  obtain fa fh where f: "free_places mode bg ?ali ?horde = (fa, fh)" by force
  note fb = free_places_bound [OF assms f]
  define sa where "sa = pool_fill ?h (word_of_int fa) ?ali SelectionPool"
  define sh where "sh = pool_fill ?h (word_of_int fh) ?horde SelectionPool"
  have sa: "side_ok ?h ?ali fa sa" and sh: "side_ok ?h ?horde fh sh"
    using fb pool_fill_ok [of ?h ?ali "nat fa" SelectionPool ?ali "word_of_int fa"]
      pool_fill_ok [of ?h ?horde "nat fh" SelectionPool ?horde "word_of_int fh"]
    by (simp_all add: side_ok_def sa_def sh_def unat_of_free)
  obtain ta th where loop: "balance_loop ?h fa fh sa sh = Inr (ta, th)" "side_ok ?h ?ali fa ta" "side_ok ?h ?horde fh th"
      "balanced fa ta fh th" "balanced fh th fa ta"
    using balance_loop_ok [OF sa sh] by blast
  define r where "r = (if mode = BG_QUEUE_INVITATION_TYPE_NO_BALANCE then (sa, sh) else (ta, th))"
  obtain ra rh where rr: "r = (ra, rh)" by (rule prod.exhaust)
  have ok: "side_ok ?h ?ali fa ra" "side_ok ?h ?horde fh rh"
    using rr sa sh loop(2,3) by (auto simp: r_def split: if_splits)
  let ?q = "pool_update TEAM_HORDE (snd rh) (pool_update TEAM_ALLIANCE (snd ra) (InitPools q))"
  have fill: "FillPlayersToBG mode bg b (InitPools q) = Inr ?q"
    using rr loop(1) by (auto simp: FillPlayersToBG_def f sa_def sh_def r_def split: if_splits)
  have bounds: "sp_PlayerCount (snd s) \<le> GetFreeSlotsForTeam mode team bg"
    if "side_ok ?h xs free s" "free \<le> uint (GetFreeSlotsForTeam mode team bg)" for s xs free team
    using that by (auto simp: side_ok_def word_le_def le_nat_iff dest!: pool_ok_count)
  have pools: "bq_pools ?q TEAM_ALLIANCE = snd ra" "bq_pools ?q TEAM_HORDE = snd rh"
    by (simp_all add: TEAM_ALLIANCE_def TEAM_HORDE_def)
  have each: "unat (sp_PlayerCount (snd s)) = pool_total ?h (snd s) \<and>
      set (sp_SelectedGroups (snd s)) \<subseteq> {a \<in> set xs. \<not> gq_invited (?h a)}" if "side_ok ?h xs free s" for s xs free
    using that by (simp add: side_ok_def pool_ok_def)
  have bal: "mode \<noteq> BG_QUEUE_INVITATION_TYPE_NO_BALANCE \<longrightarrow> balanced fa ra fh rh \<and> balanced fh rh fa ra"
    using rr loop(4,5) by (auto simp: r_def)
  have most: "gq_invited (?h a) \<or> a \<in> set (sp_SelectedGroups (snd s)) \<or> sp_PlayerCount (snd s) = GetFreeSlotsForTeam mode team bg \<or>
      unat (GetFreeSlotsForTeam mode team bg) < unat (sp_PlayerCount (snd s)) + gq_size (?h a)"
    if "mode = BG_QUEUE_INVITATION_TYPE_NO_BALANCE" "a \<in> set xs" "s = pool_fill ?h (GetFreeSlotsForTeam mode team bg) xs SelectionPool" for a s xs team
    using pool_fill_maximal [of ?h xs "unat (GetFreeSlotsForTeam mode team bg)" SelectionPool xs "GetFreeSlotsForTeam mode team bg" a] that
    by (auto simp: SelectionPool_def [THEN arg_cong, of sp_PlayerCount] SelectionPool_def [THEN arg_cong, of sp_SelectedGroups])
  have plain: "word_of_int fa = GetFreeSlotsForTeam mode ALLIANCE bg \<and> word_of_int fh = GetFreeSlotsForTeam mode HORDE bg \<and> ra = sa \<and> rh = sh"
    if "mode = BG_QUEUE_INVITATION_TYPE_NO_BALANCE"
    using that f rr by (auto simp: free_places_def Let_def r_def BG_QUEUE_INVITATION_TYPE_NO_BALANCE_def BG_QUEUE_INVITATION_TYPE_EVEN_def)
  have max: "mode = BG_QUEUE_INVITATION_TYPE_NO_BALANCE \<longrightarrow>
      (\<forall>a \<in> set ?ali. gq_invited (?h a) \<or> a \<in> set (sp_SelectedGroups (snd ra)) \<or> sp_PlayerCount (snd ra) = GetFreeSlotsForTeam mode ALLIANCE bg \<or>
        unat (GetFreeSlotsForTeam mode ALLIANCE bg) < unat (sp_PlayerCount (snd ra)) + gq_size (?h a)) \<and>
      (\<forall>a \<in> set ?horde. gq_invited (?h a) \<or> a \<in> set (sp_SelectedGroups (snd rh)) \<or> sp_PlayerCount (snd rh) = GetFreeSlotsForTeam mode HORDE bg \<or>
        unat (GetFreeSlotsForTeam mode HORDE bg) < unat (sp_PlayerCount (snd rh)) + gq_size (?h a))"
    using most [of _ ?ali ra ALLIANCE] most [of _ ?horde rh HORDE] plain unfolding sa_def sh_def by metis
  have idx: "BG_QUEUE_NORMAL_ALLIANCE + TEAM_ALLIANCE = BG_QUEUE_NORMAL_ALLIANCE" "BG_QUEUE_NORMAL_ALLIANCE + TEAM_HORDE = BG_QUEUE_NORMAL_HORDE"
    by (simp_all add: bg_index_defs)
  show ?thesis
    unfolding fill f prod.case Let_def
    using each [OF ok(1)] each [OF ok(2)] bounds [OF ok(1)] bounds [OF ok(2)] fb bal max side_ok_diff [OF ok(1)] side_ok_diff [OF ok(2)]
    by (intro exI [of _ ?q]) (simp add: pools idx del: queue_frame)
qed

text \<open>A scene for witnesses: two players of the alliance and one of the horde, each queued alone, and the free places of a
  battleground that waits for players.\<close>

definition lone_bg_group :: "ObjectGuid \<Rightarrow> uint32 \<Rightarrow> group_queue_info" where
  "lone_bg_group g team = \<lparr>gq_Players = [g], gq_Team = team, gq_BgTypeId = BATTLEGROUND_WS, gq_IsRated = False, gq_ArenaType = 0,
     gq_JoinTime = 0, gq_RemoveInviteTime = 0, gq_IsInvitedToBGInstanceGUID = 0, gq_ArenaGroupRating = 0,
     gq_ArenaMatchmakerRating = 0, gq_OpponentsTeamRating = 0, gq_OpponentsMatchmakerRating = 0, gq_Group = None\<rparr>"

definition bg_demo_queue :: bg_queue where
  "bg_demo_queue = (BattlegroundQueue (\<lambda>a. lone_bg_group (ObjectGuid 0 (of_nat a)) (if a = 2 then HORDE else ALLIANCE))
      (\<lambda>_. BGQueueInviteEvent GuidEmpty 0 0 0 0))
     \<lparr>bq_groups := (\<lambda>b j. if b = 0 \<and> j = BG_QUEUE_NORMAL_ALLIANCE then [0, 1]
                        else if b = 0 \<and> j = BG_QUEUE_NORMAL_HORDE then [2] else [])\<rparr>"

lemma demo_frame:
  "bq_heap bg_demo_queue = (\<lambda>a. lone_bg_group (ObjectGuid 0 (of_nat a)) (if a = 2 then HORDE else ALLIANCE))"
  "bq_groups bg_demo_queue = (\<lambda>b j. if b = 0 \<and> j = BG_QUEUE_NORMAL_ALLIANCE then [0, 1]
                        else if b = 0 \<and> j = BG_QUEUE_NORMAL_HORDE then [2] else [])"
  "gq_invited (lone_bg_group g t) = False" "gq_size (lone_bg_group g t) = 1" "gq_JoinTime (lone_bg_group g t) = 0"
  by (simp_all add: bg_demo_queue_def BattlegroundQueue_def lone_bg_group_def gq_invited_def gq_size_def)

theorem filling_is_bounded_and_balanced_witness:
  "\<exists>q' q''. FillPlayersToBG 1 (Battleground\<lparr>bg_Status := STATUS_WAIT_JOIN, bg_MaxPlayersPerTeam := 10\<rparr>) 0 (InitPools bg_demo_queue) = Inr q' \<and>
     sp_PlayerCount (bq_pools q' TEAM_ALLIANCE) \<le> 1 \<and> set (sp_SelectedGroups (bq_pools q' TEAM_ALLIANCE)) \<subseteq> {0, 1} \<and>
     FillPlayersToBG 0 (Battleground\<lparr>bg_Status := STATUS_WAIT_JOIN, bg_MaxPlayersPerTeam := 2\<rparr>) 0 (InitPools bg_demo_queue) = Inr q'' \<and>
     (1 \<in> set (sp_SelectedGroups (bq_pools q'' TEAM_ALLIANCE)) \<or> sp_PlayerCount (bq_pools q'' TEAM_ALLIANCE) = 2)"
proof -
  let ?bg = "\<lambda>n. Battleground\<lparr>bg_Status := STATUS_WAIT_JOIN, bg_MaxPlayersPerTeam := n\<rparr>"
  have free: "GetFreeSlotsForTeam 1 ALLIANCE (?bg 10) = 1" "GetFreeSlotsForTeam 0 ALLIANCE (?bg 2) = 2"
    by (simp_all add: GetFreeSlotsForTeam_def Battleground_def GetInvitedCount_def GetPlayersCountByTeam_def STATUS_WAIT_JOIN_def
        BG_QUEUE_INVITATION_TYPE_NO_BALANCE_def)
  have "\<exists>q'. FillPlayersToBG 1 (?bg 10) 0 (InitPools bg_demo_queue) = Inr q' \<and>
     sp_PlayerCount (bq_pools q' TEAM_ALLIANCE) \<le> 1 \<and> set (sp_SelectedGroups (bq_pools q' TEAM_ALLIANCE)) \<subseteq> {0, 1}"
    using filling_is_bounded_and_balanced [of "?bg 10" 1 0 bg_demo_queue] free
    by (auto simp: Let_def demo_frame bg_index_defs)
  moreover have "\<exists>q''. FillPlayersToBG 0 (?bg 2) 0 (InitPools bg_demo_queue) = Inr q'' \<and>
     (1 \<in> set (sp_SelectedGroups (bq_pools q'' TEAM_ALLIANCE)) \<or> sp_PlayerCount (bq_pools q'' TEAM_ALLIANCE) = 2)"
  proof -
    obtain q'' where q: "FillPlayersToBG 0 (?bg 2) 0 (InitPools bg_demo_queue) = Inr q''" "sp_PlayerCount (bq_pools q'' TEAM_ALLIANCE) \<le> 2"
      and left: "1 \<in> set (sp_SelectedGroups (bq_pools q'' TEAM_ALLIANCE)) \<or> sp_PlayerCount (bq_pools q'' TEAM_ALLIANCE) = 2 \<or>
        unat (2 :: uint32) < unat (sp_PlayerCount (bq_pools q'' TEAM_ALLIANCE)) + 1"
      using filling_is_bounded_and_balanced [of "?bg 2" 0 0 bg_demo_queue] free
      by (auto simp: Let_def demo_frame bg_index_defs BG_QUEUE_INVITATION_TYPE_NO_BALANCE_def)
    from q(2) have "unat (sp_PlayerCount (bq_pools q'' TEAM_ALLIANCE)) \<le> 2" by (simp add: word_le_nat_alt)
    with left have "1 \<in> set (sp_SelectedGroups (bq_pools q'' TEAM_ALLIANCE)) \<or> sp_PlayerCount (bq_pools q'' TEAM_ALLIANCE) = 2"
      by (auto simp: word_unat_eq_iff)
    with q(1) show ?thesis by blast
  qed
  ultimately show ?thesis by blast
qed

end
