(* ===== verification/Bg_Fair.thy ===== *)
theory Bg_Fair
  imports Bg_Match
begin

text \<open>Normal matches are fair, matches of premade groups take nobody from the normal queue, and a premade group may be moved there too early.\<close>

section \<open>Normal matches\<close>

lemma sint_diff:
  assumes "uint x < 2 ^ 31" "uint y < 2 ^ 31"
  shows "sint (x - y :: uint32) = uint x - uint y"
proof -
  have "sint (x - y) = signed_take_bit 31 (sint x - sint y)" by (simp add: sint_word_ariths)
  also have "\<dots> = uint x - uint y"
    using assms uint_ge_0 [of x] uint_ge_0 [of y] unfolding sint_count [OF assms(1)] sint_count [OF assms(2)]
    by (intro signed_take_bit_int_eq_self) linarith+
  finally show ?thesis .
qed

lemma uint_bound: "unat x \<le> unat (m :: uint32) \<Longrightarrow> m < 2 ^ 31 \<Longrightarrow> uint (x :: uint32) < 2 ^ 31"
  by (simp add: word_less_def word_le_nat_alt [symmetric] word_le_def)

abbreviation selected_from :: "bg_queue \<Rightarrow> nat \<Rightarrow> uint32 \<Rightarrow> bg_queue \<Rightarrow> nat \<Rightarrow> bool" where
  "selected_from q b m q' t \<equiv> pool_ok (bq_heap q) (bq_groups q b (BG_QUEUE_NORMAL_ALLIANCE + t)) (unat m) (bq_pools q' t)"

lemma normal_extra:
  assumes "pool_ok h xs m (snd s)" "pool_ok h ys m (snd s')" "set (fst s) \<subseteq> set xs" "fst s = x # as"
  shows "pool_ok h xs m (fill_uninvited h (sp_PlayerCount (snd s')) as (snd s))"
  using assms by (intro fill_uninvited_ok) (auto dest: pool_ok_count)

text \<open>C8: the search for a normal match never advances an iterator past the end. The counters of its selection are
  exact, nobody is selected who is not waiting in the normal queue of his team or is invited already, and no team gets more than the
  largest number of players. When it finds a match outside of test mode, both teams have at least the smallest number, and
  differ by at most two players if balance is configured.\<close>

theorem normal_match_is_fair:
  assumes "0 < minPlayers" "maxPlayers < 2 ^ 31"
  shows "\<exists>found q'. CheckNormalMatch mode testing b minPlayers maxPlayers (InitPools q) = Inr (found, q') \<and>
    (\<forall>t \<in> {TEAM_ALLIANCE, TEAM_HORDE}. selected_from q b maxPlayers q' t) \<and>
    (found \<and> \<not> testing \<longrightarrow>
      (let ca = sp_PlayerCount (bq_pools q' TEAM_ALLIANCE); ch = sp_PlayerCount (bq_pools q' TEAM_HORDE)
       in minPlayers \<le> ca \<and> minPlayers \<le> ch \<and> (mode \<noteq> BG_QUEUE_INVITATION_TYPE_NO_BALANCE \<longrightarrow> \<bar>uint ch - uint ca\<bar> \<le> 2)))"
proof -
  let ?h = "bq_heap q" and ?ali = "bq_groups q b BG_QUEUE_NORMAL_ALLIANCE" and ?horde = "bq_groups q b BG_QUEUE_NORMAL_HORDE"
  define sa where "sa = fill_to_min ?h minPlayers maxPlayers ?ali SelectionPool"
  define sh where "sh = fill_to_min ?h minPlayers maxPlayers ?horde SelectionPool"
  have sa: "pool_ok ?h ?ali (unat maxPlayers) (snd sa)" "set (fst sa) \<subseteq> set ?ali"
    and sh: "pool_ok ?h ?horde (unat maxPlayers) (snd sh)" "set (fst sh) \<subseteq> set ?horde"
    using fill_to_min_ok [of ?h _ "unat maxPlayers" SelectionPool] by (auto simp: sa_def sh_def)
  have more: "fst s \<noteq> []" if "minPlayers \<le> sp_PlayerCount (snd s)" "s \<in> {sa, sh}" for s
    using that assms(1) fill_to_min_short [of ?h minPlayers maxPlayers _ SelectionPool]
    by (auto simp: sa_def sh_def SelectionPool_def not_le [symmetric])
  let ?put = "\<lambda>pa ph. pool_update TEAM_HORDE ph (pool_update TEAM_ALLIANCE pa (InitPools q))"
  let ?verdict = "\<lambda>pa ph. testing \<and> (sp_PlayerCount pa \<noteq> 0 \<or> sp_PlayerCount ph \<noteq> 0)
             \<or> minPlayers \<le> sp_PlayerCount pa \<and> minPlayers \<le> sp_PlayerCount ph"
  have "\<exists>found pa ph. CheckNormalMatch mode testing b minPlayers maxPlayers (InitPools q) = Inr (found, ?put pa ph) \<and>
     pool_ok ?h ?ali (unat maxPlayers) pa \<and> pool_ok ?h ?horde (unat maxPlayers) ph \<and>
     (found \<longrightarrow> ?verdict pa ph) \<and>
     (found \<and> minPlayers \<le> sp_PlayerCount pa \<and> minPlayers \<le> sp_PlayerCount ph \<and> mode \<noteq> BG_QUEUE_INVITATION_TYPE_NO_BALANCE \<longrightarrow>
        \<bar>sint (sp_PlayerCount ph - sp_PlayerCount pa)\<bar> \<le> 2)"
  proof (cases "mode \<noteq> BG_QUEUE_INVITATION_TYPE_NO_BALANCE \<and> minPlayers \<le> sp_PlayerCount (snd sh) \<and> minPlayers \<le> sp_PlayerCount (snd sa)")
    case False
    then show ?thesis
      using sa sh by (intro exI [of _ "?verdict (snd sa) (snd sh)"] exI [of _ "snd sa"] exI [of _ "snd sh"])
        (auto simp: CheckNormalMatch_def Let_def sa_def [symmetric] sh_def [symmetric])
  next
    case True
    show ?thesis
    proof (cases "sp_PlayerCount (snd sh) < sp_PlayerCount (snd sa)")
      case less: True
      obtain x as where as: "fst sh = x # as" using more [of sh] True by (cases "fst sh") auto
      define ph where "ph = fill_uninvited ?h (sp_PlayerCount (snd sa)) as (snd sh)"
      have "pool_ok ?h ?horde (unat maxPlayers) ph" unfolding ph_def by (rule normal_extra [OF sh(1) sa(1) sh(2) as])
      with sa True less as show ?thesis
        by (intro exI [of _ "\<bar>sint (sp_PlayerCount ph - sp_PlayerCount (snd sa))\<bar> \<le> 2 \<and> ?verdict (snd sa) ph"] exI [of _ "snd sa"] exI [of _ ph])
          (auto simp: CheckNormalMatch_def Let_def sa_def [symmetric] sh_def [symmetric] ph_def)
    next
      case more': False
      obtain x as where as: "fst sa = x # as" using more [of sa] True by (cases "fst sa") auto
      define pa where "pa = fill_uninvited ?h (sp_PlayerCount (snd sh)) as (snd sa)"
      have "pool_ok ?h ?ali (unat maxPlayers) pa" unfolding pa_def by (rule normal_extra [OF sa(1) sh(1) sa(2) as])
      with sh True more' as show ?thesis
        by (intro exI [of _ "\<bar>sint (sp_PlayerCount (snd sh) - sp_PlayerCount pa)\<bar> \<le> 2 \<and> ?verdict pa (snd sh)"] exI [of _ pa] exI [of _ "snd sh"])
          (auto simp: CheckNormalMatch_def Let_def sa_def [symmetric] sh_def [symmetric] pa_def)
    qed
  qed
  then obtain found pa ph where r: "CheckNormalMatch mode testing b minPlayers maxPlayers (InitPools q) = Inr (found, ?put pa ph)"
      "pool_ok ?h ?ali (unat maxPlayers) pa" "pool_ok ?h ?horde (unat maxPlayers) ph" "found \<longrightarrow> ?verdict pa ph"
      "found \<and> minPlayers \<le> sp_PlayerCount pa \<and> minPlayers \<le> sp_PlayerCount ph \<and> mode \<noteq> BG_QUEUE_INVITATION_TYPE_NO_BALANCE \<longrightarrow>
        \<bar>sint (sp_PlayerCount ph - sp_PlayerCount pa)\<bar> \<le> 2" by blast
  have pools: "bq_pools (?put pa ph) TEAM_ALLIANCE = pa" "bq_pools (?put pa ph) TEAM_HORDE = ph"
    "BG_QUEUE_NORMAL_ALLIANCE + TEAM_ALLIANCE = BG_QUEUE_NORMAL_ALLIANCE" "BG_QUEUE_NORMAL_ALLIANCE + TEAM_HORDE = BG_QUEUE_NORMAL_HORDE"
    by (simp_all add: bg_index_defs)
  have "sint (sp_PlayerCount ph - sp_PlayerCount pa) = uint (sp_PlayerCount ph) - uint (sp_PlayerCount pa)"
    by (intro sint_diff uint_bound [OF pool_ok_count [OF r(3)] assms(2)] uint_bound [OF pool_ok_count [OF r(2)] assms(2)])
  with r show ?thesis by (intro exI [of _ found] exI [of _ "?put pa ph"]) (simp add: pools Let_def del: queue_frame, blast)
qed

theorem normal_match_is_fair_witness:
  "\<exists>q'. CheckNormalMatch 1 False 0 1 10 (InitPools bg_demo_queue) = Inr (True, q') \<and>
     sp_SelectedGroups (bq_pools q' TEAM_ALLIANCE) = [0] \<and> sp_SelectedGroups (bq_pools q' TEAM_HORDE) = [2]"
proof -
  have "\<exists>found q'. CheckNormalMatch 1 False 0 1 10 (InitPools bg_demo_queue) = Inr (found, q')"
    using normal_match_is_fair [of 1 10 1 False 0 bg_demo_queue] by auto
  then show ?thesis
    by (simp add: CheckNormalMatch_def demo_frame Let_def InitPools_def SelectionPool_def bg_index_defs pool_AddGroup_def
        BG_QUEUE_INVITATION_TYPE_NO_BALANCE_def)
qed

section \<open>Matches of premade groups\<close>

lemma fill_uninvited_full:
  "d \<le> sp_PlayerCount p \<Longrightarrow> (\<And>a. a \<in> set as \<Longrightarrow> gq_size (h a) \<noteq> 0) \<Longrightarrow> fill_uninvited h d as p = p"
proof (induction as)
  case (Cons a as)
  then have "unat d \<le> unat (sp_PlayerCount p)" "0 < gq_size (h a)" "\<not> sp_PlayerCount p < d"
    by (simp_all add: word_le_nat_alt not_less)
  then have "\<not> unat (sp_PlayerCount p) + gq_size (h a) \<le> unat d" by linarith
  then have "pool_AddGroup h a d p = (False, p)" using \<open>\<not> sp_PlayerCount p < d\<close> by (simp add: pool_AddGroup_def)
  with Cons show ?case by simp
qed simp

text \<open>When a match of premade groups is found, exactly the first premade group of each faction that is not invited is
  selected, and only if it has not too many players: nobody is taken from the normal queues, although the code that does so runs. The pools
  are filled up to the size of the smaller group, which both already have.\<close>

theorem premade_match_takes_only_premades:
  assumes "CheckPremadeMatch now wait b minPlayers maxPlayers (InitPools q) = (True, q')"
    "\<And>j a. a \<in> set (bq_groups q b j) \<Longrightarrow> gq_size (bq_heap q a) \<noteq> 0"
  shows "\<exists>ali horde. find (\<lambda>a. \<not> gq_invited (bq_heap q a)) (bq_groups q b BG_QUEUE_PREMADE_ALLIANCE) = Some ali \<and>
    find (\<lambda>a. \<not> gq_invited (bq_heap q a)) (bq_groups q b BG_QUEUE_PREMADE_HORDE) = Some horde \<and>
    sp_SelectedGroups (bq_pools q' TEAM_ALLIANCE) = (if gq_size (bq_heap q ali) \<le> unat maxPlayers then [ali] else []) \<and>
    sp_SelectedGroups (bq_pools q' TEAM_HORDE) = (if gq_size (bq_heap q horde) \<le> unat maxPlayers then [horde] else []) \<and>
    bq_groups q' = bq_groups q"
proof -
  let ?free = "\<lambda>a. \<not> gq_invited (bq_heap q a)"
  from assms(1) obtain ali horde where f: "find ?free (bq_groups q b BG_QUEUE_PREMADE_ALLIANCE) = Some ali"
      "find ?free (bq_groups q b BG_QUEUE_PREMADE_HORDE) = Some horde"
    by (auto simp: CheckPremadeMatch_def Let_def split: option.splits)
  define pa where "pa = snd (pool_AddGroup (bq_heap q) ali maxPlayers SelectionPool)"
  define ph where "ph = snd (pool_AddGroup (bq_heap q) horde maxPlayers SelectionPool)"
  let ?d = "min (sp_PlayerCount pa) (sp_PlayerCount ph)"
  have "fill_uninvited (bq_heap q) ?d (bq_groups q b BG_QUEUE_NORMAL_ALLIANCE) pa = pa"
    "fill_uninvited (bq_heap q) ?d (bq_groups q b BG_QUEUE_NORMAL_HORDE) ph = ph"
    using assms(2) by (auto intro!: fill_uninvited_full)
  with assms(1) f have "q' = pool_update TEAM_HORDE ph (pool_update TEAM_ALLIANCE pa (InitPools q))"
    by (auto simp: CheckPremadeMatch_def Let_def pa_def ph_def)
  moreover have "?free ali" "?free horde" using f by (auto dest: find_in)
  ultimately show ?thesis
    using f by (simp add: pa_def ph_def pool_AddGroup_def SelectionPool_def TEAM_ALLIANCE_def TEAM_HORDE_def)
qed

theorem premade_match_takes_only_premades_witness:
  "\<exists>q'. CheckPremadeMatch 0 0 0 1 10 (InitPools (groups_update 0 0 (\<lambda>_. [1]) (groups_update 0 1 (\<lambda>_. [2]) bg_demo_queue))) = (True, q') \<and>
     sp_SelectedGroups (bq_pools q' TEAM_ALLIANCE) = [1] \<and> bq_groups q' 0 BG_QUEUE_NORMAL_ALLIANCE = [0, 1]"
proof -
  let ?q = "groups_update 0 0 (\<lambda>_. [1]) (groups_update 0 1 (\<lambda>_. [2]) bg_demo_queue)"
  obtain q' where q': "CheckPremadeMatch 0 0 0 1 10 (InitPools ?q) = (True, q')"
    by (simp add: CheckPremadeMatch_def demo_frame bg_index_defs Let_def)
  have "gq_size (bq_heap ?q a) \<noteq> 0" for a by (simp add: demo_frame)
  from premade_match_takes_only_premades [OF q' this] show ?thesis
    by (intro exI [of _ q'] conjI q') (simp_all add: demo_frame bg_index_defs)
qed

section \<open>Premade groups that wait\<close>

lemma wrapped_deadline:
  assumes "now < wait" "t \<le> now"
  shows "t < (now - wait :: uint32)"
proof -
  have "unat (now - wait) = 2 ^ 32 + unat now - unat wait"
    using assms(1) by (simp add: unat_sub_if' word_less_nat_alt not_le)
  moreover have "unat wait < 2 ^ 32" by (rule order_less_le_trans [OF unsigned_less]) simp
  ultimately show ?thesis using assms by (simp add: word_less_nat_alt word_le_nat_alt)
qed

text \<open>What a check does to the premade and to the normal list of one faction when the first premade group has waited too long.\<close>

definition first_moves :: "bg_queue \<Rightarrow> bg_queue \<Rightarrow> nat \<Rightarrow> nat \<Rightarrow> bool" where
  "first_moves q q' b t \<longleftrightarrow>
     (case bq_groups q b (BG_QUEUE_PREMADE_ALLIANCE + t) of
        a # rest \<Rightarrow>
          (if gq_invited (bq_heap q a) then bq_groups q' b (BG_QUEUE_PREMADE_ALLIANCE + t) = a # rest \<and>
             bq_groups q' b (BG_QUEUE_NORMAL_ALLIANCE + t) = bq_groups q b (BG_QUEUE_NORMAL_ALLIANCE + t)
           else bq_groups q' b (BG_QUEUE_PREMADE_ALLIANCE + t) = rest \<and>
             bq_groups q' b (BG_QUEUE_NORMAL_ALLIANCE + t) = a # bq_groups q b (BG_QUEUE_NORMAL_ALLIANCE + t))
      | [] \<Rightarrow> bq_groups q' b (BG_QUEUE_PREMADE_ALLIANCE + t) = [] \<and>
             bq_groups q' b (BG_QUEUE_NORMAL_ALLIANCE + t) = bq_groups q b (BG_QUEUE_NORMAL_ALLIANCE + t))"

text \<open>C38: while the server has been up for less than the time a premade group should wait for another, every check that finds no
  match of premade groups moves the first premade group of the alliance and that of the horde to the front of the normal list of its
  faction, unless it is invited, however short it has waited: the difference of the clock and the waiting time wraps around. The other
  premade groups keep their places, and no other list changes.\<close>

theorem premade_moved_at_once:
  assumes "now < wait" "\<And>t a. t < BG_TEAMS_COUNT \<Longrightarrow> a \<in> set (bq_groups q b (BG_QUEUE_PREMADE_ALLIANCE + t)) \<Longrightarrow> gq_JoinTime (bq_heap q a) \<le> now"
    "CheckPremadeMatch now wait b minPlayers maxPlayers q = (False, q')"
  shows "first_moves q q' b TEAM_ALLIANCE \<and> first_moves q q' b TEAM_HORDE \<and> bq_heap q' = bq_heap q \<and>
    (\<forall>b' j. b' \<noteq> b \<or> BG_QUEUE_GROUP_TYPES_COUNT \<le> j \<longrightarrow> bq_groups q' b' j = bq_groups q b' j)"
proof -
  have late: "premade_expires (now - wait) minPlayers b t v =
      (case bq_groups v b t of [] \<Rightarrow> v | a # rest \<Rightarrow>
         if gq_invited (bq_heap q a) then v
         else groups_update b t (\<lambda>_. rest) (groups_update b (BG_QUEUE_NORMAL_ALLIANCE + t) (\<lambda>xs. a # xs) v))"
    if "t < 2" "bq_heap v = bq_heap q" "bq_groups v b t = bq_groups q b t" for t v
    using that assms(2) [of t] wrapped_deadline [OF assms(1)]
    by (auto simp: premade_expires_def Let_def bg_index_defs BG_TEAMS_COUNT_def split: list.split)
  have "q' = premade_expires (now - wait) minPlayers b 1 (premade_expires (now - wait) minPlayers b 0 q)"
    using assms(3) by (auto simp: CheckPremadeMatch_def Let_def bg_index_defs BG_TEAMS_COUNT_def upt_rec split: option.splits)
  then show ?thesis
    using late [of 0 q] late [of 1 "premade_expires (now - wait) minPlayers b 0 q"]
    by (auto simp: first_moves_def bg_index_defs TEAM_ALLIANCE_def TEAM_HORDE_def split: list.splits if_splits)
qed

theorem premade_moved_at_once_witness:
  "\<exists>q'. CheckPremadeMatch 60000 1800000 0 1 10 (groups_update 0 0 (\<lambda>_. [1, 0]) bg_demo_queue) = (False, q') \<and>
     bq_groups q' 0 BG_QUEUE_PREMADE_ALLIANCE = [0] \<and> bq_groups q' 0 BG_QUEUE_NORMAL_ALLIANCE = [1, 0, 1]"
proof -
  let ?q = "groups_update 0 0 (\<lambda>_. [1, 0]) bg_demo_queue"
  obtain q' where q': "CheckPremadeMatch 60000 1800000 0 1 10 ?q = (False, q')"
    by (simp add: CheckPremadeMatch_def demo_frame bg_index_defs Let_def)
  have "first_moves ?q q' 0 TEAM_ALLIANCE"
    using premade_moved_at_once [OF _ _ q'] by (simp add: demo_frame bg_index_defs)
  then show ?thesis using q' by (auto simp: first_moves_def demo_frame bg_index_defs TEAM_ALLIANCE_def)
qed

end
