(* ===== verification/Bg_Frame.thy ===== *)
theory Bg_Frame
  imports Bg_Handlers
begin

text \<open>
  What invitations leave alone: they write the invited group, the counters of the battleground, the waiting times, the events and the
  invitations in the places of the players, and never fail.
\<close>

abbreviation slot_kinds :: "bg_world \<Rightarrow> ObjectGuid \<Rightarrow> nat list" where
  "slot_kinds w g \<equiv> map qs_bgQueueTypeId (bw_slots w g)"

text \<open>Two worlds whose queues hold the same players in the same lists.\<close>

definition same_lists :: "bg_world \<Rightarrow> bg_world \<Rightarrow> bool" where
  "same_lists w w' \<longleftrightarrow>
     (\<forall>k. bq_groups (bw_queues w' k) = bq_groups (bw_queues w k) \<and> bq_players (bw_queues w' k) = bq_players (bw_queues w k) \<and>
          bq_pools (bw_queues w' k) = bq_pools (bw_queues w k) \<and> bq_next (bw_queues w' k) = bq_next (bw_queues w k)) \<and>
     (\<forall>g. slot_kinds w' g = slot_kinds w g) \<and> bw_store w' = bw_store w \<and> bw_nextBg w' = bw_nextBg w"

definition same_groups :: "bg_world \<Rightarrow> bg_world \<Rightarrow> bool" where
  "same_groups w w' \<longleftrightarrow> same_lists w w' \<and> (\<forall>k. bq_heap (bw_queues w' k) = bq_heap (bw_queues w k))"

lemma same_refl [simp]: "same_lists w w" "same_groups w w"
  by (simp_all add: same_lists_def same_groups_def)

lemma same_trans: "same_lists u v \<Longrightarrow> same_lists v w \<Longrightarrow> same_lists u w" "same_groups u v \<Longrightarrow> same_groups v w \<Longrightarrow> same_groups u w"
  by (simp_all add: same_lists_def same_groups_def)

lemma same_say [simp]: "same_groups w (bg_say e w') = same_groups w w'"
  by (simp add: same_groups_def same_lists_def)

lemma same_queue:
  assumes "\<And>q. bq_groups (f q) = bq_groups q \<and> bq_players (f q) = bq_players q \<and> bq_pools (f q) = bq_pools q \<and>
    bq_next (f q) = bq_next q \<and> bq_heap (f q) = bq_heap q"
  shows "same_groups w (on_bgqueue i f w)"
  using assms by (simp add: same_groups_def same_lists_def)

lemma same_bg: "same_groups w (on_bg c f w)"
  by (simp add: same_groups_def same_lists_def)

lemma wait_frame [simp]:
  "bq_groups (PlayerInvitedToBGUpdateAverageWaitTime now g b q) = bq_groups q"
  "bq_players (PlayerInvitedToBGUpdateAverageWaitTime now g b q) = bq_players q"
  "bq_pools (PlayerInvitedToBGUpdateAverageWaitTime now g b q) = bq_pools q"
  "bq_next (PlayerInvitedToBGUpdateAverageWaitTime now g b q) = bq_next q"
  "bq_heap (PlayerInvitedToBGUpdateAverageWaitTime now g b q) = bq_heap q"
  by (simp_all add: PlayerInvitedToBGUpdateAverageWaitTime_def Let_def)

lemma SetInvite_kinds [simp]: "map qs_bgQueueTypeId (SetInviteForBattlegroundQueueType t n xs) = map qs_bgQueueTypeId xs"
  by (simp add: SetInviteForBattlegroundQueueType_def)

lemma same_invite: "same_groups w (on_slots g (SetInviteForBattlegroundQueueType t n) w)"
  by (simp add: same_groups_def same_lists_def)

lemma schedule_event_frame:
  "\<exists>q'. schedule_event ev t q = Inr q' \<and> bq_groups q' = bq_groups q \<and> bq_players q' = bq_players q \<and> bq_pools q' = bq_pools q \<and>
     bq_next q' = bq_next q \<and> bq_heap q' = bq_heap q"
  by (simp add: schedule_event_def Let_def AddEvent_def ep_deref_def ep_put_def ep_fault_def)

lemma schedule_world: "\<exists>w'. queue_bind i (schedule_event ev t) w = Inr w' \<and> same_groups w w'"
proof -
  obtain q' where "schedule_event ev t (bw_queues w i) = Inr q'" "bq_groups q' = bq_groups (bw_queues w i)"
    "bq_players q' = bq_players (bw_queues w i)" "bq_pools q' = bq_pools (bw_queues w i)"
    "bq_next q' = bq_next (bw_queues w i)" "bq_heap q' = bq_heap (bw_queues w i)"
    using schedule_event_frame by blast
  then show ?thesis by (simp add: queue_bind_def same_groups_def same_lists_def)
qed

lemma invite_player_frame: "\<exists>w'. invite_player env now i a c g w = Inr w' \<and> same_groups w w'"
proof (cases "be_connected env g")
  case True
  let ?gi = "bq_heap (bw_queues w i) a" and ?bg = "bw_bgs w c"
  let ?id = "BGQueueTypeId (bg_TypeID ?bg) (bg_ArenaType ?bg)"
  define w3 where "w3 = on_slots g (SetInviteForBattlegroundQueueType ?id (gq_IsInvitedToBGInstanceGUID ?gi))
    (on_bg c (IncreaseInvitedCount (gq_Team ?gi)) (on_bgqueue i (PlayerInvitedToBGUpdateAverageWaitTime now ?gi (bg_BracketId ?bg)) w))"
  have w3: "same_groups w w3"
    unfolding w3_def by (intro same_trans(2) [OF _ same_invite] same_trans(2) [OF _ same_bg] same_queue) simp
  obtain w4 where w4: "queue_bind i (schedule_event (BGQueueInviteEvent g (gq_IsInvitedToBGInstanceGUID ?gi) (bg_TypeID ?bg)
      (gq_ArenaType ?gi) (gq_RemoveInviteTime ?gi)) INVITATION_REMIND_TIME) w3 = Inr w4" "same_groups w3 w4"
    using schedule_world by blast
  obtain w5 where w5: "queue_bind i (schedule_event (BGQueueRemoveEvent g (gq_IsInvitedToBGInstanceGUID ?gi) (bg_TypeID ?bg)
      ?id (gq_RemoveInviteTime ?gi)) INVITE_ACCEPT_WAIT_TIME) w4 = Inr w5" "same_groups w4 w5"
    using schedule_world by blast
  have "same_groups w w5" using w3 w4(2) w5(2) same_trans(2) by blast
  with True w4(1) w5(1) show ?thesis by (simp add: invite_player_def Let_def w3_def)
qed (simp add: invite_player_def)

lemma invite_players_frame: "\<exists>w'. forE (invite_player env now i a c) gs w = Inr w' \<and> same_groups w w'"
proof (induction gs arbitrary: w)
  case (Cons g gs)
  obtain w1 where w1: "invite_player env now i a c g w = Inr w1" "same_groups w w1" using invite_player_frame by blast
  obtain w2 where w2: "forE (invite_player env now i a c) gs w1 = Inr w2" "same_groups w1 w2" using Cons by blast
  with w1 same_trans(2) [OF w1(2) w2(2)] show ?case by simp
qed simp

text \<open>The group behind an invitation.\<close>

definition invited_group :: "uint32 \<Rightarrow> uint32 \<Rightarrow> uint32 \<Rightarrow> group_queue_info \<Rightarrow> group_queue_info" where
  "invited_group now inst side g =
     (let g1 = (if side \<noteq> 0 then g\<lparr>gq_Team := side\<rparr> else g)
      in if gq_invited g1 then g1
         else g1\<lparr>gq_IsInvitedToBGInstanceGUID := inst, gq_RemoveInviteTime := now + of_nat INVITE_ACCEPT_WAIT_TIME\<rparr>)"

lemma InviteGroupToBG_frame:
  "\<exists>r w'. InviteGroupToBG env now i a c side w = Inr (r, w') \<and> same_lists w w' \<and>
     (\<forall>k. bq_heap (bw_queues w' k) = (if k = i then (bq_heap (bw_queues w i))
        (a := invited_group now (bg_InstanceID (bw_bgs w c)) side (bq_heap (bw_queues w i) a)) else bq_heap (bw_queues w k)))"
proof -
  define w1 where "w1 = (if side \<noteq> 0 then on_bgqueue i (gi_update a (\<lambda>gi. gi\<lparr>gq_Team := side\<rparr>)) w else w)"
  define w2 where "w2 = on_bgqueue i (gi_update a (\<lambda>gi. gi\<lparr>gq_IsInvitedToBGInstanceGUID := bg_InstanceID (bw_bgs w1 c),
                       gq_RemoveInviteTime := now + of_nat INVITE_ACCEPT_WAIT_TIME\<rparr>)) w1"
  have l: "same_lists w w1" "same_lists w w2" by (simp_all add: w1_def w2_def same_lists_def)
  have invited: "gq_invited (g\<lparr>gq_Team := side\<rparr>) = gq_invited g" for g by (simp add: gq_invited_def)
  show ?thesis
  proof (cases "gq_invited (bq_heap (bw_queues w1 i) a)")
    case True
    then have "InviteGroupToBG env now i a c side w = Inr (False, w1)" by (simp add: InviteGroupToBG_def Let_def w1_def)
    with l(1) True show ?thesis
      by (intro exI [of _ False] exI [of _ w1]) (auto simp: w1_def invited_group_def invited Let_def)
  next
    case False
    obtain w3 where w3: "forE (invite_player env now i a c) (gq_Players (bq_heap (bw_queues w2 i) a)) w2 = Inr w3" "same_groups w2 w3"
      using invite_players_frame by blast
    have "InviteGroupToBG env now i a c side w = Inr (True, w3)"
      using False w3(1) by (simp add: InviteGroupToBG_def Let_def w1_def w2_def)
    moreover have "same_lists w w3" using same_trans(1) [OF l(2)] w3(2) by (simp add: same_groups_def)
    moreover have "bq_heap (bw_queues w3 k) = bq_heap (bw_queues w2 k)" for k using w3(2) by (simp add: same_groups_def)
    ultimately show ?thesis
      using False by (intro exI [of _ True] exI [of _ w3]) (auto simp: w1_def w2_def invited_group_def invited Let_def)
  qed
qed

end
