(* ===== verification/Bg_Invariant.thy ===== *)
theory Bg_Invariant
  imports Bg_Frame Bg_Match
begin

text \<open>
  The invariant of a queue: every queued group stands in exactly one list, that of its bracket and faction, and has players; the
  players known to the queue are exactly those of the queued groups, each in one group. Hence no list and no player refers to a
  deleted group. Every operation of a queue keeps it.
\<close>

definition live :: "bg_queue \<Rightarrow> nat \<Rightarrow> bool" where
  "live q a \<longleftrightarrow> (\<exists>b j. a \<in> set (bq_groups q b j))"

text \<open>What holds of a group in the list of bracket \<open>b\<close> and kind \<open>j\<close> of queue \<open>i\<close>.\<close>

definition group_ok :: "nat \<Rightarrow> nat \<Rightarrow> nat \<Rightarrow> group_queue_info \<Rightarrow> bool" where
  "group_ok i b j g \<longleftrightarrow> b < MAX_BATTLEGROUND_BRACKETS \<and> j < BG_QUEUE_GROUP_TYPES_COUNT \<and> gq_Players g \<noteq> [] \<and> distinct (gq_Players g) \<and>
     gq_Team g = (if odd j then HORDE else ALLIANCE) \<and> BGQueueTypeId (gq_BgTypeId g) (gq_ArenaType g) = i \<and> (gq_IsRated g \<longrightarrow> gq_Group g \<noteq> None)"

definition bq_wf :: "nat \<Rightarrow> bg_queue \<Rightarrow> bool" where
  "bq_wf i q \<longleftrightarrow>
     (\<forall>b j a. a \<in> set (bq_groups q b j) \<longrightarrow> a < bq_next q \<and> group_ok i b j (bq_heap q a)) \<and>
     (\<forall>b j. distinct (bq_groups q b j)) \<and>
     (\<forall>b j b' j' a. a \<in> set (bq_groups q b j) \<and> a \<in> set (bq_groups q b' j') \<longrightarrow> b = b' \<and> j = j') \<and>
     (\<forall>g pi. bq_players q g = Some pi \<longrightarrow> live q (qp_GroupInfo pi) \<and> g \<in> set (gq_Players (bq_heap q (qp_GroupInfo pi)))) \<and>
     (\<forall>a g. live q a \<and> g \<in> set (gq_Players (bq_heap q a)) \<longrightarrow> map_option qp_GroupInfo (bq_players q g) = Some a)"

lemma bq_wf_empty: "bq_wf i (BattlegroundQueue h acts)"
  by (simp add: bq_wf_def BattlegroundQueue_def live_def)

lemma bq_wfD:
  assumes "bq_wf i q"
  shows "a \<in> set (bq_groups q b j) \<Longrightarrow> a < bq_next q" "a \<in> set (bq_groups q b j) \<Longrightarrow> group_ok i b j (bq_heap q a)"
    "distinct (bq_groups q b j)" "a \<in> set (bq_groups q b j) \<Longrightarrow> a \<in> set (bq_groups q b' j') \<Longrightarrow> b = b' \<and> j = j'"
    "bq_players q g = Some pi \<Longrightarrow> live q (qp_GroupInfo pi) \<and> g \<in> set (gq_Players (bq_heap q (qp_GroupInfo pi)))"
    "live q a \<Longrightarrow> g \<in> set (gq_Players (bq_heap q a)) \<Longrightarrow> map_option qp_GroupInfo (bq_players q g) = Some a"
  using assms unfolding bq_wf_def by blast+

lemma liveI: "a \<in> set (bq_groups q b j) \<Longrightarrow> live q a"
  by (auto simp: live_def)

text \<open>The invariant reads the lists, the players, the allocator and of the groups what \<open>group_ok\<close> reads.\<close>

lemma bq_wf_cong:
  assumes "bq_wf i q" "bq_groups q' = bq_groups q" "bq_players q' = bq_players q" "bq_next q' = bq_next q"
    "\<And>a. gq_Players (bq_heap q' a) = gq_Players (bq_heap q a) \<and> gq_Team (bq_heap q' a) = gq_Team (bq_heap q a) \<and>
       gq_BgTypeId (bq_heap q' a) = gq_BgTypeId (bq_heap q a) \<and> gq_ArenaType (bq_heap q' a) = gq_ArenaType (bq_heap q a) \<and>
       gq_IsRated (bq_heap q' a) = gq_IsRated (bq_heap q a) \<and> gq_Group (bq_heap q' a) = gq_Group (bq_heap q a)"
  shows "bq_wf i q'"
proof -
  have "live q' a = live q a" for a by (simp add: live_def assms(2))
  moreover have "group_ok i b j (bq_heap q' a) = group_ok i b j (bq_heap q a)" for b j a by (simp add: group_ok_def assms(5))
  ultimately show ?thesis using assms(1) by (simp add: bq_wf_def assms(2-5))
qed

section \<open>Moving a group\<close>

lemma bq_wf_move:
  assumes wf: "bq_wf i q" and a: "a \<in> set (bq_groups q b j)" and j: "j \<noteq> j'" "j' < BG_QUEUE_GROUP_TYPES_COUNT" "team = (if odd j' then HORDE else ALLIANCE)"
    and xs: "set xs = set (bq_groups q b j) - {a}" "distinct xs"
    and q': "bq_heap q' = (bq_heap q)(a := (bq_heap q a)\<lparr>gq_Team := team\<rparr>)" "bq_players q' = bq_players q" "bq_next q' = bq_next q"
      "bq_groups q' = (bq_groups q)(b := (bq_groups q b)(j' := a # bq_groups q b j', j := xs))"
  shows "bq_wf i q'"
proof -
  have mem: "x \<in> set (bq_groups q' b1 j1) \<longleftrightarrow>
      (if x = a then b1 = b \<and> j1 = j' else x \<in> set (bq_groups q b1 j1))" for x b1 j1
    using bq_wfD(4) [OF wf a] xs(1) j(1) by (auto simp: q'(4))
  have live: "live q' = live q"
  proof
    fix x
    have "live q' a" "live q a" using mem [of a b j'] liveI [OF a] liveI [of a q' b j'] by simp_all
    then show "live q' x = live q x" by (cases "x = a") (auto simp: live_def mem)
  qed
  have ok: "group_ok i b1 j1 (bq_heap q' x)" if "x \<in> set (bq_groups q' b1 j1)" for x b1 j1
    using that bq_wfD(2) [OF wf] bq_wfD(2) [OF wf a] j by (auto simp: mem q'(1) group_ok_def split: if_splits)
  have dist: "distinct (bq_groups q' b1 j1)" for b1 j1
    using bq_wfD(3) [OF wf] bq_wfD(4) [OF wf a] j(1) xs(2) by (auto simp: q'(4))
  have players: "gq_Players (bq_heap q' x) = gq_Players (bq_heap q x)" for x by (simp add: q'(1))
  show ?thesis
    unfolding bq_wf_def live players q'(2,3)
    using ok dist mem bq_wfD [OF wf] bq_wfD(1) [OF wf a] by (auto split: if_splits)
qed

lemma premade_expires_wf:
  assumes wf: "bq_wf i q" and t: "t < BG_TEAMS_COUNT"
  shows "bq_wf i (premade_expires tb m b t q)"
proof (cases "bq_groups q b (BG_QUEUE_PREMADE_ALLIANCE + t)")
  case (Cons a rest)
  show ?thesis
  proof (cases "\<not> gq_invited (bq_heap q a) \<and> (gq_JoinTime (bq_heap q a) < tb \<or> gq_size (bq_heap q a) < unat m)")
    case True
    have a: "a \<in> set (bq_groups q b (BG_QUEUE_PREMADE_ALLIANCE + t))" using Cons by simp
    show ?thesis
    proof (rule bq_wf_move [OF wf a])
      show "BG_QUEUE_PREMADE_ALLIANCE + t \<noteq> BG_QUEUE_NORMAL_ALLIANCE + t" "BG_QUEUE_NORMAL_ALLIANCE + t < BG_QUEUE_GROUP_TYPES_COUNT"
        using t by (simp_all add: bg_index_defs)
      show "gq_Team (bq_heap q a) = (if odd (BG_QUEUE_NORMAL_ALLIANCE + t) then HORDE else ALLIANCE)"
        using bq_wfD(2) [OF wf a] by (simp add: group_ok_def bg_index_defs)
      show "set rest = set (bq_groups q b (BG_QUEUE_PREMADE_ALLIANCE + t)) - {a}" "distinct rest"
        using bq_wfD(3) [OF wf, of b "BG_QUEUE_PREMADE_ALLIANCE + t"] Cons by auto
    qed (use True Cons in \<open>auto simp: premade_expires_def Let_def bg_index_defs\<close>)
  qed (use wf Cons in \<open>auto simp: premade_expires_def Let_def\<close>)
qed (use wf in \<open>simp add: premade_expires_def\<close>)

lemma bq_wf_pools [simp]: "bq_wf i (pool_update t p q) = bq_wf i q"
  by (simp add: bq_wf_def live_def)

lemma InitPools_wf [simp]: "bq_wf i (InitPools q) = bq_wf i q"
  by (simp add: InitPools_def)

lemma CheckPremadeMatch_wf:
  assumes "bq_wf i q" "CheckPremadeMatch now wait b minPlayers maxPlayers q = (found, q')"
  shows "bq_wf i q'"
proof -
  have "bq_wf i (fold (premade_expires tb m b) ts q)" if "bq_wf i q" "set ts \<subseteq> {0..<BG_TEAMS_COUNT}" for ts tb m q
    using that by (induction ts arbitrary: q) (auto intro: premade_expires_wf)
  with assms show ?thesis by (auto simp: CheckPremadeMatch_def Let_def split: option.splits)
qed

lemma FillPlayersToBG_wf: "bq_wf i q \<Longrightarrow> FillPlayersToBG mode bg b q = Inr q' \<Longrightarrow> bq_wf i q'"
  by (auto simp: FillPlayersToBG_def Let_def res_bind_eq_Inr split: if_splits prod.splits)

lemma CheckNormalMatch_wf: "bq_wf i q \<Longrightarrow> CheckNormalMatch mode testing b minPlayers maxPlayers q = Inr (found, q') \<Longrightarrow> bq_wf i q'"
  by (auto simp: CheckNormalMatch_def Let_def split: if_splits list.splits prod.splits)

section \<open>Skirmishes\<close>

lemma fill_uninvited_selects:
  "\<exists>ys. sp_SelectedGroups (fill_uninvited h d as p) = sp_SelectedGroups p @ ys \<and> set ys \<subseteq> set as \<and> (distinct as \<longrightarrow> distinct ys)"
proof (induction as arbitrary: p)
  case (Cons a as)
  obtain ok p' where p': "pool_AddGroup h a d p = (ok, p')" by force
  obtain ys where ys: "sp_SelectedGroups (fill_uninvited h d as p) = sp_SelectedGroups p @ ys" "set ys \<subseteq> set as"
    "distinct as \<longrightarrow> distinct ys" using Cons by blast
  obtain zs where zs: "sp_SelectedGroups (fill_uninvited h d as p') = sp_SelectedGroups p' @ zs" "set zs \<subseteq> set as"
    "distinct as \<longrightarrow> distinct zs" using Cons by blast
  have sel: "sp_SelectedGroups p' = sp_SelectedGroups p \<or> sp_SelectedGroups p' = sp_SelectedGroups p @ [a]"
    using p' by (auto simp: pool_AddGroup_def split: if_splits)
  show ?case
  proof (cases "gq_invited (h a)")
    case True
    with ys show ?thesis by auto
  next
    case False
    show ?thesis
    proof (cases ok)
      case True
      with False p' zs sel show ?thesis by (elim disjE) (auto intro!: exI [of _ zs] exI [of _ "a # zs"])
    next
      case not_ok: False
      with False p' sel show ?thesis by auto
    qed
  qed
qed simp

lemma erase_behind_split: "a0 \<notin> set pre \<Longrightarrow> erase_behind a0 a (pre @ a0 # post) = pre @ a0 # remove1 a post"
  by (induction pre) auto

lemma skirmish_moves_wf:
  assumes "bq_wf i q" "bq_groups q b (BG_QUEUE_NORMAL_ALLIANCE + team) = pre @ a0 # post" "a0 \<notin> set pre"
    "set as \<subseteq> set post" "distinct as"
    "(team, other, otherId) \<in> {(TEAM_HORDE, TEAM_ALLIANCE, ALLIANCE), (TEAM_ALLIANCE, TEAM_HORDE, HORDE)}"
  shows "bq_wf i (fold (skirmish_move b team other otherId a0) as q)"
  using assms
proof (induction as arbitrary: q post)
  case (Cons a as)
  let ?j = "BG_QUEUE_NORMAL_ALLIANCE + team" and ?q = "skirmish_move b team other otherId a0 a q"
  have dist: "distinct (pre @ a0 # post)" using bq_wfD(3) [OF Cons.prems(1), of b ?j] Cons.prems(2) by simp
  have a: "a \<in> set (bq_groups q b ?j)" "a \<in> set post" using Cons.prems(2,4) by auto
  have erase: "erase_behind a0 a (pre @ a0 # post) = pre @ a0 # remove1 a post"
    using Cons.prems(3) by (rule erase_behind_split)
  have ne: "BG_QUEUE_NORMAL_ALLIANCE + team \<noteq> BG_QUEUE_NORMAL_ALLIANCE + other" using Cons.prems(6) by (auto simp: bg_index_defs)
  have "bq_wf i ?q"
  proof (rule bq_wf_move [OF Cons.prems(1) a(1) ne])
    show "BG_QUEUE_NORMAL_ALLIANCE + other < BG_QUEUE_GROUP_TYPES_COUNT" "otherId = (if odd (BG_QUEUE_NORMAL_ALLIANCE + other) then HORDE else ALLIANCE)"
      using Cons.prems(6) by (auto simp: bg_index_defs)
    show "set (pre @ a0 # remove1 a post) = set (bq_groups q b ?j) - {a}" "distinct (pre @ a0 # remove1 a post)"
      using dist a(2) Cons.prems(2) by (auto simp: set_remove1_eq dest: in_set_remove1 [THEN iffD1, rotated] notin_set_remove1)
  qed (use ne Cons.prems(2) erase in \<open>auto simp: skirmish_move_def\<close>)
  moreover have "bq_groups ?q b ?j = pre @ a0 # remove1 a post"
    using ne Cons.prems(2) erase by (simp add: skirmish_move_def)
  moreover have "set as \<subseteq> set (remove1 a post)"
    using Cons.prems(4,5) dist by (auto simp: set_remove1_eq)
  ultimately show ?case using Cons.IH [of ?q "remove1 a post"] Cons.prems(3,5,6) by simp
qed simp

lemma CheckSkirmish_result:
  assumes "CheckSkirmishForSameFaction b minPlayers q = Inr (found, q')"
    "\<not> (sp_PlayerCount (bq_pools q TEAM_ALLIANCE) < minPlayers \<and> sp_PlayerCount (bq_pools q TEAM_HORDE) < minPlayers)"
    "(if sp_PlayerCount (bq_pools q TEAM_HORDE) = minPlayers then (TEAM_HORDE, TEAM_ALLIANCE, ALLIANCE)
      else (TEAM_ALLIANCE, TEAM_HORDE, HORDE)) = (team, other, otherId)"
    "q1 = pool_update other SelectionPool q" "xs = bq_groups q b (BG_QUEUE_NORMAL_ALLIANCE + team)"
  shows "\<exists>a0. q' = (case dropWhile (\<lambda>a. a \<noteq> a0) xs of [] \<Rightarrow> q1
    | _ # behind \<Rightarrow> let p = fill_uninvited (bq_heap q) minPlayers behind SelectionPool; q2 = pool_update other p q1
        in if sp_PlayerCount p \<noteq> minPlayers then q2 else fold (skirmish_move b team other otherId a0) (sp_SelectedGroups p) q2)"
proof -
  obtain s0 ss where sel: "sp_SelectedGroups (bq_pools q1 team) = s0 # ss"
    using assms by (cases "sp_SelectedGroups (bq_pools q1 team)") (auto simp: CheckSkirmishForSameFaction_def Let_def)
  define a0 where "a0 = List.last (s0 # ss)"
  have "(case dropWhile (\<lambda>a. a \<noteq> a0) xs of [] \<Rightarrow> Inr (False, q1)
    | _ # behind \<Rightarrow> (let p = fill_uninvited (bq_heap q) minPlayers behind SelectionPool; q2 = pool_update other p q1
        in if sp_PlayerCount p \<noteq> minPlayers then Inr (False, q2)
           else Inr (True, fold (skirmish_move b team other otherId a0) (sp_SelectedGroups p) q2))) = (Inr (found, q') :: fault + bool \<times> bg_queue)"
    using assms(1) unfolding CheckSkirmishForSameFaction_def Let_def assms(3) prod.case assms(4,5) [symmetric] if_not_P [OF assms(2)] sel list.case
      a0_def [symmetric] .
  then show ?thesis by (intro exI [of _ a0], cases "dropWhile (\<lambda>a. a \<noteq> a0) xs")
      (simp_all add: Let_def del: dropWhile_eq_Nil_conv split: if_splits)
qed

lemma CheckSkirmish_wf:
  assumes wf: "bq_wf i q" and r: "CheckSkirmishForSameFaction b minPlayers q = Inr (found, q')"
  shows "bq_wf i q'"
proof (cases "sp_PlayerCount (bq_pools q TEAM_ALLIANCE) < minPlayers \<and> sp_PlayerCount (bq_pools q TEAM_HORDE) < minPlayers")
  case True
  with wf r show ?thesis by (simp add: CheckSkirmishForSameFaction_def Let_def)
next
  case False
  obtain team other otherId where t: "(if sp_PlayerCount (bq_pools q TEAM_HORDE) = minPlayers then (TEAM_HORDE, TEAM_ALLIANCE, ALLIANCE)
        else (TEAM_ALLIANCE, TEAM_HORDE, HORDE)) = (team, other, otherId)"
    by (metis prod_cases3)
  then have cases: "(team, other, otherId) \<in> {(TEAM_HORDE, TEAM_ALLIANCE, ALLIANCE), (TEAM_ALLIANCE, TEAM_HORDE, HORDE)}"
    by (auto split: if_splits)
  define q1 where "q1 = pool_update other SelectionPool q"
  define xs where "xs = bq_groups q b (BG_QUEUE_NORMAL_ALLIANCE + team)"
  obtain a0 where q': "q' = (case dropWhile (\<lambda>a. a \<noteq> a0) xs of [] \<Rightarrow> q1
    | _ # behind \<Rightarrow> let p = fill_uninvited (bq_heap q) minPlayers behind SelectionPool; q2 = pool_update other p q1
        in if sp_PlayerCount p \<noteq> minPlayers then q2 else fold (skirmish_move b team other otherId a0) (sp_SelectedGroups p) q2)"
    using CheckSkirmish_result [OF r False t q1_def xs_def] by blast
  show ?thesis
  proof (cases "dropWhile (\<lambda>a. a \<noteq> a0) xs")
    case Nil
    with q' wf show ?thesis by (simp add: q1_def)
  next
    case (Cons x behind)
    define p where "p = fill_uninvited (bq_heap q) minPlayers behind SelectionPool"
    have x: "x = a0" using hd_dropWhile [of "\<lambda>a. a \<noteq> a0" xs] Cons by simp
    have split: "xs = takeWhile (\<lambda>a. a \<noteq> a0) xs @ a0 # behind" using Cons x by (metis takeWhile_dropWhile_id)
    have wf2: "bq_wf i (pool_update other p q1)" using wf by (simp add: q1_def)
    have "distinct behind" using bq_wfD(3) [OF wf, of b "BG_QUEUE_NORMAL_ALLIANCE + team"] split unfolding xs_def [symmetric]
      by (metis distinct.simps(2) distinct_append)
    then have ps: "set (sp_SelectedGroups p) \<subseteq> set behind" "distinct (sp_SelectedGroups p)"
      using fill_uninvited_selects [of "bq_heap q" minPlayers behind SelectionPool] by (auto simp: p_def SelectionPool_def)
    have "bq_wf i (fold (skirmish_move b team other otherId a0) (sp_SelectedGroups p) (pool_update other p q1))"
    proof (rule skirmish_moves_wf [OF wf2 _ _ ps cases])
      show "bq_groups (pool_update other p q1) b (BG_QUEUE_NORMAL_ALLIANCE + team) = takeWhile (\<lambda>a. a \<noteq> a0) xs @ a0 # behind"
        using split by (simp add: q1_def xs_def [symmetric])
      show "a0 \<notin> set (takeWhile (\<lambda>a. a \<noteq> a0) xs)" by (auto dest: set_takeWhileD)
    qed
    with wf2 q' Cons show ?thesis by (simp add: Let_def p_def [symmetric])
  qed
qed

section \<open>Joining\<close>

lemma set_inserts: "set (fold set_insert ms xs) = set ms \<union> set xs" "distinct xs \<Longrightarrow> distinct (fold set_insert ms xs)"
  by (induction ms arbitrary: xs) (simp_all, simp add: set_insert_def distinct_insort)

lemma enter_players:
  "bq_groups (fold (enter_player now a) ms q) = bq_groups q" "bq_next (fold (enter_player now a) ms q) = bq_next q"
  "bq_pools (fold (enter_player now a) ms q) = bq_pools q"
  "bq_heap (fold (enter_player now a) ms q) =
     (bq_heap q)(a := (bq_heap q a)\<lparr>gq_Players := fold set_insert ms (gq_Players (bq_heap q a))\<rparr>)"
  "bq_players (fold (enter_player now a) ms q) g =
     (if g \<in> set ms then Some \<lparr>qp_LastOnlineTime = now, qp_GroupInfo = a\<rparr> else bq_players q g)"
  by (induction ms arbitrary: q) (auto simp: enter_player_def)

lemma AddGroup_result:
  assumes "AddGroup now leader team grp t b arenaType isRated isPremade rating mmr q = (a, q')"
    "members = (case grp of None \<Rightarrow> [leader] | Some p \<Rightarrow> bp_members p)" "j = queue_index team isRated isPremade"
  shows "a = bq_next q" "bq_next q' = bq_next q + 1"
    "bq_groups q' = (bq_groups q)(b := (bq_groups q b)(j := bq_groups q b j @ [a]))"
    "bq_players q' g = (if g \<in> set members then Some \<lparr>qp_LastOnlineTime = now, qp_GroupInfo = a\<rparr> else bq_players q g)"
    "x \<noteq> a \<Longrightarrow> bq_heap q' x = bq_heap q x"
    "gq_Players (bq_heap q' a) = fold set_insert members []" "gq_Team (bq_heap q' a) = team" "gq_BgTypeId (bq_heap q' a) = t"
    "gq_ArenaType (bq_heap q' a) = arenaType" "gq_IsRated (bq_heap q' a) = isRated" "gq_Group (bq_heap q' a) = map_option bp_id grp"
  using assms by (auto simp: AddGroup_def Let_def enter_players)

lemma AddGroup_wf:
  assumes wf: "bq_wf i q" and add: "AddGroup now leader team grp t b arenaType isRated isPremade rating mmr q = (a, q')"
    and members: "members = (case grp of None \<Rightarrow> [leader] | Some p \<Rightarrow> bp_members p)" "members \<noteq> []"
      "\<And>m. m \<in> set members \<Longrightarrow> bq_players q m = None"
    and i: "BGQueueTypeId t arenaType = i" and b: "b < MAX_BATTLEGROUND_BRACKETS" and rated: "isRated \<Longrightarrow> grp \<noteq> None"
    and team: "team \<in> {ALLIANCE, HORDE}"
  shows "bq_wf i q'"
proof -
  define j where "j = queue_index team isRated isPremade"
  note r = AddGroup_result [OF add members(1) j_def]
  have j: "j < BG_QUEUE_GROUP_TYPES_COUNT" "team = (if odd j then HORDE else ALLIANCE)"
    using team by (auto simp: j_def queue_index_def bg_index_defs)
  have new: "a \<notin> set (bq_groups q b' j')" for b' j' using bq_wfD(1) [OF wf, of a b' j'] by (auto simp: r(1))
  have mem: "x \<in> set (bq_groups q' b' j') \<longleftrightarrow> (if x = a then b' = b \<and> j' = j else x \<in> set (bq_groups q b' j'))" for x b' j'
    using new by (auto simp: r(3))
  have live: "live q' x \<longleftrightarrow> x = a \<or> live q x" for x by (auto simp: live_def mem)
  have old: "\<not> live q a" using new by (simp add: live_def)
  have ps1: "set (gq_Players (bq_heap q' a)) = set members" by (simp add: r(6) set_inserts(1))
  have ps: "distinct (gq_Players (bq_heap q' a))" "gq_Players (bq_heap q' a) \<noteq> []"
    using set_inserts(2) [of "[]" members] ps1 members(2) by (simp add: r(6), metis set_empty)
  have ok: "x < bq_next q' \<and> group_ok i b' j' (bq_heap q' x)" if "x \<in> set (bq_groups q' b' j')" for x b' j'
  proof (cases "x = a")
    case True
    with that have bj: "b' = b" "j' = j" by (simp_all add: mem)
    have "group_ok i b j (bq_heap q' a)" using ps j b rated i by (auto simp: group_ok_def r(7-11))
    moreover have "a < bq_next q'" by (simp add: r(1,2))
    ultimately show ?thesis unfolding bj True by blast
  next
    case False
    with that have "x \<in> set (bq_groups q b' j')" by (simp add: mem)
    with bq_wfD(1,2) [OF wf this] False show ?thesis by (simp add: r(2,5))
  qed
  have dist: "distinct (bq_groups q' b' j')" for b' j' using bq_wfD(3) [OF wf] new by (simp add: r(3))
  have uniq: "b1 = b2 \<and> j1 = j2" if "x \<in> set (bq_groups q' b1 j1)" "x \<in> set (bq_groups q' b2 j2)" for x b1 j1 b2 j2
    using that bq_wfD(4) [OF wf] by (auto simp: mem split: if_splits)
  have known: "live q' (qp_GroupInfo pi) \<and> g \<in> set (gq_Players (bq_heap q' (qp_GroupInfo pi)))" if "bq_players q' g = Some pi" for g pi
  proof (cases "g \<in> set members")
    case True
    with that have "qp_GroupInfo pi = a" by (auto simp: r(4))
    with True ps1 show ?thesis by (simp add: live)
  next
    case False
    with that have "bq_players q g = Some pi" by (simp add: r(4))
    with bq_wfD(5) [OF wf this] old show ?thesis by (cases "qp_GroupInfo pi = a") (auto simp: live r(5))
  qed
  have listed: "map_option qp_GroupInfo (bq_players q' g) = Some x" if "live q' x" "g \<in> set (gq_Players (bq_heap q' x))" for x g
  proof (cases "x = a")
    case True
    with that(2) ps1 show ?thesis by (simp add: r(4))
  next
    case False
    with that have "map_option qp_GroupInfo (bq_players q g) = Some x" using bq_wfD(6) [OF wf, of x g] by (simp add: live r(5))
    with members(3) [of g] show ?thesis by (auto simp: r(4))
  qed
  show ?thesis unfolding bq_wf_def using ok dist uniq known listed by blast
qed

section \<open>Leaving\<close>

text \<open>A player leaves his group, and an empty group its list.\<close>

lemma bq_wf_leave:
  assumes wf: "bq_wf i q" and a: "a \<in> set (bq_groups q b j)" and g: "g \<in> set (gq_Players (bq_heap q a))"
    and ps: "ps = set_erase g (gq_Players (bq_heap q a))"
    and q': "bq_heap q' = (bq_heap q)(a := (bq_heap q a)\<lparr>gq_Players := ps\<rparr>)" "bq_players q' = (bq_players q)(g := None)"
      "bq_next q' = bq_next q"
      "bq_groups q' = (if ps = [] then (bq_groups q)(b := (bq_groups q b)(j := remove1 a (bq_groups q b j))) else bq_groups q)"
  shows "bq_wf i q'"
proof -
  have mem: "x \<in> set (bq_groups q' b' j') \<longleftrightarrow> x \<in> set (bq_groups q b' j') \<and> (x = a \<longrightarrow> ps \<noteq> [])" for x b' j'
  proof -
    have "a \<in> set (bq_groups q b' j') \<longleftrightarrow> b' = b \<and> j' = j" using a bq_wfD(4) [OF wf a] by blast
    moreover have "set (remove1 a (bq_groups q b j)) = set (bq_groups q b j) - {a}" using bq_wfD(3) [OF wf] by (rule set_remove1_eq)
    ultimately show ?thesis by (cases "ps = []") (auto simp: q'(4))
  qed
  have live: "live q' x \<longleftrightarrow> live q x \<and> (x = a \<longrightarrow> ps \<noteq> [])" for x by (auto simp: live_def mem)
  have setps: "set ps = set (gq_Players (bq_heap q a)) - {g}" by (auto simp: ps)
  have only: "map_option qp_GroupInfo (bq_players q g) = Some a" using bq_wfD(6) [OF wf liveI [OF a] g] .
  have ok: "x < bq_next q' \<and> group_ok i b' j' (bq_heap q' x)" if "x \<in> set (bq_groups q' b' j')" for x b' j'
    using that bq_wfD(1,2) [OF wf, of x b' j'] by (auto simp: mem q'(1,3) group_ok_def ps set_erase_def)
  have dist: "distinct (bq_groups q' b' j')" for b' j' using bq_wfD(3) [OF wf] by (auto simp: q'(4))
  have uniq: "b1 = b2 \<and> j1 = j2" if "x \<in> set (bq_groups q' b1 j1)" "x \<in> set (bq_groups q' b2 j2)" for x b1 j1 b2 j2
    using that bq_wfD(4) [OF wf] by (auto simp: mem)
  have known: "live q' (qp_GroupInfo pi) \<and> h \<in> set (gq_Players (bq_heap q' (qp_GroupInfo pi)))" if "bq_players q' h = Some pi" for h pi
  proof -
    from that have h: "h \<noteq> g" "bq_players q h = Some pi" by (auto simp: q'(2) split: if_splits)
    from bq_wfD(5) [OF wf h(2)] h(1) setps have "qp_GroupInfo pi = a \<longrightarrow> h \<in> set ps" by auto
    with bq_wfD(5) [OF wf h(2)] show ?thesis by (auto simp: live q'(1))
  qed
  have listed: "map_option qp_GroupInfo (bq_players q' h) = Some x" if "live q' x" "h \<in> set (gq_Players (bq_heap q' x))" for x h
  proof -
    from that setps have "live q x" "h \<in> set (gq_Players (bq_heap q x))" "x = a \<Longrightarrow> h \<noteq> g"
      by (auto simp: live q'(1) split: if_splits)
    with bq_wfD(6) [OF wf, of x h] only show ?thesis by (auto simp: q'(2))
  qed
  show ?thesis unfolding bq_wf_def using ok dist uniq known listed by blast
qed

lemma find_eq: "y \<in> set xs \<Longrightarrow> find (\<lambda>x. x = y) xs = Some y"
  by (induction xs) auto

text \<open>The list of a queued group is found by the faction of the group.\<close>

lemma find_group_wf:
  assumes wf: "bq_wf i q" and a: "a \<in> set (bq_groups q b j)"
  shows "find_group a (if gq_Team (bq_heap q a) = HORDE then BG_QUEUE_PREMADE_HORDE else BG_QUEUE_PREMADE_ALLIANCE) q = Some (b, j)"
proof -
  let ?k = "if gq_Team (bq_heap q a) = HORDE then BG_QUEUE_PREMADE_HORDE else BG_QUEUE_PREMADE_ALLIANCE"
  have ok: "b < MAX_BATTLEGROUND_BRACKETS" "j < BG_QUEUE_GROUP_TYPES_COUNT" "gq_Team (bq_heap q a) = HORDE \<longleftrightarrow> odd j"
    using bq_wfD(2) [OF wf a] by (auto simp: group_ok_def ALLIANCE_def HORDE_def)
  have "j = 0 \<or> j = 1 \<or> j = 2 \<or> j = 3" using ok(2) by (auto simp: bg_index_defs)
  with ok(3) have j: "j = ?k \<or> j = ?k + BG_TEAMS_COUNT" by (auto simp: bg_index_defs)
  then have *: "(a \<in> set (bq_groups q b' ?k) \<or> a \<in> set (bq_groups q b' (?k + BG_TEAMS_COUNT))) \<longleftrightarrow> b' = b" for b'
    using a bq_wfD(4) [OF wf a, of b'] by metis
  have "find (\<lambda>b'. b' = b) (rev [0..<MAX_BATTLEGROUND_BRACKETS]) = Some b"
    using ok(1) by (intro find_eq) simp
  moreover have "a \<in> set (bq_groups q b (?k + BG_TEAMS_COUNT)) \<longleftrightarrow> j = ?k + BG_TEAMS_COUNT"
    using a bq_wfD(4) [OF wf a, of b] by metis
  ultimately show ?thesis unfolding find_group_def * using j by auto
qed

end
