(* ===== verification/Bg_Departure.thy ===== *)
theory Bg_Departure
  imports Bg_Invariant
begin

text \<open>
  The invariant of the world of the queues, and departures: a player who is known to a queue has it among his own, and whoever is
  removed from a queue leaves it for good, without a fault and without disturbing anyone else.
\<close>

section \<open>The invariant of the world\<close>

definition queued :: "bg_world \<Rightarrow> nat \<Rightarrow> ObjectGuid \<Rightarrow> bool" where
  "queued w i g \<longleftrightarrow> bq_players (bw_queues w i) g \<noteq> None"

text \<open>The pairs of \<open>E\<close> are queues and players in the middle of a departure.\<close>

definition bw_wf_but :: "(nat \<times> ObjectGuid) set \<Rightarrow> bg_world \<Rightarrow> bool" where
  "bw_wf_but E w \<longleftrightarrow> (\<forall>i. bq_wf i (bw_queues w i)) \<and>
     (\<forall>i g. queued w i g \<longrightarrow> i \<noteq> BATTLEGROUND_QUEUE_NONE \<and> ((i, g) \<in> E \<or> i \<in> set (slot_kinds w g))) \<and>
     (\<forall>g. length (bw_slots w g) = PLAYER_MAX_BATTLEGROUND_QUEUES)"

abbreviation bw_wf :: "bg_world \<Rightarrow> bool" where
  "bw_wf \<equiv> bw_wf_but {}"

lemma bw_wfD:
  assumes "bw_wf_but E w"
  shows "bq_wf i (bw_queues w i)" "queued w i g \<Longrightarrow> i \<noteq> BATTLEGROUND_QUEUE_NONE" "queued w i g \<Longrightarrow> (i, g) \<notin> E \<Longrightarrow> i \<in> set (slot_kinds w g)"
    "length (bw_slots w g) = PLAYER_MAX_BATTLEGROUND_QUEUES"
  using assms by (auto simp: bw_wf_but_def)

lemma bw_wf_cong:
  assumes "bw_wf_but E w" "\<And>k. bq_wf k (bw_queues w' k)" "\<And>k g. queued w' k g \<Longrightarrow> queued w k g" "\<And>g. slot_kinds w' g = slot_kinds w g"
  shows "bw_wf_but E w'"
proof -
  have "length (bw_slots w' g) = length (bw_slots w g)" for g using assms(4) [of g] by (metis length_map)
  with assms(2,3) bw_wfD [OF assms(1)] show ?thesis unfolding bw_wf_but_def assms(4) by metis
qed

lemma bw_wf_settled: "bw_wf_but E w \<Longrightarrow> (\<And>i g. (i, g) \<in> E \<Longrightarrow> \<not> queued w i g) \<Longrightarrow> bw_wf w"
  unfolding bw_wf_but_def by blast

lemma bw_wf_frame: "bw_wf_but E w \<Longrightarrow> bw_queues w' = bw_queues w \<Longrightarrow> bw_slots w' = bw_slots w \<Longrightarrow> bw_wf_but E w'"
  by (simp add: bw_wf_but_def queued_def)

lemma slots_frame [simp]:
  "bw_slots (on_data t u w) = bw_slots w" "bw_queues (ScheduleQueueUpdate r x i t b w) = bw_queues w"
  "bw_slots (ScheduleQueueUpdate r x i t b w) = bw_slots w"
  by (simp_all add: on_data_def ScheduleQueueUpdate_def Let_def)

section \<open>The queues of a player\<close>

lemma kinds_update:
  "map qs_bgQueueTypeId (update_first (\<lambda>s. P (qs_bgQueueTypeId s)) (\<lambda>_. s') xs) =
     update_first P (\<lambda>_. qs_bgQueueTypeId s') (map qs_bgQueueTypeId xs)"
  by (induction xs) auto

lemma set_update_first: "y \<in> set xs \<Longrightarrow> \<not> P y \<Longrightarrow> y \<in> set (update_first P f xs)"
  by (induction xs) auto

lemma RemoveBattlegroundQueueId_slots [simp]:
  "length (RemoveBattlegroundQueueId t xs) = length xs"
  "k \<in> set (map qs_bgQueueTypeId xs) \<Longrightarrow> k \<noteq> t \<Longrightarrow> k \<in> set (map qs_bgQueueTypeId (RemoveBattlegroundQueueId t xs))"
  by (simp_all add: RemoveBattlegroundQueueId_def kinds_update [where P = "\<lambda>k. k = t"] set_update_first del: set_map)

lemma AddBattlegroundQueueId_slots:
  assumes "AddBattlegroundQueueId now t xs = (n, ys)"
  shows "length ys = length xs" "k \<in> set (map qs_bgQueueTypeId xs) \<Longrightarrow> k \<noteq> BATTLEGROUND_QUEUE_NONE \<Longrightarrow> k \<in> set (map qs_bgQueueTypeId ys)"
    "BATTLEGROUND_QUEUE_NONE \<in> set (map qs_bgQueueTypeId xs) \<or> t \<in> set (map qs_bgQueueTypeId xs) \<Longrightarrow> t \<in> set (map qs_bgQueueTypeId ys)"
proof -
  let ?P = "\<lambda>k. k = BATTLEGROUND_QUEUE_NONE \<or> k = t" and ?ks = "map qs_bgQueueTypeId xs"
  have ys: "ys = update_first (\<lambda>s. ?P (qs_bgQueueTypeId s)) (\<lambda>_. \<lparr>qs_bgQueueTypeId = t, qs_invitedToInstance = 0, qs_joinTime = now\<rparr>) xs"
    using assms by (simp add: AddBattlegroundQueueId_def Let_def)
  then show "length ys = length xs" by simp
  have ks: "map qs_bgQueueTypeId ys = update_first ?P (\<lambda>_. t) ?ks"
    unfolding ys by (subst kinds_update) simp
  have hit: "t \<in> set (update_first ?P (\<lambda>_. t) ks)" if "\<exists>k \<in> set ks. ?P k" for ks
    using that by (induction ks) auto
  show "k \<in> set ?ks \<Longrightarrow> k \<noteq> BATTLEGROUND_QUEUE_NONE \<Longrightarrow> k \<in> set (map qs_bgQueueTypeId ys)"
    unfolding ks using hit [of ?ks] set_update_first [of k ?ks ?P] by (cases "k = t") auto
  show "t \<in> set (map qs_bgQueueTypeId ys)" if "BATTLEGROUND_QUEUE_NONE \<in> set ?ks \<or> t \<in> set ?ks"
    unfolding ks by (rule hit) (use that in blast)
qed

lemma leave_slot_wf:
  assumes "bw_wf_but E w" shows "bw_wf_but (insert (i, g) E) (on_slots g (RemoveBattlegroundQueueId i) w)"
  using assms RemoveBattlegroundQueueId_slots(2) by (fastforce simp: bw_wf_but_def queued_def simp del: set_map)

section \<open>One departure\<close>

text \<open>What one call of \<^verbatim>\<open>RemovePlayer\<close> for a player of a known group does, with the player it goes on to.\<close>

definition one_departure :: "bg_env \<Rightarrow> nat \<Rightarrow> ObjectGuid \<Rightarrow> nat \<Rightarrow> bg_world \<Rightarrow> ObjectGuid option \<Rightarrow> bg_world \<Rightarrow> bool" where
  "one_departure env i g a w n w' \<longleftrightarrow>
     (let gi = bq_heap (bw_queues w i) a; ps = set_erase g (gq_Players gi) in
      bq_wf i (bw_queues w' i) \<and> (\<forall>k. k \<noteq> i \<longrightarrow> bw_queues w' k = bw_queues w k) \<and>
      bq_players (bw_queues w' i) = (bq_players (bw_queues w i))(g := None) \<and>
      bq_heap (bw_queues w' i) = (bq_heap (bw_queues w i))(a := gi\<lparr>gq_Players := ps\<rparr>) \<and>
      n = (case ps of [] \<Rightarrow> None | g' # _ \<Rightarrow> if \<not> gq_invited gi \<and> gq_IsRated gi then Some g' else None) \<and>
      (case n of None \<Rightarrow> bw_slots w' = bw_slots w
       | Some g' \<Rightarrow> g' \<noteq> g \<and> queued w i g' \<and> (\<forall>h. h \<noteq> g' \<longrightarrow> bw_slots w' h = bw_slots w h) \<and>
           bw_slots w' g' = (if be_connected env g' then RemoveBattlegroundQueueId i (bw_slots w g') else bw_slots w g')))"

lemma remove_one_departure:
  assumes wf: "bq_wf i (bw_queues w i)" and pi: "bq_players (bw_queues w i) g = Some pi"
  shows "\<exists>n w'. remove_one env i dec g w = Inr (n, w') \<and> one_departure env i g (qp_GroupInfo pi) w n w'"
proof -
  let ?q = "bw_queues w i" and ?a = "qp_GroupInfo pi"
  obtain b j where a: "?a \<in> set (bq_groups ?q b j)" and g: "g \<in> set (gq_Players (bq_heap ?q ?a))"
    using bq_wfD(5) [OF wf pi] by (auto simp: live_def)
  define ps where "ps = set_erase g (gq_Players (bq_heap ?q ?a))"
  define gi where "gi = (bq_heap ?q ?a)\<lparr>gq_Players := ps\<rparr>"
  have ok: "gq_IsRated gi \<longrightarrow> gq_Group gi \<noteq> None" "BGQueueTypeId (gq_BgTypeId gi) (gq_ArenaType gi) = i"
    using bq_wfD(2) [OF wf a] by (auto simp: group_ok_def gi_def)
  define w1 where "w1 = on_bgqueue i (gi_update ?a (\<lambda>gi. gi\<lparr>gq_Players := set_erase g (gq_Players gi)\<rparr>)) w"
  define w2 where "w2 = (if dec \<and> gq_invited gi then
                           (case GetBattleground (gq_IsInvitedToBGInstanceGUID gi) (gq_BgTypeId gi) w1 of
                              None \<Rightarrow> w1 | Some c \<Rightarrow> on_bg c (DecreaseInvitedCount (gq_Team gi)) w1)
                         else w1)"
  define w3 where "w3 = on_bgqueue i (\<lambda>q. q\<lparr>bq_players := (bq_players q)(g := None)\<rparr>) w2"
  define r4 where "r4 = (if gq_invited gi \<and> gq_IsRated gi \<and> dec then
       (case gq_Group gi of
          None \<Rightarrow> Inl NullPointer
        | Some p \<Rightarrow> Inr (bg_say
            ((if be_connected env g then MemberLost else OfflineMemberLost) p g
               (gq_OpponentsMatchmakerRating gi) (GetSlotByType (gq_ArenaType gi))) w3))
     else Inr w3)"
  have "\<exists>w4. r4 = Inr w4 \<and> bw_queues w4 = bw_queues w3 \<and> bw_slots w4 = bw_slots w3"
    using ok(1) by (auto simp: r4_def)
  then obtain w4 where w4: "r4 = Inr w4" "bw_queues w4 = bw_queues w3" "bw_slots w4 = bw_slots w3" by blast
  have w2: "bw_queues w2 = bw_queues w1" "bw_slots w2 = bw_slots w" by (auto simp: w2_def w1_def split: option.splits)
  have q1: "bq_heap (bw_queues w1 i) ?a = gi" by (simp add: w1_def gi_def ps_def)
  have step: "remove_one env i dec g w = res_bind r4 (\<lambda>w4. case ps of
      [] \<Rightarrow> Inr (None, on_bgqueue i (groups_update b j (remove1 ?a)) w4)
    | g' # _ \<Rightarrow> if \<not> gq_invited gi \<and> gq_IsRated gi then Inr (Some g', leave_notice env gi g' w4) else Inr (None, w4))"
    unfolding remove_one_def pi option.case Let_def find_group_wf [OF wf a] prod.case w1_def [symmetric] q1 w2_def [symmetric] w3_def [symmetric]
      r4_def [symmetric] by (simp add: gi_def)
  define q' where "q' = (if ps = [] then groups_update b j (remove1 ?a) (bw_queues w3 i) else bw_queues w3 i)"
  have "bq_wf i q'"
    by (rule bq_wf_leave [OF wf a g ps_def]) (auto simp: q'_def w3_def w2 w1_def gi_def ps_def)
  moreover have "bq_players q' = (bq_players ?q)(g := None)" by (simp add: q'_def w3_def w2 w1_def)
  moreover have others: "bw_queues w3 k = bw_queues w k" if "k \<noteq> i" for k using that by (simp add: w3_def w2 w1_def)
  moreover have slots: "bw_slots w4 = bw_slots w" by (simp add: w4 w3_def w2)
  moreover have heap: "bq_heap q' = (bq_heap ?q)(?a := gi)" by (simp add: q'_def w3_def w2 w1_def gi_def ps_def)
  moreover have flags: "gq_invited gi = gq_invited (bq_heap ?q ?a)" "gq_IsRated gi = gq_IsRated (bq_heap ?q ?a)"
    by (simp_all add: gi_def gq_invited_def)
  ultimately show ?thesis
  proof (cases ps)
    case Nil
    then have "remove_one env i dec g w = Inr (None, on_bgqueue i (groups_update b j (remove1 ?a)) w4)" by (simp add: step w4(1))
    with Nil \<open>bq_wf i q'\<close> \<open>bq_players q' = _\<close> heap others slots show ?thesis
      by (intro exI [of _ None] exI [of _ "on_bgqueue i (groups_update b j (remove1 ?a)) w4"])
        (simp add: q'_def w4 one_departure_def Let_def ps_def [symmetric] gi_def)
  next
    case (Cons g' rest)
    then have "g' \<in> set ps" by simp
    then have g': "g' \<noteq> g" "queued w i g'"
      using bq_wfD(6) [OF wf liveI [OF a], of g'] by (auto simp: ps_def queued_def)
    have gi': "(bq_heap ?q ?a)\<lparr>gq_Players := g' # rest\<rparr> = gi" by (simp add: gi_def Cons)
    have "remove_one env i dec g w =
        (if \<not> gq_invited gi \<and> gq_IsRated gi then Inr (Some g', leave_notice env gi g' w4) else Inr (None, w4))"
      by (simp add: step w4(1) Cons)
    with Cons \<open>bq_wf i q'\<close> \<open>bq_players q' = _\<close> heap others slots g' show ?thesis
      by (cases "\<not> gq_invited gi \<and> gq_IsRated gi") (auto simp: q'_def w4(2) leave_notice_def ok(2) one_departure_def Let_def ps_def [symmetric] gi' flags [symmetric])
  qed
qed

section \<open>The whole departure\<close>

lemma departure_wf:
  assumes wf: "bw_wf_but {(i, g)} w" and pi: "bq_players (bw_queues w i) g = Some pi" and r: "remove_one env i dec g w = Inr (n, w1)"
  shows "bw_wf_but (case n of None \<Rightarrow> {} | Some g' \<Rightarrow> {(i, g')}) w1" "queued w1 k h \<Longrightarrow> queued w k h \<and> (k, h) \<noteq> (i, g)"
    "h = g \<or> \<not> queued w i h \<Longrightarrow> bw_slots w1 h = bw_slots w h"
proof -
  have d: "one_departure env i g (qp_GroupInfo pi) w n w1"
    using remove_one_departure [OF bw_wfD(1) [OF wf] pi, of env dec] r by auto
  then have q: "bq_wf i (bw_queues w1 i)" "\<And>k. k \<noteq> i \<Longrightarrow> bw_queues w1 k = bw_queues w k"
      "bq_players (bw_queues w1 i) = (bq_players (bw_queues w i))(g := None)"
    and n: "case n of None \<Rightarrow> bw_slots w1 = bw_slots w
       | Some g' \<Rightarrow> g' \<noteq> g \<and> queued w i g' \<and> (\<forall>h. h \<noteq> g' \<longrightarrow> bw_slots w1 h = bw_slots w h) \<and>
         bw_slots w1 g' = (if be_connected env g' then RemoveBattlegroundQueueId i (bw_slots w g') else bw_slots w g')"
    unfolding one_departure_def Let_def by blast+
  show less: "queued w1 k h \<Longrightarrow> queued w k h \<and> (k, h) \<noteq> (i, g)" for k h
    using q(2,3) by (cases "k = i") (auto simp: queued_def split: if_splits)
  show "h = g \<or> \<not> queued w i h \<Longrightarrow> bw_slots w1 h = bw_slots w h" using n by (cases n; cases "h = the n") auto
  have wfs: "bq_wf k (bw_queues w1 k)" for k using q(1,2) bw_wfD(1) [OF wf] by (cases "k = i") auto
  show "bw_wf_but (case n of None \<Rightarrow> {} | Some g' \<Rightarrow> {(i, g')}) w1"
  proof (cases n)
    case None
    have "bw_wf w1"
    proof (rule bw_wf_settled [OF bw_wf_cong [OF wf wfs]])
      show "\<not> queued w1 k h" if "(k, h) \<in> {(i, g)}" for k h using that less by blast
    qed (use less n None in auto)
    with None show ?thesis by simp
  next
    case (Some g')
    have "bw_wf_but {(i, g')} w1"
      unfolding bw_wf_but_def
    proof (intro conjI allI impI)
      fix k h assume "queued w1 k h"
      with less have h: "queued w k h" "(k, h) \<noteq> (i, g)" by auto
      then show "k \<noteq> BATTLEGROUND_QUEUE_NONE" using bw_wfD(2) [OF wf] by blast
      have "k \<in> set (slot_kinds w h)" using bw_wfD(3) [OF wf h(1)] h(2) by simp
      then show "(k, h) \<in> {(i, g')} \<or> k \<in> set (slot_kinds w1 h)"
        using n Some RemoveBattlegroundQueueId_slots(2) [of k "bw_slots w g'" i]
        by (cases "h = g'"; cases "k = i") (auto simp del: set_map RemoveBattlegroundQueueId_slots split: if_splits)
    next
      fix h show "length (bw_slots w1 h) = PLAYER_MAX_BATTLEGROUND_QUEUES"
        using n Some bw_wfD(4) [OF wf] by (cases "h = g'") auto
    qed (rule wfs)
    with Some show ?thesis by simp
  qed
qed

theorem RemovePlayer_wf:
  assumes "bw_wf_but {(i, g)} w"
  shows "\<exists>w'. RemovePlayer env i dec g w = Inr w' \<and> bw_wf w' \<and> \<not> queued w' i g \<and> (\<forall>k h. queued w' k h \<longrightarrow> queued w k h) \<and>
    (\<forall>h. h = g \<or> \<not> queued w i h \<longrightarrow> bw_slots w' h = bw_slots w h)"
  using assms
proof (induction env i dec g w rule: RemovePlayer.induct)
  case (1 env i dec g w)
  show ?case
  proof (cases "bq_players (bw_queues w i) g")
    case None
    then have "RemovePlayer env i dec g w = Inr w" by (simp add: RemovePlayer.simps [of env i dec g w] remove_one_def)
    moreover have "bw_wf w" using None by (intro bw_wf_settled [OF 1(2)]) (auto simp: queued_def)
    ultimately show ?thesis using None by (simp add: queued_def)
  next
    case (Some pi)
    obtain n w1 where r: "remove_one env i dec g w = Inr (n, w1)"
      using remove_one_departure [OF bw_wfD(1) [OF 1(2)] Some, of env dec] by blast
    note d = departure_wf [OF 1(2) Some r]
    show ?thesis
    proof (cases n)
      case None
      then have "RemovePlayer env i dec g w = Inr w1" by (simp add: RemovePlayer.simps [of env i dec g w] r)
      with d None show ?thesis by auto
    next
      case (Some g')
      then have "bw_wf_but {(i, g')} w1" using d(1) by simp
      then obtain w' where w': "RemovePlayer env i dec g' w1 = Inr w'" "bw_wf w'" "\<And>k h. queued w' k h \<Longrightarrow> queued w1 k h"
          "\<And>h. h = g' \<or> \<not> queued w1 i h \<Longrightarrow> bw_slots w' h = bw_slots w1 h"
        using 1(1) [OF r refl Some] by blast
      have "RemovePlayer env i dec g w = Inr w'"
        using w'(1) Some by (simp add: RemovePlayer.simps [of env i dec g w] r del: RemovePlayer.simps)
      moreover have "bw_slots w' h = bw_slots w h" if "h = g \<or> \<not> queued w i h" for h
        using that d(2) [of i h] d(3) [of h] w'(4) [of h] by auto
      ultimately show ?thesis using w'(2,3) d(2) by (intro exI [of _ w']) blast
    qed
  qed
qed

section \<open>A rated team falls apart\<close>

theorem rated_team_leaves:
  assumes "bw_wf_but {(i, g)} w" "bq_players (bw_queues w i) g = Some pi" "gi = bq_heap (bw_queues w i) (qp_GroupInfo pi)"
    "gq_IsRated gi" "\<not> gq_invited gi" "RemovePlayer env i dec g w = Inr w'"
  shows "\<forall>m \<in> set (gq_Players gi). \<not> queued w' i m \<and>
    (m \<noteq> g \<and> be_connected env m \<longrightarrow> bw_slots w' m = RemoveBattlegroundQueueId i (bw_slots w m))"
  using assms
proof (induction env i dec g w arbitrary: pi gi rule: RemovePlayer.induct)
  case (1 env i dec g w)
  note wf = 1(2) and pi = 1(3) and gi = 1(4) and flags = 1(5,6)
  let ?a = "qp_GroupInfo pi"
  define ps where "ps = set_erase g (gq_Players gi)"
  obtain n w1 where r: "remove_one env i dec g w = Inr (n, w1)" and d: "one_departure env i g ?a w n w1"
    using remove_one_departure [OF bw_wfD(1) [OF wf] pi, of env dec] by blast
  have wf1: "bq_wf i (bw_queues w1 i)" and players: "bq_players (bw_queues w1 i) = (bq_players (bw_queues w i))(g := None)"
    and heap: "bq_heap (bw_queues w1 i) = (bq_heap (bw_queues w i))(?a := gi\<lparr>gq_Players := ps\<rparr>)"
    and n: "n = (case ps of [] \<Rightarrow> None | g' # _ \<Rightarrow> if \<not> gq_invited gi \<and> gq_IsRated gi then Some g' else None)"
    and slots: "case n of None \<Rightarrow> bw_slots w1 = bw_slots w
       | Some g' \<Rightarrow> g' \<noteq> g \<and> queued w i g' \<and> (\<forall>h. h \<noteq> g' \<longrightarrow> bw_slots w1 h = bw_slots w h) \<and>
         bw_slots w1 g' = (if be_connected env g' then RemoveBattlegroundQueueId i (bw_slots w g') else bw_slots w g')"
    using d unfolding one_departure_def Let_def gi [symmetric] ps_def [symmetric] by blast+
  have setps: "set ps = set (gq_Players gi) - {g}" by (simp add: ps_def)
  have gone: "\<not> queued w' i g" using RemovePlayer_wf [OF wf, of env dec] 1(7) by auto
  show ?case
  proof (cases ps)
    case Nil
    with setps have "set (gq_Players gi) \<subseteq> {g}" by auto
    with gone show ?thesis by auto
  next
    case (Cons g' rest)
    then have g': "g' \<in> set ps" "n = Some g'" using flags by (simp_all add: n)
    have run: "RemovePlayer env i dec g' w1 = Inr w'"
      using 1(7) g'(2) by (simp add: RemovePlayer.simps [of env i dec g w] r del: RemovePlayer.simps)
    have wfg': "bw_wf_but {(i, g')} w1"
      using departure_wf(1) [OF wf pi r] g'(2) by simp
    have live: "live (bw_queues w1 i) ?a"
    proof -
      have "g' \<in> set (gq_Players gi)" using g'(1) setps by blast
      then have "map_option qp_GroupInfo (bq_players (bw_queues w i) g') = Some ?a"
        using bq_wfD(5,6) [OF bw_wfD(1) [OF wf]] pi gi by blast
      then have "map_option qp_GroupInfo (bq_players (bw_queues w1 i) g') = Some ?a"
        using g'(1) setps by (simp add: players)
      then obtain z where "bq_players (bw_queues w1 i) g' = Some z" "qp_GroupInfo z = ?a" by auto
      with bq_wfD(5) [OF wf1 this(1)] show ?thesis by simp
    qed
    then obtain pi' where pi': "bq_players (bw_queues w1 i) g' = Some pi'" "qp_GroupInfo pi' = ?a"
      using bq_wfD(6) [OF wf1 live, of g'] g'(1) by (auto simp: heap)
    have IH: "\<forall>m \<in> set ps. \<not> queued w' i m \<and>
        (m \<noteq> g' \<and> be_connected env m \<longrightarrow> bw_slots w' m = RemoveBattlegroundQueueId i (bw_slots w1 m))"
      using 1(1) [OF r refl g'(2) wfg' pi'(1) _ _ _ run, of "gi\<lparr>gq_Players := ps\<rparr>"] flags
      by (simp add: pi'(2) heap gq_invited_def)
    have "bw_slots w' g' = bw_slots w1 g'" using RemovePlayer_wf [OF wfg', of env dec] run by auto
    with IH slots g'(2) setps gone show ?thesis by (auto split: if_splits) 
  qed
qed

end
