(* ===== verification/Bg_Rated.thy ===== *)
theory Bg_Rated
  imports Bg_Frame Bg_Match
begin

text \<open>
  Creation of battlegrounds and rated matches: the numbers shown to clients, the sizes of arenas, the packed numbers of scheduled
  updates, and what becomes of a rated team that waits alone.
\<close>

section \<open>Creation\<close>

lemma CreateClientVisibleInstanceId_frame:
  "CreateClientVisibleInstanceId t b w = (n, w') \<Longrightarrow>
     bw_queues w' = bw_queues w \<and> bw_slots w' = bw_slots w \<and> bw_bgs w' = bw_bgs w \<and> bw_nextBg w' = bw_nextBg w \<and> bw_sched w' = bw_sched w"
  by (auto simp: CreateClientVisibleInstanceId_def Let_def on_data_def split: if_splits)

lemma CreateNewBattleground_frame:
  assumes "CreateNewBattleground env t be arenaType rated w = Inr (r, w')"
  shows "bw_queues w' = bw_queues w \<and> bw_slots w' = bw_slots w \<and> bw_sched w' = bw_sched w \<and>
    (\<forall>c. r = Some c \<longrightarrow> c = bw_nextBg w \<and> bg_InstanceID (bw_bgs w' c) = be_instanceId env c \<and>
       bg_ArenaType (bw_bgs w' c) = arenaType \<and> bg_TypeID (bw_bgs w' c) = t)"
proof -
  obtain t' where t': "GetRandomBG env t = Inr t'"
    using assms by (auto simp: CreateNewBattleground_def res_bind_eq_Inr)
  show ?thesis
  proof (cases "GetBattlegroundTemplate t' w = None \<or> \<not> has_code t'")
    case True
    with assms t' show ?thesis by (auto simp: CreateNewBattleground_def split: option.splits)
  next
    case False
    then obtain c0 where c0: "GetBattlegroundTemplate t' w = Some c0" "has_code t'" by auto
    obtain n w1 where n: "CreateClientVisibleInstanceId t (dv_RangeIndex be) w = (n, w1)" by force
    from assms t' c0 n CreateClientVisibleInstanceId_frame [OF n] show ?thesis
      by (auto simp: CreateNewBattleground_def Let_def Reset_bg_def)
  qed
qed

lemma client_scan_start: "client_scan i 0 = (if i = 1 then 2 else 1)"
  by (cases "i = 1") (simp_all add: client_scan.simps [of i])

text \<open>C39: the number that a new battleground shows to clients is the lowest free one only for the first: while any is in use
  it is 3 if 1 is in use and 2 otherwise, so that the third battleground of a kind and bracket has the number of the second.\<close>

theorem client_numbers_collide:
  assumes "\<not> IsArenaType t" "ids = bd_ClientIds (data_at t w) b"
  shows "fst (CreateClientVisibleInstanceId t b w) = (if ids = [] then 1 else if hd ids = 1 then 3 else 2) \<and>
    (1 \<in> set ids \<and> 3 \<in> set ids \<and> sorted ids \<and> 0 \<notin> set ids \<longrightarrow> fst (CreateClientVisibleInstanceId t b w) \<in> set ids)"
proof -
  have *: "fst (CreateClientVisibleInstanceId t b w) = (if ids = [] then 1 else if hd ids = 1 then 3 else 2)"
    using assms by (auto simp: CreateClientVisibleInstanceId_def Let_def client_scan_start simp del: client_scan.simps split: list.splits)
  have "hd ids = 1" if "1 \<in> set ids" "sorted ids" "0 \<notin> set ids"
  proof -
    from that obtain x xs where ids: "ids = x # xs" "x \<noteq> 0" by (cases ids) auto
    with that have "x \<le> 1" by auto
    with ids(2) have "x = 1" by (metis word_le_less_eq word_less_1)
    with ids show ?thesis by simp
  qed
  with * show ?thesis by auto
qed

text \<open>A scene for witnesses: a manager with the template of one arena, which is the only choice for all arenas, a numbered battleground in
  use, and a rated team of the horde alone in the queue for teams of two.\<close>

definition bg_demo_env :: bg_env where
  "bg_demo_env = \<lparr>be_invitationType = 0, be_premadeWait = 1800000, be_maxRatingDifference = 150, be_ratingDiscardTimer = 600000,
     be_ratedUpdateTimer = 5000, be_connected = (\<lambda>_. True), be_team = (\<lambda>_. HORDE), be_level = (\<lambda>_. 80),
     be_inBattleground = (\<lambda>_. False), be_usingLfg = (\<lambda>_. False), be_canJoin = (\<lambda>_ _. True), be_frozen = (\<lambda>_. False),
     be_party = (\<lambda>_. None), be_rating = (\<lambda>_ _. 1500), be_averageMMR = (\<lambda>_ _. 1500), be_maxGroupSize = (\<lambda>_. Some 5),
     be_disabled = (\<lambda>_. False), be_bracketById = (\<lambda>_ _. None), be_bracketByLevel = (\<lambda>_ _. None),
     be_templateMaps = (\<lambda>_. Some [559, - 1]), be_mapTemplate = (\<lambda>_. Some (BATTLEGROUND_NA, 1)), be_pick = (\<lambda>_. 0),
     be_instanceId = (\<lambda>_. 7), be_finished = (\<lambda>_. False)\<rparr>"

definition demo_rated :: bg_queue where
  "demo_rated = bg_demo_queue
     \<lparr>bq_heap := (\<lambda>a. (lone_bg_group (ObjectGuid 0 9) HORDE)\<lparr>gq_IsRated := True, gq_ArenaType := Arena2v2,
         gq_ArenaGroupRating := 1600, gq_ArenaMatchmakerRating := 1500\<rparr>),
      bq_groups := (\<lambda>b j. if b = 0 \<and> j = BG_QUEUE_PREMADE_HORDE then [2] else []),
      bq_players := [ObjectGuid 0 9 \<mapsto> \<lparr>qp_LastOnlineTime = 0, qp_GroupInfo = 2\<rparr>]\<rparr>"

definition demo_world :: bg_world where
  "demo_world = \<lparr>bw_queues = (\<lambda>_. demo_rated), bw_bgs = (\<lambda>_. Battleground\<lparr>bg_IsArena := True\<rparr>), bw_nextBg = 1,
     bw_store = [(BATTLEGROUND_WS, BattlegroundData\<lparr>bd_ClientIds := \<lambda>_. [1, 3]\<rparr>),
                 (BATTLEGROUND_NA, BattlegroundData\<lparr>bd_Battlegrounds := [(0, 0)]\<rparr>)],
     bw_sched = [], bw_updateTimer = 0, bw_nextArenaUpdate = 0, bw_testing = False, bw_arenaTesting = False,
     bw_slots = (\<lambda>_. [no_slot, no_slot]), bw_out = []\<rparr>"

definition demo_range :: pvp_difficulty where
  "demo_range = \<lparr>dv_MapID = 559, dv_RangeIndex = 0, dv_MinLevel = 10, dv_MaxLevel = 110\<rparr>"

lemma demo_creation:
  "\<exists>w'. CreateNewBattleground bg_demo_env BATTLEGROUND_AA demo_range Arena2v2 True demo_world = Inr (Some 1, w') \<and> bg_IsArena (bw_bgs w' 1)"
  by (simp add: CreateNewBattleground_def GetRandomBG_def random_choices_def bg_demo_env_def List.map_filter_def GetBattlegroundTemplate_def
      demo_world_def bg_type_defs has_code_def CreateClientVisibleInstanceId_def IsArenaType_def Let_def Reset_bg_def BattlegroundData_def)

theorem client_numbers_collide_witness:
  "fst (CreateClientVisibleInstanceId BATTLEGROUND_WS 0 demo_world) = 3 \<and> 3 \<in> set (bd_ClientIds (data_at BATTLEGROUND_WS demo_world) 0)"
proof -
  have "\<not> IsArenaType BATTLEGROUND_WS" by (simp add: IsArenaType_def bg_type_defs)
  from client_numbers_collide [where w = demo_world and b = 0, OF this refl] show ?thesis
    by (simp add: demo_world_def data_at_def BattlegroundData_def)
qed

section \<open>Arenas\<close>

text \<open>A new arena takes its sizes from the place of its type in the player's record instead of the type itself: for teams
  of two it admits five players, for teams of three or five none.\<close>

theorem arena_sizes_are_wrong:
  assumes "CreateNewBattleground env t be arenaType rated w = Inr (Some c, w')" "bg_IsArena (bw_bgs w' c)"
    "arenaType \<in> {Arena2v2, Arena3v3, Arena5v5}"
  shows "bg_MaxPlayersPerTeam (bw_bgs w' c) = (if arenaType = Arena2v2 then 5 else 0) \<and>
    bg_MaxPlayers (bw_bgs w' c) = (if arenaType = Arena2v2 then 10 else 0)"
proof -
  obtain t' where t': "GetRandomBG env t = Inr t'" using assms(1) by (auto simp: CreateNewBattleground_def res_bind_eq_Inr)
  then obtain c0 where c0: "GetBattlegroundTemplate t' w = Some c0" "has_code t'"
    using assms(1) by (auto simp: CreateNewBattleground_def split: option.splits if_splits)
  obtain n w1 where n: "CreateClientVisibleInstanceId t (dv_RangeIndex be) w = (n, w1)" by force
  from assms t' c0 n show ?thesis
    by (auto simp: CreateNewBattleground_def Let_def Reset_bg_def arena_players_def arena_defs split: if_splits)
qed

theorem arena_sizes_are_wrong_witness:
  "\<exists>w'. CreateNewBattleground bg_demo_env BATTLEGROUND_AA demo_range Arena2v2 True demo_world = Inr (Some 1, w') \<and>
     bg_MaxPlayersPerTeam (bw_bgs w' 1) = 5"
proof -
  obtain w' where w': "CreateNewBattleground bg_demo_env BATTLEGROUND_AA demo_range Arena2v2 True demo_world = Inr (Some 1, w')"
      "bg_IsArena (bw_bgs w' 1)" using demo_creation by blast
  with arena_sizes_are_wrong [OF w'] show ?thesis by simp
qed

section \<open>Rated teams that wait alone\<close>

lemma rated_match_own:
  assumes "\<not> gq_invited g" "gq_ArenaMatchmakerRating g \<le> gq_ArenaMatchmakerRating g + GetMaxRatingDifference env"
  shows "rated_match env now (gq_ArenaMatchmakerRating g) g"
  using assms by (auto simp: rated_match_def Let_def intro: word_sub_le)

text \<open>C11: a rated team that waits alone is matched with itself: the search for a second team of the faction begins
  with the first. A team of the horde is then trapped: it plays for both sides, its own rating is that of its opponents, and it stands
  in a list in which no departure looks for it, so that none of its players can leave the queue any more.\<close>

theorem lone_rated_team_meets_itself:
  assumes lists: "bq_groups (bw_queues w i) b BG_QUEUE_PREMADE_ALLIANCE = []" "bq_groups (bw_queues w i) b BG_QUEUE_PREMADE_HORDE = [a]"
      "\<And>b' j. a \<in> set (bq_groups (bw_queues w i) b' j) \<Longrightarrow> b' = b \<and> j = BG_QUEUE_PREMADE_HORDE"
    and team: "g = bq_heap (bw_queues w i) a" "gq_Team g = HORDE" "\<not> gq_invited g"
      "gq_ArenaMatchmakerRating g \<le> gq_ArenaMatchmakerRating g + GetMaxRatingDifference env"
    and rating: "arenaRating = 0 \<or> arenaRating = gq_ArenaMatchmakerRating g"
    and new: "CreateNewBattleground env t be arenaType True w = Inr (Some c, w1)" "be_instanceId env c \<noteq> 0"
  shows "\<exists>w'. update_rated env now i t be b arenaType arenaRating w = Inr w' \<and>
    (let g' = bq_heap (bw_queues w' i) a in gq_IsInvitedToBGInstanceGUID g' = be_instanceId env c \<and>
       gq_OpponentsTeamRating g' = gq_ArenaGroupRating g \<and> gq_OpponentsMatchmakerRating g' = gq_ArenaMatchmakerRating g) \<and>
    (\<forall>p pi dec. bq_players (bw_queues w i) p = Some pi \<and> qp_GroupInfo pi = a \<longrightarrow> RemovePlayer env i dec p w' = Inr w')"
proof -
  let ?q = "bw_queues w i"
  have target: "rated_target arenaRating b ?q = Some (gq_ArenaMatchmakerRating g)"
    using rating lists team(1) by (auto simp: rated_target_def)
  have teams: "rated_teams (\<lambda>a. rated_match env now (gq_ArenaMatchmakerRating g) (bq_heap ?q a)) [] [a] = [a, a]"
    using rated_match_own [OF team(3,4)] team(1) by (simp add: rated_teams_def)
  note frame = CreateNewBattleground_frame [OF new(1)]
  define g1 where "g1 = g\<lparr>gq_OpponentsTeamRating := gq_ArenaGroupRating g, gq_OpponentsMatchmakerRating := gq_ArenaMatchmakerRating g\<rparr>"
  define f where "f = (\<lambda>q. move_team b a HORDE BG_QUEUE_PREMADE_HORDE BG_QUEUE_PREMADE_ALLIANCE
      (move_team b a ALLIANCE BG_QUEUE_PREMADE_ALLIANCE BG_QUEUE_PREMADE_HORDE (set_opponents a a q)))"
  define q1 where "q1 = f ?q"
  have q1: "bq_heap q1 = (bq_heap ?q)(a := g1)" "bq_players q1 = bq_players ?q"
      "bq_groups q1 = (bq_groups ?q)(b := (bq_groups ?q b)(BG_QUEUE_PREMADE_ALLIANCE := [a], BG_QUEUE_PREMADE_HORDE := []))"
    using lists team by (auto simp: q1_def f_def g1_def move_team_def set_opponents_def Let_def ALLIANCE_def HORDE_def bg_index_defs)
  define w2 where "w2 = on_bg c (SetArenaMatchmakerRating HORDE (gq_ArenaMatchmakerRating g1))
      (on_bg c (SetArenaMatchmakerRating ALLIANCE (gq_ArenaMatchmakerRating g1)) (on_bgqueue i f w1))"
  have w2: "bw_queues w2 i = q1" "bg_InstanceID (bw_bgs w2 c) = be_instanceId env c"
    using frame by (auto simp: w2_def q1_def SetArenaMatchmakerRating_def)
  obtain r3 w3 where w3: "InviteGroupToBG env now i a c ALLIANCE w2 = Inr (r3, w3)" "same_lists w2 w3"
      "\<And>k. bq_heap (bw_queues w3 k) = (if k = i then (bq_heap (bw_queues w2 i))
        (a := invited_group now (bg_InstanceID (bw_bgs w2 c)) ALLIANCE (bq_heap (bw_queues w2 i) a)) else bq_heap (bw_queues w2 k))"
    using InviteGroupToBG_frame [of env now i a c ALLIANCE w2] by blast
  obtain r4 w4 where w4: "InviteGroupToBG env now i a c HORDE w3 = Inr (r4, w4)" "same_lists w3 w4"
      "\<And>k. bq_heap (bw_queues w4 k) = (if k = i then (bq_heap (bw_queues w3 i))
        (a := invited_group now (bg_InstanceID (bw_bgs w3 c)) HORDE (bq_heap (bw_queues w3 i) a)) else bq_heap (bw_queues w3 k))"
    using InviteGroupToBG_frame [of env now i a c HORDE w3] by blast
  define g4 where "g4 = bq_heap (bw_queues w4 i) a"
  have g4: "gq_Team g4 = HORDE" "gq_IsInvitedToBGInstanceGUID g4 = be_instanceId env c"
      "gq_OpponentsTeamRating g4 = gq_ArenaGroupRating g" "gq_OpponentsMatchmakerRating g4 = gq_ArenaMatchmakerRating g"
    using team(3) new(2) by (simp_all add: g4_def w4(3) w3(3) w2 q1(1) g1_def invited_group_def Let_def gq_invited_def ALLIANCE_def HORDE_def)
  define w' where "w' = StartBattleground c w4"
  have q': "bw_queues w' = bw_queues w4"
    by (simp add: w'_def StartBattleground_def AddBattleground_def AddToBGFreeSlotQueue_def Let_def)
  have upd: "update_rated env now i t be b arenaType arenaRating w = Inr w'"
  proof -
    have "start_rated env now i b a a c w1 = Inr w'"
    proof -
      have "bq_heap (bw_queues (on_bgqueue i f w1) i) a = g1" using frame q1(1) by (simp add: q1_def)
      then show ?thesis
        using w3(1) w4(1) by (simp add: start_rated_def Let_def f_def [symmetric] w2_def w'_def del: world_frame)
    qed
    then show ?thesis using target teams lists new(1) by (simp add: update_rated_def Let_def)
  qed
  have grp: "bq_groups (bw_queues w' i) = bq_groups q1" "bq_players (bw_queues w' i) = bq_players ?q"
    using w3(2) w4(2) q1(2) w2(1) by (simp_all add: q' same_lists_def)
  have away: "a \<notin> set (bq_groups (bw_queues w' i) b' BG_QUEUE_PREMADE_HORDE)"
    "a \<notin> set (bq_groups (bw_queues w' i) b' (BG_QUEUE_PREMADE_HORDE + BG_TEAMS_COUNT))" for b'
    using lists(3) [of b'] by (auto simp: grp q1(3) bg_index_defs split: if_splits)
  then have "find_group a BG_QUEUE_PREMADE_HORDE (bw_queues w' i) = None"
    by (auto simp: find_group_def find_None_iff split: option.splits)
  moreover have "gq_Team (bq_heap (bw_queues w' i) a) = HORDE" using g4(1) by (simp add: q' g4_def)
  ultimately have "RemovePlayer env i dec p w' = Inr w'" if "bq_players ?q p = Some pi" "qp_GroupInfo pi = a" for p pi dec
    using that grp(2) by (simp add: RemovePlayer.simps [of env i dec p w'] remove_one_def Let_def)
  with upd g4 show ?thesis by (intro exI [of _ w']) (simp add: Let_def q' g4_def)
qed

theorem lone_rated_team_meets_itself_witness:
  "\<exists>w'. update_rated bg_demo_env 0 10 BATTLEGROUND_AA demo_range 0 Arena2v2 0 demo_world = Inr w' \<and>
     gq_OpponentsTeamRating (bq_heap (bw_queues w' 10) 2) = 1600 \<and> RemovePlayer bg_demo_env 10 False (ObjectGuid 0 9) w' = Inr w'"
proof -
  obtain w1 where w1: "CreateNewBattleground bg_demo_env BATTLEGROUND_AA demo_range Arena2v2 True demo_world = Inr (Some 1, w1)"
    using demo_creation by blast
  let ?g = "bq_heap (bw_queues demo_world 10) 2"
  have q: "bw_queues demo_world 10 = demo_rated" by (simp add: demo_world_def)
  have heap: "gq_ArenaMatchmakerRating ?g = 1500" "gq_Team ?g = HORDE" "\<not> gq_invited ?g" "gq_ArenaGroupRating ?g = 1600"
    by (simp_all add: q demo_rated_def lone_bg_group_def gq_invited_def)
  have "\<exists>w'. update_rated bg_demo_env 0 10 BATTLEGROUND_AA demo_range 0 Arena2v2 0 demo_world = Inr w' \<and>
    (let g' = bq_heap (bw_queues w' 10) 2 in gq_IsInvitedToBGInstanceGUID g' = be_instanceId bg_demo_env 1 \<and>
       gq_OpponentsTeamRating g' = gq_ArenaGroupRating ?g \<and> gq_OpponentsMatchmakerRating g' = gq_ArenaMatchmakerRating ?g) \<and>
    (\<forall>p pi dec. bq_players (bw_queues demo_world 10) p = Some pi \<and> qp_GroupInfo pi = 2 \<longrightarrow> RemovePlayer bg_demo_env 10 dec p w' = Inr w')"
    by (rule lone_rated_team_meets_itself [OF _ _ _ refl _ _ _ _ w1])
      (auto simp: heap(2) q demo_rated_def lone_bg_group_def gq_invited_def GetMaxRatingDifference_def bg_demo_env_def bg_index_defs split: if_splits)
  then show ?thesis unfolding heap Let_def by (auto simp: q demo_rated_def simp del: RemovePlayer.simps)
qed

end
