(* ===== verification/Bg_Runs.thy ===== *)
theory Bg_Runs
  imports Bg_Departure Bg_Rated
begin

text \<open>
  Invitations and the updates of a queue keep the invariant, rated updates those in which no team can meet itself.
\<close>

section \<open>Invitations\<close>

lemma Invite_wf:
  assumes wf: "bw_wf w" and side: "side = gq_Team (bq_heap (bw_queues w i) a)"
  shows "\<exists>r w'. InviteGroupToBG env now i a c side w = Inr (r, w') \<and> bw_wf w' \<and> same_lists w w'"
proof -
  obtain r w' where w': "InviteGroupToBG env now i a c side w = Inr (r, w')" "same_lists w w'"
      "\<And>k. bq_heap (bw_queues w' k) = (if k = i then (bq_heap (bw_queues w i))
        (a := invited_group now (bg_InstanceID (bw_bgs w c)) side (bq_heap (bw_queues w i) a)) else bq_heap (bw_queues w k))"
    using InviteGroupToBG_frame [of env now i a c side w] by blast
  have "bq_wf k (bw_queues w' k)" for k
    using w'(2) side by (intro bq_wf_cong [OF bw_wfD(1) [OF wf, of k]])
      (auto simp: same_lists_def w'(3) invited_group_def Let_def)
  then have "bw_wf w'"
    using w'(2) by (intro bw_wf_cong [OF wf]) (simp_all add: same_lists_def queued_def)
  with w'(1,2) show ?thesis by blast
qed

lemma invite_pools_wf:
  assumes "bw_wf w" shows "invite_pools env now i c w = Inr w' \<Longrightarrow> bw_wf w'"
proof -
  have one: "bw_wf v \<Longrightarrow> invite_own_team env now i c a v = Inr v' \<Longrightarrow> bw_wf v'" for a v v'
    using Invite_wf [OF _ refl, of v env now i a c] by (auto simp: invite_own_team_def)
  have "forE (invite_own_team env now i c) as v = Inr v' \<Longrightarrow> bw_wf v \<Longrightarrow> bw_wf v'" for as v v'
    by (rule forE_invariant [where P = bw_wf]) (use one in blast)+
  with assms show "invite_pools env now i c w = Inr w' \<Longrightarrow> bw_wf w'"
    by (auto simp: invite_pools_def res_bind_eq_Inr)
qed

section \<open>Updates\<close>

lemma on_queue_wf:
  assumes "bw_wf_but E w" "bq_wf i q" "\<And>g. bq_players q g = bq_players (bw_queues w i) g"
  shows "bw_wf_but E (on_bgqueue i (\<lambda>_. q) w)"
  using assms(2,3) bw_wfD(1) [OF assms(1)] by (intro bw_wf_cong [OF assms(1)]) (auto simp: queued_def split: if_splits)

lemma selection_players:
  "bq_players (InitPools q) = bq_players q" "bq_players (pool_update t p q) = bq_players q"
  "FillPlayersToBG mode bg b q = Inr q' \<Longrightarrow> bq_players q' = bq_players q"
  "CheckNormalMatch mode testing b minPlayers maxPlayers q = Inr (found, q') \<Longrightarrow> bq_players q' = bq_players q"
  by (auto simp: InitPools_def FillPlayersToBG_def CheckNormalMatch_def Let_def res_bind_eq_Inr split: if_splits prod.splits list.splits)

lemma premade_players: "CheckPremadeMatch now wait b minPlayers maxPlayers q = (found, q') \<Longrightarrow> bq_players q' = bq_players q"
proof -
  have "bq_players (premade_expires tb m b t q) = bq_players q" for tb m t q
    by (simp add: premade_expires_def Let_def split: list.split)
  then have "bq_players (fold (premade_expires tb m b) ts q) = bq_players q" for tb m ts q
    by (induction ts arbitrary: q) simp_all
  then show "CheckPremadeMatch now wait b minPlayers maxPlayers q = (found, q') \<Longrightarrow> bq_players q' = bq_players q"
    by (auto simp: CheckPremadeMatch_def Let_def split: option.splits)
qed

lemma skirmish_players: "CheckSkirmishForSameFaction b minPlayers q = Inr (found, q') \<Longrightarrow> bq_players q' = bq_players q"
proof -
  assume r: "CheckSkirmishForSameFaction b minPlayers q = Inr (found, q')"
  have moves: "bq_players (fold (skirmish_move b t oth oid a0) as q) = bq_players q" for t oth oid a0 as q
    by (induction as arbitrary: q) (simp_all add: skirmish_move_def)
  show ?thesis
  proof (cases "sp_PlayerCount (bq_pools q TEAM_ALLIANCE) < minPlayers \<and> sp_PlayerCount (bq_pools q TEAM_HORDE) < minPlayers")
    case True
    with r show ?thesis by (simp add: CheckSkirmishForSameFaction_def Let_def)
  next
    case False
    obtain team other otherId where t: "(if sp_PlayerCount (bq_pools q TEAM_HORDE) = minPlayers then (TEAM_HORDE, TEAM_ALLIANCE, ALLIANCE)
        else (TEAM_ALLIANCE, TEAM_HORDE, HORDE)) = (team, other, otherId)"
      by (metis prod_cases3)
    obtain a0 where q': "q' = (case dropWhile (\<lambda>a. a \<noteq> a0) (bq_groups q b (BG_QUEUE_NORMAL_ALLIANCE + team)) of
        [] \<Rightarrow> pool_update other SelectionPool q
      | _ # behind \<Rightarrow> let p = fill_uninvited (bq_heap q) minPlayers behind SelectionPool;
            q2 = pool_update other p (pool_update other SelectionPool q)
          in if sp_PlayerCount p \<noteq> minPlayers then q2 else fold (skirmish_move b team other otherId a0) (sp_SelectedGroups p) q2)"
      using CheckSkirmish_result [OF r False t refl refl] by blast
    show ?thesis
      unfolding q' by (cases "dropWhile (\<lambda>a. a \<noteq> a0) (bq_groups q b (BG_QUEUE_NORMAL_ALLIANCE + team))")
        (simp_all add: Let_def moves del: dropWhile_eq_Nil_conv)
  qed
qed

lemma free_slot_frame [simp]:
  "bw_queues (RemoveFromBGFreeSlotQueue c w) = bw_queues w" "bw_slots (RemoveFromBGFreeSlotQueue c w) = bw_slots w"
  "bw_queues (AddToBGFreeSlotQueue c w) = bw_queues w" "bw_slots (AddToBGFreeSlotQueue c w) = bw_slots w"
  "bw_queues (AddBattleground c w) = bw_queues w" "bw_slots (AddBattleground c w) = bw_slots w"
  "bw_queues (StartBattleground c w) = bw_queues w" "bw_slots (StartBattleground c w) = bw_slots w"
  "bw_queues (RemoveBattleground t n w) = bw_queues w" "bw_slots (RemoveBattleground t n w) = bw_slots w"
  by (simp_all add: RemoveFromBGFreeSlotQueue_def AddToBGFreeSlotQueue_def AddBattleground_def StartBattleground_def
      RemoveBattleground_def Let_def)

lemma fill_running_wf:
  assumes wf: "bw_wf w" and r: "fill_running env now i t b c w = Inr w'"
  shows "bw_wf w'"
proof (cases "w' = w")
  case False
  then obtain q w2 where q: "FillPlayersToBG (be_invitationType env) (bw_bgs w c) b (InitPools (bw_queues w i)) = Inr q"
      and w2: "invite_pools env now i c (on_bgqueue i (\<lambda>_. q) w) = Inr w2"
      and w': "w' = (if \<not> HasFreeSlots (bw_bgs w2 c) then RemoveFromBGFreeSlotQueue c w2 else w2)"
    using r by (auto simp: fill_running_def Let_def queue_bind_def res_bind_eq_Inr split: if_splits)
  have "bq_wf i q" using FillPlayersToBG_wf [OF _ q] bw_wfD(1) [OF wf] by simp
  then have "bw_wf (on_bgqueue i (\<lambda>_. q) w)" by (rule on_queue_wf [OF wf]) (simp add: selection_players(1) selection_players(3) [OF q])
  then have "bw_wf w2" using w2 by (rule invite_pools_wf)
  then show ?thesis by (auto simp: w' intro: bw_wf_frame)
qed (use wf in simp)

lemma start_selected_wf:
  assumes wf: "bw_wf w" and r: "start_selected env now i t be arenaType w = Inr (go, w')"
  shows "bw_wf w'"
proof -
  obtain c w1 where c: "CreateNewBattleground env t be arenaType False w = Inr (c, w1)"
    using r by (auto simp: start_selected_def res_bind_eq_Inr)
  have "bw_wf w1" using CreateNewBattleground_frame [OF c] wf by (auto intro: bw_wf_frame)
  with r c show ?thesis
    by (auto simp: start_selected_def res_bind_eq_Inr split: option.splits intro: bw_wf_frame dest: invite_pools_wf)
qed

lemma update_premade_wf:
  assumes wf: "bw_wf w" and r: "update_premade env now i t be b minPlayers maxPlayers w = Inr (go, w')"
  shows "bw_wf w'"
proof -
  obtain found q where q: "CheckPremadeMatch now (be_premadeWait env) b minPlayers maxPlayers (bw_queues w i) = (found, q)" by force
  have wf1: "bw_wf (on_bgqueue i (\<lambda>_. q) w)"
    using CheckPremadeMatch_wf [OF bw_wfD(1) [OF wf] q] by (rule on_queue_wf [OF wf]) (simp add: premade_players [OF q])
  have init: "bw_wf v \<Longrightarrow> bw_wf (on_bgqueue i InitPools v)" for v
    using on_queue_wf [of "{}" v i "InitPools (bw_queues v i)"] bw_wfD(1) [of "{}" v i]
    by (simp add: on_bgqueue_def selection_players(1))
  from r q wf1 show ?thesis
    by (auto simp: update_premade_def Let_def res_bind_eq_Inr split: if_splits intro!: init dest: start_selected_wf)
qed

lemma update_normal_wf:
  assumes wf: "bw_wf w" and r: "update_normal env now i t be b isArena arenaType minPlayers maxPlayers w = Inr w'"
  shows "bw_wf w'"
proof -
  obtain found q found' q' where
    q: "CheckNormalMatch (be_invitationType env) (bw_testing w) b minPlayers maxPlayers (bw_queues w i) = Inr (found, q)" and
    q': "(if \<not> found \<and> isArena then CheckSkirmishForSameFaction b minPlayers q else Inr (found, q)) = Inr (found', q')" and
    w': "(if found' then res_bind (start_selected env now i t be arenaType (on_bgqueue i (\<lambda>_. q') w)) (\<lambda>(_, w2). Inr w2)
      else Inr (on_bgqueue i (\<lambda>_. q') w)) = Inr w'"
    using r by (auto simp: update_normal_def res_bind_eq_Inr Let_def)
  have "bq_wf i q" using CheckNormalMatch_wf [OF bw_wfD(1) [OF wf] q] .
  then have "bq_wf i q'" "bq_players q' = bq_players (bw_queues w i)"
    using q' CheckSkirmish_wf skirmish_players selection_players(4) [OF q] by (auto split: if_splits)
  then have "bw_wf (on_bgqueue i (\<lambda>_. q') w)" by (intro on_queue_wf [OF wf]) simp_all
  with w' show ?thesis by (auto simp: res_bind_eq_Inr split: if_splits dest: start_selected_wf)
qed

section \<open>Rated matches\<close>

text \<open>The update of rated teams finds two of different factions, or none.\<close>

definition rated_apart :: "bg_env \<Rightarrow> uint32 \<Rightarrow> nat \<Rightarrow> uint32 \<Rightarrow> bg_queue \<Rightarrow> bool" where
  "rated_apart env now b rating q \<longleftrightarrow>
     (case rated_target rating b q of
        None \<Rightarrow> True
      | Some target \<Rightarrow>
         (case rated_teams (\<lambda>a. rated_match env now target (bq_heap q a))
                 (bq_groups q b BG_QUEUE_PREMADE_ALLIANCE) (bq_groups q b BG_QUEUE_PREMADE_HORDE) of
            [a, h] \<Rightarrow> a \<noteq> h | _ \<Rightarrow> True))"

lemma rated_apart_InitPools [simp]: "rated_apart env now b rating (InitPools q) = rated_apart env now b rating q"
  unfolding rated_apart_def rated_target_def InitPools_frame ..

lemma rated_teams_apart:
  assumes "rated_teams ok ali horde = [a, h]" "a \<noteq> h"
  shows "a \<in> set ali \<and> h \<in> set horde"
proof -
  have fits: "ok x" "x \<in> set xs" if "dropWhile (\<lambda>a. \<not> ok a) xs = x # ys" for x xs ys
    using that hd_dropWhile [of "\<lambda>a. \<not> ok a" xs] set_dropWhileD [of x "\<lambda>a. \<not> ok a" xs] by auto
  show ?thesis
  proof (cases "dropWhile (\<lambda>a. \<not> ok a) ali"; cases "dropWhile (\<lambda>a. \<not> ok a) horde")
    fix x xs y ys assume d: "dropWhile (\<lambda>a. \<not> ok a) ali = x # xs" "dropWhile (\<lambda>a. \<not> ok a) horde = y # ys"
    with assms fits(2) [OF d(1)] fits(2) [OF d(2)] show ?thesis by (simp add: rated_teams_def)
  next
    fix x xs assume d: "dropWhile (\<lambda>a. \<not> ok a) ali = x # xs" "dropWhile (\<lambda>a. \<not> ok a) horde = []"
    with assms fits(1) [OF d(1)] show ?thesis by (simp add: rated_teams_def del: dropWhile_eq_Nil_conv)
  next
    fix y ys assume d: "dropWhile (\<lambda>a. \<not> ok a) ali = []" "dropWhile (\<lambda>a. \<not> ok a) horde = y # ys"
    with assms fits(1) [OF d(2)] show ?thesis by (simp add: rated_teams_def del: dropWhile_eq_Nil_conv)
  qed (use assms in \<open>simp add: rated_teams_def del: dropWhile_eq_Nil_conv\<close>)
qed

lemma set_opponents_frame:
  "bq_groups (set_opponents a h q) = bq_groups q" "bq_players (set_opponents a h q) = bq_players q" "bq_next (set_opponents a h q) = bq_next q"
  "gq_Team (bq_heap (set_opponents a h q) x) = gq_Team (bq_heap q x)"
  "bq_wf i q \<Longrightarrow> bq_wf i (set_opponents a h q)"
proof -
  show frame: "bq_groups (set_opponents a h q) = bq_groups q" "bq_players (set_opponents a h q) = bq_players q"
    "bq_next (set_opponents a h q) = bq_next q" by (simp_all add: set_opponents_def Let_def)
  have heap: "gq_Players (bq_heap (set_opponents a h q) x) = gq_Players (bq_heap q x) \<and>
      gq_Team (bq_heap (set_opponents a h q) x) = gq_Team (bq_heap q x) \<and>
      gq_BgTypeId (bq_heap (set_opponents a h q) x) = gq_BgTypeId (bq_heap q x) \<and>
      gq_ArenaType (bq_heap (set_opponents a h q) x) = gq_ArenaType (bq_heap q x) \<and>
      gq_IsRated (bq_heap (set_opponents a h q) x) = gq_IsRated (bq_heap q x) \<and>
      gq_Group (bq_heap (set_opponents a h q) x) = gq_Group (bq_heap q x)" for x
    by (simp add: set_opponents_def Let_def)
  then show "gq_Team (bq_heap (set_opponents a h q) x) = gq_Team (bq_heap q x)" by blast
  show "bq_wf i q \<Longrightarrow> bq_wf i (set_opponents a h q)" by (rule bq_wf_cong [OF _ frame heap])
qed

lemma start_rated_wf:
  assumes wf: "bw_wf w" and a: "a \<in> set (bq_groups (bw_queues w i) b BG_QUEUE_PREMADE_ALLIANCE)"
    and h: "h \<in> set (bq_groups (bw_queues w i) b BG_QUEUE_PREMADE_HORDE)" and r: "start_rated env now i b a h c w = Inr w'"
  shows "bw_wf w'"
proof -
  let ?q = "bw_queues w i"
  have teams: "gq_Team (bq_heap ?q a) = ALLIANCE" "gq_Team (bq_heap ?q h) = HORDE"
    using bq_wfD(2) [OF bw_wfD(1) [OF wf] a] bq_wfD(2) [OF bw_wfD(1) [OF wf] h] by (simp_all add: group_ok_def bg_index_defs)
  define q1 where "q1 = set_opponents a h ?q"
  define w1 where "w1 = on_bgqueue i (\<lambda>_. q1) w"
  have moves: "on_bgqueue i (\<lambda>q. move_team b h HORDE BG_QUEUE_PREMADE_HORDE BG_QUEUE_PREMADE_ALLIANCE
      (move_team b a ALLIANCE BG_QUEUE_PREMADE_ALLIANCE BG_QUEUE_PREMADE_HORDE (set_opponents a h q))) w = w1"
    using teams by (simp add: w1_def q1_def on_bgqueue_def move_team_def set_opponents_frame)
  have wf1: "bw_wf w1" unfolding w1_def q1_def
    by (rule on_queue_wf [OF wf set_opponents_frame(5) [OF bw_wfD(1) [OF wf]]]) (simp add: set_opponents_frame)
  define w2 where "w2 = on_bg c (SetArenaMatchmakerRating HORDE (gq_ArenaMatchmakerRating (bq_heap (bw_queues w1 i) h)))
      (on_bg c (SetArenaMatchmakerRating ALLIANCE (gq_ArenaMatchmakerRating (bq_heap (bw_queues w1 i) a))) w1)"
  have wf2: "bw_wf w2" using wf1 by (rule bw_wf_frame) (simp_all add: w2_def)
  have "gq_Team (bq_heap (bw_queues w2 i) a) = ALLIANCE" by (simp add: w2_def w1_def q1_def set_opponents_frame teams)
  then obtain r3 w3 where w3: "InviteGroupToBG env now i a c ALLIANCE w2 = Inr (r3, w3)" "bw_wf w3" "same_lists w2 w3"
    using Invite_wf [OF wf2, of ALLIANCE i a] by metis
  have "h \<in> set (bq_groups (bw_queues w3 i) b BG_QUEUE_PREMADE_HORDE)"
    using w3(3) h by (simp add: same_lists_def w2_def w1_def q1_def set_opponents_frame)
  then have "gq_Team (bq_heap (bw_queues w3 i) h) = HORDE"
    using bq_wfD(2) [OF bw_wfD(1) [OF w3(2)]] by (simp add: group_ok_def bg_index_defs)
  then obtain r4 w4 where w4: "InviteGroupToBG env now i h c HORDE w3 = Inr (r4, w4)" "bw_wf w4"
    using Invite_wf [OF w3(2), of HORDE i h] by metis
  have "w' = StartBattleground c w4"
    using r unfolding start_rated_def Let_def moves w2_def [symmetric] by (simp add: w3(1) w4(1))
  with w4(2) show ?thesis by (auto intro: bw_wf_frame)
qed

theorem update_rated_wf:
  assumes wf: "bw_wf w" and apart: "rated_apart env now b rating (bw_queues w i)"
    and r: "update_rated env now i t be b arenaType rating w = Inr w'"
  shows "bw_wf w'"
proof (cases "rated_target rating b (bw_queues w i)")
  case (Some target)
  let ?q = "bw_queues w i"
  define teams where "teams = rated_teams (\<lambda>a. rated_match env now target (bq_heap ?q a))
      (bq_groups ?q b BG_QUEUE_PREMADE_ALLIANCE) (bq_groups ?q b BG_QUEUE_PREMADE_HORDE)"
  show ?thesis
  proof (cases "\<exists>a h. teams = [a, h]")
    case True
    then obtain a h where ah: "teams = [a, h]" by blast
    with apart Some have "a \<noteq> h" by (simp add: rated_apart_def teams_def [symmetric])
    with ah have mem: "a \<in> set (bq_groups ?q b BG_QUEUE_PREMADE_ALLIANCE)" "h \<in> set (bq_groups ?q b BG_QUEUE_PREMADE_HORDE)"
      using rated_teams_apart unfolding teams_def by blast+
    from r Some ah obtain c w1 where c: "CreateNewBattleground env t be arenaType True w = Inr (c, w1)"
        and w': "(case c of None \<Rightarrow> Inr w1 | Some c \<Rightarrow> start_rated env now i b a h c w1) = Inr w'"
      by (auto simp: update_rated_def Let_def teams_def [symmetric] res_bind_eq_Inr)
    have frame: "bw_queues w1 = bw_queues w" "bw_slots w1 = bw_slots w" using CreateNewBattleground_frame [OF c] by simp_all
    have "bw_wf w1" using wf frame by (rule bw_wf_frame)
    with w' mem show ?thesis by (cases c) (auto simp: frame dest: start_rated_wf)
  next
    case False
    then have "w' = w"
      using r Some by (auto simp: update_rated_def Let_def teams_def [symmetric] split: list.splits)
    with wf show ?thesis by simp
  qed
qed (use r wf in \<open>simp add: update_rated_def\<close>)

section \<open>The update of a queue\<close>

text \<open>No team meets itself in the rated part of an update, which chooses the two teams when running battlegrounds have been filled.\<close>

definition update_apart :: "bg_env \<Rightarrow> uint32 \<Rightarrow> nat \<Rightarrow> uint32 \<Rightarrow> nat \<Rightarrow> uint32 \<Rightarrow> bg_world \<Rightarrow> bool" where
  "update_apart env now i t b rating w \<longleftrightarrow>
     (case forE (fill_running env now i t b) (bd_FreeSlot (data_at t (on_data t (\<lambda>d. d) w))) (on_data t (\<lambda>d. d) w) of
        Inl _ \<Rightarrow> True | Inr w1 \<Rightarrow> rated_apart env now b rating (bw_queues w1 i))"

theorem BattlegroundQueueUpdate_wf:
  assumes wf: "bw_wf w" and apart: "isRated \<longrightarrow> update_apart env now i t b rating w"
    and r: "BattlegroundQueueUpdate env now i t b arenaType isRated rating w = Inr w'"
  shows "bw_wf w'"
proof (cases "list_all (\<lambda>j. bq_groups (bw_queues w i) b j = []) [0..<BG_QUEUE_GROUP_TYPES_COUNT]")
  case False
  define w0 where "w0 = on_data t (\<lambda>d. d) w"
  obtain w1 where w1: "forE (fill_running env now i t b) (bd_FreeSlot (data_at t w0)) w0 = Inr w1"
    using r False by (auto simp: BattlegroundQueueUpdate_def Let_def res_bind_eq_Inr w0_def)
  have "bw_wf w0" using wf by (rule bw_wf_frame) (simp_all add: w0_def)
  then have wf1: "bw_wf w1" by (rule forE_invariant [OF w1, where P = bw_wf]) (use fill_running_wf in blast)
  show ?thesis
  proof (cases "\<exists>c be. GetBattlegroundTemplate t w1 = Some c \<and> be_bracketById env (bg_MapId (bw_bgs w1 c)) b = Some be")
    case True
    then obtain c be where c: "GetBattlegroundTemplate t w1 = Some c" "be_bracketById env (bg_MapId (bw_bgs w1 c)) b = Some be" by blast
    define w2 where "w2 = on_bgqueue i InitPools w1"
    have wf2: "bw_wf w2"
      using on_queue_wf [OF wf1, of i "InitPools (bw_queues w1 i)"] bw_wfD(1) [OF wf1]
      by (simp add: w2_def on_bgqueue_def selection_players(1))
    define mx where "mx = (if bg_IsArena (bw_bgs w1 c) then ucast arenaType else bg_MaxPlayersPerTeam (bw_bgs w1 c))"
    define mn where "mn = (if bg_IsArena (bw_bgs w1 c) then (if bw_arenaTesting w1 then 1 else ucast arenaType)
                           else if bw_testing w1 then 1 else bg_MinPlayersPerTeam (bw_bgs w1 c))"
    have "res_bind (if \<not> bg_IsArena (bw_bgs w1 c) then update_premade env now i t be b mn mx w2 else Inr (True, w2))
        (\<lambda>(go, w3). if \<not> go then Inr w3
          else if \<not> isRated then update_normal env now i t be b (bg_IsArena (bw_bgs w1 c)) arenaType mn mx w3
          else if bg_IsArena (bw_bgs w1 c) then update_rated env now i t be b arenaType rating w3 else Inr w3) = Inr w'"
      using r unfolding BattlegroundQueueUpdate_def Let_def if_not_P [OF False] w0_def [symmetric] w1 res_bind_simps c option.case
        w2_def [symmetric] mx_def [symmetric] mn_def [symmetric] .
    then obtain go w3 where "(if \<not> bg_IsArena (bw_bgs w1 c) then update_premade env now i t be b mn mx w2 else Inr (True, w2)) = Inr (go, w3)"
        and w': "(if \<not> go then Inr w3 else if \<not> isRated then update_normal env now i t be b (bg_IsArena (bw_bgs w1 c)) arenaType mn mx w3
          else if bg_IsArena (bw_bgs w1 c) then update_rated env now i t be b arenaType rating w3 else Inr w3) = Inr w'"
      by (auto simp: res_bind_eq_Inr)
    then have wf3: "bw_wf w3" and same: "bg_IsArena (bw_bgs w1 c) \<longrightarrow> w3 = w2" using wf2 by (auto split: if_splits dest: update_premade_wf)
    have "rated_apart env now b rating (bw_queues w2 i)" if isRated
      using apart that w1 by (simp add: update_apart_def w0_def [symmetric] w2_def)
    with w' wf3 same show ?thesis by (auto split: if_splits dest: update_normal_wf update_rated_wf [rotated 2])
  next
    case no: False
    have "w' = w1"
    proof (cases "GetBattlegroundTemplate t w1")
      case None
      with r False w1 show ?thesis by (simp add: BattlegroundQueueUpdate_def Let_def w0_def [symmetric])
    next
      case (Some c)
      with no have "be_bracketById env (bg_MapId (bw_bgs w1 c)) b = None" by (cases "be_bracketById env (bg_MapId (bw_bgs w1 c)) b") auto
      with r False w1 Some show ?thesis by (simp add: BattlegroundQueueUpdate_def Let_def w0_def [symmetric])
    qed
    with wf1 show ?thesis by simp
  qed
qed (use r wf in \<open>simp add: BattlegroundQueueUpdate_def\<close>)

end
