(* ===== verification/Bg_Steps.thy ===== *)
theory Bg_Steps
  imports Bg_Runs
begin

text \<open>
  The events of a queue, served by the event processor, and joining alone or as a party keep the invariant.
\<close>

section \<open>Departures\<close>

lemma bw_wf_but_mono: "bw_wf w \<Longrightarrow> bw_wf_but E w"
  by (auto simp: bw_wf_but_def)

lemma leaving_wf:
  assumes "bw_wf w" "RemovePlayer env i dec g (on_slots g (RemoveBattlegroundQueueId i) w) = Inr w'"
  shows "bw_wf w'"
  using RemovePlayer_wf [OF leave_slot_wf [OF assms(1), of i g], of env dec] assms(2) by auto

lemma bw_wf_say [simp]: "bw_wf_but E (bg_say e w) = bw_wf_but E w"
  by (simp add: bw_wf_but_def queued_def)

lemma bw_wf_schedule [simp]: "bw_wf_but E (ScheduleQueueUpdate r x i t b w) = bw_wf_but E w"
  by (simp add: bw_wf_but_def queued_def)

lemma remove_event_wf:
  assumes "bw_wf w" "BGQueueRemoveEvent_Execute env g inst t i removeTime w = Inr w'"
  shows "bw_wf w'"
  using assms leaving_wf [of w env i True g]
  by (auto simp: BGQueueRemoveEvent_Execute_def Let_def res_bind_eq_Inr split: if_splits option.splits)

lemma bg_event_wf: "bw_wf w \<Longrightarrow> bg_event_Execute env ev w = Inr w' \<Longrightarrow> bw_wf w'"
  by (cases ev) (auto simp: bg_event_Execute_def BGQueueInviteEvent_Execute_def Let_def split: if_splits option.splits dest: remove_event_wf)

text \<open>What the events of a processor keep of its world, its loop keeps.\<close>

lemma ep_serve_world:
  assumes "ep_serve M p a s = Inr s'" "P (ep_world s)" "\<And>n t s. P (ep_world s) \<Longrightarrow> P (ep_world (snd (mExecute M n t p s)))"
    "\<And>n t s. P (ep_world s) \<Longrightarrow> P (ep_world (mAbort M n t s))"
  shows "P (ep_world s')"
proof -
  obtain e where e: "ep_deref a s = Inr e" using assms(1) by (auto simp: ep_serve_def res_bind_eq_Inr)
  show ?thesis
  proof (cases "IsRunning e")
    case True
    obtain del s1 where "mExecute M a (ep_time s) p s = (del, s1)" by force
    with True e assms(1,2) assms(3) [of s a "ep_time s"] show ?thesis by (auto simp: ep_serve_def)
  next
    case False
    have add: "AddEvent n t b v = Inr v' \<Longrightarrow> ep_world v' = ep_world v" for n t b v v'
      by (auto simp: AddEvent_def ep_deref_def Let_def ep_insert_def split: option.splits)
    from False e assms(1,2,4) show ?thesis
      by (auto simp: ep_serve_def Let_def res_bind_eq_Inr dest!: add split: if_splits)
  qed
qed

definition keeps_world :: "('w \<Rightarrow> bool) \<Rightarrow> 'w event_methods \<Rightarrow> uint32 \<Rightarrow> bool" where
  "keeps_world P M p \<longleftrightarrow> (\<forall>n t s. P (ep_world s) \<longrightarrow> P (ep_world (snd (mExecute M n t p s)))) \<and> (\<forall>n t s. P (ep_world s) \<longrightarrow> P (ep_world (mAbort M n t s)))"

lemma ep_loop_world:
  assumes "ep_loop M p s = Some r"
  shows "keeps_world P M p \<and> P (ep_world s) \<longrightarrow> (case r of Inl _ \<Rightarrow> True | Inr s' \<Rightarrow> P (ep_world s'))"
proof (rule ep_loop.raw_induct [OF _ assms])
  fix loop M p s r
  assume 1: "\<And>M p s r. loop M p s = Some r \<Longrightarrow> keeps_world P M p \<and> P (ep_world s) \<longrightarrow> (case r of Inl _ \<Rightarrow> True | Inr s' \<Rightarrow> P (ep_world s'))"
    and 2: "(case ep_events s of [] \<Rightarrow> Some (Inr s)
      | (t, a) # rest \<Rightarrow> if t \<le> ep_time s then
          (case ep_serve M p a (s\<lparr>ep_events := rest\<rparr>) of Inl err \<Rightarrow> Some (Inl err) | Inr s' \<Rightarrow> loop M p s')
        else Some (Inr s)) = Some r"
  show "keeps_world P M p \<and> P (ep_world s) \<longrightarrow> (case r of Inl _ \<Rightarrow> True | Inr s' \<Rightarrow> P (ep_world s'))"
  proof
    assume P: "keeps_world P M p \<and> P (ep_world s)"
    have serve: "P (ep_world s1)" if "ep_serve M p a (s\<lparr>ep_events := rest\<rparr>) = Inr s1" for a rest s1
      by (rule ep_serve_world [OF that]) (use P in \<open>auto simp: keeps_world_def\<close>)
    show "case r of Inl _ \<Rightarrow> True | Inr s' \<Rightarrow> P (ep_world s')"
    proof -
      have "P (ep_world s1) \<Longrightarrow> P (ep_world s')" if "loop M p s1 = Some (Inr s')" for s1 s'
        using 1 [OF that] P by simp
      with 2 P serve show ?thesis by (auto split: list.splits prod.splits if_splits sum.splits)
    qed
  qed
qed

lemma UpdateEvents_wf:
  assumes wf: "bw_wf w" and r: "UpdateEvents env diff i w = Some (Inr w')"
  shows "bw_wf w'"
proof -
  let ?q = "bw_queues w i"
  obtain p w1 where p: "ep_Update (bg_methods env (bq_actions ?q)) diff (with_world (bq_events ?q) (Inr w)) = Some (Inr p)"
      "ep_world p = Inr w1" and w': "w' = on_bgqueue i (\<lambda>q. q\<lparr>bq_events := with_world p ()\<rparr>) w1"
    using r by (auto simp: UpdateEvents_def res_bind_eq_Inr ep_fault_def split: option.splits sum.splits)
  let ?P = "\<lambda>r. \<forall>v. r = Inr v \<longrightarrow> bw_wf v"
  have "keeps_world ?P (bg_methods env (bq_actions ?q)) diff"
    by (auto simp: keeps_world_def bg_methods_def res_bind_eq_Inr dest: bg_event_wf)
  with ep_loop_world [OF p(1) [unfolded ep_Update_def], of ?P] wf have "?P (ep_world p)" by (simp add: with_world_def)
  with p(2) have wf1: "bw_wf w1" by simp
  have "bq_wf i ((bw_queues w1 i)\<lparr>bq_events := with_world p ()\<rparr>)" using bw_wfD(1) [OF wf1] by (rule bq_wf_cong) simp_all
  then show ?thesis
    using on_queue_wf [OF wf1, of i "(bw_queues w1 i)\<lparr>bq_events := with_world p ()\<rparr>"] by (simp add: w' on_bgqueue_def)
qed

section \<open>Joining\<close>

text \<open>What the world around the queues promises: players have a faction, level ranges have a number within bounds, and parties are
  not larger than the client's list allows.\<close>

definition env_ok :: "bg_env \<Rightarrow> bool" where
  "env_ok env \<longleftrightarrow> (\<forall>g. be_team env g \<in> {ALLIANCE, HORDE}) \<and>
     (\<forall>m l d. be_bracketByLevel env m l = Some d \<longrightarrow> dv_RangeIndex d < MAX_BATTLEGROUND_BRACKETS) \<and>
     (\<forall>g p t n. be_party env g = Some p \<longrightarrow> be_maxGroupSize env t = Some n \<longrightarrow> int (bp_membersCount p) \<le> n)"

lemma slot_index_less: "slot_index P xs < length xs \<longleftrightarrow> (\<exists>x \<in> set xs. P x)"
  by (induction xs) (auto simp: slot_index_def)

lemma has_queue:
  assumes "bw_wf_but E w"
  shows "GetBattlegroundQueueIndex i (bw_slots w g) < PLAYER_MAX_BATTLEGROUND_QUEUES \<longleftrightarrow> i \<in> set (slot_kinds w g)"
  using slot_index_less [of _ "bw_slots w g"] bw_wfD(4) [OF assms, of g] by (auto simp: GetBattlegroundQueueIndex_def)

definition may_queue :: "bg_world \<Rightarrow> nat \<Rightarrow> ObjectGuid \<Rightarrow> bool" where
  "may_queue w i g \<longleftrightarrow> BATTLEGROUND_QUEUE_NONE \<in> set (slot_kinds w g) \<and> i \<notin> set (slot_kinds w g)"

lemma has_free: "HasFreeBattlegroundQueueId xs \<longleftrightarrow> BATTLEGROUND_QUEUE_NONE \<in> set (map qs_bgQueueTypeId xs)"
  unfolding HasFreeBattlegroundQueueId_def list_ex_iff set_map image_iff by metis

lemma solo_may_queue: "bw_wf w \<Longrightarrow> solo_refusal env w bg t i arena g = None \<Longrightarrow> may_queue w i g"
  unfolding solo_refusal_def Let_def has_free has_queue may_queue_def by (simp del: set_map split: if_splits)

lemma first_refusal_None: "first_refusal f xs = None \<longleftrightarrow> (\<forall>x \<in> set xs. f x = None)"
  by (induction xs) (auto split: option.split)

lemma first_refusal_Some: "first_refusal f xs = Some r \<Longrightarrow> \<exists>x \<in> set xs. f x = Some r"
  by (induction xs) (auto split: option.splits)

lemma member_refusal_says: "member_refusal env w t i be team g \<noteq> Some ERR_BATTLEGROUND_NONE"
  by (simp add: member_refusal_def)

lemma member_may_queue: "bw_wf w \<Longrightarrow> member_refusal env w t i be team g = None \<Longrightarrow> may_queue w i g"
  unfolding member_refusal_def InBattlegroundQueueForBattlegroundQueueType_def has_free has_queue may_queue_def
  by (simp del: set_map split: if_splits)

lemma party_may_queue:
  assumes "bw_wf w" "env_ok env" "be_party env g = Some p" "CanJoinBattlegroundQueue env w p bg i n = Inr ERR_BATTLEGROUND_NONE"
  shows "bp_members p \<noteq> [] \<and> (\<forall>m \<in> set (bp_members p). may_queue w i m)"
proof -
  obtain maxSize where s: "be_maxGroupSize env (bg_TypeID bg) = Some maxSize"
    using assms(4) by (auto simp: CanJoinBattlegroundQueue_def split: if_splits option.splits)
  then have "\<not> int (bp_membersCount p) > maxSize" using assms(2,3) by (fastforce simp: env_ok_def)
  with assms(4) s obtain r rest be where r: "bp_members p = r # rest" and
    verdict: "(case first_refusal (member_refusal env w (bg_TypeID bg) i be (be_team env r)) (bp_members p) of
        Some r \<Rightarrow> Inr r
      | None \<Rightarrow> Inr (if bg_IsArena bg \<and> length (bp_members p) \<noteq> n then ERR_ARENA_TEAM_PARTY_SIZE else ERR_BATTLEGROUND_NONE))
      = (Inr ERR_BATTLEGROUND_NONE :: fault + _)"
    unfolding CanJoinBattlegroundQueue_def
    by (cases "bp_isLFG p"; cases "bp_members p") (simp_all del: first_refusal.simps split: option.splits)
  have "first_refusal (member_refusal env w (bg_TypeID bg) i be (be_team env r)) (bp_members p) = None"
  proof (cases "first_refusal (member_refusal env w (bg_TypeID bg) i be (be_team env r)) (bp_members p)")
    case (Some e)
    with verdict have "e = ERR_BATTLEGROUND_NONE" by simp
    with first_refusal_Some [OF Some] member_refusal_says show ?thesis by blast
  qed
  then show ?thesis using r member_may_queue [OF assms(1)] unfolding first_refusal_None by auto
qed

lemma take_slot_frame [simp]: "bw_queues (take_slot now i jt avg x grp g w) = bw_queues w"
  by (simp add: take_slot_def Let_def split: prod.split)

lemma take_slot_wf:
  assumes wf: "bw_wf_but (insert (i, g) E) w" and free: "BATTLEGROUND_QUEUE_NONE \<in> set (slot_kinds w g) \<or> i \<in> set (slot_kinds w g)"
  shows "bw_wf_but E (take_slot now i jt avg x grp g w)"
    "k \<in> set (slot_kinds w h) \<Longrightarrow> k \<noteq> BATTLEGROUND_QUEUE_NONE \<or> h \<noteq> g \<Longrightarrow> k \<in> set (slot_kinds (take_slot now i jt avg x grp g w) h)"
    "i \<in> set (slot_kinds (take_slot now i jt avg x grp g w) g)"
proof -
  obtain n ys where ys: "AddBattlegroundQueueId now i (bw_slots w g) = (n, ys)" by force
  note add = AddBattlegroundQueueId_slots [OF ys]
  have slots: "bw_slots (take_slot now i jt avg x grp g w) = (bw_slots w)(g := ys)" by (simp add: take_slot_def ys)
  show keep: "k \<in> set (slot_kinds (take_slot now i jt avg x grp g w) h)"
    if "k \<in> set (slot_kinds w h)" "k \<noteq> BATTLEGROUND_QUEUE_NONE \<or> h \<noteq> g" for k h
    unfolding slots using that add(2) [of k] by (cases "h = g") (simp_all del: set_map)
  show mine: "i \<in> set (slot_kinds (take_slot now i jt avg x grp g w) g)"
    unfolding slots using free add(3) by (simp del: set_map)
  have "length (((bw_slots w)(g := ys)) h) = PLAYER_MAX_BATTLEGROUND_QUEUES" for h
    using bw_wfD(4) [OF wf] add(1) by simp
  moreover have "queued (take_slot now i jt avg x grp g w) = queued w" by (simp add: queued_def fun_eq_iff)
  ultimately show "bw_wf_but E (take_slot now i jt avg x grp g w)"
  proof -
    assume len: "\<And>h. length (((bw_slots w)(g := ys)) h) = PLAYER_MAX_BATTLEGROUND_QUEUES"
      and same: "queued (take_slot now i jt avg x grp g w) = queued w"
    have "(k, h) \<in> E \<or> k \<in> set (slot_kinds (take_slot now i jt avg x grp g w) h)" if q: "queued w k h" for k h
    proof (cases "(k, h) = (i, g)")
      case False
      with bw_wfD(3) [OF wf q] bw_wfD(2) [OF wf q] keep [of k h] show ?thesis by blast
    qed (use mine in simp)
    then show ?thesis
      using bw_wfD(1,2) [OF wf] len unfolding bw_wf_but_def take_slot_frame same slots by blast
  qed
qed

lemma take_slots_wf:
  assumes "bw_wf_but ({i} \<times> set ms) w" "\<And>m. m \<in> set ms \<Longrightarrow> BATTLEGROUND_QUEUE_NONE \<in> set (slot_kinds w m) \<or> i \<in> set (slot_kinds w m)"
  shows "bw_wf (fold (take_slot now i jt avg x grp) ms w)"
  using assms
proof (induction ms arbitrary: w)
  case (Cons m ms)
  let ?w = "take_slot now i jt avg x grp m w"
  have "{i} \<times> set (m # ms) = insert (i, m) ({i} \<times> set ms)" by auto
  then have "bw_wf_but (insert (i, m) ({i} \<times> set ms)) w" using Cons.prems(1) by simp
  note t = take_slot_wf [OF this Cons.prems(2) [of m]]
  have "BATTLEGROUND_QUEUE_NONE \<in> set (slot_kinds ?w x) \<or> i \<in> set (slot_kinds ?w x)" if "x \<in> set ms" for x
  proof (cases "x = m")
    case False
    with that Cons.prems(2) [of x] t(2) show ?thesis by (metis list.set_intros(1,2))
  qed (use t(3) in simp)
  then have "bw_wf (fold (take_slot now i jt avg x grp) ms ?w)" using t(1) by (intro Cons.IH) simp_all
  then show ?case by simp
qed simp

lemma AddGroup_world:
  assumes wf: "bw_wf w" and env: "env_ok env" and add: "AddGroup now g (be_team env g) grp t b x isRated isPremade rating mmr (bw_queues w i) = (a, q)"
    and ms: "ms = (case grp of None \<Rightarrow> [g] | Some p \<Rightarrow> bp_members p)" "ms \<noteq> []" "\<And>m. m \<in> set ms \<Longrightarrow> may_queue w i m"
    and i: "BGQueueTypeId t x = i" and b: "b < MAX_BATTLEGROUND_BRACKETS" and rated: "isRated \<Longrightarrow> grp \<noteq> None"
  shows "bw_wf (fold (take_slot now i jt avg x' asGroup) ms (on_bgqueue i (\<lambda>_. q) w))"
proof (rule take_slots_wf)
  have "\<not> queued w i m" if "m \<in> set ms" for m
    using ms(3) [OF that] bw_wfD(3) [OF wf, of i m] by (auto simp: may_queue_def)
  then have none: "bq_players (bw_queues w i) m = None" if "m \<in> set ms" for m using that by (simp add: queued_def)
  have q: "bq_wf i q"
    by (rule AddGroup_wf [OF bw_wfD(1) [OF wf] add ms(1,2) none i b rated]) (use env in \<open>auto simp: env_ok_def\<close>)
  have "i \<noteq> BATTLEGROUND_QUEUE_NONE" using ms(2,3) by (cases ms) (auto simp: may_queue_def)
  moreover have "queued (on_bgqueue i (\<lambda>_. q) w) k h \<longleftrightarrow> queued w k h \<or> k = i \<and> h \<in> set ms" for k h
    using AddGroup_result(4) [OF add ms(1) refl, of h] by (auto simp: queued_def)
  ultimately show "bw_wf_but ({i} \<times> set ms) (on_bgqueue i (\<lambda>_. q) w)"
    using q bw_wfD [OF wf] by (auto simp: bw_wf_but_def)
  show "BATTLEGROUND_QUEUE_NONE \<in> set (slot_kinds (on_bgqueue i (\<lambda>_. q) w) m) \<or> i \<in> set (slot_kinds (on_bgqueue i (\<lambda>_. q) w) m)"
    if "m \<in> set ms" for m using ms(3) [OF that] by (simp add: may_queue_def)
qed

lemma join_solo_wf:
  assumes "bw_wf w" "env_ok env" "may_queue w i g" "BGQueueTypeId t x = i" "b < MAX_BATTLEGROUND_BRACKETS"
  shows "bw_wf (join_solo env now g t i b x w)"
proof -
  obtain a q where add: "AddGroup now g (be_team env g) None t b x False False 0 0 (bw_queues w i) = (a, q)" by force
  from AddGroup_world [OF assms(1,2) add, of "[g]"] assms(3-5) show ?thesis by (simp add: join_solo_def add Let_def)
qed

lemma join_party_wf:
  assumes "bw_wf w" "env_ok env" "be_party env g = Some p" "CanJoinBattlegroundQueue env w p bg i n = Inr err"
    "BGQueueTypeId t x = i" "b < MAX_BATTLEGROUND_BRACKETS"
  shows "bw_wf (join_party env now g p t i b x isRated isPremade rating mmr err w)"
proof (cases "err = ERR_BATTLEGROUND_NONE")
  case True
  obtain a q where add: "AddGroup now g (be_team env g) (Some p) t b x isRated isPremade rating mmr (bw_queues w i) = (a, q)" by force
  from AddGroup_world [OF assms(1,2) add, of "bp_members p"] party_may_queue [OF assms(1-3)] assms(4-6) True
  show ?thesis by (simp add: join_party_def add Let_def)
next
  case False
  have "bw_wf v \<Longrightarrow> bw_wf (fold (\<lambda>m. bg_say (StatusFailed m err)) ms v)" for ms v
    by (induction ms arbitrary: v) simp_all
  with False assms(1) show ?thesis by (simp add: join_party_def)
qed

end
