(* ===== verification/Bg_Reach.thy ===== *)
theory Bg_Reach
  imports Bg_Steps
begin

text \<open>
  The requests of players and the runs of the queues. A step is an operation of the manager, an update of a queue, the events of a
  queue, a request or a logout, in any environment; a run begins with a new manager and carries its past, so that theorems can say which
  requests they speak about. Two kinds of requests break the lists: rated updates in which a team meets itself (see
  \<^verbatim>\<open>lone_rated_team_meets_itself\<close>), and joins of parties larger than the client allows, which are not checked. Runs
  without them are called regular.
\<close>

section \<open>Requests of players\<close>

lemma env_bracket: "env_ok env \<Longrightarrow> be_bracketByLevel env m l = Some d \<Longrightarrow> dv_RangeIndex d < MAX_BATTLEGROUND_BRACKETS"
  by (auto simp: env_ok_def)

lemmas joins_wf = join_solo_wf [OF _ _ solo_may_queue refl env_bracket] join_party_wf [OF _ _ _ _ refl env_bracket]

lemma HandleBattlemasterJoin_wf:
  "bw_wf w \<Longrightarrow> env_ok env \<Longrightarrow> HandleBattlemasterJoin env now g queueID asGroup w = Inr w' \<Longrightarrow> bw_wf w'"
  by (auto simp: HandleBattlemasterJoin_def Let_def res_bind_eq_Inr split: if_splits option.splits intro: joins_wf)

lemma HandleBattlemasterJoinArena_wf:
  "bw_wf w \<Longrightarrow> env_ok env \<Longrightarrow> HandleBattlemasterJoinArena env now g slot w = Inr w' \<Longrightarrow> bw_wf w'"
  by (auto simp: HandleBattlemasterJoinArena_def Let_def res_bind_eq_Inr split: if_splits option.splits intro: joins_wf)

lemma HandleBattlemasterJoinArenaSkirmish_wf:
  "bw_wf w \<Longrightarrow> env_ok env \<Longrightarrow> HandleBattlemasterJoinArenaSkirmish env now g w = Inr w' \<Longrightarrow> bw_wf w'"
  by (auto simp: HandleBattlemasterJoinArenaSkirmish_def Let_def res_bind_eq_Inr split: if_splits option.splits intro: joins_wf)

lemma enter_battle_wf:
  assumes "bw_wf w" "enter_battle env g k i c gi w = Inr w'"
  shows "bw_wf w'"
proof (cases "be_frozen env g \<or> \<not> IsInvitedForBattlegroundQueueType i (bw_slots w g)")
  case False
  let ?w1 = "bg_say (StatusActive g (bg_InstanceID (bw_bgs w c)) k (GetBattlegroundQueueJoinTime i (bw_slots w g))) w"
  have "bw_wf_but {(i, g)} ?w1" using assms(1) by (simp add: bw_wf_but_mono)
  then obtain w2 where "RemovePlayer env i False g ?w1 = Inr w2" "bw_wf w2" using RemovePlayer_wf by blast
  with assms(2) False show ?thesis by (auto simp: enter_battle_def Let_def)
qed (use assms in \<open>auto simp: enter_battle_def\<close>)

lemma leave_queue_wf: "bw_wf w \<Longrightarrow> leave_bgqueue env g k i t b tm gi w = Inr w' \<Longrightarrow> bw_wf w'"
  using leaving_wf [of "bg_say (StatusNone g k tm) w" env i True g]
  by (auto simp: leave_bgqueue_def res_bind_eq_Inr split: if_splits)

lemma HandleBattleFieldPort_wf: "bw_wf w \<Longrightarrow> HandleBattleFieldPort env g k tm accepted w = Inr w' \<Longrightarrow> bw_wf w'"
  unfolding HandleBattleFieldPort_def Let_def
  by (auto split: if_splits option.splits dest: enter_battle_wf [rotated] leave_queue_wf [rotated])

section \<open>Logouts\<close>

lemma logout_slot_wf:
  assumes "bw_wf w"
  shows "\<exists>w'. logout_slot env g k w = Inr w' \<and> bw_wf w' \<and> (let i = GetBattlegroundQueueTypeId k (bw_slots w g)
    in bw_slots w' g = (if i = BATTLEGROUND_QUEUE_NONE then bw_slots w g else RemoveBattlegroundQueueId i (bw_slots w g)))"
proof -
  define i where "i = GetBattlegroundQueueTypeId k (bw_slots w g)"
  obtain w' where "RemovePlayer env i True g (on_slots g (RemoveBattlegroundQueueId i) w) = Inr w'" "bw_wf w'"
      "\<forall>h. h = g \<or> \<not> queued (on_slots g (RemoveBattlegroundQueueId i) w) i h \<longrightarrow>
        bw_slots w' h = bw_slots (on_slots g (RemoveBattlegroundQueueId i) w) h"
    using RemovePlayer_wf [OF leave_slot_wf [OF assms, of i g], of env True] by auto
  with assms show ?thesis by (auto simp: logout_slot_def Let_def i_def [symmetric])
qed

lemma LogoutPlayer_wf:
  assumes wf: "bw_wf w"
  shows "\<exists>w'. LogoutPlayer_queues env g w = Inr w' \<and> bw_wf w' \<and> \<not> InBattlegroundQueue (bw_slots w' g) \<and> (\<forall>i. \<not> queued w' i g)"
proof -
  obtain s0 s1 where s: "bw_slots w g = [s0, s1]"
    using bw_wfD(4) [OF wf, of g] by (auto simp: PLAYER_MAX_BATTLEGROUND_QUEUES_def length_Suc_conv numeral_2_eq_2)
  obtain w1 where w1: "logout_slot env g 0 w = Inr w1" "bw_wf w1" "let i = GetBattlegroundQueueTypeId 0 (bw_slots w g)
    in bw_slots w1 g = (if i = BATTLEGROUND_QUEUE_NONE then bw_slots w g else RemoveBattlegroundQueueId i (bw_slots w g))"
    using logout_slot_wf [OF wf] by blast
  then obtain t0 where t0: "bw_slots w1 g = [t0, s1]" "qs_bgQueueTypeId t0 = BATTLEGROUND_QUEUE_NONE"
    by (auto simp: s GetBattlegroundQueueTypeId_def RemoveBattlegroundQueueId_def Let_def no_slot_def split: if_splits)
  obtain w2 where w2: "logout_slot env g 1 w1 = Inr w2" "bw_wf w2" "let i = GetBattlegroundQueueTypeId 1 (bw_slots w1 g)
    in bw_slots w2 g = (if i = BATTLEGROUND_QUEUE_NONE then bw_slots w1 g else RemoveBattlegroundQueueId i (bw_slots w1 g))"
    using logout_slot_wf [OF w1(2)] by blast
  then have kinds: "set (slot_kinds w2 g) = {BATTLEGROUND_QUEUE_NONE}"
    using t0 by (auto simp: GetBattlegroundQueueTypeId_def RemoveBattlegroundQueueId_def Let_def no_slot_def split: if_splits)
  have "LogoutPlayer_queues env g w = Inr w2"
    using w1(1) w2(1) by (simp add: LogoutPlayer_queues_def PLAYER_MAX_BATTLEGROUND_QUEUES_def numeral_2_eq_2 upt_rec)
  moreover have "\<not> queued w2 i g" for i using bw_wfD(2,3) [OF w2(2), of i g] kinds by auto
  moreover have "\<not> InBattlegroundQueue (bw_slots w2 g)" using kinds by (auto simp: InBattlegroundQueue_def list_ex_iff)
  ultimately show ?thesis using w2(2) by blast
qed

section \<open>Battlegrounds come and go\<close>

lemma CreateBattleground_frame: "bw_queues (snd (CreateBattleground bt w)) = bw_queues w \<and> bw_slots (snd (CreateBattleground bt w)) = bw_slots w"
  by (simp add: CreateBattleground_def Let_def split: option.split)

lemma delete_battleground_frame [simp]:
  "bw_queues (delete_battleground t nc w) = bw_queues w" "bw_slots (delete_battleground t nc w) = bw_slots w"
  by (simp_all add: delete_battleground_def Let_def split: prod.split)

lemma delete_finished_frame:
  assumes "delete_finished env w = Inr w'" shows "bw_queues w' = bw_queues w \<and> bw_slots w' = bw_slots w"
proof -
  have fold: "bw_queues (fold (delete_battleground t) xs v) = bw_queues v \<and> bw_slots (fold (delete_battleground t) xs v) = bw_slots v" for t xs v
    by (induction xs arbitrary: v) simp_all
  show ?thesis
    by (rule forE_invariant [OF assms [unfolded delete_finished_def], where P = "\<lambda>v. bw_queues v = bw_queues w \<and> bw_slots v = bw_slots w"])
      (auto simp: fold split: prod.splits list.splits)
qed

section \<open>Runs\<close>

datatype bg_request =
    BattlemasterJoin bg_env uint32 ObjectGuid uint64 bool
  | BattlemasterJoinArena bg_env uint32 ObjectGuid uint8
  | BattlemasterJoinArenaSkirmish bg_env uint32 ObjectGuid
  | BattleFieldPort bg_env ObjectGuid nat uint32 bool
  | LogoutPlayer bg_env ObjectGuid
  | QueueEvents bg_env uint32 nat
  | QueueUpdate bg_env uint32 nat uint32 nat uint8 bool uint32
  | BattlegroundTemplate bg_template
  | BattlegroundsFinished bg_env
  | BattlegroundChange nat "battleground \<Rightarrow> battleground"
  | TestingToggle
  | ArenaTestingToggle
  | UpdatesServed "uint64 list" uint32 uint32

text \<open>Every operation, without any condition on what it is applied to.\<close>

inductive bg_step :: "bg_request \<Rightarrow> bg_world \<Rightarrow> bg_world \<Rightarrow> bool" where
  join: "HandleBattlemasterJoin env now g queueID asGroup w = Inr w' \<Longrightarrow> bg_step (BattlemasterJoin env now g queueID asGroup) w w'"
| join_arena: "HandleBattlemasterJoinArena env now g slot w = Inr w' \<Longrightarrow> bg_step (BattlemasterJoinArena env now g slot) w w'"
| join_skirmish: "HandleBattlemasterJoinArenaSkirmish env now g w = Inr w' \<Longrightarrow> bg_step (BattlemasterJoinArenaSkirmish env now g) w w'"
| port: "HandleBattleFieldPort env g k tm accepted w = Inr w' \<Longrightarrow> bg_step (BattleFieldPort env g k tm accepted) w w'"
| logout: "LogoutPlayer_queues env g w = Inr w' \<Longrightarrow> bg_step (LogoutPlayer env g) w w'"
| events: "UpdateEvents env diff i w = Some (Inr w') \<Longrightarrow> bg_step (QueueEvents env diff i) w w'"
| queue_update: "BattlegroundQueueUpdate env now i t b arenaType isRated rating w = Inr w' \<Longrightarrow> bg_step (QueueUpdate env now i t b arenaType isRated rating) w w'"
| template: "CreateBattleground bt w = (r, w') \<Longrightarrow> bg_step (BattlegroundTemplate bt) w w'"
| finished: "delete_finished env w = Inr w' \<Longrightarrow> bg_step (BattlegroundsFinished env) w w'"
| battle: "bg_step (BattlegroundChange c f) w (on_bg c f w)"
| testing: "bg_step TestingToggle w (ToggleBgTesting w)"
| arena_testing: "bg_step ArenaTestingToggle w (ToggleArenaTesting w)"
| served: "bg_step (UpdatesServed ns t t') w (w\<lparr>bw_sched := ns, bw_updateTimer := t, bw_nextArenaUpdate := t'\<rparr>)"

inductive bg_run :: "(bg_request \<times> bg_world) list \<Rightarrow> bg_world \<Rightarrow> bool" where
  start: "bg_run [] (BattlegroundMgr env h acts bgs)"
| step: "bg_run past w \<Longrightarrow> bg_step r w w' \<Longrightarrow> bg_run ((r, w) # past) w'"

text \<open>A request is regular in a world if it is no rated update that matches a team with itself and no join in an environment whose
  players have no faction, whose level ranges have no number, or whose parties are too large.\<close>

fun regular :: "bg_request \<Rightarrow> bg_world \<Rightarrow> bool" where
  "regular (QueueUpdate env now i t b arenaType isRated rating) w = (isRated \<longrightarrow> update_apart env now i t b rating w)"
| "regular (BattlemasterJoin env now g queueID asGroup) w = env_ok env"
| "regular (BattlemasterJoinArena env now g slot) w = env_ok env"
| "regular (BattlemasterJoinArenaSkirmish env now g) w = env_ok env"
| "regular r w = True"


lemma start_wf: "bw_wf (BattlegroundMgr env h acts bgs)"
  using bq_wf_empty by (simp add: bw_wf_but_def BattlegroundMgr_def queued_def) (simp add: BattlegroundQueue_def)

lemma bg_step_wf: "bg_step r w w' \<Longrightarrow> regular r w \<Longrightarrow> bw_wf w \<Longrightarrow> bw_wf w'"
proof (induction rule: bg_step.induct)
  case (template bt w r w')
  then show ?case using CreateBattleground_frame [of bt w] by (auto intro: bw_wf_frame)
next
  case (logout env g w w')
  then show ?case using LogoutPlayer_wf [of w env g] by auto
next
  case (finished env w w')
  then show ?case using delete_finished_frame [OF finished(1)] by (auto intro: bw_wf_frame)
next
  case (join env now g queueID asGroup w w')
  then show ?case using HandleBattlemasterJoin_wf by simp
next
  case (join_arena env now g slot w w')
  then show ?case using HandleBattlemasterJoinArena_wf by simp
next
  case (join_skirmish env now g w w')
  then show ?case using HandleBattlemasterJoinArenaSkirmish_wf by simp
next
  case (port env g k tm accepted w w')
  then show ?case using HandleBattleFieldPort_wf by blast
next
  case (events env diff i w w')
  then show ?case using UpdateEvents_wf by blast
next
  case (queue_update env now i t b arenaType isRated rating w w')
  then show ?case using BattlegroundQueueUpdate_wf by simp
qed (simp_all add: bw_wf_but_def queued_def ToggleBgTesting_def ToggleArenaTesting_def)

theorem regular_wf: "bg_run past w \<Longrightarrow> \<forall>(r, v) \<in> set past. regular r v \<Longrightarrow> bw_wf w"
  by (induction rule: bg_run.induct) (auto intro: start_wf bg_step_wf)

section \<open>What holds along regular runs\<close>

text \<open>C4: in every regular run of the queues, one in which no rated team meets itself and no party too large for the client joins, every listed group stands in one list only, that of its bracket and faction in the queue of its
  battleground, and has players; every player known to a queue belongs to exactly one of its listed groups, and has the queue among
  his own. So no list and no player leads to a deleted group.\<close>

theorem queues_stay_consistent:
  assumes "bg_run past w" "\<forall>(r, v) \<in> set past. regular r v"
  shows "(\<forall>i b j a. a \<in> set (bq_groups (bw_queues w i) b j) \<longrightarrow>
      (let g = bq_heap (bw_queues w i) a in
       gq_Players g \<noteq> [] \<and> gq_Team g = (if odd j then HORDE else ALLIANCE) \<and> BGQueueTypeId (gq_BgTypeId g) (gq_ArenaType g) = i \<and>
       (\<forall>b' j'. a \<in> set (bq_groups (bw_queues w i) b' j') \<longrightarrow> b' = b \<and> j' = j) \<and>
       (\<forall>p \<in> set (gq_Players g). map_option qp_GroupInfo (bq_players (bw_queues w i) p) = Some a))) \<and>
    (\<forall>i p pi. bq_players (bw_queues w i) p = Some pi \<longrightarrow>
      p \<in> set (gq_Players (bq_heap (bw_queues w i) (qp_GroupInfo pi))) \<and> i \<in> set (slot_kinds w p) \<and>
      (\<exists>!bj. qp_GroupInfo pi \<in> set (bq_groups (bw_queues w i) (fst bj) (snd bj))))"
proof (intro conjI allI impI)
  note wf = regular_wf [OF assms]
  fix i b j a assume a: "a \<in> set (bq_groups (bw_queues w i) b j)"
  let ?q = "bw_queues w i"
  have "map_option qp_GroupInfo (bq_players ?q p) = Some a" if "p \<in> set (gq_Players (bq_heap ?q a))" for p
    using bq_wfD(6) [OF bw_wfD(1) [OF wf] liveI [OF a] that] .
  moreover have "b' = b \<and> j' = j" if "a \<in> set (bq_groups ?q b' j')" for b' j'
    using bq_wfD(4) [OF bw_wfD(1) [OF wf] that a] .
  ultimately show "let g = bq_heap ?q a in
       gq_Players g \<noteq> [] \<and> gq_Team g = (if odd j then HORDE else ALLIANCE) \<and> BGQueueTypeId (gq_BgTypeId g) (gq_ArenaType g) = i \<and>
       (\<forall>b' j'. a \<in> set (bq_groups ?q b' j') \<longrightarrow> b' = b \<and> j' = j) \<and>
       (\<forall>p \<in> set (gq_Players g). map_option qp_GroupInfo (bq_players ?q p) = Some a)"
    using bq_wfD(2) [OF bw_wfD(1) [OF wf] a] unfolding Let_def group_ok_def by blast
next
  note wf = regular_wf [OF assms]
  fix i p pi assume p: "bq_players (bw_queues w i) p = Some pi"
  let ?q = "bw_queues w i" and ?a = "qp_GroupInfo pi"
  have k: "live ?q ?a" "p \<in> set (gq_Players (bq_heap ?q ?a))" using bq_wfD(5) [OF bw_wfD(1) [OF wf] p] by auto
  then show "p \<in> set (gq_Players (bq_heap ?q ?a))" by simp
  show "i \<in> set (slot_kinds w p)" using bw_wfD(3) [OF wf, of i p] p by (simp add: queued_def)
  obtain b j where bj: "?a \<in> set (bq_groups ?q b j)" using k(1) by (auto simp: live_def)
  show "\<exists>!bj. ?a \<in> set (bq_groups ?q (fst bj) (snd bj))"
  proof (rule ex1I [of _ "(b, j)"])
    fix bj assume "?a \<in> set (bq_groups ?q (fst bj) (snd bj))"
    then have "fst bj = b \<and> snd bj = j" using bj by (rule bq_wfD(4) [OF bw_wfD(1) [OF wf]])
    then show "bj = (b, j)" by (simp add: prod_eq_iff)
  qed (use bj in simp)
qed


text \<open>C10: in every regular run a rated team that is not invited falls apart when one of its players leaves: none of the players stays in the queue, and
  those that are connected get their place back.\<close>

theorem rated_team_falls_apart:
  assumes "bg_run past w" "\<forall>(r, v) \<in> set past. regular r v"
    and "GetPlayerGroupInfoData g (bw_queues w i) = Some gi" "gq_IsRated gi" "\<not> gq_invited gi"
  shows "\<exists>w'. RemovePlayer env i dec g w = Inr w' \<and> (\<forall>m \<in> set (gq_Players gi).
    GetPlayerGroupInfoData m (bw_queues w' i) = None \<and>
    (m \<noteq> g \<and> be_connected env m \<longrightarrow> bw_slots w' m = RemoveBattlegroundQueueId i (bw_slots w m)))"
proof -
  obtain pi where pi: "bq_players (bw_queues w i) g = Some pi" "gi = bq_heap (bw_queues w i) (qp_GroupInfo pi)"
    using assms(3) by (auto simp: GetPlayerGroupInfoData_def)
  have wf: "bw_wf_but {(i, g)} w" using regular_wf [OF assms(1,2)] by (rule bw_wf_but_mono)
  obtain w' where w': "RemovePlayer env i dec g w = Inr w'" using RemovePlayer_wf [OF wf, of env dec] by blast
  from rated_team_leaves [OF wf pi assms(4,5) w'] w' show ?thesis
    by (auto simp: queued_def GetPlayerGroupInfoData_def)
qed

section \<open>A run\<close>

text \<open>A team of two players of the horde joins the queue of rated arenas.\<close>

definition run_party :: bg_party where
  "run_party = \<lparr>bp_id = 1, bp_leader = ObjectGuid 0 9, bp_members = [ObjectGuid 0 9, ObjectGuid 0 10], bp_membersCount = 2, bp_isLFG = False\<rparr>"

definition run_env :: bg_env where
  "run_env = bg_demo_env\<lparr>be_party := \<lambda>_. Some run_party, be_bracketByLevel := \<lambda>_ _. Some demo_range\<rparr>"

definition run_before :: bg_world where
  "run_before = snd (CreateBattleground
     \<lparr>bt_Id = BATTLEGROUND_AA, bt_MinPlayersPerTeam = 0, bt_MaxPlayersPerTeam = 2, bt_MinLevel = 10, bt_MaxLevel = 110, bt_MapId = 559, bt_IsArena = True\<rparr>
     (BattlegroundMgr run_env (\<lambda>_. lone_bg_group (ObjectGuid 0 0) HORDE) (\<lambda>_. BGQueueInviteEvent (ObjectGuid 0 0) 0 0 0 0) (\<lambda>_. Battleground)))"

definition run_after :: bg_world where
  "run_after = (case HandleBattlemasterJoinArena run_env 5 (ObjectGuid 0 9) 0 run_before of Inl _ \<Rightarrow> run_before | Inr w \<Rightarrow> w)"

lemma run_before_world:
  "GetBattlegroundTemplate BATTLEGROUND_AA run_before = Some 0"
  "bg_TypeID (bw_bgs run_before 0) = BATTLEGROUND_AA" "bg_IsArena (bw_bgs run_before 0)"
  "bw_queues run_before = (\<lambda>_. BattlegroundQueue (\<lambda>_. lone_bg_group (ObjectGuid 0 0) HORDE) (\<lambda>_. BGQueueInviteEvent (ObjectGuid 0 0) 0 0 0 0))"
  "bw_slots run_before = (\<lambda>_. [no_slot, no_slot])"
proof -
  define w where "w = BattlegroundMgr run_env (\<lambda>_. lone_bg_group (ObjectGuid 0 0) HORDE) (\<lambda>_. BGQueueInviteEvent (ObjectGuid 0 0) 0 0 0 0) (\<lambda>_. Battleground)"
  have w: "bw_store w = []" "bw_nextBg w = 0" by (simp_all add: w_def BattlegroundMgr_def)
  show "bw_queues run_before = (\<lambda>_. BattlegroundQueue (\<lambda>_. lone_bg_group (ObjectGuid 0 0) HORDE) (\<lambda>_. BGQueueInviteEvent (ObjectGuid 0 0) 0 0 0 0))"
    by (simp add: run_before_def CreateBattleground_frame) (simp add: BattlegroundMgr_def)
  show "bw_slots run_before = (\<lambda>_. [no_slot, no_slot])"
    by (simp add: run_before_def CreateBattleground_frame) (simp add: BattlegroundMgr_def PLAYER_MAX_BATTLEGROUND_QUEUES_def numeral_2_eq_2)
  have before: "run_before = snd (CreateBattleground
      \<lparr>bt_Id = BATTLEGROUND_AA, bt_MinPlayersPerTeam = 0, bt_MaxPlayersPerTeam = 2, bt_MinLevel = 10, bt_MaxLevel = 110, bt_MapId = 559,
        bt_IsArena = True\<rparr> w)"
    unfolding run_before_def w_def by (rule refl)
  note defs = before CreateBattleground_def GetBattlegroundTemplate_def w Let_def AddBattleground_def on_bg_def
  show "bg_TypeID (bw_bgs run_before 0) = BATTLEGROUND_AA" "bg_IsArena (bw_bgs run_before 0)"
    by (simp_all add: defs)
  show "GetBattlegroundTemplate BATTLEGROUND_AA run_before = Some 0"
    by (simp add: defs on_data_def data_at_def BattlegroundData_def Battleground_def)
qed

lemma run_env_fields:
  "be_inBattleground run_env g = False" "be_disabled run_env t = False" "be_bracketByLevel run_env m l = Some demo_range"
  "be_party run_env g = Some run_party" "be_rating run_env p s = 1500" "be_averageMMR run_env p s = 1500"
  "be_maxGroupSize run_env t = Some 5" "be_team run_env g = HORDE" "be_usingLfg run_env g = False" "be_frozen run_env g = False"
  "be_connected run_env g = True" "dv_RangeIndex demo_range = 0"
  "bp_members run_party = [ObjectGuid 0 9, ObjectGuid 0 10]" "bp_leader run_party = ObjectGuid 0 9"
  by (simp_all add: run_env_def bg_demo_env_def run_party_def demo_range_def)

lemma run_may_join: "CanJoinBattlegroundQueue run_env run_before run_party (bw_bgs run_before 0) 10 2 = Inr ERR_BATTLEGROUND_NONE"
  by (simp add: CanJoinBattlegroundQueue_def run_env_fields run_before_world member_refusal_def)
    (simp add: run_party_def InBattlegroundQueueForBattlegroundQueueType_def GetBattlegroundQueueIndex_def slot_index_def no_slot_def
      BGQueueTypeId_def bg_type_defs bg_queue_defs HasFreeBattlegroundQueueId_def PLAYER_MAX_BATTLEGROUND_QUEUES_def)

lemma take_slots_frame: "bw_queues (fold (take_slot now i jt avg x grp) ms w) = bw_queues w"
  by (induction ms arbitrary: w) simp_all

lemma run_joins:
  "HandleBattlemasterJoinArena run_env 5 (ObjectGuid 0 9) 0 run_before = Inr run_after"
  "\<exists>a q. AddGroup 5 (ObjectGuid 0 9) HORDE (Some run_party) BATTLEGROUND_AA 0 Arena2v2 True False 1500 1500 (bw_queues run_before 10) = (a, q)
    \<and> bw_queues run_after 10 = q"
proof -
  have i: "BGQueueTypeId BATTLEGROUND_AA Arena2v2 = 10" "GetTypeBySlot 0 = Arena2v2" "unat Arena2v2 = 2"
    by (simp_all add: BGQueueTypeId_def bg_type_defs bg_queue_defs arena_defs GetTypeBySlot_def)
  have "HandleBattlemasterJoinArena run_env 5 (ObjectGuid 0 9) 0 run_before = Inr (ScheduleQueueUpdate 1500 Arena2v2 10 BATTLEGROUND_AA 0
      (join_party run_env 5 (ObjectGuid 0 9) run_party BATTLEGROUND_AA 10 0 Arena2v2 True False 1500 1500 ERR_BATTLEGROUND_NONE run_before))"
    by (simp add: HandleBattlemasterJoinArena_def run_env_fields run_before_world Let_def i run_may_join)
  moreover obtain a q where add: "AddGroup 5 (ObjectGuid 0 9) HORDE (Some run_party) BATTLEGROUND_AA 0 Arena2v2 True False 1500 1500
      (bw_queues run_before 10) = (a, q)" by force
  ultimately show "HandleBattlemasterJoinArena run_env 5 (ObjectGuid 0 9) 0 run_before = Inr run_after"
    "\<exists>a q. AddGroup 5 (ObjectGuid 0 9) HORDE (Some run_party) BATTLEGROUND_AA 0 Arena2v2 True False 1500 1500 (bw_queues run_before 10) = (a, q)
      \<and> bw_queues run_after 10 = q"
    by (simp_all add: run_after_def join_party_def run_env_fields Let_def take_slots_frame)
qed

lemma run_env_ok: "env_ok run_env"
  by (simp add: env_ok_def run_env_fields run_party_def MAX_BATTLEGROUND_BRACKETS_def)

definition run_past :: "(bg_request \<times> bg_world) list" where
  "run_past = [(BattlemasterJoinArena run_env 5 (ObjectGuid 0 9) 0, run_before),
     (BattlegroundTemplate
       \<lparr>bt_Id = BATTLEGROUND_AA, bt_MinPlayersPerTeam = 0, bt_MaxPlayersPerTeam = 2, bt_MinLevel = 10, bt_MaxLevel = 110, bt_MapId = 559, bt_IsArena = True\<rparr>,
      BattlegroundMgr run_env (\<lambda>_. lone_bg_group (ObjectGuid 0 0) HORDE) (\<lambda>_. BGQueueInviteEvent (ObjectGuid 0 0) 0 0 0 0) (\<lambda>_. Battleground))]"

lemma run_is_regular: "bg_run run_past run_after" "\<forall>(r, v) \<in> set run_past. regular r v"
proof -
  have "bg_run (tl run_past) run_before"
    unfolding run_past_def list.sel run_before_def by (rule bg_run.step [OF bg_run.start bg_step.template [OF prod.collapse [symmetric]]])
  then show "bg_run run_past run_after"
    unfolding run_past_def list.sel by (rule bg_run.step [OF _ bg_step.join_arena [OF run_joins(1)]])
  show "\<forall>(r, v) \<in> set run_past. regular r v" by (simp add: run_past_def run_env_ok)
qed

lemma run_queue:
  "bq_players (bw_queues run_after 10) (ObjectGuid 0 9) = Some \<lparr>qp_LastOnlineTime = 5, qp_GroupInfo = 0\<rparr>"
  "set (gq_Players (bq_heap (bw_queues run_after 10) 0)) = {ObjectGuid 0 9, ObjectGuid 0 10}"
  "gq_IsRated (bq_heap (bw_queues run_after 10) 0)" "\<not> gq_invited (bq_heap (bw_queues run_after 10) 0)"
  "bq_groups (bw_queues run_after 10) 0 BG_QUEUE_PREMADE_HORDE = [0]"
proof -
  obtain a q where add: "AddGroup 5 (ObjectGuid 0 9) HORDE (Some run_party) BATTLEGROUND_AA 0 Arena2v2 True False 1500 1500
      (bw_queues run_before 10) = (a, q)" and q: "bw_queues run_after 10 = q"
    using run_joins(2) by blast
  note r = AddGroup_result [OF add refl refl]
  have a: "a = 0" using r(1) by (simp add: run_before_world BattlegroundQueue_def)
  note r = r [unfolded a]
  show "bq_players (bw_queues run_after 10) (ObjectGuid 0 9) = Some \<lparr>qp_LastOnlineTime = 5, qp_GroupInfo = 0\<rparr>"
    using r(4) by (simp add: q run_env_fields)
  show "set (gq_Players (bq_heap (bw_queues run_after 10) 0)) = {ObjectGuid 0 9, ObjectGuid 0 10}"
    using r(6) by (auto simp: q run_env_fields set_inserts)
  show "gq_IsRated (bq_heap (bw_queues run_after 10) 0)" using r(10) by (simp add: q)
  show "\<not> gq_invited (bq_heap (bw_queues run_after 10) 0)"
    using add by (auto simp: q AddGroup_def Let_def enter_players gq_invited_def a)
  show "bq_groups (bw_queues run_after 10) 0 BG_QUEUE_PREMADE_HORDE = [0]"
    using r(3) by (simp add: q queue_index_def run_before_world BattlegroundQueue_def bg_index_defs)
qed

theorem queues_stay_consistent_witness:
  "bg_run run_past run_after \<and> 10 \<in> set (slot_kinds run_after (ObjectGuid 0 9)) \<and>
     (\<exists>!bj. 0 \<in> set (bq_groups (bw_queues run_after 10) (fst bj) (snd bj)))"
  using queues_stay_consistent [OF run_is_regular] run_is_regular run_queue(1) by fastforce


theorem rated_team_falls_apart_witness:
  "\<exists>w'. RemovePlayer run_env 10 True (ObjectGuid 0 9) run_after = Inr w' \<and> GetPlayerGroupInfoData (ObjectGuid 0 10) (bw_queues w' 10) = None"
proof -
  have "GetPlayerGroupInfoData (ObjectGuid 0 9) (bw_queues run_after 10) = Some (bq_heap (bw_queues run_after 10) 0)"
    by (simp add: GetPlayerGroupInfoData_def run_queue(1))
  from rated_team_falls_apart [OF run_is_regular this run_queue(3,4), of run_env True] run_queue(2) show ?thesis by auto
qed

end
