(* ===== verification/Spec2Isabelle.thy ===== *)
theory Spec2Isabelle
  imports Object_Guid Event_Map Event_Processor Task_Scheduler Channel_Manager Lfg_Votes Lfg_Joining Lfg_Rewards Reputation_Storage Access_Rights Trade_Exchange Party_Loot Bg_Fair Bg_Reach
begin

text \<open>
  Verification library for the game server of this repository, a server for a massively multiplayer role-playing
  game: a world server (\<^verbatim>\<open>src/src/server/game\<close>, \<^verbatim>\<open>src/src/server/worldserver\<close>), a login server
  (\<^verbatim>\<open>src/src/server/bnetserver\<close>) and what they share (\<^verbatim>\<open>src/src/common\<close>, \<^verbatim>\<open>src/src/server/shared\<close>,
  \<^verbatim>\<open>src/src/server/database\<close>). Modelled are managers of the world server that hold state between the messages
  of clients, and the infrastructure they are built on. Paths below are relative to \<^verbatim>\<open>src/src\<close>.

  \<^bold>\<open>Conventions.\<close> Integers are words of the width of the source, so that they wrap; lists and maps of the standard
  library are lists, association lists ordered by key, or functions into options, as their order matters or not.
  A throw, a failed assertion, a null pointer and an access outside of a container are values of
  \<^verbatim>\<open>Prelude.fault\<close> or of an error type of the component, never a silent default. What a component reads from the rest of the server
  (players, templates of the client's data files, configuration, dice, the clock) is a record of functions, its
  environment. Packets, statements to the database and calls of script hooks are recorded in the order in which the code
  makes them. Loops whose end is not structural are functions with a measure; loops that can run for ever are
  partial functions, whose value None is the run that does not return. No fuel is used.

  \<^bold>\<open>Foundations.\<close> \<^verbatim>\<open>Prelude\<close> (types of \<^verbatim>\<open>common/Define.h\<close>, the result type, loops over containers that
  may fail, ordered sets and maps), \<^verbatim>\<open>Registry\<close> (the contract of stores by key), \<^verbatim>\<open>Timer_Store\<close> (the contract
  of queues by time), \<^verbatim>\<open>Single_Float\<close> (exact single-precision arithmetic). \<^verbatim>\<open>Text_Util\<close> holds helpers of
  \<^verbatim>\<open>common/Utilities/Util.cpp\<close>, \<^verbatim>\<open>Byte_Buffer\<close> the packet buffer (\<^verbatim>\<open>server/shared/Packets/ByteBuffer.h\<close>),
  \<^verbatim>\<open>Object_Guid\<close> the identifiers of everything in the world (\<^verbatim>\<open>server/game/Entities/Object/ObjectGuid.h\<close>),
  written with the packet buffer. Shown are round trips of what is written and read, bounds of readers, freshness of
  identifiers.

  \<^bold>\<open>Timers.\<close> \<^verbatim>\<open>Event_Map\<close>, \<^verbatim>\<open>Event_Processor\<close>, \<^verbatim>\<open>Task_Scheduler\<close> model the files of the same names in
  \<^verbatim>\<open>common/Utilities\<close>; each interprets \<^verbatim>\<open>Timer_Store\<close>. Shown: what is due is served, in order, and updates end, if the events do not
  disturb those that are due.

  \<^bold>\<open>Chat.\<close> \<^verbatim>\<open>Chat_Channel\<close> and \<^verbatim>\<open>Chat_Ownership\<close> (\<^verbatim>\<open>server/game/Chat/Channels/Channel.cpp\<close>: members, commands,
  owners, bans, storage), \<^verbatim>\<open>Channel_Manager\<close> (\<^verbatim>\<open>ChannelMgr.cpp\<close>, an interpretation of \<^verbatim>\<open>Registry\<close>). Shown: a custom
  channel never has two owners, and has one until a kick empties it without destroying it; bans hold and survive the database.

  \<^bold>\<open>Dungeon finder.\<close> \<^verbatim>\<open>Lfg_Roles\<close> (\<^verbatim>\<open>LFGMgr::CheckGroupRoles\<close>), \<^verbatim>\<open>Lfg_Queue\<close> and \<^verbatim>\<open>Lfg_Matching\<close>
  (\<^verbatim>\<open>server/game/DungeonFinding/LFGQueue.cpp\<close>): the search ends and its proposals can play; ignores and roles are checked
  only when several entries come together. The manager
  (\<^verbatim>\<open>LFGMgr.cpp\<close>) is in \<^verbatim>\<open>Lfg_Data\<close> (its stores), \<^verbatim>\<open>Lfg_Manager\<close> (states and accessors), \<^verbatim>\<open>Lfg_Dungeons\<close> (catalogue,
  rewards, restrictions), \<^verbatim>\<open>Lfg_Requests\<close> (joining, role checks, leaving, failed proposals, start of votes), \<^verbatim>\<open>Lfg_Groups\<close>
  (teleports, rewards, the hooks of \<^verbatim>\<open>LFGScripts.cpp\<close>, forming groups, votes) and \<^verbatim>\<open>Lfg_Update\<close> (the periodic update and
  the handlers of \<^verbatim>\<open>server/game/Handlers/LFGHandler.cpp\<close>). Its world is the manager with the registered parties: an operation on a
  party is that of the party model, whose hooks are then run on the manager in their order; the hook of a removal,
  on which the removal depends, runs first, as in the source. \<^verbatim>\<open>Lfg_Frame\<close> and \<^verbatim>\<open>Lfg_Outcomes\<close> hold what operations leave
  alone and what is read behind them. Shown: a role check decides for the whole group, a failed proposal puts back exactly
  those who did not refuse (\<^verbatim>\<open>Lfg_Release\<close>), the last answer forms the group (\<^verbatim>\<open>Lfg_Forming\<close>), three votes decide
  (\<^verbatim>\<open>Lfg_Votes\<close>), what a request to join comes to (\<^verbatim>\<open>Lfg_Joining\<close>), one reward for a dungeon (\<^verbatim>\<open>Lfg_Rewards\<close>). Left
  out: log messages, the difficulty of a formed group, players in groups of battlegrounds, the texts and lists of the packets
  beyond what a session shows of a status and of a vote.

  \<^bold>\<open>Reputation.\<close> \<^verbatim>\<open>Reputation\<close>, \<^verbatim>\<open>Reputation_Standing\<close>, \<^verbatim>\<open>Reputation_Storage\<close>
  (\<^verbatim>\<open>server/game/Reputation/ReputationMgr.cpp\<close>): exact counters, and what is saved is what the next login loads.

  \<^bold>\<open>Access control.\<close> \<^verbatim>\<open>Access_Control\<close>, \<^verbatim>\<open>Access_Rights\<close> (\<^verbatim>\<open>server/game/Accounts/RBAC.cpp\<close> and the permissions
  of \<^verbatim>\<open>AccountMgr.cpp\<close>): the rights are the closure of the granted without the closure of the denied ones.

  \<^bold>\<open>Trade.\<close> \<^verbatim>\<open>Trade\<close>, \<^verbatim>\<open>Trade_Safety\<close>, \<^verbatim>\<open>Trade_Exchange\<close>
  (\<^verbatim>\<open>server/game/Entities/Player/TradeData.cpp\<close>, \<^verbatim>\<open>server/game/Handlers/TradeHandler.cpp\<close>): a trade moves exactly
  what was offered and accepted.

  \<^bold>\<open>Parties.\<close> \<^verbatim>\<open>Party\<close> (state, subgroups, flags, icons, ready checks, invitations), \<^verbatim>\<open>Party_Rolls\<close> (loot rolls),
  \<^verbatim>\<open>Party_Members\<close> (joining, leading, leaving, loading) model \<^verbatim>\<open>server/game/Groups/Group.cpp\<close> and
  \<^verbatim>\<open>server/game/Handlers/GroupHandler.cpp\<close>. \<^verbatim>\<open>Party_Safety\<close>, \<^verbatim>\<open>Party_Invariant\<close> and \<^verbatim>\<open>Party_Runs\<close> prove the
  invariant of members, links, leader and counters along every sequence of requests, logins and logouts;
  \<^verbatim>\<open>Party_Loot\<close> says who wins a roll, that the timer of a loot ends its rolls, and when it does not.

  \<^bold>\<open>Battleground queues.\<close> The queues for battlegrounds and arenas are \<^verbatim>\<open>server/game/Battlegrounds/BattlegroundQueue.cpp\<close> and
  \<^verbatim>\<open>BattlegroundMgr.cpp\<close>, with the requests of \<^verbatim>\<open>server/game/Handlers/BattleGroundHandler.cpp\<close> and the part of a logout in
  \<^verbatim>\<open>server/game/Server/WorldSession.cpp\<close> that leaves the queues. \<^verbatim>\<open>Bg_Data\<close> holds the data: queued groups and battlegrounds are objects on a heap, named
  by addresses, that lists, pools and players share. \<^verbatim>\<open>Bg_Pools\<close> and \<^verbatim>\<open>Bg_Selection\<close> hold the selection pools and the four
  selections, \<^verbatim>\<open>Bg_Manager\<close> the world (queues, store and creation of battlegrounds, the places of the players, scheduled
  updates), \<^verbatim>\<open>Bg_Queue\<close> joining, leaving, invitations and their events on the event processor, \<^verbatim>\<open>Bg_Update\<close> the update of a
  queue and of the manager, \<^verbatim>\<open>Bg_Handlers\<close> the requests. \<^verbatim>\<open>Bg_Frame\<close> shows what invitations leave alone, \<^verbatim>\<open>Bg_Invariant\<close> the
  invariant of a queue (every queued group stands in one list, players and groups agree, nothing deleted is reached),
  \<^verbatim>\<open>Bg_Departure\<close>, \<^verbatim>\<open>Bg_Runs\<close>, \<^verbatim>\<open>Bg_Steps\<close> and \<^verbatim>\<open>Bg_Reach\<close> that all operations keep it, along every regular run of
  requests, updates, events and logouts, so that a logout leaves every queue. The steps of a run are all operations; it is regular if no rated
  team meets itself in it, which breaks the lists, and no party joins that is larger than the client allows, which the code does
  not check. \<^verbatim>\<open>Bg_Match\<close> and \<^verbatim>\<open>Bg_Fair\<close> show that filling a running
  battleground ends within its free places, leaving out nobody who fits without balancing and keeping the teams close with it, and that a normal
  match is fair, \<^verbatim>\<open>Bg_Rated\<close> what goes wrong: a rated team that waits
  alone can be matched with itself, numbers shown to clients can collide, sizes of arenas are looked up at the wrong place.
  Left out: loading of templates, shutdown, what happens inside a battleground, the contents of packets beyond what a
  recorded effect shows, announcements and log messages.

  \<^bold>\<open>Not modelled.\<close> The classes of entities, spells, auras, maps, movement and scripts, which work on geometry and on
  tables of the client that are not part of the repository; sockets, threads, logging and the database client; the
  login protocol; third-party code. Of the managers of the world server left out are the calendar, pools, guilds,
  auctions, the black market, cooldowns and threat, which mostly move items, money and rows of the database, or work on spells
  and units.
\<close>

end
